(* ===== verification/ITP_Prelude.thy ===== *)
theory ITP_Prelude
  imports
    Main
    "HOL-Library.AList"
    "HOL-Library.Char_ord"
    "HOL-Library.Multiset"
    "HOL-Library.List_Lexorder"
    "HOL-Library.Product_Lexorder"
begin

text \<open>
  Shared vocabulary of the development: Python strings (ASCII, as character lists), the
  JSON-shaped values the platform passes between its components, dictionaries in insertion
  order, the errors the code raises, and the lemmas on sorted lists, association lists and
  result values that the component theories use.
\<close>

named_theorems py_defs \<open>definitions of Python primitives, unfolded to evaluate closed terms\<close>

named_theorems py_intro \<open>well-formedness facts used as introduction rules\<close>

section \<open>Results\<close>

text \<open>
  Every exception the modelled code raises is a value. \<open>Unmodelled\<close> marks a place where
  Python would go on with an ill-typed value that the typed records cannot hold; no theorem
  about a successful result covers it.
\<close>

datatype py_exn =
    ValueError string
  | TypeError string
  | KeyError string
  | AttributeError string
  | OSError string
  | OverflowError string
  | Unmodelled string

type_synonym 'a res = "py_exn + 'a"

definition and_then :: "'a res \<Rightarrow> ('a \<Rightarrow> 'b res) \<Rightarrow> 'b res" where
  "and_then r f = (case r of Inl e \<Rightarrow> Inl e | Inr a \<Rightarrow> f a)"

lemma and_then_simps [simp]:
  "and_then (Inl e) f = Inl e"
  "and_then (Inr a) f = f a"
  by (simp_all add: and_then_def)

lemma and_then_eq_Inr: "and_then r f = Inr b \<longleftrightarrow> (\<exists>a. r = Inr a \<and> f a = Inr b)"
  by (cases r) simp_all

lemma map_sum_eq_Inr: "map_sum f g r = Inr b \<longleftrightarrow> (\<exists>a. r = Inr a \<and> b = g a)"
  by (cases r) auto

definition guard_res :: "bool \<Rightarrow> py_exn \<Rightarrow> unit res" where
  "guard_res b e = (if b then Inl e else Inr ())"

lemma guard_res_eq_Inr [simp]: "guard_res b e = Inr u \<longleftrightarrow> \<not> b"
  by (simp add: guard_res_def)

lemma guard_res_simps [simp]:
  "guard_res True e = Inl e"
  "guard_res False e = Inr ()"
  by (simp_all add: guard_res_def)

fun map_res :: "('a \<Rightarrow> 'b res) \<Rightarrow> 'a list \<Rightarrow> 'b list res" where
  "map_res f [] = Inr []"
| "map_res f (x # xs) =
     and_then (f x) (\<lambda>y. and_then (map_res f xs) (\<lambda>ys. Inr (y # ys)))"

lemma map_res_Inr_iff: "map_res f xs = Inr ys \<longleftrightarrow> list_all2 (\<lambda>x y. f x = Inr y) xs ys"
  by (induction xs arbitrary: ys)
     (auto simp: and_then_eq_Inr list_all2_Cons1)

lemma map_res_Inr_mem: "map_res f xs = Inr ys \<Longrightarrow> y \<in> set ys \<Longrightarrow> \<exists>x \<in> set xs. f x = Inr y"
  by (induction xs arbitrary: ys) (auto simp: and_then_eq_Inr)

lemma map_res_mem: "map_res f xs = Inr ys \<Longrightarrow> x \<in> set xs \<Longrightarrow> \<exists>y \<in> set ys. f x = Inr y"
  by (induction xs arbitrary: ys) (auto simp: and_then_eq_Inr)

lemma map_res_map: "(\<And>x. x \<in> set xs \<Longrightarrow> f (g x) = Inr x) \<Longrightarrow> map_res f (map g xs) = Inr xs"
  by (induction xs) auto

section \<open>Strings\<close>

definition lower_char :: "char \<Rightarrow> char" where
  "lower_char c = (let n = of_char c :: nat in if 65 \<le> n \<and> n \<le> 90 then char_of (n + 32) else c)"

definition upper_char :: "char \<Rightarrow> char" where
  "upper_char c = (let n = of_char c :: nat in if 97 \<le> n \<and> n \<le> 122 then char_of (n - 32) else c)"

definition lower :: "string \<Rightarrow> string" where
  "lower s = map lower_char s"

definition upper :: "string \<Rightarrow> string" where
  "upper s = map upper_char s"

text \<open>\<open>str.casefold\<close> and \<open>str.lower\<close> agree on ASCII.\<close>

abbreviation casefold :: "string \<Rightarrow> string" where
  "casefold s \<equiv> lower s"

definition is_space :: "char \<Rightarrow> bool" where
  "is_space c = (let n = of_char c :: nat in (9 \<le> n \<and> n \<le> 13) \<or> (28 \<le> n \<and> n \<le> 32))"

definition is_alnum :: "char \<Rightarrow> bool" where
  "is_alnum c = (let n = of_char c :: nat in
     (48 \<le> n \<and> n \<le> 57) \<or> (65 \<le> n \<and> n \<le> 90) \<or> (97 \<le> n \<and> n \<le> 122))"

definition is_digit :: "char \<Rightarrow> bool" where
  "is_digit c = (let n = of_char c :: nat in 48 \<le> n \<and> n \<le> 57)"

definition strip :: "string \<Rightarrow> string" where
  "strip s = rev (dropWhile is_space (rev (dropWhile is_space s)))"

definition strip_char :: "char \<Rightarrow> string \<Rightarrow> string" where
  "strip_char c s = rev (dropWhile (\<lambda>x. x = c) (rev (dropWhile (\<lambda>x. x = c) s)))"

definition rstrip_char :: "char \<Rightarrow> string \<Rightarrow> string" where
  "rstrip_char c s = rev (dropWhile (\<lambda>x. x = c) (rev s))"

definition starts_with :: "string \<Rightarrow> string \<Rightarrow> bool" where
  "starts_with p s = (take (length p) s = p)"

fun contains :: "string \<Rightarrow> string \<Rightarrow> bool" where
  "contains p [] = (p = [])"
| "contains p (c # cs) = (starts_with p (c # cs) \<or> contains p cs)"

text \<open>\<open>str.title\<close>.\<close>

definition is_letter :: "char \<Rightarrow> bool" where
  "is_letter c = (lower_char c \<noteq> c \<or> upper_char c \<noteq> c)"

fun title_from :: "bool \<Rightarrow> string \<Rightarrow> string" where
  "title_from inside [] = []"
| "title_from inside (c # cs) = (if inside then lower_char c else upper_char c) # title_from (is_letter c) cs"

definition replace_char :: "char \<Rightarrow> char \<Rightarrow> string \<Rightarrow> string" where
  "replace_char a b s = map (\<lambda>c. if c = a then b else c) s"

definition remove_char :: "char \<Rightarrow> string \<Rightarrow> string" where
  "remove_char a s = filter (\<lambda>c. c \<noteq> a) s"

text \<open>\<open>str.replace(p, r)\<close> for a non-empty \<open>p\<close>: leftmost, non-overlapping occurrences.\<close>

function replace_str :: "string \<Rightarrow> string \<Rightarrow> string \<Rightarrow> string" where
  "replace_str p r s =
     (if p = [] \<or> s = [] then s
      else if starts_with p s then r @ replace_str p r (drop (length p) s)
      else hd s # replace_str p r (tl s))"
  by pat_completeness auto
termination
  by (relation "measure (\<lambda>(p, r, s). length s)") auto

declare replace_str.simps [simp del]

fun join :: "string \<Rightarrow> string list \<Rightarrow> string" where
  "join sep [] = []"
| "join sep [x] = x"
| "join sep (x # y # xs) = x @ sep @ join sep (y # xs)"

text \<open>\<open>str.split()\<close>: maximal runs of non-space characters.\<close>

function split_ws :: "string \<Rightarrow> string list" where
  "split_ws s = (let t = dropWhile is_space s in
     if t = [] then []
     else takeWhile (\<lambda>c. \<not> is_space c) t # split_ws (dropWhile (\<lambda>c. \<not> is_space c) t))"
  by pat_completeness auto
termination
proof (relation "measure length")
  fix s t :: string
  assume t: "t = dropWhile is_space s" and ne: "t \<noteq> []"
  from ne obtain c cs where tc: "t = c # cs" by (cases t) auto
  from t tc have "\<not> is_space c" by (metis hd_dropWhile list.distinct(1) list.sel(1))
  then have "length (dropWhile (\<lambda>c. \<not> is_space c) t) \<le> length cs"
    by (simp add: tc length_dropWhile_le)
  also have "\<dots> < length t" by (simp add: tc)
  also have "\<dots> \<le> length s" by (simp add: t length_dropWhile_le)
  finally show "(dropWhile (\<lambda>c. \<not> is_space c) t, s) \<in> measure length" by simp
qed simp

declare split_ws.simps [simp del]

definition digit_char :: "nat \<Rightarrow> char" where
  "digit_char n = char_of (48 + n)"

fun show_nat :: "nat \<Rightarrow> string" where
  "show_nat n = (if n < 10 then [digit_char n] else show_nat (n div 10) @ [digit_char (n mod 10)])"

declare show_nat.simps [simp del]

definition show_int :: "int \<Rightarrow> string" where
  "show_int i = (if i < 0 then CHR ''-'' # show_nat (nat (- i)) else show_nat (nat i))"

text \<open>The same on binary integers, for evaluation.\<close>

function show_pos :: "int \<Rightarrow> string" where
  "show_pos i = (if i < 10 then [digit_char (nat i)] else show_pos (i div 10) @ [digit_char (nat (i mod 10))])"
  by auto
termination by (relation "measure nat") (auto simp: nat_less_iff)

declare show_pos.simps [simp del]

lemma show_pos_nat: "0 \<le> i \<Longrightarrow> show_pos i = show_nat (nat i)"
proof (induction i rule: show_pos.induct)
  case (1 i)
  show ?case
  proof (cases "i < 10")
    case True
    then have "nat i < 10" by simp
    with True show ?thesis by (simp add: show_pos.simps [of i] show_nat.simps [of "nat i"])
  next
    case False
    then have "\<not> nat i < 10" "show_pos (i div 10) = show_nat (nat (i div 10))" using 1 by auto
    with False 1(2) show ?thesis
      by (simp add: show_pos.simps [of i] show_nat.simps [of "nat i"] nat_div_distrib nat_mod_distrib nat_less_iff)
  qed
qed

lemma show_int_code [code]: "show_int i = (if i < 0 then CHR ''-'' # show_pos (- i) else show_pos i)"
  by (simp add: show_int_def show_pos_nat)

lemma lower_char_idem: "lower_char (lower_char c) = lower_char c"
  by (auto simp: lower_char_def Let_def)

lemma lower_idem [simp]: "lower (lower s) = lower s"
  by (simp add: lower_def lower_char_idem)

lemma dropWhile_hd_not: "dropWhile P xs \<noteq> [] \<Longrightarrow> \<not> P (hd (dropWhile P xs))"
  by (rule hd_dropWhile)

lemma dropWhile_rev_dropWhile:
  "dropWhile P (rev (dropWhile P (rev (dropWhile P xs)))) = rev (dropWhile P (rev (dropWhile P xs)))"
proof (cases "dropWhile P xs")
  case Nil
  then show ?thesis by (simp only: rev.simps dropWhile.simps)
next
  case (Cons y ys)
  then have "\<not> P y" by (metis hd_dropWhile list.distinct(1) list.sel(1))
  then have "dropWhile P (rev ys @ [y]) = dropWhile P (rev ys) @ [y]"
    by (auto simp: dropWhile_append dropWhile_eq_Nil_conv)
  with Cons \<open>\<not> P y\<close> show ?thesis by simp
qed

lemma strip_idem [simp]: "strip (strip s) = strip s"
proof -
  let ?d = "dropWhile is_space"
  have "?d (rev (?d (rev (?d s)))) = rev (?d (rev (?d s)))"
    by (rule dropWhile_rev_dropWhile)
  then show ?thesis by (simp add: strip_def dropWhile_idem)
qed

section \<open>JSON-shaped values\<close>

text \<open>
  The documents the platform exchanges. Integers are Python's unbounded \<open>int\<close>; a finite
  float is kept as its \<open>repr\<close> (a literal such as \<open>2.5\<close>), which is what both
  \<open>str\<close> and \<open>json.dumps\<close> print. A dictionary is an association list in insertion
  order with distinct keys.
\<close>

datatype json =
    JNull
  | JBool bool
  | JInt int
  | JFloat string
  | JStr string
  | JList "json list"
  | JObj "(string \<times> json) list"

type_synonym dict = "(string \<times> json) list"

definition dget :: "dict \<Rightarrow> string \<Rightarrow> json" where
  "dget d k = (case map_of d k of None \<Rightarrow> JNull | Some v \<Rightarrow> v)"

definition dget_or :: "dict \<Rightarrow> string \<Rightarrow> json \<Rightarrow> json" where
  "dget_or d k v0 = (case map_of d k of None \<Rightarrow> v0 | Some v \<Rightarrow> v)"

definition dhas :: "dict \<Rightarrow> string \<Rightarrow> bool" where
  "dhas d k = (map_of d k \<noteq> None)"

definition dset :: "dict \<Rightarrow> string \<Rightarrow> json \<Rightarrow> dict" where
  "dset d k v = AList.update k v d"

text \<open>\<open>{**a, **b}\<close>: the entries of \<open>b\<close> in order, each overwriting in place.\<close>

definition dmerge :: "dict \<Rightarrow> dict \<Rightarrow> dict" where
  "dmerge a b = foldl (\<lambda>d (k, v). AList.update k v d) a b"

definition dpop :: "dict \<Rightarrow> string \<Rightarrow> dict" where
  "dpop d k = filter (\<lambda>(k', _). k' \<noteq> k) d"

fun truthy :: "json \<Rightarrow> bool" where
  "truthy JNull = False"
| "truthy (JBool b) = b"
| "truthy (JInt i) = (i \<noteq> 0)"
| "truthy (JFloat s) = (s \<noteq> ''0.0'' \<and> s \<noteq> ''-0.0'' \<and> s \<noteq> [])"
| "truthy (JStr s) = (s \<noteq> [])"
| "truthy (JList xs) = (xs \<noteq> [])"
| "truthy (JObj kvs) = (kvs \<noteq> [])"

text \<open>Python's \<open>a or b\<close> on values, and \<open>or\<close> on strings.\<close>

definition por :: "json \<Rightarrow> json \<Rightarrow> json" where
  "por a b = (if truthy a then a else b)"

definition sor :: "string \<Rightarrow> string \<Rightarrow> string" where
  "sor a b = (if a \<noteq> [] then a else b)"

fun is_obj :: "json \<Rightarrow> bool" where
  "is_obj (JObj _) = True"
| "is_obj _ = False"

fun as_dict :: "json \<Rightarrow> dict" where
  "as_dict (JObj kvs) = kvs"
| "as_dict _ = []"

fun as_list :: "json \<Rightarrow> json list" where
  "as_list (JList xs) = xs"
| "as_list _ = []"

definition hex_digit :: "nat \<Rightarrow> char" where
  "hex_digit n = (if n < 10 then char_of (48 + n) else char_of (87 + n))"

text \<open>\<open>repr\<close> of a string, for \<open>str\<close> of nested containers.\<close>

definition repr_char :: "char \<Rightarrow> char \<Rightarrow> string" where
  "repr_char q c = (let n = of_char c :: nat in
     if c = q \<or> n = 92 then [char_of (92 :: nat), c]
     else if n = 9 then [char_of (92 :: nat), CHR ''t'']
     else if n = 10 then [char_of (92 :: nat), CHR ''n'']
     else if n = 13 then [char_of (92 :: nat), CHR ''r'']
     else if n < 32 \<or> n \<ge> 127 then
       [char_of (92 :: nat), CHR ''x'', hex_digit (n div 16), hex_digit (n mod 16)]
     else [c])"

definition repr_str :: "string \<Rightarrow> string" where
  "repr_str s = (let sq = char_of (39 :: nat); dq = char_of (34 :: nat);
       q = (if sq \<in> set s \<and> dq \<notin> set s then dq else sq)
     in q # concat (map (repr_char q) s) @ [q])"

fun py_repr :: "json \<Rightarrow> string" where
  "py_repr JNull = ''None''"
| "py_repr (JBool b) = (if b then ''True'' else ''False'')"
| "py_repr (JInt i) = show_int i"
| "py_repr (JFloat s) = s"
| "py_repr (JStr s) = repr_str s"
| "py_repr (JList xs) = ''['' @ join '', '' (map py_repr xs) @ '']''"
| "py_repr (JObj kvs) =
     ''{'' @ join '', '' (map (\<lambda>(k, v). repr_str k @ '': '' @ py_repr v) kvs) @ ''}''"

fun py_str :: "json \<Rightarrow> string" where
  "py_str (JStr s) = s"
| "py_str v = py_repr v"

lemma py_str_truthy [simp]: "truthy v \<Longrightarrow> py_str v \<noteq> []"
  by (cases v) (auto simp: show_int_def show_nat.simps repr_str_def)

text \<open>
  \<open>json.dumps(value, sort_keys=True, separators=(",", ":"))\<close>.
\<close>

definition dumps_char :: "char \<Rightarrow> string" where
  "dumps_char c = (let n = of_char c :: nat; bs = char_of (92 :: nat) in
     if n = 34 \<or> n = 92 then [bs, c]
     else if n = 8 then [bs, CHR ''b'']
     else if n = 9 then [bs, CHR ''t'']
     else if n = 10 then [bs, CHR ''n'']
     else if n = 12 then [bs, CHR ''f'']
     else if n = 13 then [bs, CHR ''r'']
     else if n < 32 \<or> n \<ge> 127 then
       [bs, CHR ''u'', CHR ''0'', CHR ''0'', hex_digit (n div 16), hex_digit (n mod 16)]
     else [c])"

definition dumps_str :: "string \<Rightarrow> string" where
  "dumps_str s = char_of (34 :: nat) # concat (map dumps_char s) @ [char_of (34 :: nat)]"

fun dumps :: "json \<Rightarrow> string" where
  "dumps JNull = ''null''"
| "dumps (JBool b) = (if b then ''true'' else ''false'')"
| "dumps (JInt i) = show_int i"
| "dumps (JFloat s) = s"
| "dumps (JStr s) = dumps_str s"
| "dumps (JList xs) = ''['' @ join '','' (map dumps xs) @ '']''"
| "dumps (JObj kvs) =
     ''{'' @ join '','' (map (\<lambda>(k, t). dumps_str k @ '':'' @ t)
        (sort_key fst (map (\<lambda>(k, v). (k, dumps v)) kvs))) @ ''}''"

text \<open>
  Python equality. \<open>True == 1 == 1.0\<close>, dictionaries compare without regard to order.
\<close>

definition float_key :: "string \<Rightarrow> string" where
  "float_key s = (let n = length s in
     if s = ''-0.0'' then ''0''
     else if n \<ge> 2 \<and> drop (n - 2) s = ''.0'' then take (n - 2) s else s)"

fun num_key :: "json \<Rightarrow> string option" where
  "num_key (JBool b) = Some (if b then ''1'' else ''0'')"
| "num_key (JInt i) = Some (show_int i)"
| "num_key (JFloat s) = Some (float_key s)"
| "num_key _ = None"

lemma size_zip_fst [termination_simp]:
  "(a, b) \<in> set (zip xs ys) \<Longrightarrow> size a < Suc (size_list size xs)"
  by (metis less_Suc_eq_le set_zip_leftD size_list_estimation' order_refl)

lemma size_map_of [termination_simp]:
  "map_of d k = Some v \<Longrightarrow> size v < Suc (size_list (\<lambda>x. Suc (size (snd x))) d)"
  by (induction d) (auto split: if_splits)

fun py_eq :: "json \<Rightarrow> json \<Rightarrow> bool" where
  "py_eq (JList xs) w = (case w of JList ys \<Rightarrow>
       length xs = length ys \<and> (\<forall>p \<in> set (zip xs ys). py_eq (fst p) (snd p))
     | _ \<Rightarrow> False)"
| "py_eq (JObj a) w = (case w of JObj b \<Rightarrow>
       length a = length b \<and>
       (\<forall>p \<in> set a. case map_of b (fst p) of None \<Rightarrow> False | Some y \<Rightarrow> py_eq (snd p) y)
     | _ \<Rightarrow> False)"
| "py_eq JNull w = (w = JNull)"
| "py_eq (JStr s) w = (w = JStr s)"
| "py_eq v w = (num_key v = num_key w \<and> num_key w \<noteq> None)"

text \<open>Values as \<open>json.loads\<close> builds them: dictionary keys are distinct, at every depth.\<close>

fun wf_json :: "json \<Rightarrow> bool" where
  "wf_json (JList xs) = (\<forall>x \<in> set xs. wf_json x)"
| "wf_json (JObj kvs) = (distinct (map fst kvs) \<and> (\<forall>p \<in> set kvs. wf_json (snd p)))"
| "wf_json _ = True"

lemma py_eq_refl: "wf_json v \<Longrightarrow> py_eq v v"
proof (induction v)
  case (JList xs)
  then show ?case by (auto simp: set_zip)
next
  case (JObj kvs)
  then show ?case by (fastforce simp: map_of_eq_Some_iff)
qed auto

lemma wf_jsonD:
  "wf_json (JObj kvs) \<Longrightarrow> distinct (map fst kvs)"
  "wf_json (JObj kvs) \<Longrightarrow> (k, v) \<in> set kvs \<Longrightarrow> wf_json v"
  by auto

section \<open>Dictionaries\<close>

lemma map_of_dset: "map_of (dset d k v) = (map_of d)(k \<mapsto> v)"
  by (simp add: dset_def update_conv')

lemma distinct_dset: "distinct (map fst d) \<Longrightarrow> distinct (map fst (dset d k v))"
  by (simp add: dset_def distinct_update)

lemma map_of_dpop: "map_of (dpop d k) = (map_of d)(k := None)"
  by (induction d) (auto simp: dpop_def)

lemma update_append: "k \<notin> fst ` set d \<Longrightarrow> AList.update k v d = d @ [(k, v)]"
  by (induction d) auto

lemma dget_dset [simp]: "dget (dset d k v) k' = (if k' = k then v else dget d k')"
  by (simp add: dget_def map_of_dset)

lemma dhas_dset [simp]: "dhas (dset d k v) k' \<longleftrightarrow> k' = k \<or> dhas d k'"
  by (simp add: dhas_def map_of_dset)

lemma dmerge_Nil [simp]: "dmerge a [] = a"
  by (simp add: dmerge_def)

lemma dmerge_Cons [simp]: "dmerge a ((k, v) # b) = dmerge (dset a k v) b"
  by (simp add: dmerge_def dset_def)

lemma map_of_dmerge: "map_of (dmerge a b) = map_of a ++ map_of (rev b)"
  by (induction b arbitrary: a) (auto simp: map_of_dset)

lemma distinct_dmerge: "distinct (map fst a) \<Longrightarrow> distinct (map fst (dmerge a b))"
  by (induction b arbitrary: a) (auto simp: distinct_dset)

lemma map_of_dmerge_distinct:
  assumes "distinct (map fst b)"
  shows "map_of (dmerge a b) = map_of a ++ map_of b"
proof -
  have "map_of (rev b) = map_of b"
    using assms by (intro map_of_inject_set [THEN iffD2]) (auto simp: rev_map [symmetric])
  then show ?thesis by (simp add: map_of_dmerge)
qed

section \<open>Sorted sets\<close>

text \<open>\<open>sorted(set(xs))\<close>: sorted, without duplicates.\<close>

definition usort :: "'a::linorder list \<Rightarrow> 'a list" where
  "usort xs = sort (remdups xs)"

lemma set_usort [simp]: "set (usort xs) = set xs"
  by (simp add: usort_def)

lemma sorted_usort [simp, py_intro]: "sorted (usort xs)"
  by (simp add: usort_def)

lemma distinct_usort [simp, py_intro]: "distinct (usort xs)"
  by (simp add: usort_def)

lemma usort_unique: "sorted ys \<Longrightarrow> distinct ys \<Longrightarrow> set ys = set xs \<Longrightarrow> usort xs = ys"
  by (rule sorted_distinct_set_unique) simp_all

lemma usort_id: "sorted xs \<Longrightarrow> distinct xs \<Longrightarrow> usort xs = xs"
  by (rule usort_unique) simp_all

lemma usort_idem [simp]: "usort (usort xs) = usort xs"
  by (rule usort_id) simp_all

lemma usort_cong: "set xs = set ys \<Longrightarrow> usort xs = usort ys"
  by (rule usort_unique) simp_all

lemma usort_fixed_iff: "usort xs = xs \<longleftrightarrow> sorted xs \<and> distinct xs"
  using usort_id sorted_usort distinct_usort by metis

lemma usort_Nil_iff [simp]: "usort xs = [] \<longleftrightarrow> xs = []"
  by (metis set_empty set_usort)

lemma sort_key_inj_unique:
  assumes inj: "inj_on f (set xs)" and srt: "sorted (map f ys)" and ms: "mset ys = mset xs"
  shows "sort_key f xs = ys"
proof -
  have "sort (map f ys) = map f ys" by (rule sort_key_id_if_sorted) (simp add: srt)
  moreover have "sort (map f ys) = map f (sort_key f xs)"
    by (rule properties_for_sort) (simp_all add: ms)
  ultimately have eq: "map f (sort_key f xs) = map f ys" by simp
  have "set ys = set xs" using ms by (rule mset_eq_setD)
  with inj eq show ?thesis by (intro map_inj_on [of f]) (simp_all add: Un_absorb)
qed

section \<open>Conversions and keyword arguments\<close>

definition jstrs :: "string list \<Rightarrow> json" where
  "jstrs xs = JList (map JStr xs)"

definition jopt :: "string option \<Rightarrow> json" where
  "jopt v = (case v of None \<Rightarrow> JNull | Some s \<Rightarrow> JStr s)"

text \<open>Iteration over a value, as \<open>for\<close> or \<open>set(...)\<close> does it.\<close>

fun py_iter :: "json \<Rightarrow> json list res" where
  "py_iter (JList xs) = Inr xs"
| "py_iter (JObj kvs) = Inr (map (\<lambda>p. JStr (fst p)) kvs)"
| "py_iter (JStr s) = Inr (map (\<lambda>c. JStr [c]) s)"
| "py_iter _ = Inl (TypeError ''object is not iterable'')"

fun want_str :: "json \<Rightarrow> string res" where
  "want_str (JStr s) = Inr s"
| "want_str (JList _) = Inl (TypeError ''unhashable type'')"
| "want_str (JObj _) = Inl (TypeError ''unhashable type'')"
| "want_str _ = Inl (Unmodelled ''text expected'')"

text \<open>\<open>tuple(sorted(set(v or [])))\<close> for a list of texts.\<close>

definition sorted_strs :: "json \<Rightarrow> string list res" where
  "sorted_strs v = and_then (py_iter (por v (JList [])))
     (\<lambda>xs. and_then (map_res want_str xs) (\<lambda>ys. Inr (usort ys)))"

definition list_strs :: "json \<Rightarrow> string list res" where
  "list_strs v = and_then (py_iter (por v (JList []))) (map_res want_str)"

lemma map_res_want_str [simp]: "map_res want_str (map JStr xs) = Inr xs"
  by (rule map_res_map) simp

lemma py_iter_jstrs [simp]: "py_iter (por (jstrs xs) (JList [])) = Inr (map JStr xs)"
  by (simp add: jstrs_def por_def)

lemma sorted_strs_jstrs [simp]: "sorted_strs (jstrs xs) = Inr (usort xs)"
  by (simp add: sorted_strs_def)

lemma list_strs_jstrs [simp]: "list_strs (jstrs xs) = Inr xs"
  by (simp add: list_strs_def)

text \<open>\<open>cls(**value)\<close> for a dataclass: required and defaulted text arguments.\<close>

definition only_keys :: "dict \<Rightarrow> string list \<Rightarrow> unit res" where
  "only_keys d ks = guard_res (\<not> list_all (\<lambda>p. fst p \<in> set ks) d)
     (TypeError ''unexpected keyword argument'')"

definition req_str :: "dict \<Rightarrow> string \<Rightarrow> string res" where
  "req_str d k = (case map_of d k of None \<Rightarrow> Inl (TypeError ''missing required argument'')
     | Some v \<Rightarrow> (case v of JStr s \<Rightarrow> Inr s | _ \<Rightarrow> Inl (Unmodelled k)))"

definition opt_str :: "dict \<Rightarrow> string \<Rightarrow> string \<Rightarrow> string res" where
  "opt_str d k s0 = (case map_of d k of None \<Rightarrow> Inr s0
     | Some v \<Rightarrow> (case v of JStr s \<Rightarrow> Inr s | _ \<Rightarrow> Inl (Unmodelled k)))"

fun want_opt_str :: "json \<Rightarrow> string option res" where
  "want_opt_str (JStr s) = Inr (Some s)"
| "want_opt_str JNull = Inr None"
| "want_opt_str _ = Inl (Unmodelled ''text or null expected'')"

lemma want_opt_str_jopt [simp]: "want_opt_str (jopt v) = Inr v"
  by (cases v) (simp_all add: jopt_def)

definition opt_none_str :: "dict \<Rightarrow> string \<Rightarrow> string option res" where
  "opt_none_str d k = (case map_of d k of None \<Rightarrow> Inr None | Some v \<Rightarrow> want_opt_str v)"

definition opt_int :: "dict \<Rightarrow> string \<Rightarrow> int \<Rightarrow> int res" where
  "opt_int d k i0 = (case map_of d k of None \<Rightarrow> Inr i0
     | Some v \<Rightarrow> (case v of JInt i \<Rightarrow> Inr i | _ \<Rightarrow> Inl (Unmodelled k)))"

text \<open>\<open>int(v)\<close>; a float truncates, an exponent form is not modelled.\<close>

definition parse_nat :: "string \<Rightarrow> nat option" where
  "parse_nat s = (if s \<noteq> [] \<and> list_all is_digit s
     then Some (foldl (\<lambda>n c. n * 10 + (of_char c - 48)) 0 s) else None)"

definition parse_int :: "string \<Rightarrow> int option" where
  "parse_int s = (case strip s of
       [] \<Rightarrow> None
     | c # cs \<Rightarrow> if c = CHR ''-'' then map_option (\<lambda>n. - int n) (parse_nat cs)
         else if c = CHR ''+'' then map_option int (parse_nat cs)
         else map_option int (parse_nat (c # cs)))"

fun py_int :: "json \<Rightarrow> int res" where
  "py_int (JInt i) = Inr i"
| "py_int (JBool b) = Inr (if b then 1 else 0)"
| "py_int (JFloat s) = (case parse_int (takeWhile (\<lambda>c. c \<noteq> CHR ''.'') s) of
     Some i \<Rightarrow> Inr i | None \<Rightarrow> Inl (Unmodelled s))"
| "py_int (JStr s) = (case parse_int s of
     Some i \<Rightarrow> Inr i | None \<Rightarrow> Inl (ValueError ''invalid literal for int()''))"
| "py_int _ = Inl (TypeError ''int() argument must be a string or a number'')"

text \<open>Iteration over a list whose items are used as dictionaries.\<close>

definition want_dict :: "json \<Rightarrow> dict res" where
  "want_dict v = (case v of JObj d \<Rightarrow> Inr d | _ \<Rightarrow> Inl (AttributeError ''object has no attribute get''))"

definition dict_list :: "json \<Rightarrow> dict list res" where
  "dict_list v = and_then (py_iter v) (map_res want_dict)"

text \<open>A loop that updates a state and may raise.\<close>

fun fold_res :: "('a \<Rightarrow> 's \<Rightarrow> 's res) \<Rightarrow> 'a list \<Rightarrow> 's \<Rightarrow> 's res" where
  "fold_res f [] s = Inr s"
| "fold_res f (x # xs) s = and_then (f x s) (fold_res f xs)"

lemma fold_res_append: "fold_res f (xs @ ys) s = and_then (fold_res f xs s) (fold_res f ys)"
proof (induction xs arbitrary: s)
  case (Cons x xs)
  then show ?case by (cases "f x s") simp_all
qed simp

lemma fold_res_invariant:
  "fold_res f xs s = Inr s' \<Longrightarrow> I s \<Longrightarrow>
   (\<And>x s s'. x \<in> set xs \<Longrightarrow> I s \<Longrightarrow> f x s = Inr s' \<Longrightarrow> I s') \<Longrightarrow> I s'"
proof (induction xs arbitrary: s)
  case (Cons x xs)
  from Cons.prems(1) obtain s1 where s1: "f x s = Inr s1" "fold_res f xs s1 = Inr s'"
    by (auto simp: and_then_eq_Inr)
  from s1(2) show ?case
    by (rule Cons.IH) (use Cons.prems s1(1) in auto)
qed simp

lemma fold_res_simulates:
  "fold_res f xs s = Inr s' \<Longrightarrow>
   (\<And>x s s'. x \<in> set xs \<Longrightarrow> f x s = Inr s' \<Longrightarrow> p s' = g x (p s)) \<Longrightarrow> p s' = fold g xs (p s)"
proof (induction xs arbitrary: s)
  case (Cons x xs)
  from Cons.prems(1) obtain s1 where s1: "f x s = Inr s1" "fold_res f xs s1 = Inr s'"
    by (auto simp: and_then_eq_Inr)
  from s1(2) have "p s' = fold g xs (p s1)" by (rule Cons.IH) (use Cons.prems in auto)
  moreover have "p s1 = g x (p s)" using Cons.prems(2) [OF _ s1(1)] by simp
  ultimately show ?case by simp
qed simp

lemma fold_res_total:
  "(\<And>x s. x \<in> set xs \<Longrightarrow> I s \<Longrightarrow> \<exists>s'. f x s = Inr s' \<and> I s') \<Longrightarrow> I s \<Longrightarrow>
   \<exists>s'. fold_res f xs s = Inr s' \<and> I s'"
proof (induction xs arbitrary: s)
  case (Cons x xs)
  obtain s1 where s1: "f x s = Inr s1" "I s1" using Cons.prems(1) [of x s] Cons.prems(2) by auto
  have "\<exists>s'. fold_res f xs s1 = Inr s' \<and> I s'" by (rule Cons.IH) (use Cons.prems s1 in auto)
  with s1(1) show ?case by simp
qed simp

lemma filter_concat_map_unique:
  "distinct ks \<Longrightarrow> (\<And>k'. k' \<noteq> k \<Longrightarrow> filter P (f k') = []) \<Longrightarrow>
   filter P (concat (map f ks)) = (if k \<in> set ks then filter P (f k) else [])"
proof (induction ks)
  case (Cons a ks)
  then show ?case by (cases "a = k") auto
qed simp

lemma sort_key_Nil_iff: "sort_key f xs = [] \<longleftrightarrow> xs = []"
  by (metis length_0_conv length_sort)

lemma length_filter_sort_key: "length (filter P (sort_key f xs)) = length (filter P xs)"
  by (metis mset_filter mset_sort size_mset)

end
