(* ===== verification/Py_Time.thy ===== *)
theory Py_Time
  imports ITP_Prelude
begin

text \<open>
  The part of Python's \<open>datetime\<close> the platform uses: \<open>datetime.fromisoformat\<close> in the
  grammar of Python 3.9, the oldest release the project supports, conversion to UTC, and
  \<open>isoformat\<close> of a UTC instant with the \<open>+00:00\<close> suffix written \<open>Z\<close>. An instant is
  the number of microseconds since 0001-01-01T00:00:00 (proleptic Gregorian calendar).
\<close>

section \<open>Calendar\<close>

definition is_leap :: "int \<Rightarrow> bool" where
  "is_leap y = (y mod 4 = 0 \<and> (y mod 100 \<noteq> 0 \<or> y mod 400 = 0))"

definition days_in_month :: "int \<Rightarrow> int \<Rightarrow> int" where
  "days_in_month y m =
     (if m = 2 then (if is_leap y then 29 else 28)
      else if m = 4 \<or> m = 6 \<or> m = 9 \<or> m = 11 then 30 else 31)"

definition days_before_year :: "int \<Rightarrow> int" where
  "days_before_year y = (let k = y - 1 in k * 365 + k div 4 - k div 100 + k div 400)"

fun days_before_month :: "int \<Rightarrow> nat \<Rightarrow> int" where
  "days_before_month y 0 = 0"
| "days_before_month y (Suc m) = days_before_month y m + (if m = 0 then 0 else days_in_month y (int m))"

definition ymd2ord :: "int \<Rightarrow> int \<Rightarrow> int \<Rightarrow> int" where
  "ymd2ord y m d = days_before_year y + days_before_month y (nat m) + d"

fun find_month :: "int \<Rightarrow> int \<Rightarrow> int \<Rightarrow> nat \<Rightarrow> int \<times> int" where
  "find_month y m d 0 = (m, d)"
| "find_month y m d (Suc fuel) =
     (if d < days_in_month y m then (m, d) else find_month y (m + 1) (d - days_in_month y m) fuel)"

definition ord2ymd :: "int \<Rightarrow> int \<times> int \<times> int" where
  "ord2ymd ord = (let n = ord - 1;
       n400 = n div 146097; r400 = n mod 146097;
       n100 = r400 div 36524; r100 = r400 mod 36524;
       n4 = r100 div 1461; r4 = r100 mod 1461;
       n1 = r4 div 365; r1 = r4 mod 365;
       y = n400 * 400 + n100 * 100 + n4 * 4 + n1 + 1
     in if n1 = 4 \<or> n100 = 4 then (y - 1, 12, 31)
        else (let md = find_month y 1 r1 12 in (y, fst md, snd md + 1)))"

section \<open>Parsing\<close>

definition digit_val :: "char \<Rightarrow> int" where
  "digit_val c = int (of_char c - 48)"

fun parse_digits :: "int \<Rightarrow> string \<Rightarrow> int option" where
  "parse_digits acc [] = Some acc"
| "parse_digits acc (c # cs) =
     (if is_digit c then parse_digits (acc * 10 + digit_val c) cs else None)"

definition parse_date :: "string \<Rightarrow> int option" where
  "parse_date s =
     (if length s \<noteq> 10 \<or> s ! 4 \<noteq> CHR ''-'' \<or> s ! 7 \<noteq> CHR ''-'' then None
      else case (parse_digits 0 (take 4 s), parse_digits 0 (take 2 (drop 5 s)),
                 parse_digits 0 (drop 8 s)) of
        (Some y, Some m, Some d) \<Rightarrow>
          if 1 \<le> y \<and> 1 \<le> m \<and> m \<le> 12 \<and> 1 \<le> d \<and> d \<le> days_in_month y m
          then Some (ymd2ord y m d) else None
      | _ \<Rightarrow> None)"

definition parse_frac :: "string \<Rightarrow> int option" where
  "parse_frac s =
     (case s of [] \<Rightarrow> Some 0
      | c # cs \<Rightarrow>
          if c \<noteq> CHR ''.'' then None
          else if length cs = 3 then map_option (\<lambda>v. v * 1000) (parse_digits 0 cs)
          else if length cs = 6 then parse_digits 0 cs else None)"

definition parse_2 :: "string \<Rightarrow> int option" where
  "parse_2 s = (if length s < 2 then None else parse_digits 0 (take 2 s))"

text \<open>\<open>_parse_hh_mm_ss_ff\<close>: the components \<open>(hh, mm, ss, us)\<close>.\<close>

definition parse_hms :: "string \<Rightarrow> (int \<times> int \<times> int \<times> int) option" where
  "parse_hms s =
     (case parse_2 s of None \<Rightarrow> None
      | Some h \<Rightarrow>
        (case drop 2 s of [] \<Rightarrow> Some (h, 0, 0, 0)
         | c # s1 \<Rightarrow> if c \<noteq> CHR '':'' then None else
           (case parse_2 s1 of None \<Rightarrow> None
            | Some m \<Rightarrow>
              (case drop 2 s1 of [] \<Rightarrow> Some (h, m, 0, 0)
               | c2 # s2 \<Rightarrow> if c2 \<noteq> CHR '':'' then None else
                 (case parse_2 s2 of None \<Rightarrow> None
                  | Some sec \<Rightarrow> map_option (\<lambda>f. (h, m, sec, f)) (parse_frac (drop 2 s2)))))))"

definition hms_us :: "int \<times> int \<times> int \<times> int \<Rightarrow> int" where
  "hms_us = (\<lambda>(h, m, sec, f). ((h * 60 + m) * 60 + sec) * 1000000 + f)"

definition hms_valid :: "int \<times> int \<times> int \<times> int \<Rightarrow> bool" where
  "hms_valid = (\<lambda>(h, m, sec, f). h \<le> 23 \<and> m \<le> 59 \<and> sec \<le> 59)"

definition is_sign :: "char \<Rightarrow> bool" where
  "is_sign c = (c = CHR ''+'' \<or> c = CHR ''-'')"

text \<open>
  The position of the offset: the first minus sign if there is one, else the first plus sign.
\<close>

definition split_tz :: "string \<Rightarrow> string \<times> string" where
  "split_tz s = (let c = (if CHR ''-'' \<in> set s then CHR ''-'' else CHR ''+'') in
     (takeWhile (\<lambda>x. x \<noteq> c) s, dropWhile (\<lambda>x. x \<noteq> c) s))"

definition day_us :: int where
  "day_us = 86400000000"

text \<open>A parsed \<open>datetime\<close>: its wall-clock microseconds and its UTC offset, if aware.\<close>

datatype datetime = Datetime int "int option"

definition parse_offset :: "string \<Rightarrow> int option option" where
  "parse_offset s =
     (case s of [] \<Rightarrow> Some None
      | c # z \<Rightarrow>
          if length z \<notin> {5, 8, 15} then None
          else case parse_hms z of None \<Rightarrow> None
            | Some q \<Rightarrow> (let u = hms_us q in
                if u < day_us then Some (Some (if c = CHR ''-'' then - u else u)) else None))"

definition fromisoformat :: "string \<Rightarrow> datetime option" where
  "fromisoformat s =
     (case parse_date (take 10 s) of None \<Rightarrow> None
      | Some d \<Rightarrow> (let base = (d - 1) * day_us; t = drop 11 s in
          if t = [] then Some (Datetime base None)
          else (let (hs, zs) = split_tz t in
            case (parse_hms hs, parse_offset zs) of
              (Some q, Some z) \<Rightarrow>
                if hms_valid q then Some (Datetime (base + hms_us q) z) else None
            | _ \<Rightarrow> None)))"

definition replace_z :: "string \<Rightarrow> string" where
  "replace_z s = replace_str ''Z'' ''+00:00'' s"

section \<open>UTC instants\<close>

definition max_instant :: int where
  "max_instant = 3652059 * day_us"

text \<open>
  \<open>astimezone(timezone.utc)\<close> of an aware value; a naive one is read in the zone given as
  the second argument. Leaving the years 1 to 9999 raises \<open>OverflowError\<close>.
\<close>

definition to_utc :: "datetime \<Rightarrow> int \<Rightarrow> int res" where
  "to_utc dt naive_offset = (case dt of Datetime w z \<Rightarrow>
     (let u = w - (case z of None \<Rightarrow> naive_offset | Some off \<Rightarrow> off) in
      if 0 \<le> u \<and> u < max_instant then Inr u else Inl (OverflowError ''date value out of range'')))"

fun pad_left :: "nat \<Rightarrow> string \<Rightarrow> string" where
  "pad_left n s = replicate (n - length s) CHR ''0'' @ s"

definition isoformat_z :: "int \<Rightarrow> string" where
  "isoformat_z u = (let d = u div day_us; r = u mod day_us; (y, m, dd) = ord2ymd (d + 1);
       us = r mod 1000000; s = r div 1000000
     in pad_left 4 (show_int y) @ ''-'' @ pad_left 2 (show_int m) @ ''-'' @ pad_left 2 (show_int dd)
        @ ''T'' @ pad_left 2 (show_int (s div 3600)) @ '':''
        @ pad_left 2 (show_int (s mod 3600 div 60)) @ '':'' @ pad_left 2 (show_int (s mod 60))
        @ (if us = 0 then [] else ''.'' @ pad_left 6 (show_int us)) @ ''Z'')"

lemma fromisoformat_example:
  "fromisoformat (replace_z ''2024-02-29T23:59:58Z'')
     = Some (Datetime (((ymd2ord 2024 2 29 - 1) * 86400 + 86398) * 1000000) (Some 0))"
  by code_simp

lemma isoformat_example:
  "isoformat_z (((ymd2ord 2024 2 29 - 1) * 86400 + 86398) * 1000000) = ''2024-02-29T23:59:58Z''"
  by code_simp

lemma to_utc_range: "to_utc dt off = Inr u \<Longrightarrow> 0 \<le> u \<and> u < max_instant"
  by (auto simp: to_utc_def Let_def split: datetime.splits if_splits)

end
