(* ===== verification/State_History_Models.thy ===== *)
theory State_History_Models
  imports Py_Time
begin

text \<open>
  The domain models of \<open>analysis/state_history/models.py\<close>: frozen dataclasses whose
  \<open>__post_init__\<close> validates every instance, and their document forms. A dataclass is a
  record, its \<open>__post_init__\<close> a function that returns the record or the \<open>ValueError\<close>
  the code raises, and \<open>to_dict\<close>/\<open>from_dict\<close> go to and from JSON documents.
\<close>

section \<open>Observation scopes\<close>

definition COMPLETE :: string where "COMPLETE = ''complete''"

definition PARTIAL :: string where "PARTIAL = ''partial''"

definition FAILED :: string where "FAILED = ''failed''"

definition SKIPPED :: string where "SKIPPED = ''skipped''"

definition UNKNOWN :: string where "UNKNOWN = ''unknown''"

definition observation_completeness :: "string list" where
  "observation_completeness = [COMPLETE, PARTIAL, FAILED, SKIPPED, UNKNOWN]"

definition CHANGE_TYPES :: "string list" where
  "CHANGE_TYPES = [''entity_added'', ''entity_removed'', ''field_changed'', ''status_changed'']"

definition PIPELINE_STATUSES :: "string list" where
  "PIPELINE_STATUSES = [''success'', ''partial'', ''failed'', ''skipped'']"

lemmas completeness_defs = COMPLETE_def PARTIAL_def FAILED_def SKIPPED_def UNKNOWN_def
  observation_completeness_def

record obs_scope =
  sc_site_id :: string
  sc_domain :: string
  sc_completeness :: string
  sc_expected_sources :: "string list"
  sc_observed_sources :: "string list"
  sc_failed_sources :: "string list"
  sc_skipped_sources :: "string list"
  sc_expected_providers :: "string list"
  sc_observed_providers :: "string list"
  sc_failed_providers :: "string list"
  sc_skipped_providers :: "string list"
  sc_warning_details :: "string list"

definition scope_lists :: "obs_scope \<Rightarrow> (string \<times> string list) list" where
  "scope_lists s =
     [(''expected_sources'', sc_expected_sources s),
      (''observed_sources'', sc_observed_sources s),
      (''failed_sources'', sc_failed_sources s),
      (''skipped_sources'', sc_skipped_sources s),
      (''expected_providers'', sc_expected_providers s),
      (''observed_providers'', sc_observed_providers s),
      (''failed_providers'', sc_failed_providers s),
      (''skipped_providers'', sc_skipped_providers s),
      (''warning_details'', sc_warning_details s)]"

definition scope_post_init :: "obs_scope \<Rightarrow> obs_scope res" where
  "scope_post_init s =
     (if sc_site_id s = [] \<or> sc_domain s = [] then
        Inl (ValueError ''observation scope requires site_id and domain'')
      else if sc_completeness s \<notin> set observation_completeness then
        Inl (ValueError (''unsupported observation completeness: '' @ sc_completeness s))
      else case find (\<lambda>(n, v). usort v \<noteq> v) (scope_lists s) of
        Some (n, v) \<Rightarrow>
          Inl (ValueError (''observation scope '' @ n @ '' must be unique and sorted''))
      | None \<Rightarrow>
        (let covered = set (sc_observed_sources s) \<union> set (sc_failed_sources s)
               \<union> set (sc_skipped_sources s);
             provider_covered = set (sc_observed_providers s) \<union> set (sc_failed_providers s)
               \<union> set (sc_skipped_providers s) in
         if sc_expected_sources s \<noteq> [] \<and> \<not> covered \<subseteq> set (sc_expected_sources s) then
           Inl (ValueError ''scope source coverage contains an unexpected source'')
         else if sc_expected_providers s \<noteq> [] \<and>
             \<not> provider_covered \<subseteq> set (sc_expected_providers s) then
           Inl (ValueError ''scope provider coverage contains an unexpected provider'')
         else if sc_completeness s = COMPLETE then
           (if sc_failed_sources s \<noteq> [] \<or> sc_skipped_sources s \<noteq> [] \<or>
               sc_failed_providers s \<noteq> [] \<or> sc_skipped_providers s \<noteq> [] then
              Inl (ValueError ''complete scope cannot contain failed or skipped sources'')
            else if sc_expected_sources s \<noteq> [] \<and>
                set (sc_observed_sources s) \<noteq> set (sc_expected_sources s) then
              Inl (ValueError ''complete scope must observe every expected source'')
            else if sc_expected_providers s \<noteq> [] \<and>
                set (sc_observed_providers s) \<noteq> set (sc_expected_providers s) then
              Inl (ValueError ''complete scope must observe every expected provider'')
            else Inr s)
         else Inr s))"

definition sc_authority :: "obs_scope \<Rightarrow> string \<times> string" where
  "sc_authority s = (sc_site_id s, sc_domain s)"

definition scope_to_dict :: "obs_scope \<Rightarrow> dict" where
  "scope_to_dict s =
     [(''site_id'', JStr (sc_site_id s)), (''domain'', JStr (sc_domain s)),
      (''completeness'', JStr (sc_completeness s))]
     @ map (\<lambda>(n, v). (n, jstrs v)) (scope_lists s)"

definition scope_fields :: "string list" where
  "scope_fields =
     [''site_id'', ''domain'', ''completeness'', ''expected_sources'', ''observed_sources'',
      ''failed_sources'', ''skipped_sources'', ''expected_providers'', ''observed_providers'',
      ''failed_providers'', ''skipped_providers'', ''warning_details'']"

text \<open>
  \<open>from_dict\<close>: a \<open>TypeError\<close> of the constructor becomes
  \<open>ValueError("invalid pipeline scope metadata")\<close>, a \<open>ValueError\<close> passes through.
\<close>

fun scope_exn :: "py_exn \<Rightarrow> py_exn" where
  "scope_exn (TypeError _) = ValueError ''invalid pipeline scope metadata''"
| "scope_exn e = e"

definition map_exn :: "(py_exn \<Rightarrow> py_exn) \<Rightarrow> 'a res \<Rightarrow> 'a res" where
  "map_exn f r = (case r of Inl e \<Rightarrow> Inl (f e) | Inr a \<Rightarrow> Inr a)"

lemma map_exn_simps [simp]:
  "map_exn f (Inl e) = Inl (f e)"
  "map_exn f (Inr a) = Inr a"
  by (simp_all add: map_exn_def)

lemma map_exn_eq_Inr [simp]: "map_exn f r = Inr a \<longleftrightarrow> r = Inr a"
  by (cases r) simp_all

definition scope_of_dict :: "dict \<Rightarrow> obs_scope res" where
  "scope_of_dict d =
     and_then (sorted_strs (dget d ''expected_sources'')) (\<lambda>es.
     and_then (sorted_strs (dget d ''observed_sources'')) (\<lambda>os.
     and_then (sorted_strs (dget d ''failed_sources'')) (\<lambda>fs.
     and_then (sorted_strs (dget d ''skipped_sources'')) (\<lambda>ss.
     and_then (sorted_strs (dget d ''expected_providers'')) (\<lambda>ep.
     and_then (sorted_strs (dget d ''observed_providers'')) (\<lambda>opv.
     and_then (sorted_strs (dget d ''failed_providers'')) (\<lambda>fp.
     and_then (sorted_strs (dget d ''skipped_providers'')) (\<lambda>sp.
     and_then (sorted_strs (dget d ''warning_details'')) (\<lambda>wd.
     and_then (only_keys d scope_fields) (\<lambda>_.
     and_then (req_str d ''site_id'') (\<lambda>site.
     and_then (req_str d ''domain'') (\<lambda>dom.
     and_then (req_str d ''completeness'') (\<lambda>comp.
     scope_post_init
       \<lparr>sc_site_id = site, sc_domain = dom, sc_completeness = comp,
        sc_expected_sources = es, sc_observed_sources = os, sc_failed_sources = fs,
        sc_skipped_sources = ss, sc_expected_providers = ep, sc_observed_providers = opv,
        sc_failed_providers = fp, sc_skipped_providers = sp,
        sc_warning_details = wd\<rparr>)))))))))))))"

definition scope_from_dict :: "json \<Rightarrow> obs_scope res" where
  "scope_from_dict v =
     (case v of JObj d \<Rightarrow> map_exn scope_exn (scope_of_dict d)
      | _ \<Rightarrow> Inl (ValueError ''pipeline scope metadata must be a mapping''))"

lemma scope_post_init_Inr:
  "scope_post_init s = Inr t \<Longrightarrow> t = s"
  by (auto simp: scope_post_init_def Let_def split: if_splits option.splits)

lemma scope_post_init_sorted:
  assumes "scope_post_init s = Inr s"
  shows "\<forall>(n, v) \<in> set (scope_lists s). usort v = v"
  using assms
  by (auto simp: scope_post_init_def Let_def find_None_iff split: if_splits option.splits)

lemma scope_roundtrip_aux:
  assumes "scope_post_init s = Inr s"
  shows "scope_from_dict (JObj (scope_to_dict s)) = Inr s"
proof -
  have "\<forall>(n, v) \<in> set (scope_lists s). usort v = v"
    using assms by (rule scope_post_init_sorted)
  then show ?thesis
    using assms
    by (cases s) (simp add: scope_from_dict_def scope_of_dict_def scope_to_dict_def scope_lists_def
        dget_def only_keys_def scope_fields_def req_str_def)
qed

section \<open>Pipeline runs\<close>

record pipeline_run =
  pr_run_id :: string
  pr_started_at :: string
  pr_completed_at :: string
  pr_status :: string
  pr_scopes :: "obs_scope list"
  pr_canonical_output :: string
  pr_warning_details :: "string list"
  pr_schema_version :: int

definition run_post_init :: "pipeline_run \<Rightarrow> pipeline_run res" where
  "run_post_init r =
     (if pr_run_id r = [] \<or> pr_started_at r = [] \<or> pr_completed_at r = [] then
        Inl (ValueError ''pipeline run requires run_id, started_at and completed_at'')
      else if pr_status r \<notin> set PIPELINE_STATUSES then
        Inl (ValueError (''unsupported pipeline run status: '' @ pr_status r))
      else if \<not> distinct (map sc_authority (pr_scopes r)) then
        Inl (ValueError ''pipeline run contains duplicate scope authority'')
      else if sort (pr_warning_details r) \<noteq> pr_warning_details r then
        Inl (ValueError ''pipeline warning details must be sorted'')
      else Inr r)"

definition run_to_dict :: "pipeline_run \<Rightarrow> dict" where
  "run_to_dict r = (let scopes = pr_scopes r; docs = (\<lambda>ss. JList (map (\<lambda>s. JObj (scope_to_dict s)) ss)) in
     [(''schema_version'', JInt (pr_schema_version r)),
      (''run_id'', JStr (pr_run_id r)),
      (''started_at'', JStr (pr_started_at r)),
      (''completed_at'', JStr (pr_completed_at r)),
      (''status'', JStr (pr_status r)),
      (''canonical_output'', JStr (pr_canonical_output r)),
      (''source_coverage'', jstrs (usort (concat (map sc_observed_sources scopes)))),
      (''provider_coverage'', jstrs (usort (concat (map sc_observed_providers scopes)))),
      (''site_coverage'', jstrs (usort (map sc_site_id scopes))),
      (''domain_coverage'', jstrs (usort (map sc_domain scopes))),
      (''expected_scopes'', docs (filter (\<lambda>s. sc_expected_sources s \<noteq> []) scopes)),
      (''observed_scopes'', docs (filter (\<lambda>s. sc_observed_sources s \<noteq> []) scopes)),
      (''failed_scopes'', docs (filter
         (\<lambda>s. sc_completeness s = FAILED \<or> sc_failed_sources s \<noteq> []) scopes)),
      (''skipped_scopes'', docs (filter
         (\<lambda>s. sc_completeness s = SKIPPED \<or> sc_skipped_sources s \<noteq> []) scopes)),
      (''scopes'', docs scopes),
      (''warning_details'', jstrs (pr_warning_details r))])"

text \<open>
  The handler of \<open>PipelineRun.from_dict\<close>: a \<open>ValueError\<close> whose message starts with
  one of five prefixes is re-raised, every other \<open>TypeError\<close> or \<open>ValueError\<close> is
  replaced.
\<close>

definition run_error_prefixes :: "string list" where
  "run_error_prefixes =
     [''unsupported'', ''pipeline run'', ''observation scope'', ''complete scope'', ''scope source'']"

fun run_exn :: "py_exn \<Rightarrow> py_exn" where
  "run_exn (ValueError m) =
     (if list_ex (\<lambda>p. starts_with p m) run_error_prefixes then ValueError m
      else ValueError ''invalid pipeline run metadata'')"
| "run_exn (TypeError _) = ValueError ''invalid pipeline run metadata''"
| "run_exn e = e"

definition str_field :: "dict \<Rightarrow> string \<Rightarrow> string" where
  "str_field d k = py_str (por (dget d k) (JStr []))"

definition run_of_dict :: "dict \<Rightarrow> pipeline_run res" where
  "run_of_dict d =
     and_then (py_iter (dget_or d ''scopes'' (JList []))) (\<lambda>raw.
     and_then (map_res scope_from_dict raw) (\<lambda>scopes.
     and_then (sorted_strs (dget d ''warning_details'')) (\<lambda>wd.
     and_then (py_int (dget_or d ''schema_version'' (JInt 1))) (\<lambda>ver.
     run_post_init
       \<lparr>pr_run_id = str_field d ''run_id'', pr_started_at = str_field d ''started_at'',
        pr_completed_at = str_field d ''completed_at'', pr_status = str_field d ''status'',
        pr_scopes = sort_key sc_authority scopes,
        pr_canonical_output = str_field d ''canonical_output'',
        pr_warning_details = wd, pr_schema_version = ver\<rparr>))))"

definition run_from_dict :: "json \<Rightarrow> pipeline_run res" where
  "run_from_dict v =
     (case v of JObj d \<Rightarrow> map_exn run_exn (run_of_dict d)
      | _ \<Rightarrow> Inl (ValueError ''pipeline run metadata must be a mapping''))"

definition run_valid :: "pipeline_run \<Rightarrow> bool" where
  "run_valid r = (run_post_init r = Inr r \<and> (\<forall>s \<in> set (pr_scopes r). scope_post_init s = Inr s))"

lemma run_post_init_Inr: "run_post_init r = Inr t \<Longrightarrow> t = r"
  by (auto simp: run_post_init_def split: if_splits)

lemma str_field_JStr: "map_of d k = Some (JStr s) \<Longrightarrow> str_field d k = s"
  by (cases s) (simp_all add: str_field_def dget_def por_def)

lemma run_of_dict_valid:
  assumes "run_of_dict d = Inr r"
  shows "run_valid r"
proof -
  from assms obtain raw scopes wd ver where
    scopes: "map_res scope_from_dict raw = Inr scopes" and
    post: "run_post_init
       \<lparr>pr_run_id = str_field d ''run_id'', pr_started_at = str_field d ''started_at'',
        pr_completed_at = str_field d ''completed_at'', pr_status = str_field d ''status'',
        pr_scopes = sort_key sc_authority scopes,
        pr_canonical_output = str_field d ''canonical_output'',
        pr_warning_details = wd, pr_schema_version = ver\<rparr> = Inr r"
    by (auto simp: run_of_dict_def and_then_eq_Inr)
  have valid: "scope_post_init s = Inr s" if "scope_from_dict v = Inr s" for v s
    using that
    by (auto simp: scope_from_dict_def scope_of_dict_def and_then_eq_Inr split: json.splits
        dest: scope_post_init_Inr)
  have "\<forall>s \<in> set scopes. scope_post_init s = Inr s"
    using map_res_Inr_mem [OF scopes] valid by blast
  moreover from post have "r = \<lparr>pr_run_id = str_field d ''run_id'',
        pr_started_at = str_field d ''started_at'',
        pr_completed_at = str_field d ''completed_at'', pr_status = str_field d ''status'',
        pr_scopes = sort_key sc_authority scopes,
        pr_canonical_output = str_field d ''canonical_output'',
        pr_warning_details = wd, pr_schema_version = ver\<rparr>" (is "r = ?r")
    by (rule run_post_init_Inr)
  ultimately show ?thesis using post by (simp add: run_valid_def)
qed

section \<open>Entities, observations, snapshots and changes\<close>

record entity =
  en_site_id :: string
  en_domain :: string
  en_entity_type :: string
  en_entity_id :: string
  en_state :: json
  en_observed_at :: string
  en_collected_at :: "string option"
  en_source :: string
  en_provider :: string

definition entity_post_init :: "entity \<Rightarrow> entity res" where
  "entity_post_init e =
     (if en_site_id e = [] \<or> en_domain e = [] \<or> en_entity_type e = [] \<or> en_entity_id e = [] then
        Inl (ValueError ''entity state requires site_id, domain, entity_type and entity_id'')
      else if \<not> is_obj (en_state e) then
        Inl (ValueError ''entity state payload must be a mapping'')
      else Inr e)"

definition en_identity :: "entity \<Rightarrow> string \<times> string \<times> string \<times> string" where
  "en_identity e = (en_site_id e, en_domain e, en_entity_type e, en_entity_id e)"

definition entity_to_dict :: "entity \<Rightarrow> dict" where
  "entity_to_dict e =
     [(''site_id'', JStr (en_site_id e)), (''domain'', JStr (en_domain e)),
      (''entity_type'', JStr (en_entity_type e)), (''entity_id'', JStr (en_entity_id e)),
      (''state'', en_state e), (''observed_at'', JStr (en_observed_at e)),
      (''collected_at'', jopt (en_collected_at e)), (''source'', JStr (en_source e)),
      (''provider'', JStr (en_provider e))]"

definition entity_fields :: "string list" where
  "entity_fields = [''site_id'', ''domain'', ''entity_type'', ''entity_id'', ''state'',
     ''observed_at'', ''collected_at'', ''source'', ''provider'']"

text \<open>\<open>EntityState(**entity)\<close>.\<close>

definition entity_of_dict :: "json \<Rightarrow> entity res" where
  "entity_of_dict v = (case v of JObj d \<Rightarrow>
     and_then (only_keys d entity_fields) (\<lambda>_.
     and_then (req_str d ''site_id'') (\<lambda>site.
     and_then (req_str d ''domain'') (\<lambda>dom.
     and_then (req_str d ''entity_type'') (\<lambda>etype.
     and_then (req_str d ''entity_id'') (\<lambda>eid.
     and_then (guard_res (\<not> dhas d ''state'') (TypeError ''missing required argument'')) (\<lambda>_.
     and_then (req_str d ''observed_at'') (\<lambda>obs.
     and_then (opt_none_str d ''collected_at'') (\<lambda>col.
     and_then (opt_str d ''source'' []) (\<lambda>src.
     and_then (opt_str d ''provider'' []) (\<lambda>prov.
     entity_post_init
       \<lparr>en_site_id = site, en_domain = dom, en_entity_type = etype, en_entity_id = eid,
        en_state = dget d ''state'', en_observed_at = obs, en_collected_at = col,
        en_source = src, en_provider = prov\<rparr>))))))))))
     | _ \<Rightarrow> Inl (TypeError ''argument after ** must be a mapping''))"

lemma entity_post_init_Inr: "entity_post_init e = Inr t \<Longrightarrow> t = e"
  by (auto simp: entity_post_init_def split: if_splits)

lemma entity_roundtrip:
  assumes "entity_post_init e = Inr e"
  shows "entity_of_dict (JObj (entity_to_dict e)) = Inr e"
  using assms
  by (cases e)
     (simp add: entity_of_dict_def entity_to_dict_def only_keys_def entity_fields_def req_str_def
      opt_str_def opt_none_str_def dget_def dhas_def)

record observation =
  ob_observed_at :: string
  ob_entities :: "entity list"
  ob_scopes :: "(string \<times> string) list"
  ob_collected_at :: "string option"
  ob_source :: string
  ob_provider :: string
  ob_schema_version :: int

definition observation_post_init :: "observation \<Rightarrow> observation res" where
  "observation_post_init ob =
     (if ob_observed_at ob = [] then Inl (ValueError ''observation requires observed_at'')
      else if ob_schema_version ob < 1 then
        Inl (ValueError ''observation schema_version must be positive'')
      else if card (set (map en_identity (ob_entities ob))) \<noteq> length (ob_entities ob) then
        Inl (ValueError ''observation contains duplicate canonical entity identities'')
      else Inr ob)"

record snapshot =
  sn_snapshot_id :: string
  sn_observed_at :: string
  sn_site_id :: string
  sn_domain :: string
  sn_entities :: "entity list"
  sn_collected_at :: "string option"
  sn_source :: string
  sn_provider :: string
  sn_schema_version :: int
  sn_run_id :: string
  sn_completeness :: string
  sn_warning_details :: "string list"

definition snapshot_to_dict :: "snapshot \<Rightarrow> dict" where
  "snapshot_to_dict s =
     [(''snapshot_id'', JStr (sn_snapshot_id s)), (''observed_at'', JStr (sn_observed_at s)),
      (''site_id'', JStr (sn_site_id s)), (''domain'', JStr (sn_domain s)),
      (''entities'', JList (map (\<lambda>e. JObj (entity_to_dict e)) (sn_entities s))),
      (''collected_at'', jopt (sn_collected_at s)), (''source'', JStr (sn_source s)),
      (''provider'', JStr (sn_provider s)), (''schema_version'', JInt (sn_schema_version s)),
      (''run_id'', JStr (sn_run_id s)), (''completeness'', JStr (sn_completeness s)),
      (''warning_details'', jstrs (sn_warning_details s))]"

definition snapshot_fields :: "string list" where
  "snapshot_fields = [''snapshot_id'', ''observed_at'', ''site_id'', ''domain'', ''entities'',
     ''collected_at'', ''source'', ''provider'', ''schema_version'', ''run_id'',
     ''completeness'', ''warning_details'']"

fun snapshot_exn :: "py_exn \<Rightarrow> py_exn" where
  "snapshot_exn (KeyError _) = ValueError ''invalid persisted state snapshot''"
| "snapshot_exn (TypeError _) = ValueError ''invalid persisted state snapshot''"
| "snapshot_exn (ValueError _) = ValueError ''invalid persisted state snapshot''"
| "snapshot_exn e = e"

definition snapshot_of_dict :: "dict \<Rightarrow> snapshot res" where
  "snapshot_of_dict d =
     and_then (case map_of d ''entities'' of None \<Rightarrow> Inl (KeyError ''entities'')
               | Some v \<Rightarrow> py_iter v) (\<lambda>raw.
     and_then (map_res entity_of_dict raw) (\<lambda>entities.
     and_then (list_strs (dget d ''warning_details'')) (\<lambda>wd.
     and_then (only_keys d snapshot_fields) (\<lambda>_.
     and_then (req_str d ''snapshot_id'') (\<lambda>sid.
     and_then (req_str d ''observed_at'') (\<lambda>obs.
     and_then (req_str d ''site_id'') (\<lambda>site.
     and_then (req_str d ''domain'') (\<lambda>dom.
     and_then (opt_none_str d ''collected_at'') (\<lambda>col.
     and_then (opt_str d ''source'' []) (\<lambda>src.
     and_then (opt_str d ''provider'' []) (\<lambda>prov.
     and_then (opt_int d ''schema_version'' 1) (\<lambda>ver.
     and_then (opt_str d ''run_id'' []) (\<lambda>rid.
     and_then (opt_str d ''completeness'' COMPLETE) (\<lambda>comp.
     Inr \<lparr>sn_snapshot_id = sid, sn_observed_at = obs, sn_site_id = site, sn_domain = dom,
          sn_entities = entities, sn_collected_at = col, sn_source = src, sn_provider = prov,
          sn_schema_version = ver, sn_run_id = rid, sn_completeness = comp,
          sn_warning_details = wd\<rparr>))))))))))))))"

definition snapshot_from_dict :: "json \<Rightarrow> snapshot res" where
  "snapshot_from_dict v = (case v of JObj d \<Rightarrow> map_exn snapshot_exn (snapshot_of_dict d)
     | _ \<Rightarrow> Inl (ValueError ''invalid persisted state snapshot''))"

definition snapshot_valid :: "snapshot \<Rightarrow> bool" where
  "snapshot_valid s = (\<forall>e \<in> set (sn_entities s). entity_post_init e = Inr e)"

lemma snapshot_roundtrip_aux:
  assumes "snapshot_valid s"
  shows "snapshot_from_dict (JObj (snapshot_to_dict s)) = Inr s"
proof -
  have "map_res entity_of_dict (map (\<lambda>e. JObj (entity_to_dict e)) (sn_entities s))
      = Inr (sn_entities s)"
    using assms by (intro map_res_map entity_roundtrip) (simp add: snapshot_valid_def)
  then show ?thesis
    by (cases s)
       (simp add: snapshot_from_dict_def snapshot_of_dict_def snapshot_to_dict_def only_keys_def
        snapshot_fields_def req_str_def opt_str_def opt_int_def opt_none_str_def dget_def)
qed

record change =
  ch_change_id :: string
  ch_previous_snapshot_id :: "string option"
  ch_current_snapshot_id :: string
  ch_site_id :: string
  ch_domain :: string
  ch_entity_type :: string
  ch_entity_id :: string
  ch_change_type :: string
  ch_field_path :: string
  ch_previous_value :: json
  ch_current_value :: json
  ch_observed_at :: string
  ch_source :: string
  ch_provider :: string
  ch_severity :: "string option"

definition change_post_init :: "change \<Rightarrow> change res" where
  "change_post_init c =
     (if ch_change_type c \<notin> set CHANGE_TYPES then
        Inl (ValueError (''unsupported state change type: '' @ ch_change_type c))
      else Inr c)"

definition change_to_dict :: "change \<Rightarrow> dict" where
  "change_to_dict c =
     [(''change_id'', JStr (ch_change_id c)),
      (''previous_snapshot_id'', jopt (ch_previous_snapshot_id c)),
      (''current_snapshot_id'', JStr (ch_current_snapshot_id c)),
      (''site_id'', JStr (ch_site_id c)), (''domain'', JStr (ch_domain c)),
      (''entity_type'', JStr (ch_entity_type c)), (''entity_id'', JStr (ch_entity_id c)),
      (''change_type'', JStr (ch_change_type c)), (''field_path'', JStr (ch_field_path c)),
      (''previous_value'', ch_previous_value c), (''current_value'', ch_current_value c),
      (''observed_at'', JStr (ch_observed_at c)), (''source'', JStr (ch_source c)),
      (''provider'', JStr (ch_provider c)), (''severity'', jopt (ch_severity c))]"

record change_set =
  cs_change_set_id :: string
  cs_previous_snapshot_id :: "string option"
  cs_current_snapshot_id :: string
  cs_site_id :: string
  cs_domain :: string
  cs_observed_at :: string
  cs_changes :: "change list"
  cs_schema_version :: int
  cs_run_id :: string
  cs_completeness :: string
  cs_removals_suppressed :: int

definition change_set_to_dict :: "change_set \<Rightarrow> dict" where
  "change_set_to_dict c =
     [(''change_set_id'', JStr (cs_change_set_id c)),
      (''previous_snapshot_id'', jopt (cs_previous_snapshot_id c)),
      (''current_snapshot_id'', JStr (cs_current_snapshot_id c)),
      (''site_id'', JStr (cs_site_id c)), (''domain'', JStr (cs_domain c)),
      (''observed_at'', JStr (cs_observed_at c)),
      (''changes'', JList (map (\<lambda>x. JObj (change_to_dict x)) (cs_changes c))),
      (''schema_version'', JInt (cs_schema_version c)), (''run_id'', JStr (cs_run_id c)),
      (''completeness'', JStr (cs_completeness c)),
      (''removals_suppressed'', JInt (cs_removals_suppressed c)),
      (''change_count'', JInt (int (length (cs_changes c))))]"

record capture_result =
  cr_capture_id :: string
  cr_run_id :: string
  cr_status :: string
  cr_pipeline_run :: json
  cr_scope_results :: "json list"
  cr_snapshots :: "json list"
  cr_change_sets :: "json list"
  cr_warning_details :: "string list"
  cr_error :: string
  cr_schema_version :: int

text \<open>
  \<open>to_dict\<close> sums the counts of the change-set documents; a change set that is not a
  mapping has no \<open>get\<close>, and its \<open>AttributeError\<close> is not modelled.
\<close>

fun change_count :: "json list \<Rightarrow> int res" where
  "change_count [] = Inr 0"
| "change_count (JObj d # xs) =
     and_then (py_int (dget_or d ''change_count'' (JInt 0)))
       (\<lambda>n. and_then (change_count xs) (\<lambda>m. Inr (n + m)))"
| "change_count (_ # xs) = Inl (Unmodelled ''change set document'')"

definition capture_fields_dict :: "capture_result \<Rightarrow> dict" where
  "capture_fields_dict r =
     [(''capture_id'', JStr (cr_capture_id r)), (''run_id'', JStr (cr_run_id r)),
      (''status'', JStr (cr_status r)), (''pipeline_run'', cr_pipeline_run r),
      (''scope_results'', JList (cr_scope_results r)), (''snapshots'', JList (cr_snapshots r)),
      (''change_sets'', JList (cr_change_sets r)),
      (''warning_details'', jstrs (cr_warning_details r)), (''error'', JStr (cr_error r)),
      (''schema_version'', JInt (cr_schema_version r))]"

definition capture_to_dict :: "capture_result \<Rightarrow> dict res" where
  "capture_to_dict r =
     and_then (change_count (cr_change_sets r))
       (\<lambda>n. Inr (capture_fields_dict r @ [(''change_count'', JInt n)]))"

definition capture_fields :: "string list" where
  "capture_fields = [''capture_id'', ''run_id'', ''status'', ''pipeline_run'', ''scope_results'',
     ''snapshots'', ''change_sets'', ''warning_details'', ''error'', ''schema_version'']"

fun capture_exn :: "py_exn \<Rightarrow> py_exn" where
  "capture_exn (TypeError _) = ValueError ''invalid persisted capture result''"
| "capture_exn (ValueError _) = ValueError ''invalid persisted capture result''"
| "capture_exn e = e"

definition iter_or_nil :: "json \<Rightarrow> json list res" where
  "iter_or_nil v = py_iter (por v (JList []))"

definition capture_of_dict :: "dict \<Rightarrow> capture_result res" where
  "capture_of_dict d0 = (let d = dpop d0 ''change_count'' in
     and_then (iter_or_nil (dget d ''scope_results'')) (\<lambda>sr.
     and_then (iter_or_nil (dget d ''snapshots'')) (\<lambda>sn.
     and_then (iter_or_nil (dget d ''change_sets'')) (\<lambda>cs.
     and_then (list_strs (dget d ''warning_details'')) (\<lambda>wd.
     and_then (only_keys d capture_fields) (\<lambda>_.
     and_then (req_str d ''capture_id'') (\<lambda>cid.
     and_then (req_str d ''run_id'') (\<lambda>rid.
     and_then (req_str d ''status'') (\<lambda>st.
     and_then (guard_res (\<not> dhas d ''pipeline_run'') (TypeError ''missing required argument'')) (\<lambda>_.
     and_then (opt_str d ''error'' []) (\<lambda>err.
     and_then (opt_int d ''schema_version'' 1) (\<lambda>ver.
     Inr \<lparr>cr_capture_id = cid, cr_run_id = rid, cr_status = st,
          cr_pipeline_run = dget d ''pipeline_run'', cr_scope_results = sr, cr_snapshots = sn,
          cr_change_sets = cs, cr_warning_details = wd, cr_error = err,
          cr_schema_version = ver\<rparr>))))))))))))"

definition capture_from_dict :: "json \<Rightarrow> capture_result res" where
  "capture_from_dict v = (case v of JObj d \<Rightarrow> map_exn capture_exn (capture_of_dict d)
     | _ \<Rightarrow> Inl (Unmodelled ''capture document is not a mapping''))"

lemma iter_or_nil_JList [simp]: "iter_or_nil (JList xs) = Inr xs"
  by (simp add: iter_or_nil_def por_def)

lemma capture_roundtrip_aux:
  assumes "capture_to_dict r = Inr d"
  shows "capture_from_dict (JObj d) = Inr r"
proof -
  from assms obtain n where d: "d = capture_fields_dict r @ [(''change_count'', JInt n)]"
    by (auto simp: capture_to_dict_def and_then_eq_Inr)
  have "dpop d ''change_count'' = capture_fields_dict r"
    by (simp add: d dpop_def capture_fields_dict_def)
  then show ?thesis
    by (cases r)
       (simp add: capture_from_dict_def capture_of_dict_def Let_def capture_fields_dict_def
        only_keys_def capture_fields_def req_str_def opt_str_def opt_int_def dget_def dhas_def)
qed

end
