(* ===== verification/State_History_Engine.thy ===== *)
theory State_History_Engine
  imports State_History_Models
begin

text \<open>
  The comparison half of \<open>analysis/state_history/engine.py\<close>: adapting canonical documents
  to observations, normalising entity state, building snapshots, and the field-level
  comparison of two snapshots. \<open>H\<close> is the hexadecimal SHA-256 digest of a text; the
  definitions take it as an argument, so what is proved holds for any digest.
\<close>

section \<open>Constants\<close>

definition DEFAULT_VOLATILE_FIELDS :: "string list" where
  "DEFAULT_VOLATILE_FIELDS =
     [''collected_at'', ''collection_duration'', ''collection_duration_seconds'',
      ''generated_at'', ''last_observed'', ''last_seen_at'', ''observed_at'',
      ''source_last_seen_at'', ''timestamp'', ''uptime_seconds'']"

definition DEFAULT_UNORDERED_FIELDS :: "string list" where
  "DEFAULT_UNORDERED_FIELDS =
     [''affected_assets'', ''affected_service_ids'', ''evidence'', ''ip_addresses'',
      ''mac_addresses'', ''network_ids'', ''sources'', ''storage_ids'', ''tags'',
      ''uplink_evidence'']"

definition STATUS_FIELDS :: "string list" where
  "STATUS_FIELDS =
     [''connection_state'', ''ha_status'', ''health'', ''lifecycle_state'', ''online'',
      ''operational_status'', ''power_state'', ''reachable'', ''state'', ''status'']"

definition SEVERITY :: "(string \<times> string) list" where
  "SEVERITY =
     [(''critical'', ''Critical''), (''failed'', ''Critical''), (''offline'', ''Critical''),
      (''down'', ''Critical''), (''unreachable'', ''Critical''),
      (''warning'', ''Medium''), (''degraded'', ''Medium''), (''stale'', ''Medium''),
      (''healthy'', ''Info''), (''online'', ''Info''), (''up'', ''Info'')]"

section \<open>Adapting payloads\<close>

definition iso :: "json \<Rightarrow> string \<Rightarrow> string res" where
  "iso v label =
     (if \<not> truthy v then Inl (ValueError (label @ '' timestamp is required''))
      else case fromisoformat (replace_z (py_str v)) of
        None \<Rightarrow> Inl (ValueError (label @ '' must be an ISO-8601 timestamp''))
      | Some t \<Rightarrow> and_then (to_utc t 0) (\<lambda>u. Inr (isoformat_z u)))"

definition hash_of :: "(string \<Rightarrow> string) \<Rightarrow> string \<Rightarrow> json \<Rightarrow> string" where
  "hash_of H pre v = pre @ take 24 (H (dumps v))"

definition site_of :: "dict \<Rightarrow> string" where
  "site_of v = (case dget v ''site'' of
       JObj site \<Rightarrow> py_str (por (por (dget site ''site_id'') (dget site ''id'')) (JStr ''unassigned''))
     | site \<Rightarrow> py_str (por (por (dget v ''site_id'') site) (JStr ''unassigned'')))"

definition opt_iso :: "json \<Rightarrow> string \<Rightarrow> string option res" where
  "opt_iso v label = (if truthy v then and_then (iso v label) (\<lambda>t. Inr (Some t)) else Inr None)"

definition entity_of :: "json \<Rightarrow> string \<Rightarrow> json \<Rightarrow> json \<Rightarrow> string \<Rightarrow> string option \<Rightarrow> string \<Rightarrow> string
    \<Rightarrow> entity res" where
  "entity_of value dmn etype eid observed collected src prov = (case value of
     JObj v \<Rightarrow>
       (if \<not> truthy eid then
          Inl (ValueError (dmn @ '' entity is missing a stable identity''))
        else
          and_then (iso (por (dget v ''observed_at'') (JStr observed)) ''entity observation'') (\<lambda>obs.
          and_then (opt_iso (por (dget v ''collected_at'') (jopt collected)) ''entity collection'') (\<lambda>col.
          entity_post_init
            \<lparr>en_site_id = site_of v, en_domain = dmn, en_entity_type = py_str etype,
             en_entity_id = py_str eid, en_state = value, en_observed_at = obs,
             en_collected_at = col,
             en_source = py_str (por (por (por (dget v ''source'') (dget v ''collector'')) (JStr src)) (JStr [])),
             en_provider = py_str (por (por (dget v ''provider'') (JStr prov)) (JStr []))\<rparr>)))
   | _ \<Rightarrow> Inl (ValueError ''canonical entity must be a mapping''))"

text \<open>
  The four document shapes. The callers of \<open>entity_of\<close> read \<open>value.get(...)\<close> first, so a
  value that is not a mapping raises \<open>AttributeError\<close> before the check inside it.
\<close>

definition get_of :: "json \<Rightarrow> string \<Rightarrow> json res" where
  "get_of v k = (case v of JObj d \<Rightarrow> Inr (dget d k)
     | _ \<Rightarrow> Inl (AttributeError ''object has no attribute get''))"

definition want_list :: "json \<Rightarrow> string \<Rightarrow> json list res" where
  "want_list v msg = (case v of JList xs \<Rightarrow> Inr xs | _ \<Rightarrow> Inl (ValueError msg))"

definition raw_entity :: "dict \<Rightarrow> string \<Rightarrow> string option \<Rightarrow> string \<Rightarrow> string \<Rightarrow> json \<Rightarrow> entity res" where
  "raw_entity payload stamp collected src prov raw = (case raw of
     JObj r \<Rightarrow>
       (if \<not> is_obj (dget r ''state'') then
          Inl (ValueError ''each entity requires a state mapping'')
        else
          and_then (iso (por (dget r ''observed_at'') (JStr stamp)) ''entity observation'') (\<lambda>obs.
          and_then (opt_iso (por (dget r ''collected_at'') (jopt collected)) ''entity collection'') (\<lambda>col.
          entity_post_init
            \<lparr>en_site_id = py_str (por (dget r ''site_id'') (JStr ''unassigned'')),
             en_domain = py_str (por (por (dget r ''domain'') (dget payload ''domain'')) (JStr [])),
             en_entity_type = py_str (por (dget r ''entity_type'') (JStr [])),
             en_entity_id = py_str (por (dget r ''entity_id'') (JStr [])),
             en_state = dget r ''state'', en_observed_at = obs, en_collected_at = col,
             en_source = py_str (por (dget r ''source'') (JStr src)),
             en_provider = py_str (por (dget r ''provider'') (JStr prov))\<rparr>)))
   | _ \<Rightarrow> Inl (ValueError ''each entity requires a state mapping''))"

definition entity_scopes :: "entity list \<Rightarrow> (string \<times> string) list" where
  "entity_scopes es = map (\<lambda>e. (en_site_id e, en_domain e)) es"

definition default_scope :: "dict \<Rightarrow> string \<Rightarrow> (string \<times> string) list \<Rightarrow> (string \<times> string) list" where
  "default_scope payload dmn scopes =
     (if scopes = [] then [(py_str (por (dget payload ''site_id'') (JStr ''unassigned'')), dmn)]
      else scopes)"

definition entities_document :: "dict \<Rightarrow> string \<Rightarrow> string option \<Rightarrow> string \<Rightarrow> string
    \<Rightarrow> (entity list \<times> (string \<times> string) list) res" where
  "entities_document payload stamp collected src prov =
     and_then (want_list (dget payload ''entities'') ''entities must be a list'') (\<lambda>raws.
     and_then (map_res (raw_entity payload stamp collected src prov) raws) (\<lambda>es.
     Inr (es, entity_scopes es @
       (if truthy (dget payload ''site_id'') \<and> truthy (dget payload ''domain'')
        then [(py_str (dget payload ''site_id''), py_str (dget payload ''domain''))] else []))))"

definition objects_document :: "dict \<Rightarrow> string \<Rightarrow> string option \<Rightarrow> string \<Rightarrow> string
    \<Rightarrow> (entity list \<times> (string \<times> string) list) res" where
  "objects_document payload stamp collected src prov =
     and_then (want_list (dget payload ''objects'') ''virtualisation objects must be a list'') (\<lambda>vs.
     and_then (map_res (\<lambda>v.
         and_then (get_of v ''kind'') (\<lambda>kind. and_then (get_of v ''canonical_id'') (\<lambda>cid.
         entity_of v ''virtualisation'' (por kind (JStr ''object'')) cid stamp collected src prov))) vs) (\<lambda>es.
     Inr (es, default_scope payload ''virtualisation'' (entity_scopes es))))"

definition operations_collection :: "dict \<Rightarrow> string \<Rightarrow> string option \<Rightarrow> string \<Rightarrow> string
    \<Rightarrow> string \<times> string \<Rightarrow> entity list res" where
  "operations_collection payload stamp collected src prov = (\<lambda>(collection, etype).
     and_then (want_list (dget_or payload collection (JList [])) (collection @ '' must be a list'')) (\<lambda>vs.
     map_res (\<lambda>v. and_then (get_of v ''id'') (\<lambda>i.
       entity_of v ''operations'' (JStr etype) i stamp collected src prov)) vs))"

definition operations_document :: "dict \<Rightarrow> string \<Rightarrow> string option \<Rightarrow> string \<Rightarrow> string
    \<Rightarrow> (entity list \<times> (string \<times> string) list) res" where
  "operations_document payload stamp collected src prov =
     and_then (map_res (operations_collection payload stamp collected src prov)
       [(''issues'', ''issue''), (''risks'', ''risk''), (''recommendations'', ''recommendation'')]) (\<lambda>ess.
     Inr (concat ess, default_scope payload ''operations'' (entity_scopes (concat ess))))"

definition declared_sites :: "json list \<Rightarrow> (string \<times> string) list" where
  "declared_sites vs = concat (map (\<lambda>v. case v of
       JObj s \<Rightarrow> if truthy (por (dget s ''site_id'') (dget s ''id''))
         then [(py_str (por (dget s ''site_id'') (dget s ''id'')), ''infrastructure'')] else []
     | _ \<Rightarrow> []) vs)"

definition assets_document :: "dict \<Rightarrow> string \<Rightarrow> string option \<Rightarrow> string \<Rightarrow> string
    \<Rightarrow> (entity list \<times> (string \<times> string) list) res" where
  "assets_document payload stamp collected src prov =
     and_then (want_list (dget payload ''assets'') ''infrastructure assets must be a list'') (\<lambda>vs.
     and_then (map_res (\<lambda>v.
         and_then (get_of v ''canonical_id'') (\<lambda>a. and_then (get_of v ''asset_id'') (\<lambda>b.
         and_then (get_of v ''source_asset_id'') (\<lambda>c.
         entity_of v ''infrastructure'' (JStr ''asset'') (por (por a b) c) stamp collected src prov)))) vs) (\<lambda>es.
     and_then (py_iter (dget_or payload ''sites'' (JList []))) (\<lambda>sites.
     Inr (es, default_scope payload ''infrastructure'' (entity_scopes es @ declared_sites sites)))))"

definition document_entities :: "dict \<Rightarrow> string \<Rightarrow> string option \<Rightarrow> string \<Rightarrow> string
    \<Rightarrow> (entity list \<times> (string \<times> string) list) res" where
  "document_entities payload stamp collected src prov =
     (if dhas payload ''entities'' then entities_document payload stamp collected src prov
      else if dhas payload ''objects'' then objects_document payload stamp collected src prov
      else if list_ex (dhas payload) [''issues'', ''risks'', ''recommendations''] then
        operations_document payload stamp collected src prov
      else if dhas payload ''assets'' then assets_document payload stamp collected src prov
      else Inl (ValueError (''input is not a canonical entities, infrastructure, operations, '' @
        ''or virtualisation document'')))"

definition observation_from_payload :: "json \<Rightarrow> string option \<Rightarrow> observation res" where
  "observation_from_payload doc observed_at = (case doc of
     JObj payload \<Rightarrow>
       and_then (iso (por (por (jopt observed_at) (dget payload ''observed_at''))
         (dget payload ''generated_at'')) ''observation'') (\<lambda>stamp.
       and_then (let c = dget payload ''collected_at'' in
         if truthy c then and_then (iso c ''collection'') (\<lambda>t. Inr (Some t)) else want_opt_str c) (\<lambda>collected.
       (let src = py_str (por (dget payload ''source'') (JStr []));
            prov = py_str (por (dget payload ''provider'') (JStr [])) in
       and_then (document_entities payload stamp collected src prov) (\<lambda>(es, scopes).
       and_then (py_int (dget_or payload ''schema_version'' (JInt 1))) (\<lambda>ver.
       observation_post_init
         \<lparr>ob_observed_at = stamp, ob_entities = sort_key en_identity es,
          ob_scopes = usort scopes, ob_collected_at = collected, ob_source = src,
          ob_provider = prov, ob_schema_version = ver\<rparr>)))))
   | _ \<Rightarrow> Inl (ValueError ''state-history input must be a JSON mapping''))"

definition pipeline_run_from_payload :: "json \<Rightarrow> pipeline_run res" where
  "pipeline_run_from_payload payload =
     and_then (run_from_dict payload) (\<lambda>run.
     and_then (iso (JStr (pr_started_at run)) ''pipeline start'') (\<lambda>s.
     and_then (iso (JStr (pr_completed_at run)) ''pipeline completion'') (\<lambda>c.
     run_post_init (run\<lparr>pr_started_at := s, pr_completed_at := c\<rparr>))))"

section \<open>Normalisation\<close>

fun normalise :: "string list \<Rightarrow> string list \<Rightarrow> string list \<Rightarrow> json \<Rightarrow> json" where
  "normalise volatile unordered path (JObj kvs) =
     JObj (sort_key fst (map (\<lambda>(k, v). (k, normalise volatile unordered (path @ [k]) v))
       (filter (\<lambda>(k, _). k \<notin> set volatile) kvs)))"
| "normalise volatile unordered path (JList xs) =
     (let values = map (normalise volatile unordered path) xs in
      if path \<noteq> [] \<and> last path \<in> set unordered then JList (sort_key dumps values)
      else JList values)"
| "normalise volatile unordered path v = v"

section \<open>Snapshots\<close>

text \<open>The fields a \<open>StateHistoryEngine\<close> fixes at construction.\<close>

record engine_config =
  volatile_fields :: "string list"
  unordered_fields :: "string list"

definition default_engine :: engine_config where
  "default_engine = \<lparr>volatile_fields = DEFAULT_VOLATILE_FIELDS,
     unordered_fields = DEFAULT_UNORDERED_FIELDS\<rparr>"

type_synonym entity_key = "string \<times> string"

definition entity_key :: "entity \<Rightarrow> entity_key" where
  "entity_key e = (en_entity_type e, en_entity_id e)"

definition normal_entity :: "engine_config \<Rightarrow> entity \<Rightarrow> entity" where
  "normal_entity cfg e =
     e\<lparr>en_state := normalise (volatile_fields cfg) (unordered_fields cfg) [] (en_state e)\<rparr>"

text \<open>\<open>{key: entity for entity in entities}\<close>: a later entity replaces an earlier one.\<close>

definition index_entities :: "(entity_key \<times> entity) list \<Rightarrow> entity list \<Rightarrow> (entity_key \<times> entity) list" where
  "index_entities m es = foldl (\<lambda>d e. AList.update (entity_key e) e d) m es"

definition scope_entities :: "observation \<Rightarrow> string \<Rightarrow> string \<Rightarrow> entity list" where
  "scope_entities ob site dmn =
     filter (\<lambda>e. (en_site_id e, en_domain e) = (site, dmn)) (ob_entities ob)"

definition attribution :: "string list \<Rightarrow> string \<Rightarrow> string" where
  "attribution xs fallback = (let names = usort (filter (\<lambda>x. x \<noteq> []) xs) in
     if length names = 1 then hd names else if names \<noteq> [] then ''multiple'' else fallback)"

definition snapshot_material :: "observation \<Rightarrow> string \<Rightarrow> string \<Rightarrow> string \<Rightarrow> string \<Rightarrow> string list
    \<Rightarrow> entity list \<Rightarrow> json" where
  "snapshot_material ob site dmn run_id completeness warnings entities =
     JObj ([(''schema_version'', JInt (ob_schema_version ob)),
        (''site_id'', JStr site), (''domain'', JStr dmn),
        (''observed_at'', JStr (ob_observed_at ob)),
        (''collected_at'', jopt (ob_collected_at ob)),
        (''entities'', JList (map (\<lambda>e. JObj (entity_to_dict e)) entities))]
       @ (if run_id \<noteq> [] then
            [(''run_id'', JStr run_id), (''completeness'', JStr completeness),
             (''warning_details'', jstrs warnings)] else []))"

definition snapshot_of :: "(string \<Rightarrow> string) \<Rightarrow> engine_config \<Rightarrow> observation \<Rightarrow> string \<Rightarrow> string
    \<Rightarrow> string \<Rightarrow> string \<Rightarrow> string list \<Rightarrow> entity list \<Rightarrow> snapshot" where
  "snapshot_of H cfg ob site dmn run_id completeness warnings carried =
     (let observed = map (normal_entity cfg) (scope_entities ob site dmn);
          values = index_entities (index_entities [] carried) observed;
          entities = map snd (sort_key fst values)
      in \<lparr>sn_snapshot_id = hash_of H ''snapshot:''
             (snapshot_material ob site dmn run_id completeness warnings entities),
          sn_observed_at = ob_observed_at ob, sn_site_id = site, sn_domain = dmn,
          sn_entities = entities, sn_collected_at = ob_collected_at ob,
          sn_source = attribution (map en_source entities) (ob_source ob),
          sn_provider = attribution (map en_provider entities) (ob_provider ob),
          sn_schema_version = ob_schema_version ob, sn_run_id = run_id,
          sn_completeness = completeness, sn_warning_details = warnings\<rparr>)"

section \<open>Comparison\<close>

definition severity_of :: "json \<Rightarrow> string option" where
  "severity_of v = (case v of JBool b \<Rightarrow> Some (if b then ''Info'' else ''Critical'')
     | _ \<Rightarrow> map_of SEVERITY (casefold (py_str v)))"

definition change_of :: "(string \<Rightarrow> string) \<Rightarrow> snapshot option \<Rightarrow> snapshot \<Rightarrow> entity \<Rightarrow> string \<Rightarrow> string
    \<Rightarrow> json \<Rightarrow> json \<Rightarrow> change" where
  "change_of H previous current e ctype path pv cv =
     (let prev_id = map_option sn_snapshot_id previous;
          ident = JObj [(''previous_snapshot_id'', jopt prev_id),
            (''current_snapshot_id'', JStr (sn_snapshot_id current)),
            (''site_id'', JStr (en_site_id e)), (''domain'', JStr (en_domain e)),
            (''entity_type'', JStr (en_entity_type e)), (''entity_id'', JStr (en_entity_id e)),
            (''change_type'', JStr ctype), (''field_path'', JStr path),
            (''previous_value'', pv), (''current_value'', cv)]
      in \<lparr>ch_change_id = hash_of H ''change:'' ident, ch_previous_snapshot_id = prev_id,
          ch_current_snapshot_id = sn_snapshot_id current, ch_site_id = en_site_id e,
          ch_domain = en_domain e, ch_entity_type = en_entity_type e,
          ch_entity_id = en_entity_id e, ch_change_type = ctype, ch_field_path = path,
          ch_previous_value = pv, ch_current_value = cv,
          ch_observed_at = sn_observed_at current, ch_source = en_source e,
          ch_provider = en_provider e,
          ch_severity = (if ctype = ''status_changed'' then severity_of cv else None)\<rparr>)"

definition field_change_type :: "string \<Rightarrow> string" where
  "field_change_type k = (if k \<in> set STATUS_FIELDS then ''status_changed'' else ''field_changed'')"

text \<open>
  The recursion of \<open>_fields\<close>, listing (change type, path, previous value, current value);
  \<open>fields_of\<close> turns each entry into the change record the code builds on the spot.
\<close>

fun field_diffs :: "string list \<Rightarrow> json \<Rightarrow> json \<Rightarrow> (string \<times> string list \<times> json \<times> json) list" where
  "field_diffs path (JObj old) (JObj new) =
     concat (map (\<lambda>k. case map_of old k of
          None \<Rightarrow> [(field_change_type k, path @ [k], JNull, dget new k)]
        | Some ov \<Rightarrow> (case map_of new k of
            None \<Rightarrow> [(field_change_type k, path @ [k], ov, JNull)]
          | Some nv \<Rightarrow> field_diffs (path @ [k]) ov nv))
       (usort (map fst old @ map fst new)))"
| "field_diffs path old new =
     (if py_eq old new then []
      else [(if path \<noteq> [] then field_change_type (last path) else ''field_changed'',
             path, old, new)])"

definition fields_of :: "(string \<Rightarrow> string) \<Rightarrow> snapshot option \<Rightarrow> snapshot \<Rightarrow> entity \<Rightarrow> json \<Rightarrow> json
    \<Rightarrow> change list" where
  "fields_of H previous current e old new =
     map (\<lambda>(ctype, path, pv, cv). change_of H previous current e ctype (join ''.'' path) pv cv)
       (field_diffs [] old new)"

definition entity_changes :: "(string \<Rightarrow> string) \<Rightarrow> snapshot option \<Rightarrow> snapshot
    \<Rightarrow> (entity_key \<times> entity) list \<Rightarrow> (entity_key \<times> entity) list \<Rightarrow> entity_key \<Rightarrow> change list" where
  "entity_changes H previous current old new k =
     (case map_of old k of
        None \<Rightarrow> (case map_of new k of None \<Rightarrow> []
          | Some e \<Rightarrow> [change_of H previous current e ''entity_added'' [] JNull (en_state e)])
      | Some p \<Rightarrow> (case map_of new k of
            None \<Rightarrow> [change_of H previous current p ''entity_removed'' [] (en_state p) JNull]
          | Some e \<Rightarrow> fields_of H previous current e (en_state p) (en_state e)))"

definition change_sort_key :: "change \<Rightarrow> string \<times> string \<times> string \<times> string \<times> string" where
  "change_sort_key c =
     (ch_entity_type c, ch_entity_id c, ch_field_path c, ch_change_type c, ch_change_id c)"

definition raw_changes :: "(string \<Rightarrow> string) \<Rightarrow> snapshot option \<Rightarrow> snapshot \<Rightarrow> change list" where
  "raw_changes H previous current =
     (let old = (case previous of None \<Rightarrow> [] | Some p \<Rightarrow> index_entities [] (sn_entities p));
          new = index_entities [] (sn_entities current)
      in concat (map (entity_changes H previous current old new)
           (usort (map fst old @ map fst new))))"

definition compare_snapshots :: "(string \<Rightarrow> string) \<Rightarrow> snapshot option \<Rightarrow> snapshot \<Rightarrow> string \<Rightarrow> string \<Rightarrow> int
    \<Rightarrow> change_set" where
  "compare_snapshots H previous current run_id completeness removals_suppressed =
     (let changes = sort_key change_sort_key (raw_changes H previous current);
          prev_id = map_option sn_snapshot_id previous;
          material = JObj [(''previous_snapshot_id'', jopt prev_id),
            (''current_snapshot_id'', JStr (sn_snapshot_id current)),
            (''changes'', JList (map (\<lambda>c. JObj (change_to_dict c)) changes))]
      in \<lparr>cs_change_set_id = hash_of H ''changeset:'' material,
          cs_previous_snapshot_id = prev_id,
          cs_current_snapshot_id = sn_snapshot_id current,
          cs_site_id = sn_site_id current, cs_domain = sn_domain current,
          cs_observed_at = sn_observed_at current, cs_changes = changes,
          cs_schema_version = sn_schema_version current, cs_run_id = run_id,
          cs_completeness = sor completeness (sn_completeness current),
          cs_removals_suppressed = removals_suppressed\<rparr>)"

section \<open>Normalisation: lemmas\<close>

lemma sort_key_fixed: "sorted (map f xs) \<Longrightarrow> sort_key f xs = xs"
  by (rule sort_key_id_if_sorted)

lemma normalise_idem_aux:
  "normalise V U path (normalise V U path v) = normalise V U path v"
proof (induction V U path v rule: normalise.induct)
  case (1 V U path kvs)
  let ?f = "\<lambda>(k, v). (k, normalise V U (path @ [k]) v)"
  let ?P = "\<lambda>(k, _). k \<notin> set V"
  let ?L = "sort_key fst (map ?f (filter ?P kvs))"
  have ok: "?P q \<and> ?f q = q" if "q \<in> set ?L" for q
    using that 1 by auto
  have "filter ?P ?L = ?L" using ok by (intro filter_True) blast
  moreover have "map ?f ?L = ?L" using ok by (intro map_idI) blast
  ultimately show ?case by (simp add: sort_key_fixed)
next
  case (2 V U path xs)
  let ?n = "normalise V U path"
  have "map ?n (map ?n xs) = map ?n xs" using 2 by simp
  moreover have "map ?n (sort_key dumps (map ?n xs)) = sort_key dumps (map ?n xs)"
    using 2 by (intro map_idI) auto
  ultimately show ?case by (auto simp: Let_def sort_key_fixed)
qed simp_all

lemma wf_normalise: "wf_json v \<Longrightarrow> wf_json (normalise V U path v)"
proof (induction V U path v rule: normalise.induct)
  case (1 V U path kvs)
  let ?f = "\<lambda>(k, v). (k, normalise V U (path @ [k]) v)"
  have "map fst (map ?f (filter (\<lambda>(k, _). k \<notin> set V) kvs))
      = map fst (filter (\<lambda>(k, _). k \<notin> set V) kvs)"
    by (simp add: case_prod_beta comp_def)
  moreover have "distinct (map fst (filter (\<lambda>(k, _). k \<notin> set V) kvs))"
    using 1 by (simp add: distinct_map_filter)
  ultimately have "distinct (map fst (map ?f (filter (\<lambda>(k, _). k \<notin> set V) kvs)))" by (simp only:)
  then have "distinct (map fst (sort_key fst (map ?f (filter (\<lambda>(k, _). k \<notin> set V) kvs))))"
    by (simp only: distinct_map distinct_sort set_sort)
  with 1 show ?case by auto
qed (auto simp: Let_def)

text \<open>No volatile key is left at any depth.\<close>

fun free_of_keys :: "string list \<Rightarrow> json \<Rightarrow> bool" where
  "free_of_keys V (JList xs) = (\<forall>x \<in> set xs. free_of_keys V x)"
| "free_of_keys V (JObj kvs) = (\<forall>p \<in> set kvs. fst p \<notin> set V \<and> free_of_keys V (snd p))"
| "free_of_keys V _ = True"

lemma normalise_free_of_keys: "free_of_keys V (normalise V U path v)"
  by (induction V U path v rule: normalise.induct) (auto simp: Let_def)

lemma normalise_is_obj [simp]: "is_obj (normalise V U path v) = is_obj v"
  by (cases v) (auto simp: Let_def)

section \<open>Field differences: lemmas\<close>

lemma py_eq_obj_iff:
  assumes "distinct (map fst a)" and "distinct (map fst b)"
  shows "py_eq (JObj a) (JObj b) \<longleftrightarrow> dom (map_of a) = dom (map_of b) \<and>
     (\<forall>k x y. map_of a k = Some x \<longrightarrow> map_of b k = Some y \<longrightarrow> py_eq x y)"
    (is "?l \<longleftrightarrow> ?r")
proof
  assume l: ?l
  then have len: "length a = length b" and
    all: "\<forall>p \<in> set a. case map_of b (fst p) of None \<Rightarrow> False | Some y \<Rightarrow> py_eq (snd p) y"
    by simp_all
  have sub: "set (map fst a) \<subseteq> set (map fst b)"
    using all by (fastforce split: option.splits dest: map_of_SomeD intro: rev_image_eqI)
  have "card (set (map fst b)) \<le> card (set (map fst a))"
    using assms len by (metis distinct_card length_map order_refl)
  with sub have "set (map fst a) = set (map fst b)"
    by (intro card_seteq) simp_all
  moreover have "py_eq x y" if "map_of a k = Some x" "map_of b k = Some y" for k x y
    using all that by (fastforce dest: map_of_SomeD)
  ultimately show ?r by (simp add: dom_map_of_conv_image_fst)
next
  assume r: ?r
  then have keys: "set (map fst a) = set (map fst b)"
    by (simp add: dom_map_of_conv_image_fst)
  then have "length a = length b"
    using assms by (metis distinct_card length_map)
  moreover have "case map_of b (fst p) of None \<Rightarrow> False | Some y \<Rightarrow> py_eq (snd p) y"
    if p: "p \<in> set a" for p
  proof -
    from p assms have "map_of a (fst p) = Some (snd p)" by simp
    moreover from p keys obtain y where "map_of b (fst p) = Some y"
      by (metis (no_types, lifting) domD domI dom_map_of_conv_image_fst image_eqI list.set_map)
    ultimately show ?thesis using r by simp
  qed
  ultimately show ?l by simp
qed

lemma field_diffs_obj_Nil:
  "field_diffs path (JObj old) (JObj new) = [] \<longleftrightarrow> dom (map_of old) = dom (map_of new) \<and>
     (\<forall>k x y. map_of old k = Some x \<longrightarrow> map_of new k = Some y \<longrightarrow> field_diffs (path @ [k]) x y = [])"
  (is "?l \<longleftrightarrow> ?r")
proof -
  let ?g = "\<lambda>k. case map_of old k of
          None \<Rightarrow> [(field_change_type k, path @ [k], JNull, dget new k)]
        | Some ov \<Rightarrow> (case map_of new k of
            None \<Rightarrow> [(field_change_type k, path @ [k], ov, JNull)]
          | Some nv \<Rightarrow> field_diffs (path @ [k]) ov nv)"
  have g: "?g k = [] \<longleftrightarrow> k \<in> dom (map_of old) \<and> k \<in> dom (map_of new) \<and>
     (\<forall>x y. map_of old k = Some x \<longrightarrow> map_of new k = Some y \<longrightarrow> field_diffs (path @ [k]) x y = [])" for k
    by (auto split: option.splits)
  have "?l \<longleftrightarrow> (\<forall>k \<in> dom (map_of old) \<union> dom (map_of new). ?g k = [])"
    by (simp add: dom_map_of_conv_image_fst ball_Un)
  then show ?thesis by (simp only: g) blast
qed

lemma field_diffs_nonobj:
  "\<not> (is_obj old \<and> is_obj new) \<Longrightarrow> field_diffs path old new =
     (if py_eq old new then []
      else [(if path \<noteq> [] then field_change_type (last path) else ''field_changed'',
             path, old, new)])"
  by (cases old; cases new) simp_all

lemma field_diffs_Nil_iff:
  "wf_json old \<Longrightarrow> wf_json new \<Longrightarrow> field_diffs path old new = [] \<longleftrightarrow> py_eq old new"
proof (induction old arbitrary: new path)
  case (JObj old)
  show ?case
  proof (cases new)
    case new: (JObj kvs)
    have sub: "field_diffs q x y = [] \<longleftrightarrow> py_eq x y"
      if "map_of old k = Some x" "map_of kvs k = Some y" for k x y q
    proof -
      from that have "(k, x) \<in> set old" "(k, y) \<in> set kvs" by (auto dest: map_of_SomeD)
      with JObj.prems new have "wf_json x" "wf_json y" by auto
      with \<open>(k, x) \<in> set old\<close> show ?thesis by (intro JObj.IH [of "(k, x)"]) (auto simp: snds.simps)
    qed
    have "distinct (map fst old)" "distinct (map fst kvs)" using JObj.prems new by auto
    then show ?thesis
      unfolding new by (simp only: field_diffs_obj_Nil py_eq_obj_iff) (use sub in blast)
  qed simp_all
qed simp_all

text \<open>Where a reported path leads in the old and in the new document.\<close>

fun lookup_path :: "json \<Rightarrow> string list \<Rightarrow> json option" where
  "lookup_path v [] = Some v"
| "lookup_path (JObj d) (k # ks) = (case map_of d k of None \<Rightarrow> None | Some v \<Rightarrow> lookup_path v ks)"
| "lookup_path _ (k # ks) = None"

definition null_or :: "json option \<Rightarrow> json" where
  "null_or v = (case v of None \<Rightarrow> JNull | Some x \<Rightarrow> x)"

definition differs :: "json option \<Rightarrow> json option \<Rightarrow> bool" where
  "differs a b = (case (a, b) of (None, None) \<Rightarrow> False | (Some x, Some y) \<Rightarrow> \<not> py_eq x y | _ \<Rightarrow> True)"

lemma field_diffs_sound:
  "(ctype, path, pv, cv) \<in> set (field_diffs pre old new) \<Longrightarrow>
   \<exists>suf. path = pre @ suf \<and> pv = null_or (lookup_path old suf) \<and> cv = null_or (lookup_path new suf) \<and>
     differs (lookup_path old suf) (lookup_path new suf)"
proof (induction pre old new arbitrary: ctype path pv cv rule: field_diffs.induct)
  case (1 pre old new)
  from "1.prems" obtain k where k: "k \<in> set (usort (map fst old @ map fst new))" and
    mem: "(ctype, path, pv, cv) \<in> set (case map_of old k of
          None \<Rightarrow> [(field_change_type k, pre @ [k], JNull, dget new k)]
        | Some ov \<Rightarrow> (case map_of new k of
            None \<Rightarrow> [(field_change_type k, pre @ [k], ov, JNull)]
          | Some nv \<Rightarrow> field_diffs (pre @ [k]) ov nv))"
    by auto
  show ?case
  proof (cases "map_of old k")
    case None
    with k have "k \<in> fst ` set new" by (auto simp: map_of_eq_None_iff)
    then obtain y where "map_of new k = Some y" by (metis domD dom_map_of_conv_image_fst)
    with None mem show ?thesis
      by (intro exI [of _ "[k]"]) (simp add: null_or_def dget_def differs_def)
  next
    case ov: (Some ov)
    show ?thesis
    proof (cases "map_of new k")
      case None
      with ov mem show ?thesis by (intro exI [of _ "[k]"]) (simp add: null_or_def differs_def)
    next
      case nv: (Some nv)
      with ov mem have "(ctype, path, pv, cv) \<in> set (field_diffs (pre @ [k]) ov nv)" by simp
      from "1.IH" [OF k ov nv this] obtain suf where
        "path = (pre @ [k]) @ suf" "pv = null_or (lookup_path ov suf)"
        "cv = null_or (lookup_path nv suf)" "differs (lookup_path ov suf) (lookup_path nv suf)"
        by blast
      with ov nv show ?thesis by (intro exI [of _ "k # suf"]) simp
    qed
  qed
qed (auto simp: null_or_def differs_def split: if_splits)

text \<open>No difference is missed: along any path that differs, some prefix is reported.\<close>

lemma field_diffs_complete:
  "wf_json old \<Longrightarrow> wf_json new \<Longrightarrow> differs (lookup_path old p) (lookup_path new p) \<Longrightarrow>
   \<exists>ctype path pv cv. (ctype, path, pv, cv) \<in> set (field_diffs pre old new)"
proof -
  assume wf: "wf_json old" "wf_json new" and d: "differs (lookup_path old p) (lookup_path new p)"
  have "\<not> py_eq old new" using wf d
  proof (induction p arbitrary: old new)
    case Nil
    then show ?case by (simp add: differs_def)
  next
    case (Cons k p)
    show ?case
    proof
      assume eq: "py_eq old new"
      from Cons.prems(3) have "is_obj old \<or> is_obj new"
        by (cases old; cases new) (auto simp: differs_def)
      with eq obtain a b where ab: "old = JObj a" "new = JObj b"
        by (cases old; cases new) auto
      with Cons.prems have dist: "distinct (map fst a)" "distinct (map fst b)" by auto
      have dom: "dom (map_of a) = dom (map_of b)" and
        sub: "\<And>x y. map_of a k = Some x \<Longrightarrow> map_of b k = Some y \<Longrightarrow> py_eq x y"
        using eq py_eq_obj_iff [OF dist] ab by blast+
      from Cons.prems(3) ab dom obtain x y where xy: "map_of a k = Some x" "map_of b k = Some y"
        by (auto simp: differs_def split: option.splits)
      then have "(k, x) \<in> set a" "(k, y) \<in> set b" by (auto dest: map_of_SomeD)
      with Cons.prems ab have "wf_json x" "wf_json y" by auto
      moreover have "differs (lookup_path x p) (lookup_path y p)"
        using Cons.prems(3) ab xy by simp
      ultimately have "\<not> py_eq x y" by (rule Cons.IH)
      with sub xy show False by blast
    qed
  qed
  then have "field_diffs pre old new \<noteq> []" using field_diffs_Nil_iff wf by blast
  then show ?thesis by (metis hd_in_set prod_cases4)
qed

section \<open>Snapshots: lemmas\<close>

lemma index_entities_Nil [simp]: "index_entities m [] = m"
  by (simp add: index_entities_def)

lemma index_entities_Cons [simp]:
  "index_entities m (e # es) = index_entities (AList.update (entity_key e) e m) es"
  by (simp add: index_entities_def)

lemma map_of_index:
  "map_of (index_entities m es) = map_of m ++ map_of (rev (map (\<lambda>e. (entity_key e, e)) es))"
  by (induction es arbitrary: m) (simp_all add: update_conv')

lemma keys_index: "set (map fst (index_entities m es)) = set (map fst m) \<union> entity_key ` set es"
proof -
  have "dom (map_of (index_entities m es)) = dom (map_of m) \<union> entity_key ` set es"
    by (auto simp: map_of_index dom_map_of_conv_image_fst image_image)
  then show ?thesis by (simp add: dom_map_of_conv_image_fst)
qed

lemma distinct_index: "distinct (map fst m) \<Longrightarrow> distinct (map fst (index_entities m es))"
  by (induction es arbitrary: m) (auto simp: distinct_update)

lemma index_key:
  "(\<And>k e. map_of m k = Some e \<Longrightarrow> entity_key e = k) \<Longrightarrow>
   map_of (index_entities m es) k = Some e \<Longrightarrow> entity_key e = k"
proof -
  assume m: "\<And>k e. map_of m k = Some e \<Longrightarrow> entity_key e = k"
    and k: "map_of (index_entities m es) k = Some e"
  from k consider "map_of (rev (map (\<lambda>e. (entity_key e, e)) es)) k = Some e" | "map_of m k = Some e"
    by (auto simp: map_of_index map_add_Some_iff)
  then show "entity_key e = k"
  proof cases
    case 1
    then show ?thesis by (auto dest: map_of_SomeD)
  next
    case 2
    then show ?thesis by (rule m)
  qed
qed

lemma map_of_index_distinct:
  assumes "distinct (map entity_key es)" and "e \<in> set es"
  shows "map_of (index_entities [] es) (entity_key e) = Some e"
proof -
  have "distinct (map fst (rev (map (\<lambda>e. (entity_key e, e)) es)))"
    using assms(1) by (simp add: rev_map [symmetric] comp_def)
  then show ?thesis using assms(2) by (simp add: map_of_index)
qed

definition snapshot_values :: "engine_config \<Rightarrow> observation \<Rightarrow> string \<Rightarrow> string \<Rightarrow> entity list
    \<Rightarrow> (entity_key \<times> entity) list" where
  "snapshot_values cfg ob site dmn carried =
     index_entities (index_entities [] carried) (map (normal_entity cfg) (scope_entities ob site dmn))"

lemma entity_key_normal [simp]: "entity_key (normal_entity cfg e) = entity_key e"
  by (simp add: entity_key_def normal_entity_def)

lemma snapshot_values_key:
  "map_of (snapshot_values cfg ob site dmn carried) k = Some e \<Longrightarrow> entity_key e = k"
  unfolding snapshot_values_def
  by (rule index_key [OF index_key]) simp_all

lemma snapshot_entities:
  "sn_entities (snapshot_of H cfg ob site dmn run_id cmpl warn carried)
     = map snd (sort_key fst (snapshot_values cfg ob site dmn carried))"
  by (simp add: snapshot_of_def snapshot_values_def Let_def)

lemma distinct_snapshot_values: "distinct (map fst (snapshot_values cfg ob site dmn carried))"
  by (simp add: snapshot_values_def distinct_index)

lemma snapshot_entity_keys:
  "map entity_key (sn_entities (snapshot_of H cfg ob site dmn run_id cmpl warn carried))
     = map fst (sort_key fst (snapshot_values cfg ob site dmn carried))"
proof -
  have "entity_key (snd p) = fst p" if "p \<in> set (snapshot_values cfg ob site dmn carried)" for p
    using that distinct_snapshot_values [of cfg ob site dmn carried]
      snapshot_values_key [of cfg ob site dmn carried "fst p" "snd p"] by simp
  then show ?thesis by (simp add: snapshot_entities)
qed

lemma snapshot_keys_distinct_sorted:
  "distinct (map entity_key (sn_entities (snapshot_of H cfg ob site dmn run_id cmpl warn carried)))"
  "sorted (map entity_key (sn_entities (snapshot_of H cfg ob site dmn run_id cmpl warn carried)))"
  using distinct_snapshot_values [of cfg ob site dmn carried]
  by (simp_all add: snapshot_entity_keys distinct_map)

lemma snapshot_key_set:
  "entity_key ` set (sn_entities (snapshot_of H cfg ob site dmn run_id cmpl warn carried))
     = entity_key ` set carried \<union> entity_key ` set (scope_entities ob site dmn)"
proof -
  have "entity_key ` set (sn_entities (snapshot_of H cfg ob site dmn run_id cmpl warn carried))
      = set (map fst (snapshot_values cfg ob site dmn carried))"
    using arg_cong [OF snapshot_entity_keys, of set H cfg ob site dmn run_id cmpl warn carried] by simp
  then show ?thesis
    by (simp only: snapshot_values_def keys_index) (simp add: image_image)
qed

section \<open>Comparison: lemmas\<close>

definition previous_entities :: "snapshot option \<Rightarrow> entity list" where
  "previous_entities previous = (case previous of None \<Rightarrow> [] | Some p \<Rightarrow> sn_entities p)"

definition ch_key :: "change \<Rightarrow> entity_key" where
  "ch_key c = (ch_entity_type c, ch_entity_id c)"

lemma change_of_sel [simp]:
  "ch_change_type (change_of H previous current e ctype path pv cv) = ctype"
  "ch_key (change_of H previous current e ctype path pv cv) = entity_key e"
  "ch_field_path (change_of H previous current e ctype path pv cv) = path"
  "ch_previous_value (change_of H previous current e ctype path pv cv) = pv"
  "ch_current_value (change_of H previous current e ctype path pv cv) = cv"
  by (simp_all add: change_of_def ch_key_def entity_key_def Let_def)

lemma raw_changes_eq:
  "raw_changes H previous current =
     (let old = index_entities [] (previous_entities previous);
          new = index_entities [] (sn_entities current)
      in concat (map (entity_changes H previous current old new)
           (usort (map fst old @ map fst new))))"
  by (simp add: raw_changes_def previous_entities_def Let_def split: option.splits)

lemma cs_changes_compare:
  "cs_changes (compare_snapshots H previous current run_id cmpl n)
     = sort_key change_sort_key (raw_changes H previous current)"
  by (simp add: compare_snapshots_def Let_def)

lemma field_diffs_types:
  "(ctype, path, pv, cv) \<in> set (field_diffs pre old new) \<Longrightarrow>
   ctype = ''status_changed'' \<or> ctype = ''field_changed''"
proof (induction pre old new rule: field_diffs.induct)
  case (1 pre old new)
  from "1.prems" obtain k where k: "k \<in> set (usort (map fst old @ map fst new))" and
    mem: "(ctype, path, pv, cv) \<in> set (case map_of old k of
          None \<Rightarrow> [(field_change_type k, pre @ [k], JNull, dget new k)]
        | Some ov \<Rightarrow> (case map_of new k of
            None \<Rightarrow> [(field_change_type k, pre @ [k], ov, JNull)]
          | Some nv \<Rightarrow> field_diffs (pre @ [k]) ov nv))"
    by auto
  show ?case
  proof (cases "map_of old k")
    case None
    with mem show ?thesis by (simp add: field_change_type_def)
  next
    case ov: (Some ov)
    show ?thesis
    proof (cases "map_of new k")
      case None
      with ov mem show ?thesis by (simp add: field_change_type_def)
    next
      case (Some nv)
      with ov mem show ?thesis by (intro "1.IH" [OF k ov Some]) simp
    qed
  qed
qed (auto simp: field_change_type_def split: if_splits)

lemma entity_changes_key:
  assumes "\<And>e. map_of old k = Some e \<Longrightarrow> entity_key e = k"
    and "\<And>e. map_of new k = Some e \<Longrightarrow> entity_key e = k"
    and "c \<in> set (entity_changes H previous current old new k)"
  shows "ch_key c = k"
proof (cases "map_of old k")
  case None
  with assms(3) obtain e where "map_of new k = Some e"
    by (cases "map_of new k") (simp_all add: entity_changes_def)
  moreover from this have "entity_key e = k" by (rule assms(2))
  ultimately show ?thesis using None assms(3) by (simp add: entity_changes_def)
next
  case p: (Some p)
  then have pk: "entity_key p = k" by (rule assms(1))
  show ?thesis
  proof (cases "map_of new k")
    case None
    with p pk assms(3) show ?thesis by (simp add: entity_changes_def)
  next
    case (Some e)
    then have "entity_key e = k" by (rule assms(2))
    moreover from p Some assms(3) have "ch_key c = entity_key e"
      by (auto simp: entity_changes_def fields_of_def)
    ultimately show ?thesis by simp
  qed
qed

lemma entity_changes_kind:
  "filter (\<lambda>c. ch_change_type c = ''entity_removed'') (entity_changes H previous current old new k) =
     (case (map_of old k, map_of new k) of
        (Some p, None) \<Rightarrow> [change_of H previous current p ''entity_removed'' [] (en_state p) JNull]
      | _ \<Rightarrow> [])"
  "filter (\<lambda>c. ch_change_type c = ''entity_added'') (entity_changes H previous current old new k) =
     (case (map_of old k, map_of new k) of
        (None, Some e) \<Rightarrow> [change_of H previous current e ''entity_added'' [] JNull (en_state e)]
      | _ \<Rightarrow> [])"
  by (auto simp: entity_changes_def fields_of_def filter_empty_conv split: option.splits
      dest!: field_diffs_types)

lemma map_of_index_None:
  "map_of (index_entities [] es) k = None \<longleftrightarrow> k \<notin> entity_key ` set es"
  by (simp add: map_of_eq_None_iff keys_index [of "[]", simplified])

lemma compare_kind_count:
  fixes H previous current run_id cmpl n k
  defines "cs \<equiv> cs_changes (compare_snapshots H previous current run_id cmpl n)"
    and "olds \<equiv> entity_key ` set (previous_entities previous)"
    and "news \<equiv> entity_key ` set (sn_entities current)"
  shows "length (filter (\<lambda>c. ch_change_type c = ''entity_removed'' \<and> ch_key c = k) cs)
           = (if k \<in> olds - news then 1 else 0)"
    and "length (filter (\<lambda>c. ch_change_type c = ''entity_added'' \<and> ch_key c = k) cs)
           = (if k \<in> news - olds then 1 else 0)"
proof -
  let ?old = "index_entities [] (previous_entities previous)"
  let ?new = "index_entities [] (sn_entities current)"
  let ?ks = "usort (map fst ?old @ map fst ?new)"
  let ?f = "entity_changes H previous current ?old ?new"
  have keys: "ch_key c = k'" if "c \<in> set (?f k')" for c k'
    by (rule entity_changes_key [OF _ _ that]) (auto intro: index_key [of "[]", simplified])
  have part: "filter (\<lambda>c. ch_change_type c = t \<and> ch_key c = k) (raw_changes H previous current)
      = (if k \<in> set ?ks then filter (\<lambda>c. ch_change_type c = t) (?f k) else [])" for t
  proof -
    have "filter (\<lambda>c. ch_change_type c = t \<and> ch_key c = k) (?f k') = []" if "k' \<noteq> k" for k'
      using keys that by (auto simp: filter_empty_conv)
    moreover have "filter (\<lambda>c. ch_change_type c = t \<and> ch_key c = k) (?f k)
        = filter (\<lambda>c. ch_change_type c = t) (?f k)"
      using keys by (intro filter_cong) auto
    ultimately show ?thesis
      by (simp add: raw_changes_eq Let_def filter_concat_map_unique [where k = k])
  qed
  have ks: "k \<in> set ?ks \<longleftrightarrow> k \<in> olds \<union> news"
    using keys_index [of "[]" "previous_entities previous"] keys_index [of "[]" "sn_entities current"]
    by (simp add: olds_def news_def)
  have none: "map_of ?old k = None \<longleftrightarrow> k \<notin> olds" "map_of ?new k = None \<longleftrightarrow> k \<notin> news"
    by (simp_all add: map_of_index_None olds_def news_def)
  show "length (filter (\<lambda>c. ch_change_type c = ''entity_removed'' \<and> ch_key c = k) cs)
           = (if k \<in> olds - news then 1 else 0)"
    using none ks
    by (auto simp: cs_def cs_changes_compare length_filter_sort_key part entity_changes_kind
        split: option.splits)
  show "length (filter (\<lambda>c. ch_change_type c = ''entity_added'' \<and> ch_key c = k) cs)
           = (if k \<in> news - olds then 1 else 0)"
    using none ks
    by (auto simp: cs_def cs_changes_compare length_filter_sort_key part entity_changes_kind
        split: option.splits)
qed

lemma compare_Nil_iff:
  assumes "\<And>e. e \<in> set (previous_entities previous) \<Longrightarrow> wf_json (en_state e)"
    and "\<And>e. e \<in> set (sn_entities current) \<Longrightarrow> wf_json (en_state e)"
  shows "cs_changes (compare_snapshots H previous current run_id cmpl n) = [] \<longleftrightarrow>
     (\<forall>k. case (map_of (index_entities [] (previous_entities previous)) k,
               map_of (index_entities [] (sn_entities current)) k) of
        (None, None) \<Rightarrow> True
      | (Some p, Some e) \<Rightarrow> py_eq (en_state p) (en_state e)
      | _ \<Rightarrow> False)"
    (is "?l \<longleftrightarrow> (\<forall>k. ?ok k)")
proof -
  let ?old = "index_entities [] (previous_entities previous)"
  let ?new = "index_entities [] (sn_entities current)"
  let ?f = "entity_changes H previous current ?old ?new"
  have mem: "e \<in> set es" if "map_of (index_entities [] es) k = Some e" for k e es
    using that by (auto simp: map_of_index dest!: map_of_SomeD)
  have wf: "wf_json (en_state p) \<and> wf_json (en_state e)"
    if "map_of ?old k = Some p" "map_of ?new k = Some e" for k p e
    using assms mem that by blast
  have f: "?f k = [] \<longleftrightarrow> ?ok k" for k
    using wf [of k]
    by (cases "map_of ?old k"; cases "map_of ?new k")
       (simp_all add: entity_changes_def fields_of_def field_diffs_Nil_iff)
  have "?l \<longleftrightarrow> (\<forall>k \<in> set (map fst ?old @ map fst ?new). ?f k = [])"
    by (simp add: cs_changes_compare sort_key_Nil_iff raw_changes_eq Let_def ball_Un)
  also have "\<dots> \<longleftrightarrow> (\<forall>k. ?f k = [])"
  proof -
    have "?f k = []" if "k \<notin> set (map fst ?old @ map fst ?new)" for k
    proof -
      from that have "map_of ?old k = None" "map_of ?new k = None"
        by (simp_all add: map_of_eq_None_iff)
      then show ?thesis by (simp add: entity_changes_def)
    qed
    then show ?thesis by blast
  qed
  finally show ?thesis by (simp only: f)
qed

end
