(* ===== verification/Atomic_Files.thy ===== *)
theory Atomic_Files
  imports ITP_Prelude
begin

text \<open>
  \<open>atomic_write\<close> and \<open>atomic_remove\<close> of \<open>collectors/writer.py\<close>: every persistent
  artefact of the platform goes through them. A disk maps paths to contents; the temporary
  files of \<open>mkstemp\<close> are numbered by the count of file operations so far, so a new one never
  exists already. Which operation fails, and where inside it, is decided by an arbitrary
  schedule of faults.
\<close>

datatype path = Path string | Temp nat

datatype 'c fault = No_Fault | Fail_Create | Fail_Write 'c | Fail_Sync | Fail_Replace

record 'c disk =
  files :: "path \<Rightarrow> 'c option"
  ticks :: nat

type_synonym 'c schedule = "nat \<Rightarrow> 'c fault"

definition io_error :: py_exn where
  "io_error = OSError ''input/output error''"

text \<open>
  The body writes and synchronises the temporary file, then renames it over the target; the
  \<open>finally\<close> clause unlinks the temporary file if it is still there.
\<close>

definition unlink_if :: "path \<Rightarrow> (path \<Rightarrow> 'c option) \<Rightarrow> (path \<Rightarrow> 'c option)" where
  "unlink_if t m = (if m t \<noteq> None then m(t := None) else m)"

definition atomic_write :: "'c schedule \<Rightarrow> string \<Rightarrow> 'c \<Rightarrow> 'c disk \<Rightarrow> 'c disk \<times> unit res" where
  "atomic_write F p c d =
     (let t = Temp (ticks d); m = files d; d' = d\<lparr>ticks := Suc (ticks d)\<rparr> in
      case F (ticks d) of
        Fail_Create \<Rightarrow> (d', Inl io_error)
      | Fail_Write part \<Rightarrow> (d'\<lparr>files := unlink_if t (m(t \<mapsto> part))\<rparr>, Inl io_error)
      | Fail_Sync \<Rightarrow> (d'\<lparr>files := unlink_if t (m(t \<mapsto> c))\<rparr>, Inl io_error)
      | Fail_Replace \<Rightarrow> (d'\<lparr>files := unlink_if t (m(t \<mapsto> c))\<rparr>, Inl io_error)
      | No_Fault \<Rightarrow> (d'\<lparr>files := unlink_if t ((m(t \<mapsto> c))(Path p \<mapsto> c, t := None))\<rparr>, Inr ()))"

text \<open>A missing file is not an error; a failed directory sync is, after the unlink.\<close>

definition atomic_remove :: "'c schedule \<Rightarrow> string \<Rightarrow> 'c disk \<Rightarrow> 'c disk \<times> unit res" where
  "atomic_remove F p d =
     (let m = files d; d' = d\<lparr>ticks := Suc (ticks d)\<rparr> in
      if m (Path p) = None then (d', Inr ())
      else case F (ticks d) of
        No_Fault \<Rightarrow> (d'\<lparr>files := m(Path p := None)\<rparr>, Inr ())
      | Fail_Sync \<Rightarrow> (d'\<lparr>files := m(Path p := None)\<rparr>, Inl io_error)
      | _ \<Rightarrow> (d', Inl io_error))"

definition clean_disk :: "'c disk \<Rightarrow> bool" where
  "clean_disk d = (\<forall>n. files d (Temp n) = None)"

lemma atomic_write_cases:
  assumes "clean_disk d"
  shows "atomic_write F p c d =
     (if F (ticks d) = No_Fault
      then (d\<lparr>ticks := Suc (ticks d), files := (files d)(Path p \<mapsto> c)\<rparr>, Inr ())
      else (d\<lparr>ticks := Suc (ticks d)\<rparr>, Inl io_error))"
proof -
  have t: "files d (Temp (ticks d)) = None" using assms by (simp add: clean_disk_def)
  then have "(files d)(Temp (ticks d) := None) = files d" by (simp add: fun_upd_idem)
  moreover have "(files d)(Path p \<mapsto> c, Temp (ticks d) := None) = (files d)(Path p \<mapsto> c)"
    by (rule ext) (simp add: t)
  moreover have "(files d)(Temp (ticks d) \<mapsto> c, Path p \<mapsto> c, Temp (ticks d) := None)
      = (files d)(Path p \<mapsto> c)"
    by (rule ext) (simp add: t)
  ultimately show ?thesis
    by (auto simp: atomic_write_def Let_def unlink_if_def split: fault.splits)
qed

lemma atomic_write_clean: "clean_disk d \<Longrightarrow> clean_disk (fst (atomic_write F p c d))"
  by (simp add: atomic_write_cases) (simp add: clean_disk_def)

lemma atomic_remove_clean: "clean_disk d \<Longrightarrow> clean_disk (fst (atomic_remove F p d))"
  by (auto simp: atomic_remove_def clean_disk_def Let_def split: fault.splits)

text \<open>
  The contract the stores rely on: all or nothing at the target, nothing else touched, no
  temporary file left behind.
\<close>

lemma atomic_write_all_or_nothing_aux:
  assumes "clean_disk d" and "atomic_write F p c d = (d', r)"
  shows "files d' (Path p) = (if r = Inr () then Some c else files d (Path p))"
    and "q \<noteq> Path p \<Longrightarrow> files d' q = files d q"
    and "clean_disk d'"
  using assms atomic_write_clean [OF assms(1), of F p c]
  by (auto simp: atomic_write_cases split: if_splits)

text \<open>The files the platform's stores read back: a JSON document, or bytes that are none.\<close>

datatype content = Doc json | Malformed

type_synonym store_disk = "content disk"

section \<open>Sequencing\<close>

text \<open>Statements that change the disk and may raise.\<close>

definition then_do :: "'c disk \<times> unit res \<Rightarrow> ('c disk \<Rightarrow> 'c disk \<times> unit res) \<Rightarrow> 'c disk \<times> unit res" where
  "then_do r f = (case r of (d, Inl e) \<Rightarrow> (d, Inl e) | (d, Inr _) \<Rightarrow> f d)"

fun do_all :: "('a \<Rightarrow> 'c disk \<Rightarrow> 'c disk \<times> unit res) \<Rightarrow> 'a list \<Rightarrow> 'c disk \<Rightarrow> 'c disk \<times> unit res" where
  "do_all f [] d = (d, Inr ())"
| "do_all f (x # xs) d = then_do (f x d) (do_all f xs)"

lemma then_do_simps [simp]:
  "then_do (d, Inl e) f = (d, Inl e)"
  "then_do (d, Inr u) f = f d"
  by (simp_all add: then_do_def)

lemma do_all_invariant:
  assumes "\<And>x d. x \<in> set xs \<Longrightarrow> I d \<Longrightarrow> I (fst (f x d))" and "I d"
  shows "I (fst (do_all f xs d))"
  using assms
proof (induction xs arbitrary: d)
  case (Cons x xs)
  obtain d1 r where r: "f x d = (d1, r)" by (cases "f x d")
  then have "I d1" using Cons.prems(1) [of x d] Cons.prems(2) by simp
  with r Cons show ?case by (cases r) auto
qed simp

end
