(* ===== verification/State_History_Store.thy ===== *)
theory State_History_Store
  imports State_History_Engine Atomic_Files
begin

text \<open>
  \<open>analysis/state_history/store.py\<close>: the storage interface as a record of operations, and
  \<open>FileStateStore\<close>, which keeps snapshots, change sets, latest pointers and run results
  as JSON files. A file holds a document or text that is not JSON.
\<close>

section \<open>The interface\<close>

record 's state_store =
  st_latest :: "'s \<Rightarrow> string \<Rightarrow> string \<Rightarrow> snapshot option res"
  st_capture_result :: "'s \<Rightarrow> string \<Rightarrow> capture_result option res"
  st_commit_batch :: "'s \<Rightarrow> (snapshot \<times> change_set) list \<Rightarrow> capture_result option \<Rightarrow> 's \<times> unit res"

section \<open>The filesystem store\<close>

record file_store =
  fs_root :: string
  fs_digest :: "string \<Rightarrow> string"
  fs_faults :: "content schedule"

definition scope_id :: "file_store \<Rightarrow> string \<Rightarrow> string \<Rightarrow> string" where
  "scope_id st site dmn = take 24 (fs_digest st (dumps (JList [JStr site, JStr dmn])))"

definition snapshot_path :: "file_store \<Rightarrow> string \<Rightarrow> string" where
  "snapshot_path st sid = fs_root st @ ''/snapshots/'' @ sid @ ''.json''"

definition change_set_path :: "file_store \<Rightarrow> string \<Rightarrow> string" where
  "change_set_path st cid = fs_root st @ ''/changes/'' @ cid @ ''.json''"

definition latest_path :: "file_store \<Rightarrow> string \<Rightarrow> string \<Rightarrow> string" where
  "latest_path st site dmn = fs_root st @ ''/latest/'' @ scope_id st site dmn @ ''.json''"

definition capture_result_path :: "file_store \<Rightarrow> string \<Rightarrow> string" where
  "capture_result_path st rid = fs_root st @ ''/runs/'' @ take 24 (fs_digest st rid) @ ''.json''"

definition bad_store :: py_exn where
  "bad_store = ValueError ''invalid filesystem state store''"

text \<open>
  \<open>latest\<close>: an unreadable pointer or snapshot is a \<open>ValueError\<close>, as is a pointer or a
  snapshot of another scope; a pointer that is not a mapping raises \<open>AttributeError\<close>.
\<close>

definition read_pointer :: "file_store \<Rightarrow> store_disk \<Rightarrow> json \<Rightarrow> string \<Rightarrow> string \<Rightarrow> snapshot option res" where
  "read_pointer st d ref site dmn = (case ref of
     JObj r \<Rightarrow>
       (if \<not> (py_eq (dget r ''site_id'') (JStr site) \<and> py_eq (dget r ''domain'') (JStr dmn)) then
          Inl (ValueError ''latest state pointer scope does not match'')
        else case map_of r ''snapshot_id'' of None \<Rightarrow> Inl bad_store
        | Some sid \<Rightarrow> (case files d (Path (snapshot_path st (py_str sid))) of
            Some (Doc payload) \<Rightarrow>
              and_then (snapshot_from_dict payload) (\<lambda>s.
                if \<not> py_eq (JStr (sn_snapshot_id s)) sid \<or> sn_site_id s \<noteq> site \<or> sn_domain s \<noteq> dmn
                then Inl (ValueError ''persisted latest snapshot identity does not match'')
                else Inr (Some s))
          | _ \<Rightarrow> Inl bad_store))
   | _ \<Rightarrow> Inl (AttributeError ''object has no attribute get''))"

definition file_latest :: "file_store \<Rightarrow> store_disk \<Rightarrow> string \<Rightarrow> string \<Rightarrow> snapshot option res" where
  "file_latest st d site dmn = (case files d (Path (latest_path st site dmn)) of
     None \<Rightarrow> Inr None
   | Some Malformed \<Rightarrow> Inl bad_store
   | Some (Doc ref) \<Rightarrow> read_pointer st d ref site dmn)"

definition write_doc :: "file_store \<Rightarrow> string \<Rightarrow> json \<Rightarrow> store_disk \<Rightarrow> store_disk \<times> unit res" where
  "write_doc st p v d = atomic_write (fs_faults st) p (Doc v) d"

definition write_snapshot :: "file_store \<Rightarrow> snapshot \<Rightarrow> store_disk \<Rightarrow> store_disk \<times> unit res" where
  "write_snapshot st s = write_doc st (snapshot_path st (sn_snapshot_id s)) (JObj (snapshot_to_dict s))"

definition write_change_set :: "file_store \<Rightarrow> change_set \<Rightarrow> store_disk \<Rightarrow> store_disk \<times> unit res" where
  "write_change_set st c =
     write_doc st (change_set_path st (cs_change_set_id c)) (JObj (change_set_to_dict c))"

definition pointer_doc :: "snapshot \<Rightarrow> json" where
  "pointer_doc s = JObj [(''schema_version'', JInt 1), (''snapshot_id'', JStr (sn_snapshot_id s)),
     (''site_id'', JStr (sn_site_id s)), (''domain'', JStr (sn_domain s))]"

definition set_latest :: "file_store \<Rightarrow> snapshot \<Rightarrow> store_disk \<Rightarrow> store_disk \<times> unit res" where
  "set_latest st s = write_doc st (latest_path st (sn_site_id s) (sn_domain s)) (pointer_doc s)"

definition bad_capture :: py_exn where
  "bad_capture = ValueError ''invalid persisted capture result''"

definition file_capture_result :: "file_store \<Rightarrow> store_disk \<Rightarrow> string \<Rightarrow> capture_result option res" where
  "file_capture_result st d rid = (case files d (Path (capture_result_path st rid)) of
     None \<Rightarrow> Inr None
   | Some Malformed \<Rightarrow> Inl bad_capture
   | Some (Doc v) \<Rightarrow>
       and_then (capture_from_dict v) (\<lambda>r.
         if cr_run_id r \<noteq> rid then
           Inl (ValueError ''persisted capture result run identity does not match'')
         else Inr (Some r)))"

definition write_capture_result :: "file_store \<Rightarrow> capture_result \<Rightarrow> store_disk \<Rightarrow> store_disk \<times> unit res" where
  "write_capture_result st r d = (case capture_to_dict r of
     Inl e \<Rightarrow> (d, Inl e)
   | Inr doc \<Rightarrow> write_doc st (capture_result_path st (cr_run_id r)) (JObj doc) d)"

subsection \<open>Committing a batch\<close>

definition write_entry :: "file_store \<Rightarrow> snapshot \<times> change_set \<Rightarrow> store_disk \<Rightarrow> store_disk \<times> unit res" where
  "write_entry st = (\<lambda>(s, c) d. then_do (write_snapshot st s d) (write_change_set st c))"

text \<open>
  The \<open>try\<close> body: each pointer is backed up before it is replaced. The backups are returned
  also when a write fails, for the handler to restore.
\<close>

type_synonym backups = "(string \<times> content option) list"

fun publish :: "file_store \<Rightarrow> (snapshot \<times> change_set) list \<Rightarrow> backups \<Rightarrow> store_disk
    \<Rightarrow> (backups \<times> store_disk) \<times> unit res" where
  "publish st [] bs d = ((bs, d), Inr ())"
| "publish st ((s, c) # rest) bs d =
     (let p = latest_path st (sn_site_id s) (sn_domain s);
          bs' = AList.update p (files d (Path p)) bs
      in case set_latest st s d of
           (d', Inl e) \<Rightarrow> ((bs', d'), Inl e)
         | (d', Inr _) \<Rightarrow> publish st rest bs' d')"

fun restore :: "file_store \<Rightarrow> backups \<Rightarrow> store_disk \<Rightarrow> store_disk \<times> unit res" where
  "restore st [] d = (d, Inr ())"
| "restore st ((p, saved) # bs) d =
     then_do (case saved of
         None \<Rightarrow> atomic_remove (fs_faults st) p d
       | Some c \<Rightarrow> atomic_write (fs_faults st) p c d) (restore st bs)"

definition roll_back :: "file_store \<Rightarrow> backups \<Rightarrow> py_exn \<Rightarrow> store_disk \<Rightarrow> store_disk \<times> unit res" where
  "roll_back st bs e d = then_do (restore st bs d) (\<lambda>d'. (d', Inl e))"

definition check_batch :: "(snapshot \<times> change_set) list \<Rightarrow> unit res" where
  "check_batch entries =
     (if \<not> distinct (map (\<lambda>(s, c). (sn_site_id s, sn_domain s)) entries) then
        Inl (ValueError ''capture transaction contains duplicate scope authority'')
      else if list_ex (\<lambda>(s, c). cs_current_snapshot_id c \<noteq> sn_snapshot_id s \<or>
            (cs_site_id c, cs_domain c) \<noteq> (sn_site_id s, sn_domain s)) entries then
        Inl (ValueError ''capture transaction snapshot/change-set mismatch'')
      else Inr ())"

definition file_commit_batch :: "file_store \<Rightarrow> store_disk \<Rightarrow> (snapshot \<times> change_set) list
    \<Rightarrow> capture_result option \<Rightarrow> store_disk \<times> unit res" where
  "file_commit_batch st d entries result = (case check_batch entries of
     Inl e \<Rightarrow> (d, Inl e)
   | Inr _ \<Rightarrow>
     (case do_all (write_entry st) entries d of
        (d1, Inl e) \<Rightarrow> (d1, Inl e)
      | (d1, Inr _) \<Rightarrow>
        (case publish st entries [] d1 of
           ((bs, d2), Inl e) \<Rightarrow> roll_back st bs e d2
         | ((bs, d2), Inr _) \<Rightarrow>
           (case result of
              None \<Rightarrow> (d2, Inr ())
            | Some r \<Rightarrow> (case write_capture_result st r d2 of
                (d3, Inl e) \<Rightarrow> roll_back st bs e d3
              | (d3, Inr _) \<Rightarrow> (d3, Inr ()))))))"

definition file_state_store :: "file_store \<Rightarrow> store_disk state_store" where
  "file_state_store st =
     \<lparr>st_latest = file_latest st, st_capture_result = file_capture_result st,
      st_commit_batch = file_commit_batch st\<rparr>"

section \<open>Paths\<close>

text \<open>The four directories do not overlap.\<close>

lemma paths_distinct [simp]:
  "snapshot_path st a \<noteq> latest_path st b c" "latest_path st b c \<noteq> snapshot_path st a"
  "snapshot_path st a \<noteq> capture_result_path st e" "capture_result_path st e \<noteq> snapshot_path st a"
  "change_set_path st f \<noteq> latest_path st b c" "latest_path st b c \<noteq> change_set_path st f"
  "change_set_path st f \<noteq> snapshot_path st a" "snapshot_path st a \<noteq> change_set_path st f"
  "change_set_path st f \<noteq> capture_result_path st e" "capture_result_path st e \<noteq> change_set_path st f"
  "latest_path st b c \<noteq> capture_result_path st e" "capture_result_path st e \<noteq> latest_path st b c"
  by (simp_all add: snapshot_path_def latest_path_def capture_result_path_def change_set_path_def)

lemma snapshot_path_inj [simp]: "snapshot_path st a = snapshot_path st b \<longleftrightarrow> a = b"
  by (simp add: snapshot_path_def)

section \<open>Writes\<close>

lemma write_doc_cases:
  assumes "clean_disk d" and "write_doc st p v d = (d', r)"
  shows "clean_disk d'"
    and "r = Inr () \<or> r = Inl io_error"
    and "files d' = (if r = Inr () then (files d)(Path p \<mapsto> Doc v) else files d)"
  using assms atomic_write_clean [OF assms(1), of "fs_faults st" p "Doc v"]
  by (auto simp: write_doc_def atomic_write_cases split: if_splits)

subsection \<open>Immutable documents\<close>

definition doc_path :: "file_store \<Rightarrow> snapshot \<times> change_set \<Rightarrow> path set" where
  "doc_path st = (\<lambda>(s, c). {Path (snapshot_path st (sn_snapshot_id s)),
     Path (change_set_path st (cs_change_set_id c))})"

definition snapshot_doc :: "snapshot \<Rightarrow> content" where
  "snapshot_doc s = Doc (JObj (snapshot_to_dict s))"

text \<open>What writing immutable documents may do to the disk.\<close>

definition entries_step :: "file_store \<Rightarrow> (snapshot \<times> change_set) set \<Rightarrow> store_disk \<Rightarrow> store_disk \<Rightarrow> bool" where
  "entries_step st E d d' = (clean_disk d' \<and>
     (\<forall>q. q \<notin> (\<Union>x \<in> E. doc_path st x) \<longrightarrow> files d' q = files d q) \<and>
     (\<forall>sid. files d' (Path (snapshot_path st sid)) = files d (Path (snapshot_path st sid)) \<or>
        (\<exists>s c. (s, c) \<in> E \<and> sn_snapshot_id s = sid \<and>
           files d' (Path (snapshot_path st sid)) = Some (snapshot_doc s))))"

lemma entries_step_refl: "clean_disk d \<Longrightarrow> entries_step st E d d"
  by (simp add: entries_step_def)

lemma entries_step_trans:
  assumes "entries_step st E d d1" and "entries_step st E d1 d2"
  shows "entries_step st E d d2"
  unfolding entries_step_def
proof (intro conjI allI impI)
  show "clean_disk d2" using assms by (simp add: entries_step_def)
  show "files d2 q = files d q" if "q \<notin> (\<Union>x \<in> E. doc_path st x)" for q
    using assms that by (simp add: entries_step_def)
  show "files d2 (Path (snapshot_path st sid)) = files d (Path (snapshot_path st sid)) \<or>
     (\<exists>s c. (s, c) \<in> E \<and> sn_snapshot_id s = sid \<and>
        files d2 (Path (snapshot_path st sid)) = Some (snapshot_doc s))" for sid
    using assms unfolding entries_step_def by metis
qed

lemma entries_step_mono: "entries_step st E d d' \<Longrightarrow> E \<subseteq> E' \<Longrightarrow> entries_step st E' d d'"
  unfolding entries_step_def by blast

lemma write_entry_effect:
  assumes "clean_disk d" and "write_entry st (s, c) d = (d', r)"
  shows "entries_step st {(s, c)} d d'"
    and "r = Inr () \<Longrightarrow> files d' (Path (snapshot_path st (sn_snapshot_id s))) = Some (snapshot_doc s)"
proof -
  obtain d1 r1 where 1: "write_snapshot st s d = (d1, r1)" by (cases "write_snapshot st s d")
  note w1 = write_doc_cases [OF assms(1) 1 [unfolded write_snapshot_def]]
  obtain d2 r2 where 2: "write_change_set st c d1 = (d2, r2)" by (cases "write_change_set st c d1")
  note w2 = write_doc_cases [OF w1(1) 2 [unfolded write_change_set_def]]
  have out: "(d', r) = (if r1 = Inr () then (d2, r2) else (d1, r1))"
    using assms(2) w1(2) by (auto simp: write_entry_def 1 2)
  then show "entries_step st {(s, c)} d d'"
    using w1(1,3) w2(1,3)
    by (auto simp: entries_step_def doc_path_def snapshot_doc_def split: if_splits)
  from out show "r = Inr () \<Longrightarrow> files d' (Path (snapshot_path st (sn_snapshot_id s))) = Some (snapshot_doc s)"
    using w1(2,3) w2(3) by (auto simp: snapshot_doc_def split: if_splits)
qed

lemma entries_step_clean: "entries_step st E d d' \<Longrightarrow> clean_disk d'"
  by (simp add: entries_step_def)

lemma write_entries_effect:
  "clean_disk d \<Longrightarrow> do_all (write_entry st) es d = (d', r) \<Longrightarrow> entries_step st (set es) d d'"
proof (induction es arbitrary: d)
  case Nil
  then show ?case by (auto intro: entries_step_refl)
next
  case (Cons x es)
  obtain s c where x: "x = (s, c)" by (cases x)
  obtain d1 r1 where 1: "write_entry st (s, c) d = (d1, r1)" by (cases "write_entry st (s, c) d")
  have step: "entries_step st (set (x # es)) d d1"
    by (rule entries_step_mono [OF write_entry_effect(1) [OF Cons.prems(1) 1]]) (simp add: x)
  show ?case
  proof (cases r1)
    case (Inl e)
    with Cons.prems(2) x 1 step show ?thesis by simp
  next
    case (Inr u)
    with Cons.prems(2) x 1 have "do_all (write_entry st) es d1 = (d', r)" by simp
    with Cons.IH [OF entries_step_clean [OF step]] have "entries_step st (set es) d1 d'" by blast
    then show ?thesis by (intro entries_step_trans [OF step]) (erule entries_step_mono, auto)
  qed
qed

text \<open>Within one batch two different snapshots never share an identifier.\<close>

definition ids_consistent :: "(snapshot \<times> change_set) list \<Rightarrow> bool" where
  "ids_consistent es = (\<forall>x \<in> set es. \<forall>y \<in> set es.
     sn_snapshot_id (fst x) = sn_snapshot_id (fst y) \<longrightarrow> fst x = fst y)"

lemma ids_consistentD:
  "ids_consistent es \<Longrightarrow> (s, c) \<in> set es \<Longrightarrow> (s', c') \<in> set es \<Longrightarrow>
   sn_snapshot_id s = sn_snapshot_id s' \<Longrightarrow> s = s'"
  by (fastforce simp: ids_consistent_def)

lemma write_entries_written:
  assumes "clean_disk d" and "do_all (write_entry st) es d = (d', Inr ())"
    and "ids_consistent es" and "(s, c) \<in> set es"
  shows "files d' (Path (snapshot_path st (sn_snapshot_id s))) = Some (snapshot_doc s)"
  using assms
proof (induction es arbitrary: d)
  case (Cons x es)
  obtain s0 c0 where x: "x = (s0, c0)" by (cases x)
  obtain d1 r1 where 1: "write_entry st (s0, c0) d = (d1, r1)" by (cases "write_entry st (s0, c0) d")
  with Cons.prems(2) x have r1: "r1 = Inr ()" and rest: "do_all (write_entry st) es d1 = (d', Inr ())"
    by (cases r1; auto)+
  have clean: "clean_disk d1"
    by (rule entries_step_clean [OF write_entry_effect(1) [OF Cons.prems(1) 1]])
  have cons: "ids_consistent es" using Cons.prems(3) by (auto simp: ids_consistent_def)
  show ?case
  proof (cases "(s, c) \<in> set es")
    case True
    then show ?thesis by (rule Cons.IH [OF clean rest cons])
  next
    case False
    with Cons.prems(4) x have "s = s0" by simp
    with 1 r1 have here: "files d1 (Path (snapshot_path st (sn_snapshot_id s))) = Some (snapshot_doc s)"
      using write_entry_effect(2) [OF Cons.prems(1) 1] by simp
    have "entries_step st (set es) d1 d'" by (rule write_entries_effect [OF clean rest])
    then consider
      "files d' (Path (snapshot_path st (sn_snapshot_id s))) = files d1 (Path (snapshot_path st (sn_snapshot_id s)))"
      | s' c' where "(s', c') \<in> set es" "sn_snapshot_id s' = sn_snapshot_id s"
        "files d' (Path (snapshot_path st (sn_snapshot_id s))) = Some (snapshot_doc s')"
      unfolding entries_step_def by metis
    then show ?thesis
    proof cases
      case 1
      with here show ?thesis by simp
    next
      case 2
      moreover have "s = s'"
        using ids_consistentD [OF Cons.prems(3,4), of s' c'] 2(1,2) by simp
      ultimately show ?thesis by simp
    qed
  qed
qed simp

subsection \<open>Pointers\<close>

definition entry_path :: "file_store \<Rightarrow> snapshot \<times> change_set \<Rightarrow> string" where
  "entry_path st = (\<lambda>(s, c). latest_path st (sn_site_id s) (sn_domain s))"

definition pointer_file :: "file_store \<Rightarrow> snapshot \<times> change_set \<Rightarrow> path \<times> content" where
  "pointer_file st x = (Path (entry_path st x), Doc (pointer_doc (fst x)))"

definition backup_of :: "file_store \<Rightarrow> store_disk \<Rightarrow> snapshot \<times> change_set \<Rightarrow> string \<times> content option" where
  "backup_of st d x = (entry_path st x, files d (Path (entry_path st x)))"

lemma map_of_pointer_files_None:
  "p \<notin> entry_path st ` set es \<Longrightarrow> map_of (rev (map (pointer_file st) es)) (Path p) = None"
  by (auto simp: map_of_eq_None_iff pointer_file_def)

text \<open>A write already performed has failed.\<close>

definition faulted :: "file_store \<Rightarrow> store_disk \<Rightarrow> bool" where
  "faulted st d = (\<exists>n < ticks d. fs_faults st n \<noteq> No_Fault)"

lemma write_doc_faulted:
  "clean_disk d \<Longrightarrow> write_doc st p v d = (d', Inl e) \<Longrightarrow> faulted st d' \<and> e = io_error"
  by (auto simp: write_doc_def atomic_write_cases faulted_def split: if_splits)

text \<open>
  \<open>publish\<close> replaces the first \<open>k\<close> pointers; it stops there when the next write fails,
  with the pointer it failed on backed up as well.
\<close>

lemma publish_shape:
  assumes "clean_disk d" and "publish st es bs d = ((bs', d'), r)"
    and "distinct (map (entry_path st) es)" and "fst ` set bs \<inter> entry_path st ` set es = {}"
  shows "\<exists>k m. k \<le> m \<and> m \<le> length es \<and> clean_disk d' \<and>
     files d' = files d ++ map_of (rev (map (pointer_file st) (take k es))) \<and>
     bs' = bs @ map (backup_of st d) (take m es) \<and>
     (r = Inr () \<and> k = length es \<or> r = Inl io_error \<and> faulted st d')"
  using assms
proof (induction es arbitrary: bs d)
  case Nil
  then show ?case by auto
next
  case (Cons x es)
  obtain s c where x: "x = (s, c)" by (cases x)
  let ?p = "entry_path st x"
  have up: "AList.update ?p v bs = bs @ [(?p, v)]" for v
    using Cons.prems(4) by (intro update_append) auto
  obtain d1 r1 where 1: "set_latest st s d = (d1, r1)" by (cases "set_latest st s d")
  note w = write_doc_cases [OF Cons.prems(1) 1 [unfolded set_latest_def]]
  show ?case
  proof (cases r1)
    case (Inl e)
    with Cons.prems(2) x 1 have "bs' = bs @ [backup_of st d x]" "d' = d1" "r = Inl e"
      by (auto simp: Let_def entry_path_def backup_of_def up [unfolded x entry_path_def, simplified])
    moreover from Inl 1 have "faulted st d1 \<and> e = io_error"
      unfolding set_latest_def using write_doc_faulted [OF Cons.prems(1)] by blast
    ultimately show ?thesis using w Inl by (intro exI [of _ 0] exI [of _ 1]) auto
  next
    case (Inr u)
    have f1: "files d1 = (files d)(Path ?p \<mapsto> Doc (pointer_doc s))"
      using w(3) Inr by (simp add: x entry_path_def)
    let ?bs = "bs @ [backup_of st d x]"
    have rest: "publish st es ?bs d1 = ((bs', d'), r)"
      using Cons.prems(2) x 1 Inr
      by (simp add: Let_def entry_path_def backup_of_def up [unfolded x entry_path_def, simplified])
    have "distinct (map (entry_path st) es)" "fst ` set ?bs \<inter> entry_path st ` set es = {}"
      using Cons.prems(3,4) by (auto simp: backup_of_def)
    from Cons.IH [OF w(1) rest this] obtain k m where km: "k \<le> m" "m \<le> length es" "clean_disk d'"
      "files d' = files d1 ++ map_of (rev (map (pointer_file st) (take k es)))"
      "bs' = ?bs @ map (backup_of st d1) (take m es)"
      "r = Inr () \<and> k = length es \<or> r = Inl io_error \<and> faulted st d'" by blast
    have "backup_of st d1 y = backup_of st d y" if "y \<in> set es" for y
    proof -
      have "entry_path st y \<noteq> ?p"
        using that Cons.prems(3) by (metis distinct.simps(2) image_eqI list.set_map list.simps(9))
      then show ?thesis by (simp add: backup_of_def f1)
    qed
    then have "map (backup_of st d1) (take m es) = map (backup_of st d) (take m es)"
      by (auto dest: in_set_takeD)
    moreover have "files d1 = files d ++ map_of [pointer_file st x]"
      by (simp add: f1 pointer_file_def x)
    ultimately show ?thesis
      using km by (intro exI [of _ "Suc k"] exI [of _ "Suc m"]) (auto simp: map_add_assoc)
  qed
qed

lemma restore_no_faults:
  assumes "\<forall>n \<ge> ticks d. fs_faults st n = No_Fault" and "clean_disk d" and "distinct (map fst bs)"
  shows "\<exists>d'. restore st bs d = (d', Inr ()) \<and>
     (\<forall>q. files d' q = (case q of Temp n \<Rightarrow> None
        | Path p \<Rightarrow> (case map_of bs p of Some saved \<Rightarrow> saved | None \<Rightarrow> files d q)))"
  using assms
proof (induction bs arbitrary: d)
  case Nil
  then show ?case by (auto simp: clean_disk_def split: path.splits)
next
  case (Cons b bs)
  obtain p saved where b: "b = (p, saved)" by (cases b)
  let ?op = "case saved of None \<Rightarrow> atomic_remove (fs_faults st) p d
       | Some c \<Rightarrow> atomic_write (fs_faults st) p c d"
  have now: "fs_faults st (ticks d) = No_Fault" using Cons.prems(1) by simp
  obtain d1 where d1: "?op = (d1, Inr ())" "clean_disk d1" "ticks d1 = Suc (ticks d)"
    "files d1 = (files d)(Path p := saved)"
  proof (cases saved)
    case None
    with now Cons.prems(2) show ?thesis
      by (intro that [of "fst (atomic_remove (fs_faults st) p d)"])
         (auto simp: atomic_remove_def Let_def clean_disk_def fun_upd_idem)
  next
    case (Some c)
    with now Cons.prems(2) show ?thesis
      by (intro that [of "fst (atomic_write (fs_faults st) p c d)"])
         (auto simp: atomic_write_cases clean_disk_def)
  qed
  have "\<forall>n \<ge> ticks d1. fs_faults st n = No_Fault" using Cons.prems(1) d1(3) by simp
  moreover have "distinct (map fst bs)" "p \<notin> fst ` set bs" using Cons.prems(3) b by auto
  ultimately obtain d' where d': "restore st bs d1 = (d', Inr ())"
    "\<forall>q. files d' q = (case q of Temp n \<Rightarrow> None
        | Path p \<Rightarrow> (case map_of bs p of Some saved \<Rightarrow> saved | None \<Rightarrow> files d1 q))"
    using Cons.IH [OF _ d1(2)] by blast
  have "map_of bs p = None" using \<open>p \<notin> fst ` set bs\<close> by (simp add: map_of_eq_None_iff)
  with d' d1 b show ?case by (auto split: path.splits option.splits)
qed

text \<open>Without any assumption on faults, restoring only ever puts a backup back.\<close>

lemma restore_frame:
  "clean_disk d \<Longrightarrow> restore st bs d = (d', r) \<Longrightarrow> clean_disk d' \<and>
   (\<forall>q. files d' q = files d q \<or> (\<exists>p saved. q = Path p \<and> (p, saved) \<in> set bs \<and> files d' q = saved))"
proof (induction bs arbitrary: d)
  case (Cons b bs)
  obtain p saved where b: "b = (p, saved)" by (cases b)
  let ?op = "case saved of None \<Rightarrow> atomic_remove (fs_faults st) p d
       | Some c \<Rightarrow> atomic_write (fs_faults st) p c d"
  obtain d1 r1 where 1: "?op = (d1, r1)" by (cases ?op)
  have d1: "clean_disk d1 \<and> (\<forall>q. files d1 q = files d q \<or> q = Path p \<and> files d1 q = saved)"
  proof (cases saved)
    case None
    with 1 have "d1 = fst (atomic_remove (fs_faults st) p d)" by simp
    then show ?thesis using Cons.prems(1) None
      by (auto simp: atomic_remove_def Let_def clean_disk_def split: fault.splits)
  next
    case (Some c)
    with 1 have "d1 = fst (atomic_write (fs_faults st) p c d)" by simp
    then show ?thesis using Cons.prems(1) Some
      by (auto simp: atomic_write_cases clean_disk_def)
  qed
  show ?case
  proof (cases r1)
    case (Inl e)
    with Cons.prems(2) b 1 have "d' = d1" by simp
    with d1 b show ?thesis by auto
  next
    case (Inr u)
    with Cons.prems(2) b 1 have "restore st bs d1 = (d', r)" by simp
    with Cons.IH d1 have "clean_disk d' \<and> (\<forall>q. files d' q = files d1 q \<or>
       (\<exists>p saved. q = Path p \<and> (p, saved) \<in> set bs \<and> files d' q = saved))" by blast
    with d1 b show ?thesis by (metis list.set_intros(1) list.set_intros(2))
  qed
qed simp

section \<open>Committing: what holds afterwards\<close>

definition one_fault :: "content schedule \<Rightarrow> bool" where
  "one_fault F = (\<forall>m n. F m \<noteq> No_Fault \<longrightarrow> F n \<noteq> No_Fault \<longrightarrow> m = n)"

definition encodable :: "capture_result option \<Rightarrow> bool" where
  "encodable r = (case r of None \<Rightarrow> True | Some x \<Rightarrow> (\<exists>d. capture_to_dict x = Inr d))"

lemma one_fault_after: "one_fault (fs_faults st) \<Longrightarrow> faulted st d \<Longrightarrow> \<forall>n \<ge> ticks d. fs_faults st n = No_Fault"
  unfolding one_fault_def faulted_def by (metis leD)

text \<open>
  Rolling back after \<open>publish\<close> (and after a failed run-result write) leads to the files
  that were there before the first pointer was touched.
\<close>

lemma roll_back_files:
  assumes shape: "clean_disk d1" "k \<le> m" "m \<le> length es"
      "files d2 = files d1 ++ map_of (rev (map (pointer_file st) (take k es)))"
      "bs = map (backup_of st d1) (take m es)"
      "distinct (map (entry_path st) es)"
    and d2: "clean_disk d2" "\<forall>n \<ge> ticks d2. fs_faults st n = No_Fault"
  shows "\<exists>d'. roll_back st bs e d2 = (d', Inl e) \<and> files d' = files d1"
proof -
  have fstbs: "map fst bs = map (entry_path st) (take m es)"
    by (simp add: shape(5) backup_of_def)
  then have "distinct (map fst bs)"
    using shape(6) by (simp only: take_map [symmetric] distinct_take)
  from restore_no_faults [OF d2(2,1) this] obtain d' where d': "restore st bs d2 = (d', Inr ())"
    "\<forall>q. files d' q = (case q of Temp n \<Rightarrow> None
        | Path p \<Rightarrow> (case map_of bs p of Some saved \<Rightarrow> saved | None \<Rightarrow> files d2 q))" by blast
  have "files d' q = files d1 q" for q
  proof (cases q)
    case (Temp n)
    with d'(2) shape(1) show ?thesis by (simp add: clean_disk_def)
  next
    case (Path p)
    show ?thesis
    proof (cases "p \<in> entry_path st ` set (take m es)")
      case True
      then have "p \<in> fst ` set bs" using fstbs by (metis list.set_map)
      then obtain saved where sv: "map_of bs p = Some saved"
        by (metis domD dom_map_of_conv_image_fst)
      then have "(p, saved) \<in> set bs" by (rule map_of_SomeD)
      then have "saved = files d1 (Path p)" by (auto simp: shape(5) backup_of_def)
      with d'(2) Path sv show ?thesis by simp
    next
      case False
      then have "p \<notin> fst ` set bs" using fstbs by (metis list.set_map)
      then have "map_of bs p = None" by (simp add: map_of_eq_None_iff)
      moreover have "p \<notin> entry_path st ` set (take k es)"
        using False set_take_subset_set_take [OF shape(2), of es] by blast
      then have "files d2 (Path p) = files d1 (Path p)"
        by (simp add: shape(4) map_add_def map_of_pointer_files_None)
      ultimately show ?thesis using d'(2) Path by simp
    qed
  qed
  then have "files d' = files d1" ..
  with d'(1) show ?thesis by (simp add: roll_back_def)
qed

lemma commit_failure_frame:
  assumes "clean_disk d" and "one_fault (fs_faults st)" and "encodable result"
    and "distinct (map (entry_path st) es)"
    and "file_commit_batch st d es result = (d', Inl e)"
    and "q \<notin> (\<Union>x \<in> set es. doc_path st x)"
  shows "files d' q = files d q"
proof (cases "check_batch es")
  case (Inl a)
  with assms(5) show ?thesis by (simp add: file_commit_batch_def)
next
  case (Inr u)
  obtain d1 r1 where w: "do_all (write_entry st) es d = (d1, r1)"
    by (cases "do_all (write_entry st) es d")
  have step: "entries_step st (set es) d d1" by (rule write_entries_effect [OF assms(1) w])
  then have q1: "files d1 q = files d q" using assms(6) by (simp add: entries_step_def)
  show ?thesis
  proof (cases r1)
    case l: (Inl a)
    with assms(5) Inr w q1 show ?thesis by (simp add: file_commit_batch_def)
  next
    case ok: (Inr v)
    obtain bs d2 r2 where p: "publish st es [] d1 = ((bs, d2), r2)"
      by (metis prod.exhaust)
    from publish_shape [OF entries_step_clean [OF step] p assms(4)] obtain k m where km:
      "k \<le> m" "m \<le> length es" "clean_disk d2"
      "files d2 = files d1 ++ map_of (rev (map (pointer_file st) (take k es)))"
      "bs = map (backup_of st d1) (take m es)"
      "r2 = Inr () \<and> k = length es \<or> r2 = Inl io_error \<and> faulted st d2" by auto
    note undo = roll_back_files [OF entries_step_clean [OF step] km(1,2) _ km(5) assms(4)]
    note after = one_fault_after [OF assms(2)]
    have "files d' = files d1"
    proof (cases r2)
      case l: (Inl a)
      then have "\<forall>n \<ge> ticks d2. fs_faults st n = No_Fault"
        using km(6) after by blast
      from undo [OF km(4,3) this, of a] l assms(5) Inr w ok p show ?thesis
        by (auto simp: file_commit_batch_def)
    next
      case ok2: (Inr v)
      with assms(5) Inr w ok p obtain x where x: "result = Some x"
        by (cases result) (simp_all add: file_commit_batch_def)
      obtain d3 r3 where wr: "write_capture_result st x d2 = (d3, r3)"
        by (cases "write_capture_result st x d2")
      from x assms(3) obtain doc where doc: "capture_to_dict x = Inr doc"
        by (auto simp: encodable_def)
      with wr have wd: "write_doc st (capture_result_path st (cr_run_id x)) (JObj doc) d2 = (d3, r3)"
        by (simp add: write_capture_result_def)
      obtain a where r3: "r3 = Inl a"
        using assms(5) Inr w ok p ok2 x wr
        by (cases r3) (simp_all add: file_commit_batch_def)
      note w3 = write_doc_cases [OF km(3) wd]
      have "files d3 = files d2" using w3(3) r3 by simp
      moreover have "\<forall>n \<ge> ticks d3. fs_faults st n = No_Fault"
        using write_doc_faulted [OF km(3)] wd r3 after by blast
      ultimately obtain d4 where "roll_back st bs a d3 = (d4, Inl a)" "files d4 = files d1"
        using undo [of d3 a] km(4) w3(1) by auto
      with assms(5) Inr w ok p ok2 x wr r3 show ?thesis
        by (simp add: file_commit_batch_def)
    qed
    with q1 show ?thesis by simp
  qed
qed

subsection \<open>Success\<close>

definition result_files :: "file_store \<Rightarrow> capture_result option \<Rightarrow> (path \<Rightarrow> content option)
    \<Rightarrow> (path \<Rightarrow> content option)" where
  "result_files st result m = (case result of None \<Rightarrow> m
     | Some r \<Rightarrow> (case capture_to_dict r of Inl _ \<Rightarrow> m
         | Inr doc \<Rightarrow> m(Path (capture_result_path st (cr_run_id r)) \<mapsto> Doc (JObj doc))))"

lemma result_files_other:
  "(\<And>rid. q \<noteq> Path (capture_result_path st rid)) \<Longrightarrow> result_files st result m q = m q"
  by (simp add: result_files_def split: option.splits sum.splits)

lemma commit_success_steps:
  assumes "clean_disk d" and "distinct (map (entry_path st) es)"
    and "file_commit_batch st d es result = (d', Inr ())"
  shows "\<exists>d1. do_all (write_entry st) es d = (d1, Inr ()) \<and> entries_step st (set es) d d1 \<and>
     clean_disk d' \<and> encodable result \<and>
     files d' = result_files st result (files d1 ++ map_of (rev (map (pointer_file st) es)))"
proof -
  have chk: "check_batch es = Inr ()"
    using assms(3) by (cases "check_batch es") (simp_all add: file_commit_batch_def)
  obtain d1 r1 where w: "do_all (write_entry st) es d = (d1, r1)"
    by (cases "do_all (write_entry st) es d")
  with assms(3) chk have r1: "r1 = Inr ()" by (cases r1) (simp_all add: file_commit_batch_def)
  have step: "entries_step st (set es) d d1" by (rule write_entries_effect [OF assms(1) w])
  obtain bs d2 r2 where p: "publish st es [] d1 = ((bs, d2), r2)"
    by (metis prod.exhaust)
  have noerr: "snd (roll_back st bs e d0) \<noteq> Inr ()" for e d0
    by (auto simp: roll_back_def then_do_def split: prod.splits sum.splits)
  have r2: "r2 = Inr ()"
  proof (cases r2)
    case (Inl e)
    with assms(3) chk w r1 p have "roll_back st bs e d2 = (d', Inr ())"
      by (simp add: file_commit_batch_def)
    with noerr [of e d2] show ?thesis by simp
  qed simp
  from publish_shape [OF entries_step_clean [OF step] p assms(2)] r2 have d2: "clean_disk d2"
    "files d2 = files d1 ++ map_of (rev (map (pointer_file st) es))" by auto
  show ?thesis
  proof (cases result)
    case None
    with assms(3) chk w r1 p r2 have "d' = d2" by (simp add: file_commit_batch_def)
    with None w r1 step d2 show ?thesis by (auto simp: result_files_def encodable_def)
  next
    case (Some r)
    obtain d3 r3 where wr: "write_capture_result st r d2 = (d3, r3)"
      by (cases "write_capture_result st r d2")
    have r3: "r3 = Inr ()"
    proof (cases r3)
      case (Inl e)
      with assms(3) chk w r1 p r2 Some wr have "roll_back st bs e d3 = (d', Inr ())"
        by (simp add: file_commit_batch_def)
      with noerr [of e d3] show ?thesis by simp
    qed simp
    with assms(3) chk w r1 p r2 Some wr have "d' = d3" by (simp add: file_commit_batch_def)
    from wr r3 obtain doc where doc: "capture_to_dict r = Inr doc"
      and wd: "write_doc st (capture_result_path st (cr_run_id r)) (JObj doc) d2 = (d3, Inr ())"
      by (auto simp: write_capture_result_def split: sum.splits)
    note w3 = write_doc_cases [OF d2(1) wd]
    show ?thesis
      using Some w r1 step d2 w3 doc \<open>d' = d3\<close> by (auto simp: result_files_def encodable_def)
  qed
qed

lemma map_of_pointer_files:
  assumes "distinct (map (entry_path st) es)" and "(s, c) \<in> set es"
  shows "map_of (rev (map (pointer_file st) es)) (Path (entry_path st (s, c))) = Some (Doc (pointer_doc s))"
proof -
  have "distinct (map fst (rev (map (pointer_file st) es)))"
    using assms(1) by (simp add: rev_map [symmetric] comp_def pointer_file_def distinct_map inj_on_def)
  moreover have "(Path (entry_path st (s, c)), Doc (pointer_doc s)) \<in> set (rev (map (pointer_file st) es))"
    using assms(2) by (force simp: pointer_file_def)
  ultimately show ?thesis by (rule map_of_is_SomeI)
qed

lemma read_pointer_doc:
  assumes "files d (Path (snapshot_path st (sn_snapshot_id s))) = Some (snapshot_doc s)"
    and "snapshot_valid s"
  shows "read_pointer st d (pointer_doc s) (sn_site_id s) (sn_domain s) = Inr (Some s)"
  using assms
  by (simp add: read_pointer_def pointer_doc_def dget_def snapshot_doc_def snapshot_roundtrip_aux)

lemma commit_success_latest:
  assumes "clean_disk d" and "distinct (map (entry_path st) es)" and "ids_consistent es"
    and "file_commit_batch st d es result = (d', Inr ())"
    and "(s, c) \<in> set es" and "snapshot_valid s"
  shows "file_latest st d' (sn_site_id s) (sn_domain s) = Inr (Some s)"
proof -
  from commit_success_steps [OF assms(1,2,4)] obtain d1 where
    w: "do_all (write_entry st) es d = (d1, Inr ())" and
    f: "files d' = result_files st result (files d1 ++ map_of (rev (map (pointer_file st) es)))" by blast
  have "files d1 (Path (snapshot_path st (sn_snapshot_id s))) = Some (snapshot_doc s)"
    by (rule write_entries_written [OF assms(1) w assms(3,5)])
  moreover have "map_of (rev (map (pointer_file st) es)) (Path (snapshot_path st (sn_snapshot_id s))) = None"
    by (rule map_of_pointer_files_None) (auto simp: entry_path_def)
  ultimately have doc: "files d' (Path (snapshot_path st (sn_snapshot_id s))) = Some (snapshot_doc s)"
    by (simp add: f result_files_other map_add_def)
  have "files d' (Path (latest_path st (sn_site_id s) (sn_domain s))) = Some (Doc (pointer_doc s))"
    using map_of_pointer_files [OF assms(2,5)]
    by (simp add: f result_files_other map_add_def entry_path_def)
  with read_pointer_doc [OF doc assms(6)] show ?thesis by (simp add: file_latest_def)
qed

lemma commit_success_result:
  assumes "clean_disk d" and "distinct (map (entry_path st) es)"
    and "file_commit_batch st d es (Some r) = (d', Inr ())"
  shows "file_capture_result st d' (cr_run_id r) = Inr (Some r)"
proof -
  from commit_success_steps [OF assms] obtain doc m where
    "capture_to_dict r = Inr doc" "files d' = result_files st (Some r) m"
    by (auto simp: encodable_def)
  then show ?thesis
    by (simp add: file_capture_result_def result_files_def capture_roundtrip_aux)
qed

lemma doc_path_other [simp]:
  "Path (latest_path st site dmn) \<notin> doc_path st x" "Path (capture_result_path st rid) \<notin> doc_path st x"
  by (cases x; simp add: doc_path_def)+

lemma entries_step_other:
  "entries_step st E d d1 \<Longrightarrow> files d1 (Path (latest_path st site dmn)) = files d (Path (latest_path st site dmn))"
  by (simp add: entries_step_def)

lemma commit_success_other_latest:
  assumes "clean_disk d" and "distinct (map (entry_path st) es)"
    and "file_commit_batch st d es result = (d', Inr ())"
    and "latest_path st site dmn \<notin> entry_path st ` set es"
  shows "files d' (Path (latest_path st site dmn)) = files d (Path (latest_path st site dmn))"
proof -
  from commit_success_steps [OF assms(1,2,3)] obtain d1 where
    step: "entries_step st (set es) d d1" and
    f: "files d' = result_files st result (files d1 ++ map_of (rev (map (pointer_file st) es)))" by blast
  have "files d' (Path (latest_path st site dmn)) = files d1 (Path (latest_path st site dmn))"
    by (simp add: f result_files_other map_add_def map_of_pointer_files_None [OF assms(4)])
  also have "\<dots> = files d (Path (latest_path st site dmn))"
    by (rule entries_step_other [OF step])
  finally show ?thesis .
qed

section \<open>An invariant that no pattern of faults breaks\<close>

text \<open>Every latest pointer names a snapshot that is there, whole, and of the right scope.\<close>

definition pointer_ok :: "file_store \<Rightarrow> store_disk \<Rightarrow> string \<Rightarrow> content \<Rightarrow> bool" where
  "pointer_ok st d p c = (\<exists>s. c = Doc (pointer_doc s) \<and> snapshot_valid s \<and>
     p = latest_path st (sn_site_id s) (sn_domain s) \<and>
     files d (Path (snapshot_path st (sn_snapshot_id s))) = Some (snapshot_doc s))"

definition store_inv :: "file_store \<Rightarrow> store_disk \<Rightarrow> bool" where
  "store_inv st d = (clean_disk d \<and>
     (\<forall>site dmn c. files d (Path (latest_path st site dmn)) = Some c \<longrightarrow>
        pointer_ok st d (latest_path st site dmn) c))"

text \<open>Identifiers are content digests: a stored identifier is only written with the same document.\<close>

definition ids_fresh :: "file_store \<Rightarrow> store_disk \<Rightarrow> (snapshot \<times> change_set) list \<Rightarrow> bool" where
  "ids_fresh st d es = (\<forall>x \<in> set es.
     files d (Path (snapshot_path st (sn_snapshot_id (fst x)))) \<in> {None, Some (snapshot_doc (fst x))})"

lemma pointer_ok_after_entries:
  assumes "entries_step st (set es) d d1" and "ids_fresh st d es" and "pointer_ok st d p c"
  shows "pointer_ok st d1 p c"
proof -
  from assms(3) obtain s where s: "c = Doc (pointer_doc s)" "snapshot_valid s"
    "p = latest_path st (sn_site_id s) (sn_domain s)"
    "files d (Path (snapshot_path st (sn_snapshot_id s))) = Some (snapshot_doc s)"
    by (auto simp: pointer_ok_def)
  have "files d1 (Path (snapshot_path st (sn_snapshot_id s))) = Some (snapshot_doc s)"
  proof -
    from assms(1) consider
      "files d1 (Path (snapshot_path st (sn_snapshot_id s))) = files d (Path (snapshot_path st (sn_snapshot_id s)))"
      | s' c' where "(s', c') \<in> set es" "sn_snapshot_id s' = sn_snapshot_id s"
        "files d1 (Path (snapshot_path st (sn_snapshot_id s))) = Some (snapshot_doc s')"
      unfolding entries_step_def by metis
    then show ?thesis
    proof cases
      case 1
      with s show ?thesis by simp
    next
      case 2
      with assms(2) s(4) have "snapshot_doc s = snapshot_doc s'"
        by (force simp: ids_fresh_def)
      with 2 show ?thesis by simp
    qed
  qed
  with s show ?thesis by (auto simp: pointer_ok_def)
qed

lemma pointer_ok_frame:
  assumes "pointer_ok st d p c"
    and "\<And>sid. files d' (Path (snapshot_path st sid)) = files d (Path (snapshot_path st sid))"
  shows "pointer_ok st d' p c"
  using assms by (auto simp: pointer_ok_def)

text \<open>
  From the disk \<open>d1\<close> with all documents of the batch in place, every later state of the
  transaction differs in latest pointers (old content or the entry's own pointer) and in the
  run result only.
\<close>

definition pointers_between :: "file_store \<Rightarrow> (snapshot \<times> change_set) list \<Rightarrow> store_disk \<Rightarrow> store_disk \<Rightarrow> bool" where
  "pointers_between st es d1 d = (clean_disk d \<and>
     (\<forall>sid. files d (Path (snapshot_path st sid)) = files d1 (Path (snapshot_path st sid))) \<and>
     (\<forall>site dmn. files d (Path (latest_path st site dmn)) = files d1 (Path (latest_path st site dmn)) \<or>
        (\<exists>x \<in> set es. entry_path st x = latest_path st site dmn \<and>
           files d (Path (latest_path st site dmn)) = Some (Doc (pointer_doc (fst x))))))"

lemma pointers_between_inv:
  assumes "\<And>site dmn c. files d1 (Path (latest_path st site dmn)) = Some c \<Longrightarrow>
        pointer_ok st d1 (latest_path st site dmn) c"
    and "\<And>s c. (s, c) \<in> set es \<Longrightarrow> snapshot_valid s \<and>
        files d1 (Path (snapshot_path st (sn_snapshot_id s))) = Some (snapshot_doc s)"
    and "pointers_between st es d1 d"
  shows "store_inv st d"
  unfolding store_inv_def
proof (intro conjI allI impI)
  show "clean_disk d" using assms(3) by (simp add: pointers_between_def)
  fix site dmn c
  assume c: "files d (Path (latest_path st site dmn)) = Some c"
  have docs: "files d (Path (snapshot_path st sid)) = files d1 (Path (snapshot_path st sid))" for sid
    using assms(3) by (simp add: pointers_between_def)
  from assms(3) consider
    "files d (Path (latest_path st site dmn)) = files d1 (Path (latest_path st site dmn))"
    | s cs where "(s, cs) \<in> set es" "entry_path st (s, cs) = latest_path st site dmn"
      "files d (Path (latest_path st site dmn)) = Some (Doc (pointer_doc s))"
    unfolding pointers_between_def by (metis prod.collapse)
  then show "pointer_ok st d (latest_path st site dmn) c"
  proof cases
    case 1
    with c assms(1) have "pointer_ok st d1 (latest_path st site dmn) c" by simp
    then show ?thesis using docs by (rule pointer_ok_frame)
  next
    case 2
    with assms(2) [OF 2(1)] c docs show ?thesis by (auto simp: pointer_ok_def entry_path_def)
  qed
qed

lemma pointers_between_refl: "clean_disk d \<Longrightarrow> pointers_between st es d d"
  by (simp add: pointers_between_def)

lemma entry_path_snapshot [simp]:
  "entry_path st x \<noteq> snapshot_path st sid" "snapshot_path st sid \<noteq> entry_path st x"
  by (cases x; simp add: entry_path_def)+

lemma publish_between:
  assumes "clean_disk d2" and "files d2 = files d1 ++ map_of (rev (map (pointer_file st) es'))"
    and "set es' \<subseteq> set es"
  shows "pointers_between st es d1 d2"
  unfolding pointers_between_def
proof (intro conjI allI)
  show "clean_disk d2" by (rule assms(1))
  show "files d2 (Path (snapshot_path st sid)) = files d1 (Path (snapshot_path st sid))" for sid
  proof -
    have "map_of (rev (map (pointer_file st) es')) (Path (snapshot_path st sid)) = None"
      by (rule map_of_pointer_files_None) auto
    then show ?thesis by (simp add: assms(2) map_add_def)
  qed
  fix site dmn
  let ?q = "Path (latest_path st site dmn)"
  show "files d2 ?q = files d1 ?q \<or> (\<exists>x \<in> set es. entry_path st x = latest_path st site dmn \<and>
           files d2 ?q = Some (Doc (pointer_doc (fst x))))"
  proof (cases "map_of (rev (map (pointer_file st) es')) ?q")
    case None
    then show ?thesis by (simp add: assms(2) map_add_def)
  next
    case (Some c)
    then obtain x where "x \<in> set es'" "pointer_file st x = (?q, c)"
      by (auto dest!: map_of_SomeD)
    with Some assms(2,3) show ?thesis by (auto simp: pointer_file_def)
  qed
qed

lemma restore_between:
  assumes "pointers_between st es d1 d2" and "bs = map (backup_of st d1) es'"
    and "restore st bs d2 = (d', r)"
  shows "pointers_between st es d1 d'"
proof -
  from assms(1) have "clean_disk d2" by (simp add: pointers_between_def)
  note fr = restore_frame [OF this assms(3)]
  have saved: "(\<exists>x. p = entry_path st x) \<and> saved = files d1 (Path p)" if "(p, saved) \<in> set bs" for p saved
    using that by (auto simp: assms(2) backup_of_def)
  show ?thesis
    unfolding pointers_between_def
  proof (intro conjI allI)
    show "clean_disk d'" using fr by simp
    show "files d' (Path (snapshot_path st sid)) = files d1 (Path (snapshot_path st sid))" for sid
      using fr saved assms(1) unfolding pointers_between_def by (metis entry_path_snapshot path.inject(1))
    fix site dmn
    let ?q = "Path (latest_path st site dmn)"
    from fr consider "files d' ?q = files d2 ?q"
      | saved where "(latest_path st site dmn, saved) \<in> set bs" "files d' ?q = saved" by blast
    then show "files d' ?q = files d1 ?q \<or> (\<exists>x \<in> set es. entry_path st x = latest_path st site dmn \<and>
           files d' ?q = Some (Doc (pointer_doc (fst x))))"
    proof cases
      case 1
      with assms(1) show ?thesis by (simp add: pointers_between_def)
    next
      case 2
      with saved show ?thesis by simp
    qed
  qed
qed

lemma result_write_between:
  assumes "pointers_between st es d1 d2" and "write_capture_result st x d2 = (d3, r)"
  shows "pointers_between st es d1 d3"
proof (cases "capture_to_dict x")
  case (Inl e)
  with assms show ?thesis by (simp add: write_capture_result_def)
next
  case (Inr doc)
  from assms(1) have "clean_disk d2" by (simp add: pointers_between_def)
  from write_doc_cases [OF this, of st "capture_result_path st (cr_run_id x)" "JObj doc" d3 r]
    assms Inr show ?thesis
    by (auto simp: write_capture_result_def pointers_between_def)
qed

lemma commit_keeps_inv:
  assumes inv: "store_inv st d" and "distinct (map (entry_path st) es)" and "ids_consistent es"
    and fresh: "ids_fresh st d es" and valid: "\<And>s c. (s, c) \<in> set es \<Longrightarrow> snapshot_valid s"
    and res: "file_commit_batch st d es result = (d', r)"
  shows "store_inv st d'"
proof (cases "check_batch es")
  case (Inl a)
  with res inv show ?thesis by (simp add: file_commit_batch_def)
next
  case (Inr u)
  have clean: "clean_disk d" using inv by (simp add: store_inv_def)
  obtain d1 r1 where w: "do_all (write_entry st) es d = (d1, r1)"
    by (cases "do_all (write_entry st) es d")
  have step: "entries_step st (set es) d d1" by (rule write_entries_effect [OF clean w])
  have ok1: "pointer_ok st d1 (latest_path st site dmn) c"
    if "files d1 (Path (latest_path st site dmn)) = Some c" for site dmn c
    using that inv entries_step_other [OF step, of site dmn]
    by (intro pointer_ok_after_entries [OF step fresh]) (simp add: store_inv_def)
  show ?thesis
  proof (cases r1)
    case l: (Inl a)
    with res Inr w have "d' = d1" by (simp add: file_commit_batch_def)
    with ok1 entries_step_clean [OF step] show ?thesis by (simp add: store_inv_def)
  next
    case ok: (Inr v)
    have docs: "snapshot_valid s \<and> files d1 (Path (snapshot_path st (sn_snapshot_id s))) = Some (snapshot_doc s)"
      if "(s, c) \<in> set es" for s c
      using valid [OF that] write_entries_written [OF clean _ assms(3) that, of st d1] w ok by simp
    obtain bs d2 r2 where p: "publish st es [] d1 = ((bs, d2), r2)"
      by (metis prod.exhaust)
    from publish_shape [OF entries_step_clean [OF step] p assms(2)] obtain k m where km:
      "clean_disk d2" "files d2 = files d1 ++ map_of (rev (map (pointer_file st) (take k es)))"
      "bs = map (backup_of st d1) (take m es)" by auto
    have b2: "pointers_between st es d1 d2"
      by (rule publish_between [OF km(1,2)]) (rule set_take_subset)
    have rb: "pointers_between st es d1 d4" if "pointers_between st es d1 d3" "roll_back st bs e d3 = (d4, q)"
      for e d3 d4 q
    proof -
      obtain d5 r5 where "restore st bs d3 = (d5, r5)" by (cases "restore st bs d3")
      moreover from this that(2) have "d4 = d5" by (cases r5) (auto simp: roll_back_def)
      ultimately show ?thesis using restore_between [OF that(1) km(3)] by blast
    qed
    have "pointers_between st es d1 d'"
    proof (cases r2)
      case (Inl e)
      with res Inr w ok p have "roll_back st bs e d2 = (d', r)" by (simp add: file_commit_batch_def)
      with b2 show ?thesis by (rule rb)
    next
      case ok2: (Inr v)
      show ?thesis
      proof (cases result)
        case None
        with res Inr w ok p ok2 b2 show ?thesis by (simp add: file_commit_batch_def)
      next
        case (Some x)
        obtain d3 r3 where wr: "write_capture_result st x d2 = (d3, r3)"
          by (cases "write_capture_result st x d2")
        have b3: "pointers_between st es d1 d3" by (rule result_write_between [OF b2 wr])
        show ?thesis
        proof (cases r3)
          case (Inl e)
          with res Inr w ok p ok2 Some wr have "roll_back st bs e d3 = (d', r)"
            by (simp add: file_commit_batch_def)
          with b3 show ?thesis by (rule rb)
        next
          case (Inr e)
          with res \<open>check_batch es = Inr u\<close> w ok p ok2 Some wr b3 show ?thesis
            by (simp add: file_commit_batch_def)
        qed
      qed
    qed
    with ok1 docs show ?thesis by (rule pointers_between_inv)
  qed
qed

text \<open>Under the invariant, reading a scope whose pointer path is its own never fails.\<close>

lemma store_inv_latest:
  assumes "store_inv st d"
    and "\<And>s. files d (Path (snapshot_path st (sn_snapshot_id s))) = Some (snapshot_doc s) \<Longrightarrow>
       latest_path st (sn_site_id s) (sn_domain s) = latest_path st site dmn \<Longrightarrow>
       sn_site_id s = site \<and> sn_domain s = dmn"
  shows "\<exists>v. file_latest st d site dmn = Inr v"
proof (cases "files d (Path (latest_path st site dmn))")
  case None
  then show ?thesis by (simp add: file_latest_def)
next
  case (Some c)
  with assms(1) obtain s where s: "c = Doc (pointer_doc s)" "snapshot_valid s"
    "latest_path st site dmn = latest_path st (sn_site_id s) (sn_domain s)"
    "files d (Path (snapshot_path st (sn_snapshot_id s))) = Some (snapshot_doc s)"
    unfolding store_inv_def pointer_ok_def by blast
  with assms(2) have "sn_site_id s = site" "sn_domain s = dmn" by metis+
  with read_pointer_doc [OF s(4,2)] Some s(1) show ?thesis by (simp add: file_latest_def)
qed

section \<open>The contract of a state store\<close>

text \<open>
  What the comparison engine relies on: a committed batch is what \<open>latest\<close> and
  \<open>capture_result\<close> answer afterwards. \<open>ready\<close> are the states and batches for which a
  store makes the promise (for the filesystem: no leftover temporary file, pointer paths and
  snapshot identifiers of the batch free of digest collisions).
\<close>

locale state_store_contract =
  fixes latest :: "'s \<Rightarrow> string \<Rightarrow> string \<Rightarrow> snapshot option res"
    and capture_result :: "'s \<Rightarrow> string \<Rightarrow> capture_result option res"
    and commit_batch :: "'s \<Rightarrow> (snapshot \<times> change_set) list \<Rightarrow> capture_result option \<Rightarrow> 's \<times> unit res"
    and ready :: "'s \<Rightarrow> (snapshot \<times> change_set) list \<Rightarrow> bool"
  assumes latest_committed:
      "ready s es \<Longrightarrow> commit_batch s es result = (s', Inr ()) \<Longrightarrow> (sn, cs) \<in> set es \<Longrightarrow>
       snapshot_valid sn \<Longrightarrow> latest s' (sn_site_id sn) (sn_domain sn) = Inr (Some sn)"
    and result_committed:
      "ready s es \<Longrightarrow> commit_batch s es (Some r) = (s', Inr ()) \<Longrightarrow>
       capture_result s' (cr_run_id r) = Inr (Some r)"
begin

lemma run_is_recorded:
  assumes "ready s es" and "commit_batch s es (Some r) = (s', Inr ())" and "cr_run_id r = rid"
  shows "\<exists>v. capture_result s' rid = Inr (Some v)"
  using result_committed [OF assms(1,2)] assms(3) by auto

lemma committed_is_previous:
  assumes "ready s es" and "commit_batch s es result = (s', Inr ())"
    and "\<forall>x \<in> set es. snapshot_valid (fst x)"
  shows "\<forall>x \<in> set es. latest s' (sn_site_id (fst x)) (sn_domain (fst x)) = Inr (Some (fst x))"
proof
  fix x
  assume x: "x \<in> set es"
  then have "(fst x, snd x) \<in> set es" by simp
  from latest_committed [OF assms(1,2) this] assms(3) x
  show "latest s' (sn_site_id (fst x)) (sn_domain (fst x)) = Inr (Some (fst x))" by blast
qed

end

definition file_ready :: "file_store \<Rightarrow> store_disk \<Rightarrow> (snapshot \<times> change_set) list \<Rightarrow> bool" where
  "file_ready st d es = (clean_disk d \<and> distinct (map (entry_path st) es) \<and> ids_consistent es)"

interpretation file_contract: state_store_contract
  "file_latest st" "file_capture_result st" "file_commit_batch st" "file_ready st" for st
  by unfold_locales
     (auto simp: file_ready_def intro: commit_success_latest commit_success_result)

end
