(* ===== verification/State_History_Capture.thy ===== *)
theory State_History_Capture
  imports State_History_Store
begin

text \<open>
  The stateful half of \<open>analysis/state_history/engine.py\<close> (\<open>process\<close>, \<open>capture\<close>,
  \<open>capture_payload\<close>) over any store, and the pipeline bridge
  \<open>analysis/state_history/pipeline.py\<close> that decides how much removal authority a
  generated document has.
\<close>

section \<open>Processing and capturing\<close>

definition process_scope :: "(string \<Rightarrow> string) \<Rightarrow> engine_config \<Rightarrow> 's state_store \<Rightarrow> 's \<Rightarrow> observation
    \<Rightarrow> string \<times> string \<Rightarrow> (snapshot \<times> change_set) res" where
  "process_scope H cfg st w ob = (\<lambda>(site, dmn).
     (let current = snapshot_of H cfg ob site dmn [] COMPLETE [] [] in
      and_then (st_latest st w site dmn) (\<lambda>previous.
      Inr (current, compare_snapshots H previous current [] [] 0))))"

definition process_document :: "observation \<Rightarrow> (snapshot \<times> change_set) list \<Rightarrow> dict" where
  "process_document ob entries =
     [(''schema_version'', JInt 1), (''observed_at'', JStr (ob_observed_at ob)),
      (''snapshots'', JList (map (\<lambda>x. JObj (snapshot_to_dict (fst x))) entries)),
      (''change_sets'', JList (map (\<lambda>x. JObj (change_set_to_dict (snd x))) entries)),
      (''change_count'', JInt (int (sum_list (map (\<lambda>x. length (cs_changes (snd x))) entries))))]"

definition process_observation :: "(string \<Rightarrow> string) \<Rightarrow> engine_config \<Rightarrow> 's state_store \<Rightarrow> 's \<Rightarrow> observation
    \<Rightarrow> 's \<times> dict res" where
  "process_observation H cfg st w ob =
     (case map_res (process_scope H cfg st w ob) (ob_scopes ob) of
        Inl e \<Rightarrow> (w, Inl e)
      | Inr entries \<Rightarrow> (case st_commit_batch st w entries None of
          (w', Inl e) \<Rightarrow> (w', Inl e)
        | (w', Inr _) \<Rightarrow> (w', Inr (process_document ob entries))))"

text \<open>
  One scope of a capture: the snapshot and change set to commit, if any, and the scope's
  result document.
\<close>

definition scope_authoritative :: "string \<Rightarrow> obs_scope \<Rightarrow> bool" where
  "scope_authoritative policy sc = (policy = ''complete_only'' \<and> sc_completeness sc = COMPLETE)"

definition missing_entities :: "observation \<Rightarrow> obs_scope \<Rightarrow> snapshot option \<Rightarrow> entity list" where
  "missing_entities ob sc previous =
     (let observed = scope_entities ob (sc_site_id sc) (sc_domain sc) in
      filter (\<lambda>e. entity_key e \<notin> entity_key ` set observed) (previous_entities previous))"

definition scope_result :: "obs_scope \<Rightarrow> bool \<Rightarrow> bool \<Rightarrow> nat \<Rightarrow> snapshot option \<Rightarrow> string option
    \<Rightarrow> string option \<Rightarrow> nat \<Rightarrow> json" where
  "scope_result sc captured authoritative suppressed previous current_id cs_id changes =
     JObj (scope_to_dict sc @
       [(''captured'', JBool captured), (''removal_authoritative'', JBool authoritative),
        (''removals_suppressed'', JInt (int suppressed)),
        (''previous_snapshot_id'', jopt (map_option sn_snapshot_id previous)),
        (''current_snapshot_id'', jopt current_id), (''change_set_id'', jopt cs_id),
        (''change_count'', JInt (int changes))])"

definition capture_scope :: "(string \<Rightarrow> string) \<Rightarrow> engine_config \<Rightarrow> string \<Rightarrow> pipeline_run \<Rightarrow> observation
    \<Rightarrow> obs_scope \<Rightarrow> snapshot option \<Rightarrow> (snapshot \<times> change_set) option \<times> json" where
  "capture_scope H cfg policy run ob sc previous =
     (let site = sc_site_id sc; dmn = sc_domain sc;
          observed = scope_entities ob site dmn;
          authoritative = scope_authoritative policy sc;
          missing = missing_entities ob sc previous;
          suppressed = (if authoritative then 0 else length missing) in
      if \<not> authoritative \<and> observed = [] then
        (None, scope_result sc False False suppressed previous None None 0)
      else
        (let current = snapshot_of H cfg ob site dmn (pr_run_id run) (sc_completeness sc)
               (sc_warning_details sc) (if authoritative then [] else missing);
             cs = compare_snapshots H previous current (pr_run_id run) (sc_completeness sc)
               (int suppressed) in
         (Some (current, cs),
          scope_result sc True authoritative suppressed previous (Some (sn_snapshot_id current))
            (Some (cs_change_set_id cs)) (length (cs_changes cs)))))"

definition skipped_result :: "(string \<Rightarrow> string) \<Rightarrow> pipeline_run \<Rightarrow> capture_result" where
  "skipped_result H run =
     \<lparr>cr_capture_id = hash_of H ''capture:''
        (JObj [(''run'', JObj (run_to_dict run)), (''status'', JStr ''skipped'')]),
      cr_run_id = pr_run_id run, cr_status = ''skipped'',
      cr_pipeline_run = JObj (run_to_dict run), cr_scope_results = [], cr_snapshots = [],
      cr_change_sets = [],
      cr_warning_details = usort (pr_warning_details run @
        [''pipeline status '' @ pr_status run @ '' prevents state capture'']),
      cr_error = [], cr_schema_version = 1\<rparr>"

definition run_scopes :: "pipeline_run \<Rightarrow> obs_scope list" where
  "run_scopes run = sort_key sc_authority (pr_scopes run)"

definition undeclared_scopes :: "pipeline_run \<Rightarrow> observation \<Rightarrow> (string \<times> string) list" where
  "undeclared_scopes run ob =
     usort (filter (\<lambda>a. a \<notin> sc_authority ` set (pr_scopes run)) (ob_scopes ob))"

definition capture_outcome :: "(string \<Rightarrow> string) \<Rightarrow> pipeline_run \<Rightarrow> ((snapshot \<times> change_set) option \<times> json) list
    \<Rightarrow> (snapshot \<times> change_set) list \<times> capture_result" where
  "capture_outcome H run parts =
     (let entries = concat (map (\<lambda>p. case fst p of None \<Rightarrow> [] | Some e \<Rightarrow> [e]) parts);
          results = map snd parts;
          snapshots = map (\<lambda>x. JObj (snapshot_to_dict (fst x))) entries;
          change_sets = map (\<lambda>x. JObj (change_set_to_dict (snd x))) entries;
          degraded = (\<exists>sc \<in> set (pr_scopes run). sc_completeness sc \<noteq> COMPLETE);
          material = JObj [(''run'', JObj (run_to_dict run)), (''scope_results'', JList results),
            (''snapshots'', JList snapshots), (''change_sets'', JList change_sets)]
      in (entries,
          \<lparr>cr_capture_id = hash_of H ''capture:'' material, cr_run_id = pr_run_id run,
           cr_status = (if degraded then ''degraded'' else ''captured''),
           cr_pipeline_run = JObj (run_to_dict run), cr_scope_results = results,
           cr_snapshots = snapshots, cr_change_sets = change_sets,
           cr_warning_details = usort (pr_warning_details run @
             concat (map sc_warning_details (pr_scopes run))),
           cr_error = [], cr_schema_version = 1\<rparr>))"

definition capture :: "(string \<Rightarrow> string) \<Rightarrow> engine_config \<Rightarrow> 's state_store \<Rightarrow> 's \<Rightarrow> string \<Rightarrow> pipeline_run
    \<Rightarrow> observation \<Rightarrow> 's \<times> capture_result res" where
  "capture H cfg st w policy run ob =
     (if policy \<noteq> ''complete_only'' \<and> policy \<noteq> ''disabled'' then
        (w, Inl (ValueError (''unsupported removal policy: '' @ policy)))
      else case st_capture_result st w (pr_run_id run) of
        Inl e \<Rightarrow> (w, Inl e)
      | Inr (Some existing) \<Rightarrow> (w, Inr existing)
      | Inr None \<Rightarrow>
        (if pr_status run \<noteq> ''success'' then (w, Inr (skipped_result H run))
         else if undeclared_scopes run ob \<noteq> [] then
           (w, Inl (ValueError (''pipeline metadata is missing observed scope(s): '' @
              join '', '' (map (\<lambda>(site, dmn). site @ ''/'' @ dmn) (undeclared_scopes run ob)))))
         else
           (case map_res (\<lambda>sc. and_then (st_latest st w (sc_site_id sc) (sc_domain sc))
                (\<lambda>previous. Inr (capture_scope H cfg policy run ob sc previous))) (run_scopes run) of
              Inl e \<Rightarrow> (w, Inl e)
            | Inr parts \<Rightarrow>
              (let (entries, result) = capture_outcome H run parts in
               case st_commit_batch st w entries (Some result) of
                 (w', Inl e) \<Rightarrow> (w', Inl e)
               | (w', Inr _) \<Rightarrow> (w', Inr result)))))"

definition capture_payload :: "(string \<Rightarrow> string) \<Rightarrow> engine_config \<Rightarrow> 's state_store \<Rightarrow> 's \<Rightarrow> string
    \<Rightarrow> json \<Rightarrow> json \<Rightarrow> 's \<times> capture_result res" where
  "capture_payload H cfg st w policy run_doc state_doc =
     (case pipeline_run_from_payload run_doc of
        Inl e \<Rightarrow> (w, Inl e)
      | Inr run \<Rightarrow>
        (case and_then (observation_from_payload state_doc (Some (pr_completed_at run))) (\<lambda>ob.
            observation_post_init
              (ob\<lparr>ob_scopes := usort (ob_scopes ob @ map sc_authority (pr_scopes run))\<rparr>)) of
           Inl e \<Rightarrow> (w, Inl e)
         | Inr ob \<Rightarrow> capture H cfg st w policy run ob))"

section \<open>The pipeline bridge\<close>

record pipeline_settings =
  ps_enabled :: bool
  ps_removal_policy :: string
  ps_expected_sources :: "string list"

definition pipeline_settings_of :: "dict \<Rightarrow> pipeline_settings res" where
  "pipeline_settings_of d =
     (let policy = dget_or d ''removal_policy'' (JStr ''complete_only'') in
      if policy \<noteq> JStr ''complete_only'' \<and> policy \<noteq> JStr ''disabled'' then
        Inl (ValueError ''state_history.removal_policy must be complete_only or disabled'')
      else if dget_or d ''volatile_fields_policy'' (JStr ''default'') \<noteq> JStr ''default'' then
        Inl (ValueError ''state_history.volatile_fields_policy must be default'')
      else and_then (sorted_strs (dget d ''expected_sources'')) (\<lambda>expected.
        Inr \<lparr>ps_enabled = truthy (dget_or d ''enabled'' (JBool False)),
             ps_removal_policy = py_str policy, ps_expected_sources = expected\<rparr>))"

definition asset_site :: "dict \<Rightarrow> string" where
  "asset_site asset =
     (let raw = (case dget asset ''site'' of
          JObj s \<Rightarrow> por (dget s ''site_id'') (dget s ''id'') | v \<Rightarrow> v)
      in py_str (por (por (dget asset ''site_id'') raw) (JStr ''unassigned'')))"

definition asset_source_names :: "string \<Rightarrow> json \<Rightarrow> string list res" where
  "asset_source_names site v = (case v of
     JObj asset \<Rightarrow>
       (if asset_site asset \<noteq> site then Inr []
        else and_then (py_iter (dget_or asset ''sources'' (JList []))) (\<lambda>items.
          (let own = por (dget asset ''source'') (dget asset ''collector'') in
           Inr (map py_str (filter truthy items) @ (if truthy own then [py_str own] else [])))))
   | _ \<Rightarrow> Inl (AttributeError ''object has no attribute get''))"

definition scope_sources :: "dict \<Rightarrow> observation \<Rightarrow> string \<times> string \<Rightarrow> string list res" where
  "scope_sources payload ob = (\<lambda>(site, dmn).
     (let observed = filter (\<lambda>s. s \<noteq> []) (map en_source (scope_entities ob site dmn)) in
      and_then (if dmn = ''infrastructure'' then
          and_then (py_iter (dget_or payload ''assets'' (JList []))) (\<lambda>assets.
          and_then (map_res (asset_source_names site) assets) (\<lambda>xss. Inr (concat xss)))
        else Inr []) (\<lambda>named.
      Inr (usort (observed @ named)))))"

definition bridge_scope :: "string list \<Rightarrow> dict \<Rightarrow> observation \<Rightarrow> string \<times> string \<Rightarrow> obs_scope res" where
  "bridge_scope expected payload ob a =
     and_then (scope_sources payload ob a) (\<lambda>sources.
     (let missing = filter (\<lambda>x. x \<notin> set sources) expected;
          completeness = (if expected \<noteq> [] \<and> missing = [] then COMPLETE
            else if sources \<noteq> [] then PARTIAL else UNKNOWN);
          warnings = (if expected = [] then [''expected source coverage is not configured'']
            else if missing \<noteq> [] then [''missing expected sources: '' @ join '', '' missing] else []) in
      scope_post_init
        \<lparr>sc_site_id = fst a, sc_domain = snd a, sc_completeness = completeness,
         sc_expected_sources = expected, sc_observed_sources = sources,
         sc_failed_sources = missing, sc_skipped_sources = [], sc_expected_providers = [],
         sc_observed_providers = [], sc_failed_providers = [], sc_skipped_providers = [],
         sc_warning_details = warnings\<rparr>))"

text \<open>
  \<open>capture_generated\<close>, from the start and completion instants of the run. The canonical
  document is a mapping, as its writer produces it.
\<close>

definition bridge_run :: "(string \<Rightarrow> string) \<Rightarrow> string list \<Rightarrow> dict \<Rightarrow> observation \<Rightarrow> int \<Rightarrow> int \<Rightarrow> string
    \<Rightarrow> pipeline_run res" where
  "bridge_run H expected payload ob started completed output =
     and_then (map_res (scope_sources payload ob) (ob_scopes ob)) (\<lambda>all_sources.
     and_then (map_res (bridge_scope expected payload ob) (ob_scopes ob)) (\<lambda>scopes.
     (let material = JObj [(''completed_at'', JStr (isoformat_z completed)),
            (''canonical_output'', JStr output), (''payload'', JObj payload),
            (''sources'', jstrs (usort (concat all_sources)))] in
      run_post_init
        \<lparr>pr_run_id = hash_of H ''pipeline:'' material, pr_started_at = isoformat_z started,
         pr_completed_at = isoformat_z completed, pr_status = ''success'',
         pr_scopes = sort_key sc_authority scopes, pr_canonical_output = output,
         pr_warning_details = [], pr_schema_version = 1\<rparr>)))"

definition capture_generated :: "(string \<Rightarrow> string) \<Rightarrow> 's state_store \<Rightarrow> 's \<Rightarrow> pipeline_settings \<Rightarrow> dict
    \<Rightarrow> int \<Rightarrow> int \<Rightarrow> string \<Rightarrow> 's \<times> capture_result option res" where
  "capture_generated H st w settings payload started completed output =
     (if \<not> ps_enabled settings then (w, Inr None)
      else case observation_from_payload (JObj payload) None of
        Inl e \<Rightarrow> (w, Inl e)
      | Inr ob \<Rightarrow>
        (case bridge_run H (ps_expected_sources settings) payload ob started completed output of
           Inl e \<Rightarrow> (w, Inl e)
         | Inr run \<Rightarrow>
           (case capture H default_engine st w (ps_removal_policy settings) run ob of
              (w', Inl e) \<Rightarrow> (w', Inl e)
            | (w', Inr r) \<Rightarrow> (w', Inr (Some r)))))"

section \<open>Removal authority: lemmas\<close>

lemma capture_scope_entry:
  assumes "capture_scope H cfg policy run ob sc previous = (Some (cur, cs), doc)"
  shows "cur = snapshot_of H cfg ob (sc_site_id sc) (sc_domain sc) (pr_run_id run)
           (sc_completeness sc) (sc_warning_details sc)
           (if scope_authoritative policy sc then [] else missing_entities ob sc previous)"
    and "\<exists>n. cs = compare_snapshots H previous cur (pr_run_id run) (sc_completeness sc) n"
  using assms by (auto simp: capture_scope_def Let_def split: if_splits)

definition previous_keys :: "snapshot option \<Rightarrow> entity_key set" where
  "previous_keys previous = entity_key ` set (previous_entities previous)"

definition observed_keys :: "observation \<Rightarrow> obs_scope \<Rightarrow> entity_key set" where
  "observed_keys ob sc = entity_key ` set (scope_entities ob (sc_site_id sc) (sc_domain sc))"

lemma image_filter_notin: "f ` {e \<in> A. f e \<notin> B} = f ` A - B"
  by auto

lemma missing_keys:
  "entity_key ` set (missing_entities ob sc previous) = previous_keys previous - observed_keys ob sc"
  by (simp only: missing_entities_def previous_keys_def observed_keys_def Let_def set_filter
      image_filter_notin)

lemma captured_keys:
  assumes "capture_scope H cfg policy run ob sc previous = (Some (cur, cs), doc)"
  shows "entity_key ` set (sn_entities cur) = observed_keys ob sc \<union>
     (if scope_authoritative policy sc then {} else previous_keys previous)"
  using capture_scope_entry(1) [OF assms]
  by (auto simp: snapshot_key_set missing_keys observed_keys_def)

definition count_changes :: "string \<Rightarrow> entity_key \<Rightarrow> change list \<Rightarrow> nat" where
  "count_changes t k cs = length (filter (\<lambda>c. ch_change_type c = t \<and> ch_key c = k) cs)"

lemma captured_change_counts:
  assumes "capture_scope H cfg policy run ob sc previous = (Some (cur, cs), doc)"
  shows "count_changes ''entity_removed'' k (cs_changes cs) =
      (if scope_authoritative policy sc \<and> k \<in> previous_keys previous - observed_keys ob sc then 1 else 0)"
    and "count_changes ''entity_added'' k (cs_changes cs) =
      (if k \<in> observed_keys ob sc - previous_keys previous then 1 else 0)"
proof -
  from capture_scope_entry(2) [OF assms] obtain n where
    cs: "cs = compare_snapshots H previous cur (pr_run_id run) (sc_completeness sc) n" ..
  note counts = compare_kind_count [of k H previous cur "pr_run_id run" "sc_completeness sc" n,
      folded cs previous_keys_def, unfolded captured_keys [OF assms]]
  show "count_changes ''entity_removed'' k (cs_changes cs) =
      (if scope_authoritative policy sc \<and> k \<in> previous_keys previous - observed_keys ob sc then 1 else 0)"
    using counts(1) by (auto simp: count_changes_def)
  show "count_changes ''entity_added'' k (cs_changes cs) =
      (if k \<in> observed_keys ob sc - previous_keys previous then 1 else 0)"
    using counts(2) by (auto simp: count_changes_def)
qed

text \<open>A carried entity keeps the record it had in the previous snapshot.\<close>

lemma carried_entity_kept:
  assumes cap: "capture_scope H cfg policy run ob sc previous = (Some (cur, cs), doc)"
    and na: "\<not> scope_authoritative policy sc"
    and e: "e \<in> set (previous_entities previous)" "entity_key e \<notin> observed_keys ob sc"
    and d: "distinct (map entity_key (previous_entities previous))"
  shows "e \<in> set (sn_entities cur)"
proof -
  let ?m = "missing_entities ob sc previous"
  let ?obs = "map (normal_entity cfg) (scope_entities ob (sc_site_id sc) (sc_domain sc))"
  have mem: "e \<in> set ?m"
    using e by (simp add: missing_entities_def observed_keys_def Let_def)
  have dm: "distinct (map entity_key ?m)"
    using d by (simp add: missing_entities_def Let_def distinct_map_filter)
  have "map_of (rev (map (\<lambda>e. (entity_key e, e)) ?obs)) (entity_key e) = None"
    using e(2) by (auto simp: map_of_eq_None_iff observed_keys_def)
  then have "map_of (index_entities (index_entities [] ?m) ?obs) (entity_key e) = Some e"
    using map_of_index_distinct [OF dm mem]
    by (subst map_of_index) (simp add: map_add_def)
  then have "(entity_key e, e) \<in> set (snapshot_values cfg ob (sc_site_id sc) (sc_domain sc) ?m)"
    unfolding snapshot_values_def by (rule map_of_SomeD)
  then show ?thesis
    using capture_scope_entry(1) [OF cap] na
    by (force simp: snapshot_entities)
qed

section \<open>Validity of captured snapshots\<close>

lemma entity_post_init_normal: "entity_post_init e = Inr e \<Longrightarrow> entity_post_init (normal_entity cfg e) = Inr (normal_entity cfg e)"
  by (auto simp: entity_post_init_def normal_entity_def split: if_splits)

lemma snapshot_of_valid:
  assumes "\<And>e. e \<in> set (ob_entities ob) \<Longrightarrow> entity_post_init e = Inr e"
    and "\<And>e. e \<in> set carried \<Longrightarrow> entity_post_init e = Inr e"
  shows "snapshot_valid (snapshot_of H cfg ob site dmn rid cmpl warn carried)"
proof -
  have "entity_post_init (snd p) = Inr (snd p)"
    if p: "p \<in> set (snapshot_values cfg ob site dmn carried)" for p
  proof -
    from p distinct_snapshot_values [of cfg ob site dmn carried]
    have "map_of (snapshot_values cfg ob site dmn carried) (fst p) = Some (snd p)" by simp
    then consider "snd p \<in> set (map (normal_entity cfg) (scope_entities ob site dmn))" | "snd p \<in> set carried"
      by (auto simp: snapshot_values_def map_of_index map_add_Some_iff dest!: map_of_SomeD)
    then show ?thesis
      using assms by cases (auto simp: scope_entities_def entity_post_init_normal)
  qed
  then show ?thesis by (auto simp: snapshot_valid_def snapshot_entities)
qed

section \<open>Capturing into the filesystem store\<close>

lemma file_store_ops [simp]:
  "st_latest (file_state_store st) = file_latest st"
  "st_capture_result (file_state_store st) = file_capture_result st"
  "st_commit_batch (file_state_store st) = file_commit_batch st"
  by (simp_all add: file_state_store_def)

text \<open>The batch a capture commits, if it gets that far.\<close>

definition capture_parts :: "(string \<Rightarrow> string) \<Rightarrow> engine_config \<Rightarrow> 's state_store \<Rightarrow> 's \<Rightarrow> string
    \<Rightarrow> pipeline_run \<Rightarrow> observation \<Rightarrow> ((snapshot \<times> change_set) option \<times> json) list res" where
  "capture_parts H cfg st w policy run ob =
     map_res (\<lambda>sc. and_then (st_latest st w (sc_site_id sc) (sc_domain sc))
       (\<lambda>previous. Inr (capture_scope H cfg policy run ob sc previous))) (run_scopes run)"

definition capture_batch :: "(string \<Rightarrow> string) \<Rightarrow> engine_config \<Rightarrow> 's state_store \<Rightarrow> 's \<Rightarrow> string
    \<Rightarrow> pipeline_run \<Rightarrow> observation \<Rightarrow> (snapshot \<times> change_set) list" where
  "capture_batch H cfg st w policy run ob =
     (case capture_parts H cfg st w policy run ob of
        Inl _ \<Rightarrow> [] | Inr parts \<Rightarrow> fst (capture_outcome H run parts))"

lemma capture_outcome_run_id [simp]:
  "cr_run_id (snd (capture_outcome H run parts)) = pr_run_id run"
  by (simp add: capture_outcome_def Let_def)

lemma capture_committed:
  assumes "capture H cfg st w policy run ob = (w', Inr r)"
    and "st_capture_result st w (pr_run_id run) = Inr None" and "pr_status run = ''success''"
  shows "st_commit_batch st w (capture_batch H cfg st w policy run ob) (Some r) = (w', Inr ())"
    and "cr_run_id r = pr_run_id run" and "policy = ''complete_only'' \<or> policy = ''disabled''"
proof -
  from assms obtain parts where parts: "capture_parts H cfg st w policy run ob = Inr parts"
    by (auto simp: capture_def capture_parts_def split: if_splits sum.splits)
  with assms have "(case st_commit_batch st w (fst (capture_outcome H run parts))
        (Some (snd (capture_outcome H run parts))) of
      (w', Inl e) \<Rightarrow> (w', Inl e)
    | (w', Inr _) \<Rightarrow> (w', Inr (snd (capture_outcome H run parts)))) = (w', Inr r)"
    by (simp add: capture_def capture_parts_def Let_def split_beta split: if_splits)
  then have "st_commit_batch st w (fst (capture_outcome H run parts))
      (Some (snd (capture_outcome H run parts))) = (w', Inr ()) \<and> r = snd (capture_outcome H run parts)"
    by (auto split: prod.splits sum.splits)
  then show "st_commit_batch st w (capture_batch H cfg st w policy run ob) (Some r) = (w', Inr ())"
    and "cr_run_id r = pr_run_id run"
    by (simp_all add: capture_batch_def parts)
  show "policy = ''complete_only'' \<or> policy = ''disabled''"
    using assms(1) by (auto simp: capture_def split: if_splits)
qed

lemma capture_existing:
  assumes "st_capture_result st w (pr_run_id run) = Inr (Some r)"
    and "policy = ''complete_only'' \<or> policy = ''disabled''"
  shows "capture H cfg st w policy run ob = (w, Inr r)"
  using assms by (auto simp: capture_def)

lemma capture_again:
  assumes "capture H cfg (file_state_store st) w policy run ob = (w', Inr r)"
    and "file_capture_result st w (pr_run_id run) = Inr None" and "pr_status run = ''success''"
    and "file_ready st w (capture_batch H cfg (file_state_store st) w policy run ob)"
    and "pr_run_id run' = pr_run_id run" and "policy' = ''complete_only'' \<or> policy' = ''disabled''"
  shows "capture H cfg' (file_state_store st) w' policy' run' ob' = (w', Inr r)"
proof (rule capture_existing [OF _ assms(6)])
  note c = capture_committed [OF assms(1) _ assms(3), simplified, OF assms(2)]
  from file_contract.result_committed [OF assms(4) c(1)] c(2) assms(5)
  show "st_capture_result (file_state_store st) w' (pr_run_id run') = Inr (Some r)" by simp
qed

lemma scope_post_init_complete:
  assumes "scope_post_init s = Inr sc" and "sc_completeness sc = COMPLETE"
  shows "sc_expected_sources sc = [] \<or> set (sc_expected_sources sc) = set (sc_observed_sources sc)"
  using assms by (auto simp: scope_post_init_def Let_def split: if_splits option.splits)

text \<open>What the bridge declares before validation.\<close>

lemma bridge_scope_fields:
  assumes "bridge_scope expected payload ob a = Inr sc"
  shows "sc_authority sc = a" and "sc_expected_sources sc = expected"
    and "scope_sources payload ob a = Inr (sc_observed_sources sc)"
    and "scope_post_init sc = Inr sc"
    and "sc_completeness sc = (if expected \<noteq> [] \<and> set expected \<subseteq> set (sc_observed_sources sc) then COMPLETE
            else if sc_observed_sources sc \<noteq> [] then PARTIAL else UNKNOWN)"
proof -
  from assms obtain sources s where src: "scope_sources payload ob a = Inr sources"
    and s: "scope_post_init s = Inr sc"
    and f: "sc_authority s = a" "sc_expected_sources s = expected" "sc_observed_sources s = sources"
      "sc_completeness s = (if expected \<noteq> [] \<and> filter (\<lambda>x. x \<notin> set sources) expected = [] then COMPLETE
            else if sources \<noteq> [] then PARTIAL else UNKNOWN)"
    unfolding bridge_scope_def and_then_eq_Inr Let_def by (force simp: sc_authority_def)
  from scope_post_init_Inr [OF s] have eq: "s = sc" ..
  show "sc_authority sc = a" and "sc_expected_sources sc = expected"
    and "scope_sources payload ob a = Inr (sc_observed_sources sc)"
    and "scope_post_init sc = Inr sc"
    using src s f by (simp_all add: eq)
  show "sc_completeness sc = (if expected \<noteq> [] \<and> set expected \<subseteq> set (sc_observed_sources sc) then COMPLETE
            else if sc_observed_sources sc \<noteq> [] then PARTIAL else UNKNOWN)"
    using f unfolding eq by (simp only: filter_empty_conv subset_iff Ball_def not_not)
qed

lemma bridge_scope_complete:
  assumes "bridge_scope expected payload ob a = Inr sc"
  shows "sc_completeness sc = COMPLETE \<longleftrightarrow> expected \<noteq> [] \<and> set (sc_observed_sources sc) = set expected"
proof -
  note b = bridge_scope_fields [OF assms]
  from scope_post_init_complete [OF b(4)] b(2) show ?thesis
    by (auto simp: b(5) completeness_defs split: if_splits)
qed

section \<open>What a capture leaves behind\<close>

lemma entity_post_init_idem: "entity_post_init e = Inr t \<Longrightarrow> entity_post_init t = Inr t"
  using entity_post_init_Inr [of e t] by simp

lemma entity_of_dict_valid: "entity_of_dict v = Inr e \<Longrightarrow> entity_post_init e = Inr e"
  by (auto simp: entity_of_dict_def and_then_eq_Inr split: json.splits intro: entity_post_init_idem)

lemma snapshot_from_dict_valid: "snapshot_from_dict v = Inr s \<Longrightarrow> snapshot_valid s"
  by (auto simp: snapshot_from_dict_def snapshot_of_dict_def and_then_eq_Inr snapshot_valid_def
      split: json.splits dest!: map_res_Inr_mem entity_of_dict_valid)

lemma file_latest_valid: "file_latest st d site dmn = Inr (Some s) \<Longrightarrow> snapshot_valid s"
  by (auto simp: file_latest_def read_pointer_def and_then_eq_Inr split: option.splits content.splits
        json.splits if_splits dest: snapshot_from_dict_valid)

lemma previous_entities_valid:
  assumes "file_latest st d site dmn = Inr previous" and "e \<in> set (previous_entities previous)"
  shows "entity_post_init e = Inr e"
  using assms file_latest_valid [of st d site dmn]
  by (cases previous) (auto simp: previous_entities_def snapshot_valid_def)

lemma capture_scope_Some:
  assumes "scope_authoritative policy sc \<or> scope_entities ob (sc_site_id sc) (sc_domain sc) \<noteq> []"
  shows "\<exists>cur cs doc. capture_scope H cfg policy run ob sc previous = (Some (cur, cs), doc)"
  using assms by (auto simp: capture_scope_def Let_def)

lemma capture_batch_mem:
  assumes "capture_parts H cfg st w policy run ob = Inr parts" and "sc \<in> set (pr_scopes run)"
    and "scope_authoritative policy sc \<or> scope_entities ob (sc_site_id sc) (sc_domain sc) \<noteq> []"
  shows "\<exists>previous cur cs doc. st_latest st w (sc_site_id sc) (sc_domain sc) = Inr previous \<and>
     capture_scope H cfg policy run ob sc previous = (Some (cur, cs), doc) \<and>
     (cur, cs) \<in> set (capture_batch H cfg st w policy run ob)"
proof -
  from map_res_mem [OF assms(1) [unfolded capture_parts_def], of sc] assms(2)
  obtain part where part: "part \<in> set parts" and
    "and_then (st_latest st w (sc_site_id sc) (sc_domain sc))
       (\<lambda>previous. Inr (capture_scope H cfg policy run ob sc previous)) = Inr part"
    by (auto simp: run_scopes_def)
  then obtain previous where prev: "st_latest st w (sc_site_id sc) (sc_domain sc) = Inr previous"
    and cap: "capture_scope H cfg policy run ob sc previous = part"
    by (auto simp: and_then_eq_Inr)
  from capture_scope_Some [OF assms(3)] obtain cur cs doc where
    some: "capture_scope H cfg policy run ob sc previous = (Some (cur, cs), doc)" by blast
  have "(cur, cs) \<in> set (capture_batch H cfg st w policy run ob)"
    using part cap some
    by (auto simp: capture_batch_def assms(1) capture_outcome_def Let_def intro!: bexI [of _ part])
  with prev some show ?thesis by blast
qed

lemma capture_parts_Inr:
  assumes "capture H cfg st w policy run ob = (w', Inr r)"
    and "st_capture_result st w (pr_run_id run) = Inr None" and "pr_status run = ''success''"
  shows "\<exists>parts. capture_parts H cfg st w policy run ob = Inr parts"
  using assms by (auto simp: capture_def capture_parts_def split: if_splits sum.splits)

text \<open>
  After a committed capture the store's latest snapshot of every captured scope holds the
  observed entities, and those of the previous snapshot exactly when the scope had no removal
  authority.
\<close>

lemma capture_then_latest:
  assumes cap: "capture H cfg (file_state_store st) w policy run ob = (w', Inr r)"
    and new: "file_capture_result st w (pr_run_id run) = Inr None" and ok: "pr_status run = ''success''"
    and ready: "file_ready st w (capture_batch H cfg (file_state_store st) w policy run ob)"
    and valid: "\<And>e. e \<in> set (ob_entities ob) \<Longrightarrow> entity_post_init e = Inr e"
    and sc: "sc \<in> set (pr_scopes run)"
    and auth: "scope_authoritative policy sc \<or> scope_entities ob (sc_site_id sc) (sc_domain sc) \<noteq> []"
  shows "\<exists>previous s. file_latest st w (sc_site_id sc) (sc_domain sc) = Inr previous \<and>
     file_latest st w' (sc_site_id sc) (sc_domain sc) = Inr (Some s) \<and>
     entity_key ` set (sn_entities s) = observed_keys ob sc \<union>
       (if scope_authoritative policy sc then {} else previous_keys previous)"
proof -
  let ?B = "capture_batch H cfg (file_state_store st) w policy run ob"
  from capture_parts_Inr [OF cap _ ok] new obtain parts where
    "capture_parts H cfg (file_state_store st) w policy run ob = Inr parts" by auto
  from capture_batch_mem [OF this sc auth] obtain previous cur cs doc where
    prev: "file_latest st w (sc_site_id sc) (sc_domain sc) = Inr previous"
    and entry: "capture_scope H cfg policy run ob sc previous = (Some (cur, cs), doc)"
    and mem: "(cur, cs) \<in> set ?B" by auto
  have cur: "cur = snapshot_of H cfg ob (sc_site_id sc) (sc_domain sc) (pr_run_id run)
           (sc_completeness sc) (sc_warning_details sc)
           (if scope_authoritative policy sc then [] else missing_entities ob sc previous)"
    by (rule capture_scope_entry(1) [OF entry])
  have "snapshot_valid cur"
    unfolding cur
    by (rule snapshot_of_valid)
       (auto simp: valid missing_entities_def Let_def previous_entities_valid [OF prev] split: if_splits)
  moreover have "file_commit_batch st w ?B (Some r) = (w', Inr ())"
    using capture_committed(1) [OF cap _ ok] new by simp
  ultimately have "file_latest st w' (sn_site_id cur) (sn_domain cur) = Inr (Some cur)"
    using file_contract.latest_committed [OF ready _ mem] by blast
  moreover have "sn_site_id cur = sc_site_id sc" "sn_domain cur = sc_domain sc"
    by (simp_all add: cur snapshot_of_def Let_def)
  ultimately show ?thesis
    using prev captured_keys [OF entry] by auto
qed

section \<open>A healthy disk\<close>

definition no_faults :: "file_store \<Rightarrow> bool" where
  "no_faults st = (\<forall>n. fs_faults st n = No_Fault)"

lemma write_doc_ok: "no_faults st \<Longrightarrow> \<exists>d'. write_doc st p v d = (d', Inr ())"
  by (simp add: no_faults_def write_doc_def atomic_write_def Let_def)

lemma write_entry_ok: "no_faults st \<Longrightarrow> \<exists>d'. write_entry st x d = (d', Inr ())"
  using write_doc_ok [of st "snapshot_path st (sn_snapshot_id (fst x))" "JObj (snapshot_to_dict (fst x))" d]
    write_doc_ok [of st "change_set_path st (cs_change_set_id (snd x))" "JObj (change_set_to_dict (snd x))"]
  by (auto simp: write_entry_def then_do_def write_snapshot_def write_change_set_def split_beta)

lemma write_entries_ok: "no_faults st \<Longrightarrow> \<exists>d'. do_all (write_entry st) es d = (d', Inr ())"
proof (induction es arbitrary: d)
  case (Cons x es)
  then show ?case using write_entry_ok [of st x d] by (auto simp: then_do_def)
qed simp

lemma publish_ok: "no_faults st \<Longrightarrow> \<exists>bs' d'. publish st es bs d = ((bs', d'), Inr ())"
proof (induction es arbitrary: bs d)
  case (Cons x es)
  show ?case
  proof (cases x)
    case (Pair s c)
    with Cons write_doc_ok [of st "latest_path st (sn_site_id s) (sn_domain s)" "pointer_doc s" d]
    show ?thesis by (auto simp: set_latest_def Let_def)
  qed
qed simp

lemma commit_ok:
  assumes "no_faults st" and "check_batch es = Inr u" and "encodable result"
  shows "\<exists>d'. file_commit_batch st d es result = (d', Inr ())"
proof -
  from write_entries_ok [OF assms(1), of es d] obtain d1 where
    1: "do_all (write_entry st) es d = (d1, Inr ())" ..
  from publish_ok [OF assms(1), of es "[]" d1] obtain bs d2 where
    2: "publish st es [] d1 = ((bs, d2), Inr ())" by blast
  show ?thesis
  proof (cases result)
    case None
    then show ?thesis using assms(2) 1 2 by (simp add: file_commit_batch_def)
  next
    case (Some r)
    with assms(3) obtain doc where "capture_to_dict r = Inr doc" by (auto simp: encodable_def)
    with Some write_doc_ok [OF assms(1), of "capture_result_path st (cr_run_id r)" "JObj doc" d2]
    show ?thesis using assms(2) 1 2
      by (auto simp: file_commit_batch_def write_capture_result_def)
  qed
qed

definition entries_of :: "((snapshot \<times> change_set) option \<times> json) list \<Rightarrow> (snapshot \<times> change_set) list" where
  "entries_of parts = concat (map (\<lambda>p. case fst p of None \<Rightarrow> [] | Some e \<Rightarrow> [e]) parts)"

lemma capture_outcome_entries: "fst (capture_outcome H run parts) = entries_of parts"
  by (simp add: capture_outcome_def entries_of_def Let_def)

lemma change_count_sets: "\<exists>n. change_count (map (\<lambda>x. JObj (change_set_to_dict (snd x))) es) = Inr n"
  by (induction es) (auto simp: change_set_to_dict_def dget_or_def)

lemma capture_outcome_encodable: "encodable (Some (snd (capture_outcome H run parts)))"
  using change_count_sets [of "entries_of parts"]
  by (auto simp: encodable_def capture_to_dict_def capture_outcome_def entries_of_def Let_def)

definition entry_scope :: "snapshot \<times> change_set \<Rightarrow> string \<times> string" where
  "entry_scope = (\<lambda>(s, c). (sn_site_id s, sn_domain s))"

lemma capture_scope_entry_ok:
  assumes "capture_scope H cfg policy run ob sc previous = (Some (cur, cs), doc)"
  shows "entry_scope (cur, cs) = sc_authority sc" and "cs_current_snapshot_id cs = sn_snapshot_id cur"
    and "(cs_site_id cs, cs_domain cs) = (sn_site_id cur, sn_domain cur)"
proof -
  from capture_scope_entry(2) [OF assms] obtain n where
    cs: "cs = compare_snapshots H previous cur (pr_run_id run) (sc_completeness sc) n" ..
  show "entry_scope (cur, cs) = sc_authority sc"
    by (simp add: capture_scope_entry(1) [OF assms] entry_scope_def snapshot_of_def Let_def sc_authority_def)
  show "cs_current_snapshot_id cs = sn_snapshot_id cur"
    and "(cs_site_id cs, cs_domain cs) = (sn_site_id cur, sn_domain cur)"
    by (simp_all add: cs compare_snapshots_def Let_def)
qed

lemma map_res_Cons_Inr:
  "map_res f (x # xs) = Inr ys \<longleftrightarrow> (\<exists>y zs. f x = Inr y \<and> map_res f xs = Inr zs \<and> ys = y # zs)"
  by (auto simp: and_then_eq_Inr)

lemma capture_parts_entries:
  assumes "map_res (\<lambda>sc. and_then (L sc) (\<lambda>previous. Inr (capture_scope H cfg policy run ob sc previous))) scs
     = Inr parts" and "distinct (map sc_authority scs)"
  shows "distinct (map entry_scope (entries_of parts)) \<and>
     entry_scope ` set (entries_of parts) \<subseteq> sc_authority ` set scs \<and>
     (\<forall>x \<in> set (entries_of parts). cs_current_snapshot_id (snd x) = sn_snapshot_id (fst x) \<and>
        (cs_site_id (snd x), cs_domain (snd x)) = (sn_site_id (fst x), sn_domain (fst x)))"
  using assms
proof (induction scs arbitrary: parts)
  case Nil
  then show ?case by (simp add: entries_of_def)
next
  case (Cons sc scs)
  let ?F = "\<lambda>sc. and_then (L sc) (\<lambda>previous. Inr (capture_scope H cfg policy run ob sc previous))"
  from Cons.prems(1) obtain y ps where head: "?F sc = Inr y" and
    rest: "map_res ?F scs = Inr ps" and parts': "parts = y # ps"
    unfolding map_res_Cons_Inr by blast
  from head obtain previous where "y = capture_scope H cfg policy run ob sc previous"
    by (auto simp: and_then_eq_Inr)
  with parts' have parts: "parts = capture_scope H cfg policy run ob sc previous # ps" by simp
  from Cons.IH [OF rest] Cons.prems(2) have
    IH: "distinct (map entry_scope (entries_of ps))"
      "entry_scope ` set (entries_of ps) \<subseteq> sc_authority ` set scs"
      "\<forall>x \<in> set (entries_of ps). cs_current_snapshot_id (snd x) = sn_snapshot_id (fst x) \<and>
        (cs_site_id (snd x), cs_domain (snd x)) = (sn_site_id (fst x), sn_domain (fst x))" by simp_all
  show ?case
  proof (cases "fst (capture_scope H cfg policy run ob sc previous)")
    case None
    then have "entries_of parts = entries_of ps" by (simp add: parts entries_of_def)
    then show ?thesis using IH by auto
  next
    case (Some e)
    then have eq: "entries_of parts = e # entries_of ps" by (simp add: parts entries_of_def)
    from Some obtain doc where "capture_scope H cfg policy run ob sc previous = (Some (fst e, snd e), doc)"
      by (metis prod.collapse)
    note ok = capture_scope_entry_ok [OF this, simplified prod.collapse]
    from Cons.prems(2) IH(2) have "sc_authority sc \<notin> entry_scope ` set (entries_of ps)" by auto
    then show ?thesis using IH ok by (auto simp: eq)
  qed
qed

lemma run_scopes_distinct: "run_post_init run = Inr run \<Longrightarrow> distinct (map sc_authority (run_scopes run))"
  by (simp add: run_post_init_def run_scopes_def distinct_map split: if_splits)

lemma capture_parts_check:
  assumes "capture_parts H cfg st w policy run ob = Inr parts" and "run_post_init run = Inr run"
  shows "check_batch (entries_of parts) = Inr ()"
proof -
  note ok = capture_parts_entries [OF assms(1) [unfolded capture_parts_def] run_scopes_distinct [OF assms(2)]]
  have "\<not> list_ex (\<lambda>(s, c). cs_current_snapshot_id c \<noteq> sn_snapshot_id s \<or>
            (cs_site_id c, cs_domain c) \<noteq> (sn_site_id s, sn_domain s)) (entries_of parts)"
    using ok by (auto simp: list_ex_iff)
  then show ?thesis using ok by (simp add: check_batch_def entry_scope_def [symmetric])
qed

lemma map_res_total:
  assumes "\<And>x. x \<in> set xs \<Longrightarrow> \<exists>y. f x = Inr y"
  shows "\<exists>ys. map_res f xs = Inr ys"
  using assms
proof (induction xs)
  case (Cons x xs)
  then obtain y ys where "f x = Inr y" "map_res f xs = Inr ys" by (meson list.set_intros)
  then show ?case by simp
qed simp

lemma capture_succeeds:
  assumes "no_faults st" and run: "run_post_init run = Inr run" and ok: "pr_status run = ''success''"
    and "policy = ''complete_only'' \<or> policy = ''disabled''"
    and new: "file_capture_result st d (pr_run_id run) = Inr None"
    and "undeclared_scopes run ob = []"
    and "\<And>sc. sc \<in> set (pr_scopes run) \<Longrightarrow> \<exists>v. file_latest st d (sc_site_id sc) (sc_domain sc) = Inr v"
  shows "\<exists>d' r. capture H cfg (file_state_store st) d policy run ob = (d', Inr r)"
proof -
  have "\<exists>parts. capture_parts H cfg (file_state_store st) d policy run ob = Inr parts"
    unfolding capture_parts_def
    by (rule map_res_total) (use assms(7) in \<open>force simp: run_scopes_def and_then_eq_Inr\<close>)
  then obtain parts where parts: "capture_parts H cfg (file_state_store st) d policy run ob = Inr parts" ..
  let ?out = "capture_outcome H run parts"
  obtain d' where "file_commit_batch st d (fst ?out) (Some (snd ?out)) = (d', Inr ())"
    using commit_ok [OF assms(1), of "fst ?out" "()" "Some (snd ?out)" d]
      capture_parts_check [OF parts run] capture_outcome_encodable
    by (auto simp: capture_outcome_entries)
  then have "capture H cfg (file_state_store st) d policy run ob = (d', Inr (snd ?out))"
    using assms(4) ok new assms(6) parts
    by (auto simp: capture_def capture_parts_def Let_def split_beta)
  then show ?thesis by blast
qed

end
