(* ===== verification/State_History_Properties.thy ===== *)
theory State_History_Properties
  imports State_History_Capture
begin

text \<open>
  What the state history promises: documents round trip, a comparison reports exactly the
  differences, removals need authority, a capture is idempotent per run, and the store is
  transactional. Each property is followed by an application to a concrete capture.
\<close>

section \<open>A concrete capture\<close>

definition ex_store :: file_store where
  "ex_store = \<lparr>fs_root = ''/r'', fs_digest = (\<lambda>s. s), fs_faults = (\<lambda>_. No_Fault)\<rparr>"

definition ex_disk :: store_disk where
  "ex_disk = \<lparr>files = Map.empty, ticks = 0\<rparr>"

definition ex_entity :: "string \<Rightarrow> string \<Rightarrow> entity" where
  "ex_entity i status =
     \<lparr>en_site_id = ''s1'', en_domain = ''wifi'', en_entity_type = ''ap'', en_entity_id = i,
      en_state = JObj [(''status'', JStr status)], en_observed_at = ''t'', en_collected_at = None,
      en_source = ''aruba'', en_provider = []\<rparr>"

definition ex_observation :: "entity list \<Rightarrow> observation" where
  "ex_observation es =
     \<lparr>ob_observed_at = ''t'', ob_entities = es, ob_scopes = [(''s1'', ''wifi'')],
      ob_collected_at = None, ob_source = [], ob_provider = [], ob_schema_version = 1\<rparr>"

definition ex_scope :: "string \<Rightarrow> obs_scope" where
  "ex_scope cmpl =
     \<lparr>sc_site_id = ''s1'', sc_domain = ''wifi'', sc_completeness = cmpl,
      sc_expected_sources = [''aruba''], sc_observed_sources = [''aruba''], sc_failed_sources = [],
      sc_skipped_sources = [], sc_expected_providers = [], sc_observed_providers = [],
      sc_failed_providers = [], sc_skipped_providers = [], sc_warning_details = []\<rparr>"

definition ex_run :: "string \<Rightarrow> string \<Rightarrow> string \<Rightarrow> pipeline_run" where
  "ex_run i status cmpl =
     \<lparr>pr_run_id = i, pr_started_at = ''t'', pr_completed_at = ''t'', pr_status = status,
      pr_scopes = [ex_scope cmpl], pr_canonical_output = [], pr_warning_details = [],
      pr_schema_version = 1\<rparr>"

definition ex_snapshot :: "entity list \<Rightarrow> snapshot" where
  "ex_snapshot es =
     \<lparr>sn_snapshot_id = ''snapshot:0'', sn_observed_at = ''t'', sn_site_id = ''s1'',
      sn_domain = ''wifi'', sn_entities = es, sn_collected_at = None, sn_source = ''aruba'',
      sn_provider = [], sn_schema_version = 1, sn_run_id = ''r0'', sn_completeness = COMPLETE,
      sn_warning_details = []\<rparr>"

abbreviation ex_capture :: "store_disk \<Rightarrow> store_disk \<times> capture_result res" where
  "ex_capture d \<equiv> capture (\<lambda>s. s) default_engine (file_state_store ex_store) d ''complete_only''
     (ex_run ''r1'' ''success'' COMPLETE) (ex_observation [ex_entity ''a'' ''up''])"

abbreviation ex_batch :: "(snapshot \<times> change_set) list" where
  "ex_batch \<equiv> capture_batch (\<lambda>s. s) default_engine (file_state_store ex_store) ex_disk ''complete_only''
     (ex_run ''r1'' ''success'' COMPLETE) (ex_observation [ex_entity ''a'' ''up''])"

lemmas ex_defs = ex_store_def ex_disk_def ex_entity_def ex_observation_def ex_scope_def ex_run_def

lemma ex_no_result: "file_capture_result ex_store ex_disk i = Inr None"
  by (simp add: file_capture_result_def ex_disk_def)

lemma ex_no_latest: "file_latest ex_store ex_disk site dmn = Inr None"
  by (simp add: file_latest_def ex_disk_def)

lemma ex_run_valid: "run_post_init (ex_run ''r1'' ''success'' COMPLETE) = Inr (ex_run ''r1'' ''success'' COMPLETE)"
  by (simp add: run_post_init_def ex_run_def PIPELINE_STATUSES_def)

lemma ex_declared: "undeclared_scopes (ex_run i st COMPLETE) (ex_observation es) = []"
  by (simp add: undeclared_scopes_def ex_run_def ex_observation_def ex_scope_def sc_authority_def
      usort_def)

lemma ex_capture_succeeds: "\<exists>d' r. ex_capture ex_disk = (d', Inr r)"
  by (rule capture_succeeds)
     (simp_all add: no_faults_def ex_run_valid ex_no_result ex_no_latest ex_declared,
      simp_all add: ex_store_def ex_run_def)

lemma ex_ready: "file_ready ex_store ex_disk ex_batch"
  by (simp add: file_ready_def clean_disk_def ex_disk_def capture_batch_def capture_parts_def
      run_scopes_def capture_scope_def capture_outcome_def ids_consistent_def Let_def
      ex_no_latest [unfolded ex_disk_def] ex_run_def ex_scope_def)

section \<open>Removal authority\<close>

definition ex_previous :: snapshot where
  "ex_previous = ex_snapshot [ex_entity ''a'' ''up'', ex_entity ''b'' ''up'']"

text \<open>
  C1. Removals need authority: comparing a capture of a scope with the previous snapshot, a
  vanished entity yields exactly one \<open>entity_removed\<close> record when the removal policy is
  \<open>complete_only\<close> and the scope was completely observed, and none otherwise; every entity new
  in the scope yields exactly one \<open>entity_added\<close> record.
\<close>

theorem removals_need_authority:
  assumes "capture_scope H cfg policy run ob sc previous = (Some (cur, cs), doc)"
  shows "count_changes ''entity_removed'' k (cs_changes cs) =
      (if scope_authoritative policy sc \<and> k \<in> previous_keys previous - observed_keys ob sc then 1 else 0) \<and>
    count_changes ''entity_added'' k (cs_changes cs) =
      (if k \<in> observed_keys ob sc - previous_keys previous then 1 else 0)"
  using captured_change_counts [OF assms] by blast

lemma removals_need_authority_witness:
  "\<exists>cur cs doc.
    capture_scope (\<lambda>s. s) default_engine ''complete_only'' (ex_run ''r1'' ''success'' COMPLETE)
      (ex_observation [ex_entity ''a'' ''up'']) (ex_scope COMPLETE) (Some ex_previous) = (Some (cur, cs), doc) \<and>
    count_changes ''entity_removed'' (''ap'', ''b'') (cs_changes cs) = 1"
proof -
  obtain cur cs doc where c: "capture_scope (\<lambda>s. s) default_engine ''complete_only''
      (ex_run ''r1'' ''success'' COMPLETE) (ex_observation [ex_entity ''a'' ''up'']) (ex_scope COMPLETE)
      (Some ex_previous) = (Some (cur, cs), doc)"
    using capture_scope_Some by (force simp: scope_authoritative_def ex_scope_def)
  from removals_need_authority [OF c, of "(''ap'', ''b'')"] c show ?thesis
    by (simp add: scope_authoritative_def ex_scope_def previous_keys_def observed_keys_def
        previous_entities_def ex_previous_def ex_snapshot_def ex_entity_def ex_observation_def
        entity_key_def scope_entities_def)
qed

text \<open>
  Without authority nothing is lost: an entity of the previous snapshot that this capture
  did not observe is in the new snapshot with the very record it had.
\<close>

lemma unobserved_entity_carried:
  assumes "capture_scope H cfg policy run ob sc previous = (Some (cur, cs), doc)"
    and "\<not> scope_authoritative policy sc"
    and "e \<in> set (previous_entities previous)" and "entity_key e \<notin> observed_keys ob sc"
    and "distinct (map entity_key (previous_entities previous))"
  shows "e \<in> set (sn_entities cur)"
  using assms by (rule carried_entity_kept)

lemma unobserved_entity_carried_witness:
  "\<exists>cur cs doc.
    capture_scope (\<lambda>s. s) default_engine ''complete_only'' (ex_run ''r1'' ''success'' PARTIAL)
      (ex_observation [ex_entity ''a'' ''up'']) (ex_scope PARTIAL) (Some ex_previous) = (Some (cur, cs), doc) \<and>
    ex_entity ''b'' ''up'' \<in> set (sn_entities cur)"
proof -
  obtain cur cs doc where c: "capture_scope (\<lambda>s. s) default_engine ''complete_only''
      (ex_run ''r1'' ''success'' PARTIAL) (ex_observation [ex_entity ''a'' ''up'']) (ex_scope PARTIAL)
      (Some ex_previous) = (Some (cur, cs), doc)"
    using capture_scope_Some [of "''complete_only''" "ex_scope PARTIAL" "ex_observation [ex_entity ''a'' ''up'']"]
    by (fastforce simp: scope_entities_def ex_defs)
  have "ex_entity ''b'' ''up'' \<in> set (sn_entities cur)"
    by (rule unobserved_entity_carried [OF c])
       (simp_all add: scope_authoritative_def ex_scope_def observed_keys_def completeness_defs
        previous_entities_def ex_previous_def ex_snapshot_def ex_entity_def ex_observation_def
        entity_key_def scope_entities_def)
  with c show ?thesis by blast
qed

text \<open>
  The pipeline bridge grants removal authority conservatively: a scope is declared
  completely observed exactly when expected sources are configured and the sources observed
  for it are exactly those.
\<close>

theorem bridge_authority:
  assumes "bridge_scope expected payload ob a = Inr sc"
  shows "sc_completeness sc = COMPLETE \<longleftrightarrow>
    expected \<noteq> [] \<and> set (sc_observed_sources sc) = set expected"
  using assms by (rule bridge_scope_complete)

lemma bridge_authority_witness:
  "\<exists>sc. bridge_scope [''aruba''] [] (ex_observation [ex_entity ''a'' ''up'']) (''s1'', ''wifi'') = Inr sc \<and>
     sc_completeness sc = COMPLETE"
proof -
  have "bridge_scope [''aruba''] [] (ex_observation [ex_entity ''a'' ''up'']) (''s1'', ''wifi'')
     = Inr (ex_scope COMPLETE)"
    by (simp add: bridge_scope_def scope_sources_def scope_entities_def ex_defs usort_def Let_def
        scope_post_init_def scope_lists_def completeness_defs)
  with bridge_authority [OF this] show ?thesis by (simp add: ex_scope_def)
qed

section \<open>Capturing a pipeline run\<close>

text \<open>
  C2. On a healthy disk a capture succeeds: for a valid successful run that declares every
  observed scope, whose scopes' latest snapshots are readable and whose result is not yet
  stored, \<open>capture\<close> returns a result.
\<close>

theorem capture_total:
  assumes "no_faults st" and "run_post_init run = Inr run" and "pr_status run = ''success''"
    and "policy = ''complete_only'' \<or> policy = ''disabled''"
    and "file_capture_result st d (pr_run_id run) = Inr None"
    and "undeclared_scopes run ob = []"
    and "\<And>sc. sc \<in> set (pr_scopes run) \<Longrightarrow> \<exists>v. file_latest st d (sc_site_id sc) (sc_domain sc) = Inr v"
  shows "\<exists>d' r. capture H cfg (file_state_store st) d policy run ob = (d', Inr r)"
  using assms by (rule capture_succeeds)

lemma capture_total_witness: "\<exists>d' r. ex_capture ex_disk = (d', Inr r) \<and> pr_scopes (ex_run ''r1'' ''success'' COMPLETE) \<noteq> []"
proof -
  have "\<exists>d' r. ex_capture ex_disk = (d', Inr r)"
    by (rule capture_total)
       (simp_all add: no_faults_def ex_run_valid ex_no_result ex_no_latest ex_declared,
        simp_all add: ex_store_def ex_run_def)
  then show ?thesis by (simp add: ex_run_def)
qed

text \<open>
  A capture is idempotent per pipeline run: once a run was captured, capturing the same
  run id again, whatever is then observed, returns the stored result and writes nothing.
\<close>

theorem capture_idempotent:
  assumes "capture H cfg (file_state_store st) w policy run ob = (w', Inr r)"
    and "file_capture_result st w (pr_run_id run) = Inr None" and "pr_status run = ''success''"
    and "file_ready st w (capture_batch H cfg (file_state_store st) w policy run ob)"
    and "pr_run_id run' = pr_run_id run" and "policy' = ''complete_only'' \<or> policy' = ''disabled''"
  shows "capture H cfg' (file_state_store st) w' policy' run' ob' = (w', Inr r)"
  using assms by (rule capture_again)

lemma capture_idempotent_witness:
  "\<exists>d r. ex_capture ex_disk = (d, Inr r) \<and>
    capture (\<lambda>s. s) default_engine (file_state_store ex_store) d ''disabled''
      (ex_run ''r1'' ''failed'' FAILED) (ex_observation []) = (d, Inr r)"
proof -
  obtain d r where c: "ex_capture ex_disk = (d, Inr r)" using ex_capture_succeeds by blast
  have "capture (\<lambda>s. s) default_engine (file_state_store ex_store) d ''disabled''
      (ex_run ''r1'' ''failed'' FAILED) (ex_observation []) = (d, Inr r)"
    by (rule capture_idempotent [OF c]) (simp_all add: ex_no_result ex_ready, simp_all add: ex_run_def)
  with c show ?thesis by blast
qed

text \<open>
  C3. After a committed capture the store's latest snapshot of every captured scope holds
  exactly the observed entities, and those of the previous snapshot as well when the scope
  had no removal authority.
\<close>

theorem capture_updates_latest:
  assumes "capture H cfg (file_state_store st) w policy run ob = (w', Inr r)"
    and "file_capture_result st w (pr_run_id run) = Inr None" and "pr_status run = ''success''"
    and "file_ready st w (capture_batch H cfg (file_state_store st) w policy run ob)"
    and "\<And>e. e \<in> set (ob_entities ob) \<Longrightarrow> entity_post_init e = Inr e"
    and "sc \<in> set (pr_scopes run)"
    and "scope_authoritative policy sc \<or> scope_entities ob (sc_site_id sc) (sc_domain sc) \<noteq> []"
  shows "\<exists>previous s. file_latest st w (sc_site_id sc) (sc_domain sc) = Inr previous \<and>
     file_latest st w' (sc_site_id sc) (sc_domain sc) = Inr (Some s) \<and>
     entity_key ` set (sn_entities s) = observed_keys ob sc \<union>
       (if scope_authoritative policy sc then {} else previous_keys previous)"
  using assms by (rule capture_then_latest)

lemma capture_updates_latest_witness:
  "\<exists>d r s. ex_capture ex_disk = (d, Inr r) \<and> file_latest ex_store d ''s1'' ''wifi'' = Inr (Some s) \<and>
    entity_key ` set (sn_entities s) = {(''ap'', ''a'')}"
proof -
  obtain d r where c: "ex_capture ex_disk = (d, Inr r)" using ex_capture_succeeds by blast
  have "\<exists>previous s. file_latest ex_store ex_disk (sc_site_id (ex_scope COMPLETE)) (sc_domain (ex_scope COMPLETE)) = Inr previous \<and>
     file_latest ex_store d (sc_site_id (ex_scope COMPLETE)) (sc_domain (ex_scope COMPLETE)) = Inr (Some s) \<and>
     entity_key ` set (sn_entities s) = observed_keys (ex_observation [ex_entity ''a'' ''up'']) (ex_scope COMPLETE) \<union>
       (if scope_authoritative ''complete_only'' (ex_scope COMPLETE) then {} else previous_keys previous)"
    by (rule capture_updates_latest [OF c])
       (simp_all add: ex_no_result ex_ready,
        auto simp: ex_run_def ex_observation_def ex_entity_def entity_post_init_def
          scope_authoritative_def ex_scope_def)
  then show ?thesis using c
    by (auto simp: ex_scope_def scope_authoritative_def observed_keys_def scope_entities_def
        ex_observation_def ex_entity_def entity_key_def)
qed

text \<open>
  A pipeline run that did not succeed never changes the store: unless its result is
  already stored, the capture is reported as skipped with no snapshot and no change set.
\<close>

lemma unsuccessful_run_skipped:
  assumes "pr_status run \<noteq> ''success''" and "policy = ''complete_only'' \<or> policy = ''disabled''"
    and "st_capture_result st w (pr_run_id run) = Inr None"
  shows "\<exists>r. capture H cfg st w policy run ob = (w, Inr r) \<and> cr_status r = ''skipped'' \<and>
     cr_run_id r = pr_run_id run \<and> cr_snapshots r = [] \<and> cr_change_sets r = []"
  using assms by (auto simp: capture_def skipped_result_def)

lemma unsuccessful_run_skipped_witness:
  "\<exists>r. capture (\<lambda>s. s) default_engine (file_state_store ex_store) ex_disk ''disabled''
      (ex_run ''r1'' ''failed'' FAILED) (ex_observation []) = (ex_disk, Inr r) \<and> cr_status r = ''skipped''"
  using unsuccessful_run_skipped [of "ex_run ''r1'' ''failed'' FAILED" "''disabled''"
      "file_state_store ex_store" ex_disk "\<lambda>s. s" default_engine "ex_observation []"]
  by (auto simp: ex_run_def ex_no_result)

section \<open>The store\<close>

text \<open>
  C4. A failed commit is rolled back: when at most one file operation of a commit fails and
  the commit returns an error, every file of the store other than the content-addressed
  snapshot and change-set documents of the batch is as it was, so every latest pointer and
  every capture result.
\<close>

theorem failed_commit_rolled_back:
  assumes "clean_disk d" and "one_fault (fs_faults st)" and "encodable result"
    and "distinct (map (entry_path st) es)"
    and "file_commit_batch st d es result = (d', Inl e)"
    and "q \<notin> (\<Union>x \<in> set es. doc_path st x)"
  shows "files d' q = files d q"
  using assms by (rule commit_failure_frame)

definition ex_change_set :: change_set where
  "ex_change_set = compare_snapshots (\<lambda>s. s) None (ex_snapshot []) ''r0'' COMPLETE 0"

definition ex_faulty :: file_store where
  "ex_faulty = ex_store\<lparr>fs_faults := (\<lambda>n. if n = 2 then Fail_Replace else No_Fault)\<rparr>"

lemma ex_faults: "fs_faults ex_faulty = (\<lambda>n. if n = 2 then Fail_Replace else No_Fault)"
  by (simp add: ex_faulty_def)

lemma ex_check: "check_batch [(ex_snapshot [], ex_change_set)] = Inr ()"
  by (simp add: check_batch_def ex_change_set_def compare_snapshots_def Let_def)

lemma failed_commit_rolled_back_witness:
  "\<exists>d'. file_commit_batch ex_faulty ex_disk [(ex_snapshot [], ex_change_set)] None = (d', Inl io_error) \<and>
     files d' (Path (latest_path ex_faulty ''s1'' ''wifi'')) = None"
proof -
  have "\<exists>d'. file_commit_batch ex_faulty ex_disk [(ex_snapshot [], ex_change_set)] None = (d', Inl io_error)"
    by (simp add: file_commit_batch_def ex_check write_entry_def write_snapshot_def write_change_set_def
        write_doc_def atomic_write_def set_latest_def roll_back_def atomic_remove_def unlink_if_def
        ex_faults ex_disk_def then_do_def Let_def)
  then obtain d' where c: "file_commit_batch ex_faulty ex_disk [(ex_snapshot [], ex_change_set)] None
      = (d', Inl io_error)" ..
  have "files d' (Path (latest_path ex_faulty ''s1'' ''wifi''))
      = files ex_disk (Path (latest_path ex_faulty ''s1'' ''wifi''))"
    by (rule failed_commit_rolled_back [OF _ _ _ _ c])
       (simp_all add: clean_disk_def ex_disk_def one_fault_def ex_faulty_def encodable_def doc_path_def)
  with c show ?thesis by (simp add: ex_disk_def)
qed

text \<open>
  C5. Whatever fails, latest pointers never dangle: under any schedule of faults, a commit
  that succeeds, fails or even fails to roll back leaves every latest pointer of the store
  referring to a complete, valid snapshot of its own scope, and no temporary file.
\<close>

theorem pointers_never_dangle:
  assumes "store_inv st d" and "distinct (map (entry_path st) es)" and "ids_consistent es"
    and "ids_fresh st d es" and "\<And>s c. (s, c) \<in> set es \<Longrightarrow> snapshot_valid s"
    and "file_commit_batch st d es result = (d', r)"
  shows "store_inv st d'"
  using assms by (rule commit_keeps_inv)

lemma ex_store_inv: "store_inv ex_faulty ex_disk"
  by (simp add: store_inv_def clean_disk_def ex_disk_def)

lemma pointers_never_dangle_witness:
  "store_inv ex_faulty (fst (file_commit_batch ex_faulty ex_disk [(ex_snapshot [], ex_change_set)] None))"
proof (rule pointers_never_dangle [OF ex_store_inv])
  show "file_commit_batch ex_faulty ex_disk [(ex_snapshot [], ex_change_set)] None =
    (fst (file_commit_batch ex_faulty ex_disk [(ex_snapshot [], ex_change_set)] None),
     snd (file_commit_batch ex_faulty ex_disk [(ex_snapshot [], ex_change_set)] None))" by simp
qed (simp_all add: ids_consistent_def ids_fresh_def ex_disk_def snapshot_valid_def ex_snapshot_def)

text \<open>
  An atomic file write is all or nothing: under any fault of any of its steps, the target
  holds the new content exactly when the write returned normally and its old content
  otherwise, no other file changes and no temporary file is left.
\<close>

theorem atomic_write_all_or_nothing:
  assumes "clean_disk d" and "atomic_write F p c d = (d', r)"
  shows "files d' (Path p) = (if r = Inr () then Some c else files d (Path p)) \<and>
    (\<forall>q. q = Path p \<or> files d' q = files d q) \<and> clean_disk d'"
  using atomic_write_all_or_nothing_aux [OF assms] by blast

lemma atomic_write_all_or_nothing_witness:
  "files (fst (atomic_write (\<lambda>_. Fail_Write (1::nat)) ''/x'' 2 \<lparr>files = [Path ''/x'' \<mapsto> 7], ticks = 0\<rparr>))
     (Path ''/x'') = Some 7"
proof -
  let ?d = "\<lparr>files = [Path ''/x'' \<mapsto> (7::nat)], ticks = 0\<rparr>"
  have "clean_disk ?d" by (simp add: clean_disk_def)
  from atomic_write_all_or_nothing [OF this, of "\<lambda>_. Fail_Write 1" "''/x''" 2] show ?thesis
    by (simp add: atomic_write_def Let_def)
qed

section \<open>Comparing states\<close>

text \<open>
  Normalising a state is idempotent and leaves no volatile field at any depth.
\<close>

theorem normalise_idempotent:
  "normalise V U path (normalise V U path v) = normalise V U path v \<and> free_of_keys V (normalise V U path v)"
  by (simp add: normalise_idem_aux normalise_free_of_keys)

text \<open>
  A field comparison is exact: it reports nothing exactly when the two states are equal,
  and every reported path holds the two reported values, which differ.
\<close>

theorem field_diffs_exact:
  assumes "wf_json old" and "wf_json new"
  shows "(field_diffs [] old new = [] \<longleftrightarrow> py_eq old new) \<and>
    (\<forall>(ctype, path, pv, cv) \<in> set (field_diffs [] old new).
       pv = null_or (lookup_path old path) \<and> cv = null_or (lookup_path new path) \<and>
       differs (lookup_path old path) (lookup_path new path)) \<and>
    (\<forall>p. differs (lookup_path old p) (lookup_path new p) \<longrightarrow> field_diffs [] old new \<noteq> [])"
  using field_diffs_Nil_iff [OF assms, of "[]"] field_diffs_sound [of _ _ _ _ "[]" old new]
    field_diffs_complete [OF assms, of _ "[]"]
  by fastforce

lemma field_diffs_exact_witness:
  "field_diffs [] (JObj [(''a'', JStr ''x''), (''b'', JObj [(''c'', JStr ''y'')])])
     (JObj [(''b'', JObj [(''c'', JStr ''z'')]), (''a'', JStr ''x'')])
   = [(''field_changed'', [''b'', ''c''], JStr ''y'', JStr ''z'')] \<and>
   \<not> py_eq (JObj [(''a'', JStr ''x''), (''b'', JObj [(''c'', JStr ''y'')])])
     (JObj [(''b'', JObj [(''c'', JStr ''z'')]), (''a'', JStr ''x'')])"
  using field_diffs_exact [of "JObj [(''a'', JStr ''x''), (''b'', JObj [(''c'', JStr ''y'')])]"
      "JObj [(''b'', JObj [(''c'', JStr ''z'')]), (''a'', JStr ''x'')]"]
  by (simp add: usort_def dget_def field_change_type_def STATUS_FIELDS_def)

text \<open>
  A comparison of snapshots is empty exactly when both hold the same entities in equal
  states.
\<close>

theorem compare_empty_iff_unchanged:
  assumes "\<And>e. e \<in> set (previous_entities previous) \<Longrightarrow> wf_json (en_state e)"
    and "\<And>e. e \<in> set (sn_entities current) \<Longrightarrow> wf_json (en_state e)"
  shows "cs_changes (compare_snapshots H previous current run_id cmpl n) = [] \<longleftrightarrow>
     (\<forall>k. case (map_of (index_entities [] (previous_entities previous)) k,
               map_of (index_entities [] (sn_entities current)) k) of
        (None, None) \<Rightarrow> True
      | (Some p, Some e) \<Rightarrow> py_eq (en_state p) (en_state e)
      | _ \<Rightarrow> False)"
  using assms by (rule compare_Nil_iff)

lemma compare_empty_iff_unchanged_witness:
  "cs_changes (compare_snapshots (\<lambda>s. s) (Some (ex_snapshot [ex_entity ''a'' ''up''])) (ex_snapshot []) [] [] 0) \<noteq> []"
  using compare_empty_iff_unchanged [of "Some (ex_snapshot [ex_entity ''a'' ''up''])" "ex_snapshot []" "\<lambda>s. s" "[]" "[]" 0]
  by (auto simp: previous_entities_def ex_snapshot_def ex_entity_def
      intro!: exI [of _ "(''ap'', ''a'')"] simp: entity_key_def)

section \<open>Documents\<close>

text \<open>A validated observation scope survives the round trip through its document.\<close>

theorem scope_dict_roundtrip:
  assumes "scope_post_init s = Inr s"
  shows "scope_from_dict (JObj (scope_to_dict s)) = Inr s"
  using assms by (rule scope_roundtrip_aux)

lemma ex_scope_ok: "scope_post_init (ex_scope COMPLETE) = Inr (ex_scope COMPLETE)"
  by (simp add: scope_post_init_def ex_scope_def scope_lists_def completeness_defs usort_def Let_def)

lemma scope_dict_roundtrip_witness:
  "scope_from_dict (JObj (scope_to_dict (ex_scope COMPLETE))) = Inr (ex_scope COMPLETE)"
  by (rule scope_dict_roundtrip) (rule ex_scope_ok)

text \<open>
  A pipeline run read from a document is valid: it and all of its scopes satisfy the
  validation of their classes.
\<close>

theorem run_document_validated:
  assumes "run_from_dict v = Inr r"
  shows "run_valid r"
  using assms by (auto simp: run_from_dict_def run_of_dict_valid split: json.splits)

lemma run_document_validated_witness:
  "\<exists>r. run_from_dict (JObj [(''run_id'', JStr ''r''), (''started_at'', JStr ''t''),
      (''completed_at'', JStr ''t''), (''status'', JStr ''success''),
      (''scopes'', JList [JObj (scope_to_dict (ex_scope COMPLETE))])]) = Inr r \<and> run_valid r"
proof -
  have "\<exists>r. run_from_dict (JObj [(''run_id'', JStr ''r''), (''started_at'', JStr ''t''),
      (''completed_at'', JStr ''t''), (''status'', JStr ''success''),
      (''scopes'', JList [JObj (scope_to_dict (ex_scope COMPLETE))])]) = Inr r"
    by (simp add: run_from_dict_def run_of_dict_def run_post_init_def str_field_def dget_def dget_or_def
        por_def PIPELINE_STATUSES_def scope_roundtrip_aux ex_scope_ok sorted_strs_def usort_def)
  then show ?thesis using run_document_validated by blast
qed

text \<open>
  A valid snapshot, and a capture result that can be encoded, survive the round trip
  through their documents, so that what the store reads is what was written.
\<close>

lemma stored_documents_roundtrip:
  assumes "snapshot_valid s" and "capture_to_dict r = Inr d"
  shows "snapshot_from_dict (JObj (snapshot_to_dict s)) = Inr s \<and> capture_from_dict (JObj d) = Inr r"
  using snapshot_roundtrip_aux [OF assms(1)] capture_roundtrip_aux [OF assms(2)] by blast

lemma stored_documents_roundtrip_witness:
  "snapshot_from_dict (JObj (snapshot_to_dict (ex_snapshot [ex_entity ''a'' ''up''])))
     = Inr (ex_snapshot [ex_entity ''a'' ''up'']) \<and>
   (\<exists>d. capture_to_dict (skipped_result (\<lambda>s. s) (ex_run ''r1'' ''failed'' FAILED)) = Inr d \<and>
      capture_from_dict (JObj d) = Inr (skipped_result (\<lambda>s. s) (ex_run ''r1'' ''failed'' FAILED)))"
proof -
  obtain d where d: "capture_to_dict (skipped_result (\<lambda>s. s) (ex_run ''r1'' ''failed'' FAILED)) = Inr d"
    by (simp add: capture_to_dict_def skipped_result_def)
  have "snapshot_valid (ex_snapshot [ex_entity ''a'' ''up''])"
    by (simp add: snapshot_valid_def ex_snapshot_def ex_entity_def entity_post_init_def)
  from stored_documents_roundtrip [OF this d] d show ?thesis by blast
qed

end
