(* ===== verification/Py_Number.thy ===== *)
theory Py_Number
  imports Py_Time
begin

text \<open>
  Python's conversions between text, \<open>float\<close> and \<open>int\<close> as far as the platform uses
  them. A float is known by its \<open>repr\<close>. Rounding and truncation of a float are computed
  on that decimal text, which is exact for a \<open>repr\<close> without exponent: the text lies on
  the same side of every integer and half-integer below \<open>2^53\<close> as the float. Decimal
  texts of more than 15 significant digits and exponent forms are \<open>Unmodelled\<close>.
\<close>

section \<open>Decimal texts\<close>

definition digits_int :: "string \<Rightarrow> int" where
  "digits_int s = foldl (\<lambda>n c. n * 10 + digit_val c) 0 s"

definition split_decimal :: "string \<Rightarrow> (string \<times> string) option" where
  "split_decimal s = (let a = takeWhile is_digit s in
     case dropWhile is_digit s of
       [] \<Rightarrow> if a = [] then None else Some (a, [])
     | c # b \<Rightarrow> if c = CHR ''.'' \<and> list_all is_digit b \<and> (a \<noteq> [] \<or> b \<noteq> []) then Some (a, b) else None)"

definition parse_decimal :: "string \<Rightarrow> (bool \<times> string \<times> string) option" where
  "parse_decimal s = (case s of [] \<Rightarrow> None
     | c # cs \<Rightarrow> if c = CHR ''-'' then map_option (Pair True) (split_decimal cs)
         else if c = CHR ''+'' then map_option (Pair False) (split_decimal cs)
         else map_option (Pair False) (split_decimal s))"

text \<open>\<open>round\<close>: to the nearest integer, ties to even.\<close>

definition round_half_even :: "int \<Rightarrow> int \<Rightarrow> int" where
  "round_half_even n d = (let q = n div d; r = n mod d in
     if 2 * r < d then q else if 2 * r > d then q + 1 else if even q then q else q + 1)"

lemma round_half_even_exact [simp]: "0 < d \<Longrightarrow> round_half_even (q * d) d = q"
  by (simp add: round_half_even_def)

lemma round_half_even_near:
  assumes "0 < d"
  shows "2 * \<bar>n - round_half_even n d * d\<bar> \<le> d"
proof -
  define q r where "q = n div d" and "r = n mod d"
  have "0 \<le> r" "r < d" using assms by (simp_all add: r_def)
  moreover have "n = d * q + r" by (simp add: q_def r_def)
  ultimately show ?thesis
    unfolding round_half_even_def q_def [symmetric] r_def [symmetric] Let_def
    by (auto simp: algebra_simps)
qed

definition is_nonfinite :: "string \<Rightarrow> bool" where
  "is_nonfinite s = (s \<in> {''nan'', ''inf'', ''-inf''})"

definition signed :: "bool \<Rightarrow> int \<Rightarrow> int" where
  "signed neg n = (if neg then - n else n)"

definition round_float :: "string \<Rightarrow> int res" where
  "round_float s =
     (if s = ''nan'' then Inl (ValueError ''cannot convert float NaN to integer'')
      else if s = ''inf'' \<or> s = ''-inf'' then Inl (OverflowError ''cannot convert float infinity to integer'')
      else case parse_decimal s of
        Some (neg, a, b) \<Rightarrow> Inr (signed neg (round_half_even (digits_int (a @ b)) (10 ^ length b)))
      | None \<Rightarrow> if contains ''e-'' s then Inr 0 else Inl (Unmodelled s))"

definition trunc_float :: "string \<Rightarrow> int res" where
  "trunc_float s =
     (if s = ''nan'' then Inl (ValueError ''cannot convert float NaN to integer'')
      else if s = ''inf'' \<or> s = ''-inf'' then Inl (OverflowError ''cannot convert float infinity to integer'')
      else case parse_decimal s of
        Some (neg, a, b) \<Rightarrow> Inr (signed neg (digits_int a))
      | None \<Rightarrow> if contains ''e-'' s then Inr 0 else Inl (Unmodelled s))"

section \<open>Converting text to float\<close>

definition drop_zeros :: "string \<Rightarrow> string" where
  "drop_zeros s = dropWhile (\<lambda>c. c = CHR ''0'') s"

text \<open>
  The \<open>repr\<close> of a decimal with at most 15 significant digits, whose digits the float
  keeps; below \<open>0.0001\<close> Python would print an exponent.
\<close>

definition decimal_repr :: "bool \<Rightarrow> string \<Rightarrow> string \<Rightarrow> string res" where
  "decimal_repr neg a b =
     (if length (drop_zeros (a @ b)) > 15 \<or>
         (drop_zeros a = [] \<and> drop_zeros b \<noteq> [] \<and> length b > 3 \<and> list_all (\<lambda>c. c = CHR ''0'') (take 4 b))
      then Inl (Unmodelled (a @ b))
      else Inr ((if neg then ''-'' else []) @ sor (drop_zeros a) ''0'' @ ''.'' @
        sor (rev (drop_zeros (rev b))) ''0''))"

definition special_floats :: "(string \<times> string) list" where
  "special_floats =
     [(''nan'', ''nan''), (''+nan'', ''nan''), (''-nan'', ''nan''),
      (''inf'', ''inf''), (''+inf'', ''inf''), (''-inf'', ''-inf''),
      (''infinity'', ''inf''), (''+infinity'', ''inf''), (''-infinity'', ''-inf'')]"

definition float_of_str :: "string \<Rightarrow> string res" where
  "float_of_str s = (let t = strip s in
     case parse_decimal t of
       Some (neg, a, b) \<Rightarrow> decimal_repr neg a b
     | None \<Rightarrow> (case map_of special_floats (lower t) of
         Some r \<Rightarrow> Inr r
       | None \<Rightarrow> if list_ex (\<lambda>c. c \<in> {CHR ''e'', CHR ''E'', CHR ''_''}) t then Inl (Unmodelled t)
           else Inl (ValueError ''could not convert string to float'')))"

text \<open>\<open>float(v)\<close> as a \<open>repr\<close>.\<close>

fun py_float :: "json \<Rightarrow> string res" where
  "py_float (JBool b) = Inr (if b then ''1.0'' else ''0.0'')"
| "py_float (JInt i) = (if \<bar>i\<bar> < 10 ^ 15 then Inr (show_int i @ ''.0'') else Inl (Unmodelled ''large int''))"
| "py_float (JFloat s) = Inr s"
| "py_float (JStr s) = float_of_str s"
| "py_float _ = Inl (TypeError ''float() argument must be a string or a real number'')"

section \<open>Binary64 rounding\<close>

text \<open>
  The double nearest to \<open>n / d\<close> (ties to even), as a fraction: the significand is scaled
  to 53 bits. Subnormal and overflowing results do not occur in the modelled arithmetic.
\<close>

fun bits_needed :: "nat \<Rightarrow> int \<Rightarrow> nat" where
  "bits_needed 0 n = 0"
| "bits_needed (Suc fuel) n = (if n = 0 then 0 else Suc (bits_needed fuel (n div 2)))"

text \<open>128 halvings suffice: every numerator and denominator here is below \<open>2^128\<close>.\<close>

definition bit_length :: "int \<Rightarrow> nat" where
  "bit_length n = bits_needed 128 n"

definition pow2 :: "nat \<Rightarrow> int" where
  "pow2 k = 2 ^ k"

definition scale_of :: "int \<Rightarrow> int \<Rightarrow> int" where
  "scale_of n d = (let e = int (bit_length n) - int (bit_length d) - 53;
       up = pow2 (nat e); down = pow2 (nat (- e)) in
     if n * down \<ge> pow2 53 * (d * up) then e + 1
     else if n * down < pow2 52 * (d * up) then e - 1 else e)"

definition to_double :: "int \<Rightarrow> int \<Rightarrow> int \<times> int" where
  "to_double n d = (if n = 0 then (0, 1) else
     (let e = scale_of n d; up = pow2 (nat e); down = pow2 (nat (- e)) in
      (round_half_even (n * down) (d * up) * up, down)))"

text \<open>
  \<open>int(parsed.timestamp() * 1_000_000_000)\<close> of an instant given in microseconds since
  the Unix epoch: a division and a product of doubles, then truncation.
\<close>

definition epoch_us :: int where
  "epoch_us = (ymd2ord 1970 1 1 - 1) * day_us"

definition ns_of_us :: "int \<Rightarrow> int" where
  "ns_of_us u = (let (n, d) = to_double \<bar>u\<bar> 1000000;
       (n', d') = to_double (n * 1000000000) d in signed (u < 0) (n' div d'))"

lemma ns_of_us_examples:
  "ns_of_us 1700000000000000 = 1700000000000000000"
  "ns_of_us 1700000000123457 = 1700000000123457024"
  "ns_of_us 1500000 = 1500000000"
  by code_simp+

lemma round_float_examples:
  "round_float ''2.5'' = Inr 2" "round_float ''3.5'' = Inr 4" "round_float ''-1.7'' = Inr (-2)"
  "float_of_str '' 012.50 '' = Inr ''12.5''" "trunc_float ''-3.9'' = Inr (-3)"
  by code_simp+

end
