(* ===== verification/Telemetry.thy ===== *)
theory Telemetry
  imports Py_Number
begin

text \<open>
  \<open>telemetry/contracts.py\<close> and \<open>telemetry/health.py\<close>: the deployment identity that
  the framework puts on every point, the registry of typed fields, the validation of a point
  and the projection of a collector's outcome to a health point.
\<close>

section \<open>Deployment identity\<close>

record deployment =
  dm_deployment_id :: string
  dm_customer_id :: string
  dm_site_id :: string
  dm_customer_name :: string
  dm_site_name :: string
  dm_display_name :: string
  dm_timezone :: string
  dm_currency :: string
  dm_region :: string

definition section_of :: "dict \<Rightarrow> string \<Rightarrow> dict res" where
  "section_of config k = (case por (dget config k) (JObj []) of
     JObj d \<Rightarrow> Inr d | _ \<Rightarrow> Inl (AttributeError ''object has no attribute get''))"

text \<open>\<open>str(a or b or ... or default).strip()\<close>.\<close>

definition first_text :: "json list \<Rightarrow> string \<Rightarrow> string" where
  "first_text vs dflt = strip (py_str (foldr por vs (JStr dflt)))"

definition deployment_from_config :: "dict \<Rightarrow> deployment res" where
  "deployment_from_config config =
     and_then (section_of config ''identity'') (\<lambda>identity.
     and_then (section_of config ''deployment'') (\<lambda>depl.
     and_then (section_of config ''writer'') (\<lambda>writer.
     Inr \<lparr>dm_deployment_id = first_text [dget writer ''deployment_id'', dget config ''deployment_id''] [],
          dm_customer_id = first_text [dget writer ''customer_id'', dget config ''customer_id''] [],
          dm_site_id = first_text [dget writer ''site_id'', dget config ''site_id''] [],
          dm_customer_name = first_text [dget writer ''customer_name'', dget identity ''customer_name''] [],
          dm_site_name = first_text [dget writer ''site_name'', dget config ''site_name'',
            dget identity ''site_name''] [],
          dm_display_name = first_text [dget depl ''display_name'', dget depl ''name'',
            dget identity ''display_name''] [],
          dm_timezone = first_text [dget depl ''timezone'', dget config ''timezone''] ''UTC'',
          dm_currency = first_text [dget depl ''currency''] [],
          dm_region = first_text [dget depl ''region''] []\<rparr>)))"

text \<open>A run of \<open>if b: result[k] = v\<close> statements.\<close>

definition set_all :: "(bool \<times> string \<times> json) list \<Rightarrow> dict \<Rightarrow> dict" where
  "set_all us r = foldl (\<lambda>r (b, k, v). if b then dset r k v else r) r us"

fun unhashable :: "json \<Rightarrow> bool" where
  "unhashable (JList _) = True"
| "unhashable (JObj _) = True"
| "unhashable _ = False"

text \<open>
  \<open>apply\<close>: connector identity moves to \<open>source_*\<close> attribution and the deployment's own
  identity takes its place.
\<close>

definition source_site_id :: "dict \<Rightarrow> json" where
  "source_site_id r = por (dget r ''source_site_id'') (dget r ''site_id'')"

definition source_site_name :: "dict \<Rightarrow> json" where
  "source_site_name r = por (dget r ''source_site_name'') (por (dget r ''site_name'') (dget r ''site''))"

definition source_customer_id :: "dict \<Rightarrow> json" where
  "source_customer_id r =
     por (dget r ''source_customer_id'') (por (dget r ''customer_id'') (dget r ''customer''))"

definition attribution_updates :: "deployment \<Rightarrow> dict \<Rightarrow> (bool \<times> string \<times> json) list" where
  "attribution_updates md r =
     (let sid = source_site_id r; sname = source_site_name r; cid = source_customer_id r in
      [(dm_site_id md \<noteq> [] \<and> truthy sid \<and> sid \<noteq> JStr (dm_site_id md),
          ''source_site_id'', JStr (py_str sid)),
       (dm_site_id md \<noteq> [] \<and> truthy sname \<and> sname \<noteq> JStr (dm_site_id md) \<and> sname \<noteq> JStr (dm_site_name md),
          ''source_site_name'', JStr (py_str sname)),
       (dm_customer_id md \<noteq> [] \<and> truthy cid \<and> cid \<noteq> JStr (dm_customer_id md),
          ''source_customer_id'', JStr (py_str cid))])"

definition identity_updates :: "deployment \<Rightarrow> (bool \<times> string \<times> json) list" where
  "identity_updates md =
     [(dm_deployment_id md \<noteq> [], ''deployment_id'', JStr (dm_deployment_id md)),
      (dm_customer_id md \<noteq> [], ''customer_id'', JStr (dm_customer_id md)),
      (dm_customer_id md \<noteq> [], ''customer'', JStr (dm_customer_id md)),
      (dm_site_id md \<noteq> [], ''site_id'', JStr (dm_site_id md)),
      (dm_site_id md \<noteq> [], ''site'', JStr (dm_site_id md)),
      (dm_customer_name md \<noteq> [], ''customer_name'', JStr (dm_customer_name md)),
      (dm_site_name md \<noteq> [], ''site_name'', JStr (dm_site_name md))]"

definition applied_tags :: "deployment \<Rightarrow> dict \<Rightarrow> dict" where
  "applied_tags md r = set_all (attribution_updates md r @ identity_updates md) r"

definition apply_metadata :: "deployment \<Rightarrow> json \<Rightarrow> dict res" where
  "apply_metadata md tags = (case por tags (JObj []) of
     JObj r \<Rightarrow>
       (if dm_site_id md \<noteq> [] \<and> unhashable (source_site_name r)
            \<and> truthy (source_site_name r) then Inl (TypeError ''unhashable type'')
        else Inr (applied_tags md r))
   | JStr _ \<Rightarrow> Inl (ValueError ''dictionary update sequence'')
   | JList _ \<Rightarrow> Inl (Unmodelled ''tags from a sequence of pairs'')
   | _ \<Rightarrow> Inl (TypeError ''object is not iterable''))"

section \<open>Typed fields\<close>

definition FIELD_TYPES :: "(string \<times> (string \<times> string) list) list" where
  "FIELD_TYPES =
     [(''availability'', [(''total'', ''integer''), (''offline'', ''integer'')]),
      (''collector_health'', [(''duration_ms'', ''integer''), (''points_generated'', ''integer''),
         (''points_written'', ''integer''), (''retry_count'', ''integer''),
         (''api_latency_ms'', ''integer''), (''api_requests'', ''integer''),
         (''error_count'', ''integer'')]),
      (''device'', [(''uptime_seconds'', ''integer''), (''cpu_count'', ''integer'')]),
      (''performance'', [(''cpu_percent'', ''integer''), (''active_sessions'', ''integer''),
         (''max_sessions'', ''integer''), (''printer_count'', ''integer''),
         (''held_jobs'', ''integer''), (''error_count'', ''integer'')])]"

definition STABLE_IDENTITY_TAGS :: "string list" where
  "STABLE_IDENTITY_TAGS =
     [''collector'', ''customer_id'', ''deployment_id'', ''device_id'', ''hostname'', ''model'', ''site_id'']"

definition field_type :: "string \<Rightarrow> string \<Rightarrow> string option" where
  "field_type measurement field =
     (case map_of FIELD_TYPES measurement of None \<Rightarrow> None | Some m \<Rightarrow> map_of m field)"

fun coerce_integer :: "json \<Rightarrow> int res" where
  "coerce_integer (JBool b) = Inr (if b then 1 else 0)"
| "coerce_integer (JInt i) = Inr i"
| "coerce_integer (JFloat s) = (if is_nonfinite s then Inl (TypeError []) else round_float s)"
| "coerce_integer (JStr s) = and_then (float_of_str (strip s)) round_float"
| "coerce_integer _ = Inl (TypeError [])"

definition coerce_float :: "json \<Rightarrow> string res" where
  "coerce_float v = and_then (py_float v) (\<lambda>s. if is_nonfinite s then Inl (TypeError []) else Inr s)"

definition coerce_boolean_integer :: "json \<Rightarrow> int res" where
  "coerce_boolean_integer v = (case v of JBool b \<Rightarrow> Inr (if b then 1 else 0)
   | _ \<Rightarrow> (let text = casefold (strip (py_str v)) in
       if text \<in> {''1'', ''true'', ''yes'', ''on''} then Inr 1
       else if text \<in> {''0'', ''false'', ''no'', ''off''} then Inr 0
       else Inl (ValueError ''value is not boolean'')))"

definition timestamp_text :: "string \<Rightarrow> int res" where
  "timestamp_text s = (case fromisoformat (replace_z (strip s)) of
     None \<Rightarrow> Inl (ValueError ''Invalid isoformat string'')
   | Some (Datetime w z) \<Rightarrow>
       Inr (ns_of_us (w - (case z of None \<Rightarrow> 0 | Some off \<Rightarrow> off) - epoch_us)))"

fun timestamp_ns :: "json \<Rightarrow> int option res" where
  "timestamp_ns JNull = Inr None"
| "timestamp_ns (JBool _) = Inl (TypeError ''boolean is not a timestamp'')"
| "timestamp_ns (JInt i) = Inr (Some i)"
| "timestamp_ns (JFloat s) = map_sum id Some (trunc_float s)"
| "timestamp_ns (JStr s) = (if s = [] then Inr None else map_sum id Some (timestamp_text s))"
| "timestamp_ns v = map_sum id Some (timestamp_text (py_str v))"

section \<open>Points\<close>

text \<open>\<open>TelemetryValidationError\<close>, and any other exception that escapes.\<close>

record telemetry_error =
  te_measurement :: string
  te_field :: string
  te_expected :: string
  te_received :: string
  te_collector :: string
  te_point_number :: int

definition telemetry_error_of :: "string \<Rightarrow> string \<Rightarrow> string \<Rightarrow> string \<Rightarrow> string \<Rightarrow> int \<Rightarrow> telemetry_error" where
  "telemetry_error_of measurement field expected received collector n =
     \<lparr>te_measurement = measurement, te_field = field, te_expected = expected,
      te_received = received, te_collector = sor collector ''unknown'', te_point_number = n\<rparr>"

definition telemetry_message :: "telemetry_error \<Rightarrow> string" where
  "telemetry_message e =
     ''Measurement: '' @ te_measurement e @ ''; Field: '' @ te_field e @ ''; Expected: '' @
     te_expected e @ ''; Received: '' @ te_received e @ ''; Connector: '' @ te_collector e @
     ''; Line: '' @ show_int (te_point_number e)"

datatype point_exn = Invalid_Point telemetry_error | Escapes py_exn

fun type_name :: "json \<Rightarrow> string" where
  "type_name JNull = ''NoneType''"
| "type_name (JBool _) = ''bool''"
| "type_name (JInt _) = ''int''"
| "type_name (JFloat _) = ''float''"
| "type_name (JStr _) = ''str''"
| "type_name (JList _) = ''list''"
| "type_name (JObj _) = ''dict''"

definition escape :: "'a res \<Rightarrow> point_exn + 'a" where
  "escape r = map_sum Escapes id r"

text \<open>\<open>except (TypeError, ValueError, OverflowError)\<close>.\<close>

fun reject :: "telemetry_error \<Rightarrow> 'a res \<Rightarrow> point_exn + 'a" where
  "reject e (Inr a) = Inr a"
| "reject e (Inl (TypeError m)) = Inl (Invalid_Point e)"
| "reject e (Inl (ValueError m)) = Inl (Invalid_Point e)"
| "reject e (Inl (OverflowError m)) = Inl (Invalid_Point e)"
| "reject e (Inl x) = Inl (Escapes x)"

definition bind_point :: "point_exn + 'a \<Rightarrow> ('a \<Rightarrow> point_exn + 'b) \<Rightarrow> point_exn + 'b" where
  "bind_point r f = (case r of Inl e \<Rightarrow> Inl e | Inr a \<Rightarrow> f a)"

definition coerce_field :: "string \<Rightarrow> string \<Rightarrow> int \<Rightarrow> string \<times> json \<Rightarrow> point_exn + string \<times> json" where
  "coerce_field measurement collector n = (\<lambda>(field, value).
     case field_type measurement field of
       None \<Rightarrow> Inr (field, value)
     | Some expected \<Rightarrow>
        reject (telemetry_error_of measurement field expected (type_name value) collector n)
          (if expected = ''integer'' then map_sum id (\<lambda>i. (field, JInt i)) (coerce_integer value)
           else map_sum id (\<lambda>s. (field, JFloat s)) (coerce_float value)))"

fun coerce_fields :: "string \<Rightarrow> string \<Rightarrow> int \<Rightarrow> dict \<Rightarrow> point_exn + dict" where
  "coerce_fields m c n [] = Inr []"
| "coerce_fields m c n (p # ps) =
     bind_point (coerce_field m c n p) (\<lambda>q. bind_point (coerce_fields m c n ps) (\<lambda>qs. Inr (q # qs)))"

definition collisions :: "dict \<Rightarrow> dict \<Rightarrow> string list" where
  "collisions tags fs = usort (filter (\<lambda>k. dhas tags k \<and> dhas fs k) STABLE_IDENTITY_TAGS)"

definition set_timestamp :: "dict \<Rightarrow> int option \<Rightarrow> dict" where
  "set_timestamp d t = (case t of None \<Rightarrow> dpop d ''timestamp'' | Some i \<Rightarrow> dset d ''timestamp'' (JInt i))"

definition point_fields :: "json \<Rightarrow> dict res" where
  "point_fields v = (case por v (JObj []) of JObj d \<Rightarrow> Inr d | _ \<Rightarrow> Inl (Unmodelled ''fields''))"

definition point_collector :: "dict \<Rightarrow> string" where
  "point_collector tags = py_str (por (dget tags ''collector'') (JStr ''unknown''))"

definition normalize_point :: "dict \<Rightarrow> deployment \<Rightarrow> int \<Rightarrow> point_exn + dict" where
  "normalize_point point md n =
     (let measurement = strip (py_str (por (dget point ''measurement'') (JStr []))) in
      if measurement = [] then
        Inl (Invalid_Point (telemetry_error_of [] ''measurement'' ''non-empty text'' ''empty'' ''unknown'' n))
      else bind_point (escape (apply_metadata md (dget_or point ''tags'' (JObj [])))) (\<lambda>tags.
      bind_point (escape (point_fields (dget point ''fields''))) (\<lambda>source_fields.
      (let collector = point_collector tags in
       case collisions tags source_fields of
         field # _ \<Rightarrow> Inl (Invalid_Point
           (telemetry_error_of measurement field ''tag only'' ''tag and field'' collector n))
       | [] \<Rightarrow>
         (if measurement \<in> {''device'', ''infrastructure_device''} \<and> dhas source_fields ''model'' then
            Inl (Invalid_Point (telemetry_error_of measurement ''model'' ''tag'' ''field'' collector n))
          else bind_point (coerce_fields measurement collector n (sort_key fst source_fields)) (\<lambda>typed.
          bind_point (reject (telemetry_error_of measurement ''timestamp''
              ''nanosecond or ISO-8601 timestamp'' (type_name (dget point ''timestamp'')) collector n)
            (timestamp_ns (dget point ''timestamp''))) (\<lambda>ts.
          Inr (set_timestamp (dset (dset (dset point ''measurement'' (JStr measurement))
                 ''tags'' (JObj tags)) ''fields'' (JObj typed)) ts))))))))"

section \<open>Collector health\<close>

record collector_health =
  ch_collector :: string
  ch_runtime :: string
  ch_duration_ms :: int
  ch_status :: string
  ch_phase :: string
  ch_points_generated :: int
  ch_points_written :: int
  ch_retries :: int
  ch_execution_mode :: string
  ch_skip_reason :: string
  ch_diagnostics :: string
  ch_api_latency_ms :: int
  ch_api_requests :: int

definition count_of :: "json \<Rightarrow> int res" where
  "count_of v = map_sum id (max 0) (py_int (por v (JInt 0)))"

definition health_from_outcome :: "dict \<Rightarrow> string \<Rightarrow> string \<Rightarrow> string \<Rightarrow> collector_health res" where
  "health_from_outcome outcome runtime execution_mode phase =
     (let summary = as_dict (dget outcome ''value'');
          written = dget_or summary ''points_written'' (JInt 0);
          generated = dget_or summary ''points_generated'' (dget_or summary ''points_produced'' written)
      in and_then (count_of (dget outcome ''duration_ms'')) (\<lambda>duration.
         and_then (count_of generated) (\<lambda>ngen.
         and_then (count_of written) (\<lambda>nwritten.
         and_then (count_of (dget_or summary ''retries'' (dget_or summary ''retry_count'' (JInt 0)))) (\<lambda>nretry.
         and_then (count_of (dget summary ''api_latency_ms'')) (\<lambda>latency.
         and_then (count_of (dget summary ''api_requests'')) (\<lambda>requests.
         Inr \<lparr>ch_collector = py_str (por (dget outcome ''connector'') (JStr ''unknown'')),
              ch_runtime = runtime, ch_duration_ms = duration,
              ch_status = py_str (por (dget outcome ''status'') (JStr ''failed'')), ch_phase = phase,
              ch_points_generated = ngen, ch_points_written = nwritten, ch_retries = nretry,
              ch_execution_mode = execution_mode,
              ch_skip_reason = py_str (por (dget outcome ''reason'') (JStr [])),
              ch_diagnostics = py_str (por (dget outcome ''exception_type'') (JStr [])),
              ch_api_latency_ms = latency, ch_api_requests = requests\<rparr>)))))))"

definition health_point :: "collector_health \<Rightarrow> dict" where
  "health_point h =
     [(''measurement'', JStr ''collector_health''),
      (''tags'', JObj [(''collector'', JStr (ch_collector h)), (''runtime'', JStr (ch_runtime h)),
         (''status'', JStr (ch_status h)), (''execution_mode'', JStr (ch_execution_mode h)),
         (''phase'', JStr (ch_phase h)), (''health_owner'', JStr ''framework''),
         (''diagnostic_category'', JStr (ch_status h))]),
      (''fields'', JObj [(''success'', JBool (ch_status h = ''success'')),
         (''partial'', JBool (ch_status h = ''partial'')), (''duration_ms'', JInt (ch_duration_ms h)),
         (''points_generated'', JInt (ch_points_generated h)),
         (''points_written'', JInt (ch_points_written h)), (''retry_count'', JInt (ch_retries h)),
         (''skip_reason'', JStr (sor (ch_skip_reason h) ''none'')),
         (''diagnostics'', JStr (sor (ch_diagnostics h) ''none'')),
         (''api_latency_ms'', JInt (ch_api_latency_ms h)),
         (''api_requests'', JInt (ch_api_requests h)),
         (''error_count'', JInt (if ch_status h = ''failed'' then 1 else 0)),
         (''devices_returned'', JInt 0)])]"

section \<open>Identity: lemmas\<close>

lemma set_all_Nil [simp]: "set_all [] r = r"
  by (simp add: set_all_def)

lemma set_all_Cons [simp]: "set_all ((b, k, v) # us) r = set_all us (if b then dset r k v else r)"
  by (simp add: set_all_def)

lemma dset_same: "map_of d k = Some v \<Longrightarrow> dset d k v = d"
  by (induction d) (auto simp: dset_def split: if_splits)

lemma set_all_same: "(\<And>b k v. (b, k, v) \<in> set us \<Longrightarrow> b \<Longrightarrow> map_of r k = Some v) \<Longrightarrow> set_all us r = r"
proof (induction us)
  case (Cons u us)
  obtain b k v where u: "u = (b, k, v)" by (cases u)
  have "(if b then dset r k v else r) = r" using Cons.prems [of b k v] by (simp add: u dset_same)
  then show ?case using Cons by (simp add: u)
qed simp

lemma map_of_set_all_other:
  "k \<notin> (\<lambda>(b, k, v). k) ` set us \<Longrightarrow> map_of (set_all us r) k = map_of r k"
  by (induction us arbitrary: r) (auto simp: map_of_dset)

lemma map_of_set_all:
  "distinct (map (\<lambda>(b, k, v). k) us) \<Longrightarrow> (b, k, v) \<in> set us \<Longrightarrow>
   map_of (set_all us r) k = (if b then Some v else map_of r k)"
proof (induction us arbitrary: r)
  case (Cons u us)
  obtain b' k' v' where u: "u = (b', k', v')" by (cases u)
  show ?case
  proof (cases "(b, k, v) = u")
    case True
    with Cons.prems(1) show ?thesis
      by (auto simp: u map_of_set_all_other map_of_dset)
  next
    case False
    with Cons.prems have "(b, k, v) \<in> set us" "k \<noteq> k'" by (auto simp: u image_iff)
    with Cons.IH Cons.prems(1) show ?thesis by (simp add: u map_of_dset)
  qed
qed simp

lemma applied_keys [simp]:
  "distinct (map (\<lambda>(b, k, v). k) (attribution_updates md r @ identity_updates md))"
  by (simp add: attribution_updates_def identity_updates_def Let_def)

lemma applied_get:
  "(b, k, v) \<in> set (attribution_updates md r @ identity_updates md) \<Longrightarrow>
   dget (applied_tags md r) k = (if b then v else dget r k)"
  using map_of_set_all [OF applied_keys, of b k v md r] by (simp add: dget_def applied_tags_def)

lemma applied_sources:
  "dget (applied_tags md r) ''source_site_id'' = (if dm_site_id md \<noteq> [] \<and> truthy (source_site_id r) \<and>
     source_site_id r \<noteq> JStr (dm_site_id md) then JStr (py_str (source_site_id r)) else dget r ''source_site_id'')"
  "dget (applied_tags md r) ''source_site_name'' = (if dm_site_id md \<noteq> [] \<and> truthy (source_site_name r) \<and>
     source_site_name r \<noteq> JStr (dm_site_id md) \<and> source_site_name r \<noteq> JStr (dm_site_name md)
     then JStr (py_str (source_site_name r)) else dget r ''source_site_name'')"
  "dget (applied_tags md r) ''source_customer_id'' = (if dm_customer_id md \<noteq> [] \<and> truthy (source_customer_id r) \<and>
     source_customer_id r \<noteq> JStr (dm_customer_id md) then JStr (py_str (source_customer_id r))
     else dget r ''source_customer_id'')"
  by (rule applied_get, simp add: attribution_updates_def Let_def)+

lemma applied_identity:
  "dget (applied_tags md r) ''deployment_id'' = (if dm_deployment_id md \<noteq> [] then JStr (dm_deployment_id md) else dget r ''deployment_id'')"
  "dget (applied_tags md r) ''customer_id'' = (if dm_customer_id md \<noteq> [] then JStr (dm_customer_id md) else dget r ''customer_id'')"
  "dget (applied_tags md r) ''customer'' = (if dm_customer_id md \<noteq> [] then JStr (dm_customer_id md) else dget r ''customer'')"
  "dget (applied_tags md r) ''site_id'' = (if dm_site_id md \<noteq> [] then JStr (dm_site_id md) else dget r ''site_id'')"
  "dget (applied_tags md r) ''site'' = (if dm_site_id md \<noteq> [] then JStr (dm_site_id md) else dget r ''site'')"
  "dget (applied_tags md r) ''customer_name'' = (if dm_customer_name md \<noteq> [] then JStr (dm_customer_name md) else dget r ''customer_name'')"
  "dget (applied_tags md r) ''site_name'' = (if dm_site_name md \<noteq> [] then JStr (dm_site_name md) else dget r ''site_name'')"
  by (rule applied_get, simp add: identity_updates_def)+

lemma por_simps:
  "truthy a \<Longrightarrow> por a b = a" "\<not> truthy a \<Longrightarrow> por a b = b"
  by (simp_all add: por_def)

lemma dget_Some: "dget d k = v \<Longrightarrow> v \<noteq> JNull \<Longrightarrow> map_of d k = Some v"
  by (simp add: dget_def split: option.splits)

lemma site_id_stable:
  "dm_site_id md \<noteq> [] \<Longrightarrow> truthy (source_site_id (applied_tags md r)) \<Longrightarrow>
   source_site_id (applied_tags md r) \<noteq> JStr (dm_site_id md) \<Longrightarrow>
   dget (applied_tags md r) ''source_site_id'' = JStr (py_str (source_site_id (applied_tags md r)))"
  by (simp add: source_site_id_def [of "applied_tags md r"] applied_sources(1) applied_identity por_def
      split: if_splits) (simp add: source_site_id_def por_def)

lemma site_name_stable:
  "dm_site_id md \<noteq> [] \<Longrightarrow> truthy (source_site_name (applied_tags md r)) \<Longrightarrow>
   source_site_name (applied_tags md r) \<noteq> JStr (dm_site_id md) \<Longrightarrow>
   source_site_name (applied_tags md r) \<noteq> JStr (dm_site_name md) \<Longrightarrow>
   dget (applied_tags md r) ''source_site_name'' = JStr (py_str (source_site_name (applied_tags md r)))"
  by (simp add: source_site_name_def [of "applied_tags md r"] applied_sources(2) applied_identity por_def
      split: if_splits) (auto simp: source_site_name_def por_def split: if_splits)

lemma customer_stable:
  "dm_customer_id md \<noteq> [] \<Longrightarrow> truthy (source_customer_id (applied_tags md r)) \<Longrightarrow>
   source_customer_id (applied_tags md r) \<noteq> JStr (dm_customer_id md) \<Longrightarrow>
   dget (applied_tags md r) ''source_customer_id'' = JStr (py_str (source_customer_id (applied_tags md r)))"
  by (simp add: source_customer_id_def [of "applied_tags md r"] applied_sources(3) applied_identity por_def
      split: if_splits) (simp add: source_customer_id_def por_def)

lemma por_obj: "por (JObj d) (JObj []) = JObj d"
  by (simp add: por_def)

lemma attribution_stable:
  assumes "(b, k, v) \<in> set (attribution_updates md (applied_tags md r))" and b
  shows "map_of (applied_tags md r) k = Some v"
proof (rule dget_Some)
  show "dget (applied_tags md r) k = v"
    using assms site_id_stable [of md r] site_name_stable [of md r] customer_stable [of md r]
    unfolding attribution_updates_def Let_def by auto
  show "v \<noteq> JNull" using assms by (auto simp: attribution_updates_def Let_def)
qed

lemma applied_tags_idem: "applied_tags md (applied_tags md r) = applied_tags md r"
proof -
  have "set_all (attribution_updates md (applied_tags md r) @ identity_updates md) (applied_tags md r)
      = applied_tags md r"
  proof (rule set_all_same)
    fix b k v
    assume "(b, k, v) \<in> set (attribution_updates md (applied_tags md r) @ identity_updates md)" and b
    then show "map_of (applied_tags md r) k = Some v"
      using attribution_stable [of b k v md r] map_of_set_all [OF applied_keys, of b k v md r]
      by (auto simp: applied_tags_def)
  qed
  then show ?thesis unfolding applied_tags_def [of md "applied_tags md r"] .
qed

lemma source_site_name_hashable:
  assumes "dm_site_id md \<noteq> []" and "\<not> (unhashable (source_site_name r) \<and> truthy (source_site_name r))"
  shows "\<not> unhashable (source_site_name (applied_tags md r))"
  using assms
  by (simp add: source_site_name_def [of "applied_tags md r"] applied_sources(2) applied_identity por_def)
     (auto simp: source_site_name_def por_def split: if_splits)

section \<open>Points: lemmas\<close>

lemma bind_point_simps [simp]:
  "bind_point (Inl e) f = Inl e"
  "bind_point (Inr a) f = f a"
  by (simp_all add: bind_point_def)

lemma bind_point_eq_Inr: "bind_point r f = Inr b \<longleftrightarrow> (\<exists>a. r = Inr a \<and> f a = Inr b)"
  by (cases r) simp_all

lemma escape_eq_Inr [simp]: "escape r = Inr a \<longleftrightarrow> r = Inr a"
  by (cases r) (auto simp: escape_def)

lemma escape_Inr [simp]: "escape (Inr a) = Inr a"
  by simp

lemma reject_eq_Inr [simp]: "reject e r = Inr a \<longleftrightarrow> r = Inr a"
proof (cases r)
  case (Inl x)
  then show ?thesis by (cases x) simp_all
qed simp

lemma field_types_integer: "\<forall>(m, ts) \<in> set FIELD_TYPES. \<forall>(f, t) \<in> set ts. t = ''integer''"
  by (simp add: FIELD_TYPES_def)

lemma field_type_integer:
  assumes "field_type m f = Some t"
  shows "t = ''integer''"
proof -
  from assms obtain ts where "map_of FIELD_TYPES m = Some ts" "map_of ts f = Some t"
    by (auto simp: field_type_def split: option.splits)
  then have "(m, ts) \<in> set FIELD_TYPES" "(f, t) \<in> set ts" by (simp_all add: map_of_SomeD)
  with field_types_integer show ?thesis by blast
qed

lemma coerce_field_Inr:
  assumes "coerce_field m c n p = Inr q"
  shows "fst q = fst p" and "field_type m (fst p) = None \<Longrightarrow> q = p"
    and "field_type m (fst p) = Some t \<Longrightarrow> \<exists>i. coerce_integer (snd p) = Inr i \<and> q = (fst p, JInt i)"
    and "coerce_field m c' n' q = Inr q"
proof -
  obtain f v where p: "p = (f, v)" by (cases p)
  have "field_type m f = None \<and> q = p \<or>
    (\<exists>i. field_type m f = Some ''integer'' \<and> coerce_integer v = Inr i \<and> q = (f, JInt i))"
  proof (cases "field_type m f")
    case None
    with assms show ?thesis by (simp add: coerce_field_def p)
  next
    case (Some t)
    with field_type_integer have "t = ''integer''" by blast
    with assms Some show ?thesis by (auto simp: coerce_field_def p map_sum_eq_Inr)
  qed
  then show "fst q = fst p" and "field_type m (fst p) = None \<Longrightarrow> q = p"
    and "field_type m (fst p) = Some t \<Longrightarrow> \<exists>i. coerce_integer (snd p) = Inr i \<and> q = (fst p, JInt i)"
    and "coerce_field m c' n' q = Inr q"
    by (auto simp: p coerce_field_def)
qed

lemma coerce_fields_Inr:
  "coerce_fields m c n ps = Inr qs \<Longrightarrow> map fst qs = map fst ps \<and> coerce_fields m c' n' qs = Inr qs \<and>
   (\<forall>(k, v) \<in> set qs. field_type m k \<noteq> None \<longrightarrow> (\<exists>i. v = JInt i))"
proof (induction ps arbitrary: qs)
  case (Cons p ps)
  from Cons.prems obtain q rest where
    q: "coerce_field m c n p = Inr q" and rest: "coerce_fields m c n ps = Inr rest" and qs: "qs = q # rest"
    by (auto simp: bind_point_eq_Inr)
  note one = coerce_field_Inr [OF q]
  have "field_type m (fst q) \<noteq> None \<longrightarrow> (\<exists>i. snd q = JInt i)"
    using one(1,3) by fastforce
  then show ?case
    using Cons.IH [OF rest] one(1) one(4) [of c' n'] by (auto simp: qs)
qed simp

lemma as_dict_falsy: "\<not> truthy v \<Longrightarrow> as_dict v = []"
  by (cases v) simp_all

lemma apply_metadata_Inr:
  assumes "apply_metadata md v = Inr tags"
  shows "tags = applied_tags md (as_dict v)"
    and "\<not> (dm_site_id md \<noteq> [] \<and> unhashable (source_site_name (as_dict v)) \<and> truthy (source_site_name (as_dict v)))"
proof -
  from assms obtain r where r: "por v (JObj []) = JObj r" "tags = applied_tags md r"
    "\<not> (dm_site_id md \<noteq> [] \<and> unhashable (source_site_name r) \<and> truthy (source_site_name r))"
    by (auto simp: apply_metadata_def split: json.splits if_splits)
  moreover from r(1) have "r = as_dict v"
    by (cases "truthy v") (auto simp: por_def as_dict_falsy)
  ultimately show "tags = applied_tags md (as_dict v)"
    and "\<not> (dm_site_id md \<noteq> [] \<and> unhashable (source_site_name (as_dict v)) \<and> truthy (source_site_name (as_dict v)))"
    by auto
qed

lemma dget_absent: "\<not> dhas d k \<Longrightarrow> dget d k = JNull"
  by (simp add: dhas_def dget_def)

lemma normalize_point_cases:
  assumes "normalize_point point md n = Inr r"
  obtains m t fs typed ts where
    "m = strip (py_str (por (dget point ''measurement'') (JStr [])))" "m \<noteq> []"
    "apply_metadata md (dget_or point ''tags'' (JObj [])) = Inr (applied_tags md t)"
    "t = as_dict (dget_or point ''tags'' (JObj []))"
    "\<not> (dm_site_id md \<noteq> [] \<and> unhashable (source_site_name t) \<and> truthy (source_site_name t))"
    "point_fields (dget point ''fields'') = Inr fs"
    "collisions (applied_tags md t) fs = []"
    "\<not> (m \<in> {''device'', ''infrastructure_device''} \<and> dhas fs ''model'')"
    "coerce_fields m (point_collector (applied_tags md t)) n (sort_key fst fs) = Inr typed"
    "timestamp_ns (dget point ''timestamp'') = Inr ts"
    "r = set_timestamp (dset (dset (dset point ''measurement'' (JStr m)) ''tags''
       (JObj (applied_tags md t))) ''fields'' (JObj typed)) ts"
proof -
  define m where "m = strip (py_str (por (dget point ''measurement'') (JStr [])))"
  from assms obtain tags fs typed ts where
    1: "m \<noteq> []" "apply_metadata md (dget_or point ''tags'' (JObj [])) = Inr tags"
    "point_fields (dget point ''fields'') = Inr fs" "collisions tags fs = []"
    "\<not> (m \<in> {''device'', ''infrastructure_device''} \<and> dhas fs ''model'')"
    "coerce_fields m (point_collector tags) n (sort_key fst fs) = Inr typed"
    "timestamp_ns (dget point ''timestamp'') = Inr ts"
    "r = set_timestamp (dset (dset (dset point ''measurement'' (JStr m)) ''tags'' (JObj tags))
        ''fields'' (JObj typed)) ts"
    unfolding normalize_point_def m_def [symmetric] Let_def
    by (auto simp: bind_point_eq_Inr split: if_splits list.splits)
  note t = apply_metadata_Inr [OF 1(2)]
  with 1 show thesis by (intro that [OF m_def, of "as_dict (dget_or point ''tags'' (JObj []))" fs typed ts]) simp_all
qed

fun is_int :: "json \<Rightarrow> bool" where
  "is_int (JInt _) = True"
| "is_int _ = False"

lemma coerced_keys:
  assumes "coerce_fields m c n (sort_key fst fs) = Inr typed"
  shows "dhas typed k = dhas fs k"
proof -
  from coerce_fields_Inr [OF assms] have "map fst typed = map fst (sort_key fst fs)" by simp
  from arg_cong [OF this, of set] have "fst ` set typed = fst ` set fs" by simp
  then show ?thesis by (simp add: dhas_def map_of_eq_None_iff)
qed

lemma coerce_fields_ints:
  "\<forall>(k, v) \<in> set xs. field_type m k = None \<or> is_int v \<Longrightarrow> coerce_fields m c n xs = Inr xs"
proof (induction xs)
  case (Cons x xs)
  obtain k v where x: "x = (k, v)" by (cases x)
  have "coerce_field m c n x = Inr x"
  proof (cases "field_type m k")
    case None
    then show ?thesis by (simp add: x coerce_field_def)
  next
    case (Some t)
    with Cons.prems have "is_int v" by (auto simp: x)
    moreover have "t = ''integer''" using Some by (rule field_type_integer)
    ultimately show ?thesis using Some by (cases v) (simp_all add: x coerce_field_def)
  qed
  then show ?case using Cons by simp
qed simp

lemma map_of_set_timestamp:
  "k \<noteq> ''timestamp'' \<Longrightarrow> map_of (set_timestamp d ts) k = map_of d k"
  by (simp add: set_timestamp_def map_of_dset map_of_dpop split: option.splits)

lemma dpop_absent: "map_of d k = None \<Longrightarrow> dpop d k = d"
  by (induction d) (auto simp: dpop_def split: if_splits)

lemma set_timestamp_twice: "set_timestamp (set_timestamp d ts) ts = set_timestamp d ts"
  by (cases ts) (simp_all add: set_timestamp_def dset_same map_of_dset dpop_absent map_of_dpop)

lemma dget_map_of: "map_of d k = Some v \<Longrightarrow> dget d k = v"
  by (simp add: dget_def)

lemma normalize_point_idem:
  assumes "normalize_point point md n = Inr r"
  shows "normalize_point r md n' = Inr r"
  using assms
proof (rule normalize_point_cases)
  fix m t fs typed ts
  assume m: "m = strip (py_str (por (dget point ''measurement'') (JStr [])))" "m \<noteq> []"
    and h: "\<not> (dm_site_id md \<noteq> [] \<and> unhashable (source_site_name t) \<and> truthy (source_site_name t))"
    and col: "collisions (applied_tags md t) fs = []"
    and model: "\<not> (m \<in> {''device'', ''infrastructure_device''} \<and> dhas fs ''model'')"
    and typed: "coerce_fields m (point_collector (applied_tags md t)) n (sort_key fst fs) = Inr typed"
    and ts: "timestamp_ns (dget point ''timestamp'') = Inr ts"
    and r: "r = set_timestamp (dset (dset (dset point ''measurement'' (JStr m)) ''tags''
       (JObj (applied_tags md t))) ''fields'' (JObj typed)) ts"
  have get: "map_of r ''measurement'' = Some (JStr m)" "map_of r ''tags'' = Some (JObj (applied_tags md t))"
    "map_of r ''fields'' = Some (JObj typed)"
    by (simp_all add: r map_of_set_timestamp map_of_dset)
  have keys: "map fst typed = map fst (sort_key fst fs)"
    and same: "coerce_fields m (point_collector (applied_tags md t)) n' typed = Inr typed"
    using coerce_fields_Inr [OF typed] by simp_all
  have has: "dhas typed k = dhas fs k" for k by (rule coerced_keys [OF typed])
  have sorted: "sort_key fst typed = typed"
    by (rule sort_key_id_if_sorted) (simp add: keys)
  have ts': "timestamp_ns (dget r ''timestamp'') = Inr ts"
    by (cases ts) (simp_all add: r set_timestamp_def dget_def map_of_dset map_of_dpop)
  have strip: "strip m = m" by (simp add: m(1))
  have apply': "apply_metadata md (JObj (applied_tags md t)) = Inr (applied_tags md t)"
    using h source_site_name_hashable [of md t]
    by (auto simp: apply_metadata_def por_obj applied_tags_idem)
  have "set_timestamp (dset (dset (dset r ''measurement'' (JStr m)) ''tags''
       (JObj (applied_tags md t))) ''fields'' (JObj typed)) ts = r"
    using get by (simp add: dset_same) (simp add: r set_timestamp_twice)
  moreover have "collisions (applied_tags md t) typed = []"
    using col by (simp add: collisions_def has)
  moreover have "\<not> ((m = ''device'' \<or> m = ''infrastructure_device'') \<and> dhas typed ''model'')"
    using model by (simp add: has)
  ultimately show ?thesis
    using m(2) get same sorted ts' strip apply'
    by (simp add: normalize_point_def Let_def dget_map_of dget_or_def por_obj por_simps point_fields_def)
qed

section \<open>Properties\<close>

definition ex_deployment :: deployment where
  "ex_deployment = \<lparr>dm_deployment_id = ''d'', dm_customer_id = [], dm_site_id = ''s'',
     dm_customer_name = [], dm_site_name = ''Site'', dm_display_name = [], dm_timezone = ''UTC'',
     dm_currency = [], dm_region = []\<rparr>"

definition ex_point :: dict where
  "ex_point = [(''measurement'', JStr ''device''), (''tags'', JObj [(''site_id'', JStr ''x'')]),
     (''fields'', JObj [(''uptime_seconds'', JBool True)]), (''timestamp'', JInt 5)]"

definition ex_normal :: dict where
  "ex_normal = [(''measurement'', JStr ''device''),
     (''tags'', JObj [(''site_id'', JStr ''s''), (''source_site_id'', JStr ''x''),
        (''deployment_id'', JStr ''d''), (''site'', JStr ''s''), (''site_name'', JStr ''Site'')]),
     (''fields'', JObj [(''uptime_seconds'', JInt 1)]), (''timestamp'', JInt 5)]"

lemma ex_applied: "apply_metadata ex_deployment (JObj [(''site_id'', JStr ''x'')]) =
   Inr [(''site_id'', JStr ''s''), (''source_site_id'', JStr ''x''),
        (''deployment_id'', JStr ''d''), (''site'', JStr ''s''), (''site_name'', JStr ''Site'')]"
  by (simp add: apply_metadata_def por_def applied_tags_def attribution_updates_def identity_updates_def
      source_site_id_def source_site_name_def source_customer_id_def dget_def dset_def Let_def ex_deployment_def)

lemma ex_normalized: "normalize_point ex_point ex_deployment 1 = Inr ex_normal"
  using ex_applied
  by (simp add: normalize_point_def ex_point_def ex_normal_def dget_def dget_or_def por_def strip_def
      is_space_def point_fields_def collisions_def STABLE_IDENTITY_TAGS_def dhas_def coerce_field_def
      field_type_def FIELD_TYPES_def set_timestamp_def dset_def usort_def Let_def)

text \<open>
  The deployment's identity wins: in every accepted point each identity tag the deployment
  defines carries the deployment's value, whatever the connector wrote, and a differing site
  or customer id of the connector is kept as \<open>source_*\<close> attribution.
\<close>

theorem deployment_identity_enforced:
  assumes "normalize_point point md n = Inr r"
  shows "\<exists>tags source. map_of r ''tags'' = Some (JObj tags) \<and>
    apply_metadata md (dget_or point ''tags'' (JObj [])) = Inr tags \<and>
    source = as_dict (dget_or point ''tags'' (JObj [])) \<and>
    (if dm_site_id md = [] then True else dget tags ''site_id'' = JStr (dm_site_id md) \<and>
       dget tags ''site'' = JStr (dm_site_id md)) \<and>
    (if dm_deployment_id md = [] then True else dget tags ''deployment_id'' = JStr (dm_deployment_id md)) \<and>
    (if dm_customer_id md = [] then True else dget tags ''customer_id'' = JStr (dm_customer_id md)) \<and>
    (if dm_site_id md = [] \<or> dhas source ''source_site_id'' then True else
       if truthy (dget source ''site_id'') \<and> dget source ''site_id'' \<noteq> JStr (dm_site_id md)
       then dget tags ''source_site_id'' = JStr (py_str (dget source ''site_id''))
       else dget tags ''source_site_id'' = JNull)"
  using assms
proof (rule normalize_point_cases)
  fix m t fs typed ts
  assume 1: "apply_metadata md (dget_or point ''tags'' (JObj [])) = Inr (applied_tags md t)"
    and t: "t = as_dict (dget_or point ''tags'' (JObj []))"
    and r: "r = set_timestamp (dset (dset (dset point ''measurement'' (JStr m)) ''tags''
       (JObj (applied_tags md t))) ''fields'' (JObj typed)) ts"
  have 2: "map_of r ''tags'' = Some (JObj (applied_tags md t))"
    by (simp add: r map_of_set_timestamp map_of_dset)
  have 3: "(if dm_site_id md = [] \<or> dhas t ''source_site_id'' then True else
       if truthy (dget t ''site_id'') \<and> dget t ''site_id'' \<noteq> JStr (dm_site_id md)
       then dget (applied_tags md t) ''source_site_id'' = JStr (py_str (dget t ''site_id''))
       else dget (applied_tags md t) ''source_site_id'' = JNull)"
    by (auto simp: applied_sources(1) source_site_id_def dget_absent por_def)
  show ?thesis
    by (rule exI [of _ "applied_tags md t"], rule exI [of _ t])
       (use 1 2 3 in \<open>simp add: applied_identity t [symmetric]\<close>)
qed

lemma deployment_identity_enforced_witness:
  "\<exists>tags. map_of ex_normal ''tags'' = Some (JObj tags) \<and> dget tags ''site_id'' = JStr ''s'' \<and>
     dget tags ''source_site_id'' = JStr ''x''"
  using deployment_identity_enforced [OF ex_normalized]
  by (auto simp: ex_normal_def ex_deployment_def ex_point_def dget_or_def dget_def dhas_def)

text \<open>
  Column types are stable: in every accepted point no stable identity key is both a tag
  and a field, and every field the registry types holds an integer.
\<close>

theorem point_columns_stable:
  assumes "normalize_point point md n = Inr r"
  shows "\<exists>m tags typed. map_of r ''measurement'' = Some (JStr m) \<and> m \<noteq> [] \<and>
    map_of r ''tags'' = Some (JObj tags) \<and> map_of r ''fields'' = Some (JObj typed) \<and>
    list_all (\<lambda>k. \<not> (dhas tags k \<and> dhas typed k)) STABLE_IDENTITY_TAGS \<and>
    list_all (\<lambda>(k, v). field_type m k = None \<or> is_int v) typed"
  using assms
proof (rule normalize_point_cases)
  fix m t fs typed ts
  assume m: "m \<noteq> []" and col: "collisions (applied_tags md t) fs = []"
    and typed: "coerce_fields m (point_collector (applied_tags md t)) n (sort_key fst fs) = Inr typed"
    and r: "r = set_timestamp (dset (dset (dset point ''measurement'' (JStr m)) ''tags''
       (JObj (applied_tags md t))) ''fields'' (JObj typed)) ts"
  have "list_all (\<lambda>k. \<not> (dhas (applied_tags md t) k \<and> dhas typed k)) STABLE_IDENTITY_TAGS"
    using col by (simp add: collisions_def coerced_keys [OF typed] filter_empty_conv list_all_iff)
  moreover have "list_all (\<lambda>(k, v). field_type m k = None \<or> is_int v) typed"
    using coerce_fields_Inr [OF typed] by (fastforce simp: list_all_iff)
  ultimately show ?thesis
    using m by (simp add: r map_of_set_timestamp map_of_dset)
qed

lemma point_columns_stable_witness:
  "map_of ex_normal ''fields'' = Some (JObj [(''uptime_seconds'', JInt 1)]) \<and>
   field_type ''device'' ''uptime_seconds'' \<noteq> None \<and> is_int (JInt 1)"
  using point_columns_stable [OF ex_normalized]
  by (auto simp: ex_normal_def field_type_def FIELD_TYPES_def)

text \<open>Validating an accepted point again changes nothing.\<close>

lemma normalize_point_idempotent:
  assumes "normalize_point point md n = Inr r"
  shows "normalize_point r md n' = Inr r"
  using assms by (rule normalize_point_idem)

lemma normalize_point_idempotent_witness: "normalize_point ex_normal ex_deployment 2 = Inr ex_normal"
  by (rule normalize_point_idempotent [OF ex_normalized])

text \<open>The framework's own health point of any collector outcome passes validation.\<close>

theorem health_point_accepted:
  "\<exists>r. normalize_point (health_point h) md n = Inr r"
proof -
  let ?t = "as_dict (dget (health_point h) ''tags'')"
  have tags: "dget_or (health_point h) ''tags'' (JObj []) = JObj ?t"
    by (simp add: health_point_def dget_def dget_or_def)
  have "\<not> unhashable (source_site_name ?t)"
    by (simp add: source_site_name_def health_point_def dget_def por_def)
  then have ap: "apply_metadata md (JObj ?t) = Inr (applied_tags md ?t)"
    by (simp add: apply_metadata_def por_obj)
  define fs where "fs = as_dict (dget (health_point h) ''fields'')"
  have fs: "dget (health_point h) ''fields'' = JObj fs"
    by (simp add: fs_def health_point_def dget_def)
  have "\<forall>(k, v) \<in> set fs. field_type ''collector_health'' k = None \<or> is_int v"
    by (simp add: fs_def health_point_def dget_def field_type_def FIELD_TYPES_def)
  then have coerce: "coerce_fields ''collector_health'' c n (sort_key fst fs) = Inr (sort_key fst fs)" for c
    by (intro coerce_fields_ints) simp
  have coll: "collisions (applied_tags md ?t) fs = []"
    by (simp add: collisions_def fs_def health_point_def dget_def STABLE_IDENTITY_TAGS_def dhas_def usort_def)
  have m: "strip (py_str (por (dget (health_point h) ''measurement'') (JStr []))) = ''collector_health''"
    by (simp add: health_point_def dget_def por_def strip_def is_space_def)
  have ts: "timestamp_ns (dget (health_point h) ''timestamp'') = Inr None"
    by (simp add: health_point_def dget_def)
  have pf: "point_fields (JObj fs) = Inr fs" by (simp add: point_fields_def por_obj)
  show ?thesis
    unfolding normalize_point_def m tags ap fs pf Let_def
    by (simp add: coll coerce ts)
qed

end
