(* ===== verification/Infrastructure_Models.thy ===== *)
theory Infrastructure_Models
  imports ITP_Prelude
begin

text \<open>
  \<open>analysis/infrastructure/models.py\<close>: the record an input adapter delivers and the
  deterministic classifications of an asset document.
\<close>

record adapter_result =
  ar_name :: string
  ar_priority :: int
  ar_assets :: "dict list"
  ar_collectors :: "json list"

definition asset_name :: "dict \<Rightarrow> string" where
  "asset_name asset = py_str (por (dget asset ''hostname'') (por (dget asset ''display_name'')
     (por (dget asset ''management_ip'') (por (dget asset ''asset_id'') (JStr ''Unknown device'')))))"

definition kind_keys :: "string list" where
  "kind_keys = [''device_type'', ''device_role'', ''platform'', ''model'']"

definition asset_kind :: "dict \<Rightarrow> string" where
  "asset_kind asset = join '' '' (map (\<lambda>k. lower (py_str (dget_or asset k (JStr [])))) kind_keys)"

definition state_of :: "dict \<Rightarrow> string" where
  "state_of asset = (case dget asset ''online'' of JBool b \<Rightarrow> if b then ''online'' else ''offline''
     | _ \<Rightarrow> ''unknown'')"

definition kind_mentions :: "string list \<Rightarrow> dict \<Rightarrow> bool" where
  "kind_mentions words asset = list_ex (\<lambda>w. contains w (asset_kind asset)) words"

definition health_of :: "dict \<Rightarrow> string" where
  "health_of asset =
     (if state_of asset = ''offline'' then
        (if kind_mentions [''core'', ''firewall''] asset then ''critical'' else ''offline'')
      else if dget asset ''lifecycle_state'' \<in> {JStr ''stale'', JStr ''missing''} \<or>
         dget asset ''reconciliation_status'' \<in> {JStr ''ambiguous'', JStr ''conflict''} then ''warning''
      else if state_of asset = ''online'' then ''healthy''
      else ''unknown'')"

lemma health_of_values:
  "health_of asset \<in> {''critical'', ''offline'', ''warning'', ''healthy'', ''unknown''}"
  by (simp add: health_of_def)

end
