(* ===== verification/Sites.thy ===== *)
theory Sites
  imports Infrastructure_Models
begin

text \<open>
  \<open>analysis/sites\<close>: canonical site definitions, alias normalisation, the registry with its
  ordering and alias ownership, the resolver, and the validation of a configured hierarchy.
\<close>

section \<open>Aliases\<close>

definition alias_char :: "char \<Rightarrow> char" where
  "alias_char c = (if c \<in> set ''.,;:()[]{}-_/'' \<or> of_char c = (92 :: nat) then CHR '' '' else c)"

definition quotes :: "char list" where
  "quotes = [char_of (39 :: nat), char_of (34 :: nat)]"

text \<open>
  \<open>normalize_alias\<close> on ASCII text, where NFKC is the identity: quotes are dropped,
  punctuation and separators become spaces, and spaces collapse.
\<close>

definition normalize_alias :: "json \<Rightarrow> string option" where
  "normalize_alias v =
     (let s = casefold (py_str (por v (JStr [])));
          t = map alias_char (filter (\<lambda>c. c \<notin> set quotes) s);
          r = join '' '' (split_ws t)
      in if r = [] then None else Some r)"

definition slug_char :: "char \<Rightarrow> bool" where
  "slug_char c = (let n = of_char c :: nat in (48 \<le> n \<and> n \<le> 57) \<or> (97 \<le> n \<and> n \<le> 122))"

text \<open>\<open>re.sub("[^a-z0-9]+", "-", s)\<close>.\<close>

function slug :: "string \<Rightarrow> string" where
  "slug s = (case s of [] \<Rightarrow> []
     | c # cs \<Rightarrow> if slug_char c then c # slug cs else CHR ''-'' # slug (dropWhile (\<lambda>x. \<not> slug_char x) cs))"
  by pat_completeness auto
termination
  by (relation "measure length") (auto simp: le_imp_less_Suc length_dropWhile_le)

declare slug.simps [simp del]

definition canonical_key :: "json \<Rightarrow> string option" where
  "canonical_key v =
     (let s = lower (strip (py_str (por v (JStr []))));
          t = (if starts_with ''site:'' s then drop 5 s else s);
          r = strip_char (CHR ''-'') (slug t)
      in if r = [] then None else Some r)"

section \<open>Definitions\<close>

record site_def =
  st_id :: string
  st_display_name :: string
  st_aliases :: "string list"
  st_metadata :: dict
  st_type :: string
  st_parent_id :: "string option"
  st_rollup_group :: "string option"
  st_enabled :: bool
  st_display_order :: "int option"
  st_description :: string

definition with_prefix :: "string \<Rightarrow> string" where
  "with_prefix s = (if starts_with ''site:'' s then s else ''site:'' @ s)"

definition site_id :: "site_def \<Rightarrow> string" where
  "site_id s = with_prefix (st_id s)"

definition parent_of :: "site_def \<Rightarrow> string option" where
  "parent_of s = (case st_parent_id s of None \<Rightarrow> None
     | Some p \<Rightarrow> if p = [] then None else Some (with_prefix p))"

record site_resolution =
  sr_site_id :: "string option"
  sr_display_name :: string
  sr_source_value :: string
  sr_status :: string
  sr_matched_alias :: string
  sr_explanation :: string

definition resolution_to_dict :: "site_resolution \<Rightarrow> dict" where
  "resolution_to_dict r =
     [(''site_id'', jopt (sr_site_id r)), (''display_name'', JStr (sr_display_name r)),
      (''source_value'', JStr (sr_source_value r)), (''status'', JStr (sr_status r)),
      (''matched_alias'', JStr (sr_matched_alias r)), (''explanation'', JStr (sr_explanation r))]"

section \<open>Hierarchy order\<close>

text \<open>\<open>by_id\<close>: a later site with the same id wins.\<close>

definition by_id :: "site_def list \<Rightarrow> string \<Rightarrow> site_def option" where
  "by_id sites = map_of (rev (map (\<lambda>s. (site_id s, s)) sites))"

definition step_up :: "site_def list \<Rightarrow> site_def \<Rightarrow> site_def option" where
  "step_up sites cur = (case parent_of cur of None \<Rightarrow> None | Some p \<Rightarrow> by_id sites p)"

text \<open>
  The loop of \<open>depth\<close>; the fuel is consumed once per visited site, and \<open>None\<close> would mean
  that it ran out.
\<close>

fun depth_loop :: "nat \<Rightarrow> site_def list \<Rightarrow> string list \<Rightarrow> nat \<Rightarrow> site_def \<Rightarrow> nat option" where
  "depth_loop 0 sites seen result cur = None"
| "depth_loop (Suc fuel) sites seen result cur =
     (case step_up sites cur of
        None \<Rightarrow> Some result
      | Some up \<Rightarrow> if site_id cur \<in> set seen then Some 99
          else depth_loop fuel sites (site_id cur # seen) (result + 1) up)"

definition depth :: "site_def list \<Rightarrow> site_def \<Rightarrow> nat option" where
  "depth sites s = depth_loop (length sites + 3) sites [] 0 s"

definition order_key :: "site_def list \<Rightarrow> site_def \<Rightarrow> nat \<times> bool \<times> int \<times> string \<times> string" where
  "order_key sites s =
     ((case depth sites s of None \<Rightarrow> 0 | Some d \<Rightarrow> d), st_display_order s = None,
      (case st_display_order s of None \<Rightarrow> 2 ^ 31 | Some n \<Rightarrow> n),
      casefold (st_display_name s), site_id s)"

definition ordered :: "site_def list \<Rightarrow> site_def list" where
  "ordered sites = sort_key (order_key sites) sites"

section \<open>The registry\<close>

type_synonym owners = "(string \<times> string list) list"

text \<open>A \<open>defaultdict(set)\<close> read out in key order, each set sorted.\<close>

definition collect :: "(string \<times> string) list \<Rightarrow> owners" where
  "collect ps = map (\<lambda>k. (k, usort (map snd (filter (\<lambda>p. fst p = k) ps)))) (usort (map fst ps))"

definition some_aliases :: "string list \<Rightarrow> string list" where
  "some_aliases vs = concat (map (\<lambda>v. case normalize_alias (JStr v) of None \<Rightarrow> [] | Some a \<Rightarrow> [a]) vs)"

definition owned_aliases :: "site_def \<Rightarrow> (string \<times> string) list" where
  "owned_aliases s = map (\<lambda>a. (a, site_id s))
     (some_aliases ([st_id s, site_id s, st_display_name s] @ st_aliases s))"

definition configured_aliases :: "site_def \<Rightarrow> (string \<times> string) list" where
  "configured_aliases s = map (\<lambda>a. (a, site_id s)) (some_aliases (st_aliases s))"

fun repeated :: "string list \<Rightarrow> string list" where
  "repeated [] = []"
| "repeated (a # as) = (if a \<in> set as then a # repeated as else repeated as)"

record site_registry =
  rg_configured :: "site_def list"
  rg_dependencies :: "json list"
  rg_sites :: "site_def list"
  rg_disabled :: "site_def list"
  rg_alias_owners :: owners
  rg_configured_owners :: owners
  rg_duplicate_aliases :: "string list"

definition registry_of :: "site_def list \<Rightarrow> json list \<Rightarrow> site_registry" where
  "registry_of sites dependencies =
     (let enabled = ordered (filter st_enabled sites) in
      \<lparr>rg_configured = sites, rg_dependencies = dependencies, rg_sites = enabled,
       rg_disabled = ordered (filter (\<lambda>s. \<not> st_enabled s) sites),
       rg_alias_owners = collect (concat (map owned_aliases enabled)),
       rg_configured_owners = collect (concat (map configured_aliases enabled)),
       rg_duplicate_aliases = usort (concat (map (\<lambda>s. repeated (some_aliases (st_aliases s))) enabled))\<rparr>)"

text \<open>\<open>load\<close> on the parsed document; the YAML reader is not modelled.\<close>

definition opt_text :: "json \<Rightarrow> string option res" where
  "opt_text v = (case v of JNull \<Rightarrow> Inr None | JStr s \<Rightarrow> Inr (Some s) | _ \<Rightarrow> Inl (Unmodelled ''text or null''))"

definition site_of_config :: "json \<Rightarrow> site_def res" where
  "site_of_config v = (case v of JObj raw \<Rightarrow>
     (case map_of raw ''id'' of None \<Rightarrow> Inl (KeyError ''id'') | Some i \<Rightarrow>
       and_then (py_iter (dget_or raw ''aliases'' (JList []))) (\<lambda>aliases.
       and_then (opt_text (dget raw ''parent_id'')) (\<lambda>parent.
       and_then (opt_text (dget raw ''rollup_group'')) (\<lambda>rollup.
       and_then (if dget raw ''display_order'' = JNull then Inr None
           else map_sum id Some (py_int (dget raw ''display_order''))) (\<lambda>order.
       Inr \<lparr>st_id = py_str i,
            st_display_name = py_str (por (dget raw ''display_name'') (dget raw ''name'')),
            st_aliases = map py_str aliases,
            st_metadata = concat (map (\<lambda>k. if dget raw k = JNull then [] else [(k, dget raw k)])
              [''timezone'', ''region'', ''address'', ''notes'']),
            st_type = py_str (por (dget raw ''type'') (JStr ''other'')),
            st_parent_id = parent, st_rollup_group = rollup,
            st_enabled = truthy (dget_or raw ''enabled'' (JBool True)), st_display_order = order,
            st_description = py_str (por (dget raw ''description'') (JStr []))\<rparr>)))))
   | _ \<Rightarrow> Inl (TypeError ''site entry is not a mapping''))"

definition registry_load :: "json option \<Rightarrow> site_registry res" where
  "registry_load doc = (case doc of None \<Rightarrow> Inr (registry_of [] [])
   | Some v \<Rightarrow> (case por v (JObj []) of
       JObj data \<Rightarrow>
         and_then (py_iter (dget_or data ''sites'' (JList []))) (\<lambda>raws.
         and_then (map_res site_of_config raws) (\<lambda>sites.
         and_then (py_iter (dget_or data ''dependencies'' (JList []))) (\<lambda>deps.
         Inr (registry_of sites deps))))
     | _ \<Rightarrow> Inl (AttributeError ''object has no attribute get'')))"

definition registry_definition :: "site_registry \<Rightarrow> string \<Rightarrow> site_def option" where
  "registry_definition rg i = find (\<lambda>s. site_id s = i) (rg_sites rg)"

section \<open>Resolution\<close>

definition site_named :: "site_registry \<Rightarrow> string \<Rightarrow> site_def option" where
  "site_named rg i = by_id (rg_sites rg) i"

definition owners_of :: "site_registry \<Rightarrow> string \<Rightarrow> string list" where
  "owners_of rg a = (case map_of (rg_alias_owners rg) a of None \<Rightarrow> [] | Some os \<Rightarrow> os)"

definition unresolved :: "string \<Rightarrow> string \<Rightarrow> string \<Rightarrow> string \<Rightarrow> site_resolution" where
  "unresolved raw status matched explanation =
     \<lparr>sr_site_id = None, sr_display_name = raw, sr_source_value = raw, sr_status = status,
      sr_matched_alias = matched, sr_explanation = explanation\<rparr>"

definition resolve :: "site_registry \<Rightarrow> json \<Rightarrow> json \<Rightarrow> site_resolution res" where
  "resolve rg value explicit =
     (let raw = strip (py_str (por value (JStr []))) in
      if truthy explicit then
        (let i = with_prefix (py_str explicit) in
         case site_named rg i of
           Some s \<Rightarrow> Inr \<lparr>sr_site_id = Some i, sr_display_name = st_display_name s, sr_source_value = raw,
             sr_status = ''resolved'', sr_matched_alias = [],
             sr_explanation = ''Matched explicit canonical site ID.''\<rparr>
         | None \<Rightarrow> Inr \<lparr>sr_site_id = Some i, sr_display_name = raw, sr_source_value = raw,
             sr_status = ''unknown'', sr_matched_alias = [],
             sr_explanation = ''Explicit canonical site ID is not configured.''\<rparr>)
      else (case normalize_alias (JStr raw) of
          None \<Rightarrow> Inr (unresolved raw ''unknown''
             (case canonical_key (JStr raw) of None \<Rightarrow> [] | Some k \<Rightarrow> k)
             ''No configured site alias matched.'')
        | Some a \<Rightarrow> (case owners_of rg a of
            [] \<Rightarrow> Inr (unresolved raw ''unknown'' a ''No configured site alias matched.'')
          | [i] \<Rightarrow> (case site_named rg i of
              Some s \<Rightarrow> Inr \<lparr>sr_site_id = Some i, sr_display_name = st_display_name s,
                sr_source_value = raw, sr_status = ''resolved'', sr_matched_alias = a,
                sr_explanation = ''Matched a configured normalized alias.''\<rparr>
            | None \<Rightarrow> Inl (KeyError i))
          | _ \<Rightarrow> Inr (unresolved raw ''ambiguous'' a
              ''Normalized alias maps to multiple canonical sites.''))))"

end
