(* ===== verification/Site_Estate.thy ===== *)
theory Site_Estate
  imports Sites
begin

text \<open>
  The rest of \<open>analysis/sites\<close>: attribution of adapter records to sites, validation of the
  configured registry, its statistics, the estate records and the documents written from them.
\<close>

section \<open>Attribution of records\<close>

definition resolve_record :: "site_registry \<Rightarrow> dict \<Rightarrow> (dict \<times> string list \<times> string list) res" where
  "resolve_record rg record =
     (let value = dget record ''site'' in
      and_then (resolve rg value (dget record ''site_id'')) (\<lambda>r.
      (let rec1 = dset (dset record ''_site_source_value'' value)
             ''_site_resolution_status'' (JStr (sr_status r));
           rec2 = (case sr_site_id r of
               Some i \<Rightarrow> if i = [] then rec1 else
                 dset (dset (dset rec1 ''site_id'' (JStr i)) ''site_display_name''
                   (JStr (sr_display_name r))) ''site'' (JStr (sr_display_name r))
             | None \<Rightarrow> rec1) in
       if sr_status r = ''resolved'' \<and> sr_matched_alias r \<noteq> [] then
         Inr (rec2, [sr_matched_alias r], [])
       else if sr_status r \<noteq> ''resolved'' \<and> truthy value then Inr (rec2, [], [py_str value])
       else Inr (rec2, [], []))))"

definition resolve_result :: "site_registry \<Rightarrow> adapter_result
    \<Rightarrow> (adapter_result \<times> string list \<times> string list) res" where
  "resolve_result rg result =
     and_then (map_res (resolve_record rg) (ar_assets result)) (\<lambda>rs.
     Inr (\<lparr>ar_name = ar_name result, ar_priority = ar_priority result, ar_assets = map fst rs,
           ar_collectors = ar_collectors result\<rparr>,
          concat (map (fst \<circ> snd) rs), concat (map (snd \<circ> snd) rs)))"

definition resolve_records :: "site_registry \<Rightarrow> adapter_result list
    \<Rightarrow> (adapter_result list \<times> string list \<times> string list) res" where
  "resolve_records rg results =
     and_then (map_res (resolve_result rg) results) (\<lambda>rs.
     Inr (map fst rs, usort (concat (map (fst \<circ> snd) rs)), concat (map (snd \<circ> snd) rs)))"

section \<open>Validation\<close>

definition SITE_TYPES :: "string list" where
  "SITE_TYPES = [''head_office'', ''school'', ''campus'', ''office'', ''data_centre'', ''warehouse'',
     ''branch'', ''remote_site'', ''other'']"

definition MAX_HIERARCHY_DEPTH :: nat where
  "MAX_HIERARCHY_DEPTH = 8"

definition site_finding :: "string \<Rightarrow> site_def \<Rightarrow> dict \<Rightarrow> string \<Rightarrow> dict" where
  "site_finding kind s extra message =
     [(''type'', JStr kind), (''site_id'', JStr (site_id s))] @ extra @ [(''message'', JStr message)]"

definition rollup_unsafe :: "string \<Rightarrow> bool" where
  "rollup_unsafe g = (strip g = [] \<or>
     (let t = filter (\<lambda>c. c \<noteq> CHR ''-'' \<and> c \<noteq> CHR ''_'') g in t = [] \<or> \<not> list_all is_alnum t))"

definition parent_findings :: "site_def list \<Rightarrow> site_def \<Rightarrow> dict list" where
  "parent_findings sites s = (case parent_of s of None \<Rightarrow> [] | Some p \<Rightarrow>
     (if p = site_id s then [site_finding ''self_parent'' s [] ''A site cannot be its own parent.'']
      else case by_id sites p of
        None \<Rightarrow> [site_finding ''unknown_parent'' s [(''parent_id'', JStr p)]
          ''Parent site is not in this profile.'']
      | Some up \<Rightarrow> if \<not> st_enabled up \<and> st_enabled s then
          [site_finding ''disabled_parent'' s [(''parent_id'', JStr p)]
            ''An enabled child cannot use a disabled parent.'']
        else []))"

fun definition_findings :: "site_def list \<Rightarrow> string list \<Rightarrow> site_def list \<Rightarrow> dict list" where
  "definition_findings sites seen [] = []"
| "definition_findings sites seen (s # rest) =
     (if site_id s \<in> set seen then
        [site_finding ''duplicate_site_id'' s [] ''Canonical site ID is repeated.''] else []) @
     (if st_type s \<notin> set SITE_TYPES then
        [site_finding ''invalid_site_type'' s [(''value'', JStr (st_type s))]
          ''Site type is not supported.''] else []) @
     (case st_rollup_group s of None \<Rightarrow> []
      | Some g \<Rightarrow> if rollup_unsafe g then
          [site_finding ''invalid_rollup_group'' s [(''value'', JStr g)]
            ''Rollup group must be filesystem-safe.''] else []) @
     parent_findings sites s @ definition_findings sites (site_id s # seen) rest"

fun order_findings :: "((string option \<times> int) \<times> string) list \<Rightarrow> site_def list \<Rightarrow> dict list" where
  "order_findings orders [] = []"
| "order_findings orders (s # rest) = (case st_display_order s of
       None \<Rightarrow> order_findings orders rest
     | Some n \<Rightarrow> (let key = (parent_of s, n) in
         (case map_of orders key of None \<Rightarrow> []
          | Some other \<Rightarrow> [[(''type'', JStr ''duplicate_display_order''),
              (''site_ids'', jstrs (sort [other, site_id s])), (''display_order'', JInt n),
              (''message'', JStr ''Sibling sites must not share display_order.'')]]) @
         order_findings (AList.update key (site_id s) orders) rest))"

text \<open>
  The walk towards the root from one site. It stops at the latest when the chain has
  \<open>MAX_HIERARCHY_DEPTH + 1\<close> members.
\<close>

function hierarchy_walk :: "site_def list \<Rightarrow> site_def \<Rightarrow> string list \<Rightarrow> site_def \<Rightarrow> dict list" where
  "hierarchy_walk sites s chain cur = (case parent_of cur of None \<Rightarrow> [] | Some p \<Rightarrow>
     (if site_id cur \<in> set chain then
        [site_finding ''circular_hierarchy'' s [(''path'', jstrs (chain @ [site_id cur]))]
          ''Site hierarchy contains a cycle.'']
      else if length chain + 1 > MAX_HIERARCHY_DEPTH then
        [site_finding ''excessive_hierarchy_depth'' s [(''depth'', JInt (int (length chain + 1)))]
          ''Site hierarchy exceeds the supported depth.'']
      else case by_id sites p of None \<Rightarrow> []
        | Some up \<Rightarrow> hierarchy_walk sites s (chain @ [site_id cur]) up))"
  by pat_completeness auto
termination
  by (relation "measure (\<lambda>(sites, s, chain, cur). MAX_HIERARCHY_DEPTH - length chain)") auto

declare hierarchy_walk.simps [simp del]

definition hierarchy_findings :: "site_def list \<Rightarrow> dict list" where
  "hierarchy_findings sites = concat (map (\<lambda>s. hierarchy_walk sites s [] s) sites)"

definition alias_findings :: "owners \<Rightarrow> owners \<Rightarrow> string list \<Rightarrow> string list \<Rightarrow> string list \<Rightarrow> dict list" where
  "alias_findings alias_owners configured duplicates used unknown =
     map (\<lambda>a. [(''type'', JStr ''duplicate_alias''), (''alias'', JStr a),
        (''message'', JStr ''Alias is repeated within one canonical site.'')]) (usort duplicates) @
     map (\<lambda>(a, os). [(''type'', JStr ''ambiguous_alias''), (''alias'', JStr a),
        (''site_ids'', jstrs (usort os)), (''message'', JStr ''Alias maps to multiple canonical sites.'')])
       (filter (\<lambda>(a, os). length (remdups os) > 1) (sort_key fst alias_owners)) @
     map (\<lambda>a. [(''type'', JStr ''unused_alias''), (''alias'', JStr a),
        (''site_ids'', jstrs (usort (case map_of configured a of None \<Rightarrow> [] | Some os \<Rightarrow> os))),
        (''message'', JStr ''Configured alias was not observed.'')])
       (usort (filter (\<lambda>a. a \<notin> set used) (map fst configured))) @
     map (\<lambda>v. [(''type'', JStr ''unknown_site''), (''value'', JStr v),
        (''message'', JStr ''Asset site value is not present in the canonical registry.'')])
       (usort (filter (\<lambda>v. v \<noteq> []) unknown))"

definition validate_registry :: "site_def list \<Rightarrow> owners \<Rightarrow> owners \<Rightarrow> string list \<Rightarrow> string list
    \<Rightarrow> string list \<Rightarrow> dict list" where
  "validate_registry sites alias_owners configured duplicates used unknown =
     definition_findings sites [] sites @ order_findings [] sites @ hierarchy_findings sites @
     alias_findings alias_owners (if configured \<noteq> [] then configured else alias_owners)
       duplicates used unknown"

definition supported_services :: "string list" where
  "supported_services =
     [''internet'', ''wireless'', ''switching'', ''printing'', ''identity'', ''compute'', ''storage'',
      ''voice'', ''email'', ''security'', ''monitoring'', ''virtualisation management plane'',
      ''virtualisation_management_plane'', ''hypervisor cluster'', ''hypervisor_cluster'',
      ''compute capacity'', ''compute_capacity'', ''virtual machine hosting'',
      ''virtual_machine_hosting'', ''shared storage'', ''shared_storage'',
      ''workload availability'', ''workload_availability'']"

definition dependency_findings :: "site_registry \<Rightarrow> nat \<Rightarrow> json \<Rightarrow> dict list res" where
  "dependency_findings rg index dependency = (case dependency of
     JObj d \<Rightarrow>
       and_then (py_iter (dget_or d ''consumer_site_ids'' (JList []))) (\<lambda>consumers.
       (let service = casefold (py_str (dget_or d ''service'' (JStr [])));
            configured = map site_id (rg_configured rg);
            ids = map (\<lambda>v. with_prefix (py_str (por v (JStr [])))) (dget d ''provider_site_id'' # consumers) in
        Inr ((if service \<notin> set supported_services then
                [[(''type'', JStr ''invalid_service_dependency''), (''dependency'', JInt (int index)),
                  (''service'', JStr service), (''message'', JStr ''Dependency service is not canonical.'')]]
              else []) @
             map (\<lambda>i. [(''type'', JStr ''unknown_dependency_site''), (''dependency'', JInt (int index)),
                  (''site_id'', JStr i),
                  (''message'', JStr ''Dependency references a site outside this profile.'')])
               (filter (\<lambda>i. i \<notin> set configured) ids))))
   | _ \<Rightarrow> Inl (AttributeError ''object has no attribute get''))"

definition registry_validation :: "site_registry \<Rightarrow> string list \<Rightarrow> string list \<Rightarrow> dict list res" where
  "registry_validation rg used unknown =
     and_then (map_res (\<lambda>(i, d). dependency_findings rg i d)
        (zip [0..<length (rg_dependencies rg)] (rg_dependencies rg))) (\<lambda>more.
     Inr (validate_registry (rg_configured rg) (rg_alias_owners rg) (rg_configured_owners rg)
        (rg_duplicate_aliases rg) used unknown @ concat more))"

section \<open>Estate\<close>

definition deployment_model :: "site_registry \<Rightarrow> string" where
  "deployment_model rg =
     (if length (rg_sites rg) \<le> 1 then ''single_site''
      else if list_ex (\<lambda>s. st_parent_id s \<noteq> None \<and> st_parent_id s \<noteq> Some []) (rg_sites rg)
      then ''multi_site_hierarchical'' else ''multi_site_flat'')"

definition has_parent :: "site_def \<Rightarrow> bool" where
  "has_parent s = (st_parent_id s \<noteq> None \<and> st_parent_id s \<noteq> Some [])"

definition registry_roots :: "site_registry \<Rightarrow> site_def list" where
  "registry_roots rg = filter (\<lambda>s. \<not> has_parent s) (rg_sites rg)"

definition registry_children :: "site_registry \<Rightarrow> site_def list" where
  "registry_children rg = filter has_parent (rg_sites rg)"

definition estate_enabled :: "site_registry \<Rightarrow> bool" where
  "estate_enabled rg = (length (rg_sites rg) > 1)"

definition jint_opt :: "int option \<Rightarrow> json" where
  "jint_opt v = (case v of None \<Rightarrow> JNull | Some n \<Rightarrow> JInt n)"

definition hierarchy_site :: "site_def \<Rightarrow> json" where
  "hierarchy_site s = JObj
     [(''site_id'', JStr (site_id s)), (''name'', JStr (st_display_name s)), (''type'', JStr (st_type s)),
      (''parent_id'', jopt (parent_of s)), (''rollup_group'', jopt (st_rollup_group s)),
      (''enabled'', JBool (st_enabled s)), (''display_order'', jint_opt (st_display_order s)),
      (''description'', JStr (st_description s)), (''aliases'', jstrs (st_aliases s))]"

definition hierarchy_payload :: "site_registry \<Rightarrow> json \<Rightarrow> json \<Rightarrow> dict res" where
  "hierarchy_payload rg deployment_id generated_at =
     and_then (registry_validation rg [] []) (\<lambda>fs.
     Inr [(''schema_version'', JInt 1), (''generated_at'', generated_at),
        (''deployment_id'', deployment_id), (''deployment_model'', JStr (deployment_model rg)),
        (''estate_enabled'', JBool (estate_enabled rg)),
        (''sites'', JList (map hierarchy_site (rg_sites rg @ rg_disabled rg))),
        (''validation'', JList (map JObj fs))])"

definition registry_statistics :: "site_registry \<Rightarrow> string list \<Rightarrow> dict" where
  "registry_statistics rg used_aliases =
     (let loaded = usort (map fst (rg_configured_owners rg));
          used = filter (\<lambda>a. a \<in> set used_aliases) loaded in
      [(''canonical_sites'', JInt (int (length (rg_sites rg)))),
       (''aliases_loaded'', JInt (int (length loaded))), (''aliases_used'', JInt (int (length used))),
       (''aliases_unused'', JInt (int (length (filter (\<lambda>a. a \<notin> set used) loaded))))])"

definition asset_health :: "dict \<Rightarrow> string" where
  "asset_health asset =
     (if dget asset ''online'' = JBool False then
        (if kind_mentions [''core'', ''firewall''] asset then ''critical'' else ''offline'')
      else if dget asset ''lifecycle_state'' \<in> {JStr ''stale'', JStr ''missing''} then ''warning''
      else if dget asset ''online'' = JBool True then ''healthy'' else ''unknown'')"

definition estate_site_of :: "dict \<Rightarrow> json" where
  "estate_site_of asset = (case por (dget asset ''site'') (JObj []) of JObj s \<Rightarrow> dget s ''site_id'' | _ \<Rightarrow> JNull)"

text \<open>Health of a site from the health of its assets, worst first.\<close>

definition site_health :: "string list \<Rightarrow> string" where
  "site_health healths =
     (if ''critical'' \<in> set healths then ''Critical''
      else if ''offline'' \<in> set healths \<or> ''warning'' \<in> set healths then ''Warning''
      else if healths \<noteq> [] then ''Healthy'' else ''Unknown'')"

definition count_for :: "dict list \<Rightarrow> string \<Rightarrow> int" where
  "count_for values i = int (length (filter (\<lambda>v. dget v ''site_id'' = JStr i) values))"

definition estate_record :: "dict list \<Rightarrow> dict list \<Rightarrow> dict list \<Rightarrow> dict list \<Rightarrow> json \<Rightarrow> site_def \<Rightarrow> dict res" where
  "estate_record assets issues risks recommendations observability s =
     (let mine = filter (\<lambda>a. estate_site_of a = JStr (site_id s) \<and> site_id s \<noteq> []) assets in
      and_then (map_res (\<lambda>a. py_iter (dget_or a ''sources'' (JList []))) mine) (\<lambda>srcs.
      and_then (map_res want_str (concat srcs)) (\<lambda>names.
      (let sources = usort names in
       Inr (dmerge [(''site_id'', JStr (site_id s)), (''display_name'', JStr (st_display_name s)),
            (''aliases'', jstrs (st_aliases s)), (''type'', JStr (st_type s)),
            (''parent_id'', jopt (parent_of s)), (''rollup_group'', jopt (st_rollup_group s)),
            (''display_order'', jint_opt (st_display_order s))]
          (st_metadata s @ [(''devices'', JInt (int (length mine))),
            (''collectors'', JInt (int (length sources))), (''collector_names'', jstrs sources),
            (''issues'', JInt (count_for issues (site_id s))), (''risks'', JInt (count_for risks (site_id s))),
            (''recommendations'', JInt (count_for recommendations (site_id s))),
            (''infrastructure_health'', JStr (site_health (map asset_health mine))),
            (''observability_health'', observability)]))))))"

definition estate :: "site_registry \<Rightarrow> dict \<Rightarrow> dict \<Rightarrow> dict list res" where
  "estate rg state operations =
     and_then (dict_list (dget_or state ''assets'' (JList []))) (\<lambda>assets.
     and_then (dict_list (dget_or operations ''issues'' (JList []))) (\<lambda>issues.
     and_then (dict_list (dget_or operations ''risks'' (JList []))) (\<lambda>risks.
     and_then (dict_list (dget_or operations ''recommendations'' (JList []))) (\<lambda>recs.
     and_then (want_dict (dget_or state ''summary'' (JObj []))) (\<lambda>summary.
     map_res (estate_record assets issues risks recs
        (dget_or summary ''observability_health'' (JStr ''Unknown''))) (rg_sites rg))))))"

text \<open>The documents of \<open>write\<close>: \<open>sites.json\<close> and the dashboard summary.\<close>

definition sites_document :: "site_registry \<Rightarrow> dict \<Rightarrow> dict list \<Rightarrow> json \<Rightarrow> json \<Rightarrow> dict" where
  "sites_document rg state records validation statistics =
     [(''generated_at'', dget state ''generated_at''),
      (''deployment_id'', dget_or state ''deployment_id'' (JStr [])),
      (''deployment_model'', JStr (deployment_model rg)), (''sites'', JList (map JObj records)),
      (''validation'', por validation (JList [])),
      (''statistics'', por statistics (JObj (registry_statistics rg [])))]"

definition count_health :: "dict list \<Rightarrow> string \<Rightarrow> json" where
  "count_health records h =
     JInt (int (length (filter (\<lambda>r. dget r ''infrastructure_health'' = JStr h) records)))"

definition per_site :: "dict list \<Rightarrow> string \<Rightarrow> json" where
  "per_site records k = JObj (dmerge [] (map (\<lambda>r. (py_str (dget r ''site_id''), dget r k)) records))"

definition site_summary :: "site_registry \<Rightarrow> dict \<Rightarrow> dict list \<Rightarrow> dict" where
  "site_summary rg state records =
     [(''generated_at'', dget state ''generated_at''),
      (''deployment_id'', dget_or state ''deployment_id'' (JStr [])),
      (''deployment_model'', JStr (deployment_model rg)), (''estate_enabled'', JBool (estate_enabled rg)),
      (''total_sites'', JInt (int (length records))), (''healthy_sites'', count_health records ''Healthy''),
      (''warning_sites'', count_health records ''Warning''),
      (''critical_sites'', count_health records ''Critical''),
      (''collectors_by_site'', per_site records ''collectors''),
      (''devices_by_site'', per_site records ''devices''),
      (''sites'', JList (map (\<lambda>r. JObj [(''site_id'', dget r ''site_id''),
         (''display_name'', dget r ''display_name'')]) records))]"

end
