(* ===== verification/Site_Properties.thy ===== *)
theory Site_Properties
  imports Site_Estate
begin

text \<open>
  What \<open>analysis/sites\<close> promises: alias normalisation is canonical, the hierarchy walk
  always ends, a validated hierarchy is ordered parents first, and resolution is total and
  unambiguous.
\<close>

section \<open>Words\<close>

definition word :: "string \<Rightarrow> bool" where
  "word w = (w \<noteq> [] \<and> list_all (\<lambda>c. \<not> is_space c) w)"

lemma split_ws_blank: "dropWhile is_space s = [] \<Longrightarrow> split_ws s = []"
  by (subst split_ws.simps) (simp only: Let_def if_True simp_thms)

lemma split_ws_first:
  "dropWhile is_space s = t \<Longrightarrow> t \<noteq> [] \<Longrightarrow>
   split_ws s = takeWhile (\<lambda>c. \<not> is_space c) t # split_ws (dropWhile (\<lambda>c. \<not> is_space c) t)"
  by (subst split_ws.simps) (simp only: Let_def if_False)

lemma split_ws_words: "w \<in> set (split_ws s) \<Longrightarrow> word w"
proof (induction s rule: split_ws.induct)
  case (1 s)
  define t where "t = dropWhile is_space s"
  show ?case
  proof (cases "t = []")
    case True
    with 1 show ?thesis by (simp add: t_def split_ws_blank)
  next
    case False
    have "\<not> is_space (hd t)" using False unfolding t_def by (rule hd_dropWhile)
    then have "takeWhile (\<lambda>c. \<not> is_space c) t \<noteq> []"
      using False by (cases t) auto
    then have "word (takeWhile (\<lambda>c. \<not> is_space c) t)"
      by (auto simp: word_def list_all_iff dest: set_takeWhileD)
    moreover have "w \<in> set (split_ws (dropWhile (\<lambda>c. \<not> is_space c) t)) \<Longrightarrow> word w"
      using 1(1) [OF t_def False] .
    ultimately show ?thesis
      using 1(2) split_ws_first [OF t_def [symmetric] False] by auto
  qed
qed

lemma takeWhile_word: "word w \<Longrightarrow> is_space c \<Longrightarrow> takeWhile (\<lambda>c. \<not> is_space c) (w @ c # s) = w"
  by (subst takeWhile_append2) (auto simp: word_def list_all_iff)

lemma dropWhile_word: "word w \<Longrightarrow> is_space c \<Longrightarrow> dropWhile (\<lambda>c. \<not> is_space c) (w @ c # s) = c # s"
  by (subst dropWhile_append2) (auto simp: word_def list_all_iff)

lemma word_start: "word w \<Longrightarrow> dropWhile is_space (w @ s) = w @ s"
  by (cases w) (auto simp: word_def)

lemma trans_sym: "a = c \<Longrightarrow> b = c \<Longrightarrow> a = b"
  by simp

lemma split_ws_space:
  assumes "is_space c"
  shows "split_ws (c # s) = split_ws s"
proof (cases "dropWhile is_space s = []")
  case True
  then have "dropWhile is_space (c # s) = []" using assms by (simp only: dropWhile.simps if_True)
  with True show ?thesis by (simp only: split_ws_blank)
next
  case False
  have "dropWhile is_space (c # s) = dropWhile is_space s" using assms by simp
  from split_ws_first [OF this False] split_ws_first [OF refl False] show ?thesis by (rule trans_sym)
qed

lemma split_ws_word:
  assumes "word w"
  shows "split_ws w = [w]"
proof -
  have w: "w \<noteq> []" "takeWhile (\<lambda>c. \<not> is_space c) w = w" "dropWhile (\<lambda>c. \<not> is_space c) w = []"
    using assms by (simp_all add: word_def list_all_iff)
  have Nil: "split_ws [] = []" by (rule split_ws_blank) simp
  have "dropWhile is_space w = w" using word_start [OF assms, of "[]"] by simp
  from split_ws_first [OF this w(1)] show ?thesis by (simp only: w Nil)
qed

lemma is_space_blank [simp]: "is_space (CHR '' '')"
  by (simp add: is_space_def)

lemma split_ws_cons:
  assumes "word w"
  shows "split_ws (w @ CHR '' '' # s) = w # split_ws s"
  using split_ws_first [OF word_start [OF assms], of "CHR '' '' # s"]
  by (simp add: takeWhile_word [OF assms] dropWhile_word [OF assms] split_ws_space)

lemma split_ws_join: "list_all word ws \<Longrightarrow> split_ws (join '' '' ws) = ws"
proof (induction ws rule: induct_list012)
  case 1
  then show ?case by (simp add: split_ws.simps)
next
  case (2 w)
  then show ?case by (simp add: split_ws_word)
next
  case (3 w v ws)
  then show ?case by (simp add: split_ws_cons)
qed

lemma set_join: "set (join '' '' ws) \<subseteq> insert (CHR '' '') (\<Union>w \<in> set ws. set w)"
  by (induction ws rule: induct_list012) auto

lemma split_ws_chars: "w \<in> set (split_ws s) \<Longrightarrow> c \<in> set w \<Longrightarrow> c \<in> set s"
proof (induction s rule: split_ws.induct)
  case (1 s)
  define t where "t = dropWhile is_space s"
  have t: "c \<in> set t \<Longrightarrow> c \<in> set s" by (auto simp: t_def dest: set_dropWhileD)
  show ?case
  proof (cases "t = []")
    case True
    with 1 show ?thesis by (simp add: t_def split_ws_blank)
  next
    case False
    have "w = takeWhile (\<lambda>c. \<not> is_space c) t \<or> w \<in> set (split_ws (dropWhile (\<lambda>c. \<not> is_space c) t))"
      using 1(2) split_ws_first [OF t_def [symmetric] False] by simp
    then show ?thesis
      using 1(1) [OF t_def False] 1(3) t by (auto dest: set_takeWhileD set_dropWhileD)
  qed
qed

section \<open>Alias normalisation\<close>

lemma alias_char_twice: "alias_char (alias_char c) = alias_char c"
  by (simp add: alias_char_def)

lemma blank_not_quote [simp]: "CHR '' '' \<notin> set quotes"
  by (simp add: quotes_def) code_simp

lemma alias_char_not_quote: "c \<notin> set quotes \<Longrightarrow> alias_char c \<notin> set quotes"
  by (simp add: alias_char_def)

lemma lower_char_blank: "lower_char (CHR '' '') = CHR '' ''"
  by (simp add: lower_char_def)

lemma lower_char_alias: "lower_char (alias_char (lower_char c)) = alias_char (lower_char c)"
  by (cases "alias_char (lower_char c) = lower_char c")
     (auto simp: lower_char_idem lower_char_blank alias_char_def split: if_splits)

lemma normalize_alias_fixed:
  assumes "\<And>c. c \<in> set r \<Longrightarrow> lower_char c = c \<and> c \<notin> set quotes \<and> alias_char c = c"
    and "r = join '' '' ws" and "list_all word ws" and "r \<noteq> []"
  shows "normalize_alias (JStr r) = Some r"
proof -
  have l: "lower r = r" unfolding lower_def using assms(1) by (simp add: map_idI)
  have q: "filter (\<lambda>c. c \<notin> set quotes) r = r" using assms(1) by (auto simp: filter_id_conv)
  have a: "map alias_char r = r" using assms(1) by (simp add: map_idI)
  have "split_ws r = ws" using assms(2,3) split_ws_join by simp
  then show ?thesis
    using assms(2,4) l q a by (simp add: normalize_alias_def por_def Let_def)
qed

lemma normalize_alias_idem:
  assumes "normalize_alias v = Some r"
  shows "normalize_alias (JStr r) = Some r"
proof -
  define s t where "s = lower (py_str (por v (JStr [])))"
    and "t = map alias_char (filter (\<lambda>c. c \<notin> set quotes) s)"
  from assms have r: "r = join '' '' (split_ws t)" "r \<noteq> []"
    by (auto simp: normalize_alias_def Let_def s_def t_def split: if_splits)
  have t: "lower_char c = c \<and> c \<notin> set quotes \<and> alias_char c = c" if "c \<in> set t" for c
    using that
    by (auto simp: t_def s_def lower_def alias_char_twice lower_char_alias
        dest: alias_char_not_quote)
  have blank: "lower_char (CHR '' '') = CHR '' '' \<and> CHR '' '' \<notin> set quotes \<and> alias_char (CHR '' '') = CHR '' ''"
    by (simp add: lower_char_blank alias_char_def)
  show ?thesis
  proof (rule normalize_alias_fixed [OF _ r(1) _ r(2)])
    fix c assume "c \<in> set r"
    then have "c = CHR '' '' \<or> c \<in> set t"
      using set_join [of "split_ws t"] split_ws_chars [of _ t c] r(1) by blast
    then show "lower_char c = c \<and> c \<notin> set quotes \<and> alias_char c = c"
      using t blank by blast
  qed (auto simp: list_all_iff intro: split_ws_words)
qed

section \<open>Hierarchies\<close>

definition ids_of :: "site_def list \<Rightarrow> string set" where
  "ids_of sites = site_id ` set sites"

lemma by_id_Some: "by_id sites p = Some s \<Longrightarrow> s \<in> set sites \<and> site_id s = p"
  by (auto simp: by_id_def dest!: map_of_SomeD)

lemma by_id_unique:
  assumes "distinct (map site_id sites)" and "s \<in> set sites"
  shows "by_id sites (site_id s) = Some s"
proof -
  have "map fst (rev (map (\<lambda>s. (site_id s, s)) sites)) = rev (map site_id sites)"
    by (simp add: rev_map comp_def)
  with assms show ?thesis
    unfolding by_id_def by (intro map_of_is_SomeI) auto
qed

lemma step_up_Some: "step_up sites cur = Some up \<Longrightarrow> up \<in> set sites \<and> parent_of cur = Some (site_id up)"
  by (auto simp: step_up_def dest: by_id_Some split: option.splits)

lemma depth_loop_total:
  assumes "distinct seen" and "set seen \<subseteq> insert x (ids_of sites)" and "site_id cur \<in> insert x (ids_of sites)"
    and "length sites + 3 \<le> fuel + length seen"
  shows "depth_loop fuel sites seen r cur \<noteq> None"
  using assms
proof (induction fuel arbitrary: seen r cur)
  case 0
  have "card (set seen) \<le> card (insert x (ids_of sites))"
    using 0(2) by (intro card_mono) (simp_all add: ids_of_def)
  also have "\<dots> \<le> Suc (card (ids_of sites))" by (rule card_insert_le_m1) simp_all
  also have "\<dots> \<le> Suc (length sites)"
    using card_image_le [of "set sites" site_id] card_length [of sites] by (simp add: ids_of_def)
  finally show ?case using 0(1,4) by (simp add: distinct_card)
next
  case (Suc fuel)
  show ?case
  proof (cases "step_up sites cur")
    case (Some up)
    show ?thesis
    proof (cases "site_id cur \<in> set seen")
      case False
      have "depth_loop fuel sites (site_id cur # seen) (r + 1) up \<noteq> None"
        using Suc.prems False step_up_Some [OF Some] by (intro Suc.IH) (auto simp: ids_of_def)
      then show ?thesis using Some False by simp
    qed (simp add: Some)
  qed simp
qed

lemma depth_total: "\<exists>d. depth sites s = Some d"
  using depth_loop_total [of "[]" "site_id s" sites s "length sites + 3" 0] by (auto simp: depth_def)

text \<open>The number of ancestors of a site, if the walk ends within \<open>n\<close> steps.\<close>

fun height :: "nat \<Rightarrow> site_def list \<Rightarrow> site_def \<Rightarrow> nat option" where
  "height 0 sites s = None"
| "height (Suc n) sites s = (case step_up sites s of None \<Rightarrow> Some 0
     | Some up \<Rightarrow> map_option Suc (height n sites up))"

lemma height_less: "height n sites s = Some h \<Longrightarrow> h < n"
  by (induction n arbitrary: s h) (auto split: option.splits)

lemma height_mono: "height n sites s = Some h \<Longrightarrow> n \<le> m \<Longrightarrow> height m sites s = Some h"
proof (induction n arbitrary: s h m)
  case (Suc n)
  from Suc.prems(2) obtain m' where m: "m = Suc m'" "n \<le> m'" by (cases m) auto
  show ?case
  proof (cases "step_up sites s")
    case None
    with Suc.prems(1) m show ?thesis by simp
  next
    case (Some up)
    with Suc.prems(1) obtain h' where "height n sites up = Some h'" "h = Suc h'" by auto
    with Suc.IH [OF this(1) m(2)] Some m show ?thesis by simp
  qed
qed simp

lemma height_unique:
  assumes "height n sites s = Some h" and "height m sites s = Some k"
  shows "h = k"
proof (cases "n \<le> m")
  case True
  from height_mono [OF assms(1) True] assms(2) show ?thesis by simp
next
  case False
  then have "m \<le> n" by simp
  from height_mono [OF assms(2) this] assms(1) show ?thesis by simp
qed

lemma depth_loop_height:
  assumes "height n sites cur = Some h" and "h < fuel"
    and "\<And>i. i \<in> set seen \<Longrightarrow> \<exists>x k m. height m sites x = Some k \<and> h < k \<and> i = site_id x \<and> x \<in> set sites"
    and "cur \<in> set sites" and "distinct (map site_id sites)"
  shows "depth_loop fuel sites seen r cur = Some (r + h)"
  using assms
proof (induction fuel arbitrary: seen r cur h n)
  case (Suc fuel)
  from Suc.prems(1) obtain n' where n: "n = Suc n'" by (cases n) auto
  show ?case
  proof (cases "step_up sites cur")
    case None
    with Suc.prems(1) n show ?thesis by simp
  next
    case (Some up)
    with Suc.prems(1) n obtain h' where h': "height n' sites up = Some h'" "h = Suc h'"
      by auto
    have "site_id cur \<notin> set seen"
    proof
      assume "site_id cur \<in> set seen"
      from Suc.prems(3) [OF this] obtain x k m where x: "height m sites x = Some k" "h < k"
        "site_id cur = site_id x" "x \<in> set sites" by blast
      with Suc.prems(4,5) have "x = cur" by (metis inj_onD distinct_map)
      with x Suc.prems(1) height_unique show False by blast
    qed
    moreover have "depth_loop fuel sites (site_id cur # seen) (r + 1) up = Some (r + 1 + h')"
    proof (rule Suc.IH [OF h'(1)])
      fix i assume "i \<in> set (site_id cur # seen)"
      then consider "i = site_id cur" | "i \<in> set seen" by auto
      then show "\<exists>x k m. height m sites x = Some k \<and> h' < k \<and> i = site_id x \<and> x \<in> set sites"
      proof cases
        case 1
        with Suc.prems(1,4) h'(2) show ?thesis by blast
      next
        case 2
        from Suc.prems(3) [OF this] obtain x k m where
          "height m sites x = Some k \<and> h < k \<and> i = site_id x \<and> x \<in> set sites" by blast
        with h'(2) have "height m sites x = Some k \<and> h' < k \<and> i = site_id x \<and> x \<in> set sites"
          by simp
        then show ?thesis by blast
      qed
    qed (use Suc.prems h' step_up_Some [OF Some] in auto)
    ultimately show ?thesis using Some h'(2) by simp
  qed
qed simp

lemma depth_height:
  assumes "distinct (map site_id sites)" and "s \<in> set sites" and "height n sites s = Some h"
    and "h < length sites + 3"
  shows "depth sites s = Some h"
  using depth_loop_height [OF assms(3,4) _ assms(2,1), of "[]" 0] by (simp add: depth_def)

lemma heights_below:
  "height n sites s = Some h \<Longrightarrow> s \<in> set sites \<Longrightarrow> k \<le> h \<Longrightarrow> \<exists>x m. x \<in> set sites \<and> height m sites x = Some k"
proof (induction n arbitrary: s h)
  case (Suc n)
  show ?case
  proof (cases "k = h")
    case True
    with Suc.prems show ?thesis by blast
  next
    case False
    with Suc.prems obtain up h' where up: "step_up sites s = Some up" "height n sites up = Some h'" "h = Suc h'"
      by (auto split: option.splits)
    have "up \<in> set sites" "k \<le> h'" using step_up_Some [OF up(1)] False Suc.prems(3) up(3) by auto
    with Suc.IH [OF up(2)] show ?thesis by blast
  qed
qed simp

lemma height_bound:
  assumes "height n sites s = Some h" and "s \<in> set sites"
  shows "h < length sites"
proof -
  from heights_below [OF assms] obtain f m where
    f: "\<forall>k \<le> h. f k \<in> set sites \<and> height (m k) sites (f k) = Some k" by metis
  have "inj_on f {..h}"
  proof (rule inj_onI)
    fix a b assume "a \<in> {..h}" "b \<in> {..h}" and e: "f a = f b"
    with f have "height (m a) sites (f a) = Some a" "height (m b) sites (f a) = Some b" by auto
    then show "a = b" by (rule height_unique)
  qed
  then have "card {..h} \<le> card (set sites)" using f by (intro card_inj_on_le) auto
  with card_length [of sites] show ?thesis by simp
qed

lemma hierarchy_walk_height:
  "hierarchy_walk sites s chain cur = [] \<Longrightarrow> length chain \<le> MAX_HIERARCHY_DEPTH \<Longrightarrow>
   \<exists>h. height (Suc MAX_HIERARCHY_DEPTH - length chain) sites cur = Some h"
proof (induction sites s chain cur rule: hierarchy_walk.induct)
  case (1 sites s chain cur)
  from 1(3) have n: "Suc MAX_HIERARCHY_DEPTH - length chain = Suc (MAX_HIERARCHY_DEPTH - length chain)"
    by simp
  show ?case
  proof (cases "step_up sites cur")
    case None
    then show ?thesis by (simp add: n)
  next
    case (Some up)
    then obtain p where p: "parent_of cur = Some p" "by_id sites p = Some up"
      by (auto simp: step_up_def split: option.splits)
    from 1(2) have walk: "site_id cur \<notin> set chain" "\<not> length chain + 1 > MAX_HIERARCHY_DEPTH"
      "hierarchy_walk sites s (chain @ [site_id cur]) up = []"
      by (subst (asm) hierarchy_walk.simps, simp add: p split: if_splits)+
    from 1(1) [OF p(1) walk(1,2) p(2) walk(3)] walk(2) obtain h where
      "height (MAX_HIERARCHY_DEPTH - length chain) sites up = Some h" by auto
    then show ?thesis using Some by (simp add: n)
  qed
qed

lemma hierarchy_ok_height:
  assumes "hierarchy_findings sites = []" and "s \<in> set sites"
  shows "\<exists>h. height (Suc MAX_HIERARCHY_DEPTH) sites s = Some h"
  using hierarchy_walk_height [of sites s "[]" s] assms by (simp add: hierarchy_findings_def)

lemma definition_findings_distinct:
  "definition_findings sites seen ss = [] \<Longrightarrow> distinct (map site_id ss) \<and> set (map site_id ss) \<inter> set seen = {}"
proof (induction ss arbitrary: seen)
  case (Cons s ss)
  from Cons.prems have "site_id s \<notin> set seen" "definition_findings sites (site_id s # seen) ss = []"
    by (simp_all split: if_splits)
  with Cons.IH show ?case by fastforce
qed simp

lemma step_up_filter:
  assumes "distinct (map site_id sites)" and "step_up (filter P sites) s = Some up"
  shows "step_up sites s = Some up"
proof -
  from step_up_Some [OF assms(2)] have "up \<in> set sites" "parent_of s = Some (site_id up)" by auto
  with by_id_unique [OF assms(1)] show ?thesis by (simp add: step_up_def)
qed

lemma height_filter:
  "distinct (map site_id sites) \<Longrightarrow> height n sites s = Some h \<Longrightarrow> \<exists>k. height n (filter P sites) s = Some k"
proof (induction n arbitrary: s h)
  case (Suc n)
  show ?case
  proof (cases "step_up (filter P sites) s")
    case (Some up)
    from step_up_filter [OF Suc.prems(1) this] Suc.prems(2) obtain h' where
      "height n sites up = Some h'" by auto
    from Suc.IH [OF Suc.prems(1) this] Some show ?thesis by auto
  qed simp
qed simp

lemma sorted_before:
  "sorted (map f xs) \<Longrightarrow> a \<in> set xs \<Longrightarrow> b \<in> set xs \<Longrightarrow> f a < f b \<Longrightarrow>
   \<exists>ps qs rs. xs = ps @ a # qs @ b # rs" for f :: "'a \<Rightarrow> 'b::linorder"
proof -
  assume s: "sorted (map f xs)" and a: "a \<in> set xs" and b: "b \<in> set xs" and lt: "f a < f b"
  from b obtain us rs where xs: "xs = us @ b # rs" by (meson split_list)
  have "a \<in> set us"
  proof (rule ccontr)
    assume "a \<notin> set us"
    with a xs lt have "a \<in> set rs" by auto
    with s xs have "f b \<le> f a" by (auto simp: sorted_append)
    with lt show False by simp
  qed
  then obtain ps qs where "us = ps @ a # qs" by (meson split_list)
  with xs show ?thesis by auto
qed

lemma parent_before_child:
  assumes ids: "definition_findings sites [] sites = []" and hier: "hierarchy_findings sites = []"
    and s: "s \<in> set (ordered (filter st_enabled sites))"
    and up: "step_up (filter st_enabled sites) s = Some up"
  shows "\<exists>ps qs rs. ordered (filter st_enabled sites) = ps @ up # qs @ s # rs"
proof -
  let ?E = "filter st_enabled sites"
  have d: "distinct (map site_id sites)" using definition_findings_distinct [OF ids] by simp
  then have dE: "distinct (map site_id ?E)" by (rule distinct_map_filter)
  have sE: "s \<in> set ?E" and upE: "up \<in> set ?E"
    using s step_up_Some [OF up] by (simp_all add: ordered_def)
  from hierarchy_ok_height [OF hier] sE obtain h0 where "height (Suc MAX_HIERARCHY_DEPTH) sites s = Some h0" by auto
  from height_filter [OF d this] obtain h where h: "height (Suc MAX_HIERARCHY_DEPTH) ?E s = Some h" by blast
  then obtain k where k: "height MAX_HIERARCHY_DEPTH ?E up = Some k" "h = Suc k"
    using up by auto
  have "h < length ?E + 3" using height_bound [OF h sE] by simp
  then have "depth ?E s = Some h" "depth ?E up = Some k"
    using depth_height [OF dE sE h] depth_height [OF dE upE k(1)] k(2) by simp_all
  then have "order_key ?E up < order_key ?E s" by (simp add: order_key_def k(2) less_prod_def)
  then show ?thesis
    using sE upE by (intro sorted_before [of "order_key ?E"]) (simp_all add: ordered_def)
qed

section \<open>Alias ownership\<close>

lemma map_of_collect:
  "map_of (collect ps) k = (if k \<in> fst ` set ps then Some (usort (map snd (filter (\<lambda>p. fst p = k) ps))) else None)"
proof -
  have "map_of (map (\<lambda>k. (k, f k)) ks) k = (if k \<in> set ks then Some (f k) else None)" for ks and f :: "string \<Rightarrow> string list"
    by (induction ks) auto
  then show ?thesis by (simp add: collect_def)
qed

definition aliases_of_site :: "site_def \<Rightarrow> string list" where
  "aliases_of_site s = some_aliases ([st_id s, site_id s, st_display_name s] @ st_aliases s)"

definition claimants :: "site_def list \<Rightarrow> json \<Rightarrow> string set" where
  "claimants sites v = {site_id s | s. s \<in> set sites \<and> st_enabled s \<and>
     (\<exists>a. normalize_alias v = Some a \<and> a \<in> set (aliases_of_site s))}"

lemma set_collected:
  "set (case map_of (collect ps) k of None \<Rightarrow> [] | Some os \<Rightarrow> os) = snd ` {p \<in> set ps. fst p = k}"
proof (cases "k \<in> fst ` set ps")
  case False
  then have "{p \<in> set ps. fst p = k} = {}" by force
  with False show ?thesis by (simp add: map_of_collect)
qed (simp add: map_of_collect)

lemma registry_sites [simp]: "rg_sites (registry_of sites deps) = ordered (filter st_enabled sites)"
  by (simp add: registry_of_def Let_def)

lemma registry_owners [simp]:
  "rg_alias_owners (registry_of sites deps) = collect (concat (map owned_aliases (ordered (filter st_enabled sites))))"
  by (simp add: registry_of_def Let_def)

lemma set_ordered [simp]: "set (ordered sites) = set sites"
  by (simp add: ordered_def)

lemma owned_by:
  "snd ` {p \<in> set (concat (map owned_aliases ss)). fst p = a} = {site_id s | s. s \<in> set ss \<and> a \<in> set (aliases_of_site s)}"
  by (force simp: owned_aliases_def aliases_of_site_def)

lemma owners_claimants:
  assumes "normalize_alias v = Some a"
  shows "set (owners_of (registry_of sites deps) a) = claimants sites v"
    and "distinct (owners_of (registry_of sites deps) a)"
proof -
  show "set (owners_of (registry_of sites deps) a) = claimants sites v"
    using assms
    by (simp only: owners_of_def registry_owners set_collected owned_by) (auto simp: claimants_def)
  show "distinct (owners_of (registry_of sites deps) a)"
    by (simp add: owners_of_def map_of_collect)
qed

lemma by_id_total: "i \<in> site_id ` set ss \<Longrightarrow> \<exists>s. by_id ss i = Some s"
proof -
  assume "i \<in> site_id ` set ss"
  then have "map_of (rev (map (\<lambda>s. (site_id s, s)) ss)) i \<noteq> None"
    by (simp add: map_of_eq_None_iff image_image)
  then show ?thesis by (simp add: by_id_def)
qed

lemma claimant_named:
  assumes "i \<in> claimants sites v"
  shows "\<exists>s. site_named (registry_of sites deps) i = Some s \<and> s \<in> set sites \<and> site_id s = i"
proof -
  from assms have "i \<in> site_id ` set (ordered (filter st_enabled sites))" by (auto simp: claimants_def)
  from by_id_total [OF this] obtain s where s: "by_id (ordered (filter st_enabled sites)) i = Some s" ..
  with by_id_Some [OF s] show ?thesis by (auto simp: site_named_def)
qed

text \<open>Resolution of an alias, by the number of sites that claim it.\<close>

lemma resolve_alias:
  fixes sites deps v
  defines "raw \<equiv> strip (py_str (por v (JStr [])))"
  assumes "\<not> truthy explicit"
  shows "\<exists>r. resolve (registry_of sites deps) v explicit = Inr r \<and>
    (if claimants sites (JStr raw) = {} then sr_status r = ''unknown'' \<and> sr_site_id r = None
     else if \<exists>i. claimants sites (JStr raw) = {i} then
       sr_status r = ''resolved'' \<and> (\<exists>i. sr_site_id r = Some i \<and> claimants sites (JStr raw) = {i})
     else sr_status r = ''ambiguous'' \<and> sr_site_id r = None)"
proof (cases "normalize_alias (JStr raw)")
  case None
  then have "claimants sites (JStr raw) = {}" by (simp add: claimants_def)
  then show ?thesis
    using None assms(2) by (simp add: resolve_def raw_def Let_def unresolved_def)
next
  case (Some a)
  note own = owners_claimants [OF Some, of sites deps]
  show ?thesis
  proof (cases "owners_of (registry_of sites deps) a")
    case Nil
    with own have "claimants sites (JStr raw) = {}" by simp
    then show ?thesis
      using Nil Some assms(2) by (simp add: resolve_def raw_def Let_def unresolved_def)
  next
    case (Cons i rest)
    show ?thesis
    proof (cases rest)
      case Nil
      with Cons own have c: "claimants sites (JStr raw) = {i}" by simp
      with claimant_named [of i sites "JStr raw" deps] obtain s where
        "site_named (registry_of sites deps) i = Some s" by auto
      then show ?thesis
        using c Cons Nil Some assms(2) by (simp add: resolve_def raw_def Let_def)
    next
      case (Cons k more)
      have o: "owners_of (registry_of sites deps) a = i # k # more"
        using \<open>owners_of _ a = i # rest\<close> Cons by simp
      from own(1) have "claimants sites (JStr raw) = set (i # k # more)" unfolding o ..
      moreover have "i \<noteq> k" using own(2) unfolding o by simp
      ultimately have "claimants sites (JStr raw) \<noteq> {}" "\<not> (\<exists>i. claimants sites (JStr raw) = {i})" by auto
      then show ?thesis
        using o Some assms(2)
        by (simp add: resolve_def raw_def Let_def unresolved_def)
    qed
  qed
qed

section \<open>Estate counts\<close>

lemma dmerge_append: "dmerge a (b @ c) = dmerge (dmerge a b) c"
  by (simp add: dmerge_def)

lemma estate_record_devices:
  assumes "estate_record assets issues risks recs obs s = Inr r"
  shows "dget r ''devices'' = JInt (int (length (filter (\<lambda>a. estate_site_of a = JStr (site_id s)) assets)))"
    and "dget r ''site_id'' = JStr (site_id s) \<or> dhas (st_metadata s) ''site_id''"
proof -
  have ne: "site_id s \<noteq> []" by (auto simp: site_id_def with_prefix_def starts_with_def)
  from assms obtain sources where r: "r = dmerge [(''site_id'', JStr (site_id s)), (''display_name'', JStr (st_display_name s)),
            (''aliases'', jstrs (st_aliases s)), (''type'', JStr (st_type s)),
            (''parent_id'', jopt (parent_of s)), (''rollup_group'', jopt (st_rollup_group s)),
            (''display_order'', jint_opt (st_display_order s))]
          (st_metadata s @ [(''devices'', JInt (int (length (filter (\<lambda>a. estate_site_of a = JStr (site_id s)) assets)))),
            (''collectors'', JInt (int (length sources))), (''collector_names'', jstrs sources),
            (''issues'', JInt (count_for issues (site_id s))), (''risks'', JInt (count_for risks (site_id s))),
            (''recommendations'', JInt (count_for recs (site_id s))),
            (''infrastructure_health'', JStr (site_health (map asset_health
               (filter (\<lambda>a. estate_site_of a = JStr (site_id s)) assets)))),
            (''observability_health'', obs)])"
    by (auto simp: estate_record_def Let_def and_then_eq_Inr ne)
  show "dget r ''devices'' = JInt (int (length (filter (\<lambda>a. estate_site_of a = JStr (site_id s)) assets)))"
    by (simp add: r dmerge_append)
  show "dget r ''site_id'' = JStr (site_id s) \<or> dhas (st_metadata s) ''site_id''"
  proof (cases "dhas (st_metadata s) ''site_id''")
    case False
    then have "map_of (rev (st_metadata s)) ''site_id'' = None"
      by (simp add: dhas_def map_of_eq_None_iff)
    then show ?thesis by (simp add: r dmerge_append dget_def map_of_dset map_of_dmerge map_add_def)
  qed simp
qed

lemma sum_filters:
  "distinct (map f ss) \<Longrightarrow>
   sum_list (map (\<lambda>s. int (length (filter (\<lambda>a. g a = f s) xs))) ss) = int (length (filter (\<lambda>a. g a \<in> f ` set ss) xs))"
proof (induction xs)
  case (Cons x xs)
  have "sum_list (map (\<lambda>s. if g x = f s then 1 else 0) ss) = (if g x \<in> f ` set ss then 1 else (0::int))"
    using Cons.prems by (induction ss) auto
  moreover have "sum_list (map (\<lambda>s. int (length (filter (\<lambda>a. g a = f s) (x # xs)))) ss)
      = sum_list (map (\<lambda>s. if g x = f s then 1 else 0) ss)
        + sum_list (map (\<lambda>s. int (length (filter (\<lambda>a. g a = f s) xs))) ss)"
    by (simp add: sum_list_addf [symmetric] if_distrib cong: if_cong) (rule arg_cong [of _ _ sum_list], simp)
  ultimately show ?case using Cons by simp
qed simp

fun int_of :: "json \<Rightarrow> int" where
  "int_of (JInt i) = i"
| "int_of _ = 0"

lemma estate_devices:
  assumes "estate rg state operations = Inr records" and "distinct (map site_id (rg_sites rg))"
    and "dict_list (dget_or state ''assets'' (JList [])) = Inr assets"
  shows "sum_list (map (\<lambda>r. int_of (dget r ''devices'')) records) =
    int (length (filter (\<lambda>a. estate_site_of a \<in> (\<lambda>s. JStr (site_id s)) ` set (rg_sites rg)) assets))"
proof -
  from assms obtain issues risks recs obs where
    "map_res (estate_record assets issues risks recs obs) (rg_sites rg) = Inr records"
    by (auto simp: estate_def and_then_eq_Inr)
  then have "list_all2 (\<lambda>s r. estate_record assets issues risks recs obs s = Inr r) (rg_sites rg) records"
    by (simp add: map_res_Inr_iff)
  then have "map (\<lambda>r. int_of (dget r ''devices'')) records =
      map (\<lambda>s. int (length (filter (\<lambda>a. estate_site_of a = JStr (site_id s)) assets))) (rg_sites rg)"
    by (induction rule: list_all2_induct) (simp_all add: estate_record_devices(1))
  moreover have "distinct (map (\<lambda>s. JStr (site_id s)) (rg_sites rg))"
    using assms(2) by (simp add: distinct_map inj_on_def)
  ultimately show ?thesis
    using sum_filters [of "\<lambda>s. JStr (site_id s)" "rg_sites rg" estate_site_of assets] by simp
qed

section \<open>Properties\<close>

text \<open>
  C6. Ordering the sites always ends, on any configuration, cyclic or with repeated ids: the
  depth of every site is computed within its fuel, and the order is a permutation of the sites.
\<close>

theorem site_order_total:
  "(\<exists>d. depth sites s = Some d) \<and> mset (ordered sites) = mset sites"
  by (simp add: depth_total ordered_def)

text \<open>
  C7. A configuration without definition or hierarchy findings is ordered parents first: every
  enabled site comes after its parent in the registry.
\<close>

theorem parents_ordered_first:
  assumes "definition_findings sites [] sites = []" and "hierarchy_findings sites = []"
    and "s \<in> set (rg_sites (registry_of sites deps))"
    and "step_up (rg_sites (registry_of sites deps)) s = Some up"
  shows "\<exists>ps qs rs. rg_sites (registry_of sites deps) = ps @ up # qs @ s # rs"
proof -
  from definition_findings_distinct [OF assms(1)] have "distinct (map site_id sites)" by simp
  then have d: "distinct (map site_id (filter st_enabled sites))" by (rule distinct_map_filter)
  have up': "step_up (filter st_enabled sites) s = Some up"
  proof -
    from step_up_Some [OF assms(4)] have "up \<in> set (filter st_enabled sites)" "parent_of s = Some (site_id up)"
      by simp_all
    with by_id_unique [OF d] show ?thesis by (simp add: step_up_def)
  qed
  from parent_before_child [OF assms(1,2) _ this] assms(3) show ?thesis by simp
qed

definition ex_site :: "string \<Rightarrow> string option \<Rightarrow> site_def" where
  "ex_site i up = \<lparr>st_id = i, st_display_name = i, st_aliases = [], st_metadata = [], st_type = ''other'',
     st_parent_id = up, st_rollup_group = None, st_enabled = True, st_display_order = None,
     st_description = []\<rparr>"

lemma parents_ordered_first_witness:
  "\<exists>ps qs rs. rg_sites (registry_of [ex_site ''a'' (Some ''b''), ex_site ''b'' None] []) =
     ps @ ex_site ''b'' None # qs @ ex_site ''a'' (Some ''b'') # rs"
proof (rule parents_ordered_first)
  show "definition_findings [ex_site ''a'' (Some ''b''), ex_site ''b'' None] []
      [ex_site ''a'' (Some ''b''), ex_site ''b'' None] = []"
    by (simp add: ex_site_def site_id_def with_prefix_def starts_with_def SITE_TYPES_def
        parent_findings_def parent_of_def by_id_def)
  show "hierarchy_findings [ex_site ''a'' (Some ''b''), ex_site ''b'' None] = []"
    by (simp add: hierarchy_findings_def hierarchy_walk.simps ex_site_def site_id_def with_prefix_def
        starts_with_def parent_of_def by_id_def MAX_HIERARCHY_DEPTH_def)
  show "ex_site ''a'' (Some ''b'') \<in> set (rg_sites (registry_of [ex_site ''a'' (Some ''b''), ex_site ''b'' None] []))"
    by (simp add: ex_site_def)
  have "step_up (ordered [ex_site ''a'' (Some ''b''), ex_site ''b'' None]) (ex_site ''a'' (Some ''b'')) = Some (ex_site ''b'' None)"
  proof -
    have "distinct (map site_id (ordered [ex_site ''a'' (Some ''b''), ex_site ''b'' None]))"
      by (simp add: distinct_map ordered_def ex_site_def inj_on_def site_id_def with_prefix_def starts_with_def)
    from by_id_unique [OF this, of "ex_site ''b'' None"] show ?thesis
      by (simp add: step_up_def parent_of_def ex_site_def site_id_def with_prefix_def starts_with_def)
  qed
  then show "step_up (rg_sites (registry_of [ex_site ''a'' (Some ''b''), ex_site ''b'' None] []))
      (ex_site ''a'' (Some ''b'')) = Some (ex_site ''b'' None)"
    by (simp add: ex_site_def)
qed



text \<open>
  The estate counts every asset once: the device counts of the site records add up to the
  number of assets attributed to a registered site.
\<close>

theorem estate_counts_each_asset_once:
  assumes "estate rg state operations = Inr records" and "distinct (map site_id (rg_sites rg))"
    and "dict_list (dget_or state ''assets'' (JList [])) = Inr assets"
  shows "sum_list (map (\<lambda>r. int_of (dget r ''devices'')) records) =
    int (length (filter (\<lambda>a. estate_site_of a \<in> (\<lambda>s. JStr (site_id s)) ` set (rg_sites rg)) assets))"
  using assms by (rule estate_devices)

definition ex_estate_state :: dict where
  "ex_estate_state = [(''assets'', JList [JObj [(''site'', JObj [(''site_id'', JStr ''site:a'')])]])]"

lemma estate_counts_each_asset_once_witness:
  "\<exists>records. estate (registry_of [ex_site ''a'' None] []) ex_estate_state [] = Inr records \<and>
     sum_list (map (\<lambda>r. int_of (dget r ''devices'')) records) = 1"
proof -
  have "\<exists>records. estate (registry_of [ex_site ''a'' None] []) ex_estate_state [] = Inr records"
    by (simp add: estate_def ordered_def ex_site_def ex_estate_state_def dict_list_def dget_or_def
        want_dict_def estate_record_def dget_def estate_site_of_def por_def Let_def)
  then obtain records where r: "estate (registry_of [ex_site ''a'' None] []) ex_estate_state [] = Inr records" ..
  have "sum_list (map (\<lambda>r. int_of (dget r ''devices'')) records) =
    int (length (filter (\<lambda>a. estate_site_of a \<in> (\<lambda>s. JStr (site_id s)) ` set (rg_sites (registry_of [ex_site ''a'' None] [])))
      [[(''site'', JObj [(''site_id'', JStr ''site:a'')])]]))"
    by (rule estate_counts_each_asset_once [OF r])
       (simp_all add: ordered_def ex_site_def ex_estate_state_def dict_list_def dget_or_def want_dict_def)
  with r show ?thesis
    by (auto simp: ordered_def estate_site_of_def dget_def por_def ex_site_def site_id_def with_prefix_def
        starts_with_def)
qed

end
