(* ===== verification/Py_Address.thy ===== *)
theory Py_Address
  imports Py_Number
begin

text \<open>
  \<open>str(ipaddress.ip_address(text))\<close>: parsing and canonical printing of IPv4 and IPv6
  addresses, as far as the platform normalises management addresses with it.
\<close>

section \<open>Internet addresses\<close>

text \<open>\<open>str.split(c)\<close>.\<close>

fun split_on :: "char \<Rightarrow> string \<Rightarrow> string list" where
  "split_on c [] = [[]]"
| "split_on c (x # xs) = (if x = c then [] # split_on c xs
     else (case split_on c xs of [] \<Rightarrow> [[x]] | w # ws \<Rightarrow> (x # w) # ws))"

definition parse_octet :: "string \<Rightarrow> int option" where
  "parse_octet s = (if s = [] \<or> \<not> list_all is_digit s \<or> length s > 3 \<or> (hd s = CHR ''0'' \<and> length s > 1)
       \<or> digits_int s > 255 then None else Some (digits_int s))"

definition parse_ipv4 :: "string \<Rightarrow> int list option" where
  "parse_ipv4 s = (let parts = map parse_octet (split_on (CHR ''.'') s) in
     if length parts \<noteq> 4 \<or> None \<in> set parts then None else Some (map the parts))"

definition show_ipv4 :: "int list \<Rightarrow> string" where
  "show_ipv4 ns = join ''.'' (map show_int ns)"

definition hex_val :: "char \<Rightarrow> int option" where
  "hex_val c = (let n = of_char c :: int in
     if 48 \<le> n \<and> n \<le> 57 then Some (n - 48)
     else if 97 \<le> n \<and> n \<le> 102 then Some (n - 87)
     else if 65 \<le> n \<and> n \<le> 70 then Some (n - 55) else None)"

definition parse_hextet :: "string \<Rightarrow> int option" where
  "parse_hextet s = (if s = [] \<or> length s > 4 \<or> None \<in> set (map hex_val s) then None
     else Some (foldl (\<lambda>n c. n * 16 + the (hex_val c)) 0 s))"

text \<open>\<open>'%x' % n\<close> for a 16-bit group.\<close>

definition show_hex :: "int \<Rightarrow> string" where
  "show_hex n = (let ds = map (\<lambda>d. hex_digit (nat d)) [n div 4096 mod 16, n div 256 mod 16, n div 16 mod 16, n mod 16]
     in sor (drop_zeros ds) ''0'')"

text \<open>\<open>IPv6Address._ip_int_from_string\<close>, as eight groups.\<close>

definition ipv6_parts :: "string \<Rightarrow> string list option" where
  "ipv6_parts s = (let ps = split_on (CHR '':'') s in
     if length ps < 3 then None
     else if CHR ''.'' \<in> set (last ps) then
       (case parse_ipv4 (last ps) of
          Some [a, b, c, d] \<Rightarrow> Some (butlast ps @ [show_hex (a * 256 + b), show_hex (c * 256 + d)])
        | _ \<Rightarrow> None)
     else Some ps)"

definition ipv6_groups :: "string list \<Rightarrow> int list option" where
  "ipv6_groups ps =
     (let n = length ps; skips = filter (\<lambda>i. ps ! i = []) [1..<n - 1] in
      if n > 9 \<or> length skips > 1 then None
      else case skips of
        i # _ \<Rightarrow>
          (let hi = (if ps ! 0 = [] then i - 1 else i); lo0 = n - i - 1;
               lo = (if last ps = [] then lo0 - 1 else lo0);
               front = map parse_hextet (take hi ps); rear = map parse_hextet (drop (n - lo) ps) in
           if (ps ! 0 = [] \<and> hi \<noteq> 0) \<or> (last ps = [] \<and> lo \<noteq> 0) \<or> hi + lo \<ge> 8 \<or>
              None \<in> set (front @ rear) then None
           else Some (map the front @ replicate (8 - (hi + lo)) 0 @ map the rear))
      | [] \<Rightarrow> (let gs = map parse_hextet ps in
          if n \<noteq> 8 \<or> None \<in> set gs then None else Some (map the gs)))"

text \<open>\<open>_compress_hextets\<close>: the first longest run of at least two zero groups.\<close>

fun zero_run :: "int list \<Rightarrow> nat" where
  "zero_run [] = 0"
| "zero_run (g # gs) = (if g = 0 then Suc (zero_run gs) else 0)"

definition best_run :: "int list \<Rightarrow> nat \<times> nat" where
  "best_run gs = foldl (\<lambda>(i, n) k. let m = zero_run (drop k gs) in if m > n then (k, m) else (i, n))
     (0, 0) [0..<length gs]"

definition show_ipv6 :: "int list \<Rightarrow> string" where
  "show_ipv6 gs = (let (i, n) = best_run gs in
     if n > 1 then join '':'' (map show_hex (take i gs)) @ ''::'' @ join '':'' (map show_hex (drop (i + n) gs))
     else join '':'' (map show_hex gs))"

definition parse_ipv6 :: "string \<Rightarrow> string option" where
  "parse_ipv6 s =
     (let addr = takeWhile (\<lambda>c. c \<noteq> CHR ''%'') s; rest = drop (length addr) s; scope = tl rest in
      if CHR ''/'' \<in> set s \<or> (rest \<noteq> [] \<and> (scope = [] \<or> CHR ''%'' \<in> set scope)) then None
      else (case ipv6_parts addr of None \<Rightarrow> None | Some ps \<Rightarrow>
        map_option (\<lambda>gs. show_ipv6 gs @ rest) (ipv6_groups ps)))"

definition parse_ip :: "string \<Rightarrow> string option" where
  "parse_ip s = (case parse_ipv4 s of Some ns \<Rightarrow> Some (show_ipv4 ns) | None \<Rightarrow> parse_ipv6 s)"

lemma parse_ip_v4: "parse_ip ''10.0.0.1'' = Some ''10.0.0.1''"
  by code_simp

lemma parse_ip_leading_zero: "parse_ip ''10.0.0.01'' = None"
  by code_simp

lemma parse_ip_v6: "parse_ip ''2001:DB8:0:0:1:0:0:1'' = Some ''2001:db8::1:0:0:1''"
  by code_simp

lemma parse_ip_loopback: "parse_ip ''::1'' = Some ''::1''"
  by code_simp

lemma parse_ip_mapped: "parse_ip ''::ffff:1.2.3.4'' = Some ''::ffff:102:304''"
  by code_simp

end
