(* ===== verification/Infrastructure_Identity.thy ===== *)
theory Infrastructure_Identity
  imports Infrastructure_Models Py_Address
begin

text \<open>
  \<open>analysis/infrastructure/identity.py\<close> and \<open>policy.py\<close>: normalisation of identity
  evidence, the canonical asset id, field authority and the health policy. Every consumer of
  a normalised value tests only its truth, so \<open>None\<close> and the empty text are both \<open>[]\<close>.
  The SHA-256 digest is the parameter \<open>H\<close>.
\<close>

section \<open>Normalisation\<close>

definition text_of :: "json \<Rightarrow> string" where
  "text_of v = py_str (por v (JStr []))"

definition normalize_serial :: "json \<Rightarrow> string" where
  "normalize_serial v = upper (filter (\<lambda>c. \<not> is_space c) (text_of v))"

definition normalize_hostname :: "json \<Rightarrow> string" where
  "normalize_hostname v = rstrip_char (CHR ''.'') (lower (strip (text_of v)))"

definition short_hostname :: "json \<Rightarrow> string" where
  "short_hostname v = takeWhile (\<lambda>c. c \<noteq> CHR ''.'') (normalize_hostname v)"

definition normalize_ip :: "json \<Rightarrow> string" where
  "normalize_ip v = (case parse_ip (strip (text_of v)) of None \<Rightarrow> [] | Some s \<Rightarrow> s)"

definition hex_chars :: string where
  "hex_chars = ''0123456789abcdef''"

definition normalize_mac :: "json \<Rightarrow> string" where
  "normalize_mac v = (let s = filter (\<lambda>c. c \<in> set hex_chars) (lower (text_of v)) in
     if length s = 12 then s else [])"

definition normalize_site :: "json \<Rightarrow> string" where
  "normalize_site v = join '' '' (split_ws (lower (strip (text_of v))))"

definition device_type_aliases :: "(string \<times> string) list" where
  "device_type_aliases =
     [(''network-switch'', ''switch''), (''wireless-access-point'', ''access-point''),
      (''wireless-ap'', ''access-point''), (''security-appliance'', ''firewall''),
      (''printer-device'', ''printer'')]"

definition normalize_device_type :: "json \<Rightarrow> string" where
  "normalize_device_type v =
     (let s = replace_char (CHR '' '') (CHR ''-'') (replace_char (CHR ''_'') (CHR ''-'')
            (lower (strip (text_of v)))) in
      case map_of device_type_aliases s of None \<Rightarrow> s | Some t \<Rightarrow> t)"

definition first_of :: "dict \<Rightarrow> string list \<Rightarrow> json" where
  "first_of record keys = foldr (\<lambda>k v. por (dget record k) v) (butlast keys) (dget record (last keys))"

record evidence =
  ev_serial :: string
  ev_hostname :: string
  ev_short_hostname :: string
  ev_management_ip :: string
  ev_management_mac :: string
  ev_chassis_id :: string
  ev_site :: string
  ev_device_type :: string

definition normalized :: "dict \<Rightarrow> evidence" where
  "normalized record =
     \<lparr>ev_serial = normalize_serial (first_of record [''serial_number'', ''serial'']),
      ev_hostname = normalize_hostname (first_of record [''hostname'', ''display_name'']),
      ev_short_hostname = short_hostname (first_of record [''hostname'', ''display_name'']),
      ev_management_ip = normalize_ip (first_of record [''management_ip'', ''device_ip'', ''ip'']),
      ev_management_mac = normalize_mac (first_of record [''management_mac'', ''mac_address'', ''mac'']),
      ev_chassis_id = normalize_mac (first_of record [''chassis_mac'', ''chassis_id'']),
      ev_site = normalize_site (first_of record [''site_id'', ''site'']),
      ev_device_type = normalize_device_type
        (first_of record [''device_type'', ''device_role'', ''platform''])\<rparr>"

definition type_families :: "string list list" where
  "type_families = [[''switch'', ''router'', ''network-device''], [''access-point'', ''wireless''],
     [''firewall''], [''printer''], [''server''], [''storage'', ''nas''], [''ups'']]"

definition compatible_types :: "json \<Rightarrow> json \<Rightarrow> bool" where
  "compatible_types left right =
     (let l = normalize_device_type left; r = normalize_device_type right in
      l = [] \<or> r = [] \<or> l = r \<or> list_ex (\<lambda>fam. l \<in> set fam \<and> r \<in> set fam) type_families)"

section \<open>The canonical id\<close>

definition least :: "string list \<Rightarrow> string option" where
  "least xs = (case usort xs of [] \<Rightarrow> None | x # _ \<Rightarrow> Some x)"

definition nonempty :: "string list \<Rightarrow> string list" where
  "nonempty xs = filter (\<lambda>x. x \<noteq> []) xs"

definition source_asset_id :: "dict \<Rightarrow> string" where
  "source_asset_id record = text_of (first_of record [''source_asset_id'', ''asset_id''])"

definition first_some :: "(string \<times> string option) list \<Rightarrow> string option" where
  "first_some xs = foldr (\<lambda>(p, v) r. case v of Some x \<Rightarrow> Some (p @ x) | None \<Rightarrow> r) xs None"

definition pairs_with_site :: "(evidence \<Rightarrow> string) \<Rightarrow> evidence list \<Rightarrow> string list" where
  "pairs_with_site f vs = map (\<lambda>v. f v @ ''|'' @ ev_site v) (filter (\<lambda>v. f v \<noteq> [] \<and> ev_site v \<noteq> []) vs)"

definition identity_of :: "dict list \<Rightarrow> string option" where
  "identity_of records = (let vs = map normalized records in first_some
     [(''serial:'', least (nonempty (map ev_serial vs))),
      (''chassis_id:'', least (nonempty (map ev_chassis_id vs))),
      (''management_mac:'', least (nonempty (map ev_management_mac vs))),
      (''hostname-site:'', least (pairs_with_site ev_short_hostname vs)),
      (''ip-site:'', least (pairs_with_site ev_management_ip vs)),
      (''source:'', least (map source_asset_id records))])"

definition partition_of :: "dict \<Rightarrow> string" where
  "partition_of record = casefold (text_of (dget record ''deployment_id'')) @ ''|'' @
     casefold (text_of (first_of record [''customer_id'', ''customer'']))"

text \<open>The code is only called with at least one record; without one it raises \<open>IndexError\<close>.\<close>

definition canonical_id :: "(string \<Rightarrow> string) \<Rightarrow> dict list \<Rightarrow> string" where
  "canonical_id H records =
     ''asset:canonical:'' @ take 24 (H ((case least (map partition_of records) of None \<Rightarrow> ''|'' | Some p \<Rightarrow> p)
        @ ''|'' @ (case identity_of records of None \<Rightarrow> [] | Some i \<Rightarrow> i)))"

section \<open>Policy\<close>

definition SOURCE_PRIORITY :: "(string \<times> int) list" where
  "SOURCE_PRIORITY = [(''inventory'', 300), (''mist'', 200), (''fortigate'', 200), (''paloalto'', 200),
     (''papercut'', 200), (''snmp'', 100), (''discovery'', 100), (''legacy'', 50)]"

definition VENDOR_SOURCES :: "string list" where
  "VENDOR_SOURCES = [''mist'', ''fortigate'', ''paloalto'']"

definition priority_of :: "json \<Rightarrow> int" where
  "priority_of v = (case map_of SOURCE_PRIORITY (lower (text_of v)) of None \<Rightarrow> 0 | Some n \<Rightarrow> n)"

definition source_priority :: "json \<Rightarrow> json \<Rightarrow> int" where
  "source_priority source authority = max (priority_of source) (priority_of authority)"

definition required_roles :: "string list" where
  "required_roles = [''core'', ''core-switch'', ''distribution'', ''distribution-switch'']"

definition management_ip_required :: "dict \<Rightarrow> bool \<times> string" where
  "management_ip_required asset =
     (if dget asset ''lifecycle_state'' \<in> {JStr ''retired'', JStr ''archived''} \<or>
         dget asset ''managed'' = JBool False then
        (False, ''asset is retired, archived, or explicitly unmanaged'')
      else
       (let kind = normalize_device_type (first_of asset [''device_type'', ''device_role'', ''platform'']);
            role = replace_char (CHR ''_'') (CHR ''-'') (lower (text_of (dget asset ''device_role''))) in
        if kind = ''access-point'' \<and> (dget asset ''status'' = JStr ''offline'' \<or>
            \<not> truthy (dget asset ''last_seen_at'')) then
          (False, ''offline or never-seen access point'')
        else if kind \<in> {''firewall'', ''router''} \<or> (kind = ''switch'' \<and> role \<in> set required_roles) then
          (True, ''required by device policy'')
        else if kind \<in> {''server'', ''printer''} \<and> truthy (dget_or asset ''managed'' (JBool True)) then
          (True, ''required for managed device'')
        else (False, ''management address is optional for this device class'')))"

record infra_finding =
  if_type :: string
  if_canonical_id :: string
  if_severity :: string
  if_actionable :: bool
  if_suppressed :: bool
  if_message :: string
  if_explanation :: string

definition finding_id :: "(string \<Rightarrow> string) \<Rightarrow> infra_finding \<Rightarrow> string" where
  "finding_id H f = ''finding:'' @ take 20 (H (join ''|'' [if_type f, if_canonical_id f, if_message f]))"

definition finding_to_dict :: "(string \<Rightarrow> string) \<Rightarrow> infra_finding \<Rightarrow> dict" where
  "finding_to_dict H f =
     [(''id'', JStr (finding_id H f)), (''type'', JStr (if_type f)),
      (''canonical_id'', JStr (if_canonical_id f)), (''severity'', JStr (if_severity f)),
      (''actionable'', JBool (if_actionable f)), (''suppressed'', JBool (if_suppressed f)),
      (''message'', JStr (if_message f)), (''explanation'', JStr (if_explanation f))]"

definition critical_device :: "dict \<Rightarrow> bool" where
  "critical_device asset = (dget asset ''status'' = JStr ''offline'' \<and>
     (let t = join '' '' (map (\<lambda>k. lower (py_str (dget_or asset k (JStr []))))
        [''device_type'', ''device_role'', ''hostname'']) in
      list_ex (\<lambda>w. contains w t) [''firewall'', ''router'', ''core'']))"

definition infrastructure_health :: "dict list \<Rightarrow> bool \<Rightarrow> string option \<Rightarrow> string" where
  "infrastructure_health assets actionable_warnings wan_status =
     (if assets = [] then ''Unknown''
      else if list_ex critical_device assets \<or> wan_status = Some ''Offline'' then ''Critical''
      else if list_ex (\<lambda>a. dget a ''status'' = JStr ''offline'') assets \<or> actionable_warnings then ''Warning''
      else ''Healthy'')"

definition observability_health :: "dict list \<Rightarrow> bool \<Rightarrow> string" where
  "observability_health collectors has_state =
     (if collectors = [] then ''Unknown''
      else (let failed = list_ex (\<lambda>v. dget v ''status'' = JStr ''failed'') collectors;
                healthy = list_ex (\<lambda>v. dget v ''status'' = JStr ''healthy'') collectors in
        if \<not> has_state \<or> (failed \<and> \<not> healthy) then ''Critical''
        else if failed \<or> list_ex (\<lambda>v. dget v ''status'' \<noteq> JStr ''healthy'') collectors then ''Warning''
        else ''Healthy''))"

end
