(* ===== verification/Infrastructure_Fusion.thy ===== *)
theory Infrastructure_Fusion
  imports Infrastructure_Identity
begin

text \<open>
  \<open>analysis/infrastructure/fusion.py\<close>: matching of source records, the guarded union-find
  that clusters them, and the fusion of a cluster into one canonical asset.
\<close>

section \<open>Confidence\<close>

datatype confidence = Unmerged | Low | Medium | High | Exact

fun confidence_rank :: "confidence \<Rightarrow> nat" where
  "confidence_rank Unmerged = 0"
| "confidence_rank Low = 1"
| "confidence_rank Medium = 2"
| "confidence_rank High = 3"
| "confidence_rank Exact = 4"

lemma confidence_rank_inj: "confidence_rank a = confidence_rank b \<Longrightarrow> a = b"
  by (cases a; cases b) simp_all

instantiation confidence :: linorder
begin

definition less_eq_confidence :: "confidence \<Rightarrow> confidence \<Rightarrow> bool" where
  "less_eq_confidence a b = (confidence_rank a \<le> confidence_rank b)"

definition less_confidence :: "confidence \<Rightarrow> confidence \<Rightarrow> bool" where
  "less_confidence a b = (confidence_rank a < confidence_rank b)"

instance
  by standard
     (auto simp: less_eq_confidence_def less_confidence_def dest: confidence_rank_inj)

end

fun confidence_name :: "confidence \<Rightarrow> string" where
  "confidence_name Unmerged = ''unmerged''"
| "confidence_name Low = ''low''"
| "confidence_name Medium = ''medium''"
| "confidence_name High = ''high''"
| "confidence_name Exact = ''exact''"

section \<open>Matching two records\<close>

definition source_of :: "dict \<Rightarrow> string" where
  "source_of record = lower (py_str (por (first_of record [''source'', ''collector'']) (JStr ''unknown'')))"

definition site_alias :: "json \<Rightarrow> json \<Rightarrow> bool" where
  "site_alias left right = (let l = normalize_site left; r = normalize_site right in
     l \<noteq> [] \<and> r \<noteq> [] \<and> (l = r \<or> (CHR '' '' \<in> set l) \<noteq> (CHR '' '' \<in> set r)))"

definition same_text :: "(evidence \<Rightarrow> string) \<Rightarrow> evidence \<Rightarrow> evidence \<Rightarrow> bool" where
  "same_text f a b = (f a \<noteq> [] \<and> f a = f b)"

definition classify_match :: "dict \<Rightarrow> dict \<Rightarrow> confidence \<times> string list \<times> string" where
  "classify_match left right =
     (let a = normalized left; b = normalized right; sources = {source_of left, source_of right};
          hostname_match = same_text ev_short_hostname a b;
          ip_match = same_text ev_management_ip a b;
          hardware_match = same_text ev_serial a b \<or> same_text ev_chassis_id a b
            \<or> same_text ev_management_mac a b;
          by = (if hostname_match then ''hostname'' else if ip_match then ''management_ip'' else ''hardware'');
          site_match = same_text ev_site a b;
          near = site_match \<or> (''snmp'' \<in> sources \<and> sources \<inter> set VENDOR_SOURCES \<noteq> {} \<and>
            site_alias (dget left ''site_id'') (dget right ''site_id''));
          site_ev = (if site_match then ''site'' else ''collector_pair'')
      in if \<not> (hardware_match \<or> hostname_match \<or> ip_match) then (Unmerged, [], [])
         else if ev_serial a \<noteq> [] \<and> ev_serial b \<noteq> [] \<and> ev_serial a \<noteq> ev_serial b then
           (Low, [by], ''conflicting serial numbers'')
         else if \<not> compatible_types (JStr (ev_device_type a)) (JStr (ev_device_type b)) then
           (Low, [by], ''incompatible device types'')
         else if same_text ev_serial a b then (Exact, [''serial_number''], [])
         else if same_text ev_chassis_id a b then (Exact, [''chassis_id''], [])
         else if same_text ev_management_mac a b then (Exact, [''management_mac''], [])
         else if hostname_match \<and> near then (High, [''hostname'', site_ev], [])
         else if ip_match \<and> near then (Medium, [''management_ip'', site_ev], [])
         else if hostname_match \<or> ip_match then
           (Low, [if hostname_match then ''hostname'' else ''management_ip''],
            ''site identity is incompatible'')
         else (Unmerged, [], []))"

section \<open>Observations\<close>

text \<open>
  \<open>_observations\<close>: for each source identity the candidate of the highest priority and
  name wins; a tie keeps the first.
\<close>

type_synonym candidate = "(int \<times> string) \<times> dict"

fun choose_best :: "((string \<times> string) \<times> candidate) list \<Rightarrow> ((string \<times> string) \<times> candidate) list
    \<Rightarrow> ((string \<times> string) \<times> candidate) list" where
  "choose_best chosen [] = chosen"
| "choose_best chosen ((key, cand) # rest) = choose_best
     (case map_of chosen key of None \<Rightarrow> AList.update key cand chosen
      | Some old \<Rightarrow> if fst cand > fst old then AList.update key cand chosen else chosen) rest"

definition candidates_of :: "adapter_result \<Rightarrow> ((string \<times> string) \<times> candidate) list" where
  "candidates_of result = map (\<lambda>v. ((source_of v, source_asset_id v),
     ((ar_priority result, ar_name result), v))) (ar_assets result)"

definition observations :: "adapter_result list \<Rightarrow> dict list" where
  "observations results =
     map (\<lambda>(key, ((priority, authority), v)).
       dset (dset v ''_authority'' (JStr authority)) ''_priority'' (JInt priority))
     (sort_key fst (choose_best [] (concat (map candidates_of results))))"

section \<open>Union-find\<close>

text \<open>
  \<open>find\<close> halves the path while it climbs; \<open>parent[v] \<le> v\<close> throughout, so the index of
  the record bounds the number of steps.
\<close>

fun find_root :: "nat \<Rightarrow> nat list \<Rightarrow> nat \<Rightarrow> nat \<times> nat list" where
  "find_root 0 parent v = (v, parent)"
| "find_root (Suc fuel) parent v =
     (if parent ! v = v then (v, parent)
      else (let parent' = parent[v := parent ! (parent ! v)] in find_root fuel parent' (parent' ! v)))"

definition uf_find :: "nat list \<Rightarrow> nat \<Rightarrow> nat \<times> nat list" where
  "uf_find parent v = find_root (length parent) parent v"

text \<open>\<open>[index for index in range(count) if find(index) == root]\<close>, with its path halving.\<close>

fun members :: "nat list \<Rightarrow> nat \<Rightarrow> nat list \<Rightarrow> nat list \<times> nat list" where
  "members parent root [] = ([], parent)"
| "members parent root (i # is) =
     (let (r, parent') = uf_find parent i; (ms, parent'') = members parent' root is in
      (if r = root then i # ms else ms, parent''))"

definition serials :: "dict list \<Rightarrow> nat list \<Rightarrow> string set" where
  "serials records ms = set (nonempty (map (\<lambda>i. ev_serial (normalized (records ! i))) ms))"

definition types_clash :: "dict list \<Rightarrow> nat list \<Rightarrow> nat list \<Rightarrow> bool" where
  "types_clash records ls rs = list_ex (\<lambda>a. list_ex (\<lambda>b.
     \<not> compatible_types (JStr (ev_device_type (normalized (records ! a))))
        (JStr (ev_device_type (normalized (records ! b))))) rs) ls"

definition uf_union :: "dict list \<Rightarrow> nat list \<Rightarrow> nat \<Rightarrow> nat \<Rightarrow> bool \<times> nat list" where
  "uf_union records parent left right =
     (let (l, p1) = uf_find parent left; (r, p2) = uf_find p1 right in
      if l = r then (True, p2)
      else (let (ls, p3) = members p2 l [0..<length records]; (rs, p4) = members p3 r [0..<length records];
                sl = serials records ls; sr = serials records rs in
        if sl \<noteq> {} \<and> sr \<noteq> {} \<and> sl \<noteq> sr then (False, p4)
        else if types_clash records ls rs then (False, p4)
        else (True, p4[max l r := min l r])))"

record edge =
  eg_left :: nat
  eg_right :: nat
  eg_confidence :: confidence
  eg_matched :: "string list"

record low_candidate =
  lc_left :: dict
  lc_right :: dict
  lc_matched_on :: "string list"
  lc_reason :: string

record clustering =
  cl_parent :: "nat list"
  cl_edges :: "edge list"
  cl_low :: "low_candidate list"

definition consider_pair :: "dict list \<Rightarrow> clustering \<Rightarrow> nat \<times> nat \<Rightarrow> clustering" where
  "consider_pair records st = (\<lambda>(left, right).
     (let (conf, matched, reason) = classify_match (records ! left) (records ! right);
          low = (\<lambda>why. \<lparr>lc_left = records ! left, lc_right = records ! right,
            lc_matched_on = matched, lc_reason = why\<rparr>) in
      if conf \<ge> Medium then
        (let (ok, parent) = uf_union records (cl_parent st) left right in
         if ok then st\<lparr>cl_parent := parent, cl_edges := cl_edges st @
             [\<lparr>eg_left = left, eg_right = right, eg_confidence = conf, eg_matched = matched\<rparr>]\<rparr>
         else st\<lparr>cl_parent := parent, cl_low := cl_low st @ [low ''cluster identity conflict'']\<rparr>)
      else if conf = Low then st\<lparr>cl_low := cl_low st @ [low reason]\<rparr>
      else st))"

definition pairs_below :: "nat \<Rightarrow> (nat \<times> nat) list" where
  "pairs_below n = concat (map (\<lambda>l. map (Pair l) [Suc l..<n]) [0..<n])"

definition cluster :: "dict list \<Rightarrow> clustering" where
  "cluster records = foldl (consider_pair records)
     \<lparr>cl_parent = [0..<length records], cl_edges = [], cl_low = []\<rparr> (pairs_below (length records))"

text \<open>\<open>groups.setdefault(find(index), []).append(index)\<close>.\<close>

fun group_up :: "nat list \<Rightarrow> (nat \<times> nat list) list \<Rightarrow> nat list \<Rightarrow> (nat \<times> nat list) list" where
  "group_up parent groups [] = groups"
| "group_up parent groups (i # is) =
     (let (r, parent') = uf_find parent i;
          old = (case map_of groups r of None \<Rightarrow> [] | Some xs \<Rightarrow> xs) in
      group_up parent' (AList.update r (old @ [i]) groups) is)"

definition clusters_of :: "nat list \<Rightarrow> nat \<Rightarrow> nat list list" where
  "clusters_of parent n = map snd (group_up parent [] [0..<n])"

section \<open>Fusing a cluster\<close>

definition STATUS_FRESHNESS_SECONDS :: int where
  "STATUS_FRESHNESS_SECONDS = 300"

definition FUSION_FIELDS :: "string list" where
  "FUSION_FIELDS = [''hostname'', ''serial_number'', ''management_ip'', ''site'', ''site_id'',
     ''site_display_name'', ''device_type'', ''device_role'', ''vendor'', ''model'',
     ''firmware_version'', ''lifecycle_state'', ''managed'', ''deployment_id'', ''customer_id'',
     ''customer'', ''location'', ''last_seen_at'', ''extensions'']"

definition record_priority :: "dict \<Rightarrow> int" where
  "record_priority r = source_priority (JStr (source_of r)) (dget r ''_authority'')"

definition select_field :: "dict list \<Rightarrow> string \<Rightarrow> (json \<times> json) option" where
  "select_field records field =
     (case sort_key (\<lambda>r. (- record_priority r, source_of r, py_str (dget r field)))
        (filter (\<lambda>r. dget r field \<notin> {JNull, JStr [], JList []}) records) of
        [] \<Rightarrow> None
      | r # _ \<Rightarrow> Some (dget r field,
          JObj [(''source'', por (dget r ''_authority'') (JStr (source_of r))), (''value'', dget r field)]))"

text \<open>
  \<open>_observed\<close>: \<open>tz\<close> is the local zone's offset in microseconds, in which
  \<open>astimezone\<close> reads a naive timestamp.
\<close>

definition observed :: "int \<Rightarrow> dict \<Rightarrow> int option res" where
  "observed tz record =
     (case fromisoformat (replace_z (py_str (first_of record
          [''source_last_seen_at'', ''last_seen_at'', ''observed_at'']))) of
        None \<Rightarrow> Inr None
      | Some dt \<Rightarrow> map_sum id Some (to_utc dt tz))"

record conflict =
  cf_field :: string
  cf_values :: "string list"
  cf_sources :: "string list"
  cf_severity :: string
  cf_explanation :: string

definition conflict_of :: "string \<Rightarrow> string list \<Rightarrow> string list \<Rightarrow> string \<Rightarrow> string \<Rightarrow> conflict" where
  "conflict_of field values sources severity explanation =
     \<lparr>cf_field = field, cf_values = sort values, cf_sources = usort sources,
      cf_severity = severity, cf_explanation = explanation\<rparr>"

definition conflict_to_dict :: "conflict \<Rightarrow> dict" where
  "conflict_to_dict c = [(''field'', JStr (cf_field c)), (''values'', jstrs (cf_values c)),
     (''sources'', jstrs (cf_sources c)), (''severity'', JStr (cf_severity c)),
     (''explanation'', JStr (cf_explanation c)), (''resolution_status'', JStr ''selected_by_policy'')]"

definition status_key :: "dict \<Rightarrow> int \<times> int \<times> string" where
  "status_key r = (if source_of r \<in> set VENDOR_SOURCES then -1 else 0, - record_priority r, source_of r)"

definition fresh_records :: "int \<Rightarrow> (dict \<times> int option) list \<Rightarrow> dict list" where
  "fresh_records freshness seen =
     (case concat (map (\<lambda>(r, t). case t of None \<Rightarrow> [] | Some u \<Rightarrow> [u]) seen) of
        [] \<Rightarrow> map fst seen
      | t # ts \<Rightarrow> (let newest = foldl max t ts in
          map fst (filter (\<lambda>(r, t). case t of None \<Rightarrow> False
            | Some u \<Rightarrow> \<bar>newest - u\<bar> \<le> freshness * 1000000) seen)))"

definition online_word :: "bool \<Rightarrow> string" where
  "online_word b = (if b then ''online'' else ''offline'')"

definition status_of :: "int \<Rightarrow> int \<Rightarrow> dict list \<Rightarrow> (string \<times> json option \<times> conflict list) res" where
  "status_of tz freshness records =
     (let candidates = filter (\<lambda>r. dget r ''online'' \<noteq> JNull) records in
      if candidates = [] then Inr (''unknown'', None, [])
      else and_then (map_res (observed tz) candidates) (\<lambda>times.
        (let fresh = sort_key status_key (fresh_records freshness (zip candidates times));
             states = remdups (map (\<lambda>r. truthy (dget r ''online'')) fresh);
             state = online_word (truthy (dget (hd fresh) ''online'')) in
         Inr (state, Some (JObj [(''source'', JStr (source_of (hd fresh))), (''value'', JStr state)]),
           (if length states > 1 then
              [conflict_of ''status'' (map online_word states) (map source_of fresh) ''High''
                (''Fresh explicit states disagree within '' @ show_int freshness @ '' seconds.'')]
            else [])))))"

definition lower_text :: "json \<Rightarrow> string" where
  "lower_text v = lower (text_of v)"

definition conflict_checks :: "(string \<times> (json \<Rightarrow> string) \<times> string) list" where
  "conflict_checks =
     [(''serial_number'', normalize_serial, ''Critical''), (''management_ip'', normalize_ip, ''Medium''),
      (''deployment_id'', lower_text, ''Critical''), (''customer_id'', lower_text, ''Critical''),
      (''site_id'', lower_text, ''High''), (''site'', normalize_site, ''Medium''),
      (''device_type'', normalize_device_type, ''High''), (''vendor'', lower_text, ''Low''),
      (''model'', lower_text, ''Low'')]"

definition field_conflict :: "dict list \<Rightarrow> string \<times> (json \<Rightarrow> string) \<times> string \<Rightarrow> conflict list" where
  "field_conflict records = (\<lambda>(field, norm, severity).
     (let values = usort (nonempty (map (\<lambda>r. norm (dget r field)) records)) in
      if length values > 1 then
        [conflict_of field values (map source_of records) severity
          (''Non-empty '' @ replace_char (CHR ''_'') (CHR '' '') field @
           '' values disagree; precedence selected the canonical value.'')]
      else []))"

definition field_conflicts :: "dict list \<Rightarrow> conflict list" where
  "field_conflicts records = concat (map (field_conflict records) conflict_checks)"

fun source_rows :: "(string \<times> string) list \<Rightarrow> dict list \<Rightarrow> json list" where
  "source_rows seen [] = []"
| "source_rows seen (r # rs) = (let key = (source_of r, source_asset_id r) in
     if key \<in> set seen then source_rows seen rs
     else JObj [(''source'', JStr (fst key)), (''source_asset_id'', JStr (snd key)),
        (''observed_at'', first_of r [''source_last_seen_at'', ''last_seen_at'']),
        (''site_value'', dget r ''_site_source_value'')] # source_rows (key # seen) rs)"

definition mac_addresses :: "dict list \<Rightarrow> string list" where
  "mac_addresses records = usort (nonempty (concat (map (\<lambda>r.
     map (\<lambda>k. normalize_mac (dget r k)) [''mac_address'', ''management_mac'', ''chassis_mac'']) records)))"

definition online_of :: "string \<Rightarrow> json" where
  "online_of status = (if status = ''online'' then JBool True
     else if status = ''offline'' then JBool False else JNull)"

definition chosen_field :: "dict list \<Rightarrow> string \<Rightarrow> string \<times> (json \<times> json) option" where
  "chosen_field records f = (f, select_field records f)"

definition fuse_group :: "(string \<Rightarrow> string) \<Rightarrow> int \<Rightarrow> int \<Rightarrow> dict list \<Rightarrow> confidence \<Rightarrow> string list
    \<Rightarrow> (dict \<times> nat) res" where
  "fuse_group H tz freshness records confidence matched_on =
     and_then (status_of tz freshness records) (\<lambda>(status, status_provenance, status_conflicts).
     (let chosen = map (chosen_field records) FUSION_FIELDS;
          selected = map (\<lambda>(f, s). (f, case s of None \<Rightarrow> JNull | Some (v, _) \<Rightarrow> v)) chosen;
          provenance = concat (map (\<lambda>(f, s). case s of None \<Rightarrow> [] | Some (_, p) \<Rightarrow> [(f, p)]) chosen) @
            (case status_provenance of None \<Rightarrow> [] | Some p \<Rightarrow> [(''status'', p)]);
          cid = canonical_id H records; sources = usort (map source_of records);
          conflicts = sort_key (\<lambda>c. (cf_field c, cf_severity c)) (status_conflicts @ field_conflicts records);
          name = (case sources of [s] \<Rightarrow> s | _ \<Rightarrow> ''multi-source'');
          result = selected @
            [(''canonical_id'', JStr cid), (''asset_id'', JStr cid),
             (''mac_addresses'', jstrs (mac_addresses records)), (''sources'', jstrs sources),
             (''source_records'', JList (source_rows []
                (sort_key (\<lambda>r. (source_of r, source_asset_id r)) records))),
             (''status'', JStr status), (''online'', online_of status),
             (''field_provenance'', JObj provenance),
             (''merge'', JObj [(''confidence'', JStr (confidence_name confidence)),
                (''matched_on'', jstrs matched_on),
                (''conflicts'', JList (map (\<lambda>c. JObj (conflict_to_dict c)) conflicts))]),
             (''collector'', JStr name), (''source'', JStr name)]
      in Inr (filter (\<lambda>(k, v). v \<noteq> JNull) result, length conflicts)))"

section \<open>The engine\<close>

definition group_edges :: "edge list \<Rightarrow> nat list \<Rightarrow> edge list" where
  "group_edges edges is = filter (\<lambda>e. eg_left e \<in> set is \<and> eg_right e \<in> set is) edges"

definition group_confidence :: "edge list \<Rightarrow> confidence" where
  "group_confidence edges = foldl max Unmerged (map eg_confidence edges)"

record fusion_statistics =
  fs_source_records :: int
  fs_canonical_assets :: int
  fs_records_fused :: int
  fs_exact_matches :: int
  fs_high_confidence_matches :: int
  fs_medium_confidence_matches :: int
  fs_low_confidence_candidates :: int
  fs_conflicts :: int

definition count_confidence :: "confidence \<Rightarrow> confidence list \<Rightarrow> int" where
  "count_confidence c cs = int (length (filter (\<lambda>x. x = c) cs))"

definition fuse_members :: "(string \<Rightarrow> string) \<Rightarrow> int \<Rightarrow> int \<Rightarrow> dict list \<Rightarrow> edge list \<Rightarrow> nat list
    \<Rightarrow> (dict \<times> nat) res" where
  "fuse_members H tz freshness records edges is = (let ges = group_edges edges is in
     fuse_group H tz freshness (map (\<lambda>i. records ! i) is) (group_confidence ges)
       (usort (concat (map eg_matched ges))))"

definition fuse :: "(string \<Rightarrow> string) \<Rightarrow> int \<Rightarrow> int \<Rightarrow> adapter_result list
    \<Rightarrow> (dict list \<times> fusion_statistics \<times> low_candidate list) res" where
  "fuse H tz freshness results =
     (let records = observations results; st = cluster records;
          groups = clusters_of (cl_parent st) (length records);
          confs = map (\<lambda>is. group_confidence (group_edges (cl_edges st) is)) groups in
      and_then (map_res (fuse_members H tz freshness records (cl_edges st)) groups) (\<lambda>fused.
      Inr (sort_key (\<lambda>a. py_str (dget a ''canonical_id'')) (map fst fused),
        \<lparr>fs_source_records = int (length records), fs_canonical_assets = int (length groups),
         fs_records_fused = int (length records) - int (length groups),
         fs_exact_matches = count_confidence Exact confs,
         fs_high_confidence_matches = count_confidence High confs,
         fs_medium_confidence_matches = count_confidence Medium confs,
         fs_low_confidence_candidates = int (length (cl_low st)),
         fs_conflicts = int (sum_list (map snd fused))\<rparr>, cl_low st)))"

end
