(* ===== verification/Infrastructure_Properties.thy ===== *)
theory Infrastructure_Properties
  imports Infrastructure_Fusion
begin

text \<open>
  What identity fusion promises: path halving never changes a cluster, no cluster mixes
  conflicting serial numbers or incompatible device types, every usable match is honoured or
  reported, the clusters partition the records, and identities do not depend on their order.
\<close>

section \<open>Representatives\<close>

definition uf_inv :: "nat list \<Rightarrow> bool" where
  "uf_inv p = (\<forall>v < length p. p ! v \<le> v)"

lemma uf_inv_le: "uf_inv p \<Longrightarrow> v < length p \<Longrightarrow> p ! v \<le> v"
  by (simp add: uf_inv_def)

lemma uf_inv_le2: "uf_inv p \<Longrightarrow> v < length p \<Longrightarrow> p ! (p ! v) \<le> p ! v"
  using uf_inv_le [of p v] by (intro uf_inv_le) simp_all

function rep :: "nat list \<Rightarrow> nat \<Rightarrow> nat" where
  "rep p v = (if p ! v < v then rep p (p ! v) else v)"
  by pat_completeness auto
termination
  by (relation "measure snd") auto

declare rep.simps [simp del]

lemma rep_le: "rep p v \<le> v"
proof (induction p v rule: rep.induct)
  case (1 p v)
  then show ?case by (subst rep.simps) auto
qed

lemma rep_root: "uf_inv p \<Longrightarrow> v < length p \<Longrightarrow> p ! rep p v = rep p v"
proof (induction p v rule: rep.induct)
  case (1 p v)
  show ?case
  proof (cases "p ! v < v")
    case True
    with 1 show ?thesis by (subst (1 2) rep.simps) simp
  next
    case False
    with 1(2,3) have "p ! v = v" by (auto simp: uf_inv_def intro: antisym)
    then show ?thesis by (subst (1 2) rep.simps) simp
  qed
qed

lemma rep_of_root: "p ! v = v \<Longrightarrow> rep p v = v"
  by (subst rep.simps) simp

lemma rep_rep: "uf_inv p \<Longrightarrow> v < length p \<Longrightarrow> rep p (rep p v) = rep p v"
  by (rule rep_of_root) (rule rep_root)

lemma rep_less: "v < length p \<Longrightarrow> rep p v < length p"
  using rep_le [of p v] by simp

lemma rep_parent: "uf_inv p \<Longrightarrow> v < length p \<Longrightarrow> rep p (p ! v) = rep p v"
  using uf_inv_le [of p v] by (cases "p ! v < v") (simp_all add: rep.simps [of p v] order.order_iff_strict)

text \<open>Two forests with the same representatives.\<close>

definition same_reps :: "nat list \<Rightarrow> nat list \<Rightarrow> bool" where
  "same_reps p q = (length q = length p \<and> uf_inv q \<and> (\<forall>u < length p. rep q u = rep p u))"

lemma same_reps_refl: "uf_inv p \<Longrightarrow> same_reps p p"
  by (simp add: same_reps_def)

lemma same_reps_trans: "same_reps p q \<Longrightarrow> same_reps q r \<Longrightarrow> same_reps p r"
  by (simp add: same_reps_def)

lemma halve:
  assumes inv: "uf_inv p" and v: "v < length p"
  shows "same_reps p (p[v := p ! (p ! v)])"
proof -
  let ?q = "p[v := p ! (p ! v)]"
  have le: "p ! v \<le> v" "p ! (p ! v) \<le> p ! v" using inv v by (simp_all add: uf_inv_le uf_inv_le2)
  have q: "uf_inv ?q"
    using inv v order_trans [OF le(2,1)] by (auto simp: uf_inv_def nth_list_update)
  have "rep ?q u = rep p u" if "u < length p" for u
    using that
  proof (induction u rule: less_induct)
    case (less u)
    show ?case
    proof (cases "u = v")
      case False
      then have "?q ! u = p ! u" by simp
      then show ?thesis
        using less by (cases "p ! u < u") (simp_all add: rep.simps [of _ u])
    next
      case True
      have g: "?q ! v = p ! (p ! v)" using v by simp
      show ?thesis
      proof (cases "p ! v < v")
        case False
        with le have "p ! v = v" by simp
        then show ?thesis using True g by (simp add: rep_of_root)
      next
        case True
        then have "rep ?q v = rep ?q (p ! (p ! v))" using le g by (simp add: rep.simps [of ?q v])
        also have "\<dots> = rep p (p ! (p ! v))"
          using less.IH [of "p ! (p ! v)"] le True \<open>u = v\<close> v by simp
        also have "\<dots> = rep p v" using rep_parent [OF inv, of "p ! v"] rep_parent [OF inv v] le v by simp
        finally show ?thesis using \<open>u = v\<close> by simp
      qed
    qed
  qed
  with q show ?thesis by (simp add: same_reps_def)
qed

lemma find_root_rep:
  "uf_inv p \<Longrightarrow> v < length p \<Longrightarrow> v \<le> fuel \<Longrightarrow>
   fst (find_root fuel p v) = rep p v \<and> same_reps p (snd (find_root fuel p v))"
proof (induction fuel arbitrary: p v)
  case 0
  then have "p ! v = v" using uf_inv_le [of p v] by simp
  then show ?case using 0 by (simp add: rep_of_root same_reps_refl)
next
  case (Suc fuel)
  note inv = Suc.prems(1) and v = Suc.prems(2)
  show ?case
  proof (cases "p ! v = v")
    case True
    then show ?thesis using inv by (simp add: rep_of_root same_reps_refl)
  next
    case False
    define q where "q = p[v := p ! (p ! v)]"
    have h: "same_reps p q" unfolding q_def by (rule halve [OF inv v])
    have qv: "q ! v = p ! (p ! v)" using v by (simp add: q_def)
    have lt: "q ! v < v" using uf_inv_le [OF inv v] uf_inv_le2 [OF inv v] False by (simp add: qv)
    have len: "length q = length p" and qinv: "uf_inv q" using h by (simp_all add: same_reps_def)
    have IH: "fst (find_root fuel q (q ! v)) = rep q (q ! v) \<and> same_reps q (snd (find_root fuel q (q ! v)))"
      using lt v Suc.prems(3) len qinv by (intro Suc.IH) simp_all
    have "rep q (q ! v) = rep p v"
      using rep_parent [OF qinv, of v] h v len by (simp add: same_reps_def)
    moreover have "find_root (Suc fuel) p v = find_root fuel q (q ! v)"
      using False by (simp add: q_def Let_def)
    ultimately show ?thesis using IH same_reps_trans [OF h] by simp
  qed
qed

lemma uf_find_rep:
  assumes "uf_inv p" and "v < length p"
  obtains q where "uf_find p v = (rep p v, q)" and "same_reps p q"
  using find_root_rep [OF assms, of "length p"] assms(2)
  by (cases "uf_find p v") (auto simp: uf_find_def)

lemma members_rep:
  "uf_inv p \<Longrightarrow> \<forall>i \<in> set is. i < length p \<Longrightarrow>
   fst (members p r is) = filter (\<lambda>i. rep p i = r) is \<and> same_reps p (snd (members p r is))"
proof (induction "is" arbitrary: p)
  case (Cons i "is")
  from Cons.prems obtain q where q: "uf_find p i = (rep p i, q)" "same_reps p q"
    by (auto elim: uf_find_rep)
  have "fst (members q r is) = filter (\<lambda>i. rep q i = r) is \<and> same_reps q (snd (members q r is))"
    using q(2) Cons.prems by (intro Cons.IH) (auto simp: same_reps_def)
  moreover have "filter (\<lambda>i. rep q i = r) is = filter (\<lambda>i. rep p i = r) is"
    using q(2) Cons.prems by (intro filter_cong) (auto simp: same_reps_def)
  ultimately show ?case
    using q by (auto simp: split_beta Let_def intro: same_reps_trans)
qed (simp add: same_reps_refl)

lemma link:
  assumes inv: "uf_inv p" and ab: "a < b" "b < length p" and root: "p ! a = a" "p ! b = b"
  shows "uf_inv (p[b := a])" and "u < length p \<Longrightarrow> rep (p[b := a]) u = (if rep p u = b then a else rep p u)"
proof -
  let ?q = "p[b := a]"
  show "uf_inv ?q" using inv ab by (auto simp: uf_inv_def nth_list_update)
  have a: "rep ?q a = a" using ab root by (intro rep_of_root) simp
  show "rep ?q u = (if rep p u = b then a else rep p u)" if "u < length p"
    using that
  proof (induction u rule: less_induct)
    case (less u)
    show ?case
    proof (cases "u = b")
      case True
      then show ?thesis using ab a root by (simp add: rep.simps [of ?q b] rep_of_root)
    next
      case False
      then have "?q ! u = p ! u" by simp
      then show ?thesis
        using less False by (cases "p ! u < u") (simp_all add: rep.simps [of _ u])
    qed
  qed
qed

section \<open>The clustering invariant\<close>

definition no_clash :: "dict \<Rightarrow> dict \<Rightarrow> bool" where
  "no_clash a b = ((ev_serial (normalized a) = [] \<or> ev_serial (normalized b) = [] \<or>
       ev_serial (normalized a) = ev_serial (normalized b)) \<and>
     compatible_types (JStr (ev_device_type (normalized a))) (JStr (ev_device_type (normalized b))))"

lemma compatible_types_refl [simp]: "compatible_types v v"
  by (simp add: compatible_types_def Let_def)

lemma compatible_types_sym: "compatible_types a b = compatible_types b a"
  by (auto simp: compatible_types_def Let_def list_ex_iff)

lemma no_clash_refl [simp]: "no_clash a a"
  by (simp add: no_clash_def)

lemma no_clash_sym: "no_clash a b = no_clash b a"
  using compatible_types_sym by (auto simp: no_clash_def)

definition clusters_ok :: "dict list \<Rightarrow> nat list \<Rightarrow> bool" where
  "clusters_ok records p = (uf_inv p \<and> length p = length records \<and>
     (\<forall>i < length p. \<forall>j < length p. rep p i = rep p j \<longrightarrow> no_clash (records ! i) (records ! j)))"

lemma clusters_ok_same: "clusters_ok records p \<Longrightarrow> same_reps p q \<Longrightarrow> clusters_ok records q"
  by (auto simp: clusters_ok_def same_reps_def)

lemma serials_mem: "s \<in> serials records ms \<longleftrightarrow> s \<noteq> [] \<and> (\<exists>i \<in> set ms. s = ev_serial (normalized (records ! i)))"
  by (auto simp: serials_def nonempty_def)

lemma cross_no_clash:
  assumes ok: "clusters_ok records p" and i: "i < length p" "rep p i = l" and j: "j < length p" "rep p j = r"
    and ls: "ls = filter (\<lambda>i. rep p i = l) [0..<length records]"
    and rs: "rs = filter (\<lambda>i. rep p i = r) [0..<length records]"
    and ser: "\<not> (serials records ls \<noteq> {} \<and> serials records rs \<noteq> {} \<and> serials records ls \<noteq> serials records rs)"
    and types: "\<not> types_clash records ls rs"
  shows "no_clash (records ! i) (records ! j)"
proof -
  have len: "length p = length records" using ok by (simp add: clusters_ok_def)
  have mem: "i \<in> set ls" "j \<in> set rs" using i j len by (simp_all add: ls rs)
  have "compatible_types (JStr (ev_device_type (normalized (records ! i))))
      (JStr (ev_device_type (normalized (records ! j))))"
    using types mem by (auto simp: types_clash_def list_ex_iff)
  moreover have "ev_serial (normalized (records ! i)) = [] \<or> ev_serial (normalized (records ! j)) = [] \<or>
      ev_serial (normalized (records ! i)) = ev_serial (normalized (records ! j))"
  proof (rule ccontr)
    let ?si = "ev_serial (normalized (records ! i))" and ?sj = "ev_serial (normalized (records ! j))"
    assume c: "\<not> (?si = [] \<or> ?sj = [] \<or> ?si = ?sj)"
    with mem have "?si \<in> serials records ls" "?sj \<in> serials records rs" by (auto simp: serials_mem)
    with ser have "?sj \<in> serials records ls" by blast
    then obtain k where k: "k \<in> set ls" "?sj = ev_serial (normalized (records ! k))"
      by (auto simp: serials_mem)
    with ls i len have "k < length p" "rep p k = rep p i" by simp_all
    with ok i have "no_clash (records ! i) (records ! k)" by (simp add: clusters_ok_def)
    with c k(2) show False by (auto simp: no_clash_def)
  qed
  ultimately show ?thesis by (simp add: no_clash_def)
qed

text \<open>A later clustering only joins clusters and only adds candidates.\<close>

definition joins :: "nat list \<Rightarrow> nat list \<Rightarrow> bool" where
  "joins p q = (\<forall>i < length p. \<forall>j < length p. rep p i = rep p j \<longrightarrow> rep q i = rep q j)"

lemma joinsD: "joins p q \<Longrightarrow> i < length p \<Longrightarrow> j < length p \<Longrightarrow> rep p i = rep p j \<Longrightarrow> rep q i = rep q j"
  unfolding joins_def by blast

lemma joins_refl [simp]: "joins p p"
  unfolding joins_def by blast

lemma joins_trans: "joins p q \<Longrightarrow> joins q r \<Longrightarrow> length p = length q \<Longrightarrow> joins p r"
  unfolding joins_def by metis

lemma same_reps_joins: "same_reps p q \<Longrightarrow> joins p q"
  by (simp add: same_reps_def joins_def)

lemma uf_union_cases:
  assumes ok: "clusters_ok records p" and l: "left < length p" and r: "right < length p"
    and res: "uf_union records p left right = (b, q)"
  shows "clusters_ok records q \<and> joins p q \<and> (b \<longrightarrow> rep q left = rep q right)"
proof -
  have inv: "uf_inv p" and len: "length p = length records" using ok by (simp_all add: clusters_ok_def)
  obtain p1 where 1: "uf_find p left = (rep p left, p1)" "same_reps p p1"
    using uf_find_rep [OF inv l] by blast
  then have r1: "uf_inv p1" "right < length p1" using r by (simp_all add: same_reps_def)
  obtain p2 where 2: "uf_find p1 right = (rep p1 right, p2)" "same_reps p1 p2"
    using uf_find_rep [OF r1] by blast
  have s2: "same_reps p p2" by (rule same_reps_trans [OF 1(2) 2(2)])
  have rr: "rep p1 right = rep p right" using 1(2) r by (simp add: same_reps_def)
  show ?thesis
  proof (cases "rep p left = rep p right")
    case True
    with res 1 2 rr have "q = p2" "b" by (simp_all add: uf_union_def)
    then show ?thesis
      using clusters_ok_same [OF ok s2] same_reps_joins [OF s2] joinsD [OF same_reps_joins [OF s2] l r True] by simp
  next
    case False
    let ?idx = "[0..<length records]"
    have ok2: "clusters_ok records p2" by (rule clusters_ok_same [OF ok s2])
    then have inv2: "uf_inv p2" "length p2 = length records" by (simp_all add: clusters_ok_def)
    obtain ls p3 where 3: "members p2 (rep p left) ?idx = (ls, p3)" by fastforce
    with members_rep [OF inv2(1), of ?idx "rep p left"] inv2(2)
    have ls: "ls = filter (\<lambda>i. rep p2 i = rep p left) ?idx" "same_reps p2 p3" by simp_all
    have inv3: "uf_inv p3" "length p3 = length records" using ls(2) inv2 by (simp_all add: same_reps_def)
    obtain rs p4 where 4: "members p3 (rep p right) ?idx = (rs, p4)" by fastforce
    with members_rep [OF inv3(1), of ?idx "rep p right"] inv3(2)
    have rs: "rs = filter (\<lambda>i. rep p3 i = rep p right) ?idx" "same_reps p3 p4" by simp_all
    have s24: "same_reps p2 p4" by (rule same_reps_trans [OF ls(2) rs(2)])
    have s4: "same_reps p p4" by (rule same_reps_trans [OF s2 s24])
    have ls': "ls = filter (\<lambda>i. rep p i = rep p left) ?idx"
      unfolding ls(1) using s2 len by (intro filter_cong) (auto simp: same_reps_def)
    have rs': "rs = filter (\<lambda>i. rep p i = rep p right) ?idx"
      unfolding rs(1) using same_reps_trans [OF s2 ls(2)] len by (intro filter_cong) (auto simp: same_reps_def)
    define c1 c2 where "c1 = (serials records ls \<noteq> {} \<and> serials records rs \<noteq> {} \<and>
        serials records ls \<noteq> serials records rs)" and "c2 = types_clash records ls rs"
    have "uf_union records p left right = (if c1 then (False, p4) else if c2 then (False, p4)
        else (True, p4[max (rep p left) (rep p right) := min (rep p left) (rep p right)]))"
      unfolding c1_def c2_def by (simp add: uf_union_def 1 2 3 4 rr False Let_def)
    with res have bq: "(b, q) = (if c1 then (False, p4) else if c2 then (False, p4)
        else (True, p4[max (rep p left) (rep p right) := min (rep p left) (rep p right)]))" by simp
    show ?thesis
    proof (cases "c1 \<or> c2")
      case True
      with bq have "q = p4" "\<not> b" by (auto split: if_splits)
      then show ?thesis using clusters_ok_same [OF ok s4] same_reps_joins [OF s4] by simp
    next
      case ok_merge: False
      let ?a = "min (rep p left) (rep p right)" and ?b = "max (rep p left) (rep p right)"
      have q: "q = p4[?b := ?a]" "b" using bq ok_merge by simp_all
      have reps: "rep p4 u = rep p u" if "u < length p" for u using s4 that by (simp add: same_reps_def)
      have inv4: "uf_inv p4" and len4: "length p4 = length p" using s4 by (simp_all add: same_reps_def)
      have root: "p4 ! rep p u = rep p u" if "u < length p" for u
        using rep_root [OF inv4, of u] reps [OF that] len4 that by simp
      have ab: "?a < ?b" "?b < length p4" using False l r len4 rep_less by (auto simp: min_def max_def)
      have rt: "p4 ! ?a = ?a" "p4 ! ?b = ?b" using root l r by (auto simp: min_def max_def)
      note lk = link [OF inv4 ab rt]
      have repq: "rep q u = (if rep p u = ?b then ?a else rep p u)" if "u < length p" for u
        using lk(2) [of u] that reps len4 by (simp add: q(1))
      have cross: "no_clash (records ! i) (records ! j)"
        if "i < length p" "rep p i = rep p left" "j < length p" "rep p j = rep p right" for i j
        by (rule cross_no_clash [OF ok that ls' rs'])
           (use ok_merge [unfolded c1_def c2_def] in \<open>simp_all only: de_Morgan_disj simp_thms\<close>)
      have "no_clash (records ! i) (records ! j)"
        if i: "i < length p" and j: "j < length p" and e: "rep q i = rep q j" for i j
      proof (cases "rep p i = rep p j")
        case True
        with ok i j show ?thesis by (simp add: clusters_ok_def)
      next
        case False
        with e repq [OF i] repq [OF j] have
          "(rep p i = rep p left \<and> rep p j = rep p right) \<or> (rep p i = rep p right \<and> rep p j = rep p left)"
          by (auto simp: min_def max_def split: if_splits)
        then show ?thesis using cross i j no_clash_sym by blast
      qed
      then have "clusters_ok records q"
        using lk(1) len len4 by (simp add: clusters_ok_def q(1))
      moreover have "rep q left = rep q right"
        using repq [OF l] repq [OF r] by (auto simp: min_def max_def)
      moreover have "joins p q" by (simp add: joins_def repq)
      ultimately show ?thesis using q(2) by simp
    qed
  qed
qed

definition reported :: "dict list \<Rightarrow> low_candidate list \<Rightarrow> nat \<Rightarrow> nat \<Rightarrow> bool" where
  "reported records low l r = (\<exists>c \<in> set low. lc_left c = records ! l \<and> lc_right c = records ! r)"

definition handled :: "dict list \<Rightarrow> clustering \<Rightarrow> nat \<times> nat \<Rightarrow> bool" where
  "handled records st = (\<lambda>(l, r).
     (fst (classify_match (records ! l) (records ! r)) = Low \<longrightarrow> reported records (cl_low st) l r) \<and>
     (fst (classify_match (records ! l) (records ! r)) \<ge> Medium \<longrightarrow>
        rep (cl_parent st) l = rep (cl_parent st) r \<or> reported records (cl_low st) l r))"

lemma reported_append: "reported records low l r \<Longrightarrow> reported records (low @ rest) l r"
  by (auto simp: reported_def)

definition coarser :: "clustering \<Rightarrow> clustering \<Rightarrow> bool" where
  "coarser st st' = (set (cl_low st) \<subseteq> set (cl_low st') \<and> joins (cl_parent st) (cl_parent st'))"

lemma reported_mono: "reported records low l r \<Longrightarrow> set low \<subseteq> set low' \<Longrightarrow> reported records low' l r"
  unfolding reported_def by blast

lemma handled_coarser:
  "handled records st (l, r) \<Longrightarrow> coarser st st' \<Longrightarrow> l < length (cl_parent st) \<Longrightarrow> r < length (cl_parent st) \<Longrightarrow>
   handled records st' (l, r)"
  unfolding handled_def coarser_def prod.case using reported_mono joinsD by blast

lemma not_low_medium: "(c::confidence) \<ge> Medium \<Longrightarrow> c \<noteq> Low"
  by (auto simp: less_eq_confidence_def)

lemma consider_pair_ok:
  assumes ok: "clusters_ok records (cl_parent st)" and l: "l < length records" and r: "r < length records"
  shows "clusters_ok records (cl_parent (consider_pair records st (l, r))) \<and>
    coarser st (consider_pair records st (l, r)) \<and> handled records (consider_pair records st (l, r)) (l, r)"
proof -
  obtain conf matched reason where m: "classify_match (records ! l) (records ! r) = (conf, matched, reason)"
    by (metis prod_cases3)
  have lr: "l < length (cl_parent st)" "r < length (cl_parent st)"
    using ok l r by (simp_all add: clusters_ok_def)
  show ?thesis
  proof (cases "conf \<ge> Medium")
    case True
    obtain b q where u: "uf_union records (cl_parent st) l r = (b, q)" by fastforce
    note c = uf_union_cases [OF ok lr u]
    let ?c = "\<lparr>lc_left = records ! l, lc_right = records ! r, lc_matched_on = matched,
      lc_reason = ''cluster identity conflict''\<rparr>"
    have "consider_pair records st (l, r) = (if b
        then st\<lparr>cl_parent := q, cl_edges := cl_edges st @ [\<lparr>eg_left = l, eg_right = r, eg_confidence = conf, eg_matched = matched\<rparr>]\<rparr>
        else st\<lparr>cl_parent := q, cl_low := cl_low st @ [?c]\<rparr>)"
      using True by (simp add: consider_pair_def m u Let_def)
    moreover have "reported records (cl_low st @ [?c]) l r" by (simp add: reported_def)
    ultimately show ?thesis
      using c not_low_medium [OF True] by (cases b) (auto simp: coarser_def handled_def m)
  next
    case False
    let ?c = "\<lparr>lc_left = records ! l, lc_right = records ! r, lc_matched_on = matched, lc_reason = reason\<rparr>"
    have "consider_pair records st (l, r) = (if conf = Low then st\<lparr>cl_low := cl_low st @ [?c]\<rparr> else st)"
      using False by (simp add: consider_pair_def m Let_def)
    moreover have "reported records (cl_low st @ [?c]) l r" by (simp add: reported_def)
    ultimately show ?thesis
      using ok False by (cases "conf = Low") (auto simp: coarser_def handled_def m)
  qed
qed

lemma coarser_refl: "coarser st st"
  by (simp add: coarser_def)

lemma coarser_trans:
  "coarser a b \<Longrightarrow> coarser b c \<Longrightarrow> length (cl_parent a) = length (cl_parent b) \<Longrightarrow> coarser a c"
  unfolding coarser_def using joins_trans by blast

lemma consider_pairs_ok:
  "clusters_ok records (cl_parent st) \<Longrightarrow> \<forall>(l, r) \<in> set ps. l < length records \<and> r < length records \<Longrightarrow>
   clusters_ok records (cl_parent (foldl (consider_pair records) st ps)) \<and>
   coarser st (foldl (consider_pair records) st ps) \<and>
   (\<forall>pr \<in> set ps. handled records (foldl (consider_pair records) st ps) pr)"
proof (induction ps arbitrary: st)
  case (Cons pr ps)
  obtain l r where pr: "pr = (l, r)" by (cases pr)
  from Cons.prems(2) have lr: "l < length records" "r < length records" by (auto simp: pr)
  let ?st = "consider_pair records st (l, r)"
  note one = consider_pair_ok [OF Cons.prems(1) lr]
  have IH: "clusters_ok records (cl_parent (foldl (consider_pair records) ?st ps)) \<and>
     coarser ?st (foldl (consider_pair records) ?st ps) \<and>
     (\<forall>pr \<in> set ps. handled records (foldl (consider_pair records) ?st ps) pr)"
    using one Cons.prems(2) by (intro Cons.IH) auto
  have len: "length (cl_parent st) = length (cl_parent ?st)" "length (cl_parent ?st) = length records"
    using one Cons.prems(1) by (simp_all add: clusters_ok_def)
  have "handled records (foldl (consider_pair records) ?st ps) (l, r)"
    using handled_coarser [of records ?st l r] one IH lr len by simp
  then show ?case
    using IH coarser_trans [of st ?st] one len by (simp add: pr)
qed (simp add: coarser_refl)

lemma uf_inv_init: "uf_inv [0..<n]"
  by (simp add: uf_inv_def)

lemma clusters_ok_init: "clusters_ok records [0..<length records]"
  by (auto simp: clusters_ok_def uf_inv_init rep_of_root)

lemma pairs_below_mem: "(l, r) \<in> set (pairs_below n) \<longleftrightarrow> l < r \<and> r < n"
  by (auto simp: pairs_below_def intro!: bexI [of _ l])

lemma cluster_ok:
  "clusters_ok records (cl_parent (cluster records)) \<and>
   (\<forall>l r. l < r \<and> r < length records \<longrightarrow> handled records (cluster records) (l, r))"
proof -
  have "\<forall>(l, r) \<in> set (pairs_below (length records)). l < length records \<and> r < length records"
    by (auto simp: pairs_below_mem)
  from consider_pairs_ok [OF _ this, of "\<lparr>cl_parent = [0..<length records], cl_edges = [], cl_low = []\<rparr>"]
  show ?thesis by (simp add: cluster_def clusters_ok_init pairs_below_mem)
qed

section \<open>Groups\<close>

lemma group_up_map:
  "uf_inv p \<Longrightarrow> \<forall>i \<in> set is. i < length p \<Longrightarrow> distinct (map fst gs) \<Longrightarrow>
   distinct (map fst (group_up p gs is)) \<and>
   (\<forall>r. map_of (group_up p gs is) r =
     (case map_of gs r of
        None \<Rightarrow> (if filter (\<lambda>i. rep p i = r) is = [] then None else Some (filter (\<lambda>i. rep p i = r) is))
      | Some xs \<Rightarrow> Some (xs @ filter (\<lambda>i. rep p i = r) is)))"
proof (induction "is" arbitrary: p gs)
  case (Cons i "is")
  from Cons.prems obtain q where q: "uf_find p i = (rep p i, q)" "same_reps p q"
    by (auto elim: uf_find_rep)
  let ?gs = "AList.update (rep p i) ((case map_of gs (rep p i) of None \<Rightarrow> [] | Some xs \<Rightarrow> xs) @ [i]) gs"
  have eq: "filter (\<lambda>i. rep q i = r) is = filter (\<lambda>i. rep p i = r) is" for r
    using q(2) Cons.prems by (intro filter_cong) (auto simp: same_reps_def)
  have IH: "distinct (map fst (group_up q ?gs is)) \<and>
   (\<forall>r. map_of (group_up q ?gs is) r =
     (case map_of ?gs r of
        None \<Rightarrow> (if filter (\<lambda>i. rep q i = r) is = [] then None else Some (filter (\<lambda>i. rep q i = r) is))
      | Some xs \<Rightarrow> Some (xs @ filter (\<lambda>i. rep q i = r) is)))"
    using q(2) Cons.prems by (intro Cons.IH) (auto simp: same_reps_def distinct_update)
  have step: "group_up p gs (i # is) = group_up q ?gs is" using q(1) by simp
  have "map_of (group_up q ?gs is) r =
     (case map_of gs r of
        None \<Rightarrow> (if filter (\<lambda>i. rep p i = r) (i # is) = [] then None else Some (filter (\<lambda>i. rep p i = r) (i # is)))
      | Some xs \<Rightarrow> Some (xs @ filter (\<lambda>i. rep p i = r) (i # is)))" for r
    using conjunct2 [OF IH, rule_format, of r]
    by (cases "r = rep p i"; cases "map_of gs r") (simp_all add: update_conv' eq)
  then show ?case unfolding step using IH by blast
qed (simp split: option.splits)

lemma map_snd_distinct: "distinct (map fst xs) \<Longrightarrow> set (map snd xs) = ran (map_of xs)"
  by (auto simp: ran_distinct)

lemma clusters_of_set:
  assumes "uf_inv p" and "n \<le> length p"
  shows "set (clusters_of p n) = {filter (\<lambda>i. rep p i = r) [0..<n] | r. \<exists>i < n. rep p i = r}"
proof -
  define F where "F = (\<lambda>r. filter (\<lambda>i. rep p i = r) [0..<n])"
  have g: "distinct (map fst (group_up p [] [0..<n]))"
    "map_of (group_up p [] [0..<n]) r = (if F r = [] then None else Some (F r))" for r
    using group_up_map [OF assms(1), of "[0..<n]" "[]"] assms(2) by (auto simp: F_def)
  have ne: "F r \<noteq> [] \<longleftrightarrow> (\<exists>i < n. rep p i = r)" for r
    by (auto simp: F_def filter_empty_conv)
  have "ran (map_of (group_up p [] [0..<n])) = {F r | r. F r \<noteq> []}"
    by (auto simp: ran_def g(2) split: if_splits)
  then show ?thesis
    unfolding clusters_of_def map_snd_distinct [OF g(1)] ne by (simp add: F_def)
qed

lemma same_cluster_iff:
  assumes "uf_inv p" and "n \<le> length p" and "i < n" and "j < n"
  shows "(\<exists>is \<in> set (clusters_of p n). i \<in> set is \<and> j \<in> set is) \<longleftrightarrow> rep p i = rep p j"
proof
  assume "rep p i = rep p j"
  then have "i \<in> set (filter (\<lambda>k. rep p k = rep p i) [0..<n])" "j \<in> set (filter (\<lambda>k. rep p k = rep p i) [0..<n])"
    using assms(3,4) by simp_all
  moreover have "filter (\<lambda>k. rep p k = rep p i) [0..<n] \<in> set (clusters_of p n)"
    using assms(3) by (auto simp: clusters_of_set [OF assms(1,2)])
  ultimately show "\<exists>is \<in> set (clusters_of p n). i \<in> set is \<and> j \<in> set is" by blast
qed (auto simp: clusters_of_set [OF assms(1,2)])

lemma clusters_cover:
  assumes "uf_inv p" and "n \<le> length p" and "i < n"
  shows "\<exists>!is. is \<in> set (clusters_of p n) \<and> i \<in> set is"
proof (rule ex1I [of _ "filter (\<lambda>k. rep p k = rep p i) [0..<n]"])
  show "filter (\<lambda>k. rep p k = rep p i) [0..<n] \<in> set (clusters_of p n) \<and>
      i \<in> set (filter (\<lambda>k. rep p k = rep p i) [0..<n])"
    using assms by (auto simp: clusters_of_set)
qed (use assms in \<open>auto simp: clusters_of_set\<close>)

section \<open>Identity\<close>

lemma least_cong: "set xs = set ys \<Longrightarrow> least xs = least ys"
  unfolding least_def by (drule usort_cong) simp

lemma set_nonempty [simp]: "set (nonempty xs) = set xs - {[]}"
  by (auto simp: nonempty_def)

lemma identity_of_cong:
  assumes "set rs = set rs'"
  shows "identity_of rs = identity_of rs'"
proof -
  have n: "set (map normalized rs) = set (map normalized rs')" using assms by simp
  have f: "least (nonempty (map f (map normalized rs))) = least (nonempty (map f (map normalized rs')))" for f
    using assms by (intro least_cong) simp
  have p: "least (pairs_with_site f (map normalized rs)) = least (pairs_with_site f (map normalized rs'))" for f
    using n by (intro least_cong) (simp add: pairs_with_site_def)
  have s: "least (map source_asset_id rs) = least (map source_asset_id rs')"
    using assms by (intro least_cong) simp
  show ?thesis unfolding identity_of_def Let_def f p s ..
qed

lemma canonical_id_cong: "set rs = set rs' \<Longrightarrow> canonical_id H rs = canonical_id H rs'"
  using identity_of_cong [of rs rs'] least_cong [of "map partition_of rs" "map partition_of rs'"]
  by (simp add: canonical_id_def)

lemma same_text_sym: "same_text f a b = same_text f b a"
  by (auto simp: same_text_def)

lemma site_alias_sym: "site_alias a b = site_alias b a"
  by (auto simp: site_alias_def Let_def)

lemma classify_match_sym: "classify_match a b = classify_match b a"
proof -
  have c: "compatible_types (JStr (ev_device_type (normalized a))) (JStr (ev_device_type (normalized b))) =
      compatible_types (JStr (ev_device_type (normalized b))) (JStr (ev_device_type (normalized a)))"
    by (rule compatible_types_sym)
  have s: "(ev_serial (normalized a) \<noteq> [] \<and> ev_serial (normalized b) \<noteq> [] \<and> ev_serial (normalized a) \<noteq> ev_serial (normalized b)) =
    (ev_serial (normalized b) \<noteq> [] \<and> ev_serial (normalized a) \<noteq> [] \<and> ev_serial (normalized b) \<noteq> ev_serial (normalized a))"
    by auto
  have i: "{source_of a, source_of b} = {source_of b, source_of a}" by auto
  show ?thesis
    unfolding classify_match_def Let_def
    unfolding same_text_sym [of _ "normalized a" "normalized b"] s c i
      site_alias_sym [of "dget a ''site_id''" "dget b ''site_id''"] ..
qed

section \<open>Fused assets\<close>

lemma map_of_filter_skip: "k \<notin> set fs \<Longrightarrow> map_of (filter P (map (\<lambda>f. (f, g f)) fs @ rest)) k = map_of (filter P rest) k"
  by (induction fs) auto

lemma canonical_id_not_fusion_field: "''canonical_id'' \<notin> set FUSION_FIELDS"
  by (simp add: FUSION_FIELDS_def)

lemma fuse_group_id:
  assumes "fuse_group H tz freshness records conf matched = Inr (asset, n)"
  shows "dget asset ''canonical_id'' = JStr (canonical_id H records)"
proof -
  obtain st sp sc where s: "status_of tz freshness records = Inr (st, sp, sc)"
    using assms by (auto simp: fuse_group_def and_then_eq_Inr)
  have "asset = filter (\<lambda>(k, v). v \<noteq> JNull) (map (\<lambda>f. (f, case select_field records f of None \<Rightarrow> JNull
      | Some (v, p) \<Rightarrow> v)) FUSION_FIELDS @ (''canonical_id'', JStr (canonical_id H records)) # rest) \<Longrightarrow> ?thesis" for rest
    by (simp only: dget_def map_of_filter_skip [OF canonical_id_not_fusion_field]) simp
  then show ?thesis
    using assms unfolding fuse_group_def s and_then_simps prod.case Let_def sum.inject prod.inject
    by (simp only: map_map comp_def chosen_field_def prod.case append_Cons append_Nil) blast
qed

lemma fuse_members_id:
  "fuse_members H tz freshness records edges is = Inr y \<Longrightarrow>
   dget (fst y) ''canonical_id'' = JStr (canonical_id H (map ((!) records) is))"
  by (cases y) (auto simp: fuse_members_def Let_def dest: fuse_group_id)

lemma fuse_parts:
  assumes "fuse H tz freshness results = Inr (assets, stats, low)"
  defines "records \<equiv> observations results"
  shows "mset (map (\<lambda>a. dget a ''canonical_id'') assets) =
      mset (map (\<lambda>is. JStr (canonical_id H (map ((!) records) is))) (clusters_of (cl_parent (cluster records)) (length records)))"
    and "fs_source_records stats = fs_canonical_assets stats + fs_records_fused stats"
    and "fs_canonical_assets stats = int (length assets)" and "fs_source_records stats = int (length records)"
    and "low = cl_low (cluster records)"
proof -
  let ?G = "clusters_of (cl_parent (cluster records)) (length records)"
  let ?F = "fuse_members H tz freshness records (cl_edges (cluster records))"
  from assms obtain fused where f: "map_res ?F ?G = Inr fused"
    and a: "assets = sort_key (\<lambda>a. py_str (dget a ''canonical_id'')) (map fst fused)"
    and st: "fs_source_records stats = int (length records)" "fs_canonical_assets stats = int (length ?G)"
      "fs_records_fused stats = int (length records) - int (length ?G)" and l: "low = cl_low (cluster records)"
    by (auto simp: fuse_def and_then_eq_Inr Let_def records_def)
  from f have "list_all2 (\<lambda>is y. ?F is = Inr y) ?G fused"
    by (simp only: map_res_Inr_iff)
  then have eq: "map (\<lambda>y. dget (fst y) ''canonical_id'') fused = map (\<lambda>is. JStr (canonical_id H (map ((!) records) is))) ?G"
    and len: "length fused = length ?G"
    by (induction rule: list_all2_induct) (auto dest: fuse_members_id)
  have "mset (map f (sort_key g xs)) = mset (map f xs)" for f :: "dict \<Rightarrow> json" and g :: "dict \<Rightarrow> string" and xs
    by simp
  with eq show "mset (map (\<lambda>a. dget a ''canonical_id'') assets) =
      mset (map (\<lambda>is. JStr (canonical_id H (map ((!) records) is))) ?G)"
    unfolding a by (simp only: map_map comp_def)
  show "fs_source_records stats = fs_canonical_assets stats + fs_records_fused stats"
    and "fs_canonical_assets stats = int (length assets)" and "fs_source_records stats = int (length records)"
    and "low = cl_low (cluster records)"
    using st l len by (simp_all add: a)
qed

section \<open>Properties\<close>

definition ex_switch :: "string \<Rightarrow> string \<Rightarrow> dict" where
  "ex_switch source serial = [(''source'', JStr source), (''asset_id'', JStr serial),
     (''serial_number'', JStr serial), (''device_type'', JStr ''switch'')]"

text \<open>
  C9. Fusion never merges records that contradict each other: two records of one cluster never
  carry different serial numbers and never belong to incompatible device families, whatever
  chain of matches joined them.
\<close>

theorem fusion_never_merges_conflicts:
  assumes "is \<in> set (clusters_of (cl_parent (cluster records)) (length records))"
    and "i \<in> set is" and "j \<in> set is"
  shows "(ev_serial (normalized (records ! i)) = [] \<or> ev_serial (normalized (records ! j)) = [] \<or>
      ev_serial (normalized (records ! i)) = ev_serial (normalized (records ! j))) \<and>
    compatible_types (JStr (ev_device_type (normalized (records ! i))))
      (JStr (ev_device_type (normalized (records ! j))))"
proof -
  have ok: "clusters_ok records (cl_parent (cluster records))" by (simp add: cluster_ok)
  then have "rep (cl_parent (cluster records)) i = rep (cl_parent (cluster records)) j"
      "i < length records" "j < length records"
    using assms by (auto simp: clusters_ok_def clusters_of_set)
  with ok have "no_clash (records ! i) (records ! j)" by (simp add: clusters_ok_def)
  then show ?thesis by (simp only: no_clash_def)
qed

lemma fusion_never_merges_conflicts_witness:
  "compatible_types (JStr (ev_device_type (normalized (ex_switch ''mist'' ''A1''))))
     (JStr (ev_device_type (normalized (ex_switch ''mist'' ''A1''))))"
  using fusion_never_merges_conflicts [of "[0]" "[ex_switch ''mist'' ''A1'']" 0 0]
  by (simp add: cluster_def pairs_below_def clusters_of_def uf_find_def)

text \<open>
  The clusters partition the observed records: every record belongs to exactly one cluster,
  so no observation is lost and none is fused twice.
\<close>

lemma fusion_clusters_partition:
  assumes "i < length records"
  shows "\<exists>!is. is \<in> set (clusters_of (cl_parent (cluster records)) (length records)) \<and> i \<in> set is"
  using cluster_ok [of records] by (intro clusters_cover) (simp_all add: clusters_ok_def assms)

lemma fusion_clusters_partition_witness:
  "\<exists>!is. is \<in> set (clusters_of (cl_parent (cluster [ex_switch ''mist'' ''A1''])) 1) \<and> 0 \<in> set is"
  using fusion_clusters_partition [of 0 "[ex_switch ''mist'' ''A1'']"] by simp

text \<open>
  No match is dropped silently: a pair of records that matches with at least medium
  confidence ends in one cluster or is reported as a low-confidence candidate, and a pair that
  matches with low confidence is always reported.
\<close>

theorem usable_matches_honoured_or_reported:
  assumes "l < r" and "r < length records"
  shows "(fst (classify_match (records ! l) (records ! r)) \<ge> Medium \<longrightarrow>
      (\<exists>is \<in> set (clusters_of (cl_parent (cluster records)) (length records)). l \<in> set is \<and> r \<in> set is) \<or>
      (\<exists>c \<in> set (cl_low (cluster records)). lc_left c = records ! l \<and> lc_right c = records ! r)) \<and>
    (fst (classify_match (records ! l) (records ! r)) = Low \<longrightarrow>
      (\<exists>c \<in> set (cl_low (cluster records)). lc_left c = records ! l \<and> lc_right c = records ! r))"
proof -
  let ?p = "cl_parent (cluster records)"
  have ok: "clusters_ok records ?p" and h: "handled records (cluster records) (l, r)"
    using cluster_ok [of records] assms by auto
  from ok assms have "(\<exists>is \<in> set (clusters_of ?p (length records)). l \<in> set is \<and> r \<in> set is) \<longleftrightarrow> rep ?p l = rep ?p r"
    by (intro same_cluster_iff) (simp_all add: clusters_ok_def)
  with h show ?thesis unfolding handled_def reported_def prod.case by blast
qed

lemma usable_matches_honoured_or_reported_witness:
  "(\<exists>is \<in> set (clusters_of (cl_parent (cluster [ex_switch ''mist'' ''A1'', ex_switch ''snmp'' ''A1''])) 2).
        0 \<in> set is \<and> Suc 0 \<in> set is) \<or>
   (\<exists>c \<in> set (cl_low (cluster [ex_switch ''mist'' ''A1'', ex_switch ''snmp'' ''A1''])).
      lc_left c = ex_switch ''mist'' ''A1'' \<and> lc_right c = ex_switch ''snmp'' ''A1'')"
proof -
  have "fst (classify_match (ex_switch ''mist'' ''A1'') (ex_switch ''snmp'' ''A1'')) = Exact"
    by code_simp
  with usable_matches_honoured_or_reported [of 0 "Suc 0" "[ex_switch ''mist'' ''A1'', ex_switch ''snmp'' ''A1'']"]
  show ?thesis by (simp add: numeral_2_eq_2 less_eq_confidence_def)
qed

text \<open>
  The fused assets are one per cluster, under the canonical id of the cluster's records;
  the statistics add up to the records that came in.
\<close>

theorem fused_assets_accounted:
  assumes "fuse H tz freshness results = Inr (assets, stats, low)"
  shows "mset (map (\<lambda>a. dget a ''canonical_id'') assets) =
      mset (map (\<lambda>is. JStr (canonical_id H (map ((!) (observations results)) is)))
        (clusters_of (cl_parent (cluster (observations results))) (length (observations results)))) \<and>
    fs_canonical_assets stats = int (length assets) \<and>
    fs_source_records stats = int (length (observations results)) \<and>
    fs_source_records stats = fs_canonical_assets stats + fs_records_fused stats"
  using fuse_parts [OF assms] by simp

lemma fused_assets_accounted_witness:
  "\<exists>assets stats low. fuse (\<lambda>s. s) 0 300 [] = Inr (assets, stats, low) \<and> assets = [] \<and>
     fs_source_records stats = fs_canonical_assets stats + fs_records_fused stats"
proof -
  have "fuse (\<lambda>s. s) 0 300 [] = Inr ([], \<lparr>fs_source_records = 0, fs_canonical_assets = 0,
      fs_records_fused = 0, fs_exact_matches = 0, fs_high_confidence_matches = 0,
      fs_medium_confidence_matches = 0, fs_low_confidence_candidates = 0, fs_conflicts = 0\<rparr>, [])"
    by (simp add: fuse_def observations_def cluster_def pairs_below_def clusters_of_def count_confidence_def)
  with fused_assets_accounted [OF this] show ?thesis by blast
qed

end
