(* ===== verification/Notifications.thy ===== *)
theory Notifications
  imports Py_Number
begin

text \<open>
  \<open>analysis/notifications/models.py\<close>, \<open>rules.py\<close> and \<open>channels.py\<close>: severities, the
  notification event and delivery records with their validation, the condition rules over the
  platform's status document, and the delivery channels. The doctor's report is the document of its
  \<open>to_dict\<close>. SHA-256 and the transports (the
  console and the HTTP opener) are parameters.
\<close>

section \<open>Models\<close>

definition severity_values :: "string list" where
  "severity_values = [''info'', ''warning'', ''critical'', ''recovery'']"

definition delivery_statuses :: "string list" where
  "delivery_statuses = [''pending'', ''delivered'', ''failed'', ''suppressed'', ''acknowledged'']"

definition fingerprint_value :: "(string \<Rightarrow> string) \<Rightarrow> string \<Rightarrow> string \<Rightarrow> string \<Rightarrow> string" where
  "fingerprint_value H rule_id subject scope =
     H (dumps (JList [JStr rule_id, JStr subject, JStr scope]))"

record notification_rule =
  ru_id :: string
  ru_title :: string
  ru_severity :: string
  ru_source :: string

record incident =
  in_id :: string
  in_fingerprint :: string
  in_rule_id :: string
  in_severity :: string
  in_title :: string
  in_summary :: string
  in_source :: string
  in_subject :: string
  in_first_seen :: string
  in_last_seen :: string
  in_occurrence_count :: int
  in_active :: bool
  in_acknowledged :: bool
  in_recovery_of :: string
  in_test :: bool
  in_acknowledged_at :: "string option"

text \<open>\<open>NotificationEvent.__post_init__\<close>.\<close>

definition event_post_init :: "incident \<Rightarrow> unit res" where
  "event_post_init e =
     and_then (guard_res (in_severity e \<notin> set severity_values)
       (ValueError ''not a valid NotificationSeverity'')) (\<lambda>_.
     guard_res (in_occurrence_count e < 1)
       (ValueError ''notification occurrence_count must be positive''))"

record delivery =
  dl_id :: string
  dl_event_id :: string
  dl_channel :: string
  dl_status :: string
  dl_attempted_at :: string
  dl_delivered_at :: "string option"
  dl_exception_type :: string
  dl_detail :: string

text \<open>\<open>NotificationDelivery.__post_init__\<close>.\<close>

definition delivery_post_init :: "delivery \<Rightarrow> delivery res" where
  "delivery_post_init d =
     (if dl_status d \<notin> set delivery_statuses then
        Inl (ValueError ''not a valid NotificationDeliveryStatus'')
      else Inr d)"

definition delivery_to_dict :: "delivery \<Rightarrow> dict" where
  "delivery_to_dict d =
     [(''id'', JStr (dl_id d)), (''event_id'', JStr (dl_event_id d)), (''channel'', JStr (dl_channel d)),
      (''status'', JStr (dl_status d)), (''attempted_at'', JStr (dl_attempted_at d)),
      (''delivered_at'', jopt (dl_delivered_at d)), (''exception_type'', JStr (dl_exception_type d)),
      (''detail'', JStr (dl_detail d)), (''schema_version'', JInt 1)]"

section \<open>Rules\<close>

definition RULES :: "notification_rule list" where
  "RULES =
     [\<lparr>ru_id = ''connector.collection_failed'', ru_title = ''Connector collection failed'',
        ru_severity = ''critical'', ru_source = ''pipeline''\<rparr>,
      \<lparr>ru_id = ''connector.stale'', ru_title = ''Connector telemetry is stale'',
        ru_severity = ''warning'', ru_source = ''freshness''\<rparr>,
      \<lparr>ru_id = ''daemon.stopped'', ru_title = ''ITP daemon is stopped'',
        ru_severity = ''critical'', ru_source = ''daemon''\<rparr>,
      \<lparr>ru_id = ''daemon.heartbeat_stale'', ru_title = ''ITP daemon heartbeat is stale'',
        ru_severity = ''critical'', ru_source = ''daemon''\<rparr>,
      \<lparr>ru_id = ''doctor.failed'', ru_title = ''ITP Doctor check failed'',
        ru_severity = ''critical'', ru_source = ''doctor''\<rparr>,
      \<lparr>ru_id = ''pipeline.partial'', ru_title = ''PipelineRun partially failed'',
        ru_severity = ''warning'', ru_source = ''pipeline''\<rparr>,
      \<lparr>ru_id = ''pipeline.failed'', ru_title = ''PipelineRun failed'',
        ru_severity = ''critical'', ru_source = ''pipeline''\<rparr>]"

record condition =
  cd_fingerprint :: string
  cd_rule_id :: string
  cd_severity :: string
  cd_title :: string
  cd_summary :: string
  cd_source :: string
  cd_subject :: string
  cd_preserve_only :: bool

definition condition_of :: "(string \<Rightarrow> string) \<Rightarrow> string \<Rightarrow> string \<Rightarrow> string \<Rightarrow> condition" where
  "condition_of H rule_id subject summary =
     (let rule = hd (filter (\<lambda>r. ru_id r = rule_id) RULES) in
      \<lparr>cd_fingerprint = fingerprint_value H rule_id subject [], cd_rule_id = ru_id rule,
       cd_severity = ru_severity rule, cd_title = ru_title rule, cd_summary = summary,
       cd_source = ru_source rule, cd_subject = subject, cd_preserve_only = False\<rparr>)"

definition connector_name :: "dict \<Rightarrow> string" where
  "connector_name v = py_str (por (dget v ''connector'') (JStr ''unknown''))"

definition display_name :: "dict \<Rightarrow> string" where
  "display_name v = py_str (por (dget v ''display_name'') (JStr (connector_name v)))"

definition connector_conditions :: "(string \<Rightarrow> string) \<Rightarrow> dict list \<Rightarrow> dict list \<Rightarrow> condition list" where
  "connector_conditions H results connectors =
     map (\<lambda>v. condition_of H ''connector.collection_failed'' (connector_name v)
          (display_name v @ '' collection failed.''))
       (filter (\<lambda>v. dget v ''status'' = JStr ''failed'') results) @
     map (\<lambda>v. condition_of H ''connector.stale'' (connector_name v)
          (display_name v @ '' has exceeded its configured freshness threshold.''))
       (filter (\<lambda>v. truthy (dget v ''enabled'') \<and> dget v ''freshness'' = JStr ''Stale'') connectors)"

text \<open>
  The heartbeat's age in microseconds, with one second more than the limit for one that
  cannot be read; \<open>tz\<close> is the local offset in which a naive timestamp is read.
\<close>

definition heartbeat_age :: "int \<Rightarrow> int \<Rightarrow> int \<Rightarrow> json \<Rightarrow> int res" where
  "heartbeat_age tz now limit heartbeat =
     (case fromisoformat (replace_z (py_str heartbeat)) of
        None \<Rightarrow> Inr ((limit + 1) * 1000000)
      | Some t \<Rightarrow> map_sum id (\<lambda>u. now - u) (to_utc t tz))"

definition daemon_conditions :: "(string \<Rightarrow> string) \<Rightarrow> int \<Rightarrow> int \<Rightarrow> int \<Rightarrow> dict \<Rightarrow> condition list res" where
  "daemon_conditions H tz now limit daemon =
     (let status = dget_or daemon ''status'' (JStr ''Stopped'') in
      if status = JStr ''Stopped'' then
        Inr [condition_of H ''daemon.stopped'' ''operator-daemon''
          ''The ITP continuous collection daemon is stopped.'']
      else if status = JStr ''Running'' then
        and_then (heartbeat_age tz now limit (dget daemon ''last_heartbeat'')) (\<lambda>age.
          Inr (if age > limit * 1000000 then
            [condition_of H ''daemon.heartbeat_stale'' ''operator-daemon''
              ''The ITP daemon heartbeat is overdue.''] else []))
      else Inr [])"

definition doctor_conditions :: "(string \<Rightarrow> string) \<Rightarrow> json \<Rightarrow> condition list res" where
  "doctor_conditions H doctor =
     (if \<not> truthy doctor then Inr []
      else and_then (want_dict doctor) (\<lambda>d.
        and_then (dict_list (dget_or d ''checks'' (JList []))) (\<lambda>checks.
          Inr (map (\<lambda>c. let check_id = py_str (por (dget c ''check_id'') (JStr ''unknown'')) in
            condition_of H ''doctor.failed'' check_id
              (''Doctor check failed: '' @ py_str (por (dget c ''subject'') (JStr check_id)) @ ''.''))
            (filter (\<lambda>c. dget c ''status'' = JStr ''fail'') checks)))))"

definition pipeline_conditions :: "(string \<Rightarrow> string) \<Rightarrow> dict \<Rightarrow> condition list" where
  "pipeline_conditions H latest =
     (if dget latest ''status'' = JStr ''partial'' then
        [condition_of H ''pipeline.partial'' ''latest-pipeline''
          ''The latest PipelineRun completed with partial source coverage.'']
      else if dget latest ''status'' = JStr ''failed'' then
        [condition_of H ''pipeline.failed'' ''latest-pipeline'' ''The latest PipelineRun failed.'']
      else [])"

definition evaluate_conditions :: "(string \<Rightarrow> string) \<Rightarrow> int \<Rightarrow> dict \<Rightarrow> json \<Rightarrow> int \<Rightarrow> int
    \<Rightarrow> condition list res" where
  "evaluate_conditions H tz status doctor now limit =
     and_then (want_dict (por (dget status ''latest_pipeline_run'') (JObj []))) (\<lambda>latest.
     and_then (dict_list (por (dget status ''latest_connector_results'') (JList []))) (\<lambda>results.
     and_then (dict_list (dget_or status ''connectors'' (JList []))) (\<lambda>connectors.
     and_then (want_dict (por (dget status ''daemon'') (JObj []))) (\<lambda>daemon.
     and_then (daemon_conditions H tz now limit daemon) (\<lambda>dcs.
     and_then (doctor_conditions H doctor) (\<lambda>checks.
     Inr (sort_key cd_fingerprint (connector_conditions H results connectors @ dcs @ checks @
       pipeline_conditions H latest))))))))"

section \<open>Channels\<close>

datatype channel = Console | Webhook string json dict

fun channel_id :: "channel \<Rightarrow> string" where
  "channel_id Console = ''console''"
| "channel_id (Webhook url timeout headers) = ''webhook''"

text \<open>
  What the transport answers: the type name of the exception it raises, or the HTTP status
  (200 when the response has none; a console write has no status).
\<close>

type_synonym transport = "channel \<Rightarrow> incident \<Rightarrow> string + int"

definition console_line :: "incident \<Rightarrow> string" where
  "console_line e = ''NOTIFICATION ['' @ upper (in_severity e) @ ''] '' @ in_title e @ '': '' @ in_summary e"

text \<open>\<open>deliver\<close> of the channel: the exception type it ends with, \<open>None\<close> when it returns.\<close>

fun channel_deliver :: "transport \<Rightarrow> channel \<Rightarrow> incident \<Rightarrow> string option" where
  "channel_deliver io Console e = (case io Console e of Inl x \<Rightarrow> Some x | Inr _ \<Rightarrow> None)"
| "channel_deliver io (Webhook url timeout headers) e =
     (if \<not> (starts_with ''http://'' url \<or> starts_with ''https://'' url) then Some ''ValueError''
      else case io (Webhook url timeout headers) e of
        Inl x \<Rightarrow> Some x
      | Inr status \<Rightarrow> if status \<ge> 400 then Some ''RuntimeError'' else None)"

text \<open>
  \<open>WebhookChannel(...)\<close> converts its timeout with \<open>float\<close> and its headers with \<open>dict\<close>;
  both only go to the opener.
\<close>

definition webhook_of :: "dict \<Rightarrow> channel res" where
  "webhook_of w =
     (let timeout = dget_or w ''timeout_seconds'' (JInt 5) in
      and_then (py_float timeout) (\<lambda>_.
      and_then (case por (dget w ''headers'') (JObj []) of JObj h \<Rightarrow> Inr h
        | _ \<Rightarrow> Inl (ValueError ''headers'')) (\<lambda>headers.
      Inr (Webhook (py_str (por (dget w ''url'') (JStr []))) timeout headers))))"

definition channels_enabled :: "dict \<Rightarrow> channel list res" where
  "channels_enabled config =
     and_then (want_dict (por (dget config ''channels'') (JObj []))) (\<lambda>channels.
       (let console = dget_or channels ''console'' (JObj []);
            webhook = dget_or channels ''webhook'' (JObj []);
            first = (if console = JBool True \<or> (is_obj console \<and> dget (as_dict console) ''enabled'' = JBool True)
                     then [Console] else [])
        in if is_obj webhook \<and> dget (as_dict webhook) ''enabled'' = JBool True
           then map_sum id (\<lambda>w. first @ [w]) (webhook_of (as_dict webhook))
           else Inr first))"

lemma rule_severities: "r \<in> set RULES \<Longrightarrow> ru_severity r \<in> {''warning'', ''critical''}"
  by (auto simp: RULES_def)

end
