(* ===== verification/Notification_Engine.thy ===== *)
theory Notification_Engine
  imports Notifications Atomic_Files
begin

text \<open>
  \<open>analysis/notifications/store.py\<close> and \<open>engine.py\<close>: the notification state, its document
  on disk, deduplication of conditions into incidents, recoveries, and delivery with repeat
  suppression. The clock is read once per run; \<open>en_io n\<close> is the transport's behaviour at
  the \<open>n\<close>-th delivery of the state, so every sequence of outcomes is an instance.
\<close>

record notification_env =
  en_hash :: "string \<Rightarrow> string"
  en_tz :: int
  en_io :: "nat \<Rightarrow> transport"

record notification_state =
  ns_active :: "(string \<times> incident) list"
  ns_events :: "incident list"
  ns_deliveries :: "delivery list"

definition empty_notifications :: notification_state where
  "empty_notifications = \<lparr>ns_active = [], ns_events = [], ns_deliveries = []\<rparr>"

section \<open>The engine\<close>

definition SEVERITY_ORDER :: "(string \<times> int) list" where
  "SEVERITY_ORDER = [(''info'', 0), (''recovery'', 0), (''warning'', 1), (''critical'', 2)]"

definition event_id :: "(string \<Rightarrow> string) \<Rightarrow> string \<Rightarrow> string \<Rightarrow> bool \<Rightarrow> string" where
  "event_id H fingerprint first_seen recovery = ''notification:'' @ take 24
     (H (fingerprint @ ''|'' @ first_seen @ ''|'' @ (if recovery then ''recovery'' else ''active'')))"

definition engine_enabled :: "dict \<Rightarrow> bool" where
  "engine_enabled config = (dget config ''enabled'' = JBool True)"

definition minimum_rank :: "dict \<Rightarrow> int" where
  "minimum_rank config =
     (case map_of SEVERITY_ORDER (lower (py_str (por (dget config ''minimum_severity'') (JStr ''warning'')))) of
        None \<Rightarrow> 1 | Some n \<Rightarrow> n)"

subsection \<open>Delivery\<close>

definition previous_attempts :: "delivery list \<Rightarrow> incident \<Rightarrow> channel \<Rightarrow> delivery list" where
  "previous_attempts dls event ch = filter (\<lambda>d. dl_event_id d = in_id event \<and>
     dl_channel d = channel_id ch \<and> dl_status d \<in> {''delivered'', ''failed''}) dls"

definition suppressed_by :: "int \<Rightarrow> int \<Rightarrow> int \<Rightarrow> delivery list \<Rightarrow> bool \<Rightarrow> bool res" where
  "suppressed_by tz now repeat prev force =
     (if prev = [] \<or> force then Inr False
      else case fromisoformat (replace_z (dl_attempted_at (last prev))) of
        None \<Rightarrow> Inl (ValueError ''Invalid isoformat string'')
      | Some t \<Rightarrow> map_sum id (\<lambda>u. now - u < repeat * 1000000) (to_utc t tz))"

definition delivery_id :: "(string \<Rightarrow> string) \<Rightarrow> string \<Rightarrow> string \<Rightarrow> string \<Rightarrow> nat \<Rightarrow> string" where
  "delivery_id H eid ch at n = ''delivery:'' @ take 24
     (H (eid @ ''|'' @ ch @ ''|'' @ at @ ''|'' @ show_nat n))"

definition attempt :: "notification_env \<Rightarrow> int \<Rightarrow> int \<Rightarrow> bool \<Rightarrow> incident \<Rightarrow> delivery list \<Rightarrow> channel
    \<Rightarrow> delivery res" where
  "attempt env repeat now force event dls ch =
     and_then (suppressed_by (en_tz env) now repeat (previous_attempts dls event ch) force) (\<lambda>suppressed.
       (let at = isoformat_z now;
            outcome = channel_deliver (en_io env (length dls)) ch event;
            (status, delivered_at, exn, detail) =
              (if suppressed then (''suppressed'', None, [], [])
               else case outcome of
                 None \<Rightarrow> (''delivered'', Some at, [], [])
               | Some x \<Rightarrow> (''failed'', None, x, ''delivery failed''))
        in delivery_post_init
          \<lparr>dl_id = delivery_id (en_hash env) (in_id event) (channel_id ch) at (length dls),
           dl_event_id = in_id event, dl_channel = channel_id ch, dl_status = status,
           dl_attempted_at = at, dl_delivered_at = delivered_at, dl_exception_type = exn,
           dl_detail = detail\<rparr>))"

text \<open>The loop of \<open>_deliver\<close>: the deliveries appended for one event.\<close>

fun attempts :: "notification_env \<Rightarrow> int \<Rightarrow> int \<Rightarrow> bool \<Rightarrow> incident \<Rightarrow> delivery list \<Rightarrow> channel list
    \<Rightarrow> delivery list res" where
  "attempts env repeat now force event dls [] = Inr []"
| "attempts env repeat now force event dls (ch # chs) =
     and_then (attempt env repeat now force event dls ch) (\<lambda>d.
     and_then (attempts env repeat now force event (dls @ [d]) chs) (\<lambda>ds. Inr (d # ds)))"

definition deliver :: "notification_env \<Rightarrow> dict \<Rightarrow> int \<Rightarrow> bool \<Rightarrow> incident \<Rightarrow> delivery list
    \<Rightarrow> delivery list res" where
  "deliver env config now force event dls =
     and_then (py_int (dget_or config ''repeat_suppression_seconds'' (JInt 3600))) (\<lambda>r.
     and_then (channels_enabled config) (\<lambda>chs.
     attempts env (max 0 r) now force event dls chs))"

subsection \<open>Evaluation\<close>

record evaluation =
  ev_state :: notification_state
  ev_new :: "incident list"
  ev_recoveries :: "incident list"
  ev_deliveries :: "delivery list"

definition replace_event :: "incident \<Rightarrow> incident list \<Rightarrow> incident list" where
  "replace_event e events = map (\<lambda>x. if in_id x = in_id e then e else x) events"

definition new_incident :: "(string \<Rightarrow> string) \<Rightarrow> string \<Rightarrow> condition \<Rightarrow> incident" where
  "new_incident H now c =
     \<lparr>in_id = event_id H (cd_fingerprint c) now False, in_fingerprint = cd_fingerprint c,
      in_rule_id = cd_rule_id c, in_severity = cd_severity c, in_title = cd_title c,
      in_summary = cd_summary c, in_source = cd_source c, in_subject = cd_subject c,
      in_first_seen = now, in_last_seen = now, in_occurrence_count = 1, in_active = True,
      in_acknowledged = False, in_recovery_of = [], in_test = False, in_acknowledged_at = None\<rparr>"

definition seen_again :: "string \<Rightarrow> incident \<Rightarrow> incident" where
  "seen_again now e = e\<lparr>in_last_seen := now, in_occurrence_count := in_occurrence_count e + 1\<rparr>"

definition ended :: "string \<Rightarrow> incident \<Rightarrow> incident" where
  "ended now e = e\<lparr>in_active := False, in_last_seen := now\<rparr>"

definition recovery_of :: "(string \<Rightarrow> string) \<Rightarrow> string \<Rightarrow> string \<Rightarrow> incident \<Rightarrow> incident" where
  "recovery_of H now fingerprint e =
     \<lparr>in_id = event_id H fingerprint now True, in_fingerprint = fingerprint,
      in_rule_id = in_rule_id e @ ''.recovery'', in_severity = ''recovery'',
      in_title = in_title e @ '' recovered'', in_summary = ''Recovered: '' @ in_summary e,
      in_source = in_source e, in_subject = in_subject e, in_first_seen = now, in_last_seen = now,
      in_occurrence_count = 1, in_active = False, in_acknowledged = False,
      in_recovery_of = in_id e, in_test = False, in_acknowledged_at = None\<rparr>"

text \<open>
  The conditions of a run by fingerprint. Without a doctor report its active incidents are
  carried as conditions that only preserve them.
\<close>

definition preserved :: "string \<Rightarrow> incident \<Rightarrow> condition" where
  "preserved fp e =
     \<lparr>cd_fingerprint = in_fingerprint e, cd_rule_id = in_rule_id e, cd_severity = in_severity e,
      cd_title = in_title e, cd_summary = in_summary e, cd_source = in_source e,
      cd_subject = in_subject e, cd_preserve_only = True\<rparr>"

definition keep_doctor :: "(string \<times> incident) list \<Rightarrow> (string \<times> condition) list \<Rightarrow> (string \<times> condition) list" where
  "keep_doctor active conditions = fold (\<lambda>(fp, e) cs.
     if in_source e \<noteq> ''doctor'' then cs
     else case map_of cs fp of
       None \<Rightarrow> AList.update fp (preserved fp e) cs
     | Some c \<Rightarrow> AList.update fp (c\<lparr>cd_preserve_only := True\<rparr>) cs) active conditions"

definition by_fingerprint :: "condition list \<Rightarrow> (string \<times> condition) list" where
  "by_fingerprint cs = fold (\<lambda>c m. AList.update (cd_fingerprint c) c m) cs []"

fun at_least :: "int \<Rightarrow> (string \<times> condition) list \<Rightarrow> (string \<times> condition) list res" where
  "at_least minimum [] = Inr []"
| "at_least minimum ((fp, c) # cs) =
     (case map_of SEVERITY_ORDER (cd_severity c) of
        None \<Rightarrow> Inl (KeyError (cd_severity c))
      | Some n \<Rightarrow> map_sum id (\<lambda>rest. if n \<ge> minimum then (fp, c) # rest else rest) (at_least minimum cs))"

definition run_conditions :: "notification_env \<Rightarrow> dict \<Rightarrow> int \<Rightarrow> dict \<Rightarrow> json \<Rightarrow> notification_state
    \<Rightarrow> (string \<times> condition) list res" where
  "run_conditions env config now status doctor st =
     and_then (py_int (dget_or config ''daemon_heartbeat_stale_seconds'' (JInt 30))) (\<lambda>limit.
     and_then (evaluate_conditions (en_hash env) (en_tz env) status doctor now limit) (\<lambda>cs.
       (let m = by_fingerprint cs in
        at_least (minimum_rank config) (if doctor = JNull then keep_doctor (ns_active st) m else m))))"

definition send :: "notification_env \<Rightarrow> dict \<Rightarrow> int \<Rightarrow> bool \<Rightarrow> incident \<Rightarrow> evaluation \<Rightarrow> evaluation res" where
  "send env config now force event ev =
     map_sum id (\<lambda>ds. ev\<lparr>ev_state := (ev_state ev)\<lparr>ns_deliveries := ns_deliveries (ev_state ev) @ ds\<rparr>,
         ev_deliveries := ev_deliveries ev @ ds\<rparr>)
       (deliver env config now force event (ns_deliveries (ev_state ev)))"

definition handle_condition :: "notification_env \<Rightarrow> dict \<Rightarrow> int \<Rightarrow> string \<times> condition \<Rightarrow> evaluation
    \<Rightarrow> evaluation res" where
  "handle_condition env config now = (\<lambda>(fp, c) ev.
     (let st = ev_state ev in
      case map_of (ns_active st) fp of
        Some e \<Rightarrow>
          (if cd_preserve_only c then Inr ev
           else (let e' = seen_again (isoformat_z now) e;
                   ev' = ev\<lparr>ev_state := st\<lparr>ns_active := AList.update fp e' (ns_active st),
                     ns_events := replace_event e' (ns_events st)\<rparr>\<rparr>
                 in if in_acknowledged e' then Inr ev' else send env config now False e' ev'))
      | None \<Rightarrow>
          (let e = new_incident (en_hash env) (isoformat_z now) c;
               ev' = ev\<lparr>ev_state := st\<lparr>ns_active := AList.update fp e (ns_active st),
                 ns_events := ns_events st @ [e]\<rparr>, ev_new := ev_new ev @ [e]\<rparr>
           in send env config now True e ev')))"

definition handle_recovery :: "notification_env \<Rightarrow> dict \<Rightarrow> int \<Rightarrow> (string \<times> condition) list
    \<Rightarrow> string \<times> incident \<Rightarrow> evaluation \<Rightarrow> evaluation res" where
  "handle_recovery env config now conditions = (\<lambda>(fp, e) ev.
     (if map_of conditions fp \<noteq> None then Inr ev
      else (let st = ev_state ev; e' = ended (isoformat_z now) e;
                r = recovery_of (en_hash env) (isoformat_z now) fp e';
                ev' = ev\<lparr>ev_state := st\<lparr>ns_active := AList.delete fp (ns_active st),
                    ns_events := replace_event e' (ns_events st) @ [r]\<rparr>,
                  ev_recoveries := ev_recoveries ev @ [r]\<rparr>
            in send env config now True r ev')))"

definition evaluate_state :: "notification_env \<Rightarrow> dict \<Rightarrow> int \<Rightarrow> dict \<Rightarrow> json \<Rightarrow> notification_state
    \<Rightarrow> evaluation res" where
  "evaluate_state env config now status doctor st =
     and_then (run_conditions env config now status doctor st) (\<lambda>conditions.
     and_then (fold_res (handle_condition env config now) (sort_key fst conditions)
       \<lparr>ev_state = st, ev_new = [], ev_recoveries = [], ev_deliveries = []\<rparr>)
     (fold_res (handle_recovery env config now conditions) (sort_key fst (ns_active st))))"

section \<open>The store\<close>

definition sort_state :: "notification_state \<Rightarrow> notification_state" where
  "sort_state st =
     \<lparr>ns_active = sort_key fst (ns_active st),
      ns_events = sort_key (\<lambda>e. (in_first_seen e, in_id e)) (ns_events st),
      ns_deliveries = sort_key (\<lambda>d. (dl_attempted_at d, dl_id d)) (ns_deliveries st)\<rparr>"

definition acknowledge_incident :: "string \<Rightarrow> string \<Rightarrow> incident \<Rightarrow> incident" where
  "acknowledge_incident nid at e =
     (if in_id e = nid then e\<lparr>in_acknowledged := True, in_acknowledged_at := Some at\<rparr> else e)"

definition acknowledgement :: "(string \<Rightarrow> string) \<Rightarrow> string \<Rightarrow> string \<Rightarrow> delivery" where
  "acknowledgement H nid at =
     \<lparr>dl_id = ''delivery:'' @ take 24 (H (nid @ ''|acknowledged|'' @ at)), dl_event_id = nid,
      dl_channel = ''operator'', dl_status = ''acknowledged'', dl_attempted_at = at,
      dl_delivered_at = Some at, dl_exception_type = [], dl_detail = []\<rparr>"

text \<open>
  \<open>acknowledge\<close> on the state that was read: the new state to write and the event found, the
  last one with the id. Without such an event nothing is written.
\<close>

definition acknowledge_state :: "(string \<Rightarrow> string) \<Rightarrow> string \<Rightarrow> string \<Rightarrow> notification_state
    \<Rightarrow> notification_state \<times> incident option" where
  "acknowledge_state H nid at st =
     (case filter (\<lambda>e. in_id e = nid) (ns_events st) of
        [] \<Rightarrow> (st, None)
      | es \<Rightarrow>
         (\<lparr>ns_active = map (map_prod id (acknowledge_incident nid at)) (ns_active st),
           ns_events = map (acknowledge_incident nid at) (ns_events st),
           ns_deliveries = ns_deliveries st @ [acknowledgement H nid at]\<rparr>,
          Some (acknowledge_incident nid at (last es))))"

definition find_event :: "string \<Rightarrow> notification_state \<Rightarrow> incident option" where
  "find_event nid st = (case filter (\<lambda>e. in_id e = nid) (ns_events st) of [] \<Rightarrow> None | e # _ \<Rightarrow> Some e)"

definition test_event :: "(string \<Rightarrow> string) \<Rightarrow> string \<Rightarrow> incident" where
  "test_event H now =
     \<lparr>in_id = event_id H ''test'' now False, in_fingerprint = ''test'',
      in_rule_id = ''notifications.test'', in_severity = ''info'',
      in_title = ''ITP test notification'',
      in_summary = ''This is a clearly marked ITP notification test.'',
      in_source = ''cli'', in_subject = ''notification-delivery'', in_first_seen = now,
      in_last_seen = now, in_occurrence_count = 1, in_active = False, in_acknowledged = False,
      in_recovery_of = [], in_test = True, in_acknowledged_at = None\<rparr>"

definition test_state :: "notification_env \<Rightarrow> dict \<Rightarrow> int \<Rightarrow> notification_state \<Rightarrow> notification_state res" where
  "test_state env config now st =
     map_sum id (\<lambda>ds. st\<lparr>ns_deliveries := ns_deliveries st @ ds\<rparr>)
       (deliver env config now True (test_event (en_hash env) (isoformat_z now)) (ns_deliveries st))"

record notification_summary =
  su_active_count :: int
  su_highest_severity :: "string option"
  su_most_recent :: "incident option"
  su_last_delivered :: "delivery option"
  su_failed :: int

definition severity_rank :: "string \<Rightarrow> int" where
  "severity_rank s = (case map_of SEVERITY_ORDER s of None \<Rightarrow> -1 | Some n \<Rightarrow> n)"

fun highest :: "string list \<Rightarrow> string option" where
  "highest [] = None"
| "highest (s # ss) = Some (foldl (\<lambda>b x. if severity_rank x > severity_rank b then x else b) s ss)"

definition last_of :: "'a list \<Rightarrow> 'a option" where
  "last_of xs = (if xs = [] then None else Some (last xs))"

definition summary_of :: "notification_state \<Rightarrow> notification_summary" where
  "summary_of st =
     \<lparr>su_active_count = int (length (ns_active st)),
      su_highest_severity = highest (map (in_severity \<circ> snd) (ns_active st)),
      su_most_recent = last_of (ns_events st),
      su_last_delivered = last_of (filter (\<lambda>d. dl_status d = ''delivered'') (ns_deliveries st)),
      su_failed = int (length (filter (\<lambda>d. dl_status d = ''failed'') (ns_deliveries st)))\<rparr>"

end
