(* ===== verification/Notification_Store.thy ===== *)
theory Notification_Store
  imports Notification_Engine
begin

text \<open>
  \<open>NotificationStore\<close> on disk: the state document in \<open>notifications/state.json\<close>, written
  atomically in sorted order and read back, and the runs of the engine over it. The runs rely
  on the store through the contract \<open>notification_store\<close>, which the file store fulfils under
  every schedule of disk faults.
\<close>

section \<open>The document\<close>

definition incident_to_dict :: "incident \<Rightarrow> dict" where
  "incident_to_dict e =
     [(''schema_version'', JInt 1), (''id'', JStr (in_id e)), (''fingerprint'', JStr (in_fingerprint e)),
      (''rule_id'', JStr (in_rule_id e)), (''severity'', JStr (in_severity e)),
      (''title'', JStr (in_title e)), (''summary'', JStr (in_summary e)),
      (''source'', JStr (in_source e)), (''subject'', JStr (in_subject e)),
      (''first_seen'', JStr (in_first_seen e)), (''last_seen'', JStr (in_last_seen e)),
      (''occurrence_count'', JInt (in_occurrence_count e)), (''active'', JBool (in_active e)),
      (''acknowledged'', JBool (in_acknowledged e)), (''recovery_of'', JStr (in_recovery_of e)),
      (''test'', JBool (in_test e))] @
     (case in_acknowledged_at e of None \<Rightarrow> [] | Some t \<Rightarrow> [(''acknowledged_at'', JStr t)])"

definition need_str :: "dict \<Rightarrow> string \<Rightarrow> string res" where
  "need_str d k = (case dget d k of JStr s \<Rightarrow> Inr s | _ \<Rightarrow> Inl (Unmodelled k))"

definition need_bool :: "dict \<Rightarrow> string \<Rightarrow> bool res" where
  "need_bool d k = (case dget d k of JBool b \<Rightarrow> Inr b | _ \<Rightarrow> Inl (Unmodelled k))"

definition need_int :: "dict \<Rightarrow> string \<Rightarrow> int res" where
  "need_int d k = (case dget d k of JInt i \<Rightarrow> Inr i | _ \<Rightarrow> Inl (Unmodelled k))"

text \<open>The documents the engine writes; others are not modelled.\<close>

definition incident_from_dict :: "json \<Rightarrow> incident res" where
  "incident_from_dict v = and_then (want_dict v) (\<lambda>d.
     and_then (need_str d ''id'') (\<lambda>i. and_then (need_str d ''fingerprint'') (\<lambda>fp.
     and_then (need_str d ''rule_id'') (\<lambda>rid. and_then (need_str d ''severity'') (\<lambda>sev.
     and_then (need_str d ''title'') (\<lambda>ti. and_then (need_str d ''summary'') (\<lambda>su.
     and_then (need_str d ''source'') (\<lambda>so. and_then (need_str d ''subject'') (\<lambda>sb.
     and_then (need_str d ''first_seen'') (\<lambda>fs. and_then (need_str d ''last_seen'') (\<lambda>ls.
     and_then (need_int d ''occurrence_count'') (\<lambda>n. and_then (need_bool d ''active'') (\<lambda>ac.
     and_then (need_bool d ''acknowledged'') (\<lambda>ak. and_then (need_str d ''recovery_of'') (\<lambda>ro.
     and_then (need_bool d ''test'') (\<lambda>te. and_then (want_opt_str (dget d ''acknowledged_at'')) (\<lambda>aa.
     Inr \<lparr>in_id = i, in_fingerprint = fp, in_rule_id = rid, in_severity = sev, in_title = ti,
       in_summary = su, in_source = so, in_subject = sb, in_first_seen = fs, in_last_seen = ls,
       in_occurrence_count = n, in_active = ac, in_acknowledged = ak, in_recovery_of = ro,
       in_test = te, in_acknowledged_at = aa\<rparr>)))))))))))))))))"

definition delivery_from_dict :: "json \<Rightarrow> delivery res" where
  "delivery_from_dict v = and_then (want_dict v) (\<lambda>d.
     and_then (need_str d ''id'') (\<lambda>i. and_then (need_str d ''event_id'') (\<lambda>ev.
     and_then (need_str d ''channel'') (\<lambda>ch. and_then (need_str d ''status'') (\<lambda>st.
     and_then (need_str d ''attempted_at'') (\<lambda>at. and_then (want_opt_str (dget d ''delivered_at'')) (\<lambda>da.
     and_then (need_str d ''exception_type'') (\<lambda>ex. and_then (need_str d ''detail'') (\<lambda>de.
     Inr \<lparr>dl_id = i, dl_event_id = ev, dl_channel = ch, dl_status = st, dl_attempted_at = at,
       dl_delivered_at = da, dl_exception_type = ex, dl_detail = de\<rparr>)))))))))"

lemma incident_roundtrip [simp]: "incident_from_dict (JObj (incident_to_dict e)) = Inr e"
proof -
  have none: "k \<noteq> ''acknowledged_at'' \<Longrightarrow> map_of (case in_acknowledged_at e of None \<Rightarrow> []
      | Some t \<Rightarrow> [(''acknowledged_at'', JStr t)]) k = None" for k
    by (cases "in_acknowledged_at e") auto
  have at: "want_opt_str (dget (incident_to_dict e) ''acknowledged_at'') = Inr (in_acknowledged_at e)"
    by (cases "in_acknowledged_at e") (simp_all add: incident_to_dict_def dget_def)
  show ?thesis
    unfolding incident_from_dict_def want_dict_def json.case and_then_simps at
    by (simp add: need_str_def need_bool_def need_int_def incident_to_dict_def dget_def)
qed

lemma delivery_roundtrip [simp]: "delivery_from_dict (JObj (delivery_to_dict d)) = Inr d"
proof -
  have at: "want_opt_str (dget (delivery_to_dict d) ''delivered_at'') = Inr (dl_delivered_at d)"
    by (simp add: delivery_to_dict_def dget_def)
  show ?thesis
    unfolding delivery_from_dict_def want_dict_def json.case and_then_simps at
    by (simp add: need_str_def delivery_to_dict_def dget_def)
qed

definition state_document :: "notification_state \<Rightarrow> json" where
  "state_document st =
     JObj [(''schema_version'', JInt 1),
       (''active'', JObj (map (\<lambda>(k, e). (k, JObj (incident_to_dict e))) (ns_active st))),
       (''events'', JList (map (\<lambda>e. JObj (incident_to_dict e)) (ns_events st))),
       (''deliveries'', JList (map (\<lambda>d. JObj (delivery_to_dict d)) (ns_deliveries st)))]"

definition need :: "dict \<Rightarrow> string \<Rightarrow> json res" where
  "need d k = (case map_of d k of None \<Rightarrow> Inl (KeyError k) | Some v \<Rightarrow> Inr v)"

definition decode_state :: "dict \<Rightarrow> notification_state res" where
  "decode_state d =
     and_then (need d ''active'') (\<lambda>a. and_then (want_dict a) (\<lambda>active.
     and_then (need d ''events'') (\<lambda>e. and_then (need d ''deliveries'') (\<lambda>dl.
     and_then (map_res (\<lambda>(k, v). map_sum id (Pair k) (incident_from_dict v)) active) (\<lambda>act.
     and_then (map_res incident_from_dict (as_list e)) (\<lambda>evs.
     and_then (map_res delivery_from_dict (as_list dl)) (\<lambda>dls.
     Inr \<lparr>ns_active = act, ns_events = evs, ns_deliveries = dls\<rparr>)))))))"

lemma decode_state_document: "decode_state (as_dict (state_document st)) = Inr st"
proof -
  have a: "map_res (\<lambda>(k, v). map_sum id (Pair k) (incident_from_dict v))
      (map (\<lambda>(k, e). (k, JObj (incident_to_dict e))) (ns_active st)) = Inr (ns_active st)"
    by (rule map_res_map) auto
  have e: "map_res incident_from_dict (map (\<lambda>e. JObj (incident_to_dict e)) (ns_events st)) = Inr (ns_events st)"
    by (rule map_res_map) simp
  have d: "map_res delivery_from_dict (map (\<lambda>d. JObj (delivery_to_dict d)) (ns_deliveries st)) = Inr (ns_deliveries st)"
    by (rule map_res_map) simp
  show ?thesis
    by (simp add: state_document_def decode_state_def need_def want_dict_def a e d)
qed

section \<open>The file store\<close>

definition state_path :: "string \<Rightarrow> string" where
  "state_path root = root @ ''/notifications/state.json''"

definition store_read :: "string \<Rightarrow> store_disk \<Rightarrow> notification_state res" where
  "store_read root d = (case files d (Path (state_path root)) of
     Some (Doc (JObj v)) \<Rightarrow> decode_state v
   | _ \<Rightarrow> Inr empty_notifications)"

definition store_write :: "content schedule \<Rightarrow> string \<Rightarrow> notification_state \<Rightarrow> store_disk
    \<Rightarrow> store_disk \<times> unit res" where
  "store_write F root st d = atomic_write F (state_path root) (Doc (state_document (sort_state st))) d"

section \<open>Runs over a store\<close>

text \<open>
  \<open>evaluate\<close>, \<open>test\<close> and \<open>acknowledge\<close>: read, compute, write. A disabled engine evaluates
  nothing; a test is delivered also when the engine is disabled.
\<close>

definition evaluate_run :: "('d \<Rightarrow> notification_state res) \<Rightarrow> (notification_state \<Rightarrow> 'd \<Rightarrow> 'd \<times> unit res)
    \<Rightarrow> notification_env \<Rightarrow> dict \<Rightarrow> int \<Rightarrow> dict \<Rightarrow> json \<Rightarrow> 'd \<Rightarrow> 'd \<times> evaluation option res" where
  "evaluate_run load save env config now status doctor d =
     (if \<not> engine_enabled config then (d, Inr None)
      else case and_then (load d) (evaluate_state env config now status doctor) of
        Inl e \<Rightarrow> (d, Inl e)
      | Inr ev \<Rightarrow> map_prod id (map_sum id (\<lambda>_. Some ev)) (save (ev_state ev) d))"

definition test_run :: "('d \<Rightarrow> notification_state res) \<Rightarrow> (notification_state \<Rightarrow> 'd \<Rightarrow> 'd \<times> unit res)
    \<Rightarrow> notification_env \<Rightarrow> dict \<Rightarrow> int \<Rightarrow> 'd \<Rightarrow> 'd \<times> unit res" where
  "test_run load save env config now d =
     (case and_then (load d) (test_state env config now) of
        Inl e \<Rightarrow> (d, Inl e)
      | Inr st \<Rightarrow> save st d)"

definition acknowledge_run :: "('d \<Rightarrow> notification_state res) \<Rightarrow> (notification_state \<Rightarrow> 'd \<Rightarrow> 'd \<times> unit res)
    \<Rightarrow> (string \<Rightarrow> string) \<Rightarrow> string \<Rightarrow> string \<Rightarrow> 'd \<Rightarrow> 'd \<times> incident option res" where
  "acknowledge_run load save H nid at d =
     (case load d of
        Inl e \<Rightarrow> (d, Inl e)
      | Inr st \<Rightarrow> (case acknowledge_state H nid at st of
          (st', None) \<Rightarrow> (d, Inr None)
        | (st', Some e) \<Rightarrow> map_prod id (map_sum id (\<lambda>_. Some e)) (save st' d)))"

section \<open>The contract\<close>

locale notification_store =
  fixes load :: "'d \<Rightarrow> notification_state res"
    and save :: "notification_state \<Rightarrow> 'd \<Rightarrow> 'd \<times> unit res"
    and sound :: "'d \<Rightarrow> bool"
  assumes write_sound: "sound d \<Longrightarrow> sound (fst (save st d))"
    and read_after_write: "sound d \<Longrightarrow> snd (save st d) = Inr u \<Longrightarrow> load (fst (save st d)) = Inr (sort_state st)"
    and failed_write: "sound d \<Longrightarrow> snd (save st d) = Inl e \<Longrightarrow> load (fst (save st d)) = load d"
begin

lemma evaluate_run_sound: "sound d \<Longrightarrow> sound (fst (evaluate_run load save env config now status doctor d))"
  by (auto simp: evaluate_run_def write_sound split: sum.splits)

lemma evaluate_run_failed:
  "sound d \<Longrightarrow> evaluate_run load save env config now status doctor d = (d', Inl e) \<Longrightarrow> load d' = load d"
  by (auto simp: evaluate_run_def failed_write split: if_splits sum.splits)
     (metis failed_write fst_conv map_prod_simp map_sum.simps(1) prod.collapse snd_conv sum.exhaust_sel
       Inl_Inr_False id_apply map_sum.simps(2) prod.inject)

lemma evaluate_run_done:
  assumes "sound d" and "evaluate_run load save env config now status doctor d = (d', Inr (Some ev))"
  shows "\<exists>st. load d = Inr st \<and> engine_enabled config \<and> evaluate_state env config now status doctor st = Inr ev \<and>
    load d' = Inr (sort_state (ev_state ev))"
proof -
  from assms(2) have en: "engine_enabled config" by (auto simp: evaluate_run_def split: if_splits)
  from assms(2) obtain ev' where e: "and_then (load d) (evaluate_state env config now status doctor) = Inr ev'"
    and w: "map_prod id (map_sum id (\<lambda>_. Some ev')) (save (ev_state ev') d) = (d', Inr (Some ev))"
    by (auto simp: evaluate_run_def en split: sum.splits)
  obtain dw r where wr: "save (ev_state ev') d = (dw, r)" by (cases "save (ev_state ev') d")
  from w wr have "ev' = ev" "dw = d'" "\<exists>u. r = Inr u" by (cases r; simp)+
  with e en wr read_after_write [OF assms(1), of "ev_state ev"] show ?thesis
    by (auto simp: and_then_eq_Inr)
qed

end

lemma store_write_cases:
  assumes "clean_disk d"
  shows "store_write F root st d =
    (if F (ticks d) = No_Fault then
       (d\<lparr>ticks := Suc (ticks d), files := (files d)(Path (state_path root) \<mapsto> Doc (state_document (sort_state st)))\<rparr>, Inr ())
     else (d\<lparr>ticks := Suc (ticks d)\<rparr>, Inl io_error))"
  using assms by (simp add: store_write_def atomic_write_cases)

lemma store_read_written:
  "files d (Path (state_path root)) = Some (Doc (state_document st)) \<Longrightarrow> store_read root d = Inr st"
  using decode_state_document [of st] by (simp add: store_read_def state_document_def)

interpretation nstore: notification_store "store_read root" "store_write F root" clean_disk
proof
  show "clean_disk d \<Longrightarrow> clean_disk (fst (store_write F root st d))" for d st
    by (simp add: store_write_def atomic_write_clean)
  show "clean_disk d \<Longrightarrow> snd (store_write F root st d) = Inr u \<Longrightarrow>
      store_read root (fst (store_write F root st d)) = Inr (sort_state st)" for d st u
    by (auto simp: store_write_cases intro!: store_read_written split: if_splits)
  show "clean_disk d \<Longrightarrow> snd (store_write F root st d) = Inl e \<Longrightarrow>
      store_read root (fst (store_write F root st d)) = store_read root d" for d st e
    by (auto simp: store_write_cases store_read_def split: if_splits)
qed

end
