(* ===== verification/Notification_Properties.thy ===== *)
theory Notification_Properties
  imports Notification_Store
begin

text \<open>
  What makes the notification engine correct: the incidents it keeps active are exactly the
  current conditions, the event log and the active set agree in every reachable state, the
  transport's failures never touch incidents, and repeats are suppressed.
\<close>

section \<open>Delivery does not touch incidents\<close>

definition incidents_of :: "evaluation \<Rightarrow> (string \<times> incident) list \<times> incident list" where
  "incidents_of ev = (ns_active (ev_state ev), ns_events (ev_state ev))"

lemma send_incidents:
  "send env config now force e ev = Inr ev' \<Longrightarrow> incidents_of ev' = incidents_of ev \<and>
     ev_new ev' = ev_new ev \<and> ev_recoveries ev' = ev_recoveries ev"
  by (cases "deliver env config now force e (ns_deliveries (ev_state ev))")
     (auto simp: send_def incidents_of_def)

text \<open>The two loops of \<open>evaluate\<close>, as far as incidents are concerned.\<close>

definition raise_step :: "(string \<Rightarrow> string) \<Rightarrow> string \<Rightarrow> string \<times> condition
    \<Rightarrow> (string \<times> incident) list \<times> incident list \<Rightarrow> (string \<times> incident) list \<times> incident list" where
  "raise_step H at = (\<lambda>(fp, c) (act, evs). case map_of act fp of
       Some e \<Rightarrow> if cd_preserve_only c then (act, evs)
         else (AList.update fp (seen_again at e) act, replace_event (seen_again at e) evs)
     | None \<Rightarrow> (AList.update fp (new_incident H at c) act, evs @ [new_incident H at c]))"

definition clear_step :: "(string \<Rightarrow> string) \<Rightarrow> string \<Rightarrow> (string \<times> condition) list \<Rightarrow> string \<times> incident
    \<Rightarrow> (string \<times> incident) list \<times> incident list \<Rightarrow> (string \<times> incident) list \<times> incident list" where
  "clear_step H at conditions = (\<lambda>(fp, e) (act, evs). if map_of conditions fp \<noteq> None then (act, evs)
     else (AList.delete fp act, replace_event (ended at e) evs @ [recovery_of H at fp (ended at e)]))"

lemma handle_condition_incidents:
  assumes "handle_condition env config now x ev = Inr ev'"
  shows "incidents_of ev' = raise_step (en_hash env) (isoformat_z now) x (incidents_of ev)"
proof -
  obtain fp c where x: "x = (fp, c)" by (cases x)
  show ?thesis
  proof (cases "map_of (ns_active (ev_state ev)) fp")
    case None
    with assms have "send env config now True (new_incident (en_hash env) (isoformat_z now) c)
        (ev\<lparr>ev_state := (ev_state ev)\<lparr>ns_active := AList.update fp (new_incident (en_hash env) (isoformat_z now) c)
            (ns_active (ev_state ev)), ns_events := ns_events (ev_state ev) @ [new_incident (en_hash env) (isoformat_z now) c]\<rparr>,
          ev_new := ev_new ev @ [new_incident (en_hash env) (isoformat_z now) c]\<rparr>) = Inr ev'"
      by (simp add: handle_condition_def x Let_def)
    from send_incidents [OF this] None show ?thesis by (simp add: raise_step_def x incidents_of_def)
  next
    case (Some e)
    define ev1 where "ev1 = ev\<lparr>ev_state := (ev_state ev)\<lparr>ns_active := AList.update fp (seen_again (isoformat_z now) e)
        (ns_active (ev_state ev)), ns_events := replace_event (seen_again (isoformat_z now) e) (ns_events (ev_state ev))\<rparr>\<rparr>"
    from assms Some have "cd_preserve_only c \<and> ev' = ev \<or> \<not> cd_preserve_only c \<and>
        (ev' = ev1 \<or> send env config now False (seen_again (isoformat_z now) e) ev1 = Inr ev')"
      by (auto simp: handle_condition_def x Let_def ev1_def split: if_splits)
    then have "cd_preserve_only c \<and> ev' = ev \<or> \<not> cd_preserve_only c \<and> incidents_of ev' = incidents_of ev1"
      using send_incidents by blast
    with Some show ?thesis by (auto simp: raise_step_def x incidents_of_def ev1_def)
  qed
qed

lemma handle_recovery_incidents:
  assumes "handle_recovery env config now conditions x ev = Inr ev'"
  shows "incidents_of ev' = clear_step (en_hash env) (isoformat_z now) conditions x (incidents_of ev)"
proof -
  obtain fp e where x: "x = (fp, e)" by (cases x)
  show ?thesis
  proof (cases "map_of conditions fp")
    case None
    let ?e = "ended (isoformat_z now) e"
    let ?r = "recovery_of (en_hash env) (isoformat_z now) fp ?e"
    from None assms have "send env config now True ?r
        (ev\<lparr>ev_state := (ev_state ev)\<lparr>ns_active := AList.delete fp (ns_active (ev_state ev)),
            ns_events := replace_event ?e (ns_events (ev_state ev)) @ [?r]\<rparr>,
          ev_recoveries := ev_recoveries ev @ [?r]\<rparr>) = Inr ev'"
      by (simp add: handle_recovery_def x Let_def)
    from send_incidents [OF this] None show ?thesis by (simp add: clear_step_def x incidents_of_def)
  qed (use assms in \<open>simp add: handle_recovery_def clear_step_def x incidents_of_def\<close>)
qed

lemma evaluate_incidents:
  assumes "evaluate_state env config now status doctor st = Inr ev"
  obtains conditions where "run_conditions env config now status doctor st = Inr conditions"
    and "(ns_active (ev_state ev), ns_events (ev_state ev)) =
      fold (clear_step (en_hash env) (isoformat_z now) conditions) (sort_key fst (ns_active st))
        (fold (raise_step (en_hash env) (isoformat_z now)) (sort_key fst conditions) (ns_active st, ns_events st))"
proof -
  from assms obtain conditions ev1 where c: "run_conditions env config now status doctor st = Inr conditions"
    and 1: "fold_res (handle_condition env config now) (sort_key fst conditions)
        \<lparr>ev_state = st, ev_new = [], ev_recoveries = [], ev_deliveries = []\<rparr> = Inr ev1"
    and 2: "fold_res (handle_recovery env config now conditions) (sort_key fst (ns_active st)) ev1 = Inr ev"
    by (auto simp: evaluate_state_def and_then_eq_Inr)
  have "incidents_of ev1 = fold (raise_step (en_hash env) (isoformat_z now)) (sort_key fst conditions) (ns_active st, ns_events st)"
    using fold_res_simulates [OF 1, of incidents_of "raise_step (en_hash env) (isoformat_z now)"]
      handle_condition_incidents by (simp add: incidents_of_def)
  moreover have "incidents_of ev = fold (clear_step (en_hash env) (isoformat_z now) conditions) (sort_key fst (ns_active st)) (incidents_of ev1)"
    using fold_res_simulates [OF 2, of incidents_of "clear_step (en_hash env) (isoformat_z now) conditions"]
      handle_recovery_incidents by simp
  ultimately show thesis using that [OF c] by (simp add: incidents_of_def)
qed

section \<open>The active set\<close>

definition raised :: "(string \<Rightarrow> string) \<Rightarrow> string \<Rightarrow> condition \<Rightarrow> incident option \<Rightarrow> incident" where
  "raised H at c old = (case old of None \<Rightarrow> new_incident H at c
     | Some e \<Rightarrow> if cd_preserve_only c then e else seen_again at e)"

lemma map_of_raise_step:
  "map_of (fst (raise_step H at (fp, c) (act, evs))) = (map_of act)(fp \<mapsto> raised H at c (map_of act fp))"
  by (auto simp: raise_step_def raised_def update_conv' split: option.splits)

lemma map_of_raise_fold:
  "distinct (map fst cs) \<Longrightarrow> map_of (fst (fold (raise_step H at) cs s)) fp =
     (case map_of cs fp of None \<Rightarrow> map_of (fst s) fp | Some c \<Rightarrow> Some (raised H at c (map_of (fst s) fp)))"
proof (induction cs arbitrary: s)
  case (Cons x cs)
  obtain k c act evs where x: "x = (k, c)" and s: "s = (act, evs)" by (cases x, cases s)
  show ?case
    using Cons.prems Cons.IH [of "raise_step H at x s"]
    by (auto simp: x s map_of_raise_step split: option.splits dest: map_of_SomeD)
       (force dest: map_of_SomeD)
qed simp

lemma map_of_clear_step:
  "map_of (fst (clear_step H at conditions x s)) fp =
     (if fp = fst x \<and> map_of conditions fp = None then None else map_of (fst s) fp)"
  by (cases x; cases s) (auto simp: clear_step_def delete_conv')

lemma map_of_clear_fold:
  "map_of (fst (fold (clear_step H at conditions) xs s)) fp =
     (if fp \<in> fst ` set xs \<and> map_of conditions fp = None then None else map_of (fst s) fp)"
  by (induction xs arbitrary: s) (auto simp: map_of_clear_step)

lemma distinct_sort_key [simp]: "distinct (map fst (sort_key f xs)) = distinct (map fst xs)"
  by (rule mset_eq_imp_distinct_iff) simp

lemma map_of_sort_key: "distinct (map fst xs) \<Longrightarrow> map_of (sort_key f xs) = map_of xs"
  by (intro map_of_inject_set [THEN iffD2]) simp_all

lemma distinct_by_fingerprint: "distinct (map fst (by_fingerprint cs))"
proof -
  have "distinct (map fst m) \<Longrightarrow> distinct (map fst (fold (\<lambda>c m. AList.update (cd_fingerprint c) c m) cs m))" for m
    by (induction cs arbitrary: m) (auto simp: distinct_update)
  then show ?thesis by (simp add: by_fingerprint_def)
qed

lemma distinct_keep_doctor: "distinct (map fst cs) \<Longrightarrow> distinct (map fst (keep_doctor active cs))"
  unfolding keep_doctor_def
  by (induction active arbitrary: cs) (auto simp: distinct_update split: option.splits)

definition severe :: "int \<Rightarrow> string \<times> condition \<Rightarrow> bool" where
  "severe m = (\<lambda>(fp, c). case map_of SEVERITY_ORDER (cd_severity c) of None \<Rightarrow> False | Some n \<Rightarrow> n \<ge> m)"

lemma at_least_filter: "at_least m cs = Inr ds \<Longrightarrow> ds = filter (severe m) cs"
proof (induction cs arbitrary: ds)
  case (Cons x cs)
  obtain fp c where x: "x = (fp, c)" by (cases x)
  from Cons.prems show ?case
    by (cases "at_least m cs") (auto simp: x severe_def dest: Cons.IH split: option.splits if_splits)
qed simp

lemma run_conditions_distinct:
  "run_conditions env config now status doctor st = Inr cs \<Longrightarrow> distinct (map fst cs)"
  by (auto simp: run_conditions_def and_then_eq_Inr Let_def distinct_map_filter distinct_by_fingerprint
      distinct_keep_doctor dest!: at_least_filter split: if_splits)

text \<open>Which incidents a run leaves active.\<close>

lemma active_after:
  assumes "evaluate_state env config now status doctor st = Inr ev"
    and "distinct (map fst (ns_active st))"
  obtains conditions where "run_conditions env config now status doctor st = Inr conditions"
    and "map_of (ns_active (ev_state ev)) = (\<lambda>fp.
      case map_of conditions fp of None \<Rightarrow> None
      | Some c \<Rightarrow> Some (raised (en_hash env) (isoformat_z now) c (map_of (ns_active st) fp)))"
proof -
  from assms(1) obtain conditions where c: "run_conditions env config now status doctor st = Inr conditions"
    and ev: "(ns_active (ev_state ev), ns_events (ev_state ev)) =
      fold (clear_step (en_hash env) (isoformat_z now) conditions) (sort_key fst (ns_active st))
        (fold (raise_step (en_hash env) (isoformat_z now)) (sort_key fst conditions) (ns_active st, ns_events st))"
    by (rule evaluate_incidents)
  have d: "distinct (map fst conditions)" using c by (rule run_conditions_distinct)
  then have ds: "distinct (map fst (sort_key fst conditions))" by simp
  have "map_of (ns_active (ev_state ev)) fp = (case map_of conditions fp of None \<Rightarrow> None
      | Some c \<Rightarrow> Some (raised (en_hash env) (isoformat_z now) c (map_of (ns_active st) fp)))" for fp
  proof -
    have "map_of (ns_active (ev_state ev)) fp = map_of (fst (ns_active (ev_state ev), ns_events (ev_state ev))) fp"
      by simp
    also have "\<dots> = (if fp \<in> fst ` set (ns_active st) \<and> map_of conditions fp = None then None
        else case map_of conditions fp of None \<Rightarrow> map_of (ns_active st) fp
          | Some c \<Rightarrow> Some (raised (en_hash env) (isoformat_z now) c (map_of (ns_active st) fp)))"
      by (simp only: ev map_of_clear_fold map_of_raise_fold [OF ds] map_of_sort_key [OF d] set_sort fst_conv)
    also have "fp \<in> fst ` set (ns_active st) \<longleftrightarrow> map_of (ns_active st) fp \<noteq> None"
      by (simp add: map_of_eq_None_iff)
    finally show ?thesis
      by (cases "map_of conditions fp"; cases "map_of (ns_active st) fp") simp_all
  qed
  with c show thesis by (intro that) auto
qed

section \<open>The event log and the active set\<close>

definition log_ok :: "(string \<times> incident) list \<times> incident list \<Rightarrow> bool" where
  "log_ok = (\<lambda>(act, evs). distinct (map fst act) \<and> distinct (map in_id evs) \<and>
     (\<forall>(fp, e) \<in> set act. in_fingerprint e = fp) \<and>
     (\<forall>e. e \<in> set evs \<and> in_active e \<longleftrightarrow> (in_fingerprint e, e) \<in> set act))"

definition event_ids :: "(string \<times> incident) list \<times> incident list \<Rightarrow> string list" where
  "event_ids s = map in_id (snd s)"

lemma log_okD:
  assumes "log_ok (act, evs)" and "map_of act fp = Some e"
  shows "in_fingerprint e = fp" "e \<in> set evs" "in_active e"
  using assms map_of_SomeD [OF assms(2)] by (auto simp: log_ok_def)

lemma ids_replace [simp]: "map in_id (replace_event e evs) = map in_id evs"
  by (simp add: replace_event_def)

lemma in_replace:
  assumes "e \<in> set evs" and "distinct (map in_id evs)" and "in_id e' = in_id e"
  shows "x \<in> set (replace_event e' evs) \<longleftrightarrow> x = e' \<or> x \<in> set evs \<and> x \<noteq> e"
  using assms by (auto simp: replace_event_def distinct_map inj_on_def image_iff)

lemma seen_again_simps [simp]:
  "in_id (seen_again at e) = in_id e" "in_fingerprint (seen_again at e) = in_fingerprint e"
  "in_active (seen_again at e) = in_active e" "in_acknowledged (seen_again at e) = in_acknowledged e"
  by (simp_all add: seen_again_def)

lemma ended_simps [simp]:
  "in_id (ended at e) = in_id e" "in_fingerprint (ended at e) = in_fingerprint e"
  "\<not> in_active (ended at e)"
  by (simp_all add: ended_def)

lemma new_incident_simps [simp]:
  "in_fingerprint (new_incident H at c) = cd_fingerprint c" "in_active (new_incident H at c)"
  by (simp_all add: new_incident_def)

lemma recovery_of_simps [simp]:
  "in_fingerprint (recovery_of H at fp e) = fp" "\<not> in_active (recovery_of H at fp e)"
  by (simp_all add: recovery_of_def)

lemma in_update:
  "distinct (map fst act) \<Longrightarrow> (k, v) \<in> set (AList.update fp e act) \<longleftrightarrow> k = fp \<and> v = e \<or> k \<noteq> fp \<and> (k, v) \<in> set act"
  by (metis distinct_update fun_upd_apply map_of_eq_Some_iff option.inject update_conv')

lemma in_delete: "(k, v) \<in> set (AList.delete fp act) \<longleftrightarrow> k \<noteq> fp \<and> (k, v) \<in> set act"
  by (auto simp: AList.delete_eq)

lemma raise_step_ids: "\<exists>rest. event_ids (raise_step H at x s) = event_ids s @ rest"
  by (cases x; cases s) (auto simp: raise_step_def event_ids_def split: option.splits)

lemma clear_step_ids: "\<exists>rest. event_ids (clear_step H at conditions x s) = event_ids s @ rest"
  by (cases x; cases s) (auto simp: clear_step_def event_ids_def)

lemma raise_step_ok:
  assumes ok: "log_ok (act, evs)" and fp: "cd_fingerprint c = fp"
    and ids: "distinct (event_ids (raise_step H at (fp, c) (act, evs)))"
  shows "log_ok (raise_step H at (fp, c) (act, evs))"
proof (cases "map_of act fp")
  case None
  then have n: "(fp, e) \<notin> set act" for e by (metis map_of_eq_None_iff fst_conv image_eqI)
  have "new_incident H at c \<notin> set evs"
    using ids None by (auto simp: raise_step_def event_ids_def)
  have d: "distinct (map fst act)" using ok by (simp add: log_ok_def)
  have sync: "(x \<in> set (evs @ [new_incident H at c]) \<and> in_active x) =
      ((in_fingerprint x, x) \<in> set (AList.update fp (new_incident H at c) act))" for x
  proof -
    have "(x \<in> set evs \<and> in_active x) = ((in_fingerprint x, x) \<in> set act)"
      using ok by (simp add: log_ok_def)
    with n [of x] fp show ?thesis by (auto simp: in_update [OF d])
  qed
  have "\<forall>(k, x) \<in> set (AList.update fp (new_incident H at c) act). in_fingerprint x = k"
    using ok fp by (auto simp: in_update [OF d] log_ok_def)
  with sync d ids None show ?thesis
    by (simp add: raise_step_def log_ok_def event_ids_def distinct_update)
next
  case (Some e)
  note e = log_okD [OF ok Some]
  have d: "distinct (map fst act)" "distinct (map in_id evs)" using ok by (simp_all add: log_ok_def)
  have only: "x = e" if "x \<in> set evs" "in_active x" "in_fingerprint x = fp" for x
  proof -
    have "(fp, x) \<in> set act" using ok that by (auto simp: log_ok_def)
    with Some d(1) show ?thesis by (simp add: map_of_eq_Some_iff)
  qed
  show ?thesis
  proof (cases "cd_preserve_only c")
    case False
    have keys: "\<forall>(k, x) \<in> set (AList.update fp (seen_again at e) act). in_fingerprint x = k"
      using ok e(1) by (auto simp: in_update [OF d(1)] log_ok_def)
    have sync: "(x \<in> set (replace_event (seen_again at e) evs) \<and> in_active x) =
        ((in_fingerprint x, x) \<in> set (AList.update fp (seen_again at e) act))" for x
    proof -
      have "(x \<in> set evs \<and> in_active x) = ((in_fingerprint x, x) \<in> set act)"
        using ok by (simp add: log_ok_def)
      with only [of x] e show ?thesis
        by (auto simp: in_replace [OF e(2) d(2)] in_update [OF d(1)])
    qed
    from keys sync d Some False show ?thesis by (simp add: raise_step_def log_ok_def distinct_update)
  qed (use ok Some in \<open>simp add: raise_step_def\<close>)
qed

lemma clear_step_ok:
  assumes ok: "log_ok (act, evs)" and e: "map_of conditions fp = None \<Longrightarrow> map_of act fp = Some e"
    and ids: "distinct (event_ids (clear_step H at conditions (fp, e) (act, evs)))"
  shows "log_ok (clear_step H at conditions (fp, e) (act, evs))"
proof (cases "map_of conditions fp")
  case None
  note e = log_okD [OF ok e [OF None]] and Some = e [OF None]
  have d: "distinct (map fst act)" "distinct (map in_id evs)" using ok by (simp_all add: log_ok_def)
  have sync: "(x \<in> set (replace_event (ended at e) evs @ [recovery_of H at fp (ended at e)]) \<and> in_active x) =
      ((in_fingerprint x, x) \<in> set (AList.delete fp act))" for x
  proof -
    have eq: "(x \<in> set evs \<and> in_active x) = ((in_fingerprint x, x) \<in> set act)"
      using ok by (simp add: log_ok_def)
    have "(fp, x) \<in> set act \<longleftrightarrow> x = e" using Some d(1) map_of_eq_Some_iff [OF d(1), of fp x] by auto
    moreover have "e \<noteq> ended at e" "e \<noteq> recovery_of H at fp (ended at e)"
      using e(3) ended_simps(3) recovery_of_simps(2) by metis+
    ultimately show ?thesis using eq e(1,3)
      by (cases "x = e"; cases "in_fingerprint x = fp")
         (simp_all add: in_replace [OF e(2) d(2)] in_delete, auto)
  qed
  have keys: "\<forall>(k, x) \<in> set (AList.delete fp act). in_fingerprint x = k"
    using ok by (auto simp: in_delete log_ok_def)
  from keys sync d ids None show ?thesis by (simp add: clear_step_def log_ok_def event_ids_def distinct_delete)
qed (use ok in \<open>simp add: clear_step_def\<close>)

lemma fold_extends:
  assumes "\<And>x s. \<exists>rest. m (f x s) = m s @ rest"
  shows "\<exists>rest. m (fold f xs s) = m s @ rest"
proof (induction xs arbitrary: s)
  case (Cons x xs)
  obtain r1 where "m (f x s) = m s @ r1" using assms by blast
  moreover obtain r2 where "m (fold f xs (f x s)) = m (f x s) @ r2" using Cons by blast
  ultimately show ?case by simp
qed simp

lemma distinct_extends:
  assumes "\<And>x s. \<exists>rest. m (f x s) = m s @ rest" and "distinct (m (fold f xs s))"
  shows "distinct (m s)"
  using fold_extends [where m = m and f = f, OF assms(1), of xs s] assms(2) by auto

lemma raise_fold_ok:
  "log_ok s \<Longrightarrow> \<forall>(fp, c) \<in> set cs. cd_fingerprint c = fp \<Longrightarrow> distinct (event_ids (fold (raise_step H at) cs s)) \<Longrightarrow>
   log_ok (fold (raise_step H at) cs s)"
proof (induction cs arbitrary: s)
  case (Cons x cs)
  obtain fp c act evs where x: "x = (fp, c)" and s: "s = (act, evs)" by (cases x, cases s)
  from Cons.prems have "distinct (event_ids (raise_step H at x s))"
    by (auto intro: distinct_extends [where f = "raise_step H at" and xs = cs] raise_step_ids)
  then have "log_ok (raise_step H at x s)"
    using raise_step_ok [of act evs c fp H at] Cons.prems by (simp add: x s)
  with Cons show ?case by simp
qed simp

lemma clear_fold_ok:
  "log_ok s \<Longrightarrow> distinct (map fst xs) \<Longrightarrow>
   \<forall>(fp, e) \<in> set xs. map_of conditions fp = None \<longrightarrow> map_of (fst s) fp = Some e \<Longrightarrow>
   distinct (event_ids (fold (clear_step H at conditions) xs s)) \<Longrightarrow>
   log_ok (fold (clear_step H at conditions) xs s)"
proof (induction xs arbitrary: s)
  case (Cons x xs)
  obtain fp e act evs where x: "x = (fp, e)" and s: "s = (act, evs)" by (cases x, cases s)
  from Cons.prems have "distinct (event_ids (clear_step H at conditions x s))"
    by (auto intro: distinct_extends [where f = "clear_step H at conditions" and xs = xs] clear_step_ids)
  then have ok: "log_ok (clear_step H at conditions x s)"
    using clear_step_ok [of act evs conditions fp e H at] Cons.prems by (simp add: x s)
  have "\<forall>(k, e) \<in> set xs. map_of conditions k = None \<longrightarrow> map_of (fst (clear_step H at conditions x s)) k = Some e"
    using Cons.prems(2,3) by (force simp: map_of_clear_step x)
  from Cons.IH [OF ok _ this] Cons.prems show ?case by simp
qed simp

lemma set_update_sub: "x \<in> set (AList.update k v m) \<Longrightarrow> x = (k, v) \<or> x \<in> set m"
  by (induction m) (auto split: if_splits)

definition keyed :: "(string \<times> condition) list \<Rightarrow> bool" where
  "keyed cs = (\<forall>(fp, c) \<in> set cs. cd_fingerprint c = fp)"

lemma keyed_update: "keyed cs \<Longrightarrow> cd_fingerprint c = fp \<Longrightarrow> keyed (AList.update fp c cs)"
  using set_update_sub [of _ fp c cs] by (fastforce simp: keyed_def)

lemma keyed_keep_doctor:
  "keyed cs \<Longrightarrow> \<forall>(fp, e) \<in> set active. in_fingerprint e = fp \<Longrightarrow> keyed (keep_doctor active cs)"
  unfolding keep_doctor_def
proof (induction active arbitrary: cs)
  case (Cons a active)
  obtain fp e where a: "a = (fp, e)" by (cases a)
  have "cd_fingerprint c = fp" if "map_of cs fp = Some c" for c
    using Cons.prems(1) map_of_SomeD [OF that] by (auto simp: keyed_def)
  then have "keyed (if in_source e \<noteq> ''doctor'' then cs else case map_of cs fp of
       None \<Rightarrow> AList.update fp (preserved fp e) cs
     | Some c \<Rightarrow> AList.update fp (c\<lparr>cd_preserve_only := True\<rparr>) cs)"
    using Cons.prems by (auto simp: a preserved_def intro!: keyed_update split: option.splits)
  with Cons show ?case by (simp add: a)
qed simp

lemma keyed_by_fingerprint: "keyed (by_fingerprint cs)"
proof -
  have "keyed m \<Longrightarrow> keyed (fold (\<lambda>c m. AList.update (cd_fingerprint c) c m) cs m)" for m
    by (induction cs arbitrary: m) (simp_all add: keyed_update)
  from this [of "[]"] show ?thesis by (simp add: by_fingerprint_def keyed_def)
qed

lemma run_conditions_keyed:
  assumes "run_conditions env config now status doctor st = Inr cs"
    and "\<forall>(fp, e) \<in> set (ns_active st). in_fingerprint e = fp"
  shows "keyed cs"
proof -
  from assms(1) obtain m ds where "keyed ds" and "at_least m ds = Inr cs"
    using keyed_by_fingerprint keyed_keep_doctor [OF keyed_by_fingerprint assms(2)]
    by (auto simp: run_conditions_def and_then_eq_Inr Let_def split: if_splits)
  then show ?thesis by (auto simp: keyed_def dest!: at_least_filter)
qed

lemma evaluate_log_ok:
  assumes "evaluate_state env config now status doctor st = Inr ev"
    and ok: "log_ok (ns_active st, ns_events st)"
    and ids: "distinct (map in_id (ns_events (ev_state ev)))"
  shows "log_ok (ns_active (ev_state ev), ns_events (ev_state ev))"
proof -
  obtain cs where c: "run_conditions env config now status doctor st = Inr cs"
    and ev: "(ns_active (ev_state ev), ns_events (ev_state ev)) =
      fold (clear_step (en_hash env) (isoformat_z now) cs) (sort_key fst (ns_active st))
        (fold (raise_step (en_hash env) (isoformat_z now)) (sort_key fst cs) (ns_active st, ns_events st))"
    using assms(1) by (rule evaluate_incidents)
  let ?mid = "fold (raise_step (en_hash env) (isoformat_z now)) (sort_key fst cs) (ns_active st, ns_events st)"
  let ?fin = "fold (clear_step (en_hash env) (isoformat_z now) cs) (sort_key fst (ns_active st)) ?mid"
  have d: "distinct (map fst cs)" and da: "distinct (map fst (ns_active st))"
    using run_conditions_distinct [OF c] ok by (simp_all add: log_ok_def)
  have k: "keyed cs" using run_conditions_keyed [OF c] ok by (simp add: log_ok_def)
  have e: "distinct (event_ids ?fin)" using ids by (simp add: ev [symmetric] event_ids_def)
  have m: "distinct (event_ids ?mid)" by (rule distinct_extends [OF clear_step_ids e])
  have okm: "log_ok ?mid" by (rule raise_fold_ok [OF ok _ m]) (use k in \<open>simp add: keyed_def\<close>)
  have same: "\<forall>(fp, e) \<in> set (sort_key fst (ns_active st)). map_of cs fp = None \<longrightarrow> map_of (fst ?mid) fp = Some e"
    using da d by (auto simp: map_of_raise_fold map_of_sort_key map_of_eq_Some_iff)
  have "log_ok ?fin"
    by (rule clear_fold_ok [OF okm _ same e]) (use da in simp)
  then show ?thesis by (simp only: ev)
qed

lemma sort_log_ok:
  "log_ok (ns_active st, ns_events st) \<Longrightarrow> log_ok (ns_active (sort_state st), ns_events (sort_state st))"
proof -
  have "distinct (map in_id (sort_key f es)) = distinct (map in_id es)" for f :: "incident \<Rightarrow> string \<times> string" and es
    by (rule mset_eq_imp_distinct_iff) simp
  then show "log_ok (ns_active st, ns_events st) \<Longrightarrow> log_ok (ns_active (sort_state st), ns_events (sort_state st))"
    by (simp add: log_ok_def sort_state_def)
qed

lemma acknowledge_simps [simp]:
  "in_id (acknowledge_incident nid at e) = in_id e"
  "in_fingerprint (acknowledge_incident nid at e) = in_fingerprint e"
  "in_active (acknowledge_incident nid at e) = in_active e"
  by (simp_all add: acknowledge_incident_def)

lemma acknowledge_log_ok:
  assumes "log_ok (ns_active st, ns_events st)" and "acknowledge_state H nid at st = (st', r)"
  shows "log_ok (ns_active st', ns_events st')"
proof (cases "filter (\<lambda>e. in_id e = nid) (ns_events st)")
  case (Cons y ys)
  let ?a = "acknowledge_incident nid at"
  have st': "ns_active st' = map (map_prod id ?a) (ns_active st)" "ns_events st' = map ?a (ns_events st)"
    using assms(2) by (auto simp: acknowledge_state_def Cons)
  have sync: "(x \<in> ?a ` set (ns_events st) \<and> in_active x) = ((in_fingerprint x, x) \<in> map_prod id ?a ` set (ns_active st))" for x
  proof
    assume "x \<in> ?a ` set (ns_events st) \<and> in_active x"
    then obtain y where "x = ?a y" "y \<in> set (ns_events st)" "in_active y" by auto
    moreover from this have "(in_fingerprint y, y) \<in> set (ns_active st)" using assms(1) by (auto simp: log_ok_def)
    ultimately show "(in_fingerprint x, x) \<in> map_prod id ?a ` set (ns_active st)" by force
  next
    assume "(in_fingerprint x, x) \<in> map_prod id ?a ` set (ns_active st)"
    then obtain y where y: "x = ?a y" "(in_fingerprint x, y) \<in> set (ns_active st)" by auto
    then have "y \<in> set (ns_events st) \<and> in_active y"
      using assms(1) by (simp add: log_ok_def)
    with y show "x \<in> ?a ` set (ns_events st) \<and> in_active x" by auto
  qed
  have "in_id \<circ> ?a = in_id" "fst \<circ> map_prod id ?a = fst" by auto
  with sync assms(1) show ?thesis by (auto simp: log_ok_def st')
qed (use assms in \<open>simp add: acknowledge_state_def\<close>)

lemma test_incidents: "test_state env config now st = Inr st' \<Longrightarrow> ns_active st' = ns_active st \<and> ns_events st' = ns_events st"
  by (cases "deliver env config now True (test_event (en_hash env) (isoformat_z now)) (ns_deliveries st)")
     (auto simp: test_state_def)

section \<open>New incidents and recoveries\<close>

lemma handle_condition_lists:
  assumes "handle_condition env config now x ev = Inr ev'"
  shows "ev_recoveries ev' = ev_recoveries ev"
    and "ev_new ev' = ev_new ev @ (if map_of (ns_active (ev_state ev)) (fst x) = None
      then [new_incident (en_hash env) (isoformat_z now) (snd x)] else [])"
  using assms by (cases x; auto simp: handle_condition_def Let_def split: option.splits if_splits
      dest!: send_incidents)+

lemma handle_recovery_lists:
  assumes "handle_recovery env config now conditions x ev = Inr ev'"
  shows "ev_new ev' = ev_new ev"
    and "ev_recoveries ev' = ev_recoveries ev @ (if map_of conditions (fst x) = None
      then [recovery_of (en_hash env) (isoformat_z now) (fst x) (ended (isoformat_z now) (snd x))] else [])"
  using assms by (cases x; auto simp: handle_recovery_def Let_def split: if_splits
      dest!: send_incidents)+

lemma fold_append: "fold (\<lambda>x ys. ys @ (if P x then [f x] else [])) xs zs = zs @ map f (filter P xs)"
  by (induction xs arbitrary: zs) auto

lemma fold_id [simp]: "fold (\<lambda>x y. y) xs s = s"
  by (induction xs) auto

lemma evaluate_recoveries:
  assumes "evaluate_state env config now status doctor st = Inr ev"
    and "run_conditions env config now status doctor st = Inr conditions"
  shows "ev_recoveries ev = map (\<lambda>x. recovery_of (en_hash env) (isoformat_z now) (fst x) (ended (isoformat_z now) (snd x)))
    (filter (\<lambda>x. map_of conditions (fst x) = None) (sort_key fst (ns_active st)))"
proof -
  from assms obtain ev1 where
    1: "fold_res (handle_condition env config now) (sort_key fst conditions)
        \<lparr>ev_state = st, ev_new = [], ev_recoveries = [], ev_deliveries = []\<rparr> = Inr ev1"
    and 2: "fold_res (handle_recovery env config now conditions) (sort_key fst (ns_active st)) ev1 = Inr ev"
    by (auto simp: evaluate_state_def and_then_eq_Inr)
  have "ev_recoveries ev1 = []"
    using fold_res_simulates [OF 1, of ev_recoveries "\<lambda>x y. y"] handle_condition_lists(1) by simp
  with fold_res_simulates [OF 2, of ev_recoveries "\<lambda>x ys. ys @ (if map_of conditions (fst x) = None
      then [recovery_of (en_hash env) (isoformat_z now) (fst x) (ended (isoformat_z now) (snd x))] else [])"]
  show ?thesis using handle_recovery_lists(2) by (simp add: fold_append)
qed

section \<open>Delivery attempts\<close>

text \<open>Two runs that differ in the transport only make the same attempts.\<close>

definition same_attempt :: "delivery \<Rightarrow> delivery \<Rightarrow> bool" where
  "same_attempt d d' = (dl_event_id d = dl_event_id d' \<and> dl_channel d = dl_channel d' \<and>
     dl_attempted_at d = dl_attempted_at d' \<and>
     (dl_status d \<in> {''delivered'', ''failed''} \<longleftrightarrow> dl_status d' \<in> {''delivered'', ''failed''}))"

lemma fold_res_rel:
  "(\<And>x s t. x \<in> set xs \<Longrightarrow> R s t \<Longrightarrow> rel_sum (=) R (f x s) (g x t)) \<Longrightarrow> R s t \<Longrightarrow>
   rel_sum (=) R (fold_res f xs s) (fold_res g xs t)"
proof (induction xs arbitrary: s t)
  case (Cons x xs)
  have 1: "rel_sum (=) R (f x s) (g x t)" using Cons.prems by simp
  show ?case
  proof (cases "f x s")
    case (Inr s1)
    with 1 obtain t1 where t1: "g x t = Inr t1" "R s1 t1" by (cases "g x t") auto
    have "rel_sum (=) R (fold_res f xs s1) (fold_res g xs t1)"
      by (rule Cons.IH) (use Cons.prems t1 in auto)
    with Inr t1 show ?thesis by simp
  qed (use 1 in \<open>cases "g x t"; simp\<close>)
qed simp

lemma list_all2_filter_same:
  "list_all2 R xs ys \<Longrightarrow> (\<And>x y. R x y \<Longrightarrow> P x = P y) \<Longrightarrow> list_all2 R (filter P xs) (filter P ys)"
  by (induction rule: list_all2_induct) auto

lemma list_all2_last: "list_all2 R xs ys \<Longrightarrow> xs \<noteq> [] \<Longrightarrow> R (last xs) (last ys)"
  by (induction rule: list_all2_induct) auto

lemma suppressed_by_same:
  assumes "list_all2 same_attempt dls dls'"
  shows "suppressed_by tz now repeat (previous_attempts dls e ch) force =
    suppressed_by tz now repeat (previous_attempts dls' e ch) force"
proof -
  have r: "list_all2 same_attempt (previous_attempts dls e ch) (previous_attempts dls' e ch)"
    unfolding previous_attempts_def
    by (rule list_all2_filter_same [OF assms]) (auto simp: same_attempt_def)
  show ?thesis
  proof (cases "previous_attempts dls e ch = []")
    case False
    then have "dl_attempted_at (last (previous_attempts dls e ch)) = dl_attempted_at (last (previous_attempts dls' e ch))"
      using list_all2_last [OF r] by (simp add: same_attempt_def)
    moreover have "previous_attempts dls' e ch \<noteq> []" using False r by auto
    ultimately show ?thesis using False by (simp add: suppressed_by_def)
  qed (use r in simp)
qed

lemma delivery_statuses_ok:
  "dl_status d \<in> {''delivered'', ''failed'', ''suppressed''} \<Longrightarrow> delivery_post_init d = Inr d"
  by (auto simp: delivery_post_init_def delivery_statuses_def)

lemma attempt_Inr:
  assumes "suppressed_by (en_tz env) now repeat (previous_attempts dls e ch) force = Inr b"
  obtains d where "attempt env repeat now force e dls ch = Inr d"
    and "dl_event_id d = in_id e" "dl_channel d = channel_id ch" "dl_attempted_at d = isoformat_z now"
    and "dl_status d \<in> {''delivered'', ''failed''} \<longleftrightarrow> \<not> b"
proof -
  have "\<exists>d. attempt env repeat now force e dls ch = Inr d \<and> dl_event_id d = in_id e \<and>
      dl_channel d = channel_id ch \<and> dl_attempted_at d = isoformat_z now \<and>
      (dl_status d \<in> {''delivered'', ''failed''} \<longleftrightarrow> \<not> b)"
    by (cases "channel_deliver (en_io env (length dls)) ch e"; cases b)
       (simp_all add: attempt_def assms Let_def delivery_statuses_ok)
  then show thesis using that by blast
qed

lemma attempt_same:
  assumes "list_all2 same_attempt dls dls'"
  shows "rel_sum (=) same_attempt (attempt env repeat now force e dls ch)
    (attempt (env\<lparr>en_io := io\<rparr>) repeat now force e dls' ch)"
proof -
  let ?s = "suppressed_by (en_tz env) now repeat (previous_attempts dls e ch) force"
  have eq: "suppressed_by (en_tz (env\<lparr>en_io := io\<rparr>)) now repeat (previous_attempts dls' e ch) force = ?s"
    using suppressed_by_same [OF assms] by simp
  show ?thesis
  proof (cases ?s)
    case (Inl x)
    then show ?thesis using eq by (simp add: attempt_def)
  next
    case (Inr b)
    obtain d where "attempt env repeat now force e dls ch = Inr d" "dl_event_id d = in_id e"
        "dl_channel d = channel_id ch" "dl_attempted_at d = isoformat_z now"
        "dl_status d \<in> {''delivered'', ''failed''} \<longleftrightarrow> \<not> b"
      using Inr by (rule attempt_Inr)
    moreover obtain d' where "attempt (env\<lparr>en_io := io\<rparr>) repeat now force e dls' ch = Inr d'" "dl_event_id d' = in_id e"
        "dl_channel d' = channel_id ch" "dl_attempted_at d' = isoformat_z now"
        "dl_status d' \<in> {''delivered'', ''failed''} \<longleftrightarrow> \<not> b"
      using trans [OF eq Inr] by (rule attempt_Inr)
    ultimately show ?thesis by (simp add: same_attempt_def)
  qed
qed

lemma attempts_same:
  "list_all2 same_attempt dls dls' \<Longrightarrow> rel_sum (=) (list_all2 same_attempt)
     (attempts env repeat now force e dls chs) (attempts (env\<lparr>en_io := io\<rparr>) repeat now force e dls' chs)"
proof (induction chs arbitrary: dls dls')
  case (Cons ch chs)
  note 1 = attempt_same [OF Cons.prems, of env repeat now force e ch io]
  show ?case
  proof (cases "attempt env repeat now force e dls ch")
    case (Inr d)
    with 1 obtain d' where d': "attempt (env\<lparr>en_io := io\<rparr>) repeat now force e dls' ch = Inr d'" "same_attempt d d'"
      by (cases "attempt (env\<lparr>en_io := io\<rparr>) repeat now force e dls' ch") auto
    with Cons.prems have "list_all2 same_attempt (dls @ [d]) (dls' @ [d'])" by (simp add: list_all2_appendI)
    from Cons.IH [OF this] d' Inr show ?thesis
      by (cases "attempts env repeat now force e (dls @ [d]) chs";
          cases "attempts (env\<lparr>en_io := io\<rparr>) repeat now force e (dls' @ [d']) chs") auto
  qed (use 1 in \<open>cases "attempt (env\<lparr>en_io := io\<rparr>) repeat now force e dls' ch"; simp\<close>)
qed simp

definition same_run :: "evaluation \<Rightarrow> evaluation \<Rightarrow> bool" where
  "same_run ev ev' = (incidents_of ev = incidents_of ev' \<and> ev_new ev = ev_new ev' \<and>
     ev_recoveries ev = ev_recoveries ev' \<and>
     list_all2 same_attempt (ns_deliveries (ev_state ev)) (ns_deliveries (ev_state ev')))"

lemma send_same:
  assumes "same_run ev ev'"
  shows "rel_sum (=) same_run (send env config now force e ev) (send (env\<lparr>en_io := io\<rparr>) config now force e ev')"
proof -
  have l: "list_all2 same_attempt (ns_deliveries (ev_state ev)) (ns_deliveries (ev_state ev'))"
    using assms by (simp add: same_run_def)
  have "rel_sum (=) (list_all2 same_attempt) (deliver env config now force e (ns_deliveries (ev_state ev)))
      (deliver (env\<lparr>en_io := io\<rparr>) config now force e (ns_deliveries (ev_state ev')))"
    unfolding deliver_def
    by (cases "py_int (dget_or config ''repeat_suppression_seconds'' (JInt 3600))"; cases "channels_enabled config")
       (simp_all add: attempts_same [OF l])
  then show ?thesis
    using assms by (cases "deliver env config now force e (ns_deliveries (ev_state ev))";
        cases "deliver (env\<lparr>en_io := io\<rparr>) config now force e (ns_deliveries (ev_state ev'))")
       (auto simp: send_def same_run_def incidents_of_def list_all2_appendI)
qed

lemma handle_condition_same:
  assumes "same_run ev ev'"
  shows "rel_sum (=) same_run (handle_condition env config now x ev)
    (handle_condition (env\<lparr>en_io := io\<rparr>) config now x ev')"
proof -
  obtain fp c where x: "x = (fp, c)" by (cases x)
  have a: "ns_active (ev_state ev') = ns_active (ev_state ev)" "ns_events (ev_state ev') = ns_events (ev_state ev)"
      "ev_new ev' = ev_new ev" "ev_recoveries ev' = ev_recoveries ev"
      "list_all2 same_attempt (ns_deliveries (ev_state ev)) (ns_deliveries (ev_state ev'))"
    using assms by (simp_all add: same_run_def incidents_of_def)
  show ?thesis
  proof (cases "map_of (ns_active (ev_state ev)) fp")
    case None
    then show ?thesis unfolding handle_condition_def x prod.case Let_def a option.case
      by (simp, intro send_same) (simp add: same_run_def incidents_of_def a)
  next
    case (Some e)
    then show ?thesis unfolding handle_condition_def x prod.case Let_def a Some option.case
      by (auto simp: assms same_run_def incidents_of_def a intro!: send_same)
  qed
qed

lemma handle_recovery_same:
  assumes "same_run ev ev'"
  shows "rel_sum (=) same_run (handle_recovery env config now conditions x ev)
    (handle_recovery (env\<lparr>en_io := io\<rparr>) config now conditions x ev')"
proof -
  obtain fp c where x: "x = (fp, c)" by (cases x)
  have a: "ns_active (ev_state ev') = ns_active (ev_state ev)" "ns_events (ev_state ev') = ns_events (ev_state ev)"
      "ev_new ev' = ev_new ev" "ev_recoveries ev' = ev_recoveries ev"
      "list_all2 same_attempt (ns_deliveries (ev_state ev)) (ns_deliveries (ev_state ev'))"
    using assms by (simp_all add: same_run_def incidents_of_def)
  show ?thesis unfolding handle_recovery_def x prod.case Let_def a
    by (auto simp: assms same_run_def incidents_of_def a intro!: send_same)
qed

lemma evaluate_same:
  "rel_sum (=) same_run (evaluate_state env config now status doctor st)
     (evaluate_state (env\<lparr>en_io := io\<rparr>) config now status doctor st)"
proof -
  have c: "run_conditions (env\<lparr>en_io := io\<rparr>) config now status doctor st = run_conditions env config now status doctor st"
    by (simp add: run_conditions_def)
  let ?s = "\<lparr>ev_state = st, ev_new = [], ev_recoveries = [], ev_deliveries = []\<rparr>"
  have refl: "same_run ?s ?s" by (simp add: same_run_def list_all2_same same_attempt_def)
  show ?thesis
  proof (cases "run_conditions env config now status doctor st")
    case (Inr conditions)
    let ?f = "\<lambda>env. fold_res (handle_condition env config now) (sort_key fst conditions) ?s"
    have 1: "rel_sum (=) same_run (?f env) (?f (env\<lparr>en_io := io\<rparr>))"
      by (rule fold_res_rel [OF handle_condition_same refl])
    show ?thesis
    proof (cases "?f env")
      case (Inl e)
      with 1 have "?f (env\<lparr>en_io := io\<rparr>) = Inl e" by (cases "?f (env\<lparr>en_io := io\<rparr>)") auto
      with Inl Inr c show ?thesis by (simp add: evaluate_state_def)
    next
      case (Inr ev)
      with 1 obtain ev' where "?f (env\<lparr>en_io := io\<rparr>) = Inr ev'" "same_run ev ev'"
        by (cases "?f (env\<lparr>en_io := io\<rparr>)") auto
      with Inr \<open>run_conditions env config now status doctor st = Inr conditions\<close> c show ?thesis
        by (simp add: evaluate_state_def fold_res_rel [OF handle_recovery_same])
    qed
  qed (simp add: evaluate_state_def c)
qed

text \<open>Repeat suppression.\<close>

definition due :: "int \<Rightarrow> int \<Rightarrow> int \<Rightarrow> delivery list \<Rightarrow> bool" where
  "due tz now repeat prev = (prev = [] \<or> (\<exists>t u. fromisoformat (replace_z (dl_attempted_at (last prev))) = Some t \<and>
     to_utc t tz = Inr u \<and> now - u \<ge> repeat * 1000000))"

lemma not_suppressed_due: "suppressed_by tz now repeat prev False = Inr False \<Longrightarrow> due tz now repeat prev"
  by (cases "prev = []")
     (auto simp: suppressed_by_def due_def map_sum_def split: option.splits sum.splits)

lemma attempt_due:
  assumes "attempt env repeat now False e dls ch = Inr d" and "dl_status d \<in> {''delivered'', ''failed''}"
  shows "dl_channel d = channel_id ch \<and> due (en_tz env) now repeat (previous_attempts dls e ch)"
proof -
  from assms(1) obtain b where b: "suppressed_by (en_tz env) now repeat (previous_attempts dls e ch) False = Inr b"
    unfolding attempt_def and_then_eq_Inr by blast
  from attempt_Inr [OF b] obtain d' where "attempt env repeat now False e dls ch = Inr d'"
    "dl_channel d' = channel_id ch" "dl_status d' \<in> {''delivered'', ''failed''} \<longleftrightarrow> \<not> b" by metis
  with assms b show ?thesis by (auto dest: not_suppressed_due)
qed

lemma attempts_due:
  "attempts env repeat now False e dls chs = Inr ds \<Longrightarrow> distinct (map channel_id chs) \<Longrightarrow> d \<in> set ds \<Longrightarrow>
   dl_status d \<in> {''delivered'', ''failed''} \<Longrightarrow>
   \<exists>ch \<in> set chs. dl_channel d = channel_id ch \<and> due (en_tz env) now repeat (previous_attempts dls e ch)"
proof (induction chs arbitrary: dls ds)
  case (Cons c chs)
  from Cons.prems(1) obtain d1 rest where 1: "attempt env repeat now False e dls c = Inr d1"
    "attempts env repeat now False e (dls @ [d1]) chs = Inr rest" "ds = d1 # rest"
    by (auto simp: and_then_eq_Inr)
  have ch1: "dl_channel d1 = channel_id c"
    using 1(1) by (auto simp: attempt_def and_then_eq_Inr Let_def delivery_post_init_def split: if_splits option.splits)
  show ?case
  proof (cases "d = d1")
    case True
    with attempt_due [OF 1(1)] Cons.prems(4) show ?thesis by auto
  next
    case False
    then obtain ch where ch: "ch \<in> set chs" "dl_channel d = channel_id ch"
        "due (en_tz env) now repeat (previous_attempts (dls @ [d1]) e ch)"
      using Cons.IH [OF 1(2)] Cons.prems 1(3) by auto
    moreover have "previous_attempts (dls @ [d1]) e ch = previous_attempts dls e ch"
      using Cons.prems(2) ch(1) ch1 by (force simp: previous_attempts_def)
    ultimately show ?thesis by auto
  qed
qed simp

lemma channels_enabled_distinct: "channels_enabled config = Inr chs \<Longrightarrow> distinct (map channel_id chs)"
  by (auto simp: channels_enabled_def webhook_of_def and_then_eq_Inr Let_def map_sum_eq_Inr split: if_splits)

section \<open>Runs of the engine\<close>

text \<open>
  The states the store can hold: evaluations, acknowledgements and delivery tests in any
  order, each written in sorted order. An evaluation whose new event ids collide with older
  ones (the id is a truncated hash of fingerprint, instant and kind) is excluded.
\<close>

inductive notification_step :: "notification_state \<Rightarrow> notification_state \<Rightarrow> bool" where
  evaluated: "evaluate_state env config now status doctor st = Inr ev \<Longrightarrow>
    distinct (map in_id (ns_events (ev_state ev))) \<Longrightarrow> notification_step st (sort_state (ev_state ev))"
| acknowledged: "acknowledge_state H nid at st = (st', Some e) \<Longrightarrow> notification_step st (sort_state st')"
| tested: "test_state env config now st = Inr st' \<Longrightarrow> notification_step st (sort_state st')"

inductive notification_reachable :: "notification_state \<Rightarrow> bool" where
  start: "notification_reachable empty_notifications"
| step: "notification_reachable st \<Longrightarrow> notification_step st st' \<Longrightarrow> notification_reachable st'"

inductive_cases notification_stepE: "notification_step st st'"

lemma step_log_ok:
  "notification_step st st' \<Longrightarrow> log_ok (ns_active st, ns_events st) \<Longrightarrow> log_ok (ns_active st', ns_events st')"
  by (erule notification_stepE)
     (auto intro!: sort_log_ok intro: evaluate_log_ok acknowledge_log_ok dest: test_incidents)

lemma reachable_log_ok: "notification_reachable st \<Longrightarrow> log_ok (ns_active st, ns_events st)"
proof (induction rule: notification_reachable.induct)
  case (step st st')
  then show ?case by (blast intro: step_log_ok)
qed (simp add: log_ok_def empty_notifications_def)

definition ex_env :: notification_env where
  "ex_env = \<lparr>en_hash = \<lambda>s. s, en_tz = 0, en_io = \<lambda>_ _ _. Inr 200\<rparr>"

definition ex_config :: dict where
  "ex_config = [(''enabled'', JBool True), (''channels'', JObj [(''console'', JBool True)])]"

definition ex_now :: int where
  "ex_now = 739000 * day_us"

lemma ex_run: "map_sum id (\<lambda>ev. (length (ns_active (ev_state ev)), length (ev_new ev),
    map dl_status (ns_deliveries (ev_state ev)), distinct (map in_id (ns_events (ev_state ev)))))
    (evaluate_state ex_env ex_config ex_now [] JNull empty_notifications) = Inr (1, 1, [''delivered''], True)"
  by code_simp

lemma ex_evaluation:
  obtains ev where "evaluate_state ex_env ex_config ex_now [] JNull empty_notifications = Inr ev"
    and "length (ns_active (ev_state ev)) = 1" and "distinct (map in_id (ns_events (ev_state ev)))"
    and "map dl_status (ns_deliveries (ev_state ev)) = [''delivered'']"
  using ex_run by (auto simp: map_sum_eq_Inr)

section \<open>Properties\<close>

text \<open>
  C10. After an evaluation the active incidents are exactly the run's conditions: a known one is
  kept under its id with its count raised (or untouched when it is only preserved for want of a
  doctor report), a new one is opened, and every incident whose condition is gone is closed by
  exactly one recovery that names it.
\<close>

theorem active_incidents_follow_conditions:
  assumes "evaluate_state env config now status doctor st = Inr ev"
    and "distinct (map fst (ns_active st))"
  shows "\<exists>conditions. run_conditions env config now status doctor st = Inr conditions \<and>
    map_of (ns_active (ev_state ev)) = (\<lambda>fp. case map_of conditions fp of
        None \<Rightarrow> None
      | Some c \<Rightarrow> Some (case map_of (ns_active st) fp of
            None \<Rightarrow> new_incident (en_hash env) (isoformat_z now) c
          | Some e \<Rightarrow> if cd_preserve_only c then e else seen_again (isoformat_z now) e)) \<and>
    map in_recovery_of (ev_recoveries ev) =
      map (in_id \<circ> snd) (filter (\<lambda>x. map_of conditions (fst x) = None) (sort_key fst (ns_active st)))"
proof -
  obtain conditions where c: "run_conditions env config now status doctor st = Inr conditions"
    and a: "map_of (ns_active (ev_state ev)) = (\<lambda>fp. case map_of conditions fp of None \<Rightarrow> None
      | Some c \<Rightarrow> Some (raised (en_hash env) (isoformat_z now) c (map_of (ns_active st) fp)))"
    by (rule active_after [OF assms])
  from evaluate_recoveries [OF assms(1) c] have "map in_recovery_of (ev_recoveries ev) =
      map (in_id \<circ> snd) (filter (\<lambda>x. map_of conditions (fst x) = None) (sort_key fst (ns_active st)))"
    by (simp add: recovery_of_def comp_def)
  with a c show ?thesis unfolding raised_def by blast
qed

lemma active_incidents_follow_conditions_witness:
  "\<exists>ev. evaluate_state ex_env ex_config ex_now [] JNull empty_notifications = Inr ev \<and>
     map in_recovery_of (ev_recoveries ev) = [] \<and> dom (map_of (ns_active (ev_state ev))) \<noteq> {}"
proof -
  obtain ev where ev: "evaluate_state ex_env ex_config ex_now [] JNull empty_notifications = Inr ev"
    "length (ns_active (ev_state ev)) = 1" by (rule ex_evaluation)
  from active_incidents_follow_conditions [OF ev(1)] have "map in_recovery_of (ev_recoveries ev) = []"
    by (auto simp: empty_notifications_def)
  moreover have "dom (map_of (ns_active (ev_state ev))) \<noteq> {}" using ev(2) by (cases "ns_active (ev_state ev)") auto
  ultimately show ?thesis using ev(1) by blast
qed

text \<open>
  C11. In every state the engine can leave, the event log and the active set agree: fingerprints
  and event ids are unique, an active incident is filed under its own fingerprint, and the
  events marked active in the log are exactly the active incidents, acknowledgements included.
\<close>

theorem incident_log_consistent:
  assumes "notification_reachable st"
  shows "distinct (map fst (ns_active st)) \<and> distinct (map in_id (ns_events st)) \<and>
    (\<forall>fp e. (fp, e) \<in> set (ns_active st) \<longleftrightarrow> e \<in> set (ns_events st) \<and> in_active e \<and> in_fingerprint e = fp)"
  using reachable_log_ok [OF assms] by (auto simp: log_ok_def)

lemma incident_log_consistent_witness:
  "\<exists>st. notification_reachable st \<and> ns_active st \<noteq> [] \<and> distinct (map in_id (ns_events st))"
proof -
  obtain ev where ev: "evaluate_state ex_env ex_config ex_now [] JNull empty_notifications = Inr ev"
    "length (ns_active (ev_state ev)) = 1" "distinct (map in_id (ns_events (ev_state ev)))"
    by (rule ex_evaluation)
  then have r: "notification_reachable (sort_state (ev_state ev))"
    by (intro notification_reachable.step [OF notification_reachable.start] notification_step.evaluated)
  moreover have "ns_active (sort_state (ev_state ev)) \<noteq> []"
    using ev(2) by (auto simp: sort_state_def sort_key_Nil_iff)
  ultimately show ?thesis using incident_log_consistent [OF r] by blast
qed

text \<open>
  A failing transport never affects incidents: whatever the channels do, the same status
  evaluates to the same active incidents, events, new incidents and recoveries.
\<close>

theorem transport_never_affects_incidents:
  assumes "evaluate_state env config now status doctor st = Inr ev"
  shows "\<exists>ev'. evaluate_state (env\<lparr>en_io := io\<rparr>) config now status doctor st = Inr ev' \<and>
    ns_active (ev_state ev') = ns_active (ev_state ev) \<and> ns_events (ev_state ev') = ns_events (ev_state ev) \<and>
    ev_new ev' = ev_new ev \<and> ev_recoveries ev' = ev_recoveries ev"
  using evaluate_same [of env config now status doctor st io] assms
  by (cases "evaluate_state (env\<lparr>en_io := io\<rparr>) config now status doctor st")
     (auto simp: same_run_def incidents_of_def)

lemma transport_never_affects_incidents_witness:
  "\<exists>ev'. evaluate_state (ex_env\<lparr>en_io := \<lambda>_ _ _. Inl ''TimeoutError''\<rparr>) ex_config ex_now [] JNull
     empty_notifications = Inr ev' \<and> length (ns_active (ev_state ev')) = 1"
proof -
  obtain ev where ev: "evaluate_state ex_env ex_config ex_now [] JNull empty_notifications = Inr ev"
    "length (ns_active (ev_state ev)) = 1" by (rule ex_evaluation)
  from transport_never_affects_incidents [OF ev(1), of "\<lambda>_ _ _. Inl ''TimeoutError''"] ev(2)
  show ?thesis by auto
qed

text \<open>
  Repeats are suppressed: an incident that is seen again is sent over a channel only when
  the last attempt over that channel, successful or failed, is at least the configured number
  of seconds old.
\<close>

theorem repeats_suppressed:
  assumes "deliver env config now False event dls = Inr ds" and "d \<in> set ds"
    and "dl_status d \<in> {''delivered'', ''failed''}"
    and "py_int (dget_or config ''repeat_suppression_seconds'' (JInt 3600)) = Inr seconds"
  shows "\<exists>ch. dl_channel d = channel_id ch \<and> (previous_attempts dls event ch = [] \<or>
    (\<exists>t u. fromisoformat (replace_z (dl_attempted_at (last (previous_attempts dls event ch)))) = Some t \<and>
       to_utc t (en_tz env) = Inr u \<and> now - u \<ge> max 0 seconds * 1000000))"
proof -
  from assms(1,4) obtain chs where chs: "channels_enabled config = Inr chs"
    and ds: "attempts env (max 0 seconds) now False event dls chs = Inr ds"
    by (auto simp: deliver_def and_then_eq_Inr)
  from attempts_due [OF ds channels_enabled_distinct [OF chs] assms(2,3)] show ?thesis
    unfolding due_def by blast
qed

definition ex_incident :: incident where
  "ex_incident = test_event (\<lambda>s. s) ''2024-01-01T00:00:00Z''"

lemma repeats_suppressed_witness:
  "\<exists>ds. deliver ex_env ex_config ex_now False ex_incident [] = Inr ds \<and>
     (\<exists>d \<in> set ds. \<exists>ch. dl_channel d = channel_id ch \<and> previous_attempts [] ex_incident ch = [])"
proof -
  have "map_sum id (map dl_status) (deliver ex_env ex_config ex_now False ex_incident []) = Inr [''delivered'']"
    by code_simp
  then obtain ds where ds: "deliver ex_env ex_config ex_now False ex_incident [] = Inr ds"
    and st: "map dl_status ds = [''delivered'']" by (auto simp: map_sum_eq_Inr)
  from st obtain d where d: "d \<in> set ds" "dl_status d = ''delivered''" by (cases ds) auto
  from repeats_suppressed [OF ds d(1)] d(2) have "\<exists>ch. dl_channel d = channel_id ch"
    by (auto simp: ex_config_def dget_or_def)
  with ds d(1) show ?thesis by (auto simp: previous_attempts_def)
qed

text \<open>
  C12. A run is all or nothing on disk, under every schedule of disk faults: when it returns an
  evaluation, the stored state reads back as that evaluation's state in sorted order; when it
  fails, or the engine is disabled, the stored state reads as before.
\<close>

theorem notification_runs_persist:
  assumes "clean_disk d"
    and "evaluate_run (store_read root) (store_write F root) env config now status doctor d = (d', r)"
  shows "store_read root d' = (case r of
      Inr (Some ev) \<Rightarrow> Inr (sort_state (ev_state ev))
    | _ \<Rightarrow> store_read root d)"
proof (cases r)
  case (Inl e)
  with nstore.evaluate_run_failed [OF assms(1)] assms(2) show ?thesis by simp
next
  case (Inr res)
  show ?thesis
  proof (cases res)
    case None
    with Inr assms(2) have "d' = d"
      by (auto simp: evaluate_run_def map_sum_eq_Inr split: if_splits sum.splits)
         (metis map_sum_eq_Inr option.distinct(1) prod.collapse map_prod_simp prod.inject)
    with Inr None show ?thesis by simp
  next
    case (Some ev)
    with Inr assms(2) have "evaluate_run (store_read root) (store_write F root) env config now status doctor d = (d', Inr (Some ev))"
      by simp
    from nstore.evaluate_run_done [OF assms(1) this] Some Inr show ?thesis by auto
  qed
qed

lemma notification_runs_persist_witness:
  "store_read [] (fst (evaluate_run (store_read []) (store_write (\<lambda>_. Fail_Replace) []) ex_env ex_config ex_now [] JNull
     \<lparr>files = \<lambda>_. None, ticks = 0\<rparr>)) = Inr empty_notifications"
proof -
  let ?d = "\<lparr>files = \<lambda>_. None, ticks = 0\<rparr> :: store_disk"
  let ?r = "evaluate_run (store_read []) (store_write (\<lambda>_. Fail_Replace) []) ex_env ex_config ex_now [] JNull ?d"
  have c: "clean_disk ?d" by (simp add: clean_disk_def)
  obtain ev where ev: "evaluate_state ex_env ex_config ex_now [] JNull empty_notifications = Inr ev"
    by (rule ex_evaluation)
  have "store_read [] ?d = Inr empty_notifications" by (simp add: store_read_def)
  moreover have "snd ?r = Inl io_error"
    using ev c calculation
    by (simp add: evaluate_run_def engine_enabled_def ex_config_def dget_def store_write_cases)
  ultimately show ?thesis
    using notification_runs_persist [OF c, of "[]" "\<lambda>_. Fail_Replace" ex_env ex_config ex_now "[]" JNull] by (cases ?r) auto
qed

end
