(* ===== verification/Readiness.thy ===== *)
theory Readiness
  imports Py_Time
begin

text \<open>
  \<open>analysis/readiness/models.py\<close> and \<open>engine.py\<close>: the readiness document derived from the
  enabled collectors, their run records or the capability manifest, and the platform flags.
  Instants are microseconds; \<open>tz\<close> is the local offset in which naive timestamps are read.
\<close>

section \<open>States\<close>

datatype semantic_state =
  Healthy | Not_Configured | Waiting_First_Collection | Warning | Unavailable | Critical

fun semantic_name :: "semantic_state \<Rightarrow> string" where
  "semantic_name Healthy = ''healthy''"
| "semantic_name Not_Configured = ''not_configured''"
| "semantic_name Waiting_First_Collection = ''waiting_first_collection''"
| "semantic_name Warning = ''warning''"
| "semantic_name Unavailable = ''unavailable''"
| "semantic_name Critical = ''critical''"

fun precedence :: "semantic_state \<Rightarrow> int" where
  "precedence Healthy = 0"
| "precedence Not_Configured = 1"
| "precedence Waiting_First_Collection = 2"
| "precedence Warning = 3"
| "precedence Unavailable = 4"
| "precedence Critical = 5"

lemma precedence_inj: "precedence a = precedence b \<Longrightarrow> a = b"
  by (cases a; cases b) simp_all

instantiation semantic_state :: linorder
begin

definition less_eq_semantic_state :: "semantic_state \<Rightarrow> semantic_state \<Rightarrow> bool" where
  "less_eq_semantic_state a b = (precedence a \<le> precedence b)"

definition less_semantic_state :: "semantic_state \<Rightarrow> semantic_state \<Rightarrow> bool" where
  "less_semantic_state a b = (precedence a < precedence b)"

instance
  by standard (auto simp: less_eq_semantic_state_def less_semantic_state_def dest: precedence_inj)

end

record readiness_state =
  rs_state :: semantic_state
  rs_reason :: string
  rs_configured :: bool
  rs_enabled :: bool
  rs_first_run_completed :: bool
  rs_last_success :: json
  rs_stale :: bool
  rs_display_label :: string
  rs_operator_action :: string

definition readiness_to_dict :: "readiness_state \<Rightarrow> dict" where
  "readiness_to_dict r =
     [(''state'', JStr (semantic_name (rs_state r))), (''reason'', JStr (rs_reason r)),
      (''configured'', JBool (rs_configured r)), (''enabled'', JBool (rs_enabled r)),
      (''first_run_completed'', JBool (rs_first_run_completed r)), (''last_success'', rs_last_success r),
      (''stale'', JBool (rs_stale r)), (''display_label'', JStr (rs_display_label r)),
      (''operator_action'', JStr (rs_operator_action r))]"

definition mk_state :: "semantic_state \<Rightarrow> string \<Rightarrow> bool \<Rightarrow> bool \<Rightarrow> bool \<Rightarrow> json \<Rightarrow> bool \<Rightarrow> string \<Rightarrow> string
    \<Rightarrow> readiness_state" where
  "mk_state state reason configured enabled first_run last_success stale label action =
     \<lparr>rs_state = state, rs_reason = reason, rs_configured = configured, rs_enabled = enabled,
      rs_first_run_completed = first_run, rs_last_success = last_success, rs_stale = stale,
      rs_display_label = label, rs_operator_action = action\<rparr>"

text \<open>\<open>max\<close> keeps the first of several greatest states.\<close>

fun aggregate_readiness :: "readiness_state list \<Rightarrow> readiness_state res" where
  "aggregate_readiness [] = Inl (ValueError ''at least one readiness state is required'')"
| "aggregate_readiness (s # ss) =
     Inr (foldl (\<lambda>b x. if rs_state x > rs_state b then x else b) s ss)"

section \<open>Credentials\<close>

text \<open>The connector registry gives a name's credential fields; an unknown name is a \<open>KeyError\<close>.\<close>

definition enabled_names :: "dict \<Rightarrow> string list res" where
  "enabled_names config = and_then (want_dict (por (dget config ''collectors'') (JObj [])))
     (\<lambda>cs. Inr (map fst (filter (\<lambda>(k, v). is_obj v \<and> dget (as_dict v) ''enabled'' = JBool True) cs)))"

definition field_ready :: "(string \<Rightarrow> string option) \<Rightarrow> dict \<Rightarrow> bool" where
  "field_ready env fld = (\<not> truthy (dget fld ''required'') \<or>
     strip (case dget fld ''env'' of JStr n \<Rightarrow> (case env n of None \<Rightarrow> [] | Some v \<Rightarrow> v) | _ \<Rightarrow> []) \<noteq> [])"

definition credentials_ready :: "dict \<Rightarrow> (string \<Rightarrow> dict list option) \<Rightarrow> (string \<Rightarrow> string option) \<Rightarrow> bool res" where
  "credentials_ready config registry env = and_then (enabled_names config) (\<lambda>names.
     Inr (names \<noteq> [] \<and> list_all (\<lambda>n. case registry n of None \<Rightarrow> False
       | Some flds \<Rightarrow> list_all (field_ready env) flds) names))"

section \<open>Inputs\<close>

record readiness_inputs =
  ri_enabled :: "json list"
  ri_records :: "dict list"
  ri_manifest :: json
  ri_capabilities :: "string list"
  ri_assets :: "json list"
  ri_operations_generated :: bool
  ri_deployment_configured :: bool
  ri_platform_running :: bool
  ri_credentials_configured :: bool
  ri_demo :: bool
  ri_now :: int
  ri_stale_seconds :: int
  ri_tz :: int

definition enabled_of :: "readiness_inputs \<Rightarrow> string list" where
  "enabled_of i = usort (map py_str (ri_enabled i))"

definition manifest_statuses :: "(string \<times> string) list" where
  "manifest_statuses = [(''collected'', ''healthy''), (''partial'', ''warning''),
     (''failed'', ''failed''), (''unavailable'', ''warning''), (''not_yet_collected'', ''unknown'')]"

text \<open>A dictionary lookup by an arbitrary key; an unhashable key raises.\<close>

definition status_of_state :: "json \<Rightarrow> string res" where
  "status_of_state state = (case state of
     JStr s \<Rightarrow> Inr (case map_of manifest_statuses s of None \<Rightarrow> ''unknown'' | Some t \<Rightarrow> t)
   | JList _ \<Rightarrow> Inl (TypeError ''unhashable type'')
   | JObj _ \<Rightarrow> Inl (TypeError ''unhashable type'')
   | _ \<Rightarrow> Inr ''unknown'')"

definition manifest_record :: "dict \<Rightarrow> string \<Rightarrow> dict res" where
  "manifest_record manifest name =
     and_then (want_dict (dget_or manifest ''collectors'' (JObj []))) (\<lambda>cs.
     and_then (want_dict (dget_or cs name (JObj []))) (\<lambda>v.
     and_then (want_dict (dget_or v ''execution'' (JObj []))) (\<lambda>execution.
     (let state = por (dget execution ''state'') (dget v ''state'');
          raw = dget_or v ''last_collection'' (JObj []);
          collection = (if is_obj raw then as_dict raw
            else [(''observed_at'', raw), (''last_success'', dget v ''last_successful_collection'')])
      in and_then (status_of_state state) (\<lambda>status.
        Inr [(''collector'', JStr name), (''status'', JStr status),
          (''last_run'', dget collection ''observed_at''),
          (''last_successful_run'', dget collection ''last_success''),
          (''points_written'', dget collection ''points_written''),
          (''skip_reason'', dget collection ''skip_reason'')])))))"

definition run_records :: "readiness_inputs \<Rightarrow> dict list res" where
  "run_records i =
     (if \<not> truthy (ri_manifest i) then Inr (ri_records i)
      else and_then (want_dict (ri_manifest i)) (\<lambda>m. map_res (manifest_record m) (enabled_of i)))"

text \<open>The record of a collector: the last one with its name.\<close>

definition record_of :: "dict list \<Rightarrow> string \<Rightarrow> dict option" where
  "record_of records name =
     (case filter (\<lambda>r. dget r ''collector'' = JStr name) (rev records) of [] \<Rightarrow> None | r # _ \<Rightarrow> Some r)"

section \<open>Collectors\<close>

definition observed_stale :: "readiness_inputs \<Rightarrow> json \<Rightarrow> bool res" where
  "observed_stale i last_run =
     (case fromisoformat (replace_z (py_str last_run)) of
        None \<Rightarrow> Inr False
      | Some t \<Rightarrow> map_sum id (\<lambda>u. ri_now i - u > ri_stale_seconds i * 1000000) (to_utc t (ri_tz i)))"

definition run_readiness :: "dict \<Rightarrow> bool \<Rightarrow> readiness_state" where
  "run_readiness record stale =
     (let last_success = dget record ''last_successful_run''; last_run = dget record ''last_run'';
          status = casefold (py_str (por (dget record ''status'') (JStr ''unknown'')));
          good = (status \<in> {''healthy'', ''success''} \<or> truthy last_success)
      in if status = ''failed'' then
           mk_state Unavailable ''collection_failed'' True True (truthy last_run) last_success False
             ''Collection failed'' ''Run Doctor and inspect Collector Health.''
         else if stale \<or> status = ''stale'' then
           mk_state Unavailable ''collection_stale'' True True (truthy last_run) last_success True
             ''Collection stale'' ''Check daemon health and collector connectivity.''
         else if status = ''skipped'' then
           mk_state Unavailable ''runtime_or_scheduler_skip'' True True (truthy last_run) last_success False
             ''Collector skipped'' (''Review runtime placement and Collector Health: '' @
               py_str (por (dget record ''skip_reason'') (JStr ''skip reason unavailable'')) @ ''.'')
         else if status = ''warning'' then
           mk_state Warning ''collection_partial'' True True (truthy last_run) last_success False
             ''Collection warning'' ''Review Collector Health for partial results.''
         else if good \<and> py_eq (dget record ''points_written'') (JInt 0) then
           mk_state Waiting_First_Collection ''healthy_no_telemetry'' True True True
             (por last_success last_run) False ''No telemetry received''
             (''Collector healthy; waiting for supported data. '' @
              ''Review points written and capability availability.'')
         else if good then
           mk_state Healthy ''collection_current'' True True True (por last_success last_run) False
             ''Healthy'' ''No action required.''
         else
           mk_state Waiting_First_Collection ''no_successful_run'' True True (truthy last_run)
             last_success False ''Waiting for first success''
             ''Run collection and review Collector Health.'')"

definition collector_readiness :: "readiness_inputs \<Rightarrow> dict list \<Rightarrow> string \<Rightarrow> (string \<times> readiness_state) res" where
  "collector_readiness i records name =
     (case record_of records name of
        None \<Rightarrow> Inr (name, mk_state Waiting_First_Collection ''no_run_record'' True True False JNull False
          ''Waiting for first run'' ''Run collection and review Collector Health.'')
      | Some r \<Rightarrow> map_sum id (\<lambda>stale. (name, run_readiness r stale)) (observed_stale i (dget r ''last_run'')))"

definition demo_active :: "bool \<Rightarrow> readiness_state" where
  "demo_active enabled = mk_state Healthy ''demo_data_active'' True enabled True JNull False
     ''Demo data active'' ''No action required.''"

definition with_demo :: "bool \<Rightarrow> (string \<times> readiness_state) list \<Rightarrow> (string \<times> readiness_state) list" where
  "with_demo demo states = map (\<lambda>(n, s).
     (n, if demo \<and> rs_state s = Waiting_First_Collection then demo_active True else s)) states"

section \<open>Domains\<close>

definition first_success :: "readiness_state list \<Rightarrow> bool" where
  "first_success states = list_ex (\<lambda>s. truthy (rs_last_success s) \<or> rs_state s = Healthy) states"

definition latest_success :: "readiness_state list \<Rightarrow> json" where
  "latest_success states =
     (case map (\<lambda>s. py_str (rs_last_success s)) (filter (\<lambda>s. truthy (rs_last_success s)) states) of
        [] \<Rightarrow> JNull | x # xs \<Rightarrow> JStr (foldl max x xs))"

definition observability_readiness :: "bool \<Rightarrow> string list \<Rightarrow> readiness_state list \<Rightarrow> readiness_state" where
  "observability_readiness demo enabled states =
     (let kinds = rs_state ` set states; stale = list_ex rs_stale states in
      if demo \<and> enabled = [] then demo_active False
      else if enabled = [] then
        mk_state Not_Configured ''no_collectors_enabled'' False False False JNull False
          ''Monitoring not started'' ''Configure credentials and enable a collector.''
      else if Unavailable \<in> kinds \<and> kinds \<subseteq> {Unavailable} then
        mk_state Unavailable ''all_collectors_unavailable'' True True True (latest_success states) stale
          ''Collectors unavailable'' ''Run Doctor and inspect Collector Health.''
      else if Unavailable \<in> kinds \<or> Warning \<in> kinds then
        mk_state Warning ''collector_degradation'' True True (first_success states) (latest_success states)
          stale ''Warning'' ''Review Collector Health.''
      else if \<not> first_success states then
        mk_state Waiting_First_Collection ''no_successful_collection'' True True False JNull False
          ''Awaiting first collection'' ''Run collection and wait for the first successful result.''
      else
        mk_state Healthy ''collectors_current'' True True True (latest_success states) False
          ''Healthy'' ''No action required.'')"

definition infrastructure_readiness :: "bool \<Rightarrow> string list \<Rightarrow> readiness_state list \<Rightarrow> bool
    \<Rightarrow> readiness_state \<Rightarrow> readiness_state" where
  "infrastructure_readiness demo enabled states no_assets obs =
     (if demo \<and> enabled = [] then demo_active False
      else if rs_state obs = Not_Configured then
        mk_state Not_Configured ''discovery_not_configured'' False False False JNull False
          ''Discovery not configured'' ''Enable a collector to begin discovery.''
      else if rs_state obs \<in> {Waiting_First_Collection, Unavailable} then
        mk_state (rs_state obs) ''inventory_unavailable'' True True (rs_first_run_completed obs)
          (rs_last_success obs) (rs_stale obs)
          (if rs_state obs = Waiting_First_Collection then ''Waiting for inventory''
           else ''Inventory unavailable'') (rs_operator_action obs)
      else if no_assets then
        mk_state Waiting_First_Collection ''inventory_empty'' True True (first_success states)
          (latest_success states) False ''Waiting for inventory''
          ''Run discovery and confirm the collector returns assets.''
      else
        mk_state Healthy ''inventory_available'' True True True (latest_success states) False
          ''Healthy'' ''Review any operational findings.'')"

section \<open>The document\<close>

record onboarding_step =
  os_id :: string
  os_step :: int
  os_label :: string
  os_complete :: bool
  os_operator_action :: string

definition onboarding_steps :: "readiness_inputs \<Rightarrow> string list \<Rightarrow> bool \<Rightarrow> (string \<times> string \<times> bool \<times> string) list" where
  "onboarding_steps i enabled succeeded =
     [(''platform_services'', ''Platform services running'', ri_platform_running i,
       ''Run ./itp status; if services are stopped, run ./itp start.''),
      (''deployment'', ''Deployment configured'', ri_deployment_configured i,
       ''Run ./itp setup to complete deployment configuration.''),
      (''credentials'', ''Collector credentials configured'',
       ri_demo i \<or> (enabled \<noteq> [] \<and> ri_credentials_configured i),
       ''Add credentials to the ignored connector secret file.''),
      (''collector_enabled'', ''At least one collector enabled'', enabled \<noteq> [] \<or> ri_demo i,
       ''Enable one configured collector in discovery/config.yml.''),
      (''first_collection'', ''First successful collection completed'', succeeded \<or> ri_demo i,
       ''Run ./itp collect and review Collector Health.''),
      (''inventory'', ''Infrastructure inventory available'', ri_assets i \<noteq> [] \<or> ri_demo i,
       ''Run discovery and confirm inventory output.''),
      (''operations'', ''Operational analysis available'', ri_operations_generated i \<or> ri_demo i,
       ''Run ./itp operations after infrastructure state is available.'')]"

definition onboarding_of :: "(string \<times> string \<times> bool \<times> string) list \<Rightarrow> onboarding_step list" where
  "onboarding_of steps = map (\<lambda>(n, (ident, label, complete, action)).
     \<lparr>os_id = ident, os_step = n, os_label = label, os_complete = complete,
      os_operator_action = (if complete then ''Complete'' else action)\<rparr>)
     (zip (map (\<lambda>k. int k + 1) [0..<length steps]) steps)"

record readiness_document =
  rd_generated_at :: string
  rd_demo :: bool
  rd_enabled_collectors :: "string list"
  rd_capabilities :: "string list"
  rd_overall :: readiness_state
  rd_infrastructure :: readiness_state
  rd_observability :: readiness_state
  rd_collectors :: "(string \<times> readiness_state) list"
  rd_onboarding :: "onboarding_step list"

definition evaluate_readiness :: "readiness_inputs \<Rightarrow> readiness_document res" where
  "evaluate_readiness i =
     and_then (run_records i) (\<lambda>records.
     and_then (map_res (collector_readiness i records) (enabled_of i)) (\<lambda>found.
     (let enabled = enabled_of i; collectors = with_demo (ri_demo i) found; states = map snd collectors;
          obs = observability_readiness (ri_demo i) enabled states;
          infra = infrastructure_readiness (ri_demo i) enabled states (ri_assets i = []) obs
      in and_then (aggregate_readiness [obs, infra]) (\<lambda>overall.
        Inr \<lparr>rd_generated_at = isoformat_z (ri_now i), rd_demo = ri_demo i,
          rd_enabled_collectors = enabled, rd_capabilities = usort (ri_capabilities i),
          rd_overall = overall, rd_infrastructure = infra, rd_observability = obs,
          rd_collectors = collectors,
          rd_onboarding = onboarding_of (onboarding_steps i enabled (first_success states))\<rparr>))))"

definition onboarding_to_dict :: "onboarding_step \<Rightarrow> dict" where
  "onboarding_to_dict s =
     [(''id'', JStr (os_id s)), (''step'', JInt (os_step s)), (''label'', JStr (os_label s)),
      (''complete'', JBool (os_complete s)),
      (''state'', JStr (if os_complete s then ''complete'' else ''incomplete'')),
      (''operator_action'', JStr (os_operator_action s))]"

definition document_to_dict :: "readiness_document \<Rightarrow> dict" where
  "document_to_dict d =
     [(''schema_version'', JInt 1), (''generated_at'', JStr (rd_generated_at d)),
      (''demo'', JBool (rd_demo d)), (''enabled_collectors'', jstrs (rd_enabled_collectors d)),
      (''capabilities'', jstrs (rd_capabilities d)),
      (''overall'', JObj (readiness_to_dict (rd_overall d))),
      (''infrastructure'', JObj (readiness_to_dict (rd_infrastructure d))),
      (''observability'', JObj (readiness_to_dict (rd_observability d))),
      (''collectors'', JList (map (\<lambda>(n, s). JObj ((''collector'', JStr n) # readiness_to_dict s)) (rd_collectors d))),
      (''onboarding'', JList (map (\<lambda>s. JObj (onboarding_to_dict s)) (rd_onboarding d)))]"

section \<open>The zero-asset dashboard contract\<close>

definition zero_keys :: "string list" where
  "zero_keys =
     [''sites'', ''healthy_sites'', ''warning_sites'', ''critical_sites'', ''devices'', ''devices_online'',
      ''devices_offline'', ''actionable_warnings'', ''data_quality_findings'', ''collectors_healthy'',
      ''collectors_failed'', ''switches_total'', ''switches_online'', ''switches_offline'', ''aps_total'',
      ''aps_online'', ''aps_offline'', ''firewalls_total'', ''firewalls_healthy'', ''firewalls_offline'',
      ''servers_total'', ''servers_healthy'', ''servers_offline'', ''printers_total'',
      ''printers_healthy'', ''printers_offline'']"

definition empty_infrastructure_summary :: "readiness_document \<Rightarrow> dict" where
  "empty_infrastructure_summary d =
     (let health = [(''infrastructure_health'', JStr (rs_display_label (rd_infrastructure d))),
            (''observability_health'', JStr (rs_display_label (rd_observability d)))];
          zeros = map (\<lambda>k. (k, JInt 0))
      in [(''generated_at'', JStr (rd_generated_at d)), (''readiness'', JObj (document_to_dict d)),
          (''site_options'', JList []),
          (''scopes'', JList [JObj ([(''scope'', JStr ''all''), (''display_name'', JStr ''All Sites'')] @
             health @ zeros zero_keys)])] @
         health @ zeros (zero_keys @ [''warnings'', ''critical'']))"

section \<open>Evidence\<close>

lemma aggregate_two: "aggregate_readiness [a, b] = Inr (if rs_state b > rs_state a then b else a)"
  by simp

lemma healthy_least: "(s::semantic_state) \<ge> Healthy"
  by (cases s) (simp_all add: less_eq_semantic_state_def)

lemma aggregate_healthy:
  "aggregate_readiness [a, b] = Inr r \<Longrightarrow> rs_state r = Healthy \<Longrightarrow> rs_state a = Healthy \<and> rs_state b = Healthy"
  using healthy_least [of "rs_state a"] healthy_least [of "rs_state b"]
  by (cases "rs_state b > rs_state a") (auto simp: aggregate_two)

lemma mk_state_simps [simp]:
  "rs_state (mk_state a r c e f l s lb ac) = a" "rs_last_success (mk_state a r c e f l s lb ac) = l"
  "rs_stale (mk_state a r c e f l s lb ac) = s" "rs_reason (mk_state a r c e f l s lb ac) = r"
  by (simp_all add: mk_state_def)

lemma observability_healthy:
  assumes "rs_state (observability_readiness False enabled states) = Healthy"
  shows "enabled \<noteq> [] \<and> first_success states \<and> (\<forall>s \<in> set states. rs_state s \<notin> {Unavailable, Warning})"
proof -
  have "Unavailable \<notin> rs_state ` set states \<and> Warning \<notin> rs_state ` set states \<and> enabled \<noteq> [] \<and> first_success states"
    using assms by (simp add: observability_readiness_def Let_def split: if_splits)
  then show ?thesis by (metis image_eqI insertE singletonD)
qed

lemma infrastructure_healthy:
  assumes "rs_state (infrastructure_readiness False enabled states no_assets obs) = Healthy"
  shows "\<not> no_assets"
  using assms by (auto simp: infrastructure_readiness_def split: if_splits)

lemma run_readiness_kind:
  "rs_state (run_readiness r stale) = Healthy \<Longrightarrow> \<not> stale \<and>
     casefold (py_str (por (dget r ''status'') (JStr ''unknown''))) \<notin> {''failed'', ''stale'', ''skipped'', ''warning''} \<and>
     \<not> py_eq (dget r ''points_written'') (JInt 0)"
  by (auto simp: run_readiness_def Let_def split: if_splits)

lemma run_readiness_not_critical: "rs_state (run_readiness r stale) \<notin> {Critical, Not_Configured}"
  by (simp add: run_readiness_def Let_def)

lemma collectors_of:
  assumes "evaluate_readiness i = Inr d"
  obtains records found where "run_records i = Inr records"
    and "map_res (collector_readiness i records) (enabled_of i) = Inr found"
    and "rd_collectors d = with_demo (ri_demo i) found"
    and "rd_observability d = observability_readiness (ri_demo i) (enabled_of i) (map snd (rd_collectors d))"
    and "rd_infrastructure d = infrastructure_readiness (ri_demo i) (enabled_of i) (map snd (rd_collectors d))
      (ri_assets i = []) (rd_observability d)"
    and "aggregate_readiness [rd_observability d, rd_infrastructure d] = Inr (rd_overall d)"
proof -
  from assms obtain records found where "run_records i = Inr records"
    "map_res (collector_readiness i records) (enabled_of i) = Inr found"
    by (auto simp: evaluate_readiness_def and_then_eq_Inr)
  moreover from this assms have "rd_collectors d = with_demo (ri_demo i) found"
    "rd_observability d = observability_readiness (ri_demo i) (enabled_of i) (map snd (rd_collectors d))"
    "rd_infrastructure d = infrastructure_readiness (ri_demo i) (enabled_of i) (map snd (rd_collectors d))
      (ri_assets i = []) (rd_observability d)"
    "aggregate_readiness [rd_observability d, rd_infrastructure d] = Inr (rd_overall d)"
    by (auto simp: evaluate_readiness_def Let_def and_then_eq_Inr)
  ultimately show thesis by (rule that)
qed

lemma with_demo_False [simp]: "with_demo False xs = xs"
  by (induction xs) (auto simp: with_demo_def)

lemma collector_names: "map_res (collector_readiness i records) names = Inr found \<Longrightarrow> map fst found = names"
proof -
  assume "map_res (collector_readiness i records) names = Inr found"
  then have "list_all2 (\<lambda>n c. collector_readiness i records n = Inr c) names found"
    by (simp add: map_res_Inr_iff)
  then show ?thesis
    by (induction rule: list_all2_induct)
       (auto simp: collector_readiness_def map_sum_eq_Inr split: option.splits)
qed

lemma healthy_collector:
  assumes "collector_readiness i records n = Inr (n', s)" and "rs_state s = Healthy"
  shows "\<exists>r. record_of records n = Some r \<and> observed_stale i (dget r ''last_run'') = Inr False \<and>
    casefold (py_str (por (dget r ''status'') (JStr ''unknown''))) \<notin> {''failed'', ''stale'', ''skipped'', ''warning''} \<and>
    \<not> py_eq (dget r ''points_written'') (JInt 0)"
proof (cases "record_of records n")
  case (Some r)
  with assms(1) obtain stale where st: "observed_stale i (dget r ''last_run'') = Inr stale" "s = run_readiness r stale"
    by (auto simp: collector_readiness_def map_sum_eq_Inr)
  with assms(2) run_readiness_kind [of r stale] Some show ?thesis by simp
qed (use assms in \<open>auto simp: collector_readiness_def\<close>)

lemma collector_states:
  assumes "collector_readiness i records n = Inr (n', s)"
  shows "rs_state s \<notin> {Critical, Not_Configured}"
  using assms run_readiness_not_critical
  by (auto simp: collector_readiness_def map_sum_eq_Inr split: option.splits)

section \<open>Properties\<close>

text \<open>
  C13. Readiness never overclaims: outside demo mode the platform is reported healthy only when
  the inventory is not empty, some collector has succeeded, and every enabled collector is
  listed and is healthy or still waiting for its first data; a collector is reported healthy
  only on a current run record that did not fail, warn, go stale, get skipped or write nothing.
\<close>

theorem readiness_never_overclaims:
  assumes "evaluate_readiness i = Inr d" and "\<not> ri_demo i" and "rs_state (rd_overall d) = Healthy"
  shows "ri_assets i \<noteq> [] \<and> map fst (rd_collectors d) = enabled_of i \<and> enabled_of i \<noteq> [] \<and>
    first_success (map snd (rd_collectors d)) \<and>
    (\<exists>records. run_records i = Inr records \<and>
      (\<forall>(n, s) \<in> set (rd_collectors d). rs_state s = Waiting_First_Collection \<or>
        (rs_state s = Healthy \<and>
         (\<exists>r. record_of records n = Some r \<and> observed_stale i (dget r ''last_run'') = Inr False \<and>
           casefold (py_str (por (dget r ''status'') (JStr ''unknown''))) \<notin>
             {''failed'', ''stale'', ''skipped'', ''warning''} \<and>
           \<not> py_eq (dget r ''points_written'') (JInt 0)))))"
proof -
  obtain records found where r: "run_records i = Inr records"
    and f: "map_res (collector_readiness i records) (enabled_of i) = Inr found"
    and c: "rd_collectors d = with_demo (ri_demo i) found"
    and o: "rd_observability d = observability_readiness (ri_demo i) (enabled_of i) (map snd (rd_collectors d))"
    and n: "rd_infrastructure d = infrastructure_readiness (ri_demo i) (enabled_of i) (map snd (rd_collectors d))
      (ri_assets i = []) (rd_observability d)"
    and a: "aggregate_readiness [rd_observability d, rd_infrastructure d] = Inr (rd_overall d)"
    using assms(1) by (rule collectors_of)
  from aggregate_healthy [OF a assms(3)]
  have h: "rs_state (rd_observability d) = Healthy" "rs_state (rd_infrastructure d) = Healthy" by simp_all
  have ob: "enabled_of i \<noteq> [] \<and> first_success (map snd (rd_collectors d)) \<and>
      (\<forall>s \<in> set (map snd (rd_collectors d)). rs_state s \<notin> {Unavailable, Warning})"
    by (rule observability_healthy) (use h(1) o assms(2) in simp)
  have inf: "\<not> ri_assets i = []"
    by (rule infrastructure_healthy) (use h(2) n assms(2) in simp)
  have cf: "rd_collectors d = found" using c assms(2) by simp
  have each: "rs_state s = Waiting_First_Collection \<or> (rs_state s = Healthy \<and>
      (\<exists>r. record_of records m = Some r \<and> observed_stale i (dget r ''last_run'') = Inr False \<and>
        casefold (py_str (por (dget r ''status'') (JStr ''unknown''))) \<notin>
          {''failed'', ''stale'', ''skipped'', ''warning''} \<and> \<not> py_eq (dget r ''points_written'') (JInt 0)))"
    if "(m, s) \<in> set (rd_collectors d)" for m s
  proof -
    from map_res_Inr_mem [OF f] that cf obtain k where k: "collector_readiness i records k = Inr (m, s)" by auto
    then have km: "k = m" by (auto simp: collector_readiness_def map_sum_eq_Inr split: option.splits)
    have "rs_state s \<noteq> Unavailable" "rs_state s \<noteq> Warning" using ob that by force+
    then show ?thesis using collector_states [OF k] healthy_collector [OF k] km by (cases "rs_state s") auto
  qed
  with r ob inf collector_names [OF f] cf show ?thesis by blast
qed

definition ex_readiness :: readiness_inputs where
  "ex_readiness = \<lparr>ri_enabled = [JStr ''mist''],
     ri_records = [[(''collector'', JStr ''mist''), (''status'', JStr ''healthy''), (''last_run'', JStr ''2024-01-01T00:00:00Z'')]],
     ri_manifest = JNull, ri_capabilities = [], ri_assets = [JObj []], ri_operations_generated = True,
     ri_deployment_configured = True, ri_platform_running = True, ri_credentials_configured = True,
     ri_demo = False, ri_now = (ymd2ord 2024 1 1 - 1) * day_us, ri_stale_seconds = 900, ri_tz = 0\<rparr>"

lemma readiness_never_overclaims_witness:
  "\<exists>d. evaluate_readiness ex_readiness = Inr d \<and> first_success (map snd (rd_collectors d))"
proof -
  have "map_sum id (\<lambda>d. rs_state (rd_overall d)) (evaluate_readiness ex_readiness) = Inr Healthy"
    by code_simp
  then obtain d where d: "evaluate_readiness ex_readiness = Inr d" "rs_state (rd_overall d) = Healthy"
    by (auto simp: map_sum_eq_Inr)
  from readiness_never_overclaims [OF d(1) _ d(2)] d(1) show ?thesis by (auto simp: ex_readiness_def)
qed

end
