(* ===== verification/Scheduler.thy ===== *)
theory Scheduler
  imports Py_Time
begin

text \<open>
  \<open>collectors/scheduler.py\<close>: the scheduler's state document, the record of one phase's
  outcome, the execution of a phase under the collector's lock, and the start-up sequence.
  Collectors are known by their names. A phase suspends while the collector works and while
  its health point is written; between those points the event loop runs nothing else, so an
  execution is three atomic steps: begin (or skip), finish, release. Instants are microseconds;
  a deadline is the clock plus the interval in microseconds.
\<close>

section \<open>State\<close>

datatype phase = Discover | Collect

fun state_phase :: "phase \<Rightarrow> string" where
  "state_phase Discover = ''discovery''"
| "state_phase Collect = ''collection''"

datatype lifecycle =
  Starting | Initial_Discovery | Initial_Collection | Ready | Degraded | Stopping | Stopped

datatype run_status = Succeeded | Failed | Skipped

record outcome =
  oc_connector :: string
  oc_status :: run_status
  oc_duration_ms :: int
  oc_value :: json
  oc_exception_type :: string
  oc_reason :: string
  oc_diagnostic :: json
  oc_run_id :: string

text \<open>
  The entries of a connector's state that belong to one phase
  (\<open>consecutive_<phase>_failures\<close>, \<open>last_<phase>_...\<close>, \<open>current_<phase>_skip_reason\<close>).
\<close>

record connector_phase =
  cp_failures :: int
  cp_error_class :: "string option"
  cp_error_summary :: "string option"
  cp_diagnostic :: json
  cp_skip_reason :: "string option"
  cp_attempt :: "string option"
  cp_outcome :: "run_status option"
  cp_duration_ms :: "int option"
  cp_result :: dict
  cp_last_successful :: "string option"

record connector_state =
  ct_phase :: "phase \<Rightarrow> connector_phase"
  ct_last_failure :: "string option"
  ct_error_class :: "string option"
  ct_error_summary :: "string option"

text \<open>The root entries of one phase.\<close>

record root_phase =
  rp_attempt :: "string option"
  rp_successful :: "string option"
  rp_outcome :: "run_status option"
  rp_duration_ms :: "int option"
  rp_next_run :: "string option"
  rp_failures :: int

record scheduler_state =
  ss_lifecycle :: lifecycle
  ss_started_at :: "string option"
  ss_ready_at :: "string option"
  ss_initial_discovery :: "string \<times> int option"
  ss_initial_collection :: "string \<times> int option"
  ss_phase :: "phase \<Rightarrow> root_phase"
  ss_next_runs :: "phase \<Rightarrow> (string \<times> string) list"
  ss_last_skipped_run :: "string option"
  ss_last_skip_reason :: "string option"
  ss_last_failure :: "string option"
  ss_active_phase :: "string option"
  ss_current_run_id :: "string option"
  ss_error_class :: "string option"
  ss_error_summary :: "string option"
  ss_diagnostic :: json
  ss_connectors :: "(string \<times> connector_state) list"
  ss_updated_at :: "string option"

definition new_connector_phase :: connector_phase where
  "new_connector_phase =
     \<lparr>cp_failures = 0, cp_error_class = None, cp_error_summary = None, cp_diagnostic = JNull,
      cp_skip_reason = None, cp_attempt = None, cp_outcome = None, cp_duration_ms = None,
      cp_result = [], cp_last_successful = None\<rparr>"

definition new_connector :: connector_state where
  "new_connector = \<lparr>ct_phase = \<lambda>_. new_connector_phase, ct_last_failure = None,
     ct_error_class = None, ct_error_summary = None\<rparr>"

text \<open>\<open>defaults\<close>; an outcome of \<open>None\<close> is the text \<open>never_run\<close>.\<close>

definition default_state :: scheduler_state where
  "default_state =
     \<lparr>ss_lifecycle = Stopped, ss_started_at = None, ss_ready_at = None,
      ss_initial_discovery = (''not_run'', None), ss_initial_collection = (''not_run'', None),
      ss_phase = \<lambda>_. \<lparr>rp_attempt = None, rp_successful = None, rp_outcome = None, rp_duration_ms = None,
        rp_next_run = None, rp_failures = 0\<rparr>,
      ss_next_runs = \<lambda>_. [], ss_last_skipped_run = None, ss_last_skip_reason = None,
      ss_last_failure = None, ss_active_phase = None, ss_current_run_id = None,
      ss_error_class = None, ss_error_summary = None, ss_diagnostic = JNull, ss_connectors = [],
      ss_updated_at = None\<rparr>"

section \<open>Recording an outcome\<close>

definition opt_of :: "string \<Rightarrow> string option" where
  "opt_of s = (if s = [] then None else Some s)"

definition is_scalar :: "json \<Rightarrow> bool" where
  "is_scalar v = (case v of JList _ \<Rightarrow> False | JObj _ \<Rightarrow> False | _ \<Rightarrow> True)"

definition allowed_states :: "string list" where
  "allowed_states = [''collected'', ''not_yet_collected'', ''disabled'', ''unavailable'', ''failed'',
     ''partial'', ''not_applicable'']"

definition allowed_endpoint_states :: "string list" where
  "allowed_endpoint_states = [''collected'', ''endpoint_disabled'', ''invalid_response'',
     ''insufficient_permissions'', ''api_unavailable'', ''unsupported_endpoint'']"

text \<open>The keys of the persisted evidence, in the order of \<open>sorted\<close>.\<close>

definition safe_keys :: "string list" where
  "safe_keys = [''assets_returned'', ''devices_returned'', ''partial'', ''points_written'',
     ''records_returned'', ''status'']"

definition safe_scalars :: "dict \<Rightarrow> dict" where
  "safe_scalars result = concat (map (\<lambda>k. case map_of result k of
     None \<Rightarrow> [] | Some v \<Rightarrow> if is_scalar v then [(k, v)] else []) safe_keys)"

definition safe_states :: "dict \<Rightarrow> dict" where
  "safe_states states = map (\<lambda>(k, v). (k, JStr (py_str v)))
     (filter (\<lambda>(k, v). py_str v \<in> set allowed_states) (sort_key fst states))"

fun safe_resources :: "dict \<Rightarrow> dict" where
  "safe_resources [] = []"
| "safe_resources ((k, JInt n) # rest) = (k, JInt (max 0 n)) # safe_resources rest"
| "safe_resources ((k, v) # rest) = safe_resources rest"

definition safe_endpoint :: "string \<times> json \<Rightarrow> dict res" where
  "safe_endpoint = (\<lambda>(k, v).
     (if is_obj v \<and> py_str (dget (as_dict v) ''state'') \<in> set allowed_endpoint_states
      then and_then (py_int (por (dget (as_dict v) ''resource_count'') (JInt 0))) (\<lambda>n.
        Inr [(k, JObj [(''state'', JStr (py_str (dget (as_dict v) ''state''))),
          (''resource_count'', JInt (max 0 n))])])
      else Inr []))"

definition safe_result :: "dict \<Rightarrow> dict res" where
  "safe_result result =
     (let base = safe_scalars result;
          caps = (if is_obj (dget result ''capability_states'')
            then [(''capability_states'', JObj (safe_states (as_dict (dget result ''capability_states''))))] else []);
          res = (if is_obj (dget result ''capability_resources'')
            then [(''capability_resources'', JObj (safe_resources
              (sort_key fst (as_dict (dget result ''capability_resources'')))))] else [])
      in if is_obj (dget result ''endpoint_states'') then
           and_then (map_res safe_endpoint (sort_key fst (as_dict (dget result ''endpoint_states'')))) (\<lambda>es.
             Inr (base @ caps @ res @ [(''endpoint_states'', JObj (concat es))]))
         else Inr (base @ caps @ res))"

definition status_update :: "string \<Rightarrow> outcome \<Rightarrow> connector_phase \<Rightarrow> connector_phase" where
  "status_update now oc p = (case oc_status oc of
     Succeeded \<Rightarrow> p\<lparr>cp_failures := 0, cp_error_class := None, cp_error_summary := None,
       cp_diagnostic := JNull, cp_skip_reason := None\<rparr>
   | Failed \<Rightarrow> p\<lparr>cp_failures := cp_failures p + 1, cp_error_class := opt_of (oc_exception_type oc),
       cp_error_summary := opt_of (oc_reason oc), cp_diagnostic := oc_diagnostic oc,
       cp_skip_reason := None\<rparr>
   | Skipped \<Rightarrow> p\<lparr>cp_skip_reason := Some (oc_reason oc), cp_error_class := None,
       cp_error_summary := None, cp_diagnostic := JNull\<rparr>)"

definition phase_record :: "string \<Rightarrow> string \<Rightarrow> outcome \<Rightarrow> connector_phase \<Rightarrow> connector_phase res" where
  "phase_record now attempted_at oc p =
     (let p1 = (status_update now oc p)\<lparr>cp_attempt := Some attempted_at, cp_outcome := Some (oc_status oc),
          cp_duration_ms := Some (oc_duration_ms oc)\<rparr>;
          done = (\<lambda>q. if oc_status oc = Succeeded then q\<lparr>cp_last_successful := Some now\<rparr> else q)
      in if is_obj (oc_value oc)
         then and_then (safe_result (as_dict (oc_value oc))) (\<lambda>r. Inr (done (p1\<lparr>cp_result := r\<rparr>)))
         else Inr (done p1))"

definition phases :: "phase list" where
  "phases = [Discover, Collect]"

definition failed_in :: "connector_state \<Rightarrow> phase \<Rightarrow> bool" where
  "failed_in c ph = (cp_outcome (ct_phase c ph) = Some Failed)"

definition skipped_in :: "connector_state \<Rightarrow> phase \<Rightarrow> bool" where
  "skipped_in c ph = (cp_outcome (ct_phase c ph) = Some Skipped)"

definition connector_errors :: "connector_state \<Rightarrow> connector_state" where
  "connector_errors c = (case filter (failed_in c) phases of
     [] \<Rightarrow> c\<lparr>ct_error_class := None, ct_error_summary := None\<rparr>
   | ph # _ \<Rightarrow> c\<lparr>ct_error_class := cp_error_class (ct_phase c ph),
       ct_error_summary := cp_error_summary (ct_phase c ph)\<rparr>)"

text \<open>
  The root's error and skip reason are those of the first connector and phase name in order
  (\<open>collection\<close> before \<open>discovery\<close>).
\<close>

definition root_entries :: "(connector_state \<Rightarrow> phase \<Rightarrow> bool) \<Rightarrow> (string \<times> connector_state) list
    \<Rightarrow> connector_phase list" where
  "root_entries P connectors = map (\<lambda>(n, ph, c). ct_phase c ph)
     (sort_key (\<lambda>(n, ph, c). (n, state_phase ph))
       (concat (map (\<lambda>(n, c). map (\<lambda>ph. (n, ph, c)) (filter (P c) phases)) connectors)))"

definition total_failures :: "phase \<Rightarrow> (string \<times> connector_state) list \<Rightarrow> int" where
  "total_failures ph connectors = sum_list (map (\<lambda>(n, c). cp_failures (ct_phase c ph)) connectors)"

definition connector_of :: "scheduler_state \<Rightarrow> string \<Rightarrow> connector_state" where
  "connector_of doc name = (case map_of (ss_connectors doc) name of None \<Rightarrow> new_connector | Some c \<Rightarrow> c)"

definition recovered :: "scheduler_state \<Rightarrow> bool" where
  "recovered doc = (ss_lifecycle doc = Degraded \<and> rp_successful (ss_phase doc Discover) \<noteq> None \<and>
     rp_successful (ss_phase doc Collect) \<noteq> None \<and> rp_failures (ss_phase doc Discover) = 0 \<and>
     rp_failures (ss_phase doc Collect) = 0)"

definition record_phase :: "string \<Rightarrow> string \<Rightarrow> phase \<Rightarrow> outcome \<Rightarrow> scheduler_state \<Rightarrow> scheduler_state res" where
  "record_phase now attempted_at ph oc doc =
     (let name = oc_connector oc; old = connector_of doc name in
      and_then (phase_record now attempted_at oc (ct_phase old ph)) (\<lambda>p.
       (let c = connector_errors (old\<lparr>ct_phase := (ct_phase old)(ph := p),
              ct_last_failure := (if oc_status oc = Failed then Some now else ct_last_failure old)\<rparr>);
            connectors = AList.update name c (ss_connectors doc);
            errors = root_entries failed_in connectors; skips = root_entries skipped_in connectors;
            root = (ss_phase doc ph)\<lparr>rp_attempt := Some attempted_at, rp_outcome := Some (oc_status oc),
              rp_duration_ms := Some (oc_duration_ms oc),
              rp_successful := (if oc_status oc = Succeeded then Some now else rp_successful (ss_phase doc ph)),
              rp_failures := total_failures ph connectors\<rparr>
        in Inr (doc\<lparr>ss_phase := (ss_phase doc)(ph := root), ss_connectors := connectors,
              ss_updated_at := Some now,
              ss_last_failure := (if oc_status oc = Failed then Some now else ss_last_failure doc),
              ss_last_skipped_run := (if oc_status oc = Skipped then Some now else ss_last_skipped_run doc),
              ss_error_class := (case errors of [] \<Rightarrow> None | e # _ \<Rightarrow> cp_error_class e),
              ss_error_summary := (case errors of [] \<Rightarrow> None | e # _ \<Rightarrow> cp_error_summary e),
              ss_diagnostic := (case errors of [] \<Rightarrow> JNull | e # _ \<Rightarrow> cp_diagnostic e),
              ss_last_skip_reason := (case skips of [] \<Rightarrow> None | s # _ \<Rightarrow> cp_skip_reason s)\<rparr>))))"

text \<open>The second write: a success that leaves no failures makes a degraded scheduler ready.\<close>

definition settle :: "string \<Rightarrow> outcome \<Rightarrow> scheduler_state \<Rightarrow> scheduler_state" where
  "settle now oc doc = (if oc_status oc = Succeeded \<and> recovered doc
     then doc\<lparr>ss_lifecycle := Ready, ss_ready_at := Some now\<rparr> else doc)"

definition phase_state :: "int \<Rightarrow> string \<Rightarrow> phase \<Rightarrow> outcome \<Rightarrow> scheduler_state \<Rightarrow> scheduler_state res" where
  "phase_state clock attempted_at ph oc doc =
     map_sum id (settle (isoformat_z clock) oc) (record_phase (isoformat_z clock) attempted_at ph oc doc)"

section \<open>Executing a phase\<close>

record scheduler =
  sd_doc :: scheduler_state
  sd_locked :: "string list"
  sd_active :: "(string \<times> phase) list"
  sd_finishing :: "(string \<times> phase \<times> outcome) list"
  sd_shutdown :: bool
  sd_discovered :: "string list"

text \<open>\<open>_execute_detailed\<close> up to the collector's call: the reason to skip, if any.\<close>

definition skip_reason :: "scheduler \<Rightarrow> string \<Rightarrow> string" where
  "skip_reason sd name =
     (if sd_shutdown sd then ''shutdown_in_progress''
      else if name \<in> set (sd_locked sd) then
        (if map_of (sd_active sd) name = Some Discover then ''active_discovery'' else ''active_collection'')
      else [])"

definition skipped_outcome :: "string \<Rightarrow> string \<Rightarrow> string \<Rightarrow> outcome" where
  "skipped_outcome name reason run_id =
     \<lparr>oc_connector = name, oc_status = Skipped, oc_duration_ms = 0, oc_value = JNull,
      oc_exception_type = [], oc_reason = reason, oc_diagnostic = JNull, oc_run_id = run_id\<rparr>"

definition skip_run :: "int \<Rightarrow> string \<Rightarrow> string \<Rightarrow> phase \<Rightarrow> string \<Rightarrow> scheduler \<Rightarrow> scheduler res" where
  "skip_run clock reason name ph run_id sd =
     map_sum id (\<lambda>doc. sd\<lparr>sd_doc := doc\<rparr>)
       (phase_state clock (isoformat_z clock) ph (skipped_outcome name reason run_id) (sd_doc sd))"

definition phase_name :: "phase \<Rightarrow> string" where
  "phase_name ph = (case ph of Discover \<Rightarrow> ''discover'' | Collect \<Rightarrow> ''collect'')"

definition begin_run :: "int \<Rightarrow> string \<Rightarrow> phase \<Rightarrow> string \<Rightarrow> scheduler \<Rightarrow> scheduler" where
  "begin_run clock name ph run_id sd =
     sd\<lparr>sd_locked := name # sd_locked sd, sd_active := AList.update name ph (sd_active sd),
        sd_doc := (sd_doc sd)\<lparr>ss_active_phase := Some (phase_name ph), ss_current_run_id := Some run_id,
          ss_updated_at := Some (isoformat_z clock)\<rparr>\<rparr>"

text \<open>
  What the collector's call ends with: a value, \<open>CollectorSkipped\<close> with its reason, or another
  exception with its type, category, stage and diagnostic payload.
\<close>

datatype call_result =
    Returned json
  | Raised_Skip string
  | Raised string "string option" "string option" "dict option"

definition outcome_of :: "string \<Rightarrow> phase \<Rightarrow> int \<Rightarrow> string \<Rightarrow> call_result \<Rightarrow> outcome" where
  "outcome_of name ph duration run_id r = (case r of
     Returned v \<Rightarrow> \<lparr>oc_connector = name, oc_status = Succeeded, oc_duration_ms = duration, oc_value = v,
       oc_exception_type = [], oc_reason = [], oc_diagnostic = JNull, oc_run_id = run_id\<rparr>
   | Raised_Skip reason \<Rightarrow> \<lparr>oc_connector = name, oc_status = Skipped, oc_duration_ms = duration,
       oc_value = JNull, oc_exception_type = [], oc_reason = reason, oc_diagnostic = JNull, oc_run_id = run_id\<rparr>
   | Raised exn category stage payload \<Rightarrow>
       (let cat = (case category of None \<Rightarrow> ''execution_failed'' | Some c \<Rightarrow> c);
            stg = (case stage of None \<Rightarrow> phase_name ph | Some s \<Rightarrow> s);
            given = (case payload of None \<Rightarrow> [] | Some d \<Rightarrow> d);
            reason = py_str (por (dget given ''message'') (JStr (stg @ '': '' @ cat)))
        in \<lparr>oc_connector = name, oc_status = Failed, oc_duration_ms = duration, oc_value = JNull,
            oc_exception_type = exn, oc_reason = reason,
            oc_diagnostic = JObj (if given \<noteq> [] then given
              else [(''category'', JStr cat), (''stage'', JStr stg), (''message'', JStr reason)]),
            oc_run_id = run_id\<rparr>))"

text \<open>
  The \<open>finally\<close> clause and \<open>_phase_state\<close>. When recording raises, the exception leaves the
  \<open>async with\<close> block: the lock is released and the document holds the \<open>finally\<close> write.
  Otherwise the run waits for its health point to be written, with the lock held.
\<close>

definition end_call :: "int \<Rightarrow> string \<Rightarrow> scheduler \<Rightarrow> scheduler" where
  "end_call clock name sd =
     sd\<lparr>sd_active := AList.delete name (sd_active sd),
        sd_doc := (sd_doc sd)\<lparr>ss_active_phase := None, ss_current_run_id := None,
          ss_updated_at := Some (isoformat_z clock)\<rparr>\<rparr>"

definition unlock :: "string \<Rightarrow> scheduler \<Rightarrow> scheduler" where
  "unlock name sd = sd\<lparr>sd_locked := removeAll name (sd_locked sd)\<rparr>"

definition finish_run :: "int \<Rightarrow> string \<Rightarrow> string \<Rightarrow> phase \<Rightarrow> outcome \<Rightarrow> scheduler \<Rightarrow> scheduler \<times> unit res" where
  "finish_run clock attempted_at name ph oc sd =
     (let sd1 = end_call clock name sd in
      case phase_state clock attempted_at ph oc (sd_doc sd1) of
        Inl e \<Rightarrow> (unlock name sd1, Inl e)
      | Inr doc \<Rightarrow> (sd1\<lparr>sd_doc := doc, sd_finishing := AList.update name (ph, oc) (sd_finishing sd1)\<rparr>, Inr ()))"

text \<open>After the health point: a discovery that succeeded is remembered, the lock released.\<close>

definition release_run :: "string \<Rightarrow> phase \<Rightarrow> outcome \<Rightarrow> scheduler \<Rightarrow> scheduler" where
  "release_run name ph oc sd = unlock name
     (sd\<lparr>sd_finishing := AList.delete name (sd_finishing sd),
         sd_discovered := (if ph = Discover \<and> oc_status oc = Succeeded then name # sd_discovered sd
           else sd_discovered sd)\<rparr>)"

text \<open>
  Cancellation at either suspension: during the collector's call the \<open>finally\<close> clause still
  runs, then the lock is released; no outcome is recorded and no discovery remembered.
\<close>

definition cancel_call :: "int \<Rightarrow> string \<Rightarrow> scheduler \<Rightarrow> scheduler" where
  "cancel_call clock name sd = unlock name (end_call clock name sd)"

definition cancel_health :: "string \<Rightarrow> scheduler \<Rightarrow> scheduler" where
  "cancel_health name sd = unlock name (sd\<lparr>sd_finishing := AList.delete name (sd_finishing sd)\<rparr>)"

section \<open>The recurring loop\<close>

definition schedule_next :: "int \<Rightarrow> int \<Rightarrow> phase \<Rightarrow> string \<Rightarrow> scheduler_state \<Rightarrow> scheduler_state" where
  "schedule_next clock deadline ph name doc =
     (let runs = AList.update name (isoformat_z deadline) (ss_next_runs doc ph) in
      doc\<lparr>ss_next_runs := (ss_next_runs doc)(ph := runs),
          ss_phase := (ss_phase doc)(ph := (ss_phase doc ph)\<lparr>rp_next_run := Some (foldl min (hd (map snd runs)) (tl (map snd runs)))\<rparr>),
          ss_updated_at := Some (isoformat_z clock)\<rparr>)"

section \<open>Start-up and shutdown\<close>

definition startup_begin :: "int \<Rightarrow> scheduler \<Rightarrow> scheduler" where
  "startup_begin clock sd = sd\<lparr>sd_shutdown := False,
     sd_doc := (sd_doc sd)\<lparr>ss_lifecycle := Initial_Discovery, ss_started_at := Some (isoformat_z clock),
       ss_ready_at := None, ss_active_phase := Some ''initial_discovery'',
       ss_updated_at := Some (isoformat_z clock)\<rparr>\<rparr>"

definition all_succeeded :: "outcome list \<Rightarrow> bool" where
  "all_succeeded ocs = list_all (\<lambda>oc. oc_status oc = Succeeded) ocs"

definition succeeded_names :: "outcome list \<Rightarrow> string list" where
  "succeeded_names ocs = map oc_connector (filter (\<lambda>oc. oc_status oc = Succeeded) ocs)"

definition discovery_outcome :: "outcome list \<Rightarrow> string" where
  "discovery_outcome ocs = (if all_succeeded ocs then ''success'' else ''failed'')"

definition startup_discovered :: "int \<Rightarrow> int \<Rightarrow> outcome list \<Rightarrow> scheduler \<Rightarrow> scheduler" where
  "startup_discovered clock duration ocs sd = sd\<lparr>sd_discovered := succeeded_names ocs,
     sd_doc := (sd_doc sd)\<lparr>ss_initial_discovery := (discovery_outcome ocs, Some duration),
       ss_lifecycle := Initial_Collection, ss_active_phase := Some ''initial_collection'',
       ss_updated_at := Some (isoformat_z clock)\<rparr>\<rparr>"

definition eligible :: "string list \<Rightarrow> scheduler \<Rightarrow> string list" where
  "eligible collectors sd = filter (\<lambda>n. n \<in> set (sd_discovered sd)) collectors"

definition unavailable :: "string list \<Rightarrow> scheduler \<Rightarrow> bool" where
  "unavailable collectors sd = list_ex (\<lambda>n. n \<notin> set (sd_discovered sd)) collectors"

definition collection_outcome :: "string list \<Rightarrow> outcome list \<Rightarrow> scheduler \<Rightarrow> string" where
  "collection_outcome collectors ocs sd =
     (if unavailable collectors sd \<and> eligible collectors sd = [] then ''skipped_prerequisite''
      else if unavailable collectors sd \<or> \<not> all_succeeded ocs then ''failed'' else ''success'')"

text \<open>The end of \<open>startup\<close>; nothing but discoveries changes the set of discovered collectors.\<close>

definition startup_collected :: "int \<Rightarrow> int \<Rightarrow> string list \<Rightarrow> outcome list \<Rightarrow> outcome list
    \<Rightarrow> scheduler \<Rightarrow> scheduler" where
  "startup_collected clock duration collectors disc coll sd =
     (let verdict = collection_outcome collectors coll sd;
          degraded = (discovery_outcome disc \<noteq> ''success'' \<or> verdict \<noteq> ''success'')
      in sd\<lparr>sd_doc := (sd_doc sd)\<lparr>ss_initial_collection := (verdict, Some duration),
           ss_lifecycle := (if degraded then Degraded else Ready), ss_active_phase := None,
           ss_ready_at := Some (isoformat_z clock), ss_updated_at := Some (isoformat_z clock),
           ss_last_skip_reason := (if unavailable collectors sd then Some ''prerequisite_unavailable''
             else ss_last_skip_reason (sd_doc sd))\<rparr>\<rparr>)"

definition stop_begin :: "int \<Rightarrow> scheduler \<Rightarrow> scheduler" where
  "stop_begin clock sd = sd\<lparr>sd_shutdown := True,
     sd_doc := (sd_doc sd)\<lparr>ss_lifecycle := Stopping, ss_active_phase := None, ss_current_run_id := None,
       ss_updated_at := Some (isoformat_z clock)\<rparr>\<rparr>"

definition stop_end :: "int \<Rightarrow> scheduler \<Rightarrow> scheduler" where
  "stop_end clock sd = sd\<lparr>sd_doc := (sd_doc sd)\<lparr>ss_lifecycle := Stopped,
     ss_phase := (\<lambda>ph. (ss_phase (sd_doc sd) ph)\<lparr>rp_next_run := None\<rparr>), ss_next_runs := (\<lambda>_. []),
     ss_updated_at := Some (isoformat_z clock)\<rparr>\<rparr>"

section \<open>The operations pipeline\<close>

text \<open>
  \<open>_execute_operations\<close>: the engines in their order over a world \<open>'w\<close> they change; an engine
  that raises ends the pipeline. Capturing the state history comes last, and its failure is
  logged only.
\<close>

datatype stage = Capabilities | Infrastructure | Operations | Service_Health | Refresh_Dashboards
  | Wallboard | Generate_Dashboards

datatype dashboards = No_Dashboards | State_Derived | Generated

record pipeline_config =
  pc_capabilities :: bool
  pc_infrastructure :: bool
  pc_service_health :: bool
  pc_wallboard :: bool
  pc_dashboards :: dashboards
  pc_history :: bool

definition pipeline_stages :: "pipeline_config \<Rightarrow> stage list" where
  "pipeline_stages cfg =
     (if pc_capabilities cfg then [Capabilities] else []) @
     (if pc_infrastructure cfg then [Infrastructure] else []) @ [Operations] @
     (if pc_service_health cfg then [Service_Health] else []) @
     (if pc_dashboards cfg = State_Derived then [Refresh_Dashboards]
      else (if pc_wallboard cfg then [Wallboard] else []) @
        (if pc_dashboards cfg = Generated then [Generate_Dashboards] else []))"

fun run_stages :: "(stage \<Rightarrow> 'w \<Rightarrow> 'w \<times> bool) \<Rightarrow> stage list \<Rightarrow> 'w \<Rightarrow> 'w \<times> bool" where
  "run_stages engine [] w = (w, True)"
| "run_stages engine (s # ss) w =
     (case engine s w of (w', ok) \<Rightarrow> if ok then run_stages engine ss w' else (w', False))"

definition execute_operations :: "(stage \<Rightarrow> 'w \<Rightarrow> 'w \<times> bool) \<Rightarrow> ('w \<Rightarrow> 'w \<times> bool) \<Rightarrow> pipeline_config
    \<Rightarrow> 'w \<Rightarrow> 'w \<times> bool" where
  "execute_operations engine capture cfg w =
     (case run_stages engine (pipeline_stages cfg) w of (w', ok) \<Rightarrow>
        if ok \<and> pc_history cfg \<and> pc_infrastructure cfg then (fst (capture w'), True) else (w', ok))"

lemma operations_result_ignores_history:
  "snd (execute_operations engine capture cfg w) = snd (run_stages engine (pipeline_stages cfg) w)"
  by (simp add: execute_operations_def split: prod.splits)

end
