(* ===== verification/Scheduler_Properties.thy ===== *)
theory Scheduler_Properties
  imports Scheduler
begin

text \<open>
  Every interleaving of the scheduler's loops: a step relation over the atomic steps of
  \<open>Scheduler\<close> with their guards, and what holds along all its runs.
\<close>

section \<open>Steps\<close>

datatype label =
    Planned string phase
  | Skip string phase
  | Begun string phase
  | Finished string phase outcome
  | Released string phase outcome
  | Crashed string
  | Cancelled string
  | Stop

text \<open>
  \<open>_continuous_loop\<close> plans a deadline, then skips a collection whose collector was never
  discovered, or executes the phase. The collector's result and the clock are arbitrary.
\<close>

definition may_execute :: "scheduler \<Rightarrow> string \<Rightarrow> phase \<Rightarrow> bool" where
  "may_execute sd name ph = (ph = Collect \<longrightarrow> name \<in> set (sd_discovered sd))"

inductive sched_step :: "scheduler \<Rightarrow> label \<Rightarrow> scheduler \<Rightarrow> bool" where
  plan: "\<not> sd_shutdown sd \<Longrightarrow>
    sched_step sd (Planned n ph) (sd\<lparr>sd_doc := schedule_next clock deadline ph n (sd_doc sd)\<rparr>)"
| prerequisite: "\<not> sd_shutdown sd \<Longrightarrow> n \<notin> set (sd_discovered sd) \<Longrightarrow>
    skip_run clock ''prerequisite_unavailable'' n Collect rid sd = Inr sd' \<Longrightarrow> sched_step sd (Skip n Collect) sd'"
| skip: "may_execute sd n ph \<Longrightarrow> skip_reason sd n \<noteq> [] \<Longrightarrow>
    skip_run clock (skip_reason sd n) n ph rid sd = Inr sd' \<Longrightarrow> sched_step sd (Skip n ph) sd'"
| start: "may_execute sd n ph \<Longrightarrow> skip_reason sd n = [] \<Longrightarrow>
    sched_step sd (Begun n ph) (begin_run clock n ph rid sd)"
| finish: "map_of (sd_active sd) n = Some ph \<Longrightarrow>
    finish_run clock attempted n ph (outcome_of n ph duration rid r) sd = (sd', Inr ()) \<Longrightarrow>
    sched_step sd (Finished n ph (outcome_of n ph duration rid r)) sd'"
| crash: "map_of (sd_active sd) n = Some ph \<Longrightarrow>
    finish_run clock attempted n ph (outcome_of n ph duration rid r) sd = (sd', Inl e) \<Longrightarrow>
    sched_step sd (Crashed n) sd'"
| release: "map_of (sd_finishing sd) n = Some (ph, oc) \<Longrightarrow> sched_step sd (Released n ph oc) (release_run n ph oc sd)"
| cancel_call: "sd_shutdown sd \<Longrightarrow> map_of (sd_active sd) n = Some ph \<Longrightarrow>
    sched_step sd (Cancelled n) (cancel_call clock n sd)"
| cancel_health: "sd_shutdown sd \<Longrightarrow> map_of (sd_finishing sd) n = Some x \<Longrightarrow>
    sched_step sd (Cancelled n) (cancel_health n sd)"
| stop: "sched_step sd Stop (stop_begin clock sd)"

inductive_cases sched_stepE: "sched_step sd l sd'"
inductive_cases step_BegunE: "sched_step sd (Begun n ph) sd'"
inductive_cases step_StopE: "sched_step sd Stop sd'"

inductive sched_run :: "scheduler \<Rightarrow> label list \<Rightarrow> scheduler \<Rightarrow> bool" where
  idle: "sched_run sd [] sd"
| run: "sched_step sd l sd1 \<Longrightarrow> sched_run sd1 ls sd2 \<Longrightarrow> sched_run sd (l # ls) sd2"

inductive_simps sched_run_Nil [simp]: "sched_run sd [] sd'"
inductive_simps sched_run_Cons: "sched_run sd (l # ls) sd'"

lemma sched_run_append: "sched_run sd (xs @ ys) sd' \<longleftrightarrow> (\<exists>mid. sched_run sd xs mid \<and> sched_run mid ys sd')"
  by (induction xs arbitrary: sd) (auto simp: sched_run_Cons)

lemma sched_run_invariant:
  assumes "sched_run sd ls sd'" and "I sd" and "\<And>a l b. sched_step a l b \<Longrightarrow> I a \<Longrightarrow> I b"
  shows "I sd'"
  using assms by (induction rule: sched_run.induct) blast+

section \<open>Locks\<close>

definition keys :: "(string \<times> 'a) list \<Rightarrow> string set" where
  "keys xs = fst ` set xs"

definition locks_ok :: "scheduler \<Rightarrow> bool" where
  "locks_ok sd = (distinct (map fst (sd_active sd)) \<and> distinct (map fst (sd_finishing sd)) \<and>
     set (sd_locked sd) = keys (sd_active sd) \<union> keys (sd_finishing sd) \<and>
     keys (sd_active sd) \<inter> keys (sd_finishing sd) = {})"

lemma skip_run_parts:
  "skip_run clock reason n ph rid sd = Inr sd' \<Longrightarrow> \<exists>doc. sd' = sd\<lparr>sd_doc := doc\<rparr> \<and>
     phase_state clock (isoformat_z clock) ph (skipped_outcome n reason rid) (sd_doc sd) = Inr doc"
  by (auto simp: skip_run_def map_sum_eq_Inr)

lemma finish_run_ok:
  "finish_run clock att n ph oc sd = (sd', Inr u) \<longleftrightarrow>
   (\<exists>doc. phase_state clock att ph oc (sd_doc (end_call clock n sd)) = Inr doc \<and>
     sd' = (end_call clock n sd)\<lparr>sd_doc := doc, sd_finishing := AList.update n (ph, oc) (sd_finishing sd)\<rparr>)"
  by (auto simp: finish_run_def Let_def end_call_def split: sum.splits)

lemma finish_run_error:
  "finish_run clock att n ph oc sd = (sd', Inl e) \<Longrightarrow> sd' = unlock n (end_call clock n sd)"
  by (auto simp: finish_run_def Let_def split: sum.splits)

lemma keys_delete [simp]: "keys (AList.delete k xs) = keys xs - {k}"
  by (auto simp: keys_def AList.delete_eq)

lemma keys_update [simp]: "keys (AList.update k v xs) = insert k (keys xs)"
  using dom_update [of k v xs] by (simp add: keys_def dom_map_of_conv_image_fst)

lemma map_of_key: "map_of xs k = Some v \<Longrightarrow> k \<in> keys xs"
  unfolding keys_def by (metis map_of_SomeD fst_conv image_eqI)

lemma step_locks_ok:
  assumes "sched_step sd l sd'" and "locks_ok sd"
  shows "locks_ok sd'"
  using assms(1)
proof cases
  case (start n ph clock rid)
  then have "n \<notin> set (sd_locked sd)" by (auto simp: skip_reason_def split: if_splits)
  with assms(2) show ?thesis
    unfolding start(2) by (auto simp: locks_ok_def begin_run_def distinct_update)
next
  case (finish n ph clock attempted duration rid r)
  with assms(2) map_of_key [OF finish(2)] show ?thesis
    by (auto simp: finish_run_ok locks_ok_def end_call_def distinct_update distinct_delete)
next
  case (crash n ph clock attempted duration rid r e)
  with assms(2) map_of_key [OF crash(2)] show ?thesis
    by (auto dest!: finish_run_error simp: locks_ok_def end_call_def unlock_def distinct_delete)
next
  case (release n ph oc)
  with assms(2) map_of_key [OF release(3)] show ?thesis
    by (auto simp: locks_ok_def release_run_def unlock_def distinct_delete)
next
  case (cancel_call n ph clock)
  with assms(2) map_of_key [OF cancel_call(4)] show ?thesis
    by (auto simp: locks_ok_def cancel_call_def end_call_def unlock_def distinct_delete)
next
  case (cancel_health n x)
  with assms(2) map_of_key [OF cancel_health(4)] show ?thesis
    by (auto simp: locks_ok_def cancel_health_def unlock_def distinct_delete)
qed (use assms(2) in \<open>auto simp: locks_ok_def stop_begin_def dest!: skip_run_parts\<close>)

text \<open>Between two begins of a collector there is the end of the first.\<close>

fun ends :: "label \<Rightarrow> string option" where
  "ends (Released n ph oc) = Some n"
| "ends (Crashed n) = Some n"
| "ends (Cancelled n) = Some n"
| "ends _ = None"

fun no_overlap :: "string \<Rightarrow> bool \<Rightarrow> label list \<Rightarrow> bool" where
  "no_overlap n held [] = True"
| "no_overlap n held (Begun m ph # ls) =
     (if m = n then \<not> held \<and> no_overlap n True ls else no_overlap n held ls)"
| "no_overlap n held (l # ls) =
     (if ends l = Some n then held \<and> no_overlap n False ls else no_overlap n held ls)"

lemma step_locked:
  assumes "sched_step sd l sd'" and "locks_ok sd"
  shows "(case l of Begun m ph \<Rightarrow> m \<notin> set (sd_locked sd) \<and> set (sd_locked sd') = insert m (set (sd_locked sd))
    | _ \<Rightarrow> (case ends l of None \<Rightarrow> set (sd_locked sd') = set (sd_locked sd)
      | Some m \<Rightarrow> m \<in> set (sd_locked sd) \<and> set (sd_locked sd') = set (sd_locked sd) - {m}))"
  using assms(1)
proof cases
  case (start n ph clock rid)
  then show ?thesis by (auto simp: skip_reason_def begin_run_def split: if_splits)
next
  case (finish n ph clock attempted duration rid r)
  then show ?thesis by (auto simp: finish_run_ok end_call_def)
next
  case (crash n ph clock attempted duration rid r e)
  with assms(2) map_of_key [OF crash(2)] show ?thesis
    by (auto dest!: finish_run_error simp: locks_ok_def end_call_def unlock_def)
next
  case (release n ph oc)
  with assms(2) map_of_key [OF release(3)] show ?thesis
    by (auto simp: locks_ok_def release_run_def unlock_def)
next
  case (cancel_call n ph clock)
  with assms(2) map_of_key [OF cancel_call(4)] show ?thesis
    by (auto simp: locks_ok_def cancel_call_def end_call_def unlock_def)
next
  case (cancel_health n x)
  with assms(2) map_of_key [OF cancel_health(4)] show ?thesis
    by (auto simp: locks_ok_def cancel_health_def unlock_def)
qed (auto simp: stop_begin_def dest!: skip_run_parts)

lemma run_no_overlap:
  "sched_run sd ls sd' \<Longrightarrow> locks_ok sd \<Longrightarrow> no_overlap n (n \<in> set (sd_locked sd)) ls"
proof (induction rule: sched_run.induct)
  case (run sd l sd1 ls sd2)
  have ih: "no_overlap n (n \<in> set (sd_locked sd1)) ls"
    using run.IH step_locks_ok [OF run.hyps(1) run.prems] by simp
  note st = step_locked [OF run.hyps(1) run.prems]
  show ?case
  proof (cases "\<exists>m ph. l = Begun m ph")
    case True
    then obtain m ph where l: "l = Begun m ph" by blast
    with st have "m \<notin> set (sd_locked sd)" "n \<in> set (sd_locked sd1) \<longleftrightarrow> n = m \<or> n \<in> set (sd_locked sd)" by simp_all
    with ih l show ?thesis by (cases "m = n") simp_all
  next
    case False
    then have eq: "no_overlap n held (l # ls) = (if ends l = Some n then held \<and> no_overlap n False ls
        else no_overlap n held ls)" for held by (cases l) simp_all
    from False st have "case ends l of None \<Rightarrow> set (sd_locked sd1) = set (sd_locked sd)
      | Some m \<Rightarrow> m \<in> set (sd_locked sd) \<and> set (sd_locked sd1) = set (sd_locked sd) - {m}"
      by (cases l) simp_all
    with ih show ?thesis unfolding eq by (cases "ends l"; cases "ends l = Some n") auto
  qed
qed simp

section \<open>Discovery before collection, nothing after the stop\<close>

lemma step_discovered:
  assumes "sched_step sd l sd'" and "n \<in> set (sd_discovered sd')"
  shows "n \<in> set (sd_discovered sd) \<or> (\<exists>oc. l = Released n Discover oc \<and> oc_status oc = Succeeded)"
  using assms
  by cases (auto simp: begin_run_def finish_run_ok end_call_def unlock_def release_run_def cancel_call_def
      cancel_health_def stop_begin_def dest!: skip_run_parts finish_run_error split: if_splits)

lemma run_discovered:
  "sched_run sd ls sd' \<Longrightarrow> n \<in> set (sd_discovered sd') \<Longrightarrow>
   n \<in> set (sd_discovered sd) \<or> (\<exists>oc. Released n Discover oc \<in> set ls \<and> oc_status oc = Succeeded)"
proof (induction rule: sched_run.induct)
  case (run sd l sd1 ls sd2)
  then show ?case using step_discovered [OF run.hyps(1), of n] by auto
qed simp

lemma step_shutdown:
  assumes "sched_step sd l sd'" and "sd_shutdown sd"
  shows "sd_shutdown sd' \<and> (\<forall>n ph. l \<noteq> Begun n ph)"
  using assms
  by cases (auto simp: begin_run_def finish_run_ok end_call_def unlock_def release_run_def cancel_call_def
      cancel_health_def stop_begin_def skip_reason_def dest!: skip_run_parts finish_run_error)

lemma run_shutdown: "sched_run sd ls sd' \<Longrightarrow> sd_shutdown sd \<Longrightarrow> Begun n ph \<notin> set ls"
  by (induction rule: sched_run.induct) (auto dest: step_shutdown)

section \<open>The state document\<close>

definition doc_ok :: "scheduler_state \<Rightarrow> bool" where
  "doc_ok doc = (distinct (map fst (ss_connectors doc)) \<and>
     (\<forall>ph. rp_failures (ss_phase doc ph) = total_failures ph (ss_connectors doc)) \<and>
     (\<forall>(n, c) \<in> set (ss_connectors doc). \<forall>ph. cp_failures (ct_phase c ph) \<ge> 0 \<and>
        (cp_outcome (ct_phase c ph) = Some Succeeded \<longrightarrow> cp_failures (ct_phase c ph) = 0)))"

lemma total_update_other:
  assumes "cp_failures (ct_phase c ph) = cp_failures (ct_phase (case map_of cs n of None \<Rightarrow> new_connector | Some x \<Rightarrow> x) ph)"
  shows "total_failures ph (AList.update n c cs) = total_failures ph cs"
  using assms
proof (induction cs)
  case (Cons x cs)
  then show ?case by (cases x) (auto simp: total_failures_def)
qed (simp add: total_failures_def new_connector_def new_connector_phase_def)

lemma connector_errors_phase [simp]: "ct_phase (connector_errors c) = ct_phase c"
  by (simp add: connector_errors_def split: list.splits)

lemma phase_record_failures:
  assumes "phase_record now att oc p = Inr q"
  shows "cp_outcome q = Some (oc_status oc) \<and>
    cp_failures q = (case oc_status oc of Succeeded \<Rightarrow> 0 | Failed \<Rightarrow> cp_failures p + 1 | Skipped \<Rightarrow> cp_failures p)"
  using assms by (cases "oc_status oc")
    (auto simp: phase_record_def status_update_def Let_def and_then_eq_Inr split: if_splits)

lemma phase_state_parts:
  assumes "phase_state clock att ph oc doc = Inr doc'"
  obtains p c where "phase_record (isoformat_z clock) att oc (ct_phase (connector_of doc (oc_connector oc)) ph) = Inr p"
    and "ct_phase c = (ct_phase (connector_of doc (oc_connector oc)))(ph := p)"
    and "ss_connectors doc' = AList.update (oc_connector oc) c (ss_connectors doc)"
    and "rp_failures (ss_phase doc' ph) = total_failures ph (ss_connectors doc')"
    and "\<forall>k. k \<noteq> ph \<longrightarrow> ss_phase doc' k = ss_phase doc k"
proof -
  obtain doc1 where r: "record_phase (isoformat_z clock) att ph oc doc = Inr doc1"
    and d: "doc' = settle (isoformat_z clock) oc doc1"
    using assms by (auto simp: phase_state_def map_sum_eq_Inr)
  have "ss_connectors doc' = ss_connectors doc1" "ss_phase doc' = ss_phase doc1"
    by (simp_all add: d settle_def)
  with r show thesis
    by (auto simp: record_phase_def Let_def and_then_eq_Inr intro!: that)
qed

lemma connector_of_ok:
  assumes "doc_ok doc"
  shows "cp_failures (ct_phase (connector_of doc n) ph) \<ge> 0"
    and "cp_outcome (ct_phase (connector_of doc n) ph) = Some Succeeded \<Longrightarrow> cp_failures (ct_phase (connector_of doc n) ph) = 0"
proof -
  have "cp_failures (ct_phase (connector_of doc n) ph) \<ge> 0 \<and>
    (cp_outcome (ct_phase (connector_of doc n) ph) = Some Succeeded \<longrightarrow> cp_failures (ct_phase (connector_of doc n) ph) = 0)"
  proof (cases "map_of (ss_connectors doc) n")
    case (Some c)
    with assms map_of_SomeD [OF Some] show ?thesis by (auto simp: connector_of_def doc_ok_def)
  qed (simp add: connector_of_def new_connector_def new_connector_phase_def)
  then show "cp_failures (ct_phase (connector_of doc n) ph) \<ge> 0"
    and "cp_outcome (ct_phase (connector_of doc n) ph) = Some Succeeded \<Longrightarrow> cp_failures (ct_phase (connector_of doc n) ph) = 0"
    by simp_all
qed

lemma phase_state_doc_ok:
  assumes "phase_state clock att ph oc doc = Inr doc'" and ok: "doc_ok doc"
  shows "doc_ok doc'"
proof -
  let ?old = "connector_of doc (oc_connector oc)"
  obtain p c where p: "phase_record (isoformat_z clock) att oc (ct_phase ?old ph) = Inr p"
    and c: "ct_phase c = (ct_phase ?old)(ph := p)"
    and cs: "ss_connectors doc' = AList.update (oc_connector oc) c (ss_connectors doc)"
    and f: "rp_failures (ss_phase doc' ph) = total_failures ph (ss_connectors doc')"
    and other: "\<forall>k. k \<noteq> ph \<longrightarrow> ss_phase doc' k = ss_phase doc k"
    using assms(1) by (rule phase_state_parts)
  have d: "distinct (map fst (ss_connectors doc))" using ok by (simp add: doc_ok_def)
  have "rp_failures (ss_phase doc' k) = total_failures k (ss_connectors doc')" for k
  proof (cases "k = ph")
    case False
    have "total_failures k (AList.update (oc_connector oc) c (ss_connectors doc)) = total_failures k (ss_connectors doc)"
      by (rule total_update_other) (use False c in \<open>simp add: connector_of_def\<close>)
    with other False ok show ?thesis by (simp add: doc_ok_def cs)
  qed (simp add: f)
  moreover have new: "cp_failures (ct_phase c k) \<ge> 0 \<and> (cp_outcome (ct_phase c k) = Some Succeeded \<longrightarrow> cp_failures (ct_phase c k) = 0)" for k
    using phase_record_failures [OF p] connector_of_ok [OF ok] by (auto simp: c split: run_status.splits)
  have "\<forall>(n, x) \<in> set (ss_connectors doc'). \<forall>k. cp_failures (ct_phase x k) \<ge> 0 \<and>
      (cp_outcome (ct_phase x k) = Some Succeeded \<longrightarrow> cp_failures (ct_phase x k) = 0)"
  proof clarify
    fix n x k assume "(n, x) \<in> set (ss_connectors doc')"
    then have "x = c \<or> (n, x) \<in> set (ss_connectors doc)"
      unfolding cs using d by (metis distinct_update map_of_eq_Some_iff update_conv' fun_upd_apply option.inject)
    with new ok show "cp_failures (ct_phase x k) \<ge> 0 \<and> (cp_outcome (ct_phase x k) = Some Succeeded \<longrightarrow> cp_failures (ct_phase x k) = 0)"
      by (auto simp: doc_ok_def)
  qed
  ultimately show ?thesis using d by (simp add: doc_ok_def cs distinct_update)
qed

lemma doc_ok_cong:
  "ss_connectors doc' = ss_connectors doc \<Longrightarrow> (\<And>ph. rp_failures (ss_phase doc' ph) = rp_failures (ss_phase doc ph)) \<Longrightarrow>
   doc_ok doc' = doc_ok doc"
  by (simp add: doc_ok_def)

lemma end_call_doc_ok: "doc_ok (sd_doc (end_call clock n sd)) = doc_ok (sd_doc sd)"
  by (rule doc_ok_cong) (simp_all add: end_call_def)

lemma step_doc_ok:
  assumes "sched_step sd l sd'" and "doc_ok (sd_doc sd)"
  shows "doc_ok (sd_doc sd')"
  using assms(1)
proof cases
  case (plan n ph clock deadline)
  have "doc_ok (schedule_next clock deadline ph n (sd_doc sd)) = doc_ok (sd_doc sd)"
    by (rule doc_ok_cong) (simp_all add: schedule_next_def Let_def)
  with plan assms(2) show ?thesis by simp
next
  case (start n ph clock rid)
  have "doc_ok (sd_doc (begin_run clock n ph rid sd)) = doc_ok (sd_doc sd)"
    by (rule doc_ok_cong) (simp_all add: begin_run_def)
  with start assms(2) show ?thesis by simp
next
  case (finish n ph clock attempted duration rid r)
  with assms(2) show ?thesis
    by (auto simp: finish_run_ok intro: phase_state_doc_ok [OF _ iffD2 [OF end_call_doc_ok]])
next
  case (crash n ph clock attempted duration rid r e)
  with assms(2) show ?thesis by (auto dest!: finish_run_error simp: unlock_def end_call_doc_ok)
next
  case (cancel_call n ph clock)
  with assms(2) show ?thesis by (auto simp: cancel_call_def unlock_def end_call_doc_ok)
next
  case (stop clock)
  have "doc_ok (sd_doc (stop_begin clock sd)) = doc_ok (sd_doc sd)"
    by (rule doc_ok_cong) (simp_all add: stop_begin_def)
  with stop assms(2) show ?thesis by simp
qed (use assms(2) in \<open>auto simp: release_run_def cancel_health_def unlock_def
    dest!: skip_run_parts intro: phase_state_doc_ok\<close>)

lemma all_phase: "(\<forall>k. P k) \<longleftrightarrow> P Discover \<and> P Collect"
  by (metis phase.exhaust)

lemma record_phase_lifecycle: "record_phase now att ph oc doc = Inr doc' \<Longrightarrow> ss_lifecycle doc' = ss_lifecycle doc"
  by (auto simp: record_phase_def Let_def and_then_eq_Inr)

lemma phase_state_lifecycle:
  assumes "phase_state clock att ph oc doc = Inr doc'"
  shows "ss_lifecycle doc' = ss_lifecycle doc \<or>
   (oc_status oc = Succeeded \<and> ss_lifecycle doc = Degraded \<and> ss_lifecycle doc' = Ready \<and>
    (\<forall>k. rp_failures (ss_phase doc' k) = 0))"
proof -
  obtain doc1 where "record_phase (isoformat_z clock) att ph oc doc = Inr doc1"
    and "doc' = settle (isoformat_z clock) oc doc1"
    using assms by (auto simp: phase_state_def map_sum_eq_Inr)
  then show ?thesis
    by (cases "oc_status oc = Succeeded \<and> recovered doc1")
       (simp_all add: record_phase_lifecycle settle_def all_phase recovered_def)
qed

lemma no_failures:
  assumes "doc_ok doc" and "\<forall>k. rp_failures (ss_phase doc k) = 0" and "(n, c) \<in> set (ss_connectors doc)"
  shows "cp_failures (ct_phase c ph) = 0"
proof -
  have nn: "\<forall>x \<in> set (map (\<lambda>(n, c). cp_failures (ct_phase c ph)) (ss_connectors doc)). 0 \<le> x"
    using assms(1) by (auto simp: doc_ok_def)
  have "sum_list (map (\<lambda>(n, c). cp_failures (ct_phase c ph)) (ss_connectors doc)) = 0"
    using assms(1,2) by (simp add: doc_ok_def total_failures_def)
  then have "\<forall>x \<in> set (map (\<lambda>(n, c). cp_failures (ct_phase c ph)) (ss_connectors doc)). x = 0"
    using nn sum_list_nonneg_eq_0_iff by blast
  with assms(3) show ?thesis by force
qed

section \<open>Properties\<close>

definition idle_scheduler :: "scheduler_state \<Rightarrow> string list \<Rightarrow> scheduler" where
  "idle_scheduler doc discovered = \<lparr>sd_doc = doc, sd_locked = [], sd_active = [], sd_finishing = [],
     sd_shutdown = False, sd_discovered = discovered\<rparr>"

lemma idle_locks_ok: "locks_ok (idle_scheduler doc discovered)"
  by (simp add: idle_scheduler_def locks_ok_def keys_def)

text \<open>
  C14. Phases of one collector never overlap: however the loops interleave, a collector's next
  phase begins only after its previous one was released, crashed or was cancelled; and nothing
  begins once the scheduler is stopping.
\<close>

theorem runs_never_overlap:
  assumes "sched_run (idle_scheduler doc discovered) ls sd"
  shows "no_overlap n False ls \<and> (\<forall>pre post ph. ls = pre @ Stop # post \<longrightarrow> Begun n ph \<notin> set post)"
proof (intro conjI allI impI)
  show "no_overlap n False ls"
    using run_no_overlap [OF assms idle_locks_ok, of n] by (simp add: idle_scheduler_def)
next
  fix pre post ph assume "ls = pre @ Stop # post"
  with assms obtain mid mid' where "sched_step mid Stop mid'" "sched_run mid' post sd"
    by (auto simp: sched_run_append sched_run_Cons)
  moreover from this(1) have "sd_shutdown mid'" by (auto simp: stop_begin_def elim: step_StopE)
  ultimately show "Begun n ph \<notin> set post" by (blast dest: run_shutdown)
qed

definition ex_scheduler :: scheduler where
  "ex_scheduler = idle_scheduler default_state []"

lemma ex_first_begin: "\<exists>sd. sched_run ex_scheduler [Begun ''mist'' Discover] sd"
  unfolding ex_scheduler_def
  by (rule exI, rule sched_run.run [OF sched_step.start sched_run.idle])
     (simp_all add: may_execute_def skip_reason_def idle_scheduler_def)

lemma runs_never_overlap_witness:
  "\<exists>sd. sched_run ex_scheduler [Begun ''mist'' Discover] sd \<and> no_overlap ''mist'' False [Begun ''mist'' Discover]"
  using ex_first_begin runs_never_overlap unfolding ex_scheduler_def by blast

text \<open>
  Nothing is collected from a collector before it was discovered: every collection that
  begins in the recurring loops follows a released successful discovery of that collector, in
  the start-up or earlier in the run.
\<close>

theorem collection_needs_discovery:
  assumes "sched_run sd (pre @ Begun n Collect # post) sd'"
  shows "n \<in> set (sd_discovered sd) \<or> (\<exists>oc. Released n Discover oc \<in> set pre \<and> oc_status oc = Succeeded)"
proof -
  from assms obtain mid mid' where "sched_run sd pre mid" "sched_step mid (Begun n Collect) mid'"
    by (auto simp: sched_run_append sched_run_Cons)
  moreover from this(2) have "n \<in> set (sd_discovered mid)" by (auto simp: may_execute_def elim: step_BegunE)
  ultimately show ?thesis by (blast dest: run_discovered)
qed

lemma collection_needs_discovery_witness:
  "\<exists>sd. sched_run (idle_scheduler default_state [''mist'']) ([] @ Begun ''mist'' Collect # []) sd \<and>
     ''mist'' \<in> set (sd_discovered (idle_scheduler default_state [''mist'']))"
proof -
  have "\<exists>sd. sched_run (idle_scheduler default_state [''mist'']) ([] @ Begun ''mist'' Collect # []) sd"
    unfolding append_Nil
    by (rule exI, rule sched_run.run [OF sched_step.start sched_run.idle])
       (simp_all add: may_execute_def skip_reason_def idle_scheduler_def)
  with collection_needs_discovery [of "idle_scheduler default_state [''mist'']" "[]" "''mist''" "[]"] show ?thesis
    by auto
qed

text \<open>
  C15. The failure counters are consistent in every reachable state: the root counter of a phase
  is the sum over the connectors, no counter is negative, and a connector whose last run of a
  phase succeeded counts no failure in it.
\<close>

theorem failure_counters_consistent:
  assumes "sched_run sd ls sd'" and "doc_ok (sd_doc sd)"
  shows "rp_failures (ss_phase (sd_doc sd') ph) =
      sum_list (map (\<lambda>(n, c). cp_failures (ct_phase c ph)) (ss_connectors (sd_doc sd'))) \<and>
    (\<forall>(n, c) \<in> set (ss_connectors (sd_doc sd')). cp_failures (ct_phase c ph) \<ge> 0 \<and>
      (cp_outcome (ct_phase c ph) = Some Succeeded \<longrightarrow> cp_failures (ct_phase c ph) = 0))"
proof -
  have "doc_ok (sd_doc sd')"
    by (rule sched_run_invariant [OF assms(1), of "\<lambda>sd. doc_ok (sd_doc sd)", OF assms(2) step_doc_ok])
  then show ?thesis by (auto simp: doc_ok_def total_failures_def)
qed

lemma default_doc_ok: "doc_ok default_state"
  by (simp add: doc_ok_def default_state_def total_failures_def)

lemma startup_doc_ok:
  "doc_ok (sd_doc (startup_begin clock sd)) = doc_ok (sd_doc sd)"
  "doc_ok (sd_doc (startup_discovered clock duration ocs sd)) = doc_ok (sd_doc sd)"
  "doc_ok (sd_doc (startup_collected clock duration collectors disc coll sd)) = doc_ok (sd_doc sd)"
  "doc_ok (sd_doc (stop_end clock sd)) = doc_ok (sd_doc sd)"
  by (rule doc_ok_cong; simp add: startup_begin_def startup_discovered_def startup_collected_def
      stop_end_def Let_def)+

lemma failure_counters_consistent_witness:
  "\<exists>sd. sched_run ex_scheduler [Begun ''mist'' Discover] sd \<and>
     rp_failures (ss_phase (sd_doc sd) Discover) =
       sum_list (map (\<lambda>(n, c). cp_failures (ct_phase c Discover)) (ss_connectors (sd_doc sd)))"
proof -
  have "doc_ok (sd_doc ex_scheduler)" by (simp add: ex_scheduler_def idle_scheduler_def default_doc_ok)
  with ex_first_begin failure_counters_consistent show ?thesis by blast
qed

text \<open>
  The lifecycle is honest: recording an outcome never degrades it, and turns a degraded
  scheduler ready only on a success after which no connector counts a failure in any phase.
\<close>

lemma recovery_needs_clean_counters:
  assumes "doc_ok doc" and "phase_state clock attempted_at ph oc doc = Inr doc'"
    and "ss_lifecycle doc' \<noteq> ss_lifecycle doc"
  shows "ss_lifecycle doc = Degraded \<and> ss_lifecycle doc' = Ready \<and> oc_status oc = Succeeded \<and>
    (\<forall>(n, c) \<in> set (ss_connectors doc'). \<forall>k. cp_failures (ct_phase c k) = 0)"
proof -
  have ok: "doc_ok doc'" using assms(1) by (rule phase_state_doc_ok [OF assms(2)])
  from phase_state_lifecycle [OF assms(2)] assms(3) no_failures [OF ok] show ?thesis by blast
qed

definition ex_degraded :: scheduler_state where
  "ex_degraded = default_state\<lparr>ss_lifecycle := Degraded, ss_phase := \<lambda>_. (ss_phase default_state Discover)
     \<lparr>rp_successful := Some ''2024-01-01T00:00:00Z''\<rparr>\<rparr>"

lemma recovery_needs_clean_counters_witness:
  "\<exists>doc. phase_state 0 [] Discover (outcome_of ''mist'' Discover 5 [] (Returned JNull)) ex_degraded = Inr doc \<and>
     ss_lifecycle doc = Ready \<and> (\<forall>(n, c) \<in> set (ss_connectors doc). \<forall>k. cp_failures (ct_phase c k) = 0)"
proof -
  have "map_sum id ss_lifecycle (phase_state 0 [] Discover (outcome_of ''mist'' Discover 5 [] (Returned JNull)) ex_degraded) = Inr Ready"
    by code_simp
  then obtain doc where doc: "phase_state 0 [] Discover (outcome_of ''mist'' Discover 5 [] (Returned JNull)) ex_degraded = Inr doc"
    "ss_lifecycle doc = Ready" by (auto simp: map_sum_eq_Inr)
  have "doc_ok ex_degraded" by (simp add: doc_ok_def ex_degraded_def default_state_def total_failures_def)
  from recovery_needs_clean_counters [OF this doc(1)] doc show ?thesis by (auto simp: ex_degraded_def)
qed

text \<open>
  The start-up ends ready exactly when the discovery and the collection of every collector
  succeeded; otherwise it ends degraded.
\<close>

theorem startup_ready_iff_all_succeeded:
  assumes "set collectors \<subseteq> set (map oc_connector disc)"
    and "sd_discovered sd = succeeded_names disc"
  shows "ss_lifecycle (sd_doc (startup_collected clock duration collectors disc coll sd)) =
    (if all_succeeded disc \<and> all_succeeded coll then Ready else Degraded)"
proof (cases "all_succeeded disc")
  case True
  then have "succeeded_names disc = map oc_connector disc"
    by (simp add: all_succeeded_def succeeded_names_def list_all_iff)
  with assms have "\<not> unavailable collectors sd" by (auto simp: unavailable_def list_ex_iff)
  with True show ?thesis
    by (simp add: startup_collected_def collection_outcome_def discovery_outcome_def Let_def)
qed (simp add: startup_collected_def discovery_outcome_def Let_def)

lemma startup_ready_iff_all_succeeded_witness:
  "ss_lifecycle (sd_doc (startup_collected 0 0 [''mist''] [outcome_of ''mist'' Discover 1 [] (Returned JNull)]
     [outcome_of ''mist'' Collect 1 [] (Raised_Skip ''mode'')] (idle_scheduler default_state [''mist'']))) = Degraded"
  using startup_ready_iff_all_succeeded [of "[''mist'']" "[outcome_of ''mist'' Discover 1 [] (Returned JNull)]"
      "idle_scheduler default_state [''mist'']" 0 0 "[outcome_of ''mist'' Collect 1 [] (Raised_Skip ''mode'')]"]
  by (simp add: outcome_of_def succeeded_names_def idle_scheduler_def all_succeeded_def)

end
