(* ===== verification/Influx_Writer.thy ===== *)
theory Influx_Writer
  imports Telemetry
begin

text \<open>
  \<open>InfluxWriter\<close> of \<open>collectors/writer.py\<close>: which points are written, their encoding in
  the line protocol, the batched and retried delivery, and the structured failure with its
  redacted texts. What the database answers to each request is an arbitrary schedule; a run
  returns the requests and pauses it made, in order, next to its result.
\<close>

definition backslash :: char where
  "backslash = char_of (92 :: nat)"

definition newline :: char where
  "newline = char_of (10 :: nat)"

definition carriage_return :: char where
  "carriage_return = char_of (13 :: nat)"

definition double_quote :: char where
  "double_quote = char_of (34 :: nat)"

section \<open>Line protocol\<close>

definition escape_with :: "string \<Rightarrow> string \<Rightarrow> string" where
  "escape_with chars s = concat (map (\<lambda>c. if c \<in> set chars then [backslash, c] else [c]) s)"

definition measurement_escapes :: string where
  "measurement_escapes = [CHR '' '', CHR '','', backslash]"

definition key_escapes :: string where
  "key_escapes = [CHR '' '', CHR '','', CHR ''='', backslash]"

text \<open>\<open>str.replace\<close> of a single character.\<close>

definition replace_one :: "char \<Rightarrow> string \<Rightarrow> string \<Rightarrow> string" where
  "replace_one a r s = concat (map (\<lambda>c. if c = a then r else [c]) s)"

definition quote_field :: "string \<Rightarrow> string" where
  "quote_field s = double_quote #
     replace_one newline [backslash, CHR ''n'']
       (replace_one carriage_return [backslash, CHR ''r'']
         (replace_one double_quote [backslash, double_quote]
           (replace_one backslash [backslash, backslash] s))) @ [double_quote]"

record influx_error =
  ie_message :: string
  ie_category :: string
  ie_http_status :: "int option"
  ie_response :: "string option"
  ie_measurements :: "string list"
  ie_offending_field :: "string option"
  ie_offending_tag :: "string option"
  ie_invalid_value :: "string option"
  ie_influx_error :: "string option"

definition plain_error :: "string \<Rightarrow> string \<Rightarrow> influx_error" where
  "plain_error message category =
     \<lparr>ie_message = message, ie_category = category, ie_http_status = None, ie_response = None,
      ie_measurements = [], ie_offending_field = None, ie_offending_tag = None,
      ie_invalid_value = None, ie_influx_error = None\<rparr>"

datatype write_exn =
    Rejected_Point point_exn
  | Write_Failed influx_error
  | Raised py_exn

definition bind_write :: "write_exn + 'a \<Rightarrow> ('a \<Rightarrow> write_exn + 'b) \<Rightarrow> write_exn + 'b" where
  "bind_write r f = (case r of Inl e \<Rightarrow> Inl e | Inr a \<Rightarrow> f a)"

lemma bind_write_simps [simp]:
  "bind_write (Inl e) f = Inl e"
  "bind_write (Inr a) f = f a"
  by (simp_all add: bind_write_def)

lemma bind_write_eq_Inr: "bind_write r f = Inr b \<longleftrightarrow> (\<exists>a. r = Inr a \<and> f a = Inr b)"
  by (cases r) simp_all

fun map_write :: "('a \<Rightarrow> write_exn + 'b) \<Rightarrow> 'a list \<Rightarrow> write_exn + 'b list" where
  "map_write f [] = Inr []"
| "map_write f (x # xs) =
     bind_write (f x) (\<lambda>y. bind_write (map_write f xs) (\<lambda>ys. Inr (y # ys)))"

definition raised :: "'a res \<Rightarrow> write_exn + 'a" where
  "raised r = map_sum Raised id r"

definition encode_tag :: "string \<times> json \<Rightarrow> string" where
  "encode_tag = (\<lambda>(k, v). '','' @ escape_with key_escapes k @ ''='' @ escape_with key_escapes (py_str v))"

definition written_tags :: "dict \<Rightarrow> dict" where
  "written_tags tags = filter (\<lambda>(k, v). v \<noteq> JNull \<and> v \<noteq> JStr []) (sort_key fst tags)"

text \<open>One field: none for an absent value, an error for a value the protocol cannot hold.\<close>

definition invalid_number :: "string \<Rightarrow> string \<Rightarrow> string \<Rightarrow> influx_error" where
  "invalid_number measurement key s =
     (plain_error ''InfluxDB line protocol contains a non-finite numeric value'' ''invalid_numeric_value'')
       \<lparr>ie_measurements := [measurement], ie_offending_field := Some key, ie_invalid_value := Some s\<rparr>"

definition unsupported_field :: "string \<Rightarrow> string \<Rightarrow> json \<Rightarrow> influx_error" where
  "unsupported_field measurement key v =
     (plain_error ''InfluxDB line protocol contains an unsupported field type'' ''unsupported_field_type'')
       \<lparr>ie_measurements := [measurement], ie_offending_field := Some key,
        ie_invalid_value := Some (type_name v)\<rparr>"

fun encode_value :: "string \<Rightarrow> string \<Rightarrow> json \<Rightarrow> write_exn + string option" where
  "encode_value m key (JBool b) = Inr (Some (if b then ''true'' else ''false''))"
| "encode_value m key (JInt i) = Inr (Some (show_int i @ ''i''))"
| "encode_value m key (JFloat s) =
     (if is_nonfinite s then Inl (Write_Failed (invalid_number m key s)) else Inr (Some s))"
| "encode_value m key (JStr s) = Inr (if s = [] then None else Some (quote_field s))"
| "encode_value m key JNull = Inr None"
| "encode_value m key v = Inl (Write_Failed (unsupported_field m key v))"

definition encode_field :: "string \<Rightarrow> string \<times> json \<Rightarrow> write_exn + string list" where
  "encode_field m = (\<lambda>(k, v). bind_write (encode_value m k v) (\<lambda>e.
     Inr (case e of None \<Rightarrow> [] | Some t \<Rightarrow> [escape_with key_escapes k @ ''='' @ t])))"

definition timestamp_suffix :: "dict \<Rightarrow> write_exn + string" where
  "timestamp_suffix point = (if dget point ''timestamp'' = JNull then Inr []
     else bind_write (raised (py_int (dget point ''timestamp''))) (\<lambda>i. Inr ('' '' @ show_int i)))"

definition line_of :: "string \<Rightarrow> dict \<Rightarrow> string list \<Rightarrow> string \<Rightarrow> string" where
  "line_of m tags fs ts =
     escape_with measurement_escapes m @ concat (map encode_tag (written_tags tags)) @ '' '' @
     join '','' fs @ ts"

definition want_object :: "json option \<Rightarrow> write_exn + dict" where
  "want_object v = (case v of None \<Rightarrow> Inl (Raised (KeyError ''fields''))
     | Some (JObj d) \<Rightarrow> Inr d | Some _ \<Rightarrow> Inl (Raised (AttributeError ''object has no attribute items'')))"

definition line_protocol :: "dict \<Rightarrow> write_exn + string option" where
  "line_protocol point =
     (case map_of point ''measurement'' of None \<Rightarrow> Inl (Raised (KeyError ''measurement''))
      | Some mv \<Rightarrow> (let m = py_str mv in
          bind_write (want_object (Some (dget_or point ''tags'' (JObj [])))) (\<lambda>tags.
          bind_write (want_object (map_of point ''fields'')) (\<lambda>fields.
          bind_write (map_write (encode_field m) (sort_key fst fields)) (\<lambda>parts.
          if concat parts = [] then Inr None
          else bind_write (timestamp_suffix point) (\<lambda>ts.
            Inr (Some (line_of m tags (concat parts) ts))))))))"

section \<open>Redaction\<close>

definition REDACTED :: string where
  "REDACTED = ''[REDACTED]''"

definition SENSITIVE_WORDS :: "string list" where
  "SENSITIVE_WORDS = [''authorization'', ''api_key'', ''api-key'', ''apikey'', ''token'',
     ''password'', ''secret'', ''cookie'']"

text \<open>A word at the start of a text, without regard to case.\<close>

definition opens_with :: "string \<Rightarrow> string \<Rightarrow> bool" where
  "opens_with w s = (lower (take (length w) s) = w)"

fun first_prefix :: "string list \<Rightarrow> string \<Rightarrow> string option" where
  "first_prefix [] s = None"
| "first_prefix (w # ws) s = (if opens_with w s then Some w else first_prefix ws s)"

text \<open>
  The regular expression of \<open>_safe_text\<close> at one position: a sensitive word, a separator with
  surrounding blanks, and a non-empty value; the text before the value is kept. No two of its
  alternatives match at one position and no blank can be given back, so there is nothing to
  backtrack.
\<close>

definition value_char :: "char \<Rightarrow> bool" where
  "value_char c = (\<not> is_space c \<and> c \<notin> {CHR '','', CHR '';'', CHR ''&''})"

definition sensitive_match :: "string \<Rightarrow> (string \<times> string) option" where
  "sensitive_match s = (case first_prefix SENSITIVE_WORDS s of None \<Rightarrow> None
   | Some w \<Rightarrow> (let r = drop (length w) s in
      case dropWhile is_space r of [] \<Rightarrow> None
      | c # r2 \<Rightarrow> (let v = dropWhile is_space r2 in
          if c \<in> {CHR ''='', CHR '':''} \<and> takeWhile value_char v \<noteq> []
          then Some (take (length w) s @ takeWhile is_space r @ [c] @ takeWhile is_space r2,
                     dropWhile value_char v)
          else None)))"

lemma sensitive_match_split:
  assumes "sensitive_match s = Some (kept, rest)"
  shows "\<exists>v. v \<noteq> [] \<and> s = kept @ v @ rest"
proof -
  from assms obtain w c r2 where w: "first_prefix SENSITIVE_WORDS s = Some w"
    and r: "dropWhile is_space (drop (length w) s) = c # r2"
    and v: "takeWhile value_char (dropWhile is_space r2) \<noteq> []"
    and k: "kept = take (length w) s @ takeWhile is_space (drop (length w) s) @ [c] @ takeWhile is_space r2"
    and t: "rest = dropWhile value_char (dropWhile is_space r2)"
    by (auto simp: sensitive_match_def Let_def split: option.splits list.splits if_splits)
  have "s = take (length w) s @ takeWhile is_space (drop (length w) s) @ c # r2"
    by (metis append_take_drop_id r takeWhile_dropWhile_id)
  also have "r2 = takeWhile is_space r2 @ takeWhile value_char (dropWhile is_space r2) @ rest"
    by (simp add: t)
  finally show ?thesis using v k by (intro exI [of _ "takeWhile value_char (dropWhile is_space r2)"]) simp
qed

function redact_named :: "string \<Rightarrow> string" where
  "redact_named s = (case sensitive_match s of
     Some (kept, rest) \<Rightarrow> kept @ REDACTED @ redact_named rest
   | None \<Rightarrow> (case s of [] \<Rightarrow> [] | c # cs \<Rightarrow> c # redact_named cs))"
  by pat_completeness auto
termination
  by (relation "measure length") (auto dest: sensitive_match_split)

declare redact_named.simps [simp del]

definition redact_secret :: "string \<Rightarrow> string \<Rightarrow> string" where
  "redact_secret text secret = (if secret = [] then text else replace_str secret REDACTED text)"

definition safe_text :: "string list \<Rightarrow> string \<Rightarrow> string" where
  "safe_text secrets s =
     take 4096 (redact_named (foldl redact_secret
       (join '' '' (split_ws (replace_char (char_of (0 :: nat)) (CHR '' '') s))) secrets))"

section \<open>Reading the rejection\<close>

fun search_text :: "(string \<Rightarrow> string option) \<Rightarrow> string \<Rightarrow> string option" where
  "search_text m [] = m []"
| "search_text m (c # cs) = (case m (c # cs) of Some g \<Rightarrow> Some g | None \<Rightarrow> search_text m cs)"

text \<open>\<open>word(?: key| name)?\<close> at the start of a text: what follows it.\<close>

definition after_word :: "bool \<Rightarrow> string \<Rightarrow> string \<Rightarrow> string option" where
  "after_word qualified w s = (if \<not> opens_with w s then None
     else (let r = drop (length w) s in
       Some (if qualified \<and> opens_with '' key'' r then drop 4 r
             else if qualified \<and> opens_with '' name'' r then drop 5 r else r)))"

definition is_quote :: "char \<Rightarrow> bool" where
  "is_quote c = (c \<in> {double_quote, char_of (39 :: nat), char_of (96 :: nat)})"

definition non_empty :: "string \<Rightarrow> string option" where
  "non_empty s = (if s = [] then None else Some s)"

definition match_quoted :: "bool \<Rightarrow> string \<Rightarrow> string \<Rightarrow> string option" where
  "match_quoted qualified w s = (case after_word qualified w s of None \<Rightarrow> None
   | Some r \<Rightarrow> (case dropWhile is_space r of [] \<Rightarrow> None
      | c # t \<Rightarrow> if is_quote c then non_empty (takeWhile (\<lambda>x. \<not> is_quote x) t) else None))"

definition name_char :: "char \<Rightarrow> bool" where
  "name_char c = (is_alnum c \<or> c \<in> {CHR ''_'', CHR ''.'', CHR ''-''})"

definition match_assigned :: "string \<Rightarrow> string \<Rightarrow> string option" where
  "match_assigned w s = (case after_word True w s of None \<Rightarrow> None
   | Some r \<Rightarrow> (case dropWhile is_space r of [] \<Rightarrow> None
      | c # t \<Rightarrow> if c \<in> {CHR '':'', CHR ''=''}
          then non_empty (takeWhile name_char (dropWhile is_space t)) else None))"

definition FIELD_NAME_PATTERNS :: "(string \<Rightarrow> string option) list" where
  "FIELD_NAME_PATTERNS = [match_quoted True ''field'', match_assigned ''field'', match_quoted False ''column'']"

definition TAG_NAME_PATTERNS :: "(string \<Rightarrow> string option) list" where
  "TAG_NAME_PATTERNS = [match_quoted True ''tag'', match_assigned ''tag'']"

fun first_match :: "(string \<Rightarrow> string option) list \<Rightarrow> string \<Rightarrow> string option" where
  "first_match [] text = None"
| "first_match (m # ms) text = (case search_text m text of
     Some g \<Rightarrow> Some (strip g) | None \<Rightarrow> first_match ms text)"

text \<open>
  A response is its status, its text and the JSON value its redacted text parses to, if any; a
  transport error is none.
\<close>

record response =
  rs_status :: int
  rs_detail :: string
  rs_json :: "json option"

definition influx_error_text :: "response \<Rightarrow> string \<Rightarrow> string" where
  "influx_error_text r text = (case rs_json r of
     Some (JObj d) \<Rightarrow> py_str (por (dget d ''message'') (por (dget d ''error'') (JStr text)))
   | _ \<Rightarrow> text)"

definition failure_category :: "int \<Rightarrow> string" where
  "failure_category status =
     (if status \<in> {401, 403} then ''influx_authentication_failed''
      else if status = 404 then ''influx_database_missing'' else ''write_failed'')"

definition line_measurement :: "string \<Rightarrow> string" where
  "line_measurement l = takeWhile (\<lambda>c. c \<noteq> CHR '' '') (takeWhile (\<lambda>c. c \<noteq> CHR '','') l)"

definition rejection :: "string \<Rightarrow> string list \<Rightarrow> response \<Rightarrow> influx_error" where
  "rejection token batch r =
     (let text = safe_text [token] (rs_detail r); err = safe_text [token] (influx_error_text r text) in
      \<lparr>ie_message = ''InfluxDB rejected telemetry (HTTP '' @ show_int (rs_status r) @ '')'' @
         (if err = [] then [] else '': '' @ err),
       ie_category = failure_category (rs_status r), ie_http_status = Some (rs_status r),
       ie_response = Some text, ie_measurements = usort (map line_measurement batch),
       ie_offending_field = first_match FIELD_NAME_PATTERNS text,
       ie_offending_tag = first_match TAG_NAME_PATTERNS text,
       ie_invalid_value = None, ie_influx_error = Some err\<rparr>)"

section \<open>Delivery\<close>

record influx_writer =
  iw_delegate :: bool
  iw_url :: string
  iw_token :: string
  iw_database :: string
  iw_metadata :: deployment
  iw_batch_size :: int
  iw_retries :: int
  iw_accept_legacy :: bool

datatype event = Post string "response option" | Sleep int

type_synonym server = "nat \<Rightarrow> response option"

definition accepted :: "response option \<Rightarrow> bool" where
  "accepted a = (case a of None \<Rightarrow> False | Some r \<Rightarrow> rs_status r < 300)"

definition retryable :: "int \<Rightarrow> bool" where
  "retryable status = (status \<in> {429, 500, 502, 503, 504})"

definition transport_failure :: influx_error where
  "transport_failure = plain_error ''InfluxDB write transport failure'' ''write_failed''"

text \<open>
  \<open>for attempt in range(retries + 1)\<close>: \<open>k\<close> iterations are left, \<open>n\<close> requests were made
  before. A success breaks, a final or last failure raises, everything else pauses and goes on.
\<close>

fun post_attempts :: "influx_writer \<Rightarrow> server \<Rightarrow> string list \<Rightarrow> nat \<Rightarrow> nat \<Rightarrow> nat \<Rightarrow> event list \<times> (influx_error + unit)" where
  "post_attempts w S batch 0 attempt n = ([], Inr ())"
| "post_attempts w S batch (Suc k) attempt n =
     (let body = join [newline] batch; a = S n;
          again = (let (es, r) = post_attempts w S batch k (Suc attempt) (Suc n)
            in (Post body a # Sleep (min (2 ^ attempt) 4) # es, r))
      in case a of
        None \<Rightarrow> if int attempt = iw_retries w then ([Post body a], Inl transport_failure) else again
      | Some r \<Rightarrow>
          if rs_status r < 300 then ([Post body a], Inr ())
          else if \<not> retryable (rs_status r) \<or> int attempt = iw_retries w
          then ([Post body a], Inl (rejection (iw_token w) batch r))
          else again)"

definition posts :: "event list \<Rightarrow> (string \<times> response option) list" where
  "posts es = concat (map (\<lambda>e. case e of Post b a \<Rightarrow> [(b, a)] | Sleep _ \<Rightarrow> []) es)"

text \<open>The batches in order; \<open>n\<close> requests were made and \<open>written\<close> lines delivered before.\<close>

fun deliver_batches :: "influx_writer \<Rightarrow> server \<Rightarrow> string list list \<Rightarrow> nat \<Rightarrow> nat \<Rightarrow> event list \<times> (influx_error + nat)" where
  "deliver_batches w S [] n written = ([], Inr written)"
| "deliver_batches w S (batch # rest) n written =
     (case post_attempts w S batch (nat (iw_retries w + 1)) 0 n of
        (es, Inl e) \<Rightarrow> (es, Inl e)
      | (es, Inr _) \<Rightarrow> (let (es', r) = deliver_batches w S rest (n + length (posts es)) (written + length batch)
          in (es @ es', r)))"

function chunks :: "nat \<Rightarrow> 'a list \<Rightarrow> 'a list list" where
  "chunks b xs = (if b = 0 \<or> xs = [] then [] else take b xs # chunks b (drop b xs))"
  by pat_completeness auto
termination
  by (relation "measure (\<lambda>(b, xs). length xs)") auto

declare chunks.simps [simp del]

text \<open>\<open>range(0, len(lines), batch_size)\<close> with a zero step raises, with a negative one is empty.\<close>

definition batches :: "int \<Rightarrow> 'a list \<Rightarrow> write_exn + 'a list list" where
  "batches b xs = (if b = 0 then Inl (Raised (ValueError ''range() arg 3 must not be zero''))
     else Inr (chunks (nat b) xs))"

section \<open>Writing points\<close>

definition health_owner_ok :: "dict \<Rightarrow> write_exn + bool" where
  "health_owner_ok point = (case por (dget point ''tags'') (JObj []) of
     JObj tags \<Rightarrow> Inr (dget tags ''health_owner'' = JStr ''framework'')
   | _ \<Rightarrow> Inl (Raised (AttributeError ''object has no attribute get'')))"

definition admits :: "influx_writer \<Rightarrow> dict \<Rightarrow> write_exn + bool" where
  "admits w point = (if iw_accept_legacy w \<or> dget point ''measurement'' \<noteq> JStr ''collector_health''
     then Inr True else health_owner_ok point)"

definition admitted :: "influx_writer \<Rightarrow> dict list \<Rightarrow> write_exn + dict list" where
  "admitted w points = bind_write
     (map_write (\<lambda>p. bind_write (admits w p) (\<lambda>b. Inr (if b then [p] else []))) points)
     (\<lambda>pss. Inr (concat pss))"

definition normalise_points :: "influx_writer \<Rightarrow> dict list \<Rightarrow> write_exn + dict list" where
  "normalise_points w points = map_write
     (\<lambda>(n, p). map_sum Rejected_Point id (normalize_point p (iw_metadata w) (int n)))
     (enumerate 1 points)"

definition point_lines :: "dict list \<Rightarrow> write_exn + string list" where
  "point_lines points = bind_write (map_write line_protocol points)
     (\<lambda>ls. Inr (concat (map (\<lambda>l. case l of None \<Rightarrow> [] | Some s \<Rightarrow> if s = [] then [] else [s]) ls)))"

definition point_dict :: "json \<Rightarrow> write_exn + dict" where
  "point_dict v = (case v of JObj d \<Rightarrow> Inr d | _ \<Rightarrow> Inl (Raised (AttributeError ''object has no attribute get'')))"

definition incomplete_configuration :: influx_error where
  "incomplete_configuration =
     plain_error ''InfluxDB writer configuration is incomplete'' ''configuration_incomplete''"

text \<open>What \<open>write\<close> ends in: the delegate is handed points, or lines were delivered.\<close>

datatype write_result = To_Delegate "json list" | Written nat

definition prepared :: "influx_writer \<Rightarrow> json list \<Rightarrow> write_exn + dict list" where
  "prepared w points = bind_write (map_write point_dict points) (\<lambda>ps.
     bind_write (admitted w ps) (normalise_points w))"

definition delivery_plan :: "influx_writer \<Rightarrow> dict list \<Rightarrow> write_exn + string list list" where
  "delivery_plan w ps =
     (if iw_url w = [] \<or> iw_token w = [] \<or> iw_database w = []
      then Inl (Write_Failed incomplete_configuration)
      else bind_write (point_lines ps) (batches (iw_batch_size w)))"

definition write_points :: "influx_writer \<Rightarrow> server \<Rightarrow> json list \<Rightarrow> event list \<times> (write_exn + write_result)" where
  "write_points w S points =
     (if iw_delegate w \<and> \<not> list_all is_obj points then ([], Inr (To_Delegate points))
      else case prepared w points of
        Inl e \<Rightarrow> ([], Inl e)
      | Inr ps \<Rightarrow>
          (if iw_delegate w then ([], Inr (To_Delegate (map JObj ps)))
           else case delivery_plan w ps of
             Inl e \<Rightarrow> ([], Inl e)
           | Inr bs \<Rightarrow> map_prod id (map_sum Write_Failed Written) (deliver_batches w S bs 0 0)))"

end
