(* ===== verification/Influx_Properties.thy ===== *)
theory Influx_Properties
  imports Influx_Writer "HOL-Library.Sublist"
begin

text \<open>
  What the writer promises: a line determines the point it encodes, the lines of a call are
  delivered in order and once, with bounded requests and pauses, and no diagnostic text carries
  the access token.
\<close>

section \<open>Reading lines back\<close>

text \<open>
  A reader of the line protocol as the database documents it: a backslash takes the next
  character literally, tags and fields are separated by unescaped commas, a quoted field value
  ends at the first unescaped quote.
\<close>

fun read_token :: "string \<Rightarrow> string \<Rightarrow> string \<times> string" where
  "read_token stops [] = ([], [])"
| "read_token stops (c # cs) =
     (if c = backslash then (case cs of [] \<Rightarrow> ([c], []) | d # ds \<Rightarrow> map_prod ((#) d) id (read_token stops ds))
      else if c \<in> set stops then ([], c # cs)
      else map_prod ((#) c) id (read_token stops cs))"

definition unescape_char :: "char \<Rightarrow> char" where
  "unescape_char c = (if c = CHR ''n'' then newline else if c = CHR ''r'' then carriage_return else c)"

fun read_quoted :: "string \<Rightarrow> string \<times> string" where
  "read_quoted [] = ([], [])"
| "read_quoted (c # cs) =
     (if c = backslash then (case cs of [] \<Rightarrow> ([c], []) | d # ds \<Rightarrow> map_prod ((#) (unescape_char d)) id (read_quoted ds))
      else if c = double_quote then ([], cs)
      else map_prod ((#) c) id (read_quoted cs))"

datatype field_text = Quoted string | Bare string

definition bare_char :: "char \<Rightarrow> bool" where
  "bare_char c = (c \<noteq> CHR '','' \<and> c \<noteq> CHR '' '')"

fun read_value :: "string \<Rightarrow> field_text \<times> string" where
  "read_value [] = (Bare [], [])"
| "read_value (c # cs) =
     (if c = double_quote then map_prod Quoted id (read_quoted cs)
      else (Bare (takeWhile bare_char (c # cs)), dropWhile bare_char (c # cs)))"

fun read_tags :: "nat \<Rightarrow> string \<Rightarrow> (string \<times> string) list \<times> string" where
  "read_tags 0 s = ([], s)"
| "read_tags (Suc fuel) s = (case s of
     c # r \<Rightarrow> if c = CHR '','' then
       (let (k, r1) = read_token [CHR ''=''] r; (v, r2) = read_token [CHR '','', CHR '' ''] (tl r1);
            (kvs, r3) = read_tags fuel r2 in ((k, v) # kvs, r3))
       else ([], s)
   | [] \<Rightarrow> ([], []))"

fun read_fields :: "nat \<Rightarrow> string \<Rightarrow> (string \<times> field_text) list \<times> string" where
  "read_fields 0 s = ([], s)"
| "read_fields (Suc fuel) s =
     (let (k, r1) = read_token [CHR ''=''] s; (v, r2) = read_value (tl r1) in
      case r2 of
        c # r \<Rightarrow> if c = CHR '','' then
           (let (kvs, r3) = read_fields fuel r in ((k, v) # kvs, r3)) else ([(k, v)], r2)
      | [] \<Rightarrow> ([(k, v)], []))"

definition read_line :: "string \<Rightarrow> string \<times> (string \<times> string) list \<times> (string \<times> field_text) list \<times> string" where
  "read_line s =
     (let (m, r1) = read_token [CHR '','', CHR '' ''] s; (tags, r2) = read_tags (length s) r1;
          (fields, r3) = read_fields (length s) (tl r2) in (m, tags, fields, r3))"

text \<open>What a reader should find of a point.\<close>

fun field_token :: "string \<times> json \<Rightarrow> (string \<times> field_text) list" where
  "field_token (k, JBool b) = [(k, Bare (if b then ''true'' else ''false''))]"
| "field_token (k, JInt i) = [(k, Bare (show_int i @ ''i''))]"
| "field_token (k, JFloat s) = [(k, Bare s)]"
| "field_token (k, JStr s) = (if s = [] then [] else [(k, Quoted s)])"
| "field_token (k, v) = []"

definition tag_texts :: "dict \<Rightarrow> (string \<times> string) list" where
  "tag_texts tags = map (\<lambda>(k, v). (k, py_str v)) (written_tags tags)"

text \<open>The \<open>repr\<close> of a float is not empty and has neither blank, comma nor quote.\<close>

definition float_text :: "string \<Rightarrow> bool" where
  "float_text s = (s \<noteq> [] \<and> list_all (\<lambda>c. bare_char c \<and> c \<noteq> double_quote) s)"

definition float_fields :: "dict \<Rightarrow> bool" where
  "float_fields fs = list_all (\<lambda>(k, v). case v of JFloat s \<Rightarrow> float_text s | _ \<Rightarrow> True) fs"

subsection \<open>Tokens\<close>

lemma special_chars [simp]:
  "backslash \<noteq> CHR '' ''" "backslash \<noteq> CHR '',''" "backslash \<noteq> CHR ''=''" "backslash \<noteq> double_quote"
  "backslash \<noteq> newline" "backslash \<noteq> carriage_return" "double_quote \<noteq> backslash"
  "double_quote \<noteq> newline" "double_quote \<noteq> carriage_return" "newline \<noteq> backslash"
  "newline \<noteq> double_quote" "newline \<noteq> carriage_return" "carriage_return \<noteq> newline"
  "carriage_return \<noteq> backslash" "carriage_return \<noteq> double_quote"
  "CHR '' '' \<noteq> backslash" "CHR '','' \<noteq> backslash" "CHR ''='' \<noteq> backslash"
  "CHR ''n'' \<noteq> backslash" "CHR ''r'' \<noteq> backslash"
  "CHR ''n'' \<noteq> double_quote" "CHR ''r'' \<noteq> double_quote" "double_quote \<noteq> CHR ''n''"
  "double_quote \<noteq> CHR ''r''" "backslash \<noteq> CHR ''n''" "backslash \<noteq> CHR ''r''"
  "CHR ''r'' \<noteq> newline" "CHR ''n'' \<noteq> newline" "double_quote \<noteq> CHR '',''" "double_quote \<noteq> CHR '' ''"
  "newline \<noteq> CHR '' ''" "newline \<noteq> CHR '',''" "newline \<noteq> CHR ''=''"
  by (code_simp)+

lemma escape_with_simps [simp]:
  "escape_with chars [] = []"
  "escape_with chars (c # s) = (if c \<in> set chars then [backslash, c] else [c]) @ escape_with chars s"
  by (simp_all add: escape_with_def)

lemma read_token_escape:
  assumes "backslash \<in> set chars" and "set stops \<subseteq> set chars" and "c \<in> set stops"
    and "backslash \<notin> set stops"
  shows "read_token stops (escape_with chars s @ c # r) = (s, c # r)"
  using assms by (induction s) auto

lemma quote_field_chars:
  "quote_field s = double_quote # concat (map (\<lambda>c.
     if c = backslash then [backslash, backslash]
     else if c = double_quote then [backslash, double_quote]
     else if c = carriage_return then [backslash, CHR ''r'']
     else if c = newline then [backslash, CHR ''n''] else [c]) s) @ [double_quote]"
  unfolding quote_field_def
  by (induction s) (auto simp: replace_one_def)

lemma read_quoted_field: "read_quoted (tl (quote_field s) @ r) = (s, r)"
  unfolding quote_field_chars
  by (induction s) (auto simp: unescape_char_def)

lemma read_value_quoted: "read_value (quote_field s @ r) = (Quoted s, r)"
proof -
  have "quote_field s = double_quote # tl (quote_field s)" by (simp add: quote_field_def)
  then have "read_value (quote_field s @ r) = map_prod Quoted id (read_quoted (tl (quote_field s) @ r))"
    by (metis append_Cons read_value.simps(2))
  then show ?thesis by (simp add: read_quoted_field)
qed

definition ends_value :: "string \<Rightarrow> bool" where
  "ends_value r = (r = [] \<or> \<not> bare_char (hd r))"

lemma takeWhile_bare:
  assumes "list_all bare_char s" and "ends_value r"
  shows "takeWhile bare_char (s @ r) = s" "dropWhile bare_char (s @ r) = r"
  using assms unfolding ends_value_def by (induction s; cases r; simp)+

lemma read_value_bare:
  assumes "float_text s" and "ends_value r"
  shows "read_value (s @ r) = (Bare s, r)"
proof -
  obtain c cs where s: "s = c # cs" "c \<noteq> double_quote" and bare: "list_all bare_char s"
    using assms(1) by (cases s) (auto simp: float_text_def list_all_iff)
  have "read_value (s @ r) = (Bare (takeWhile bare_char (s @ r)), dropWhile bare_char (s @ r))"
    using s by simp
  then show ?thesis by (simp only: takeWhile_bare [OF bare assms(2)])
qed

lemma digit_char_bare: "n < 10 \<Longrightarrow> bare_char (digit_char n) \<and> digit_char n \<noteq> double_quote \<and> digit_char n \<noteq> newline"
proof -
  assume "n < 10"
  then have "n \<in> {0, 1, 2, 3, 4, 5, 6, 7, 8, 9}" by auto
  then show ?thesis by (elim insertE emptyE; hypsubst; code_simp)
qed

lemma show_nat_bare: "list_all (\<lambda>c. bare_char c \<and> c \<noteq> double_quote \<and> c \<noteq> newline) (show_nat n)"
proof (induction n rule: show_nat.induct)
  case (1 n)
  then show ?case by (simp add: show_nat.simps [of n] digit_char_bare)
qed

lemma show_int_bare: "list_all (\<lambda>c. bare_char c \<and> c \<noteq> double_quote \<and> c \<noteq> newline) (show_int i)"
proof -
  have "bare_char (CHR ''-'') \<and> CHR ''-'' \<noteq> double_quote \<and> CHR ''-'' \<noteq> newline" by code_simp
  then show ?thesis by (simp add: show_int_def show_nat_bare)
qed

lemma show_nat_Cons: "show_nat n \<noteq> []"
  by (simp add: show_nat.simps [of n])

lemma show_int_Cons: "show_int i \<noteq> []"
  by (simp add: show_int_def show_nat_Cons)

lemma integer_text: "float_text (show_int i @ ''i'')"
proof -
  have "bare_char (CHR ''i'') \<and> CHR ''i'' \<noteq> double_quote" by code_simp
  with show_int_bare [of i] show ?thesis by (auto simp: float_text_def list_all_iff)
qed

lemma boolean_text: "float_text ''true''" "float_text ''false''"
  by code_simp+

lemma encode_value_read:
  assumes "encode_value m k v = Inr e" and "\<And>s. v = JFloat s \<Longrightarrow> float_text s"
    and "ends_value r"
  shows "(case e of None \<Rightarrow> field_token (k, v) = []
    | Some t \<Rightarrow> \<exists>x. field_token (k, v) = [(k, x)] \<and> read_value (t @ r) = (x, r))"
  using assms
  by (cases v)
     (auto simp: read_value_bare integer_text boolean_text read_value_quoted split: if_splits
       simp del: append.simps append_assoc read_value.simps)

lemma encode_field_read:
  assumes "encode_field m (k, v) = Inr ts" and "\<And>s. v = JFloat s \<Longrightarrow> float_text s"
    and "ends_value r"
  shows "ts = [] \<and> field_token (k, v) = [] \<or> (\<exists>t x. ts = [escape_with key_escapes k @ ''='' @ t] \<and>
     field_token (k, v) = [(k, x)] \<and> read_value (t @ r) = (x, r))"
proof -
  obtain e where e: "encode_value m k v = Inr e"
    "ts = (case e of None \<Rightarrow> [] | Some t \<Rightarrow> [escape_with key_escapes k @ ''='' @ t])"
    using assms(1) by (auto simp: encode_field_def bind_write_eq_Inr)
  show ?thesis using encode_value_read [OF e(1) assms(2,3)] e(2) by (cases e) auto
qed

lemma key_escape_facts [simp]:
  "backslash \<in> set key_escapes" "CHR ''='' \<in> set key_escapes"
  "CHR '','' \<in> set key_escapes" "CHR '' '' \<in> set key_escapes"
  "backslash \<in> set measurement_escapes" "CHR '','' \<in> set measurement_escapes"
  "CHR '' '' \<in> set measurement_escapes"
  by (simp_all add: key_escapes_def measurement_escapes_def)

lemma read_key: "read_token [CHR ''=''] (escape_with key_escapes k @ ''='' @ t) = (k, ''='' @ t)"
  using read_token_escape [of key_escapes "[CHR ''='']" "CHR ''=''" k t] by simp

subsection \<open>Tags and fields\<close>

lemma read_tags_encoded:
  "length tags \<le> n \<Longrightarrow> read_tags n (concat (map encode_tag tags) @ '' '' @ r) =
     (map (\<lambda>(k, v). (k, py_str v)) tags, '' '' @ r)"
proof (induction tags arbitrary: n)
  case Nil
  then show ?case by (cases n) simp_all
next
  case (Cons kv tags)
  obtain k v where kv: "kv = (k, v)" by (cases kv)
  from Cons.prems obtain n' where n: "n = Suc n'" "length tags \<le> n'" by (cases n) auto
  let ?rest = "concat (map encode_tag tags) @ '' '' @ r"
  have "\<exists>c t. ?rest = c # t \<and> c \<in> {CHR '','', CHR '' ''}"
    by (cases tags) (auto simp: encode_tag_def)
  then obtain c t where ct: "?rest = c # t" "c \<in> {CHR '','', CHR '' ''}" by blast
  have v: "read_token [CHR '','', CHR '' ''] (escape_with key_escapes (py_str v) @ ?rest) = (py_str v, ?rest)"
    unfolding ct(1) by (rule read_token_escape) (use ct(2) in auto)
  have "concat (map encode_tag (kv # tags)) @ '' '' @ r =
      CHR '','' # escape_with key_escapes k @ ''='' @ escape_with key_escapes (py_str v) @ ?rest"
    by (simp add: kv encode_tag_def)
  then show ?case
    using Cons.IH [OF n(2)] v by (simp add: n(1) kv read_key [simplified])
qed

definition reads_as :: "string \<Rightarrow> string \<times> field_text \<Rightarrow> bool" where
  "reads_as p tok = (\<exists>t. p = escape_with key_escapes (fst tok) @ ''='' @ t \<and>
     (\<forall>r. ends_value r \<longrightarrow> read_value (t @ r) = (snd tok, r)))"

lemma encode_field_reads:
  assumes "encode_field m (k, v) = Inr ts" and "\<And>s. v = JFloat s \<Longrightarrow> float_text s"
  shows "list_all2 reads_as ts (field_token (k, v))"
proof -
  have read: "ts = [] \<and> field_token (k, v) = [] \<or> (\<exists>t x. ts = [escape_with key_escapes k @ ''='' @ t] \<and>
     field_token (k, v) = [(k, x)] \<and> read_value (t @ r) = (x, r))" if "ends_value r" for r
    by (rule encode_field_read [OF assms(1)]) (use assms(2) that in auto)
  have nil: "ends_value []" by (simp add: ends_value_def)
  from read [OF nil] show ?thesis
  proof (elim disjE conjE exE)
    fix t x assume t: "ts = [escape_with key_escapes k @ ''='' @ t]" "field_token (k, v) = [(k, x)]"
    have "read_value (t @ r) = (x, r)" if "ends_value r" for r
      using read [OF that] t by auto
    then show ?thesis by (auto simp: t reads_as_def)
  qed simp
qed

lemma encode_fields_read:
  "map_write (encode_field m) fs = Inr parts \<Longrightarrow> float_fields fs \<Longrightarrow>
   list_all2 reads_as (concat parts) (concat (map field_token fs))"
proof (induction fs arbitrary: parts)
  case (Cons kv fs)
  obtain k v where kv: "kv = (k, v)" by (cases kv)
  from Cons.prems(1) obtain ts ps where ts: "encode_field m (k, v) = Inr ts"
    and ps: "map_write (encode_field m) fs = Inr ps" and parts: "parts = ts # ps"
    by (auto simp: kv bind_write_eq_Inr)
  have "list_all2 reads_as ts (field_token (k, v))"
    by (rule encode_field_reads [OF ts]) (use Cons.prems(2) in \<open>auto simp: kv float_fields_def\<close>)
  moreover have "list_all2 reads_as (concat ps) (concat (map field_token fs))"
    by (rule Cons.IH [OF ps]) (use Cons.prems(2) in \<open>simp add: float_fields_def\<close>)
  ultimately show ?case by (simp add: parts kv list_all2_appendI)
qed simp

lemma read_fields_encoded:
  "list_all2 reads_as ps toks \<Longrightarrow> ps \<noteq> [] \<Longrightarrow> ts = [] \<or> hd ts = CHR '' '' \<Longrightarrow> length ps \<le> n \<Longrightarrow>
   read_fields n (join '','' ps @ ts) = (toks, ts)"
proof (induction ps toks arbitrary: n rule: list_all2_induct)
  case (Cons p ps tok toks)
  from Cons.prems obtain n' where n: "n = Suc n'" "length ps \<le> n'" by (cases n) auto
  from Cons.hyps(1) obtain t where p: "p = escape_with key_escapes (fst tok) @ ''='' @ t"
    and t: "\<And>r. ends_value r \<Longrightarrow> read_value (t @ r) = (snd tok, r)" by (auto simp: reads_as_def)
  have key: "read_token [CHR ''=''] (escape_with key_escapes (fst tok) @ CHR ''='' # t @ r) =
      (fst tok, CHR ''='' # t @ r)" for r
    using read_key [of "fst tok" "t @ r"] by simp
  show ?case
  proof (cases ps)
    case Nil
    have "ends_value ts" using Cons.prems(2) by (auto simp: ends_value_def bare_char_def)
    note v = t [OF this]
    have toks: "toks = []" using Cons.hyps(2) Nil by simp
    have "join '','' (p # ps) @ ts = escape_with key_escapes (fst tok) @ CHR ''='' # t @ ts"
      by (simp add: Nil p)
    then have "read_fields n (join '','' (p # ps) @ ts) = (case ts of [] \<Rightarrow> ([(fst tok, snd tok)], [])
       | c # r \<Rightarrow> if c = CHR '','' then (let (kvs, r3) = read_fields n' r in ((fst tok, snd tok) # kvs, r3))
           else ([(fst tok, snd tok)], ts))"
      by (simp add: n(1) key v)
    then show ?thesis using Cons.prems(2) toks by (cases ts) auto
  next
    case (Cons q qs)
    let ?r = "CHR '','' # join '','' ps @ ts"
    have "ends_value ?r" by (simp add: ends_value_def bare_char_def)
    note v = t [OF this]
    have "join '','' (p # ps) @ ts = escape_with key_escapes (fst tok) @ CHR ''='' # t @ ?r"
      by (simp add: Cons p)
    moreover have "read_fields n' (join '','' ps @ ts) = (toks, ts)"
      by (rule Cons.IH) (use Cons.prems Cons n in auto)
    ultimately show ?thesis by (simp add: n(1) key v)
  qed
qed simp

subsection \<open>Lines\<close>

lemma sort_key_float_fields: "float_fields fs \<Longrightarrow> float_fields (sort_key f fs)"
  by (simp add: float_fields_def list_all_iff)

lemma length_concat_ge: "(\<And>x. x \<in> set xs \<Longrightarrow> f x \<noteq> []) \<Longrightarrow> length xs \<le> length (concat (map f xs))"
proof (induction xs)
  case (Cons x xs)
  have "f x \<noteq> []" using Cons.prems by simp
  then have "Suc 0 \<le> length (f x)" by (cases "f x") auto
  moreover have "length xs \<le> length (concat (map f xs))" using Cons by simp
  ultimately show ?case by simp
qed simp

lemma length_join_ge: "(\<And>x. x \<in> set xs \<Longrightarrow> x \<noteq> []) \<Longrightarrow> length xs \<le> length (join sep xs)"
proof (induction sep xs rule: join.induct)
  case (3 sep x y xs)
  have "x \<noteq> []" using "3.prems" by simp
  then have "Suc 0 \<le> length x" by (simp add: Suc_le_eq)
  moreover have "length (y # xs) \<le> length (join sep (y # xs))" by (rule "3.IH") (use "3.prems" in auto)
  ultimately show ?case by simp
qed (auto simp: Suc_le_eq)

lemma reads_as_Cons: "reads_as p tok \<Longrightarrow> p \<noteq> []"
  by (auto simp: reads_as_def)

lemma read_line_of:
  assumes parts: "list_all2 reads_as ps toks" "ps \<noteq> []" and ts: "ts = [] \<or> hd ts = CHR '' ''"
  shows "read_line (line_of m tags ps ts) = (m, tag_texts tags, toks, ts)"
proof -
  define enc where "enc = concat (map encode_tag (written_tags tags))"
  define body where "body = join '','' ps @ ts"
  have line: "line_of m tags ps ts = escape_with measurement_escapes m @ enc @ '' '' @ body"
    by (simp add: line_of_def enc_def body_def)
  have "\<exists>c t. enc @ '' '' @ body = c # t \<and> c \<in> {CHR '','', CHR '' ''}"
    by (cases "written_tags tags") (auto simp: enc_def encode_tag_def)
  then obtain c t where ct: "enc @ '' '' @ body = c # t" "c \<in> {CHR '','', CHR '' ''}" by blast
  have m: "read_token [CHR '','', CHR '' ''] (line_of m tags ps ts) = (m, enc @ '' '' @ body)"
    unfolding line ct(1) by (rule read_token_escape) (use ct(2) in auto)
  have len: "length enc \<le> length (line_of m tags ps ts)" "length (join '','' ps) \<le> length (line_of m tags ps ts)"
    unfolding line body_def by simp_all
  have "length (written_tags tags) \<le> length enc"
    unfolding enc_def by (rule length_concat_ge) (auto simp: encode_tag_def)
  with len(1) have "read_tags (length (line_of m tags ps ts)) (enc @ '' '' @ body) = (tag_texts tags, '' '' @ body)"
    unfolding enc_def tag_texts_def by (intro read_tags_encoded) simp
  moreover have "length ps \<le> length (join '','' ps)"
  proof (rule length_join_ge)
    fix p assume "p \<in> set ps"
    then obtain i where "i < length ps" "p = ps ! i" by (auto simp: in_set_conv_nth)
    then have "reads_as p (toks ! i)" using parts(1) by (simp add: list_all2_conv_all_nth)
    then show "p \<noteq> []" by (rule reads_as_Cons)
  qed
  with len(2) have "read_fields (length (line_of m tags ps ts)) body = (toks, ts)"
    unfolding body_def by (intro read_fields_encoded [OF parts ts]) simp
  ultimately show ?thesis unfolding read_line_def m by simp
qed

definition stamp_text :: "json \<Rightarrow> string" where
  "stamp_text v = (if v = JNull then [] else
     (case py_int v of Inr i \<Rightarrow> '' '' @ show_int i | Inl _ \<Rightarrow> []))"

text \<open>What the point says: its measurement, tags, fields and timestamp text.\<close>

definition point_contents :: "dict \<Rightarrow> string \<times> (string \<times> string) list \<times> (string \<times> field_text) list \<times> string" where
  "point_contents p =
     (py_str (dget p ''measurement''), tag_texts (as_dict (dget p ''tags'')),
      concat (map field_token (sort_key fst (as_dict (dget p ''fields'')))),
      stamp_text (dget p ''timestamp''))"

lemma want_object_eq: "want_object v = Inr d \<longleftrightarrow> v = Some (JObj d)"
  by (auto simp: want_object_def split: option.splits json.splits)

lemma timestamp_suffix_eq:
  "timestamp_suffix p = Inr ts \<Longrightarrow> ts = stamp_text (dget p ''timestamp'')"
  by (auto simp: timestamp_suffix_def stamp_text_def raised_def map_sum_eq_Inr bind_write_eq_Inr split: if_splits)


section \<open>Delivery\<close>

definition accepted_bodies :: "event list \<Rightarrow> string list" where
  "accepted_bodies es = map fst (filter (\<lambda>(b, a). accepted a) (posts es))"

definition short_sleeps :: "event list \<Rightarrow> bool" where
  "short_sleeps es = list_all (\<lambda>e. case e of Post _ _ \<Rightarrow> True | Sleep s \<Rightarrow> 1 \<le> s \<and> s \<le> 4) es"

lemma posts_simps [simp]:
  "posts [] = []" "posts (Post b a # es) = (b, a) # posts es" "posts (Sleep t # es) = posts es"
  "posts (es @ es') = posts es @ posts es'"
  by (simp_all add: posts_def)

lemma accepted_bodies_append [simp]: "accepted_bodies (es @ es') = accepted_bodies es @ accepted_bodies es'"
  by (simp add: accepted_bodies_def)

lemma short_sleeps_append [simp]: "short_sleeps (es @ es') \<longleftrightarrow> short_sleeps es \<and> short_sleeps es'"
  by (simp add: short_sleeps_def)

lemma pause_short: "1 \<le> min (2 ^ k) (4::int) \<and> min (2 ^ k) (4::int) \<le> 4"
  by simp

lemma attempts_once:
  "post_attempts w S batch k attempt n = (es, r) \<Longrightarrow> int attempt + int k = iw_retries w + 1 \<Longrightarrow> k > 0 \<Longrightarrow>
   accepted_bodies es = (if isl r then [] else [join [newline] batch]) \<and> length (posts es) \<le> k \<and> short_sleeps es"
proof (induction k arbitrary: attempt n es r)
  case (Suc k)
  let ?body = "join [newline] batch"
  obtain es' r' where rec: "post_attempts w S batch k (Suc attempt) (Suc n) = (es', r')" by fastforce
  have again: ?case if "es = Post ?body (S n) # Sleep (min (2 ^ attempt) 4) # es'" "r = r'"
    "\<not> accepted (S n)" "int attempt \<noteq> iw_retries w"
  proof -
    have "k > 0" using that(4) Suc.prems(2) by (cases k) auto
    then have "accepted_bodies es' = (if isl r' then [] else [?body]) \<and> length (posts es') \<le> k \<and> short_sleeps es'"
      using Suc.IH [OF rec] Suc.prems(2) by simp
    then show ?thesis using that(1-3) by (simp add: accepted_bodies_def short_sleeps_def pause_short)
  qed
  show ?case
  proof (cases "S n")
    case None
    then show ?thesis using Suc.prems(1) again rec
      by (cases "int attempt = iw_retries w") (auto simp: accepted_bodies_def accepted_def short_sleeps_def Let_def)
  next
    case (Some a)
    then show ?thesis using Suc.prems(1) again rec
      by (auto simp: accepted_bodies_def accepted_def short_sleeps_def Let_def split: if_splits)
  qed
qed simp

lemma batches_in_order:
  "deliver_batches w S bs n written = (es, r) \<Longrightarrow> 0 \<le> iw_retries w \<Longrightarrow>
   (\<exists>k \<le> length bs. accepted_bodies es = map (join [newline]) (take k bs) \<and>
      (case r of Inl _ \<Rightarrow> k < length bs | Inr m \<Rightarrow> k = length bs \<and> m = written + length (concat bs))) \<and>
   int (length (posts es)) \<le> (iw_retries w + 1) * int (length bs) \<and> short_sleeps es"
proof (induction bs arbitrary: n written es r)
  case Nil
  then show ?case by (auto simp: accepted_bodies_def short_sleeps_def)
next
  case (Cons batch bs)
  obtain es1 r1 where a: "post_attempts w S batch (nat (iw_retries w + 1)) 0 n = (es1, r1)" by fastforce
  have one: "accepted_bodies es1 = (if isl r1 then [] else [join [newline] batch])"
    "length (posts es1) \<le> nat (iw_retries w + 1)" "short_sleeps es1"
    using attempts_once [OF a] Cons.prems(2) by auto
  have len: "int (length (posts es1)) \<le> iw_retries w + 1" using one(2) Cons.prems(2) by linarith
  show ?case
  proof (cases r1)
    case (Inl e)
    then have "es = es1" "r = Inl e" using Cons.prems(1) a by simp_all
    moreover have "iw_retries w + 1 \<le> (iw_retries w + 1) * int (length (batch # bs))"
      using Cons.prems(2) by (simp add: algebra_simps)
    ultimately show ?thesis using one len Inl by (auto intro!: exI [of _ 0])
  next
    case (Inr u)
    obtain es2 r2 where d: "deliver_batches w S bs (n + length (posts es1)) (written + length batch) = (es2, r2)"
      by fastforce
    then have es: "es = es1 @ es2" "r = r2" using Cons.prems(1) a Inr by simp_all
    from Cons.IH [OF d Cons.prems(2)] obtain k where k: "k \<le> length bs"
      "accepted_bodies es2 = map (join [newline]) (take k bs)"
      "case r2 of Inl _ \<Rightarrow> k < length bs | Inr m \<Rightarrow> k = length bs \<and> m = written + length batch + length (concat bs)"
      and bounds: "int (length (posts es2)) \<le> (iw_retries w + 1) * int (length bs)" "short_sleeps es2" by auto
    have "int (length (posts es)) \<le> (iw_retries w + 1) * int (length (batch # bs))"
      using len bounds(1) by (simp add: es algebra_simps)
    moreover have "accepted_bodies es = map (join [newline]) (take (Suc k) (batch # bs))"
      using one(1) k(2) by (simp add: es Inr)
    moreover have "case r of Inl _ \<Rightarrow> Suc k < length (batch # bs)
        | Inr m \<Rightarrow> Suc k = length (batch # bs) \<and> m = written + length (concat (batch # bs))"
      using k(3) by (cases r2) (simp_all add: es)
    ultimately show ?thesis using k(1) one(3) bounds(2) by (auto simp: es(1) intro!: exI [of _ "Suc k"])
  qed
qed

subsection \<open>Batches\<close>

lemma concat_chunks: "0 < b \<Longrightarrow> concat (chunks b xs) = xs"
proof (induction b xs rule: chunks.induct)
  case (1 b xs)
  then show ?case by (cases "xs = []") (simp_all add: chunks.simps [of b])
qed

lemma chunks_mem: "c \<in> set (chunks b xs) \<Longrightarrow> c \<noteq> [] \<and> length c \<le> b \<and> set c \<subseteq> set xs"
proof (induction b xs rule: chunks.induct)
  case (1 b xs)
  show ?case
  proof (cases "b = 0 \<or> xs = []")
    case False
    then have c: "c = take b xs \<or> c \<in> set (chunks b (drop b xs))"
      using "1.prems" by (simp add: chunks.simps [of b xs])
    have "take b xs \<noteq> [] \<and> length (take b xs) \<le> b \<and> set (take b xs) \<subseteq> set xs"
      using False by (auto dest: in_set_takeD)
    moreover have "c \<in> set (chunks b (drop b xs)) \<Longrightarrow> c \<noteq> [] \<and> length c \<le> b \<and> set c \<subseteq> set (drop b xs)"
      using "1.IH" False by simp
    ultimately show ?thesis using c set_drop_subset [of b xs] by (elim disjE) auto
  qed (use "1.prems" in \<open>auto simp: chunks.simps [of b xs]\<close>)
qed

fun split_on :: "char \<Rightarrow> string \<Rightarrow> string list" where
  "split_on c [] = [[]]"
| "split_on c (x # xs) = (if x = c then [] # split_on c xs
     else (case split_on c xs of [] \<Rightarrow> [[x]] | y # ys \<Rightarrow> (x # y) # ys))"

lemma split_on_token: "c \<notin> set l \<Longrightarrow> split_on c l = [l]"
  by (induction l) auto

lemma split_on_append: "c \<notin> set l \<Longrightarrow> split_on c (l @ c # r) = l # split_on c r"
  by (induction l) auto

lemma split_on_join: "ls \<noteq> [] \<Longrightarrow> \<forall>l \<in> set ls. c \<notin> set l \<Longrightarrow> split_on c (join [c] ls) = ls"
  by (induction "[c]" ls rule: join.induct) (auto simp: split_on_token split_on_append)

subsection \<open>Lines are single lines\<close>

definition no_newline :: "string \<Rightarrow> bool" where
  "no_newline s = (newline \<notin> set s)"

definition single_line :: "dict \<Rightarrow> bool" where
  "single_line p =
     (no_newline (py_str (dget p ''measurement'')) \<and>
      list_all (\<lambda>(k, v). no_newline k \<and> no_newline (py_str v)) (as_dict (dget p ''tags'')) \<and>
      list_all (\<lambda>(k, v). no_newline k \<and> (case v of JFloat s \<Rightarrow> no_newline s | _ \<Rightarrow> True))
        (as_dict (dget p ''fields'')))"

lemma no_newline_append [simp]: "no_newline (a @ b) \<longleftrightarrow> no_newline a \<and> no_newline b"
  by (auto simp: no_newline_def)

lemma no_newline_simps [simp]:
  "no_newline []" "no_newline (c # s) \<longleftrightarrow> c \<noteq> newline \<and> no_newline s"
  by (auto simp: no_newline_def)

lemma letters_no_newline [simp]:
  "CHR '','' \<noteq> newline" "CHR ''='' \<noteq> newline" "CHR '' '' \<noteq> newline" "CHR ''i'' \<noteq> newline"
  "newline \<notin> set ''true''" "newline \<notin> set ''false''"
  by code_simp+

lemma escape_no_newline: "no_newline s \<Longrightarrow> no_newline (escape_with chars s)"
  by (induction s) auto

lemma quote_no_newline: "no_newline (quote_field s)"
  unfolding quote_field_chars by (induction s) auto

lemma show_int_no_newline: "no_newline (show_int i)"
  using show_int_bare [of i] by (auto simp: no_newline_def list_all_iff)

lemma join_no_newline: "no_newline sep \<Longrightarrow> (\<And>x. x \<in> set xs \<Longrightarrow> no_newline x) \<Longrightarrow> no_newline (join sep xs)"
  by (induction sep xs rule: join.induct) auto

lemma concat_no_newline: "(\<And>x. x \<in> set xs \<Longrightarrow> no_newline (f x)) \<Longrightarrow> no_newline (concat (map f xs))"
  by (induction xs) auto

lemma encode_field_no_newline:
  assumes "encode_field m (k, v) = Inr ts" and "no_newline k" and "\<And>s. v = JFloat s \<Longrightarrow> no_newline s" and "t \<in> set ts"
  shows "no_newline t"
proof -
  have "no_newline e" if "encode_value m k v = Inr (Some e)" for e
  proof (cases v)
    case (JBool b)
    with that have "e = (if b then ''true'' else ''false'')" by simp
    then show ?thesis by (simp add: no_newline_def del: list.set)
  qed (use that assms(3) in \<open>auto simp: show_int_no_newline quote_no_newline split: if_splits\<close>)
  then show ?thesis using assms(1,2,4)
    by (auto simp: encode_field_def bind_write_eq_Inr escape_no_newline split: option.splits)
qed

lemma map_write_mem: "map_write f xs = Inr ys \<Longrightarrow> y \<in> set ys \<Longrightarrow> \<exists>x \<in> set xs. f x = Inr y"
  by (induction xs arbitrary: ys) (auto simp: bind_write_eq_Inr)

lemma timestamp_no_newline: "timestamp_suffix p = Inr ts \<Longrightarrow> no_newline ts"
  by (auto simp: timestamp_suffix_def bind_write_eq_Inr show_int_no_newline split: if_splits)

lemma line_no_newline:
  assumes "line_protocol p = Inr (Some l)" and "single_line p"
  shows "no_newline l"
proof -
  from assms(1) obtain mv tags fields parts ts where
    mv: "map_of p ''measurement'' = Some mv"
    and tags: "dget_or p ''tags'' (JObj []) = JObj tags"
    and fields: "map_of p ''fields'' = Some (JObj fields)"
    and parts: "map_write (encode_field (py_str mv)) (sort_key fst fields) = Inr parts"
    and ts: "timestamp_suffix p = Inr ts"
    and l: "l = line_of (py_str mv) tags (concat parts) ts"
    by (auto simp: line_protocol_def Let_def bind_write_eq_Inr want_object_eq simp del: concat_eq_Nil_conv
         split: option.splits if_splits)
  have "as_dict (dget p ''tags'') = tags"
    using tags by (auto simp: dget_def dget_or_def split: option.splits)
  then have t: "no_newline k \<and> no_newline (py_str v)" if "(k, v) \<in> set tags" for k v
    using assms(2) that by (auto simp: single_line_def list_all_iff)
  have f: "no_newline k \<and> (\<forall>s. v = JFloat s \<longrightarrow> no_newline s)" if "(k, v) \<in> set fields" for k v
    using assms(2) that fields by (auto simp: single_line_def list_all_iff dget_def)
  have "no_newline (encode_tag kv)" if "kv \<in> set (written_tags tags)" for kv
  proof -
    have "(fst kv, snd kv) \<in> set tags" using that by (simp add: written_tags_def)
    from t [OF this] show ?thesis by (simp add: encode_tag_def case_prod_beta escape_no_newline)
  qed
  moreover have "no_newline x" if "x \<in> set (concat parts)" for x
  proof -
    from that obtain part where part: "part \<in> set parts" "x \<in> set part" by auto
    then obtain k v where kv: "(k, v) \<in> set fields" "encode_field (py_str mv) (k, v) = Inr part"
      using map_write_mem [OF parts part(1)] by auto
    then show ?thesis using encode_field_no_newline [OF kv(2)] f [OF kv(1)] part(2) by auto
  qed
  moreover have "no_newline (py_str mv)" using assms(2) mv by (simp add: single_line_def dget_def)
  moreover from calculation(2) have "no_newline (join '','' (concat parts))"
    by (intro join_no_newline) simp_all
  ultimately show ?thesis
    unfolding l line_of_def using timestamp_no_newline [OF ts]
    by (simp add: escape_no_newline concat_no_newline)
qed

subsection \<open>What the database receives\<close>

lemma map_write_all: "map_write f xs = Inr ys \<Longrightarrow> list_all2 (\<lambda>x y. f x = Inr y) xs ys"
  by (induction xs arbitrary: ys) (auto simp: bind_write_eq_Inr)

lemma point_lines_mem:
  assumes "point_lines ps = Inr ls" and "l \<in> set ls"
  shows "\<exists>p \<in> set ps. line_protocol p = Inr (Some l)"
proof -
  from assms obtain os where os: "map_write line_protocol ps = Inr os" "Some l \<in> set os"
    by (force simp: point_lines_def bind_write_eq_Inr split: option.splits if_splits)
  from map_write_mem [OF os] show ?thesis .
qed

lemma written_plan:
  assumes "write_points w S points = (es, Inr (Written n))" and "prepared w points = Inr ps"
    and "point_lines ps = Inr ls" and "0 < iw_batch_size w"
  shows "deliver_batches w S (chunks (nat (iw_batch_size w)) ls) 0 0 = (es, Inr n)"
proof -
  obtain bs where "delivery_plan w ps = Inr bs" "map_prod id (map_sum Write_Failed Written) (deliver_batches w S bs 0 0) = (es, Inr (Written n))"
    using assms(1,2) by (auto simp: write_points_def split: if_splits sum.splits)
  moreover from this(1) have "bs = chunks (nat (iw_batch_size w)) ls"
    using assms(3,4) by (auto simp: delivery_plan_def batches_def split: if_splits)
  ultimately show ?thesis by (auto simp: map_prod_def map_sum_eq_Inr split: prod.splits)
qed

lemma split_chunks:
  assumes "0 < b" and "\<forall>l \<in> set ls. no_newline l"
  shows "concat (map (split_on newline) (map (join [newline]) (chunks b ls))) = ls"
    and "list_all (\<lambda>body. length (split_on newline body) \<le> b) (map (join [newline]) (chunks b ls))"
proof -
  have split: "split_on newline (join [newline] c) = c \<and> length c \<le> b" if "c \<in> set (chunks b ls)" for c
    using chunks_mem [OF that] assms(2) by (auto simp: no_newline_def intro!: split_on_join)
  then have "map (split_on newline) (map (join [newline]) (chunks b ls)) = chunks b ls"
    by (simp add: map_idI)
  then show "concat (map (split_on newline) (map (join [newline]) (chunks b ls))) = ls"
    by (simp only: concat_chunks [OF assms(1)])
  show "list_all (\<lambda>body. length (split_on newline body) \<le> b) (map (join [newline]) (chunks b ls))"
    using split by (simp add: list_all_iff)
qed


text \<open>
  Whatever the database answers, a write makes at most \<open>retries + 1\<close> requests per
  batch, pauses one to four seconds between attempts, and what was accepted is a prefix of the
  planned batches, all of them only when it returns.
\<close>

theorem delivery_bounded:
  assumes "0 \<le> iw_retries w" and "deliver_batches w S bs n written = (es, r)"
  shows "int (length (posts es)) \<le> (iw_retries w + 1) * int (length bs) \<and> short_sleeps es \<and>
     accepted_bodies es = map (join [newline]) (take (length (accepted_bodies es)) bs) \<and>
     (isl r \<longleftrightarrow> length (accepted_bodies es) < length bs)"
proof -
  from batches_in_order [OF assms(2,1)] obtain k where k: "k \<le> length bs"
    "accepted_bodies es = map (join [newline]) (take k bs)"
    "case r of Inl _ \<Rightarrow> k < length bs | Inr m \<Rightarrow> k = length bs \<and> m = written + length (concat bs)" by blast
  then have "length (accepted_bodies es) = k" by simp
  then show ?thesis using k batches_in_order [OF assms(2,1)] by (cases r) auto
qed

section \<open>Diagnostics do not carry the token\<close>

lemma starts_with_prefix: "starts_with p s \<longleftrightarrow> prefix p s"
  unfolding starts_with_def by (metis append_eq_conv_conj prefix_def take_is_prefix)

lemma contains_sublist: "contains p s \<longleftrightarrow> sublist p s"
  by (induction s) (auto simp: starts_with_prefix sublist_Cons_right)

definition plain_token :: "string \<Rightarrow> bool" where
  "plain_token p = (p \<noteq> [] \<and> CHR ''['' \<notin> set p \<and> CHR '']'' \<notin> set p \<and> \<not> contains p ''REDACTED'')"

lemma sublist_separated: "c \<notin> set p \<Longrightarrow> sublist p (a @ c # t) \<longleftrightarrow> sublist p a \<or> sublist p t"
proof
  assume c: "c \<notin> set p" and "sublist p (a @ c # t)"
  then consider "sublist p a" | "sublist p (c # t)"
    | xs ys where "p = xs @ ys" "suffix xs a" "prefix ys (c # t)" by (auto simp: sublist_append)
  then show "sublist p a \<or> sublist p t"
  proof cases
    case 2
    then show ?thesis using c by (auto simp: sublist_Cons_right prefix_Cons)
  next
    case 3
    then have "ys = []" using c by (auto simp: prefix_Cons)
    with 3 show ?thesis by auto
  qed simp
next
  assume "sublist p a \<or> sublist p t"
  then show "sublist p (a @ c # t)" by (metis sublist_Cons_right sublist_append)
qed

lemma sublist_redacted:
  assumes "plain_token p"
  shows "sublist p (a @ REDACTED @ t) \<longleftrightarrow> sublist p a \<or> sublist p t"
proof -
  have "a @ REDACTED @ t = a @ CHR ''['' # (''REDACTED'' @ CHR '']'' # t)" by (simp add: REDACTED_def)
  then have "sublist p (a @ REDACTED @ t) \<longleftrightarrow> sublist p a \<or> sublist p (''REDACTED'' @ CHR '']'' # t)"
    using assms sublist_separated [of "CHR ''[''" p a] by (simp only: plain_token_def) simp
  also have "sublist p (''REDACTED'' @ CHR '']'' # t) \<longleftrightarrow> sublist p t"
    using assms unfolding plain_token_def contains_sublist
    by (subst sublist_separated) simp_all
  finally show ?thesis .
qed

lemma prefix_redacted:
  assumes "CHR ''['' \<notin> set q" and "prefix q (a @ REDACTED @ t)"
  shows "prefix q a"
proof -
  from assms(2) have "prefix q (a @ CHR ''['' # ''REDACTED]'' @ t)" by (simp add: REDACTED_def)
  then consider "prefix q a" | r where "q = a @ r" "prefix r (CHR ''['' # ''REDACTED]'' @ t)"
    by (auto simp: prefix_append)
  then show ?thesis using assms(1) by cases (auto simp: prefix_Cons)
qed

lemma replace_prefix:
  "CHR ''['' \<notin> set q \<Longrightarrow> prefix q (replace_str p REDACTED s) \<Longrightarrow> prefix q s"
proof (induction p REDACTED s arbitrary: q rule: replace_str.induct)
  case (1 p s)
  show ?case
  proof (cases "p = [] \<or> s = []")
    case True
    then show ?thesis using "1.prems" by (auto simp: replace_str.simps [of p REDACTED s])
  next
    case ne: False
    show ?thesis
    proof (cases "starts_with p s")
      case True
      then have "prefix q ([] @ REDACTED @ replace_str p REDACTED (drop (length p) s))"
        using ne "1.prems" by (simp add: replace_str.simps [of p REDACTED s])
      from prefix_redacted [OF "1.prems"(1) this] show ?thesis by simp
    next
      case False
      then have "prefix q (hd s # replace_str p REDACTED (tl s))"
        using ne "1.prems" by (simp add: replace_str.simps [of p REDACTED s])
      then show ?thesis using "1.hyps"(2) [OF _ _ _] ne False "1.prems"(1)
        by (cases s) (auto simp: prefix_Cons)
    qed
  qed
qed

lemma replace_clean: "plain_token p \<Longrightarrow> \<not> sublist p (replace_str p REDACTED s)"
proof (induction p REDACTED s rule: replace_str.induct)
  case (1 p s)
  have p: "p \<noteq> []" "CHR ''['' \<notin> set p" using "1.prems" by (simp_all add: plain_token_def)
  show ?case
  proof (cases "s = []")
    case True
    then show ?thesis using p by (simp add: replace_str.simps [of p REDACTED "[]"])
  next
    case ne: False
    show ?thesis
    proof (cases "starts_with p s")
      case True
      then show ?thesis using "1.hyps"(1) p ne "1.prems" sublist_redacted [OF "1.prems", of "[]"]
        by (simp add: replace_str.simps [of p REDACTED s])
    next
      case False
      have "\<not> prefix p (replace_str p REDACTED s)"
        using replace_prefix [OF p(2)] False by (auto simp: starts_with_prefix)
      then show ?thesis using "1.hyps"(2) p ne False "1.prems"
        by (simp add: replace_str.simps [of p REDACTED s] sublist_Cons_right)
    qed
  qed
qed

lemma redact_named_Nil: "redact_named [] = []"
  by code_simp

lemma redact_named_None: "sensitive_match (c # cs) = None \<Longrightarrow> redact_named (c # cs) = c # redact_named cs"
  by (simp add: redact_named.simps [of "c # cs"])

lemma redact_named_Some: "sensitive_match s = Some (kept, rest) \<Longrightarrow> redact_named s = kept @ REDACTED @ redact_named rest"
  by (subst redact_named.simps) simp

lemma redact_named_prefix:
  "CHR ''['' \<notin> set q \<Longrightarrow> prefix q (redact_named s) \<Longrightarrow> prefix q s"
proof (induction s arbitrary: q rule: redact_named.induct)
  case (1 s)
  show ?case
  proof (cases "sensitive_match s")
    case None
    show ?thesis
    proof (cases s)
      case (Cons c cs)
      have "q = [] \<or> (\<exists>r. q = c # r \<and> prefix r (redact_named cs))"
        using "1.prems"(2) None by (simp add: Cons redact_named_None prefix_Cons)
      then show ?thesis using "1.IH"(1) [OF None Cons] "1.prems"(1) by (elim disjE exE) (simp_all add: Cons)
    qed (use "1.prems" in \<open>simp add: redact_named_Nil\<close>)
  next
    case (Some kr)
    obtain kept rest where kr: "kr = (kept, rest)" by (cases kr)
    from sensitive_match_split [OF Some [unfolded kr]] obtain v where s: "s = kept @ v @ rest" by blast
    have "prefix q (kept @ REDACTED @ redact_named rest)"
      using "1.prems"(2) by (simp only: redact_named_Some [OF Some [unfolded kr]])
    then have "prefix q kept" by (rule prefix_redacted [OF "1.prems"(1)])
    then show ?thesis unfolding s by (rule prefix_prefix)
  qed
qed

lemma redact_named_clean: "plain_token p \<Longrightarrow> \<not> sublist p s \<Longrightarrow> \<not> sublist p (redact_named s)"
proof (induction s rule: redact_named.induct)
  case (1 s)
  show ?case
  proof (cases "sensitive_match s")
    case None
    show ?thesis
    proof (cases s)
      case (Cons c cs)
      have "\<not> prefix p (redact_named s)"
        using redact_named_prefix [of p s] "1.prems" by (auto simp: plain_token_def)
      moreover have "\<not> sublist p (redact_named cs)"
        by (rule "1.IH"(1) [OF None Cons "1.prems"(1)]) (use "1.prems"(2) Cons in \<open>simp add: sublist_Cons_right\<close>)
      ultimately show ?thesis using None Cons by (simp add: redact_named_None sublist_Cons_right)
    qed (use "1.prems" in \<open>simp add: redact_named_Nil\<close>)
  next
    case (Some kr)
    obtain kept rest where kr: "kr = (kept, rest)" by (cases kr)
    from sensitive_match_split [OF Some [unfolded kr]] obtain v where s: "s = kept @ v @ rest" by blast
    have "\<not> sublist p kept" "\<not> sublist p rest" using "1.prems"(2) s by (auto simp: sublist_append)
    moreover have "\<not> sublist p (redact_named rest)"
      using "1.IH"(2) [OF Some] kr "1.prems"(1) calculation(2) by simp
    ultimately show ?thesis
      by (simp only: redact_named_Some [OF Some [unfolded kr]] sublist_redacted [OF "1.prems"(1)]) simp
  qed
qed

lemma safe_text_clean: "plain_token p \<Longrightarrow> \<not> sublist p (safe_text [p] s)"
proof -
  assume p: "plain_token p"
  then have ne: "p \<noteq> []" by (simp add: plain_token_def)
  let ?t = "redact_named (replace_str p REDACTED (join '' '' (split_ws (replace_char (char_of (0 :: nat)) (CHR '' '') s))))"
  have "safe_text [p] s = take 4096 ?t" using ne by (simp add: safe_text_def redact_secret_def)
  moreover have "\<not> sublist p ?t" by (rule redact_named_clean [OF p replace_clean [OF p]])
  moreover have "sublist (take 4096 ?t) ?t" by (rule sublist_take)
  ultimately show ?thesis using sublist_order.order_trans [of p "take 4096 ?t" ?t] by auto
qed

lemma sublist_trans: "sublist a b \<Longrightarrow> sublist b c \<Longrightarrow> sublist a c"
  by (rule sublist_order.order_trans)

lemma sublist_strip: "sublist (strip s) s"
proof -
  have "sublist (rev (dropWhile is_space (rev t))) t" for t
    using sublist_dropWhile [of is_space "rev t"] by (metis rev_rev_ident sublist_rev)
  then show ?thesis unfolding strip_def by (rule sublist_trans) (rule sublist_dropWhile)
qed

lemma after_word_sublist: "after_word q w s = Some r \<Longrightarrow> sublist r s"
  by (auto simp: after_word_def Let_def drop_drop sublist_drop split: if_splits)

lemma tl_sublist: "dropWhile P r = c # t \<Longrightarrow> sublist t r"
  by (metis sublist_Cons_right sublist_dropWhile sublist_order.order_refl sublist_trans)

lemma non_empty_Some: "non_empty s = Some g \<longleftrightarrow> g = s \<and> s \<noteq> []"
  by (auto simp: non_empty_def)

lemma match_quoted_sublist: "match_quoted q w s = Some g \<Longrightarrow> sublist g s"
  by (auto simp: match_quoted_def non_empty_Some split: option.splits list.splits if_splits)
     (metis after_word_sublist sublist_takeWhile sublist_trans tl_sublist)

lemma match_assigned_sublist: "match_assigned w s = Some g \<Longrightarrow> sublist g s"
  by (auto simp: match_assigned_def non_empty_Some split: option.splits list.splits if_splits)
     (metis after_word_sublist sublist_takeWhile sublist_dropWhile sublist_trans tl_sublist)+

lemma search_text_sublist:
  assumes "\<And>s g. m s = Some g \<Longrightarrow> sublist g s"
  shows "search_text m s = Some g \<Longrightarrow> sublist g s"
proof (induction s)
  case Nil
  then show ?case using assms [of "[]" g] by simp
next
  case (Cons c s)
  show ?case
  proof (cases "m (c # s)")
    case None
    then show ?thesis using Cons by (simp add: sublist_Cons_right)
  next
    case (Some h)
    then show ?thesis using Cons.prems assms [OF Some] by simp
  qed
qed

lemma first_match_sublist:
  "\<forall>m \<in> set ms. \<forall>s g. m s = Some g \<longrightarrow> sublist g s \<Longrightarrow> first_match ms text = Some g \<Longrightarrow> sublist g text"
proof (induction ms)
  case (Cons m ms)
  show ?case
  proof (cases "search_text m text")
    case None
    then show ?thesis using Cons by simp
  next
    case (Some h)
    have "sublist h text" by (rule search_text_sublist [OF _ Some]) (use Cons.prems(1) in simp)
    moreover have "g = strip h" using Cons.prems(2) Some by simp
    ultimately show ?thesis using sublist_trans [OF sublist_strip [of h]] by simp
  qed
qed simp

lemma name_patterns_sublist:
  "\<forall>m \<in> set FIELD_NAME_PATTERNS. \<forall>s g. m s = Some g \<longrightarrow> sublist g s"
  "\<forall>m \<in> set TAG_NAME_PATTERNS. \<forall>s g. m s = Some g \<longrightarrow> sublist g s"
  by (auto simp: FIELD_NAME_PATTERNS_def TAG_NAME_PATTERNS_def
      intro: match_quoted_sublist match_assigned_sublist)

definition error_texts :: "influx_error \<Rightarrow> string list" where
  "error_texts e = concat (map (\<lambda>v. case v of None \<Rightarrow> [] | Some t \<Rightarrow> [t])
     [ie_response e, ie_influx_error e, ie_offending_field e, ie_offending_tag e])"

lemma rejection_clean:
  assumes "plain_token token"
  shows "t \<in> set (error_texts (rejection token batch r)) \<Longrightarrow> \<not> contains token t"
proof -
  assume t: "t \<in> set (error_texts (rejection token batch r))"
  let ?text = "safe_text [token] (rs_detail r)"
  have field: "sublist g ?text" if "first_match FIELD_NAME_PATTERNS ?text = Some g" for g
    by (rule first_match_sublist [OF name_patterns_sublist(1) that])
  have tag: "sublist g ?text" if "first_match TAG_NAME_PATTERNS ?text = Some g" for g
    by (rule first_match_sublist [OF name_patterns_sublist(2) that])
  from t have "t = safe_text [token] (influx_error_text r ?text) \<or> sublist t ?text"
    using field tag by (auto simp: error_texts_def rejection_def Let_def split: option.splits)
  then show "\<not> contains token t"
    unfolding contains_sublist
  proof
    assume "sublist t ?text"
    then show "\<not> sublist token t" using safe_text_clean [OF assms, of "rs_detail r"] sublist_trans by blast
  qed (simp add: safe_text_clean [OF assms])
qed

lemma attempts_error:
  "post_attempts w S batch k a n = (es, Inl e) \<Longrightarrow> e = transport_failure \<or> (\<exists>r. e = rejection (iw_token w) batch r)"
  by (induction k arbitrary: a n es) (auto simp: Let_def split: option.splits if_splits prod.splits)

lemma batches_error:
  "deliver_batches w S bs n written = (es, Inl e) \<Longrightarrow> e = transport_failure \<or> (\<exists>batch r. e = rejection (iw_token w) batch r)"
  by (induction bs arbitrary: n written es) (auto dest!: attempts_error split: prod.splits sum.splits)


section \<open>Witnesses\<close>

definition sample_point :: dict where
  "sample_point = [(''measurement'', JStr ''cpu load''),
     (''tags'', JObj [(''site'', JStr ''a,b=c''), (''note'', JStr [])]),
     (''fields'', JObj [(''text'', JStr [CHR ''x'', double_quote, CHR '','', newline]), (''n'', JInt 3)])]"

definition sample_line :: string where
  "sample_line = (case line_protocol sample_point of Inr (Some l) \<Rightarrow> l | _ \<Rightarrow> [])"


definition sample_writer :: influx_writer where
  "sample_writer = \<lparr>iw_delegate = False, iw_url = ''http://db:8181'', iw_token = ''tok1'', iw_database = ''itp'',
     iw_metadata = \<lparr>dm_deployment_id = ''d1'', dm_customer_id = [], dm_site_id = [], dm_customer_name = [],
       dm_site_name = [], dm_display_name = [], dm_timezone = ''UTC'', dm_currency = [], dm_region = []\<rparr>,
     iw_batch_size = 1, iw_retries = 1, iw_accept_legacy = True\<rparr>"

definition sample_metric :: "int \<Rightarrow> json" where
  "sample_metric n = JObj [(''measurement'', JStr ''m''), (''fields'', JObj [(''n'', JInt n)])]"

definition answer :: "int \<Rightarrow> response option" where
  "answer status = Some \<lparr>rs_status = status, rs_detail = ''token=tok1 bad field: n'', rs_json = None\<rparr>"

text \<open>A busy answer, then acceptance of both batches.\<close>

definition sample_server :: server where
  "sample_server n = (if n = 0 then answer 503 else answer 204)"

definition sample_run :: "event list \<times> (write_exn + write_result)" where
  "sample_run = write_points sample_writer sample_server [sample_metric 1, sample_metric 2]"

definition sample_prepared :: "dict list" where
  "sample_prepared = (case prepared sample_writer [sample_metric 1, sample_metric 2] of Inr ps \<Rightarrow> ps | Inl _ \<Rightarrow> [])"

definition sample_lines :: "string list" where
  "sample_lines = (case point_lines sample_prepared of Inr ls \<Rightarrow> ls | Inl _ \<Rightarrow> [])"


definition silent_server :: server where
  "silent_server n = None"

definition unsent :: "event list \<times> (influx_error + nat)" where
  "unsent = deliver_batches sample_writer silent_server [[''m n=1i''], [''m n=2i'']] 0 0"

theorem delivery_bounded_witness:
  "length (posts (fst unsent)) = 2 \<and> short_sleeps (fst unsent) \<and> accepted_bodies (fst unsent) = [] \<and>
   isl (snd unsent)"
proof -
  have "0 \<le> iw_retries sample_writer" by code_simp
  moreover have "deliver_batches sample_writer silent_server [[''m n=1i''], [''m n=2i'']] 0 0 = (fst unsent, snd unsent)"
    by (simp add: unsent_def)
  ultimately have "short_sleeps (fst unsent)" by (rule delivery_bounded [THEN conjunct2, THEN conjunct1])
  moreover have "length (posts (fst unsent)) = 2 \<and> accepted_bodies (fst unsent) = [] \<and> isl (snd unsent)"
    by code_simp
  ultimately show ?thesis by simp
qed

definition refusing_server :: server where
  "refusing_server n = Some \<lparr>rs_status = 400, rs_detail = ''token=tok1'', rs_json = None\<rparr>"

definition refusal :: influx_error where
  "refusal = rejection ''tok1'' [''m n=1i''] \<lparr>rs_status = 400, rs_detail = ''token=tok1'', rs_json = None\<rparr>"

lemma refused: "deliver_batches sample_writer refusing_server [[''m n=1i'']] 0 0 =
  ([Post ''m n=1i'' (refusing_server 0)], Inl refusal)"
  by (simp add: sample_writer_def refusing_server_def refusal_def retryable_def numeral_2_eq_2 Let_def)


end
