(* ===== verification/Infrastructure_State.thy ===== *)
theory Infrastructure_State
  imports Infrastructure_Fusion Site_Estate Readiness Py_Number Atomic_Files
begin

text \<open>
  \<open>analysis/infrastructure/adapters.py\<close> and \<open>state.py\<close>: reading the collectors' documents,
  attributing and fusing the assets, validating the result and composing the canonical state of
  the estate with its readiness. The documents are a map from file names to contents; the
  environment, the connector registry and the digest \<open>H\<close> are parameters.
\<close>

type_synonym documents = "string \<Rightarrow> content option"

definition read_doc :: "documents \<Rightarrow> string \<Rightarrow> json \<Rightarrow> json res" where
  "read_doc D p fallback = (case D p of None \<Rightarrow> Inr fallback
   | Some Malformed \<Rightarrow> Inl (ValueError (p @ '' contains malformed JSON''))
   | Some (Doc j) \<Rightarrow> Inr j)"

definition get_in :: "json \<Rightarrow> string \<Rightarrow> json \<Rightarrow> json res" where
  "get_in v k v0 = and_then (want_dict v) (\<lambda>d. Inr (dget_or d k v0))"

definition copy_dict :: "json \<Rightarrow> dict res" where
  "copy_dict v = (case v of JObj d \<Rightarrow> Inr d | JList [] \<Rightarrow> Inr [] | JStr [] \<Rightarrow> Inr []
   | JList _ \<Rightarrow> Inl (Unmodelled ''dict of a sequence of pairs'')
   | JStr _ \<Rightarrow> Inl (ValueError ''dictionary update sequence'')
   | _ \<Rightarrow> Inl (TypeError ''object is not iterable''))"

definition read_list :: "documents \<Rightarrow> string \<Rightarrow> string \<Rightarrow> json list res" where
  "read_list D p k = and_then (read_doc D p (JObj [(k, JList [])])) (\<lambda>v.
     and_then (get_in v k (JList [])) py_iter)"

section \<open>Adapters\<close>

datatype adapter =
    Inventory_Adapter
  | Collector_Adapter string int
  | Virtualisation_Adapter

text \<open>\<open>registered\<close>: the named subclasses in the order of their names.\<close>

definition registered_adapters :: "adapter list" where
  "registered_adapters =
     [Collector_Adapter ''aruba'' 200, Collector_Adapter ''fortigate'' 200, Inventory_Adapter,
      Collector_Adapter ''mist'' 200, Collector_Adapter ''paloalto'' 200,
      Collector_Adapter ''papercut'' 200, Collector_Adapter ''snmp'' 100, Virtualisation_Adapter]"

text \<open>\<open>round((end - start).total_seconds() * 1000)\<close> in binary64 arithmetic.\<close>

definition duration_of_us :: "int \<Rightarrow> int" where
  "duration_of_us u = (let (n, d) = to_double \<bar>u\<bar> 1000000; (n', d') = to_double (n * 1000) d in
     signed (u < 0) (round_half_even n' d'))"

definition instant_text :: "dict \<Rightarrow> string \<Rightarrow> datetime option" where
  "instant_text run k = (case map_of run k of None \<Rightarrow> None | Some v \<Rightarrow> fromisoformat (replace_z (py_str v)))"

definition run_duration :: "dict \<Rightarrow> int option" where
  "run_duration run = (case (instant_text run ''started_at'', instant_text run ''completed_at'') of
     (Some (Datetime w1 (Some z1)), Some (Datetime w2 (Some z2))) \<Rightarrow>
       Some (duration_of_us ((w2 - z2) - (w1 - z1)))
   | (Some (Datetime w1 None), Some (Datetime w2 None)) \<Rightarrow> Some (duration_of_us (w2 - w1))
   | _ \<Rightarrow> None)"

definition source_run_status :: "dict \<Rightarrow> string" where
  "source_run_status run =
     (if dget run ''success'' = JBool True \<and> dget run ''partial'' = JBool True then ''warning''
      else if dget run ''success'' = JBool True then ''healthy''
      else if dget run ''success'' = JBool False then ''failed'' else ''unknown'')"

definition collector_row :: "string \<Rightarrow> dict \<Rightarrow> dict res" where
  "collector_row name state =
     and_then (want_dict (dget_or state ''last_run'' (JObj []))) (\<lambda>run.
     and_then (want_dict (dget_or state ''last_complete_successful_run'' (JObj []))) (\<lambda>good.
     and_then (py_int (dget_or state ''consecutive_failures'' (JInt 0))) (\<lambda>failures.
     Inr [(''collector'', JStr name), (''last_run'', dget run ''completed_at''),
       (''duration_ms'', jint_opt (run_duration run)), (''status'', JStr (source_run_status run)),
       (''failures'', JInt failures), (''last_successful_run'', dget good ''completed_at'')])))"

definition from_collector :: "string \<Rightarrow> dict \<Rightarrow> bool" where
  "from_collector name v =
     (lower (py_str (por (dget v ''collector'') (dget_or v ''source'' (JStr [])))) = name)"

definition collector_rows :: "documents \<Rightarrow> string \<Rightarrow> dict list res" where
  "collector_rows D name =
     and_then (read_doc D ''source_runs.json'' (JObj [(''sources'', JObj [])])) (\<lambda>v.
     and_then (get_in v ''sources'' (JObj [])) (\<lambda>sources.
     and_then (get_in sources name JNull) (\<lambda>state.
     if \<not> truthy state then Inr []
     else and_then (want_dict state) (\<lambda>st. and_then (collector_row name st) (\<lambda>r. Inr [r])))))"

fun max_texts :: "json list \<Rightarrow> json res" where
  "max_texts vs = and_then (map_res want_str vs) (\<lambda>ss. case ss of
     [] \<Rightarrow> Inr JNull | x # xs \<Rightarrow> Inr (JStr (foldl max x xs)))"

definition virtualisation_row :: "dict list \<Rightarrow> dict res" where
  "virtualisation_row values =
     and_then (max_texts (map (\<lambda>v. por (dget v ''last_attempt'') (JStr [])) values)) (\<lambda>attempt.
     and_then (max_texts (map (\<lambda>v. por (dget v ''last_success'') (JStr [])) values)) (\<lambda>success.
     and_then (map_res (\<lambda>v. py_int (por (dget v ''duration_ms'') (JInt 0))) values) (\<lambda>durations.
     (let failed = filter (\<lambda>v. dget v ''result'' = JStr ''failed'') values in
      Inr [(''collector'', JStr ''virtualisation''), (''last_run'', attempt),
        (''last_successful_run'', success), (''duration_ms'', JInt (sum_list durations)),
        (''status'', JStr (if failed \<noteq> [] then ''failed''
           else if list_ex (\<lambda>v. truthy (dget v ''partial'')) values then ''warning'' else ''healthy'')),
        (''failures'', JInt (int (length failed)))]))))"

definition virtualisation_rows :: "documents \<Rightarrow> dict list res" where
  "virtualisation_rows D =
     and_then (read_list D ''virtualisation/collection-status.json'' ''collections'') (\<lambda>values.
     if values = [] then Inr []
     else and_then (map_res want_dict values) (\<lambda>vs. and_then (virtualisation_row vs) (\<lambda>r. Inr [r])))"

definition adapter_collect :: "documents \<Rightarrow> adapter \<Rightarrow> adapter_result res" where
  "adapter_collect D a = (case a of
     Inventory_Adapter \<Rightarrow>
       and_then (read_list D ''assets.json'' ''assets'') (\<lambda>vs.
       and_then (map_res copy_dict vs) (\<lambda>assets.
       Inr \<lparr>ar_name = ''inventory'', ar_priority = 300, ar_assets = assets, ar_collectors = []\<rparr>))
   | Collector_Adapter name priority \<Rightarrow>
       and_then (read_list D ''assets.json'' ''assets'') (\<lambda>vs.
       and_then (map_res want_dict vs) (\<lambda>assets.
       and_then (collector_rows D name) (\<lambda>rows.
       Inr \<lparr>ar_name = name, ar_priority = priority, ar_assets = filter (from_collector name) assets,
            ar_collectors = map JObj rows\<rparr>)))
   | Virtualisation_Adapter \<Rightarrow>
       and_then (read_list D ''virtualisation/assets.json'' ''assets'') (\<lambda>vs.
       and_then (map_res copy_dict vs) (\<lambda>assets.
       and_then (virtualisation_rows D) (\<lambda>rows.
       Inr \<lparr>ar_name = ''virtualisation'', ar_priority = 200, ar_assets = assets,
            ar_collectors = map JObj rows\<rparr>))))"

definition collected :: "documents \<Rightarrow> adapter_result list res" where
  "collected D = map_res (adapter_collect D) registered_adapters"

section \<open>Canonical sites\<close>

definition site_values :: "json list \<Rightarrow> json list" where
  "site_values records =
     map JObj (sort_key (\<lambda>d. (py_str (dget d ''source''), py_str (dget d ''value'')))
       (foldl (\<lambda>acc r. let v = dget (as_dict r) ''site_value'' in
          if v = JNull \<or> v = JStr [] then acc
          else (let c = [(''source'', dget (as_dict r) ''source''), (''value'', v)] in
            if c \<in> set acc then acc else acc @ [c])) [] records))"

definition without_site_value :: "json \<Rightarrow> json" where
  "without_site_value r = (case r of JObj d \<Rightarrow> JObj (dpop d ''site_value'') | _ \<Rightarrow> r)"

definition definition_of :: "site_registry \<Rightarrow> json \<Rightarrow> site_def option" where
  "definition_of rg v = (case v of JStr s \<Rightarrow> registry_definition rg s | _ \<Rightarrow> None)"

definition canonicalize_site :: "site_registry \<Rightarrow> dict \<Rightarrow> dict" where
  "canonicalize_site rg asset =
     (let sid = dget asset ''site_id''; records = as_list (dget_or asset ''source_records'' (JList []));
          display = (case definition_of rg sid of Some s \<Rightarrow> st_display_name s
             | None \<Rightarrow> py_str (por (dget asset ''site'') (JStr [])));
          asset' = (if dhas asset ''source_records''
            then dset asset ''source_records'' (JList (map without_site_value records)) else asset) in
      dset asset' ''site'' (JObj [(''site_id'', sid), (''display_name'', JStr display),
        (''source_values'', JList (site_values records))]))"

definition canonicalize_sites :: "site_registry \<Rightarrow> dict list \<Rightarrow> dict list" where
  "canonicalize_sites rg assets = map (canonicalize_site rg) assets"

section \<open>Validation\<close>

definition mk_finding :: "string \<Rightarrow> string \<Rightarrow> string \<Rightarrow> string \<Rightarrow> bool \<Rightarrow> bool \<Rightarrow> string \<Rightarrow> infra_finding" where
  "mk_finding kind cid message severity actionable suppressed explanation =
     \<lparr>if_type = kind, if_canonical_id = cid, if_severity = severity, if_actionable = actionable,
      if_suppressed = suppressed, if_message = message, if_explanation = explanation\<rparr>"

definition low_finding :: "low_candidate \<Rightarrow> infra_finding" where
  "low_finding c =
     (let l = py_str (por (dget (lc_left c) ''asset_id'') (JStr ''unknown''));
          r = py_str (por (dget (lc_right c) ''asset_id'') (JStr ''unknown'')) in
      mk_finding ''low_confidence_identity'' (min l r)
        (''Possible duplicate retained separately: '' @ min l r @ '' and '' @ max l r @ ''.'')
        ''Low'' True False (lc_reason c))"

definition asset_canonical :: "dict \<Rightarrow> string" where
  "asset_canonical a = py_str (dget a ''canonical_id'')"

definition asset_site_id :: "dict \<Rightarrow> json" where
  "asset_site_id a = (case por (dget a ''site'') (JObj []) of JObj s \<Rightarrow> dget s ''site_id'' | _ \<Rightarrow> JNull)"

definition asset_site_display :: "dict \<Rightarrow> json" where
  "asset_site_display a = (case por (dget a ''site'') (JObj []) of JObj s \<Rightarrow> dget s ''display_name''
     | v \<Rightarrow> JStr (py_str v))"

definition missing_site_of :: "dict \<Rightarrow> infra_finding list" where
  "missing_site_of a = (if truthy (asset_site_id a) then [] else
     [mk_finding ''missing_site'' (asset_canonical a) (asset_name a @ '' has no site.'') ''Medium'' True False
        ''Site assignment is required for operational aggregation.''])"

definition address_finding_of :: "dict \<Rightarrow> infra_finding list" where
  "address_finding_of a = (if truthy (dget a ''management_ip'') then [] else
     (let (required, explanation) = management_ip_required a in
      [mk_finding ''missing_management_ip'' (asset_canonical a) (asset_name a @ '' has no management IP.'')
         (if required then ''Medium'' else ''Info'') required (\<not> required) explanation]))"

definition conflict_finding :: "dict \<Rightarrow> dict \<Rightarrow> infra_finding" where
  "conflict_finding a c =
     mk_finding ''identity_conflict'' (asset_canonical a)
       (asset_name a @ '' has conflicting '' @
        replace_char (CHR ''_'') (CHR '' '') (py_str (dget c ''field'')) @ '' values.'')
       (py_str (dget c ''severity''))
       (dget c ''severity'' = JStr ''Critical'' \<or> dget c ''severity'' = JStr ''High'') False
       (py_str (dget c ''explanation''))"

definition asset_conflicts :: "dict \<Rightarrow> dict list" where
  "asset_conflicts a = map as_dict (as_list (dget_or (as_dict (dget_or a ''merge'' (JObj []))) ''conflicts'' (JList [])))"

definition asset_findings :: "dict \<Rightarrow> infra_finding list" where
  "asset_findings a = missing_site_of a @ address_finding_of a @ map (conflict_finding a) (asset_conflicts a)"

text \<open>Groups of equal short host name and site; a group of several is a duplicate.\<close>

definition host_key :: "dict \<Rightarrow> string \<times> string" where
  "host_key a = (short_hostname (dget a ''hostname''),
     normalize_site (por (asset_site_id a) (asset_site_display a)))"

definition keyed_hosts :: "dict list \<Rightarrow> dict list" where
  "keyed_hosts assets = filter (\<lambda>a. fst (host_key a) \<noteq> [] \<and> snd (host_key a) \<noteq> []) assets"

definition duplicate_finding :: "string \<times> string \<Rightarrow> dict \<Rightarrow> infra_finding" where
  "duplicate_finding k a = mk_finding ''duplicate_hostname'' (asset_canonical a)
     (''Hostname '' @ fst k @ '' remains duplicated in site '' @ snd k @ ''.'') ''Medium'' True False
     ''Canonical identity evidence was insufficient for safe fusion.''"

definition duplicate_findings :: "dict list \<Rightarrow> infra_finding list" where
  "duplicate_findings assets =
     (let hosts = keyed_hosts assets in
      concat (map (\<lambda>k. let group = filter (\<lambda>a. host_key a = k) hosts in
        if length group > 1 then map (duplicate_finding k) group else []) (usort (map host_key hosts))))"

definition all_findings :: "dict list \<Rightarrow> low_candidate list \<Rightarrow> infra_finding list" where
  "all_findings assets low =
     map low_finding low @ concat (map asset_findings assets) @ duplicate_findings assets"

definition by_finding_id :: "(string \<Rightarrow> string) \<Rightarrow> infra_finding list \<Rightarrow> (string \<times> infra_finding) list" where
  "by_finding_id H fs = foldl (\<lambda>d f. AList.update (finding_id H f) f d) [] fs"

definition validate_assets :: "(string \<Rightarrow> string) \<Rightarrow> dict list \<Rightarrow> low_candidate list \<Rightarrow> infra_finding list" where
  "validate_assets H assets low =
     sort_key (\<lambda>f. (if_type f, if_canonical_id f, finding_id H f))
       (map snd (by_finding_id H (all_findings assets low)))"

section \<open>Collectors\<close>

definition named_row :: "json \<Rightarrow> (string \<times> dict) res" where
  "named_row v = and_then (want_dict v) (\<lambda>d. case map_of d ''collector'' of
     None \<Rightarrow> Inl (KeyError ''collector'') | Some n \<Rightarrow> and_then (want_str n) (\<lambda>s. Inr (s, d)))"

definition merged_rows :: "adapter_result list \<Rightarrow> (string \<times> dict) list res" where
  "merged_rows results =
     and_then (map_res named_row (concat (map ar_collectors
       (sort_key (\<lambda>r. (- ar_priority r, ar_name r)) results)))) (\<lambda>rows.
     Inr (sort_key fst (foldl (\<lambda>acc (n, d). if map_of acc n = None then acc @ [(n, d)] else acc) [] rows)))"

definition lists_source :: "string \<Rightarrow> dict \<Rightarrow> bool" where
  "lists_source name a = (JStr name \<in> set (as_list (dget_or a ''sources'' (JList []))))"

definition sites_of_collector :: "dict list \<Rightarrow> string \<Rightarrow> string list" where
  "sites_of_collector assets name =
     usort (map (\<lambda>a. py_str (asset_site_id a))
       (filter (\<lambda>a. lists_source name a \<and> truthy (asset_site_id a)) assets))"

definition placed_row :: "site_registry \<Rightarrow> dict list \<Rightarrow> string \<times> dict \<Rightarrow> dict" where
  "placed_row rg assets = (\<lambda>(name, d).
     (let ids = sites_of_collector assets name in
      dset (dset d ''site_ids'' (jstrs ids)) ''site_names''
        (jstrs (concat (map (\<lambda>i. case registry_definition rg i of None \<Rightarrow> [] | Some s \<Rightarrow> [st_display_name s]) ids)))))"

section \<open>Counts\<close>

definition count_if :: "('a \<Rightarrow> bool) \<Rightarrow> 'a list \<Rightarrow> int" where
  "count_if P xs = int (length (filter P xs))"

record device_counts =
  dc_total :: int
  dc_online :: int
  dc_offline :: int
  dc_warning :: int
  dc_unknown :: int
  dc_healthy :: int
  dc_critical :: int

definition count_devices :: "string list \<Rightarrow> dict list \<Rightarrow> device_counts" where
  "count_devices words assets =
     (let sel = filter (kind_mentions words) assets in
      \<lparr>dc_total = int (length sel), dc_online = count_if (\<lambda>a. state_of a = ''online'') sel,
       dc_offline = count_if (\<lambda>a. state_of a = ''offline'') sel,
       dc_warning = count_if (\<lambda>a. health_of a = ''warning'') sel,
       dc_unknown = count_if (\<lambda>a. state_of a = ''unknown'') sel,
       dc_healthy = count_if (\<lambda>a. health_of a = ''healthy'') sel,
       dc_critical = count_if (\<lambda>a. health_of a = ''critical'') sel\<rparr>)"

section \<open>Signals\<close>

text \<open>What one asset contributes: its WAN interfaces and its certificate and licence record.\<close>

definition wan_entry :: "dict \<Rightarrow> string list \<Rightarrow> dict \<Rightarrow> dict" where
  "wan_entry a sources v =
     (let collector = por (dget v ''collector'') (por (dget v ''source_collector'')
            (case sources of [s] \<Rightarrow> JStr s | _ \<Rightarrow> JNull)) in
      dmerge v ([(''site_id'', asset_site_id a), (''site'', asset_site_display a)] @
        (if truthy collector then [(''collector'', collector)] else []) @
        [(''device_id'', por (dget v ''device_id'') (por (dget a ''device_id'')
            (por (dget a ''source_record_id'') (dget a ''id''))))]))"

definition asset_wan :: "dict \<Rightarrow> dict \<Rightarrow> dict list res" where
  "asset_wan a extensions =
     and_then (py_iter (por (dget extensions ''wan_interfaces'') (JList []))) (\<lambda>vs.
     map_res (\<lambda>v. and_then (sorted_strs (dget a ''sources'')) (\<lambda>sources.
       and_then (want_dict v) (\<lambda>d. Inr (wan_entry a sources d)))) vs)"

definition asset_security :: "dict \<Rightarrow> dict \<Rightarrow> dict list" where
  "asset_security a extensions =
     (let certificate = por (dget extensions ''device_certificate'') (JObj []);
          licenses = por (dget extensions ''licenses'') (JList []);
          content = por (dget extensions ''content_packages'') (JList []) in
      if truthy certificate \<or> truthy licenses \<or> truthy content then
        [[(''device'', por (dget a ''hostname'') (dget a ''display_name'')),
          (''site_id'', asset_site_id a), (''site'', asset_site_display a),
          (''observed_at'', dget a ''last_seen_at''), (''device_certificate'', certificate),
          (''licenses'', licenses), (''content_packages'', content)]]
      else [])"

definition asset_signals :: "dict \<Rightarrow> (dict list \<times> dict list) res" where
  "asset_signals a = (case por (dget a ''extensions'') (JObj []) of
     JObj extensions \<Rightarrow> and_then (asset_wan a extensions) (\<lambda>wan. Inr (wan, asset_security a extensions))
   | _ \<Rightarrow> Inr ([], []))"

definition text_at :: "dict \<Rightarrow> string \<Rightarrow> string" where
  "text_at d k = py_str (dget_or d k (JStr []))"

definition wan_key :: "dict \<Rightarrow> string \<times> string \<times> string" where
  "wan_key d = (text_at d ''site_id'', text_at d ''role'',
     py_str (por (dget d ''interface_name'') (dget_or d ''name'' (JStr []))))"

definition merge_signals :: "json \<Rightarrow> dict list \<Rightarrow> (dict \<times> dict list) res" where
  "merge_signals doc assets =
     and_then (copy_dict doc) (\<lambda>signals.
     and_then (py_iter (por (dget signals ''wan'') (JList []))) (\<lambda>wan0.
     and_then (py_iter (por (dget signals ''security'') (JList []))) (\<lambda>security0.
     and_then (map_res asset_signals assets) (\<lambda>more.
     and_then (map_res want_dict wan0) (\<lambda>wan1.
     and_then (map_res want_dict security0) (\<lambda>security1.
     (let wan = sort_key wan_key (wan1 @ concat (map fst more));
          security = sort_key (\<lambda>d. (text_at d ''site_id'', text_at d ''device''))
            (security1 @ concat (map snd more));
          s1 = (if wan = [] then signals else dset signals ''wan'' (JList (map JObj wan)));
          s2 = (if security = [] then s1 else dset s1 ''security'' (JList (map JObj security))) in
      Inr (s2, wan))))))))"

definition wan_status_of :: "dict list \<Rightarrow> string option" where
  "wan_status_of wan = (if wan = [] then None
     else if list_ex (\<lambda>d. dget d ''available'' = JBool False) wan then Some ''Offline'' else Some ''Online'')"

text \<open>\<open>float(v) <= n\<close> on the \<open>repr\<close> of the float.\<close>

definition repr_at_most :: "string \<Rightarrow> int \<Rightarrow> bool res" where
  "repr_at_most s n =
     (if s = ''nan'' \<or> s = ''inf'' then Inr False else if s = ''-inf'' then Inr True
      else case parse_decimal s of
        Some (neg, a, b) \<Rightarrow> Inr (signed neg (digits_int (a @ b)) \<le> n * 10 ^ length b)
      | None \<Rightarrow> Inl (Unmodelled s))"

definition low_consumable :: "json \<Rightarrow> bool res" where
  "low_consumable v = and_then (want_dict v) (\<lambda>d.
     if dget d ''percent_remaining'' = JNull then Inr False
     else and_then (py_float (dget d ''percent_remaining'')) (\<lambda>s. repr_at_most s 15))"

definition consumables_of :: "dict \<Rightarrow> int option res" where
  "consumables_of signals =
     (if dget signals ''printer_consumables'' = JNull then Inr None
      else and_then (py_iter (dget signals ''printer_consumables'')) (\<lambda>vs.
        and_then (map_res low_consumable vs) (\<lambda>bs. Inr (Some (count_if id bs)))))"

section \<open>Sites\<close>

record site_row =
  sw_site_id :: string
  sw_display_name :: string
  sw_devices :: int
  sw_online :: int
  sw_offline :: int
  sw_health :: string
  sw_collectors :: "string list"
  sw_issues :: int
  sw_risks :: int

definition row_key :: "dict \<Rightarrow> string" where
  "row_key a = py_str (por (asset_site_id a) (JStr ''site:unassigned''))"

definition count_site :: "dict list \<Rightarrow> string \<Rightarrow> int" where
  "count_site values i = count_if (\<lambda>v. truthy (dget v ''site_id'') \<and> dget v ''site_id'' = JStr i) values"

definition site_row_of :: "site_registry \<Rightarrow> dict list \<Rightarrow> dict list \<Rightarrow> dict list \<Rightarrow> string \<Rightarrow> site_row" where
  "site_row_of rg assets issues risks i =
     (let values = filter (\<lambda>a. row_key a = i) assets in
      \<lparr>sw_site_id = i,
       sw_display_name = (case registry_definition rg i of Some s \<Rightarrow> st_display_name s | None \<Rightarrow> ''Unassigned''),
       sw_devices = int (length values), sw_online = count_if (\<lambda>a. state_of a = ''online'') values,
       sw_offline = count_if (\<lambda>a. state_of a = ''offline'') values,
       sw_health = site_health (map health_of values),
       sw_collectors = usort (concat (map (\<lambda>a. map py_str (as_list (dget_or a ''sources'' (JList [])))) values)),
       sw_issues = count_site issues i, sw_risks = count_site risks i\<rparr>)"

definition site_rows :: "site_registry \<Rightarrow> dict list \<Rightarrow> dict list \<Rightarrow> dict list \<Rightarrow> site_row list" where
  "site_rows rg assets issues risks = map (site_row_of rg assets issues risks) (usort (map row_key assets))"

definition site_row_to_dict :: "site_row \<Rightarrow> dict" where
  "site_row_to_dict r =
     [(''site_id'', JStr (sw_site_id r)), (''display_name'', JStr (sw_display_name r)),
      (''site'', JStr (sw_display_name r)), (''devices'', JInt (sw_devices r)),
      (''online'', JInt (sw_online r)), (''offline'', JInt (sw_offline r)),
      (''infrastructure_health'', JStr (sw_health r)), (''collectors'', jstrs (sw_collectors r)),
      (''issues'', JInt (sw_issues r)), (''risks'', JInt (sw_risks r))]"

section \<open>Health and readiness\<close>

definition actionable_findings :: "infra_finding list \<Rightarrow> infra_finding list" where
  "actionable_findings fs = filter (\<lambda>f. if_actionable f \<and> \<not> if_suppressed f) fs"

definition informational_findings :: "infra_finding list \<Rightarrow> infra_finding list" where
  "informational_findings fs = filter (\<lambda>f. \<not> if_actionable f \<and> \<not> if_suppressed f) fs"

definition suppressed_findings :: "infra_finding list \<Rightarrow> infra_finding list" where
  "suppressed_findings fs = filter if_suppressed fs"

text \<open>A healthy readiness is lowered to the health the findings show.\<close>

definition degraded_to :: "string \<Rightarrow> semantic_state option" where
  "degraded_to health = (if health = ''Warning'' then Some Warning
     else if health = ''Critical'' then Some Critical else None)"

definition lower_readiness :: "bool \<Rightarrow> string \<Rightarrow> readiness_document \<Rightarrow> readiness_document res" where
  "lower_readiness has_assets health rd =
     (case (if has_assets \<and> rs_state (rd_infrastructure rd) = Healthy then degraded_to health else None) of
        None \<Rightarrow> Inr rd
      | Some st \<Rightarrow>
          (let infra = (rd_infrastructure rd)\<lparr>rs_state := st, rs_reason := ''infrastructure_degradation'',
                 rs_display_label := health,
                 rs_operator_action := ''Review active infrastructure findings.''\<rparr> in
           and_then (aggregate_readiness [rd_observability rd, infra]) (\<lambda>overall.
             Inr (rd\<lparr>rd_infrastructure := infra, rd_overall := overall\<rparr>))))"

record settings =
  sg_registry :: site_registry
  sg_freshness :: int
  sg_tz :: int
  sg_config :: dict
  sg_platform_running :: bool
  sg_deployment_id :: string
  sg_connectors :: "string \<Rightarrow> dict list option"
  sg_env :: "string \<Rightarrow> string option"

definition enabled_collectors :: "settings \<Rightarrow> (string \<times> dict) list \<Rightarrow> string list res" where
  "enabled_collectors S rows =
     (if sg_config S = [] then Inr (sort (filter (\<lambda>n. n \<noteq> []) (map fst rows)))
      else map_sum id sort (enabled_names (sg_config S)))"

definition is_demo :: "dict \<Rightarrow> bool" where
  "is_demo config = (casefold (py_str (por (dget config ''deployment_id'') (JStr []))) = ''demo'')"

definition readiness_of :: "settings \<Rightarrow> documents \<Rightarrow> int \<Rightarrow> (string \<times> dict) list \<Rightarrow> dict list \<Rightarrow> dict list
    \<Rightarrow> readiness_document res" where
  "readiness_of S D now rows collectors assets =
     and_then (enabled_collectors S rows) (\<lambda>enabled.
     and_then (read_doc D ''capabilities/collectors.json'' (JObj [])) (\<lambda>manifest.
     and_then (if sg_config S \<noteq> [] then credentials_ready (sg_config S) (sg_connectors S) (sg_env S)
       else Inr (collectors \<noteq> [])) (\<lambda>credentials.
     evaluate_readiness
       \<lparr>ri_enabled = map JStr enabled, ri_records = collectors, ri_manifest = manifest,
        ri_capabilities = [], ri_assets = map JObj assets,
        ri_operations_generated = (D ''operations.json'' \<noteq> None),
        ri_deployment_configured = (truthy (dget (sg_config S) ''deployment_id'') \<or> sg_config S = []),
        ri_platform_running = sg_platform_running S, ri_credentials_configured = credentials,
        ri_demo = is_demo (sg_config S), ri_now = now, ri_stale_seconds = sg_freshness S,
        ri_tz = sg_tz S\<rparr>)))"

section \<open>The canonical state\<close>

record infra_state =
  ns_generated_at :: string
  ns_deployment_id :: string
  ns_sites :: "site_row list"
  ns_switches :: device_counts
  ns_aps :: device_counts
  ns_firewalls :: device_counts
  ns_servers :: device_counts
  ns_printers :: device_counts
  ns_wan_status :: "string option"
  ns_consumables :: "int option"
  ns_collectors :: "dict list"
  ns_findings :: "infra_finding list"
  ns_site_validation :: "dict list"
  ns_site_statistics :: dict
  ns_fusion_statistics :: fusion_statistics
  ns_assets :: "dict list"
  ns_reconciliations :: json
  ns_signals :: dict
  ns_infra_health :: string
  ns_obs_health :: string
  ns_readiness :: readiness_document

record fused_estate =
  fe_assets :: "dict list"
  fe_findings :: "infra_finding list"
  fe_statistics :: fusion_statistics
  fe_site_validation :: "dict list"
  fe_site_statistics :: dict
  fe_rows :: "(string \<times> dict) list"

text \<open>Adapters, sites, fusion, validation and the merged collector rows.\<close>

definition fused_estate_of :: "(string \<Rightarrow> string) \<Rightarrow> settings \<Rightarrow> documents \<Rightarrow> fused_estate res" where
  "fused_estate_of H S D =
     and_then (collected D) (\<lambda>results0.
     and_then (resolve_records (sg_registry S) results0) (\<lambda>(results, used, unknown).
     and_then (fuse H (sg_tz S) (sg_freshness S) results) (\<lambda>(fused, statistics, low).
     (let assets = canonicalize_sites (sg_registry S) fused in
      and_then (registry_validation (sg_registry S) used unknown) (\<lambda>validation.
      and_then (merged_rows results) (\<lambda>rows.
      Inr \<lparr>fe_assets = assets, fe_findings = validate_assets H assets low, fe_statistics = statistics,
           fe_site_validation = validation,
           fe_site_statistics = registry_statistics (sg_registry S) used, fe_rows = rows\<rparr>))))))"

record operations_input =
  oi_signals :: dict
  oi_wan :: "dict list"
  oi_reconciliations :: json
  oi_consumables :: "int option"
  oi_issues :: "dict list"
  oi_risks :: "dict list"

definition operations_input_of :: "documents \<Rightarrow> dict list \<Rightarrow> operations_input res" where
  "operations_input_of D assets =
     and_then (read_doc D ''signals.json'' (JObj [])) (\<lambda>doc.
     and_then (merge_signals doc assets) (\<lambda>(signals, wan).
     and_then (read_doc D ''reconciliation.json'' (JObj [(''reconciliations'', JList [])])) (\<lambda>rec.
     and_then (get_in rec ''reconciliations'' (JList [])) (\<lambda>reconciliations.
     and_then (consumables_of signals) (\<lambda>consumables.
     and_then (read_doc D ''operations.json'' (JObj [(''issues'', JList []), (''risks'', JList [])])) (\<lambda>ops.
     and_then (and_then (get_in ops ''issues'' (JList [])) dict_list) (\<lambda>issues.
     and_then (and_then (get_in ops ''risks'' (JList [])) dict_list) (\<lambda>risks.
     Inr \<lparr>oi_signals = signals, oi_wan = wan, oi_reconciliations = reconciliations,
          oi_consumables = consumables, oi_issues = issues, oi_risks = risks\<rparr>))))))))"

definition evaluate_infrastructure :: "(string \<Rightarrow> string) \<Rightarrow> settings \<Rightarrow> documents \<Rightarrow> int \<Rightarrow> infra_state res" where
  "evaluate_infrastructure H S D now =
     and_then (fused_estate_of H S D) (\<lambda>fe.
     and_then (operations_input_of D (fe_assets fe)) (\<lambda>oi.
     (let assets = fe_assets fe; collectors = map (placed_row (sg_registry S) assets) (fe_rows fe);
          wan_status = wan_status_of (oi_wan oi);
          infra = infrastructure_health assets (actionable_findings (fe_findings fe) \<noteq> []) wan_status in
      and_then (readiness_of S D now (fe_rows fe) collectors assets) (\<lambda>rd0.
      and_then (lower_readiness (assets \<noteq> []) infra rd0) (\<lambda>rd.
      Inr \<lparr>ns_generated_at = isoformat_z now, ns_deployment_id = sg_deployment_id S,
        ns_sites = site_rows (sg_registry S) assets (oi_issues oi) (oi_risks oi),
        ns_switches = count_devices [''switch''] assets,
        ns_aps = count_devices [''access-point'', ''wireless''] assets,
        ns_firewalls = count_devices [''firewall'', ''security-appliance''] assets,
        ns_servers = count_devices [''server''] assets, ns_printers = count_devices [''print''] assets,
        ns_wan_status = wan_status, ns_consumables = oi_consumables oi, ns_collectors = collectors,
        ns_findings = fe_findings fe, ns_site_validation = fe_site_validation fe,
        ns_site_statistics = fe_site_statistics fe, ns_fusion_statistics = fe_statistics fe,
        ns_assets = assets, ns_reconciliations = oi_reconciliations oi, ns_signals = oi_signals oi,
        ns_infra_health = infra, ns_obs_health = observability_health collectors (assets \<noteq> []),
        ns_readiness = rd\<rparr>)))))"

definition state_summary :: "infra_state \<Rightarrow> dict" where
  "state_summary n =
     (let rows = ns_sites n; assets = ns_assets n; rd = ns_readiness n;
          with_health = (\<lambda>h. JInt (count_if (\<lambda>r. sw_health r = h) rows));
          with_status = (\<lambda>s. JInt (count_if (\<lambda>c. dget c ''status'' = JStr s) (ns_collectors n)));
          acts = JInt (int (length (actionable_findings (ns_findings n)))) in
      [(''sites'', JInt (int (length rows))), (''devices'', JInt (int (length assets))),
       (''online'', JInt (count_if (\<lambda>a. state_of a = ''online'') assets)),
       (''offline'', JInt (count_if (\<lambda>a. state_of a = ''offline'') assets)),
       (''actionable_warnings'', acts),
       (''data_quality_findings'', JInt (int (length (informational_findings (ns_findings n))))),
       (''suppressed_findings'', JInt (int (length (suppressed_findings (ns_findings n))))),
       (''infrastructure_health'', JStr (rs_display_label (rd_infrastructure rd))),
       (''observability_health'', JStr (rs_display_label (rd_observability rd))),
       (''healthy_sites'', with_health ''Healthy''), (''warning_sites'', with_health ''Warning''),
       (''critical_sites'', with_health ''Critical''), (''warnings'', acts),
       (''critical'', JInt (count_if (\<lambda>a. health_of a = ''critical'') assets)),
       (''collectors_healthy'', with_status ''healthy''), (''collectors_failed'', with_status ''failed''),
       (''readiness_state'', JStr (semantic_name (rs_state (rd_overall rd))))])"

definition network_counts :: "device_counts \<Rightarrow> dict" where
  "network_counts c = [(''total'', JInt (dc_total c)), (''online'', JInt (dc_online c)),
     (''offline'', JInt (dc_offline c)), (''warning'', JInt (dc_warning c)), (''unknown'', JInt (dc_unknown c))]"

definition fusion_statistics_to_dict :: "fusion_statistics \<Rightarrow> dict" where
  "fusion_statistics_to_dict f =
     [(''source_records'', JInt (fs_source_records f)), (''canonical_assets'', JInt (fs_canonical_assets f)),
      (''records_fused'', JInt (fs_records_fused f)), (''exact_matches'', JInt (fs_exact_matches f)),
      (''high_confidence_matches'', JInt (fs_high_confidence_matches f)),
      (''medium_confidence_matches'', JInt (fs_medium_confidence_matches f)),
      (''low_confidence_candidates'', JInt (fs_low_confidence_candidates f)),
      (''conflicts'', JInt (fs_conflicts f))]"

definition infra_state_to_dict :: "(string \<Rightarrow> string) \<Rightarrow> infra_state \<Rightarrow> dict" where
  "infra_state_to_dict H n =
     (let fw = ns_firewalls n; sv = ns_servers n; pr = ns_printers n;
          wireless = as_dict (dget_or (ns_signals n) ''wireless'' (JObj []));
          findings = JList (map (\<lambda>f. JObj (finding_to_dict H f)) (ns_findings n)) in
      [(''generated_at'', JStr (ns_generated_at n)), (''deployment_id'', JStr (ns_deployment_id n)),
       (''sites'', JList (map (\<lambda>r. JObj (site_row_to_dict r)) (ns_sites n))),
       (''summary'', JObj (state_summary n)),
       (''network'', JObj [(''switches'', JObj (network_counts (ns_switches n)))]),
       (''wireless'', JObj [(''aps'', JObj (network_counts (ns_aps n))),
          (''clients_connected'', dget wireless ''clients_connected''),
          (''clients_failed_authentication'', dget wireless ''clients_failed_authentication'')]),
       (''firewalls'', JObj [(''firewalls'', JInt (dc_total fw)), (''healthy'', JInt (dc_healthy fw)),
          (''warning'', JInt (dc_warning fw)), (''critical'', JInt (dc_critical fw)),
          (''offline'', JInt (dc_offline fw)), (''wan_status'', jopt (ns_wan_status n))]),
       (''servers'', JObj [(''servers'', JInt (dc_total sv)), (''healthy'', JInt (dc_healthy sv)),
          (''offline'', JInt (dc_offline sv)), (''unknown'', JInt (dc_unknown sv))]),
       (''printers'', JObj [(''total'', JInt (dc_total pr)), (''healthy'', JInt (dc_healthy pr)),
          (''warning'', JInt (dc_warning pr)), (''consumables'', jint_opt (ns_consumables n)),
          (''offline'', JInt (dc_offline pr))]),
       (''collectors'', JList (map JObj (ns_collectors n))), (''warnings'', findings),
       (''validation_findings'', findings), (''site_validation'', JList (map JObj (ns_site_validation n))),
       (''site_registry_statistics'', JObj (ns_site_statistics n)),
       (''fusion_statistics'', JObj (fusion_statistics_to_dict (ns_fusion_statistics n))),
       (''assets'', JList (map JObj (ns_assets n))), (''reconciliations'', ns_reconciliations n),
       (''signals'', JObj (ns_signals n)), (''readiness'', JObj (document_to_dict (ns_readiness n)))])"

end
