(* ===== verification/Infrastructure_State_Properties.thy ===== *)
theory Infrastructure_State_Properties
  imports Infrastructure_State Infrastructure_Properties Site_Properties
begin

text \<open>
  What the canonical state promises: its site rows account for every fused asset once, it is
  healthy only without degradation, and its findings are one per identifier, none lost.
\<close>

section \<open>Counting by site\<close>

lemma count_by_key:
  "sum_list (map (\<lambda>i. count_if P (filter (\<lambda>a. k a = i) xs)) (usort (map k xs))) = count_if P xs"
proof -
  have swap: "count_if P (filter (\<lambda>a. k a = i) xs) = int (length (filter (\<lambda>a. k a = id i) (filter P xs)))" for i
    by (simp add: count_if_def conj_commute)
  have "sum_list (map (\<lambda>i. count_if P (filter (\<lambda>a. k a = i) xs)) (usort (map k xs))) =
      int (length (filter (\<lambda>a. k a \<in> id ` set (usort (map k xs))) (filter P xs)))"
    unfolding swap by (rule sum_filters) simp
  also have "filter (\<lambda>a. k a \<in> id ` set (usort (map k xs))) (filter P xs) = filter P xs"
    by (rule filter_True) auto
  finally show ?thesis by (simp add: count_if_def)
qed

lemma count_if_True: "count_if (\<lambda>_. True) xs = int (length xs)"
  by (simp add: count_if_def)

lemma site_rows_sums:
  "sum_list (map sw_devices (site_rows rg assets issues risks)) = int (length assets)"
  "sum_list (map sw_online (site_rows rg assets issues risks)) = count_if (\<lambda>a. state_of a = ''online'') assets"
  "sum_list (map sw_offline (site_rows rg assets issues risks)) = count_if (\<lambda>a. state_of a = ''offline'') assets"
  using count_by_key [of "\<lambda>_. True" row_key assets] count_by_key [of "\<lambda>a. state_of a = ''online''" row_key assets]
    count_by_key [of "\<lambda>a. state_of a = ''offline''" row_key assets]
  by (simp_all add: site_rows_def site_row_of_def Let_def o_def count_if_True)

lemma site_rows_ids: "map sw_site_id (site_rows rg assets issues risks) = usort (map row_key assets)"
  by (simp add: site_rows_def site_row_of_def Let_def o_def)

section \<open>Parts of an evaluation\<close>

lemma evaluate_infrastructure_parts:
  assumes "evaluate_infrastructure H S D now = Inr n"
  obtains fe oi rd0 where "fused_estate_of H S D = Inr fe"
    "operations_input_of D (fe_assets fe) = Inr oi"
    "readiness_of S D now (fe_rows fe) (ns_collectors n) (fe_assets fe) = Inr rd0"
    "lower_readiness (fe_assets fe \<noteq> []) (ns_infra_health n) rd0 = Inr (ns_readiness n)"
    "ns_assets n = fe_assets fe" "ns_findings n = fe_findings fe" "ns_fusion_statistics n = fe_statistics fe"
    "ns_wan_status n = wan_status_of (oi_wan oi)"
    "ns_infra_health n = infrastructure_health (fe_assets fe) (actionable_findings (fe_findings fe) \<noteq> []) (ns_wan_status n)"
    "ns_sites n = site_rows (sg_registry S) (fe_assets fe) (oi_issues oi) (oi_risks oi)"
    "ns_collectors n = map (placed_row (sg_registry S) (fe_assets fe)) (fe_rows fe)"
proof -
  from assms obtain fe where fe: "fused_estate_of H S D = Inr fe"
    by (auto simp: evaluate_infrastructure_def and_then_eq_Inr)
  with assms obtain oi where oi: "operations_input_of D (fe_assets fe) = Inr oi"
    by (auto simp: evaluate_infrastructure_def and_then_eq_Inr)
  show thesis
    using assms unfolding evaluate_infrastructure_def fe oi and_then_simps Let_def
    by (elim and_then_eq_Inr [THEN iffD1, THEN exE] conjE)
       (rule that [OF fe oi], auto)
qed

lemma fused_estate_parts:
  assumes "fused_estate_of H S D = Inr fe"
  obtains results fused low where "fuse H (sg_tz S) (sg_freshness S) results = Inr (fused, fe_statistics fe, low)"
    "fe_assets fe = canonicalize_sites (sg_registry S) fused"
    "fe_findings fe = validate_assets H (fe_assets fe) low"
  using assms
  by (auto simp: fused_estate_of_def and_then_eq_Inr Let_def split: prod.splits)

text \<open>
  C25. The canonical state accounts for every asset once: it has one asset per canonical asset
  of the fusion, its site rows are sorted by distinct sites, and their device, online and
  offline counts add up to those of the whole estate.
\<close>

theorem state_accounts_for_assets:
  assumes "evaluate_infrastructure H S D now = Inr n"
  shows "fs_canonical_assets (ns_fusion_statistics n) = int (length (ns_assets n)) \<and>
    sorted (map sw_site_id (ns_sites n)) \<and> distinct (map sw_site_id (ns_sites n)) \<and>
    sum_list (map sw_devices (ns_sites n)) = int (length (ns_assets n)) \<and>
    sum_list (map sw_online (ns_sites n)) = count_if (\<lambda>a. state_of a = ''online'') (ns_assets n) \<and>
    sum_list (map sw_offline (ns_sites n)) = count_if (\<lambda>a. state_of a = ''offline'') (ns_assets n)"
proof -
  from assms obtain fe and oi :: operations_input where fe: "fused_estate_of H S D = Inr fe" and a: "ns_assets n = fe_assets fe"
    and st: "ns_fusion_statistics n = fe_statistics fe"
    and sites: "ns_sites n = site_rows (sg_registry S) (fe_assets fe) (oi_issues oi) (oi_risks oi)"
    by (rule evaluate_infrastructure_parts) (rule that, assumption+)
  from fe obtain results fused low where f: "fuse H (sg_tz S) (sg_freshness S) results = Inr (fused, fe_statistics fe, low)"
    and c: "fe_assets fe = canonicalize_sites (sg_registry S) fused" by (rule fused_estate_parts) (rule that, assumption+)
  have "fs_canonical_assets (fe_statistics fe) = int (length (fe_assets fe))"
    using fuse_parts [OF f] by (simp add: c canonicalize_sites_def)
  then show ?thesis by (simp add: a st sites site_rows_sums site_rows_ids)
qed

section \<open>Health\<close>

lemma evaluate_readiness_overall:
  "evaluate_readiness i = Inr rd \<Longrightarrow>
   aggregate_readiness [rd_observability rd, rd_infrastructure rd] = Inr (rd_overall rd)"
  by (auto simp: evaluate_readiness_def and_then_eq_Inr Let_def)

lemma readiness_of_overall:
  "readiness_of S D now rows cs assets = Inr rd \<Longrightarrow>
   aggregate_readiness [rd_observability rd, rd_infrastructure rd] = Inr (rd_overall rd)"
  unfolding readiness_of_def and_then_eq_Inr by (elim exE conjE) (rule evaluate_readiness_overall)

lemma degraded_to_None: "degraded_to h = None \<longleftrightarrow> h \<noteq> ''Warning'' \<and> h \<noteq> ''Critical''"
  by (simp add: degraded_to_def)

lemma degraded_to_Some: "degraded_to h = Some st \<Longrightarrow> st \<noteq> Healthy"
  by (auto simp: degraded_to_def split: if_splits)

lemma lower_readiness_healthy:
  assumes "lower_readiness True health rd0 = Inr rd" and "rs_state (rd_overall rd) = Healthy"
    and "aggregate_readiness [rd_observability rd0, rd_infrastructure rd0] = Inr (rd_overall rd0)"
  shows "degraded_to health = None"
proof (cases "rs_state (rd_infrastructure rd0) = Healthy")
  case True
  show ?thesis
  proof (rule ccontr)
    assume "degraded_to health \<noteq> None"
    then obtain st where st: "degraded_to health = Some st" by auto
    let ?infra = "(rd_infrastructure rd0)\<lparr>rs_state := st, rs_reason := ''infrastructure_degradation'',
      rs_display_label := health, rs_operator_action := ''Review active infrastructure findings.''\<rparr>"
    have "aggregate_readiness [rd_observability rd0, ?infra] = Inr (rd_overall rd)"
      using assms(1) True st by (auto simp: lower_readiness_def Let_def)
    from aggregate_healthy [OF this assms(2)] have "st = Healthy" by simp
    with degraded_to_Some [OF st] show False by simp
  qed
next
  case False
  then have "rd = rd0" using assms(1) by (simp add: lower_readiness_def)
  with assms(2) aggregate_healthy [OF assms(3)] False show ?thesis by simp
qed

lemma infrastructure_health_fine:
  assumes "infrastructure_health assets w wan \<noteq> ''Warning''" "infrastructure_health assets w wan \<noteq> ''Critical''"
    and "assets \<noteq> []"
  shows "list_all (\<lambda>a. dget a ''status'' \<noteq> JStr ''offline'') assets \<and> \<not> w \<and> wan \<noteq> Some ''Offline''"
  using assms by (auto simp: infrastructure_health_def list_all_iff list_ex_iff split: if_splits)

text \<open>
  C26. The canonical state of an estate with assets is ready only without degradation: no asset
  is offline, no finding is actionable and no WAN link is down.
\<close>

theorem ready_state_is_undegraded:
  assumes "evaluate_infrastructure H S D now = Inr n" and "ns_assets n \<noteq> []"
    and "rs_state (rd_overall (ns_readiness n)) = Healthy"
  shows "list_all (\<lambda>a. dget a ''status'' \<noteq> JStr ''offline'') (ns_assets n) \<and>
    actionable_findings (ns_findings n) = [] \<and> ns_wan_status n \<noteq> Some ''Offline''"
proof -
  from assms(1) obtain fe :: fused_estate and rd0 where
    rd0: "readiness_of S D now (fe_rows fe) (ns_collectors n) (fe_assets fe) = Inr rd0"
    and lower: "lower_readiness (fe_assets fe \<noteq> []) (ns_infra_health n) rd0 = Inr (ns_readiness n)"
    and a: "ns_assets n = fe_assets fe" and f: "ns_findings n = fe_findings fe"
    and h: "ns_infra_health n = infrastructure_health (fe_assets fe) (actionable_findings (fe_findings fe) \<noteq> []) (ns_wan_status n)"
    by (rule evaluate_infrastructure_parts) (rule that, assumption+)
  have "fe_assets fe \<noteq> []" using assms(2) a by simp
  with lower have "lower_readiness True (ns_infra_health n) rd0 = Inr (ns_readiness n)" by simp
  from lower_readiness_healthy [OF this assms(3) readiness_of_overall [OF rd0]]
  have "ns_infra_health n \<noteq> ''Warning''" "ns_infra_health n \<noteq> ''Critical''" by (simp_all add: degraded_to_None)
  from infrastructure_health_fine [OF this [unfolded h] \<open>fe_assets fe \<noteq> []\<close>] show ?thesis by (simp add: a f)
qed

section \<open>Findings\<close>

lemma by_finding_id_inv:
  defines "ok \<equiv> \<lambda>d fs H. distinct (map fst d) \<and> (\<forall>(k, f) \<in> set d. k = finding_id H f) \<and> fst ` set d = finding_id H ` set fs"
  shows "ok (by_finding_id H fs) fs H"
proof (induction fs rule: rev_induct)
  case Nil
  then show ?case by (simp add: ok_def by_finding_id_def)
next
  case (snoc f fs)
  let ?d = "by_finding_id H fs"
  have step: "by_finding_id H (fs @ [f]) = AList.update (finding_id H f) f ?d" by (simp add: by_finding_id_def)
  have d: "distinct (map fst ?d)" "\<forall>(k, g) \<in> set ?d. k = finding_id H g" "fst ` set ?d = finding_id H ` set fs"
    using snoc by (auto simp: ok_def)
  have upd: "distinct (map fst (AList.update (finding_id H f) f ?d))" by (rule distinct_update [OF d(1)])
  moreover have "k = finding_id H g" if "(k, g) \<in> set (AList.update (finding_id H f) f ?d)" for k g
  proof -
    have "map_of (AList.update (finding_id H f) f ?d) k = Some g" using that upd by simp
    then have "k = finding_id H f \<and> g = f \<or> map_of ?d k = Some g"
      by (auto simp: update_conv' split: if_splits)
    then show ?thesis using d(2) map_of_SomeD [of ?d k g] by auto
  qed
  moreover have "fst ` set (AList.update (finding_id H f) f ?d) = insert (finding_id H f) (fst ` set ?d)"
    by (simp add: dom_map_of_conv_image_fst [symmetric] update_conv')
  ultimately show ?case using d(3) by (auto simp: ok_def step)
qed

lemma validate_assets_ids:
  "distinct (map (finding_id H) (validate_assets H assets low))"
  "set (map (finding_id H) (validate_assets H assets low)) = finding_id H ` set (all_findings assets low)"
proof -
  let ?d = "by_finding_id H (all_findings assets low)"
  have d: "distinct (map fst ?d)" "\<forall>(k, g) \<in> set ?d. k = finding_id H g"
    "fst ` set ?d = finding_id H ` set (all_findings assets low)" using by_finding_id_inv by auto
  have keys: "map (finding_id H) (map snd ?d) = map fst ?d" using d(2) by (induction ?d) auto
  have ms: "mset (map (finding_id H) (validate_assets H assets low)) = mset (map (finding_id H) (map snd ?d))"
    by (simp add: validate_assets_def multiset.map_comp)
  then show "distinct (map (finding_id H) (validate_assets H assets low))"
    unfolding keys using d(1) by (metis mset_eq_imp_distinct_iff)
  show "set (map (finding_id H) (validate_assets H assets low)) = finding_id H ` set (all_findings assets low)"
    using mset_eq_setD [OF ms] d(3) unfolding keys by simp
qed

text \<open>
  The findings of the canonical state are sorted, one per identifier, and none of an asset
  is lost: each missing site, missing address and identity conflict keeps its identifier.
\<close>

theorem findings_unique_and_complete:
  assumes "evaluate_infrastructure H S D now = Inr n"
  shows "distinct (map (finding_id H) (ns_findings n)) \<and>
    sorted (map (\<lambda>f. (if_type f, if_canonical_id f, finding_id H f)) (ns_findings n)) \<and>
    finding_id H ` set (concat (map asset_findings (ns_assets n))) \<subseteq> set (map (finding_id H) (ns_findings n))"
proof -
  from assms obtain fe where fe: "fused_estate_of H S D = Inr fe" and a: "ns_assets n = fe_assets fe"
    and f: "ns_findings n = fe_findings fe" by (rule evaluate_infrastructure_parts) (rule that, assumption+)
  from fe obtain low where v: "fe_findings fe = validate_assets H (fe_assets fe) low"
    by (rule fused_estate_parts) (rule that, assumption+)
  have "sorted (map (\<lambda>f. (if_type f, if_canonical_id f, finding_id H f)) (ns_findings n))"
    by (simp add: f v validate_assets_def)
  then show ?thesis using validate_assets_ids [of H "fe_assets fe" low]
    by (auto simp: f v a all_findings_def)
qed

section \<open>Witnesses\<close>

lemma fuse_single:
  assumes "observations results = [r]"
  shows "fuse H tz fr results = and_then (fuse_group H tz fr [r] Unmerged []) (\<lambda>(a, n).
     Inr ([a], \<lparr>fs_source_records = 1, fs_canonical_assets = 1, fs_records_fused = 0, fs_exact_matches = 0,
       fs_high_confidence_matches = 0, fs_medium_confidence_matches = 0, fs_low_confidence_candidates = 0,
       fs_conflicts = int n\<rparr>, []))"
proof -
  have "cluster [r] = \<lparr>cl_parent = [0], cl_edges = [], cl_low = []\<rparr>"
    by (simp add: cluster_def pairs_below_def)
  moreover have "clusters_of [0] 1 = [[0]]"
    by (simp add: clusters_of_def uf_find_def)
  ultimately show ?thesis
    by (cases "fuse_group H tz fr [r] Unmerged []")
       (auto simp: fuse_def fuse_members_def assms Let_def group_edges_def group_confidence_def count_confidence_def usort_def)
qed

text \<open>A device of the inventory, and a collector that ran.\<close>

definition sample_asset :: dict where
  "sample_asset = [(''source'', JStr ''inventory''), (''site_id'', JStr ''s'')]"

definition sample_documents :: documents where
  "sample_documents p =
     (if p = ''assets.json'' then Some (Doc (JObj [(''assets'', JList [JObj sample_asset])]))
      else if p = ''capabilities/collectors.json'' then Some (Doc (JObj [(''collectors'', JObj [(''snmp'',
          JObj [(''state'', JStr ''collected''), (''last_successful_collection'', JStr ''t'')])])]))
      else None)"

definition sample_settings :: settings where
  "sample_settings = \<lparr>sg_registry = registry_of [] [], sg_freshness = 300, sg_tz = 0,
     sg_config = [(''deployment_id'', JStr ''d1''), (''collectors'', JObj [(''snmp'', JObj [(''enabled'', JBool True)])])],
     sg_platform_running = True, sg_deployment_id = ''d1'', sg_connectors = (\<lambda>n. Some []), sg_env = (\<lambda>n. None)\<rparr>"

text \<open>The evaluation, stage by stage.\<close>

definition sample_result :: "dict list \<Rightarrow> string \<times> int \<Rightarrow> adapter_result" where
  "sample_result assets = (\<lambda>(name, priority). \<lparr>ar_name = name, ar_priority = priority,
     ar_assets = (if name = ''inventory'' then assets else []), ar_collectors = []\<rparr>)"

definition sample_results :: "dict list \<Rightarrow> adapter_result list" where
  "sample_results assets = map (sample_result assets)
     [(''aruba'', 200), (''fortigate'', 200), (''inventory'', 300), (''mist'', 200), (''paloalto'', 200),
      (''papercut'', 200), (''snmp'', 100), (''virtualisation'', 200)]"

definition sample_record :: dict where
  "sample_record = (case resolve_record (registry_of [] []) sample_asset of Inr (d, _) \<Rightarrow> d | Inl _ \<Rightarrow> [])"

definition sample_observed :: dict where
  "sample_observed = dset (dset sample_record ''_authority'' (JStr ''inventory'')) ''_priority'' (JInt 300)"

definition sample_fused :: dict where
  "sample_fused = (case fuse_group (\<lambda>s. s) 0 300 [sample_observed] Unmerged [] of Inr (a, _) \<Rightarrow> a | Inl _ \<Rightarrow> [])"

lemma sample_stages:
  "collected sample_documents = Inr (sample_results [sample_asset])"
  "resolve_records (registry_of [] []) (sample_results [sample_asset]) = Inr (sample_results [sample_record], [], [])"
  "observations (sample_results [sample_record]) = [sample_observed]"
  "registry_validation (registry_of [] []) [] [] = Inr []"
  "merged_rows (sample_results [sample_record]) = Inr []"
  by code_simp+

lemma sample_group: "\<exists>n. fuse_group (\<lambda>s. s) 0 300 [sample_observed] Unmerged [] = Inr (sample_fused, n)"
proof -
  have "\<not> isl (fuse_group (\<lambda>s. s) 0 300 [sample_observed] Unmerged [])" by code_simp
  then show ?thesis by (cases "fuse_group (\<lambda>s. s) 0 300 [sample_observed] Unmerged []") (auto simp: sample_fused_def)
qed

definition sample_assets :: "dict list" where
  "sample_assets = [canonicalize_site (registry_of [] []) sample_fused]"

lemma sample_fused_estate:
  "\<exists>fe. fused_estate_of (\<lambda>s. s) sample_settings sample_documents = Inr fe \<and> fe_assets fe = sample_assets \<and>
     fe_findings fe = validate_assets (\<lambda>s. s) sample_assets [] \<and> fe_rows fe = []"
proof -
  have "sg_registry sample_settings = registry_of [] []" "sg_tz sample_settings = 0" "sg_freshness sample_settings = 300"
    by (simp_all add: sample_settings_def)
  moreover obtain n where "fuse_group (\<lambda>s. s) 0 300 [sample_observed] Unmerged [] = Inr (sample_fused, n)"
    using sample_group ..
  ultimately show ?thesis
    by (simp add: fused_estate_of_def sample_stages fuse_single [OF sample_stages(3)] canonicalize_sites_def
        sample_assets_def Let_def)
qed

definition no_operations :: operations_input where
  "no_operations = \<lparr>oi_signals = [], oi_wan = [], oi_reconciliations = JList [], oi_consumables = None,
     oi_issues = [], oi_risks = []\<rparr>"

lemma sample_inputs:
  "operations_input_of sample_documents sample_assets = Inr no_operations"
  "actionable_findings (validate_assets (\<lambda>s. s) sample_assets []) = []"
  "infrastructure_health sample_assets False None = ''Healthy''"
  by code_simp+

definition sample_readiness :: "readiness_document res" where
  "sample_readiness = readiness_of sample_settings sample_documents 0 [] [] sample_assets"

lemma sample_ready: "\<exists>rd. readiness_of sample_settings sample_documents 0 [] [] sample_assets = Inr rd \<and>
   rs_state (rd_overall rd) = Healthy"
proof -
  have "(case sample_readiness of Inr rd \<Rightarrow> rs_state (rd_overall rd) = Healthy | Inl _ \<Rightarrow> False)" by code_simp
  then show ?thesis by (auto simp: sample_readiness_def split: sum.splits)
qed

lemma sample_evaluated:
  "\<exists>n. evaluate_infrastructure (\<lambda>s. s) sample_settings sample_documents 0 = Inr n \<and> length (ns_assets n) = 1 \<and>
     rs_state (rd_overall (ns_readiness n)) = Healthy"
proof -
  obtain fe where fe: "fused_estate_of (\<lambda>s. s) sample_settings sample_documents = Inr fe"
    "fe_assets fe = sample_assets" "actionable_findings (fe_findings fe) = []" "fe_rows fe = []"
    using sample_fused_estate sample_inputs(2) by auto
  obtain rd where rd: "readiness_of sample_settings sample_documents 0 [] [] sample_assets = Inr rd"
    "rs_state (rd_overall rd) = Healthy" using sample_ready by blast
  have low: "lower_readiness True ''Healthy'' rd = Inr rd" by (simp add: lower_readiness_def degraded_to_def)
  have "sample_assets \<noteq> []" "length sample_assets = 1" by (simp_all add: sample_assets_def)
  then show ?thesis
    by (simp add: evaluate_infrastructure_def fe sample_inputs no_operations_def wan_status_of_def
        Let_def rd low)
qed

theorem state_accounts_for_assets_witness:
  "\<exists>n. evaluate_infrastructure (\<lambda>s. s) sample_settings sample_documents 0 = Inr n \<and>
     sum_list (map sw_devices (ns_sites n)) = 1"
proof -
  from sample_evaluated obtain n where n: "evaluate_infrastructure (\<lambda>s. s) sample_settings sample_documents 0 = Inr n"
    "length (ns_assets n) = 1" by blast
  with state_accounts_for_assets [OF n(1)] show ?thesis by auto
qed

theorem ready_state_is_undegraded_witness:
  "\<exists>n. evaluate_infrastructure (\<lambda>s. s) sample_settings sample_documents 0 = Inr n \<and>
     rs_state (rd_overall (ns_readiness n)) = Healthy \<and> actionable_findings (ns_findings n) = []"
proof -
  from sample_evaluated obtain n where n: "evaluate_infrastructure (\<lambda>s. s) sample_settings sample_documents 0 = Inr n"
    "length (ns_assets n) = 1" "rs_state (rd_overall (ns_readiness n)) = Healthy" by blast
  from n(2) have "ns_assets n \<noteq> []" by auto
  from ready_state_is_undegraded [OF n(1) this n(3)] n show ?thesis by auto
qed

theorem findings_unique_and_complete_witness:
  "\<exists>n. evaluate_infrastructure (\<lambda>s. s) sample_settings sample_documents 0 = Inr n \<and>
     distinct (map (finding_id (\<lambda>s. s)) (ns_findings n))"
proof -
  from sample_evaluated obtain n where n: "evaluate_infrastructure (\<lambda>s. s) sample_settings sample_documents 0 = Inr n"
    by blast
  from findings_unique_and_complete [OF n] n show ?thesis by blast
qed

end
