(* ===== verification/Infrastructure_Renderer.thy ===== *)
theory Infrastructure_Renderer
  imports Infrastructure_State
begin

text \<open>
  \<open>analysis/infrastructure/renderer.py\<close>: the flat dashboard summary of a canonical state, one
  scope for the whole estate and one for each site row.
\<close>

record scope_value =
  sv_scope :: string
  sv_display_name :: string
  sv_sites :: int
  sv_healthy_sites :: int
  sv_warning_sites :: int
  sv_critical_sites :: int
  sv_devices :: int
  sv_online :: int
  sv_offline :: int
  sv_actionable :: int
  sv_data_quality :: int
  sv_infra_health :: string
  sv_obs_health :: string
  sv_collectors_healthy :: int
  sv_collectors_failed :: int
  sv_switches :: device_counts
  sv_aps :: device_counts
  sv_firewalls :: device_counts
  sv_servers :: device_counts
  sv_printers :: device_counts

definition all_scope :: string where
  "all_scope = ''all''"

definition scoped_collectors :: "infra_state \<Rightarrow> string \<Rightarrow> dict list" where
  "scoped_collectors n scope = (if scope = all_scope then ns_collectors n
     else filter (\<lambda>c. dget c ''shared'' = JBool True \<or>
       JStr scope \<in> set (as_list (dget_or c ''site_ids'' (JList [])))) (ns_collectors n))"

definition count_status :: "string \<Rightarrow> dict list \<Rightarrow> int" where
  "count_status s cs = count_if (\<lambda>c. dget c ''status'' = JStr s) cs"

definition scope_observability :: "infra_state \<Rightarrow> dict list \<Rightarrow> string" where
  "scope_observability n cs =
     (if count_status ''failed'' cs \<noteq> 0 then ''Warning''
      else if cs \<noteq> [] \<and> count_status ''healthy'' cs = int (length cs) then ''Healthy''
      else if cs \<noteq> [] then ''Warning'' else rs_display_label (rd_observability (ns_readiness n)))"

definition scope_health :: "infra_state \<Rightarrow> string \<Rightarrow> string" where
  "scope_health n scope =
     (let label = rs_display_label (rd_infrastructure (ns_readiness n)) in
      if scope = all_scope then label
      else case find (\<lambda>r. sw_site_id r = scope) (ns_sites n) of None \<Rightarrow> label | Some r \<Rightarrow> sw_health r)"

definition scope_actionable :: "infra_state \<Rightarrow> dict list \<Rightarrow> int" where
  "scope_actionable n assets = count_if (\<lambda>f. if_actionable f \<and> \<not> if_suppressed f \<and>
     if_canonical_id f \<in> set (map asset_canonical assets)) (ns_findings n)"

definition scope_of :: "infra_state \<Rightarrow> string \<Rightarrow> string \<Rightarrow> dict list \<Rightarrow> scope_value" where
  "scope_of n scope display assets =
     (let cs = scoped_collectors n scope; health = scope_health n scope; all = (scope = all_scope);
          with_health = (\<lambda>h. if all then count_if (\<lambda>r. sw_health r = h) (ns_sites n) else if health = h then 1 else 0) in
      \<lparr>sv_scope = scope, sv_display_name = display,
       sv_sites = (if all then int (length (ns_sites n)) else 1),
       sv_healthy_sites = with_health ''Healthy'', sv_warning_sites = with_health ''Warning'',
       sv_critical_sites = with_health ''Critical'', sv_devices = int (length assets),
       sv_online = count_if (\<lambda>a. state_of a = ''online'') assets,
       sv_offline = count_if (\<lambda>a. state_of a = ''offline'') assets,
       sv_actionable = (if all then int (length (actionable_findings (ns_findings n))) else scope_actionable n assets),
       sv_data_quality = (if all then int (length (informational_findings (ns_findings n))) else 0),
       sv_infra_health = health, sv_obs_health = scope_observability n cs,
       sv_collectors_healthy = count_status ''healthy'' cs, sv_collectors_failed = count_status ''failed'' cs,
       sv_switches = count_devices [''switch''] assets,
       sv_aps = count_devices [''access-point'', ''wireless''] assets,
       sv_firewalls = count_devices [''firewall'', ''security-appliance''] assets,
       sv_servers = count_devices [''server''] assets, sv_printers = count_devices [''print''] assets\<rparr>)"

definition site_scope :: "infra_state \<Rightarrow> site_row \<Rightarrow> scope_value" where
  "site_scope n r = scope_of n (sw_site_id r) (sw_display_name r)
     (filter (\<lambda>a. asset_site_id a = JStr (sw_site_id r)) (ns_assets n))"

definition scopes :: "infra_state \<Rightarrow> scope_value list" where
  "scopes n = scope_of n all_scope ''All Sites'' (ns_assets n) # map (site_scope n) (ns_sites n)"

definition scope_value_to_dict :: "scope_value \<Rightarrow> dict" where
  "scope_value_to_dict v =
     [(''scope'', JStr (sv_scope v)), (''display_name'', JStr (sv_display_name v)),
      (''sites'', JInt (sv_sites v)), (''healthy_sites'', JInt (sv_healthy_sites v)),
      (''warning_sites'', JInt (sv_warning_sites v)), (''critical_sites'', JInt (sv_critical_sites v)),
      (''devices'', JInt (sv_devices v)), (''devices_online'', JInt (sv_online v)),
      (''devices_offline'', JInt (sv_offline v)), (''actionable_warnings'', JInt (sv_actionable v)),
      (''data_quality_findings'', JInt (sv_data_quality v)),
      (''infrastructure_health'', JStr (sv_infra_health v)),
      (''observability_health'', JStr (sv_obs_health v)),
      (''collectors_healthy'', JInt (sv_collectors_healthy v)),
      (''collectors_failed'', JInt (sv_collectors_failed v)),
      (''switches_total'', JInt (dc_total (sv_switches v))), (''switches_online'', JInt (dc_online (sv_switches v))),
      (''switches_offline'', JInt (dc_offline (sv_switches v))), (''aps_total'', JInt (dc_total (sv_aps v))),
      (''aps_online'', JInt (dc_online (sv_aps v))), (''aps_offline'', JInt (dc_offline (sv_aps v))),
      (''firewalls_total'', JInt (dc_total (sv_firewalls v))),
      (''firewalls_healthy'', JInt (dc_healthy (sv_firewalls v))),
      (''firewalls_offline'', JInt (dc_offline (sv_firewalls v))),
      (''servers_total'', JInt (dc_total (sv_servers v))), (''servers_healthy'', JInt (dc_healthy (sv_servers v))),
      (''servers_offline'', JInt (dc_offline (sv_servers v))),
      (''printers_total'', JInt (dc_total (sv_printers v))),
      (''printers_healthy'', JInt (dc_healthy (sv_printers v))),
      (''printers_offline'', JInt (dc_offline (sv_printers v)))]"

definition flat_summary :: "infra_state \<Rightarrow> dict" where
  "flat_summary n =
     (let rd = ns_readiness n; v = scope_of n all_scope ''All Sites'' (ns_assets n);
          acts = JInt (int (length (actionable_findings (ns_findings n)))) in
      [(''generated_at'', JStr (ns_generated_at n)),
       (''infrastructure_health'', JStr (rs_display_label (rd_infrastructure rd))),
       (''observability_health'', JStr (rs_display_label (rd_observability rd))),
       (''readiness'', JObj (document_to_dict rd)), (''sites'', JInt (int (length (ns_sites n)))),
       (''healthy_sites'', JInt (sv_healthy_sites v)), (''warning_sites'', JInt (sv_warning_sites v)),
       (''critical_sites'', JInt (sv_critical_sites v)),
       (''site_options'', JList (map (\<lambda>r. JObj [(''site_id'', JStr (sw_site_id r)),
          (''display_name'', JStr (sw_display_name r))]) (ns_sites n))),
       (''devices'', JInt (sv_devices v)), (''devices_online'', JInt (sv_online v)),
       (''devices_offline'', JInt (sv_offline v)), (''warnings'', acts), (''actionable_warnings'', acts),
       (''data_quality_findings'', JInt (sv_data_quality v)),
       (''critical'', JInt (count_if (\<lambda>a. health_of a = ''critical'') (ns_assets n))),
       (''collectors_healthy'', JInt (sv_collectors_healthy v)),
       (''collectors_failed'', JInt (sv_collectors_failed v)),
       (''switches_total'', JInt (dc_total (ns_switches n))), (''switches_online'', JInt (dc_online (ns_switches n))),
       (''switches_offline'', JInt (dc_offline (ns_switches n))), (''aps_total'', JInt (dc_total (ns_aps n))),
       (''aps_online'', JInt (dc_online (ns_aps n))), (''aps_offline'', JInt (dc_offline (ns_aps n))),
       (''firewalls_total'', JInt (dc_total (ns_firewalls n))),
       (''firewalls_healthy'', JInt (dc_healthy (ns_firewalls n))),
       (''firewalls_offline'', JInt (dc_offline (ns_firewalls n))),
       (''servers_total'', JInt (dc_total (ns_servers n))), (''servers_healthy'', JInt (dc_healthy (ns_servers n))),
       (''servers_offline'', JInt (dc_offline (ns_servers n))),
       (''printers_total'', JInt (dc_total (ns_printers n))),
       (''printers_healthy'', JInt (dc_healthy (ns_printers n))),
       (''printers_offline'', JInt (dc_offline (ns_printers n))),
       (''scopes'', JList (map (\<lambda>v. JObj (scope_value_to_dict v)) (scopes n)))])"

section \<open>Scopes against site rows\<close>

text \<open>
  A site's scope shows the counts of its row. The row of the assets without a site is keyed by
  \<open>site:unassigned\<close>, which is no asset's site id, so its scope shows no device.
\<close>

definition site_text :: "dict \<Rightarrow> bool" where
  "site_text a = (case asset_site_id a of JStr s \<Rightarrow> s \<noteq> ''site:unassigned'' | JNull \<Rightarrow> True | _ \<Rightarrow> False)"

lemma row_key_site:
  assumes "site_text a" and "i \<noteq> ''site:unassigned''" and "i \<noteq> []"
  shows "row_key a = i \<longleftrightarrow> asset_site_id a = JStr i"
  using assms by (auto simp: row_key_def site_text_def por_def split: json.splits)

lemma unassigned_scope_empty:
  assumes "list_all site_text (ns_assets n)" and "sw_site_id r = ''site:unassigned''"
  shows "sv_devices (site_scope n r) = 0"
  using assms by (auto simp: site_scope_def scope_of_def Let_def filter_empty_conv list_all_iff site_text_def)

end
