(* ===== verification/Py_Float.thy ===== *)
theory Py_Float
  imports Py_Number
begin

text \<open>
  Arithmetic, comparison and formatting of floats. A float is compared by its \<open>repr\<close>: the
  shortest text of a double grows strictly with the double, so decimal texts order as the
  doubles do. Products and quotients are rounded to the nearest double; formatting rounds the
  exact value of the double.
\<close>

section \<open>Values\<close>

text \<open>A number as a fraction: its numerator and positive denominator.\<close>

type_synonym frac = "int \<times> int"

definition decimal_value :: "string \<Rightarrow> frac res" where
  "decimal_value s = (case parse_decimal s of
     Some (neg, a, b) \<Rightarrow> Inr (signed neg (digits_int (a @ b)), 10 ^ length b)
   | None \<Rightarrow> Inl (Unmodelled s))"

fun number_value :: "json \<Rightarrow> frac res" where
  "number_value (JInt i) = Inr (i, 1)"
| "number_value (JBool b) = Inr (if b then 1 else 0, 1)"
| "number_value (JFloat s) = decimal_value s"
| "number_value _ = Inl (TypeError ''not supported between instances'')"

definition frac_less :: "frac \<Rightarrow> frac \<Rightarrow> bool" where
  "frac_less a b = (fst a * snd b < fst b * snd a)"

definition frac_le :: "frac \<Rightarrow> frac \<Rightarrow> bool" where
  "frac_le a b = (fst a * snd b \<le> fst b * snd a)"

definition at_least :: "json \<Rightarrow> string \<Rightarrow> bool res" where
  "at_least v limit = and_then (number_value v) (\<lambda>x. and_then (decimal_value limit) (\<lambda>y. Inr (frac_le y x)))"

definition exceeds :: "json \<Rightarrow> int \<Rightarrow> bool res" where
  "exceeds v n = and_then (number_value v) (\<lambda>x. Inr (frac_less (n, 1) x))"

section \<open>Doubles\<close>

definition round_signed :: "frac \<Rightarrow> frac" where
  "round_signed x = (let (n, d) = to_double \<bar>fst x\<bar> (snd x) in (signed (fst x < 0) n, d))"

definition double_of :: "json \<Rightarrow> frac res" where
  "double_of v = map_sum id round_signed (number_value v)"

definition div_double :: "frac \<Rightarrow> frac \<Rightarrow> frac" where
  "div_double x y = round_signed (signed (fst y < 0) (fst x * snd y), snd x * \<bar>fst y\<bar>)"

definition mul_double :: "frac \<Rightarrow> frac \<Rightarrow> frac" where
  "mul_double x y = round_signed (fst x * fst y, snd x * snd y)"

section \<open>Texts\<close>

definition pad_digits :: "nat \<Rightarrow> int \<Rightarrow> string" where
  "pad_digits k n = (let s = show_int n in replicate (k - length s) (CHR ''0'') @ s)"

definition drop_zeros_right :: "string \<Rightarrow> string" where
  "drop_zeros_right s = rev (dropWhile (\<lambda>c. c = CHR ''0'') (rev s))"

text \<open>\<open>round(x, 3)\<close> of a double, as a \<open>repr\<close>.\<close>

definition round3 :: "frac \<Rightarrow> string" where
  "round3 x = (let q = round_half_even (\<bar>fst x\<bar> * 1000) (snd x) in
     (if fst x < 0 then ''-'' else []) @ show_int (q div 1000) @ ''.'' @
     sor (drop_zeros_right (pad_digits 3 (q mod 1000))) ''0'')"

text \<open>\<open>f"{x:.1f}"\<close> of a double.\<close>

definition fmt_1f :: "frac \<Rightarrow> string" where
  "fmt_1f x = (let q = round_half_even (\<bar>fst x\<bar> * 10) (snd x) in
     (if fst x < 0 then ''-'' else []) @ show_int (q div 10) @ ''.'' @ show_int (q mod 10))"

text \<open>
  \<open>f"{x:g}"\<close> of a double: six significant digits without trailing zeros. The exponent form
  of values from a million on or below a ten-thousandth is not modelled.
\<close>

definition g_places :: "frac \<Rightarrow> nat" where
  "g_places x = (let n = \<bar>fst x\<bar>; d = snd x; w = n div d in
     if w > 0 then 6 - length (show_int w)
     else if n * 10 \<ge> d then 6 else if n * 100 \<ge> d then 7 else if n * 1000 \<ge> d then 8 else 9)"

definition fmt_g :: "frac \<Rightarrow> string res" where
  "fmt_g x = (let n = \<bar>fst x\<bar>; d = snd x; p = g_places x; q = round_half_even (n * 10 ^ p) d in
     if n = 0 then Inr ''0''
     else if n \<ge> 1000000 * d \<or> n * 10000 < d \<or> q \<ge> 1000000 * 10 ^ p then Inl (Unmodelled ''exponent form'')
     else (let whole = show_int (q div 10 ^ p); part = drop_zeros_right (pad_digits p (q mod 10 ^ p)) in
       Inr ((if fst x < 0 then ''-'' else []) @ whole @ (if part = [] \<or> p = 0 then [] else ''.'' @ part))))"

text \<open>\<open>percentage(used, total)\<close> of \<open>analysis/virtualisation/normalise.py\<close>.\<close>

fun is_number :: "json \<Rightarrow> bool" where
  "is_number (JInt _) = True"
| "is_number (JBool _) = True"
| "is_number (JFloat _) = True"
| "is_number _ = False"

fun is_float :: "json \<Rightarrow> bool" where
  "is_float (JFloat _) = True"
| "is_float _ = False"

definition times_100 :: "bool \<Rightarrow> frac \<Rightarrow> frac" where
  "times_100 flt u = (if flt then mul_double (round_signed u) (100, 1) else (fst u * 100, 1))"

fun percent_of :: "bool \<Rightarrow> bool \<Rightarrow> frac \<Rightarrow> frac \<Rightarrow> string option" where
  "percent_of flt flt' (a, b) (c, d) =
     (if c \<le> 0 then None
      else Some (round3 (if flt \<or> flt' then div_double (round_signed (times_100 flt (a, b))) (round_signed (c, d))
        else div_double (a * 100, 1) (c, d))))"

definition percentage :: "json \<Rightarrow> json \<Rightarrow> string option res" where
  "percentage used capacity =
     (if \<not> is_number used \<or> \<not> is_number capacity then Inr None
      else and_then (number_value used) (\<lambda>u. map_sum id (percent_of (is_float used) (is_float capacity) u)
        (number_value capacity)))"

lemma format_examples:
  "fmt_1f (round_signed (5, 4)) = ''1.2''" "fmt_g (round_signed (155, 10)) = Inr ''15.5''"
  "fmt_g (3, 1) = Inr ''3''" "fmt_g (round_signed (1, 30)) = Inr ''0.0333333''"
  "percentage (JInt 1) (JInt 3) = Inr (Some ''33.333'')"
  "percentage (JFloat ''1.5'') (JInt 2) = Inr (Some ''75.0'')"
  "percentage (JInt 1) (JInt 0) = Inr None"
  by code_simp+

end
