(* ===== verification/Operations_Models.thy ===== *)
theory Operations_Models
  imports Py_Float
begin

text \<open>
  \<open>analysis/operations/models.py\<close>: operational items with their validation and identifier,
  the evaluation context and the priority of a severity. The SHA-256 digest is the parameter
  \<open>H\<close>; \<open>tz\<close> is the local offset in which a naive timestamp is read.
\<close>

definition CATEGORIES :: "string list" where
  "CATEGORIES = [''Network'', ''Wireless'', ''Firewall'', ''Server'', ''Printing'', ''Storage'',
     ''Collector'', ''Inventory'', ''Lifecycle'', ''Security'', ''Virtualisation'']"

definition SEVERITY_BASE :: "(string \<times> int) list" where
  "SEVERITY_BASE = [(''Critical'', 90), (''High'', 75), (''Medium'', 55), (''Low'', 35), (''Info'', 15),
     (''Unknown'', 0)]"

definition SEVERITIES :: "string list" where
  "SEVERITIES = [''Critical'', ''High'', ''Medium'', ''Low'', ''Info'', ''Unknown'']"

definition KINDS :: "string list" where
  "KINDS = [''issue'', ''risk'', ''recommendation'']"

definition parse_time :: "int \<Rightarrow> json \<Rightarrow> int option res" where
  "parse_time tz v = (if \<not> truthy v then Inr None
     else case fromisoformat (replace_z (py_str v)) of None \<Rightarrow> Inr None
       | Some t \<Rightarrow> map_sum id Some (to_utc t tz))"

definition clamp :: "int \<Rightarrow> int" where
  "clamp n = max 0 (min 100 n)"

text \<open>The documented score: the base of the severity plus a weight of the rule.\<close>

definition priority :: "string \<Rightarrow> int \<Rightarrow> int res" where
  "priority severity weight = (case map_of SEVERITY_BASE severity of
     None \<Rightarrow> Inl (KeyError severity) | Some b \<Rightarrow> Inr (clamp (b + weight)))"

record op_item =
  op_kind :: string
  op_rule_id :: string
  op_title :: string
  op_category :: string
  op_severity :: string
  op_priority :: int
  op_canonical_id :: json
  op_device :: json
  op_site_id :: json
  op_site :: json
  op_summary :: json
  op_recommended_action :: json
  op_impact :: string
  op_reason :: json
  op_evidence :: dict
  op_deployment_id :: json
  op_domain :: string
  op_provider :: json
  op_object_kind :: json
  op_object_id :: json
  op_cluster_id :: json
  op_host_id :: json
  op_workload_id :: json
  op_confidence :: json
  op_source_finding_id :: json
  op_first_observed :: json
  op_last_observed :: json
  op_affected_service_ids :: "string list"
  op_id :: string

text \<open>\<open>"|".join\<close> takes texts only.\<close>

definition item_identity :: "op_item \<Rightarrow> string res" where
  "item_identity i =
     and_then (want_str (por (op_canonical_id i) (op_device i))) (\<lambda>a.
     and_then (want_str (por (op_site_id i) (op_site i))) (\<lambda>b.
     Inr (join ''|'' [op_rule_id i, op_kind i, a, b, op_title i])))"

text \<open>\<open>__post_init__\<close>: validation, the clamped priority and the identifier.\<close>

definition post_init :: "(string \<Rightarrow> string) \<Rightarrow> op_item \<Rightarrow> op_item res" where
  "post_init H i =
     and_then (guard_res (op_kind i \<notin> set KINDS)
       (ValueError ''operational item kind must be issue, risk, or recommendation'')) (\<lambda>_.
     and_then (guard_res (op_category i \<notin> set CATEGORIES \<or> op_severity i \<notin> set SEVERITIES)
       (ValueError ''operational item has unsupported category or severity'')) (\<lambda>_.
     and_then (if op_id i \<noteq> [] then Inr (op_id i)
       else map_sum id (\<lambda>t. ''ops:'' @ take 20 (H t)) (item_identity i)) (\<lambda>ident.
     Inr (i\<lparr>op_priority := clamp (op_priority i), op_id := ident\<rparr>))))"

definition op_item_to_dict :: "op_item \<Rightarrow> dict" where
  "op_item_to_dict i =
     [(''kind'', JStr (op_kind i)), (''rule_id'', JStr (op_rule_id i)), (''title'', JStr (op_title i)),
      (''category'', JStr (op_category i)), (''severity'', JStr (op_severity i)),
      (''priority'', JInt (op_priority i)), (''canonical_id'', op_canonical_id i), (''device'', op_device i),
      (''site_id'', op_site_id i), (''site'', op_site i), (''summary'', op_summary i),
      (''recommended_action'', op_recommended_action i), (''impact'', JStr (op_impact i)),
      (''reason'', op_reason i), (''suggested_action'', op_recommended_action i),
      (''evidence'', JObj (op_evidence i)), (''deployment_id'', op_deployment_id i),
      (''domain'', JStr (op_domain i)), (''provider'', op_provider i), (''object_kind'', op_object_kind i),
      (''object_id'', op_object_id i), (''cluster_id'', op_cluster_id i), (''host_id'', op_host_id i),
      (''workload_id'', op_workload_id i), (''confidence'', op_confidence i),
      (''source_finding_id'', op_source_finding_id i), (''first_observed'', op_first_observed i),
      (''last_observed'', op_last_observed i),
      (''affected_service_ids'', jstrs (op_affected_service_ids i)), (''id'', JStr (op_id i))]"

section \<open>Context\<close>

record op_context =
  ctx_now :: int
  ctx_tz :: int
  ctx_assets :: "dict list"
  ctx_sources :: "(string \<times> dict) list"
  ctx_reconciliations :: "dict list"
  ctx_signals :: dict
  ctx_settings :: dict

text \<open>The age in days as a double; a future instant has age zero.\<close>

definition days_between :: "int \<Rightarrow> int \<Rightarrow> frac" where
  "days_between now t = (if now \<le> t then (0, 1)
     else div_double (div_double (now - t, 1) (1000000, 1)) (86400, 1))"

definition age_days :: "op_context \<Rightarrow> json \<Rightarrow> frac option res" where
  "age_days c v = map_sum id (map_option (days_between (ctx_now c))) (parse_time (ctx_tz c) v)"

definition setting_int :: "dict \<Rightarrow> string \<Rightarrow> int \<Rightarrow> int res" where
  "setting_int d k n = py_int (dget_or d k (JInt n))"

section \<open>Building items\<close>

record op_rule =
  or_id :: string
  or_category :: string

definition blank_item :: "string \<Rightarrow> op_rule \<Rightarrow> string \<Rightarrow> string \<Rightarrow> op_item" where
  "blank_item kind r title severity =
     \<lparr>op_kind = kind, op_rule_id = or_id r, op_title = title, op_category = or_category r,
      op_severity = severity, op_priority = 0, op_canonical_id = JStr [], op_device = JStr [],
      op_site_id = JStr [], op_site = JStr [], op_summary = JStr [], op_recommended_action = JStr [],
      op_impact = [], op_reason = JStr [], op_evidence = [], op_deployment_id = JStr [], op_domain = [],
      op_provider = JStr [], op_object_kind = JStr [], op_object_id = JStr [], op_cluster_id = JStr [],
      op_host_id = JStr [], op_workload_id = JStr [], op_confidence = JStr [],
      op_source_finding_id = JStr [], op_first_observed = JNull, op_last_observed = JNull,
      op_affected_service_ids = [], op_id = []\<rparr>"

text \<open>What an item says: summary, reason, impact, action.\<close>

record wording =
  wo_summary :: string
  wo_reason :: string
  wo_impact :: string
  wo_action :: string

record placement =
  pl_canonical_id :: json
  pl_device :: string
  pl_site :: json
  pl_site_id :: json

definition nowhere :: placement where
  "nowhere = \<lparr>pl_canonical_id = JStr [], pl_device = [], pl_site = JStr [], pl_site_id = JStr []\<rparr>"

definition mk_item :: "(string \<Rightarrow> string) \<Rightarrow> op_rule \<Rightarrow> string \<Rightarrow> string \<Rightarrow> string \<Rightarrow> int \<Rightarrow> placement \<Rightarrow> wording
    \<Rightarrow> dict \<Rightarrow> op_item res" where
  "mk_item H r kind title severity weight p w evidence =
     and_then (priority severity weight) (\<lambda>score.
     post_init H ((blank_item kind r title severity)
       \<lparr>op_priority := score, op_canonical_id := pl_canonical_id p, op_device := JStr (pl_device p),
        op_site_id := pl_site_id p, op_site := pl_site p, op_summary := JStr (wo_summary w),
        op_recommended_action := JStr (wo_action w), op_impact := wo_impact w, op_reason := JStr (wo_reason w),
        op_evidence := evidence\<rparr>))"

end
