(* ===== verification/Yields.thy ===== *)
theory Yields
  imports ITP_Prelude
begin

text \<open>
  Computations that return a list or raise: the concatenation of such computations over a list,
  and the rules that carry a predicate through them to every returned element.
\<close>

definition concat_res :: "('a \<Rightarrow> 'b list res) \<Rightarrow> 'a list \<Rightarrow> 'b list res" where
  "concat_res f xs = map_sum id concat (map_res f xs)"

section \<open>Predicates on results\<close>

text \<open>A predicate on every item a computation returns, when it returns.\<close>

definition yields :: "('a \<Rightarrow> bool) \<Rightarrow> 'a list res \<Rightarrow> bool" where
  "yields P r = (case r of Inl e \<Rightarrow> True | Inr xs \<Rightarrow> list_all P xs)"

definition yields_one :: "('a \<Rightarrow> bool) \<Rightarrow> 'a res \<Rightarrow> bool" where
  "yields_one P r = (case r of Inl e \<Rightarrow> True | Inr x \<Rightarrow> P x)"

named_theorems yield_intro \<open>composition rules of yields\<close>

lemma yieldsD: "yields P r \<Longrightarrow> r = Inr xs \<Longrightarrow> x \<in> set xs \<Longrightarrow> P x"
  by (auto simp: yields_def list_all_iff)

lemma yields_oneD: "yields_one P r \<Longrightarrow> r = Inr x \<Longrightarrow> P x"
  by (simp add: yields_one_def)

lemma yields_Nil [yield_intro]: "yields P (Inr [])"
  by (simp add: yields_def)

lemma yields_Inl [yield_intro]: "yields P (Inl e)"
  by (simp add: yields_def)

lemma yields_and_then [yield_intro]: "(\<And>x. r = Inr x \<Longrightarrow> yields P (f x)) \<Longrightarrow> yields P (and_then r f)"
  by (cases r) (auto simp: yields_def)

lemma yields_single [yield_intro]: "yields_one P r \<Longrightarrow> yields P (map_sum id (\<lambda>i. [i]) r)"
  by (cases r) (auto simp: yields_def yields_one_def)

lemma yields_map_res [yield_intro]: "(\<And>x. x \<in> set xs \<Longrightarrow> yields_one P (f x)) \<Longrightarrow> yields P (map_res f xs)"
proof (cases "map_res f xs")
  case (Inr ys)
  assume a: "\<And>x. x \<in> set xs \<Longrightarrow> yields_one P (f x)"
  have "P y" if "y \<in> set ys" for y
    using map_res_Inr_mem [OF Inr that] a by (metis yields_oneD)
  with Inr show ?thesis by (simp add: yields_def list_all_iff)
qed (simp add: yields_def)

lemma yields_concat_res [yield_intro]:
  assumes "\<And>x. x \<in> set xs \<Longrightarrow> yields P (f x)"
  shows "yields P (concat_res f xs)"
proof (cases "map_res f xs")
  case (Inr yss)
  have "P y" if "ys \<in> set yss" "y \<in> set ys" for ys y
    using map_res_Inr_mem [OF Inr that(1)] assms that(2) by (metis yieldsD)
  with Inr show ?thesis by (auto simp: yields_def concat_res_def list_all_iff)
qed (simp add: yields_def concat_res_def)

lemma yields_if [yield_intro]: "(b \<Longrightarrow> yields P r) \<Longrightarrow> (\<not> b \<Longrightarrow> yields P s) \<Longrightarrow> yields P (if b then r else s)"
  by simp

lemma yields_option [yield_intro]:
  "yields P r \<Longrightarrow> (\<And>x. v = Some x \<Longrightarrow> yields P (f x)) \<Longrightarrow> yields P (case v of None \<Rightarrow> r | Some x \<Rightarrow> f x)"
  by (cases v) auto

lemma yields_pair [yield_intro]: "(\<And>a b. p = (a, b) \<Longrightarrow> yields P (f a b)) \<Longrightarrow> yields P (case p of (a, b) \<Rightarrow> f a b)"
  by (cases p) auto

lemma yields_let [yield_intro]: "(\<And>x. x = v \<Longrightarrow> yields P (f x)) \<Longrightarrow> yields P (let x = v in f x)"
  by simp

lemma yields_one_let [yield_intro]: "(\<And>x. x = v \<Longrightarrow> yields_one P (f x)) \<Longrightarrow> yields_one P (let x = v in f x)"
  by simp

lemma yields_one_option [yield_intro]:
  "yields_one P r \<Longrightarrow> (\<And>x. v = Some x \<Longrightarrow> yields_one P (f x)) \<Longrightarrow> yields_one P (case v of None \<Rightarrow> r | Some x \<Rightarrow> f x)"
  by (cases v) auto

lemma yields_one_Inl [yield_intro]: "yields_one P (Inl e)"
  by (simp add: yields_one_def)

lemma yields_one_id [yield_intro]: "yields_one P r \<Longrightarrow> yields_one P (id r)"
  by simp

lemma yields_json [yield_intro]:
  "(\<And>d. v = JObj d \<Longrightarrow> yields P (f d)) \<Longrightarrow> yields P (case v of JObj d \<Rightarrow> f d | _ \<Rightarrow> Inr [])"
  by (cases v) (auto intro: yields_Nil)

lemma yields_mono: "yields P r \<Longrightarrow> (\<And>x. P x \<Longrightarrow> Q x) \<Longrightarrow> yields Q r"
  by (auto simp: yields_def list_all_iff split: sum.splits)

end
