(* ===== verification/Operations_Rules.thy ===== *)
theory Operations_Rules
  imports Operations_Models Yields
begin

text \<open>
  \<open>analysis/operations/rules.py\<close>: the deterministic rules over an operational context. Each
  rule is a function from the context to its items, or the error that escapes it.
\<close>

section \<open>Assets\<close>

definition op_name :: "dict \<Rightarrow> string" where
  "op_name a = py_str (por (dget a ''hostname'') (por (dget a ''display_name'')
     (por (dget a ''asset_id'') (JStr ''Unknown device''))))"

definition op_kind_text :: "dict \<Rightarrow> string" where
  "op_kind_text a = join '' '' (map (\<lambda>k. lower (py_str (dget_or a k (JStr []))))
     [''device_type'', ''device_role'', ''platform''])"

definition op_mentions :: "string list \<Rightarrow> dict \<Rightarrow> bool" where
  "op_mentions words a = (let kind = op_kind_text a in list_ex (\<lambda>w. contains w kind) words)"

definition op_site_name :: "dict \<Rightarrow> string" where
  "op_site_name a = (case por (dget a ''site'') (JObj []) of
     JObj s \<Rightarrow> py_str (por (dget s ''display_name'') (JStr [])) | v \<Rightarrow> py_str v)"

definition op_site_key :: "dict \<Rightarrow> string" where
  "op_site_key a = (case por (dget a ''site'') (JObj []) of
     JObj s \<Rightarrow> py_str (por (dget s ''site_id'') (JStr []))
   | _ \<Rightarrow> py_str (por (dget a ''site_id'') (JStr [])))"

definition at_asset :: "dict \<Rightarrow> placement" where
  "at_asset a = \<lparr>pl_canonical_id = dget_or a ''canonical_id'' (JStr []), pl_device = op_name a,
     pl_site = JStr (op_site_name a), pl_site_id = JStr (op_site_key a)\<rparr>"

definition at_device :: "string \<Rightarrow> json \<Rightarrow> placement" where
  "at_device name site = nowhere\<lparr>pl_device := name, pl_site := site\<rparr>"

definition saying :: "string \<Rightarrow> string \<Rightarrow> string \<Rightarrow> string \<Rightarrow> wording" where
  "saying summary reason impact action =
     \<lparr>wo_summary = summary, wo_reason = reason, wo_impact = impact, wo_action = action\<rparr>"

definition offline :: "dict \<Rightarrow> bool" where
  "offline a = (dget a ''online'' = JBool False)"

definition has_source :: "string \<Rightarrow> dict \<Rightarrow> bool" where
  "has_source name a = (JStr name \<in> set (as_list (dget_or a ''sources'' (JList []))))"

definition signal_list :: "op_context \<Rightarrow> string \<Rightarrow> dict list res" where
  "signal_list c k = dict_list (dget_or (ctx_signals c) k (JList []))"

section \<open>Collectors\<close>

definition sub_dict :: "dict \<Rightarrow> string \<Rightarrow> dict res" where
  "sub_dict d k = want_dict (dget_or d k (JObj []))"

definition overdue_item :: "(string \<Rightarrow> string) \<Rightarrow> int \<Rightarrow> string \<Rightarrow> frac \<Rightarrow> op_item list res" where
  "overdue_item H threshold name age =
     (let seconds = mul_double age (86400, 1) in
      if \<not> frac_less (threshold, 1) seconds then Inr []
      else map_sum id (\<lambda>i. [i])
        (mk_item H \<lparr>or_id = ''collector.overdue'', or_category = ''Collector''\<rparr> ''risk''
          (''Collector overdue: '' @ name) ''Medium'' 5 (at_device name (JStr []))
          (saying (''No completed '' @ name @ '' run for '' @ fmt_1f (mul_double age (24, 1)) @ '' hours.'')
             (''Latest run exceeded the configured '' @ show_int threshold @ ''-second freshness threshold.'')
             ''New device state and telemetry may be missing.''
             ''Check collector scheduling, connectivity, and credentials.'')
          [(''age_seconds'', JInt (round_half_even (fst seconds) (snd seconds))),
           (''threshold_seconds'', JInt threshold)]))"

definition collector_overdue :: "(string \<Rightarrow> string) \<Rightarrow> op_context \<Rightarrow> op_item list res" where
  "collector_overdue H c =
     and_then (setting_int (ctx_settings c) ''collector_overdue_seconds'' 900) (\<lambda>threshold.
     concat_res (\<lambda>(name, state). and_then (sub_dict state ''last_run'') (\<lambda>run.
       and_then (age_days c (dget run ''completed_at'')) (\<lambda>age.
         case age of None \<Rightarrow> Inr [] | Some x \<Rightarrow> overdue_item H threshold name x)))
       (sort_key fst (ctx_sources c)))"

definition failed_rule :: op_rule where
  "failed_rule = \<lparr>or_id = ''collector.failed'', or_category = ''Collector''\<rparr>"

definition failed_items :: "(string \<Rightarrow> string) \<Rightarrow> string \<Rightarrow> int \<Rightarrow> json \<Rightarrow> op_item list res" where
  "failed_items H name failures error =
     (let reason = name @ '' failed '' @ show_int failures @ '' consecutive run'' @
            (if failures = 1 then [] else ''s'') @ ''.'';
          evidence = [(''consecutive_failures'', JInt failures), (''error_category'', error)];
          p = at_device name (JStr []) in
      map_res id
        [mk_item H failed_rule ''issue'' (''Collector failed: '' @ name) ''High'' (min 15 (failures * 3)) p
           (saying reason reason ''Telemetry and inventory updates may be incomplete.''
              ''Verify API credentials, network reachability, and collector logs.'') evidence,
         mk_item H failed_rule ''risk'' (''Telemetry coverage at risk: '' @ name) ''Medium'' 8 p
           (saying reason ''Repeated collection failures reduce operational visibility.''
              ''Incidents may be detected late or not at all.''
              ''Restore the collector and confirm a successful complete run.'') evidence,
         mk_item H failed_rule ''recommendation'' (''Restore '' @ name @ '' collector'') ''High'' 0 p
           (saying ''Restore reliable collection.'' reason ''Recovers telemetry freshness and inventory accuracy.''
              ''Verify API credentials first, then connectivity and collector logs.'') evidence])"

definition collector_failed :: "(string \<Rightarrow> string) \<Rightarrow> op_context \<Rightarrow> op_item list res" where
  "collector_failed H c = concat_res (\<lambda>(name, state).
     and_then (setting_int state ''consecutive_failures'' 0) (\<lambda>failures.
     and_then (sub_dict state ''last_run'') (\<lambda>run.
     if failures < 1 \<or> dget run ''success'' \<noteq> JBool False then Inr []
     else failed_items H name failures (dget run ''error_category'')))) (sort_key fst (ctx_sources c))"

section \<open>Devices\<close>

definition sources_of :: "dict \<Rightarrow> json" where
  "sources_of a = dget_or a ''sources'' (JList [])"

definition offline_evidence :: "dict \<Rightarrow> dict" where
  "offline_evidence a = [(''canonical_id'', dget a ''canonical_id''), (''online'', JBool False),
     (''sources'', sources_of a)]"

definition special_kinds :: "string list" where
  "special_kinds = [''access-point'', ''switch'', ''firewall'', ''virtual-machine'', ''virtual-container'',
     ''compute-workload'']"

definition device_category :: "dict \<Rightarrow> string" where
  "device_category a = (if op_mentions [''print''] a then ''Printing''
     else if op_mentions [''server''] a then ''Server'' else ''Network'')"

definition device_offline_item :: "(string \<Rightarrow> string) \<Rightarrow> dict \<Rightarrow> op_item res" where
  "device_offline_item H a =
     mk_item H \<lparr>or_id = ''device.offline'', or_category = device_category a\<rparr> ''issue''
       (''Device offline: '' @ op_name a) ''High'' 0 (at_asset a)
       (saying ''Inventory reports the device offline.''
          ''The latest complete observation explicitly reported online=false.''
          ''The device may be unavailable to users or dependent services.''
          ''Confirm power and network reachability, then inspect the device.'') (offline_evidence a)"

definition device_offline :: "(string \<Rightarrow> string) \<Rightarrow> op_context \<Rightarrow> op_item list res" where
  "device_offline H c = map_res (device_offline_item H)
     (filter (\<lambda>a. offline a \<and> \<not> op_mentions special_kinds a) (ctx_assets c))"

text \<open>The typed rules: id, category, matched kind, word and severity.\<close>

definition typed_offline_item :: "(string \<Rightarrow> string) \<Rightarrow> op_rule \<Rightarrow> string \<Rightarrow> string \<Rightarrow> dict \<Rightarrow> op_item res" where
  "typed_offline_item H r word severity a =
     mk_item H r ''issue'' (word @ '' offline: '' @ op_name a) severity 5 (at_asset a)
       (saying (word @ '' is explicitly offline.'')
          ''The latest complete inventory observation reported online=false.''
          (''Services dependent on this '' @ lower word @ '' may be unavailable.'')
          ''Confirm power, uplink, and management reachability.'') (offline_evidence a)"

definition typed_offline :: "string \<Rightarrow> string \<Rightarrow> string \<Rightarrow> string \<Rightarrow> string \<Rightarrow> (string \<Rightarrow> string) \<Rightarrow> op_context
    \<Rightarrow> op_item list res" where
  "typed_offline rid category kind word severity H c =
     map_res (typed_offline_item H \<lparr>or_id = rid, or_category = category\<rparr> word severity)
       (filter (\<lambda>a. offline a \<and> op_mentions [kind] a) (ctx_assets c))"

definition ap_offline :: "(string \<Rightarrow> string) \<Rightarrow> op_context \<Rightarrow> op_item list res" where
  "ap_offline = typed_offline ''wireless.ap_offline'' ''Wireless'' ''access-point'' ''Access point'' ''High''"

definition switch_offline :: "(string \<Rightarrow> string) \<Rightarrow> op_context \<Rightarrow> op_item list res" where
  "switch_offline = typed_offline ''network.switch_offline'' ''Network'' ''switch'' ''Switch'' ''High''"

definition firewall_unavailable :: "(string \<Rightarrow> string) \<Rightarrow> op_context \<Rightarrow> op_item list res" where
  "firewall_unavailable = typed_offline ''firewall.unavailable'' ''Firewall'' ''firewall'' ''Firewall'' ''Critical''"

section \<open>Inventory and lifecycle\<close>

definition drift_item :: "(string \<Rightarrow> string) \<Rightarrow> dict \<Rightarrow> op_item list res" where
  "drift_item H r =
     (if dget r ''status'' \<notin> {JStr ''conflict'', JStr ''ambiguous''} then Inr []
      else and_then (py_iter (dget_or r ''asset_ids'' (JList []))) (\<lambda>ids.
        map_sum id (\<lambda>i. [i]) (mk_item H \<lparr>or_id = ''inventory.drift'', or_category = ''Inventory''\<rparr> ''risk''
          ''Inventory reconciliation requires review'' ''Low'' 0 nowhere
          (saying (show_int (int (length ids)) @ '' records have '' @ py_str (dget r ''status'') @ '' identity evidence.'')
             ''Multiple collector records cannot be deterministically reconciled.''
             ''Asset counts and ownership may be inaccurate.''
             ''Review the records and correct stable identity data.'')
          [(''asset_ids'', dget_or r ''asset_ids'' (JList [])), (''status'', dget r ''status'')])))"

definition inventory_drift :: "(string \<Rightarrow> string) \<Rightarrow> op_context \<Rightarrow> op_item list res" where
  "inventory_drift H c = concat_res (drift_item H) (ctx_reconciliations c)"

definition missing_fields :: "dict \<Rightarrow> string list" where
  "missing_fields a = filter (\<lambda>k. \<not> truthy (dget a k)) [''vendor'', ''device_type'']"

definition unknown_item :: "(string \<Rightarrow> string) \<Rightarrow> dict \<Rightarrow> op_item res" where
  "unknown_item H a =
     mk_item H \<lparr>or_id = ''inventory.unknown'', or_category = ''Inventory''\<rparr> ''risk''
       (''Unknown inventory: '' @ op_name a) ''Low'' 0 (at_asset a)
       (saying ''Asset classification is incomplete.''
          (''Missing required inventory attributes: '' @ join '', '' (missing_fields a) @ ''.'')
          ''Ownership, lifecycle, and health rules may be incomplete.''
          ''Run discovery and enrich the asset identity.'')
       [(''canonical_id'', dget a ''canonical_id''), (''missing_fields'', jstrs (missing_fields a)),
        (''sources'', sources_of a)]"

definition inventory_unknown :: "(string \<Rightarrow> string) \<Rightarrow> op_context \<Rightarrow> op_item list res" where
  "inventory_unknown H c = map_res (unknown_item H) (filter (\<lambda>a. missing_fields a \<noteq> []) (ctx_assets c))"

definition lifecycle_rule :: op_rule where
  "lifecycle_rule = \<lparr>or_id = ''lifecycle.stale'', or_category = ''Lifecycle''\<rparr>"

definition stale_items :: "(string \<Rightarrow> string) \<Rightarrow> dict \<Rightarrow> frac \<Rightarrow> op_item list res" where
  "stale_items H a days =
     (let n = show_int (fst days div snd days); name = op_name a;
          evidence = [(''canonical_id'', dget a ''canonical_id''), (''days_not_seen'', JInt (fst days div snd days)),
            (''last_seen_at'', dget a ''last_seen_at''), (''sources'', sources_of a)] in
      map_res id
        (mk_item H lifecycle_rule ''risk'' (''Device not seen for '' @ n @ '' days: '' @ name) ''Medium'' 0 (at_asset a)
           (saying ''The asset has not been observed for at least 30 days.'' (''Last seen '' @ n @ '' days ago.'')
              ''Inventory may include an absent or unmanaged device.''
              ''Run discovery and confirm whether the asset still exists.'') evidence #
         (if frac_less days (60, 1) then [] else
           [mk_item H lifecycle_rule ''recommendation'' (''Review asset for archival: '' @ name) ''Low'' 0 (at_asset a)
              (saying ''Review this long-unseen asset for retirement.''
                 (''The asset has not been seen for '' @ n @ '' days.'')
                 ''Archiving confirmed removals improves inventory accuracy.''
                 ''Confirm decommissioning, then retire the asset through the inventory CLI.'') evidence])))"

definition lifecycle_stale :: "(string \<Rightarrow> string) \<Rightarrow> op_context \<Rightarrow> op_item list res" where
  "lifecycle_stale H c = concat_res (\<lambda>a. and_then (age_days c (dget a ''last_seen_at'')) (\<lambda>days.
     case days of None \<Rightarrow> Inr []
     | Some d \<Rightarrow> if frac_less d (30, 1) \<or> dget a ''lifecycle_state'' = JStr ''retired'' then Inr []
         else stale_items H a d)) (ctx_assets c)"

section \<open>Security\<close>

text \<open>\<open>d.get(key)\<close> with a key of the data.\<close>

fun get_by :: "dict \<Rightarrow> json \<Rightarrow> json res" where
  "get_by d (JStr s) = Inr (dget d s)"
| "get_by d (JList _) = Inl (TypeError ''unhashable type'')"
| "get_by d (JObj _) = Inl (TypeError ''unhashable type'')"
| "get_by d _ = Inr JNull"

definition firmware_rule :: op_rule where
  "firmware_rule = \<lparr>or_id = ''firmware.unsupported'', or_category = ''Security''\<rparr>"

definition approved_for :: "dict \<Rightarrow> dict \<Rightarrow> json res" where
  "approved_for approved a = and_then (get_by approved (dget a ''model'')) (\<lambda>m.
     if truthy m then Inr m else get_by approved (dget a ''vendor''))"

definition firmware_items :: "(string \<Rightarrow> string) \<Rightarrow> dict \<Rightarrow> json \<Rightarrow> op_item list res" where
  "firmware_items H a target =
     (let current = py_str (por (dget a ''firmware_version'') (JStr []));
          reason = ''Running '' @ current @ ''; approved release is '' @ py_str target @ ''.'';
          evidence = [(''running'', JStr current), (''approved'', target), (''sources'', sources_of a)] in
      if current = [] \<or> \<not> truthy target \<or> starts_with (py_str target) current then Inr []
      else map_res id
        [mk_item H firmware_rule ''risk'' (''Unsupported firmware: '' @ op_name a) ''High'' 0 (at_asset a)
           (saying reason reason ''Security fixes and vendor support may be unavailable.''
              (''Plan an upgrade to approved release '' @ py_str target @ ''.'')) evidence,
         mk_item H firmware_rule ''recommendation'' (''Upgrade firmware on '' @ op_name a) ''High'' 0 (at_asset a)
           (saying ''Move the device to an approved release.'' reason
              ''Restores supportability and security maintenance.''
              (''Validate and schedule upgrade to '' @ py_str target @ ''.'')) evidence])"

definition firmware_unsupported :: "(string \<Rightarrow> string) \<Rightarrow> op_context \<Rightarrow> op_item list res" where
  "firmware_unsupported H c =
     and_then (want_dict (dget_or (ctx_signals c) ''approved_firmware'' (JObj []))) (\<lambda>approved.
     concat_res (\<lambda>a. and_then (approved_for approved a) (firmware_items H a)) (ctx_assets c))"

text \<open>
  The days a certificate has left. Whether it has expired is decided on the texts of the two
  instants; otherwise the difference needs an expiry with an offset.
\<close>

definition iso_text :: "int \<Rightarrow> string" where
  "iso_text now = butlast (isoformat_z now) @ ''+00:00''"

definition days_remaining :: "op_context \<Rightarrow> json \<Rightarrow> frac \<Rightarrow> frac res" where
  "days_remaining c expires days =
     (if py_str expires < iso_text (ctx_now c) then Inr (- fst days, snd days)
      else case fromisoformat (replace_z (py_str expires)) of
        Some (Datetime w (Some off)) \<Rightarrow>
          Inr (div_double (div_double (w - off - ctx_now c, 1) (1000000, 1)) (86400, 1))
      | Some (Datetime w None) \<Rightarrow>
          Inl (TypeError ''cannot subtract offset-naive and offset-aware datetimes'')
      | None \<Rightarrow> Inl (ValueError ''Invalid isoformat string''))"

definition certificate_rule :: op_rule where
  "certificate_rule = \<lparr>or_id = ''certificate.expiry'', or_category = ''Security''\<rparr>"

definition certificate_severity :: "frac \<Rightarrow> string" where
  "certificate_severity left = (if frac_le left (0, 1) then ''Critical''
     else if frac_le left (7, 1) then ''High'' else ''Medium'')"

definition certificate_items :: "(string \<Rightarrow> string) \<Rightarrow> dict \<Rightarrow> frac \<Rightarrow> op_item list res" where
  "certificate_items H cert left =
     (if frac_less (30, 1) left then Inr []
      else (let name = py_str (por (dget cert ''name'') (por (dget cert ''hostname'') (JStr ''certificate'')));
          reason = ''Certificate expires in '' @ show_int (max 0 (fst left div snd left)) @ '' days.'';
          p = at_device name (dget_or cert ''site'' (JStr [])); severity = certificate_severity left;
          evidence = [(''expires_at'', dget cert ''expires_at'')] in
        map_res id
          [mk_item H certificate_rule ''risk'' (''Certificate expiry: '' @ name) severity 0 p
             (saying reason reason ''TLS-dependent services may become unavailable or untrusted.''
                ''Renew and deploy the certificate before expiry.'') evidence,
           mk_item H certificate_rule ''recommendation'' (''Renew certificate: '' @ name) severity 0 p
             (saying ''Renew the expiring certificate.'' reason ''Prevents trust warnings and service interruption.''
                ''Renew, deploy, and validate the certificate.'') evidence]))"

definition certificate_expiry :: "(string \<Rightarrow> string) \<Rightarrow> op_context \<Rightarrow> op_item list res" where
  "certificate_expiry H c = and_then (signal_list c ''certificates'') (concat_res (\<lambda>cert.
     and_then (age_days c (dget cert ''expires_at'')) (\<lambda>days. case days of None \<Rightarrow> Inr []
     | Some d \<Rightarrow> and_then (days_remaining c (dget cert ''expires_at'') d) (certificate_items H cert))))"

section \<open>Signals\<close>

definition consumable_items :: "(string \<Rightarrow> string) \<Rightarrow> dict \<Rightarrow> string \<Rightarrow> op_item list res" where
  "consumable_items H d level =
     and_then (decimal_value level) (\<lambda>x.
     if frac_less (15, 1) x then Inr []
     else (let name = py_str (por (dget d ''device'') (JStr ''printer''));
            supply = py_str (por (dget d ''supply'') (JStr ''consumable'')) in
       and_then (fmt_g (round_signed x)) (\<lambda>t.
       map_sum id (\<lambda>i. [i]) (mk_item H \<lparr>or_id = ''printer.consumables'', or_category = ''Printing''\<rparr> ''recommendation''
         (''Replace '' @ supply @ '': '' @ name) (if frac_le x (5, 1) then ''Medium'' else ''Low'') 0
         (at_device name (dget_or d ''site'' (JStr [])))
         (saying (supply @ '' is at '' @ t @ ''%.'') ''Consumable level is below the deterministic 15% threshold.''
            ''Printing may stop when the supply is exhausted.'' (''Order or replace the '' @ supply @ ''.''))
         [(''percent_remaining'', JFloat level), (''threshold'', JInt 15)]))))"

definition printer_consumables :: "(string \<Rightarrow> string) \<Rightarrow> op_context \<Rightarrow> op_item list res" where
  "printer_consumables H c = and_then (signal_list c ''printer_consumables'') (concat_res (\<lambda>d.
     if dget d ''percent_remaining'' = JNull then Inr []
     else and_then (py_float (dget d ''percent_remaining'')) (consumable_items H d)))"

definition loss_rule :: op_rule where
  "loss_rule = \<lparr>or_id = ''wan.packet_loss'', or_category = ''Network''\<rparr>"

definition loss_items :: "(string \<Rightarrow> string) \<Rightarrow> dict \<Rightarrow> string \<Rightarrow> op_item list res" where
  "loss_items H d loss =
     and_then (decimal_value loss) (\<lambda>x.
     if frac_less x (2, 1) then Inr []
     else and_then (fmt_g (round_signed x)) (\<lambda>t.
       (let severity = (if frac_le (10, 1) x then ''High'' else ''Medium'');
            name = py_str (por (dget d ''name'') (JStr ''WAN''));
            p = at_device name (dget_or d ''site'' (JStr [])) in
        map_res id
          [mk_item H loss_rule ''issue'' (''WAN packet loss: '' @ name) severity 0 p
             (saying (''Packet loss is '' @ t @ ''%.'') ''Packet loss exceeded the deterministic 2% threshold.''
                ''Applications may be slow or unreliable.''
                ''Check the carrier circuit, edge interface, and path quality.'')
             [(''packet_loss_percent'', JFloat loss), (''threshold'', JInt 2)],
           mk_item H loss_rule ''recommendation'' (''Investigate WAN packet loss: '' @ name) severity 0 p
             (saying ''Investigate degraded WAN quality.'' (''Measured packet loss is '' @ t @ ''%.'')
                ''Reducing loss improves application reliability.''
                ''Compare both path ends, interface errors, and carrier telemetry.'')
             [(''packet_loss_percent'', JFloat loss)]])))"

definition wan_packet_loss :: "(string \<Rightarrow> string) \<Rightarrow> op_context \<Rightarrow> op_item list res" where
  "wan_packet_loss H c = and_then (signal_list c ''wan'') (concat_res (\<lambda>d.
     and_then (py_float (dget_or d ''packet_loss_percent'' (JInt 0))) (loss_items H d)))"

definition wan_down_item :: "(string \<Rightarrow> string) \<Rightarrow> dict \<Rightarrow> op_item res" where
  "wan_down_item H d = (let name = py_str (por (dget d ''name'') (JStr ''WAN'')) in
     mk_item H \<lparr>or_id = ''wan.unavailable'', or_category = ''Network''\<rparr> ''issue'' (''WAN unavailable: '' @ name)
       ''Critical'' 5 (at_device name (dget_or d ''site'' (JStr [])))
       (saying ''WAN availability is explicitly false.'' ''The latest path check failed.''
          ''The site may have no external connectivity.''
          ''Validate edge equipment, circuit state, and carrier status.'') [(''available'', JBool False)])"

definition wan_unavailable :: "(string \<Rightarrow> string) \<Rightarrow> op_context \<Rightarrow> op_item list res" where
  "wan_unavailable H c = and_then (signal_list c ''wan'') (\<lambda>ds.
     map_res (wan_down_item H) (filter (\<lambda>d. dget d ''available'' = JBool False) ds))"

section \<open>Palo Alto\<close>

definition pa_api_unavailable :: "(string \<Rightarrow> string) \<Rightarrow> op_context \<Rightarrow> op_item list res" where
  "pa_api_unavailable H c =
     and_then (sub_dict (case map_of (ctx_sources c) ''paloalto'' of None \<Rightarrow> [] | Some s \<Rightarrow> s) ''last_run'') (\<lambda>run.
     if dget run ''success'' \<noteq> JBool False then Inr []
     else (let category = por (dget run ''error_category'') (JStr ''unknown'') in
       map_sum id (\<lambda>i. [i]) (mk_item H \<lparr>or_id = ''PA-API-UNAVAILABLE'', or_category = ''Collector''\<rparr> ''issue''
         ''Palo Alto API collection unavailable'' ''High'' 0 (at_device ''paloalto'' (JStr []))
         (saying ''The Palo Alto collector could not complete identity collection.''
            (''Latest source run failed with safe category '' @ py_str category @ ''.'')
            ''Palo Alto observability is unavailable; firewall availability is not inferred.''
            ''Verify the read-only API key, TLS trust, and management connectivity.'')
         [(''source_collector'', JStr ''paloalto''), (''error_category'', category)])))"

definition extension :: "dict \<Rightarrow> string \<Rightarrow> json res" where
  "extension a k = and_then (want_dict (por (dget a ''extensions'') (JObj []))) (\<lambda>x. Inr (dget x k))"

definition ha_items :: "(string \<Rightarrow> string) \<Rightarrow> dict \<Rightarrow> op_item list res" where
  "ha_items H a = and_then (extension a ''ha'') (\<lambda>v.
     and_then (want_dict (por v (JObj []))) (\<lambda>ha.
     if dget ha ''status'' \<noteq> JStr ''degraded'' then Inr []
     else map_sum id (\<lambda>i. [i]) (mk_item H \<lparr>or_id = ''PA-HA-DEGRADED'', or_category = ''Firewall''\<rparr> ''issue''
       (''Palo Alto HA degraded: '' @ op_name a) ''High'' 0 (at_asset a)
       (saying ''Authoritative PAN-OS HA state is degraded.''
          ''PAN-OS reported a suspended, non-functional, unavailable, or unsynchronised HA state.''
          ''Firewall redundancy may not protect against a node failure.''
          ''Review local/peer HA state and restore synchronisation.'')
       [(''source_collector'', JStr ''paloalto''), (''ha'', JObj ha)])))"

definition paloalto_assets :: "op_context \<Rightarrow> dict list" where
  "paloalto_assets c = filter (has_source ''paloalto'') (ctx_assets c)"

definition pa_ha_degraded :: "(string \<Rightarrow> string) \<Rightarrow> op_context \<Rightarrow> op_item list res" where
  "pa_ha_degraded H c = concat_res (ha_items H) (paloalto_assets c)"

definition interface_item :: "(string \<Rightarrow> string) \<Rightarrow> dict \<Rightarrow> string \<Rightarrow> op_item res" where
  "interface_item H a interface =
     mk_item H \<lparr>or_id = ''PA-EXPECTED-INTERFACE-DOWN'', or_category = ''Firewall''\<rparr> ''issue''
       (''Expected firewall interface down: '' @ op_name a @ '' '' @ interface) ''High'' 0 (at_asset a)
       (saying (''Explicitly expected interface '' @ interface @ '' is operationally down.'')
          ''The interface is listed in expected_interfaces and PAN-OS did not report it up.''
          ''A configured production path may be unavailable.''
          ''Validate the connected service, cabling, and interface configuration.'')
       [(''source_collector'', JStr ''paloalto''), (''interface'', JStr interface), (''expected'', JBool True),
        (''operational_status'', JStr ''down'')]"

definition interface_items :: "(string \<Rightarrow> string) \<Rightarrow> dict \<Rightarrow> op_item list res" where
  "interface_items H a = and_then (extension a ''interface_summary'') (\<lambda>v.
     and_then (want_dict (por v (JObj []))) (\<lambda>summary.
     and_then (py_iter (dget_or summary ''expected_down'' (JList []))) (\<lambda>vs.
     and_then (map_res want_str vs) (\<lambda>names. map_res (interface_item H a) (sort names)))))"

definition pa_interface_down :: "(string \<Rightarrow> string) \<Rightarrow> op_context \<Rightarrow> op_item list res" where
  "pa_interface_down H c = concat_res (interface_items H) (paloalto_assets c)"

definition licence_due :: "int \<Rightarrow> bool \<Rightarrow> dict \<Rightarrow> bool res" where
  "licence_due threshold want l =
     (let expired = (dget l ''expired'' = JBool True); days = dget l ''days_remaining'' in
      if expired then Inr want
      else if days = JNull then Inr False
      else map_sum id (\<lambda>late. \<not> late \<and> \<not> want) (exceeds days threshold))"

definition licence_item :: "(string \<Rightarrow> string) \<Rightarrow> string \<Rightarrow> bool \<Rightarrow> dict \<Rightarrow> dict \<Rightarrow> op_item res" where
  "licence_item H rid want a l = (case map_of l ''name'' of None \<Rightarrow> Inl (KeyError ''name'')
   | Some nv \<Rightarrow> (let name = py_str nv; days = dget l ''days_remaining'' in
       mk_item H \<lparr>or_id = rid, or_category = ''Security''\<rparr> ''risk''
         (''Palo Alto licence '' @ (if want then ''expired'' else ''expiring'') @ '': '' @ name)
         (if want then ''High'' else ''Medium'') 0 (at_asset a)
         (saying (name @ '' has '' @ (if days = JNull then ''0'' else py_str days) @ '' days remaining.'')
            ''PAN-OS returned an authoritative licence expiry state.''
            ''Subscribed security or support services may become unavailable.''
            ''Review the subscription with the authorised Palo Alto support partner.'')
         [(''source_collector'', JStr ''paloalto''), (''licence'', nv), (''days_remaining'', days),
          (''expired'', JBool want)]))"

definition licence_items :: "(string \<Rightarrow> string) \<Rightarrow> string \<Rightarrow> bool \<Rightarrow> int \<Rightarrow> dict \<Rightarrow> op_item list res" where
  "licence_items H rid want threshold a =
     and_then (want_dict (por (dget a ''extensions'') (JObj []))) (\<lambda>x.
     and_then (dict_list (dget_or x ''licenses'' (JList []))) (concat_res (\<lambda>l.
       and_then (licence_due threshold want l) (\<lambda>due.
       if due then map_sum id (\<lambda>i. [i]) (licence_item H rid want a l) else Inr []))))"

definition pa_licence :: "string \<Rightarrow> bool \<Rightarrow> (string \<Rightarrow> string) \<Rightarrow> op_context \<Rightarrow> op_item list res" where
  "pa_licence rid want H c = and_then (setting_int (ctx_settings c) ''licence_expiry_days'' 30) (\<lambda>threshold.
     concat_res (licence_items H rid want threshold) (paloalto_assets c))"

section \<open>PaperCut\<close>

definition PAPERCUT_CONDITIONS :: "(string \<times> string \<times> string \<times> string \<times> string) list" where
  "PAPERCUT_CONDITIONS =
     [(''database_not_ok'', ''issue'', ''PaperCut database is not healthy'', ''Database status is not OK.'',
       ''Restore database connectivity and review the connection pool.''),
      (''print_provider_offline'', ''issue'', ''PaperCut Print Provider offline'',
       ''At least one Print Provider is offline.'', ''Restore the affected Print Provider service.''),
      (''embedded_device_errors'', ''issue'', ''PaperCut embedded devices reporting errors'',
       ''One or more embedded devices report an error.'', ''Review the device status descriptions in PaperCut.''),
      (''disk_utilisation'', ''risk'', ''PaperCut disk utilisation is high'',
       ''Application Server disk utilisation exceeded its threshold.'',
       ''Free disk space or increase the allocated capacity.''),
      (''jvm_memory'', ''risk'', ''PaperCut JVM memory utilisation is high'',
       ''JVM memory utilisation exceeded its threshold.'', ''Review application load and JVM memory allocation.''),
      (''upgrade_assurance'', ''recommendation'', ''Review PaperCut Upgrade Assurance'',
       ''Upgrade Assurance remaining days are below threshold.'',
       ''Review renewal with the authorised PaperCut partner.''),
      (''held_jobs'', ''recommendation'', ''Review held PaperCut jobs'',
       ''Held print jobs exceeded the configured threshold.'', ''Review stalled queues and long-held jobs.''),
      (''long_uptime'', ''recommendation'', ''Review PaperCut maintenance restart'',
       ''Application uptime exceeded the informational threshold.'',
       ''Review maintenance and patching cadence; restart only if planned.'')]"

definition condition_code :: "dict \<Rightarrow> (string \<times> dict) res" where
  "condition_code d = map_sum id (\<lambda>code. (code, d)) (want_str (dget_or d ''code'' (JStr [])))"

definition condition_items :: "(string \<Rightarrow> string) \<Rightarrow> dict \<Rightarrow> string \<times> dict \<Rightarrow> op_item list res" where
  "condition_items H a = (\<lambda>(code, d). case map_of PAPERCUT_CONDITIONS code of None \<Rightarrow> Inr []
     | Some (kind, title, summary, action) \<Rightarrow>
         and_then (want_str (dget_or d ''severity'' (JStr ''Info''))) (\<lambda>severity.
         map_sum id (\<lambda>i. [i]) (mk_item H \<lparr>or_id = ''printing.papercut_health'', or_category = ''Printing''\<rparr> kind
           title severity 0 (at_asset a)
           (saying summary (''Condition '' @ code @ '' was produced from the latest PaperCut System Health response.'')
              ''Printing availability or capacity may be affected.'' action)
           (dmerge [(''source_collector'', JStr ''papercut'')] d))))"

definition papercut_items :: "(string \<Rightarrow> string) \<Rightarrow> dict \<Rightarrow> op_item list res" where
  "papercut_items H a = and_then (extension a ''papercut'') (\<lambda>v. case v of
     JObj papercut \<Rightarrow>
       and_then (dict_list (por (dget papercut ''conditions'') (JList []))) (\<lambda>ds.
       and_then (map_res condition_code ds) (\<lambda>coded. concat_res (condition_items H a) (sort_key fst coded)))
   | _ \<Rightarrow> Inr [])"

definition papercut_health :: "(string \<Rightarrow> string) \<Rightarrow> op_context \<Rightarrow> op_item list res" where
  "papercut_health H c = concat_res (papercut_items H) (ctx_assets c)"

section \<open>The registry\<close>

text \<open>\<open>Rule.registered\<close>: the rules in the order of their ids.\<close>

definition registered_rules :: "(string \<times> ((string \<Rightarrow> string) \<Rightarrow> op_context \<Rightarrow> op_item list res)) list" where
  "registered_rules =
     [(''PA-API-UNAVAILABLE'', pa_api_unavailable), (''PA-EXPECTED-INTERFACE-DOWN'', pa_interface_down),
      (''PA-HA-DEGRADED'', pa_ha_degraded), (''PA-LICENCE-EXPIRED'', pa_licence ''PA-LICENCE-EXPIRED'' True),
      (''PA-LICENCE-EXPIRING'', pa_licence ''PA-LICENCE-EXPIRING'' False),
      (''certificate.expiry'', certificate_expiry), (''collector.failed'', collector_failed),
      (''collector.overdue'', collector_overdue), (''device.offline'', device_offline),
      (''firewall.unavailable'', firewall_unavailable), (''firmware.unsupported'', firmware_unsupported),
      (''inventory.drift'', inventory_drift), (''inventory.unknown'', inventory_unknown),
      (''lifecycle.stale'', lifecycle_stale), (''network.switch_offline'', switch_offline),
      (''printer.consumables'', printer_consumables), (''printing.papercut_health'', papercut_health),
      (''wan.packet_loss'', wan_packet_loss), (''wan.unavailable'', wan_unavailable),
      (''wireless.ap_offline'', ap_offline)]"

definition rule_items :: "(string \<Rightarrow> string) \<Rightarrow> op_context \<Rightarrow> op_item list res" where
  "rule_items H c = concat_res (\<lambda>(rid, r). r H c) registered_rules"

end
