(* ===== verification/Py_Fnmatch.thy ===== *)
theory Py_Fnmatch
  imports ITP_Prelude
begin

text \<open>Python's file name patterns, as \<open>fnmatch\<close> matches them.\<close>

text \<open>\<open>fnmatch.fnmatch\<close>: \<open>*\<close>, \<open>?\<close>, \<open>[seq]\<close> and \<open>[!seq]\<close>; an unclosed bracket is literal.\<close>

fun bracket_end :: "string \<Rightarrow> (string \<times> string) option" where
  "bracket_end [] = None"
| "bracket_end (c # cs) = (if c = CHR '']'' then Some ([], cs)
     else map_option (\<lambda>(a, b). (c # a, b)) (bracket_end cs))"

text \<open>The text between the brackets and the rest; a first \<open>]\<close> (after a \<open>!\<close>) is literal.\<close>

definition bracket_of :: "string \<Rightarrow> (bool \<times> string \<times> string) option" where
  "bracket_of p =
     (let neg = (p \<noteq> [] \<and> hd p = CHR ''!''); q = (if neg then tl p else p);
          lit = (q \<noteq> [] \<and> hd q = CHR '']'')
      in map_option (\<lambda>(body, rest). (neg, (if lit then CHR '']'' # body else body), rest))
           (bracket_end (if lit then tl q else q)))"

fun in_bracket :: "char \<Rightarrow> string \<Rightarrow> bool" where
  "in_bracket c (a # m # b # rest) =
     (if m = CHR ''-'' then ((of_char a :: nat) \<le> of_char c \<and> (of_char c :: nat) \<le> of_char b) \<or> in_bracket c rest
      else c = a \<or> in_bracket c (m # b # rest))"
| "in_bracket c (a # rest) = (c = a \<or> in_bracket c rest)"
| "in_bracket c [] = False"

lemma bracket_end_length: "bracket_end p = Some (a, b) \<Longrightarrow> length b < length p"
  by (induction p arbitrary: a b) (auto split: if_splits intro: less_SucI)

lemma bracket_of_length: "bracket_of p = Some (n, a, b) \<Longrightarrow> length b < length p"
  by (auto simp: bracket_of_def Let_def neq_Nil_conv dest!: bracket_end_length split: if_splits)

function fnmatch :: "string \<Rightarrow> string \<Rightarrow> bool" where
  "fnmatch [] s = (s = [])"
| "fnmatch (p # ps) s =
     (if p = CHR ''*'' then fnmatch ps s \<or> (if s = [] then False else fnmatch (p # ps) (tl s))
      else if s = [] then False
      else if p = CHR ''?'' then fnmatch ps (tl s)
      else if p = CHR ''['' then
        (case bracket_of ps of
           None \<Rightarrow> hd s = p \<and> fnmatch ps (tl s)
         | Some (neg, body, rest) \<Rightarrow> in_bracket (hd s) body \<noteq> neg \<and> fnmatch rest (tl s))
      else hd s = p \<and> fnmatch ps (tl s))"
  by pat_completeness auto
termination
  by (relation "measure (\<lambda>(p, s). length p + length s)")
     (auto simp: neq_Nil_conv dest!: bracket_of_length)

lemma fnmatch_examples:
  "fnmatch ''lab-*'' ''lab-7''" "\<not> fnmatch ''lab-?'' ''lab-77''" "fnmatch ''sw[0-3]'' ''sw2''"
  "\<not> fnmatch ''sw[!0-3]'' ''sw2''"
  by code_simp+

end
