(* ===== verification/Keyed.thy ===== *)
theory Keyed
  imports ITP_Prelude
begin

text \<open>
  Collections keyed by a function of their elements: the comprehension
  \<open>{f(x): x for x in xs}.values()\<close> keeps the last element of each key at the position of the
  first, and a sort by a key of the elements of distinct keys.
\<close>

definition key_map :: "('a \<Rightarrow> 'k) \<Rightarrow> 'a list \<Rightarrow> ('k \<times> 'a) list" where
  "key_map f xs = foldl (\<lambda>m x. AList.update (f x) x m) [] xs"

definition keyed :: "('a \<Rightarrow> 'k) \<Rightarrow> 'a list \<Rightarrow> 'a list" where
  "keyed f xs = map snd (key_map f xs)"

lemma key_map_snoc [simp]: "key_map f (xs @ [x]) = AList.update (f x) x (key_map f xs)"
  by (simp add: key_map_def)

lemma key_map_Nil [simp]: "key_map f [] = []"
  by (simp add: key_map_def)

lemma distinct_key_map [simp, intro]: "distinct (map fst (key_map f xs))"
  by (induction xs rule: rev_induct) (auto intro: distinct_update)

lemma fst_key_map: "fst ` set (key_map f xs) = f ` set xs"
proof (induction xs rule: rev_induct)
  case (snoc x xs)
  have "dom (map_of (key_map f (xs @ [x]))) = insert (f x) (dom (map_of (key_map f xs)))"
    by (simp add: update_conv')
  with snoc show ?case by (simp add: dom_map_of_conv_image_fst)
qed simp

text \<open>Each key holds the last element with that key.\<close>

lemma map_of_key_map: "map_of (key_map f xs) k = find (\<lambda>x. f x = k) (rev xs)"
  by (induction xs rule: rev_induct) (auto simp: update_conv')

lemma key_map_mem: "(k, x) \<in> set (key_map f xs) \<Longrightarrow> f x = k \<and> x \<in> set xs"
proof -
  assume "(k, x) \<in> set (key_map f xs)"
  then have "map_of (key_map f xs) k = Some x" by simp
  then have "find (\<lambda>x. f x = k) (rev xs) = Some x" by (simp add: map_of_key_map)
  then show ?thesis by (induction xs rule: rev_induct) (auto split: if_splits)
qed

lemma set_keyed: "set (keyed f xs) \<subseteq> set xs"
  by (auto simp: keyed_def dest: key_map_mem)

lemma map_keyed: "map f (keyed f xs) = map fst (key_map f xs)"
  by (auto simp: keyed_def dest: key_map_mem)

lemma distinct_keyed [simp, intro]: "distinct (map f (keyed f xs))"
  by (simp add: map_keyed)

lemma image_keyed: "f ` set (keyed f xs) = f ` set xs"
  using arg_cong [OF map_keyed, of set f xs] by (simp add: fst_key_map)

lemma keyed_last: "x \<in> set (keyed f xs) \<longleftrightarrow> find (\<lambda>y. f y = f x) (rev xs) = Some x"
proof
  assume "x \<in> set (keyed f xs)"
  then obtain k where m: "(k, x) \<in> set (key_map f xs)" by (auto simp: keyed_def)
  then have "map_of (key_map f xs) k = Some x" by simp
  with m show "find (\<lambda>y. f y = f x) (rev xs) = Some x" by (auto simp: map_of_key_map dest: key_map_mem)
next
  assume "find (\<lambda>y. f y = f x) (rev xs) = Some x"
  then have "map_of (key_map f xs) (f x) = Some x" by (simp add: map_of_key_map)
  then show "x \<in> set (keyed f xs)" by (force simp: keyed_def dest: map_of_SomeD)
qed

text \<open>With keys that determine the elements only the duplicates go.\<close>

lemma keyed_inj: "inj_on f (set xs) \<Longrightarrow> set (keyed f xs) = set xs"
  using image_keyed set_keyed by (metis inj_on_image_eq_iff order_refl)

section \<open>First maximum\<close>

text \<open>\<open>max(xs, key=f)\<close>: the first of the greatest.\<close>

fun first_max :: "('a \<Rightarrow> 'k::linorder) \<Rightarrow> 'a \<Rightarrow> 'a list \<Rightarrow> 'a" where
  "first_max f b [] = b"
| "first_max f b (x # xs) = first_max f (if f b < f x then x else b) xs"

lemma first_max_mem: "first_max f b xs \<in> insert b (set xs)"
  by (induction xs arbitrary: b) (auto split: if_splits)

lemma first_max_ge: "x \<in> insert b (set xs) \<Longrightarrow> f x \<le> f (first_max f b xs)"
proof (induction xs arbitrary: b x)
  case (Cons y xs)
  let ?c = "if f b < f y then y else b"
  have "f b \<le> f ?c" "f y \<le> f ?c" by auto
  moreover have "f ?c \<le> f (first_max f ?c xs)" by (rule Cons.IH) simp
  ultimately have "f b \<le> f (first_max f b (y # xs))" "f y \<le> f (first_max f b (y # xs))" by simp_all
  moreover have "f x \<le> f (first_max f ?c xs)" if "x \<in> set xs" by (rule Cons.IH) (simp add: that)
  then have "f x \<le> f (first_max f b (y # xs))" if "x \<in> set xs" using that by simp
  ultimately show ?case using Cons.prems by (metis insertE list.simps(15))
qed simp

end
