(* ===== verification/Virtualisation_Operations.thy ===== *)
theory Virtualisation_Operations
  imports Operations_Models Py_Fnmatch Keyed
begin

text \<open>
  \<open>analysis/virtualisation/operations.py\<close>: the promotion of virtualisation findings to
  operational items. An object or a finding is its dictionary; the state read from disk is the
  record \<open>virt_state\<close>.
\<close>

section \<open>Affected services\<close>

definition extra :: "bool \<Rightarrow> string list \<Rightarrow> string list" where
  "extra b xs = (if b then xs else [])"

definition holds :: "dict \<Rightarrow> string \<Rightarrow> bool" where
  "holds d k = truthy (dget d k)"

definition virt :: "string \<Rightarrow> string" where
  "virt s = ''virtualisation.'' @ s"

definition service_ids :: "string \<Rightarrow> dict \<Rightarrow> dict \<Rightarrow> string list" where
  "service_ids rule obj evidence =
     (if starts_with ''virtualisation.collection_'' rule
        \<or> rule \<in> {virt ''manager_unreachable'', virt ''evidence_stale''} then [''virtualisation_management_plane'']
      else if rule = virt ''cluster_degraded'' then
        ''hypervisor_cluster'' #
        extra (holds evidence ''remaining_capacity_insufficient'' \<or> holds evidence ''quorum_compromised'')
          [''compute_capacity''] @
        extra (holds evidence ''workload_impact_confirmed'') [''virtual_machine_hosting'', ''workload_availability'']
      else if rule \<in> {virt ''host_disconnected'', virt ''host_not_responding''} then
        ''hypervisor_cluster'' #
        extra (\<not> holds obj ''cluster_id'') [''compute_capacity'', ''virtual_machine_hosting''] @
        extra (holds evidence ''workload_impact_confirmed'') [''workload_availability'']
      else if rule \<in> {virt ''host_cpu_high'', virt ''host_memory_high''} then [''compute_capacity'']
      else if starts_with ''virtualisation.storage_capacity_'' rule then [''shared_storage'']
      else if rule = virt ''storage_inaccessible'' then
        ''shared_storage'' #
        extra (holds evidence ''workload_impact_confirmed'') [''virtual_machine_hosting'', ''workload_availability'']
      else if rule \<in> {virt ''snapshot_stale'', virt ''snapshot_count_excessive'', virt ''unexpected_maintenance''}
        then [''virtual_machine_hosting'']
      else if rule = virt ''ha_degraded'' then [''hypervisor_cluster'']
      else if rule \<in> {virt ''replication_unhealthy'', virt ''expected_workload_stopped'',
          virt ''workload_state_unknown'', virt ''guest_agent_unhealthy''} then [''workload_availability'']
      else [])"

definition MAPPING :: "(string \<times> string \<times> string \<times> string) list" where
  "MAPPING =
     [(''virtualisation.manager_unreachable'', ''risk'', ''Unknown'', ''Management endpoint unreachable''),
      (''virtualisation.collection_authentication'', ''issue'', ''High'', ''Virtualisation authentication failed''),
      (''virtualisation.collection_permission'', ''risk'', ''Unknown'', ''Virtualisation permissions prevent evaluation''),
      (''virtualisation.collection_partial'', ''risk'', ''Unknown'', ''Virtualisation collection is partial''),
      (''virtualisation.cluster_degraded'', ''issue'', ''High'', ''Hypervisor cluster degraded''),
      (''virtualisation.host_disconnected'', ''issue'', ''High'', ''Hypervisor host disconnected''),
      (''virtualisation.host_not_responding'', ''issue'', ''High'', ''Hypervisor host not responding''),
      (''virtualisation.unexpected_maintenance'', ''risk'', ''Medium'', ''Unexpected hypervisor maintenance mode''),
      (''virtualisation.host_cpu_high'', ''risk'', ''Medium'', ''Hypervisor CPU capacity pressure''),
      (''virtualisation.host_memory_high'', ''risk'', ''Medium'', ''Hypervisor memory capacity pressure''),
      (''virtualisation.storage_inaccessible'', ''issue'', ''Critical'', ''Virtualisation storage inaccessible''),
      (''virtualisation.storage_capacity_warning'', ''risk'', ''Medium'', ''Virtualisation storage capacity warning''),
      (''virtualisation.storage_capacity_critical'', ''issue'', ''Critical'', ''Virtualisation storage capacity critical''),
      (''virtualisation.workload_state_unknown'', ''risk'', ''Unknown'', ''Workload state unknown''),
      (''virtualisation.guest_agent_unhealthy'', ''risk'', ''Low'', ''Guest integration agent unhealthy''),
      (''virtualisation.snapshot_stale'', ''risk'', ''Medium'', ''Stale snapshot or checkpoint''),
      (''virtualisation.snapshot_count_excessive'', ''risk'', ''Medium'', ''Excessive snapshots or checkpoints''),
      (''virtualisation.ha_degraded'', ''risk'', ''Medium'', ''Virtualisation HA is disabled or degraded''),
      (''virtualisation.replication_unhealthy'', ''issue'', ''Critical'', ''Required workload replication is unhealthy''),
      (''virtualisation.expected_workload_stopped'', ''issue'', ''High'', ''Expected workload is stopped''),
      (''virtualisation.evidence_stale'', ''risk'', ''Unknown'', ''Virtualisation evidence is stale'')]"

section \<open>Expectations\<close>

record expectation =
  ex_match :: dict
  ex_state :: string
  ex_priority :: int
  ex_criticality :: json

text \<open>The identities seen so far are the key and the text of the single entry of \<open>match\<close>.\<close>

definition read_expectation :: "nat \<Rightarrow> json \<Rightarrow> (string \<times> string) list
    \<Rightarrow> (expectation \<times> (string \<times> string) list) res" where
  "read_expectation index v seen = (let label = ''workload expectation '' @ show_int (int index + 1) in
     case v of JObj d \<Rightarrow> (case dget d ''match'' of
       JObj m \<Rightarrow>
         (case m of
           [(k, item)] \<Rightarrow>
             if k \<notin> {''name'', ''tag''} then Inl (ValueError (label @ '' must match exactly one name or tag''))
             else if (k, py_str item) \<in> set seen then Inl (ValueError ''conflicting workload expectation'')
             else (let expected = casefold (py_str (dget_or d ''expected_state'' (JStr ''running''))) in
               if expected \<notin> {''running'', ''stopped'', ''any''}
               then Inl (ValueError (label @ '' has invalid expected_state''))
               else and_then (py_int (dget_or d ''priority'' (JInt (int index)))) (\<lambda>p.
                 Inr (\<lparr>ex_match = m, ex_state = expected, ex_priority = p,
                   ex_criticality = dget_or d ''criticality'' (JStr ''high'')\<rparr>, (k, py_str item) # seen)))
         | _ \<Rightarrow> Inl (ValueError (label @ '' must match exactly one name or tag'')))
       | _ \<Rightarrow> Inl (ValueError (label @ '' must contain a match mapping'')))
     | _ \<Rightarrow> Inl (ValueError (label @ '' must contain a match mapping'')))"

fun read_expectations :: "nat \<Rightarrow> json list \<Rightarrow> (string \<times> string) list \<Rightarrow> expectation list res" where
  "read_expectations index [] seen = Inr []"
| "read_expectations index (v # vs) seen =
     and_then (read_expectation index v seen) (\<lambda>(e, seen').
     map_sum id ((#) e) (read_expectations (index + 1) vs seen'))"

definition validate_expectations :: "json \<Rightarrow> expectation list res" where
  "validate_expectations values =
     and_then (py_iter (por values (JList []))) (\<lambda>vs.
     and_then (read_expectations 0 vs []) (\<lambda>es.
     if \<not> distinct (map ex_priority es) then Inl (ValueError ''workload expectation priorities must be unique'')
     else Inr (sort_key ex_priority es)))"

record ops_adapter =
  va_expectations :: "expectation list"
  va_stale_seconds :: int

definition virt_adapter :: "json \<Rightarrow> json \<Rightarrow> ops_adapter res" where
  "virt_adapter expectations stale =
     and_then (validate_expectations expectations) (\<lambda>es.
     and_then (py_int stale) (\<lambda>s. Inr \<lparr>va_expectations = es, va_stale_seconds = max 60 s\<rparr>))"

fun any_tag :: "string \<Rightarrow> json list \<Rightarrow> bool res" where
  "any_tag p [] = Inr False"
| "any_tag p (t # ts) = and_then (want_str t) (\<lambda>s. if fnmatch p s then Inr True else any_tag p ts)"

definition matches :: "dict \<Rightarrow> expectation \<Rightarrow> bool res" where
  "matches obj e = (case map_of (ex_match e) ''name'' of
     Some p \<Rightarrow> map_sum id (fnmatch (py_str p)) (want_str (dget_or obj ''name'' (JStr [])))
   | None \<Rightarrow> (case map_of (ex_match e) ''tag'' of
       Some p \<Rightarrow> and_then (py_iter (dget_or obj ''tags'' (JList []))) (any_tag (py_str p))
     | None \<Rightarrow> Inr False))"

fun filter_by :: "('a \<Rightarrow> bool res) \<Rightarrow> 'a list \<Rightarrow> 'a list res" where
  "filter_by P [] = Inr []"
| "filter_by P (x # xs) =
     and_then (P x) (\<lambda>b. map_sum id (\<lambda>ys. if b then x # ys else ys) (filter_by P xs))"

definition expectation_of :: "expectation list \<Rightarrow> dict \<Rightarrow> expectation option res" where
  "expectation_of es obj =
     and_then (filter_by (matches obj) es) (\<lambda>ms. case ms of
       [] \<Rightarrow> Inr None
     | [e] \<Rightarrow> Inr (Some e)
     | _ \<Rightarrow> Inl (ValueError (''ambiguous workload expectations for '' @ py_str (dget obj ''canonical_id''))))"

section \<open>Synthetic findings\<close>

definition synthetic :: "(string \<Rightarrow> string) \<Rightarrow> string \<Rightarrow> dict \<Rightarrow> string \<Rightarrow> string \<Rightarrow> string \<Rightarrow> dict \<Rightarrow> dict" where
  "synthetic H rule obj severity reason action evidence =
     [(''id'', JStr (''virt:'' @ take 20 (H (rule @ ''|'' @ py_str (dget obj ''canonical_id''))))),
      (''rule_id'', JStr rule), (''provider'', dget_or obj ''provider'' (JStr [])),
      (''deployment_id'', dget_or obj ''deployment_id'' (JStr [])), (''site_id'', dget_or obj ''site_id'' (JStr [])),
      (''canonical_id'', dget_or obj ''canonical_id'' (JStr [])),
      (''object_name'', dget_or obj ''display_name'' (JStr [])), (''severity'', JStr severity),
      (''confidence'', JStr ''high''), (''reason'', JStr reason), (''recommended_operator_check'', JStr action),
      (''evidence'', JObj evidence), (''first_observed'', dget obj ''observed_at''),
      (''last_observed'', dget obj ''observed_at'')]"

record virt_state =
  vs_generated_at :: json
  vs_deployment_id :: json
  vs_objects :: "dict list"
  vs_findings :: "dict list"
  vs_collections :: "dict list"

text \<open>The objects by canonical id: the last of an id, at the place of the first.\<close>

definition object_id :: "dict \<Rightarrow> string res" where
  "object_id d = (case map_of d ''canonical_id'' of None \<Rightarrow> Inl (KeyError ''canonical_id'') | Some v \<Rightarrow> want_str v)"

definition with_id :: "dict \<Rightarrow> (string \<times> dict) res" where
  "with_id d = map_sum id (\<lambda>i. (i, d)) (object_id d)"

definition objects_of :: "dict list \<Rightarrow> (string \<times> dict) list res" where
  "objects_of ds = map_sum id (keyed fst) (map_res with_id ds)"

text \<open>A collection is complete when it succeeded and is not partial; its manager is the first
  manager object of the provider.\<close>

definition collected_fully :: "dict \<Rightarrow> bool" where
  "collected_fully c = (dget c ''result'' = JStr ''success'' \<and> \<not> truthy (dget c ''partial''))"

definition manager_of :: "dict list \<Rightarrow> json \<Rightarrow> dict option" where
  "manager_of objs provider =
     find (\<lambda>d. dget d ''kind'' = JStr ''manager'' \<and> py_eq (dget d ''provider'') provider) objs"

definition collection_manager :: "(string \<Rightarrow> string) \<Rightarrow> json \<Rightarrow> dict list \<Rightarrow> dict \<Rightarrow> dict" where
  "collection_manager H deployment objs c = (let provider = dget_or c ''provider'' (JStr []) in
     case manager_of objs provider of Some d \<Rightarrow> d
     | None \<Rightarrow> [(''canonical_id'', JStr (''virt:collection:'' @
           take 20 (H (py_str provider @ ''|'' @ py_str (dget_or c ''endpoint'' (JStr [])))))),
         (''provider'', provider), (''deployment_id'', deployment),
         (''site_id'', dget_or c ''site_id'' (JStr [])), (''display_name'', provider),
         (''observed_at'', dget c ''last_attempt''), (''kind'', JStr ''manager'')])"

definition collection_rule :: "string \<Rightarrow> string \<times> string" where
  "collection_rule category =
     (if category \<in> {''authentication'', ''auth''} then (''virtualisation.collection_authentication'', ''High'')
      else if category \<in> {''permission'', ''permissions''} then (''virtualisation.collection_permission'', ''Unknown'')
      else (''virtualisation.collection_partial'', ''Unknown''))"

definition collection_finding :: "(string \<Rightarrow> string) \<Rightarrow> json \<Rightarrow> dict list \<Rightarrow> dict \<Rightarrow> dict" where
  "collection_finding H deployment objs c =
     (let category = casefold (py_str (por (dget c ''diagnostic_category'') (JStr []))) in
      synthetic H (fst (collection_rule category)) (collection_manager H deployment objs c)
        (snd (collection_rule category))
        ''Virtualisation collection did not produce complete trustworthy evidence.''
        ''Review the collection diagnostic category and delegated read-only access.''
        [(''diagnostic_category'', JStr category), (''partial'', dget_or c ''partial'' (JBool False))])"

definition is_workload :: "dict \<Rightarrow> bool" where
  "is_workload d = (dget d ''kind'' \<in> {JStr ''vm'', JStr ''container''})"

definition stopped_finding :: "(string \<Rightarrow> string) \<Rightarrow> dict \<Rightarrow> expectation \<Rightarrow> dict" where
  "stopped_finding H obj e =
     synthetic H ''virtualisation.expected_workload_stopped'' obj
       (title_from False (py_str (ex_criticality e)))
       ''A workload configured to run is observed stopped.''
       ''Confirm the outage or restore the workload through approved change control.''
       [(''expected_state'', JStr ''running''), (''observed_state'', JStr ''stopped''),
        (''expectation'', JObj (ex_match e))]"

definition workload_findings :: "(string \<Rightarrow> string) \<Rightarrow> ops_adapter \<Rightarrow> dict \<Rightarrow> dict list res" where
  "workload_findings H a obj =
     (if \<not> is_workload obj then Inr []
      else map_sum id (\<lambda>e. case e of None \<Rightarrow> []
        | Some x \<Rightarrow> if ex_state x = ''running'' \<and> dget obj ''power_state'' = JStr ''stopped''
            then [stopped_finding H obj x] else []) (expectation_of (va_expectations a) obj))"

definition virt_time :: "int \<Rightarrow> json \<Rightarrow> int option res" where
  "virt_time tz v = (case fromisoformat (replace_z (py_str v)) of None \<Rightarrow> Inr None
     | Some t \<Rightarrow> map_sum id Some (to_utc t tz))"

definition is_stale :: "int \<Rightarrow> int \<Rightarrow> int option \<Rightarrow> bool" where
  "is_stale seconds now generated = (case generated of None \<Rightarrow> True
     | Some t \<Rightarrow> now - t > seconds * 1000000)"

definition observed_text :: "dict \<Rightarrow> string" where
  "observed_text d = py_str (dget_or d ''observed_at'' (JStr []))"

definition stale_finding :: "(string \<Rightarrow> string) \<Rightarrow> ops_adapter \<Rightarrow> json \<Rightarrow> dict \<Rightarrow> dict" where
  "stale_finding H a generated newest =
     synthetic H ''virtualisation.evidence_stale'' newest ''Unknown''
       ''Virtualisation evidence is stale and cannot support a current healthy state.''
       ''Restore collection and confirm workload state before clearing prior findings.''
       [(''generated_at'', generated), (''stale_after_seconds'', JInt (va_stale_seconds a))]"

definition stale_findings :: "(string \<Rightarrow> string) \<Rightarrow> ops_adapter \<Rightarrow> json \<Rightarrow> bool \<Rightarrow> dict list \<Rightarrow> dict list" where
  "stale_findings H a generated stale objs = (case objs of [] \<Rightarrow> []
     | d # ds \<Rightarrow> if stale then [stale_finding H a generated (first_max observed_text d ds)] else [])"

section \<open>Promotion\<close>

text \<open>\<open>d.get(v)\<close> for a value of the data used as a key.\<close>

fun key_text :: "json \<Rightarrow> string option res" where
  "key_text (JStr s) = Inr (Some s)"
| "key_text (JList _) = Inl (TypeError ''unhashable type'')"
| "key_text (JObj _) = Inl (TypeError ''unhashable type'')"
| "key_text _ = Inr None"

definition look :: "(string \<times> 'a) list \<Rightarrow> string option \<Rightarrow> 'a option" where
  "look m k = (case k of None \<Rightarrow> None | Some s \<Rightarrow> map_of m s)"

definition canonical_severity :: "string \<Rightarrow> string option \<Rightarrow> string" where
  "canonical_severity mapped found =
     (if mapped = ''Unknown'' then mapped
      else case found of
        Some s \<Rightarrow> if s \<in> set [''Critical'', ''High'', ''Medium'', ''Low'', ''Info''] then s else mapped
      | None \<Rightarrow> mapped)"

definition item_severity :: "string \<Rightarrow> string \<Rightarrow> string option \<Rightarrow> dict \<Rightarrow> string" where
  "item_severity rule mapped found obj =
     (if rule = virt ''storage_inaccessible'' \<and> dget obj ''shared'' \<noteq> JBool True then ''High''
      else if rule \<in> {virt ''host_disconnected'', virt ''host_not_responding''}
        then (if truthy (dget obj ''cluster_id'') then ''High'' else ''Critical'')
      else canonical_severity mapped found)"

definition item_evidence :: "dict \<Rightarrow> dict \<Rightarrow> string \<Rightarrow> dict" where
  "item_evidence evidence finding severity = dmerge evidence
     [(''source_finding_id'', dget finding ''id''), (''health_state'', JStr severity),
      (''source_collector'', JStr ''virtualisation'')]"

definition limited_impact :: string where
  "limited_impact = ''Current impact is limited to the evidence stated; management-plane '' @
     ''failure alone does not prove workload outage.''"

definition virt_item :: "string \<Rightarrow> string \<times> string \<times> string \<Rightarrow> dict \<Rightarrow> dict \<Rightarrow> json \<Rightarrow> string \<Rightarrow> dict \<Rightarrow> int \<Rightarrow> op_item" where
  "virt_item rule m finding obj object_kind severity evidence score = (case m of (kind, mapped, title) \<Rightarrow>
     \<lparr>op_kind = kind, op_rule_id = rule, op_title = title, op_category = ''Virtualisation'',
      op_severity = severity, op_priority = score,
      op_canonical_id = dget_or finding ''canonical_id'' (JStr []),
      op_device = por (dget finding ''object_name'') (dget_or obj ''display_name'' (JStr [])),
      op_site_id = dget_or finding ''site_id'' (JStr []), op_site = dget_or finding ''site_id'' (JStr []),
      op_summary = dget_or finding ''reason'' (JStr title),
      op_recommended_action = dget_or finding ''recommended_operator_check'' (JStr []),
      op_impact = limited_impact, op_reason = dget_or finding ''reason'' (JStr []),
      op_evidence = evidence, op_deployment_id = dget_or finding ''deployment_id'' (JStr []),
      op_domain = ''virtualisation'', op_provider = dget_or finding ''provider'' (JStr []),
      op_object_kind = object_kind, op_object_id = dget_or finding ''canonical_id'' (JStr []),
      op_cluster_id = dget_or obj ''cluster_id'' (JStr []),
      op_host_id = por (dget_or obj ''host_id'' (JStr []))
        (if object_kind = JStr ''host'' then dget_or obj ''canonical_id'' (JStr []) else JStr []),
      op_workload_id = (if object_kind \<in> {JStr ''vm'', JStr ''container''}
        then dget_or obj ''canonical_id'' (JStr []) else JStr []),
      op_confidence = dget_or finding ''confidence'' (JStr ''medium''),
      op_source_finding_id = dget_or finding ''id'' (JStr []),
      op_first_observed = dget finding ''first_observed'', op_last_observed = dget finding ''last_observed'',
      op_affected_service_ids = service_ids rule obj evidence, op_id = []\<rparr>)"

definition promote_as :: "(string \<Rightarrow> string) \<Rightarrow> string \<Rightarrow> string \<times> string \<times> string \<Rightarrow> dict \<Rightarrow> dict
    \<Rightarrow> string option \<Rightarrow> op_item res" where
  "promote_as H rule m finding obj found =
     (let severity = item_severity rule (fst (snd m)) found obj in
      and_then (want_dict (por (dget finding ''evidence'') (JObj []))) (\<lambda>ev.
      and_then (priority severity (if fst m = ''issue'' then 5 else 0)) (\<lambda>score.
      post_init H (virt_item rule m finding obj
        (por (dget obj ''kind'') (dget_or finding ''object_kind'' (JStr []))) severity
        (item_evidence ev finding severity) score))))"

definition promote_finding :: "(string \<Rightarrow> string) \<Rightarrow> (string \<times> dict) list \<Rightarrow> dict \<Rightarrow> op_item option res" where
  "promote_finding H objs finding =
     and_then (key_text (dget finding ''rule_id'')) (\<lambda>r. case r of None \<Rightarrow> Inr None
     | Some rule \<Rightarrow> (case map_of MAPPING rule of None \<Rightarrow> Inr None
       | Some m \<Rightarrow>
           and_then (if fst (snd m) = ''Unknown'' then Inr None else key_text (dget finding ''severity'')) (\<lambda>found.
           and_then (key_text (dget finding ''canonical_id'')) (\<lambda>cid.
           map_sum id Some (promote_as H rule m finding
             (case look objs cid of None \<Rightarrow> [] | Some d \<Rightarrow> d) found)))))"

definition keep_some :: "'a option list \<Rightarrow> 'a list" where
  "keep_some xs = concat (map (\<lambda>x. case x of None \<Rightarrow> [] | Some y \<Rightarrow> [y]) xs)"

text \<open>Everything \<open>promote\<close> turns into items: the findings of the state and the synthetic ones.\<close>

definition promotable_findings :: "(string \<Rightarrow> string) \<Rightarrow> ops_adapter \<Rightarrow> virt_state \<Rightarrow> dict list \<Rightarrow> bool \<Rightarrow> dict list res" where
  "promotable_findings H a s objs stale =
     and_then (map_res (workload_findings H a) objs) (\<lambda>ws.
     Inr (vs_findings s @
       map (collection_finding H (vs_deployment_id s) objs)
         (filter (\<lambda>c. \<not> collected_fully c) (vs_collections s)) @
       concat ws @ stale_findings H a (vs_generated_at s) stale objs))"

definition promoted_order :: "op_item \<Rightarrow> int \<times> string" where
  "promoted_order i = (- op_priority i, op_id i)"

definition promote :: "(string \<Rightarrow> string) \<Rightarrow> int \<Rightarrow> ops_adapter \<Rightarrow> virt_state \<Rightarrow> int \<Rightarrow> op_item list res" where
  "promote H tz a s now =
     and_then (objects_of (vs_objects s)) (\<lambda>objs.
     and_then (virt_time tz (vs_generated_at s)) (\<lambda>generated.
     and_then (promotable_findings H a s (map snd objs) (is_stale (va_stale_seconds a) now generated)) (\<lambda>fs.
     and_then (map_res (promote_finding H objs) fs) (\<lambda>items.
     Inr (sort_key promoted_order (keyed op_id (keep_some items)))))))"

end
