(* ===== verification/Operations_Engine.thy ===== *)
theory Operations_Engine
  imports Operations_Rules Virtualisation_Operations Sites
begin

text \<open>
  \<open>analysis/operations/engine.py\<close>: the context built from the documents of the other engines,
  the evaluation of every rule, the promotion of virtualisation findings, site resolution,
  removal of duplicate items and the ordered result. The documents read from disk are arguments
  of the operations: \<open>None\<close> is an absent file.
\<close>

section \<open>Context\<close>

definition or_else :: "dict option \<Rightarrow> dict \<Rightarrow> dict" where
  "or_else d fallback = (case d of None \<Rightarrow> fallback | Some v \<Rightarrow> v)"

text \<open>The state of a collector as the rules read it; an empty set of enabled collectors keeps all.\<close>

definition success_of :: "json \<Rightarrow> json" where
  "success_of status = (if status = JStr ''healthy'' then JBool True
     else if status = JStr ''failed'' then JBool False else JNull)"

definition op_source_state :: "dict \<Rightarrow> dict" where
  "op_source_state c =
     [(''consecutive_failures'', dget_or c ''failures'' (JInt 0)),
      (''last_run'', JObj [(''success'', success_of (dget c ''status'')), (''completed_at'', dget c ''last_run'')]),
      (''last_complete_successful_run'', JObj [(''completed_at'', dget c ''last_successful_run'')])]"

definition source_entry :: "dict \<Rightarrow> (string \<times> dict) res" where
  "source_entry c = (case map_of c ''collector'' of None \<Rightarrow> Inl (KeyError ''collector'')
     | Some v \<Rightarrow> map_sum id (\<lambda>name. (name, op_source_state c)) (want_str v))"

definition considered :: "json list \<Rightarrow> dict \<Rightarrow> bool" where
  "considered enabled c = (enabled = [] \<or> dget c ''collector'' \<in> set enabled)"

definition source_states :: "json list \<Rightarrow> dict list \<Rightarrow> (string \<times> dict) list res" where
  "source_states enabled cs = map_sum id (keyed fst) (map_res source_entry (filter (considered enabled) cs))"

record ops_inputs =
  oin_state :: "dict option"
  oin_registry :: "dict option"
  oin_virtualisation :: "virt_state option"
  oin_settings :: dict
  oin_sites :: site_registry

definition ops_context :: "int \<Rightarrow> int \<Rightarrow> ops_inputs \<Rightarrow> op_context res" where
  "ops_context tz now inp = (let state = or_else (oin_state inp) [] in
     and_then (py_iter (dget_or (or_else (oin_registry inp) []) ''enabled_collectors'' (JList []))) (\<lambda>enabled.
     and_then (dict_list (dget_or state ''collectors'' (JList []))) (\<lambda>collectors.
     and_then (source_states enabled collectors) (\<lambda>sources.
     and_then (dict_list (dget_or state ''assets'' (JList []))) (\<lambda>assets.
     and_then (dict_list (dget_or state ''reconciliations'' (JList []))) (\<lambda>recs.
     and_then (sub_dict state ''signals'') (\<lambda>signals.
     Inr \<lparr>ctx_now = now, ctx_tz = tz, ctx_assets = assets, ctx_sources = sources,
       ctx_reconciliations = recs, ctx_signals = signals, ctx_settings = oin_settings inp\<rparr>)))))))"

section \<open>Virtualisation state\<close>

text \<open>\<open>_virtualisation_state\<close> over the documents of the directory, by file name.\<close>

definition VIRTUALISATION_FILES :: "(string \<times> string) list" where
  "VIRTUALISATION_FILES =
     [(''platforms.json'', ''platforms''), (''clusters.json'', ''clusters''), (''hosts.json'', ''hosts''),
      (''workloads.json'', ''workloads''), (''storage.json'', ''storage''), (''networks.json'', ''networks''),
      (''snapshots.json'', ''snapshots'')]"

definition document_list :: "(string \<Rightarrow> dict option) \<Rightarrow> string \<Rightarrow> string \<Rightarrow> dict list res" where
  "document_list files name key = dict_list (dget_or (or_else (files name) []) key (JList []))"

definition virtualisation_state :: "(string \<Rightarrow> dict option) \<Rightarrow> virt_state res" where
  "virtualisation_state files =
     and_then (map_res (\<lambda>(name, key). document_list files name key) VIRTUALISATION_FILES) (\<lambda>groups.
     and_then (objects_of (concat groups)) (\<lambda>objs.
     and_then (document_list files ''findings.json'' ''findings'') (\<lambda>findings.
     and_then (document_list files ''collection-status.json'' ''collections'') (\<lambda>collections.
     (let summary = or_else (files ''summary.json'') [] in
      Inr \<lparr>vs_generated_at = dget summary ''generated_at'',
        vs_deployment_id = dget_or summary ''deployment_id'' (JStr []),
        vs_objects = map snd objs, vs_findings = findings, vs_collections = collections\<rparr>)))))"

section \<open>Evaluation\<close>

definition virtualisation_items :: "(string \<Rightarrow> string) \<Rightarrow> int \<Rightarrow> dict \<Rightarrow> virt_state option \<Rightarrow> int \<Rightarrow> op_item list res" where
  "virtualisation_items H tz settings v now = (case v of None \<Rightarrow> Inr []
     | Some s \<Rightarrow>
         and_then (want_dict (dget_or settings ''virtualisation'' (JObj settings))) (\<lambda>st.
         and_then (virt_adapter (dget_or st ''workload_expectations'' (JList []))
           (dget_or st ''stale_after_seconds'' (JInt 900))) (\<lambda>a. promote H tz a s now)))"

text \<open>\<open>replace\<close> keeps the identifier; the priority was clamped before.\<close>

definition resolve_item :: "site_registry \<Rightarrow> op_item \<Rightarrow> op_item res" where
  "resolve_item rg i =
     (if truthy (op_site_id i) \<or> \<not> truthy (op_site i) then Inr i
      else map_sum id (\<lambda>r. i\<lparr>op_site_id := JStr (case sr_site_id r of None \<Rightarrow> [] | Some s \<Rightarrow> s),
          op_site := por (JStr (sr_display_name r)) (op_site i)\<rparr>)
        (resolve rg (op_site i) JNull))"

definition op_order :: "op_item \<Rightarrow> int \<times> string \<times> string" where
  "op_order i = (- op_priority i, op_title i, op_id i)"

definition ordered_items :: "op_item list \<Rightarrow> op_item list" where
  "ordered_items items = sort_key op_order (keyed op_id items)"

record ops_result =
  or_issues :: "op_item list"
  or_risks :: "op_item list"
  or_recommendations :: "op_item list"

definition of_kind :: "string \<Rightarrow> op_item list \<Rightarrow> op_item list" where
  "of_kind k = filter (\<lambda>i. op_kind i = k)"

definition group_items :: "op_item list \<Rightarrow> ops_result" where
  "group_items items = \<lparr>or_issues = of_kind ''issue'' items, or_risks = of_kind ''risk'' items,
     or_recommendations = of_kind ''recommendation'' items\<rparr>"

definition evaluated_items :: "(string \<Rightarrow> string) \<Rightarrow> ops_inputs \<Rightarrow> op_context \<Rightarrow> op_item list res" where
  "evaluated_items H inp c =
     and_then (rule_items H c) (\<lambda>a.
     and_then (virtualisation_items H (ctx_tz c) (oin_settings inp) (oin_virtualisation inp) (ctx_now c)) (\<lambda>b.
     map_res (resolve_item (oin_sites inp)) (a @ b)))"

definition evaluate_operations :: "(string \<Rightarrow> string) \<Rightarrow> int \<Rightarrow> int \<Rightarrow> ops_inputs \<Rightarrow> ops_result res" where
  "evaluate_operations H tz now inp =
     and_then (ops_context tz now inp) (\<lambda>c.
     map_sum id (\<lambda>items. group_items (ordered_items items)) (evaluated_items H inp c))"

definition ops_result_to_dict :: "int \<Rightarrow> ops_result \<Rightarrow> dict" where
  "ops_result_to_dict now r =
     [(''generated_at'', JStr (isoformat_z now)),
      (''issues'', JList (map (JObj \<circ> op_item_to_dict) (or_issues r))),
      (''risks'', JList (map (JObj \<circ> op_item_to_dict) (or_risks r))),
      (''recommendations'', JList (map (JObj \<circ> op_item_to_dict) (or_recommendations r)))]"

end
