(* ===== verification/Operations_Properties.thy ===== *)
theory Operations_Properties
  imports Operations_Engine
begin

text \<open>
  What the operations engine guarantees: every item is well formed and scored within the band of
  its severity, an offline issue rests on an explicit report, the result is ordered, free of
  duplicates and complete, and management-plane failures are not turned into outages.
\<close>

section \<open>Well-formed items\<close>

text \<open>The band of scores of a severity: its base and at most fifteen more.\<close>

definition within_band :: "string \<Rightarrow> int \<Rightarrow> bool" where
  "within_band severity score = (case map_of SEVERITY_BASE severity of None \<Rightarrow> False
     | Some b \<Rightarrow> b \<le> score \<and> score \<le> clamp (b + 15))"

definition valid_item :: "op_item \<Rightarrow> bool" where
  "valid_item i = (op_kind i \<in> set KINDS \<and> op_category i \<in> set CATEGORIES \<and> op_severity i \<in> set SEVERITIES \<and>
     within_band (op_severity i) (op_priority i) \<and> op_id i \<noteq> [])"

lemma severity_base_range: "map_of SEVERITY_BASE s = Some b \<Longrightarrow> 0 \<le> b \<and> b \<le> 90"
  by (auto simp: SEVERITY_BASE_def split: if_splits)

lemma clamp_range [simp]: "0 \<le> clamp n" "clamp n \<le> 100"
  by (simp_all add: clamp_def)

lemma clamp_idem [simp]: "clamp (clamp n) = clamp n"
  by (simp add: clamp_def)

lemma priority_within_band:
  "priority s w = Inr n \<Longrightarrow> 0 \<le> w \<Longrightarrow> w \<le> 15 \<Longrightarrow> within_band s n \<and> clamp n = n"
  using severity_base_range [of s]
  by (auto simp: priority_def within_band_def clamp_def split: option.splits)

lemma post_init_facts:
  "post_init H i = Inr j \<Longrightarrow> op_kind i \<in> set KINDS \<and> op_category i \<in> set CATEGORIES \<and> op_severity i \<in> set SEVERITIES \<and>
     op_id j \<noteq> [] \<and> j = i\<lparr>op_priority := clamp (op_priority i), op_id := op_id j\<rparr>"
  by (auto simp: post_init_def and_then_eq_Inr map_sum_eq_Inr split: if_splits)

lemma post_init_valid:
  assumes "post_init H i = Inr j" "priority (op_severity i) w = Inr (op_priority i)" "0 \<le> w" "w \<le> 15"
  shows "valid_item j"
proof -
  note f = post_init_facts [OF assms(1)]
  then obtain n where "j = i\<lparr>op_priority := clamp (op_priority i), op_id := n\<rparr>" "n \<noteq> []" by blast
  with f priority_within_band [OF assms(2-4)] show ?thesis by (auto simp: valid_item_def)
qed

lemma mk_item_facts:
  assumes "mk_item H r k t s w p wd ev = Inr i"
  shows "op_rule_id i = or_id r \<and> op_kind i = k \<and> op_severity i = s \<and> op_evidence i = ev \<and>
    op_canonical_id i = pl_canonical_id p \<and> (0 \<le> w \<longrightarrow> w \<le> 15 \<longrightarrow> valid_item i)"
proof -
  obtain n j where n: "priority s w = Inr n" and j: "post_init H j = Inr i"
    "op_rule_id j = or_id r" "op_kind j = k" "op_severity j = s" "op_evidence j = ev"
    "op_canonical_id j = pl_canonical_id p" "op_priority j = n"
    using assms by (fastforce simp: mk_item_def blank_item_def and_then_eq_Inr)
  have "j = j\<lparr>op_priority := op_priority j, op_id := op_id j\<rparr>" by simp
  moreover obtain m where "i = j\<lparr>op_priority := clamp (op_priority j), op_id := m\<rparr>"
    using post_init_facts [OF j(1)] by blast
  moreover have "0 \<le> w \<longrightarrow> w \<le> 15 \<longrightarrow> valid_item i" using post_init_valid [OF j(1)] n j by auto
  ultimately show ?thesis using j by simp
qed

lemma mk_item_valid [yield_intro]:
  "0 \<le> w \<Longrightarrow> w \<le> 15 \<Longrightarrow> yields_one valid_item (mk_item H r k t s w p wd ev)"
  using mk_item_facts [of H r k t s w p wd ev] by (auto simp: yields_one_def split: sum.splits)

lemmas rule_defs = pa_api_unavailable_def pa_interface_down_def pa_ha_degraded_def pa_licence_def
  certificate_expiry_def collector_failed_def collector_overdue_def device_offline_def
  firmware_unsupported_def inventory_drift_def inventory_unknown_def lifecycle_stale_def
  printer_consumables_def papercut_health_def wan_packet_loss_def wan_unavailable_def
  firewall_unavailable_def switch_offline_def ap_offline_def typed_offline_def

lemmas item_defs = ha_items_def interface_items_def interface_item_def licence_items_def licence_item_def
  certificate_items_def failed_items_def overdue_item_def device_offline_item_def firmware_items_def
  drift_item_def unknown_item_def stale_items_def consumable_items_def papercut_items_def
  condition_items_def loss_items_def wan_down_item_def typed_offline_item_def

lemma rule_yields_valid [yield_intro]:
  "yields valid_item (pa_api_unavailable H c)"
  "yields valid_item (pa_interface_down H c)"
  "yields valid_item (pa_ha_degraded H c)"
  "yields valid_item (certificate_expiry H c)"
  "yields valid_item (collector_failed H c)"
  "yields valid_item (collector_overdue H c)"
  "yields valid_item (device_offline H c)"
  "yields valid_item (firmware_unsupported H c)"
  "yields valid_item (inventory_drift H c)"
  "yields valid_item (inventory_unknown H c)"
  "yields valid_item (lifecycle_stale H c)"
  "yields valid_item (printer_consumables H c)"
  "yields valid_item (papercut_health H c)"
  "yields valid_item (wan_packet_loss H c)"
  "yields valid_item (wan_unavailable H c)"
  "yields valid_item (pa_licence rid want H c)"
  "yields valid_item (typed_offline rid cat kind word sev H c)"
  unfolding rule_defs item_defs Let_def
  by (auto intro!: yield_intro split: prod.splits if_splits)

lemma typed_yields_valid [yield_intro]:
  "yields valid_item (ap_offline H c)" "yields valid_item (switch_offline H c)"
  "yields valid_item (firewall_unavailable H c)"
  unfolding ap_offline_def switch_offline_def firewall_unavailable_def by (rule rule_yields_valid)+

lemma rule_items_valid: "yields valid_item (rule_items H c)"
  unfolding rule_items_def registered_rules_def by (rule yields_concat_res) (auto intro: yield_intro)

section \<open>Offline issues\<close>

definition OFFLINE_RULES :: "string list" where
  "OFFLINE_RULES = [''device.offline'', ''wireless.ap_offline'', ''network.switch_offline'', ''firewall.unavailable'']"

definition reported_offline :: "dict list \<Rightarrow> json \<Rightarrow> bool" where
  "reported_offline assets cid = (\<exists>a \<in> set assets. offline a \<and> dget_or a ''canonical_id'' (JStr []) = cid)"

definition rests_on_report :: "dict list \<Rightarrow> op_item \<Rightarrow> bool" where
  "rests_on_report assets i =
     (op_rule_id i \<in> set OFFLINE_RULES \<longrightarrow> reported_offline assets (op_canonical_id i))"

lemma other_rule_rests:
  "or_id r \<notin> set OFFLINE_RULES \<Longrightarrow> yields_one (rests_on_report as) (mk_item H r k t s w p wd ev)"
  using mk_item_facts [of H r k t s w p wd ev]
  by (auto simp: yields_one_def rests_on_report_def split: sum.splits)

lemma offline_asset_rests:
  "a \<in> set as \<Longrightarrow> offline a \<Longrightarrow> yields_one (rests_on_report as) (mk_item H r k t s w (at_asset a) wd ev)"
  using mk_item_facts [of H r k t s w "at_asset a" wd ev]
  by (auto simp: yields_one_def rests_on_report_def reported_offline_def at_asset_def split: sum.splits)

lemma other_rules_rest:
  "yields (rests_on_report as) (pa_api_unavailable H c)"
  "yields (rests_on_report as) (pa_interface_down H c)"
  "yields (rests_on_report as) (pa_ha_degraded H c)"
  "yields (rests_on_report as) (certificate_expiry H c)"
  "yields (rests_on_report as) (collector_failed H c)"
  "yields (rests_on_report as) (collector_overdue H c)"
  "yields (rests_on_report as) (firmware_unsupported H c)"
  "yields (rests_on_report as) (inventory_drift H c)"
  "yields (rests_on_report as) (inventory_unknown H c)"
  "yields (rests_on_report as) (lifecycle_stale H c)"
  "yields (rests_on_report as) (printer_consumables H c)"
  "yields (rests_on_report as) (papercut_health H c)"
  "yields (rests_on_report as) (wan_packet_loss H c)"
  "yields (rests_on_report as) (wan_unavailable H c)"
  "yields (rests_on_report as) (pa_licence ''PA-LICENCE-EXPIRED'' want H c)"
  "yields (rests_on_report as) (pa_licence ''PA-LICENCE-EXPIRING'' want H c)"
  unfolding rule_defs item_defs Let_def
  by (auto intro!: yield_intro other_rule_rests split: prod.splits if_splits
      simp: OFFLINE_RULES_def failed_rule_def firmware_rule_def certificate_rule_def lifecycle_rule_def loss_rule_def)

lemma offline_rules_rest:
  "yields (rests_on_report (ctx_assets c)) (device_offline H c)"
  "yields (rests_on_report (ctx_assets c)) (typed_offline rid cat kind word sev H c)"
  unfolding rule_defs item_defs by (auto intro!: yield_intro offline_asset_rests)

lemma rule_items_rest: "yields (rests_on_report (ctx_assets c)) (rule_items H c)"
  unfolding rule_items_def registered_rules_def
  by (rule yields_concat_res)
    (auto simp: ap_offline_def switch_offline_def firewall_unavailable_def intro: other_rules_rest offline_rules_rest)

section \<open>Promoted items\<close>

lemma promote_as_valid: "yields_one valid_item (promote_as H rule m finding obj found)"
proof (cases "promote_as H rule m finding obj found")
  case (Inr i)
  obtain kind mapped title where m: "m = (kind, mapped, title)" by (cases m)
  let ?s = "item_severity rule mapped found obj"
  obtain ev n where n: "priority ?s (if kind = ''issue'' then 5 else 0) = Inr n"
    and j: "post_init H (virt_item rule m finding obj
        (por (dget obj ''kind'') (dget_or finding ''object_kind'' (JStr []))) ?s (item_evidence ev finding ?s) n) = Inr i"
    using Inr m by (auto simp: promote_as_def Let_def and_then_eq_Inr)
  have "valid_item i"
    by (rule post_init_valid [OF j, of "if kind = ''issue'' then 5 else 0"]) (use n in \<open>simp_all add: virt_item_def m\<close>)
  with Inr show ?thesis by (simp add: yields_one_def)
qed (simp add: yields_one_def)

lemma promote_finding_facts:
  assumes "promote_finding H objs finding = Inr (Some i)"
  shows "valid_item i \<and> dget finding ''rule_id'' = JStr (op_rule_id i) \<and>
    (\<exists>m. map_of MAPPING (op_rule_id i) = Some m) \<and>
    (\<exists>obj. op_affected_service_ids i = service_ids (op_rule_id i) obj (op_evidence i))"
proof -
  obtain rule m obj found where r: "dget finding ''rule_id'' = JStr rule" "map_of MAPPING rule = Some m"
    and p: "promote_as H rule m finding obj found = Inr i"
    using assms by (cases "dget finding ''rule_id''")
      (auto simp: promote_finding_def and_then_eq_Inr map_sum_eq_Inr split: option.splits)
  have v: "valid_item i" using promote_as_valid p by (rule yields_oneD)
  obtain kind mapped title where m: "m = (kind, mapped, title)" by (cases m)
  obtain k sev ev n where "post_init H (virt_item rule m finding obj k sev ev n) = Inr i"
    using p by (auto simp: promote_as_def Let_def and_then_eq_Inr)
  from post_init_facts [OF this] obtain q b where
    "i = (virt_item rule m finding obj k sev ev n)\<lparr>op_priority := q, op_id := b\<rparr>" by blast
  then have "op_rule_id i = rule" "op_affected_service_ids i = service_ids rule obj (op_evidence i)"
    by (simp_all add: virt_item_def m)
  with v r m show ?thesis by auto
qed

lemma keep_some_mem: "x \<in> set (keep_some xs) \<longleftrightarrow> Some x \<in> set xs"
  by (auto simp: keep_some_def split: option.splits)

lemma promoted_from:
  assumes "promote H tz a s now = Inr items" "i \<in> set items"
  obtains objs generated fs f where "objects_of (vs_objects s) = Inr objs"
    "virt_time tz (vs_generated_at s) = Inr generated"
    "promotable_findings H a s (map snd objs) (is_stale (va_stale_seconds a) now generated) = Inr fs"
    "f \<in> set fs" "promote_finding H objs f = Inr (Some i)"
proof -
  obtain objs generated fs os where o: "objects_of (vs_objects s) = Inr objs"
    "virt_time tz (vs_generated_at s) = Inr generated"
    "promotable_findings H a s (map snd objs) (is_stale (va_stale_seconds a) now generated) = Inr fs"
    and os: "map_res (promote_finding H objs) fs = Inr os" "items = sort_key promoted_order (keyed op_id (keep_some os))"
    using assms(1) by (auto simp: promote_def and_then_eq_Inr)
  have "i \<in> set (keep_some os)" using assms(2) os(2) set_keyed [of op_id "keep_some os"] by auto
  then have "Some i \<in> set os" by (simp add: keep_some_mem)
  from map_res_Inr_mem [OF os(1) this] obtain f where "f \<in> set fs" "promote_finding H objs f = Inr (Some i)" by auto
  with o show ?thesis by (rule that)
qed

lemma promote_valid: "yields valid_item (promote H tz a s now)"
proof (cases "promote H tz a s now")
  case (Inr items)
  have "valid_item i" if "i \<in> set items" for i
    using promoted_from [OF Inr that] promote_finding_facts by metis
  with Inr show ?thesis by (simp add: yields_def list_all_iff)
qed (simp add: yields_def)

section \<open>The result\<close>

definition result_items :: "ops_result \<Rightarrow> op_item list" where
  "result_items r = or_issues r @ or_risks r @ or_recommendations r"

lemma of_kind_mem: "i \<in> set (of_kind k xs) \<longleftrightarrow> i \<in> set xs \<and> op_kind i = k"
  by (auto simp: of_kind_def)

lemma group_items_mem:
  "list_all valid_item xs \<Longrightarrow> set (result_items (group_items xs)) = set xs"
  by (auto simp: result_items_def group_items_def of_kind_mem valid_item_def KINDS_def list_all_iff)

lemma distinct_of_kind: "distinct (map op_id xs) \<Longrightarrow> distinct (map op_id (of_kind k xs))"
  unfolding of_kind_def by (rule distinct_map_filter)

lemma distinct_group_items:
  assumes "distinct (map op_id xs)"
  shows "distinct (map op_id (result_items (group_items xs)))"
proof -
  have "op_id i \<noteq> op_id j" if "i \<in> set (of_kind a xs)" "j \<in> set (of_kind b xs)" "a \<noteq> b" for i j a b
    using that assms by (auto simp: of_kind_mem distinct_map inj_on_def)
  then have "set (map op_id (of_kind a xs)) \<inter> set (map op_id (of_kind b xs)) = {}" if "a \<noteq> b" for a b
    using that by fastforce
  then show ?thesis using distinct_of_kind [OF assms]
    by (simp add: result_items_def group_items_def Int_Un_distrib)
qed

lemma ordered_items_facts:
  "set (ordered_items xs) = set (keyed op_id xs)" "distinct (map op_id (ordered_items xs))"
  "sorted (map op_order (ordered_items xs))"
proof -
  have ms: "mset (ordered_items xs) = mset (keyed op_id xs)" by (simp add: ordered_items_def)
  then show "set (ordered_items xs) = set (keyed op_id xs)" by (rule mset_eq_setD)
  have "mset (map op_id (ordered_items xs)) = mset (map op_id (keyed op_id xs))" using ms by simp
  then show "distinct (map op_id (ordered_items xs))" by (metis distinct_keyed mset_eq_imp_distinct_iff)
qed (simp add: ordered_items_def)

lemma resolve_item_facts:
  "resolve_item rg i = Inr j \<Longrightarrow> \<exists>sid site. j = i\<lparr>op_site_id := sid, op_site := site\<rparr>"
proof -
  assume a: "resolve_item rg i = Inr j"
  show ?thesis
  proof (cases "truthy (op_site_id i) \<or> \<not> truthy (op_site i)")
    case True
    with a have "j = i\<lparr>op_site_id := op_site_id i, op_site := op_site i\<rparr>" by (simp add: resolve_item_def)
    then show ?thesis by blast
  next
    case False
    with a show ?thesis by (auto simp: resolve_item_def map_sum_eq_Inr)
  qed
qed

lemma evaluated_from:
  assumes "evaluated_items H inp c = Inr items" "i \<in> set items"
  shows "valid_item i \<and> (rests_on_report (ctx_assets c) i)"
proof -
  obtain rs vs where rs: "rule_items H c = Inr rs"
    and vs: "virtualisation_items H (ctx_tz c) (oin_settings inp) (oin_virtualisation inp) (ctx_now c) = Inr vs"
    and ms: "map_res (resolve_item (oin_sites inp)) (rs @ vs) = Inr items"
    using assms(1) by (auto simp: evaluated_items_def and_then_eq_Inr)
  from map_res_Inr_mem [OF ms assms(2)] obtain j where j: "j \<in> set (rs @ vs)" "resolve_item (oin_sites inp) j = Inr i"
    by auto
  from resolve_item_facts [OF j(2)] obtain sid site where i: "i = j\<lparr>op_site_id := sid, op_site := site\<rparr>" by auto
  have "valid_item j \<and> rests_on_report (ctx_assets c) j"
  proof (cases "j \<in> set rs")
    case True
    then show ?thesis using yieldsD [OF rule_items_valid rs] yieldsD [OF rule_items_rest rs] by simp
  next
    case False
    then have jv: "j \<in> set vs" using j(1) by simp
    then obtain s a where p: "promote H (ctx_tz c) a s (ctx_now c) = Inr vs"
      using vs by (auto simp: virtualisation_items_def and_then_eq_Inr split: option.splits)
    have "\<exists>m. map_of MAPPING (op_rule_id j) = Some m" using promoted_from [OF p jv] promote_finding_facts by metis
    then have "op_rule_id j \<notin> set OFFLINE_RULES"
      by (auto simp: MAPPING_def OFFLINE_RULES_def split: if_splits)
    then show ?thesis using yieldsD [OF promote_valid p jv] by (simp add: rests_on_report_def)
  qed
  then show ?thesis by (simp add: i valid_item_def rests_on_report_def)
qed

lemma evaluate_operations_cases:
  assumes "evaluate_operations H tz now inp = Inr r"
  obtains c items where "ops_context tz now inp = Inr c" "evaluated_items H inp c = Inr items"
    "r = group_items (ordered_items items)" "set (result_items r) = set (keyed op_id items)"
proof -
  obtain c items where c: "ops_context tz now inp = Inr c" "evaluated_items H inp c = Inr items"
    "r = group_items (ordered_items items)"
    using assms by (auto simp: evaluate_operations_def and_then_eq_Inr map_sum_eq_Inr)
  have "list_all valid_item (ordered_items items)"
    using evaluated_from [OF c(2)] set_keyed [of op_id items] by (auto simp: list_all_iff ordered_items_facts(1))
  from group_items_mem [OF this] have "set (result_items r) = set (keyed op_id items)"
    by (simp add: c(3) ordered_items_facts(1))
  with c show ?thesis by (rule that)
qed

text \<open>The order of the severities.\<close>

definition severity_rank :: "string \<Rightarrow> int" where
  "severity_rank s = (case map_of SEVERITY_BASE s of None \<Rightarrow> -1 | Some b \<Rightarrow> b)"

lemma band_order:
  "within_band s n \<Longrightarrow> within_band t m \<Longrightarrow> severity_rank s > severity_rank t \<Longrightarrow> m \<le> n"
  by (auto simp: within_band_def severity_rank_def SEVERITY_BASE_def clamp_def split: if_splits)

text \<open>
  C27. The result of an evaluation holds no identifier twice and only valid items (known kind,
  category and severity, a score within the band of the severity), the three lists are sorted by
  falling priority, then title, then identifier, and each holds the items of its own kind.
\<close>

theorem operations_result_well_formed:
  assumes "evaluate_operations H tz now inp = Inr r"
  shows "distinct (map op_id (result_items r)) \<and> list_all valid_item (result_items r) \<and>
    sorted (map op_order (or_issues r)) \<and> sorted (map op_order (or_risks r)) \<and>
    sorted (map op_order (or_recommendations r)) \<and>
    list_all (\<lambda>i. op_kind i = ''issue'') (or_issues r) \<and> list_all (\<lambda>i. op_kind i = ''risk'') (or_risks r) \<and>
    list_all (\<lambda>i. op_kind i = ''recommendation'') (or_recommendations r)"
proof -
  obtain c items where c: "evaluated_items H inp c = Inr items" "r = group_items (ordered_items items)"
    and st: "set (result_items r) = set (keyed op_id items)"
    using assms by (rule evaluate_operations_cases)
  have srt: "sorted (map op_order (of_kind k (ordered_items items)))" for k
    using ordered_items_facts(3) [of items] by (auto simp: of_kind_def intro: sorted_filter)
  have "list_all valid_item (result_items r)"
    using evaluated_from [OF c(1)] set_keyed [of op_id items] by (auto simp: list_all_iff st)
  moreover have "distinct (map op_id (result_items r))"
    unfolding c(2) by (rule distinct_group_items) (rule ordered_items_facts)
  ultimately show ?thesis using srt by (auto simp: c(2) group_items_def list_all_iff of_kind_mem)
qed

text \<open>
  No finding is lost: the identifiers of the result are those of all items the rules and the
  virtualisation adapter produced, and each is represented by the last item that carries it.
\<close>

theorem operations_result_complete:
  assumes "ops_context tz now inp = Inr c" "evaluated_items H inp c = Inr items"
    "evaluate_operations H tz now inp = Inr r"
  shows "op_id ` set items = op_id ` set (result_items r) \<and>
    (\<forall>i. i \<in> set (result_items r) \<longleftrightarrow> find (\<lambda>j. op_id j = op_id i) (rev items) = Some i)"
proof -
  obtain c' items' where c: "ops_context tz now inp = Inr c'" "evaluated_items H inp c' = Inr items'"
    and st: "set (result_items r) = set (keyed op_id items')"
    using assms(3) by (rule evaluate_operations_cases)
  then have "items' = items" using assms(1,2) by simp
  with st show ?thesis using image_keyed [of op_id items] keyed_last [of _ op_id items] by simp
qed

text \<open>
  Ranking by priority never inverts severity: of two reported items the one of the higher
  severity has at least the priority of the other, whatever weights the rules add.
\<close>

theorem priority_respects_severity:
  assumes "evaluate_operations H tz now inp = Inr r" "i \<in> set (result_items r)" "j \<in> set (result_items r)"
    "severity_rank (op_severity i) > severity_rank (op_severity j)"
  shows "op_priority j \<le> op_priority i"
proof -
  obtain c items where c: "evaluated_items H inp c = Inr items"
    and st: "set (result_items r) = set (keyed op_id items)"
    using assms(1) by (rule evaluate_operations_cases)
  have "valid_item k" if "k \<in> set (result_items r)" for k
    using evaluated_from [OF c] that set_keyed [of op_id items] st by blast
  then have "within_band (op_severity i) (op_priority i)" "within_band (op_severity j) (op_priority j)"
    using assms(2,3) by (simp_all add: valid_item_def)
  then show ?thesis using assms(4) by (rule band_order)
qed

text \<open>
  An item of one of the four offline rules is reported only for an asset of the canonical
  state whose \<open>online\<close> is explicitly false; unknown reachability is never an outage.
\<close>

theorem offline_issue_rests_on_report:
  assumes "ops_context tz now inp = Inr c" "evaluate_operations H tz now inp = Inr r"
    "i \<in> set (result_items r)" "op_rule_id i \<in> set OFFLINE_RULES"
  shows "\<exists>a \<in> set (ctx_assets c). dget a ''online'' = JBool False \<and>
    dget_or a ''canonical_id'' (JStr []) = op_canonical_id i"
proof -
  obtain c' items where c': "ops_context tz now inp = Inr c'" and c: "evaluated_items H inp c' = Inr items"
    and st: "set (result_items r) = set (keyed op_id items)"
    using assms(2) by (rule evaluate_operations_cases)
  have "c' = c" using assms(1) c' by simp
  with c have c: "evaluated_items H inp c = Inr items" by simp
  have "rests_on_report (ctx_assets c) i"
    using evaluated_from [OF c] assms(3) set_keyed [of op_id items] st by blast
  then show ?thesis using assms(4) by (auto simp: rests_on_report_def reported_offline_def offline_def)
qed

section \<open>A sample estate\<close>

definition sample_state :: dict where
  "sample_state =
     [(''assets'', JList [JObj [(''asset_id'', JStr ''a1''), (''canonical_id'', JStr ''c1''), (''hostname'', JStr ''sw1''),
        (''device_type'', JStr ''switch''), (''vendor'', JStr ''acme''), (''online'', JBool False)]]),
      (''collectors'', JList []),
      (''signals'', JObj [(''wan'', JList [JObj [(''name'', JStr ''isp''), (''available'', JBool False)]])])]"

definition sample_ops :: ops_inputs where
  "sample_ops = \<lparr>oin_state = Some sample_state, oin_registry = None, oin_virtualisation = None, oin_settings = [],
     oin_sites = registry_of [] []\<rparr>"

definition report_summary :: "ops_result res \<Rightarrow> (string \<times> string \<times> int) list option" where
  "report_summary r = (case r of Inl e \<Rightarrow> None
     | Inr x \<Rightarrow> Some (map (\<lambda>i. (op_rule_id i, op_severity i, op_priority i)) (result_items x)))"

lemma sample_summary: "report_summary (evaluate_operations rev 0 0 sample_ops) =
    Some [(''wan.unavailable'', ''Critical'', 95), (''network.switch_offline'', ''High'', 80)]"
  by code_simp

lemma sample_ops_evaluated:
  obtains r i j where "evaluate_operations rev 0 0 sample_ops = Inr r" "result_items r = [i, j]"
    "op_severity i = ''Critical''" "op_severity j = ''High''" "op_rule_id j = ''network.switch_offline''"
proof -
  obtain r where r: "evaluate_operations rev 0 0 sample_ops = Inr r"
    and m: "map (\<lambda>i. (op_rule_id i, op_severity i, op_priority i)) (result_items r) =
      [(''wan.unavailable'', ''Critical'', 95), (''network.switch_offline'', ''High'', 80)]"
    using sample_summary by (cases "evaluate_operations rev 0 0 sample_ops") (simp_all add: report_summary_def)
  from m obtain i j where "result_items r = [i, j]" by (auto simp: Cons_eq_map_conv)
  with r m show ?thesis by (intro that [of r i j]) simp_all
qed

theorem operations_result_well_formed_witness:
  "\<exists>r. evaluate_operations rev 0 0 sample_ops = Inr r \<and> distinct (map op_id (result_items r)) \<and>
     list_all valid_item (result_items r) \<and> length (result_items r) = 2"
proof -
  obtain r i j where "evaluate_operations rev 0 0 sample_ops = Inr r" "result_items r = [i, j]"
    by (rule sample_ops_evaluated)
  with operations_result_well_formed [OF this(1)] show ?thesis by auto
qed

theorem operations_result_complete_witness:
  "\<exists>c items r. evaluated_items rev sample_ops c = Inr items \<and> evaluate_operations rev 0 0 sample_ops = Inr r \<and>
     length (result_items r) = 2 \<and> op_id ` set items = op_id ` set (result_items r)"
proof -
  obtain r i j where r: "evaluate_operations rev 0 0 sample_ops = Inr r" "result_items r = [i, j]"
    by (rule sample_ops_evaluated)
  from r(1) obtain c items where c: "ops_context 0 0 sample_ops = Inr c" "evaluated_items rev sample_ops c = Inr items"
    by (rule evaluate_operations_cases)
  from operations_result_complete [OF this r(1)] r c show ?thesis by auto
qed

theorem priority_respects_severity_witness:
  "\<exists>r i j. evaluate_operations rev 0 0 sample_ops = Inr r \<and> result_items r = [i, j] \<and>
     op_severity i = ''Critical'' \<and> op_severity j = ''High'' \<and> op_priority j \<le> op_priority i"
proof -
  obtain r i j where r: "evaluate_operations rev 0 0 sample_ops = Inr r" "result_items r = [i, j]"
    "op_severity i = ''Critical''" "op_severity j = ''High''" by (rule sample_ops_evaluated)
  then have "op_priority j \<le> op_priority i"
    by (intro priority_respects_severity [of rev 0 0 sample_ops r i j])
      (simp_all add: severity_rank_def SEVERITY_BASE_def)
  with r show ?thesis by blast
qed

theorem offline_issue_rests_on_report_witness:
  "\<exists>c r i j. ops_context 0 0 sample_ops = Inr c \<and> evaluate_operations rev 0 0 sample_ops = Inr r \<and>
     result_items r = [i, j] \<and>
     (\<exists>a \<in> set (ctx_assets c). dget a ''online'' = JBool False \<and>
        dget_or a ''canonical_id'' (JStr []) = op_canonical_id j)"
proof -
  obtain r i j where r: "evaluate_operations rev 0 0 sample_ops = Inr r" "result_items r = [i, j]"
    "op_rule_id j = ''network.switch_offline''" by (rule sample_ops_evaluated)
  from r(1) obtain c items where c: "ops_context 0 0 sample_ops = Inr c" "evaluated_items rev sample_ops c = Inr items"
    by (rule evaluate_operations_cases)
  have "\<exists>a \<in> set (ctx_assets c). dget a ''online'' = JBool False \<and>
        dget_or a ''canonical_id'' (JStr []) = op_canonical_id j"
    by (rule offline_issue_rests_on_report [OF c(1) r(1)]) (simp_all add: r OFFLINE_RULES_def)
  with r c show ?thesis by blast
qed

end
