(* ===== verification/Virtualisation_Properties.thy ===== *)
theory Virtualisation_Properties
  imports Operations_Properties
begin

text \<open>
  What the promotion of virtualisation evidence guarantees: nothing but the management plane is
  affected by a failed collection or by stale evidence, an outage of a workload needs an
  observation, and stale evidence is always reported.
\<close>

section \<open>Synthetic findings\<close>

definition management_rules :: "string list" where
  "management_rules = [''virtualisation.collection_authentication'', ''virtualisation.collection_permission'',
     ''virtualisation.collection_partial'', ''virtualisation.evidence_stale'']"

lemma synthetic_rule [simp]: "dget (synthetic H rule obj sev reason action ev) ''rule_id'' = JStr rule"
  by (simp add: synthetic_def dget_def)

lemma collection_rule_management: "fst (collection_rule c) \<in> set management_rules"
  by (simp add: collection_rule_def management_rules_def)

lemma collection_finding_rule:
  "\<exists>r \<in> set management_rules. dget (collection_finding H dep objs c) ''rule_id'' = JStr r"
  using collection_rule_management by (auto simp: collection_finding_def Let_def)

lemma list_mem_cases: "x \<in> set (y # ys) \<Longrightarrow> (x = y \<Longrightarrow> P) \<Longrightarrow> (x \<in> set ys \<Longrightarrow> P) \<Longrightarrow> P"
  by auto

lemma management_service_ids:
  "rule \<in> set management_rules \<Longrightarrow> service_ids rule obj ev = [''virtualisation_management_plane'']"
proof -
  assume "rule \<in> set management_rules"
  then have "starts_with ''virtualisation.collection_'' rule \<or> rule = virt ''evidence_stale''"
    unfolding management_rules_def by (elim list_mem_cases) (simp_all add: starts_with_def virt_def)
  then have "starts_with ''virtualisation.collection_'' rule
      \<or> rule \<in> {virt ''manager_unreachable'', virt ''evidence_stale''}" by blast
  then show ?thesis unfolding service_ids_def by (rule if_P)
qed

text \<open>A workload is observed stopped although an expectation says it runs.\<close>

definition observed_stopped :: "expectation list \<Rightarrow> dict \<Rightarrow> bool" where
  "observed_stopped es obj = (is_workload obj \<and> dget obj ''power_state'' = JStr ''stopped'' \<and>
     (\<exists>e \<in> set es. ex_state e = ''running'' \<and> matches obj e = Inr True))"

lemma filter_by_mem: "filter_by P xs = Inr ys \<Longrightarrow> y \<in> set ys \<Longrightarrow> y \<in> set xs \<and> P y = Inr True"
proof (induction xs arbitrary: ys)
  case (Cons x xs)
  then show ?case by (auto simp: and_then_eq_Inr map_sum_eq_Inr split: if_splits)
qed simp

lemma expectation_of_Some:
  "expectation_of es obj = Inr (Some e) \<Longrightarrow> e \<in> set es \<and> matches obj e = Inr True"
proof -
  assume "expectation_of es obj = Inr (Some e)"
  then obtain ms where ms: "filter_by (matches obj) es = Inr ms" "(case ms of [] \<Rightarrow> Inr None | [e] \<Rightarrow> Inr (Some e)
      | _ \<Rightarrow> Inl (ValueError (''ambiguous workload expectations for '' @ py_str (dget obj ''canonical_id'')))) = Inr (Some e)"
    unfolding expectation_of_def and_then_eq_Inr by blast
  have "ms = [e]"
  proof (cases ms)
    case (Cons x xs)
    with ms(2) show ?thesis by (cases xs) simp_all
  qed (use ms in simp)
  with filter_by_mem [OF ms(1)] show ?thesis by simp
qed

lemma workload_findings_observed:
  assumes "workload_findings H a obj = Inr fs" "f \<in> set fs"
  shows "observed_stopped (va_expectations a) obj \<and>
    dget f ''rule_id'' = JStr ''virtualisation.expected_workload_stopped''"
proof -
  have w: "is_workload obj" using assms by (auto simp: workload_findings_def split: if_splits)
  with assms obtain e where e: "expectation_of (va_expectations a) obj = Inr (Some e)"
    "ex_state e = ''running''" "dget obj ''power_state'' = JStr ''stopped''" "f = stopped_finding H obj e"
    by (auto simp: workload_findings_def map_sum_eq_Inr split: if_splits option.splits)
  then show ?thesis using w expectation_of_Some [OF e(1)]
    unfolding observed_stopped_def by (auto simp: stopped_finding_def)
qed

lemma stale_findings_mem:
  "f \<in> set (stale_findings H a g stale objs) \<Longrightarrow> stale \<and> objs \<noteq> [] \<and>
     dget f ''rule_id'' = JStr ''virtualisation.evidence_stale''"
  by (auto simp: stale_findings_def stale_finding_def split: list.splits if_splits)

lemma objects_of_values:
  "objects_of ds = Inr objs \<Longrightarrow> (k, d) \<in> set objs \<Longrightarrow> d \<in> set ds \<and> object_id d = Inr k"
proof -
  assume a: "objects_of ds = Inr objs" "(k, d) \<in> set objs"
  then obtain ps where ps: "map_res with_id ds = Inr ps" "objs = keyed fst ps" by (auto simp: objects_of_def map_sum_eq_Inr)
  then have "(k, d) \<in> set ps" using a set_keyed [of fst ps] by blast
  from map_res_Inr_mem [OF ps(1) this] show ?thesis by (auto simp: with_id_def map_sum_eq_Inr)
qed

text \<open>
  C28. A failed or partial collection and stale evidence affect the management plane only. An item
  that affects anything else rests on a finding of the state, or on a workload observed stopped
  that a configured expectation says to be running.
\<close>

theorem management_failure_is_not_an_outage:
  assumes "promote H tz a s now = Inr items" "i \<in> set items"
    "op_affected_service_ids i \<noteq> [''virtualisation_management_plane'']"
  shows "(\<exists>f \<in> set (vs_findings s). dget f ''rule_id'' = JStr (op_rule_id i)) \<or>
    (op_rule_id i = ''virtualisation.expected_workload_stopped'' \<and>
     (\<exists>obj \<in> set (vs_objects s). observed_stopped (va_expectations a) obj))"
proof -
  obtain objs generated fs f where o: "objects_of (vs_objects s) = Inr objs"
    and all: "promotable_findings H a s (map snd objs) (is_stale (va_stale_seconds a) now generated) = Inr fs"
    and f: "f \<in> set fs" "promote_finding H objs f = Inr (Some i)"
    using assms(1,2) by (rule promoted_from)
  have rule: "dget f ''rule_id'' = JStr (op_rule_id i)" using promote_finding_facts [OF f(2)] by blast
  have other: "op_rule_id i \<notin> set management_rules"
    using promote_finding_facts [OF f(2)] management_service_ids assms(3) by metis
  obtain ws where ws: "map_res (workload_findings H a) (map snd objs) = Inr ws"
    and fs: "fs = vs_findings s @ map (collection_finding H (vs_deployment_id s) (map snd objs))
         (filter (\<lambda>c. \<not> collected_fully c) (vs_collections s)) @
       concat ws @ stale_findings H a (vs_generated_at s) (is_stale (va_stale_seconds a) now generated) (map snd objs)"
    using all by (auto simp: promotable_findings_def and_then_eq_Inr)
  consider "f \<in> set (vs_findings s)"
    | c where "f = collection_finding H (vs_deployment_id s) (map snd objs) c"
    | w where "w \<in> set ws" "f \<in> set w"
    | "dget f ''rule_id'' = JStr ''virtualisation.evidence_stale''"
    using f(1) stale_findings_mem unfolding fs by auto
  then show ?thesis
  proof cases
    case 1
    with rule show ?thesis by blast
  next
    case 2
    then show ?thesis using collection_finding_rule [of H "vs_deployment_id s" "map snd objs" c] rule other by auto
  next
    case 3
    from map_res_Inr_mem [OF ws 3(1)] obtain k d where d: "(k, d) \<in> set objs" "workload_findings H a d = Inr w" by auto
    have "d \<in> set (vs_objects s)" using objects_of_values [OF o d(1)] by blast
    then show ?thesis using workload_findings_observed [OF d(2) 3(2)] rule by auto
  next
    case 4
    then show ?thesis using rule other by (simp add: management_rules_def)
  qed
qed

section \<open>Stale evidence\<close>

lemma map_res_append: "map_res f (xs @ ys) = and_then (map_res f xs) (\<lambda>as. map_sum id ((@) as) (map_res f ys))"
proof (induction xs)
  case Nil
  then show ?case by (cases "map_res f ys") simp_all
next
  case (Cons x xs)
  then show ?case by (cases "f x"; cases "map_res f xs"; cases "map_res f ys") simp_all
qed

lemma keyed_snoc_mem: "x \<in> set (keyed f (xs @ [x]))"
  by (simp add: keyed_last)

text \<open>An item keeps the kind of its rule and, where that is unknown, its severity.\<close>

lemma promote_finding_mapped:
  assumes "promote_finding H objs f = Inr (Some i)" "map_of MAPPING (op_rule_id i) = Some (kind, mapped, title)"
    "mapped = ''Unknown''" "op_rule_id i \<noteq> virt ''storage_inaccessible''"
    "op_rule_id i \<notin> {virt ''host_disconnected'', virt ''host_not_responding''}"
  shows "op_kind i = kind \<and> op_severity i = ''Unknown''"
proof -
  obtain rule m obj found where r: "map_of MAPPING rule = Some m"
    and p: "promote_as H rule m f obj found = Inr i"
    using assms(1) by (cases "dget f ''rule_id''")
      (auto simp: promote_finding_def and_then_eq_Inr map_sum_eq_Inr split: option.splits)
  obtain k ev n where "post_init H (virt_item rule m f obj k (item_severity rule (fst (snd m)) found obj) ev n) = Inr i"
    using p by (auto simp: promote_as_def Let_def and_then_eq_Inr)
  from post_init_facts [OF this] obtain q b where
    i: "i = (virt_item rule m f obj k (item_severity rule (fst (snd m)) found obj) ev n)\<lparr>op_priority := q, op_id := b\<rparr>" by blast
  obtain a1 a2 a3 where m: "m = (a1, a2, a3)" by (cases m)
  from i have "op_rule_id i = rule" by (simp add: virt_item_def m)
  with assms(2) r have "m = (kind, mapped, title)" by simp
  with i assms(3-5) show ?thesis
    by (simp add: virt_item_def item_severity_def canonical_severity_def)
qed

lemma stale_item_facts:
  assumes "promote_finding H objs f = Inr (Some i)" "dget f ''rule_id'' = JStr ''virtualisation.evidence_stale''"
  shows "op_rule_id i = ''virtualisation.evidence_stale'' \<and> op_severity i = ''Unknown'' \<and> op_kind i = ''risk''"
proof -
  have r: "op_rule_id i = ''virtualisation.evidence_stale''" using promote_finding_facts [OF assms(1)] assms(2) by simp
  have "op_kind i = ''risk'' \<and> op_severity i = ''Unknown''"
    by (rule promote_finding_mapped [OF assms(1)]) (simp_all add: r MAPPING_def virt_def)
  with r show ?thesis by simp
qed

text \<open>
  Stale or undated evidence is always reported: when the state has objects and its time is
  missing or older than the limit, the promoted items contain a stale-evidence risk of unknown
  severity.
\<close>

theorem stale_evidence_is_reported:
  assumes "promote H tz a s now = Inr items" "virt_time tz (vs_generated_at s) = Inr generated"
    "is_stale (va_stale_seconds a) now generated" "vs_objects s \<noteq> []"
  shows "\<exists>i \<in> set items. op_rule_id i = ''virtualisation.evidence_stale'' \<and> op_severity i = ''Unknown'' \<and>
    op_kind i = ''risk''"
proof -
  obtain objs fs os where o: "objects_of (vs_objects s) = Inr objs"
    and fs: "promotable_findings H a s (map snd objs) True = Inr fs"
    and os: "map_res (promote_finding H objs) fs = Inr os" "items = sort_key promoted_order (keyed op_id (keep_some os))"
    using assms(1-3) by (auto simp: promote_def and_then_eq_Inr)
  have "objs \<noteq> []"
  proof
    assume "objs = []"
    then obtain ps where "map_res with_id (vs_objects s) = Inr ps" "keyed fst ps = []"
      using o by (auto simp: objects_of_def map_sum_eq_Inr)
    with image_keyed [of fst ps] assms(4) show False by (cases "vs_objects s") (auto simp: and_then_eq_Inr map_sum_eq_Inr)
  qed
  then obtain f gs where f: "fs = gs @ [f]" "f = stale_finding H a (vs_generated_at s)
      (first_max observed_text (snd (hd objs)) (map snd (tl objs)))"
    using fs by (cases objs) (auto simp: promotable_findings_def and_then_eq_Inr stale_findings_def)
  obtain as b where b: "os = as @ [b]" "promote_finding H objs f = Inr b"
    using os(1) unfolding f(1) by (auto simp: map_res_append and_then_eq_Inr map_sum_eq_Inr)
  have r: "dget f ''rule_id'' = JStr ''virtualisation.evidence_stale''" by (simp add: f(2) stale_finding_def)
  obtain i where i: "b = Some i"
    using b(2) r by (auto simp: promote_finding_def and_then_eq_Inr map_sum_eq_Inr MAPPING_def)
  have "i \<in> set (keyed op_id (keep_some os))"
    by (simp add: b(1) i keep_some_def keyed_snoc_mem)
  then have "i \<in> set items" by (simp add: os(2))
  moreover have "op_rule_id i = ''virtualisation.evidence_stale'' \<and> op_severity i = ''Unknown'' \<and> op_kind i = ''risk''"
    by (rule stale_item_facts [OF b(2) [unfolded i] r])
  ultimately show ?thesis by blast
qed

section \<open>A sample estate\<close>

definition sample_virt :: virt_state where
  "sample_virt = \<lparr>vs_generated_at = JNull, vs_deployment_id = JStr ''d'',
     vs_objects = [[(''canonical_id'', JStr ''virt:vm:1''), (''kind'', JStr ''vm''), (''name'', JStr ''db-1''),
       (''power_state'', JStr ''stopped'')]],
     vs_findings = [], vs_collections = [[(''provider'', JStr ''vmware''), (''result'', JStr ''failed'')]]\<rparr>"

definition sample_adapter :: ops_adapter where
  "sample_adapter = \<lparr>va_expectations = [\<lparr>ex_match = [(''name'', JStr ''db-*'')], ex_state = ''running'',
     ex_priority = 0, ex_criticality = JStr ''high''\<rparr>], va_stale_seconds = 900\<rparr>"

definition services_of :: "op_item list res \<Rightarrow> (string \<times> string list) list option" where
  "services_of r = (case r of Inl e \<Rightarrow> None
     | Inr is \<Rightarrow> Some (map (\<lambda>i. (op_rule_id i, op_affected_service_ids i)) is))"

lemma sample_promotion: "services_of (promote rev 0 sample_adapter sample_virt 0) =
    Some [(''virtualisation.expected_workload_stopped'', [''workload_availability'']),
      (''virtualisation.evidence_stale'', [''virtualisation_management_plane'']),
      (''virtualisation.collection_partial'', [''virtualisation_management_plane''])]"
  by code_simp

lemma sample_promoted:
  obtains items i j k where "promote rev 0 sample_adapter sample_virt 0 = Inr items" "items = [i, j, k]"
    "op_affected_service_ids i = [''workload_availability'']"
proof -
  obtain items where r: "promote rev 0 sample_adapter sample_virt 0 = Inr items"
    and m: "map (\<lambda>i. (op_rule_id i, op_affected_service_ids i)) items =
     [(''virtualisation.expected_workload_stopped'', [''workload_availability'']),
      (''virtualisation.evidence_stale'', [''virtualisation_management_plane'']),
      (''virtualisation.collection_partial'', [''virtualisation_management_plane''])]"
    using sample_promotion by (cases "promote rev 0 sample_adapter sample_virt 0") (simp_all add: services_of_def)
  from m obtain i j k where "items = [i, j, k]" by (auto simp: Cons_eq_map_conv)
  with r m show ?thesis by (intro that [of items i j k]) simp_all
qed

theorem management_failure_is_not_an_outage_witness:
  "\<exists>obj \<in> set (vs_objects sample_virt). observed_stopped (va_expectations sample_adapter) obj"
proof -
  obtain items i j k where p: "promote rev 0 sample_adapter sample_virt 0 = Inr items" "items = [i, j, k]"
    "op_affected_service_ids i = [''workload_availability'']" by (rule sample_promoted)
  have "vs_findings sample_virt = []" by (simp add: sample_virt_def)
  with management_failure_is_not_an_outage [OF p(1), of i] p show ?thesis by simp
qed

theorem stale_evidence_is_reported_witness:
  "\<exists>items. promote rev 0 sample_adapter sample_virt 0 = Inr items \<and>
     (\<exists>i \<in> set items. op_rule_id i = ''virtualisation.evidence_stale'' \<and> op_severity i = ''Unknown'' \<and>
        op_kind i = ''risk'')"
proof -
  obtain items i j k where p: "promote rev 0 sample_adapter sample_virt 0 = Inr items" "items = [i, j, k]"
    by (rule sample_promoted)
  have "virt_time 0 (vs_generated_at sample_virt) = Inr None" by code_simp
  from stale_evidence_is_reported [OF p(1) this] p(1) show ?thesis by (simp add: is_stale_def sample_virt_def)
qed

end
