(* ===== verification/Virtualisation_Mapping.thy ===== *)
theory Virtualisation_Mapping
  imports Py_Float
begin

text \<open>
  \<open>analysis/virtualisation\<close>, \<open>normalise.py\<close>, the identifiers of \<open>models.py\<close> and
  \<open>mapping.py\<close>: the canonical objects of a provider contract. An object is its dictionary in
  the order the code builds it; SHA-256 is the parameter \<open>H\<close>.
\<close>

section \<open>Identifiers and states\<close>

definition PROVIDERS :: "string list" where
  "PROVIDERS = [''vmware'', ''hyperv'', ''proxmox'']"

definition virt_canonical_id :: "(string \<Rightarrow> string) \<Rightarrow> string \<Rightarrow> string \<Rightarrow> string \<Rightarrow> string \<Rightarrow> string res" where
  "virt_canonical_id H provider kind endpoint source =
     (if provider \<notin> set PROVIDERS then Inl (ValueError (''unsupported virtualisation provider: '' @ provider))
      else Inr (''virt:'' @ kind @ '':'' @
        take 24 (H (dumps (jstrs [provider, kind, casefold endpoint, source])))))"

definition POWER_STATES :: "(string \<times> string) list" where
  "POWER_STATES = [(''poweredon'', ''running''), (''running'', ''running''), (''up'', ''running''),
     (''poweredoff'', ''stopped''), (''off'', ''stopped''), (''stopped'', ''stopped''), (''paused'', ''paused''),
     (''suspended'', ''suspended''), (''saved'', ''saved'')]"

definition power_state :: "json \<Rightarrow> string" where
  "power_state v =
     (case map_of POWER_STATES (casefold (remove_char CHR ''-'' (remove_char CHR ''_'' (py_str (por v (JStr [])))))) of
       None \<Rightarrow> ''unknown'' | Some s \<Rightarrow> s)"

definition AGENTS :: "(string \<times> string) list" where
  "AGENTS = [(''vmware'', ''VMware Tools''), (''hyperv'', ''Hyper-V Integration Services''),
     (''proxmox'', ''QEMU Guest Agent'')]"

section \<open>Objects\<close>

text \<open>What every object of one contract shares.\<close>

record contract_env =
  ce_hash :: "string \<Rightarrow> string"
  ce_provider :: string
  ce_endpoint :: string
  ce_deployment :: json
  ce_site :: json
  ce_observed :: string

definition native_id :: "dict \<Rightarrow> string res" where
  "native_id native = (case map_of native ''id'' of None \<Rightarrow> Inl (KeyError ''id'') | Some v \<Rightarrow> Inr (py_str v))"

definition base_object :: "contract_env \<Rightarrow> string \<Rightarrow> dict \<Rightarrow> dict res" where
  "base_object e kind native =
     and_then (native_id native) (\<lambda>source.
     and_then (virt_canonical_id (ce_hash e) (ce_provider e) kind (ce_endpoint e) source) (\<lambda>cid.
     and_then (sorted_strs (dget native ''tags'')) (\<lambda>tags.
     (let name = py_str (por (dget native ''name'') (JStr source)) in
      Inr [(''kind'', JStr kind), (''deployment_id'', ce_deployment e), (''site_id'', ce_site e),
        (''provider'', JStr (ce_provider e)), (''source_id'', JStr source), (''canonical_id'', JStr cid),
        (''name'', JStr name), (''display_name'', JStr name), (''source_endpoint'', JStr (ce_endpoint e)),
        (''collected_at'', JStr (ce_observed e)),
        (''observed_at'', JStr (py_str (por (dget native ''observed_at'') (JStr (ce_observed e))))),
        (''confidence'', JStr (py_str (por (dget native ''confidence'') (JStr ''high'')))),
        (''evidence'', JObj [(''native_state'', dget native ''state''),
          (''native'', dget_or native ''metadata'' (JObj []))]),
        (''tags'', jstrs tags)]))))"

definition picked :: "string list \<Rightarrow> dict \<Rightarrow> dict" where
  "picked keys native = map (\<lambda>k. (k, dget native k)) keys"

definition plain_object :: "contract_env \<Rightarrow> string \<Rightarrow> string list \<Rightarrow> dict \<Rightarrow> dict res" where
  "plain_object e kind keys native =
     map_sum id (\<lambda>b. dmerge b (picked keys native)) (base_object e kind native)"

definition MANAGER_KEYS :: "string list" where
  "MANAGER_KEYS = [''version'', ''build'', ''reachable'']"

definition CLUSTER_KEYS :: "string list" where
  "CLUSTER_KEYS = [''manager_id'', ''total_host_count'', ''enabled_host_count'', ''degraded_host_count'',
     ''maintenance_host_count'', ''ha_status'', ''admission_control_status'', ''failover_capacity'',
     ''cpu_total_mhz'', ''cpu_used_mhz'', ''memory_total_bytes'', ''memory_used_bytes'', ''health'']"

definition HOST_KEYS :: "string list" where
  "HOST_KEYS = [''manager_id'', ''cluster_id'', ''fqdn'', ''management_address'', ''platform_version'', ''build'',
     ''hardware_manufacturer'', ''hardware_model'', ''serial_number'', ''connection_state'', ''maintenance'',
     ''uptime_seconds'', ''cpu_model'', ''physical_sockets'', ''core_count'', ''logical_processor_count'',
     ''cpu_total_mhz'', ''cpu_used_mhz'', ''memory_total_bytes'', ''memory_used_bytes'', ''vm_count'',
     ''running_vm_count'', ''ha_participation'', ''health'']"

definition WORKLOAD_KEYS :: "string list" where
  "WORKLOAD_KEYS = [''manager_id'', ''cluster_id'', ''host_id'', ''guest_hostname'', ''guest_operating_system'',
     ''vcpu'', ''memory_bytes'', ''provisioned_storage_bytes'', ''consumed_storage_bytes'', ''creation_time'',
     ''uptime_seconds'', ''replication_state'', ''ha_protected'', ''template'']"

definition STORAGE_KEYS :: "string list" where
  "STORAGE_KEYS = [''manager_id'', ''cluster_id'', ''host_id'', ''storage_type'', ''scope'', ''capacity_bytes'',
     ''used_bytes'', ''free_bytes'', ''accessible'', ''shared'', ''thin_provisioned'', ''alarm_state'']"

definition NETWORK_KEYS :: "string list" where
  "NETWORK_KEYS = [''manager_id'', ''cluster_id'', ''host_id'', ''network_type'', ''vlan_id'',
     ''connected_workload_count'', ''uplink_evidence'']"

section \<open>Snapshots\<close>

text \<open>The difference of two datetimes in whole days; naive and aware ones do not mix.\<close>

fun days_apart :: "datetime \<Rightarrow> datetime \<Rightarrow> int res" where
  "days_apart (Datetime a (Some x)) (Datetime b (Some y)) = Inr (((a - x) - (b - y)) div day_us)"
| "days_apart (Datetime a None) (Datetime b None) = Inr ((a - b) div day_us)"
| "days_apart _ _ = Inl (TypeError ''cannot subtract offset-naive and offset-aware datetimes'')"

definition snapshot_age :: "datetime \<Rightarrow> dict \<Rightarrow> json res" where
  "snapshot_age now native = (let age = dget native ''age_days''; created = dget native ''created_at'' in
     if age = JNull \<and> truthy created then
       (case fromisoformat (replace_z (py_str created)) of None \<Rightarrow> Inr JNull
        | Some t \<Rightarrow> map_sum id (\<lambda>d. JInt (max 0 d)) (days_apart now t))
     else Inr age)"

definition snapshot_object :: "contract_env \<Rightarrow> datetime \<Rightarrow> dict \<Rightarrow> dict res" where
  "snapshot_object e now native =
     and_then (base_object e ''snapshot'' native) (\<lambda>b.
     map_sum id (\<lambda>age. dmerge b
       [(''workload_id'', dget native ''workload_id''),
        (''snapshot_type'', dget_or native ''snapshot_type'' (JStr ''snapshot'')),
        (''created_at'', dget native ''created_at''), (''age_days'', age),
        (''description'', dget native ''description''), (''parent_id'', dget native ''parent_id''),
        (''accessible'', dget_or native ''accessible'' (JBool True))]) (snapshot_age now native))"

text \<open>The snapshots of a workload: those whose workload id has the same text.\<close>

definition snapshots_of :: "dict list \<Rightarrow> string \<Rightarrow> dict list" where
  "snapshots_of snapshots i = filter (\<lambda>s. py_str (dget s ''workload_id'') = i) snapshots"

fun want_age :: "json \<Rightarrow> int res" where
  "want_age (JInt i) = Inr i"
| "want_age _ = Inl (Unmodelled ''age'')"

definition oldest_age :: "dict list \<Rightarrow> json res" where
  "oldest_age snapshots =
     map_sum id (\<lambda>ages. case ages of [] \<Rightarrow> JNull | a # as \<Rightarrow> JInt (foldl max a as))
       (map_res want_age (filter (\<lambda>v. v \<noteq> JNull) (map (\<lambda>s. dget s ''age_days'') snapshots)))"

section \<open>Workloads and storage\<close>

definition listed :: "dict \<Rightarrow> string \<Rightarrow> (string \<times> json) res" where
  "listed native k = map_sum id (\<lambda>xs. (k, JList xs)) (py_iter (por (dget native k) (JList [])))"

definition agent_of :: "string \<Rightarrow> json res" where
  "agent_of provider = (case map_of AGENTS provider of None \<Rightarrow> Inl (KeyError provider) | Some a \<Rightarrow> Inr (JStr a))"

definition workload_extra :: "contract_env \<Rightarrow> dict list \<Rightarrow> dict \<Rightarrow> dict res" where
  "workload_extra e mine native =
     and_then (agent_of (ce_provider e)) (\<lambda>agent.
     and_then (map_res (listed native) [''ip_addresses'', ''mac_addresses'', ''network_ids'', ''storage_ids'']) (\<lambda>lists.
     map_sum id (\<lambda>oldest. [(''power_state'', JStr (power_state (dget native ''state''))),
         (''guest_agent_type'', agent), (''guest_agent_state'', dget native ''guest_agent_state'')] @ lists @
         [(''snapshot_count'', JInt (int (length mine))), (''oldest_snapshot_age_days'', oldest)]) (oldest_age mine)))"

definition workload_object :: "contract_env \<Rightarrow> dict list \<Rightarrow> string \<Rightarrow> dict \<Rightarrow> dict res" where
  "workload_object e snapshots kind native =
     and_then (plain_object e kind WORKLOAD_KEYS native) (\<lambda>b.
     and_then (native_id native) (\<lambda>i.
     map_sum id (dmerge b) (workload_extra e (snapshots_of snapshots i) native)))"

fun jfloat_opt :: "string option \<Rightarrow> json" where
  "jfloat_opt None = JNull"
| "jfloat_opt (Some s) = JFloat s"

definition storage_object :: "contract_env \<Rightarrow> dict \<Rightarrow> dict res" where
  "storage_object e native =
     and_then (plain_object e ''storage'' STORAGE_KEYS native) (\<lambda>b.
     map_sum id (\<lambda>p. dset b ''utilisation_percent'' (dget_or native ''utilisation_percent'' (jfloat_opt p)))
       (percentage (dget native ''used_bytes'') (dget native ''capacity_bytes'')))"

section \<open>The contract\<close>

definition natives :: "dict \<Rightarrow> string \<Rightarrow> dict list res" where
  "natives contract k = dict_list (dget_or contract k (JList []))"

definition mapped :: "(dict \<Rightarrow> dict res) \<Rightarrow> dict \<Rightarrow> string \<Rightarrow> dict list res" where
  "mapped f contract k = and_then (natives contract k) (map_res f)"

definition manager_objects :: "contract_env \<Rightarrow> dict \<Rightarrow> dict list res" where
  "manager_objects e contract = (let manager = dget contract ''manager'' in
     if \<not> truthy manager then Inr []
     else and_then (want_dict manager) (\<lambda>m. map_sum id (\<lambda>x. [x]) (plain_object e ''manager'' MANAGER_KEYS m)))"

definition object_order :: "dict \<Rightarrow> string \<times> string" where
  "object_order d = (py_str (dget d ''kind''), py_str (dget d ''canonical_id''))"

definition contract_objects :: "contract_env \<Rightarrow> dict \<Rightarrow> datetime \<Rightarrow> dict list res" where
  "contract_objects e contract now =
     and_then (manager_objects e contract) (\<lambda>managers.
     and_then (mapped (plain_object e ''cluster'' CLUSTER_KEYS) contract ''clusters'') (\<lambda>clusters.
     and_then (mapped (plain_object e ''host'' HOST_KEYS) contract ''hosts'') (\<lambda>hosts.
     and_then (mapped (snapshot_object e now) contract ''snapshots'') (\<lambda>snapshots.
     and_then (mapped (workload_object e snapshots ''vm'') contract ''vms'') (\<lambda>vms.
     and_then (mapped (workload_object e snapshots ''container'') contract ''containers'') (\<lambda>containers.
     and_then (mapped (storage_object e) contract ''storage'') (\<lambda>storage.
     and_then (mapped (plain_object e ''network'' NETWORK_KEYS) contract ''networks'') (\<lambda>networks.
     Inr (managers @ clusters @ hosts @ vms @ containers @ storage @ networks @ snapshots)))))))))"

definition map_contract :: "(string \<Rightarrow> string) \<Rightarrow> dict \<Rightarrow> string \<Rightarrow> json \<Rightarrow> json \<Rightarrow> string \<Rightarrow> dict list res" where
  "map_contract H contract endpoint deployment site observed =
     (case map_of contract ''provider'' of None \<Rightarrow> Inl (KeyError ''provider'')
      | Some p \<Rightarrow> (case fromisoformat (replace_z observed) of
          None \<Rightarrow> Inl (ValueError ''Invalid isoformat string'')
        | Some now \<Rightarrow> map_sum id (sort_key object_order)
            (contract_objects \<lparr>ce_hash = H, ce_provider = py_str p, ce_endpoint = endpoint,
              ce_deployment = deployment, ce_site = site, ce_observed = observed\<rparr> contract now)))"

text \<open>The parsers of the three providers accept version 1 of their own contract.\<close>

definition parse_contract :: "string \<Rightarrow> json \<Rightarrow> dict res" where
  "parse_contract provider v = (case v of
     JObj d \<Rightarrow> if \<not> py_eq (dget d ''schema_version'') (JInt 1) then Inl (ValueError ''unsupported schema version'')
       else if dget d ''provider'' \<noteq> JStr provider then Inl (ValueError ''invalid provider'') else Inr d
   | _ \<Rightarrow> Inl (ValueError ''unsupported schema version''))"

end
