(* ===== verification/Virtualisation_Health.thy ===== *)
theory Virtualisation_Health
  imports Virtualisation_Mapping
begin

text \<open>
  \<open>analysis/virtualisation/health.py\<close>: the findings of the canonical objects against the
  thresholds of the deployment.
\<close>

section \<open>Findings\<close>

text \<open>\<open>json.dumps(v, sort_keys=True)\<close> with the default separators.\<close>

fun dumps_spaced :: "json \<Rightarrow> string" where
  "dumps_spaced (JList xs) = ''['' @ join '', '' (map dumps_spaced xs) @ '']''"
| "dumps_spaced (JObj kvs) =
     ''{'' @ join '', '' (map (\<lambda>(k, t). dumps_str k @ '': '' @ t)
        (sort_key fst (map (\<lambda>(k, v). (k, dumps_spaced v)) kvs))) @ ''}''"
| "dumps_spaced v = dumps v"

definition field :: "dict \<Rightarrow> string \<Rightarrow> json res" where
  "field d k = (case map_of d k of None \<Rightarrow> Inl (KeyError k) | Some v \<Rightarrow> Inr v)"

definition health_finding :: "(string \<Rightarrow> string) \<Rightarrow> string \<Rightarrow> string \<Rightarrow> dict \<Rightarrow> string \<Rightarrow> string \<Rightarrow> dict \<Rightarrow> string
    \<Rightarrow> dict list res" where
  "health_finding H rule severity obj reason action evidence confidence =
     and_then (map_res (field obj) [''canonical_id'', ''provider'', ''deployment_id'', ''site_id'', ''display_name''])
     (\<lambda>vs. Inr [
       [(''id'', JStr (''virt:'' @ take 20 (H (dumps_spaced (JList [JStr rule, dget obj ''canonical_id'', JObj evidence]))))),
        (''rule_id'', JStr rule), (''provider'', dget obj ''provider''),
        (''deployment_id'', dget obj ''deployment_id''), (''site_id'', dget obj ''site_id''),
        (''canonical_id'', dget obj ''canonical_id''), (''object_name'', dget obj ''display_name''),
        (''severity'', JStr severity), (''confidence'', JStr confidence), (''reason'', JStr reason),
        (''recommended_operator_check'', JStr action), (''evidence'', JObj evidence),
        (''first_observed'', dget obj ''observed_at''), (''last_observed'', dget obj ''observed_at'')]])"

abbreviation guarded :: "bool \<Rightarrow> dict list res \<Rightarrow> dict list res" where
  "guarded b r \<equiv> (if b then r else Inr [])"

text \<open>Appending the findings of the branches in turn.\<close>

definition in_turn :: "dict list res list \<Rightarrow> dict list res" where
  "in_turn rs = map_sum id concat (map_res id rs)"

record thresholds =
  th_cpu :: string
  th_memory :: string
  th_storage_warning :: string
  th_storage_critical :: string
  th_snapshot_days :: int
  th_snapshot_count :: int
  th_maintenance :: "json list"

definition thresholds_of :: "dict \<Rightarrow> thresholds res" where
  "thresholds_of t =
     and_then (py_float (dget_or t ''host_cpu_warning_percent'' (JInt 85))) (\<lambda>cpu.
     and_then (py_float (dget_or t ''host_memory_warning_percent'' (JInt 85))) (\<lambda>memory.
     and_then (py_float (dget_or t ''storage_warning_percent'' (JInt 80))) (\<lambda>warning.
     and_then (py_float (dget_or t ''storage_critical_percent'' (JInt 90))) (\<lambda>critical.
     and_then (py_int (dget_or t ''snapshot_age_warning_days'' (JInt 30))) (\<lambda>days.
     and_then (py_int (dget_or t ''snapshot_count_warning'' (JInt 3))) (\<lambda>count.
     and_then (py_iter (dget_or t ''expected_maintenance_host_ids'' (JList []))) (\<lambda>maintenance.
     Inr \<lparr>th_cpu = cpu, th_memory = memory, th_storage_warning = warning, th_storage_critical = critical,
       th_snapshot_days = days, th_snapshot_count = count, th_maintenance = maintenance\<rparr>)))))))"

section \<open>The rules\<close>

definition manager_findings :: "(string \<Rightarrow> string) \<Rightarrow> dict \<Rightarrow> dict list res" where
  "manager_findings H obj = guarded (dget obj ''reachable'' = JBool False)
     (health_finding H ''virtualisation.manager_unreachable'' ''Critical'' obj
       ''The management endpoint is unreachable.''
       ''Verify endpoint reachability, TLS trust and delegated credentials.''
       [(''reachable'', JBool False)] ''high'')"

definition cluster_findings :: "(string \<Rightarrow> string) \<Rightarrow> dict \<Rightarrow> dict list res" where
  "cluster_findings H obj = (let health = dget obj ''health'' in
     guarded (health \<in> {JStr ''warning'', JStr ''critical'', JStr ''degraded''})
       (health_finding H ''virtualisation.cluster_degraded''
         (if health = JStr ''critical'' then ''Critical'' else ''High'') obj
         ''The cluster reports degraded health.''
         ''Review cluster alarms, host quorum and remaining failover capacity.''
         [(''health'', health), (''degraded_hosts'', dget obj ''degraded_host_count'')] ''high''))"

definition connection_findings :: "(string \<Rightarrow> string) \<Rightarrow> dict \<Rightarrow> dict list res" where
  "connection_findings H obj = (let connection = casefold (py_str (dget_or obj ''connection_state'' (JStr []))) in
     guarded (connection \<in> {''disconnected'', ''not_responding'', ''notresponding''})
       (health_finding H ''virtualisation.host_disconnected'' ''Critical'' obj
         (''Host connection state is '' @ connection @ ''.'')
         ''Confirm host management connectivity and cluster membership.''
         [(''connection_state'', JStr connection)] ''high''))"

definition maintenance_findings :: "(string \<Rightarrow> string) \<Rightarrow> thresholds \<Rightarrow> dict \<Rightarrow> dict list res" where
  "maintenance_findings H th obj =
     (if dget obj ''maintenance'' \<noteq> JBool True then Inr []
      else and_then (field obj ''source_id'') (\<lambda>source.
        guarded (\<not> list_ex (py_eq source) (th_maintenance th))
          (health_finding H ''virtualisation.unexpected_maintenance'' ''Medium'' obj
            ''Host is in maintenance mode without a configured expectation.''
            ''Confirm the maintenance window and evacuation status.''
            [(''maintenance'', JBool True)] ''high'')))"

definition pressure_finding :: "(string \<Rightarrow> string) \<Rightarrow> dict \<Rightarrow> string \<Rightarrow> string \<Rightarrow> json \<Rightarrow> json \<Rightarrow> string \<Rightarrow> string
    \<Rightarrow> dict list res" where
  "pressure_finding H obj rule label used capacity warning utilisation =
     and_then (at_least (JFloat utilisation) warning) (\<lambda>high.
     guarded high (health_finding H (''virtualisation.'' @ rule) ''Medium'' obj
       (''Host '' @ label @ '' utilisation is '' @ utilisation @ ''%.'')
       (''Review workload demand and available '' @ label @ '' capacity.'')
       [(''used'', used), (''total'', capacity), (''utilisation_percent'', JFloat utilisation),
        (''threshold_percent'', JFloat warning)] ''high''))"

definition pressure_findings :: "(string \<Rightarrow> string) \<Rightarrow> dict \<Rightarrow> string \<Rightarrow> string \<Rightarrow> json \<Rightarrow> json \<Rightarrow> string \<Rightarrow> dict list res" where
  "pressure_findings H obj rule label used capacity warning =
     and_then (percentage used capacity) (\<lambda>p. case p of None \<Rightarrow> Inr []
     | Some u \<Rightarrow> pressure_finding H obj rule label used capacity warning u)"

definition host_findings :: "(string \<Rightarrow> string) \<Rightarrow> thresholds \<Rightarrow> dict \<Rightarrow> dict list res" where
  "host_findings H th obj = in_turn
     [connection_findings H obj, maintenance_findings H th obj,
      pressure_findings H obj ''host_cpu_high'' ''CPU'' (dget obj ''cpu_used_mhz'') (dget obj ''cpu_total_mhz'') (th_cpu th),
      pressure_findings H obj ''host_memory_high'' ''memory'' (dget obj ''memory_used_bytes'')
        (dget obj ''memory_total_bytes'') (th_memory th)]"

definition capacity_finding :: "(string \<Rightarrow> string) \<Rightarrow> dict \<Rightarrow> bool \<Rightarrow> json \<Rightarrow> string \<Rightarrow> dict list res" where
  "capacity_finding H obj critical u limit =
     health_finding H (if critical then ''virtualisation.storage_capacity_critical''
         else ''virtualisation.storage_capacity_warning'')
       (if critical then ''Critical'' else ''Medium'') obj (''Storage utilisation is '' @ py_str u @ ''%.'')
       (if critical then ''Free or extend storage capacity.'' else ''Review storage growth and capacity.'')
       [(''utilisation_percent'', u), (''threshold_percent'', JFloat limit)] ''high''"

definition storage_findings :: "(string \<Rightarrow> string) \<Rightarrow> thresholds \<Rightarrow> dict \<Rightarrow> dict list res" where
  "storage_findings H th obj = (let u = dget obj ''utilisation_percent'' in
     if dget obj ''accessible'' = JBool False then
       health_finding H ''virtualisation.storage_inaccessible'' ''Critical'' obj
         ''Virtualisation storage is inaccessible.''
         ''Verify storage paths, cluster access and backing storage health.''
         [(''accessible'', JBool False)] ''high''
     else if u = JNull then Inr []
     else and_then (at_least u (th_storage_critical th)) (\<lambda>critical.
       if critical then capacity_finding H obj True u (th_storage_critical th)
       else and_then (at_least u (th_storage_warning th)) (\<lambda>high.
         guarded high (capacity_finding H obj False u (th_storage_warning th)))))"

definition state_unknown_findings :: "(string \<Rightarrow> string) \<Rightarrow> dict \<Rightarrow> dict list res" where
  "state_unknown_findings H obj =
     (if dget obj ''power_state'' \<noteq> JStr ''unknown'' then Inr []
      else and_then (want_dict (dget_or obj ''evidence'' (JObj []))) (\<lambda>ev.
        health_finding H ''virtualisation.workload_state_unknown'' ''Low'' obj
          ''Workload power state could not be normalized.''
          ''Check provider permissions and workload inventory evidence.''
          [(''native_state'', dget ev ''native_state'')] ''medium''))"

definition agent_findings :: "(string \<Rightarrow> string) \<Rightarrow> dict \<Rightarrow> dict list res" where
  "agent_findings H obj = (let agent = casefold (py_str (por (dget obj ''guest_agent_state'') (JStr []))) in
     guarded (dget obj ''power_state'' = JStr ''running'' \<and> agent \<in> {''missing'', ''not_running'', ''unhealthy''})
       (health_finding H ''virtualisation.guest_agent_unhealthy'' ''Low'' obj
         ''The running workload guest integration agent is unavailable.''
         ''Verify the provider guest tools or integration service.''
         [(''agent_type'', dget obj ''guest_agent_type''), (''agent_state'', JStr agent)] ''high''))"

definition snapshot_count_findings :: "(string \<Rightarrow> string) \<Rightarrow> thresholds \<Rightarrow> dict \<Rightarrow> dict list res" where
  "snapshot_count_findings H th obj =
     and_then (exceeds (dget_or obj ''snapshot_count'' (JInt 0)) (th_snapshot_count th)) (\<lambda>many.
     guarded many (and_then (field obj ''snapshot_count'') (\<lambda>n.
       health_finding H ''virtualisation.snapshot_count_excessive'' ''Medium'' obj
         (''Workload has '' @ py_str n @ '' snapshots/checkpoints.'')
         ''Confirm retention requirements and remove only through approved change control.''
         [(''count'', n), (''threshold'', JInt (th_snapshot_count th))] ''high'')))"

definition workload_health :: "(string \<Rightarrow> string) \<Rightarrow> thresholds \<Rightarrow> dict \<Rightarrow> dict list res" where
  "workload_health H th obj =
     in_turn [state_unknown_findings H obj, agent_findings H obj, snapshot_count_findings H th obj]"

definition snapshot_findings :: "(string \<Rightarrow> string) \<Rightarrow> thresholds \<Rightarrow> dict \<Rightarrow> dict list res" where
  "snapshot_findings H th obj = (let age = dget obj ''age_days'' in
     if dget obj ''accessible'' = JBool False then
       health_finding H ''virtualisation.snapshot_inaccessible'' ''Low'' obj
         ''Snapshot evidence could not be fully read.''
         ''Review provider permissions and snapshot metadata.'' [(''accessible'', JBool False)] ''medium''
     else if age = JNull then
       health_finding H ''virtualisation.snapshot_age_unknown'' ''Info'' obj
         ''Snapshot age is unknown.'' ''Review snapshot creation metadata.''
         [(''created_at'', dget obj ''created_at'')] ''low''
     else and_then (exceeds age (th_snapshot_days th)) (\<lambda>old.
       guarded old (health_finding H ''virtualisation.snapshot_stale'' ''Medium'' obj
         (''Snapshot/checkpoint is '' @ py_str age @ '' days old.'')
         ''Confirm whether the snapshot is still required under change policy.''
         [(''age_days'', age), (''threshold_days'', JInt (th_snapshot_days th))] ''high'')))"

definition object_findings :: "(string \<Rightarrow> string) \<Rightarrow> thresholds \<Rightarrow> dict \<Rightarrow> dict list res" where
  "object_findings H th obj = (let kind = dget obj ''kind'' in
     if kind = JStr ''manager'' then manager_findings H obj
     else if kind = JStr ''cluster'' then cluster_findings H obj
     else if kind = JStr ''host'' then host_findings H th obj
     else if kind = JStr ''storage'' then storage_findings H th obj
     else if kind = JStr ''vm'' \<or> kind = JStr ''container'' then workload_health H th obj
     else if kind = JStr ''snapshot'' then snapshot_findings H th obj
     else Inr [])"

definition finding_order :: "dict \<Rightarrow> string \<times> string \<times> string \<times> string" where
  "finding_order f = (py_str (dget f ''provider''), py_str (dget f ''site_id''), py_str (dget f ''rule_id''),
     py_str (dget f ''canonical_id''))"

definition evaluate_health :: "(string \<Rightarrow> string) \<Rightarrow> dict list \<Rightarrow> dict \<Rightarrow> dict list res" where
  "evaluate_health H objs t =
     and_then (thresholds_of t) (\<lambda>th.
     and_then (map_res (object_findings H th) objs) (\<lambda>fss. Inr (sort_key finding_order (concat fss))))"

end
