(* ===== verification/Virtualisation_Engine.thy ===== *)
theory Virtualisation_Engine
  imports Virtualisation_Health Keyed
begin

text \<open>
  \<open>analysis/virtualisation/engine.py\<close>, \<open>telemetry.py\<close> and the JSON documents of
  \<open>renderer.py\<close>: the state of a set of collections, its telemetry points and the documents the
  other engines read. The CSV files are not modelled.
\<close>

section \<open>Collections\<close>

record collection =
  co_provider :: string
  co_endpoint :: string
  co_contract :: dict
  co_site :: "json option"

record virt_engine =
  ve_hash :: "string \<Rightarrow> string"
  ve_deployment :: json
  ve_site :: json
  ve_thresholds :: dict

definition site_for :: "virt_engine \<Rightarrow> collection \<Rightarrow> json" where
  "site_for g c = (case co_site c of None \<Rightarrow> ve_site g | Some v \<Rightarrow> v)"

definition first_category :: "json list \<Rightarrow> json res" where
  "first_category ds = (case ds of [] \<Rightarrow> Inr (JStr ''success'')
     | d # _ \<Rightarrow> map_sum id (\<lambda>x. dget x ''category'') (want_dict d))"

definition collection_status :: "string \<Rightarrow> collection \<Rightarrow> dict res" where
  "collection_status generated c =
     and_then (py_iter (dget_or (co_contract c) ''diagnostics'' (JList []))) (\<lambda>raw.
     (let ds = sort_key dumps_spaced raw in
      map_sum id (\<lambda>category.
        [(''provider'', JStr (co_provider c)), (''endpoint'', JStr (co_endpoint c)),
         (''last_attempt'', JStr generated), (''last_success'', JStr generated), (''duration_ms'', JInt 0),
         (''result'', JStr (if ds = [] then ''success'' else ''partial'')), (''partial'', JBool (ds \<noteq> [])),
         (''diagnostic_category'', category), (''diagnostics'', JList ds)]) (first_category ds)))"

definition collect_contract :: "virt_engine \<Rightarrow> string \<Rightarrow> collection \<Rightarrow> (dict list \<times> dict) res" where
  "collect_contract g generated c =
     and_then (map_contract (ve_hash g) (co_contract c) (co_endpoint c) (ve_deployment g) (site_for g c) generated)
     (\<lambda>objs. map_sum id (Pair objs) (collection_status generated c))"

section \<open>State\<close>

definition estate_order :: "dict \<Rightarrow> string \<times> string \<times> string" where
  "estate_order d = (py_str (dget d ''provider''), py_str (dget d ''kind''), py_str (dget d ''canonical_id''))"

definition count_of :: "string \<Rightarrow> string \<Rightarrow> dict list \<Rightarrow> int" where
  "count_of key v ds = int (length (filter (\<lambda>d. dget d key = JStr v) ds))"

definition ends_with :: "string \<Rightarrow> string \<Rightarrow> bool" where
  "ends_with p s = starts_with (rev p) (rev s)"

definition virt_summary :: "virt_engine \<Rightarrow> string \<Rightarrow> dict list \<Rightarrow> dict list \<Rightarrow> dict" where
  "virt_summary g generated objs findings =
     [(''schema_version'', JInt 1), (''generated_at'', JStr generated), (''deployment_id'', ve_deployment g),
      (''providers'', JInt (int (length (remdups (map (\<lambda>d. dget d ''provider'') objs))))),
      (''managers'', JInt (count_of ''kind'' ''manager'' objs)), (''clusters'', JInt (count_of ''kind'' ''cluster'' objs)),
      (''hosts'', JInt (count_of ''kind'' ''host'' objs)), (''vms'', JInt (count_of ''kind'' ''vm'' objs)),
      (''containers'', JInt (count_of ''kind'' ''container'' objs)),
      (''running_workloads'', JInt (count_of ''power_state'' ''running'' objs)),
      (''warnings'', JInt (count_of ''severity'' ''Medium'' findings + count_of ''severity'' ''High'' findings)),
      (''critical_findings'', JInt (count_of ''severity'' ''Critical'' findings)),
      (''unknown_findings'', JInt (int (length (filter
         (\<lambda>f. ends_with ''unknown'' (py_str (dget f ''rule_id''))) findings))))]"

definition ROLES :: "(string \<times> string \<times> string) list" where
  "ROLES = [(''manager'', ''virtualisation-manager'', ''management-plane''),
     (''cluster'', ''virtualisation-cluster'', ''compute-cluster''), (''host'', ''hypervisor'', ''compute''),
     (''vm'', ''virtual-machine'', ''compute-workload''), (''container'', ''virtual-container'', ''compute-workload''),
     (''storage'', ''virtual-storage'', ''storage''), (''network'', ''virtual-network'', ''network'')]"

text \<open>Only an explicit report decides \<open>online\<close>; clusters, storage and networks have none.\<close>

definition online_of :: "string \<Rightarrow> dict \<Rightarrow> json" where
  "online_of kind d =
     (if kind = ''manager'' then dget d ''reachable''
      else if kind = ''host'' then JBool (dget d ''connection_state'' = JStr ''connected'')
      else if kind = ''vm'' \<or> kind = ''container'' then JBool (dget d ''power_state'' = JStr ''running'')
      else JNull)"

definition virt_asset :: "string \<times> string \<times> string \<Rightarrow> dict \<Rightarrow> dict" where
  "virt_asset role d = (case role of (kind, device_type, device_role) \<Rightarrow>
     [(''source'', dget d ''provider''), (''collector'', JStr ''virtualisation''),
      (''asset_id'', dget d ''canonical_id''), (''source_asset_id'', dget d ''source_id''),
      (''canonical_id'', dget d ''canonical_id''), (''hostname'', dget d ''name''),
      (''display_name'', dget d ''display_name''), (''site_id'', dget d ''site_id''), (''site'', dget d ''site_id''),
      (''vendor'', dget d ''provider''), (''platform'', dget d ''provider''),
      (''device_type'', JStr device_type), (''device_role'', JStr device_role), (''online'', online_of kind d),
      (''source_last_seen_at'', dget d ''observed_at''),
      (''relationships'', JObj (filter (\<lambda>p. truthy (snd p)) (picked [''manager_id'', ''cluster_id'', ''host_id''] d))),
      (''extensions'', JObj [(''virtualisation'', JObj d)])])"

definition role_of :: "dict \<Rightarrow> (string \<times> string \<times> string) option" where
  "role_of d = find (\<lambda>r. dget d ''kind'' = JStr (fst r)) ROLES"

definition assets_of :: "dict list \<Rightarrow> dict list" where
  "assets_of objs = concat (map (\<lambda>d. case role_of d of None \<Rightarrow> [] | Some r \<Rightarrow> [virt_asset r d]) objs)"

record virt_estate =
  es_generated :: string
  es_deployment :: json
  es_objects :: "dict list"
  es_findings :: "dict list"
  es_summary :: dict
  es_collections :: "dict list"
  es_assets :: "dict list"

definition evaluate_virtualisation :: "virt_engine \<Rightarrow> collection list \<Rightarrow> int \<Rightarrow> virt_estate res" where
  "evaluate_virtualisation g cs now = (let generated = isoformat_z now in
     and_then (map_res (collect_contract g generated) (sort_key (\<lambda>c. (co_provider c, co_endpoint c)) cs)) (\<lambda>parts.
     (let objs = sort_key estate_order (concat (map fst parts)) in
      map_sum id (\<lambda>findings. \<lparr>es_generated = generated, es_deployment = ve_deployment g, es_objects = objs,
          es_findings = findings, es_summary = virt_summary g generated objs findings,
          es_collections = map snd parts, es_assets = assets_of objs\<rparr>)
        (evaluate_health (ve_hash g) objs (ve_thresholds g)))))"

section \<open>Telemetry\<close>

definition MEASUREMENT_BY_KIND :: "(string \<times> string) list" where
  "MEASUREMENT_BY_KIND = [(''manager'', ''virtualisation_platform''), (''cluster'', ''virtualisation_cluster''),
     (''host'', ''virtualisation_host''), (''vm'', ''virtualisation_workload''),
     (''container'', ''virtualisation_workload''), (''storage'', ''virtualisation_storage''),
     (''snapshot'', ''virtualisation_snapshot'')]"

definition POINT_FIELDS :: "string list" where
  "POINT_FIELDS = [''reachable'', ''health'', ''ha_status'', ''connection_state'', ''maintenance'',
     ''cpu_total_mhz'', ''cpu_used_mhz'', ''memory_total_bytes'', ''memory_used_bytes'', ''vm_count'',
     ''running_vm_count'', ''vcpu'', ''memory_bytes'', ''guest_agent_state'', ''snapshot_count'',
     ''oldest_snapshot_age_days'', ''capacity_bytes'', ''used_bytes'', ''free_bytes'', ''utilisation_percent'',
     ''accessible'', ''shared'', ''age_days'']"

definition point_timestamp :: "int \<Rightarrow> json \<Rightarrow> json res" where
  "point_timestamp tz v = (case fromisoformat (replace_z (py_str v)) of None \<Rightarrow> Inr JNull
     | Some t \<Rightarrow> map_sum id (\<lambda>u. JInt (ns_of_us (u - epoch_us))) (to_utc t tz))"

definition point :: "string \<Rightarrow> dict \<Rightarrow> dict \<Rightarrow> json \<Rightarrow> dict" where
  "point measurement tags flds timestamp =
     [(''measurement'', JStr measurement), (''tags'', JObj tags), (''fields'', JObj flds), (''timestamp'', timestamp)]"

definition point_tags :: "dict \<Rightarrow> dict" where
  "point_tags d =
     [(''deployment_id'', dget d ''deployment_id''), (''site_id'', dget d ''site_id''), (''provider'', dget d ''provider'')] @
     map (\<lambda>k. (k, JStr (py_str (dget d k)))) (filter (\<lambda>k. truthy (dget d k)) [''manager_id'', ''cluster_id'', ''host_id'']) @
     (if dget d ''kind'' \<in> {JStr ''vm'', JStr ''container''}
      then [(''workload_type'', dget d ''kind''), (''state'', dget d ''power_state'')] else [])"

definition percent_field :: "string \<Rightarrow> string option \<Rightarrow> dict" where
  "percent_field k v = (case v of None \<Rightarrow> [] | Some s \<Rightarrow> [(k, JFloat s)])"

definition utilisation_fields :: "dict \<Rightarrow> dict res" where
  "utilisation_fields d =
     (if dget d ''kind'' \<notin> {JStr ''cluster'', JStr ''host''} then Inr []
      else and_then (percentage (dget d ''cpu_used_mhz'') (dget d ''cpu_total_mhz'')) (\<lambda>cpu.
        map_sum id (\<lambda>memory. percent_field ''cpu_utilisation_percent'' cpu @
            percent_field ''memory_utilisation_percent'' memory)
          (percentage (dget d ''memory_used_bytes'') (dget d ''memory_total_bytes''))))"

definition virt_point_fields :: "dict \<Rightarrow> dict res" where
  "virt_point_fields d = map_sum id (\<lambda>util.
     [(''canonical_id'', dget d ''canonical_id''), (''name'', dget d ''name'')] @
     filter (\<lambda>p. snd p \<noteq> JNull) (picked POINT_FIELDS d) @ util @
     (if dget d ''kind'' = JStr ''host'' \<and> dget d ''vm_count'' \<noteq> JNull
      then [(''workload_count'', dget d ''vm_count'')] else []) @
     (if dget d ''kind'' = JStr ''snapshot''
      then [(''workload_id'', dget_or d ''workload_id'' (JStr [])),
        (''snapshot_type'', dget_or d ''snapshot_type'' (JStr ''snapshot''))] else [])) (utilisation_fields d)"

definition measurement_of :: "dict \<Rightarrow> string option" where
  "measurement_of d = map_option snd (find (\<lambda>r. dget d ''kind'' = JStr (fst r)) MEASUREMENT_BY_KIND)"

definition object_point :: "int \<Rightarrow> dict \<Rightarrow> dict list res" where
  "object_point tz d = (case measurement_of d of None \<Rightarrow> Inr []
     | Some m \<Rightarrow> and_then (virt_point_fields d) (\<lambda>fs.
         map_sum id (\<lambda>t. [point m (point_tags d) fs t]) (point_timestamp tz (dget d ''observed_at''))))"

definition finding_point :: "int \<Rightarrow> dict \<Rightarrow> dict res" where
  "finding_point tz f = map_sum id (\<lambda>t. point ''virtualisation_finding''
     (picked [''deployment_id'', ''site_id'', ''provider'', ''severity''] f)
     ((''finding_id'', dget f ''id'') #
      picked [''rule_id'', ''canonical_id'', ''reason'', ''recommended_operator_check'', ''confidence''] f) t)
     (point_timestamp tz (dget f ''last_observed''))"

definition collection_point :: "int \<Rightarrow> json \<Rightarrow> dict \<Rightarrow> dict res" where
  "collection_point tz deployment c = map_sum id (\<lambda>t. point ''virtualisation_collection''
     [(''deployment_id'', deployment), (''provider'', dget c ''provider'')]
     ((''endpoint_id'', dget c ''endpoint'') # picked [''result'', ''partial'', ''duration_ms'', ''diagnostic_category''] c) t)
     (point_timestamp tz (dget c ''last_attempt''))"

definition virt_points :: "int \<Rightarrow> virt_estate \<Rightarrow> dict list res" where
  "virt_points tz s =
     and_then (map_res (object_point tz) (es_objects s)) (\<lambda>as.
     and_then (map_res (finding_point tz) (es_findings s)) (\<lambda>bs.
     map_sum id (\<lambda>cs. concat as @ bs @ cs)
       (map_res (collection_point tz (es_deployment s)) (es_collections s))))"

section \<open>Documents\<close>

definition DOCUMENT_KINDS :: "(string \<times> string list) list" where
  "DOCUMENT_KINDS = [(''platforms'', [''platform'', ''manager'']), (''clusters'', [''cluster'']), (''hosts'', [''host'']),
     (''workloads'', [''vm'', ''container'']), (''storage'', [''storage'']), (''networks'', [''network'']),
     (''snapshots'', [''snapshot''])]"

definition document :: "virt_estate \<Rightarrow> string \<Rightarrow> dict list \<Rightarrow> dict" where
  "document s key ds =
     [(''schema_version'', JInt 1), (''generated_at'', JStr (es_generated s)), (''deployment_id'', es_deployment s),
      (key, JList (map JObj ds))]"

definition objects_document :: "virt_estate \<Rightarrow> string \<times> string list \<Rightarrow> string \<times> dict" where
  "objects_document s = (\<lambda>(key, kinds). (key @ ''.json'',
     document s key (filter (\<lambda>d. dget d ''kind'' \<in> set (map JStr kinds)) (es_objects s))))"

definition render_virtualisation :: "int \<Rightarrow> virt_estate \<Rightarrow> (string \<times> dict) list res" where
  "render_virtualisation tz s =
     map_sum id (\<lambda>pts. map (objects_document s) DOCUMENT_KINDS @
       [(''findings.json'', document s ''findings'' (es_findings s)), (''summary.json'', es_summary s),
        (''collection-status.json'', document s ''collections'' (es_collections s)),
        (''assets.json'', document s ''assets'' (es_assets s)), (''telemetry.json'', document s ''points'' pts)])
     (virt_points tz s)"

end
