(* ===== verification/Virtualisation_Engine_Properties.thy ===== *)
theory Virtualisation_Engine_Properties
  imports Virtualisation_Engine Operations_Engine Yields
begin

text \<open>
  What the virtualisation engine guarantees: canonical objects keep their kind and identifier,
  findings speak of observed objects under rules the operations engine knows, and the operations
  engine reads back from the documents the state that was rendered.
\<close>

section \<open>Canonical objects\<close>

lemma dget_dmerge_other: "k \<notin> fst ` set e \<Longrightarrow> dget (dmerge b e) k = dget b k"
proof (induction e arbitrary: b)
  case (Cons p e)
  then show ?case by (cases p) (simp add: dmerge_def dget_def update_conv')
qed (simp add: dmerge_def)

lemma map_of_dmerge_other: "k \<notin> fst ` set e \<Longrightarrow> map_of (dmerge b e) k = map_of b k"
proof (induction e arbitrary: b)
  case (Cons p e)
  then show ?case by (cases p) (simp add: dmerge_def update_conv')
qed (simp add: dmerge_def)

lemma fst_picked [simp]: "fst ` set (picked ks d) = set ks"
  by (force simp: picked_def)

definition OBJECT_KINDS :: "string list" where
  "OBJECT_KINDS = [''manager'', ''cluster'', ''host'', ''vm'', ''container'', ''storage'', ''network'', ''snapshot'']"

text \<open>An object of a kind: its identifier is that of the provider, the kind and the source.\<close>

fun identified :: "(string \<Rightarrow> string) \<Rightarrow> json \<Rightarrow> json \<Rightarrow> json \<Rightarrow> json \<Rightarrow> json \<Rightarrow> bool" where
  "identified H (JStr kind) (JStr p) (JStr e) (JStr s) (JStr i) =
     (kind \<in> set OBJECT_KINDS \<and> virt_canonical_id H p kind e s = Inr i)"
| "identified H _ _ _ _ _ = False"

definition canonical_object :: "(string \<Rightarrow> string) \<Rightarrow> dict \<Rightarrow> bool" where
  "canonical_object H d = identified H (dget d ''kind'') (dget d ''provider'') (dget d ''source_endpoint'')
     (dget d ''source_id'') (dget d ''canonical_id'')"

definition IDENTITY_KEYS :: "string list" where
  "IDENTITY_KEYS = [''kind'', ''provider'', ''source_endpoint'', ''source_id'', ''canonical_id'']"

lemma base_object_canonical:
  "base_object e kind native = Inr b \<Longrightarrow> kind \<in> set OBJECT_KINDS \<Longrightarrow> canonical_object (ce_hash e) b"
  by (auto simp: base_object_def and_then_eq_Inr Let_def canonical_object_def dget_def)

lemma canonical_cong:
  "(\<And>k. k \<in> set IDENTITY_KEYS \<Longrightarrow> dget d k = dget b k) \<Longrightarrow> canonical_object H d = canonical_object H b"
  unfolding canonical_object_def by (simp add: IDENTITY_KEYS_def)

lemma canonical_dmerge:
  "set IDENTITY_KEYS \<inter> fst ` set e = {} \<Longrightarrow> canonical_object H (dmerge b e) = canonical_object H b"
  by (rule canonical_cong) (blast intro: dget_dmerge_other)

lemma plain_object_canonical:
  "kind \<in> set OBJECT_KINDS \<Longrightarrow> set IDENTITY_KEYS \<inter> set keys = {} \<Longrightarrow>
   yields_one (canonical_object (ce_hash e)) (plain_object e kind keys native)"
  using base_object_canonical [of e kind native]
  by (cases "base_object e kind native") (simp_all add: yields_one_def plain_object_def canonical_dmerge)

lemma keys_disjoint:
  "set IDENTITY_KEYS \<inter> set MANAGER_KEYS = {}" "set IDENTITY_KEYS \<inter> set CLUSTER_KEYS = {}"
  "set IDENTITY_KEYS \<inter> set HOST_KEYS = {}" "set IDENTITY_KEYS \<inter> set WORKLOAD_KEYS = {}"
  "set IDENTITY_KEYS \<inter> set STORAGE_KEYS = {}" "set IDENTITY_KEYS \<inter> set NETWORK_KEYS = {}"
  by (simp_all add: IDENTITY_KEYS_def MANAGER_KEYS_def CLUSTER_KEYS_def HOST_KEYS_def WORKLOAD_KEYS_def
      STORAGE_KEYS_def NETWORK_KEYS_def)

lemma snapshot_object_canonical: "yields_one (canonical_object (ce_hash e)) (snapshot_object e now native)"
proof (cases "snapshot_object e now native")
  case (Inr d)
  then obtain b age where b: "base_object e ''snapshot'' native = Inr b"
    and d: "d = dmerge b [(''workload_id'', dget native ''workload_id''),
        (''snapshot_type'', dget_or native ''snapshot_type'' (JStr ''snapshot'')),
        (''created_at'', dget native ''created_at''), (''age_days'', age),
        (''description'', dget native ''description''), (''parent_id'', dget native ''parent_id''),
        (''accessible'', dget_or native ''accessible'' (JBool True))]"
    by (auto simp: snapshot_object_def and_then_eq_Inr map_sum_eq_Inr)
  have "canonical_object (ce_hash e) d"
    unfolding d by (subst canonical_dmerge) (simp_all add: base_object_canonical [OF b] OBJECT_KINDS_def IDENTITY_KEYS_def)
  with Inr show ?thesis by (simp add: yields_one_def)
qed (simp add: yields_one_def)

lemma listed_key: "listed native k = Inr p \<Longrightarrow> fst p = k"
  by (auto simp: listed_def map_sum_eq_Inr)

lemma workload_extra_keys:
  assumes "workload_extra e mine native = Inr x"
  shows "set IDENTITY_KEYS \<inter> fst ` set x = {}"
proof -
  obtain agent lists oldest where l: "map_res (listed native) [''ip_addresses'', ''mac_addresses'', ''network_ids'', ''storage_ids''] = Inr lists"
    and x: "x = [(''power_state'', JStr (power_state (dget native ''state''))),
         (''guest_agent_type'', agent), (''guest_agent_state'', dget native ''guest_agent_state'')] @ lists @
         [(''snapshot_count'', JInt (int (length mine))), (''oldest_snapshot_age_days'', oldest)]"
    using assms unfolding workload_extra_def and_then_eq_Inr map_sum_eq_Inr by blast
  have "fst p \<in> {''ip_addresses'', ''mac_addresses'', ''network_ids'', ''storage_ids''}" if "p \<in> set lists" for p
    using map_res_Inr_mem [OF l that] by (auto dest!: listed_key)
  then show ?thesis by (fastforce simp: x IDENTITY_KEYS_def)
qed

lemma workload_object_canonical:
  assumes "kind \<in> set OBJECT_KINDS"
  shows "yields_one (canonical_object (ce_hash e)) (workload_object e snaps kind native)"
proof (cases "workload_object e snaps kind native")
  case (Inr d)
  then obtain b x i where b: "plain_object e kind WORKLOAD_KEYS native = Inr b"
    and x: "workload_extra e (snapshots_of snaps i) native = Inr x" and d: "d = dmerge b x"
    by (auto simp: workload_object_def and_then_eq_Inr map_sum_eq_Inr)
  have "canonical_object (ce_hash e) b"
    using plain_object_canonical [OF assms keys_disjoint(4)] b by (rule yields_oneD)
  then have "canonical_object (ce_hash e) d" by (simp add: d canonical_dmerge workload_extra_keys [OF x])
  with Inr show ?thesis by (simp add: yields_one_def)
qed (simp add: yields_one_def)

lemma dget_dset_other: "k \<noteq> k' \<Longrightarrow> dget (dset d k v) k' = dget d k'"
  by (simp add: dget_def dset_def update_conv')

lemma storage_object_canonical: "yields_one (canonical_object (ce_hash e)) (storage_object e native)"
proof (cases "storage_object e native")
  case (Inr d)
  then obtain b v where b: "plain_object e ''storage'' STORAGE_KEYS native = Inr b" and d: "d = dset b ''utilisation_percent'' v"
    by (auto simp: storage_object_def and_then_eq_Inr map_sum_eq_Inr)
  have "canonical_object (ce_hash e) b"
    using plain_object_canonical [OF _ keys_disjoint(5)] b by (rule yields_oneD) (simp add: OBJECT_KINDS_def)
  moreover have "canonical_object (ce_hash e) d = canonical_object (ce_hash e) b"
    unfolding d by (rule canonical_cong) (auto simp: dget_dset_other IDENTITY_KEYS_def)
  ultimately show ?thesis using Inr by (simp add: yields_one_def)
qed (simp add: yields_one_def)

lemma yields_mapped: "(\<And>n. yields_one P (f n)) \<Longrightarrow> yields P (mapped f contract k)"
  unfolding mapped_def by (auto intro!: yield_intro)

lemma yields_append [yield_intro]:
  "list_all P xs \<Longrightarrow> list_all P ys \<Longrightarrow> list_all P (xs @ ys)"
  by simp

lemma yields_list: "yields P r \<Longrightarrow> r = Inr xs \<Longrightarrow> list_all P xs"
  by (simp add: yields_def)

lemma contract_objects_canonical: "yields (canonical_object (ce_hash e)) (contract_objects e contract now)"
proof -
  let ?P = "canonical_object (ce_hash e)"
  have m: "yields ?P (manager_objects e contract)"
    unfolding manager_objects_def Let_def
    by (auto intro!: yield_intro plain_object_canonical keys_disjoint simp: OBJECT_KINDS_def)
  have "yields ?P (mapped (plain_object e ''cluster'' CLUSTER_KEYS) contract k)"
    "yields ?P (mapped (plain_object e ''host'' HOST_KEYS) contract k)"
    "yields ?P (mapped (plain_object e ''network'' NETWORK_KEYS) contract k)"
    "yields ?P (mapped (workload_object e snaps ''vm'') contract k)"
    "yields ?P (mapped (workload_object e snaps ''container'') contract k)"
    "yields ?P (mapped (storage_object e) contract k)" "yields ?P (mapped (snapshot_object e now) contract k)" for k snaps
    by (auto intro!: yields_mapped plain_object_canonical workload_object_canonical storage_object_canonical
        snapshot_object_canonical keys_disjoint simp: OBJECT_KINDS_def)
  note parts = m this
  have "list_all ?P objs" if "contract_objects e contract now = Inr objs" for objs
    using that unfolding contract_objects_def and_then_eq_Inr
    by (auto dest!: parts [THEN yields_list])
  then show ?thesis by (cases "contract_objects e contract now") (simp_all add: yields_def)
qed

lemma yields_sorted: "yields P r \<Longrightarrow> yields P (map_sum id (sort_key f) r)"
  by (cases r) (auto simp: yields_def list_all_iff)

lemma map_contract_canonical: "yields (canonical_object H) (map_contract H contract endpoint dep site observed)"
proof -
  let ?e = "\<lambda>p. \<lparr>ce_hash = H, ce_provider = p, ce_endpoint = endpoint, ce_deployment = dep, ce_site = site,
    ce_observed = observed\<rparr>"
  have "yields (canonical_object H) (contract_objects (?e p) contract now)" for p now
    using contract_objects_canonical [of "?e p"] by simp
  then show ?thesis unfolding map_contract_def by (auto intro!: yield_intro yields_sorted)
qed

text \<open>Every object of the estate carries the identifier of its provider, kind and source.\<close>

lemma estate_objects_identified:
  assumes "evaluate_virtualisation g cs now = Inr s"
  shows "list_all (canonical_object (ve_hash g)) (es_objects s)"
proof -
  obtain parts where parts: "map_res (collect_contract g (isoformat_z now)) (sort_key (\<lambda>c. (co_provider c, co_endpoint c)) cs) = Inr parts"
    and s: "es_objects s = sort_key estate_order (concat (map fst parts))"
    using assms by (auto simp: evaluate_virtualisation_def Let_def and_then_eq_Inr map_sum_eq_Inr)
  have "canonical_object (ve_hash g) d" if "p \<in> set parts" "d \<in> set (fst p)" for p d
  proof -
    from map_res_Inr_mem [OF parts that(1)] obtain c where "collect_contract g (isoformat_z now) c = Inr p" by blast
    then obtain objs st where "map_contract (ve_hash g) (co_contract c) (co_endpoint c) (ve_deployment g) (site_for g c)
        (isoformat_z now) = Inr objs" "p = (objs, st)"
      by (auto simp: collect_contract_def and_then_eq_Inr map_sum_eq_Inr)
    with that(2) show ?thesis using yieldsD [OF map_contract_canonical] by auto
  qed
  then show ?thesis by (auto simp: s list_all_iff)
qed

section \<open>Documents\<close>

lemma document_list_rendered:
  "files name = Some (document s key ds) \<Longrightarrow> key \<notin> {''schema_version'', ''generated_at'', ''deployment_id''} \<Longrightarrow>
   document_list files name key = Inr ds"
proof -
  assume "files name = Some (document s key ds)" "key \<notin> {''schema_version'', ''generated_at'', ''deployment_id''}"
  moreover have "map_res want_dict (map JObj ds) = Inr ds" by (rule map_res_map) (simp add: want_dict_def)
  ultimately show ?thesis
    by (simp add: document_list_def or_else_def document_def dget_or_def dict_list_def)
qed

text \<open>The groups of objects as the documents hold them.\<close>

definition of_kinds :: "string list \<Rightarrow> dict list \<Rightarrow> dict list" where
  "of_kinds kinds = filter (\<lambda>d. dget d ''kind'' \<in> set (map JStr kinds))"

definition grouped :: "dict list \<Rightarrow> dict list" where
  "grouped objs = concat (map (\<lambda>(key, kinds). of_kinds kinds objs) DOCUMENT_KINDS)"

lemma canonical_kind: "canonical_object H d \<Longrightarrow> \<exists>k \<in> set OBJECT_KINDS. dget d ''kind'' = JStr k"
  unfolding canonical_object_def by (rule identified.cases [of "(H, dget d ''kind'', dget d ''provider'', dget d ''source_endpoint'',
     dget d ''source_id'', dget d ''canonical_id'')"]) auto

lemma canonical_has_id: "canonical_object H d \<Longrightarrow> \<exists>i. dget d ''canonical_id'' = JStr i \<and> object_id d = Inr i"
proof -
  assume "canonical_object H d"
  then obtain i where i: "dget d ''canonical_id'' = JStr i"
    unfolding canonical_object_def by (cases "dget d ''canonical_id''") (auto elim: identified.elims)
  then have "map_of d ''canonical_id'' = Some (JStr i)" by (auto simp: dget_def split: option.splits)
  with i show ?thesis by (simp add: object_id_def)
qed

lemma set_grouped: "list_all (canonical_object H) objs \<Longrightarrow> set (grouped objs) = set objs"
  using canonical_kind by (fastforce simp: grouped_def DOCUMENT_KINDS_def of_kinds_def list_all_iff OBJECT_KINDS_def)

lemma objects_of_distinct:
  assumes "list_all (canonical_object H) ds"
    and inj: "inj_on (\<lambda>d. dget d ''canonical_id'') (set ds)"
  shows "\<exists>objs. objects_of ds = Inr objs \<and> set (map snd objs) = set ds"
proof -
  define cid where "cid d = (case dget d ''canonical_id'' of JStr i \<Rightarrow> i | _ \<Rightarrow> [])" for d
  have id: "object_id d = Inr (cid d)" "dget d ''canonical_id'' = JStr (cid d)" if "d \<in> set ds" for d
    using canonical_has_id that assms(1) by (fastforce simp: list_all_iff cid_def)+
  let ?ps = "map (\<lambda>d. (cid d, d)) ds"
  have "map_res with_id ds = Inr ?ps" using id(1)
    by (auto simp: map_res_Inr_iff list.rel_map with_id_def intro!: list.rel_refl_strong)
  then have "objects_of ds = Inr (keyed fst ?ps)" by (simp add: objects_of_def)
  moreover have "inj_on fst (set ?ps)" using inj id(2) by (auto simp: inj_on_def)
  then have "set (keyed fst ?ps) = set ?ps" by (rule keyed_inj)
  then have "set (map snd (keyed fst ?ps)) = set ds" by (simp only: set_map) (simp add: image_image)
  ultimately show ?thesis by blast
qed

text \<open>What the operations engine finds under the names of the documents.\<close>

lemma rendered_lists:
  assumes "render_virtualisation tz s = Inr docs"
  shows "map_res (\<lambda>(name, key). document_list (map_of docs) name key) VIRTUALISATION_FILES =
      Inr (map (\<lambda>(key, kinds). of_kinds kinds (es_objects s)) DOCUMENT_KINDS)"
    "document_list (map_of docs) ''findings.json'' ''findings'' = Inr (es_findings s)"
    "document_list (map_of docs) ''collection-status.json'' ''collections'' = Inr (es_collections s)"
    "map_of docs ''summary.json'' = Some (es_summary s)"
proof -
  obtain pts where docs: "docs = map (objects_document s) DOCUMENT_KINDS @
       [(''findings.json'', document s ''findings'' (es_findings s)), (''summary.json'', es_summary s),
        (''collection-status.json'', document s ''collections'' (es_collections s)),
        (''assets.json'', document s ''assets'' (es_assets s)), (''telemetry.json'', document s ''points'' pts)]"
    using assms by (auto simp: render_virtualisation_def map_sum_eq_Inr)
  have look: "map_of docs ''platforms.json'' = Some (document s ''platforms'' (of_kinds [''platform'', ''manager''] (es_objects s)))"
    "map_of docs ''clusters.json'' = Some (document s ''clusters'' (of_kinds [''cluster''] (es_objects s)))"
    "map_of docs ''hosts.json'' = Some (document s ''hosts'' (of_kinds [''host''] (es_objects s)))"
    "map_of docs ''workloads.json'' = Some (document s ''workloads'' (of_kinds [''vm'', ''container''] (es_objects s)))"
    "map_of docs ''storage.json'' = Some (document s ''storage'' (of_kinds [''storage''] (es_objects s)))"
    "map_of docs ''networks.json'' = Some (document s ''networks'' (of_kinds [''network''] (es_objects s)))"
    "map_of docs ''snapshots.json'' = Some (document s ''snapshots'' (of_kinds [''snapshot''] (es_objects s)))"
    "map_of docs ''findings.json'' = Some (document s ''findings'' (es_findings s))"
    "map_of docs ''collection-status.json'' = Some (document s ''collections'' (es_collections s))"
    "map_of docs ''summary.json'' = Some (es_summary s)"
    unfolding docs DOCUMENT_KINDS_def by (simp_all add: objects_document_def of_kinds_def)
  have read: "document_list (map_of docs) name key = Inr ds" if "map_of docs name = Some (document s key ds)"
    "key \<notin> {''schema_version'', ''generated_at'', ''deployment_id''}" for name key ds
    using that by (rule document_list_rendered)
  show "document_list (map_of docs) ''findings.json'' ''findings'' = Inr (es_findings s)"
    by (rule read [OF look(8)]) simp
  show "document_list (map_of docs) ''collection-status.json'' ''collections'' = Inr (es_collections s)"
    by (rule read [OF look(9)]) simp
  show "map_of docs ''summary.json'' = Some (es_summary s)" by (rule look(10))
  have "document_list (map_of docs) ''platforms.json'' ''platforms'' = Inr (of_kinds [''platform'', ''manager''] (es_objects s))"
    "document_list (map_of docs) ''clusters.json'' ''clusters'' = Inr (of_kinds [''cluster''] (es_objects s))"
    "document_list (map_of docs) ''hosts.json'' ''hosts'' = Inr (of_kinds [''host''] (es_objects s))"
    "document_list (map_of docs) ''workloads.json'' ''workloads'' = Inr (of_kinds [''vm'', ''container''] (es_objects s))"
    "document_list (map_of docs) ''storage.json'' ''storage'' = Inr (of_kinds [''storage''] (es_objects s))"
    "document_list (map_of docs) ''networks.json'' ''networks'' = Inr (of_kinds [''network''] (es_objects s))"
    "document_list (map_of docs) ''snapshots.json'' ''snapshots'' = Inr (of_kinds [''snapshot''] (es_objects s))"
    by (rule read, rule look, simp)+
  then show "map_res (\<lambda>(name, key). document_list (map_of docs) name key) VIRTUALISATION_FILES =
      Inr (map (\<lambda>(key, kinds). of_kinds kinds (es_objects s)) DOCUMENT_KINDS)"
    by (simp add: DOCUMENT_KINDS_def VIRTUALISATION_FILES_def)
qed

text \<open>
  C29. What the virtualisation engine renders the operations engine reads back: from the documents
  of an estate with distinct identifiers it recovers the same objects, findings, collections,
  generation time and deployment.
\<close>

theorem operations_read_the_rendered_estate:
  assumes "evaluate_virtualisation g cs now = Inr s" "render_virtualisation tz s = Inr docs"
    "inj_on (\<lambda>d. dget d ''canonical_id'') (set (es_objects s))"
  shows "\<exists>v. virtualisation_state (map_of docs) = Inr v \<and> set (vs_objects v) = set (es_objects s) \<and>
    vs_findings v = es_findings s \<and> vs_collections v = es_collections s \<and>
    vs_generated_at v = JStr (isoformat_z now) \<and> vs_deployment_id v = ve_deployment g"
proof -
  have can: "list_all (canonical_object (ve_hash g)) (es_objects s)" by (rule estate_objects_identified [OF assms(1)])
  have same: "set (grouped (es_objects s)) = set (es_objects s)" by (rule set_grouped [OF can])
  have "list_all (canonical_object (ve_hash g)) (grouped (es_objects s))" using can by (simp add: list_all_iff same)
  from objects_of_distinct [OF this] assms(3) same
  obtain objs where objs: "objects_of (grouped (es_objects s)) = Inr objs" "set (map snd objs) = set (es_objects s)" by auto
  have "dget (es_summary s) ''generated_at'' = JStr (isoformat_z now)"
    "dget_or (es_summary s) ''deployment_id'' (JStr []) = ve_deployment g"
    using assms(1) by (auto simp: evaluate_virtualisation_def Let_def and_then_eq_Inr map_sum_eq_Inr virt_summary_def
        dget_def dget_or_def)
  then show ?thesis using objs rendered_lists [OF assms(2)]
    by (simp add: virtualisation_state_def grouped_def or_else_def)
qed

section \<open>Health findings\<close>

definition UNPROMOTED :: "string list" where
  "UNPROMOTED = [''virtualisation.snapshot_inaccessible'', ''virtualisation.snapshot_age_unknown'']"

definition known_rule :: "string \<Rightarrow> bool" where
  "known_rule r = (r \<in> fst ` set MAPPING \<or> r \<in> set UNPROMOTED)"

definition about :: "dict \<Rightarrow> dict \<Rightarrow> bool" where
  "about obj f = (dget f ''canonical_id'' = dget obj ''canonical_id'' \<and>
     (\<exists>r. dget f ''rule_id'' = JStr r \<and> known_rule r) \<and>
     (\<exists>sv. dget f ''severity'' = JStr sv \<and> sv \<in> set SEVERITIES))"

lemma health_finding_about:
  "known_rule rule \<Longrightarrow> sev \<in> set SEVERITIES \<Longrightarrow> yields (about obj) (health_finding H rule sev obj reason action ev conf)"
  unfolding health_finding_def by (rule yields_and_then) (simp add: yields_def about_def dget_def)

lemma known_rules:
  "known_rule ''virtualisation.manager_unreachable''" "known_rule ''virtualisation.cluster_degraded''"
  "known_rule ''virtualisation.host_disconnected''" "known_rule ''virtualisation.unexpected_maintenance''"
  "known_rule (''virtualisation.'' @ ''host_cpu_high'')" "known_rule (''virtualisation.'' @ ''host_memory_high'')"
  "known_rule ''virtualisation.storage_inaccessible''" "known_rule ''virtualisation.storage_capacity_critical''"
  "known_rule ''virtualisation.storage_capacity_warning''" "known_rule ''virtualisation.workload_state_unknown''"
  "known_rule ''virtualisation.guest_agent_unhealthy''" "known_rule ''virtualisation.snapshot_count_excessive''"
  "known_rule ''virtualisation.snapshot_inaccessible''" "known_rule ''virtualisation.snapshot_age_unknown''"
  "known_rule ''virtualisation.snapshot_stale''"
  unfolding known_rule_def MAPPING_def UNPROMOTED_def by simp_all

lemma known_severities:
  "''Critical'' \<in> set SEVERITIES" "''High'' \<in> set SEVERITIES" "''Medium'' \<in> set SEVERITIES" "''Low'' \<in> set SEVERITIES"
  "''Info'' \<in> set SEVERITIES"
  by (simp_all add: SEVERITIES_def)

lemma yields_guarded: "yields P r \<Longrightarrow> yields P (guarded b r)"
  by (simp add: yields_Nil)

lemma yields_in_turn: "(\<And>r. r \<in> set rs \<Longrightarrow> yields P r) \<Longrightarrow> yields P (in_turn rs)"
  using yields_concat_res [of rs P id] by (simp add: in_turn_def concat_res_def)

lemmas about_intro = yields_guarded health_finding_about known_rules known_severities

lemma capacity_finding_about: "yields (about obj) (capacity_finding H obj critical u limit)"
  unfolding capacity_finding_def by (cases critical) (simp_all add: about_intro)

lemma pressure_findings_about:
  "known_rule (''virtualisation.'' @ rule) \<Longrightarrow> yields (about obj) (pressure_findings H obj rule label used cap warning)"
  unfolding pressure_findings_def pressure_finding_def by (auto intro!: yield_intro about_intro)

lemma host_findings_about: "yields (about obj) (host_findings H th obj)"
proof -
  have "yields (about obj) (connection_findings H obj)"
    unfolding connection_findings_def Let_def by (intro about_intro)
  moreover have "yields (about obj) (maintenance_findings H th obj)"
    unfolding maintenance_findings_def by (auto intro!: yield_intro about_intro)
  ultimately show ?thesis
    unfolding host_findings_def by (intro yields_in_turn) (auto intro!: pressure_findings_about known_rules)
qed

lemma workload_health_about: "yields (about obj) (workload_health H th obj)"
proof -
  have "yields (about obj) (state_unknown_findings H obj)"
    unfolding state_unknown_findings_def by (auto intro!: yield_intro about_intro)
  moreover have "yields (about obj) (agent_findings H obj)"
    unfolding agent_findings_def Let_def by (intro about_intro)
  moreover have "yields (about obj) (snapshot_count_findings H th obj)"
    unfolding snapshot_count_findings_def by (auto intro!: yield_intro about_intro)
  ultimately show ?thesis unfolding workload_health_def by (intro yields_in_turn) auto
qed

lemma object_findings_about: "yields (about obj) (object_findings H th obj)"
proof -
  have "yields (about obj) (manager_findings H obj)" unfolding manager_findings_def by (intro about_intro)
  moreover have "yields (about obj) (cluster_findings H obj)"
    unfolding cluster_findings_def Let_def by (intro yields_guarded health_finding_about known_rules) (simp add: known_severities)
  moreover have "yields (about obj) (storage_findings H th obj)"
    unfolding storage_findings_def Let_def by (auto intro!: yield_intro about_intro capacity_finding_about)
  moreover have "yields (about obj) (snapshot_findings H th obj)"
    unfolding snapshot_findings_def Let_def by (auto intro!: yield_intro about_intro)
  ultimately show ?thesis
    unfolding object_findings_def Let_def by (simp add: host_findings_about workload_health_about yields_Nil)
qed

text \<open>A finding speaks of an object of the estate, under a known rule and severity.\<close>

lemma health_findings_are_about_objects:
  assumes "evaluate_virtualisation g cs now = Inr s" "f \<in> set (es_findings s)"
  shows "\<exists>obj \<in> set (es_objects s). about obj f"
proof -
  have "evaluate_health (ve_hash g) (es_objects s) (ve_thresholds g) = Inr (es_findings s)"
    using assms(1) by (auto simp: evaluate_virtualisation_def Let_def and_then_eq_Inr map_sum_eq_Inr)
  then obtain th fss where fss: "map_res (object_findings (ve_hash g) th) (es_objects s) = Inr fss"
    "es_findings s = sort_key finding_order (concat fss)"
    by (auto simp: evaluate_health_def and_then_eq_Inr)
  then obtain fs where fs: "fs \<in> set fss" "f \<in> set fs" using assms(2) by auto
  from map_res_Inr_mem [OF fss(1) fs(1)] obtain obj where "obj \<in> set (es_objects s)"
    "object_findings (ve_hash g) th obj = Inr fs" by blast
  then show ?thesis using yieldsD [OF object_findings_about] fs(2) by blast
qed

section \<open>A sample estate\<close>

definition sample_engine :: virt_engine where
  "sample_engine = \<lparr>ve_hash = rev, ve_deployment = JStr ''d'', ve_site = JStr ''s'', ve_thresholds = []\<rparr>"

definition sample_collections :: "collection list" where
  "sample_collections = [\<lparr>co_provider = ''vmware'', co_endpoint = ''vc'', co_contract =
     [(''provider'', JStr ''vmware''), (''manager'', JObj [(''id'', JStr ''1''), (''reachable'', JBool False)])],
     co_site = None\<rparr>]"

definition estate_facts :: "virt_estate res \<Rightarrow> (json list \<times> nat \<times> bool) option" where
  "estate_facts r = (case r of Inl e \<Rightarrow> None
     | Inr s \<Rightarrow> Some (map (\<lambda>d. dget d ''kind'') (es_objects s), length (es_findings s), isl (render_virtualisation 0 s)))"

lemma sample_virt_facts: "estate_facts (evaluate_virtualisation sample_engine sample_collections epoch_us) =
    Some ([JStr ''manager''], 1, False)"
  by code_simp

lemma sample_virt_estate:
  obtains s docs d f where "evaluate_virtualisation sample_engine sample_collections epoch_us = Inr s"
    "render_virtualisation 0 s = Inr docs" "es_objects s = [d]" "dget d ''kind'' = JStr ''manager''" "es_findings s = [f]"
proof -
  obtain s where s: "evaluate_virtualisation sample_engine sample_collections epoch_us = Inr s"
    and m: "map (\<lambda>d. dget d ''kind'') (es_objects s) = [JStr ''manager'']" "length (es_findings s) = 1"
    and r: "\<not> isl (render_virtualisation 0 s)"
    using sample_virt_facts by (cases "evaluate_virtualisation sample_engine sample_collections epoch_us")
      (simp_all add: estate_facts_def)
  obtain docs where "render_virtualisation 0 s = Inr docs" using r by (cases "render_virtualisation 0 s") simp_all
  moreover obtain d where "es_objects s = [d]" "dget d ''kind'' = JStr ''manager''" using m(1) by (auto simp: Cons_eq_map_conv)
  moreover obtain f where "es_findings s = [f]" using m(2) by (auto simp: length_Suc_conv)
  ultimately show ?thesis using s by (intro that)
qed

theorem operations_read_the_rendered_estate_witness:
  "\<exists>s docs v. evaluate_virtualisation sample_engine sample_collections epoch_us = Inr s \<and>
     render_virtualisation 0 s = Inr docs \<and> virtualisation_state (map_of docs) = Inr v \<and>
     vs_findings v = es_findings s \<and> vs_findings v \<noteq> []"
proof -
  obtain s docs d f where s: "evaluate_virtualisation sample_engine sample_collections epoch_us = Inr s"
    "render_virtualisation 0 s = Inr docs" "es_objects s = [d]" "es_findings s = [f]" by (rule sample_virt_estate)
  have "inj_on (\<lambda>d. dget d ''canonical_id'') (set (es_objects s))" by (simp add: s)
  from operations_read_the_rendered_estate [OF s(1,2) this] s show ?thesis by auto
qed

end
