(* ===== verification/Inventory_Models.thy ===== *)
theory Inventory_Models
  imports Py_Address Py_Fnmatch
begin

text \<open>
  \<open>collectors/inventory.py\<close>, the helpers and the asset record: cleaning and comparison of
  values, removal of secret fields, stable asset ids, and the adaptation of a source record.
  An asset is the dictionary \<open>InventoryAsset.to_dict\<close> gives: fields that are \<open>None\<close> are
  absent. SHA-256 is the parameter \<open>H\<close>; \<open>InventoryError\<close> is a \<open>ValueError\<close>.
\<close>

section \<open>Values\<close>

definition absent :: "json \<Rightarrow> bool" where
  "absent v = (v = JNull \<or> v = JStr [])"

definition clean :: "json \<Rightarrow> json" where
  "clean v = (if absent v then JNull else JStr (strip (py_str v)))"

definition normal_mac :: "json \<Rightarrow> json" where
  "normal_mac v =
     (if \<not> truthy v then JNull
      else (let compact = filter (\<lambda>c. c \<in> set ''0123456789abcdef'') (lower (py_str v)) in
        if length compact = 12 then JStr compact else JNull))"

definition normal_serial :: "json \<Rightarrow> json" where
  "normal_serial v = (if absent v then JNull else JStr (filter (\<lambda>c. \<not> is_space c) (upper (py_str v))))"

definition normal_ip :: "json \<Rightarrow> json" where
  "normal_ip v = (if absent v then JNull
     else (let t = strip (py_str v) in JStr (case parse_ip t of Some a \<Rightarrow> a | None \<Rightarrow> t)))"

text \<open>\<open>_parse_time\<close>; \<open>tz\<close> is the local offset in which a naive timestamp is read.\<close>

definition inventory_time :: "int \<Rightarrow> json \<Rightarrow> int option res" where
  "inventory_time tz v =
     (if \<not> truthy v then Inr None
      else case fromisoformat (replace_z (py_str v)) of
        None \<Rightarrow> Inl (ValueError ''inventory contains an invalid ISO-8601 timestamp'')
      | Some t \<Rightarrow> map_sum id Some (to_utc t tz))"

section \<open>Secrets\<close>

definition SECRET_FIELDS :: "string list" where
  "SECRET_FIELDS = [''api_token'', ''token'', ''password'', ''secret'', ''authorization'',
     ''authorization_header'', ''community'', ''community_string'', ''communities'']"

definition ends_with :: "string \<Rightarrow> string \<Rightarrow> bool" where
  "ends_with p s = (length p \<le> length s \<and> drop (length s - length p) s = p)"

definition secret_field_name :: "string \<Rightarrow> bool" where
  "secret_field_name key = (let name = lower key in
     name \<noteq> ''community_index'' \<and>
     (name \<in> set SECRET_FIELDS \<or> ends_with ''_token'' name \<or> ends_with ''_password'' name \<or>
      ends_with ''_secret'' name \<or> contains ''authorization'' name \<or>
      ends_with ''_community'' name \<or> ends_with ''_community_string'' name))"

fun without_secrets :: "json \<Rightarrow> json" where
  "without_secrets (JObj kvs) = JObj (concat (map (\<lambda>(k, v).
     if secret_field_name k then [] else [(k, without_secrets v)]) kvs))"
| "without_secrets (JList xs) = JList (map without_secrets xs)"
| "without_secrets v = v"

definition dict_without_secrets :: "dict \<Rightarrow> dict" where
  "dict_without_secrets d = as_dict (without_secrets (JObj d))"

definition safe_change_value :: "json \<Rightarrow> json" where
  "safe_change_value v = (case without_secrets v of
     JStr s \<Rightarrow> JStr (take 512 s)
   | JList xs \<Rightarrow> JStr (take 512 (py_str (JList xs)))
   | JObj kvs \<Rightarrow> JStr (take 512 (py_str (JObj kvs)))
   | w \<Rightarrow> w)"

section \<open>Asset ids\<close>

definition first_key :: "dict \<Rightarrow> string list \<Rightarrow> json" where
  "first_key d ks = foldr (\<lambda>k v. por (dget d k) v) (butlast ks) (dget d (last ks))"

definition strongest_key :: "string \<Rightarrow> dict \<Rightarrow> string \<times> string" where
  "strongest_key source record =
     (let serial = normal_serial (first_key record [''serial_number'', ''serial'']);
          source_id = clean (first_key record [''source_asset_id'', ''external_device_id'']);
          chassis = normal_mac (dget record ''chassis_mac'');
          management = normal_mac (first_key record [''management_mac'', ''mac_address'', ''mac''])
      in if truthy serial then (''serial'', py_str serial)
         else if truthy source_id then (''source-id'', py_str source_id)
         else if truthy chassis then (''chassis-mac'', py_str chassis)
         else if truthy management then (''management-mac'', py_str management)
         else (''fallback'', dumps (JList (JStr source # map (dget record)
           [''id'', ''management_ip'', ''ip'', ''sys_object_id'', ''hostname'', ''model'']))))"

definition stable_asset_id :: "(string \<Rightarrow> string) \<Rightarrow> json \<Rightarrow> dict \<Rightarrow> string" where
  "stable_asset_id H source record =
     (let src = lower (py_str (por source (JStr ''unknown''))); (kind, v) = strongest_key src record in
      ''asset:'' @ src @ '':'' @ take 24 (H (src @ ''|'' @ kind @ ''|'' @ v)))"

section \<open>Adapting a source record\<close>

definition LIFECYCLE_STATES :: "string list" where
  "LIFECYCLE_STATES = [''discovered'', ''active'', ''offline'', ''stale'', ''missing'', ''retired'']"

definition known_keys :: "string list" where
  "known_keys =
     [''asset_id'', ''source'', ''collector'', ''lifecycle_state'', ''first_seen_at'', ''first_seen'',
      ''last_seen_at'', ''last_seen'', ''last_changed_at'', ''source_asset_id'', ''external_device_id'',
      ''vendor'', ''platform'', ''device_type'', ''device_role'', ''hostname'', ''display_name'', ''name'',
      ''model'', ''serial_number'', ''serial'', ''mac_address'', ''mac'', ''management_ip'', ''ip'',
      ''firmware_version'', ''firmware'', ''deployment_id'', ''customer_id'', ''site_id'', ''customer'',
      ''site'', ''location'', ''retired_at'', ''source_record_id'', ''source_priority'',
      ''source_last_seen_at'', ''online'', ''claimed'', ''managed'', ''reconciliation_status'',
      ''reconciliation_evidence'', ''extensions'', ''operational_status'', ''status'',
      ''community_index'', ''lifecycle_reason'', ''lifecycle_source_run_id'',
      ''last_observed_source_run_id'', ''_authoritative_fields'']"

definition online_of_record :: "dict \<Rightarrow> json" where
  "online_of_record record =
     (let online = dget record ''online'';
          operational = lower (py_str (por (first_key record [''operational_status'', ''status'']) (JStr [])))
      in if online \<noteq> JNull then online
         else if operational \<in> {''online'', ''connected'', ''active''} then JBool True
         else if operational \<in> {''offline'', ''disconnected'', ''unreachable''} then JBool False
         else JNull)"

definition lifecycle_of_record :: "dict \<Rightarrow> json \<Rightarrow> json res" where
  "lifecycle_of_record record online =
     (let fallback = JStr (if online = JBool False then ''offline'' else ''discovered'') in
      case dget record ''lifecycle_state'' of
        JStr s \<Rightarrow> Inr (if s \<in> set LIFECYCLE_STATES then JStr s else fallback)
      | JList _ \<Rightarrow> Inl (TypeError ''unhashable type'')
      | JObj _ \<Rightarrow> Inl (TypeError ''unhashable type'')
      | _ \<Rightarrow> Inr fallback)"

definition source_id_of :: "string \<Rightarrow> dict \<Rightarrow> json" where
  "source_id_of source record =
     (let given = por (clean (dget record ''source_asset_id''))
            (por (clean (dget record ''external_device_id'')) (clean (dget record ''id'')))
      in if source = ''snmp'' \<and> \<not> truthy given \<and> truthy (dget record ''ip'') \<and> truthy (dget record ''sys_object_id'')
         then JStr (py_str (dget record ''ip'') @ ''|'' @ py_str (dget record ''sys_object_id''))
         else given)"

definition present_fields :: "dict \<Rightarrow> dict" where
  "present_fields d = filter (\<lambda>(k, v). v \<noteq> JNull) d"

text \<open>\<open>_adapt\<close>; \<open>customer\<close>, \<open>site\<close> and \<open>now\<close> are \<open>JNull\<close> where the code passes \<open>None\<close>.\<close>

definition adapt :: "(string \<Rightarrow> string) \<Rightarrow> json \<Rightarrow> dict \<Rightarrow> json \<Rightarrow> json \<Rightarrow> json \<Rightarrow> dict res" where
  "adapt H source_arg raw customer site now =
     (let record = dict_without_secrets raw;
          source = lower (py_str (por source_arg (por (dget record ''source'') (JStr ''unknown''))));
          sid = source_id_of source record; online = online_of_record record;
          first = por (first_key record [''first_seen_at'', ''first_seen'']) now;
          seen = por (first_key record [''last_seen_at'', ''last_seen'']) now
      in and_then (lifecycle_of_record record online) (\<lambda>lifecycle.
         and_then (want_dict (por (dget record ''extensions'') (JObj []))) (\<lambda>ext0.
         (let ext = dmerge ext0 (filter (\<lambda>(k, v). k \<notin> set known_keys) record) in
          Inr (present_fields
            [(''asset_id'', por (dget record ''asset_id'') (JStr (stable_asset_id H (JStr source) record))),
             (''source'', JStr source), (''collector'', JStr (py_str (por (dget record ''collector'') (JStr source)))),
             (''lifecycle_state'', lifecycle), (''first_seen_at'', first), (''last_seen_at'', seen),
             (''last_changed_at'', por (dget record ''last_changed_at'') first), (''source_asset_id'', sid),
             (''vendor'', clean (dget record ''vendor'')), (''platform'', clean (dget record ''platform'')),
             (''device_type'', clean (first_key record [''device_type'', ''platform''])),
             (''device_role'', clean (dget record ''device_role'')), (''hostname'', clean (dget record ''hostname'')),
             (''display_name'', clean (first_key record [''display_name'', ''name''])),
             (''model'', clean (dget record ''model'')),
             (''serial_number'', clean (first_key record [''serial_number'', ''serial''])),
             (''mac_address'', normal_mac (first_key record [''mac_address'', ''mac''])),
             (''management_ip'', normal_ip (first_key record [''management_ip'', ''ip''])),
             (''firmware_version'', clean (first_key record [''firmware_version'', ''firmware''])),
             (''deployment_id'', clean (dget record ''deployment_id'')),
             (''customer_id'', clean (por (first_key record [''customer_id'', ''customer'']) customer)),
             (''site_id'', clean (dget record ''site_id'')),
             (''customer'', clean (por (dget record ''customer'') customer)),
             (''site'', clean (por (dget record ''site'') site)), (''location'', clean (dget record ''location'')),
             (''retired_at'', dget record ''retired_at''),
             (''source_record_id'', clean (por (dget record ''source_record_id'') sid)),
             (''source_priority'', dget record ''source_priority''),
             (''source_last_seen_at'', por (dget record ''source_last_seen_at'') seen), (''online'', online),
             (''claimed'', dget record ''claimed''), (''managed'', dget record ''managed''),
             (''lifecycle_reason'', dget record ''lifecycle_reason''),
             (''lifecycle_source_run_id'', dget record ''lifecycle_source_run_id''),
             (''last_observed_source_run_id'', dget record ''last_observed_source_run_id''),
             (''reconciliation_status'', dget_or record ''reconciliation_status'' (JStr ''unmatched'')),
             (''reconciliation_evidence'', por (dget record ''reconciliation_evidence'') (JList [])),
             (''extensions'', if ext = [] then JNull else JObj ext)])))))"

section \<open>Secrets never survive\<close>

fun secret_free :: "json \<Rightarrow> bool" where
  "secret_free (JObj kvs) = (\<forall>p \<in> set kvs. \<not> secret_field_name (fst p) \<and> secret_free (snd p))"
| "secret_free (JList xs) = (\<forall>x \<in> set xs. secret_free x)"
| "secret_free v = True"

lemma without_secrets_free: "secret_free (without_secrets v)"
  by (induction v rule: without_secrets.induct) (auto split: if_splits)

lemma without_secrets_id: "secret_free v \<Longrightarrow> without_secrets v = v"
proof (induction v rule: without_secrets.induct)
  case (1 kvs)
  have "concat (map (\<lambda>(k, v). if secret_field_name k then [] else [(k, without_secrets v)]) xs) = xs"
    if "set xs \<subseteq> set kvs" for xs
    using that 1 by (induction xs) force+
  then show ?case by simp
next
  case (2 xs)
  then show ?case by (simp add: map_idI)
qed auto

end
