(* ===== verification/Inventory_Engine.thy ===== *)
theory Inventory_Engine
  imports Inventory_Models
begin

text \<open>
  \<open>InventoryEngine\<close> of \<open>collectors/inventory.py\<close>: the inventory's documents as a state, source
  runs, lifecycle and change history, ingestion, reconciliation and the lifecycle operations.
  Each operation holds the inventory lock, so it is one function on the state; every document
  read is the one written last (failing disks are the matter of \<open>Atomic_Files\<close>). Identifiers
  and timestamps in the documents are texts. The clock is the argument \<open>now\<close>, a timestamp.
\<close>

section \<open>Configuration\<close>

record inventory_config =
  ic_hash :: "string \<Rightarrow> string"
  ic_tz :: int
  ic_stale_after :: int
  ic_missing_after :: int
  ic_history_max :: int
  ic_history_days :: int
  ic_change_enabled :: bool
  ic_change_max :: int
  ic_change_days :: int
  ic_duplicate_seconds :: int
  ic_ignored :: "string list"
  ic_minimum_severity :: string
  ic_field_severity :: "(string \<times> string) list"
  ic_hostname_exclusions :: "string list"
  ic_type_exclusions :: "string list"
  ic_enrichment_only :: "string list"

definition SEVERITY_RANK :: "(string \<times> int) list" where
  "SEVERITY_RANK = [(''info'', 0), (''low'', 1), (''medium'', 2), (''high'', 3)]"

definition is_severity :: "string \<Rightarrow> bool" where
  "is_severity s = (map_of SEVERITY_RANK s \<noteq> None)"

text \<open>The validation of \<open>__init__\<close>.\<close>

definition check_config :: "inventory_config \<Rightarrow> inventory_config res" where
  "check_config c =
     (if ic_stale_after c < 0 \<or> ic_missing_after c < ic_stale_after c then
        Inl (ValueError ''inventory thresholds require 0 <= stale_after_seconds <= missing_after_seconds'')
      else if ic_history_max c < 1 \<or> ic_history_days c < 1 then
        Inl (ValueError ''inventory lifecycle history retention values must be positive'')
      else if ic_change_max c < 1 \<or> ic_change_days c < 1 \<or> ic_duplicate_seconds c < 0 then
        Inl (ValueError ''inventory change history retention values must be positive'')
      else if \<not> is_severity (ic_minimum_severity c) \<or> \<not> list_all (\<lambda>p. is_severity (snd p)) (ic_field_severity c) then
        Inl (ValueError ''inventory change severity must be info, low, medium, or high'')
      else Inr c)"

section \<open>Source runs\<close>

definition keep_last :: "int \<Rightarrow> 'a list \<Rightarrow> 'a list" where
  "keep_last n xs = drop (length xs - nat n) xs"

definition source_run_id :: "(string \<Rightarrow> string) \<Rightarrow> string \<Rightarrow> string \<Rightarrow> string" where
  "source_run_id H source started_at = ''run:'' @ take 24 (H (source @ ''|'' @ started_at))"

record source_run =
  sr_run_id :: string
  sr_source :: string
  sr_collector :: string
  sr_started_at :: string
  sr_completed_at :: "string option"
  sr_success :: "bool option"
  sr_records :: int
  sr_partial :: bool
  sr_error_category :: "string option"

record source_state =
  so_collector :: string
  so_successes :: int
  so_failures :: int
  so_runs :: "source_run list"
  so_last_run :: "source_run option"
  so_last_successful :: "source_run option"
  so_last_complete :: "source_run option"
  so_last_failed :: "source_run option"

definition new_source :: "string \<Rightarrow> source_state" where
  "new_source collector = \<lparr>so_collector = collector, so_successes = 0, so_failures = 0, so_runs = [],
     so_last_run = None, so_last_successful = None, so_last_complete = None, so_last_failed = None\<rparr>"

type_synonym source_runs = "(string \<times> source_state) list"

definition source_named :: "source_runs \<Rightarrow> string \<Rightarrow> string \<Rightarrow> source_state" where
  "source_named runs source collector =
     (case map_of runs source of None \<Rightarrow> new_source collector | Some s \<Rightarrow> s)"

text \<open>The first run of that id, changed in place.\<close>

fun update_first :: "('a \<Rightarrow> bool) \<Rightarrow> ('a \<Rightarrow> 'a) \<Rightarrow> 'a list \<Rightarrow> 'a list" where
  "update_first P f [] = []"
| "update_first P f (x # xs) = (if P x then f x # xs else x # update_first P f xs)"

text \<open>\<open>_without_secrets\<close> on the document drops a source with the name of a secret field.\<close>

definition runs_clean :: "source_runs \<Rightarrow> source_runs" where
  "runs_clean runs = filter (\<lambda>(n, _). \<not> secret_field_name n) runs"

definition begin_source_run :: "(string \<Rightarrow> string) \<Rightarrow> string \<Rightarrow> string \<Rightarrow> string \<Rightarrow> source_runs
    \<Rightarrow> source_runs \<times> string" where
  "begin_source_run H source_arg collector_arg started_at runs =
     (let source = lower source_arg; collector = sor collector_arg source;
          rid = source_run_id H source started_at;
          run = \<lparr>sr_run_id = rid, sr_source = source, sr_collector = collector, sr_started_at = started_at,
            sr_completed_at = None, sr_success = None, sr_records = 0, sr_partial = False,
            sr_error_category = None\<rparr>;
          st = source_named (runs_clean runs) source collector;
          kept = filter (\<lambda>r. sr_run_id r \<noteq> rid) (so_runs st)
      in (runs_clean (AList.update source (st\<lparr>so_collector := collector,
            so_runs := keep_last 100 (kept @ [run]), so_last_run := Some run\<rparr>) (runs_clean runs)), rid))"

definition finished_run :: "bool \<Rightarrow> int \<Rightarrow> string \<Rightarrow> string option \<Rightarrow> bool \<Rightarrow> source_run \<Rightarrow> source_run" where
  "finished_run success records completed_at category partial r =
     r\<lparr>sr_completed_at := Some completed_at, sr_success := Some success, sr_records := records,
       sr_partial := partial,
       sr_error_category := (if success \<or> category = Some [] then None else map_option strip category)\<rparr>"

definition count_run :: "bool \<Rightarrow> bool \<Rightarrow> source_run \<Rightarrow> source_state \<Rightarrow> source_state" where
  "count_run success partial run st =
     (if success then st\<lparr>so_last_successful := Some run,
         so_last_complete := (if partial then so_last_complete st else Some run),
         so_successes := so_successes st + 1, so_failures := 0\<rparr>
      else st\<lparr>so_last_failed := Some run, so_failures := so_failures st + 1, so_successes := 0\<rparr>)"

text \<open>An unknown run id gets a new run, started when it completes.\<close>

definition complete_source_run :: "string \<Rightarrow> string \<Rightarrow> bool \<Rightarrow> int \<Rightarrow> string \<Rightarrow> string option \<Rightarrow> bool
    \<Rightarrow> source_runs \<Rightarrow> source_runs \<times> source_run" where
  "complete_source_run source_arg rid success records completed_at category partial runs =
     (let source = lower source_arg; st = source_named (runs_clean runs) source source;
          finish = finished_run success records completed_at category partial;
          fresh = \<lparr>sr_run_id = rid, sr_source = source, sr_collector = so_collector st,
            sr_started_at = completed_at, sr_completed_at = None, sr_success = None, sr_records = 0,
            sr_partial = False, sr_error_category = None\<rparr>;
          known = List.find (\<lambda>r. sr_run_id r = rid) (so_runs st);
          rs = (case known of None \<Rightarrow> so_runs st @ [fresh] | Some _ \<Rightarrow> so_runs st);
          run = finish (case known of None \<Rightarrow> fresh | Some r \<Rightarrow> r);
          st' = count_run success partial run (st\<lparr>so_last_run := Some run\<rparr>)
      in (runs_clean (AList.update source
            (st'\<lparr>so_runs := keep_last 100 (update_first (\<lambda>r. sr_run_id r = rid) finish rs)\<rparr>)
            (runs_clean runs)), run))"

section \<open>Lifecycle history\<close>

record transition =
  te_id :: string
  te_asset :: string
  te_source :: json
  te_previous :: json
  te_new :: json
  te_reason :: string
  te_occurred :: string
  te_observed :: json
  te_run :: "string option"
  te_actor :: string
  te_metadata :: dict

text \<open>\<open>item["asset_id"]\<close>; ids are texts.\<close>

definition asset_id_of :: "dict \<Rightarrow> string res" where
  "asset_id_of item = (case map_of item ''asset_id'' of
       None \<Rightarrow> Inl (KeyError ''asset_id'')
     | Some (JStr s) \<Rightarrow> Inr s
     | Some _ \<Rightarrow> Inl (Unmodelled ''asset_id''))"

definition or_empty :: "json \<Rightarrow> string" where
  "or_empty v = (if truthy v then py_str v else [])"

definition lifecycle_event_id :: "(string \<Rightarrow> string) \<Rightarrow> json list \<Rightarrow> string" where
  "lifecycle_event_id H parts = ''event:'' @ take 24 (H (join ''|'' (map or_empty parts)))"

definition make_transition :: "inventory_config \<Rightarrow> dict \<Rightarrow> json \<Rightarrow> json \<Rightarrow> string \<Rightarrow> string \<Rightarrow> string
    \<Rightarrow> string option \<Rightarrow> dict \<Rightarrow> transition res" where
  "make_transition cfg item previous new reason occurred_at actor run metadata =
     and_then (asset_id_of item) (\<lambda>aid. Inr
       \<lparr>te_id = lifecycle_event_id (ic_hash cfg)
          [JStr aid, previous, new, JStr reason, JStr occurred_at, jopt run],
        te_asset = aid, te_source = dget_or item ''source'' (JStr ''unknown''), te_previous = previous,
        te_new = new, te_reason = reason, te_occurred = occurred_at, te_observed = dget item ''last_seen_at'',
        te_run = run, te_actor = actor, te_metadata = dict_without_secrets metadata\<rparr>)"

text \<open>
  Both histories are kept the same way: events older than the retention days (counted from
  the newest event) or without a time are dropped, the rest is sorted by time and id, and the
  last of them are kept.
\<close>

definition event_time :: "inventory_config \<Rightarrow> string \<Rightarrow> int res" where
  "event_time cfg s = and_then (inventory_time (ic_tz cfg) (JStr s)) (\<lambda>t. case t of
     None \<Rightarrow> Inl (TypeError ''unsupported operand type'') | Some u \<Rightarrow> Inr u)"

definition days_before :: "int \<Rightarrow> int \<Rightarrow> int res" where
  "days_before u days = (let c = u - days * day_us in
     if c < 0 then Inl (OverflowError ''date value out of range'') else Inr c)"

definition since_cutoff :: "inventory_config \<Rightarrow> int \<Rightarrow> ('a \<Rightarrow> string) \<Rightarrow> 'a list \<Rightarrow> 'a list res" where
  "since_cutoff cfg cutoff time xs =
     and_then (map_res (\<lambda>x. map_sum id (Pair x) (inventory_time (ic_tz cfg) (JStr (time x)))) xs)
       (\<lambda>ys. Inr (map fst (filter (\<lambda>(x, t). case t of None \<Rightarrow> False | Some u \<Rightarrow> cutoff \<le> u) ys)))"

definition retain :: "inventory_config \<Rightarrow> int \<Rightarrow> int \<Rightarrow> ('a \<Rightarrow> string) \<Rightarrow> ('a \<Rightarrow> string) \<Rightarrow> string \<Rightarrow> 'a list
    \<Rightarrow> 'a list res" where
  "retain cfg days max_events time ident now xs =
     and_then (event_time cfg now) (\<lambda>u.
     and_then (days_before u days) (\<lambda>cutoff.
     and_then (since_cutoff cfg cutoff time xs) (\<lambda>kept.
       Inr (keep_last max_events (sort_key (\<lambda>x. (time x, ident x)) kept)))))"

text \<open>\<open>_append_transition\<close>: nothing for an unchanged state or an event already recorded.\<close>

definition append_transition :: "inventory_config \<Rightarrow> dict \<Rightarrow> json \<Rightarrow> json \<Rightarrow> string \<Rightarrow> string \<Rightarrow> string
    \<Rightarrow> string option \<Rightarrow> dict \<Rightarrow> transition list \<Rightarrow> (transition list \<times> transition option) res" where
  "append_transition cfg item previous new reason occurred_at actor run metadata events =
     (if py_eq previous new then Inr (events, None)
      else and_then (make_transition cfg item previous new reason occurred_at actor run metadata) (\<lambda>e.
        if te_id e \<in> set (map te_id events) then Inr (events, None)
        else and_then (retain cfg (ic_history_days cfg) (ic_history_max cfg) te_occurred te_id
                occurred_at (events @ [e]))
               (\<lambda>kept. Inr (kept, Some e))))"

text \<open>\<open>history\<close>: newest first; an empty filter text is no filter.\<close>

definition limited :: "int \<Rightarrow> 'a list \<Rightarrow> 'a list" where
  "limited limit xs = take (nat (max 1 limit)) (rev xs)"

definition history_query :: "string \<Rightarrow> string \<Rightarrow> string \<Rightarrow> int \<Rightarrow> transition list \<Rightarrow> transition list" where
  "history_query aid state source limit events =
     limited limit (filter (\<lambda>e. (aid = [] \<or> te_asset e = aid) \<and> (state = [] \<or> te_new e = JStr state)
       \<and> (source = [] \<or> te_source e = JStr source)) events)"

section \<open>Change history\<close>

record change_event =
  ce_id :: string
  ce_asset :: string
  ce_source :: json
  ce_collector :: json
  ce_field :: string
  ce_previous :: json
  ce_new :: json
  ce_type :: string
  ce_severity :: string
  ce_reason :: string
  ce_detected :: string
  ce_run :: "string option"
  ce_protected :: bool

definition TRACKED_CHANGE_FIELDS :: "string list" where
  "TRACKED_CHANGE_FIELDS = [''hostname'', ''display_name'', ''management_ip'', ''mac_address'',
     ''serial_number'', ''source_asset_id'', ''vendor'', ''model'', ''platform'', ''device_type'',
     ''device_role'', ''customer'', ''site'', ''location'', ''firmware_version'', ''claimed'',
     ''managed'', ''source_priority'', ''source_record_id'']"

definition PROTECTED_IDENTITY_FIELDS :: "string list" where
  "PROTECTED_IDENTITY_FIELDS = [''serial_number'', ''mac_address'', ''source_asset_id'']"

definition comparison_value :: "string \<Rightarrow> json \<Rightarrow> json" where
  "comparison_value field v =
     (if absent v then JNull
      else if field = ''mac_address'' then normal_mac v
      else if field = ''management_ip'' then normal_ip v
      else if field = ''hostname'' then JStr (casefold (strip (py_str v)))
      else if field \<in> {''claimed'', ''managed''} then JBool (truthy v)
      else (case v of JStr t \<Rightarrow> JStr (strip t) | _ \<Rightarrow> v))"

text \<open>The change type, severity and reason of a field's change.\<close>

definition change_classification :: "string \<Rightarrow> json \<Rightarrow> json \<Rightarrow> string \<times> string \<times> string" where
  "change_classification field previous new =
     (if field \<in> set PROTECTED_IDENTITY_FIELDS then
        (if previous = JNull \<and> new \<noteq> JNull
         then (''identity_enriched'', ''info'', ''protected_identity_added'')
         else (''identity_conflict'', ''high'', ''protected_identity_changed''))
      else if field = ''firmware_version'' then (''firmware_changed'', ''info'', ''firmware_observation_changed'')
      else if field = ''model'' then (''classification_changed'', ''high'', ''hardware_model_changed'')
      else if field \<in> {''vendor'', ''platform'', ''device_type'', ''device_role''} then
        (''classification_changed'', ''medium'', ''asset_classification_changed'')
      else if field \<in> {''customer'', ''site'', ''location''} then
        (''location_changed'', ''medium'', ''asset_location_changed'')
      else if field \<in> {''claimed'', ''managed'', ''source_priority'', ''source_record_id''} then
        (''ownership_changed'', if new = JNull \<or> py_eq new (JBool False) then ''medium'' else ''low'',
         ''asset_ownership_changed'')
      else (if previous = JNull then ''value_added'' else if new = JNull then ''value_removed'' else ''value_changed'',
        if previous \<noteq> JNull \<and> field \<in> {''hostname'', ''display_name'', ''management_ip''} then ''low'' else ''info'',
        ''inventory_value_changed''))"

text \<open>Severities of a configuration are checked by \<open>check_config\<close>.\<close>

definition severity_rank :: "string \<Rightarrow> int" where
  "severity_rank s = (case map_of SEVERITY_RANK s of None \<Rightarrow> 0 | Some n \<Rightarrow> n)"

definition required_severity :: "inventory_config \<Rightarrow> string \<Rightarrow> string" where
  "required_severity cfg field = (case map_of (ic_field_severity cfg) field of
     None \<Rightarrow> ic_minimum_severity cfg | Some s \<Rightarrow> s)"

definition new_change_event :: "inventory_config \<Rightarrow> dict \<Rightarrow> string \<Rightarrow> json \<Rightarrow> json \<Rightarrow> string \<Rightarrow> string option
    \<Rightarrow> change_event option res" where
  "new_change_event cfg item field previous new detected_at run =
     (let (ctype, severity, reason) = change_classification field previous new in
      if severity_rank severity < severity_rank (required_severity cfg field) then Inr None
      else and_then (asset_id_of item) (\<lambda>aid. Inr (Some
        \<lparr>ce_id = ''change:'' @ take 24 (ic_hash cfg (dumps (JList
           [JStr aid, JStr field, previous, new, JStr ctype, JStr detected_at, jopt run]))),
         ce_asset = aid, ce_source = dget_or item ''source'' (JStr ''unknown''),
         ce_collector = dget_or item ''collector'' (dget_or item ''source'' (JStr ''unknown'')),
         ce_field = field, ce_previous = safe_change_value previous, ce_new = safe_change_value new,
         ce_type = ctype, ce_severity = severity, ce_reason = reason, ce_detected = detected_at,
         ce_run = run, ce_protected = (field \<in> set PROTECTED_IDENTITY_FIELDS)\<rparr>)))"

text \<open>
  \<open>_append_changes\<close>: the newest recorded change with the same content decides whether an
  addition repeats it within the suppression time.
\<close>

definition same_change :: "change_event \<Rightarrow> change_event \<Rightarrow> bool" where
  "same_change a b = (ce_asset a = ce_asset b \<and> ce_field a = ce_field b \<and>
     py_eq (ce_previous a) (ce_previous b) \<and> py_eq (ce_new a) (ce_new b) \<and> ce_type a = ce_type b)"

definition repeats_change :: "inventory_config \<Rightarrow> change_event list \<Rightarrow> change_event \<Rightarrow> bool res" where
  "repeats_change cfg known e =
     (case List.find (\<lambda>x. same_change x e) (rev known) of
        None \<Rightarrow> Inr False
      | Some x \<Rightarrow> and_then (inventory_time (ic_tz cfg) (JStr (ce_detected x))) (\<lambda>t. case t of
            None \<Rightarrow> Inr False
          | Some old \<Rightarrow> map_sum id (\<lambda>new. new - old \<le> ic_duplicate_seconds cfg * 1000000)
              (event_time cfg (ce_detected e))))"

definition accept_change :: "inventory_config \<Rightarrow> change_event list \<Rightarrow> change_event \<Rightarrow> change_event list
    \<Rightarrow> change_event list res" where
  "accept_change cfg events e accepted =
     map_sum id (\<lambda>dup. if dup \<or> ce_id e \<in> set (map ce_id events) then accepted else accepted @ [e])
       (repeats_change cfg (events @ accepted) e)"

definition append_changes :: "inventory_config \<Rightarrow> change_event list \<Rightarrow> string \<Rightarrow> change_event list
    \<Rightarrow> (change_event list \<times> change_event list) res" where
  "append_changes cfg additions now events =
     and_then (fold_res (accept_change cfg events) additions []) (\<lambda>accepted.
       if accepted = [] then Inr (events, [])
       else map_sum id (\<lambda>kept. (kept, accepted))
         (retain cfg (ic_change_days cfg) (ic_change_max cfg) ce_detected ce_id now (events @ accepted)))"

text \<open>\<open>changes\<close>, newest first.\<close>

definition changes_query :: "inventory_config \<Rightarrow> string \<Rightarrow> string \<Rightarrow> string \<Rightarrow> string \<Rightarrow> string \<Rightarrow> int
    \<Rightarrow> change_event list \<Rightarrow> change_event list res" where
  "changes_query cfg aid source field severity since limit events =
     (let sel = filter (\<lambda>e. (aid = [] \<or> ce_asset e = aid) \<and> (source = [] \<or> ce_source e = JStr source) \<and>
        (field = [] \<or> ce_field e = field) \<and> (severity = [] \<or> ce_severity e = severity)) events
      in if since = [] then Inr (limited limit sel)
         else and_then (event_time cfg since) (\<lambda>cutoff.
           and_then (map_res (\<lambda>e. map_sum id (Pair e) (event_time cfg (ce_detected e))) sel)
             (\<lambda>ys. Inr (limited limit (map fst (filter (\<lambda>(e, t). cutoff \<le> t) ys))))))"

section \<open>Change detection\<close>

definition hashable :: "json \<Rightarrow> unit res" where
  "hashable v = guard_res (case v of JList _ \<Rightarrow> True | JObj _ \<Rightarrow> True | _ \<Rightarrow> False)
     (TypeError ''unhashable type'')"

definition host_excluded :: "inventory_config \<Rightarrow> json \<Rightarrow> bool res" where
  "host_excluded cfg host =
     (if ic_hostname_exclusions cfg = [] then Inr False
      else case host of
        JStr h \<Rightarrow> Inr (\<not> list_all (\<lambda>p. \<not> fnmatch (casefold p) (casefold h)) (ic_hostname_exclusions cfg))
      | _ \<Rightarrow> Inl (AttributeError ''object has no attribute casefold''))"

definition detect_field :: "inventory_config \<Rightarrow> dict \<Rightarrow> string list \<Rightarrow> bool \<Rightarrow> string \<Rightarrow> string option \<Rightarrow> string
    \<Rightarrow> dict \<times> change_event list \<Rightarrow> (dict \<times> change_event list) res" where
  "detect_field cfg previous authoritative partial detected_at run field st =
     (let (item, events) = st; old = dget previous field; new = dget item field in
      if field \<in> set (ic_ignored cfg) then Inr (item, events)
      else if \<not> dhas item field \<and>
          (partial \<or> field \<notin> set authoritative \<or> field \<in> set (ic_enrichment_only cfg)) then
        Inr (if dhas previous field then dset item field old else item, events)
      else if py_eq (comparison_value field old) (comparison_value field new) then
        Inr (if old \<noteq> JNull then dset item field old else item, events)
      else map_sum id (\<lambda>e. (if field \<in> set PROTECTED_IDENTITY_FIELDS \<and> old \<noteq> JNull
            then dset item field old else item,
          case e of None \<Rightarrow> events | Some c \<Rightarrow> events @ [c]))
        (new_change_event cfg item field old new detected_at run))"

definition detect_changes :: "inventory_config \<Rightarrow> dict \<Rightarrow> dict \<Rightarrow> string list \<Rightarrow> bool \<Rightarrow> string \<Rightarrow> string option
    \<Rightarrow> (dict \<times> change_event list) res" where
  "detect_changes cfg previous item authoritative partial detected_at run =
     (if \<not> ic_change_enabled cfg then Inr (item, [])
      else and_then (host_excluded cfg (por (dget item ''hostname'') (por (dget previous ''hostname'') (JStr []))))
        (\<lambda>excluded. if excluded then Inr (item, [])
         else (let kind = por (dget item ''device_type'') (dget previous ''device_type'') in
           and_then (hashable kind) (\<lambda>_.
             if kind \<in> set (map JStr (ic_type_exclusions cfg)) then Inr (item, [])
             else fold_res (detect_field cfg previous authoritative partial detected_at run)
               TRACKED_CHANGE_FIELDS (item, [])))))"

section \<open>Documents\<close>

text \<open>
  \<open>assets.json\<close> (absent at first), \<open>devices.json\<close> of the legacy manager (\<open>JNull\<close> when there is
  none), \<open>source_runs.json\<close>, both histories and \<open>reconciliation.json\<close>.
\<close>

record rec_entry =
  re_ids :: "string list"
  re_status :: string
  re_evidence :: "string list"

record inventory =
  iv_assets :: "dict list option"
  iv_legacy :: json
  iv_sources :: source_runs
  iv_history :: "transition list"
  iv_changes :: "change_event list"
  iv_reconciliations :: "rec_entry list"

definition text_key :: "dict \<Rightarrow> string \<Rightarrow> string" where
  "text_key d k = (case dget_or d k (JStr []) of JStr s \<Rightarrow> s | _ \<Rightarrow> [])"

definition sort_assets :: "dict list \<Rightarrow> dict list" where
  "sort_assets xs = sort_key (\<lambda>a. text_key a ''asset_id'') xs"

text \<open>\<open>_legacy_assets\<close>, from the document of \<open>devices.json\<close> (\<open>JNull\<close> when there is none).\<close>

definition legacy_source :: "dict \<Rightarrow> json" where
  "legacy_source r = por (dget r ''source'')
     (JStr (if truthy (dget r ''sys_object_id'') then ''snmp'' else ''legacy''))"

definition legacy_assets :: "inventory_config \<Rightarrow> json \<Rightarrow> dict list res" where
  "legacy_assets cfg doc =
     (let adapted = (\<lambda>defaults rs. and_then (map_res (\<lambda>r. adapt (ic_hash cfg) (legacy_source r) r
            (dget defaults ''customer'') (dget defaults ''site'')
            (first_key r [''last_seen'', ''last_seen_at''])) (map as_dict (filter is_obj rs)))
          (\<lambda>as. Inr (sort_assets as))) in
      case doc of
        JNull \<Rightarrow> Inr []
      | JList rs \<Rightarrow> adapted [] rs
      | JObj d \<Rightarrow> (case dget_or d ''devices'' (JList []) of
            JList rs \<Rightarrow> adapted d rs
          | _ \<Rightarrow> Inl (ValueError ''invalid devices list''))
      | _ \<Rightarrow> Inl (ValueError ''inventory file must contain an object or list''))"

definition load_assets :: "inventory_config \<Rightarrow> inventory \<Rightarrow> dict list res" where
  "load_assets cfg iv = (case iv_assets iv of
     None \<Rightarrow> legacy_assets cfg (iv_legacy iv)
   | Some as \<Rightarrow> Inr (sort_assets (map dict_without_secrets as)))"

definition save_assets :: "dict list \<Rightarrow> inventory \<Rightarrow> inventory" where
  "save_assets as iv = iv\<lparr>iv_assets := Some (sort_assets (map dict_without_secrets as))\<rparr>"

end
