(* ===== verification/Inventory_Ingest.thy ===== *)
theory Inventory_Ingest
  imports Inventory_Engine
begin

text \<open>
  \<open>InventoryEngine\<close> of \<open>collectors/inventory.py\<close>, the operations on assets: reconciliation
  across sources, ingestion of a source's records, and the lifecycle (seen, retired, restored,
  explicitly set, aged). Each is one function on \<open>inventory\<close>, since it holds the inventory's
  lock; the histories are written as the code goes, the assets when it saves. An operation
  that raises is its error. \<open>now\<close> is the timestamp of \<open>now or utcnow()\<close>.
\<close>

section \<open>Reconciliation\<close>

definition differ :: "json \<Rightarrow> json \<Rightarrow> bool" where
  "differ a b = (truthy a \<and> truthy b \<and> a \<noteq> b)"

definition agree :: "json \<Rightarrow> json \<Rightarrow> bool" where
  "agree a b = (truthy a \<and> a = b)"

definition fold_host :: "dict \<Rightarrow> json" where
  "fold_host d = (case clean (dget d ''hostname'') of JStr h \<Rightarrow> JStr (casefold h) | v \<Rightarrow> v)"

definition pair_status :: "dict \<Rightarrow> dict \<Rightarrow> (string \<times> string list) option" where
  "pair_status left right =
     (let serial_a = normal_serial (dget left ''serial_number''); serial_b = normal_serial (dget right ''serial_number'');
          mac_a = normal_mac (dget left ''mac_address''); mac_b = normal_mac (dget right ''mac_address'');
          same_host = agree (fold_host left) (fold_host right)
      in if py_eq (dget left ''source'') (dget right ''source'') then None
         else if agree serial_a serial_b \<and> differ mac_a mac_b then
           Some (''conflicting'', [''serial_number agrees'', ''mac_address conflicts''])
         else if agree mac_a mac_b \<and> differ serial_a serial_b then
           Some (''conflicting'', [''mac_address agrees'', ''serial_number conflicts''])
         else if same_host \<and> (differ serial_a serial_b \<or> differ mac_a mac_b) then
           Some (''conflicting'', [''hostname agrees but strong identifiers conflict''])
         else if agree serial_a serial_b \<and> agree mac_a mac_b then
           Some (''exact_match'', [''serial_number'', ''mac_address''])
         else if agree serial_a serial_b then
           Some (''strong_match'', ''serial_number'' #
             (if truthy (dget left ''model'') \<and> py_eq (dget left ''model'') (dget right ''model'')
              then [''model''] else []))
         else if agree mac_a mac_b then Some (''strong_match'', [''mac_address''])
         else if agree (clean (dget left ''source_asset_id'')) (clean (dget right ''source_asset_id'')) \<and>
             truthy (dget left ''vendor'') \<and> py_eq (dget left ''vendor'') (dget right ''vendor'') then
           Some (''strong_match'', [''shared_vendor_device_id'', ''vendor''])
         else if same_host then Some (''ambiguous'', [''hostname_only''])
         else None)"

definition rec_rank :: "string \<Rightarrow> int" where
  "rec_rank s = (case map_of [(''unmatched'', 0), (''source_only'', 1), (''ambiguous'', 2),
     (''strong_match'', 3), (''exact_match'', 4), (''conflicting'', 5)] s of None \<Rightarrow> 0 | Some n \<Rightarrow> n)"

definition initial_status :: "dict \<Rightarrow> string" where
  "initial_status d = (if truthy (dget d ''serial_number'') \<or> truthy (dget d ''mac_address'') \<or>
     truthy (dget d ''source_asset_id'') then ''source_only'' else ''unmatched'')"

record rec_state =
  rt_entries :: "rec_entry list"
  rt_status :: "(string \<times> string) list"
  rt_evidence :: "(string \<times> rec_entry list) list"

definition raise_status :: "string \<Rightarrow> string \<Rightarrow> (string \<times> string) list \<Rightarrow> (string \<times> string) list" where
  "raise_status status aid m = AList.map_entry aid
     (\<lambda>s. if rec_rank s \<le> rec_rank status then status else s) m"

definition note_entry :: "rec_entry \<Rightarrow> string \<Rightarrow> rec_state \<Rightarrow> rec_state" where
  "note_entry e aid t = t\<lparr>rt_status := raise_status (re_status e) aid (rt_status t),
     rt_evidence := AList.map_entry aid (\<lambda>es. es @ [e]) (rt_evidence t)\<rparr>"

definition reconcile_pair :: "(string \<times> dict) \<times> (string \<times> dict) \<Rightarrow> rec_state \<Rightarrow> rec_state" where
  "reconcile_pair p t =
     (case p of ((la, left), (ra, right)) \<Rightarrow>
       (case pair_status left right of
          None \<Rightarrow> t
        | Some (status, evidence) \<Rightarrow>
            (let e = \<lparr>re_ids = sort [la, ra], re_status = status, re_evidence = evidence\<rparr> in
             note_entry e ra (note_entry e la (t\<lparr>rt_entries := rt_entries t @ [e]\<rparr>)))))"

fun pairs :: "'a list \<Rightarrow> ('a \<times> 'a) list" where
  "pairs [] = []"
| "pairs (x # xs) = map (Pair x) xs @ pairs xs"

definition entry_json :: "rec_entry \<Rightarrow> json" where
  "entry_json e = JObj [(''asset_ids'', jstrs (re_ids e)), (''status'', JStr (re_status e)),
     (''evidence'', jstrs (re_evidence e))]"

definition start_reconcile :: "(string \<times> dict) list \<Rightarrow> rec_state" where
  "start_reconcile named = \<lparr>rt_entries = [],
     rt_status = foldl (\<lambda>m (a, d). AList.update a (initial_status d) m) [] named,
     rt_evidence = foldl (\<lambda>m (a, d). AList.update a [] m) [] named\<rparr>"

definition mark_reconciled :: "rec_state \<Rightarrow> string \<times> dict \<Rightarrow> dict" where
  "mark_reconciled t p = (case p of (a, d) \<Rightarrow>
     dset (dset d ''reconciliation_status'' (case map_of (rt_status t) a of None \<Rightarrow> JNull | Some s \<Rightarrow> JStr s))
       ''reconciliation_evidence'' (JList (map entry_json (sort_key re_ids
          (case map_of (rt_evidence t) a of None \<Rightarrow> [] | Some es \<Rightarrow> es)))))"

text \<open>\<open>reconcile\<close> on the assets as given; their order decides the order of equal entries.\<close>

definition reconcile_assets :: "dict list \<Rightarrow> (dict list \<times> rec_entry list) res" where
  "reconcile_assets assets =
     and_then (map_res (\<lambda>d. map_sum id (\<lambda>a. (a, d)) (asset_id_of d)) assets) (\<lambda>named.
       let t = fold reconcile_pair (pairs named) (start_reconcile named) in
       Inr (map (mark_reconciled t) named, sort_key (\<lambda>e. (re_ids e, re_status e)) (rt_entries t)))"

definition reconcile :: "dict list \<Rightarrow> inventory \<Rightarrow> inventory res" where
  "reconcile assets iv = map_sum id
     (\<lambda>(marked, entries). save_assets marked (iv\<lparr>iv_reconciliations := entries\<rparr>)) (reconcile_assets assets)"

section \<open>Ingestion\<close>

type_synonym named_assets = "(string \<times> dict) list"

definition add_named :: "dict \<Rightarrow> named_assets \<Rightarrow> named_assets res" where
  "add_named d m = (if \<not> truthy (dget d ''asset_id'') then Inr m
     else map_sum id (\<lambda>a. AList.update a d m) (asset_id_of d))"

definition index_assets :: "dict list \<Rightarrow> named_assets res" where
  "index_assets assets = fold_res add_named assets []"

definition find_previous :: "dict \<Rightarrow> string \<Rightarrow> named_assets \<Rightarrow> dict option" where
  "find_previous item aid m =
     (case map_of m aid of
        Some d \<Rightarrow> Some d
      | None \<Rightarrow> if \<not> truthy (dget item ''source_asset_id'') then None
          else List.find (\<lambda>d. py_eq (dget d ''source'') (dget item ''source'') \<and>
            py_eq (dget d ''source_asset_id'') (dget item ''source_asset_id'')) (map snd m))"

definition lifecycle_state :: "dict \<Rightarrow> json" where
  "lifecycle_state d = dget_or d ''lifecycle_state'' (JStr ''discovered'')"

definition seen_state :: "dict \<Rightarrow> json" where
  "seen_state d = JStr (if dget d ''online'' = JBool False then ''offline'' else ''active'')"

definition unchanged_keys :: "string list" where
  "unchanged_keys = [''last_seen_at'', ''source_last_seen_at'', ''last_changed_at'',
     ''reconciliation_status'', ''reconciliation_evidence'']"

text \<open>The item as it continues its previous record.\<close>

definition carry_previous :: "string \<Rightarrow> dict \<Rightarrow> dict \<Rightarrow> dict" where
  "carry_previous now previous item =
     (let i1 = dset item ''first_seen_at'' (por (dget previous ''first_seen_at'') (dget item ''first_seen_at''));
          i2 = (if lifecycle_state previous = JStr ''retired''
            then dset (dset i1 ''lifecycle_state'' (JStr ''retired'')) ''retired_at'' (dget previous ''retired_at'')
            else dset i1 ''lifecycle_state'' (seen_state i1));
          changed = (\<not> list_all (\<lambda>(k, v). k \<in> set unchanged_keys \<or> py_eq (dget previous k) v) i2)
      in dset i2 ''last_changed_at''
           (if changed then JStr now else dget_or previous ''last_changed_at'' (JStr now)))"

definition observation_reason :: "json \<Rightarrow> json \<Rightarrow> string" where
  "observation_reason previous_state new_state =
     (if previous_state \<in> {JStr ''stale'', JStr ''missing''} \<and> new_state = JStr ''active'' then ''rediscovered''
      else if new_state = JStr ''offline'' then ''source_reported_offline''
      else if previous_state = JStr ''offline'' \<and> new_state = JStr ''active'' then ''source_reported_online''
      else ''repeated_observation'')"

definition declared_fields :: "dict \<Rightarrow> string list \<Rightarrow> string list res" where
  "declared_fields raw authoritative =
     and_then (py_iter (por (dget raw ''_authoritative_fields'') (jstrs authoritative))) (\<lambda>xs.
       and_then (map_res hashable xs) (\<lambda>_.
         Inr (concat (map (\<lambda>x. case x of JStr s \<Rightarrow> [s] | _ \<Rightarrow> []) xs))))"

definition mark_observed :: "string \<Rightarrow> string option \<Rightarrow> dict \<Rightarrow> dict" where
  "mark_observed now run item =
     (let i1 = dset (dset item ''last_seen_at'' (JStr now)) ''source_last_seen_at'' (JStr now) in
      case run of
        Some r \<Rightarrow> if r = [] then i1 else dset i1 ''last_observed_source_run_id'' (JStr r)
      | None \<Rightarrow> i1)"

record ingest_state =
  ig_current :: named_assets
  ig_history :: "transition list"
  ig_changes :: "change_event list"

record ingest_args =
  ia_source :: json
  ia_customer :: json
  ia_site :: json
  ia_now :: string
  ia_run :: "string option"
  ia_authoritative :: "string list"
  ia_partial :: bool

definition observe_known :: "inventory_config \<Rightarrow> ingest_args \<Rightarrow> dict \<Rightarrow> dict \<Rightarrow> dict
    \<Rightarrow> transition list \<Rightarrow> (dict \<times> transition list \<times> change_event list) res" where
  "observe_known cfg a raw previous adapted history =
     (let item = carry_previous (ia_now a) previous adapted;
          old = lifecycle_state previous; new = dget item ''lifecycle_state'' in
      and_then (append_transition cfg item old new (observation_reason old new) (ia_now a) ''collector''
          (ia_run a) [] history) (\<lambda>(history', _).
      and_then (declared_fields raw (ia_authoritative a)) (\<lambda>declared.
      and_then (detect_changes cfg previous item declared (ia_partial a) (ia_now a) (ia_run a)) (\<lambda>(item', events).
        Inr (item', history', events)))))"

definition observe_new :: "inventory_config \<Rightarrow> ingest_args \<Rightarrow> dict \<Rightarrow> transition list
    \<Rightarrow> (dict \<times> transition list \<times> change_event list) res" where
  "observe_new cfg a item history = map_sum id (\<lambda>(history', _). (item, history', []))
     (append_transition cfg item JNull (dget item ''lifecycle_state'') ''first_observation'' (ia_now a)
        ''collector'' (ia_run a) [] history)"

definition ingest_record :: "inventory_config \<Rightarrow> ingest_args \<Rightarrow> json \<Rightarrow> ingest_state \<Rightarrow> ingest_state res" where
  "ingest_record cfg a raw st =
     (if \<not> is_obj raw then Inr st
      else and_then (adapt (ic_hash cfg) (ia_source a) (as_dict raw) (ia_customer a) (ia_site a) (JStr (ia_now a))) (\<lambda>adapted.
        and_then (asset_id_of adapted) (\<lambda>aid.
        and_then (case find_previous adapted aid (ig_current st) of
            None \<Rightarrow> observe_new cfg a adapted (ig_history st)
          | Some previous \<Rightarrow> observe_known cfg a (as_dict raw) previous
              (if map_of (ig_current st) aid \<noteq> None then adapted
               else dset adapted ''asset_id'' (dget previous ''asset_id'')) (ig_history st))
        (\<lambda>(item, history, events).
        map_sum id (\<lambda>key. \<lparr>ig_current = AList.update key (mark_observed (ia_now a) (ia_run a) item) (ig_current st),
             ig_history = history, ig_changes = ig_changes st @ events\<rparr>) (asset_id_of item)))))"

text \<open>\<open>ingest\<close>: save, reconcile in the order of insertion, save again, record the changes.\<close>

definition ingest :: "inventory_config \<Rightarrow> ingest_args \<Rightarrow> json list \<Rightarrow> inventory \<Rightarrow> inventory res" where
  "ingest cfg a records iv =
     and_then (load_assets cfg iv) (\<lambda>loaded.
     and_then (index_assets loaded) (\<lambda>current.
     and_then (fold_res (ingest_record cfg a) records
         \<lparr>ig_current = current, ig_history = iv_history iv, ig_changes = []\<rparr>) (\<lambda>st.
     (let assets = map snd (ig_current st);
          iv1 = save_assets assets (iv\<lparr>iv_history := ig_history st\<rparr>) in
      and_then (reconcile assets iv1) (\<lambda>iv2.
      map_sum id (\<lambda>(kept, _). iv2\<lparr>iv_changes := kept\<rparr>)
        (append_changes cfg (ig_changes st) (ia_now a) (iv_changes iv2)))))))"

section \<open>Lifecycle operations\<close>

definition unknown_asset :: py_exn where
  "unknown_asset = ValueError ''unknown asset_id''"

definition has_id :: "string \<Rightarrow> dict \<Rightarrow> bool" where
  "has_id aid d = (dget d ''asset_id'' = JStr aid)"

text \<open>
  The shape of the operations on one asset: the first asset of that id is changed in place
  with the transitions it records, and the inventory is saved; \<open>None\<close> leaves it as it is.
\<close>

definition change_asset :: "inventory_config \<Rightarrow> string
    \<Rightarrow> (dict \<Rightarrow> transition list \<Rightarrow> (dict \<times> transition list) option res) \<Rightarrow> inventory \<Rightarrow> inventory res" where
  "change_asset cfg aid f iv =
     and_then (load_assets cfg iv) (\<lambda>assets.
       case List.find (has_id aid) assets of
         None \<Rightarrow> Inl unknown_asset
       | Some d \<Rightarrow> map_sum id (\<lambda>r. case r of
             None \<Rightarrow> iv
           | Some (d', h) \<Rightarrow> save_assets (update_first (has_id aid) (\<lambda>_. d') assets) (iv\<lparr>iv_history := h\<rparr>))
           (f d (iv_history iv)))"

definition mark_seen_asset :: "inventory_config \<Rightarrow> string \<Rightarrow> json \<Rightarrow> dict \<Rightarrow> transition list
    \<Rightarrow> (dict \<times> transition list) option res" where
  "mark_seen_asset cfg now online d h =
     (let d1 = dset (dset d ''last_seen_at'' (JStr now)) ''source_last_seen_at'' (JStr now);
          d2 = (if online \<noteq> JNull then dset d1 ''online'' (JBool (truthy online)) else d1);
          old = lifecycle_state d2; new = seen_state d2
      in if old = JStr ''retired'' then Inr (Some (d2, h))
         else (let d3 = dset d2 ''lifecycle_state'' new in
           map_sum id (\<lambda>(h', _). Some (d3, h'))
             (append_transition cfg d3 old new
               (if new = JStr ''offline'' then ''source_reported_offline''
                else if old \<in> {JStr ''stale'', JStr ''missing''} then ''rediscovered''
                else ''source_reported_online'')
               now ''collector'' None [] h)))"

definition mark_seen :: "inventory_config \<Rightarrow> string \<Rightarrow> string \<Rightarrow> json \<Rightarrow> inventory \<Rightarrow> inventory res" where
  "mark_seen cfg aid now online iv = change_asset cfg aid (mark_seen_asset cfg now online) iv"

definition retire_asset :: "inventory_config \<Rightarrow> string \<Rightarrow> string \<Rightarrow> string \<Rightarrow> dict \<Rightarrow> transition list
    \<Rightarrow> (dict \<times> transition list) option res" where
  "retire_asset cfg reason now actor d h =
     (let old = lifecycle_state d in
      if old = JStr ''retired'' then Inr None
      else (let d' = dmerge d [(''lifecycle_state'', JStr ''retired''), (''retired_at'', JStr now),
               (''last_changed_at'', JStr now), (''lifecycle_reason'', JStr ''manually_retired'')] in
        map_sum id (\<lambda>(h', _). Some (d', h'))
          (append_transition cfg d' old (JStr ''retired'') ''manually_retired'' now actor None
             [(''reason'', JStr reason)] h)))"

definition retire :: "inventory_config \<Rightarrow> string \<Rightarrow> string \<Rightarrow> string \<Rightarrow> string \<Rightarrow> inventory \<Rightarrow> inventory res" where
  "retire cfg aid reason now actor iv =
     (if reason = [] \<or> strip reason = [] then Inl (ValueError ''retirement reason is required'')
      else change_asset cfg aid (retire_asset cfg reason now actor) iv)"

text \<open>
  \<open>_state_from_source_evidence\<close>: the aged state, if any, and the last complete successful
  run of the asset's source.
\<close>

definition source_evidence :: "source_runs \<Rightarrow> dict \<Rightarrow> source_run option res" where
  "source_evidence runs d = (case dget d ''source'' of
       JStr s \<Rightarrow> Inr (case map_of (runs_clean runs) s of None \<Rightarrow> None | Some st \<Rightarrow> so_last_complete st)
     | v \<Rightarrow> map_sum id (\<lambda>_. None) (hashable v))"

definition aged_state :: "inventory_config \<Rightarrow> int \<Rightarrow> int \<Rightarrow> int \<Rightarrow> string option" where
  "aged_state cfg seen completed now =
     (let passed = (\<lambda>secs. secs * 1000000 \<le> now - seen \<and> secs * 1000000 \<le> completed - seen) in
      if passed (ic_missing_after cfg) then Some ''missing''
      else if passed (ic_stale_after cfg) then Some ''stale'' else None)"

definition state_from_evidence :: "inventory_config \<Rightarrow> source_runs \<Rightarrow> dict \<Rightarrow> string
    \<Rightarrow> (string option \<times> source_run option) res" where
  "state_from_evidence cfg runs d now =
     and_then (source_evidence runs d) (\<lambda>successful.
     and_then (inventory_time (ic_tz cfg) (dget d ''last_seen_at'')) (\<lambda>last_seen.
     and_then (case successful of None \<Rightarrow> Inr None
         | Some r \<Rightarrow> inventory_time (ic_tz cfg) (jopt (sr_completed_at r))) (\<lambda>completed.
       case (successful, last_seen, completed) of
         (Some r, Some seen, Some done_at) \<Rightarrow>
           if sr_partial r \<or> done_at \<le> seen \<or>
              JStr (sr_run_id r) = dget d ''last_observed_source_run_id'' then Inr (None, None)
           else map_sum id (\<lambda>u. (aged_state cfg seen done_at u, Some r)) (event_time cfg now)
       | _ \<Rightarrow> Inr (None, None))))"

definition restore_asset :: "inventory_config \<Rightarrow> source_runs \<Rightarrow> string \<Rightarrow> string \<Rightarrow> string \<Rightarrow> dict
    \<Rightarrow> transition list \<Rightarrow> (dict \<times> transition list) option res" where
  "restore_asset cfg runs reason now actor d h =
     (if dget d ''lifecycle_state'' \<noteq> JStr ''retired'' then Inr None
      else and_then (state_from_evidence cfg runs d now) (\<lambda>(aged, run).
        let new = (case aged of Some s \<Rightarrow> JStr s | None \<Rightarrow> seen_state d);
            d' = dmerge (dpop d ''retired_at'') [(''lifecycle_state'', new), (''last_changed_at'', JStr now),
              (''lifecycle_reason'', JStr ''manually_restored'')] in
        map_sum id (\<lambda>(h', _). Some (d', h'))
          (append_transition cfg d' (JStr ''retired'') new ''manually_restored'' now actor
             (map_option sr_run_id run) [(''reason'', JStr reason)] h)))"

definition restore_known :: "inventory_config \<Rightarrow> string \<Rightarrow> string \<Rightarrow> string \<Rightarrow> string \<Rightarrow> inventory \<Rightarrow> inventory res" where
  "restore_known cfg aid reason now actor iv =
     (if reason = [] \<or> strip reason = [] then Inl (ValueError ''restoration reason is required'')
      else change_asset cfg aid (restore_asset cfg (iv_sources iv) reason now actor) iv)"

definition set_lifecycle_asset :: "inventory_config \<Rightarrow> string \<Rightarrow> string \<Rightarrow> dict \<Rightarrow> transition list
    \<Rightarrow> (dict \<times> transition list) option res" where
  "set_lifecycle_asset cfg state now d h =
     (let old = lifecycle_state d;
          d' = dpop (dmerge d [(''lifecycle_state'', JStr state), (''last_changed_at'', JStr now),
            (''lifecycle_reason'', JStr ''explicit_lifecycle_update'')]) ''retired_at'' in
      map_sum id (\<lambda>(h', _). Some (d', h'))
        (append_transition cfg d' old (JStr state) ''explicit_lifecycle_update'' now ''operator'' None [] h))"

definition set_lifecycle :: "inventory_config \<Rightarrow> string \<Rightarrow> string \<Rightarrow> string \<Rightarrow> inventory \<Rightarrow> inventory res" where
  "set_lifecycle cfg aid state now iv =
     (if state = ''retired'' then retire cfg aid ''explicit lifecycle update'' now ''operator'' iv
      else if state \<notin> set LIFECYCLE_STATES then Inl (ValueError ''invalid lifecycle state'')
      else change_asset cfg aid (set_lifecycle_asset cfg state now) iv)"

text \<open>\<open>update_lifecycle\<close>: ageing every asset that is not retired.\<close>

definition age_asset :: "inventory_config \<Rightarrow> source_runs \<Rightarrow> string \<Rightarrow> dict \<Rightarrow> transition list
    \<Rightarrow> (dict \<times> transition list) res" where
  "age_asset cfg runs now d h =
     (let old = lifecycle_state d in
      if old = JStr ''retired'' then Inr (d, h)
      else and_then (state_from_evidence cfg runs d now) (\<lambda>(aged, run).
        case aged of
          None \<Rightarrow> Inr (d, h)
        | Some new \<Rightarrow>
            if JStr new = old then Inr (d, h)
            else (let reason = new @ ''_threshold_exceeded''; rid = map_option sr_run_id run;
                d' = dmerge d [(''lifecycle_state'', JStr new), (''last_changed_at'', JStr now),
                  (''lifecycle_reason'', JStr reason), (''lifecycle_source_run_id'', jopt rid)] in
              map_sum id (\<lambda>(h', _). (d', h'))
                (append_transition cfg d' old (JStr new) reason now ''system'' rid
                   [(''threshold_seconds'', JInt (if new = ''missing'' then ic_missing_after cfg
                      else ic_stale_after cfg))] h))))"

definition age_next :: "inventory_config \<Rightarrow> source_runs \<Rightarrow> string \<Rightarrow> dict \<Rightarrow> dict list \<times> transition list
    \<Rightarrow> (dict list \<times> transition list) res" where
  "age_next cfg runs now d st = map_sum id (\<lambda>(d', h). (fst st @ [d'], h)) (age_asset cfg runs now d (snd st))"

definition update_lifecycle :: "inventory_config \<Rightarrow> string \<Rightarrow> inventory \<Rightarrow> inventory res" where
  "update_lifecycle cfg now iv =
     and_then (load_assets cfg iv) (\<lambda>assets.
       map_sum id (\<lambda>(aged, h). save_assets aged (iv\<lparr>iv_history := h\<rparr>))
         (fold_res (age_next cfg (iv_sources iv) now) assets ([], iv_history iv)))"

section \<open>Source run operations on the inventory\<close>

definition begin_run_in :: "inventory_config \<Rightarrow> string \<Rightarrow> string \<Rightarrow> string \<Rightarrow> inventory \<Rightarrow> inventory" where
  "begin_run_in cfg source collector started_at iv =
     iv\<lparr>iv_sources := fst (begin_source_run (ic_hash cfg) source collector started_at (iv_sources iv))\<rparr>"

definition complete_run_in :: "string \<Rightarrow> string \<Rightarrow> bool \<Rightarrow> int \<Rightarrow> string \<Rightarrow> string option \<Rightarrow> bool \<Rightarrow> inventory \<Rightarrow> inventory" where
  "complete_run_in source rid success records completed_at category partial iv =
     iv\<lparr>iv_sources := fst (complete_source_run source rid success records completed_at category partial (iv_sources iv))\<rparr>"

end
