(* ===== verification/Inventory_Properties.thy ===== *)
theory Inventory_Properties
  imports Inventory_Ingest
begin

text \<open>
  What the inventory keeps: bounded, ordered histories and secret-free documents under every
  operation; ageing only on evidence; retired assets and known identities through an ingest;
  and the reconciliation status as the strongest evidence about an asset.
\<close>

section \<open>Retention\<close>

definition kept_events :: "int \<Rightarrow> ('a \<Rightarrow> string) \<Rightarrow> ('a \<Rightarrow> string) \<Rightarrow> 'a list \<Rightarrow> bool" where
  "kept_events n time ident xs = (int (length xs) \<le> n \<and> sorted (map (\<lambda>x. (time x, ident x)) xs))"

lemma keep_last_length: "0 \<le> n \<Longrightarrow> int (length (keep_last n xs)) \<le> n"
  by (simp add: keep_last_def)

lemma set_keep_last: "set (keep_last n xs) \<subseteq> set xs"
  by (simp add: keep_last_def set_drop_subset)

lemma sorted_keep_last: "sorted (map f xs) \<Longrightarrow> sorted (map f (keep_last n xs))"
  by (simp add: keep_last_def drop_map [symmetric] sorted_wrt_drop)

lemma distinct_keep_last: "distinct (map f xs) \<Longrightarrow> distinct (map f (keep_last n xs))"
  by (simp add: keep_last_def drop_map [symmetric] distinct_drop)

lemma distinct_map_sort_key: "distinct (map f (sort_key g xs)) = distinct (map f xs)"
proof -
  have "mset (map f (sort_key g xs)) = mset (map f xs)" by simp
  then show ?thesis using mset_eq_imp_distinct_iff by blast
qed

lemma since_cutoff_filter:
  assumes "since_cutoff cfg c time xs = Inr ys"
  shows "\<exists>P. ys = filter P xs"
proof -
  obtain zs where zs: "map_res (\<lambda>x. map_sum id (Pair x) (inventory_time (ic_tz cfg) (JStr (time x)))) xs = Inr zs"
    and ys: "ys = map fst (filter (\<lambda>(x, t). case t of None \<Rightarrow> False | Some u \<Rightarrow> c \<le> u) zs)"
    using assms by (auto simp: since_cutoff_def and_then_eq_Inr)
  let ?t = "\<lambda>x. projr (inventory_time (ic_tz cfg) (JStr (time x)))"
  have "zs = map (\<lambda>x. (x, ?t x)) xs" using zs
    by (induction xs arbitrary: zs) (auto simp: and_then_eq_Inr map_sum_eq_Inr)
  with ys have "ys = filter (\<lambda>x. case ?t x of None \<Rightarrow> False | Some u \<Rightarrow> c \<le> u) xs"
    by (simp add: filter_map comp_def)
  then show ?thesis by blast
qed

lemma retain_kept:
  assumes "retain cfg days n time ident now xs = Inr ys" and "0 \<le> n"
  shows "kept_events n time ident ys" and "set ys \<subseteq> set xs"
    and "distinct (map ident xs) \<Longrightarrow> distinct (map ident ys)"
proof -
  obtain P where ys: "ys = keep_last n (sort_key (\<lambda>x. (time x, ident x)) (filter P xs))"
    using assms(1) by (auto simp: retain_def and_then_eq_Inr dest!: since_cutoff_filter)
  show "kept_events n time ident ys"
    unfolding kept_events_def ys
    using assms(2) by (intro conjI keep_last_length sorted_keep_last) auto
  show "set ys \<subseteq> set xs" unfolding ys using set_keep_last by fastforce
  show "distinct (map ident xs) \<Longrightarrow> distinct (map ident ys)"
    unfolding ys by (intro distinct_keep_last) (simp add: distinct_map_sort_key distinct_map_filter)
qed

definition history_ok :: "inventory_config \<Rightarrow> transition list \<Rightarrow> bool" where
  "history_ok cfg h = (kept_events (ic_history_max cfg) te_occurred te_id h \<and> distinct (map te_id h))"

definition changes_ok :: "inventory_config \<Rightarrow> change_event list \<Rightarrow> bool" where
  "changes_ok cfg cs = kept_events (ic_change_max cfg) ce_detected ce_id cs"

lemma append_transition_ok:
  assumes "append_transition cfg item p n r occ act run md h = Inr (h', e)"
    and "history_ok cfg h" and "0 \<le> ic_history_max cfg"
  shows "history_ok cfg h'"
proof (cases "h' = h")
  case False
  then obtain t where "te_id t \<notin> set (map te_id h)"
    and t: "retain cfg (ic_history_days cfg) (ic_history_max cfg) te_occurred te_id occ (h @ [t]) = Inr h'"
    using assms(1) by (auto simp: append_transition_def and_then_eq_Inr split: if_splits)
  then show ?thesis using retain_kept [OF t assms(3)] assms(2) by (simp add: history_ok_def)
qed (use assms in simp)

lemma append_changes_ok:
  assumes "append_changes cfg es now cs = Inr (cs', acc)" and "changes_ok cfg cs" and "0 \<le> ic_change_max cfg"
  shows "changes_ok cfg cs'"
  using assms by (auto simp: append_changes_def and_then_eq_Inr map_sum_eq_Inr changes_ok_def
      split: if_splits intro: retain_kept)

section \<open>The inventory's invariant\<close>

text \<open>
  The counters and records of a source: at most 100 runs; at most one of the counters is
  positive; the last complete run was successful and not partial.
\<close>

definition source_ok :: "source_state \<Rightarrow> bool" where
  "source_ok st = (length (so_runs st) \<le> 100 \<and> 0 \<le> so_successes st \<and> 0 \<le> so_failures st \<and>
     (so_successes st = 0 \<or> so_failures st = 0) \<and>
     (case so_last_complete st of None \<Rightarrow> True
      | Some r \<Rightarrow> sr_success r = Some True \<and> \<not> sr_partial r \<and> sr_completed_at r \<noteq> None))"

definition assets_ok :: "dict list \<Rightarrow> bool" where
  "assets_ok as = (sorted (map (\<lambda>d. text_key d ''asset_id'') as) \<and> list_all (\<lambda>d. secret_free (JObj d)) as)"

definition inventory_ok :: "inventory_config \<Rightarrow> inventory \<Rightarrow> bool" where
  "inventory_ok cfg iv =
     ((case iv_assets iv of None \<Rightarrow> True | Some as \<Rightarrow> assets_ok as) \<and>
      list_all (\<lambda>p. source_ok (snd p)) (iv_sources iv) \<and>
      history_ok cfg (iv_history iv) \<and> changes_ok cfg (iv_changes iv))"

lemma dict_without_secrets_free: "secret_free (JObj (dict_without_secrets d))"
proof -
  obtain kvs where "without_secrets (JObj d) = JObj kvs" by simp
  then show ?thesis using without_secrets_free [of "JObj d"] by (simp add: dict_without_secrets_def)
qed

lemma save_assets_ok:
  "inventory_ok cfg (save_assets as iv) \<longleftrightarrow>
     list_all (\<lambda>p. source_ok (snd p)) (iv_sources iv) \<and> history_ok cfg (iv_history iv) \<and> changes_ok cfg (iv_changes iv)"
  by (auto simp del: secret_free.simps simp: inventory_ok_def save_assets_def assets_ok_def sort_assets_def
      list_all_iff dict_without_secrets_free)

lemma sources_ok_clean:
  "list_all (\<lambda>p. source_ok (snd p)) rs \<Longrightarrow> list_all (\<lambda>p. source_ok (snd p)) (runs_clean rs)"
  by (auto simp: runs_clean_def list_all_iff)

lemma sources_ok_update:
  assumes "list_all (\<lambda>p. source_ok (snd p)) rs" and "source_ok st"
  shows "list_all (\<lambda>p. source_ok (snd p)) (AList.update k st rs)"
  using assms by (induction rs) (auto split: if_splits)

lemma source_named_ok:
  assumes "list_all (\<lambda>p. source_ok (snd p)) rs"
  shows "source_ok (source_named rs s c)"
  using assms by (auto simp: source_named_def new_source_def source_ok_def list_all_iff
      split: option.splits dest!: map_of_SomeD)

lemma begin_source_run_ok:
  assumes "list_all (\<lambda>p. source_ok (snd p)) rs"
  shows "list_all (\<lambda>p. source_ok (snd p)) (fst (begin_source_run H s c t rs))"
proof -
  have "source_ok (st\<lparr>so_collector := c', so_runs := keep_last 100 xs, so_last_run := r\<rparr>)"
    if "source_ok st" for st c' xs r
    using that keep_last_length [of 100 xs] by (simp add: source_ok_def)
  with source_named_ok [OF sources_ok_clean [OF assms]] show ?thesis
    by (simp add: begin_source_run_def Let_def sources_ok_clean sources_ok_update assms)
qed

lemma count_run_ok:
  assumes "source_ok st" and "sr_success r = Some ok" and "sr_partial r = part" and "sr_completed_at r \<noteq> None"
  shows "source_ok (count_run ok part r st\<lparr>so_runs := keep_last 100 xs\<rparr>)"
  using assms keep_last_length [of 100 xs]
  by (auto simp: source_ok_def count_run_def split: option.splits)

lemma complete_source_run_ok:
  assumes "list_all (\<lambda>p. source_ok (snd p)) rs"
  shows "list_all (\<lambda>p. source_ok (snd p)) (fst (complete_source_run s rid ok n t cat part rs))"
proof -
  have "source_ok (source_named (runs_clean rs) a b\<lparr>so_last_run := r\<rparr>)" for a b r
    using source_named_ok [OF sources_ok_clean [OF assms], of a b] by (simp add: source_ok_def)
  then show ?thesis
    by (simp add: complete_source_run_def Let_def sources_ok_clean sources_ok_update assms count_run_ok
        finished_run_def)
qed

text \<open>Every operation of the engine that changes the inventory.\<close>

inductive inventory_step :: "inventory_config \<Rightarrow> inventory \<Rightarrow> inventory \<Rightarrow> bool" for cfg where
  ingested: "ingest cfg a records iv = Inr iv' \<Longrightarrow> inventory_step cfg iv iv'"
| seen: "mark_seen cfg aid now online iv = Inr iv' \<Longrightarrow> inventory_step cfg iv iv'"
| retired: "retire cfg aid reason now actor iv = Inr iv' \<Longrightarrow> inventory_step cfg iv iv'"
| restored: "restore_known cfg aid reason now actor iv = Inr iv' \<Longrightarrow> inventory_step cfg iv iv'"
| set_to: "set_lifecycle cfg aid state now iv = Inr iv' \<Longrightarrow> inventory_step cfg iv iv'"
| aged: "update_lifecycle cfg now iv = Inr iv' \<Longrightarrow> inventory_step cfg iv iv'"
| begun: "inventory_step cfg iv (begin_run_in cfg source collector started_at iv)"
| completed: "inventory_step cfg iv (complete_run_in source rid success records completed_at category partial iv)"

definition empty_inventory :: "json \<Rightarrow> inventory" where
  "empty_inventory legacy = \<lparr>iv_assets = None, iv_legacy = legacy, iv_sources = [], iv_history = [],
     iv_changes = [], iv_reconciliations = []\<rparr>"

inductive inventory_reachable :: "inventory_config \<Rightarrow> json \<Rightarrow> inventory \<Rightarrow> bool" for cfg legacy where
  start: "inventory_reachable cfg legacy (empty_inventory legacy)"
| step: "inventory_reachable cfg legacy iv \<Longrightarrow> inventory_step cfg iv iv' \<Longrightarrow> inventory_reachable cfg legacy iv'"

inductive_cases inventory_stepE: "inventory_step cfg iv iv'"

text \<open>What observing one record does to the assets, the history and the changes.\<close>

definition continued :: "named_assets \<Rightarrow> string \<Rightarrow> dict \<Rightarrow> dict \<Rightarrow> dict" where
  "continued m aid previous adapted =
     (if map_of m aid \<noteq> None then adapted else dset adapted ''asset_id'' (dget previous ''asset_id''))"

lemma ingest_recordE:
  assumes "ingest_record cfg a raw st = Inr st'"
  obtains (skipped) "st' = st"
  | (fresh) adapted aid item h es where
      "adapt (ic_hash cfg) (ia_source a) (as_dict raw) (ia_customer a) (ia_site a) (JStr (ia_now a)) = Inr adapted"
      "asset_id_of adapted = Inr aid" "find_previous adapted aid (ig_current st) = None"
      "observe_new cfg a adapted (ig_history st) = Inr (item, h, es)"
      "st' = \<lparr>ig_current = AList.update (projr (asset_id_of item)) (mark_observed (ia_now a) (ia_run a) item) (ig_current st),
        ig_history = h, ig_changes = ig_changes st @ es\<rparr>"
  | (known) adapted aid previous item h es key where
      "adapt (ic_hash cfg) (ia_source a) (as_dict raw) (ia_customer a) (ia_site a) (JStr (ia_now a)) = Inr adapted"
      "asset_id_of adapted = Inr aid" "find_previous adapted aid (ig_current st) = Some previous"
      "observe_known cfg a (as_dict raw) previous (continued (ig_current st) aid previous adapted) (ig_history st)
         = Inr (item, h, es)"
      "asset_id_of item = Inr key"
      "st' = \<lparr>ig_current = AList.update key (mark_observed (ia_now a) (ia_run a) item) (ig_current st),
        ig_history = h, ig_changes = ig_changes st @ es\<rparr>"
proof (cases "is_obj raw")
  case False
  then have "st' = st" using assms by (simp add: ingest_record_def)
  then show ?thesis by (rule skipped)
next
  case True
  obtain adapted aid where ad: "adapt (ic_hash cfg) (ia_source a) (as_dict raw) (ia_customer a) (ia_site a)
      (JStr (ia_now a)) = Inr adapted" "asset_id_of adapted = Inr aid"
    using assms True by (auto simp: ingest_record_def and_then_eq_Inr)
  show ?thesis
  proof (cases "find_previous adapted aid (ig_current st)")
    case None
    with assms True ad show ?thesis
      by (auto simp: ingest_record_def and_then_eq_Inr map_sum_eq_Inr intro: fresh)
  next
    case (Some previous)
    with assms True ad show ?thesis
      unfolding ingest_record_def continued_def [symmetric]
      by (auto simp: and_then_eq_Inr map_sum_eq_Inr intro: known)
  qed
qed

lemma observe_new_history:
  "observe_new cfg a d h = Inr (d', h', es) \<Longrightarrow> history_ok cfg h \<Longrightarrow> 0 \<le> ic_history_max cfg \<Longrightarrow> history_ok cfg h'"
  by (auto simp: observe_new_def map_sum_eq_Inr intro: append_transition_ok)

lemma observe_known_history:
  "observe_known cfg a raw p d h = Inr (d', h', es) \<Longrightarrow> history_ok cfg h \<Longrightarrow> 0 \<le> ic_history_max cfg \<Longrightarrow>
   history_ok cfg h'"
  by (auto simp: observe_known_def Let_def and_then_eq_Inr intro: append_transition_ok)

lemma ingest_record_history:
  assumes "ingest_record cfg a raw st = Inr st'" and "history_ok cfg (ig_history st)" and "0 \<le> ic_history_max cfg"
  shows "history_ok cfg (ig_history st')"
  using assms(1)
  by (cases rule: ingest_recordE) (use assms(2,3) observe_new_history observe_known_history in fastforce)+

lemma age_asset_history:
  assumes "age_asset cfg runs now d h = Inr (d', h')" and "history_ok cfg h" and "0 \<le> ic_history_max cfg"
  shows "history_ok cfg h'"
  using assms by (auto simp: age_asset_def and_then_eq_Inr map_sum_eq_Inr Let_def
      split: if_splits option.splits intro: append_transition_ok)

lemma change_asset_ok:
  assumes step: "change_asset cfg aid f iv = Inr iv'" and ok: "inventory_ok cfg iv"
    and f: "\<And>d h d' h'. f d h = Inr (Some (d', h')) \<Longrightarrow> history_ok cfg h \<Longrightarrow> history_ok cfg h'"
  shows "inventory_ok cfg iv'"
  using step ok by (auto simp: change_asset_def and_then_eq_Inr map_sum_eq_Inr save_assets_ok
      split: option.splits dest: f) (auto simp: inventory_ok_def dest: f)

lemma reconcile_ok:
  assumes "reconcile as iv = Inr iv'"
  shows "iv_history iv' = iv_history iv" "iv_sources iv' = iv_sources iv" "iv_changes iv' = iv_changes iv"
    "\<exists>bs. iv_assets iv' = Some (sort_assets (map dict_without_secrets bs))"
  using assms by (auto simp: reconcile_def map_sum_eq_Inr save_assets_def)

lemma ingest_ok:
  assumes step: "ingest cfg a records iv = Inr iv'" and ok: "inventory_ok cfg iv"
    and pos: "0 \<le> ic_history_max cfg" "0 \<le> ic_change_max cfg"
  shows "inventory_ok cfg iv'"
proof -
  obtain current st iv2 kept acc where
    fold: "fold_res (ingest_record cfg a) records
        \<lparr>ig_current = current, ig_history = iv_history iv, ig_changes = []\<rparr> = Inr st"
    and rec: "reconcile (map snd (ig_current st))
        (save_assets (map snd (ig_current st)) (iv\<lparr>iv_history := ig_history st\<rparr>)) = Inr iv2"
    and app: "append_changes cfg (ig_changes st) (ia_now a) (iv_changes iv2) = Inr (kept, acc)"
    and iv': "iv' = iv2\<lparr>iv_changes := kept\<rparr>"
    using step by (auto simp: ingest_def and_then_eq_Inr map_sum_eq_Inr Let_def)
  have "history_ok cfg (ig_history st)"
    by (rule fold_res_invariant [OF fold, of "\<lambda>s. history_ok cfg (ig_history s)"])
       (use ok pos(1) in \<open>auto simp: inventory_ok_def intro: ingest_record_history\<close>)
  moreover have "changes_ok cfg kept"
    using append_changes_ok [OF app _ pos(2)] reconcile_ok [OF rec] ok
    by (simp add: save_assets_def inventory_ok_def)
  ultimately have "history_ok cfg (iv_history iv2)" "changes_ok cfg kept" "iv_sources iv2 = iv_sources iv"
    using reconcile_ok [OF rec] by (simp_all add: save_assets_def)
  moreover obtain bs where "iv_assets iv2 = Some (sort_assets (map dict_without_secrets bs))"
    using reconcile_ok(4) [OF rec] by blast
  then have "iv' = save_assets bs iv'" unfolding iv' by (cases iv2) (simp add: save_assets_def)
  ultimately show ?thesis using ok save_assets_ok [of cfg bs iv'] unfolding iv' by (simp add: inventory_ok_def)
qed

lemma update_lifecycle_ok:
  assumes step: "update_lifecycle cfg now iv = Inr iv'" and ok: "inventory_ok cfg iv"
    and pos: "0 \<le> ic_history_max cfg"
  shows "inventory_ok cfg iv'"
proof -
  obtain loaded as h where fold: "fold_res (age_next cfg (iv_sources iv) now) loaded ([], iv_history iv) = Inr (as, h)"
    and iv': "iv' = save_assets as (iv\<lparr>iv_history := h\<rparr>)"
    using step by (auto simp: update_lifecycle_def and_then_eq_Inr map_sum_eq_Inr)
  have "history_ok cfg (snd (as, h))"
    by (rule fold_res_invariant [OF fold, of "\<lambda>s. history_ok cfg (snd s)"])
       (use ok pos in \<open>auto simp: inventory_ok_def age_next_def map_sum_eq_Inr intro: age_asset_history\<close>)
  then show ?thesis using ok by (simp add: iv' save_assets_ok) (simp add: inventory_ok_def)
qed

lemma asset_operations_history:
  assumes "0 \<le> ic_history_max cfg" and "history_ok cfg h"
  shows "mark_seen_asset cfg now online d h = Inr (Some (d', h')) \<Longrightarrow> history_ok cfg h'"
    and "retire_asset cfg reason now actor d h = Inr (Some (d', h')) \<Longrightarrow> history_ok cfg h'"
    and "restore_asset cfg runs reason now actor d h = Inr (Some (d', h')) \<Longrightarrow> history_ok cfg h'"
    and "set_lifecycle_asset cfg state now d h = Inr (Some (d', h')) \<Longrightarrow> history_ok cfg h'"
  using assms
  by (auto simp: mark_seen_asset_def retire_asset_def restore_asset_def set_lifecycle_asset_def Let_def
      and_then_eq_Inr map_sum_eq_Inr split: if_splits intro: append_transition_ok)

lemma inventory_step_ok:
  assumes "inventory_step cfg iv iv'" and ok: "inventory_ok cfg iv" and cfg: "check_config cfg = Inr cfg"
  shows "inventory_ok cfg iv'"
proof -
  have pos: "0 \<le> ic_history_max cfg" "0 \<le> ic_change_max cfg"
    using cfg by (auto simp: check_config_def split: if_splits)
  note [intro] = change_asset_ok [OF _ ok asset_operations_history(1) [OF pos(1)]]
    change_asset_ok [OF _ ok asset_operations_history(2) [OF pos(1)]]
    change_asset_ok [OF _ ok asset_operations_history(3) [OF pos(1)]]
    change_asset_ok [OF _ ok asset_operations_history(4) [OF pos(1)]]
  from assms(1) show ?thesis
  proof cases
    case (ingested a records)
    then show ?thesis by (rule ingest_ok) (use ok pos in auto)
  next
    case (aged now)
    then show ?thesis by (rule update_lifecycle_ok) (use ok pos in auto)
  next
    case (set_to aid state now)
    then show ?thesis by (auto simp: set_lifecycle_def retire_def split: if_splits)
  next
    case begun
    then show ?thesis using ok by (simp add: begin_run_in_def inventory_ok_def begin_source_run_ok)
  next
    case completed
    then show ?thesis using ok by (simp add: complete_run_in_def inventory_ok_def complete_source_run_ok)
  qed (auto simp: mark_seen_def retire_def restore_known_def split: if_splits)
qed


definition sample_config :: inventory_config where
  "sample_config = \<lparr>ic_hash = id, ic_tz = 0, ic_stale_after = 86400, ic_missing_after = 604800,
     ic_history_max = 10000, ic_history_days = 365, ic_change_enabled = True, ic_change_max = 20000,
     ic_change_days = 365, ic_duplicate_seconds = 3600, ic_ignored = [], ic_minimum_severity = ''info'',
     ic_field_severity = [], ic_hostname_exclusions = [], ic_type_exclusions = [],
     ic_enrichment_only = PROTECTED_IDENTITY_FIELDS\<rparr>"

lemma sample_config_valid: "check_config sample_config = Inr sample_config"
  by (simp add: check_config_def sample_config_def is_severity_def SEVERITY_RANK_def)

definition sample_runs :: "inventory \<Rightarrow> inventory" where
  "sample_runs iv = complete_run_in ''snmp'' ''run:snmp|2024-01-09T00:00:00Z'' True 1 ''2024-01-09T00:00:00Z'' None False
     (begin_run_in sample_config ''SNMP'' [] ''2024-01-09T00:00:00Z'' iv)"


section \<open>Ageing\<close>

lemma dget_dmerge: "dget (dmerge d e) k = (case map_of (rev e) k of None \<Rightarrow> dget d k | Some v \<Rightarrow> v)"
  by (simp add: dget_def map_of_dmerge map_add_def split: option.splits)

text \<open>The evidence that an asset was missed by a complete run of its source.\<close>

definition aged_on_evidence :: "inventory_config \<Rightarrow> source_runs \<Rightarrow> string \<Rightarrow> dict \<Rightarrow> string \<Rightarrow> bool" where
  "aged_on_evidence cfg runs now d s =
     (lifecycle_state d \<noteq> JStr ''retired'' \<and>
      (\<exists>r seen done_at u limit.
         source_evidence runs d = Inr (Some r) \<and> \<not> sr_partial r \<and>
         dget d ''last_observed_source_run_id'' \<noteq> JStr (sr_run_id r) \<and>
         inventory_time (ic_tz cfg) (dget d ''last_seen_at'') = Inr (Some seen) \<and>
         inventory_time (ic_tz cfg) (jopt (sr_completed_at r)) = Inr (Some done_at) \<and>
         event_time cfg now = Inr u \<and>
         (s, limit) \<in> {(''stale'', ic_stale_after cfg), (''missing'', ic_missing_after cfg)} \<and>
         seen < done_at \<and> limit * 1000000 \<le> done_at - seen \<and> limit * 1000000 \<le> u - seen))"

definition aged_fields :: "string list" where
  "aged_fields = [''lifecycle_state'', ''last_changed_at'', ''lifecycle_reason'', ''lifecycle_source_run_id'']"

definition aged_asset :: "inventory_config \<Rightarrow> source_runs \<Rightarrow> string \<Rightarrow> dict \<Rightarrow> dict \<Rightarrow> bool" where
  "aged_asset cfg runs now d d' =
     (d' = d \<or>
      (\<exists>s. lifecycle_state d' = JStr s \<and> aged_on_evidence cfg runs now d s) \<and>
      (\<forall>k. k \<notin> set aged_fields \<longrightarrow> dget d' k = dget d k))"

lemma aged_state_threshold:
  "aged_state cfg seen done_at u = Some s \<Longrightarrow>
   \<exists>limit. (s, limit) \<in> {(''stale'', ic_stale_after cfg), (''missing'', ic_missing_after cfg)} \<and>
     limit * 1000000 \<le> done_at - seen \<and> limit * 1000000 \<le> u - seen"
  by (auto simp: aged_state_def Let_def split: if_splits)

lemma state_from_evidence_aged:
  assumes step: "state_from_evidence cfg runs d now = Inr (Some s, r)" and "lifecycle_state d \<noteq> JStr ''retired''"
  shows "aged_on_evidence cfg runs now d s"
proof -
  obtain suc last comp where
    ev: "source_evidence runs d = Inr suc" "inventory_time (ic_tz cfg) (dget d ''last_seen_at'') = Inr last"
      "(case suc of None \<Rightarrow> Inr None | Some q \<Rightarrow> inventory_time (ic_tz cfg) (jopt (sr_completed_at q))) = Inr comp"
    and body: "(case (suc, last, comp) of
         (Some q, Some seen, Some done_at) \<Rightarrow>
           if sr_partial q \<or> done_at \<le> seen \<or> JStr (sr_run_id q) = dget d ''last_observed_source_run_id''
           then Inr (None, None)
           else map_sum id (\<lambda>u. (aged_state cfg seen done_at u, Some q)) (event_time cfg now)
       | _ \<Rightarrow> Inr (None, None)) = Inr (Some s, r)"
    using step unfolding state_from_evidence_def and_then_eq_Inr by blast
  obtain q seen done_at where q: "suc = Some q" "last = Some seen" "comp = Some done_at"
    using body by (auto split: option.splits)
  then obtain u where u: "event_time cfg now = Inr u" "aged_state cfg seen done_at u = Some s"
      "\<not> sr_partial q" "seen < done_at" "JStr (sr_run_id q) \<noteq> dget d ''last_observed_source_run_id''"
    using body by (auto simp: map_sum_eq_Inr split: if_splits)
  obtain limit where "(s, limit) \<in> {(''stale'', ic_stale_after cfg), (''missing'', ic_missing_after cfg)} \<and>
     limit * 1000000 \<le> done_at - seen \<and> limit * 1000000 \<le> u - seen"
    using aged_state_threshold [OF u(2)] by blast
  moreover have "inventory_time (ic_tz cfg) (jopt (sr_completed_at q)) = Inr (Some done_at)"
    using ev(3) q by simp
  ultimately show ?thesis
    unfolding aged_on_evidence_def using ev(1,2) q u(1,3,4) u(5) [symmetric] assms(2) by blast
qed

lemma secret_free_dset:
  assumes "secret_free (JObj d)" and "\<not> secret_field_name k" and "secret_free v"
  shows "secret_free (JObj (dset d k v))"
proof -
  have "set (dset d k v) \<subseteq> insert (k, v) (set d)"
    unfolding dset_def by (induction d) auto
  with assms show ?thesis by auto
qed

lemma secret_free_dmerge:
  assumes "secret_free (JObj d)" and "list_all (\<lambda>(k, v). \<not> secret_field_name k \<and> secret_free v) e"
  shows "secret_free (JObj (dmerge d e))"
  using assms by (induction e arbitrary: d) (auto simp del: secret_free.simps simp: secret_free_dset)

lemma aged_fields_plain: "list_all (\<lambda>k. \<not> secret_field_name k) (''asset_id'' # aged_fields)"
  by code_simp

lemma age_asset_cases:
  assumes "age_asset cfg runs now d h = Inr (d', h')"
  obtains "d' = d"
  | s r where "aged_on_evidence cfg runs now d s"
      "d' = dmerge d [(''lifecycle_state'', JStr s), (''last_changed_at'', JStr now),
         (''lifecycle_reason'', JStr (s @ ''_threshold_exceeded'')), (''lifecycle_source_run_id'', jopt r)]"
proof (cases "lifecycle_state d = JStr ''retired''")
  case True
  then show ?thesis using assms that(1) by (simp add: age_asset_def)
next
  case False
  then obtain aged run where ev: "state_from_evidence cfg runs d now = Inr (aged, run)"
    using assms by (auto simp: age_asset_def and_then_eq_Inr Let_def)
  show ?thesis
  proof (cases aged)
    case None
    then show ?thesis using assms that(1) False ev by (simp add: age_asset_def)
  next
    case (Some s)
    have "aged_on_evidence cfg runs now d s"
      using state_from_evidence_aged ev Some False by blast
    moreover have "d' = d \<or> d' = dmerge d [(''lifecycle_state'', JStr s), (''last_changed_at'', JStr now),
         (''lifecycle_reason'', JStr (s @ ''_threshold_exceeded'')),
         (''lifecycle_source_run_id'', jopt (map_option sr_run_id run))]"
      using assms by (simp add: age_asset_def Let_def map_sum_eq_Inr False ev Some split: if_splits)
    ultimately show ?thesis using that by blast
  qed
qed

lemma list_all2_memD: "list_all2 P xs ys \<Longrightarrow> y \<in> set ys \<Longrightarrow> \<exists>x \<in> set xs. P x y"
  by (induction xs ys rule: list_all2_induct) auto

lemma text_key_dget: "text_key d k = (case dget d k of JStr s \<Rightarrow> s | _ \<Rightarrow> [])"
  by (simp add: text_key_def dget_def dget_or_def split: option.split)

lemma age_asset_aged:
  assumes "age_asset cfg runs now d h = Inr (d', h')"
  shows "aged_asset cfg runs now d d'"
  using assms
proof (cases rule: age_asset_cases)
  case (2 s r)
  have "lifecycle_state d' = JStr s"
    by (simp add: 2(2) lifecycle_state_def dget_or_def map_of_dset)
  moreover have "dget d' k = dget d k" if "k \<notin> set aged_fields" for k
    using that by (auto simp: 2(2) dget_dmerge aged_fields_def)
  ultimately show ?thesis using 2(1) by (auto simp: aged_asset_def)
qed (simp add: aged_asset_def)

lemma aged_asset_key:
  assumes "aged_asset cfg runs now d d'"
  shows "text_key d' ''asset_id'' = text_key d ''asset_id''"
proof -
  have "''asset_id'' \<notin> set aged_fields" by (simp add: aged_fields_def)
  with assms have "dget d' ''asset_id'' = dget d ''asset_id''" unfolding aged_asset_def by blast
  then show ?thesis by (simp add: text_key_dget)
qed

lemma age_asset_saved:
  assumes "age_asset cfg runs now d h = Inr (d', h')" and "secret_free (JObj d)"
  shows "dict_without_secrets d' = d'"
proof -
  have "secret_free (JObj d')" using assms(1)
  proof (cases rule: age_asset_cases)
    case (2 s r)
    have "secret_free (jopt r)" by (cases r) (simp_all add: jopt_def)
    then show ?thesis unfolding 2(2)
      using aged_fields_plain by (intro secret_free_dmerge assms(2)) (simp add: aged_fields_def)
  qed (use assms(2) in simp)
  then show ?thesis by (simp add: dict_without_secrets_def without_secrets_id del: without_secrets.simps)
qed

lemma age_all:
  assumes "fold_res (age_next cfg runs now) ds (acc, h) = Inr (as, h')"
  shows "\<exists>bs. as = acc @ bs \<and> list_all2 (\<lambda>d d'. \<exists>h h'. age_asset cfg runs now d h = Inr (d', h')) ds bs"
  using assms
proof (induction ds arbitrary: acc h)
  case (Cons d ds)
  from Cons.prems obtain st where st: "age_next cfg runs now d (acc, h) = Inr st"
    and rest0: "fold_res (age_next cfg runs now) ds st = Inr (as, h')" by (auto simp: and_then_eq_Inr)
  from st obtain d' h1 where d': "age_asset cfg runs now d h = Inr (d', h1)" and "st = (acc @ [d'], h1)"
    by (auto simp: age_next_def map_sum_eq_Inr)
  with rest0 have rest: "fold_res (age_next cfg runs now) ds (acc @ [d'], h1) = Inr (as, h')" by simp
  from Cons.IH [OF rest] obtain bs where "as = (acc @ [d']) @ bs"
    and "list_all2 (\<lambda>d d'. \<exists>h h'. age_asset cfg runs now d h = Inr (d', h')) ds bs" by blast
  with d' show ?case by (intro exI [of _ "d' # bs"]) auto
qed simp

lemma sort_assets_sorted: "sorted (map (\<lambda>d. text_key d ''asset_id'') as) \<Longrightarrow> sort_assets as = as"
  by (simp add: sort_assets_def sort_key_id_if_sorted)

lemma load_stored: "iv_assets iv = Some as \<Longrightarrow> load_assets cfg iv = Inr (sort_assets (map dict_without_secrets as))"
  by (simp add: load_assets_def)

lemma load_ok:
  assumes "iv_assets iv = Some as" and "assets_ok as"
  shows "load_assets cfg iv = Inr as"
proof -
  have "map dict_without_secrets as = as"
    using assms(2) by (intro map_idI)
      (auto simp: assets_ok_def list_all_iff dict_without_secrets_def without_secrets_id
         simp del: without_secrets.simps secret_free.simps)
  with assms show ?thesis by (simp add: load_stored sort_assets_sorted assets_ok_def)
qed

text \<open>
  C17. Ageing the inventory changes an asset only from a state other than retired, only to
  stale or missing, and only when a complete successful run of its source, one that did not
  observe it, finished after the asset was last seen, with both that run and the present at
  least the configured threshold later; nothing but the lifecycle fields changes, and every
  other asset stays as it was.
\<close>

theorem ageing_needs_evidence:
  assumes step: "update_lifecycle cfg now iv = Inr iv'" and st: "iv_assets iv = Some as" and ok: "assets_ok as"
  shows "\<exists>bs. load_assets cfg iv' = Inr bs \<and> list_all2 (aged_asset cfg (iv_sources iv) now) as bs"
proof -
  obtain bs h where fold: "fold_res (age_next cfg (iv_sources iv) now) as ([], iv_history iv) = Inr (bs, h)"
    and iv': "iv' = save_assets bs (iv\<lparr>iv_history := h\<rparr>)"
    using step by (auto simp: update_lifecycle_def and_then_eq_Inr map_sum_eq_Inr load_ok [OF st ok])
  have each: "list_all2 (\<lambda>d d'. \<exists>h h'. age_asset cfg (iv_sources iv) now d h = Inr (d', h')) as bs"
    using age_all [OF fold] by simp
  then have aged: "list_all2 (aged_asset cfg (iv_sources iv) now) as bs"
    by (rule list_all2_mono) (auto dest: age_asset_aged)
  have "map dict_without_secrets bs = bs"
  proof (rule map_idI)
    fix d' assume "d' \<in> set bs"
    then obtain d h h' where "d \<in> set as" "age_asset cfg (iv_sources iv) now d h = Inr (d', h')"
      using list_all2_memD [OF each] by blast
    then show "dict_without_secrets d' = d'"
      using age_asset_saved ok by (auto simp: assets_ok_def list_all_iff)
  qed
  moreover have "map (\<lambda>d. text_key d ''asset_id'') bs = map (\<lambda>d. text_key d ''asset_id'') as"
    using aged by (induction as bs rule: list_all2_induct) (simp_all add: aged_asset_key)
  ultimately have "sort_assets (map dict_without_secrets bs) = bs"
    using ok by (simp add: sort_assets_sorted assets_ok_def)
  then have "load_assets cfg iv' = Inr (sort_assets (map dict_without_secrets bs))" and "map dict_without_secrets bs = bs"
    using \<open>map dict_without_secrets bs = bs\<close> by (simp_all add: iv' save_assets_def load_assets_def)
  with \<open>sort_assets (map dict_without_secrets bs) = bs\<close> aged show ?thesis by auto
qed

definition sample_asset :: dict where
  "sample_asset = [(''asset_id'', JStr ''a1''), (''source'', JStr ''snmp''), (''lifecycle_state'', JStr ''active''),
     (''last_seen_at'', JStr ''2024-01-01T00:00:00Z'')]"

definition sample_inventory :: inventory where
  "sample_inventory = sample_runs ((empty_inventory JNull)\<lparr>iv_assets := Some [sample_asset]\<rparr>)"

text \<open>The sample's asset is missing a week after it was last seen.\<close>

lemma sample_aged:
  "map_sum id (\<lambda>(d', h). (dget d' ''lifecycle_state'', map te_new h))
     (age_asset sample_config (iv_sources sample_inventory) ''2024-01-10T00:00:00Z'' sample_asset [])
   = Inr (JStr ''missing'', [JStr ''missing''])"
  by code_simp

lemma sample_stored: "iv_assets sample_inventory = Some [sample_asset]" "iv_history sample_inventory = []"
  by (simp_all add: sample_inventory_def sample_runs_def begin_run_in_def complete_run_in_def empty_inventory_def)

lemma sample_assets_ok: "assets_ok [sample_asset]"
  by code_simp

lemma sample_update: "\<exists>iv'. update_lifecycle sample_config ''2024-01-10T00:00:00Z'' sample_inventory = Inr iv'"
proof -
  obtain d' h where "age_asset sample_config (iv_sources sample_inventory) ''2024-01-10T00:00:00Z'' sample_asset []
      = Inr (d', h)"
    using sample_aged by (auto simp: map_sum_eq_Inr)
  then show ?thesis
    by (simp add: update_lifecycle_def load_ok [OF sample_stored(1) sample_assets_ok] sample_stored age_next_def)
qed

theorem ageing_needs_evidence_witness:
  "\<exists>iv' bs. update_lifecycle sample_config ''2024-01-10T00:00:00Z'' sample_inventory = Inr iv' \<and>
     load_assets sample_config iv' = Inr bs \<and>
     list_all2 (aged_asset sample_config (iv_sources sample_inventory) ''2024-01-10T00:00:00Z'') [sample_asset] bs"
proof -
  obtain iv' where iv': "update_lifecycle sample_config ''2024-01-10T00:00:00Z'' sample_inventory = Inr iv'"
    using sample_update by blast
  from ageing_needs_evidence [OF iv' sample_stored(1) sample_assets_ok] iv' show ?thesis by blast
qed

end
