(* ===== verification/Inventory_Identity.thy ===== *)
theory Inventory_Identity
  imports Inventory_Properties
begin

text \<open>
  What an ingest keeps of the assets already known, and what reconciliation makes of them:
  retired assets stay retired, known identity fields are not overwritten, no asset is lost, and
  an asset's status is the strongest evidence about it.
\<close>

section \<open>Keeping an asset\<close>

definition protecting :: "inventory_config \<Rightarrow> bool" where
  "protecting cfg = (ic_change_enabled cfg \<and> ic_hostname_exclusions cfg = [] \<and> ic_type_exclusions cfg = [])"

definition keeps :: "inventory_config \<Rightarrow> dict \<Rightarrow> dict \<Rightarrow> bool" where
  "keeps cfg d d' =
     (dget d' ''asset_id'' = dget d ''asset_id'' \<and>
      (lifecycle_state d = JStr ''retired'' \<longrightarrow> lifecycle_state d' = JStr ''retired'') \<and>
      (protecting cfg \<longrightarrow> (\<forall>f \<in> set PROTECTED_IDENTITY_FIELDS - set (ic_ignored cfg).
         dget d f \<noteq> JNull \<longrightarrow> dget d' f = dget d f)))"

lemma keeps_refl: "keeps cfg d d"
  by (simp add: keeps_def)

lemma keeps_trans: "keeps cfg a b \<Longrightarrow> keeps cfg b c \<Longrightarrow> keeps cfg a c"
  by (auto simp: keeps_def)

lemma lifecycle_dget: "lifecycle_state d = JStr ''retired'' \<longleftrightarrow> dget d ''lifecycle_state'' = JStr ''retired''"
  by (auto simp: lifecycle_state_def dget_or_def dget_def split: option.splits)

text \<open>Only these fields decide.\<close>

definition kept_fields :: "string list" where
  "kept_fields = ''asset_id'' # ''lifecycle_state'' # PROTECTED_IDENTITY_FIELDS"

lemma keeps_same:
  assumes "\<And>k. k \<in> set kept_fields \<Longrightarrow> dget d' k = dget d k"
  shows "keeps cfg d d'"
  using assms by (auto simp: keeps_def lifecycle_dget kept_fields_def)

lemma keeps_dset:
  assumes "keeps cfg a d" and "k \<notin> set kept_fields"
  shows "keeps cfg a (dset d k v)"
  using assms(1) by (rule keeps_trans) (use assms(2) in \<open>auto intro!: keeps_same\<close>)

lemma detect_field_dget:
  assumes "detect_field cfg previous auth part at run field (item, es) = Inr (item', es')"
  shows "f \<noteq> field \<Longrightarrow> dget item' f = dget item f"
    and "field \<in> set PROTECTED_IDENTITY_FIELDS \<Longrightarrow> field \<notin> set (ic_ignored cfg) \<Longrightarrow> dget previous field \<noteq> JNull \<Longrightarrow>
      dget item' field = dget previous field"
  using assms
  by (auto simp: detect_field_def Let_def map_sum_eq_Inr dhas_def dget_def [of previous] split: if_splits)

lemma detect_fields_dget:
  assumes "fold_res (detect_field cfg previous auth part at run) fs (item, es) = Inr (item', es')" and "distinct fs"
  shows "f \<notin> set fs \<Longrightarrow> dget item' f = dget item f"
    and "f \<in> set fs \<Longrightarrow> f \<in> set PROTECTED_IDENTITY_FIELDS \<Longrightarrow> f \<notin> set (ic_ignored cfg) \<Longrightarrow>
      dget previous f \<noteq> JNull \<Longrightarrow> dget item' f = dget previous f"
proof -
  have *: "(f \<notin> set fs \<longrightarrow> dget item' f = dget item f) \<and>
     (f \<in> set fs \<longrightarrow> f \<in> set PROTECTED_IDENTITY_FIELDS \<longrightarrow> f \<notin> set (ic_ignored cfg) \<longrightarrow>
      dget previous f \<noteq> JNull \<longrightarrow> dget item' f = dget previous f)"
    using assms
  proof (induction fs arbitrary: item es)
    case (Cons g fs)
    from Cons.prems(1) obtain i1 e1 where one: "detect_field cfg previous auth part at run g (item, es) = Inr (i1, e1)"
      and rest: "fold_res (detect_field cfg previous auth part at run) fs (i1, e1) = Inr (item', es')"
      by (auto simp: and_then_eq_Inr)
    from Cons.IH [OF rest] Cons.prems(2) detect_field_dget(1) [OF one, of f] detect_field_dget(2) [OF one]
    show ?case by (cases "f = g") auto
  qed simp
  then show "f \<notin> set fs \<Longrightarrow> dget item' f = dget item f"
    and "f \<in> set fs \<Longrightarrow> f \<in> set PROTECTED_IDENTITY_FIELDS \<Longrightarrow> f \<notin> set (ic_ignored cfg) \<Longrightarrow>
      dget previous f \<noteq> JNull \<Longrightarrow> dget item' f = dget previous f" by blast+
qed

lemma tracked_fields:
  "distinct TRACKED_CHANGE_FIELDS" "set PROTECTED_IDENTITY_FIELDS \<subseteq> set TRACKED_CHANGE_FIELDS"
  "''asset_id'' \<notin> set TRACKED_CHANGE_FIELDS" "''lifecycle_state'' \<notin> set TRACKED_CHANGE_FIELDS"
  by (simp_all add: TRACKED_CHANGE_FIELDS_def PROTECTED_IDENTITY_FIELDS_def)

lemma detect_changes_keeps:
  assumes step: "detect_changes cfg previous item auth part at run = Inr (item', es)"
    and id: "dget item ''asset_id'' = dget previous ''asset_id''"
    and ret: "lifecycle_state previous = JStr ''retired'' \<Longrightarrow> lifecycle_state item = JStr ''retired''"
  shows "keeps cfg previous item'"
proof -
  consider "item' = item" "\<not> protecting cfg"
    | "fold_res (detect_field cfg previous auth part at run) TRACKED_CHANGE_FIELDS (item, []) = Inr (item', es)"
    using step by (auto simp: detect_changes_def Let_def and_then_eq_Inr protecting_def host_excluded_def
        split: if_splits) (metis empty_iff list.set(1))
  then show ?thesis
  proof cases
    case 1
    then show ?thesis using id ret by (auto simp: keeps_def)
  next
    case 2
    note fold = detect_fields_dget [OF 2 tracked_fields(1)]
    have "dget item' ''asset_id'' = dget item ''asset_id''" "dget item' ''lifecycle_state'' = dget item ''lifecycle_state''"
      using fold(1) tracked_fields by blast+
    moreover have "dget item' f = dget previous f"
      if "f \<in> set PROTECTED_IDENTITY_FIELDS" "f \<notin> set (ic_ignored cfg)" "dget previous f \<noteq> JNull" for f
      using fold(2) that tracked_fields(2) by blast
    ultimately show ?thesis using id ret by (auto simp: keeps_def lifecycle_dget)
  qed
qed

section \<open>Ingesting records\<close>

text \<open>The index of an ingest: each asset under its own id.\<close>

definition named :: "named_assets \<Rightarrow> bool" where
  "named m = (distinct (map fst m) \<and> (\<forall>p \<in> set m. dget (snd p) ''asset_id'' = JStr (fst p)))"

definition index_keeps :: "inventory_config \<Rightarrow> named_assets \<Rightarrow> named_assets \<Rightarrow> bool" where
  "index_keeps cfg m m' = (\<forall>a d. map_of m a = Some d \<longrightarrow> (\<exists>d'. map_of m' a = Some d' \<and> keeps cfg d d'))"

lemma asset_id_of_dget: "asset_id_of d = Inr a \<longleftrightarrow> dget d ''asset_id'' = JStr a"
  by (auto simp: asset_id_of_def dget_def split: option.splits json.splits)

lemma named_update: "named m \<Longrightarrow> dget d ''asset_id'' = JStr a \<Longrightarrow> named (AList.update a d m)"
proof -
  assume m: "named m" and d: "dget d ''asset_id'' = JStr a"
  have "set (AList.update a d m) \<subseteq> insert (a, d) (set m)" by (induction m) auto
  with m d show ?thesis by (auto simp: named_def distinct_update)
qed

lemma named_mem: "named m \<Longrightarrow> d \<in> snd ` set m \<Longrightarrow> \<exists>a. map_of m a = Some d \<and> dget d ''asset_id'' = JStr a"
  by (force simp: named_def)

lemma find_previous_mem:
  assumes "find_previous item aid m = Some d"
  shows "d \<in> snd ` set m" and "map_of m aid \<noteq> None \<Longrightarrow> map_of m aid = Some d"
proof -
  show "map_of m aid \<noteq> None \<Longrightarrow> map_of m aid = Some d"
    using assms by (auto simp: find_previous_def)
  show "d \<in> snd ` set m"
  proof (cases "map_of m aid")
    case None
    with assms obtain P where "List.find P (map snd m) = Some d"
      by (auto simp: find_previous_def split: if_splits)
    then have "d \<in> set (map snd m)" unfolding find_Some_iff by (metis nth_mem)
    then show ?thesis by simp
  next
    case (Some d')
    with assms have "(aid, d) \<in> set m" by (auto simp: find_previous_def dest: map_of_SomeD)
    then show ?thesis by force
  qed
qed

lemma index_keeps_update:
  assumes "\<And>d. map_of m a = Some d \<Longrightarrow> keeps cfg d d'"
  shows "index_keeps cfg m (AList.update a d' m)"
  using assms by (auto simp: index_keeps_def update_conv' keeps_refl)

lemma index_keeps_refl: "index_keeps cfg m m"
  by (simp add: index_keeps_def keeps_refl)

lemma index_keeps_trans: "index_keeps cfg a b \<Longrightarrow> index_keeps cfg b c \<Longrightarrow> index_keeps cfg a c"
  by (meson index_keeps_def keeps_trans)

lemma carry_previous_dget:
  shows "dget (carry_previous now previous item) ''asset_id'' = dget item ''asset_id''"
    and "lifecycle_state previous = JStr ''retired'' \<Longrightarrow>
      lifecycle_state (carry_previous now previous item) = JStr ''retired''"
  by (simp_all add: carry_previous_def Let_def lifecycle_dget)

lemma mark_observed_keeps: "keeps cfg d (mark_observed now run d)"
  by (auto simp: mark_observed_def Let_def kept_fields_def PROTECTED_IDENTITY_FIELDS_def
      split: option.split intro!: keeps_same)

lemma observe_known_keeps:
  assumes "observe_known cfg a raw previous d h = Inr (item, h', es)"
    and "dget d ''asset_id'' = dget previous ''asset_id''"
  shows "keeps cfg previous item"
  using assms
  by (auto simp: observe_known_def Let_def and_then_eq_Inr carry_previous_dget intro!: detect_changes_keeps)

lemma ingest_record_keeps:
  assumes "ingest_record cfg a raw st = Inr st'" and m: "named (ig_current st)"
  shows "named (ig_current st') \<and> index_keeps cfg (ig_current st) (ig_current st')"
  using assms(1)
proof (cases rule: ingest_recordE)
  case skipped
  then show ?thesis using m by (simp add: index_keeps_refl)
next
  case (fresh adapted aid item h es)
  have item: "item = adapted" using fresh(4) by (auto simp: observe_new_def map_sum_eq_Inr)
  have "map_of (ig_current st) aid = None"
    using fresh(3) by (auto simp: find_previous_def split: option.splits)
  moreover have "dget (mark_observed (ia_now a) (ia_run a) item) ''asset_id'' = JStr aid"
    using fresh(2) mark_observed_keeps [of cfg item "ia_now a" "ia_run a"]
    by (simp add: keeps_def item asset_id_of_dget)
  ultimately show ?thesis
    using m fresh(2) by (auto simp: fresh(5) item intro!: named_update index_keeps_update)
next
  case (known adapted aid previous item h es key)
  obtain b where b: "map_of (ig_current st) b = Some previous" "dget previous ''asset_id'' = JStr b"
    using named_mem [OF m find_previous_mem(1) [OF known(3)]] by blast
  have "dget (continued (ig_current st) aid previous adapted) ''asset_id'' = dget previous ''asset_id''"
  proof (cases "map_of (ig_current st) aid = None")
    case False
    then have "map_of (ig_current st) aid = Some previous" using find_previous_mem(2) [OF known(3)] by blast
    then have "dget previous ''asset_id'' = JStr aid" using m by (auto simp: named_def dest!: map_of_SomeD)
    with False known(2) show ?thesis by (simp add: continued_def asset_id_of_dget)
  qed (simp add: continued_def)
  from observe_known_keeps [OF known(4) this] have k: "keeps cfg previous item" .
  with b known(5) have "key = b" by (simp add: keeps_def asset_id_of_dget)
  have k': "keeps cfg previous (mark_observed (ia_now a) (ia_run a) item)"
    using k mark_observed_keeps by (rule keeps_trans)
  with b have "dget (mark_observed (ia_now a) (ia_run a) item) ''asset_id'' = JStr b"
    by (simp add: keeps_def)
  with m b(1) k' show ?thesis
    by (auto simp: known(6) \<open>key = b\<close> intro!: named_update index_keeps_update)
qed

section \<open>Ingest as a whole\<close>

text \<open>Assets under distinct, non-empty text ids, as every ingest stores them.\<close>

definition identified :: "dict list \<Rightarrow> bool" where
  "identified as = (distinct (map (\<lambda>d. text_key d ''asset_id'') as) \<and>
     list_all (\<lambda>d. \<exists>a. a \<noteq> [] \<and> dget d ''asset_id'' = JStr a) as)"

definition keyed :: "dict \<Rightarrow> string \<times> dict" where
  "keyed d = (text_key d ''asset_id'', d)"

lemma keyed_key: "dget d ''asset_id'' = JStr a \<Longrightarrow> text_key d ''asset_id'' = a"
  by (simp add: text_key_dget)

lemma index_assets_map: "identified as \<Longrightarrow> index_assets as = Inr (map keyed as)"
proof -
  have "fold_res add_named as m = Inr (m @ map keyed as)"
    if "identified as" "set (map fst m) \<inter> set (map (\<lambda>d. text_key d ''asset_id'') as) = {}" for m
    using that
  proof (induction as arbitrary: m)
    case (Cons d as)
    then obtain a where a: "a \<noteq> []" "dget d ''asset_id'' = JStr a" by (auto simp: identified_def)
    then have "add_named d m = Inr (m @ [keyed d])"
      using Cons.prems(2)
      by (simp add: add_named_def keyed_def keyed_key asset_id_of_dget [THEN iffD2] update_append)
    moreover have "fold_res add_named as (m @ [keyed d]) = Inr ((m @ [keyed d]) @ map keyed as)"
      using Cons.prems by (intro Cons.IH) (auto simp: identified_def keyed_def)
    ultimately show ?case by simp
  qed simp
  from this [of "[]"] show "identified as \<Longrightarrow> index_assets as = Inr (map keyed as)"
    by (simp add: index_assets_def)
qed

lemma named_keyed: "identified as \<Longrightarrow> named (map keyed as)"
  by (auto simp: named_def identified_def keyed_def comp_def list_all_iff text_key_dget)

lemma dget_without_secrets:
  "dget (dict_without_secrets d) k = (if secret_field_name k then JNull else without_secrets (dget d k))"
proof -
  have "map_of (concat (map (\<lambda>(k, v). if secret_field_name k then [] else [(k, without_secrets v)]) d)) k
      = (if secret_field_name k then None else map_option without_secrets (map_of d k))"
    by (induction d) auto
  then show ?thesis by (auto simp: dict_without_secrets_def dget_def split: option.split)
qed

lemma kept_fields_plain: "k \<in> set kept_fields \<Longrightarrow> \<not> secret_field_name k"
proof -
  have "list_all (\<lambda>k. \<not> secret_field_name k) kept_fields" by code_simp
  then show "k \<in> set kept_fields \<Longrightarrow> \<not> secret_field_name k" by (simp add: list_all_iff)
qed

lemma secret_free_dget: "secret_free (JObj d) \<Longrightarrow> secret_free (dget d k)"
  by (induction d) (auto simp: dget_def)

lemma keeps_without_secrets:
  assumes "keeps cfg d d'" and free: "secret_free (JObj d)"
  shows "keeps cfg d (dict_without_secrets d')"
proof -
  have same: "dget (dict_without_secrets d') k = dget d k" if "dget d' k = dget d k" "k \<in> set kept_fields" for k
    using that kept_fields_plain secret_free_dget [OF free] by (simp add: dget_without_secrets without_secrets_id)
  have ret: "dget (dict_without_secrets d') ''lifecycle_state'' = JStr ''retired''"
    if "dget d' ''lifecycle_state'' = JStr ''retired''"
    using that kept_fields_plain [of "''lifecycle_state''"] by (simp add: dget_without_secrets kept_fields_def)
  show ?thesis using assms(1) same ret unfolding keeps_def lifecycle_dget by (auto simp: kept_fields_def)
qed

lemma mark_reconciled_keeps: "keeps cfg d (mark_reconciled t (a, d))"
  by (auto simp: mark_reconciled_def kept_fields_def PROTECTED_IDENTITY_FIELDS_def intro!: keeps_same)

lemma named_ids:
  assumes "named m"
  shows "map_res (\<lambda>d. map_sum id (\<lambda>a. (a, d)) (asset_id_of d)) (map snd m) = Inr m"
  using assms unfolding named_def
  by (induction m) (auto simp: asset_id_of_dget [THEN iffD2])

lemma assets_ok_saved: "assets_ok (sort_assets (map dict_without_secrets as))"
  by (auto simp del: secret_free.simps simp: assets_ok_def sort_assets_def list_all_iff dict_without_secrets_free)

text \<open>
  C16. An ingest loses no asset and splits none: under an index of distinct ids every known
  asset is still there under its id, a retired one is still retired, and, while change
  detection covers it, its serial number, MAC address and source id are those it had.
\<close>

theorem ingest_keeps_assets:
  assumes step: "ingest cfg a records iv = Inr iv'" and st: "iv_assets iv = Some as"
    and ok: "assets_ok as" and ids: "identified as"
  shows "\<exists>bs. load_assets cfg iv' = Inr bs \<and> distinct (map (\<lambda>d. text_key d ''asset_id'') bs) \<and>
    (\<forall>d \<in> set as. \<exists>d' \<in> set bs. keeps cfg d d')"
proof -
  obtain s kept iv2 where
    fold: "fold_res (ingest_record cfg a) records
        \<lparr>ig_current = map keyed as, ig_history = iv_history iv, ig_changes = []\<rparr> = Inr s"
    and rec: "reconcile (map snd (ig_current s))
        (save_assets (map snd (ig_current s)) (iv\<lparr>iv_history := ig_history s\<rparr>)) = Inr iv2"
    and iv': "iv' = iv2\<lparr>iv_changes := kept\<rparr>"
    using step by (auto simp: ingest_def and_then_eq_Inr map_sum_eq_Inr Let_def load_ok [OF st ok]
        index_assets_map [OF ids])
  let ?m = "ig_current s"
  have m: "named ?m \<and> index_keeps cfg (map keyed as) ?m"
    by (rule fold_res_invariant [OF fold])
       (use named_keyed [OF ids] in \<open>auto simp: index_keeps_refl dest: ingest_record_keeps intro: index_keeps_trans\<close>)
  let ?t = "fold reconcile_pair (pairs ?m) (start_reconcile ?m)"
  let ?bs = "sort_assets (map dict_without_secrets (map (mark_reconciled ?t) ?m))"
  have "iv_assets iv' = Some ?bs"
    using rec m by (auto simp: iv' reconcile_def reconcile_assets_def named_ids Let_def save_assets_def)
  then have load: "load_assets cfg iv' = Inr ?bs" by (rule load_ok) (rule assets_ok_saved)
  let ?f = "\<lambda>p. dict_without_secrets (mark_reconciled ?t p)"
  have "text_key (?f p) ''asset_id'' = fst p" if "p \<in> set ?m" for p
  proof -
    have "dget (mark_reconciled ?t p) ''asset_id'' = JStr (fst p)"
      using mark_reconciled_keeps [of cfg "snd p" ?t "fst p"] m that by (auto simp: keeps_def named_def)
    then show ?thesis
      using kept_fields_plain [of "''asset_id''"] by (simp add: text_key_dget dget_without_secrets kept_fields_def)
  qed
  then have "map (\<lambda>d. text_key d ''asset_id'') (map ?f ?m) = map fst ?m" by simp
  then have "distinct (map (\<lambda>d. text_key d ''asset_id'') (map ?f ?m)) = distinct (map fst ?m)" by (rule arg_cong)
  then have "distinct (map (\<lambda>d. text_key d ''asset_id'') (map ?f ?m))" using m unfolding named_def by blast
  then have dist: "distinct (map (\<lambda>d. text_key d ''asset_id'') ?bs)"
    by (simp add: sort_assets_def distinct_map_sort_key comp_def)
  have "\<exists>d' \<in> set ?bs. keeps cfg d d'" if d: "d \<in> set as" for d
  proof -
    have "(text_key d ''asset_id'', d) \<in> set (map keyed as)" using d by (simp add: keyed_def)
    moreover have "distinct (map fst (map keyed as))" using ids by (simp add: identified_def keyed_def comp_def)
    ultimately have "map_of (map keyed as) (text_key d ''asset_id'') = Some d" by (rule map_of_is_SomeI [rotated])
    with m obtain d1 where d1: "map_of ?m (text_key d ''asset_id'') = Some d1" "keeps cfg d d1"
      by (auto simp: index_keeps_def)
    have "keeps cfg d (?f (text_key d ''asset_id'', d1))"
      using ok d by (intro keeps_without_secrets keeps_trans [OF d1(2) mark_reconciled_keeps])
        (auto simp: assets_ok_def list_all_iff)
    then show ?thesis using map_of_SomeD [OF d1(1)] by (force simp: sort_assets_def)
  qed
  with load dist show ?thesis by blast
qed

text \<open>A retired asset, observed again with another serial number.\<close>

definition retired_asset :: dict where
  "retired_asset = [(''asset_id'', JStr ''a1''), (''source'', JStr ''snmp''), (''lifecycle_state'', JStr ''retired''),
     (''serial_number'', JStr ''S1'')]"

definition sample_ingest :: ingest_args where
  "sample_ingest = \<lparr>ia_source = JStr ''snmp'', ia_customer = JNull, ia_site = JNull,
     ia_now = ''2024-01-10T00:00:00Z'', ia_run = None, ia_authoritative = [], ia_partial = False\<rparr>"

definition sample_record :: json where
  "sample_record = JObj [(''asset_id'', JStr ''a1''), (''serial_number'', JStr ''S2'')]"

lemma sample_ingest_record:
  "map_sum id (\<lambda>s. map ce_detected (ig_changes s))
     (ingest_record sample_config sample_ingest sample_record
       \<lparr>ig_current = [(''a1'', retired_asset)], ig_history = [], ig_changes = []\<rparr>) = Inr [''2024-01-10T00:00:00Z'']"
  by code_simp

lemma sample_append:
  assumes "map ce_detected es = [''2024-01-10T00:00:00Z'']"
  shows "\<exists>r. append_changes sample_config es ''2024-01-10T00:00:00Z'' [] = Inr r"
proof -
  obtain e where e: "es = [e]" "ce_detected e = ''2024-01-10T00:00:00Z''" using assms by auto
  obtain u c t where "event_time sample_config ''2024-01-10T00:00:00Z'' = Inr u"
    "days_before u (ic_change_days sample_config) = Inr c"
    "inventory_time (ic_tz sample_config) (JStr ''2024-01-10T00:00:00Z'') = Inr t"
  proof -
    have "map_sum id (\<lambda>u. 365 * day_us \<le> u) (event_time sample_config ''2024-01-10T00:00:00Z'') = Inr True"
      by code_simp
    then have "\<exists>u. event_time sample_config ''2024-01-10T00:00:00Z'' = Inr u \<and> 365 * day_us \<le> u"
      by (auto simp: map_sum_eq_Inr)
    moreover have "ic_change_days sample_config = 365" by (simp add: sample_config_def)
    ultimately show ?thesis using that by (auto simp: days_before_def event_time_def and_then_eq_Inr)
  qed
  then show ?thesis
    by (simp add: e append_changes_def accept_change_def repeats_change_def retain_def since_cutoff_def)
qed

definition sample_known :: inventory where
  "sample_known = (empty_inventory JNull)\<lparr>iv_assets := Some [retired_asset]\<rparr>"

lemma sample_known_stored: "iv_assets sample_known = Some [retired_asset]" "assets_ok [retired_asset]"
    "identified [retired_asset]"
proof -
  show "iv_assets sample_known = Some [retired_asset]" by (simp add: sample_known_def)
  show "assets_ok [retired_asset]" by code_simp
  show "identified [retired_asset]" by (simp add: identified_def retired_asset_def dget_def)
qed

lemma sample_ingested: "\<exists>iv'. ingest sample_config sample_ingest [sample_record] sample_known = Inr iv'"
proof -
  obtain s where s: "ingest_record sample_config sample_ingest sample_record
       \<lparr>ig_current = [(''a1'', retired_asset)], ig_history = [], ig_changes = []\<rparr> = Inr s"
      "map ce_detected (ig_changes s) = [''2024-01-10T00:00:00Z'']"
    using sample_ingest_record by (auto simp: map_sum_eq_Inr)
  have keyed: "map keyed [retired_asset] = [(''a1'', retired_asset)]"
    by (simp add: keyed_def text_key_dget dget_def retired_asset_def)
  have n: "named (ig_current s)"
    using ingest_record_keeps [OF s(1)] named_keyed [OF sample_known_stored(3)] unfolding keyed by simp
  obtain r where r: "append_changes sample_config (ig_changes s) ''2024-01-10T00:00:00Z'' [] = Inr r"
    using sample_append [OF s(2)] by blast
  have start: "load_assets sample_config sample_known = Inr [retired_asset]"
      "index_assets [retired_asset] = Inr [(''a1'', retired_asset)]"
      "iv_history sample_known = []" "iv_changes sample_known = []" "ia_now sample_ingest = ''2024-01-10T00:00:00Z''"
    using load_ok [OF sample_known_stored(1,2)] index_assets_map [OF sample_known_stored(3)]
    unfolding keyed by (simp_all add: sample_known_def empty_inventory_def sample_ingest_def)
  show ?thesis
    using s(1) r by (simp add: ingest_def start Let_def reconcile_def reconcile_assets_def named_ids [OF n]
        save_assets_def)
qed

theorem ingest_keeps_assets_witness:
  "\<exists>iv' bs. ingest sample_config sample_ingest [sample_record] sample_known = Inr iv' \<and>
     load_assets sample_config iv' = Inr bs \<and> (\<exists>d' \<in> set bs. keeps sample_config retired_asset d')"
proof -
  obtain iv' where iv': "ingest sample_config sample_ingest [sample_record] sample_known = Inr iv'"
    using sample_ingested by blast
  from ingest_keeps_assets [OF iv' sample_known_stored] iv' show ?thesis by auto
qed

section \<open>Reconciliation\<close>

text \<open>
  The reference: each asset on its own, its status raised by its comparison with every other
  asset. The code compares every unordered pair once and raises both sides in place.
\<close>

definition stronger :: "string \<Rightarrow> string \<Rightarrow> string" where
  "stronger s t = (if rec_rank s \<le> rec_rank t then t else s)"

definition reference_status :: "dict list \<Rightarrow> dict \<Rightarrow> string" where
  "reference_status others d =
     foldl stronger (initial_status d) (concat (map (\<lambda>e. case pair_status d e of None \<Rightarrow> [] | Some (s, _) \<Rightarrow> [s]) others))"

definition plain_text :: "json \<Rightarrow> bool" where
  "plain_text v = (case v of JNull \<Rightarrow> True | JStr _ \<Rightarrow> True | _ \<Rightarrow> False)"

lemma plain_eq: "plain_text v \<Longrightarrow> py_eq v w \<longleftrightarrow> w = v"
  by (cases v) (auto simp: plain_text_def)

definition pair_kind :: "bool \<Rightarrow> bool \<Rightarrow> bool \<Rightarrow> bool \<Rightarrow> bool \<Rightarrow> bool \<Rightarrow> bool \<Rightarrow> string option" where
  "pair_kind same_source serial serial_differs mac mac_differs host vendor_id =
     (if same_source then None
      else if serial \<and> mac_differs \<or> mac \<and> serial_differs \<or> host \<and> (serial_differs \<or> mac_differs)
        then Some ''conflicting''
      else if serial \<and> mac then Some ''exact_match''
      else if serial \<or> mac \<or> vendor_id then Some ''strong_match''
      else if host then Some ''ambiguous'' else None)"

lemma pair_kind_ladder:
  "map_option fst (if ss then None else if s \<and> md then Some (''conflicting'', e1)
     else if m \<and> sd then Some (''conflicting'', e2) else if h \<and> (sd \<or> md) then Some (''conflicting'', e3)
     else if s \<and> m then Some (''exact_match'', e4) else if s then Some (''strong_match'', e5)
     else if m then Some (''strong_match'', e6) else if v then Some (''strong_match'', e7)
     else if h then Some (''ambiguous'', e8) else None) = pair_kind ss s sd m md h v"
  by (cases ss; cases s; cases m; cases h; cases v; cases sd; cases md) (simp_all add: pair_kind_def)

lemma agree_sym: "agree a b \<longleftrightarrow> agree b a" and differ_sym: "differ a b \<longleftrightarrow> differ b a"
  by (auto simp: agree_def differ_def)

lemma pair_status_kind:
  assumes "plain_text (dget a ''vendor'')"
  shows "map_option fst (pair_status a b) = pair_kind (py_eq (dget a ''source'') (dget b ''source''))
    (agree (normal_serial (dget a ''serial_number'')) (normal_serial (dget b ''serial_number'')))
    (differ (normal_serial (dget a ''serial_number'')) (normal_serial (dget b ''serial_number'')))
    (agree (normal_mac (dget a ''mac_address'')) (normal_mac (dget b ''mac_address'')))
    (differ (normal_mac (dget a ''mac_address'')) (normal_mac (dget b ''mac_address'')))
    (agree (fold_host a) (fold_host b))
    (agree (clean (dget a ''source_asset_id'')) (clean (dget b ''source_asset_id''))
       \<and> agree (dget a ''vendor'') (dget b ''vendor''))"
proof -
  have v: "(truthy (dget a ''vendor'') \<and> py_eq (dget a ''vendor'') (dget b ''vendor'')) =
      agree (dget a ''vendor'') (dget b ''vendor'')"
    using assms by (auto simp: agree_def plain_eq)
  show ?thesis unfolding pair_status_def Let_def v pair_kind_def by (rule pair_kind_ladder [unfolded pair_kind_def])
qed

lemma pair_status_symmetric:
  assumes "plain_text (dget a ''source'')" "plain_text (dget a ''vendor'')" "plain_text (dget b ''source'')"
    "plain_text (dget b ''vendor'')"
  shows "map_option fst (pair_status a b) = map_option fst (pair_status b a)"
proof -
  have "py_eq (dget a ''source'') (dget b ''source'') = py_eq (dget b ''source'') (dget a ''source'')"
    using assms by (auto simp: plain_eq)
  moreover note agree_sym [of "normal_serial (dget a ''serial_number'')" "normal_serial (dget b ''serial_number'')"]
    differ_sym [of "normal_serial (dget a ''serial_number'')" "normal_serial (dget b ''serial_number'')"]
    agree_sym [of "normal_mac (dget a ''mac_address'')" "normal_mac (dget b ''mac_address'')"]
    differ_sym [of "normal_mac (dget a ''mac_address'')" "normal_mac (dget b ''mac_address'')"]
    agree_sym [of "fold_host a" "fold_host b"] agree_sym [of "dget a ''vendor''" "dget b ''vendor''"]
    agree_sym [of "clean (dget a ''source_asset_id'')" "clean (dget b ''source_asset_id'')"]
  ultimately show ?thesis
    unfolding pair_status_kind [OF assms(2)] pair_status_kind [OF assms(4)] by (simp only:)
qed

definition status_list :: "dict \<Rightarrow> dict \<Rightarrow> string list" where
  "status_list a b = (case pair_status a b of None \<Rightarrow> [] | Some (s, _) \<Rightarrow> [s])"

definition contribution :: "string \<Rightarrow> (string \<times> dict) \<times> (string \<times> dict) \<Rightarrow> string list" where
  "contribution a p = (if a \<in> {fst (fst p), fst (snd p)} then status_list (snd (fst p)) (snd (snd p)) else [])"

lemma status_list_option: "status_list a b = (case map_option fst (pair_status a b) of None \<Rightarrow> [] | Some s \<Rightarrow> [s])"
  by (auto simp: status_list_def split: option.splits)

lemma reconcile_pair_status:
  assumes "fst (fst p) \<noteq> fst (snd p)"
  shows "map_of (rt_status (reconcile_pair p t)) a =
    map_option (\<lambda>s. foldl stronger s (contribution a p)) (map_of (rt_status t) a)"
  using assms
  by (cases p; cases "fst p"; cases "snd p")
     (auto simp: reconcile_pair_def note_entry_def raise_status_def contribution_def status_list_def Let_def
        map_of_map_entry stronger_def option.map_comp option.map_ident split: option.splits)

lemma reconcile_pairs_status:
  assumes "list_all (\<lambda>p. fst (fst p) \<noteq> fst (snd p)) ps"
  shows "map_of (rt_status (fold reconcile_pair ps t)) a =
    map_option (\<lambda>s. foldl stronger s (concat (map (contribution a) ps))) (map_of (rt_status t) a)"
  using assms
  by (induction ps arbitrary: t) (simp_all add: reconcile_pair_status option.map_comp comp_def option.map_ident)

lemma pairs_mem: "(x, y) \<in> set (pairs xs) \<Longrightarrow> x \<in> set xs \<and> y \<in> set xs"
  by (induction xs) auto

lemma pairs_distinct: "distinct (map f xs) \<Longrightarrow> (x, y) \<in> set (pairs xs) \<Longrightarrow> f x \<noteq> f y"
  by (induction xs) (auto simp: image_iff)

lemma contributions:
  assumes "a \<notin> fst ` set xs" and "a \<notin> fst ` set ys"
  shows "concat (map (contribution a) (pairs (xs @ (a, d) # ys)))
    = concat (map (\<lambda>e. status_list (snd e) d) xs) @ concat (map (\<lambda>e. status_list d (snd e)) ys)"
  using assms(1)
proof (induction xs)
  case Nil
  have "concat (map (contribution a) (map (Pair (a, d)) ys)) = concat (map (\<lambda>e. status_list d (snd e)) ys)"
    by (induction ys) (simp_all add: contribution_def)
  moreover have "contribution a p = []" if "p \<in> set (pairs ys)" for p
    using that pairs_mem [of "fst p" "snd p" ys] assms(2) by (auto simp: contribution_def)
  then have "concat (map (contribution a) (pairs ys)) = []" by simp
  ultimately show ?case by simp
next
  case (Cons x xs)
  have none: "concat (map (\<lambda>e. contribution a (x, e)) zs) = []" if "a \<notin> fst ` set zs" for zs
    using that Cons.prems by (auto simp: contribution_def)
  have "a \<notin> fst ` set xs" using Cons.prems by auto
  with assms(2) have "concat (map (contribution a) (map (Pair x) (xs @ (a, d) # ys))) = contribution a (x, (a, d))"
    by (simp add: comp_def none)
  also have "\<dots> = status_list (snd x) d" by (simp add: contribution_def)
  finally show ?case using Cons by simp
qed

lemma foldl_update_map_of:
  "map_of (foldl (\<lambda>m (a, d). AList.update a (f d) m) m0 ns) k =
    (case map_of (rev ns) k of None \<Rightarrow> map_of m0 k | Some d \<Rightarrow> Some (f d))"
  by (induction ns arbitrary: m0) (auto simp: update_conv' map_add_def split: option.splits)

lemma start_status:
  assumes "distinct (map fst ns)" and "(a, d) \<in> set ns"
  shows "map_of (rt_status (start_reconcile ns)) a = Some (initial_status d)"
proof -
  have "map_of (rev ns) a = Some d" using assms by (intro map_of_is_SomeI) (simp_all add: rev_map [symmetric])
  then show ?thesis by (simp add: start_reconcile_def foldl_update_map_of)
qed

lemma status_list_flip:
  assumes "plain_text (dget a ''source'')" "plain_text (dget a ''vendor'')" "plain_text (dget b ''source'')"
    "plain_text (dget b ''vendor'')"
  shows "status_list a b = status_list b a"
  unfolding status_list_option by (subst pair_status_symmetric [OF assms]) (rule refl)

lemma list_all2_map_eq: "list_all2 (\<lambda>x y. y = f x) xs ys \<Longrightarrow> ys = map f xs"
  by (induction xs ys rule: list_all2_induct) auto

text \<open>
  C19. Reconciliation gives every asset the status a comparison of that asset alone with all
  the others gives it: comparing each pair once, in place, and raising both sides loses and
  reorders nothing.
\<close>

theorem reconcile_is_pointwise:
  assumes step: "reconcile_assets (xs @ d # ys) = Inr (marked, entries)"
    and ids: "distinct (map (\<lambda>d. text_key d ''asset_id'') (xs @ d # ys))"
    and plain: "list_all (\<lambda>d. plain_text (dget d ''source'') \<and> plain_text (dget d ''vendor'')) (xs @ d # ys)"
  shows "dget (marked ! length xs) ''reconciliation_status'' = JStr (reference_status (xs @ ys) d)"
proof -
  let ?as = "xs @ d # ys"
  obtain ns where ns: "map_res (\<lambda>d. map_sum id (\<lambda>a. (a, d)) (asset_id_of d)) ?as = Inr ns"
    and marked: "marked = map (mark_reconciled (fold reconcile_pair (pairs ns) (start_reconcile ns))) ns"
    using step by (auto simp: reconcile_assets_def and_then_eq_Inr Let_def)
  have "list_all2 (\<lambda>d n. n = keyed d) ?as ns"
    using ns unfolding map_res_Inr_iff
    by (rule list_all2_mono) (auto simp: map_sum_eq_Inr asset_id_of_dget keyed_def keyed_key)
  then have ns_map: "ns = map keyed ?as"
    using list_all2_map_eq by blast
  define a where "a = text_key d ''asset_id''"
  let ?t = "fold reconcile_pair (pairs ns) (start_reconcile ns)"
  have dist: "distinct (map fst ns)" using ids by (simp add: ns_map keyed_def comp_def)
  have fresh: "a \<notin> fst ` set (map keyed xs)" "a \<notin> fst ` set (map keyed ys)"
    using ids by (auto simp: a_def keyed_def)
  have "list_all (\<lambda>p. fst (fst p) \<noteq> fst (snd p)) (pairs ns)"
    using pairs_distinct [OF dist] by (fastforce simp: list_all_iff)
  then have "map_of (rt_status ?t) a = Some (foldl stronger (initial_status d) (concat (map (contribution a) (pairs ns))))"
    using start_status [OF dist, of a d] by (simp add: reconcile_pairs_status ns_map keyed_def a_def)
  also have "concat (map (contribution a) (pairs ns)) =
      concat (map (\<lambda>e. status_list e d) xs) @ concat (map (\<lambda>e. status_list d e) ys)"
    using contributions [OF fresh, of d] by (simp add: ns_map keyed_def a_def comp_def)
  also have "map (\<lambda>e. status_list e d) xs = map (\<lambda>e. status_list d e) xs"
    using plain by (intro map_cong refl status_list_flip) (auto simp: list_all_iff)
  finally have "map_of (rt_status ?t) a = Some (reference_status (xs @ ys) d)"
    by (simp add: reference_status_def status_list_def [abs_def])
  moreover have "marked ! length xs = mark_reconciled ?t (a, d)"
    by (simp add: marked ns_map nth_append keyed_def a_def)
  ultimately show ?thesis by (simp add: mark_reconciled_def)
qed

definition sample_left :: dict where
  "sample_left = [(''asset_id'', JStr ''a1''), (''source'', JStr ''snmp''), (''serial_number'', JStr ''S1''),
     (''mac_address'', JStr ''aabbccddeeff'')]"

definition sample_right :: dict where
  "sample_right = [(''asset_id'', JStr ''a2''), (''source'', JStr ''meraki''), (''serial_number'', JStr ''s1''),
     (''mac_address'', JStr ''AA:BB:CC:DD:EE:FF'')]"

text \<open>The same device seen by two sources.\<close>

theorem reconcile_is_pointwise_witness:
  "\<exists>marked entries. reconcile_assets [sample_left, sample_right] = Inr (marked, entries) \<and>
     dget (marked ! 0) ''reconciliation_status'' = JStr (reference_status [sample_right] sample_left) \<and>
     reference_status [sample_right] sample_left = ''exact_match''"
proof -
  obtain marked entries where step: "reconcile_assets ([] @ sample_left # [sample_right]) = Inr (marked, entries)"
    by (simp add: reconcile_assets_def sample_left_def sample_right_def asset_id_of_def Let_def)
  have "dget (marked ! length ([] :: dict list)) ''reconciliation_status''
      = JStr (reference_status ([] @ [sample_right]) sample_left)"
    by (rule reconcile_is_pointwise [OF step]) (simp_all add: sample_left_def sample_right_def text_key_dget dget_def plain_text_def)
  moreover have "reference_status [sample_right] sample_left = ''exact_match''" by code_simp
  ultimately show ?thesis using step by simp
qed

end
