(* ===== verification/Service_Models.thy ===== *)
theory Service_Models
  imports Py_Number
begin

text \<open>
  \<open>analysis/services/models.py\<close> and the table of service definitions of
  \<open>analysis/services/evaluators.py\<close>, with the helpers of the evaluators on JSON values. A
  status is its text. Where the code tests membership in a set, the value is a text in the
  platform's documents; a list or dictionary there, for which Python raises, is not a member.
\<close>

section \<open>Service health\<close>

definition SERVICE_NAMES :: "string list" where
  "SERVICE_NAMES = [''Internet'', ''Wireless'', ''Switching'', ''Printing'', ''Identity'', ''Compute'',
     ''Storage'', ''Voice'', ''Email'', ''Security'', ''Monitoring'']"

definition VIRTUALISATION_SERVICE_NAMES :: "string list" where
  "VIRTUALISATION_SERVICE_NAMES = [''Virtualisation Management Plane'', ''Hypervisor Cluster'',
     ''Compute Capacity'', ''Virtual Machine Hosting'', ''Shared Storage'', ''Workload Availability'']"

definition STATUS_SEVERITY :: "(string \<times> string) list" where
  "STATUS_SEVERITY = [(''Healthy'', ''Info''), (''Warning'', ''Medium''), (''Critical'', ''Critical''),
     (''Unknown'', ''Info''), (''Not Enabled'', ''Info''), (''Not Available'', ''Info''),
     (''Configuration Required'', ''Medium'')]"

definition SERVICE_STATUSES :: "string list" where
  "SERVICE_STATUSES = map fst STATUS_SEVERITY"

definition status_severity :: "string \<Rightarrow> string" where
  "status_severity s = (case map_of STATUS_SEVERITY s of None \<Rightarrow> ''Info'' | Some v \<Rightarrow> v)"

record service_health =
  sh_service :: string
  sh_status :: string
  sh_summary :: string
  sh_affected :: "string list"
  sh_users :: "int option"
  sh_severity :: string
  sh_last_change :: "string option"
  sh_evidence :: "dict list"

definition service_post_init :: "service_health \<Rightarrow> service_health res" where
  "service_post_init h =
     (if sh_service h \<notin> set (SERVICE_NAMES @ VIRTUALISATION_SERVICE_NAMES) then
        Inl (ValueError ''unsupported canonical service'')
      else if sh_status h \<notin> set SERVICE_STATUSES then Inl (ValueError ''unsupported service status'')
      else Inr h)"

definition jint_option :: "int option \<Rightarrow> json" where
  "jint_option v = (case v of None \<Rightarrow> JNull | Some i \<Rightarrow> JInt i)"

definition health_to_dict :: "service_health \<Rightarrow> dict" where
  "health_to_dict h = [(''service'', JStr (sh_service h)), (''status'', JStr (sh_status h)),
     (''summary'', JStr (sh_summary h)), (''affected_assets'', jstrs (sh_affected h)),
     (''affected_users'', jint_option (sh_users h)), (''severity'', JStr (sh_severity h)),
     (''last_change'', jopt (sh_last_change h)), (''evidence'', JList (map JObj (sh_evidence h)))]"

section \<open>Definitions\<close>

record service_def =
  sd_name :: string
  sd_capability :: string
  sd_terms :: "string list"
  sd_categories :: "string list"
  sd_prefixes :: "string list"
  sd_signals :: "string list"

definition define_service :: "string \<Rightarrow> string \<Rightarrow> string list \<Rightarrow> string list \<Rightarrow> string list \<Rightarrow> string list \<Rightarrow> service_def" where
  "define_service name cap terms cats prefixes signals = \<lparr>sd_name = name, sd_capability = cap, sd_terms = terms,
     sd_categories = cats, sd_prefixes = prefixes, sd_signals = signals\<rparr>"

definition DEFINITIONS :: "service_def list" where
  "DEFINITIONS =
     [define_service ''Internet'' ''internet'' [] [''Network''] [''wan.''] [''wan''],
      define_service ''Wireless'' ''wireless'' [''access-point'', ''wireless''] [''Wireless''] [] [''wireless''],
      define_service ''Switching'' ''switching'' [''switch''] [''Network''] [''network.switch''] [],
      define_service ''Printing'' ''printing'' [''print''] [''Printing''] [] [''printer_consumables'', ''printing''],
      define_service ''Identity'' ''identity'' [''domain-controller'', ''identity''] [] [] [''identity'', ''authentication''],
      define_service ''Compute'' ''compute'' [''server'', ''hypervisor''] [''Server''] [] [''compute''],
      define_service ''Storage'' ''storage'' [''storage'', ''san'', ''nas''] [''Storage''] [] [''storage''],
      define_service ''Voice'' ''voice'' [''voice'', ''phone'', ''sip''] [] [] [''voice''],
      define_service ''Email'' ''email'' [''email'', ''mail''] [] [] [''email''],
      define_service ''Security'' ''firewall'' [''firewall'', ''security-appliance''] [''Firewall'', ''Security''] [] [''security''],
      define_service ''Monitoring'' ''telemetry'' [] [''Collector''] [] [''monitoring''],
      define_service ''Virtualisation Management Plane'' ''virtualisation'' [''virtualisation-manager''] [] [] [],
      define_service ''Hypervisor Cluster'' ''virtualisation'' [''virtualisation-cluster'', ''hypervisor''] [] [] [],
      define_service ''Compute Capacity'' ''virtualisation'' [''virtualisation-cluster'', ''hypervisor''] [] [] [],
      define_service ''Virtual Machine Hosting'' ''virtualisation'' [''hypervisor'', ''compute-workload''] [] [] [],
      define_service ''Shared Storage'' ''virtualisation'' [''virtual-storage''] [] [] [],
      define_service ''Workload Availability'' ''virtualisation'' [''compute-workload''] [] [] []]"

definition VIRTUAL_SERVICE_IDS :: "(string \<times> string) list" where
  "VIRTUAL_SERVICE_IDS =
     [(''Virtualisation Management Plane'', ''virtualisation_management_plane''),
      (''Hypervisor Cluster'', ''hypervisor_cluster''), (''Compute Capacity'', ''compute_capacity''),
      (''Virtual Machine Hosting'', ''virtual_machine_hosting''), (''Shared Storage'', ''shared_storage''),
      (''Workload Availability'', ''workload_availability'')]"

section \<open>Context\<close>

text \<open>The frozen set of capabilities is a list; \<open>now\<close> is an instant, \<open>tz\<close> the local UTC offset.\<close>

record service_context =
  cx_assets :: "dict list"
  cx_collectors :: "dict list"
  cx_signals :: dict
  cx_findings :: "dict list"
  cx_capabilities :: "string list"
  cx_collector_capabilities :: dict
  cx_manifest :: "(string \<times> dict) list"
  cx_enabled :: "string list"
  cx_now :: int
  cx_tz :: int

section \<open>Values\<close>

definition is_text :: "string list \<Rightarrow> json \<Rightarrow> bool" where
  "is_text xs v = (v \<in> set (map JStr xs))"

definition lower_of :: "dict \<Rightarrow> string \<Rightarrow> string" where
  "lower_of d k = lower (py_str (dget_or d k (JStr [])))"

definition first_true :: "dict \<Rightarrow> string list \<Rightarrow> json \<Rightarrow> json" where
  "first_true d ks v0 = foldr (\<lambda>k v. por (dget d k) v) ks v0"

definition asset_text :: "dict \<Rightarrow> string" where
  "asset_text d = join '' '' (map (lower_of d) [''device_type'', ''device_role'', ''platform'', ''model''])"

definition service_asset_name :: "dict \<Rightarrow> string" where
  "service_asset_name d = py_str (first_true d [''hostname'', ''display_name'', ''canonical_id'', ''asset_id'']
     (JStr ''Unknown asset''))"

definition finding_asset :: "dict \<Rightarrow> string" where
  "finding_asset d = py_str (first_true d [''device'', ''canonical_id''] (JStr []))"

definition timestamp :: "int \<Rightarrow> json \<Rightarrow> int option res" where
  "timestamp tz v = (if \<not> truthy v then Inr None
     else case fromisoformat (replace_z (py_str v)) of
       None \<Rightarrow> Inr None
     | Some t \<Rightarrow> map_sum id Some (to_utc t tz))"

definition latest :: "int \<Rightarrow> json list \<Rightarrow> string option res" where
  "latest tz vs = and_then (map_res (timestamp tz) vs) (\<lambda>ts.
     let us = concat (map (\<lambda>t. case t of None \<Rightarrow> [] | Some u \<Rightarrow> [u]) ts) in
     Inr (if us = [] then None else Some (isoformat_z (foldl max (hd us) (tl us)))))"

text \<open>A non-negative number counts; Booleans are numbers.\<close>

definition user_count :: "json \<Rightarrow> int list res" where
  "user_count v = (case v of
       JInt i \<Rightarrow> Inr (if 0 \<le> i then [i] else [])
     | JBool b \<Rightarrow> Inr [if b then 1 else 0]
     | JFloat s \<Rightarrow> if s = ''nan'' \<or> (starts_with ''-'' s \<and> s \<noteq> ''-0.0'') then Inr []
         else map_sum id (\<lambda>i. [i]) (trunc_float s)
     | _ \<Rightarrow> Inr [])"

definition affected_users :: "dict list \<Rightarrow> int option res" where
  "affected_users vs = and_then (map_res (\<lambda>d.
       and_then (want_dict (por (dget d ''evidence'') (JObj []))) (\<lambda>e.
         user_count (dget_or e ''affected_users'' (dget d ''affected_users'')))) vs)
     (\<lambda>cs. Inr (if concat cs = [] then None else Some (sum_list (concat cs))))"

text \<open>Comparison of a float, given as its \<open>repr\<close>, with a positive integer.\<close>

definition float_at_most :: "string \<Rightarrow> int \<Rightarrow> bool res" where
  "float_at_most s k =
     (if s = ''nan'' \<or> s = ''inf'' then Inr False else if s = ''-inf'' then Inr True
      else case parse_decimal s of
        Some (neg, a, b) \<Rightarrow> Inr (neg \<or> digits_int (a @ b) \<le> k * 10 ^ length b)
      | None \<Rightarrow> if contains ''e-'' s then Inr True else Inl (Unmodelled s))"

definition float_at_least :: "string \<Rightarrow> int \<Rightarrow> bool res" where
  "float_at_least s k =
     (if s = ''nan'' \<or> s = ''-inf'' then Inr False else if s = ''inf'' then Inr True
      else case parse_decimal s of
        Some (neg, a, b) \<Rightarrow> Inr (\<not> neg \<and> k * 10 ^ length b \<le> digits_int (a @ b))
      | None \<Rightarrow> if contains ''e-'' s then Inr False else Inl (Unmodelled s))"

text \<open>\<open>_number(v) >= k\<close>: what is no number counts as zero.\<close>

definition number_at_least :: "json \<Rightarrow> int \<Rightarrow> bool res" where
  "number_at_least v k = (case py_float v of
       Inr s \<Rightarrow> float_at_least s k
     | Inl (Unmodelled e) \<Rightarrow> Inl (Unmodelled e)
     | Inl _ \<Rightarrow> Inr (k \<le> 0))"

text \<open>\<open>x in v\<close> for a text.\<close>

definition text_in :: "string \<Rightarrow> json \<Rightarrow> bool res" where
  "text_in x v = (case v of
       JList ys \<Rightarrow> Inr (list_ex (\<lambda>y. y = JStr x) ys)
     | JStr s \<Rightarrow> Inr (contains x s)
     | JObj d \<Rightarrow> Inr (dhas d x)
     | _ \<Rightarrow> Inl (TypeError ''argument is not iterable''))"

definition filter_res :: "('a \<Rightarrow> bool res) \<Rightarrow> 'a list \<Rightarrow> 'a list res" where
  "filter_res P xs = and_then (map_res (\<lambda>x. map_sum id (\<lambda>b. if b then [x] else []) (P x)) xs) (\<lambda>ys. Inr (concat ys))"

definition sort_res :: "('a \<Rightarrow> 'k::linorder res) \<Rightarrow> 'a list \<Rightarrow> 'a list res" where
  "sort_res f xs = and_then (map_res (\<lambda>x. map_sum id (\<lambda>k. (k, x)) (f x)) xs) (\<lambda>ys. Inr (map snd (sort_key fst ys)))"

definition text_of :: "dict \<Rightarrow> string \<Rightarrow> string" where
  "text_of d k = py_str (dget_or d k (JStr []))"

end
