(* ===== verification/Service_Evaluators.thy ===== *)
theory Service_Evaluators
  imports Service_Models
begin

text \<open>
  \<open>analysis/services/evaluators.py\<close>: the evaluation of one service from the canonical context,
  in the order of \<open>ServiceEvaluator.evaluate\<close>: capability and collection checks, then the
  special evaluators for Internet, Security, Printing and virtualisation, then the general one.
\<close>

section \<open>Declared capabilities\<close>

type_synonym declarations = "(string \<times> dict) list"

definition manifest_capabilities :: "dict \<Rightarrow> dict list res" where
  "manifest_capabilities m = dict_list (dget_or m ''capabilities'' (JList []))"

definition declared_by :: "string \<Rightarrow> string \<times> dict \<Rightarrow> declarations res" where
  "declared_by name p = and_then (manifest_capabilities (snd p)) (\<lambda>caps.
     map_sum id (map (Pair (fst p)))
       (filter_res (\<lambda>c. text_in name (dget_or c ''services'' (JList []))) caps))"

definition declared_capabilities :: "service_context \<Rightarrow> string \<Rightarrow> declarations res" where
  "declared_capabilities cx name = map_sum id concat (map_res (declared_by name)
     (filter (\<lambda>p. fst p \<in> set (cx_enabled cx)) (sort_key fst (cx_manifest cx))))"

definition capability_evidence :: "declarations \<Rightarrow> dict list" where
  "capability_evidence ds = map (\<lambda>(c, v). [(''type'', JStr ''collector_capability''), (''collector'', JStr c),
     (''capability'', dget v ''id''), (''support'', dget v ''support''), (''collection'', dget v ''collection''),
     (''explanation'', dget v ''explanation'')]) ds"

section \<open>Internet\<close>

definition wan_guidance :: "string \<Rightarrow> string" where
  "wan_guidance c =
     (if c = ''fortigate'' then ''Configure one or more WAN interfaces in the FortiGate collector configuration.''
      else if c = ''paloalto'' then
        ''Configure one or more authoritative WAN interfaces in the Palo Alto collector configuration.''
      else ''Configure WAN telemetry for the '' @ c @ '' collector.'')"

definition link_name :: "dict \<Rightarrow> string" where
  "link_name d = py_str (por (dget d ''display_name'') (por (dget d ''name'') (dget d ''interface_name'')))"

definition plain_health :: "string \<Rightarrow> string \<Rightarrow> string \<Rightarrow> string list \<Rightarrow> dict list \<Rightarrow> service_health" where
  "plain_health service status summary affected evidence =
     \<lparr>sh_service = service, sh_status = status, sh_summary = summary, sh_affected = affected, sh_users = None,
      sh_severity = status_severity status, sh_last_change = None, sh_evidence = evidence\<rparr>"

text \<open>Without an authoritative WAN signal.\<close>

definition internet_unobserved :: "declarations \<Rightarrow> string list \<Rightarrow> dict list \<Rightarrow> service_health" where
  "internet_unobserved supported failed evidence =
     (let collectors = usort (map fst supported); collections = map (\<lambda>p. dget (snd p) ''collection'') supported in
      if failed \<noteq> [] then plain_health ''Internet'' ''Critical''
        ''WAN telemetry collection failed for the active firewall collector.'' failed evidence
      else if JStr ''partial'' \<in> set collections then plain_health ''Internet'' ''Warning''
        ''WAN telemetry collection is incomplete for the active firewall collector.'' collectors evidence
      else if collections \<noteq> [] \<and> set collections \<subseteq> {JStr ''not_yet_collected''} then
        plain_health ''Internet'' ''Unknown'' ''WAN telemetry has not yet been collected.'' collectors evidence
      else (let summary = sor (join '' '' (map wan_guidance collectors))
              ''No explicitly configured WAN interfaces provide trustworthy evidence.'' in
        plain_health ''Internet'' (if supported \<noteq> [] then ''Configuration Required'' else ''Unknown'') summary collectors
          (evidence @ [[(''type'', JStr ''wan_policy''), (''configured'', JBool False),
             (''collectors'', jstrs collectors), (''operator_action'', JStr summary)]])))"

definition link_stale :: "service_context \<Rightarrow> dict \<Rightarrow> bool res" where
  "link_stale cx d = map_sum id (\<lambda>t. case t of None \<Rightarrow> True | Some u \<Rightarrow> 300 * 1000000 < cx_now cx - u)
     (timestamp (cx_tz cx) (por (dget d ''observed_at'') (dget d ''time'')))"

definition link_evidence :: "dict list \<Rightarrow> dict list" where
  "link_evidence signals = map (\<lambda>d. [(''type'', JStr ''wan_interface''),
       (''interface'', por (dget d ''interface_name'') (dget d ''name'')),
       (''display_name'', por (dget d ''display_name'') (dget d ''name'')), (''role'', dget d ''role''),
       (''available'', dget d ''available''), (''observed_at'', dget d ''observed_at'')])
     (sort_key (\<lambda>d. (text_of d ''role'', text_of d ''interface_name'')) signals)"

definition backup_roles :: "string list" where
  "backup_roles = [''secondary'', ''tertiary'', ''backup'', ''cellular'', ''mpls'', ''internet'', ''other'']"

definition uplink_status :: "dict list \<Rightarrow> string list \<Rightarrow> string \<times> string" where
  "uplink_status signals failed =
     (let down = filter (\<lambda>d. dget d ''available'' = JBool False) signals;
          up = filter (\<lambda>d. dget d ''available'' = JBool True) signals;
          primary_down = list_ex (\<lambda>d. dget d ''role'' = JStr ''primary'') down;
          backups_up = list_ex (\<lambda>d. is_text backup_roles (dget d ''role'')) up
      in if down \<noteq> [] \<and> up = [] then
           (''Critical'', ''All explicitly configured Internet uplinks are down.'')
         else if primary_down \<and> backups_up then
           (''Warning'', ''The primary Internet uplink is down; a configured backup remains up.'')
         else if down \<noteq> [] then (''Warning'', ''One or more configured Internet uplinks are down.'')
         else if failed \<noteq> [] then
           (''Warning'', ''Available WAN uplinks are operational, but another firewall source failed.'')
         else (''Healthy'', ''All explicitly configured Internet uplinks are operational.''))"

definition uplinks_health :: "service_context \<Rightarrow> dict list \<Rightarrow> string list \<Rightarrow> service_health res" where
  "uplinks_health cx signals failed =
     (let down = filter (\<lambda>d. dget d ''available'' = JBool False) signals; (status, summary) = uplink_status signals failed in
      map_sum id (\<lambda>last. (plain_health ''Internet'' status summary (sort (map link_name down)) (link_evidence signals))
          \<lparr>sh_last_change := last\<rparr>)
        (latest (cx_tz cx) (map (\<lambda>d. dget d ''observed_at'') signals)))"

definition internet_observed :: "service_context \<Rightarrow> dict list \<Rightarrow> string list \<Rightarrow> service_health res" where
  "internet_observed cx signals failed =
     and_then (filter_res (link_stale cx) signals) (\<lambda>stale.
       (let unknown = filter (\<lambda>d. dget d ''available'' = JNull) signals; evidence = link_evidence signals;
            missing = filter (\<lambda>d. dget d ''missing'' = JBool True) signals in
        if missing \<noteq> [] then Inr (plain_health ''Internet'' ''Warning''
          ''A configured WAN interface was not discovered.'' (sort (map link_name missing)) evidence)
        else if stale \<noteq> [] \<or> unknown \<noteq> [] then Inr (plain_health ''Internet'' ''Unknown''
          ''WAN interface evidence is stale or incomplete.'' (sort (map link_name (stale @ unknown))) evidence)
        else uplinks_health cx signals failed))"

definition internet_from :: "service_context \<Rightarrow> declarations \<Rightarrow> string list \<Rightarrow> dict list \<Rightarrow> service_health res" where
  "internet_from cx supported failed evidence =
     (if cx_manifest cx \<noteq> [] \<and> supported = [] then
        Inr (plain_health ''Internet'' ''Not Available''
          ''WAN telemetry is not available for the active firewall collector.'' (sort (cx_enabled cx))
          (if evidence \<noteq> [] then evidence else [[(''type'', JStr ''wan_policy''), (''supported'', JBool False),
             (''enabled_collectors'', jstrs (sort (cx_enabled cx)))]]))
      else and_then (py_iter (dget_or (cx_signals cx) ''wan'' (JList []))) (\<lambda>raw.
        let signals = filter (\<lambda>d. dget d ''classification_authoritative'' = JBool True)
              (map as_dict (filter is_obj raw)) in
        if signals = [] then Inr (internet_unobserved supported failed evidence)
        else internet_observed cx signals failed))"

text \<open>The declarations given, or found again from the manifest when there are none, are the same.\<close>

definition internet :: "service_context \<Rightarrow> declarations \<Rightarrow> service_health res" where
  "internet cx declared =
     (let supported = filter (\<lambda>(c, v). dget v ''id'' = JStr ''wan_classification'' \<and>
            is_text [''supported'', ''conditional''] (dget v ''support'')) declared;
          failed = usort (map fst (filter (\<lambda>(c, v). dget v ''collection'' = JStr ''failed'') supported))
      in internet_from cx supported failed (capability_evidence declared))"

section \<open>Security\<close>

record security_marks =
  sm_critical :: bool
  sm_warning :: bool
  sm_affected :: "string list"
  sm_evidence :: "dict list"

definition security_finding :: "dict \<Rightarrow> security_marks \<Rightarrow> security_marks" where
  "security_finding d m =
     (let severity = py_str (por (dget d ''severity'') (JStr ''Info''));
          critical = (severity \<in> {''Critical'', ''High''} \<and> dget d ''kind'' = JStr ''issue'') in
      m\<lparr>sm_critical := sm_critical m \<or> critical, sm_warning := sm_warning m \<or> \<not> critical,
        sm_affected := sm_affected m @ (if finding_asset d = [] then [] else [finding_asset d]),
        sm_evidence := sm_evidence m @ [[(''type'', JStr ''finding''), (''id'', dget d ''id''),
          (''rule_id'', dget d ''rule_id''), (''severity'', JStr severity), (''summary'', dget d ''summary'')]]\<rparr>)"

definition security_licence :: "string \<Rightarrow> dict \<Rightarrow> security_marks \<Rightarrow> security_marks" where
  "security_licence device d m =
     (let expired = (dget d ''expired'' = JBool True) in
      m\<lparr>sm_warning := sm_warning m \<or> expired, sm_affected := sm_affected m @ (if expired then [device] else []),
        sm_evidence := sm_evidence m @ [[(''type'', JStr ''subscription''), (''device'', JStr device),
          (''name'', dget d ''name''), (''expiry_state'', dget d ''expiry_state''), (''expiry'', dget d ''expiry'')]]\<rparr>)"

definition security_signal :: "dict \<Rightarrow> security_marks \<Rightarrow> security_marks res" where
  "security_signal d m =
     (let device = py_str (por (dget d ''device'') (JStr ''Firewall'')) in
      and_then (want_dict (por (dget d ''device_certificate'') (JObj []))) (\<lambda>cert.
      and_then (dict_list (por (dget d ''licenses'') (JList []))) (\<lambda>licences.
        (let class = lower (py_str (por (dget cert ''classification'') (JStr ''unknown'')));
             bad = (class \<in> {''expired'', ''missing''});
             m1 = m\<lparr>sm_critical := sm_critical m \<or> bad, sm_warning := sm_warning m \<or> class = ''unknown'',
               sm_affected := sm_affected m @ (if bad then [device] else []),
               sm_evidence := sm_evidence m @ [[(''type'', JStr ''device_certificate''), (''device'', JStr device),
                 (''classification'', JStr class), (''status'', dget cert ''status'')]]\<rparr>
         in Inr (fold (security_licence device) licences m1)))))"

definition online_word :: "dict \<Rightarrow> string" where
  "online_word d = (if dget d ''online'' = JBool True then ''online''
     else if dget d ''online'' = JBool False then ''offline'' else ''unknown'')"

definition security_verdict :: "bool \<Rightarrow> bool \<Rightarrow> bool \<Rightarrow> string \<times> string" where
  "security_verdict critical warning seen =
     (if critical then (''Critical'', ''Firewall availability or device-certificate evidence is critical.'')
      else if warning then (''Warning'', ''Security subscriptions or certificate evidence requires attention.'')
      else if seen then (''Healthy'', ''Firewall, subscription and certificate evidence has no active degradation.'')
      else (''Unknown'', ''No trustworthy security health evidence is available.''))"

definition security :: "service_context \<Rightarrow> service_health res" where
  "security cx =
     and_then (py_iter (dget_or (cx_signals cx) ''security'' (JList []))) (\<lambda>raw.
       (let signals = map as_dict (filter is_obj raw);
            firewalls = filter (\<lambda>d. contains ''firewall'' (asset_text d)) (cx_assets cx);
            findings = filter (\<lambda>d. is_text [''Firewall'', ''Security''] (dget d ''category'')) (cx_findings cx);
            m0 = \<lparr>sm_critical = False, sm_warning = False, sm_affected = [],
              sm_evidence = map (\<lambda>d. [(''type'', JStr ''asset''), (''asset'', JStr (service_asset_name d)),
                (''status'', JStr (online_word d))]) firewalls\<rparr> in
        and_then (fold_res security_signal signals (fold security_finding findings m0)) (\<lambda>m.
        and_then (latest (cx_tz cx) (map (\<lambda>d. dget d ''observed_at'') signals @
            concat (map (\<lambda>d. map (dget d) [''last_changed_at'', ''last_seen_at'']) firewalls))) (\<lambda>last.
          (let offline = filter (\<lambda>d. dget d ''online'' = JBool False) firewalls;
               (status, summary) = security_verdict (sm_critical m \<or> offline \<noteq> []) (sm_warning m)
                 (signals \<noteq> [] \<or> firewalls \<noteq> []) in
           Inr ((plain_health ''Security'' status summary
               (usort (sm_affected m @ map service_asset_name offline)) (sm_evidence m))\<lparr>sh_last_change := last\<rparr>))))))"

section \<open>Findings of a service\<close>

definition matches_finding :: "service_def \<Rightarrow> dict \<Rightarrow> bool" where
  "matches_finding df d =
     (let rule = lower (py_str (por (dget d ''rule_id'') (JStr [])));
          category = py_str (por (dget d ''category'') (JStr []))
      in if list_ex (\<lambda>p. starts_with (lower p) rule) (sd_prefixes df) then True
         else if category \<notin> set (sd_categories df) then False
         else if sd_name df = ''Internet'' then starts_with ''wan.'' rule
         else if sd_name df = ''Switching'' then
           contains ''switch'' (join '' '' (map (lower_of d) [''title'', ''device'', ''summary'']))
         else True)"

definition critical_finding :: "dict \<Rightarrow> bool" where
  "critical_finding d = (dget d ''kind'' = JStr ''issue'' \<and> is_text [''Critical'', ''High''] (dget d ''severity''))"

definition rest_of :: "dict list \<Rightarrow> dict list \<Rightarrow> dict list" where
  "rest_of findings critical = filter (\<lambda>d. \<not> list_ex (\<lambda>c. py_eq (JObj d) (JObj c)) critical) findings"

definition finding_names :: "dict list \<Rightarrow> string list" where
  "finding_names findings = filter (\<lambda>n. n \<noteq> []) (map finding_asset findings)"

section \<open>Printing\<close>

record printing_marks =
  pm_errors :: int
  pm_partial :: bool
  pm_conditions :: "dict list"

definition toner_severity :: "string \<Rightarrow> string res" where
  "toner_severity s = and_then (float_at_most s 10) (\<lambda>critical.
     and_then (float_at_most s 30) (\<lambda>low.
       Inr (if critical then ''Critical'' else if low then ''Warning'' else ''Info'')))"

definition printer_condition :: "dict \<Rightarrow> json \<Rightarrow> dict res" where
  "printer_condition asset raw =
     (let d = (if is_obj raw then as_dict raw else [(''condition'', JStr (py_str raw))]);
          severity = py_str (por (dget d ''severity'') (JStr []));
          kind = py_str (por (dget d ''condition_type'') (JStr []));
          built = (\<lambda>sev k extra. dmerge d ([(''asset'', JStr (service_asset_name asset)), (''severity'', JStr sev),
            (''condition_type'', JStr k)] @ extra))
      in if dget d ''percent_remaining'' \<noteq> JNull then
           and_then (py_float (dget d ''percent_remaining'')) (\<lambda>f.
             map_sum id (\<lambda>sev. built sev (sor kind ''consumable'') [(''percent_remaining'', JFloat f)])
               (toner_severity f))
         else Inr (built (sor severity (if kind \<in> {''offline'', ''operational_error''} then ''Critical'' else ''Warning''))
           kind []))"

definition printer_marks :: "dict \<Rightarrow> printing_marks \<Rightarrow> printing_marks res" where
  "printer_marks asset m =
     (case por (dget asset ''extensions'') (JObj []) of
        JObj ext \<Rightarrow>
          and_then (case por (dget ext ''printing_health'') (JObj []) of
              JObj h \<Rightarrow> map_sum id (\<lambda>n. m\<lparr>pm_errors := max (pm_errors m) n,
                  pm_partial := pm_partial m \<or> dget h ''partial'' = JBool True\<rparr>)
                (py_int (por (dget h ''printer_error_count'') (JInt 0)))
            | _ \<Rightarrow> Inr m) (\<lambda>m1.
          and_then (py_iter (por (dget ext ''printer_conditions'') (JList []))) (\<lambda>raws.
          map_sum id (\<lambda>cs. m1\<lparr>pm_conditions := pm_conditions m1 @ cs\<rparr>) (map_res (printer_condition asset) raws)))
      | _ \<Rightarrow> Inr m)"

definition severe :: "string \<Rightarrow> dict list \<Rightarrow> dict list" where
  "severe s cs = filter (\<lambda>d. dget d ''severity'' = JStr s) cs"

definition printing_summary :: "string \<Rightarrow> string list \<Rightarrow> int \<Rightarrow> string" where
  "printing_summary status affected errors =
     (if status = ''Critical'' then ''Printing has '' @
        show_int (if affected \<noteq> [] then int (length affected) else if errors \<noteq> 0 then errors else 1) @
        '' critical printer condition(s).''
      else if status = ''Warning'' then ''Printing device evidence is partial or has conditions requiring attention.''
      else if status = ''Healthy'' then
        ''PaperCut server and per-printer health evidence are current with no active printer conditions.''
      else ''PaperCut server health is available, but per-printer health has not been collected.'')"

definition condition_key :: "dict \<Rightarrow> (string \<times> string) res" where
  "condition_key d = (case dget_or d ''condition'' (JStr []) of
     JStr c \<Rightarrow> Inr (py_str (dget d ''asset''), c) | _ \<Rightarrow> Inl (Unmodelled ''condition''))"

definition condition_evidence :: "dict \<Rightarrow> dict" where
  "condition_evidence d = [(''type'', JStr ''printer_condition''), (''asset'', dget d ''asset''),
     (''condition'', dget_or d ''condition'' (JStr [])), (''condition_type'', dget_or d ''condition_type'' (JStr [])),
     (''severity'', dget d ''severity'')] @
     (if dhas d ''percent_remaining'' then [(''percent_remaining'', dget d ''percent_remaining'')] else [])"

definition printing_status :: "bool \<Rightarrow> bool \<Rightarrow> json \<Rightarrow> string" where
  "printing_status critical warning printer_state =
     (if critical then ''Critical'' else if warning then ''Warning''
      else if printer_state = JStr ''collected'' then ''Healthy'' else ''Unknown'')"

definition printing :: "service_context \<Rightarrow> declarations \<Rightarrow> service_health res" where
  "printing cx declared =
     (let state = foldl (\<lambda>v (c, d). if dget d ''id'' = JStr ''printer_operational_status'' then dget d ''collection'' else v)
            JNull declared;
          assets = filter (\<lambda>d. contains ''print'' (asset_text d)) (cx_assets cx);
          printers = filter (\<lambda>d. casefold (py_str (por (dget d ''device_type'') (JStr []))) = ''printer'') assets;
          findings = filter (matches_finding (DEFINITIONS ! 3)) (cx_findings cx) in
      and_then (fold_res printer_marks assets
          \<lparr>pm_errors = 0, pm_partial = (state = JStr ''partial''), pm_conditions = []\<rparr>) (\<lambda>m.
      and_then (sort_res condition_key (pm_conditions m)) (\<lambda>ordered.
      and_then (latest (cx_tz cx) (map (\<lambda>d. por (dget d ''last_seen_at'') (dget d ''source_last_seen_at'')) assets)) (\<lambda>last.
       (let stale = filter (\<lambda>d. is_text [''stale'', ''missing''] (dget d ''lifecycle_state'')) printers;
            critical = severe ''Critical'' (pm_conditions m); warnings = severe ''Warning'' (pm_conditions m);
            critical_findings = filter critical_finding findings; warning_findings = rest_of findings critical_findings;
            status = printing_status (critical \<noteq> [] \<or> critical_findings \<noteq> [] \<or> pm_errors m \<noteq> 0)
              (warnings \<noteq> [] \<or> warning_findings \<noteq> [] \<or> stale \<noteq> [] \<or> pm_partial m) state;
            named = usort (map (\<lambda>d. py_str (dget d ''asset'')) (critical @ warnings) @ map service_asset_name stale @
              finding_names findings);
            affected = (if pm_errors m \<noteq> 0 \<and> named = [] then [show_int (pm_errors m) @ '' printer(s) in error''] else named);
            evidence = capability_evidence declared @ map condition_evidence ordered @
              (if pm_errors m \<noteq> 0 then [[(''type'', JStr ''printer_summary''), (''printers_in_error'', JInt (pm_errors m))]]
               else []) @
              map (\<lambda>d. [(''type'', JStr ''asset''), (''asset'', JStr (service_asset_name d)), (''status'', JStr ''stale'')])
                (sort_key service_asset_name stale)
        in Inr ((plain_health ''Printing'' status (printing_summary status affected (pm_errors m)) affected evidence)
             \<lparr>sh_last_change := last\<rparr>))))))"

section \<open>Virtualisation\<close>

definition virtual_status :: "bool \<Rightarrow> bool \<Rightarrow> bool \<Rightarrow> bool \<Rightarrow> string" where
  "virtual_status confirmed warnings unknown assets =
     (if confirmed then ''Critical'' else if warnings then ''Warning'' else if unknown then ''Unknown''
      else if assets then ''Healthy'' else ''Unknown'')"

definition virtual_summary :: "string \<Rightarrow> string \<Rightarrow> string" where
  "virtual_summary name status = name @
     (if status = ''Critical'' then '' has confirmed operational impact.''
      else if status = ''Warning'' then '' has evidence requiring attention.''
      else if status = ''Unknown'' then '' cannot be evaluated from current trustworthy evidence.''
      else '' has current evidence and no active degradation.'')"

definition virtual_unknown :: "dict \<Rightarrow> bool res" where
  "virtual_unknown d = (if dget d ''severity'' = JStr ''Unknown'' then Inr True
     else map_sum id (\<lambda>e. dget e ''health_state'' = JStr ''Unknown'') (want_dict (por (dget d ''evidence'') (JObj []))))"

definition virtual_finding_evidence :: "dict list \<Rightarrow> dict list res" where
  "virtual_finding_evidence findings = map_sum id (map (\<lambda>d.
       (''type'', JStr ''finding'') # map (\<lambda>k. (k, dget_or d k (JStr [])))
         [''id'', ''rule_id'', ''severity'', ''confidence'', ''summary'', ''site_id'']))
     (sort_res (\<lambda>d. map_sum id (\<lambda>p. (- p, text_of d ''id'')) (py_int (dget_or d ''priority'' (JInt 0)))) findings)"

definition virtualisation :: "service_context \<Rightarrow> service_def \<Rightarrow> string \<Rightarrow> service_health res" where
  "virtualisation cx df service_id =
     (let assets = filter (\<lambda>d. list_ex (\<lambda>t. contains t (asset_text d)) (sd_terms df)) (cx_assets cx) in
      and_then (filter_res (\<lambda>d. text_in service_id (dget_or d ''affected_service_ids'' (JList []))) (cx_findings cx)) (\<lambda>findings.
      and_then (filter_res virtual_unknown findings) (\<lambda>unknown.
      and_then (virtual_finding_evidence findings) (\<lambda>evidence.
      and_then (latest (cx_tz cx) (map (\<lambda>d. dget d ''last_observed'') findings @
          map (\<lambda>d. por (dget d ''last_seen_at'') (dget d ''source_last_seen_at'')) assets)) (\<lambda>last.
       (let confirmed = filter (\<lambda>d. dget d ''severity'' = JStr ''Critical'' \<and> dget d ''kind'' = JStr ''issue'') findings;
            warnings = filter (\<lambda>d. is_text [''High'', ''Medium'', ''Low''] (dget d ''severity'')) findings;
            status = virtual_status (confirmed \<noteq> []) (warnings \<noteq> []) (unknown \<noteq> []) (assets \<noteq> []);
            shown = (if evidence \<noteq> [] then evidence else
              map (\<lambda>d. [(''type'', JStr ''asset''), (''canonical_id'', dget_or d ''canonical_id'' (JStr [])),
                (''asset'', JStr (service_asset_name d)),
                (''observed_at'', por (dget d ''last_seen_at'') (dget d ''source_last_seen_at''))]) (sort_key service_asset_name assets))
        in Inr ((plain_health (sd_name df) status (virtual_summary (sd_name df) status)
             (usort (finding_names findings)) shown)\<lparr>sh_last_change := last\<rparr>)))))))"

section \<open>The general evaluator\<close>

definition tagged_signal :: "string \<Rightarrow> json \<Rightarrow> dict" where
  "tagged_signal key v = (case v of JObj d \<Rightarrow> dmerge [(''signal'', JStr key)] d
     | _ \<Rightarrow> [(''signal'', JStr key), (''value'', v)])"

definition gather_signals :: "dict \<Rightarrow> string list \<Rightarrow> dict list" where
  "gather_signals signals keys = concat (map (\<lambda>k. case dget signals k of
       JList vs \<Rightarrow> map (tagged_signal k) vs
     | JNull \<Rightarrow> []
     | v \<Rightarrow> [tagged_signal k v]) keys)"

record gathered =
  ga_assets :: "dict list"
  ga_findings :: "dict list"
  ga_signals :: "dict list"
  ga_collectors :: "dict list"

definition gather :: "service_context \<Rightarrow> service_def \<Rightarrow> gathered" where
  "gather cx df = \<lparr>
     ga_assets = filter (\<lambda>d. list_ex (\<lambda>t. contains t (asset_text d)) (sd_terms df)) (cx_assets cx),
     ga_findings = filter (matches_finding df) (cx_findings cx),
     ga_signals = gather_signals (cx_signals cx) (sd_signals df),
     ga_collectors = (if sd_name df = ''Monitoring'' then cx_collectors cx else [])\<rparr>"

definition asset_offline :: "dict \<Rightarrow> bool" where
  "asset_offline d = (dget d ''online'' = JBool False \<or> lower_of d ''status'' = ''offline'')"

definition asset_warning :: "dict \<Rightarrow> bool" where
  "asset_warning d = (lower (py_str (por (dget d ''health'') (por (dget d ''status'') (JStr [])))) \<in> {''warning'', ''degraded''})"

definition signal_down :: "dict \<Rightarrow> bool" where
  "signal_down d = (dget d ''available'' = JBool False \<or>
     lower_of d ''status'' \<in> {''critical'', ''failed'', ''offline'', ''down''})"

definition signal_warning :: "dict \<Rightarrow> bool res" where
  "signal_warning d = (if lower_of d ''status'' \<in> {''warning'', ''degraded''} then Inr True
     else number_at_least (dget d ''packet_loss_percent'') 2)"

record verdict =
  ve_status :: string
  ve_urgent :: bool
  ve_attention :: bool
  ve_affected_assets :: "dict list"
  ve_critical :: nat
  ve_warning :: nat

definition judge :: "gathered \<Rightarrow> verdict res" where
  "judge g =
     and_then (filter_res signal_warning (ga_signals g)) (\<lambda>explicit_warning.
      (let critical = filter critical_finding (ga_findings g); warning = rest_of (ga_findings g) critical;
           offline = filter asset_offline (ga_assets g); warning_assets = filter asset_warning (ga_assets g);
           down = filter signal_down (ga_signals g);
           failed = filter (\<lambda>d. lower_of d ''status'' = ''failed'') (ga_collectors g);
           warning_collectors = filter (\<lambda>d. lower_of d ''status'' \<in> {''warning'', ''stale'', ''unknown''}) (ga_collectors g);
           urgent = (offline \<noteq> [] \<or> down \<noteq> [] \<or> failed \<noteq> []);
           attention = (warning_assets \<noteq> [] \<or> explicit_warning \<noteq> [] \<or> warning_collectors \<noteq> [])
       in Inr \<lparr>ve_status = (if critical \<noteq> [] \<or> urgent then ''Critical''
              else if warning \<noteq> [] \<or> attention then ''Warning''
              else if ga_assets g \<noteq> [] \<or> ga_signals g \<noteq> [] \<or> ga_collectors g \<noteq> [] then ''Healthy'' else ''Unknown''),
            ve_urgent = urgent, ve_attention = attention, ve_affected_assets = offline @ warning_assets,
            ve_critical = length critical, ve_warning = length warning\<rparr>))"

definition nested_site :: "dict \<Rightarrow> string \<Rightarrow> json" where
  "nested_site d k = (case dget d ''site'' of JObj s \<Rightarrow> dget s k | _ \<Rightarrow> JStr [])"

definition general_evidence :: "gathered \<Rightarrow> dict list res" where
  "general_evidence g =
     and_then (sort_res (\<lambda>d. map_sum id (\<lambda>p. (- p, text_of d ''rule_id'', text_of d ''id''))
         (py_int (dget_or d ''priority'' (JInt 0)))) (ga_findings g)) (\<lambda>findings.
       Inr (map (\<lambda>d. (''type'', JStr ''finding'') # map (\<lambda>k. (k, dget_or d k (JStr [])))
              [''id'', ''rule_id'', ''kind'', ''severity'', ''summary'', ''site_id'', ''site_name'']) findings @
         map (\<lambda>d. [(''type'', JStr ''asset''), (''asset'', JStr (service_asset_name d)),
              (''canonical_id'', dget_or d ''canonical_id'' (JStr [])),
              (''site_id'', por (dget d ''site_id'') (nested_site d ''site_id'')),
              (''site_name'', por (dget d ''site_name'') (nested_site d ''display_name'')),
              (''status'', dget_or d ''status'' (JStr (online_word d)))]) (sort_key service_asset_name (ga_assets g)) @
         map (dmerge [(''type'', JStr ''signal'')])
           (sort_key (\<lambda>d. (text_of d ''signal'', text_of d ''name'', text_of d ''site'')) (ga_signals g)) @
         map (\<lambda>d. [(''type'', JStr ''collector''), (''collector'', dget_or d ''collector'' (JStr [])),
              (''status'', dget_or d ''status'' (JStr ''unknown'')), (''last_run'', dget d ''last_run'')])
           (sort_key (\<lambda>d. text_of d ''collector'') (ga_collectors g))))"

definition severity_order :: "string \<Rightarrow> int" where
  "severity_order s = (case map_of [(''Info'', 0), (''Low'', 1), (''Medium'', 2), (''High'', 3), (''Critical'', 4)] s of
     None \<Rightarrow> 0 | Some n \<Rightarrow> n)"

text \<open>\<open>max(..., key=...)\<close>: the first of the greatest.\<close>

definition worst_severity :: "string list \<Rightarrow> string" where
  "worst_severity xs = foldl (\<lambda>s t. if severity_order s < severity_order t then t else s) (hd xs) (tl xs)"

definition general_severity :: "gathered \<Rightarrow> verdict \<Rightarrow> string" where
  "general_severity g v =
     (if ve_status v \<in> {''Warning'', ''Critical''} then
        worst_severity (map (\<lambda>d. py_str (por (dget d ''severity'') (JStr ''Info''))) (ga_findings g) @
          (if ve_urgent v then [''Critical''] else if ve_attention v then [''Medium''] else []))
      else status_severity (ve_status v))"

definition general_summary :: "string \<Rightarrow> verdict \<Rightarrow> string list \<Rightarrow> string" where
  "general_summary name v affected =
     (let counted = (\<lambda>n. show_int (if affected \<noteq> [] then int (length affected) else if n \<noteq> 0 then int n else 1)) in
      if ve_status v = ''Critical'' then name @ '' has '' @ counted (ve_critical v) @ '' active critical condition(s).''
      else if ve_status v = ''Warning'' then name @ '' has '' @ counted (ve_warning v) @ '' condition(s) requiring attention.''
      else if ve_status v = ''Healthy'' then name @ '' has positive evidence and no active degradation.''
      else ''No trustworthy '' @ lower name @ '' health evidence is available.'')"

definition general :: "service_context \<Rightarrow> service_def \<Rightarrow> service_health res" where
  "general cx df =
     (let g = gather cx df in
      and_then (judge g) (\<lambda>v.
      and_then (general_evidence g) (\<lambda>evidence.
      and_then (latest (cx_tz cx)
          (concat (map (\<lambda>d. map (dget d) [''last_changed_at'', ''last_seen_at'']) (ga_assets g)) @
           concat (map (\<lambda>d. map (dget d) [''last_change'', ''observed_at'', ''timestamp'', ''time'']) (ga_signals g)) @
           map (\<lambda>d. dget d ''last_run'') (ga_collectors g))) (\<lambda>last.
      and_then (affected_users (ga_findings g @ ga_signals g)) (\<lambda>users.
       (let affected = usort (map service_asset_name (ve_affected_assets v) @ finding_names (ga_findings g)) in
        Inr \<lparr>sh_service = sd_name df, sh_status = ve_status v, sh_summary = general_summary (sd_name df) v affected,
          sh_affected = affected, sh_users = users, sh_severity = general_severity g v,
          sh_last_change = last, sh_evidence = evidence\<rparr>))))))"

section \<open>Evaluation\<close>

definition printing_ids :: "string list" where
  "printing_ids = [''server_health'', ''device_inventory'', ''printer_operational_status'',
     ''printer_consumables'', ''print_queue_health'']"

definition evaluate_declared :: "service_context \<Rightarrow> service_def \<Rightarrow> declarations \<Rightarrow> service_health res" where
  "evaluate_declared cx df declared =
     (let name = sd_name df;
          applicable = filter (\<lambda>(c, v). dget v ''support'' \<noteq> JStr ''unsupported'') declared;
          failed = filter (\<lambda>(c, v). dget v ''collection'' = JStr ''failed'') applicable;
          degraded = filter (\<lambda>(c, v). is_text [''partial'', ''unavailable''] (dget v ''collection'')) applicable
      in if name = ''Internet'' then internet cx declared
         else if failed \<noteq> [] then Inr (plain_health name ''Critical'' (''Required '' @ lower name @ '' collection failed.'')
           (usort (map fst failed)) (capability_evidence declared))
         else if degraded \<noteq> [] \<and> \<not> list_ex (\<lambda>(c, v). dget v ''collection'' = JStr ''collected'') applicable then
           Inr (plain_health name ''Warning'' (name @ '' evidence is incomplete or unavailable.'')
             (usort (map fst degraded)) (capability_evidence declared))
         else if name = ''Security'' then security cx
         else if name = ''Printing'' \<and> list_ex (\<lambda>(c, v). is_text printing_ids (dget v ''id'')) declared then
           printing cx declared
         else (case map_of VIRTUAL_SERVICE_IDS name of
             Some service_id \<Rightarrow> virtualisation cx df service_id
           | None \<Rightarrow> general cx df))"

definition evaluate_service :: "service_context \<Rightarrow> service_def \<Rightarrow> service_health res" where
  "evaluate_service cx df =
     (if sd_capability df \<notin> set (cx_capabilities cx) then
        service_post_init (plain_health (sd_name df) ''Not Enabled'' (sd_name df @ '' capability is not enabled.'') []
          [[(''type'', JStr ''capability''), (''capability'', JStr (sd_capability df)), (''enabled'', JBool False)]])
      else and_then (declared_capabilities cx (sd_name df)) (\<lambda>declared.
        and_then (evaluate_declared cx df declared) service_post_init))"

end
