(* ===== verification/Service_Engine.thy ===== *)
theory Service_Engine
  imports Service_Evaluators Site_Estate
begin

text \<open>
  \<open>analysis/services/engine.py\<close>: attribution of the canonical inputs to sites, the context of one
  site, its services, and the roll-up of the sites into the estate. The documents are arguments
  (\<open>_read\<close> of a missing file is the default the code names); \<open>ITP_DEPLOYMENT_ID\<close> is one too.
\<close>

section \<open>Attribution\<close>

definition service_asset_site :: "dict \<Rightarrow> json \<times> json" where
  "service_asset_site d = (case por (dget d ''site'') (JObj []) of
       JObj s \<Rightarrow> (dget s ''site_id'', dget s ''display_name'')
     | v \<Rightarrow> (dget d ''site_id'', v))"

definition str_or_empty :: "json \<Rightarrow> string" where
  "str_or_empty v = py_str (por v (JStr []))"

definition diagnostic :: "string \<Rightarrow> string \<Rightarrow> json \<Rightarrow> string \<Rightarrow> string \<Rightarrow> string \<Rightarrow> dict" where
  "diagnostic kind rtype rid source status explanation =
     [(''type'', JStr kind), (''record_type'', JStr rtype), (''record_id'', rid), (''source_value'', JStr source),
      (''status'', JStr status), (''explanation'', JStr explanation)]"

definition lookup_site :: "site_registry \<Rightarrow> json \<Rightarrow> json \<Rightarrow> string \<Rightarrow> json \<Rightarrow> (site_resolution option \<times> dict list) res" where
  "lookup_site rg value explicit rtype rid = map_sum id (\<lambda>r.
     if sr_status r = ''resolved'' then (Some r, [])
     else (None, [diagnostic ''unmapped_site'' rtype (JStr (str_or_empty rid)) (str_or_empty (por value explicit))
       (sr_status r) (sr_explanation r)]))
     (resolve rg value explicit)"

definition resolved_id :: "site_resolution \<Rightarrow> json" where
  "resolved_id r = jopt (sr_site_id r)"

definition collect_res :: "('a \<Rightarrow> ('b \<times> 'd list) res) \<Rightarrow> 'a list \<Rightarrow> ('b list \<times> 'd list) res" where
  "collect_res f xs = map_sum id (\<lambda>ps. (map fst ps, concat (map snd ps))) (map_res f xs)"

definition attribute_asset :: "site_registry \<Rightarrow> dict \<Rightarrow> (dict \<times> dict list) res" where
  "attribute_asset rg d =
     (let (sid, name) = service_asset_site d in
      map_sum id (\<lambda>(r, ds). (case r of None \<Rightarrow> d | Some q \<Rightarrow>
          dmerge d [(''site_id'', resolved_id q), (''site_name'', JStr (sr_display_name q)),
            (''site'', JObj [(''site_id'', resolved_id q), (''display_name'', JStr (sr_display_name q))])], ds))
        (lookup_site rg name sid ''asset'' (por (dget d ''canonical_id'') (dget d ''asset_id''))))"

text \<open>\<open>assets_by_source\<close>: the sources of each asset with a site, paired with that site.\<close>

definition source_pairs :: "dict list \<Rightarrow> (json \<times> json) list res" where
  "source_pairs assets = map_sum id concat (map_res (\<lambda>d.
     if \<not> truthy (fst (service_asset_site d)) then Inr []
     else map_sum id (map (\<lambda>s. (s, fst (service_asset_site d)))) (py_iter (dget_or d ''sources'' (JList [])))) assets)"

definition site_texts :: "json list \<Rightarrow> string list res" where
  "site_texts vs = map_res want_str vs"

definition attribute_collector :: "site_registry \<Rightarrow> (json \<times> json) list \<Rightarrow> dict \<Rightarrow> (dict \<times> dict list) res" where
  "attribute_collector rg pairs d =
     and_then (py_iter (dget_or d ''site_ids'' (JList []))) (\<lambda>explicit.
     and_then (collect_res (\<lambda>e. lookup_site rg JNull e ''collector'' (dget d ''collector'')) explicit) (\<lambda>(rs, ds).
     and_then (site_texts (map snd (filter (\<lambda>p. fst p = dget d ''collector'') pairs))) (\<lambda>more_sites.
       (let ids = usort (concat (map (\<lambda>r. case r of None \<Rightarrow> [] | Some q \<Rightarrow>
                (case sr_site_id q of None \<Rightarrow> [] | Some i \<Rightarrow> [i])) rs) @ more_sites);
            names = concat (map (\<lambda>i. case registry_definition rg i of None \<Rightarrow> [] | Some s \<Rightarrow> [st_display_name s]) ids)
        in Inr (dmerge d [(''site_ids'', jstrs ids), (''site_names'', jstrs names)],
             ds @ (if ids = [] \<and> dget d ''shared'' \<noteq> JBool True then
               [diagnostic ''collector_site_unattributed'' ''collector'' (dget_or d ''collector'' (JStr [])) [] ''unknown''
                  ''Enabled collector has no canonical asset or explicit site attribution.''] else []))))))"

definition site_ids_of :: "dict \<Rightarrow> string list res" where
  "site_ids_of d = and_then (py_iter (dget_or d ''site_ids'' (JList []))) site_texts"

text \<open>
  A finding of a disabled collector is dropped; a site is attributed from the finding itself, or
  from the one site of the collector it is about.
\<close>

definition unattributed_finding :: "dict \<Rightarrow> string \<Rightarrow> string \<Rightarrow> dict" where
  "unattributed_finding d source explanation =
     diagnostic ''finding_site_unattributed'' ''finding'' (dget_or d ''id'' (JStr [])) source ''unknown'' explanation"

definition collector_finding :: "site_registry \<Rightarrow> dict list \<Rightarrow> string \<Rightarrow> dict \<Rightarrow> (dict \<times> dict list) res" where
  "collector_finding rg collectors name d =
     (let c = (case List.find (\<lambda>x. dget x ''collector'' = JStr name) collectors of None \<Rightarrow> [] | Some x \<Rightarrow> x) in
      map_sum id (\<lambda>ids. case ids of
          [i] \<Rightarrow> (dmerge d [(''site_id'', JStr i), (''site_name'', JStr (case registry_definition rg i of
             None \<Rightarrow> [] | Some s \<Rightarrow> st_display_name s))], [])
        | [] \<Rightarrow> (d, if dget c ''shared'' \<noteq> JBool True then
            [unattributed_finding d name ''Collector finding cannot be assigned to a canonical site.''] else [])
        | _ \<Rightarrow> (d, [])) (site_ids_of c))"

definition attribute_finding :: "site_registry \<Rightarrow> string list \<Rightarrow> dict list \<Rightarrow> string \<Rightarrow> dict \<Rightarrow> (dict list \<times> dict list) res" where
  "attribute_finding rg enabled collectors kind original =
     and_then (want_dict (por (dget original ''evidence'') (JObj []))) (\<lambda>ev.
       (let source = str_or_empty (dget ev ''source_collector'');
            name = (if dget original ''category'' = JStr ''Collector'' then str_or_empty (dget original ''device'') else []);
            d = dset original ''kind'' (JStr kind); sited = (truthy (dget d ''site'') \<or> truthy (dget d ''site_id''))
        in if (source \<noteq> [] \<and> source \<notin> set enabled) \<or> (name \<noteq> [] \<and> name \<notin> set enabled) then Inr ([], [])
           else and_then (if sited then lookup_site rg (dget d ''site'') (dget d ''site_id'') ''finding'' (dget d ''id'')
               else Inr (None, [])) (\<lambda>(r, ds).
             case r of
               Some q \<Rightarrow> Inr ([dmerge d [(''site_id'', resolved_id q), (''site_name'', JStr (sr_display_name q)),
                   (''site'', JStr (sr_display_name q))]], ds)
             | None \<Rightarrow>
                 if dget d ''category'' = JStr ''Collector'' \<and> name \<noteq> [] then
                   map_sum id (\<lambda>(d', ds'). ([d'], ds @ ds')) (collector_finding rg collectors name d)
                 else Inr ([d], ds @ (if \<not> sited then
                   [unattributed_finding d [] ''Finding has no canonical site identity.''] else [])))))"

definition attribute_signal :: "site_registry \<Rightarrow> string \<Rightarrow> int \<times> json \<Rightarrow> (json \<times> dict list) res" where
  "attribute_signal rg key p =
     (let rid = JStr (key @ '':'' @ show_int (fst p));
          lost = (\<lambda>explanation. [diagnostic ''signal_site_unattributed'' ''signal'' rid [] ''unknown'' explanation]) in
      case snd p of
        JObj d \<Rightarrow>
          if truthy (dget d ''site'') \<or> truthy (dget d ''site_id'') then
            map_sum id (\<lambda>(r, ds). (JObj (case r of None \<Rightarrow> d | Some q \<Rightarrow>
                dmerge d [(''site_id'', resolved_id q), (''site_name'', JStr (sr_display_name q)),
                  (''site'', JStr (sr_display_name q))]), ds))
              (lookup_site rg (dget d ''site'') (dget d ''site_id'') ''signal'' rid)
          else Inr (JObj d, lost ''Signal has no canonical site identity.'')
      | v \<Rightarrow> Inr (v, lost ''Scalar signal has no canonical site identity.''))"

definition attribute_signals :: "site_registry \<Rightarrow> string \<times> json \<Rightarrow> ((string \<times> json) \<times> dict list) res" where
  "attribute_signals rg kv = (case kv of (key, raw) \<Rightarrow>
     (let vs = (case raw of JList xs \<Rightarrow> xs | v \<Rightarrow> [v]) in
      map_sum id (\<lambda>(rs, ds). ((key, case raw of JList _ \<Rightarrow> JList rs | _ \<Rightarrow> (if rs = [] then raw else hd rs)), ds))
        (collect_res (attribute_signal rg key) (zip (map int [0..<length vs]) vs))))"

definition distinct_diagnostics :: "dict list \<Rightarrow> dict list res" where
  "distinct_diagnostics ds = sort_res (\<lambda>d.
       and_then (req_str d ''type'') (\<lambda>a. and_then (req_str d ''record_type'') (\<lambda>b.
       and_then (req_str d ''record_id'') (\<lambda>c. and_then (req_str d ''source_value'') (\<lambda>e. Inr (a, b, c, e))))))
     (map snd (foldl (\<lambda>m d. AList.update (dumps (JObj d)) d m) [] ds))"

record service_inputs =
  in_state :: dict
  in_operations :: dict
  in_registry :: dict
  in_manifest :: dict

definition list_of :: "dict \<Rightarrow> string \<Rightarrow> dict list res" where
  "list_of d k = dict_list (dget_or d k (JList []))"

definition texts_of :: "dict \<Rightarrow> string \<Rightarrow> string list res" where
  "texts_of d k = and_then (py_iter (dget_or d k (JList []))) (map_res want_str)"

definition dict_of :: "dict \<Rightarrow> string \<Rightarrow> dict res" where
  "dict_of d k = want_dict (dget_or d k (JObj []))"

text \<open>\<open>context\<close>, with the diagnostics beside the context.\<close>

definition build_context :: "site_registry \<Rightarrow> service_inputs \<Rightarrow> int \<Rightarrow> int \<Rightarrow> (service_context \<times> dict list) res" where
  "build_context rg ins now tz =
     and_then (texts_of (in_registry ins) ''enabled_collectors'') (\<lambda>enabled.
     and_then (list_of (in_state ins) ''assets'') (\<lambda>raw_assets.
     and_then (collect_res (attribute_asset rg) raw_assets) (\<lambda>(assets, d1).
     and_then (source_pairs assets) (\<lambda>pairs.
     and_then (list_of (in_state ins) ''collectors'') (\<lambda>raw_collectors.
     and_then (collect_res (attribute_collector rg pairs)
         (filter (\<lambda>d. is_text enabled (dget d ''collector'')) raw_collectors)) (\<lambda>(collectors, d2).
     and_then (list_of (in_operations ins) ''issues'') (\<lambda>issues.
     and_then (list_of (in_operations ins) ''risks'') (\<lambda>risks.
     and_then (collect_res (attribute_finding rg enabled collectors ''issue'') issues) (\<lambda>(f1, d3).
     and_then (collect_res (attribute_finding rg enabled collectors ''risk'') risks) (\<lambda>(f2, d4).
     and_then (dict_of (in_state ins) ''signals'') (\<lambda>raw_signals.
     and_then (collect_res (attribute_signals rg) raw_signals) (\<lambda>(signals, d5).
     and_then (distinct_diagnostics (d1 @ d2 @ d3 @ d4 @ d5)) (\<lambda>diagnostics.
     and_then (texts_of (in_registry ins) ''capabilities'') (\<lambda>caps.
     and_then (dict_of (in_registry ins) ''collector_capabilities'') (\<lambda>ccaps.
     and_then (dict_of (in_manifest ins) ''collectors'') (\<lambda>manifest.
     and_then (map_res (\<lambda>(k, v). map_sum id (Pair k) (want_dict v)) manifest) (\<lambda>manifests.
       Inr (\<lparr>cx_assets = assets, cx_collectors = collectors, cx_signals = signals,
           cx_findings = concat f1 @ concat f2, cx_capabilities = usort caps,
           cx_collector_capabilities = ccaps, cx_manifest = manifests, cx_enabled = sort enabled,
           cx_now = now, cx_tz = tz\<rparr>, diagnostics))))))))))))))))))"

section \<open>One site\<close>

definition of_site :: "string \<Rightarrow> json \<Rightarrow> bool" where
  "of_site sid v = (case v of JObj d \<Rightarrow> dget d ''site_id'' = JStr sid | _ \<Rightarrow> False)"

definition site_signals :: "string \<Rightarrow> dict \<Rightarrow> dict" where
  "site_signals sid signals = concat (map (\<lambda>(k, raw). case raw of
       JList vs \<Rightarrow> [(k, JList (filter (of_site sid) vs))]
     | v \<Rightarrow> if of_site sid v then [(k, v)] else []) signals)"

definition serves_site :: "string \<Rightarrow> dict \<Rightarrow> bool res" where
  "serves_site sid d = (if dget d ''shared'' = JBool True then Inr True
     else text_in sid (dget_or d ''site_ids'' (JList [])))"

definition site_finding_of :: "string \<Rightarrow> string list \<Rightarrow> dict \<Rightarrow> bool" where
  "site_finding_of sid names d = (dget d ''site_id'' = JStr sid \<or>
     (dget d ''category'' = JStr ''Collector'' \<and> is_text names (dget d ''device'')))"

definition collector_name :: "dict \<Rightarrow> string res" where
  "collector_name d = (case map_of d ''collector'' of None \<Rightarrow> Inl (KeyError ''collector'') | Some v \<Rightarrow> want_str v)"

definition site_context :: "service_context \<Rightarrow> string \<Rightarrow> service_context res" where
  "site_context cx sid =
     and_then (filter_res (serves_site sid) (cx_collectors cx)) (\<lambda>relevant.
     and_then (map_res collector_name relevant) (\<lambda>names.
     and_then (map_res (texts_of (cx_collector_capabilities cx)) names) (\<lambda>caps.
       Inr (cx\<lparr>cx_assets := filter (\<lambda>d. fst (service_asset_site d) = JStr sid) (cx_assets cx),
         cx_collectors := relevant,
         cx_findings := filter (site_finding_of sid names) (cx_findings cx),
         cx_signals := site_signals sid (cx_signals cx),
         cx_capabilities := usort (concat caps), cx_enabled := usort names\<rparr>))))"

definition services :: "service_context \<Rightarrow> service_health list res" where
  "services cx = map_res (evaluate_service cx)
     (filter (\<lambda>df. sd_name df \<in> set SERVICE_NAMES \<or> ''virtualisation'' \<in> set (cx_capabilities cx)) DEFINITIONS)"

definition overall :: "string list \<Rightarrow> string" where
  "overall statuses =
     (let enabled = filter (\<lambda>s. s \<noteq> ''Not Enabled'') statuses in
      if ''Critical'' \<in> set enabled then ''Critical''
      else if ''Warning'' \<in> set enabled \<or> ''Configuration Required'' \<in> set enabled then ''Warning''
      else if ''Unknown'' \<in> set enabled \<or> ''Not Available'' \<in> set enabled \<or> enabled = [] then ''Unknown''
      else ''Healthy'')"

record site_result =
  si_id :: string
  si_name :: string
  si_overall :: string
  si_enabled :: "string list"
  si_capabilities :: "string list"
  si_services :: "service_health list"

definition evaluate_site :: "service_context \<Rightarrow> site_def \<Rightarrow> site_result res" where
  "evaluate_site cx s =
     and_then (site_context cx (site_id s)) (\<lambda>sx. and_then (services sx) (\<lambda>vs.
       Inr \<lparr>si_id = site_id s, si_name = st_display_name s, si_overall = overall (map sh_status vs),
         si_enabled = cx_enabled sx, si_capabilities = usort (cx_capabilities sx), si_services = vs\<rparr>))"

section \<open>The estate\<close>

record estate_service =
  es_id :: string
  es_service :: string
  es_state :: string
  es_confidence :: string
  es_affected :: "string list"
  es_total :: nat
  es_summary :: string
  es_assets :: "string list"
  es_severity :: string
  es_evidence :: "dict list"

definition slug_of :: "string \<Rightarrow> string" where
  "slug_of name = replace_char (CHR '' '') (CHR ''_'') (casefold name)"

definition rollup_state :: "string list \<Rightarrow> string \<times> string" where
  "rollup_state statuses =
     (if statuses = [] then (''Not Enabled'', ''high'')
      else if ''Critical'' \<in> set statuses then (''Critical'', ''high'')
      else if ''Warning'' \<in> set statuses then (''Warning'', ''high'')
      else if ''Unknown'' \<in> set statuses then
        (if ''Healthy'' \<in> set statuses then (''Warning'', ''medium'') else (''Unknown'', ''low''))
      else (''Healthy'', ''high''))"

definition dependency_table :: "site_registry \<Rightarrow> (string \<times> dict) list" where
  "dependency_table rg = foldl (\<lambda>m d. AList.update
       (replace_char (CHR ''_'') (CHR '' '') (casefold (py_str (dget_or d ''service'' (JStr []))))) d m) []
     (map as_dict (filter is_obj (rg_dependencies rg)))"

definition enabled_values :: "site_result list \<Rightarrow> string \<Rightarrow> (string \<times> service_health) list" where
  "enabled_values sites name = filter (\<lambda>p. sh_status (snd p) \<noteq> ''Not Enabled'')
     (concat (map (\<lambda>s. map (Pair (si_id s)) (filter (\<lambda>v. sh_service v = name) (si_services s))) sites))"

text \<open>The effect of a declared central dependency: its evidence, and the state it forces.\<close>

definition central_dependency :: "site_registry \<Rightarrow> (string \<times> service_health) list \<Rightarrow> dict
    \<Rightarrow> (dict list \<times> string list option) res" where
  "central_dependency rg enabled dep =
     and_then (resolve rg JNull (dget dep ''provider_site_id'')) (\<lambda>provider.
     and_then (py_iter (dget_or dep ''consumer_site_ids'' (JList []))) (\<lambda>ids.
     and_then (map_res (resolve rg JNull) ids) (\<lambda>rs.
       (let consumers = concat (map (\<lambda>r. if sr_status r = ''resolved'' then
              (case sr_site_id r of None \<Rightarrow> [] | Some i \<Rightarrow> [i]) else []) rs) in
        case (sr_site_id provider, List.find (\<lambda>p. Some (fst p) = sr_site_id provider) enabled) of
          (Some i, Some (_, v)) \<Rightarrow>
            if sr_status provider = ''resolved'' then
              Inr ([[(''type'', JStr ''central_dependency''), (''provider_site_id'', JStr i),
                 (''consumer_site_ids'', jstrs (usort consumers)), (''provider_status'', JStr (sh_status v))]],
                if sh_status v = ''Critical'' then Some (usort (i # consumers)) else None)
            else Inr ([], None)
        | _ \<Rightarrow> Inr ([], None)))))"

definition rollup_severity :: "string \<Rightarrow> string" where
  "rollup_severity state = (if state = ''Critical'' then ''Critical'' else if state = ''Warning'' then ''Medium'' else ''Info'')"

definition rollup_service :: "site_registry \<Rightarrow> site_result list \<Rightarrow> string \<Rightarrow> estate_service res" where
  "rollup_service rg sites name =
     (let enabled = enabled_values sites name; (state0, confidence0) = rollup_state (map (sh_status \<circ> snd) enabled);
          affected0 = sort (map fst (filter (\<lambda>p. sh_status (snd p) \<in> {''Critical'', ''Warning'', ''Unknown''}) enabled)) in
      map_sum id (\<lambda>(extra, forced).
          (let state = (case forced of None \<Rightarrow> state0 | Some _ \<Rightarrow> ''Critical'');
               confidence = (case forced of None \<Rightarrow> confidence0 | Some _ \<Rightarrow> ''high'');
               affected = (case forced of None \<Rightarrow> affected0 | Some xs \<Rightarrow> xs) in
           \<lparr>es_id = slug_of name, es_service = name, es_state = state, es_confidence = confidence,
            es_affected = affected, es_total = length sites,
            es_summary = name @ '' is '' @ lower state @ '' across '' @ show_nat (length sites) @ '' enabled site''
              @ (if length sites \<noteq> 1 then ''s'' else []) @ ''.'',
            es_assets = usort (concat (map (sh_affected \<circ> snd) enabled)), es_severity = rollup_severity state,
            es_evidence = map (\<lambda>(i, v). [(''type'', JStr ''site_rollup''), (''site_id'', JStr i),
              (''status'', JStr (sh_status v)), (''summary'', JStr (sh_summary v))]) enabled @ extra\<rparr>))
        (case map_of (dependency_table rg) (casefold name) of
           Some dep \<Rightarrow> if dep = [] then Inr ([], None) else central_dependency rg enabled dep
         | None \<Rightarrow> Inr ([], None)))"

definition rollup_names :: "site_result list \<Rightarrow> string list" where
  "rollup_names sites = foldl (\<lambda>ns n. if n \<in> set ns then ns else ns @ [n]) SERVICE_NAMES
     (concat (map (map sh_service \<circ> si_services) sites))"

text \<open>Without configured sites the estate is one context.\<close>

definition single_service :: "service_health \<Rightarrow> estate_service" where
  "single_service v = \<lparr>es_id = slug_of (sh_service v), es_service = sh_service v, es_state = sh_status v,
     es_confidence = (if sh_status v = ''Unknown'' then ''low'' else ''high''), es_affected = [], es_total = 0,
     es_summary = sh_summary v, es_assets = sh_affected v, es_severity = sh_severity v, es_evidence = sh_evidence v\<rparr>"

record estate_result =
  er_sites :: "site_result list"
  er_overall :: string
  er_enabled :: "string list"
  er_capabilities :: "string list"
  er_services :: "estate_service list"
  er_diagnostics :: "dict list"

definition evaluate_estate :: "site_registry \<Rightarrow> service_inputs \<Rightarrow> int \<Rightarrow> int \<Rightarrow> estate_result res" where
  "evaluate_estate rg ins now tz =
     and_then (build_context rg ins now tz) (\<lambda>(cx, diagnostics).
     and_then (map_res (evaluate_site cx) (rg_sites rg)) (\<lambda>sites.
     and_then (if sites = [] then map_sum id (map single_service) (services cx)
         else map_res (rollup_service rg sites) (rollup_names sites)) (\<lambda>es.
       Inr \<lparr>er_sites = sites, er_overall = overall (map es_state es), er_enabled = cx_enabled cx,
         er_capabilities = usort (cx_capabilities cx), er_services = es, er_diagnostics = diagnostics\<rparr>)))"

end
