(* ===== verification/Service_Properties.thy ===== *)
theory Service_Properties
  imports Service_Engine
begin

text \<open>
  What service health promises: no service is healthy without positive evidence, the Internet
  only on fresh and available links, no critical service of a site is hidden by the estate, and
  a site is judged on its own records alone.
\<close>

section \<open>Lists of results\<close>

lemma filter_res_Nil: "filter_res P xs = Inr [] \<Longrightarrow> x \<in> set xs \<Longrightarrow> P x = Inr False"
proof -
  assume "filter_res P xs = Inr []" and x: "x \<in> set xs"
  then obtain ys where ys: "map_res (\<lambda>x. map_sum id (\<lambda>b. if b then [x] else []) (P x)) xs = Inr ys" "concat ys = []"
    by (auto simp: filter_res_def and_then_eq_Inr)
  from ys(1) x obtain y where "map_sum id (\<lambda>b. if b then [x] else []) (P x) = Inr y" "y \<in> set ys"
    using map_res_mem by fastforce
  with ys(2) show "P x = Inr False" by (auto simp: map_sum_eq_Inr split: if_splits)
qed

lemma filter_res_subset: "filter_res P xs = Inr ys \<Longrightarrow> set ys \<subseteq> set xs"
proof -
  assume "filter_res P xs = Inr ys"
  then obtain zs where zs: "map_res (\<lambda>x. map_sum id (\<lambda>b. if b then [x] else []) (P x)) xs = Inr zs" "ys = concat zs"
    by (auto simp: filter_res_def and_then_eq_Inr)
  show "set ys \<subseteq> set xs"
  proof
    fix y assume "y \<in> set ys"
    then obtain z where "z \<in> set zs" "y \<in> set z" using zs(2) by auto
    with map_res_Inr_mem [OF zs(1)] show "y \<in> set xs" by (force simp: map_sum_eq_Inr split: if_splits)
  qed
qed

section \<open>Healthy only on evidence\<close>

lemma evaluate_service_Healthy:
  assumes "evaluate_service cx df = Inr h" and "sh_status h = ''Healthy''"
  obtains declared where "sd_capability df \<in> set (cx_capabilities cx)"
    "declared_capabilities cx (sd_name df) = Inr declared" "evaluate_declared cx df declared = Inr h"
proof -
  have on: "sd_capability df \<in> set (cx_capabilities cx)"
    using assms by (auto simp: evaluate_service_def service_post_init_def plain_health_def split: if_splits)
  with assms(1) obtain declared h' where "declared_capabilities cx (sd_name df) = Inr declared"
    "evaluate_declared cx df declared = Inr h'" "service_post_init h' = Inr h"
    by (auto simp: evaluate_service_def and_then_eq_Inr)
  moreover from this(3) have "h' = h" by (auto simp: service_post_init_def split: if_splits)
  ultimately show ?thesis using on that by blast
qed

definition failed_capability :: "declarations \<Rightarrow> bool" where
  "failed_capability ds = list_ex (\<lambda>(c, v). dget v ''support'' \<noteq> JStr ''unsupported'' \<and>
     dget v ''collection'' = JStr ''failed'') ds"

lemma rest_of_Nil: "rest_of fs [] = [] \<Longrightarrow> fs = []"
  by (simp add: rest_of_def)

lemma judge_Healthy:
  assumes "judge g = Inr v" and "ve_status v = ''Healthy''"
  shows "ga_findings g = []" and "list_all (\<lambda>d. \<not> asset_offline d \<and> \<not> asset_warning d) (ga_assets g)"
    and "list_all (\<lambda>d. \<not> signal_down d) (ga_signals g)"
    and "ga_assets g \<noteq> [] \<or> ga_signals g \<noteq> [] \<or> ga_collectors g \<noteq> []"
proof -
  obtain ws where "filter_res signal_warning (ga_signals g) = Inr ws"
    using assms(1) by (auto simp: judge_def and_then_eq_Inr)
  with assms have all: "filter critical_finding (ga_findings g) = []"
      "rest_of (ga_findings g) (filter critical_finding (ga_findings g)) = []"
      "filter asset_offline (ga_assets g) = []" "filter asset_warning (ga_assets g) = []"
      "filter signal_down (ga_signals g) = []" "ga_assets g \<noteq> [] \<or> ga_signals g \<noteq> [] \<or> ga_collectors g \<noteq> []"
    by (auto simp: judge_def Let_def split: if_splits)
  show "ga_findings g = []" by (rule rest_of_Nil) (use all(1,2) in simp)
  show "list_all (\<lambda>d. \<not> asset_offline d \<and> \<not> asset_warning d) (ga_assets g)"
    using all(3,4) by (simp add: filter_empty_conv list_all_iff)
  show "list_all (\<lambda>d. \<not> signal_down d) (ga_signals g)"
    using all(5) by (simp add: filter_empty_conv list_all_iff)
  show "ga_assets g \<noteq> [] \<or> ga_signals g \<noteq> [] \<or> ga_collectors g \<noteq> []" by (rule all(6))
qed

definition special_services :: "string list" where
  "special_services = [''Internet'', ''Security'', ''Printing''] @ map fst VIRTUAL_SERVICE_IDS"

lemma evaluate_declared_general:
  assumes "evaluate_declared cx df declared = Inr h" and "sh_status h = ''Healthy''" and "sd_name df \<notin> set special_services"
  shows "\<not> failed_capability declared" and "general cx df = Inr h"
proof -
  have n: "sd_name df \<noteq> ''Internet''" "sd_name df \<noteq> ''Security''" "sd_name df \<noteq> ''Printing''"
    "map_of VIRTUAL_SERVICE_IDS (sd_name df) = None"
    using assms(3) by (auto simp: special_services_def map_of_eq_None_iff)
  let ?applicable = "filter (\<lambda>(c, v). dget v ''support'' \<noteq> JStr ''unsupported'') declared"
  have "filter (\<lambda>(c, v). dget v ''collection'' = JStr ''failed'') ?applicable = [] \<and> general cx df = Inr h"
    using assms(1,2) n unfolding evaluate_declared_def Let_def by (auto simp: plain_health_def split: if_splits)
  then show "\<not> failed_capability declared" and "general cx df = Inr h"
    by (auto simp: failed_capability_def filter_empty_conv list_ex_iff)
qed


section \<open>The Internet\<close>

definition authoritative_links :: "service_context \<Rightarrow> dict list" where
  "authoritative_links cx = filter (\<lambda>d. dget d ''classification_authoritative'' = JBool True)
     (map as_dict (filter is_obj (as_list (dget_or (cx_signals cx) ''wan'' (JList [])))))"

definition fresh_link :: "service_context \<Rightarrow> dict \<Rightarrow> bool" where
  "fresh_link cx d = (\<exists>u. timestamp (cx_tz cx) (por (dget d ''observed_at'') (dget d ''time'')) = Inr (Some u) \<and>
     cx_now cx - u \<le> 300 * 1000000)"

lemma uplink_status_Healthy:
  "fst (uplink_status signals failed) = ''Healthy'' \<Longrightarrow> d \<in> set signals \<Longrightarrow> dget d ''available'' \<noteq> JBool False"
  by (auto simp: uplink_status_def Let_def filter_empty_conv split: if_splits)

lemma uplinks_health_status: "uplinks_health cx signals failed = Inr h \<Longrightarrow> sh_status h = fst (uplink_status signals failed)"
  by (auto simp: uplinks_health_def Let_def map_sum_eq_Inr plain_health_def split: prod.splits)

lemma plain_health_status [simp]: "sh_status (plain_health s st su a e) = st"
  by (simp add: plain_health_def)

lemma observed_pieces:
  assumes "(if m \<noteq> [] then Inr w else if s \<noteq> [] \<or> u \<noteq> [] then Inr v else r) = Inr h"
    and "sh_status w \<noteq> ''Healthy''" and "sh_status v \<noteq> ''Healthy''" and "sh_status h = ''Healthy''"
  shows "s = []" and "u = []" and "r = Inr h"
  using assms by (auto split: if_splits)

lemma internet_observed_Healthy:
  assumes "internet_observed cx signals failed = Inr h" and "sh_status h = ''Healthy''" and d: "d \<in> set signals"
  shows "fresh_link cx d" and "dget d ''available'' \<noteq> JNull" and "dget d ''available'' \<noteq> JBool False"
proof -
  obtain stale where st: "filter_res (link_stale cx) signals = Inr stale"
    using assms(1) by (auto simp: internet_observed_def and_then_eq_Inr)
  have all: "stale = []" "filter (\<lambda>d. dget d ''available'' = JNull) signals = []" "uplinks_health cx signals failed = Inr h"
    using observed_pieces [OF assms(1) [unfolded internet_observed_def st and_then_simps Let_def] _ _ assms(2)]
    by simp_all
  then have up: "fst (uplink_status signals failed) = ''Healthy''" using assms(2) uplinks_health_status by metis
  have "link_stale cx d = Inr False" by (rule filter_res_Nil [OF _ d]) (simp add: st all(1))
  then show "fresh_link cx d"
    by (auto simp: link_stale_def fresh_link_def map_sum_eq_Inr not_less split: option.splits)
  show "dget d ''available'' \<noteq> JNull" using all(2) d by (auto simp: filter_empty_conv)
  show "dget d ''available'' \<noteq> JBool False" using uplink_status_Healthy [OF up d] .
qed

lemma internet_unobserved_not_Healthy: "sh_status (internet_unobserved supported failed evidence) \<noteq> ''Healthy''"
  by (simp add: internet_unobserved_def plain_health_def Let_def)

text \<open>
  The Internet is reported healthy only on links whose classification is authoritative:
  there is one, and each of them was observed at most five minutes ago, with an availability
  that is known and not false.
\<close>

theorem internet_healthy_on_fresh_links:
  assumes "internet cx declared = Inr h" and "sh_status h = ''Healthy''"
    and "dget_or (cx_signals cx) ''wan'' (JList []) = JList links"
  shows "authoritative_links cx \<noteq> [] \<and> list_all (\<lambda>d. fresh_link cx d \<and>
    dget d ''available'' \<notin> {JNull, JBool False}) (authoritative_links cx)"
proof -
  obtain supported failed ev where cxf: "internet_from cx supported failed ev = Inr h"
    using assms(1) unfolding internet_def Let_def by blast
  have "\<not> (cx_manifest cx \<noteq> [] \<and> supported = [])"
    using cxf assms(2) by (auto simp: internet_from_def plain_health_def)
  with cxf have "(if authoritative_links cx = [] then Inr (internet_unobserved supported failed ev)
      else internet_observed cx (authoritative_links cx) failed) = Inr h"
    unfolding internet_from_def authoritative_links_def assms(3) Let_def by (simp split: if_splits)
  then have "authoritative_links cx \<noteq> []" "internet_observed cx (authoritative_links cx) failed = Inr h"
    using assms(2) internet_unobserved_not_Healthy by (auto split: if_splits)
  then show ?thesis using internet_observed_Healthy [OF _ assms(2)] by (auto simp: list_all_iff)
qed

section \<open>The estate\<close>

lemma set_collect_names: "set (foldl (\<lambda>ns n. if n \<in> set ns then ns else ns @ [n]) ns xs) = set ns \<union> set xs"
  by (induction xs arbitrary: ns) auto

lemma set_rollup_names: "set (rollup_names sites) = set SERVICE_NAMES \<union> (\<Union>s \<in> set sites. sh_service ` set (si_services s))"
  by (auto simp: rollup_names_def set_collect_names)

lemma rollup_service_state:
  assumes "rollup_service rg sites name = Inr e"
  shows "es_service e = name" and "es_severity e = rollup_severity (es_state e)"
    and "es_state e \<in> {''Critical'', fst (rollup_state (map (sh_status \<circ> snd) (enabled_values sites name)))}"
  using assms by (auto simp: rollup_service_def Let_def map_sum_eq_Inr split: prod.splits option.splits)

lemma rollup_state_Critical: "''Critical'' \<in> set ss \<Longrightarrow> fst (rollup_state ss) = ''Critical''"
  by (auto simp: rollup_state_def)

lemma overall_Critical: "''Critical'' \<in> set ss \<Longrightarrow> overall ss = ''Critical''"
  by (simp add: overall_def Let_def)

lemma enabled_values_mem:
  assumes "s \<in> set sites" and "v \<in> set (si_services s)" and "sh_status v \<noteq> ''Not Enabled''"
  shows "(si_id s, v) \<in> set (enabled_values sites (sh_service v))"
  using assms by (auto simp: enabled_values_def)

text \<open>
  C20. No critical service of a site is hidden by the estate: whatever the other sites report
  and whatever dependencies are declared, the service is critical in the estate, with critical
  severity, and so is the estate.
\<close>

theorem estate_never_hides_critical:
  assumes run: "evaluate_estate rg ins now tz = Inr r" and s: "s \<in> set (er_sites r)"
    and v: "v \<in> set (si_services s)" and critical: "sh_status v = ''Critical''"
  shows "er_overall r = ''Critical'' \<and> (\<exists>e \<in> set (er_services r).
    es_service e = sh_service v \<and> es_state e = ''Critical'' \<and> es_severity e = ''Critical'')"
proof -
  obtain cx ds sites es where
    roll: "(if sites = [] then map_sum id (map single_service) (services cx)
      else map_res (rollup_service rg sites) (rollup_names sites)) = Inr es"
    and r: "r = \<lparr>er_sites = sites, er_overall = overall (map es_state es), er_enabled = cx_enabled cx,
         er_capabilities = usort (cx_capabilities cx), er_services = es, er_diagnostics = ds\<rparr>"
    using run by (auto simp: evaluate_estate_def and_then_eq_Inr split: prod.splits)
  then have sites: "er_sites r = sites" and es: "er_services r = es" and overall: "er_overall r = overall (map es_state es)"
    by simp_all
  have mr: "map_res (rollup_service rg sites) (rollup_names sites) = Inr es" using roll by (cases "sites = []") (use s sites in simp_all)
  have nm: "sh_service v \<in> set (rollup_names sites)" using s v sites by (auto simp: set_rollup_names)
  obtain e where e: "e \<in> set es" "rollup_service rg sites (sh_service v) = Inr e"
    using map_res_mem [OF mr nm] by blast
  have "sh_status v \<noteq> ''Not Enabled''" using critical by simp
  then have "(si_id s, v) \<in> set (enabled_values sites (sh_service v))"
    using enabled_values_mem [OF s [unfolded sites] v] by blast
  then have "(sh_status \<circ> snd) (si_id s, v) \<in> set (map (sh_status \<circ> snd) (enabled_values sites (sh_service v)))"
    unfolding set_map by (rule imageI)
  then have "''Critical'' \<in> set (map (sh_status \<circ> snd) (enabled_values sites (sh_service v)))"
    by (simp only: comp_apply snd_conv critical)
  then have st: "es_state e = ''Critical''"
    using rollup_service_state(3) [OF e(2)] rollup_state_Critical by simp
  then have "es_severity e = ''Critical''" using rollup_service_state(2) [OF e(2)] by (simp add: rollup_severity_def)
  moreover have "er_overall r = ''Critical''" using e(1) st unfolding overall by (intro overall_Critical) force
  ultimately show ?thesis using e(1) st rollup_service_state(1) [OF e(2)] es by auto
qed

text \<open>
  The converse fails: sites whose service awaits configuration, or has no telemetry, roll up to
  a healthy estate service, although each site itself is reported as a warning or unknown.
\<close>

lemma unconfigured_rolls_up_healthy:
  assumes "statuses \<noteq> []" and "set statuses \<subseteq> {''Configuration Required'', ''Not Available''}"
  shows "rollup_state statuses = (''Healthy'', ''high'')" and "overall statuses \<noteq> ''Healthy''"
proof -
  have none: "''Critical'' \<notin> set statuses" "''Warning'' \<notin> set statuses" "''Unknown'' \<notin> set statuses"
    "''Not Enabled'' \<notin> set statuses" using assms(2) by auto
  then show "rollup_state statuses = (''Healthy'', ''high'')" using assms(1) by (simp add: rollup_state_def)
  have "filter (\<lambda>s. s \<noteq> ''Not Enabled'') statuses = statuses" using none(4) by (auto intro: filter_True)
  moreover have "''Configuration Required'' \<in> set statuses \<or> ''Not Available'' \<in> set statuses"
    using assms by (cases statuses) auto
  ultimately show "overall statuses \<noteq> ''Healthy''" using none by (auto simp: overall_def Let_def)
qed

section \<open>Examples\<close>

definition sample_context :: service_context where
  "sample_context = \<lparr>cx_assets = [[(''hostname'', JStr ''ap1''), (''device_type'', JStr ''access-point''), (''online'', JBool True)]],
     cx_collectors = [], cx_signals = [(''wan'', JList [JObj [(''classification_authoritative'', JBool True),
       (''name'', JStr ''wan1''), (''available'', JBool True), (''observed_at'', JStr ''2024-01-10T00:00:00Z'')]])],
     cx_findings = [], cx_capabilities = [''internet'', ''wireless''], cx_collector_capabilities = [],
     cx_manifest = [], cx_enabled = [], cx_now = ((ymd2ord 2024 1 10 - 1) * 86400 + 60) * 1000000, cx_tz = 0\<rparr>"

lemma sample_wireless:
  "map_sum id (\<lambda>h. sh_status h) (evaluate_service sample_context (DEFINITIONS ! 1)) = Inr ''Healthy''"
  by code_simp


lemma sample_internet: "map_sum id (\<lambda>h. sh_status h) (internet sample_context []) = Inr ''Healthy''"
  by code_simp

theorem internet_healthy_on_fresh_links_witness:
  "\<exists>h. internet sample_context [] = Inr h \<and> sh_status h = ''Healthy'' \<and> authoritative_links sample_context \<noteq> []"
proof -
  obtain h where h: "internet sample_context [] = Inr h" "sh_status h = ''Healthy''"
    using sample_internet by (auto simp: map_sum_eq_Inr)
  have "\<exists>links. dget_or (cx_signals sample_context) ''wan'' (JList []) = JList links"
    by (simp add: sample_context_def dget_or_def)
  then obtain links where "dget_or (cx_signals sample_context) ''wan'' (JList []) = JList links" by blast
  from internet_healthy_on_fresh_links [OF h this] h show ?thesis by blast
qed

definition sample_registry :: site_registry where
  "sample_registry = registry_of [\<lparr>st_id = ''main'', st_display_name = ''Main'', st_aliases = [], st_metadata = [],
     st_type = ''school'', st_parent_id = None, st_rollup_group = None, st_enabled = True, st_display_order = None,
     st_description = []\<rparr>] []"

definition sample_inputs :: service_inputs where
  "sample_inputs = \<lparr>in_state = [(''assets'', JList [JObj [(''device_type'', JStr ''access-point''), (''online'', JBool False),
       (''site_id'', JStr ''site:main''), (''site'', JStr ''Main''), (''sources'', JList [JStr ''mist''])]]),
       (''collectors'', JList [JObj [(''collector'', JStr ''mist'')]])],
     in_operations = [], in_registry = [(''enabled_collectors'', JList [JStr ''mist'']),
       (''collector_capabilities'', JObj [(''mist'', JList [JStr ''wireless''])])], in_manifest = []\<rparr>"

lemma sample_estate:
  "map_sum id (\<lambda>r. map (map sh_status \<circ> si_services) (er_sites r))
     (evaluate_estate sample_registry sample_inputs 0 0)
   = Inr [[''Not Enabled'', ''Critical''] @ replicate 9 ''Not Enabled'']"
  by code_simp

theorem estate_never_hides_critical_witness:
  "\<exists>r. evaluate_estate sample_registry sample_inputs 0 0 = Inr r \<and> er_overall r = ''Critical''"
proof -
  obtain r where r: "evaluate_estate sample_registry sample_inputs 0 0 = Inr r"
    and sites: "map (map sh_status \<circ> si_services) (er_sites r) = [[''Not Enabled'', ''Critical''] @ replicate 9 ''Not Enabled'']"
    using sample_estate by (auto simp: map_sum_eq_Inr)
  obtain s where s: "er_sites r = [s]" "map sh_status (si_services s) = [''Not Enabled'', ''Critical''] @ replicate 9 ''Not Enabled''"
    using sites by auto
  then have "''Critical'' \<in> set (map sh_status (si_services s))" by simp
  then obtain v where v: "v \<in> set (si_services s)" "sh_status v = ''Critical''" by auto
  have "s \<in> set (er_sites r)" using s(1) by simp
  from estate_never_hides_critical [OF r this v] r show ?thesis by blast
qed

end
