(* ===== verification/Operator_Engine.thy ===== *)
theory Operator_Engine
  imports State_History_Models Py_Float Sites
begin

text \<open>
  \<open>analysis/operator/engine.py\<close>: the canonical pipeline run of one collection, the freshness of
  a connector and its operational status. Timestamps are instants in microseconds; the run id is
  hashed by the parameter \<open>H\<close>.
\<close>

section \<open>Collection\<close>

record connector_meta =
  cm_id :: string
  cm_display_name :: string
  cm_domains :: "string list"

text \<open>An outcome of the scheduler and the result recorded for it.\<close>

record run_outcome =
  ro_connector :: string
  ro_status :: string
  ro_duration_ms :: int
  ro_value :: json
  ro_exception_type :: string
  ro_reason :: string
  ro_diagnostic :: json

record connector_result =
  cr_connector :: string
  cr_display_name :: string
  cr_status :: string
  cr_duration_ms :: int
  cr_summary :: dict
  cr_exception_type :: string
  cr_reason :: string
  cr_diagnostic :: "dict option"

definition operator_summary :: "json \<Rightarrow> dict" where
  "operator_summary v = (case v of
     JObj d \<Rightarrow> concat (map (\<lambda>k. case map_of d k of None \<Rightarrow> [] | Some x \<Rightarrow> [(k, x)])
       [''points_written'', ''points_produced'', ''device_count'', ''site_count'', ''influx_write_completed''])
   | _ \<Rightarrow> [])"

definition connector_result_to_dict :: "connector_result \<Rightarrow> dict" where
  "connector_result_to_dict r =
     [(''connector'', JStr (cr_connector r)), (''display_name'', JStr (cr_display_name r)),
      (''status'', JStr (cr_status r)), (''duration_ms'', JInt (cr_duration_ms r)),
      (''summary'', JObj (cr_summary r)), (''exception_type'', JStr (cr_exception_type r)),
      (''reason'', JStr (cr_reason r))] @
     (case cr_diagnostic r of None \<Rightarrow> [] | Some d \<Rightarrow> [(''diagnostic'', JObj d)])"

definition outcome_result :: "connector_meta list \<Rightarrow> run_outcome \<Rightarrow> connector_result res" where
  "outcome_result ms oc = (case find (\<lambda>m. cm_id m = ro_connector oc) (rev ms) of
     None \<Rightarrow> Inl (KeyError (ro_connector oc))
   | Some m \<Rightarrow> Inr \<lparr>cr_connector = ro_connector oc, cr_display_name = cm_display_name m, cr_status = ro_status oc,
       cr_duration_ms = ro_duration_ms oc, cr_summary = operator_summary (ro_value oc),
       cr_exception_type = ro_exception_type oc, cr_reason = ro_reason oc,
       cr_diagnostic = (case ro_diagnostic oc of JObj d \<Rightarrow> Some d | _ \<Rightarrow> None)\<rparr>)"

text \<open>Which connectors are configured: the entry for a connector that is not enabled, or failed.\<close>

definition enabled_in :: "dict \<Rightarrow> string \<Rightarrow> bool" where
  "enabled_in settings i = (case dget settings i of JObj d \<Rightarrow> dget d ''enabled'' = JBool True | _ \<Rightarrow> False)"

definition unrun_result :: "connector_meta \<Rightarrow> string \<Rightarrow> string \<Rightarrow> string \<Rightarrow> connector_result" where
  "unrun_result m status exn reason = \<lparr>cr_connector = cm_id m, cr_display_name = cm_display_name m,
     cr_status = status, cr_duration_ms = 0, cr_summary = [], cr_exception_type = exn, cr_reason = reason,
     cr_diagnostic = None\<rparr>"

text \<open>What the factory makes of an enabled connector.\<close>

datatype created = Created | Misplaced string string | NoImplementation | BadSettings string

definition configured_entry :: "dict \<Rightarrow> (connector_meta \<Rightarrow> created) \<Rightarrow> connector_meta \<Rightarrow> connector_meta + connector_result" where
  "configured_entry settings create m =
     (if \<not> enabled_in settings (cm_id m) then Inr (unrun_result m ''skipped'' [] ''disabled'')
      else case create m of
        Created \<Rightarrow> Inl m
      | Misplaced execution mode \<Rightarrow> Inr (unrun_result m ''skipped'' []
          (''execution placement '' @ execution @ '' does not match '' @ mode @ '' runtime''))
      | NoImplementation \<Rightarrow> Inr (unrun_result m ''skipped'' [] ''runtime implementation unavailable'')
      | BadSettings exn \<Rightarrow> Inr (unrun_result m ''failed'' exn ''connector initialization failed''))"

definition configured_connectors :: "dict \<Rightarrow> (connector_meta \<Rightarrow> created) \<Rightarrow> connector_meta list
    \<Rightarrow> connector_meta list \<times> connector_result list" where
  "configured_connectors settings create ms =
     (let es = map (configured_entry settings create) ms in
      (concat (map (\<lambda>e. case e of Inl m \<Rightarrow> [m] | Inr r \<Rightarrow> []) es),
       concat (map (\<lambda>e. case e of Inl m \<Rightarrow> [] | Inr r \<Rightarrow> [r]) es)))"

section \<open>Scopes\<close>

record coverage =
  cv_observed :: "string list"
  cv_failed :: "string list"
  cv_skipped :: "string list"

definition with_status :: "string \<Rightarrow> connector_result list \<Rightarrow> string list" where
  "with_status s rs = map cr_connector (filter (\<lambda>r. cr_status r = s) rs)"

definition coverage_of :: "connector_result list \<Rightarrow> coverage" where
  "coverage_of rs = \<lparr>cv_observed = with_status ''success'' rs, cv_failed = with_status ''failed'' rs,
     cv_skipped = with_status ''skipped'' (filter (\<lambda>r. cr_reason r \<noteq> ''disabled'') rs)\<rparr>"

definition common :: "string list \<Rightarrow> string list \<Rightarrow> string list" where
  "common xs ys = usort (filter (\<lambda>x. x \<in> set ys) xs)"

definition scope_completeness :: "string list \<Rightarrow> string list \<Rightarrow> string list \<Rightarrow> string" where
  "scope_completeness observed failed skipped =
     (if failed \<noteq> [] \<and> observed = [] then FAILED
      else if skipped \<noteq> [] \<and> observed = [] then SKIPPED
      else if failed \<noteq> [] \<or> skipped \<noteq> [] then PARTIAL
      else COMPLETE)"

definition run_scope :: "connector_meta list \<Rightarrow> coverage \<Rightarrow> string \<times> string \<Rightarrow> obs_scope res" where
  "run_scope ms cv authority = (case authority of (site, d) \<Rightarrow>
     (let expected = sort (map cm_id (filter (\<lambda>m. d \<in> set (cm_domains m)) ms));
          observed = common expected (cv_observed cv); failed = common expected (cv_failed cv);
          skipped = common expected (cv_skipped cv) in
      scope_post_init \<lparr>sc_site_id = site, sc_domain = d,
        sc_completeness = scope_completeness observed failed skipped, sc_expected_sources = expected,
        sc_observed_sources = observed, sc_failed_sources = failed, sc_skipped_sources = skipped,
        sc_expected_providers = [], sc_observed_providers = [], sc_failed_providers = [],
        sc_skipped_providers = [], sc_warning_details = []\<rparr>))"

definition authorities :: "string \<Rightarrow> connector_meta list \<Rightarrow> (string \<times> string) list" where
  "authorities site ms = usort (concat (map (\<lambda>m. map (Pair site) (cm_domains m)) ms))"

definition overall_status :: "coverage \<Rightarrow> connector_meta list \<Rightarrow> string" where
  "overall_status cv ms =
     (if cv_failed cv \<noteq> [] \<and> cv_observed cv = [] then ''failed''
      else if (cv_failed cv \<noteq> [] \<or> cv_skipped cv \<noteq> []) \<and> cv_observed cv \<noteq> [] then ''partial''
      else if cv_skipped cv \<noteq> [] then ''skipped''
      else if ms = [] then ''skipped''
      else ''success'')"

section \<open>Recording\<close>

record deployment_config =
  dc_identity :: string
  dc_type :: string
  dc_site :: string
  dc_collectors :: dict

text \<open>\<open>_identity\<close>, \<open>_deployment_type\<close> and the site of a configuration; \<open>profile\<close> is the environment's.\<close>

definition operator_identity :: "dict \<Rightarrow> json \<Rightarrow> string" where
  "operator_identity config profile = (case dget config ''deployment'' of
     JObj d \<Rightarrow> if truthy (dget d ''name'') then py_str (dget d ''name'')
       else py_str (por (dget config ''customer'') (por profile (JStr ''root'')))
   | _ \<Rightarrow> py_str (por (dget config ''customer'') (por profile (JStr ''root''))))"

definition deployment_type :: "dict \<Rightarrow> string" where
  "deployment_type config = (case dget config ''deployment'' of
     JObj d \<Rightarrow> py_str (por (dget d ''type'') (JStr [])) | _ \<Rightarrow> [])"

definition deployment_of :: "dict \<Rightarrow> json \<Rightarrow> deployment_config res" where
  "deployment_of config profile =
     map_sum id (\<lambda>cs. \<lparr>dc_identity = operator_identity config profile, dc_type = deployment_type config,
         dc_site = py_str (por (dget config ''site'') (JStr ''unassigned'')), dc_collectors = cs\<rparr>)
       (want_dict (dget_or config ''collectors'' (JObj [])))"

definition enabled_metadata :: "deployment_config \<Rightarrow> connector_meta list \<Rightarrow> connector_meta list option \<Rightarrow> connector_meta list" where
  "enabled_metadata dc registry scoped = (case scoped of
     Some (m # ms) \<Rightarrow> m # ms
   | _ \<Rightarrow> filter (\<lambda>m. enabled_in (dc_collectors dc) (cm_id m)) registry)"

definition collect_run_id :: "(string \<Rightarrow> string) \<Rightarrow> string \<Rightarrow> string \<Rightarrow> string \<Rightarrow> connector_result list \<Rightarrow> string" where
  "collect_run_id H started completed identity rs = ''collect:'' @ take 24 (H (dumps (JObj
     [(''started_at'', JStr started), (''completed_at'', JStr completed), (''deployment'', JStr identity),
      (''connectors'', JList (map (JObj \<circ> connector_result_to_dict) rs))])))"

record run_record =
  rr_run :: pipeline_run
  rr_results :: "connector_result list"
  rr_successful :: int
  rr_failed :: int
  rr_skipped :: int
  rr_duration_ms :: int

definition count_distinct :: "string list \<Rightarrow> int" where
  "count_distinct xs = int (length (remdups xs))"

text \<open>\<open>int(delta.total_seconds() * 1000)\<close>: two roundings to a double, then truncation.\<close>

definition elapsed_ms :: "int \<Rightarrow> int" where
  "elapsed_ms us = (if us \<le> 0 then 0
     else (let x = mul_double (div_double (us, 1) (1000000, 1)) (1000, 1) in fst x div snd x))"

definition record_run :: "(string \<Rightarrow> string) \<Rightarrow> deployment_config \<Rightarrow> connector_meta list \<Rightarrow> connector_meta list
    \<Rightarrow> run_outcome list \<Rightarrow> connector_result list \<Rightarrow> int \<Rightarrow> int \<Rightarrow> connector_meta list option \<Rightarrow> run_record res" where
  "record_run H dc registry configured outcomes additional started completed scoped =
     and_then (map_res (outcome_result configured) outcomes) (\<lambda>ran.
     (let rs = sort_key cr_connector (ran @ additional); cv = coverage_of rs;
          ms = enabled_metadata dc registry scoped in
      and_then (map_res (run_scope ms cv) (authorities (dc_site dc) ms)) (\<lambda>scopes.
      and_then (run_post_init \<lparr>pr_run_id = collect_run_id H (isoformat_z started) (isoformat_z completed) (dc_identity dc) rs,
          pr_started_at = isoformat_z started, pr_completed_at = isoformat_z completed,
          pr_status = overall_status cv ms, pr_scopes = scopes,
          pr_canonical_output = ''collector telemetry and inventory'', pr_warning_details = [],
          pr_schema_version = 1\<rparr>) (\<lambda>run.
      Inr \<lparr>rr_run = run, rr_results = rs, rr_successful = count_distinct (cv_observed cv),
        rr_failed = count_distinct (cv_failed cv),
        rr_skipped = int (length (filter (\<lambda>r. cr_status r = ''skipped'') rs)),
        rr_duration_ms = elapsed_ms (completed - started)\<rparr>))))"

definition run_record_to_dict :: "deployment_config \<Rightarrow> run_record \<Rightarrow> dict" where
  "run_record_to_dict dc r =
     [(''schema_version'', JInt 1), (''deployment_identity'', JStr (dc_identity dc)),
      (''deployment_type'', JStr (dc_type dc)), (''pipeline_run'', JObj (run_to_dict (rr_run r))),
      (''connectors'', JList (map (JObj \<circ> connector_result_to_dict) (rr_results r))),
      (''summary'', JObj [(''successful'', JInt (rr_successful r)), (''failed'', JInt (rr_failed r)),
        (''skipped'', JInt (rr_skipped r)), (''duration_ms'', JInt (rr_duration_ms r)),
        (''overall'', JStr (pr_status (rr_run r)))])]"

text \<open>
  One collection: the configured connectors are executed by the scheduler \<open>execute\<close>, which is
  not asked when none is configured.
\<close>

definition operator_collect :: "(string \<Rightarrow> string) \<Rightarrow> (connector_meta \<Rightarrow> created) \<Rightarrow> (connector_meta list \<Rightarrow> run_outcome list)
    \<Rightarrow> deployment_config \<Rightarrow> connector_meta list \<Rightarrow> int \<Rightarrow> int \<Rightarrow> run_record res" where
  "operator_collect H create execute dc registry started completed =
     (case configured_connectors (dc_collectors dc) create registry of (configured, skipped) \<Rightarrow>
        record_run H dc registry configured (if configured = [] then [] else execute configured) skipped
          started completed None)"

text \<open>
  What a collection relies on: the catalogue of connectors, wherever it is loaded from, has
  distinct ids and no connector serves a domain without a name.
\<close>

locale connector_catalogue =
  fixes load :: "'p \<Rightarrow> json \<Rightarrow> connector_meta list res"
  assumes load_distinct: "load place payload = Inr ms \<Longrightarrow> distinct (map cm_id ms)"
    and load_domains: "load place payload = Inr ms \<Longrightarrow> m \<in> set ms \<Longrightarrow> [] \<notin> set (cm_domains m)"

section \<open>Status\<close>

text \<open>
  A stored run as the status engine reads it: its completion text, its id and its connector
  entries. The history is sorted by falling completion text and id.
\<close>

record stored_run =
  pst_completed :: json
  pst_run_id :: string
  pst_entries :: "dict list"

definition sorted_history :: "stored_run list \<Rightarrow> stored_run list" where
  "sorted_history rs = rev (sort_key (\<lambda>r. (py_str (pst_completed r), pst_run_id r)) (rev rs))"

definition entries_for :: "string \<Rightarrow> stored_run list \<Rightarrow> (stored_run \<times> dict) list" where
  "entries_for i history = concat (map (\<lambda>r. map (Pair r)
     (filter (\<lambda>e. dget e ''connector'' = JStr i) (pst_entries r))) history)"

definition freshness :: "int \<Rightarrow> int \<Rightarrow> dict \<Rightarrow> stored_run list \<Rightarrow> bool \<Rightarrow> string \<Rightarrow> string res" where
  "freshness tz now settings history enabled i =
     (if \<not> enabled then Inr ''Disabled''
      else case entries_for i history of
        [] \<Rightarrow> Inr ''Never Run''
      | (r, e) # _ \<Rightarrow> (case fromisoformat (replace_z (py_str (pst_completed r))) of
          None \<Rightarrow> Inr ''Unknown''
        | Some t \<Rightarrow>
            and_then (to_utc t tz) (\<lambda>u.
            and_then (want_dict (dget_or settings i (JObj []))) (\<lambda>st.
            and_then (py_int (dget_or st ''collection_interval_seconds'' (JInt 300))) (\<lambda>n.
            (let interval = max 60 n * 1000000; age = now - u in
             Inr (if age \<le> interval * 2 then ''Fresh'' else if age \<le> interval * 3 then ''Aging'' else ''Stale'')))))))"

definition mentions_any :: "string list \<Rightarrow> string \<Rightarrow> bool" where
  "mentions_any words s = list_ex (\<lambda>w. contains w s) words"

text \<open>The operational status and health of a connector, from its readiness and its latest entry.\<close>

definition skip_status :: "dict \<Rightarrow> string" where
  "skip_status e = (let reason = casefold (py_str (por (dget e ''reason'') (JStr []))) in
     if contains ''execution mode'' reason \<or> dget e ''exception_type'' = JStr ''execution_mode_mismatch''
     then ''skipped execution mode mismatch''
     else if mentions_any [''runtime policy'', ''placement''] reason then ''skipped runtime policy''
     else ''skipped prerequisite'')"

definition failure_status :: "dict \<Rightarrow> string" where
  "failure_status e = (let reason = casefold (py_str (por (dget e ''reason'') (JStr []))) in
     if mentions_any [''not trusted'', ''certificate''] reason then ''TLS trust failure''
     else if mentions_any [''authentication'', ''http 401''] reason then ''authentication failure''
     else if mentions_any [''dns'', ''connection'', ''unreachable'', ''timed out''] reason then ''unreachable''
     else ''failed'')"

definition operational_status :: "json \<Rightarrow> bool \<Rightarrow> dict option \<Rightarrow> json \<times> string" where
  "operational_status state enabled latest =
     (let status = (case latest of None \<Rightarrow> JNull | Some e \<Rightarrow> dget e ''status'');
          e = (case latest of None \<Rightarrow> [] | Some x \<Rightarrow> x) in
      if state = JStr ''disabled'' then (JStr ''disabled'', ''Disabled'')
      else if state = JStr ''execution mode mismatch'' then (JStr ''skipped execution mode mismatch'', ''Warning'')
      else if state \<in> {JStr ''pending configuration'', JStr ''pending credentials''} then (state, ''Warning'')
      else if status = JStr ''skipped'' then (JStr (skip_status e), ''Warning'')
      else if status = JStr ''failed'' then (JStr (failure_status e), ''Failed'')
      else if status = JStr ''success'' then (JStr ''successful'', ''Healthy'')
      else (JStr ''not yet collected'', if enabled then ''Warning'' else ''Disabled''))"

definition first_or_null :: "('a \<Rightarrow> json) \<Rightarrow> 'a list \<Rightarrow> json" where
  "first_or_null f xs = (case xs of [] \<Rightarrow> JNull | x # _ \<Rightarrow> f x)"

definition records_collected :: "dict option \<Rightarrow> json res" where
  "records_collected latest = (case latest of None \<Rightarrow> Inr (JInt 0)
     | Some e \<Rightarrow> map_sum id (\<lambda>s. por (dget s ''points_written'') (por (dget s ''points_produced'')
         (por (dget s ''device_count'') (JInt 0)))) (want_dict (por (dget e ''summary'') (JObj []))))"

definition connector_status :: "int \<Rightarrow> int \<Rightarrow> dict \<Rightarrow> dict \<Rightarrow> stored_run list \<Rightarrow> connector_meta \<Rightarrow> dict res" where
  "connector_status tz now settings readiness history m =
     (let enabled = enabled_in settings (cm_id m); entries = entries_for (cm_id m) history;
          latest = (case entries of [] \<Rightarrow> None | (r, e) # _ \<Rightarrow> Some e);
          failures = filter (\<lambda>(r, e). dget e ''status'' = JStr ''failed'') entries;
          successes = filter (\<lambda>(r, e). dget e ''status'' = JStr ''success'') entries;
          state = dget_or readiness ''state'' (JStr (if enabled then ''configured'' else ''disabled''));
          (status, health) = operational_status state enabled latest in
      and_then (freshness tz now settings history enabled (cm_id m)) (\<lambda>fresh.
      and_then (py_iter (por (dget readiness ''missing'') (JList []))) (\<lambda>missing.
      and_then (records_collected latest) (\<lambda>collected.
      Inr [(''connector'', JStr (cm_id m)), (''display_name'', JStr (cm_display_name m)), (''enabled'', JBool enabled),
        (''configuration_state'', state), (''status'', status), (''health'', JStr health),
        (''missing'', JList missing), (''execution_mode'', dget readiness ''execution_mode''),
        (''runtime_mode'', dget readiness ''runtime_mode''), (''tls_verification'', dget readiness ''tls_verification''),
        (''freshness'', JStr fresh), (''last_run'', first_or_null (\<lambda>(r, e). pst_completed r) entries),
        (''last_successful_collection'', first_or_null (\<lambda>(r, e). pst_completed r) successes),
        (''last_failure'', first_or_null (\<lambda>(r, e). pst_completed r) failures),
        (''last_error_summary'', first_or_null (\<lambda>(r, e). dget e ''reason'') failures),
        (''records_collected'', collected)]))))"

end
