(* ===== verification/Operator_Properties.thy ===== *)
theory Operator_Properties
  imports Operator_Engine State_History_Capture
begin

text \<open>
  What one collection of the operator records: the results are those of every registered
  connector, once each, and the completeness of a scope is the success of its connectors.
\<close>

section \<open>Results\<close>

lemma outcome_result_Inr:
  assumes "ro_connector oc \<in> set (map cm_id ms)"
  shows "\<exists>r. outcome_result ms oc = Inr r \<and> cr_connector r = ro_connector oc \<and> cr_status r = ro_status oc
    \<and> cr_reason r = ro_reason oc"
proof -
  have "find (\<lambda>m. cm_id m = ro_connector oc) (rev ms) \<noteq> None" using assms by (auto simp: find_None_iff)
  then show ?thesis by (auto simp: outcome_result_def)
qed

lemma outcome_results:
  assumes "\<And>oc. oc \<in> set ocs \<Longrightarrow> ro_connector oc \<in> set (map cm_id ms)"
  shows "\<exists>rs. map_res (outcome_result ms) ocs = Inr rs \<and> map cr_connector rs = map ro_connector ocs \<and>
    map cr_status rs = map ro_status ocs \<and> map cr_reason rs = map ro_reason ocs"
  using assms
proof (induction ocs)
  case (Cons oc ocs)
  obtain r where "outcome_result ms oc = Inr r" "cr_connector r = ro_connector oc" "cr_status r = ro_status oc"
    "cr_reason r = ro_reason oc" using outcome_result_Inr Cons.prems by (metis list.set_intros(1))
  moreover obtain rs where "map_res (outcome_result ms) ocs = Inr rs" "map cr_connector rs = map ro_connector ocs"
    "map cr_status rs = map ro_status ocs" "map cr_reason rs = map ro_reason ocs" using Cons by auto
  ultimately show ?case by (intro exI [of _ "r # rs"]) simp
qed simp

definition entry_connector :: "connector_meta + connector_result \<Rightarrow> string" where
  "entry_connector e = (case e of Inl m \<Rightarrow> cm_id m | Inr r \<Rightarrow> cr_connector r)"

lemma configured_entry_connector [simp]: "entry_connector (configured_entry settings create m) = cm_id m"
  by (simp add: entry_connector_def configured_entry_def unrun_result_def split: created.split)

lemma configured_partition:
  "configured_connectors settings create ms = (cs, sk) \<Longrightarrow>
     mset (map cm_id cs) + mset (map cr_connector sk) = mset (map cm_id ms)"
proof (induction ms arbitrary: cs sk)
  case (Cons m ms)
  let ?r = "configured_connectors settings create ms"
  have ih: "mset (map cm_id (fst ?r)) + mset (map cr_connector (snd ?r)) = mset (map cm_id ms)"
    using Cons.IH [of "fst ?r" "snd ?r"] by simp
  show ?case
  proof (cases "configured_entry settings create m")
    case (Inl m')
    then have "cm_id m' = cm_id m" using configured_entry_connector [of settings create m] by (simp add: entry_connector_def)
    then show ?thesis using Cons.prems ih Inl by (auto simp: configured_connectors_def Let_def)
  next
    case (Inr r)
    then have "cr_connector r = cm_id m" using configured_entry_connector [of settings create m] by (simp add: entry_connector_def)
    then show ?thesis using Cons.prems ih Inr by (auto simp: configured_connectors_def Let_def)
  qed
qed (simp add: configured_connectors_def)

lemma skipped_entries:
  assumes "configured_connectors settings create ms = (cs, sk)" and "r \<in> set sk"
  shows "cr_status r = ''skipped'' \<or> cr_status r = ''failed''"
    and "cr_reason r = ''disabled'' \<Longrightarrow> \<not> enabled_in settings (cr_connector r)"
proof -
  obtain m where e: "configured_entry settings create m = Inr r"
    using assms by (auto simp: configured_connectors_def Let_def split: sum.splits)
  then show "cr_status r = ''skipped'' \<or> cr_status r = ''failed''"
    by (auto simp: configured_entry_def unrun_result_def split: if_splits created.splits)
  show "\<not> enabled_in settings (cr_connector r)" if "cr_reason r = ''disabled''"
    using e that by (auto simp: configured_entry_def unrun_result_def split: if_splits created.splits)
qed

text \<open>
  A collection's results: one per registered connector, whose status says whether it was
  observed, failed or skipped, and is \<open>disabled\<close> only for a connector that is not enabled.
\<close>

definition good_results :: "dict \<Rightarrow> connector_meta list \<Rightarrow> connector_result list \<Rightarrow> bool" where
  "good_results settings registry rs = (mset (map cr_connector rs) = mset (map cm_id registry) \<and>
     (\<forall>r \<in> set rs. cr_status r \<in> {''success'', ''failed'', ''skipped''} \<and>
        (cr_reason r = ''disabled'' \<longrightarrow> cr_status r = ''success'' \<or> cr_status r = ''failed'' \<or> \<not> enabled_in settings (cr_connector r))))"

section \<open>Scopes\<close>

definition succeeded :: "connector_result list \<Rightarrow> string \<Rightarrow> bool" where
  "succeeded rs i = (\<exists>r \<in> set rs. cr_connector r = i \<and> cr_status r = ''success'')"

lemma coverage_sets:
  "i \<in> set (cv_observed (coverage_of rs)) \<longleftrightarrow> succeeded rs i"
  "i \<in> set (cv_failed (coverage_of rs)) \<longleftrightarrow> (\<exists>r \<in> set rs. cr_connector r = i \<and> cr_status r = ''failed'')"
  "i \<in> set (cv_skipped (coverage_of rs)) \<longleftrightarrow>
     (\<exists>r \<in> set rs. cr_connector r = i \<and> cr_status r = ''skipped'' \<and> cr_reason r \<noteq> ''disabled'')"
  by (auto simp: coverage_of_def with_status_def succeeded_def)

lemma coverage_of_enabled:
  assumes "good_results settings registry rs" and "i \<in> set (map cm_id registry)" and "enabled_in settings i"
  shows "succeeded rs i \<or> i \<in> set (cv_failed (coverage_of rs)) \<or> i \<in> set (cv_skipped (coverage_of rs))"
proof -
  have "i \<in># mset (map cr_connector rs)" using assms unfolding good_results_def by (metis set_mset_mset)
  then obtain r where r: "r \<in> set rs" "cr_connector r = i" by auto
  then show ?thesis using assms by (auto simp: coverage_sets good_results_def succeeded_def)
qed

lemma one_result:
  assumes "good_results settings registry rs" and "distinct (map cm_id registry)" and "r \<in> set rs" "r' \<in> set rs"
    and "cr_connector r = cr_connector r'"
  shows "r = r'"
proof -
  have "distinct (map cr_connector rs)" using assms by (metis good_results_def mset_eq_imp_distinct_iff)
  then show ?thesis using assms by (auto simp: distinct_map inj_on_def)
qed

lemma success_excludes:
  assumes "good_results settings registry rs" and "distinct (map cm_id registry)" and "succeeded rs i"
  shows "i \<notin> set (cv_failed (coverage_of rs))" "i \<notin> set (cv_skipped (coverage_of rs))"
  using assms one_result [OF assms(1,2)] by (auto simp: coverage_sets succeeded_def) fastforce+

lemma set_common [simp]: "set (common xs ys) = set xs \<inter> set ys"
  by (auto simp: common_def)

lemma common_usort [simp]: "usort (common xs ys) = common xs ys"
  by (simp add: common_def)

lemma scope_completeness_COMPLETE: "scope_completeness os fs ss = COMPLETE \<longleftrightarrow> fs = [] \<and> ss = []"
  by (simp add: scope_completeness_def completeness_defs)

lemma scope_completeness_known: "scope_completeness os fs ss \<in> set observation_completeness"
  by (simp add: scope_completeness_def completeness_defs)

definition expected_in :: "connector_meta list \<Rightarrow> string \<Rightarrow> string list" where
  "expected_in ms d = sort (map cm_id (filter (\<lambda>m. d \<in> set (cm_domains m)) ms))"

lemma run_scope_Inr:
  assumes good: "good_results settings registry rs" and reg: "distinct (map cm_id registry)"
    and ms: "ms = filter (\<lambda>m. enabled_in settings (cm_id m)) registry"
    and site: "site \<noteq> []" and d: "d \<noteq> []" and dm: "m \<in> set ms" "d \<in> set (cm_domains m)"
  shows "\<exists>sc. run_scope ms (coverage_of rs) (site, d) = Inr sc \<and> sc_site_id sc = site \<and> sc_domain sc = d \<and>
    (sc_completeness sc = COMPLETE \<longleftrightarrow> (\<forall>i \<in> set (expected_in ms d). succeeded rs i))"
proof -
  let ?e = "expected_in ms d" and ?cv = "coverage_of rs"
  let ?o = "common ?e (cv_observed ?cv)" and ?f = "common ?e (cv_failed ?cv)" and ?s = "common ?e (cv_skipped ?cv)"
  have "distinct (map cm_id ms)" using reg unfolding ms by (rule distinct_map_filter)
  then have e: "usort ?e = ?e" by (simp add: expected_in_def usort_fixed_iff distinct_map_filter)
  have enabled: "i \<in> set (map cm_id registry)" "enabled_in settings i" if "i \<in> set ?e" for i
    using that by (auto simp: expected_in_def ms)
  have covered: "succeeded rs i \<or> i \<in> set ?f \<or> i \<in> set ?s" if "i \<in> set ?e" for i
    using coverage_of_enabled [OF good enabled [OF that]] that by simp
  have complete: "?f = [] \<and> ?s = [] \<longleftrightarrow> (\<forall>i \<in> set ?e. succeeded rs i)"
  proof
    assume "?f = [] \<and> ?s = []" then show "\<forall>i \<in> set ?e. succeeded rs i" using covered by (metis empty_iff list.set(1))
  next
    assume "\<forall>i \<in> set ?e. succeeded rs i"
    then have "set ?f = {}" "set ?s = {}" using success_excludes [OF good reg] by auto
    then show "?f = [] \<and> ?s = []" by (metis set_empty)
  qed
  have o: "set ?o = set ?e" if "?f = []" "?s = []"
    using complete that by (auto simp: coverage_sets)
  let ?sc = "\<lparr>sc_site_id = site, sc_domain = d, sc_completeness = scope_completeness ?o ?f ?s, sc_expected_sources = ?e,
        sc_observed_sources = ?o, sc_failed_sources = ?f, sc_skipped_sources = ?s,
        sc_expected_providers = [], sc_observed_providers = [], sc_failed_providers = [],
        sc_skipped_providers = [], sc_warning_details = []\<rparr>"
  have lists: "find (\<lambda>(n, v). usort v \<noteq> v) (scope_lists ?sc) = None" by (simp add: scope_lists_def find_None_iff e)
  have "run_scope ms ?cv (site, d) = scope_post_init ?sc" by (simp add: run_scope_def Let_def expected_in_def)
  also have "\<dots> = Inr ?sc"
    using o site d scope_completeness_known unfolding scope_post_init_def lists
    by (auto simp: scope_completeness_COMPLETE Let_def)
  finally show ?thesis using complete by (intro exI [of _ ?sc]) (simp add: scope_completeness_COMPLETE)
qed

section \<open>The record\<close>

lemma overall_status_known: "overall_status cv ms \<in> set PIPELINE_STATUSES"
  by (simp add: overall_status_def PIPELINE_STATUSES_def)

lemma isoformat_z_nonempty [simp]: "isoformat_z u \<noteq> []"
  by (simp add: isoformat_z_def Let_def split: prod.split)

lemma run_scopes_of_authorities:
  assumes "\<And>a. a \<in> set as \<Longrightarrow> \<exists>sc. f a = Inr sc \<and> (sc_site_id sc, sc_domain sc) = a \<and> P a sc"
  shows "\<exists>scs. map_res f as = Inr scs \<and> map (\<lambda>sc. (sc_site_id sc, sc_domain sc)) scs = as \<and>
    (\<forall>sc \<in> set scs. P (sc_site_id sc, sc_domain sc) sc)"
  using assms
proof (induction as)
  case (Cons a as)
  obtain sc where "f a = Inr sc" "(sc_site_id sc, sc_domain sc) = a" "P a sc" using Cons.prems by (meson list.set_intros(1))
  moreover obtain scs where "map_res f as = Inr scs" "map (\<lambda>sc. (sc_site_id sc, sc_domain sc)) scs = as"
    "\<forall>sc \<in> set scs. P (sc_site_id sc, sc_domain sc) sc" using Cons by (meson list.set_intros(2))
  ultimately show ?case by (intro exI [of _ "sc # scs"]) auto
qed simp

lemma distinct_authority: "distinct (map (\<lambda>sc. (sc_site_id sc, sc_domain sc)) scs) \<Longrightarrow> distinct (map sc_authority scs)"
  by (simp add: distinct_map inj_on_def sc_authority_def)

lemma good_results_of_collect:
  assumes conf: "configured_connectors settings create registry = (cs, sk)"
    and ocs: "map ro_connector ocs = map cm_id cs"
    and st: "\<forall>oc \<in> set ocs. ro_status oc \<in> {''success'', ''failed'', ''skipped''} \<and> ro_reason oc \<noteq> ''disabled''"
  shows "\<exists>ran. map_res (outcome_result cs) ocs = Inr ran \<and> good_results settings registry (sort_key cr_connector (ran @ sk)) \<and>
    (\<forall>i. succeeded (sort_key cr_connector (ran @ sk)) i \<longleftrightarrow> (\<exists>oc \<in> set ocs. ro_connector oc = i \<and> ro_status oc = ''success''))"
proof -
  have ids: "\<And>oc. oc \<in> set ocs \<Longrightarrow> ro_connector oc \<in> set (map cm_id cs)" using ocs by (metis image_eqI set_map)
  obtain ran where ran: "map_res (outcome_result cs) ocs = Inr ran" "map cr_connector ran = map ro_connector ocs"
    "map cr_status ran = map ro_status ocs" "map cr_reason ran = map ro_reason ocs" using outcome_results [OF ids] by blast
  have len: "length ran = length ocs" using ran(2) by (rule map_eq_imp_length_eq)
  have nths: "cr_connector (ran ! n) = ro_connector (ocs ! n)" "cr_status (ran ! n) = ro_status (ocs ! n)"
    "cr_reason (ran ! n) = ro_reason (ocs ! n)" if "n < length ocs" for n
    using that ran(2-4) len by (simp_all add: list_eq_iff_nth_eq)
  have fields: "\<exists>oc \<in> set ocs. cr_connector r = ro_connector oc \<and> cr_status r = ro_status oc \<and> cr_reason r = ro_reason oc"
    if "r \<in> set ran" for r
  proof -
    from that len obtain n where n: "n < length ocs" "r = ran ! n" by (auto simp: in_set_conv_nth)
    then show ?thesis using nths [of n] by (intro bexI [of _ "ocs ! n"]) simp_all
  qed
  have back_to: "\<exists>r \<in> set ran. cr_connector r = ro_connector oc \<and> cr_status r = ro_status oc" if "oc \<in> set ocs" for oc
  proof -
    from that obtain n where n: "n < length ocs" "oc = ocs ! n" by (auto simp: in_set_conv_nth)
    then show ?thesis using nths [of n] len by (intro bexI [of _ "ran ! n"]) simp_all
  qed
  have "mset (map cr_connector (sort_key cr_connector (ran @ sk))) = mset (map cm_id registry)"
    using configured_partition [OF conf] ran(2) ocs by (metis map_append mset_append mset_map mset_sort)
  then have "good_results settings registry (sort_key cr_connector (ran @ sk))"
    unfolding good_results_def using fields st skipped_entries [OF conf] by fastforce
  moreover have "succeeded (sort_key cr_connector (ran @ sk)) i \<longleftrightarrow> (\<exists>oc \<in> set ocs. ro_connector oc = i \<and> ro_status oc = ''success'')" for i
    using fields back_to skipped_entries(1) [OF conf] by (fastforce simp: succeeded_def)
  ultimately show ?thesis using ran(1) by blast
qed

context connector_catalogue
begin

lemma collection_recorded:
  assumes loaded: "load place payload = Inr registry" and site: "dc_site dc \<noteq> []"
    and conf: "configured_connectors (dc_collectors dc) create registry = (cs, sk)"
    and ocs: "map ro_connector (execute cs) = map cm_id cs"
    and st: "\<forall>oc \<in> set (execute cs). ro_status oc \<in> {''success'', ''failed'', ''skipped''} \<and> ro_reason oc \<noteq> ''disabled''"
  shows "\<exists>r. operator_collect H create execute dc registry t0 t1 = Inr r \<and>
    (let scopes = pr_scopes (rr_run r); ms = filter (\<lambda>m. enabled_in (dc_collectors dc) (cm_id m)) registry in
     set (map sc_domain scopes) = (\<Union>m \<in> set ms. set (cm_domains m)) \<and>
     (\<forall>sc \<in> set scopes. scope_authoritative ''complete_only'' sc \<longleftrightarrow>
        (\<forall>m \<in> set ms. sc_domain sc \<in> set (cm_domains m) \<longrightarrow>
           (\<exists>oc \<in> set (execute cs). ro_connector oc = cm_id m \<and> ro_status oc = ''success''))))"
proof -
  have reg: "distinct (map cm_id registry)" by (rule load_distinct [OF loaded])
  have doms: "\<forall>m \<in> set registry. [] \<notin> set (cm_domains m)" using load_domains [OF loaded] by blast
  let ?ocs = "if cs = [] then [] else execute cs"
  have same: "?ocs = execute cs" using ocs by auto
  define ms where "ms = filter (\<lambda>m. enabled_in (dc_collectors dc) (cm_id m)) registry"
  have ms_eq: "enabled_metadata dc registry None = ms" by (simp add: enabled_metadata_def ms_def)
  obtain ran where ran: "map_res (outcome_result cs) (execute cs) = Inr ran"
    and good: "good_results (dc_collectors dc) registry (sort_key cr_connector (ran @ sk))"
    and succ: "\<And>i. succeeded (sort_key cr_connector (ran @ sk)) i \<longleftrightarrow>
      (\<exists>oc \<in> set (execute cs). ro_connector oc = i \<and> ro_status oc = ''success'')"
    using good_results_of_collect [OF conf ocs st] by blast
  define rs where "rs = sort_key cr_connector (ran @ sk)"
  let ?P = "\<lambda>a sc. sc_completeness sc = COMPLETE \<longleftrightarrow> (\<forall>i \<in> set (expected_in ms (snd a)). succeeded rs i)"
  let ?as = "authorities (dc_site dc) ms"
  have "\<exists>sc. run_scope ms (coverage_of rs) a = Inr sc \<and> (sc_site_id sc, sc_domain sc) = a \<and> ?P a sc" if aa: "a \<in> set ?as" for a
  proof -
    obtain m d where a: "a = (dc_site dc, d)" and m: "m \<in> set ms" "d \<in> set (cm_domains m)"
      using aa by (auto simp: authorities_def)
    have "d \<noteq> []" using doms m by (auto simp: ms_def)
    from run_scope_Inr [OF good [folded rs_def] reg ms_def site this m] show ?thesis by (auto simp: a)
  qed
  from run_scopes_of_authorities [of ?as "run_scope ms (coverage_of rs)" ?P, OF this]
  obtain scs where scs: "map_res (run_scope ms (coverage_of rs)) ?as = Inr scs"
    "map (\<lambda>sc. (sc_site_id sc, sc_domain sc)) scs = ?as"
    "\<forall>sc \<in> set scs. ?P (sc_site_id sc, sc_domain sc) sc" by blast
  have dist: "distinct (map sc_authority scs)"
    by (rule distinct_authority) (simp add: scs(2) authorities_def)
  define run where "run = \<lparr>pr_run_id = collect_run_id H (isoformat_z t0) (isoformat_z t1) (dc_identity dc) rs,
      pr_started_at = isoformat_z t0, pr_completed_at = isoformat_z t1, pr_status = overall_status (coverage_of rs) ms,
      pr_scopes = scs, pr_canonical_output = ''collector telemetry and inventory'', pr_warning_details = [],
      pr_schema_version = 1\<rparr>"
  have run: "run_post_init run = Inr run"
    using overall_status_known dist by (simp add: run_post_init_def run_def collect_run_id_def)
  have "\<exists>r. operator_collect H create execute dc registry t0 t1 = Inr r \<and> rr_run r = run"
    unfolding operator_collect_def conf prod.case same record_run_def ran and_then_simps Let_def rs_def [symmetric] ms_eq scs(1)
      run_def [symmetric] run by simp
  then obtain r where r: "operator_collect H create execute dc registry t0 t1 = Inr r" "pr_scopes (rr_run r) = scs"
    unfolding run_def by auto
  have "map sc_domain scs = map snd ?as" unfolding scs(2) [symmetric] by simp
  then have "set (map sc_domain scs) = snd ` set ?as" by (metis set_map)
  moreover have "snd ` set ?as = (\<Union>m \<in> set ms. set (cm_domains m))" by (simp add: authorities_def image_UN image_image)
  ultimately have "set (map sc_domain scs) = (\<Union>m \<in> set ms. set (cm_domains m))" by (rule trans)
  moreover have "scope_authoritative ''complete_only'' sc \<longleftrightarrow> (\<forall>m \<in> set ms. sc_domain sc \<in> set (cm_domains m) \<longrightarrow>
      (\<exists>oc \<in> set (execute cs). ro_connector oc = cm_id m \<and> ro_status oc = ''success''))" if "sc \<in> set scs" for sc
    using scs(3) that by (auto simp: scope_authoritative_def rs_def succ expected_in_def)
  ultimately show ?thesis using r by (auto simp: Let_def ms_def)
qed

end

end
