(* ===== verification/Connector_Registry.thy ===== *)
theory Connector_Registry
  imports ITP_Prelude
begin

text \<open>
  \<open>collectors/connector_registry.py\<close>: the catalogue of connectors read from a document, its
  validation and its lookup by id or alias. Parsing YAML and Python is a library's: the document
  is an argument, \<open>rf_is_file\<close> tells which paths of the repository are files and \<open>rf_symbols\<close>
  which classes and functions a source file declares (\<open>None\<close> when it cannot be parsed).
\<close>

section \<open>Vocabulary\<close>

definition DOMAINS :: "string list" where
  "DOMAINS = [''wireless'', ''switching'', ''firewall'', ''virtualisation'', ''printing'', ''internet'', ''servers'',
     ''power'', ''environmental'', ''identity'', ''operations'']"

definition DEPLOYMENT_TYPES :: "string list" where
  "DEPLOYMENT_TYPES = [''Home Lab'', ''School'', ''Business'', ''MSP'', ''Enterprise'']"

definition IMPLEMENTATION_STATUSES :: "string list" where
  "IMPLEMENTATION_STATUSES = [''supported'', ''profile-only'', ''experimental'', ''incomplete'']"

definition CONFIGURATION_MODES :: "string list" where
  "CONFIGURATION_MODES = [''manual'', ''profile-manual'', ''guided'', ''internal'']"

definition CAPABILITIES :: "string list" where
  "CAPABILITIES = [''validation'', ''doctor'', ''status'', ''demo_fixture'']"

definition PROMPT_VALUE_TYPES :: "string list" where
  "PROMPT_VALUE_TYPES = [''host'', ''url'', ''uuid'', ''text'', ''secret'']"

definition PROMPT_NORMALIZERS :: "string list" where
  "PROMPT_NORMALIZERS = [[], ''https-host'', ''https-origin'', ''papercut-health-origin'']"

definition RUNTIME_MODES :: "string list" where
  "RUNTIME_MODES = [''central'', ''edge'', ''cloud'']"

section \<open>Entries\<close>

record connector_entry =
  cn_id :: string
  cn_display_name :: string
  cn_vendor :: string
  cn_domains :: "string list"
  cn_deployment_types :: "string list"
  cn_implementation_status :: string
  cn_guided_setup :: bool
  cn_configuration_mode :: string
  cn_credential_fields :: "json list"
  cn_configuration_fields :: "string list"
  cn_secret_handling :: dict
  cn_capabilities :: dict
  cn_documentation :: string
  cn_implementation :: string
  cn_aliases :: "string list"
  cn_notes :: string
  cn_validation_adapter :: string
  cn_configuration_checker :: string
  cn_health_adapter :: string
  cn_remediation_command :: string
  cn_dashboard_manifest :: string
  cn_configuration_prompts :: "json list"
  cn_runtime_modes :: "string list"

definition configuration_namespace :: "connector_entry \<Rightarrow> string" where
  "configuration_namespace c = (if cn_id c \<in> {''vmware'', ''hyperv'', ''proxmox''} then ''virtualisation.endpoints''
     else ''collectors.'' @ cn_id c)"

definition validation_requirements :: "connector_entry \<Rightarrow> json list" where
  "validation_requirements c = map (\<lambda>f. dget (as_dict f) ''id'')
     (filter (\<lambda>f. truthy (dget (as_dict f) ''required'')) (cn_credential_fields c))"

definition manual_only :: "connector_entry \<Rightarrow> bool" where
  "manual_only c = (\<not> cn_guided_setup c \<and> cn_configuration_mode c \<in> {''manual'', ''profile-manual''})"

text \<open>\<open>str(raw[k])\<close>, \<open>str(raw.get(k) or '')\<close>, \<open>dict(raw.get(k) or {})\<close> and \<open>tuple(raw.get(k) or [])\<close>.\<close>

definition needed :: "dict \<Rightarrow> string \<Rightarrow> string res" where
  "needed d k = (case map_of d k of None \<Rightarrow> Inl (KeyError k) | Some v \<Rightarrow> Inr (py_str v))"

definition text_or_empty :: "dict \<Rightarrow> string \<Rightarrow> string" where
  "text_or_empty d k = py_str (por (dget d k) (JStr []))"

definition dict_or_empty :: "dict \<Rightarrow> string \<Rightarrow> dict res" where
  "dict_or_empty d k = (case por (dget d k) (JObj []) of
     JObj x \<Rightarrow> Inr x
   | JList _ \<Rightarrow> Inl (Unmodelled ''a mapping from pairs'')
   | JStr _ \<Rightarrow> Inl (ValueError ''dictionary update sequence element'')
   | _ \<Rightarrow> Inl (TypeError ''object is not iterable''))"

definition items_or_empty :: "dict \<Rightarrow> string \<Rightarrow> json list res" where
  "items_or_empty d k = py_iter (por (dget d k) (JList []))"

definition read_entry :: "dict \<Rightarrow> connector_entry res" where
  "read_entry d =
     and_then (needed d ''id'') (\<lambda>i.
     and_then (needed d ''display_name'') (\<lambda>display.
     and_then (needed d ''vendor'') (\<lambda>vendor.
     and_then (sorted_strs (dget d ''domains'')) (\<lambda>doms.
     and_then (sorted_strs (dget d ''deployment_types'')) (\<lambda>types.
     and_then (needed d ''implementation_status'') (\<lambda>status.
     and_then (needed d ''configuration_mode'') (\<lambda>mode.
     and_then (items_or_empty d ''credential_fields'') (\<lambda>credentials.
     and_then (sorted_strs (dget d ''configuration_fields'')) (\<lambda>settings.
     and_then (items_or_empty d ''configuration_prompts'') (\<lambda>prompts.
     and_then (dict_or_empty d ''secret_handling'') (\<lambda>secrets.
     and_then (dict_or_empty d ''capabilities'') (\<lambda>caps.
     and_then (needed d ''documentation'') (\<lambda>documentation.
     and_then (sorted_strs (dget d ''aliases'')) (\<lambda>aliases.
     and_then (sorted_strs (por (dget d ''runtime_modes'') (jstrs [''central'', ''edge'']))) (\<lambda>modes.
     Inr \<lparr>cn_id = i, cn_display_name = display, cn_vendor = vendor, cn_domains = doms, cn_deployment_types = types,
       cn_implementation_status = status, cn_guided_setup = truthy (dget_or d ''guided_setup'' (JBool False)),
       cn_configuration_mode = mode, cn_credential_fields = credentials, cn_configuration_fields = settings,
       cn_secret_handling = secrets, cn_capabilities = caps, cn_documentation = documentation,
       cn_implementation = text_or_empty d ''implementation'', cn_aliases = aliases, cn_notes = text_or_empty d ''notes'',
       cn_validation_adapter = text_or_empty d ''validation_adapter'',
       cn_configuration_checker = text_or_empty d ''configuration_checker'',
       cn_health_adapter = text_or_empty d ''health_adapter'',
       cn_remediation_command = py_str (por (dget d ''remediation_command'')
         (JStr (''python -m collectors connectors inspect '' @ i))),
       cn_dashboard_manifest = text_or_empty d ''dashboard_manifest'', cn_configuration_prompts = prompts,
       cn_runtime_modes = modes\<rparr>)))))))))))))))"

text \<open>The handler turns a missing key and a wrong type into one error.\<close>

definition invalid_entry :: "py_exn \<Rightarrow> py_exn" where
  "invalid_entry e = (case e of KeyError _ \<Rightarrow> ValueError ''invalid connector registry entry''
     | TypeError _ \<Rightarrow> ValueError ''invalid connector registry entry''
     | ValueError _ \<Rightarrow> ValueError ''invalid connector registry entry'' | _ \<Rightarrow> e)"

definition read_connector :: "json \<Rightarrow> connector_entry res" where
  "read_connector v = (case v of JObj d \<Rightarrow> map_sum invalid_entry id (read_entry d)
     | _ \<Rightarrow> Inl (ValueError ''connector registry entries must be mappings''))"

definition read_connectors :: "json \<Rightarrow> connector_entry list res" where
  "read_connectors payload = (case payload of
     JObj d \<Rightarrow>
       (if \<not> py_eq (dget d ''schema_version'') (JInt 1) then Inl (ValueError ''connector registry must use schema_version 1'')
        else case dget d ''connectors'' of JList xs \<Rightarrow> map_res read_connector xs
          | _ \<Rightarrow> Inl (ValueError ''connector registry connectors must be a list''))
   | _ \<Rightarrow> Inl (ValueError ''connector registry must use schema_version 1''))"

section \<open>Validation\<close>

record repository_files =
  rf_is_file :: "string \<Rightarrow> bool"
  rf_symbols :: "string \<Rightarrow> string list option"

definition entry_error :: "string \<Rightarrow> string \<Rightarrow> py_exn" where
  "entry_error i what = ValueError (''connector '' @ i @ what)"

definition hash_in :: "json \<Rightarrow> string list \<Rightarrow> bool res" where
  "hash_in v ss = (case v of JStr s \<Rightarrow> Inr (s \<in> set ss) | JList _ \<Rightarrow> Inl (TypeError ''unhashable type'')
     | JObj _ \<Rightarrow> Inl (TypeError ''unhashable type'') | _ \<Rightarrow> Inr False)"

definition require :: "bool res \<Rightarrow> py_exn \<Rightarrow> unit res" where
  "require b e = and_then b (\<lambda>x. guard_res (\<not> x) e)"

fun is_str_value :: "json \<Rightarrow> bool" where
  "is_str_value (JStr s) = True"
| "is_str_value v = False"

fun is_bool :: "json \<Rightarrow> bool" where
  "is_bool (JBool b) = True"
| "is_bool v = False"

definition validate_prompt :: "string \<Rightarrow> json \<Rightarrow> unit res" where
  "validate_prompt i prompt =
     (if \<not> truthy prompt then Inr ()
      else case prompt of
        JObj p \<Rightarrow>
          and_then (guard_res (list_ex (\<lambda>k. dhas p k \<and> \<not> is_str_value (dget p k)) [''label'', ''example'', ''help'', ''default''])
            (entry_error i '' has invalid prompt metadata'')) (\<lambda>_.
          and_then (require (hash_in (dget_or p ''value_type'' (JStr ''text'')) PROMPT_VALUE_TYPES)
            (entry_error i '' has invalid prompt value type'')) (\<lambda>_.
          and_then (guard_res (dhas p ''sensitive'' \<and> \<not> is_bool (dget p ''sensitive''))
            (entry_error i '' has invalid prompt sensitivity'')) (\<lambda>_.
          require (hash_in (dget_or p ''normalizer'' (JStr [])) PROMPT_NORMALIZERS)
            (entry_error i '' has invalid prompt normalizer''))))
      | _ \<Rightarrow> Inl (entry_error i '' has invalid prompt metadata''))"

definition valid_credential :: "dict \<Rightarrow> bool" where
  "valid_credential f = (truthy (dget f ''id'') \<and> truthy (dget f ''env'') \<and> is_bool (dget f ''required'') \<and>
     is_bool (dget f ''secret'') \<and> (case dget_or f ''env_aliases'' (JList []) of
        JList as \<Rightarrow> list_all (\<lambda>a. is_str_value a \<and> truthy a) as | _ \<Rightarrow> False))"

definition validate_credential :: "connector_entry \<Rightarrow> json \<Rightarrow> json res" where
  "validate_credential c v = (case v of
     JObj f \<Rightarrow>
       (if \<not> valid_credential f then Inl (entry_error (cn_id c) '' has invalid credential metadata'')
        else and_then (validate_prompt (cn_id c) (dget_or f ''prompt'' (JObj []))) (\<lambda>_.
          let canonical = dget_or f ''configuration_field'' (JStr []) in
          if truthy canonical \<and> canonical \<notin> JStr ` set (cn_configuration_fields c)
          then Inl (entry_error (cn_id c) ('' credential references an unknown configuration field: '' @ py_str canonical))
          else Inr (dget f ''id'')))
   | _ \<Rightarrow> Inl (entry_error (cn_id c) '' has invalid credential metadata''))"

definition validate_configuration_prompt :: "connector_entry \<Rightarrow> json \<Rightarrow> json res" where
  "validate_configuration_prompt c v = (case v of
     JObj f \<Rightarrow>
       (if dget f ''field'' \<notin> JStr ` set (cn_configuration_fields c)
        then Inl (entry_error (cn_id c) '' has invalid configuration prompt metadata'')
        else map_sum id (\<lambda>_. dget f ''field'') (validate_prompt (cn_id c) v))
   | _ \<Rightarrow> Inl (entry_error (cn_id c) '' has invalid configuration prompt metadata''))"

text \<open>\<open>len(xs) == len(set(xs))\<close>: hashable values, equal as Python compares them.\<close>

fun distinct_values :: "json list \<Rightarrow> bool" where
  "distinct_values [] = True"
| "distinct_values (v # vs) = (\<not> list_ex (py_eq v) vs \<and> distinct_values vs)"

definition unique_values :: "json list \<Rightarrow> bool res" where
  "unique_values vs = (if list_ex (\<lambda>v. case v of JList _ \<Rightarrow> True | JObj _ \<Rightarrow> True | _ \<Rightarrow> False) vs
     then Inl (TypeError ''unhashable type'') else Inr (distinct_values vs))"

definition validate_reference :: "repository_files \<Rightarrow> connector_entry \<Rightarrow> unit res" where
  "validate_reference rf c =
     (let impl = cn_implementation c; relative = takeWhile (\<lambda>x. x \<noteq> CHR '':'') impl;
          symbol = drop 1 (dropWhile (\<lambda>x. x \<noteq> CHR '':'') impl) in
      if CHR '':'' \<notin> set impl then Inl (entry_error (cn_id c) '' requires path:symbol implementation'')
      else if \<not> rf_is_file rf relative then Inl (entry_error (cn_id c) ('' implementation does not exist: '' @ relative))
      else case rf_symbols rf relative of
        None \<Rightarrow> Inl (entry_error (cn_id c) '' implementation is invalid'')
      | Some declared \<Rightarrow> guard_res (symbol \<notin> set declared)
          (entry_error (cn_id c) ('' implementation symbol is missing: '' @ symbol)))"

definition validate_template :: "repository_files \<Rightarrow> string \<Rightarrow> json \<Rightarrow> unit res" where
  "validate_template rf i v = (case v of
     JStr t \<Rightarrow> guard_res (\<not> rf_is_file rf t) (entry_error i ('' secret template does not exist: '' @ t))
   | _ \<Rightarrow> Inl (TypeError ''unsupported operand type''))"

definition validate_files :: "repository_files \<Rightarrow> connector_entry \<Rightarrow> unit res" where
  "validate_files rf c =
     and_then (guard_res (\<not> rf_is_file rf (cn_documentation c))
       (entry_error (cn_id c) ('' documentation does not exist: '' @ cn_documentation c))) (\<lambda>_.
     and_then (guard_res (cn_dashboard_manifest c \<noteq> [] \<and> \<not> rf_is_file rf (cn_dashboard_manifest c))
       (entry_error (cn_id c) ('' dashboard manifest does not exist: '' @ cn_dashboard_manifest c))) (\<lambda>_.
     and_then (py_iter (dget_or (cn_secret_handling c) ''templates'' (JList []))) (\<lambda>ts.
     map_sum id (\<lambda>_. ()) (map_res (validate_template rf (cn_id c)) ts))))"

definition validate_values :: "connector_entry \<Rightarrow> unit res" where
  "validate_values c =
     (let i = cn_id c; unknown = filter (\<lambda>d. d \<notin> set DOMAINS) (cn_domains c) in
      if unknown \<noteq> [] then Inl (entry_error i ('' has invalid domains: '' @ join '', '' (usort unknown)))
      else if \<not> set (cn_deployment_types c) \<subseteq> set DEPLOYMENT_TYPES \<or> cn_deployment_types c = []
        then Inl (entry_error i '' has invalid deployment types'')
      else if cn_implementation_status c \<notin> set IMPLEMENTATION_STATUSES
        then Inl (entry_error i '' has invalid implementation status'')
      else if cn_configuration_mode c \<notin> set CONFIGURATION_MODES
        then Inl (entry_error i '' has invalid configuration mode'')
      else if cn_runtime_modes c = [] \<or> \<not> set (cn_runtime_modes c) \<subseteq> set RUNTIME_MODES
        then Inl (entry_error i '' has invalid runtime modes'')
      else if set (map fst (cn_capabilities c)) \<noteq> set CAPABILITIES \<or> \<not> list_all (is_bool \<circ> snd) (cn_capabilities c)
        then Inl (entry_error i '' has invalid capability metadata'')
      else Inr ())"

definition validate_connector :: "repository_files \<Rightarrow> bool \<Rightarrow> connector_entry \<Rightarrow> unit res" where
  "validate_connector rf strict c =
     and_then (validate_values c) (\<lambda>_.
     and_then (map_res (validate_credential c) (cn_credential_fields c)) (\<lambda>ids.
     and_then (require (unique_values ids) (entry_error (cn_id c) '' has duplicate credential fields'')) (\<lambda>_.
     and_then (map_res (validate_configuration_prompt c) (cn_configuration_prompts c)) (\<lambda>fields_shown.
     and_then (guard_res (\<not> distinct_values fields_shown)
       (entry_error (cn_id c) '' has duplicate configuration prompts'')) (\<lambda>_.
     and_then (guard_res (cn_guided_setup c \<noteq> (cn_configuration_mode c = ''guided''))
       (entry_error (cn_id c) '' guided setup metadata conflicts'')) (\<lambda>_.
     and_then (require (hash_in (dget (cn_secret_handling c) ''scope'') [''root'', ''profile'', ''root-or-profile'', ''none''])
       (entry_error (cn_id c) '' has invalid secret handling scope'')) (\<lambda>_.
     and_then (if strict then validate_files rf c else Inr ()) (\<lambda>_.
     validate_reference rf c))))))))"

definition validate_names :: "connector_entry list \<Rightarrow> unit res" where
  "validate_names cs =
     (let ids = map cn_id cs; aliases = concat (map cn_aliases cs);
          bad = (\<lambda>s. s = [] \<or> s \<noteq> casefold s); overlap = filter (\<lambda>s. s \<in> set aliases) ids in
      if list_ex bad ids then Inl (ValueError ''connector IDs must be non-empty lowercase values'')
      else if \<not> distinct ids then Inl (ValueError ''connector registry contains duplicate IDs'')
      else if list_ex bad aliases then Inl (ValueError ''connector aliases must be non-empty lowercase values'')
      else if \<not> distinct aliases then Inl (ValueError ''connector registry contains duplicate aliases'')
      else if overlap \<noteq> [] then Inl (ValueError (''connector aliases conflict with IDs: '' @ join '', '' (usort overlap)))
      else Inr ())"

section \<open>The registry\<close>

definition load_registry :: "repository_files \<Rightarrow> string \<Rightarrow> json \<Rightarrow> connector_entry list res" where
  "load_registry rf mode payload =
     and_then (read_connectors payload) (\<lambda>entries.
     and_then (guard_res (mode \<notin> {''strict'', ''runtime''})
       (ValueError (''unsupported connector registry validation mode: '' @ mode))) (\<lambda>_.
     let cs = sort_key cn_id entries in
     and_then (validate_names cs) (\<lambda>_.
     map_sum id (\<lambda>_. cs) (map_res (validate_connector rf (mode = ''strict'')) cs))))"

text \<open>The lookup table; a later entry overrides an earlier one.\<close>

definition lookup_table :: "connector_entry list \<Rightarrow> (string \<times> connector_entry) list" where
  "lookup_table cs = concat (map (\<lambda>c. map (\<lambda>k. (k, c)) (cn_id c # cn_aliases c)) cs)"

definition registry_get :: "connector_entry list \<Rightarrow> string \<Rightarrow> connector_entry res" where
  "registry_get cs name = (case map_of (rev (lookup_table cs)) (casefold name) of
     None \<Rightarrow> Inl (KeyError (''unknown connector: '' @ name)) | Some c \<Rightarrow> Inr c)"

definition registry_filter :: "string option \<Rightarrow> string option \<Rightarrow> bool option \<Rightarrow> connector_entry list \<Rightarrow> connector_entry list res" where
  "registry_filter domain deployment guided cs =
     and_then (case domain of None \<Rightarrow> Inr cs
       | Some d \<Rightarrow> if d \<notin> set DOMAINS then Inl (ValueError (''unknown infrastructure domain: '' @ d))
           else Inr (filter (\<lambda>c. d \<in> set (cn_domains c)) cs)) (\<lambda>cs1.
     and_then (case deployment of None \<Rightarrow> Inr cs1
       | Some t \<Rightarrow> if t \<notin> set DEPLOYMENT_TYPES then Inl (ValueError (''unknown deployment type: '' @ t))
           else Inr (filter (\<lambda>c. t \<in> set (cn_deployment_types c)) cs1)) (\<lambda>cs2.
     Inr (case guided of None \<Rightarrow> cs2 | Some g \<Rightarrow> filter (\<lambda>c. cn_guided_setup c = g) cs2)))"

section \<open>Lookup\<close>

definition answers_to :: "connector_entry \<Rightarrow> string \<Rightarrow> bool" where
  "answers_to c k = (k = cn_id c \<or> k \<in> set (cn_aliases c))"

lemma mem_lookup_table: "(k, c) \<in> set (lookup_table cs) \<longleftrightarrow> c \<in> set cs \<and> answers_to c k"
  by (auto simp: lookup_table_def answers_to_def)

lemma lookup_keys: "map fst (lookup_table cs) = concat (map (\<lambda>c. cn_id c # cn_aliases c) cs)"
  by (simp add: lookup_table_def map_concat comp_def)

lemma mset_names: "mset (concat (map (\<lambda>c. cn_id c # cn_aliases c) cs)) = mset (map cn_id cs @ concat (map cn_aliases cs))"
  by (induction cs) auto

lemma names_distinct:
  assumes "validate_names cs = Inr u"
  shows "distinct (map fst (lookup_table cs))"
proof -
  have "distinct (map cn_id cs @ concat (map cn_aliases cs))"
    using assms by (auto simp: validate_names_def Let_def filter_empty_conv split: if_splits)
  then show ?thesis using mset_names [of cs] unfolding lookup_keys by (metis mset_eq_imp_distinct_iff)
qed

lemma registry_get_iff:
  assumes "validate_names cs = Inr u"
  shows "registry_get cs name = Inr c \<longleftrightarrow> c \<in> set cs \<and> answers_to c (casefold name)"
proof -
  have d: "distinct (map fst (rev (lookup_table cs)))" using names_distinct [OF assms] by (simp add: rev_map [symmetric])
  have "map_of (rev (lookup_table cs)) (casefold name) = Some c \<longleftrightarrow> c \<in> set cs \<and> answers_to c (casefold name)"
    using map_of_eq_Some_iff [OF d] by (simp add: mem_lookup_table)
  then show ?thesis by (auto simp: registry_get_def split: option.split)
qed

lemma load_registry_facts:
  assumes "load_registry rf mode payload = Inr cs"
  shows "validate_names cs = Inr ()" "sorted (map cn_id cs)" "c \<in> set cs \<Longrightarrow> validate_values c = Inr ()"
proof -
  obtain entries where cs: "cs = sort_key cn_id entries" and names: "validate_names cs = Inr ()"
    and all: "\<exists>us. map_res (validate_connector rf (mode = ''strict'')) cs = Inr us"
    using assms by (auto simp: load_registry_def and_then_eq_Inr map_sum_eq_Inr Let_def)
  show "validate_names cs = Inr ()" by (fact names)
  show "sorted (map cn_id cs)" unfolding cs by simp
  show "validate_values c = Inr ()" if c: "c \<in> set cs"
  proof -
    obtain us where "map_res (validate_connector rf (mode = ''strict'')) cs = Inr us" using all by blast
    from map_res_mem [OF this c] show ?thesis by (auto simp: validate_connector_def and_then_eq_Inr)
  qed
qed

text \<open>
  C33. In a registry that loads, every id and alias, in any case, resolves to exactly the one
  connector that carries it and nothing else resolves; the ids are strictly increasing, and every
  connector serves only known domains and at least one runtime mode.
\<close>

theorem registry_lookup_exact:
  assumes load: "load_registry rf mode payload = Inr cs"
  shows "(\<forall>name c. registry_get cs name = Inr c \<longleftrightarrow> c \<in> set cs \<and> answers_to c (casefold name)) \<and>
    (\<forall>c c' name. c \<in> set cs \<and> c' \<in> set cs \<and> answers_to c name \<and> answers_to c' name \<longrightarrow> c = c' \<and> casefold name = name) \<and>
    sorted_wrt (<) (map cn_id cs) \<and>
    (\<forall>c \<in> set cs. set (cn_domains c) \<subseteq> set DOMAINS \<and> cn_runtime_modes c \<noteq> [])"
proof -
  note facts = load_registry_facts [OF load]
  have get: "registry_get cs name = Inr c \<longleftrightarrow> c \<in> set cs \<and> answers_to c (casefold name)" for name c
    by (rule registry_get_iff [OF facts(1)])
  have folded: "casefold name = name" if "c \<in> set cs" "answers_to c name" for c name
    using facts(1) that by (auto simp: validate_names_def Let_def answers_to_def list_ex_iff split: if_splits)
  have "distinct (map cn_id cs)" using facts(1) by (auto simp: validate_names_def Let_def split: if_splits)
  then have "sorted_wrt (<) (map cn_id cs)" using facts(2) by (simp add: strict_sorted_iff)
  moreover have "set (cn_domains c) \<subseteq> set DOMAINS \<and> cn_runtime_modes c \<noteq> []" if "c \<in> set cs" for c
    using facts(3) [OF that] by (auto simp: validate_values_def Let_def filter_empty_conv split: if_splits)
  moreover have "c = c'" if "c \<in> set cs" "c' \<in> set cs" "answers_to c name" "answers_to c' name" for c c' name
    using get [of name c] get [of name c'] folded that by (metis Inr_inject)
  ultimately show ?thesis using get folded by blast
qed

definition sample_files :: repository_files where
  "sample_files = \<lparr>rf_is_file = (\<lambda>p. p \<in> {''docs/mist.md'', ''collectors/mist.py''}), rf_symbols = (\<lambda>p. Some [''Mist''])\<rparr>"

definition sample_payload :: json where
  "sample_payload = JObj [(''schema_version'', JInt 1), (''connectors'', JList [JObj
     [(''id'', JStr ''mist''), (''display_name'', JStr ''Mist''), (''vendor'', JStr ''Juniper''),
      (''domains'', jstrs [''wireless'', ''switching'']), (''deployment_types'', jstrs [''School'']),
      (''implementation_status'', JStr ''supported''), (''configuration_mode'', JStr ''manual''),
      (''capabilities'', JObj (map (\<lambda>k. (k, JBool True)) CAPABILITIES)), (''secret_handling'', JObj [(''scope'', JStr ''root'')]),
      (''documentation'', JStr ''docs/mist.md''), (''implementation'', JStr ''collectors/mist.py:Mist''),
      (''aliases'', jstrs [''juniper''])]])]"

lemma sample_registry_loads:
  "map_sum id (map (\<lambda>c. (cn_id c, cn_aliases c, cn_domains c))) (load_registry sample_files ''strict'' sample_payload)
     = Inr [(''mist'', [''juniper''], [''switching'', ''wireless''])]"
  by code_simp

theorem registry_lookup_exact_witness:
  "\<exists>cs c. load_registry sample_files ''strict'' sample_payload = Inr cs \<and> registry_get cs ''Juniper'' = Inr c \<and> cn_id c = ''mist''"
proof -
  obtain cs where cs: "load_registry sample_files ''strict'' sample_payload = Inr cs"
    "map (\<lambda>c. (cn_id c, cn_aliases c, cn_domains c)) cs = [(''mist'', [''juniper''], [''switching'', ''wireless''])]"
    using sample_registry_loads by (auto simp: map_sum_eq_Inr)
  then obtain c where c: "cs = [c]" "cn_id c = ''mist''" "cn_aliases c = [''juniper'']" by auto
  have "casefold ''Juniper'' = ''juniper''" by code_simp
  then have "answers_to c (casefold ''Juniper'')" using c(3) by (simp add: answers_to_def)
  then have "registry_get cs ''Juniper'' = Inr c" using registry_lookup_exact [OF cs(1)] c(1) by simp
  then show ?thesis using cs(1) c(2) by blast
qed

end
