(* ===== verification/Operator_Collection.thy ===== *)
theory Operator_Collection
  imports Operator_Properties Connector_Registry
begin

text \<open>
  The operator's collection over the connector registry: the registry fulfils the contract the
  collection relies on, so what is recorded of a collection holds for every registry that loads.
\<close>

definition metadata_of :: "connector_entry \<Rightarrow> connector_meta" where
  "metadata_of c = \<lparr>cm_id = cn_id c, cm_display_name = cn_display_name c, cm_domains = cn_domains c\<rparr>"

definition load_metadata :: "repository_files \<times> string \<Rightarrow> json \<Rightarrow> connector_meta list res" where
  "load_metadata place payload = map_sum id (map metadata_of) (load_registry (fst place) (snd place) payload)"

lemma metadata_sel [simp]: "cm_id (metadata_of c) = cn_id c" "cm_domains (metadata_of c) = cn_domains c"
  by (simp_all add: metadata_of_def)

lemma load_metadata_facts:
  assumes "load_metadata place payload = Inr ms"
  shows "distinct (map cm_id ms)" "m \<in> set ms \<Longrightarrow> [] \<notin> set (cm_domains m)"
proof -
  obtain cs where cs: "load_registry (fst place) (snd place) payload = Inr cs" and ms: "ms = map metadata_of cs"
    using assms by (auto simp: load_metadata_def map_sum_eq_Inr)
  note facts = load_registry_facts [OF cs]
  have "distinct (map cn_id cs)" using facts(1) by (auto simp: validate_names_def Let_def split: if_splits)
  then show "distinct (map cm_id ms)" by (simp add: ms comp_def)
  show "[] \<notin> set (cm_domains m)" if m: "m \<in> set ms"
  proof -
    obtain c where c: "c \<in> set cs" "cm_domains m = cn_domains c" using m by (auto simp: ms)
    have "set (cn_domains c) \<subseteq> set DOMAINS"
      using facts(3) [OF c(1)] by (auto simp: validate_values_def Let_def filter_empty_conv split: if_splits)
    then show ?thesis using c(2) by (auto simp: DOMAINS_def)
  qed
qed

interpretation registry: connector_catalogue load_metadata
  by unfold_locales (auto dest: load_metadata_facts)

text \<open>
  C30. A collection of a configured site over any connector registry that loads, whose scheduler
  returns one outcome per configured connector, always yields a record. It has one scope for each
  domain an enabled connector serves, and state history may remove entities on the word of a
  scope exactly when every enabled connector serving its domain succeeded in this collection.
\<close>

theorem collection_is_recorded:
  assumes load: "load_metadata place payload = Inr ms" and site: "dc_site dc \<noteq> []"
    and conf: "configured_connectors (dc_collectors dc) create ms = (cs, sk)"
    and ocs: "map ro_connector (execute cs) = map cm_id cs"
    and st: "\<forall>oc \<in> set (execute cs). ro_status oc \<in> {''success'', ''failed'', ''skipped''} \<and> ro_reason oc \<noteq> ''disabled''"
  shows "\<exists>r. operator_collect H create execute dc ms t0 t1 = Inr r \<and>
    (let scopes = pr_scopes (rr_run r); served = filter (\<lambda>m. enabled_in (dc_collectors dc) (cm_id m)) ms in
     set (map sc_domain scopes) = (\<Union>m \<in> set served. set (cm_domains m)) \<and>
     (\<forall>sc \<in> set scopes. scope_authoritative ''complete_only'' sc \<longleftrightarrow>
        (\<forall>m \<in> set served. sc_domain sc \<in> set (cm_domains m) \<longrightarrow>
           (\<exists>oc \<in> set (execute cs). ro_connector oc = cm_id m \<and> ro_status oc = ''success''))))"
  by (rule registry.collection_recorded [where execute = execute, OF load site conf ocs st])

definition sample_metadata :: "connector_meta list" where
  "sample_metadata = [\<lparr>cm_id = ''mist'', cm_display_name = ''Mist'', cm_domains = [''switching'', ''wireless'']\<rparr>]"

definition sample_deployment :: deployment_config where
  "sample_deployment = \<lparr>dc_identity = ''school'', dc_type = ''production'', dc_site = ''main'',
     dc_collectors = [(''mist'', JObj [(''enabled'', JBool True)])]\<rparr>"

definition sample_execute :: "connector_meta list \<Rightarrow> run_outcome list" where
  "sample_execute ms = map (\<lambda>m. \<lparr>ro_connector = cm_id m, ro_status = ''success'', ro_duration_ms = 5, ro_value = JNull,
     ro_exception_type = [], ro_reason = [], ro_diagnostic = JNull\<rparr>) ms"

lemma sample_loads: "load_metadata (sample_files, ''strict'') sample_payload = Inr sample_metadata"
  by code_simp

lemma sample_configured:
  "configured_connectors (dc_collectors sample_deployment) (\<lambda>m. Created) sample_metadata = (sample_metadata, [])"
  by code_simp

theorem collection_is_recorded_witness:
  "\<exists>r. operator_collect (\<lambda>s. s) (\<lambda>m. Created) sample_execute sample_deployment sample_metadata 0 1000000 = Inr r \<and>
     set (map sc_domain (pr_scopes (rr_run r))) = {''switching'', ''wireless''}"
proof -
  have h: "dc_site sample_deployment \<noteq> []" "map ro_connector (sample_execute sample_metadata) = map cm_id sample_metadata"
    "\<forall>oc \<in> set (sample_execute sample_metadata).
       ro_status oc \<in> {''success'', ''failed'', ''skipped''} \<and> ro_reason oc \<noteq> ''disabled''"
    by (simp_all add: sample_metadata_def sample_deployment_def sample_execute_def)
  have ms: "filter (\<lambda>m. enabled_in (dc_collectors sample_deployment) (cm_id m)) sample_metadata = sample_metadata"
    by (simp add: sample_metadata_def sample_deployment_def enabled_in_def dget_def)
  have "(\<Union>m \<in> set sample_metadata. set (cm_domains m)) = {''switching'', ''wireless''}"
    by (auto simp: sample_metadata_def)
  moreover obtain r where r: "operator_collect (\<lambda>s. s) (\<lambda>m. Created) sample_execute sample_deployment sample_metadata 0 1000000 = Inr r \<and>
    (let scopes = pr_scopes (rr_run r); served = sample_metadata in
     set (map sc_domain scopes) = (\<Union>m \<in> set served. set (cm_domains m)) \<and>
     (\<forall>sc \<in> set scopes. scope_authoritative ''complete_only'' sc \<longleftrightarrow>
        (\<forall>m \<in> set served. sc_domain sc \<in> set (cm_domains m) \<longrightarrow>
           (\<exists>oc \<in> set (sample_execute sample_metadata). ro_connector oc = cm_id m \<and> ro_status oc = ''success''))))"
    using collection_is_recorded [where dc = sample_deployment and execute = sample_execute and create = "\<lambda>m. Created"
      and cs = sample_metadata and sk = "[]" and H = "\<lambda>s. s" and ?t0.0 = 0 and ?t1.0 = 1000000,
      OF sample_loads h(1) sample_configured h(2,3), unfolded ms] by (rule exE)
  ultimately show ?thesis by (intro exI [of _ r]) (simp add: Let_def)
qed

end
