(* ===== verification/Daemon_Lock.thy ===== *)
theory Daemon_Lock
  imports Py_Number
begin

text \<open>
  \<open>analysis/operator/daemon.py\<close>, the lock of the daemon: an exclusively created file with the
  process id of its holder, and the recovery of a stale one. Every system call is a step of its
  own, so that several processes interleave; a written file keeps its identity (inode) when its
  name is removed. \<open>alive\<close> tells which process ids run.
\<close>

section \<open>Steps\<close>

text \<open>Where a process is: outside, before a system call of \<open>acquire\<close> or \<open>release\<close>, or at rest.\<close>

datatype lock_pc =
    Outside
  | Opening
  | Reading
  | Unlinking
  | Writing nat
  | Holding
  | Refused
  | Releasing

record lock_world =
  lw_file :: "(nat \<times> string) option"
  lw_next :: nat
  lw_pcs :: "(int \<times> lock_pc) list"

definition pc_of :: "lock_world \<Rightarrow> int \<Rightarrow> lock_pc" where
  "pc_of w p = (case map_of (lw_pcs w) p of None \<Rightarrow> Outside | Some c \<Rightarrow> c)"

definition set_pc :: "int \<Rightarrow> lock_pc \<Rightarrow> lock_world \<Rightarrow> lock_world" where
  "set_pc p c w = w\<lparr>lw_pcs := AList.update p c (lw_pcs w)\<rparr>"

lemma pc_of_set_pc [simp]: "pc_of (set_pc p c w) q = (if q = p then c else pc_of w q)"
  by (simp add: pc_of_def set_pc_def update_conv')

lemma set_pc_file [simp]: "lw_file (set_pc p c w) = lw_file w" "lw_next (set_pc p c w) = lw_next w"
  by (simp_all add: set_pc_def)

lemma pc_of_file [simp]: "pc_of (w\<lparr>lw_file := f\<rparr>) p = pc_of w p" "pc_of (w\<lparr>lw_next := n\<rparr>) p = pc_of w p"
  by (simp_all add: pc_of_def)

text \<open>The text of a process id, and the id read back: zero when the text is not a number.\<close>

definition pid_text :: "int \<Rightarrow> string" where
  "pid_text p = show_int p @ [CHR 0x0A]"

definition existing_pid :: "string \<Rightarrow> int" where
  "existing_pid s = (case parse_int (strip s) of None \<Rightarrow> 0 | Some k \<Rightarrow> k)"

definition is_live :: "(int \<Rightarrow> bool) \<Rightarrow> string \<Rightarrow> bool" where
  "is_live alive s = (existing_pid s \<noteq> 0 \<and> alive (existing_pid s))"

text \<open>
  The next step of a process. \<open>Outside\<close> starts \<open>acquire\<close>, \<open>Holding\<close> starts \<open>release\<close>, which
  removes the file when it names the process.
\<close>

definition lock_step :: "(int \<Rightarrow> bool) \<Rightarrow> int \<Rightarrow> lock_world \<Rightarrow> lock_world" where
  "lock_step alive p w = (case pc_of w p of
     Outside \<Rightarrow> set_pc p Opening w
   | Opening \<Rightarrow> (case lw_file w of
       None \<Rightarrow> set_pc p (Writing (lw_next w)) (w\<lparr>lw_file := Some (lw_next w, []), lw_next := lw_next w + 1\<rparr>)
     | Some f \<Rightarrow> set_pc p Reading w)
   | Reading \<Rightarrow> (case lw_file w of
       None \<Rightarrow> set_pc p Unlinking w
     | Some (n, s) \<Rightarrow> set_pc p (if is_live alive s then Refused else Unlinking) w)
   | Unlinking \<Rightarrow> set_pc p Opening (w\<lparr>lw_file := None\<rparr>)
   | Writing n \<Rightarrow> set_pc p Holding (case lw_file w of
       None \<Rightarrow> w
     | Some (m, s) \<Rightarrow> if m = n then w\<lparr>lw_file := Some (n, pid_text p)\<rparr> else w)
   | Holding \<Rightarrow> (case lw_file w of
       None \<Rightarrow> set_pc p Outside w
     | Some (n, s) \<Rightarrow> set_pc p (if strip s = show_int p then Releasing else Outside) w)
   | Refused \<Rightarrow> set_pc p Outside w
   | Releasing \<Rightarrow> set_pc p Outside (w\<lparr>lw_file := None\<rparr>))"

definition run_schedule :: "(int \<Rightarrow> bool) \<Rightarrow> int list \<Rightarrow> lock_world \<Rightarrow> lock_world" where
  "run_schedule alive sched w = fold (lock_step alive) sched w"

definition holders :: "lock_world \<Rightarrow> int list" where
  "holders w = filter (\<lambda>p. pc_of w p = Holding) (remdups (map fst (lw_pcs w)))"

definition no_lock :: lock_world where
  "no_lock = \<lparr>lw_file = None, lw_next = 0, lw_pcs = []\<rparr>"

section \<open>Whole operations\<close>

text \<open>
  \<open>acquire\<close> or \<open>release\<close> of one process without interruption: steps until it is at rest. Six
  steps suffice: start, open, read, unlink, open, write.
\<close>

definition at_rest :: "lock_pc \<Rightarrow> bool" where
  "at_rest c = (c = Outside \<or> c = Holding \<or> c = Refused)"

fun finish :: "nat \<Rightarrow> (int \<Rightarrow> bool) \<Rightarrow> int \<Rightarrow> lock_world \<Rightarrow> lock_world" where
  "finish 0 alive p w = w"
| "finish (Suc n) alive p w = (if at_rest (pc_of w p) then w else finish n alive p (lock_step alive p w))"

text \<open>One operation: a process at rest takes its first step and goes on to the end.\<close>

definition lock_operation :: "(int \<Rightarrow> bool) \<Rightarrow> int \<Rightarrow> lock_world \<Rightarrow> lock_world" where
  "lock_operation alive p w = finish 5 alive p (lock_step alive p w)"

section \<open>Process ids as text\<close>

lemma digit_char_nat: "n < 10 \<Longrightarrow> (of_char (digit_char n) :: nat) = 48 + n"
  by (simp add: digit_char_def of_char_of)

lemma show_nat_digits: "list_all is_digit (show_nat n) \<and> show_nat n \<noteq> []"
proof (induction n rule: show_nat.induct)
  case (1 n)
  have d: "is_digit (digit_char k)" if "k < 10" for k using that digit_char_nat [of k] by (simp add: is_digit_def)
  show ?case using 1 by (simp add: show_nat.simps [of n] d)
qed

lemma parse_show_nat: "foldl (\<lambda>n c. n * 10 + (of_char c - 48)) 0 (show_nat n) = n"
proof (induction n rule: show_nat.induct)
  case (1 n)
  then show ?case by (cases "n < 10") (simp_all add: show_nat.simps [of n] digit_char_nat)
qed

lemma digit_not_space: "is_digit c \<Longrightarrow> \<not> is_space c"
  by (auto simp: is_digit_def is_space_def Let_def)

lemma strip_digits:
  assumes "list_all is_digit s"
  shows "strip s = s" "is_space c \<Longrightarrow> strip (s @ [c]) = s"
proof -
  have ns: "\<not> is_space x" if "x \<in> set s" for x using assms that digit_not_space by (auto simp: list_all_iff)
  have id: "dropWhile is_space (s @ t) = (if s = [] then dropWhile is_space t else s @ t)" for t
  proof (cases s)
    case (Cons a r)
    then have "\<not> is_space a" using ns by simp
    then show ?thesis by (simp add: Cons)
  qed simp
  have rid: "dropWhile is_space (rev s) = rev s"
  proof (cases s rule: rev_cases)
    case (snoc r a)
    then have "\<not> is_space a" using ns by simp
    then show ?thesis by (simp add: snoc)
  qed simp
  show "strip s = s" using id [of "[]"] rid by (cases "s = []") (simp_all add: strip_def)
  show "is_space c \<Longrightarrow> strip (s @ [c]) = s" using id [of "[c]"] rid by (cases "s = []") (simp_all add: strip_def)
qed

lemma show_int_pos: "0 < p \<Longrightarrow> show_int p = show_nat (nat p) \<and> list_all is_digit (show_int p) \<and> show_int p \<noteq> []"
  using show_nat_digits [of "nat p"] by (simp add: show_int_def)

lemma strip_pid_text: "0 < p \<Longrightarrow> strip (pid_text p) = show_int p"
  unfolding pid_text_def using show_int_pos [of p] by (intro strip_digits(2)) (auto simp: is_space_def)

lemma existing_pid_text: "0 < p \<Longrightarrow> existing_pid (pid_text p) = p"
proof -
  assume p: "0 < p"
  obtain c cs where cs: "show_int p = c # cs" using show_int_pos [OF p] by (meson neq_Nil_conv)
  have e: "show_nat (nat p) = c # cs" using show_int_pos [OF p] cs by metis
  have "list_all is_digit (c # cs)" using show_nat_digits [of "nat p"] unfolding e by blast
  then have d: "is_digit c" "list_all is_digit (c # cs)" by simp_all
  from d have "c \<noteq> CHR ''-''" "c \<noteq> CHR ''+''" by (auto simp: is_digit_def)
  moreover have "parse_nat (c # cs) = Some (nat p)"
    using parse_show_nat [of "nat p"] d(2) unfolding e parse_nat_def by (simp del: foldl_Cons)
  ultimately have "parse_int (show_int p) = Some p" 
    using strip_digits(1) [OF d(2)] p by (simp add: parse_int_def cs)
  moreover have "parse_int (pid_text p) = parse_int (show_int p)"
    using strip_pid_text [OF p] strip_digits(1) [OF d(2)] by (simp add: parse_int_def cs)
  moreover have "parse_int (strip (pid_text p)) = parse_int (show_int p)" by (simp add: strip_pid_text [OF p])
  ultimately show ?thesis by (simp add: existing_pid_def)
qed

section \<open>Uninterrupted operations\<close>

text \<open>
  The file is absent, left by a dead process, or names the only holder, which is alive.
\<close>

definition no_holder :: "lock_world \<Rightarrow> bool" where
  "no_holder w = (\<forall>q. pc_of w q \<noteq> Holding)"

definition held_by :: "(int \<Rightarrow> bool) \<Rightarrow> lock_world \<Rightarrow> int \<Rightarrow> bool" where
  "held_by alive w h = (0 < h \<and> alive h \<and> (\<exists>n. lw_file w = Some (n, pid_text h)) \<and>
     (\<forall>q. pc_of w q = Holding \<longleftrightarrow> q = h))"

definition free_lock :: "(int \<Rightarrow> bool) \<Rightarrow> lock_world \<Rightarrow> bool" where
  "free_lock alive w = (no_holder w \<and> (case lw_file w of None \<Rightarrow> True | Some (n, s) \<Rightarrow> \<not> is_live alive s))"

definition lock_inv :: "(int \<Rightarrow> bool) \<Rightarrow> lock_world \<Rightarrow> bool" where
  "lock_inv alive w = ((\<forall>q. at_rest (pc_of w q)) \<and> (free_lock alive w \<or> (\<exists>h. held_by alive w h)))"

lemma live_pid_text: "0 < h \<Longrightarrow> is_live alive (pid_text h) = alive h"
  by (simp add: is_live_def existing_pid_text)

lemma lock_operation_steps:
  "lock_operation alive p w = finish (Suc (Suc (Suc (Suc (Suc 0))))) alive p (lock_step alive p w)"
  by (simp add: lock_operation_def eval_nat_numeral)

text \<open>The runs of the four cases.\<close>

definition created_by :: "int \<Rightarrow> lock_world \<Rightarrow> lock_world" where
  "created_by p w = set_pc p (Writing (lw_next w)) (w\<lparr>lw_file := Some (lw_next w, []), lw_next := lw_next w + 1\<rparr>)"

definition taken_by :: "int \<Rightarrow> lock_world \<Rightarrow> lock_world" where
  "taken_by p w = set_pc p Holding ((created_by p w)\<lparr>lw_file := Some (lw_next w, pid_text p)\<rparr>)"

lemma open_free: "pc_of w p = Opening \<Longrightarrow> lw_file w = None \<Longrightarrow>
    finish (Suc (Suc n)) alive p w = finish n alive p (taken_by p w)"
  by (simp add: lock_step_def at_rest_def created_by_def taken_by_def)

lemma taken_rest: "finish n alive p (taken_by p w) = taken_by p w"
  by (cases n) (simp_all add: taken_by_def at_rest_def)

lemma taken_facts: "lw_file (taken_by p w) = Some (lw_next w, pid_text p)"
  "pc_of (taken_by p w) q = (if q = p then Holding else pc_of w q)"
  by (simp_all add: taken_by_def created_by_def)

lemma acquire_absent:
  assumes "lw_file w = None" "pc_of w p = Outside"
  shows "lock_operation alive p w = taken_by p (set_pc p Opening w)"
proof -
  have "lock_step alive p w = set_pc p Opening w" by (simp add: lock_step_def assms)
  then show ?thesis using assms(1) by (simp only: lock_operation_steps) (simp add: open_free taken_rest del: finish.simps)
qed

lemma acquire_stale:
  assumes "lw_file w = Some (n, s)" "\<not> is_live alive s" "pc_of w p = Outside"
  shows "\<exists>w'. lock_operation alive p w = taken_by p w' \<and> (\<forall>q. q \<noteq> p \<longrightarrow> pc_of w' q = pc_of w q)"
proof -
  let ?w1 = "set_pc p Opening w" let ?w2 = "set_pc p Reading ?w1" let ?w3 = "set_pc p Unlinking ?w2"
  let ?w4 = "set_pc p Opening (?w3\<lparr>lw_file := None\<rparr>)"
  have "lock_step alive p w = ?w1" "lock_step alive p ?w1 = ?w2" "lock_step alive p ?w2 = ?w3"
    "lock_step alive p ?w3 = ?w4" by (simp_all add: lock_step_def assms)
  then have "lock_operation alive p w = finish (Suc (Suc 0)) alive p ?w4"
    by (simp add: lock_operation_steps at_rest_def del: finish.simps(1))
  also have "\<dots> = taken_by p ?w4" by (simp add: open_free taken_rest del: finish.simps)
  finally show ?thesis by (intro exI [of _ ?w4]) simp
qed

lemma acquire_live:
  assumes "lw_file w = Some (n, s)" "is_live alive s" "pc_of w p = Outside"
  shows "lock_operation alive p w = set_pc p Refused (set_pc p Reading (set_pc p Opening w))"
proof -
  let ?w1 = "set_pc p Opening w" let ?w2 = "set_pc p Reading ?w1" let ?w3 = "set_pc p Refused ?w2"
  have "lock_step alive p w = ?w1" "lock_step alive p ?w1 = ?w2" "lock_step alive p ?w2 = ?w3"
    by (simp_all add: lock_step_def assms)
  then show ?thesis by (simp add: lock_operation_steps at_rest_def)
qed

lemma release_own:
  assumes "lw_file w = Some (n, pid_text p)" "0 < p" "pc_of w p = Holding"
  shows "lock_operation alive p w = set_pc p Outside ((set_pc p Releasing w)\<lparr>lw_file := None\<rparr>)"
proof -
  let ?w1 = "set_pc p Releasing w"
  have "lock_step alive p w = ?w1" "lock_step alive p ?w1 = set_pc p Outside (?w1\<lparr>lw_file := None\<rparr>)"
    by (simp_all add: lock_step_def assms strip_pid_text)
  then show ?thesis by (simp add: lock_operation_steps at_rest_def)
qed

lemma leave_refused: "pc_of w p = Refused \<Longrightarrow> lock_operation alive p w = set_pc p Outside w"
  by (simp add: lock_operation_steps lock_step_def at_rest_def)

lemma lock_inv_step:
  assumes inv: "lock_inv alive w" and p: "0 < p" "alive p"
  shows "lock_inv alive (lock_operation alive p w)"
proof -
  have rest: "at_rest (pc_of w q)" for q using inv by (simp add: lock_inv_def)
  then consider (outside) "pc_of w p = Outside" | (holding) "pc_of w p = Holding" | (refused) "pc_of w p = Refused"
    unfolding at_rest_def by blast
  then show ?thesis
  proof cases
    case outside
    show ?thesis
    proof (cases "free_lock alive w")
      case True
      then obtain w' where w': "lock_operation alive p w = taken_by p w'" "\<And>q. q \<noteq> p \<Longrightarrow> pc_of w' q = pc_of w q"
        using acquire_absent [OF _ outside] acquire_stale [OF _ _ outside]
        by (fastforce simp: free_lock_def split: option.splits)
      have "held_by alive (taken_by p w') p"
        using True p w'(2) by (auto simp: held_by_def taken_facts free_lock_def no_holder_def)
      then show ?thesis using rest w' by (auto simp: lock_inv_def taken_facts at_rest_def)
    next
      case False
      then obtain h where h: "held_by alive w h" using inv by (auto simp: lock_inv_def)
      then obtain n where f: "lw_file w = Some (n, pid_text h)" "is_live alive (pid_text h)"
        by (auto simp: held_by_def live_pid_text)
      have "pc_of w h = Holding" using h by (simp add: held_by_def)
      then have "p \<noteq> h" using outside by auto
      then have "held_by alive (lock_operation alive p w) h"
        using h by (auto simp: acquire_live [OF f outside] held_by_def)
      then show ?thesis using rest by (auto simp: lock_inv_def acquire_live [OF f outside] at_rest_def)
    qed
  next
    case holding
    then have "\<not> free_lock alive w" by (auto simp: free_lock_def no_holder_def)
    then obtain h where h: "held_by alive w h" using inv by (auto simp: lock_inv_def)
    with holding have "h = p" by (auto simp: held_by_def)
    with h obtain n where f: "lw_file w = Some (n, pid_text p)" by (auto simp: held_by_def)
    have "free_lock alive (lock_operation alive p w)"
      using h \<open>h = p\<close> by (auto simp: release_own [OF f p(1) holding] free_lock_def no_holder_def held_by_def)
    then show ?thesis using rest by (auto simp: lock_inv_def release_own [OF f p(1) holding] at_rest_def)
  next
    case refused
    have same: "pc_of (set_pc p Outside w) q = Holding \<longleftrightarrow> pc_of w q = Holding" for q using refused by simp
    then show ?thesis using inv
      unfolding leave_refused [OF refused] lock_inv_def free_lock_def no_holder_def held_by_def
      by (simp add: at_rest_def)
  qed
qed

lemma lock_inv_run:
  "lock_inv alive w \<Longrightarrow> \<forall>p \<in> set ps. 0 < p \<and> alive p \<Longrightarrow> lock_inv alive (fold (lock_operation alive) ps w)"
  by (induction ps arbitrary: w) (simp_all add: lock_inv_step)

lemma lock_inv_holders:
  assumes "lock_inv alive w" "p \<in> set (holders w)" "q \<in> set (holders w)"
  shows "p = q \<and> (\<exists>n. lw_file w = Some (n, pid_text p))"
  using assms by (auto simp: lock_inv_def holders_def free_lock_def no_holder_def held_by_def)

text \<open>
  C31. Uninterrupted \<open>acquire\<close> and \<open>release\<close> operations of living daemons exclude each other: from a
  directory without a lock, or with one a dead process left, at most one daemon ever holds the
  lock, and the file names it.
\<close>

theorem whole_operations_exclude:
  assumes "case f of None \<Rightarrow> True | Some (n, s) \<Rightarrow> \<not> is_live alive s" "\<forall>p \<in> set ps. 0 < p \<and> alive p"
    "w = fold (lock_operation alive) ps \<lparr>lw_file = f, lw_next = k, lw_pcs = []\<rparr>"
    "p \<in> set (holders w)" "q \<in> set (holders w)"
  shows "p = q \<and> (\<exists>n. lw_file w = Some (n, pid_text p))"
proof -
  have "lock_inv alive \<lparr>lw_file = f, lw_next = k, lw_pcs = []\<rparr>"
    using assms(1) by (simp add: lock_inv_def free_lock_def no_holder_def pc_of_def at_rest_def)
  then have "lock_inv alive w" unfolding assms(3) by (rule lock_inv_run) (rule assms(2))
  then show ?thesis using assms(4,5) by (rule lock_inv_holders)
qed

definition stale_world :: lock_world where
  "stale_world = \<lparr>lw_file = Some (7, pid_text 99), lw_next = 8, lw_pcs = []\<rparr>"

theorem whole_operations_exclude_witness:
  "holders (fold (lock_operation (\<lambda>p. p < 10)) [1, 2, 2, 1, 3] stale_world) = [3] \<and>
   (\<exists>n. lw_file (fold (lock_operation (\<lambda>p. p < 10)) [1, 2, 2, 1, 3] stale_world) = Some (n, pid_text 3))"
proof -
  have h: "holders (fold (lock_operation (\<lambda>p. p < 10)) [1, 2, 2, 1, 3] stale_world) = [3]" by code_simp
  have "\<not> is_live (\<lambda>p. p < 10) (pid_text 99)" by (simp add: live_pid_text)
  then show ?thesis
    using whole_operations_exclude [where f = "Some (7, pid_text 99)" and alive = "\<lambda>p. p < 10"
        and ps = "[1, 2, 2, 1, 3]" and k = 8 and p = 3 and q = 3, OF _ _ refl] h
    unfolding stale_world_def by auto
qed

section \<open>Interleaved operations\<close>

text \<open>
  The steps of two acquisitions can interleave so that both daemons hold the lock. With no
  file there, the second finds the file between its creation and the writing of the process id,
  takes it for a stale one and removes it. With a stale file, both read it before the first
  removes it, and the second removes the file of the first.
\<close>

theorem interleaved_acquisitions_both_hold:
  "holders (run_schedule (\<lambda>p. p < 10) [1, 1, 2, 2, 2, 2, 2, 2, 1] no_lock) = [1, 2] \<and>
   holders (run_schedule (\<lambda>p. p < 10) [1, 1, 1, 2, 2, 2, 1, 1, 1, 2, 2, 2] stale_world) = [1, 2]"
  by code_simp

end
