(* ===== verification/Daemon_State.thy ===== *)
theory Daemon_State
  imports Py_Float Sites
begin

text \<open>
  \<open>analysis/operator/daemon.py\<close>, the state document of the daemon: its writes, the snapshot that
  notices a dead daemon, the changes the running daemon makes and the start in the background.
  The stored document is an argument and a result (\<open>None\<close> when there is none to read), \<open>alive\<close>
  tells which process ids run, instants are microseconds.
\<close>

section \<open>The store\<close>

definition initial_state :: dict where
  "initial_state = [(''schema_version'', JInt 1), (''status'', JStr ''Stopped''), (''pid'', JNull), (''started_at'', JNull),
     (''last_heartbeat'', JNull), (''last_successful_collection'', JNull), (''current_collection'', JList [])]"

definition state_read :: "json option \<Rightarrow> dict" where
  "state_read stored = (case stored of Some (JObj d) \<Rightarrow> d | _ \<Rightarrow> [])"

definition state_write :: "dict \<Rightarrow> json option \<Rightarrow> dict res" where
  "state_write changes stored =
     (let v = dmerge (dmerge initial_state (state_read stored)) changes in
      map_sum id (\<lambda>cs. dset v ''current_collection'' (jstrs cs)) (sorted_strs (dget v ''current_collection'')))"

definition parse_instant :: "json \<Rightarrow> datetime option" where
  "parse_instant v = fromisoformat (replace_z (py_str v))"

definition pid_running :: "(int \<Rightarrow> bool) \<Rightarrow> json \<Rightarrow> bool" where
  "pid_running alive v = (case py_int v of Inl e \<Rightarrow> False | Inr p \<Rightarrow> alive p)"

definition active_status :: "json \<Rightarrow> bool res" where
  "active_status v = (case v of JStr s \<Rightarrow> Inr (s = ''Running'' \<or> s = ''Starting'')
     | JList _ \<Rightarrow> Inl (TypeError ''unhashable type'') | JObj _ \<Rightarrow> Inl (TypeError ''unhashable type'') | _ \<Rightarrow> Inr False)"

text \<open>A start is pending for thirty seconds after its heartbeat, while no process id is known.\<close>

definition startup_pending :: "int \<Rightarrow> int \<Rightarrow> dict \<Rightarrow> bool res" where
  "startup_pending tz now d =
     (if dget d ''status'' = JStr ''Starting'' \<and> \<not> truthy (dget d ''pid'') then
        (case parse_instant (dget d ''last_heartbeat'') of None \<Rightarrow> Inr False
         | Some t \<Rightarrow> map_sum id (\<lambda>u. now - u \<le> 30 * 1000000) (to_utc t tz))
      else Inr False)"

text \<open>\<open>max(0, int(delta.total_seconds()))\<close>.\<close>

definition whole_seconds :: "int \<Rightarrow> int" where
  "whole_seconds us = (if us \<le> 0 then 0 else (let x = div_double (us, 1) (1000000, 1) in fst x div snd x))"

definition uptime :: "int \<Rightarrow> int \<Rightarrow> dict \<Rightarrow> int res" where
  "uptime tz now d = (case parse_instant (dget d ''started_at'') of None \<Rightarrow> Inr 0
     | Some t \<Rightarrow> and_then (active_status (dget d ''status'')) (\<lambda>active.
         if active then map_sum id (\<lambda>u. whole_seconds (now - u)) (to_utc t tz) else Inr 0))"

definition stopped_changes :: dict where
  "stopped_changes = [(''status'', JStr ''Stopped''), (''pid'', JNull), (''current_collection'', JList [])]"

text \<open>The snapshot and the document it leaves: a dead daemon is written down as stopped.\<close>

definition snapshot_state :: "(int \<Rightarrow> bool) \<Rightarrow> int \<Rightarrow> int \<Rightarrow> json option \<Rightarrow> (dict \<times> json option) res" where
  "snapshot_state alive tz now stored =
     (let d = dmerge initial_state (state_read stored) in
      and_then (startup_pending tz now d) (\<lambda>pending.
      and_then (active_status (dget d ''status'')) (\<lambda>active.
      and_then (if active \<and> \<not> pending \<and> \<not> pid_running alive (dget d ''pid'')
          then map_sum id (\<lambda>v. (v, Some (JObj v))) (state_write stopped_changes stored)
          else Inr (d, stored)) (\<lambda>(v, stored').
      map_sum id (\<lambda>n. (dset v ''uptime_seconds'' (JInt n), stored')) (uptime tz now v)))))"

section \<open>The daemon\<close>

datatype daemon_event =
    Started string
  | Running
  | Heartbeat string
  | Collecting string string
  | Collected string string bool
  | Stopped_at string

text \<open>\<open>_current\<close> and the stored document; \<open>pid\<close> is the daemon's own.\<close>

record daemon =
  dn_current :: "string list"
  dn_stored :: "json option"

definition daemon_changes :: "int \<Rightarrow> daemon_event \<Rightarrow> string list \<Rightarrow> string list \<times> dict" where
  "daemon_changes pid e current = (case e of
     Started t \<Rightarrow> (current, [(''status'', JStr ''Starting''), (''pid'', JInt pid), (''started_at'', JStr t),
       (''last_heartbeat'', JStr t), (''current_collection'', JList [])])
   | Running \<Rightarrow> (current, [(''status'', JStr ''Running''), (''pid'', JInt pid)])
   | Heartbeat t \<Rightarrow> (current, [(''status'', JStr ''Running''), (''pid'', JInt pid), (''last_heartbeat'', JStr t),
       (''current_collection'', jstrs current)])
   | Collecting c t \<Rightarrow> (let now = List.insert c current in (now, [(''status'', JStr ''Running''), (''pid'', JInt pid),
       (''last_heartbeat'', JStr t), (''current_collection'', jstrs now)]))
   | Collected c t ok \<Rightarrow> (let now = removeAll c current in (now, [(''status'', JStr ''Running''), (''pid'', JInt pid),
       (''last_heartbeat'', JStr t), (''current_collection'', jstrs now)] @
       (if ok then [(''last_successful_collection'', JStr t)] else [])))
   | Stopped_at t \<Rightarrow> ([], [(''status'', JStr ''Stopped''), (''pid'', JNull), (''last_heartbeat'', JStr t),
       (''current_collection'', JList [])]))"

definition daemon_step :: "int \<Rightarrow> daemon_event \<Rightarrow> daemon \<Rightarrow> daemon res" where
  "daemon_step pid e dn = (case daemon_changes pid e (dn_current dn) of (current, changes) \<Rightarrow>
     map_sum id (\<lambda>v. \<lparr>dn_current = current, dn_stored = Some (JObj v)\<rparr>) (state_write changes (dn_stored dn)))"

text \<open>\<open>start_background\<close>: refused while a daemon runs; \<open>child\<close> is the process id of the started one.\<close>

definition start_background :: "(int \<Rightarrow> bool) \<Rightarrow> int \<Rightarrow> int \<Rightarrow> int \<Rightarrow> json option \<Rightarrow> (int option \<times> json option) res" where
  "start_background alive tz now child stored =
     and_then (snapshot_state alive tz now stored) (\<lambda>(v, stored1).
     if dget v ''status'' \<in> {JStr ''Running'', JStr ''Starting''} then Inr (None, stored1)
     else and_then (state_write [(''status'', JStr ''Starting''), (''pid'', JNull), (''started_at'', JStr (isoformat_z now)),
            (''last_heartbeat'', JStr (isoformat_z now)), (''current_collection'', JList [])] stored1) (\<lambda>v2.
          and_then (state_write [(''pid'', JInt child)] (Some (JObj v2))) (\<lambda>v3.
          Inr (Some child, Some (JObj v3)))))"

section \<open>A running daemon is not started again\<close>

lemma dget_dmerged:
  assumes "distinct (map fst b)"
  shows "dget (dmerge a b) k = (if dhas b k then dget b k else dget a k)"
  using assms by (auto simp: dget_def dhas_def map_of_dmerge_distinct map_add_def split: option.split)

lemma state_write_dget:
  assumes "state_write changes stored = Inr v" and "distinct (map fst changes)" and "k \<noteq> ''current_collection''"
  shows "dget v k = (if dhas changes k then dget changes k else dget (dmerge initial_state (state_read stored)) k)"
  using assms by (auto simp: state_write_def Let_def map_sum_eq_Inr dget_dmerged)

lemma initial_distinct: "distinct (map fst initial_state)"
  by (simp add: initial_state_def)

lemma state_write_distinct: "state_write changes stored = Inr v \<Longrightarrow> distinct (map fst v)"
  by (auto simp: state_write_def Let_def map_sum_eq_Inr intro!: distinct_dset distinct_dmerge initial_distinct)

text \<open>The stored document names the process as starting or running.\<close>

definition claims :: "int \<Rightarrow> json option \<Rightarrow> bool" where
  "claims p stored = (\<exists>d. stored = Some (JObj d) \<and> distinct (map fst d) \<and> dhas d ''status'' \<and> dhas d ''pid'' \<and>
     dget d ''status'' \<in> {JStr ''Running'', JStr ''Starting''} \<and> dget d ''pid'' = JInt p)"

definition quits :: "daemon_event \<Rightarrow> bool" where
  "quits e = (case e of Stopped_at t \<Rightarrow> True | _ \<Rightarrow> False)"

lemma daemon_changes_status:
  assumes "\<not> quits e" "daemon_changes p e current = (current', changes)"
  shows "distinct (map fst changes)" "dhas changes ''status''" "dhas changes ''pid''" "dget changes ''pid'' = JInt p"
    "dget changes ''status'' \<in> {JStr ''Running'', JStr ''Starting''}"
  using assms by (auto simp: daemon_changes_def quits_def dget_def dhas_def Let_def split: daemon_event.splits if_splits)

lemma dhas_state_write:
  assumes "state_write changes stored = Inr v" and "dhas changes k"
  shows "dhas v k"
proof -
  have "map_of (rev changes) k \<noteq> None" using assms(2) by (auto simp: dhas_def map_of_eq_None_iff)
  then show ?thesis using assms(1)
    by (auto simp: state_write_def Let_def map_sum_eq_Inr dhas_def map_of_dset map_of_dmerge map_add_def split: option.splits)
qed

lemma daemon_step_claims:
  assumes "daemon_step p e dn = Inr dn'" "\<not> quits e"
  shows "claims p (dn_stored dn')"
proof -
  obtain current changes v where c: "daemon_changes p e (dn_current dn) = (current, changes)"
    and v: "state_write changes (dn_stored dn) = Inr v" and dn': "dn_stored dn' = Some (JObj v)"
    using assms(1) by (auto simp: daemon_step_def map_sum_eq_Inr split: prod.splits)
  note ch = daemon_changes_status [OF assms(2) c]
  show ?thesis unfolding claims_def dn'
    using state_write_dget [OF v ch(1)] state_write_distinct [OF v] dhas_state_write [OF v] ch(2-5) by auto
qed

lemma daemon_run_claims:
  assumes "fold_res (daemon_step p) es dn = Inr dn'" "claims p (dn_stored dn)" "\<forall>e \<in> set es. \<not> quits e"
  shows "claims p (dn_stored dn')"
  by (rule fold_res_invariant [where I = "\<lambda>dn. claims p (dn_stored dn)", OF assms(1,2)])
     (use assms(3) daemon_step_claims in blast)

lemma start_claims:
  assumes "start_background alive tz now child stored = Inr (Some p, s1)"
  shows "p = child \<and> claims child s1"
proof -
  obtain v2 v3 s0 where v2: "state_write [(''status'', JStr ''Starting''), (''pid'', JNull), (''started_at'', JStr (isoformat_z now)),
        (''last_heartbeat'', JStr (isoformat_z now)), (''current_collection'', JList [])] s0 = Inr v2"
    and v3: "state_write [(''pid'', JInt child)] (Some (JObj v2)) = Inr v3" and s1: "s1 = Some (JObj v3)" and p: "p = child"
    using assms by (auto simp: start_background_def and_then_eq_Inr split: if_splits)
  have d2: "dget v2 ''status'' = JStr ''Starting''" using state_write_dget [OF v2, of "''status''"] by (simp add: dget_def dhas_def)
  have has2: "dhas v2 ''status''" by (rule dhas_state_write [OF v2]) (simp add: dhas_def)
  have "dget v3 ''status'' = dget (dmerge initial_state v2) ''status''" "dget v3 ''pid'' = JInt child"
    using state_write_dget [OF v3] by (simp_all add: dhas_def dget_def state_read_def)
  moreover have "dget (dmerge initial_state v2) ''status'' = JStr ''Starting''"
    using dget_dmerged [OF state_write_distinct [OF v2]] has2 d2 by simp
  moreover have "dhas v3 ''status''"
    using calculation unfolding dget_def dhas_def by (metis json.distinct(7) option.simps(4))
  moreover have "dhas v3 ''pid''" by (rule dhas_state_write [OF v3]) (simp add: dhas_def)
  ultimately show ?thesis using s1 p state_write_distinct [OF v3] by (simp add: claims_def)
qed

lemma claimed_start_refused:
  assumes "claims p stored" "alive p" "p \<noteq> 0"
  shows "start_background alive tz now child stored \<noteq> Inr (Some c, s2)"
proof
  assume "start_background alive tz now child stored = Inr (Some c, s2)"
  then obtain v s1 where snap: "snapshot_state alive tz now stored = Inr (v, s1)"
    and st: "dget v ''status'' \<notin> {JStr ''Running'', JStr ''Starting''}"
    by (auto simp: start_background_def and_then_eq_Inr split: if_splits)
  obtain d where d: "stored = Some (JObj d)" "distinct (map fst d)" "dhas d ''status''" "dhas d ''pid''"
    "dget d ''status'' \<in> {JStr ''Running'', JStr ''Starting''}" "dget d ''pid'' = JInt p" using assms(1) by (auto simp: claims_def)
  have m: "dget (dmerge initial_state d) ''status'' = dget d ''status''" "dget (dmerge initial_state d) ''pid'' = JInt p"
    using dget_dmerged [OF d(2)] d(3,4,6) by simp_all
  have "pid_running alive (JInt p)" using assms(2) by (simp add: pid_running_def)
  then have "\<exists>n. v = dset (dmerge initial_state d) ''uptime_seconds'' n"
    using snap by (auto simp: snapshot_state_def and_then_eq_Inr map_sum_eq_Inr Let_def state_read_def d(1) m split: if_splits)
  then show False using st m(1) d(5) by auto
qed

text \<open>
  From the background start of the daemon on, through every start, heartbeat and collection
  event it writes to its state document, and as long as it has not stopped and its process is
  alive, no second background start goes ahead.
\<close>

theorem running_daemon_not_started_again:
  assumes start: "start_background alive tz now child stored = Inr (Some p, s1)"
    and run: "fold_res (daemon_step p) es \<lparr>dn_current = [], dn_stored = s1\<rparr> = Inr dn" "\<forall>e \<in> set es. \<not> quits e"
    and live: "alive' p" "p \<noteq> 0"
  shows "start_background alive' tz' now' child' (dn_stored dn) \<noteq> Inr (Some c, s2)"
proof -
  have "claims p s1" using start_claims [OF start] by simp
  then have "claims p (dn_stored dn)" using daemon_run_claims [OF run(1) _ run(2)] by simp
  then show ?thesis using live by (rule claimed_start_refused)
qed

definition started_daemon :: "json option" where
  "started_daemon = (case start_background (\<lambda>p. False) 0 0 42 None of Inr (Some p, s) \<Rightarrow> s | _ \<Rightarrow> None)"

definition collecting_daemon :: "json option" where
  "collecting_daemon = (case fold_res (daemon_step 42) [Started ''t0'', Running, Collecting ''snmp'' ''t1'', Heartbeat ''t2'']
     \<lparr>dn_current = [], dn_stored = started_daemon\<rparr> of Inr dn \<Rightarrow> dn_stored dn | _ \<Rightarrow> None)"

theorem running_daemon_not_started_again_witness:
  "\<nexists>c s. start_background (\<lambda>p. p = 42) 0 9000000 43 collecting_daemon = Inr (Some c, s)"
proof -
  have s: "start_background (\<lambda>p. False) 0 0 42 None = Inr (Some 42, started_daemon)" by code_simp
  have "(case fold_res (daemon_step 42) [Started ''t0'', Running, Collecting ''snmp'' ''t1'', Heartbeat ''t2'']
     \<lparr>dn_current = [], dn_stored = started_daemon\<rparr> of Inr dn \<Rightarrow> True | _ \<Rightarrow> False)" by code_simp
  then obtain dn where dn: "fold_res (daemon_step 42) [Started ''t0'', Running, Collecting ''snmp'' ''t1'', Heartbeat ''t2'']
     \<lparr>dn_current = [], dn_stored = started_daemon\<rparr> = Inr dn" by (auto split: sum.splits)
  then have "collecting_daemon = dn_stored dn" by (simp add: collecting_daemon_def)
  then show ?thesis
    using running_daemon_not_started_again [OF s dn, of "\<lambda>p. p = 42"] by (simp add: quits_def)
qed

end
