(* ===== verification/Capabilities.thy ===== *)
theory Capabilities
  imports ITP_Prelude
begin

text \<open>
  \<open>collectors/capabilities.py\<close> and \<open>collectors/aruba/capabilities.py\<close>: the declared capabilities
  of the collectors, their state by scheduler and inventory evidence, and the manifest built of
  them. The configuration, the scheduler's document and the source runs are arguments.
\<close>

section \<open>Declarations\<close>

definition SUPPORT_STATES :: "string list" where
  "SUPPORT_STATES = [''supported'', ''unsupported'', ''conditional'', ''unknown'']"

text \<open>In their sorted order, as the counts list them.\<close>

definition COLLECTION_STATES :: "string list" where
  "COLLECTION_STATES = [''collected'', ''disabled'', ''failed'', ''not_applicable'', ''not_yet_collected'',
     ''partial'', ''unavailable'']"

record capability =
  ca_id :: string
  ca_label :: string
  ca_support :: string
  ca_measurements :: "string list"
  ca_fields :: "string list"
  ca_services :: "string list"
  ca_panels :: "string list"
  ca_condition :: string
  ca_reason :: string
  ca_phase :: string
  ca_health_impact :: bool

definition capability_of :: "string \<Rightarrow> string \<Rightarrow> string \<Rightarrow> capability" where
  "capability_of i label support = \<lparr>ca_id = i, ca_label = label, ca_support = support, ca_measurements = [],
     ca_fields = [], ca_services = [], ca_panels = [], ca_condition = [], ca_reason = [],
     ca_phase = ''collection'', ca_health_impact = True\<rparr>"

definition capability_post_init :: "capability \<Rightarrow> capability res" where
  "capability_post_init c =
     (if ca_support c \<notin> set SUPPORT_STATES then
        Inl (ValueError (''invalid support state for '' @ ca_id c @ '': '' @ ca_support c))
      else if ca_support c = ''conditional'' \<and> ca_condition c = [] then
        Inl (ValueError (''conditional capability '' @ ca_id c @ '' requires a condition''))
      else if ca_support c = ''unsupported'' \<and> ca_reason c = [] then
        Inl (ValueError (''unsupported capability '' @ ca_id c @ '' requires a reason''))
      else Inr c)"

definition aruba_capabilities :: "capability list" where
  "aruba_capabilities = [
    (capability_of ''account'' ''Aruba Central account'' ''supported'')\<lparr>ca_services := [''Monitoring''],
      ca_phase := ''discovery''\<rparr>,
    (capability_of ''groups'' ''Aruba Central groups'' ''supported'')\<lparr>ca_services := [''Switching'',
      ''Wireless''], ca_phase := ''discovery''\<rparr>,
    (capability_of ''sites'' ''Aruba Central sites'' ''supported'')\<lparr>ca_services := [''Switching'',
      ''Wireless''], ca_phase := ''discovery''\<rparr>,
    (capability_of ''inventory'' ''Device inventory'' ''conditional'')\<lparr>ca_measurements := [''device''],
      ca_services := [''Switching'', ''Wireless''], ca_condition :=
      ''At least one device is available to the Aruba Central API.''\<rparr>,
    (capability_of ''access_point_inventory'' ''Access point inventory'' ''supported'')\<lparr>ca_measurements
      := [''device''], ca_services := [''Wireless'']\<rparr>,
    (capability_of ''switch_inventory'' ''Switch inventory'' ''supported'')\<lparr>ca_measurements :=
      [''device''], ca_services := [''Switching''], ca_health_impact := False\<rparr>,
    (capability_of ''gateway_inventory'' ''Gateway inventory'' ''supported'')\<lparr>ca_measurements :=
      [''device''], ca_services := [''Internet''], ca_health_impact := False\<rparr>,
    (capability_of ''device_health'' ''Device health'' ''conditional'')\<lparr>ca_measurements :=
      [''availability''], ca_fields := [''available'', ''status''], ca_services := [''Switching'', ''Wireless''],
      ca_condition := ''At least one device is available to the Aruba Central API.''\<rparr>,
    (capability_of ''firmware'' ''Device firmware'' ''conditional'')\<lparr>ca_measurements := [''device''],
      ca_fields := [''firmware''], ca_services := [''Switching'', ''Wireless''], ca_condition :=
      ''Discovered devices expose firmware metadata.''\<rparr>,
    (capability_of ''alerts'' ''Aruba Central alerts'' ''conditional'')\<lparr>ca_services := [''Switching'',
      ''Wireless''], ca_condition := ''The API role permits access to the alerts endpoint.'', ca_health_impact :=
      False\<rparr>,
    (capability_of ''client_counts'' ''Wireless client counts'' ''conditional'')\<lparr>ca_measurements :=
      [''wireless''], ca_fields := [''clients_connected''], ca_services := [''Wireless''], ca_condition :=
      ''At least one access point exposes a client count.'', ca_health_impact := False\<rparr>,
    (capability_of ''collector_diagnostics'' ''Collector diagnostics'' ''supported'')\<lparr>ca_measurements :=
      [''collector_health''], ca_services := [''Monitoring'']\<rparr>]"

definition paloalto_capabilities :: "capability list" where
  "paloalto_capabilities = [
    (capability_of ''device_inventory'' ''Device inventory'' ''supported'')\<lparr>ca_measurements :=
      [''device''], ca_services := [''Security''], ca_panels := [''Overview'', ''Inventory'']\<rparr>,
    (capability_of ''availability'' ''Device availability'' ''supported'')\<lparr>ca_measurements :=
      [''availability''], ca_services := [''Security''], ca_panels := [''Overall Health'']\<rparr>,
    (capability_of ''firewall_health'' ''Firewall health'' ''supported'')\<lparr>ca_measurements :=
      [''firewall''], ca_services := [''Security''], ca_panels := [''Firewall Health'']\<rparr>,
    (capability_of ''ha_status'' ''HA status'' ''supported'')\<lparr>ca_measurements := [''firewall''],
      ca_fields := [''ha_state''], ca_services := [''Security''], ca_panels := [''HA Status'']\<rparr>,
    (capability_of ''performance'' ''Resource performance'' ''supported'')\<lparr>ca_measurements :=
      [''performance''], ca_fields := [''management_cpu_percent'', ''dataplane_cpu_percent'',
      ''memory_used_percent''], ca_panels := [''Resources'']\<rparr>,
    (capability_of ''active_sessions'' ''Active sessions'' ''supported'')\<lparr>ca_measurements :=
      [''performance''], ca_fields := [''active_sessions'', ''max_sessions'', ''session_utilisation_percent''],
      ca_panels := [''Sessions'']\<rparr>,
    (capability_of ''interfaces'' ''Interface inventory'' ''supported'')\<lparr>ca_measurements :=
      [''interface''], ca_services := [''Internet''], ca_panels := [''Interface Status'',
      ''Interface Inventory'']\<rparr>,
    (capability_of ''wan_classification'' ''Authoritative WAN classification''
      ''conditional'')\<lparr>ca_measurements := [''interface''], ca_fields := [''is_wan''], ca_services :=
      [''Internet''], ca_panels := [''WAN''], ca_condition :=
      ''At least one interface is authoritatively classified as WAN.''\<rparr>,
    (capability_of ''wan_throughput'' ''WAN throughput'' ''conditional'')\<lparr>ca_measurements :=
      [''interface''], ca_fields := [''rx_bps'', ''tx_bps''], ca_services := [''Internet''], ca_panels :=
      [''WAN Throughput''], ca_condition := ''A classified WAN interface exposes traffic counters.''\<rparr>,
    (capability_of ''interface_fault_counters'' ''Interface fault counters''
      ''supported'')\<lparr>ca_measurements := [''interface''], ca_fields := [''rx_errors'', ''tx_errors''],
      ca_panels := [''Interface Errors'']\<rparr>,
    (capability_of ''subscriptions'' ''Subscriptions'' ''supported'')\<lparr>ca_measurements := [''license''],
      ca_services := [''Security''], ca_panels := [''Licensing'']\<rparr>,
    (capability_of ''content_application'' ''Application content version'' ''supported'')\<lparr>ca_measurements
      := [''content_package''], ca_services := [''Security''], ca_panels := [''Content Updates'']\<rparr>,
    (capability_of ''content_threat'' ''Threat content version'' ''supported'')\<lparr>ca_measurements :=
      [''content_package''], ca_services := [''Security''], ca_panels := [''Content Updates'']\<rparr>,
    (capability_of ''content_antivirus'' ''Antivirus content version'' ''supported'')\<lparr>ca_measurements :=
      [''content_package''], ca_services := [''Security''], ca_panels := [''Content Updates'']\<rparr>,
    (capability_of ''content_wildfire'' ''WildFire content version'' ''supported'')\<lparr>ca_measurements :=
      [''content_package''], ca_services := [''Security''], ca_panels := [''Content Updates'']\<rparr>,
    (capability_of ''content_url_filtering'' ''URL filtering content version''
      ''supported'')\<lparr>ca_measurements := [''content_package''], ca_services := [''Security''], ca_panels :=
      [''Content Updates'']\<rparr>,
    (capability_of ''device_certificate_status'' ''Device certificate status''
      ''supported'')\<lparr>ca_measurements := [''firewall''], ca_fields := [''device_certificate_status''],
      ca_services := [''Security''], ca_panels := [''Device Certificate'']\<rparr>,
    (capability_of ''collector_diagnostics'' ''Collector diagnostics'' ''supported'')\<lparr>ca_measurements :=
      [''collector_health''], ca_services := [''Monitoring''], ca_panels := [''Collector Diagnostics'']\<rparr>,
    (capability_of ''certificate_expiry'' ''Certificate expiry'' ''unsupported'')\<lparr>ca_services :=
      [''Security''], ca_panels := [''Certificate Expiry''], ca_reason :=
      ''The current read-only PAN-OS collection does not retrieve certificate expiry.''\<rparr>,
    (capability_of ''configuration_commits'' ''Configuration commits'' ''unsupported'')\<lparr>ca_panels :=
      [''Recent Configuration Commits''], ca_reason :=
      ''The current collector does not retrieve configuration audit history.''\<rparr>]"

definition fortigate_capabilities :: "capability list" where
  "fortigate_capabilities = [
    (capability_of ''device_inventory'' ''Device inventory'' ''supported'')\<lparr>ca_measurements :=
      [''device''], ca_services := [''Security'']\<rparr>,
    (capability_of ''firewall_health'' ''Firewall health'' ''supported'')\<lparr>ca_measurements :=
      [''firewall''], ca_services := [''Security'']\<rparr>,
    (capability_of ''interfaces'' ''Interface inventory'' ''supported'')\<lparr>ca_measurements :=
      [''interface''], ca_services := [''Internet'']\<rparr>,
    (capability_of ''wan_classification'' ''Authoritative WAN classification''
      ''conditional'')\<lparr>ca_measurements := [''interface''], ca_services := [''Internet''], ca_condition :=
      ''At least one discovered interface is explicitly selected as WAN.''\<rparr>,
    (capability_of ''performance'' ''Resource performance'' ''supported'')\<lparr>ca_measurements :=
      [''performance'']\<rparr>,
    (capability_of ''ha_status'' ''HA status'' ''conditional'')\<lparr>ca_measurements := [''firewall''],
      ca_condition := ''The FortiOS HA monitor endpoint is available.''\<rparr>,
    (capability_of ''sdwan'' ''SD-WAN membership'' ''conditional'')\<lparr>ca_condition :=
      ''The configured FortiOS endpoint returns SD-WAN membership.''\<rparr>,
    (capability_of ''vpn'' ''VPN health'' ''unsupported'')\<lparr>ca_reason :=
      ''The current read-only collector does not collect VPN state.''\<rparr>,
    (capability_of ''collector_diagnostics'' ''Collector diagnostics'' ''supported'')\<lparr>ca_measurements :=
      [''collector_health''], ca_services := [''Monitoring'']\<rparr>]"

definition papercut_capabilities :: "capability list" where
  "papercut_capabilities = [
    (capability_of ''server_inventory'' ''Application server inventory'' ''supported'')\<lparr>ca_measurements
      := [''device''], ca_services := [''Printing''], ca_panels := [''Application'']\<rparr>,
    (capability_of ''server_health'' ''Application server health'' ''supported'')\<lparr>ca_measurements :=
      [''availability'', ''performance''], ca_services := [''Printing''], ca_panels := [''Overall Health'',
      ''Database'']\<rparr>,
    (capability_of ''server_availability'' ''Application availability'' ''supported'')\<lparr>ca_measurements :=
      [''availability''], ca_services := [''Printing''], ca_panels := [''Overall Health'']\<rparr>,
    (capability_of ''server_performance'' ''Application performance'' ''supported'')\<lparr>ca_measurements :=
      [''performance''], ca_fields := [''cpu_percent'', ''jvm_memory_used_percent'', ''disk_used_percent''],
      ca_services := [''Printing''], ca_panels := [''Application'']\<rparr>,
    (capability_of ''database_health'' ''Database health'' ''supported'')\<lparr>ca_measurements :=
      [''performance''], ca_fields := [''status'', ''query_latency_ms'', ''connection_latency_ms''], ca_services
      := [''Printing''], ca_panels := [''Database'']\<rparr>,
    (capability_of ''printer_inventory'' ''Printer inventory'' ''conditional'')\<lparr>ca_measurements :=
      [''performance''], ca_fields := [''printer_count''], ca_services := [''Printing''], ca_panels :=
      [''Printers''], ca_condition :=
      ''The API returns an aggregate printer count; individual printer records are not exposed.''\<rparr>,
    (capability_of ''device_inventory'' ''Embedded device inventory'' ''conditional'')\<lparr>ca_measurements :=
      [''device''], ca_services := [''Printing''], ca_panels := [''Devices''], ca_condition :=
      ''The System Health API returns embedded-device records.''\<rparr>,
    (capability_of ''printer_operational_status'' ''Printer operational status''
      ''conditional'')\<lparr>ca_measurements := [''device''], ca_services := [''Printing''], ca_panels :=
      [''Printers''], ca_condition :=
      ''The /api/health/printers endpoint returns per-printer status records.''\<rparr>,
    (capability_of ''print_queue_health'' ''Print queue health'' ''conditional'')\<lparr>ca_measurements :=
      [''device'', ''performance''], ca_fields := [''operational_status'', ''held_jobs''], ca_services :=
      [''Printing''], ca_panels := [''Printers''], ca_condition :=
      ''The /api/health/printers endpoint returns queue status and held-job evidence.''\<rparr>,
    (capability_of ''held_jobs'' ''Held jobs'' ''supported'')\<lparr>ca_measurements := [''performance''],
      ca_fields := [''held_jobs''], ca_services := [''Printing''], ca_panels := [''Printers'']\<rparr>,
    (capability_of ''print_services'' ''Print service availability'' ''supported'')\<lparr>ca_measurements :=
      [''availability''], ca_services := [''Printing''], ca_panels := [''Services'']\<rparr>,
    (capability_of ''license_status'' ''Licence status'' ''supported'')\<lparr>ca_measurements := [''license''],
      ca_services := [''Printing''], ca_panels := [''Licensing'']\<rparr>,
    (capability_of ''upgrade_assurance'' ''Upgrade Assurance'' ''supported'')\<lparr>ca_measurements :=
      [''license''], ca_fields := [''upgrade_assurance_remaining_days''], ca_services := [''Printing''], ca_panels
      := [''Licensing'']\<rparr>,
    (capability_of ''printer_consumables'' ''Printer consumables'' ''unsupported'')\<lparr>ca_services :=
      [''Printing''], ca_panels := [''Consumables''], ca_reason :=
      ''PaperCut System Health does not expose toner percentages or consumable levels.''\<rparr>,
    (capability_of ''collector_diagnostics'' ''Collector diagnostics'' ''supported'')\<lparr>ca_measurements :=
      [''collector_health''], ca_services := [''Monitoring''], ca_panels := [''Collector Diagnostics'']\<rparr>]"

definition snmp_capabilities :: "capability list" where
  "snmp_capabilities = [
    (capability_of ''discovery'' ''SNMP discovery'' ''supported'')\<lparr>ca_phase := ''discovery'',
      ca_measurements := [''device''], ca_services := [''Switching'']\<rparr>,
    (capability_of ''device_polling'' ''SNMP device polling'' ''conditional'')\<lparr>ca_measurements :=
      [''device'', ''availability''], ca_condition := ''At least one responsive SNMP target is discovered.'',
      ca_services := [''Switching'']\<rparr>,
    (capability_of ''interface_metrics'' ''Interface metrics'' ''conditional'')\<lparr>ca_measurements :=
      [''interface''], ca_condition := ''A responsive target exposes standard interface MIB data.'', ca_services
      := [''Switching'']\<rparr>,
    (capability_of ''printer_metrics'' ''Printer metrics'' ''conditional'')\<lparr>ca_condition :=
      ''A responsive printer exposes supported Printer-MIB data.'', ca_services := [''Printing'']\<rparr>,
    (capability_of ''wireless_metrics'' ''Wireless metrics'' ''conditional'')\<lparr>ca_condition :=
      ''A responsive wireless device exposes a supported vendor MIB.'', ca_services := [''Wireless'']\<rparr>,
    (capability_of ''collector_diagnostics'' ''Collector diagnostics'' ''supported'')\<lparr>ca_measurements :=
      [''collector_health''], ca_services := [''Monitoring'']\<rparr>]"

definition framework_capabilities :: "capability list" where
  "framework_capabilities = [
    (capability_of ''scheduler_health'' ''Scheduler health'' ''supported'')\<lparr>ca_services :=
      [''Monitoring'']\<rparr>,
    (capability_of ''collector_diagnostics'' ''Collector diagnostics'' ''supported'')\<lparr>ca_measurements :=
      [''collector_health''], ca_services := [''Monitoring'']\<rparr>]"

definition MANIFESTS :: "(string \<times> capability list) list" where
  "MANIFESTS = [(''aruba'', aruba_capabilities), (''paloalto'', paloalto_capabilities),
     (''fortigate'', fortigate_capabilities), (''papercut'', papercut_capabilities),
     (''snmp'', snmp_capabilities), (''framework'', framework_capabilities)]"

section \<open>Evidence\<close>

definition collector_settings :: "dict \<Rightarrow> string \<Rightarrow> json res" where
  "collector_settings config name =
     map_sum id (\<lambda>d. dget_or d name (JObj [])) (want_dict (dget_or config ''collectors'' (JObj [])))"

definition vendor_enabled :: "dict \<Rightarrow> string \<Rightarrow> bool res" where
  "vendor_enabled config name =
     and_then (collector_settings config name) (\<lambda>v.
       map_sum id (\<lambda>d. truthy (dget_or d ''enabled'' (JBool False))) (want_dict v))"

text \<open>\<open>any\<close> over calls that may raise: it stops at the first true one.\<close>

fun some_res :: "('a \<Rightarrow> bool res) \<Rightarrow> 'a list \<Rightarrow> bool res" where
  "some_res f [] = Inr False"
| "some_res f (x # xs) = and_then (f x) (\<lambda>b. if b then Inr True else some_res f xs)"

definition collector_enabled :: "dict \<Rightarrow> string \<Rightarrow> bool res" where
  "collector_enabled config name =
     (if name = ''framework'' then some_res (vendor_enabled config) (filter (\<lambda>n. n \<noteq> ''framework'') (map fst MANIFESTS))
      else vendor_enabled config name)"

definition blank_setting :: "json \<Rightarrow> bool" where
  "blank_setting v = (v \<in> {JNull, JStr [], JList [], JObj []})"

definition collector_configured :: "dict \<Rightarrow> string \<Rightarrow> bool res" where
  "collector_configured config name =
     (if name = ''framework'' then collector_enabled config name
      else map_sum id (\<lambda>v. case v of
          JObj d \<Rightarrow> truthy (dget d ''enabled'') \<and> list_ex (\<lambda>(k, x). \<not> blank_setting x)
            (filter (\<lambda>(k, x). k \<notin> {''enabled'', ''execution'', ''customer'', ''customer_id'', ''customer_name'',
               ''site'', ''site_id'', ''site_name''}) d)
        | _ \<Rightarrow> False) (collector_settings config name))"

text \<open>
  The scheduler's document is the one on disk, or the last one read when it cannot be read.
\<close>

definition scheduler_view :: "dict \<Rightarrow> dict option \<Rightarrow> dict" where
  "scheduler_view earlier stored = (case stored of None \<Rightarrow> earlier | Some d \<Rightarrow> d)"

definition framework_runtime :: "dict \<Rightarrow> dict" where
  "framework_runtime scheduler =
     [(''last_collection_outcome'', if dget scheduler ''lifecycle_state'' = JStr ''ready'' then JStr ''success''
         else if dget scheduler ''lifecycle_state'' = JStr ''degraded'' then JStr ''failed'' else JNull),
      (''last_collection_attempt'', dget scheduler ''updated_at''),
      (''last_successful_collection'', dget scheduler ''ready_at''),
      (''last_error_class'', dget scheduler ''last_error_class'')]"

definition nested :: "dict \<Rightarrow> string \<Rightarrow> string \<Rightarrow> json res" where
  "nested d outer k = map_sum id (\<lambda>x. dget_or x k (JObj [])) (want_dict (dget_or d outer (JObj [])))"

definition runtime_evidence :: "dict \<Rightarrow> dict \<Rightarrow> string \<Rightarrow> (json \<times> json) res" where
  "runtime_evidence scheduler runs name =
     (if name = ''framework'' then Inr (JObj (framework_runtime scheduler), JObj [])
      else and_then (nested scheduler ''connectors'' name) (\<lambda>connector.
           and_then (nested runs ''sources'' name) (\<lambda>v.
           map_sum id (\<lambda>d. (connector, dget_or d ''last_run'' (JObj []))) (want_dict v))))"

text \<open>\<open>connector.get(\<dots>)\<close> on evidence that may be no mapping; a map inside the last collection result.\<close>

definition jget :: "json \<Rightarrow> string \<Rightarrow> json res" where
  "jget v k = map_sum id (\<lambda>d. dget d k) (want_dict v)"

definition result_entry :: "json \<Rightarrow> string \<Rightarrow> string \<Rightarrow> json res" where
  "result_entry connector part i =
     and_then (jget connector ''last_collection_result'') (\<lambda>r.
     and_then (want_dict (por r (JObj []))) (\<lambda>d.
     map_sum id (\<lambda>m. dget m i) (want_dict (dget_or d part (JObj [])))))"

text \<open>Membership in a set of strings, which hashes the value.\<close>

definition hashed :: "json \<Rightarrow> json res" where
  "hashed v = (case v of JList _ \<Rightarrow> Inl (TypeError ''unhashable type'') | JObj _ \<Rightarrow> Inl (TypeError ''unhashable type'')
     | _ \<Rightarrow> Inr v)"

definition collection_state_of :: "json \<Rightarrow> string option" where
  "collection_state_of v = (case v of JStr s \<Rightarrow> if s \<in> set COLLECTION_STATES then Some s else None | _ \<Rightarrow> None)"

section \<open>The state of a capability\<close>

definition explicit_explanation :: "capability \<Rightarrow> string \<Rightarrow> string" where
  "explicit_explanation c s =
     (if s = ''collected'' then ''Authoritative capability evidence was collected.''
      else if s = ''unavailable'' then sor (ca_condition c) ''The capability is currently unavailable.''
      else if s = ''failed'' then ''The latest capability collection failed.''
      else if s = ''partial'' then ''Capability evidence is incomplete.''
      else ''Runtime capability state is explicit.'')"

definition last_outcome :: "capability \<Rightarrow> json \<Rightarrow> json \<Rightarrow> json res" where
  "last_outcome c connector source =
     and_then (jget connector (''last_'' @ ca_phase c @ ''_outcome'')) (\<lambda>v.
       if \<not> truthy v \<and> truthy source
       then map_sum id (\<lambda>x. JStr (if truthy x then ''success'' else ''failed'')) (jget source ''success'')
       else Inr v)"

definition never_ran :: "json \<Rightarrow> bool res" where
  "never_ran v = (if \<not> truthy v then Inr True
     else map_sum id (\<lambda>h. h \<in> {JStr ''never_run'', JStr ''not_run''}) (hashed v))"

definition outcome_state :: "capability \<Rightarrow> json \<Rightarrow> json \<Rightarrow> (string \<times> string) res" where
  "outcome_state c v source =
     and_then (never_ran v) (\<lambda>never.
     if never then Inr (''not_yet_collected'', ''No completed run is recorded.'')
     else if v = JStr ''failed'' then Inr (''failed'', ''The latest collector run failed.'')
     else and_then (jget source ''partial'') (\<lambda>p.
       if truthy p then Inr (''partial'', ''The latest collector run completed partially.'')
       else and_then (if ca_support c = ''conditional''
            then and_then (jget source ''records_returned'') (\<lambda>n. map_sum id (\<lambda>i. i = 0) (py_int (por n (JInt 0))))
            else Inr False) (\<lambda>absent.
         Inr (if absent then (''unavailable'', ca_condition c)
              else if v = JStr ''success'' then (''collected'', ''Current runtime evidence is available.'')
              else (''unavailable'', ''Current runtime evidence is unavailable.'')))))"

definition collection_state :: "capability \<Rightarrow> bool \<Rightarrow> json \<Rightarrow> json \<Rightarrow> (string \<times> string) res" where
  "collection_state c enabled connector source =
     (if ca_support c = ''unsupported'' then Inr (''not_applicable'', ca_reason c)
      else if \<not> enabled then Inr (''disabled'', ''Collector is not enabled.'')
      else and_then (result_entry connector ''capability_states'' (ca_id c)) (\<lambda>e.
        and_then (hashed e) (\<lambda>h.
        case collection_state_of h of
          Some s \<Rightarrow> Inr (s, explicit_explanation c s)
        | None \<Rightarrow> and_then (last_outcome c connector source) (\<lambda>v. outcome_state c v source))))"

section \<open>The manifest\<close>

definition capability_item :: "bool \<Rightarrow> json \<Rightarrow> json \<Rightarrow> capability \<Rightarrow> dict res" where
  "capability_item enabled connector source c =
     and_then (collection_state c enabled connector source) (\<lambda>(state, explanation).
     map_sum id (\<lambda>resources.
       [(''id'', JStr (ca_id c)), (''label'', JStr (ca_label c)), (''support'', JStr (ca_support c)),
        (''measurements'', jstrs (ca_measurements c)), (''fields'', jstrs (ca_fields c)),
        (''services'', jstrs (ca_services c)), (''panels'', jstrs (ca_panels c)),
        (''condition'', JStr (ca_condition c)), (''reason'', JStr (ca_reason c)), (''phase'', JStr (ca_phase c)),
        (''health_impact'', JBool (ca_health_impact c)), (''collection'', JStr state), (''configured'', JBool enabled),
        (''available'', JBool (state \<in> {''collected'', ''partial''})),
        (''collectable'', JBool (enabled \<and> ca_support c \<in> {''supported'', ''conditional''} \<and>
           state \<notin> {''disabled'', ''unavailable'', ''failed'', ''not_applicable''})),
        (''resource_count'', resources), (''explanation'', JStr explanation)])
     (result_entry connector ''capability_resources'' (ca_id c)))"

definition collection_is :: "string \<Rightarrow> dict \<Rightarrow> bool" where
  "collection_is s item = (dget item ''collection'' = JStr s)"

definition execution_state :: "bool \<Rightarrow> dict list \<Rightarrow> string" where
  "execution_state enabled items =
     (if \<not> enabled then ''disabled''
      else if list_ex (collection_is ''failed'') items then ''failed''
      else if list_ex (\<lambda>i. truthy (dget i ''health_impact'') \<and> (collection_is ''partial'' i \<or> collection_is ''unavailable'' i)) items
        then ''partial''
      else if list_ex (collection_is ''not_yet_collected'') items then ''not_yet_collected''
      else ''collected'')"

definition state_counts :: "dict list \<Rightarrow> dict" where
  "state_counts items = map (\<lambda>s. (s, JInt (int (length (filter (collection_is s) items))))) COLLECTION_STATES"

definition display_names :: "(string \<times> string) list" where
  "display_names = [(''aruba'', ''HPE Aruba Networking Central''), (''fortigate'', ''Fortinet FortiGate''),
     (''paloalto'', ''Palo Alto Networks''), (''papercut'', ''PaperCut MF''), (''snmp'', ''SNMP''),
     (''framework'', ''ITP Collector Framework'')]"

text \<open>\<open>a or b\<close> whose second operand may raise and is evaluated only when needed.\<close>

definition or_res :: "json res \<Rightarrow> json res \<Rightarrow> json res" where
  "or_res a b = and_then a (\<lambda>v. if truthy v then Inr v else b)"

definition is_res :: "bool \<Rightarrow> json \<Rightarrow> json res" where
  "is_res b source = map_sum id (\<lambda>v. JBool (v = JBool b)) (jget source ''success'')"

definition execution_section :: "dict \<Rightarrow> string \<Rightarrow> bool \<Rightarrow> bool \<Rightarrow> json \<Rightarrow> json \<Rightarrow> dict list \<Rightarrow> dict res" where
  "execution_section config name enabled configured connector source items =
     and_then (jget connector ''last_discovery_attempt'') (\<lambda>discovered.
     and_then (or_res (jget connector ''last_successful_collection'') (is_res True source)) (\<lambda>validated.
     and_then (or_res (map_sum id (\<lambda>v. JBool (v = JStr ''success'')) (jget connector ''last_collection_outcome''))
        (is_res True source)) (\<lambda>collecting.
     and_then (and_then (collector_settings config name) want_dict) (\<lambda>settings.
     Inr [(''known'', JBool True), (''discovered'', JBool (truthy discovered)), (''selected'', JBool enabled),
       (''configured'', JBool configured), (''enabled'', JBool enabled), (''validated'', JBool (truthy validated)),
       (''collecting'', collecting),
       (''mode'', JStr (py_str (por (dget settings ''execution'') (por (dget config ''runtime_mode'') (JStr ''central''))))),
       (''state'', JStr (execution_state enabled items))]))))"

definition last_discovery_section :: "json \<Rightarrow> dict res" where
  "last_discovery_section connector = map_sum id (\<lambda>d.
     [(''status'', dget_or d ''last_discovery_outcome'' (JStr ''not_run'')), (''observed_at'', dget d ''last_discovery_attempt''),
      (''duration_ms'', dget d ''last_discovery_duration_ms'')]) (want_dict connector)"

definition source_status :: "json \<Rightarrow> json res" where
  "source_status source = map_sum id (\<lambda>v. JStr (if v = JBool True then ''success''
     else if v = JBool False then ''failed'' else ''not_run'')) (jget source ''success'')"

definition safe_error_class :: "json \<Rightarrow> json" where
  "safe_error_class v = (let s = take 80 (py_str (por v (JStr []))) in if s = [] then JNull else JStr s)"

definition last_collection_section :: "json \<Rightarrow> json \<Rightarrow> dict res" where
  "last_collection_section connector source =
     and_then (or_res (jget connector ''last_collection_outcome'') (source_status source)) (\<lambda>status.
     and_then (or_res (jget connector ''last_collection_attempt'') (jget source ''completed_at'')) (\<lambda>observed.
     and_then (or_res (jget connector ''last_successful_collection'')
        (and_then (is_res True source) (\<lambda>b. if b = JBool True then jget source ''completed_at'' else Inr JNull))) (\<lambda>success.
     and_then (jget connector ''last_collection_duration_ms'') (\<lambda>duration.
     and_then (and_then (jget connector ''last_collection_result'') (\<lambda>r. jget (por r (JObj [])) ''points_written'')) (\<lambda>points.
     and_then (jget connector ''last_error_class'') (\<lambda>err.
     Inr [(''status'', status), (''observed_at'', observed), (''last_success'', success), (''duration_ms'', duration),
       (''points_written'', points), (''safe_error_class'', safe_error_class err)]))))))"

definition identity_section :: "dict \<Rightarrow> dict" where
  "identity_section config =
     [(''deployment_id'', JStr (py_str (por (dget config ''deployment_id'') (JStr [])))),
      (''customer_id'', JStr (py_str (por (dget config ''customer_id'') (por (dget config ''customer'') (JStr []))))),
      (''site_id'', JStr (py_str (por (dget config ''site_id'') (por (dget config ''site'') (JStr [])))))]"

definition collector_manifest :: "dict \<Rightarrow> dict \<Rightarrow> dict \<Rightarrow> string \<times> capability list \<Rightarrow> (string \<times> dict) res" where
  "collector_manifest config scheduler runs entry = (case entry of (name, declarations) \<Rightarrow>
     and_then (collector_enabled config name) (\<lambda>enabled.
     and_then (collector_configured config name) (\<lambda>configured.
     and_then (runtime_evidence scheduler runs name) (\<lambda>(connector, source).
     and_then (map_res (capability_item enabled connector source) (sort_key ca_id declarations)) (\<lambda>items.
     and_then (case map_of display_names name of None \<Rightarrow> Inl (KeyError name) | Some s \<Rightarrow> Inr s) (\<lambda>display.
     and_then (execution_section config name enabled configured connector source items) (\<lambda>execution.
     and_then (last_discovery_section connector) (\<lambda>discovery.
     and_then (last_collection_section connector source) (\<lambda>collection.
     Inr (name, [(''schema_version'', JInt 1),
       (''collector'', JObj [(''id'', JStr name), (''display_name'', JStr display), (''version'', JStr ''1.0.0'')]),
       (''identity'', JObj (identity_section config)), (''execution'', JObj execution),
       (''last_discovery'', JObj discovery), (''last_collection'', JObj collection),
       (''capability_counts'', JObj (state_counts items)), (''capabilities'', JList (map JObj items))]))))))))))"

text \<open>The health row of a collector.\<close>

definition health_row :: "string \<times> dict \<Rightarrow> dict" where
  "health_row entry = (case entry of (name, d) \<Rightarrow>
     (let counts = as_dict (dget d ''capability_counts''); collection = as_dict (dget d ''last_collection'') in
      [(''collector'', JStr name), (''collector_state'', dget (as_dict (dget d ''execution'')) ''state''),
       (''discovery_state'', dget (as_dict (dget d ''last_discovery'')) ''status''),
       (''collection_state'', dget collection ''status''),
       (''capabilities_supported'', JInt (int (length (filter (\<lambda>i. dget i ''support'' \<in> {JStr ''supported'', JStr ''conditional''})
          (map as_dict (as_list (dget d ''capabilities''))))))),
       (''capabilities_collected'', dget counts ''collected''), (''capabilities_failed'', dget counts ''failed''),
       (''capabilities_partial'', dget counts ''partial''), (''capabilities_unavailable'', dget counts ''unavailable''),
       (''capabilities_not_applicable'', dget counts ''not_applicable''), (''last_success'', dget collection ''last_success''),
       (''last_failure'', if dget collection ''status'' = JStr ''failed'' then dget collection ''observed_at'' else JNull),
       (''safe_error_class'', dget collection ''safe_error_class'')]))"

definition manifest_profile :: "dict \<Rightarrow> json res" where
  "manifest_profile config =
     or_res (Inr (dget config ''deployment_id''))
       (or_res (jget (dget_or config ''deployment'' (JObj [])) ''id'') (Inr (por (dget config ''profile'') (JStr []))))"

definition build_manifest :: "(string \<times> capability list) list \<Rightarrow> dict \<Rightarrow> dict \<Rightarrow> dict \<Rightarrow> dict res" where
  "build_manifest manifests config scheduler runs =
     and_then (map_res (collector_manifest config scheduler runs) (sort_key fst manifests)) (\<lambda>collectors.
     map_sum id (\<lambda>profile.
       [(''schema_version'', JInt 1), (''profile'', JStr (py_str profile)),
        (''collectors'', JObj (map (\<lambda>(n, d). (n, JObj d)) collectors)),
        (''collector_health'', JList (map (JObj \<circ> health_row) collectors))]) (manifest_profile config))"

section \<open>Validation\<close>

definition validate_capability :: "dict \<Rightarrow> unit res" where
  "validate_capability c =
     and_then (hashed (dget c ''support'')) (\<lambda>support.
     and_then (guard_res (support \<notin> JStr ` set SUPPORT_STATES) (ValueError ''invalid capability support state'')) (\<lambda>_.
     and_then (hashed (dget c ''collection'')) (\<lambda>collection.
     and_then (guard_res (collection \<notin> JStr ` set COLLECTION_STATES) (ValueError ''invalid capability collection state'')) (\<lambda>_.
     guard_res (support = JStr ''unsupported'' \<and> collection \<noteq> JStr ''not_applicable'')
       (ValueError ''unsupported capability must be not_applicable'')))))"

definition validate_collector :: "json \<Rightarrow> unit res" where
  "validate_collector v =
     and_then (want_dict v) (\<lambda>d.
     and_then (py_iter (dget_or d ''capabilities'' (JList []))) (\<lambda>cs.
     map_sum id (\<lambda>_. ()) (map_res (\<lambda>c. and_then (want_dict c) validate_capability) cs)))"

definition validate_manifest :: "dict \<Rightarrow> dict res" where
  "validate_manifest payload =
     (if \<not> py_eq (dget payload ''schema_version'') (JInt 1) then
        Inl (ValueError (''unsupported capability schema version: '' @ py_str (dget payload ''schema_version'')))
      else and_then (want_dict (dget_or payload ''collectors'' (JObj []))) (\<lambda>d.
        map_sum id (\<lambda>_. payload) (map_res validate_collector (map snd d))))"

definition generate_manifest :: "dict \<Rightarrow> dict \<Rightarrow> dict \<Rightarrow> dict res" where
  "generate_manifest config scheduler runs =
     and_then (build_manifest MANIFESTS config scheduler runs) validate_manifest"

section \<open>Built manifests are valid\<close>

lemma outcome_state_known:
  "outcome_state c v source = Inr (s, why) \<Longrightarrow> s \<in> set COLLECTION_STATES"
  by (auto simp: outcome_state_def and_then_eq_Inr COLLECTION_STATES_def split: if_splits)

lemma collection_state_known:
  assumes "collection_state c enabled connector source = Inr (s, why)"
  shows "s \<in> set COLLECTION_STATES" "ca_support c = ''unsupported'' \<Longrightarrow> s = ''not_applicable''"
proof -
  have e: "collection_state_of h = Some t \<Longrightarrow> t \<in> set COLLECTION_STATES" for h t
    by (auto simp: collection_state_of_def split: json.splits if_splits)
  show "s \<in> set COLLECTION_STATES"
  proof (cases "ca_support c = ''unsupported'' \<or> \<not> enabled")
    case True
    then show ?thesis using assms by (auto simp: collection_state_def COLLECTION_STATES_def split: if_splits)
  next
    case False
    then show ?thesis using assms e outcome_state_known
      by (auto simp: collection_state_def and_then_eq_Inr split: option.splits)
  qed
  show "s = ''not_applicable''" if "ca_support c = ''unsupported''"
    using assms that by (simp add: collection_state_def)
qed

definition good_item :: "dict \<Rightarrow> bool" where
  "good_item i = (\<exists>sup st. dget i ''support'' = JStr sup \<and> sup \<in> set SUPPORT_STATES \<and>
     dget i ''collection'' = JStr st \<and> st \<in> set COLLECTION_STATES \<and>
     (sup = ''unsupported'' \<longrightarrow> st = ''not_applicable''))"

lemma capability_item_good:
  assumes "capability_item enabled connector source c = Inr i" and "capability_post_init c = Inr c"
  shows "good_item i"
proof -
  obtain s why where s: "collection_state c enabled connector source = Inr (s, why)"
    using assms(1) by (auto simp: capability_item_def and_then_eq_Inr)
  then have i: "dget i ''support'' = JStr (ca_support c)" "dget i ''collection'' = JStr s"
    using assms(1) by (auto simp: capability_item_def map_sum_eq_Inr dget_def)
  have "ca_support c \<in> set SUPPORT_STATES" using assms(2) by (simp add: capability_post_init_def split: if_splits)
  then show ?thesis using i collection_state_known [OF s] by (auto simp: good_item_def)
qed

lemma validate_good: "good_item i \<Longrightarrow> validate_capability i = Inr ()"
  by (auto simp: good_item_def validate_capability_def hashed_def guard_res_def)

lemma map_res_units: "(\<And>x. x \<in> set xs \<Longrightarrow> f x = Inr ()) \<Longrightarrow> \<exists>us. map_res f xs = Inr us"
  by (induction xs) auto

lemma length_by_states:
  "(\<And>i. i \<in> set items \<Longrightarrow> \<exists>s \<in> set ss. dget i ''collection'' = JStr s) \<Longrightarrow> distinct ss \<Longrightarrow>
   sum_list (map (\<lambda>s. int (length (filter (collection_is s) items))) ss) = int (length items)"
proof (induction items)
  case (Cons i items)
  obtain s where s: "s \<in> set ss" "dget i ''collection'' = JStr s" using Cons.prems(1) by (meson list.set_intros(1))
  have "int (length (filter (collection_is t) (i # items))) = (if t = s then 1 else 0) + int (length (filter (collection_is t) items))" for t
    using s(2) by (auto simp: collection_is_def)
  moreover have "sum_list (map (\<lambda>t. if t = s then 1 else 0 :: int) ss) = 1"
    using s(1) Cons.prems(2) by (simp add: sum_list_distinct_conv_sum_set)
  ultimately show ?case using Cons by (simp only: sum_list_addf) simp
qed simp

text \<open>What a collector's document says of its capabilities.\<close>

definition counted :: "dict \<Rightarrow> bool" where
  "counted d = (\<exists>items counts. dget d ''capabilities'' = JList (map JObj items) \<and> list_all good_item items \<and>
     dget d ''capability_counts'' = JObj (map (\<lambda>s. (s, JInt (counts s))) COLLECTION_STATES) \<and>
     sum_list (map counts COLLECTION_STATES) = int (length items))"

lemma collector_manifest_counted:
  assumes "collector_manifest config scheduler runs (name, cs) = Inr (n, d)"
    and "\<forall>c \<in> set cs. capability_post_init c = Inr c"
  shows "counted d"
proof -
  obtain enabled connector source items where
    items: "map_res (capability_item enabled connector source) (sort_key ca_id cs) = Inr items"
    and d: "dget d ''capabilities'' = JList (map JObj items)" "dget d ''capability_counts'' = JObj (state_counts items)"
    using assms(1) by (auto simp: collector_manifest_def and_then_eq_Inr dget_def)
  have good: "good_item i" if "i \<in> set items" for i
    using map_res_Inr_mem [OF items that] assms(2) capability_item_good by fastforce
  have "sum_list (map (\<lambda>s. int (length (filter (collection_is s) items))) COLLECTION_STATES) = int (length items)"
    using good by (intro length_by_states) (auto simp: good_item_def COLLECTION_STATES_def)
  then show ?thesis using good d unfolding counted_def state_counts_def
    by (intro exI [of _ items] exI [of _ "\<lambda>s. int (length (filter (collection_is s) items))"]) (simp add: list_all_iff)
qed

lemma validate_counted: "counted d \<Longrightarrow> validate_collector (JObj d) = Inr ()"
proof -
  assume "counted d"
  then obtain items where i: "dget d ''capabilities'' = JList (map JObj items)" "list_all good_item items"
    by (auto simp: counted_def)
  then have "dget_or d ''capabilities'' (JList []) = JList (map JObj items)"
    by (auto simp: dget_def dget_or_def split: option.splits)
  moreover have "and_then (want_dict c) validate_capability = Inr ()" if "c \<in> set (map JObj items)" for c
    using that i(2) validate_good by (auto simp: list_all_iff want_dict_def)
  then have "\<exists>us. map_res (\<lambda>c. and_then (want_dict c) validate_capability) (map JObj items) = Inr us" by (rule map_res_units)
  ultimately show ?thesis by (auto simp: validate_collector_def want_dict_def [of "JObj d"])
qed

lemma declared_capabilities_valid: "\<forall>(n, cs) \<in> set MANIFESTS. \<forall>c \<in> set cs. capability_post_init c = Inr c"
  by code_simp

text \<open>
  Whatever the configuration, the scheduler's document and the source runs contain, the
  validation never refuses a manifest that could be built: every declared capability has a known
  support and collection state and the unsupported ones are not applicable; and the counts of
  each collector add up to its capabilities.
\<close>

theorem built_manifests_are_valid:
  "generate_manifest config scheduler runs = build_manifest MANIFESTS config scheduler runs \<and>
   (case build_manifest MANIFESTS config scheduler runs of Inl e \<Rightarrow> True
    | Inr m \<Rightarrow> list_all (\<lambda>(n, d). counted (as_dict d)) (as_dict (dget m ''collectors'')))"
proof (cases "build_manifest MANIFESTS config scheduler runs")
  case (Inr m)
  obtain ds where ds: "map_res (collector_manifest config scheduler runs) (sort_key fst MANIFESTS) = Inr ds"
    and m: "dget m ''collectors'' = JObj (map (\<lambda>(n, d). (n, JObj d)) ds)" "dget m ''schema_version'' = JInt 1"
    using Inr by (auto simp: build_manifest_def and_then_eq_Inr map_sum_eq_Inr dget_def)
  have counted: "counted d" if nd: "(n, d) \<in> set ds" for n d
  proof -
    obtain name cs where "(name, cs) \<in> set MANIFESTS" "collector_manifest config scheduler runs (name, cs) = Inr (n, d)"
      using map_res_Inr_mem [OF ds nd] by auto
    then show ?thesis using declared_capabilities_valid by (auto intro: collector_manifest_counted)
  qed
  then obtain us where "map_res validate_collector (map (JObj \<circ> snd) ds) = Inr us"
    using map_res_units [of "map (JObj \<circ> snd) ds" validate_collector] validate_counted by force
  moreover have "dget_or m ''collectors'' (JObj []) = JObj (map (\<lambda>(n, d). (n, JObj d)) ds)"
    using m(1) by (auto simp: dget_def dget_or_def split: option.splits)
  moreover have "snd \<circ> (\<lambda>(n, d). (n, JObj d)) = JObj \<circ> (snd :: string \<times> dict \<Rightarrow> dict)" by (simp add: fun_eq_iff split_beta)
  ultimately have "validate_manifest m = Inr m"
    using m(2) by (simp add: validate_manifest_def want_dict_def)
  then show ?thesis using Inr m counted by (auto simp: generate_manifest_def list_all_iff)
qed (simp add: generate_manifest_def)

lemma sample_capabilities:
  "map_sum id (map (\<lambda>i. (dget i ''id'', dget i ''collection''))) (map_res (capability_item True
       (JObj [(''last_discovery_outcome'', JStr ''success'')])
       (JObj [(''success'', JBool True), (''records_returned'', JInt 0)])) (take 3 snmp_capabilities))
   = Inr [(JStr ''discovery'', JStr ''collected''), (JStr ''device_polling'', JStr ''unavailable''),
       (JStr ''interface_metrics'', JStr ''unavailable'')]"
  by code_simp

end
