(* ===== verification/Dashboard_Layout.thy ===== *)
theory Dashboard_Layout
  imports ITP_Prelude
begin

text \<open>
  \<open>analysis/dashboards/layout.py\<close>: the layout of a classic dashboard on a grid of 24 columns. A
  panel is its dictionary; a grid position is read with the defaults the code gives it.
\<close>

definition GRID_WIDTH :: int where
  "GRID_WIDTH = 24"

section \<open>Positions\<close>

record grid_pos =
  gp_x :: int
  gp_y :: int
  gp_w :: int
  gp_h :: int

definition grid_value :: "dict \<Rightarrow> string \<Rightarrow> int \<Rightarrow> int res" where
  "grid_value panel k fallback =
     and_then (want_dict (por (dget panel ''gridPos'') (JObj []))) (\<lambda>g. py_int (por (dget g k) (JInt fallback)))"

definition grid_to_json :: "grid_pos \<Rightarrow> json" where
  "grid_to_json g = JObj [(''x'', JInt (gp_x g)), (''y'', JInt (gp_y g)), (''w'', JInt (gp_w g)), (''h'', JInt (gp_h g))]"

text \<open>A panel placed: what is written to its \<open>gridPos\<close>.\<close>

type_synonym placed = "dict \<times> grid_pos"

definition place :: "placed \<Rightarrow> dict" where
  "place p = dset (fst p) ''gridPos'' (grid_to_json (snd p))"

section \<open>Rows\<close>

text \<open>
  \<open>pack_row\<close>: the first \<open>width mod n\<close> of \<open>n\<close> panels are one column wider than the others. With a
  height all panels get it, otherwise each keeps its own and the row takes the largest.
\<close>

fun pack_from :: "int \<Rightarrow> nat \<Rightarrow> nat \<Rightarrow> int \<Rightarrow> int \<Rightarrow> (dict \<times> int) list \<Rightarrow> placed list" where
  "pack_from base remainder index x y [] = []"
| "pack_from base remainder index x y ((panel, h) # rest) =
     (let w = base + (if index < remainder then 1 else 0) in
      (panel, \<lparr>gp_x = x, gp_y = y, gp_w = w, gp_h = h\<rparr>) # pack_from base remainder (index + 1) (x + w) y rest)"

definition largest :: "int list \<Rightarrow> int" where
  "largest hs = (case hs of [] \<Rightarrow> 0 | h # rest \<Rightarrow> fold max rest h)"

definition own_heights :: "dict list \<Rightarrow> int list res" where
  "own_heights panels = map_res (\<lambda>p. grid_value p ''h'' 1) panels"

definition pack_row :: "dict list \<Rightarrow> int \<Rightarrow> int option \<Rightarrow> int \<Rightarrow> (placed list \<times> int) res" where
  "pack_row panels y height width =
     (if panels = [] then Inr ([], y)
      else and_then (case height of Some h \<Rightarrow> Inr (map (\<lambda>_. h) panels) | None \<Rightarrow> own_heights panels) (\<lambda>hs.
        Inr (pack_from (width div int (length panels)) (nat (width mod int (length panels))) 0 0 y (zip panels hs),
             y + largest hs)))"

section \<open>Dashboards\<close>

text \<open>The panels in the order of their positions, rows and columns first.\<close>

definition reading_key :: "dict \<Rightarrow> ((int \<times> int \<times> int) \<times> dict) res" where
  "reading_key p =
     and_then (grid_value p ''y'' 0) (\<lambda>y.
     and_then (grid_value p ''x'' 0) (\<lambda>x.
     and_then (py_int (por (dget p ''id'') (JInt 0))) (\<lambda>i. Inr ((y, x, i), p))))"

definition kept_panels :: "dict list \<Rightarrow> dict list" where
  "kept_panels panels = map (\<lambda>p. dpop p ''_itp_omit'') (filter (\<lambda>p. dget p ''_itp_omit'' \<noteq> JBool True) panels)"

definition in_reading_order :: "dict list \<Rightarrow> (int \<times> dict) list res" where
  "in_reading_order panels =
     map_sum id (\<lambda>ks. map (\<lambda>(k, p). (fst k, p)) (sort_key fst ks)) (map_res reading_key panels)"

text \<open>Neighbours of the same row position form a group.\<close>

function row_groups :: "(int \<times> dict) list \<Rightarrow> dict list list" where
  "row_groups [] = []"
| "row_groups (p # ps) = (snd p # map snd (takeWhile (\<lambda>q. fst q = fst p) ps)) #
     row_groups (dropWhile (\<lambda>q. fst q = fst p) ps)"
  by pat_completeness auto
termination by (relation "measure length") (auto simp: le_imp_less_Suc length_dropWhile_le)

definition is_row :: "dict \<Rightarrow> bool" where
  "is_row p = (dget p ''type'' = JStr ''row'')"

text \<open>Row panels are stacked over the full width, each below the last.\<close>

fun stack_rows :: "int \<Rightarrow> (dict \<times> int) list \<Rightarrow> placed list" where
  "stack_rows y [] = []"
| "stack_rows y ((panel, h) # rest) =
     (panel, \<lparr>gp_x = 0, gp_y = y, gp_w = GRID_WIDTH, gp_h = h\<rparr>) # stack_rows (y + h) rest"

definition place_group :: "int \<Rightarrow> dict list \<Rightarrow> (placed list \<times> int) res" where
  "place_group y g = (let rows = filter is_row g; content = filter (\<lambda>p. \<not> is_row p) g in
     and_then (own_heights rows) (\<lambda>hs.
     and_then (pack_row content (y + sum_list hs) None GRID_WIDTH) (\<lambda>(cells, next).
     Inr (stack_rows y (zip rows hs) @ cells, next))))"

fun place_groups :: "int \<Rightarrow> dict list list \<Rightarrow> placed list res" where
  "place_groups y [] = Inr []"
| "place_groups y (g # gs) =
     and_then (place_group y g) (\<lambda>(cells, next). map_sum id ((@) cells) (place_groups next gs))"

definition layout_of :: "dict list \<Rightarrow> placed list res" where
  "layout_of panels = and_then (in_reading_order (kept_panels panels)) (\<lambda>ps. place_groups 0 (row_groups ps))"

text \<open>\<open>reflow_classic_dashboard\<close>.\<close>

definition reflow :: "dict \<Rightarrow> dict res" where
  "reflow dashboard =
     and_then (dict_list (dget_or dashboard ''panels'' (JList []))) (\<lambda>panels.
     map_sum id (\<lambda>cells. dset dashboard ''panels'' (JList (map (JObj \<circ> place) cells))) (layout_of panels))"

section \<open>Cards\<close>

text \<open>\<open>compact_information_panel\<close>: a text card of at most three rows.\<close>

definition compact_panel :: "dict \<Rightarrow> string \<Rightarrow> string \<Rightarrow> dict res" where
  "compact_panel panel label detail =
     and_then (want_dict (dget_or panel ''gridPos'' (JObj []))) (\<lambda>grid.
     and_then (py_int (por (dget grid ''h'') (JInt 3))) (\<lambda>h.
     (let content = ''### '' @ label @ (if detail = [] then [] else [CHR 0x0A, CHR 0x0A] @ detail);
          p = dset (dset (dset (dset (dpop (dset panel ''type'' (JStr ''text'')) ''datasource'')
                ''targets'' (JList [])) ''transformations'' (JList []))
                ''options'' (JObj [(''mode'', JStr ''markdown''), (''content'', JStr content)]))
                ''gridPos'' (JObj (dset grid ''h'' (JInt (min h 3)))) in
      Inr p)))"

section \<open>Geometry\<close>

text \<open>Two placed panels do not share a cell of the grid.\<close>

definition apart :: "placed \<Rightarrow> placed \<Rightarrow> bool" where
  "apart a b = (gp_x (snd a) + gp_w (snd a) \<le> gp_x (snd b) \<or> gp_x (snd b) + gp_w (snd b) \<le> gp_x (snd a) \<or>
     gp_y (snd a) + gp_h (snd a) \<le> gp_y (snd b) \<or> gp_y (snd b) + gp_h (snd b) \<le> gp_y (snd a))"

definition on_grid :: "placed \<Rightarrow> bool" where
  "on_grid p = (0 \<le> gp_x (snd p) \<and> 0 \<le> gp_w (snd p) \<and> gp_x (snd p) + gp_w (snd p) \<le> GRID_WIDTH \<and> 0 \<le> gp_y (snd p))"

definition between :: "int \<Rightarrow> int \<Rightarrow> placed \<Rightarrow> bool" where
  "between a b p = (a \<le> gp_y (snd p) \<and> gp_y (snd p) + gp_h (snd p) \<le> b)"

definition tall :: "placed \<Rightarrow> bool" where
  "tall p = (0 \<le> gp_h (snd p))"

subsection \<open>One row\<close>

text \<open>The columns the panels from an index on take.\<close>

definition columns_left :: "int \<Rightarrow> nat \<Rightarrow> nat \<Rightarrow> nat \<Rightarrow> int" where
  "columns_left base remainder index n = int n * base + int (min n (remainder - index))"

lemma columns_left_Suc:
  "columns_left base r i (Suc n) = (base + (if i < r then 1 else 0)) + columns_left base r (Suc i) n"
  by (auto simp: columns_left_def algebra_simps min_def)

lemma columns_left_nonneg: "0 \<le> base \<Longrightarrow> 0 \<le> columns_left base r i n"
  by (simp add: columns_left_def)

lemma fst_pack_from [simp]: "map fst (pack_from base r i x y ps) = map fst ps"
  by (induction base r i x y ps rule: pack_from.induct) (simp_all add: Let_def)

lemma pack_from_width: "sum_list (map (gp_w \<circ> snd) (pack_from base r i x y ps)) = columns_left base r i (length ps)"
proof (induction base r i x y ps rule: pack_from.induct)
  case (1 base remainder index x y)
  then show ?case by (simp add: columns_left_def)
next
  case (2 base remainder index x y panel h rest)
  then show ?case by (simp add: Let_def columns_left_Suc)
qed

lemma pack_from_bounds:
  assumes "0 \<le> base" "p \<in> set (pack_from base r i x y ps)"
  shows "x \<le> gp_x (snd p) \<and> 0 \<le> gp_w (snd p) \<and> gp_y (snd p) = y \<and>
     gp_x (snd p) + gp_w (snd p) \<le> x + columns_left base r i (length ps) \<and> gp_h (snd p) \<in> snd ` set ps"
  using assms
proof (induction base r i x y ps rule: pack_from.induct)
  case (2 base remainder index x y panel h rest)
  let ?w = "base + (if index < remainder then 1 else 0)"
  have nn: "0 \<le> ?w" "0 \<le> columns_left base remainder (index + 1) (length rest)"
    using 2(2) by (simp_all add: columns_left_nonneg)
  have eq: "columns_left base remainder index (length ((panel, h) # rest)) =
      ?w + columns_left base remainder (index + 1) (length rest)" by (simp add: columns_left_Suc)
  consider "p = (panel, \<lparr>gp_x = x, gp_y = y, gp_w = ?w, gp_h = h\<rparr>)"
    | "p \<in> set (pack_from base remainder (index + 1) (x + ?w) y rest)"
    using 2(3) by (auto simp: Let_def)
  then show ?case
  proof cases
    case 1
    then show ?thesis using nn unfolding eq by simp
  next
    case 2
    then show ?thesis using "2.IH" [OF refl "2.prems"(1)] nn unfolding eq by auto
  qed
qed simp

lemma pack_from_apart: "0 \<le> base \<Longrightarrow> sorted_wrt apart (pack_from base r i x y ps)"
proof (induction base r i x y ps rule: pack_from.induct)
  case (2 base remainder index x y panel h rest)
  let ?w = "base + (if index < remainder then 1 else 0)"
  have "apart (panel, \<lparr>gp_x = x, gp_y = y, gp_w = ?w, gp_h = h\<rparr>) p"
    if "p \<in> set (pack_from base remainder (index + 1) (x + ?w) y rest)" for p
    using pack_from_bounds [OF 2(2) that] by (simp add: apart_def)
  then show ?case using "2.IH" [OF refl 2(2)] by (simp add: Let_def)
qed simp

subsection \<open>Packed rows and stacked rows\<close>

lemma columns_left_full:
  assumes "0 < n"
  shows "columns_left (width div int n) (nat (width mod int n)) 0 n = width"
proof -
  have "0 \<le> width mod int n" "width mod int n < int n" using assms by simp_all
  then have "int (min n (nat (width mod int n))) = width mod int n" by simp
  then show ?thesis by (simp add: columns_left_def)
qed

lemma largest_ge: "h \<in> set hs \<Longrightarrow> h \<le> largest hs"
proof (cases hs)
  case (Cons a rest)
  assume "h \<in> set hs"
  then have "h \<le> Max (set (a # rest))" by (intro Max_ge) (auto simp: Cons)
  then show ?thesis by (simp add: largest_def Cons Max.set_eq_fold del: Max_insert set_simps)
qed simp

lemma own_heights_length: "own_heights ps = Inr hs \<Longrightarrow> length hs = length ps"
  by (auto simp: own_heights_def map_res_Inr_iff dest: list_all2_lengthD)

lemma stack_rows_fst: "length hs = length ps \<Longrightarrow> map fst (stack_rows y (zip ps hs)) = ps"
proof (induction ps arbitrary: y hs)
  case (Cons p ps)
  then show ?case by (cases hs) simp_all
qed simp

lemma stack_rows_facts:
  assumes "\<forall>q \<in> set ps. 0 \<le> snd q"
  shows "sorted_wrt apart (stack_rows y ps) \<and>
    (\<forall>p \<in> set (stack_rows y ps). between y (y + sum_list (map snd ps)) p \<and> gp_x (snd p) = 0 \<and> gp_w (snd p) = GRID_WIDTH)"
  using assms
proof (induction y ps rule: stack_rows.induct)
  case (2 y panel h rest)
  have h: "0 \<le> h" and rest: "\<forall>q \<in> set rest. 0 \<le> snd q" using 2(2) by auto
  then have nn: "0 \<le> sum_list (map snd rest)" by (intro sum_list_nonneg) auto
  have "between (y + h) (y + h + sum_list (map snd rest)) p" if "p \<in> set (stack_rows (y + h) rest)" for p
    using 2(1) [OF rest] that by blast
  then show ?case using 2(1) [OF rest] h nn by (fastforce simp: between_def apart_def)
qed simp

lemma pack_row_facts:
  assumes "pack_row ps y None GRID_WIDTH = Inr (cells, next)" "\<forall>p \<in> set cells. tall p"
  shows "map fst cells = ps \<and> sorted_wrt apart cells \<and> y \<le> next \<and>
    (\<forall>p \<in> set cells. between y next p \<and> 0 \<le> gp_x (snd p) \<and> 0 \<le> gp_w (snd p) \<and>
       gp_x (snd p) + gp_w (snd p) \<le> GRID_WIDTH \<and> gp_y (snd p) = y) \<and>
    (ps \<noteq> [] \<longrightarrow> sum_list (map (gp_w \<circ> snd) cells) = GRID_WIDTH)"
proof (cases "ps = []")
  case True
  then show ?thesis using assms(1) by (simp add: pack_row_def)
next
  case False
  let ?n = "length ps" let ?b = "GRID_WIDTH div int (length ps)" let ?r = "nat (GRID_WIDTH mod int (length ps))"
  obtain hs where hs: "own_heights ps = Inr hs" and cells: "cells = pack_from ?b ?r 0 0 y (zip ps hs)"
    and nxt: "next = y + largest hs"
    using assms(1) False by (auto simp: pack_row_def and_then_eq_Inr)
  have len: "length hs = ?n" by (rule own_heights_length [OF hs])
  have n: "0 < ?n" using False by simp
  have b: "0 \<le> ?b" using n by (simp add: GRID_WIDTH_def pos_imp_zdiv_nonneg_iff)
  have full: "columns_left ?b ?r 0 (length (zip ps hs)) = GRID_WIDTH" using columns_left_full [OF n] len by simp
  have fst_cells: "map fst cells = ps" using len by (simp add: cells map_fst_zip)
  have cell: "0 \<le> gp_x (snd p) \<and> 0 \<le> gp_w (snd p) \<and> gp_y (snd p) = y \<and>
      gp_x (snd p) + gp_w (snd p) \<le> GRID_WIDTH \<and> gp_h (snd p) \<le> largest hs" if "p \<in> set cells" for p
  proof -
    have "gp_h (snd p) \<in> set hs" using pack_from_bounds [OF b that [unfolded cells]] by (auto dest: set_zip_rightD)
    then show ?thesis using pack_from_bounds [OF b that [unfolded cells]] full largest_ge by auto
  qed
  obtain c where c: "c \<in> set cells" using fst_cells False by (cases cells) auto
  have "0 \<le> largest hs" using cell [OF c] assms(2) c by (auto simp: tall_def)
  moreover have "sorted_wrt apart cells" unfolding cells by (rule pack_from_apart [OF b])
  moreover have "sum_list (map (gp_w \<circ> snd) cells) = GRID_WIDTH" unfolding cells pack_from_width full ..
  ultimately show ?thesis using fst_cells cell nxt by (auto simp: between_def)
qed

subsection \<open>The whole dashboard\<close>

lemma stack_rows_heights: "map (gp_h \<circ> snd) (stack_rows y ps) = map snd ps"
  by (induction y ps rule: stack_rows.induct) simp_all

definition inside :: "int \<Rightarrow> int \<Rightarrow> placed \<Rightarrow> bool" where
  "inside a b p = (between a b p \<and> 0 \<le> gp_x (snd p) \<and> 0 \<le> gp_w (snd p) \<and> gp_x (snd p) + gp_w (snd p) \<le> GRID_WIDTH)"

lemma apart_below: "between a b p \<Longrightarrow> between b c q \<Longrightarrow> apart p q"
  by (simp add: between_def apart_def)

lemma place_group_facts:
  assumes "place_group y g = Inr (cells, next)" "\<forall>p \<in> set cells. tall p"
  shows "mset (map fst cells) = mset g \<and> sorted_wrt apart cells \<and> y \<le> next \<and> (\<forall>p \<in> set cells. inside y next p)"
proof -
  let ?rows = "filter is_row g" let ?content = "filter (\<lambda>p. \<not> is_row p) g"
  obtain hs packed where hs: "own_heights ?rows = Inr hs"
    and packed: "pack_row ?content (y + sum_list hs) None GRID_WIDTH = Inr (packed, next)"
    and cells: "cells = stack_rows y (zip ?rows hs) @ packed"
    using assms(1) by (auto simp: place_group_def Let_def and_then_eq_Inr)
  have len: "length hs = length ?rows" by (rule own_heights_length [OF hs])
  have snds: "map snd (zip ?rows hs) = hs" using len by simp
  have "0 \<le> h" if "h \<in> set hs" for h
  proof -
    have "h \<in> set (map (gp_h \<circ> snd) (stack_rows y (zip ?rows hs)))" unfolding stack_rows_heights snds by (rule that)
    then obtain p where "p \<in> set (stack_rows y (zip ?rows hs))" "h = gp_h (snd p)" by auto
    then show ?thesis using assms(2) by (auto simp: cells tall_def)
  qed
  then have nn: "\<forall>q \<in> set (zip ?rows hs). 0 \<le> snd q" by (auto dest: set_zip_rightD)
  have total: "0 \<le> sum_list hs" using nn snds by (metis (no_types, lifting) imageE set_map sum_list_nonneg)
  note st = stack_rows_facts [OF nn, of y, unfolded snds]
  note pk = pack_row_facts [OF packed]
  have pk': "\<forall>p \<in> set packed. tall p" using assms(2) by (simp add: cells)
  have "apart p q" if "p \<in> set (stack_rows y (zip ?rows hs))" "q \<in> set packed" for p q
    using st pk [OF pk'] that apart_below by blast
  then have srt: "sorted_wrt apart cells" using st pk [OF pk'] by (simp add: cells sorted_wrt_append)
  have "mset (map fst cells) = mset ?rows + mset ?content"
    using stack_rows_fst [OF len, of y] pk [OF pk'] by (simp add: cells)
  also have "\<dots> = mset g" by (metis mset_filter multiset_partition)
  finally have ms: "mset (map fst cells) = mset g" .
  have "inside y next p" if "p \<in> set cells" for p
  proof (cases "p \<in> set packed")
    case True
    then show ?thesis using pk [OF pk'] total by (fastforce simp: inside_def between_def)
  next
    case False
    then have "p \<in> set (stack_rows y (zip ?rows hs))" using that by (simp add: cells)
    then have "between y (y + sum_list hs) p" "gp_x (snd p) = 0" "gp_w (snd p) = GRID_WIDTH" using st by auto
    moreover have "y + sum_list hs \<le> next" using pk [OF pk'] by blast
    ultimately show ?thesis by (simp add: inside_def between_def GRID_WIDTH_def)
  qed
  then show ?thesis using ms srt pk [OF pk'] total by auto
qed

lemma place_groups_facts:
  assumes "place_groups y gs = Inr cells" "\<forall>p \<in> set cells. tall p"
  shows "mset (map fst cells) = mset (concat gs) \<and> sorted_wrt apart cells \<and>
    (\<forall>p \<in> set cells. y \<le> gp_y (snd p) \<and> 0 \<le> gp_x (snd p) \<and> 0 \<le> gp_w (snd p) \<and> gp_x (snd p) + gp_w (snd p) \<le> GRID_WIDTH)"
  using assms
proof (induction gs arbitrary: y cells)
  case (Cons g gs)
  obtain here y' rest where here: "place_group y g = Inr (here, y')" and rest: "place_groups y' gs = Inr rest"
    and cells: "cells = here @ rest"
    using Cons.prems(1) by (auto simp: and_then_eq_Inr map_sum_eq_Inr)
  have tall: "\<forall>p \<in> set here. tall p" "\<forall>p \<in> set rest. tall p" using Cons.prems(2) by (simp_all add: cells)
  note h = place_group_facts [OF here tall(1)] and r = Cons.IH [OF rest tall(2)]
  have "apart p q" if "p \<in> set here" "q \<in> set rest" for p q
    using h r that by (fastforce simp: inside_def between_def apart_def)
  then show ?case using h r by (fastforce simp: cells sorted_wrt_append inside_def between_def)
qed simp

lemma concat_row_groups: "concat (row_groups ps) = map snd ps"
proof (induction ps rule: row_groups.induct)
  case (2 p ps)
  have "map snd (takeWhile (\<lambda>q. fst q = fst p) ps) @ map snd (dropWhile (\<lambda>q. fst q = fst p) ps) = map snd ps"
    by (metis map_append takeWhile_dropWhile_id)
  with 2 show ?case by simp
qed simp

lemma reading_order_mset: "in_reading_order ps = Inr qs \<Longrightarrow> mset (map snd qs) = mset ps"
proof -
  assume "in_reading_order ps = Inr qs"
  then obtain ks where ks: "map_res reading_key ps = Inr ks" and qs: "qs = map (\<lambda>(k, p). (fst k, p)) (sort_key fst ks)"
    by (auto simp: in_reading_order_def map_sum_eq_Inr)
  have "map snd ks = ps"
    using ks unfolding map_res_Inr_iff by (induction rule: list_all2_induct) (auto simp: reading_key_def and_then_eq_Inr)
  moreover have "map snd qs = map snd (sort_key fst ks)" unfolding qs by (simp add: case_prod_unfold)
  then have "mset (map snd qs) = mset (map snd ks)" by (metis mset_map mset_sort)
  ultimately show ?thesis by simp
qed

text \<open>
  C32. The panels of a laid-out dashboard are those of the dashboard that are not marked for
  omission, none lost and none doubled; all stay within the 24 columns and no two of them share
  a cell of the grid, whatever gaps and overlaps the template had.
\<close>

theorem dashboard_panels_never_overlap:
  assumes "layout_of panels = Inr cells" "\<forall>p \<in> set cells. tall p"
  shows "mset (map fst cells) = mset (kept_panels panels) \<and> sorted_wrt apart cells \<and> list_all on_grid cells"
proof -
  obtain ps where ps: "in_reading_order (kept_panels panels) = Inr ps" and cells: "place_groups 0 (row_groups ps) = Inr cells"
    using assms(1) by (auto simp: layout_of_def and_then_eq_Inr)
  have "mset (concat (row_groups ps)) = mset (kept_panels panels)"
    unfolding concat_row_groups by (rule reading_order_mset [OF ps])
  then show ?thesis using place_groups_facts [OF cells assms(2)] by (auto simp: list_all_iff on_grid_def)
qed

definition sample_panels :: "dict list" where
  "sample_panels = map (\<lambda>(i, t, x, y). [(''id'', JInt i), (''type'', JStr t),
     (''gridPos'', JObj [(''x'', JInt x), (''y'', JInt y), (''w'', JInt 4), (''h'', JInt 3)])])
     [(1, ''row'', 0, 0), (2, ''stat'', 0, 5), (3, ''stat'', 2, 5), (4, ''table'', 0, 9)]"

theorem dashboard_panels_never_overlap_witness:
  "\<exists>cells. layout_of sample_panels = Inr cells \<and> length cells = 4 \<and> sorted_wrt apart cells"
proof -
  have e: "(case layout_of sample_panels of Inl e \<Rightarrow> None | Inr cs \<Rightarrow> Some (map (\<lambda>p. (gp_x (snd p), gp_y (snd p), gp_w (snd p), gp_h (snd p))) cs)) =
      Some [(0, 0, 24, 3), (0, 3, 12, 3), (12, 3, 12, 3), (0, 6, 24, 3)]" by code_simp
  then obtain cells where c: "layout_of sample_panels = Inr cells"
    and m: "map (\<lambda>p. (gp_x (snd p), gp_y (snd p), gp_w (snd p), gp_h (snd p))) cells =
      [(0, 0, 24, 3), (0, 3, 12, 3), (12, 3, 12, 3), (0, 6, 24, 3)]"
    by (cases "layout_of sample_panels") simp_all
  then have "\<forall>p \<in> set cells. tall p" by (auto simp: Cons_eq_map_conv tall_def)
  from dashboard_panels_never_overlap [OF c this] m c show ?thesis by (auto dest: map_eq_imp_length_eq)
qed

end
