(* ===== verification/Wallboard.thy ===== *)
theory Wallboard
  imports ITP_Prelude
begin

text \<open>
  \<open>analysis/wallboard/engine.py\<close>, the rows of the operations wallboard: the immediate actions,
  the uplinks and the tiles for internet, monitoring, certificates, firewalls and overall health.
  A scope is its id, \<open>all\<close> or a site's; services are looked up by scope.
\<close>

section \<open>Values\<close>

text \<open>A lookup in a table of strings, which hashes its key.\<close>

definition lookup_str :: "(string \<times> 'a) list \<Rightarrow> json \<Rightarrow> 'a option res" where
  "lookup_str table v = (case v of JStr s \<Rightarrow> Inr (map_of table s) | JList _ \<Rightarrow> Inl (TypeError ''unhashable_value type'')
     | JObj _ \<Rightarrow> Inl (TypeError ''unhashable_value type'') | _ \<Rightarrow> Inr None)"

definition member_str :: "string list \<Rightarrow> json \<Rightarrow> bool res" where
  "member_str ss v = map_sum id (\<lambda>x. x \<noteq> None) (lookup_str (map (\<lambda>s. (s, ())) ss) v)"

definition scope_matches :: "string \<Rightarrow> dict \<Rightarrow> bool" where
  "scope_matches scope d = (scope = ''all'' \<or> dget d ''site_id'' = JStr scope)"

definition evidence_of :: "dict \<Rightarrow> dict res" where
  "evidence_of d = want_dict (por (dget d ''evidence'') (JObj []))"

definition action_age :: "dict \<Rightarrow> string res" where
  "action_age d =
     and_then (evidence_of d) (\<lambda>e.
     if dget e ''age_seconds'' = JNull then Inr ''Just now''
     else map_sum id (\<lambda>i. let n = max 0 i in
       if 86400 \<le> n then show_int (n div 86400) @ ''d''
       else if 3600 \<le> n then show_int (n div 3600) @ ''h'' else show_int (n div 60) @ ''m'')
       (py_int (dget e ''age_seconds'')))"

text \<open>\<open>\b0 days? remaining\b\<close> and \<open>\bexpires? today\b\<close>: a text between two word boundaries.\<close>

definition word_char :: "char \<Rightarrow> bool" where
  "word_char c = (is_alnum c \<or> c = CHR ''_'')"

fun find_word :: "bool \<Rightarrow> string \<Rightarrow> string \<Rightarrow> bool" where
  "find_word inside w [] = False"
| "find_word inside w (c # cs) =
     ((\<not> inside \<and> starts_with w (c # cs) \<and>
       (case drop (length w) (c # cs) of [] \<Rightarrow> True | x # _ \<Rightarrow> \<not> word_char x)) \<or> find_word (word_char c) w cs)"

definition expires_today :: "string \<Rightarrow> bool" where
  "expires_today s = list_ex (\<lambda>w. find_word False w s)
     [''0 days remaining'', ''0 day remaining'', ''expires today'', ''expire today'']"

text \<open>
  \<open>(?i)certificate (expiry|expires?)[: ]*\<close> replaced by nothing: the rest after a match at the
  start of a text, and every match from left to right.
\<close>

definition after_match :: "string \<Rightarrow> string option" where
  "after_match s = (case find (\<lambda>w. starts_with w (casefold s))
       [''certificate expiry'', ''certificate expires'', ''certificate expire''] of
     None \<Rightarrow> None | Some w \<Rightarrow> Some (dropWhile (\<lambda>c. c = CHR '':'' \<or> c = CHR '' '') (drop (length w) s)))"

lemma after_match_shorter: "after_match s = Some t \<Longrightarrow> length t < length s"
proof -
  assume "after_match s = Some t"
  then obtain w where w: "starts_with w (casefold s)" "w \<noteq> []" "t = dropWhile (\<lambda>c. c = CHR '':'' \<or> c = CHR '' '') (drop (length w) s)"
    by (auto simp: after_match_def split: if_splits)
  then have "length w \<le> length s" unfolding starts_with_def lower_def by (metis length_map length_take min.cobounded1)
  then show ?thesis using w(2,3) length_dropWhile_le [of "\<lambda>c. c = CHR '':'' \<or> c = CHR '' ''" "drop (length w) s"]
    by (cases w) auto
qed

function drop_matches :: "string \<Rightarrow> string" where
  "drop_matches [] = []"
| "drop_matches (c # cs) = (case after_match (c # cs) of Some rest \<Rightarrow> drop_matches rest | None \<Rightarrow> c # drop_matches cs)"
  by pat_completeness auto
termination
  by (relation "measure length") (auto dest: after_match_shorter)

definition text_of_key :: "dict \<Rightarrow> string \<Rightarrow> string" where
  "text_of_key d k = strip (py_str (por (dget d k) (JStr [])))"

definition printer_count :: "dict \<Rightarrow> json res" where
  "printer_count d =
     and_then (evidence_of d) (\<lambda>e.
       if truthy (dget e ''error_count'') then Inr (dget e ''error_count'')
       else if truthy (dget e ''device_count'') then Inr (dget e ''device_count'')
       else (case por (dget d ''affected_assets'') (JList []) of
           JList xs \<Rightarrow> Inr (JInt (int (length xs))) | JObj m \<Rightarrow> Inr (JInt (int (length m)))
         | JStr s \<Rightarrow> Inr (JInt (int (length s))) | _ \<Rightarrow> Inl (TypeError ''object has no len()'')))"

definition action_text :: "dict \<Rightarrow> string res" where
  "action_text d =
     (let summary = strip (py_str (por (dget d ''summary'') (por (dget d ''title'') (JStr [])))); title = text_of_key d ''title'';
          device = text_of_key d ''device''; both = casefold (title @ '' '' @ summary) in
      if contains ''certificate'' both \<or> contains ''days remaining'' both then
        (let name = sor device (strip (drop_matches title)) in
         Inr (''Renew '' @ sor name ''the affected'' @ '' certificate '' @ (if expires_today both then ''today'' else ''now'')))
      else if contains ''embedded device'' both \<or> dget d ''category'' = JStr ''Printing'' \<and> contains ''error'' both then
        map_sum id (\<lambda>n. if truthy n then py_str n @ '' printers require attention'' else ''Printers require attention'')
          (printer_count d)
      else if dget d ''category'' = JStr ''Collector'' then Inr (''Restore monitoring for '' @ sor device ''the affected service'')
      else if starts_with ''wan.'' (py_str (por (dget d ''rule_id'') (JStr []))) then Inr (''Restore '' @ sor device ''the affected WAN'')
      else Inr (sor (text_of_key d ''recommended_action'') (sor summary (sor title ''Review the affected service''))))"

section \<open>Actions\<close>

definition action_domains :: "(string \<times> string) list" where
  "action_domains = [(''Wireless'', ''wireless''), (''Printing'', ''printing''), (''Server'', ''compute''), (''Storage'', ''storage''),
     (''Firewall'', ''firewall''), (''Security'', ''firewall''), (''Network'', ''switching''), (''Virtualisation'', ''virtualisation'')]"

definition action_services :: "(string \<times> string) list" where
  "action_services = [(''Wireless'', ''Wireless''), (''Printing'', ''Printing''), (''Server'', ''Compute''), (''Storage'', ''Storage''),
     (''Firewall'', ''Security''), (''Security'', ''Security''), (''Collector'', ''Monitoring''), (''Inventory'', ''Monitoring''),
     (''Lifecycle'', ''Monitoring''), (''Virtualisation'', ''Virtualisation'')]"

text \<open>The filters of issues and of risks.\<close>

definition in_reach :: "string list \<Rightarrow> dict \<Rightarrow> bool res" where
  "in_reach capabilities d = map_sum id (\<lambda>r. case r of None \<Rightarrow> True | Some c \<Rightarrow> c \<in> set capabilities)
     (lookup_str action_domains (dget d ''category''))"

definition of_enabled_collector :: "string list \<Rightarrow> dict \<Rightarrow> bool res" where
  "of_enabled_collector enabled d =
     (if dget d ''category'' = JStr ''Collector'' then member_str enabled (dget d ''device'') else Inr True)"

definition issue_eligible :: "string list \<Rightarrow> string list \<Rightarrow> dict \<Rightarrow> bool res" where
  "issue_eligible enabled capabilities d =
     and_then (in_reach capabilities d) (\<lambda>b. if b then of_enabled_collector enabled d else Inr False)"

definition risk_eligible :: "string list \<Rightarrow> string list \<Rightarrow> dict \<Rightarrow> bool res" where
  "risk_eligible enabled capabilities d =
     and_then (in_reach capabilities d) (\<lambda>b. if \<not> b then Inr False
       else and_then (member_str [''Critical'', ''High''] (dget d ''severity'')) (\<lambda>severe.
         if \<not> severe \<and> \<not> (dget d ''category'' = JStr ''Virtualisation'' \<and> dget d ''severity'' = JStr ''Medium'') then Inr False
         else of_enabled_collector enabled d))"

fun keep_res :: "('a \<Rightarrow> bool res) \<Rightarrow> 'a list \<Rightarrow> 'a list res" where
  "keep_res f [] = Inr []"
| "keep_res f (x # xs) = and_then (f x) (\<lambda>b. map_sum id (\<lambda>ys. if b then x # ys else ys) (keep_res f xs))"

definition action_candidates :: "dict \<Rightarrow> string list \<Rightarrow> string list \<Rightarrow> dict list res" where
  "action_candidates operations enabled capabilities =
     and_then (and_then (dict_list (dget_or operations ''issues'' (JList []))) (keep_res (issue_eligible enabled capabilities))) (\<lambda>issues.
     map_sum id (\<lambda>risks. issues @ risks)
       (and_then (dict_list (dget_or operations ''risks'' (JList []))) (keep_res (risk_eligible enabled capabilities))))"

text \<open>Issues win over risks describing the same rule and asset; then the order of display.\<close>

definition action_asset :: "dict \<Rightarrow> json" where
  "action_asset d = por (dget d ''canonical_id'') (dget d ''device'')"

definition kind_rank :: "dict \<Rightarrow> int" where
  "kind_rank d = (if dget d ''kind'' = JStr ''issue'' then 0 else 1)"

definition choice_key :: "dict \<Rightarrow> (int \<times> int \<times> string \<times> string) res" where
  "choice_key d =
     and_then (py_int (dget_or d ''priority'' (JInt 0))) (\<lambda>p.
     and_then (want_str (dget_or d ''title'' (JStr []))) (\<lambda>t.
     map_sum id (\<lambda>i. (kind_rank d, - p, t, i)) (want_str (dget_or d ''id'' (JStr [])))))"

definition same_action :: "dict \<Rightarrow> dict \<Rightarrow> bool" where
  "same_action a b = (py_eq (dget a ''rule_id'') (dget b ''rule_id'') \<and> py_eq (action_asset a) (action_asset b))"

definition unhashable_value :: "json \<Rightarrow> bool" where
  "unhashable_value v = (case v of JList _ \<Rightarrow> True | JObj _ \<Rightarrow> True | _ \<Rightarrow> False)"

definition wall_severities :: "(string \<times> int) list" where
  "wall_severities = [(''Critical'', 5), (''High'', 4), (''Medium'', 3), (''Low'', 2), (''Unknown'', 1), (''Info'', 0)]"

definition wall_rank :: "dict \<Rightarrow> int" where
  "wall_rank d = (case dget_or d ''severity'' (JStr ''Info'') of
     JStr s \<Rightarrow> (case map_of wall_severities s of None \<Rightarrow> 0 | Some r \<Rightarrow> r) | _ \<Rightarrow> 0)"

definition display_key :: "dict \<Rightarrow> (int \<times> int \<times> int \<times> string \<times> string \<times> string) res" where
  "display_key d =
     and_then (lookup_str wall_severities (dget_or d ''severity'' (JStr ''Info''))) (\<lambda>_.
     and_then (evidence_of d) (\<lambda>e.
     and_then (py_int (dget_or e ''age_seconds'' (JInt 0))) (\<lambda>age.
     and_then (py_int (dget_or d ''priority'' (JInt 0))) (\<lambda>p.
     and_then (want_str (por (action_asset d) (JStr []))) (\<lambda>a.
     and_then (want_str (dget_or d ''title'' (JStr []))) (\<lambda>t.
     map_sum id (\<lambda>i. (- wall_rank d, - age, - p, a, t, i)) (want_str (dget_or d ''id'' (JStr [])))))))))"

definition keyed_sort :: "('a \<Rightarrow> ('k :: linorder) res) \<Rightarrow> 'a list \<Rightarrow> 'a list res" where
  "keyed_sort f xs = map_sum id (\<lambda>ks. map snd (sort_key fst (zip ks xs))) (map_res f xs)"

fun first_by :: "('a \<Rightarrow> 'a \<Rightarrow> bool) \<Rightarrow> 'a list \<Rightarrow> 'a list" where
  "first_by eq [] = []"
| "first_by eq (x # xs) = x # filter (\<lambda>y. \<not> eq x y) (first_by eq xs)"

definition ordered_actions :: "dict list \<Rightarrow> dict list res" where
  "ordered_actions candidates =
     and_then (keyed_sort choice_key candidates) (\<lambda>cs.
     if list_ex (\<lambda>d. unhashable_value (dget d ''rule_id'') \<or> unhashable_value (action_asset d)) cs then Inl (TypeError ''unhashable_value type'')
     else keyed_sort display_key (first_by same_action cs))"

definition shown_actions :: "string \<Rightarrow> dict list \<Rightarrow> dict list" where
  "shown_actions scope items = take 8 (filter (scope_matches scope) items)"

definition action_service :: "dict \<Rightarrow> json res" where
  "action_service d =
     (if starts_with ''wan.'' (py_str (dget_or d ''rule_id'' (JStr []))) then Inr (JStr ''Internet'')
      else if dget d ''category'' = JStr ''Network'' then Inr (JStr ''Switching'')
      else map_sum id (\<lambda>r. case r of Some s \<Rightarrow> JStr s | None \<Rightarrow> dget_or d ''category'' (JStr ''Infrastructure''))
        (lookup_str action_services (dget d ''category'')))"

definition action_row :: "string \<Rightarrow> dict \<Rightarrow> dict res" where
  "action_row scope d =
     and_then (action_service d) (\<lambda>service.
     and_then (action_text d) (\<lambda>text.
     and_then (action_age d) (\<lambda>age.
     map_sum id (\<lambda>p. [(''scope'', JStr scope), (''severity'', dget_or d ''severity'' (JStr ''Info'')), (''service'', service),
       (''asset'', por (dget d ''device'') (JStr ''Platform'')), (''issue'', JStr text), (''age'', JStr age), (''priority'', JInt p),
       (''domain'', por (dget d ''domain'') (dget_or d ''category'' (JStr ''Infrastructure''))),
       (''provider'', dget_or d ''provider'' (JStr [])), (''object_kind'', dget_or d ''object_kind'' (JStr [])),
       (''id'', dget_or d ''id'' (JStr []))]) (py_int (dget_or d ''priority'' (JInt 0))))))"

text \<open>The dash of the last text is its UTF-8 encoding.\<close>

definition empty_label :: "json \<Rightarrow> string res" where
  "empty_label state = map_sum id (\<lambda>r. case r of Some s \<Rightarrow> s | None \<Rightarrow> ''No action required'')
     (lookup_str [(''not_configured'', ''Monitoring not configured''), (''waiting_first_collection'', ''Waiting for first collection''),
        (''unavailable'', ''Collection unavailable '' @ [CHR 0xE2, CHR 0x80, CHR 0x94] @ '' run Doctor'')] state)"

definition no_action_row :: "string \<Rightarrow> string \<Rightarrow> dict" where
  "no_action_row scope label = [(''scope'', JStr scope), (''severity'', JStr ''Info''), (''service'', JStr ''Operations''),
     (''asset'', JStr []), (''issue'', JStr label), (''age'', JStr []), (''priority'', JInt 0), (''domain'', JStr []),
     (''provider'', JStr []), (''object_kind'', JStr []), (''id'', JStr [])]"

definition scope_actions :: "json \<Rightarrow> dict list \<Rightarrow> string \<Rightarrow> dict list res" where
  "scope_actions state items scope =
     and_then (map_res (action_row scope) (shown_actions scope items)) (\<lambda>rows.
     map_sum id (\<lambda>label. if rows = [] then [no_action_row scope label] else rows) (empty_label state))"

definition action_rows :: "dict \<Rightarrow> string list \<Rightarrow> string list \<Rightarrow> string list \<Rightarrow> json \<Rightarrow> dict list res" where
  "action_rows operations scopes enabled capabilities state =
     and_then (action_candidates operations enabled capabilities) (\<lambda>cs.
     and_then (ordered_actions cs) (\<lambda>items. map_sum id concat (map_res (scope_actions state items) scopes)))"

section \<open>Uplinks\<close>

definition service_in :: "(string \<times> dict) list \<Rightarrow> string \<Rightarrow> string \<Rightarrow> dict res" where
  "service_in service_scopes scope service =
     map_sum id (\<lambda>vs. case find (\<lambda>d. dget d ''service'' = JStr service) vs of None \<Rightarrow> [] | Some d \<Rightarrow> d)
       (dict_list (dget_or (case map_of service_scopes scope of None \<Rightarrow> [] | Some d \<Rightarrow> d) ''services'' (JList [])))"

definition authoritative_wan :: "dict \<Rightarrow> bool" where
  "authoritative_wan d = (dget d ''classification_authoritative'' = JBool True \<or>
     lower (py_str (dget_or d ''role'' (JStr []))) \<in> {''primary'', ''secondary''})"

definition uplink_key :: "dict \<Rightarrow> string \<times> string" where
  "uplink_key d = (py_str (dget_or d ''role'' (JStr [])), py_str (por (dget d ''interface_name'') (dget_or d ''name'' (JStr []))))"

definition wan_interface :: "dict \<Rightarrow> json" where
  "wan_interface d = por (dget d ''interface_name'') (por (dget d ''name'') (JStr ''WAN''))"

definition wan_display :: "dict \<Rightarrow> json" where
  "wan_display d = (let v = por (dget d ''display_name'') (dget d ''friendly_label'');
       v' = (if \<not> truthy v \<and> truthy (dget d ''interface_name'') then dget d ''name'' else v) in por v' (wan_interface d))"

definition wan_role :: "dict \<Rightarrow> string" where
  "wan_role d = title_from False (py_str (por (dget d ''role'') (JStr ''Unspecified'')))"

definition wan_state :: "dict \<Rightarrow> string" where
  "wan_state d = (if dget d ''available'' = JBool True then ''Up'' else if dget d ''available'' = JBool False then ''Down'' else ''Unknown'')"

definition wan_collector :: "dict \<Rightarrow> json" where
  "wan_collector d = por (dget d ''collector'') (por (dget d ''source_collector'') (JStr []))"

definition wan_row :: "string \<Rightarrow> dict \<Rightarrow> dict" where
  "wan_row scope d = [(''scope'', JStr scope), (''interface'', wan_interface d), (''label'', wan_display d),
     (''interface_name'', wan_interface d), (''display_name'', wan_display d), (''uplink'', wan_interface d),
     (''device_id'', por (dget d ''device_id'') (JStr [])), (''collector'', wan_collector d), (''role'', JStr (wan_role d)),
     (''state'', JStr (wan_state d)), (''latency_ms'', dget_or d ''latency_ms'' (JStr ''N/A'')),
     (''packet_loss_percent'', dget_or d ''packet_loss_percent'' (JStr ''N/A''))]"

definition no_wan_row :: "string \<Rightarrow> dict \<Rightarrow> dict" where
  "no_wan_row scope internet = [(''scope'', JStr scope), (''interface'', JStr []), (''label'', JStr []),
     (''uplink'', por (dget internet ''summary'') (JStr ''No WAN Telemetry'')), (''role'', JStr ''N/A''),
     (''state'', JStr ''No WAN Telemetry''), (''latency_ms'', JStr ''N/A''), (''packet_loss_percent'', JStr ''N/A'')]"

definition scope_wan_rows :: "dict list \<Rightarrow> (string \<times> dict) list \<Rightarrow> string \<Rightarrow> dict list res" where
  "scope_wan_rows wans service_scopes scope =
     map_sum id (\<lambda>internet. let selected = filter (scope_matches scope) wans in
       if selected = [] then [no_wan_row scope internet] else map (wan_row scope) (sort_key uplink_key selected))
     (service_in service_scopes scope ''Internet'')"

definition wan_rows :: "dict \<Rightarrow> string list \<Rightarrow> (string \<times> dict) list \<Rightarrow> dict list res" where
  "wan_rows signals scopes service_scopes =
     and_then (dict_list (dget_or signals ''wan'' (JList []))) (\<lambda>ws.
     map_sum id concat (map_res (scope_wan_rows (filter authoritative_wan ws) service_scopes) scopes))"

text \<open>The traffic samples of the uplinks of a scope; \<open>time\<close> is a text.\<close>

definition wan_sample :: "string \<Rightarrow> dict \<Rightarrow> dict \<Rightarrow> dict" where
  "wan_sample scope d s = [(''scope'', JStr scope), (''time'', dget s ''time''), (''interface'', wan_interface d),
     (''label'', wan_display d), (''interface_name'', wan_interface d), (''display_name'', wan_display d),
     (''role'', JStr (wan_role d)), (''device_id'', por (dget d ''device_id'') (JStr [])), (''collector'', wan_collector d),
     (''uplink'', wan_interface d), (''rx_bps'', dget s ''rx_bps''), (''tx_bps'', dget s ''tx_bps'')]"

definition wan_samples :: "string \<Rightarrow> dict \<Rightarrow> dict list res" where
  "wan_samples scope d =
     map_sum id (\<lambda>ss. map (wan_sample scope d) (filter (\<lambda>s. truthy (dget s ''time'') \<and>
         (dget s ''rx_bps'' \<noteq> JNull \<or> dget s ''tx_bps'' \<noteq> JNull)) ss))
       (dict_list (dget_or d ''samples'' (JList [])))"

section \<open>Tiles\<close>

definition status_color :: "string \<Rightarrow> string" where
  "status_color s = (if s = ''Critical'' then ''red'' else if s = ''Warning'' \<or> s = ''Configuration Required'' then ''orange'' else ''gray'')"

definition in_state :: "string \<Rightarrow> dict list \<Rightarrow> dict list" where
  "in_state s rows = filter (\<lambda>r. dget r ''state'' = JStr s) rows"

definition internet_tile :: "string \<Rightarrow> dict list \<Rightarrow> string \<times> string" where
  "internet_tile status selected =
     (let down = length (in_state ''Down'' selected); unknown = length (in_state ''Unknown'' selected);
          total_wans = show_int (int (length selected)) in
      if status = ''Not Enabled'' then (''Not Enabled'', ''gray'')
      else if selected = [] then (status, status_color status)
      else if 0 < down then
        (show_int (int (length selected) - int down - int unknown) @ '' / '' @ total_wans @ '' WANs Healthy'',
         if down = length selected then ''red'' else ''orange'')
      else if 0 < unknown then (''Not Yet Collected'', ''gray'')
      else (total_wans @ '' / '' @ total_wans @ '' WANs Healthy'', ''green''))"

definition internet_row :: "dict list \<Rightarrow> (string \<times> dict) list \<Rightarrow> string \<Rightarrow> dict res" where
  "internet_row rows service_scopes scope =
     and_then (service_in service_scopes scope ''Internet'') (\<lambda>service.
     map_sum id (\<lambda>status.
       let tile = internet_tile status (filter (\<lambda>r. dget r ''scope'' = JStr scope \<and> truthy (dget r ''interface'')) rows) in
       [(''scope'', JStr scope), (''value'', JStr (fst tile)), (''color'', JStr (snd tile)),
        (''summary'', dget_or service ''summary'' (JStr []))])
     (want_str (dget_or service ''status'' (JStr ''Unknown''))))"

text \<open>A row of a collector on the wallboard.\<close>

record wall_collector =
  wr_scope :: string
  wr_collector :: string
  wr_status :: string
  wr_freshness :: string
  wr_last_run :: "string option"
  wr_last_success :: "string option"
  wr_services :: "string list"

definition status_rank :: "string \<Rightarrow> int" where
  "status_rank s = (if s = ''Failed'' then 3 else if s = ''Stale'' then 2 else if s = ''Warning'' then 1 else 0)"

definition has_text :: "string option \<Rightarrow> bool" where
  "has_text v = (case v of None \<Rightarrow> False | Some s \<Rightarrow> s \<noteq> [])"

definition worse_row :: "(string \<times> wall_collector) list \<Rightarrow> wall_collector \<Rightarrow> (string \<times> wall_collector) list" where
  "worse_row acc r =
     (if wr_collector r = [] \<or> \<not> has_text (wr_last_run r) then acc
      else case map_of acc (wr_collector r) of
        None \<Rightarrow> acc @ [(wr_collector r, r)]
      | Some q \<Rightarrow> if status_rank (wr_status q) < status_rank (wr_status r) then AList.update (wr_collector r) r acc else acc)"

definition worst_rows :: "wall_collector list \<Rightarrow> wall_collector list" where
  "worst_rows rows = map snd (foldl worse_row [] rows)"

definition success_text :: "wall_collector \<Rightarrow> string option" where
  "success_text r = (if has_text (wr_last_success r) then wr_last_success r else wr_last_run r)"

definition issue_text :: "wall_collector \<Rightarrow> string" where
  "issue_text r = wr_collector r @ '' '' @ casefold (wr_status r) @ '' ('' @ sor (wr_freshness r) ''never'' @ '')''"

record monitoring_tile =
  mt_scope :: string
  mt_value :: string
  mt_color :: string
  mt_display :: string
  mt_issues :: int
  mt_last_success :: "string option"
  mt_stale_services :: "string list"

definition monitoring_row :: "wall_collector list \<Rightarrow> string \<Rightarrow> monitoring_tile" where
  "monitoring_row rows scope =
     (let real = worst_rows (filter (\<lambda>r. wr_scope r = scope) rows);
          issues = filter (\<lambda>r. wr_status r \<noteq> ''Healthy'') real; n = int (length issues);
          stale = usort (concat (map (\<lambda>r. if wr_services r = [] then [''Monitoring''] else wr_services r) issues));
          successes = rev (sort (map (the \<circ> success_text) (filter (\<lambda>r. wr_status r = ''Healthy'') real)));
          (label, color) = (if real = [] then (''Collector Disabled'', ''gray'')
            else if issues \<noteq> [] then (show_int n @ (if n = 1 then '' collector requires attention''
                else '' collectors require attention''), ''orange'')
            else (''Healthy'', ''green''));
          detail = join ''; '' (map issue_text (sort_key wr_collector issues)) in
      \<lparr>mt_scope = scope, mt_value = label, mt_color = color,
        mt_display = (if detail = [] then label else label @ [CHR 0x0A] @ detail), mt_issues = n,
        mt_last_success = (case successes of [] \<Rightarrow> None | s # _ \<Rightarrow> Some s), mt_stale_services = stale\<rparr>)"

definition mentions_certificate :: "dict \<Rightarrow> bool res" where
  "mentions_certificate d =
     (let text = (\<lambda>k. py_str (dget_or d k (JStr []))); names = casefold (text ''rule_id'' @ '' '' @ text ''title'') in
      if contains ''certificate'' (casefold (text ''rule_id'' @ '' '' @ text ''title'' @ '' '' @ text ''summary'')) \<or> contains ''licen'' names
      then Inr True
      else (case por (dget d ''evidence'') (JObj []) of
          JObj e \<Rightarrow> Inr (dhas e ''days_remaining'' \<or> dhas e ''expired'')
        | JList xs \<Rightarrow> Inr (JStr ''days_remaining'' \<in> set xs \<or> JStr ''expired'' \<in> set xs)
        | JStr t \<Rightarrow> Inr (contains ''days_remaining'' t \<or> contains ''expired'' t)
        | _ \<Rightarrow> Inl (TypeError ''argument is not iterable'')))"

definition certificate_candidates :: "dict \<Rightarrow> dict list res" where
  "certificate_candidates operations =
     and_then (dict_list (dget_or operations ''issues'' (JList []))) (\<lambda>issues.
     and_then (dict_list (dget_or operations ''risks'' (JList []))) (\<lambda>risks. keep_res mentions_certificate (issues @ risks)))"

definition certificate_tile :: "bool \<Rightarrow> dict list \<Rightarrow> string \<Rightarrow> string \<times> string" where
  "certificate_tile enabled candidates scope =
     (let n = int (length (filter (scope_matches scope) candidates)) in
      if \<not> enabled then (''Not Enabled'', ''gray'')
      else if n \<noteq> 0 then (show_int n @ (if n = 1 then '' Certificate'' else '' Certificates'') @ [CHR 0x0A] @ ''Require Attention'', ''orange'')
      else (''Certificates Healthy'', ''green''))"

text \<open>The card of one service of a scope; a service without a card ends the evaluation.\<close>

definition scope_service :: "dict list \<Rightarrow> string \<Rightarrow> dict res" where
  "scope_service services service =
     (case find (\<lambda>d. dget d ''service'' = JStr service \<or> \<not> dhas d ''service'') services of
        None \<Rightarrow> Inl (Unmodelled ''StopIteration'')
      | Some d \<Rightarrow> if dhas d ''service'' then Inr d else Inl (KeyError ''service''))"

definition card_summary :: "dict \<Rightarrow> string" where
  "card_summary d = strip (py_str (por (dget d ''summary'') (JStr [])))"

definition with_detail :: "string \<Rightarrow> string \<Rightarrow> string" where
  "with_detail label detail = (if detail = [] then label else label @ [CHR 0x0A] @ detail)"

definition service_card :: "dict list \<Rightarrow> string \<Rightarrow> string \<Rightarrow> dict res" where
  "service_card services scope service =
     and_then (scope_service services service) (\<lambda>d.
     case map_of d ''status'' of None \<Rightarrow> Inl (KeyError ''status'')
     | Some v \<Rightarrow> Inr [(''scope'', JStr scope), (''value'', v),
         (''display'', if card_summary d = [] then v else JStr (with_detail (py_str v) (card_summary d))),
         (''summary'', JStr (card_summary d))])"

definition overall_row :: "dict list \<Rightarrow> string \<Rightarrow> string \<Rightarrow> dict" where
  "overall_row services scope status =
     (let matching = sort_key (\<lambda>d. py_str (dget_or d ''service'' (JStr [])))
            (filter (\<lambda>d. dget d ''status'' = JStr status) services);
          context_text = (case matching of [] \<Rightarrow> [] | d # _ \<Rightarrow> card_summary d) in
      [(''scope'', JStr scope), (''value'', JStr status), (''display'', JStr (with_detail status context_text)),
       (''context'', JStr context_text)])"

definition firewall_label :: "string \<Rightarrow> string \<Rightarrow> string" where
  "firewall_label status certificate =
     (if status = ''Healthy'' \<or> status = ''Not Enabled'' then status
      else if contains ''require attention'' (casefold certificate) then
        (let count = takeWhile (\<lambda>c. c \<noteq> CHR '' '') certificate in
         count @ (if count = ''1'' then '' Certificate'' else '' Certificates'') @ [CHR 0x0A] @ ''Require Attention'')
      else if status = ''Unknown'' then ''Not Yet Collected'' else status)"

text \<open>The overall health of a scope: the readiness of the platform where it ranks higher.\<close>

definition operational_rank :: "string \<Rightarrow> int" where
  "operational_rank s = (if s = ''Warning'' then 3 else if s = ''Critical'' then 5 else 0)"

definition scope_status :: "int \<Rightarrow> string \<Rightarrow> string \<Rightarrow> string" where
  "scope_status readiness_rank label status = (if operational_rank status < readiness_rank then label else status)"

end
