(* ===== verification/Wallboard_Properties.thy ===== *)
theory Wallboard_Properties
  imports Wallboard
begin

text \<open>
  What the wallboard shows: the worst actions of a scope come first and none is displaced by a
  lesser one, and a green tile rests on evidence.
\<close>

section \<open>Sorting and choosing\<close>

lemma keyed_sort_facts:
  assumes "keyed_sort f xs = Inr ys"
  shows "mset ys = mset xs" "sorted_wrt (\<lambda>a b. \<exists>k l. f a = Inr k \<and> f b = Inr l \<and> k \<le> l) ys"
proof -
  obtain ks where ks: "map_res f xs = Inr ks" and ys: "ys = map snd (sort_key fst (zip ks xs))"
    using assms by (auto simp: keyed_sort_def map_sum_eq_Inr)
  have l2: "list_all2 (\<lambda>x k. f x = Inr k) xs ks" using ks by (simp add: map_res_Inr_iff)
  have key: "f x = Inr k" if "(k, x) \<in> set (zip ks xs)" for k x
    using l2 that by (auto simp: list_all2_conv_all_nth set_zip)
  have "mset ys = image_mset snd (mset (zip ks xs))" by (simp add: ys)
  also have "\<dots> = mset (map snd (zip ks xs))" by simp
  finally show "mset ys = mset xs" using list_all2_lengthD [OF l2] by (simp only: map_snd_zip)
  have "sorted_wrt (\<lambda>p q. fst p \<le> fst q) (sort_key fst (zip ks xs))"
    using sorted_sort_key [of fst "zip ks xs"] by (simp add: sorted_map)
  then have "sorted_wrt (\<lambda>p q. \<exists>k l. f (snd p) = Inr k \<and> f (snd q) = Inr l \<and> k \<le> l) (sort_key fst (zip ks xs))"
    by (rule sorted_wrt_mono_rel [rotated]) (metis key prod.collapse set_sort)
  then show "sorted_wrt (\<lambda>a b. \<exists>k l. f a = Inr k \<and> f b = Inr l \<and> k \<le> l) ys" by (simp add: ys sorted_wrt_map)
qed

lemma first_by_subset: "set (first_by eq xs) \<subseteq> set xs"
  by (induction xs) auto

lemma first_by_represents:
  assumes "sorted_wrt P xs" and "c \<in> set xs"
    and "\<And>x y z. x \<in> set xs \<Longrightarrow> y \<in> set xs \<Longrightarrow> z \<in> set xs \<Longrightarrow> eq x y \<Longrightarrow> eq y z \<Longrightarrow> eq x z"
  shows "\<exists>r \<in> set (first_by eq xs). r = c \<or> (eq r c \<and> P r c)"
  using assms
proof (induction xs)
  case (Cons x xs)
  show ?case
  proof (cases "c = x \<or> eq x c")
    case True
    then show ?thesis using Cons.prems(1,2) by auto
  next
    case False
    have "\<exists>r \<in> set (first_by eq xs). r = c \<or> (eq r c \<and> P r c)"
    proof (rule Cons.IH)
      show "sorted_wrt P xs" "c \<in> set xs" using Cons.prems(1,2) False by auto
      show "eq a z" if "a \<in> set xs" "y \<in> set xs" "z \<in> set xs" "eq a y" "eq y z" for a y z
        using Cons.prems(3) [of a y z] that by simp
    qed
    then obtain r where r: "r \<in> set (first_by eq xs)" "r = c \<or> (eq r c \<and> P r c)" by blast
    then have "r \<in> set xs" using first_by_subset by fast
    then have "\<not> eq x r" using r(2) False Cons.prems(2) Cons.prems(3) [of x r c] by auto
    then show ?thesis using r by auto
  qed
qed simp

lemma py_eq_scalar_trans:
  "py_eq a b \<Longrightarrow> py_eq b c \<Longrightarrow> \<not> unhashable_value a \<Longrightarrow> \<not> unhashable_value b \<Longrightarrow> \<not> unhashable_value c \<Longrightarrow> py_eq a c"
  by (cases a; cases b; cases c) (simp_all add: unhashable_value_def)

lemma keep_res_subset: "keep_res f xs = Inr ys \<Longrightarrow> y \<in> set ys \<Longrightarrow> y \<in> set xs \<and> f y = Inr True"
  by (induction xs arbitrary: ys) (auto simp: and_then_eq_Inr map_sum_eq_Inr split: if_splits)

section \<open>Actions\<close>

lemma choice_key_kind: "choice_key d = Inr k \<Longrightarrow> fst k = kind_rank d"
  by (auto simp: choice_key_def and_then_eq_Inr map_sum_eq_Inr)

lemma display_key_rank: "display_key d = Inr k \<Longrightarrow> fst k = - wall_rank d"
  by (auto simp: display_key_def and_then_eq_Inr map_sum_eq_Inr)

lemma ordered_actions_represent:
  assumes "ordered_actions candidates = Inr items" and "c \<in> set candidates"
  shows "\<exists>r \<in> set items. r \<in> set candidates \<and> (r = c \<or> same_action r c \<and> kind_rank r \<le> kind_rank c)"
proof -
  obtain cs where cs: "keyed_sort choice_key candidates = Inr cs"
    and scalar: "\<And>d. d \<in> set cs \<Longrightarrow> \<not> unhashable_value (dget d ''rule_id'') \<and> \<not> unhashable_value (action_asset d)"
    and items: "keyed_sort display_key (first_by same_action cs) = Inr items"
    using assms(1) by (auto simp: ordered_actions_def and_then_eq_Inr list_ex_iff split: if_splits)
  note sorted = keyed_sort_facts [OF cs]
  have trans: "same_action x z" if "x \<in> set cs" "y \<in> set cs" "z \<in> set cs" "same_action x y" "same_action y z" for x y z
    using that scalar py_eq_scalar_trans unfolding same_action_def by blast
  have set_cs: "set cs = set candidates" using sorted(1) by (metis set_mset_mset)
  have "set items = set (first_by same_action cs)" using keyed_sort_facts(1) [OF items] by (metis set_mset_mset)
  moreover obtain r where r: "r \<in> set (first_by same_action cs)"
    "r = c \<or> (same_action r c \<and> (\<exists>k l. choice_key r = Inr k \<and> choice_key c = Inr l \<and> k \<le> l))"
    using first_by_represents [OF sorted(2), of c same_action] assms(2) set_cs trans by blast
  moreover have "kind_rank r \<le> kind_rank c" if kl: "choice_key r = Inr k" "choice_key c = Inr l" "k \<le> l" for k l
    using choice_key_kind [OF kl(1)] choice_key_kind [OF kl(2)] kl(3) by (cases k; cases l) auto
  then have "r = c \<or> same_action r c \<and> kind_rank r \<le> kind_rank c" using r(2) by fast
  moreover have "r \<in> set candidates" using r(1) first_by_subset [of same_action cs] set_cs by fast
  ultimately show ?thesis by metis
qed

lemma ordered_actions_sorted:
  assumes "ordered_actions candidates = Inr items"
  shows "sorted_wrt (\<lambda>a b. wall_rank b \<le> wall_rank a) items"
proof -
  obtain xs where "keyed_sort display_key xs = Inr items"
    using assms by (auto simp: ordered_actions_def and_then_eq_Inr split: if_splits)
  from keyed_sort_facts(2) [OF this] show ?thesis
  proof (rule sorted_wrt_mono_rel [rotated])
    fix a b assume "\<exists>k l. display_key a = Inr k \<and> display_key b = Inr l \<and> k \<le> l"
    then obtain k l where "display_key a = Inr k" "display_key b = Inr l" "k \<le> l" by blast
    then show "wall_rank b \<le> wall_rank a" using display_key_rank [of a k] display_key_rank [of b l] by (cases k; cases l) auto
  qed
qed

lemma displaced_by_worse:
  assumes "sorted_wrt (\<lambda>a b. wall_rank b \<le> wall_rank a) xs" and "r \<in> set xs" and "r \<notin> set (take n xs)"
  shows "length (take n xs) = n \<and> (\<forall>s \<in> set (take n xs). wall_rank r \<le> wall_rank s)"
proof -
  have "r \<in> set (drop n xs)" using assms(2,3) by (metis Un_iff append_take_drop_id set_append)
  moreover have "sorted_wrt (\<lambda>a b. wall_rank b \<le> wall_rank a) (take n xs @ drop n xs)" using assms(1) by simp
  ultimately have "\<forall>s \<in> set (take n xs). wall_rank r \<le> wall_rank s" unfolding sorted_wrt_append by blast
  moreover have "drop n xs \<noteq> []" using \<open>r \<in> set (drop n xs)\<close> by (cases "drop n xs") simp_all
  then have "length (take n xs) = n" by simp
  ultimately show ?thesis by blast
qed


section \<open>Tiles\<close>

lemma wan_row_sel: "dget (wan_row scope d) ''state'' = JStr (wan_state d)" "dget (wan_row scope d) ''scope'' = JStr scope"
  "dget (wan_row scope d) ''interface'' = wan_interface d" "truthy (wan_interface d)"
  by (simp_all add: wan_row_def dget_def wan_interface_def por_def)

definition uplinks_of :: "string \<Rightarrow> dict list \<Rightarrow> dict list" where
  "uplinks_of scope rows = filter (\<lambda>r. dget r ''scope'' = JStr scope \<and> truthy (dget r ''interface'')) rows"

lemma scope_uplinks:
  assumes "scope_wan_rows wans ss t = Inr rows"
  shows "set (uplinks_of scope rows) = (if t = scope then wan_row scope ` set (filter (scope_matches scope) wans) else {})"
proof (cases "filter (scope_matches t) wans = []")
  case True
  then obtain internet where "rows = [no_wan_row t internet]" using assms by (auto simp: scope_wan_rows_def map_sum_eq_Inr)
  then show ?thesis using True by (auto simp: uplinks_of_def no_wan_row_def dget_def filter_empty_conv)
next
  case False
  then have "rows = map (wan_row t) (sort_key uplink_key (filter (scope_matches t) wans))"
    using assms by (auto simp: scope_wan_rows_def map_sum_eq_Inr)
  then show ?thesis by (auto simp: uplinks_of_def wan_row_sel)
qed

lemma wan_rows_uplinks:
  assumes "wan_rows signals scopes ss = Inr rows" and "dict_list (dget_or signals ''wan'' (JList [])) = Inr ws" and "scope \<in> set scopes"
  shows "set (uplinks_of scope rows) = wan_row scope ` set (filter (scope_matches scope) (filter authoritative_wan ws))"
proof -
  obtain parts where parts: "map_res (scope_wan_rows (filter authoritative_wan ws) ss) scopes = Inr parts" and rows: "rows = concat parts"
    using assms(1,2) by (auto simp: wan_rows_def map_sum_eq_Inr)
  let ?X = "wan_row scope ` set (filter (scope_matches scope) (filter authoritative_wan ws))"
  have all: "set (uplinks_of scope rows) = (\<Union>part \<in> set parts. set (uplinks_of scope part))" by (auto simp: rows uplinks_of_def)
  have sub: "set (uplinks_of scope part) \<subseteq> ?X" if pp: "part \<in> set parts" for part
  proof -
    obtain t where "scope_wan_rows (filter authoritative_wan ws) ss t = Inr part" using map_res_Inr_mem [OF parts pp] by blast
    from scope_uplinks [OF this, of scope] show ?thesis by (cases "t = scope") simp_all
  qed
  obtain part where part: "part \<in> set parts" "scope_wan_rows (filter authoritative_wan ws) ss scope = Inr part"
    using map_res_mem [OF parts assms(3)] by blast
  then have "set (uplinks_of scope part) = ?X" using scope_uplinks [OF part(2), of scope] by simp
  then show ?thesis unfolding all using part(1) sub by blast
qed

lemma available_iff: "wan_state d \<noteq> ''Down'' \<Longrightarrow> wan_state d \<noteq> ''Unknown'' \<Longrightarrow> dget d ''available'' = JBool True"
  by (simp add: wan_state_def split: if_splits)

lemma in_state_empty: "length (in_state s rows) = 0 \<longleftrightarrow> (\<forall>r \<in> set rows. dget r ''state'' \<noteq> JStr s)"
  by (simp add: in_state_def filter_empty_conv)

lemma status_color_not_green: "status_color s \<noteq> ''green''"
  by (simp add: status_color_def)

lemma internet_tile_green:
  assumes "snd (internet_tile status selected) = ''green''"
  shows "status \<noteq> ''Not Enabled'' \<and> selected \<noteq> [] \<and>
    (\<forall>r \<in> set selected. dget r ''state'' \<noteq> JStr ''Down'' \<and> dget r ''state'' \<noteq> JStr ''Unknown'')"
  using assms in_state_empty [of "''Down''" selected] in_state_empty [of "''Unknown''" selected]
  by (simp add: internet_tile_def Let_def status_color_not_green split: if_splits)

definition worst_inv :: "wall_collector set \<Rightarrow> (string \<times> wall_collector) list \<Rightarrow> bool" where
  "worst_inv seen acc = ((\<forall>r \<in> seen. wr_collector r \<noteq> [] \<and> has_text (wr_last_run r) \<longrightarrow>
     (\<exists>q. map_of acc (wr_collector r) = Some q \<and> status_rank (wr_status r) \<le> status_rank (wr_status q))))"

lemma worst_inv_step:
  assumes inv: "worst_inv seen acc"
  shows "worst_inv (insert r seen) (worse_row acc r)"
proof -
  show ?thesis unfolding worst_inv_def
  proof (intro ballI impI)
    fix t assume t: "t \<in> insert r seen" "wr_collector t \<noteq> [] \<and> has_text (wr_last_run t)"
    show "\<exists>q. map_of (worse_row acc r) (wr_collector t) = Some q \<and> status_rank (wr_status t) \<le> status_rank (wr_status q)"
    proof (cases "t = r")
      case True
      then show ?thesis using t(2)
        by (cases "map_of acc (wr_collector r)") (auto simp: worse_row_def update_conv' map_add_def)
    next
      case False
      then obtain q where "map_of acc (wr_collector t) = Some q" "status_rank (wr_status t) \<le> status_rank (wr_status q)"
        using inv t by (auto simp: worst_inv_def)
      then show ?thesis by (auto simp: worse_row_def update_conv' map_add_def split: option.splits)
    qed
  qed
qed

lemma worst_inv_fold: "worst_inv seen acc \<Longrightarrow> worst_inv (seen \<union> set rows) (foldl worse_row acc rows)"
proof (induction rows arbitrary: seen acc)
  case (Cons r rows)
  from Cons.IH [OF worst_inv_step [OF Cons.prems, of r]] show ?case by (simp add: Un_commute)
qed simp

lemma worst_rows_cover:
  assumes "r \<in> set rows" "wr_collector r \<noteq> []" "has_text (wr_last_run r)"
  shows "\<exists>q \<in> set (worst_rows rows). status_rank (wr_status r) \<le> status_rank (wr_status q)"
proof -
  have "worst_inv (set rows) (foldl worse_row [] rows)" using worst_inv_fold [of "{}" "[]" rows] by (simp add: worst_inv_def)
  then obtain q where "map_of (foldl worse_row [] rows) (wr_collector r) = Some q"
    "status_rank (wr_status r) \<le> status_rank (wr_status q)" using assms by (auto simp: worst_inv_def)
  then show ?thesis using map_of_SomeD by (force simp: worst_rows_def)
qed

lemma monitoring_green:
  assumes "mt_color (monitoring_row rows scope) = ''green''"
  shows "worst_rows (filter (\<lambda>r. wr_scope r = scope) rows) \<noteq> [] \<and>
    (\<forall>q \<in> set (worst_rows (filter (\<lambda>r. wr_scope r = scope) rows)). wr_status q = ''Healthy'')"
  using assms by (auto simp: monitoring_row_def Let_def filter_empty_conv split: if_splits)

lemma worst_rows_subset: "set (worst_rows rows) \<subseteq> set rows"
proof -
  have upd: "snd ` set (AList.update k r acc) \<subseteq> insert r (snd ` set acc)" for k :: string and r acc
    by (induction acc) auto
  have "snd ` set (worse_row acc r) \<subseteq> insert r (snd ` set acc)" for acc r
    using upd [of "wr_collector r" r acc] by (auto simp: worse_row_def split: option.splits)
  note step = this
  have "snd ` set (foldl worse_row acc rows) \<subseteq> snd ` set acc \<union> set rows" for acc
  proof (induction rows arbitrary: acc)
    case (Cons r rows)
    show ?case using Cons.IH [of "worse_row acc r"] step [of acc r] by (simp del: image_subset_iff) blast
  qed simp
  from this [of "[]"] show ?thesis by (auto simp: worst_rows_def)
qed

lemma monitoring_green_rows:
  assumes "mt_color (monitoring_row rows scope) = ''green''"
  shows "(\<exists>r \<in> set rows. wr_scope r = scope \<and> wr_status r = ''Healthy'') \<and>
    (\<forall>r \<in> set rows. wr_scope r = scope \<and> wr_collector r \<noteq> [] \<and> has_text (wr_last_run r) \<longrightarrow>
       wr_status r \<notin> {''Failed'', ''Stale'', ''Warning''})"
proof -
  let ?rows = "filter (\<lambda>r. wr_scope r = scope) rows"
  from monitoring_green [OF assms] obtain q where q: "q \<in> set (worst_rows ?rows)" "wr_status q = ''Healthy''"
    and all: "\<And>q. q \<in> set (worst_rows ?rows) \<Longrightarrow> wr_status q = ''Healthy''"
    by (cases "worst_rows ?rows") auto
  have "wr_status r \<notin> {''Failed'', ''Stale'', ''Warning''}"
    if r: "r \<in> set ?rows" "wr_collector r \<noteq> []" "has_text (wr_last_run r)" for r
  proof -
    obtain w where "w \<in> set (worst_rows ?rows)" "status_rank (wr_status r) \<le> status_rank (wr_status w)"
      using worst_rows_cover [OF r] by blast
    then show ?thesis using all by (auto simp: status_rank_def)
  qed
  then show ?thesis using q worst_rows_subset [of ?rows] by fastforce
qed


section \<open>Samples\<close>

definition sample_finding :: "string \<Rightarrow> string \<Rightarrow> string \<Rightarrow> string \<Rightarrow> dict" where
  "sample_finding i kind severity device = [(''id'', JStr i), (''kind'', JStr kind), (''severity'', JStr severity),
     (''rule_id'', JStr ''r1''), (''device'', JStr device), (''title'', JStr ''T''), (''site_id'', JStr ''main'')]"

definition sample_operations :: dict where
  "sample_operations = [(''issues'', JList [JObj (sample_finding ''i1'' ''issue'' ''Medium'' ''sw1'')]),
     (''risks'', JList [JObj (sample_finding ''k1'' ''risk'' ''Critical'' ''sw1''), JObj (sample_finding ''k2'' ''risk'' ''High'' ''sw2'')])]"

lemma sample_candidates: "action_candidates sample_operations [] [] =
    Inr [sample_finding ''i1'' ''issue'' ''Medium'' ''sw1'', sample_finding ''k1'' ''risk'' ''Critical'' ''sw1'',
      sample_finding ''k2'' ''risk'' ''High'' ''sw2'']"
  by code_simp

lemma sample_order: "ordered_actions [sample_finding ''i1'' ''issue'' ''Medium'' ''sw1'', sample_finding ''k1'' ''risk'' ''Critical'' ''sw1'',
      sample_finding ''k2'' ''risk'' ''High'' ''sw2''] =
    Inr [sample_finding ''k2'' ''risk'' ''High'' ''sw2'', sample_finding ''i1'' ''issue'' ''Medium'' ''sw1'']"
  by code_simp


definition sample_signals :: dict where
  "sample_signals = [(''wan'', JList [JObj [(''role'', JStr ''primary''), (''interface_name'', JStr ''eth1''),
     (''site_id'', JStr ''main''), (''available'', JBool True)]])]"

definition sample_services :: "(string \<times> dict) list" where
  "sample_services = [(''main'', [(''services'', JList [JObj [(''service'', JStr ''Internet''), (''status'', JStr ''Healthy'')]])])]"

definition sample_uplinks :: "dict list" where
  "sample_uplinks = (case wan_rows sample_signals [''main''] sample_services of Inr rows \<Rightarrow> rows | _ \<Rightarrow> [])"

definition sample_internet :: dict where
  "sample_internet = (case internet_row sample_uplinks sample_services ''main'' of Inr d \<Rightarrow> d | _ \<Rightarrow> [])"

definition sample_rows :: "wall_collector list" where
  "sample_rows = [\<lparr>wr_scope = ''main'', wr_collector = ''snmp'', wr_status = ''Healthy'', wr_freshness = ''1m ago'',
     wr_last_run = Some ''t1'', wr_last_success = Some ''t1'', wr_services = []\<rparr>]"


end
