(* ===== verification/Fortigate_Normalizer.thy ===== *)
theory Fortigate_Normalizer
  imports Py_Number
begin

text \<open>
  \<open>collectors/fortigate/normalizer.py\<close>: the answers of the FortiGate API, whose shape varies by
  version, as an inventory record and telemetry points. An answer is any JSON value; SHA-256 is
  the parameter \<open>H\<close>.
\<close>

section \<open>Reading variable answers\<close>

definition payload_of :: "json \<Rightarrow> json" where
  "payload_of v = (case v of
     JObj d \<Rightarrow> (if dhas d ''results'' then dget d ''results'' else if dhas d ''data'' then dget d ''data'' else v) | _ \<Rightarrow> v)"

definition first_mapping :: "json \<Rightarrow> dict" where
  "first_mapping v = (case payload_of v of
     JObj d \<Rightarrow> d
   | JList xs \<Rightarrow> (case find is_obj xs of Some x \<Rightarrow> as_dict x | None \<Rightarrow> [])
   | _ \<Rightarrow> [])"

definition no_value :: "json \<Rightarrow> bool" where
  "no_value v = (v = JNull \<or> v = JStr [])"

fun pick_or :: "dict \<Rightarrow> string list \<Rightarrow> json \<Rightarrow> json" where
  "pick_or d [] v0 = v0"
| "pick_or d (k # ks) v0 = (if no_value (dget d k) then pick_or d ks v0 else dget d k)"

abbreviation pick :: "dict \<Rightarrow> string list \<Rightarrow> json" where
  "pick d ks \<equiv> pick_or d ks JNull"

definition serial_keys :: "string list" where
  "serial_keys = [''serial'', ''serial_number'', ''serial-number'']"

definition stable_id :: "(string \<Rightarrow> string) \<Rightarrow> dict \<Rightarrow> string \<Rightarrow> string" where
  "stable_id H status host =
     (let serial = pick status serial_keys in
      if truthy serial then ''fortigate:'' @ py_str serial
      else ''fortigate:fallback:'' @ take 24 (H (lower (py_str (pick_or status [''hostname'', ''name''] (JStr host))))))"

text \<open>\<open>float(v)\<close>, or nothing where it raises \<open>TypeError\<close> or \<open>ValueError\<close>.\<close>

definition float_or_none :: "json \<Rightarrow> json res" where
  "float_or_none v = (if v = JNull then Inr JNull else case py_float v of
     Inr s \<Rightarrow> Inr (JFloat s) | Inl (TypeError _) \<Rightarrow> Inr JNull | Inl (ValueError _) \<Rightarrow> Inr JNull | Inl e \<Rightarrow> Inl e)"

definition percent :: "json \<Rightarrow> json res" where
  "percent v = float_or_none (case v of JObj d \<Rightarrow> pick d [''current'', ''value'', ''percent''] | _ \<Rightarrow> v)"

text \<open>\<open>url.split('//', 1)[-1].split('/', 1)[0].split(':', 1)[0]\<close>.\<close>

fun after_slashes :: "string \<Rightarrow> string option" where
  "after_slashes [] = None"
| "after_slashes (c # cs) = (if starts_with ''//'' (c # cs) then Some (drop 1 cs) else after_slashes cs)"

definition host_of :: "string \<Rightarrow> string" where
  "host_of url = (let rest = (case after_slashes url of None \<Rightarrow> url | Some r \<Rightarrow> r) in
     takeWhile (\<lambda>c. c \<noteq> CHR '':'') (takeWhile (\<lambda>c. c \<noteq> CHR ''/'') rest))"

section \<open>The device\<close>

record wan_selection =
  ws_name :: string
  ws_role :: string
  ws_display_name :: string

record fortigate_config =
  fc_base_url :: string
  fc_customer :: string
  fc_site :: string
  fc_wan :: "wan_selection list"

record fortigate_device =
  fd_system :: dict
  fd_resources :: dict
  fd_id :: string
  fd_hostname :: string
  fd_serial :: string
  fd_model :: string
  fd_firmware :: string
  fd_ip :: string
  fd_cpu :: json
  fd_memory :: json

definition device_of :: "(string \<Rightarrow> string) \<Rightarrow> dict \<Rightarrow> fortigate_config \<Rightarrow> fortigate_device res" where
  "device_of H endpoints cfg =
     (let system = first_mapping (dget endpoints ''system''); resources = first_mapping (dget endpoints ''resources'');
          host = host_of (fc_base_url cfg) in
      and_then (percent (pick resources [''cpu'', ''cpu_percent'', ''cpu_usage''])) (\<lambda>cpu.
      and_then (percent (pick resources [''memory'', ''memory_percent'', ''mem'', ''memory_usage''])) (\<lambda>memory.
      Inr \<lparr>fd_system = system, fd_resources = resources, fd_id = stable_id H system host,
        fd_hostname = py_str (pick_or system [''hostname'', ''name''] (JStr host)),
        fd_serial = py_str (pick_or system serial_keys (JStr [])),
        fd_model = py_str (pick_or system [''model'', ''platform''] (JStr [])),
        fd_firmware = py_str (pick_or system [''version'', ''firmware'', ''firmware_version''] (JStr [])),
        fd_ip = py_str (pick_or system [''management_ip'', ''ip''] (JStr host)), fd_cpu = cpu, fd_memory = memory\<rparr>)))"

definition device_record :: "fortigate_device \<Rightarrow> fortigate_config \<Rightarrow> json \<Rightarrow> dict" where
  "device_record d cfg observed_at =
     [(''id'', JStr (fd_id d)), (''source'', JStr ''fortigate''), (''collector'', JStr ''fortigate''),
      (''source_asset_id'', JStr (sor (fd_serial d) (lower (fd_hostname d)))), (''customer'', JStr (fc_customer cfg)),
      (''site'', JStr (fc_site cfg)), (''hostname'', JStr (fd_hostname d)), (''ip'', JStr (fd_ip d)),
      (''serial'', JStr (fd_serial d)), (''model'', JStr (fd_model d)), (''vendor'', JStr ''fortinet''),
      (''platform'', JStr ''fortigate''), (''device_role'', JStr ''firewall''), (''firmware'', JStr (fd_firmware d)),
      (''operational_status'', JStr ''online''), (''source_record_id'', JStr (fd_id d)), (''source_last_seen_at'', observed_at),
      (''_authoritative_fields'', jstrs [''customer'', ''site'', ''hostname'', ''management_ip'', ''serial_number'', ''model'',
         ''vendor'', ''platform'', ''device_role'', ''firmware_version''])]"

definition common_tags :: "fortigate_device \<Rightarrow> fortigate_config \<Rightarrow> dict" where
  "common_tags d cfg = [(''collector'', JStr ''fortigate''), (''customer'', JStr (fc_customer cfg)), (''site'', JStr (fc_site cfg)),
     (''device_id'', JStr (fd_id d)), (''hostname'', JStr (fd_hostname d)), (''vendor'', JStr ''fortinet''),
     (''platform'', JStr ''fortigate''), (''device_role'', JStr ''firewall''), (''model'', JStr (fd_model d))]"

definition optional :: "string \<Rightarrow> bool \<Rightarrow> json \<Rightarrow> dict" where
  "optional k b v = (if b then [(k, v)] else [])"

definition device_fields :: "fortigate_device \<Rightarrow> dict res" where
  "device_fields d =
     map_sum id (\<lambda>up. (''online'', JBool True) # optional ''uptime_seconds'' (up \<noteq> JNull) up @
         optional ''cpu_percent'' (fd_cpu d \<noteq> JNull) (fd_cpu d) @ optional ''memory_used_percent'' (fd_memory d \<noteq> JNull) (fd_memory d) @
         optional ''serial'' (fd_serial d \<noteq> []) (JStr (fd_serial d)) @ optional ''firmware'' (fd_firmware d \<noteq> []) (JStr (fd_firmware d)))
       (float_or_none (pick (fd_system d) [''uptime'', ''uptime_seconds'']))"

definition only_fields :: "string list \<Rightarrow> dict \<Rightarrow> dict" where
  "only_fields ks d = filter (\<lambda>(k, v). k \<in> set ks) d"

definition fg_point :: "string \<Rightarrow> dict \<Rightarrow> dict \<Rightarrow> json" where
  "fg_point m tags values = JObj [(''measurement'', JStr m), (''tags'', JObj tags), (''fields'', JObj values)]"

definition security_fields :: "fortigate_device \<Rightarrow> dict \<Rightarrow> dict" where
  "security_fields d ha =
     filter (\<lambda>(k, v). \<not> no_value v) [(''cpu_percent'', fd_cpu d), (''memory_used_percent'', fd_memory d),
        (''firmware'', JStr (fd_firmware d)), (''last_seen'', pick (fd_system d) [''last_seen''])] @
     [(''ha_mode'', JStr (py_str (pick_or ha [''mode'', ''ha_mode''] (JStr ''not_collected'')))),
      (''ha_status'', JStr (py_str (pick_or ha [''status'', ''ha_status''] (JStr ''not_collected''))))] @
     (let sessions = pick (fd_resources d) [''session_count'', ''current_sessions'', ''sessions''] in
      optional ''session_count'' (sessions \<noteq> JNull) sessions)"

definition device_points :: "dict \<Rightarrow> dict \<Rightarrow> dict \<Rightarrow> json list" where
  "device_points tags values security =
     [fg_point ''infrastructure_device'' tags values,
      fg_point ''device'' tags (only_fields [''online'', ''uptime_seconds'', ''serial'', ''firmware''] values),
      fg_point ''availability'' tags [(''available'', JBool True)]] @
     (let perf = only_fields [''cpu_percent'', ''memory_used_percent'', ''uptime_seconds''] values in
      if perf = [] then [] else [fg_point ''performance'' tags perf]) @
     [fg_point ''security_appliance'' tags security, fg_point ''firewall'' tags security]"

section \<open>Interfaces\<close>

definition reported_interfaces :: "json \<Rightarrow> (nat \<times> dict) list" where
  "reported_interfaces v =
     (let items = (case payload_of v of
         JObj m \<Rightarrow> map (\<lambda>(n, x). JObj (case x of JObj d \<Rightarrow> dmerge [(''name'', JStr n)] d | _ \<Rightarrow> [(''name'', JStr n)])) m
       | JList xs \<Rightarrow> xs | _ \<Rightarrow> []) in
      map (\<lambda>(i, x). (i, as_dict x)) (filter (\<lambda>(i, x). is_obj x) (zip [0..<length items] items)))"

definition interface_aliases :: "(string \<times> string list) list" where
  "interface_aliases = [(''admin_status'', [''admin_status'', ''status'']), (''operational_status'', [''operational_status'', ''link'']),
     (''speed_bps'', [''speed_bps'', ''speed'']), (''rx_bytes'', [''rx_bytes'', ''in_octets'']), (''tx_bytes'', [''tx_bytes'', ''out_octets'']),
     (''rx_bps'', [''rx_bps'']), (''tx_bps'', [''tx_bps'']), (''rx_errors'', [''rx_errors'', ''in_errors'']),
     (''tx_errors'', [''tx_errors'', ''out_errors'']), (''rx_discards'', [''rx_discards'', ''in_discards'']),
     (''tx_discards'', [''tx_discards'', ''out_discards''])]"

text \<open>
  An observed interface: its name, its tags and its fields. The fields are shared with the point
  the code adds first, so they carry the WAN classification set afterwards.
\<close>

record observed_interface =
  oi_name :: string
  oi_tags :: dict
  oi_fields :: dict

text \<open>\<open>{value.name: value for value in config.wan_interfaces}\<close>: the last selection of a name counts.\<close>

definition selected_wan :: "wan_selection list \<Rightarrow> string \<Rightarrow> wan_selection option" where
  "selected_wan ws n = find (\<lambda>w. ws_name w = n) (rev ws)"

definition interface_tags :: "dict \<Rightarrow> string \<Rightarrow> dict \<Rightarrow> dict" where
  "interface_tags common name d =
     (let description = pick d [''description'', ''alias'']; role = pick d [''role'', ''interface_role''] in
      common @ [(''interface_id'', JStr (py_str (pick_or d [''id'', ''index''] (JStr name)))), (''interface_name'', JStr name)] @
      optional ''interface_description'' (truthy description) (JStr (py_str description)) @
      optional ''interface_role'' (truthy role) (JStr (py_str role)))"

definition wan_fields :: "wan_selection option \<Rightarrow> string \<Rightarrow> dict \<Rightarrow> dict" where
  "wan_fields selected name tags =
     [(''wan_classified'', JBool (selected \<noteq> None)),
      (''wan_role'', JStr (case selected of None \<Rightarrow> ''not_configured'' | Some w \<Rightarrow> ws_role w)),
      (''wan_display_name'', JStr (case selected of Some w \<Rightarrow> ws_display_name w
         | None \<Rightarrow> py_str (por (dget tags ''interface_description'') (JStr name))))]"

definition interface_fields :: "dict \<Rightarrow> dict" where
  "interface_fields d = filter (\<lambda>(k, v). \<not> no_value v) (map (\<lambda>(k, sources). (k, pick d sources)) interface_aliases)"

definition observe_interface :: "dict \<Rightarrow> wan_selection list \<Rightarrow> nat \<times> dict \<Rightarrow> observed_interface" where
  "observe_interface common ws entry =
     (let d = snd entry; name = py_str (pick_or d [''name'', ''interface_name'', ''interface'']
            (JStr (''interface-'' @ show_int (int (fst entry))))); tags = interface_tags common name d in
      \<lparr>oi_name = name, oi_tags = tags, oi_fields = interface_fields d @ wan_fields (selected_wan ws name) name tags\<rparr>)"

definition interface_points :: "observed_interface \<Rightarrow> json list" where
  "interface_points obs = [fg_point ''network_interface'' (oi_tags obs) (oi_fields obs), fg_point ''interface'' (oi_tags obs) (oi_fields obs)]"

section \<open>Uplinks\<close>

definition link_available :: "json \<Rightarrow> json" where
  "link_available v = (case v of JBool b \<Rightarrow> JBool b
     | _ \<Rightarrow> (let s = casefold (strip (py_str v)) in
        if s \<in> {''1'', ''true'', ''up'', ''active''} then JBool True
        else if s \<in> {''0'', ''2'', ''false'', ''down'', ''inactive''} then JBool False else JNull))"

definition without_null :: "dict \<Rightarrow> dict" where
  "without_null d = filter (\<lambda>(k, v). v \<noteq> JNull) d"

definition uplink_head :: "fortigate_device \<Rightarrow> json \<Rightarrow> wan_selection \<Rightarrow> string \<Rightarrow> json \<Rightarrow> dict" where
  "uplink_head d observed_at w name available =
     [(''name'', JStr name), (''interface_name'', JStr name), (''display_name'', JStr (ws_display_name w)),
      (''role'', JStr (ws_role w)), (''available'', available), (''classification_authoritative'', JBool True),
      (''collector'', JStr ''fortigate''), (''device'', JStr (fd_hostname d)), (''device_id'', JStr (fd_id d)),
      (''observed_at'', observed_at)]"

definition observed_uplink :: "fortigate_device \<Rightarrow> json \<Rightarrow> wan_selection \<Rightarrow> observed_interface \<Rightarrow> dict" where
  "observed_uplink d observed_at w obs =
     (let v = dget (oi_fields obs); sample = without_null [(''time'', observed_at), (''rx_bps'', v ''rx_bps''), (''tx_bps'', v ''tx_bps'')] in
      without_null (uplink_head d observed_at w (oi_name obs) (link_available (v ''operational_status'')) @
        [(''speed_bps'', v ''speed_bps''), (''rx_bytes_total'', v ''rx_bytes''), (''tx_bytes_total'', v ''tx_bytes''),
         (''rx_bps'', v ''rx_bps''), (''tx_bps'', v ''tx_bps'')] @
        optional ''samples'' (1 < length sample) (JList [JObj sample])))"

definition missing_uplink :: "fortigate_device \<Rightarrow> json \<Rightarrow> wan_selection \<Rightarrow> string \<Rightarrow> dict" where
  "missing_uplink d observed_at w name = uplink_head d observed_at w name JNull @ [(''missing'', JBool True)]"

definition missing_names :: "wan_selection list \<Rightarrow> observed_interface list \<Rightarrow> string list" where
  "missing_names ws observed = usort (filter (\<lambda>n. n \<notin> set (map oi_name observed)) (map ws_name ws))"

definition uplinks :: "fortigate_device \<Rightarrow> json \<Rightarrow> wan_selection list \<Rightarrow> observed_interface list \<Rightarrow> dict list" where
  "uplinks d observed_at ws observed =
     concat (map (\<lambda>obs. case selected_wan ws (oi_name obs) of None \<Rightarrow> [] | Some w \<Rightarrow> [observed_uplink d observed_at w obs]) observed) @
     concat (map (\<lambda>n. case selected_wan ws n of None \<Rightarrow> [] | Some w \<Rightarrow> [missing_uplink d observed_at w n]) (missing_names ws observed))"

definition extensions :: "wan_selection list \<Rightarrow> dict list \<Rightarrow> dict \<Rightarrow> observed_interface list \<Rightarrow> dict" where
  "extensions ws links security observed =
     [(''interfaces'', JList (map (\<lambda>obs. JObj (dmerge [(''interface_name'', JStr (oi_name obs)),
          (''alias'', dget_or (oi_tags obs) ''interface_description'' (JStr []))] (oi_fields obs))) observed)),
      (''wan_interfaces'', JList (map JObj links)),
      (''wan_validation'', JObj [(''configured'', JBool (ws \<noteq> [])), (''missing'', jstrs (missing_names ws observed))]),
      (''ha'', JObj [(''mode'', dget security ''ha_mode''), (''status'', dget security ''ha_status'')])]"

definition normalize :: "(string \<Rightarrow> string) \<Rightarrow> dict \<Rightarrow> fortigate_config \<Rightarrow> json \<Rightarrow> (dict \<times> json list) res" where
  "normalize H endpoints cfg observed_at =
     and_then (device_of H endpoints cfg) (\<lambda>d.
     map_sum id (\<lambda>values.
       let tags = common_tags d cfg; security = security_fields d (first_mapping (dget endpoints ''ha''));
           observed = map (observe_interface tags (fc_wan cfg)) (reported_interfaces (dget endpoints ''interfaces''));
           links = uplinks d observed_at (fc_wan cfg) observed in
       (device_record d cfg observed_at @ [(''extensions'', JObj (extensions (fc_wan cfg) links security observed))],
        device_points tags values security @ concat (map interface_points observed)))
     (device_fields d))"

section \<open>Every configured uplink is reported\<close>

definition wan_links :: "dict \<Rightarrow> dict list" where
  "wan_links rec_doc = map as_dict (as_list (dget (as_dict (dget rec_doc ''extensions'')) ''wan_interfaces''))"

lemma map_of_filter_other: "k \<notin> fst ` set d \<Longrightarrow> map_of (filter P d) k = None"
  by (auto simp: map_of_eq_None_iff)

lemma dget_without_null: "distinct (map fst d) \<Longrightarrow> dget (without_null d) k = dget d k"
proof (induction d)
  case (Cons e d)
  obtain k' v where e: "e = (k', v)" by fastforce
  show ?case
  proof (cases "k = k'")
    case True
    then have "k \<notin> fst ` set d" using Cons.prems e by auto
    then have "map_of (filter (\<lambda>(k, v). v \<noteq> JNull) d) k = None" by (rule map_of_filter_other)
    then show ?thesis using True by (simp add: e dget_def without_null_def)
  next
    case False
    then show ?thesis using Cons by (simp add: e dget_def without_null_def)
  qed
qed (simp add: without_null_def dget_def)

lemma selected_wan_iff: "selected_wan ws n = None \<longleftrightarrow> n \<notin> set (map ws_name ws)"
  by (auto simp: selected_wan_def find_None_iff)

lemma uplink_keys_distinct:
  "distinct (map fst (uplink_head d t w n a @ [(''speed_bps'', x1), (''rx_bytes_total'', x2), (''tx_bytes_total'', x3),
     (''rx_bps'', x4), (''tx_bps'', x5)] @ optional ''samples'' b s))"
  by (cases b) (simp_all add: uplink_head_def optional_def)

lemma observed_uplink_sel:
  "dget (observed_uplink d t w obs) ''name'' = JStr (oi_name obs)" "dget (observed_uplink d t w obs) ''missing'' = JNull"
  "dget (observed_uplink d t w obs) ''available'' = link_available (dget (oi_fields obs) ''operational_status'')"
  unfolding observed_uplink_def Let_def dget_without_null [OF uplink_keys_distinct]
  by (simp_all add: uplink_head_def optional_def dget_def)

lemma missing_uplink_sel:
  "dget (missing_uplink d t w n) ''name'' = JStr n" "dget (missing_uplink d t w n) ''missing'' = JBool True"
  "dget (missing_uplink d t w n) ''available'' = JNull"
  by (simp_all add: missing_uplink_def uplink_head_def dget_def)

lemma set_selected: "l \<in> set (concat (map (\<lambda>x. case f x of None \<Rightarrow> [] | Some w \<Rightarrow> [g w x]) xs)) \<longleftrightarrow>
    (\<exists>x w. x \<in> set xs \<and> f x = Some w \<and> l = g w x)"
proof (induction xs)
  case (Cons a xs)
  have "l \<in> set (case f a of None \<Rightarrow> [] | Some w \<Rightarrow> [g w a]) \<longleftrightarrow> (\<exists>w. f a = Some w \<and> l = g w a)" by (cases "f a") simp_all
  then show ?case unfolding list.map concat.simps set_append Un_iff Cons.IH by auto
qed simp

lemma set_missing_names: "n \<in> set (missing_names ws observed) \<longleftrightarrow> n \<in> set (map ws_name ws) \<and> n \<notin> set (map oi_name observed)"
  by (auto simp: missing_names_def)

lemma uplinks_cases:
  "l \<in> set (uplinks d t ws observed) \<longleftrightarrow>
    (\<exists>obs w. obs \<in> set observed \<and> selected_wan ws (oi_name obs) = Some w \<and> l = observed_uplink d t w obs) \<or>
    (\<exists>n w. n \<in> set (map ws_name ws) \<and> n \<notin> set (map oi_name observed) \<and> selected_wan ws n = Some w \<and> l = missing_uplink d t w n)"
  unfolding uplinks_def set_append Un_iff set_selected set_missing_names by blast


definition gateway_config :: fortigate_config where
  "gateway_config = \<lparr>fc_base_url = ''https://fw:443/api'', fc_customer = ''c'', fc_site = ''main'',
     fc_wan = [\<lparr>ws_name = ''wan1'', ws_role = ''primary'', ws_display_name = ''Fibre''\<rparr>,
       \<lparr>ws_name = ''wan2'', ws_role = ''secondary'', ws_display_name = ''4G''\<rparr>]\<rparr>"

definition sample_endpoints :: dict where
  "sample_endpoints = [(''system'', JObj [(''serial'', JStr ''FG1'')]),
     (''interfaces'', JObj [(''results'', JObj [(''wan1'', JObj [(''link'', JStr ''up'')])])])]"

definition gateway_record :: dict where
  "gateway_record = (case normalize (\<lambda>s. s) sample_endpoints gateway_config JNull of Inr (r, ps) \<Rightarrow> r | _ \<Rightarrow> [])"

definition sample_points :: "json list" where
  "sample_points = (case normalize (\<lambda>s. s) sample_endpoints gateway_config JNull of Inr (r, ps) \<Rightarrow> ps | _ \<Rightarrow> [])"


end
