(* ===== verification/Aruba_Normalizer.thy ===== *)
theory Aruba_Normalizer
  imports ITP_Prelude
begin

text \<open>
  \<open>collectors/aruba/normalizer.py\<close>: the devices of Aruba Central as inventory records and telemetry
  points. A snapshot holds the answers of the device endpoints, in any of their shapes.
\<close>

section \<open>Devices\<close>

definition device_items :: "json \<Rightarrow> json list" where
  "device_items v = (case v of
     JList xs \<Rightarrow> xs
   | JObj d \<Rightarrow> (case por (dget d ''devices'') (por (dget d ''items'') (dget d ''data'')) of
       JList xs \<Rightarrow> xs
     | _ \<Rightarrow> concat (map (\<lambda>k. as_list (dget d k)) [''aps'', ''switches'', ''gateways'', ''controllers'']))
   | _ \<Rightarrow> [])"

fun value_of :: "dict \<Rightarrow> string list \<Rightarrow> json" where
  "value_of d [] = JNull"
| "value_of d (k # ks) = (if dget d k = JNull \<or> dget d k = JStr [] then value_of d ks else dget d k)"

definition value_text :: "dict \<Rightarrow> string list \<Rightarrow> string \<Rightarrow> string" where
  "value_text d ks s = py_str (por (value_of d ks) (JStr s))"

definition device_type_of :: "dict \<Rightarrow> string" where
  "device_type_of d =
     (let v = lower (value_text d [''device_type'', ''type'', ''category''] ''network'') in
      if v \<in> {''ap'', ''iap'', ''access_point''} then ''access-point''
      else if contains ''switch'' v then ''switch''
      else if v \<in> {''gw'', ''gateway'', ''controller''} then ''gateway''
      else replace_char (CHR ''_'') (CHR ''-'') v)"

definition snapshot_devices :: "dict \<Rightarrow> json list" where
  "snapshot_devices snap = (case dget snap ''device_classes'' of
     JObj classes \<Rightarrow> concat (map (\<lambda>k. device_items (dget classes k)) [''access_points'', ''switches'', ''gateways''])
   | _ \<Rightarrow> device_items (dget snap ''devices''))"

definition serial_text :: "dict \<Rightarrow> string" where
  "serial_text d = value_text d [''serial'', ''serial_number''] []"

text \<open>The devices with a serial number, in its order.\<close>

definition serial_devices :: "dict \<Rightarrow> dict list" where
  "serial_devices snap = filter (\<lambda>d. strip (serial_text d) \<noteq> [])
     (sort_key serial_text (map as_dict (filter is_obj (snapshot_devices snap))))"

definition online_status :: "string \<Rightarrow> json" where
  "online_status s = (if s \<in> {''up'', ''online'', ''good'', ''healthy'', ''connected''} then JBool True
     else if s \<in> {''down'', ''offline'', ''bad'', ''critical'', ''disconnected''} then JBool False else JNull)"

section \<open>Records and points\<close>

record aruba_config =
  ab_account_id :: json
  ab_deployment_id :: string
  ab_customer :: string
  ab_customer_name :: string
  ab_site :: string
  ab_site_name :: string

definition aruba_serial :: "dict \<Rightarrow> string" where
  "aruba_serial d = strip (serial_text d)"

definition aruba_hostname :: "dict \<Rightarrow> string" where
  "aruba_hostname d = value_text d [''name'', ''hostname''] (aruba_serial d)"

definition aruba_status :: "dict \<Rightarrow> string" where
  "aruba_status d = value_text d [''status'', ''health'', ''state''] ''unknown''"

definition aruba_online :: "dict \<Rightarrow> json" where
  "aruba_online d = online_status (casefold (aruba_status d))"

definition aruba_last_seen :: "dict \<Rightarrow> json \<Rightarrow> json" where
  "aruba_last_seen d observed_at = por (value_of d [''last_seen'', ''last_seen_at'', ''last_connected_at'']) observed_at"

definition aruba_firmware :: "dict \<Rightarrow> json" where
  "aruba_firmware d = value_of d [''firmware_version'', ''firmware'', ''version'', ''sw_version'']"

definition aruba_extension :: "aruba_config \<Rightarrow> dict \<Rightarrow> dict" where
  "aruba_extension cfg d = [(''account_id'', ab_account_id cfg), (''group'', value_of d [''group'', ''group_name'']),
     (''central_site'', value_of d [''site'', ''site_name'']),
     (''subscription'', value_of d [''subscription'', ''subscription_key'', ''subscription_status'']),
     (''mac'', value_of d [''mac'', ''macaddr'', ''mac_address'']),
     (''client_count'', value_of d [''client_count'', ''clients'', ''connected_clients''])]"

definition aruba_record :: "aruba_config \<Rightarrow> json \<Rightarrow> dict \<Rightarrow> dict" where
  "aruba_record cfg observed_at d =
     (let i = ''aruba:'' @ aruba_serial d in
      [(''id'', JStr i), (''source'', JStr ''aruba''), (''collector'', JStr ''aruba''), (''source_asset_id'', JStr (aruba_serial d)),
       (''source_record_id'', JStr i), (''deployment_id'', JStr (ab_deployment_id cfg)), (''customer_id'', JStr (ab_customer cfg)),
       (''customer'', JStr (ab_customer cfg)), (''site_id'', JStr (ab_site cfg)), (''site'', JStr (sor (ab_site_name cfg) (ab_site cfg))),
       (''hostname'', JStr (aruba_hostname d)), (''display_name'', JStr (aruba_hostname d)), (''serial_number'', JStr (aruba_serial d)),
       (''model'', value_of d [''model'', ''model_name'']), (''vendor'', JStr ''HPE Aruba Networking''),
       (''platform'', JStr ''Aruba Central''), (''device_type'', JStr (device_type_of d)), (''device_role'', JStr (device_type_of d)),
       (''firmware_version'', aruba_firmware d), (''management_ip'', value_of d [''ip_address'', ''ip'', ''management_ip'']),
       (''online'', aruba_online d), (''operational_status'', JStr (casefold (aruba_status d))),
       (''source_last_seen_at'', aruba_last_seen d observed_at),
       (''extensions'', JObj [(''aruba_central'', JObj (aruba_extension cfg d))]),
       (''_authoritative_fields'', jstrs [''customer_id'', ''site_id'', ''hostname'', ''serial_number'', ''model'', ''vendor'',
          ''platform'', ''device_type'', ''device_role'', ''firmware_version'', ''management_ip'', ''online''])])"

definition aruba_tags :: "aruba_config \<Rightarrow> dict \<Rightarrow> dict" where
  "aruba_tags cfg d = [(''collector'', JStr ''aruba''), (''deployment_id'', JStr (ab_deployment_id cfg)),
     (''customer_id'', JStr (ab_customer cfg)), (''customer'', JStr (ab_customer cfg)), (''customer_name'', JStr (ab_customer_name cfg)),
     (''site_id'', JStr (ab_site cfg)), (''site'', JStr (ab_site cfg)), (''site_name'', JStr (ab_site_name cfg)),
     (''device_id'', JStr (''aruba:'' @ aruba_serial d)), (''hostname'', JStr (aruba_hostname d)),
     (''device_role'', JStr (device_type_of d)), (''vendor'', JStr ''HPE Aruba Networking''), (''platform'', JStr ''Aruba Central'')]"

definition when_known :: "string \<Rightarrow> json \<Rightarrow> dict" where
  "when_known k v = (if v = JNull then [] else [(k, v)])"

definition aruba_fields :: "aruba_config \<Rightarrow> json \<Rightarrow> dict \<Rightarrow> dict" where
  "aruba_fields cfg observed_at d =
     [(''serial'', JStr (aruba_serial d)), (''status'', JStr (aruba_status d)), (''last_seen'', JStr (py_str (aruba_last_seen d observed_at)))] @
     when_known ''online'' (aruba_online d) @
     filter (\<lambda>(k, v). v \<noteq> JNull \<and> v \<noteq> JStr [])
       [(''model'', value_of d [''model'', ''model_name'']), (''firmware'', aruba_firmware d),
        (''management_ip'', value_of d [''ip_address'', ''ip'', ''management_ip'']), (''mac'', dget (aruba_extension cfg d) ''mac''),
        (''group'', dget (aruba_extension cfg d) ''group''), (''central_site'', dget (aruba_extension cfg d) ''central_site''),
        (''subscription'', dget (aruba_extension cfg d) ''subscription'')]"

definition aruba_point :: "string \<Rightarrow> dict \<Rightarrow> dict \<Rightarrow> dict" where
  "aruba_point m tags values = [(''measurement'', JStr m), (''tags'', JObj tags), (''fields'', JObj values)]"

definition aruba_points :: "aruba_config \<Rightarrow> json \<Rightarrow> dict \<Rightarrow> dict list res" where
  "aruba_points cfg observed_at d =
     (let tags = aruba_tags cfg d; clients = dget (aruba_extension cfg d) ''client_count'' in
      map_sum id (\<lambda>wireless.
        [aruba_point ''device'' tags (aruba_fields cfg observed_at d),
         aruba_point ''availability'' tags ((''status'', JStr (aruba_status d)) # when_known ''available'' (aruba_online d))] @ wireless)
      (if device_type_of d = ''access-point'' \<and> clients \<noteq> JNull
       then map_sum id (\<lambda>n. [aruba_point ''wireless'' tags [(''clients_connected'', JInt n)]]) (py_int clients)
       else Inr []))"

definition normalize_aruba :: "dict \<Rightarrow> aruba_config \<Rightarrow> json \<Rightarrow> (dict list \<times> dict list) res" where
  "normalize_aruba snap cfg observed_at =
     map_sum id (\<lambda>ps. (map (aruba_record cfg observed_at) (serial_devices snap), concat ps))
       (map_res (aruba_points cfg observed_at) (serial_devices snap))"

section \<open>Availability is what the device reports\<close>

lemma online_status_bool: "online_status s = JBool b \<longleftrightarrow>
    (if b then s \<in> {''up'', ''online'', ''good'', ''healthy'', ''connected''}
     else s \<in> {''down'', ''offline'', ''bad'', ''critical'', ''disconnected''})"
  by (cases b) (auto simp: online_status_def)

text \<open>The availability the points of a device claim is the online state of its record.\<close>

lemma availability_matches_record:
  assumes "aruba_points cfg observed_at d = Inr ps"
  shows "dget (as_dict (dget (ps ! 1) ''fields'')) ''available'' = dget (aruba_record cfg observed_at d) ''online''"
proof -
  have "ps ! 1 = aruba_point ''availability'' (aruba_tags cfg d) ((''status'', JStr (aruba_status d)) # when_known ''available'' (aruba_online d))"
    using assms by (auto simp: aruba_points_def Let_def map_sum_eq_Inr)
  then show ?thesis by (simp add: aruba_point_def aruba_record_def when_known_def dget_def Let_def)
qed

lemma sample_aruba:
  "map_sum id (\<lambda>(rs, ps). (map (\<lambda>r. (dget r ''id'', dget r ''online'')) rs, length ps))
     (normalize_aruba [(''devices'', JList [JObj [(''serial'', JStr ''B''), (''status'', JStr ''Up''), (''type'', JStr ''ap''), (''clients'', JInt 3)],
        JObj [(''name'', JStr ''none'')], JObj [(''serial'', JStr ''A''), (''status'', JStr ''Down'')]])]
      \<lparr>ab_account_id = JNull, ab_deployment_id = ''d'', ab_customer = ''c'', ab_customer_name = ''C'', ab_site = ''s'', ab_site_name = []\<rparr> JNull)
   = Inr ([(JStr ''aruba:A'', JBool False), (JStr ''aruba:B'', JBool True)], 5)"
  by code_simp

end
