(* ===== verification/Mist_Normalizer.thy ===== *)
theory Mist_Normalizer
  imports Py_Number
begin

text \<open>
  \<open>collectors/mist/normalizer.py\<close>: devices and statistics of Juniper Mist as inventory records and
  telemetry points. SHA-256 is the parameter \<open>H\<close>; the division of two floating-point numbers in the
  derived memory use is the parameter \<open>ratio\<close>.
\<close>

section \<open>Devices\<close>

definition mist_kind :: "dict \<Rightarrow> string \<times> string" where
  "mist_kind d =
     (let kind = replace_char (CHR ''_'') (CHR ''-'') (lower (py_str (dget_or d ''type'' (JStr []))));
          model = upper (py_str (dget_or d ''model'' (JStr []))) in
      if kind = ''ap'' \<or> starts_with ''AP'' model then (''wireless-access-point'', ''access-point'')
      else if kind \<in> {''switch'', ''ex''} \<or> starts_with ''EX'' model \<or> starts_with ''QFX'' model then (''network-switch'', ''switch'')
      else if kind \<in> {''mxedge'', ''mist-edge''} \<or> starts_with ''ME-'' model then (''mist-edge'', ''mist-edge'')
      else if kind \<in> {''gateway'', ''wan-edge'', ''wanedge''} \<or> starts_with ''SRX'' model \<or> starts_with ''SSR'' model then (''wan-edge'', ''wan-edge'')
      else (''unknown'', ''unknown''))"

fun first_truthy :: "dict \<Rightarrow> string list \<Rightarrow> json" where
  "first_truthy d [] = JNull"
| "first_truthy d (k # ks) = (if truthy (dget d k) then dget d k else first_truthy d ks)"

definition mist_stable_id :: "(string \<Rightarrow> string) \<Rightarrow> dict \<Rightarrow> json \<Rightarrow> string" where
  "mist_stable_id H d organisation =
     (let strongest = first_truthy d [''id'', ''device_id'', ''serial'', ''mac''] in
      if truthy strongest then ''mist:'' @ py_str strongest
      else ''mist:fallback:'' @ take 24 (H (dumps (JList (organisation # map (dget d) [''site_id'', ''type'', ''model'', ''name''])))))"

definition mist_status :: "dict \<Rightarrow> string" where
  "mist_status stats = (let s = lower (py_str (dget_or stats ''status'' (JStr ''unknown''))) in
     if s \<in> {''connected'', ''online''} then ''online'' else if s \<in> {''disconnected'', ''offline''} then s else ''unknown'')"

definition mist_authority :: "(string list \<times> string list) list" where
  "mist_authority = [([''id'', ''device_id''], [''source_asset_id'']), ([''name''], [''hostname'']), ([''site_id''], [''site'']),
     ([''model''], [''model'', ''platform'', ''device_type'', ''device_role'']), ([''type''], [''platform'', ''device_type'', ''device_role'']),
     ([''serial''], [''serial_number'']), ([''mac''], [''mac_address'']), ([''ip'', ''ip_stat''], [''management_ip'']),
     ([''version''], [''firmware_version'']), ([''claimed''], [''claimed'']), ([''managed''], [''managed''])]"

definition authoritative_fields :: "dict \<Rightarrow> string list" where
  "authoritative_fields combined = usort ([''customer'', ''vendor''] @
     concat (map (\<lambda>(keys, fs). if list_ex (dhas combined) keys then fs else []) mist_authority))"

text \<open>\<open>stats.get('ip') or stats.get('ip_stat', {}).get('ip') or device.get('ip') or ''\<close>.\<close>

definition mist_ip :: "dict \<Rightarrow> dict \<Rightarrow> json res" where
  "mist_ip d stats =
     (if truthy (dget stats ''ip'') then Inr (dget stats ''ip'')
      else map_sum id (\<lambda>s. por (dget s ''ip'') (por (dget d ''ip'') (JStr []))) (want_dict (dget_or stats ''ip_stat'' (JObj []))))"

definition either_of :: "dict \<Rightarrow> dict \<Rightarrow> string \<Rightarrow> json" where
  "either_of a b k = por (dget a k) (por (dget b k) (JStr []))"

definition site_name_of :: "(string \<times> json) list \<Rightarrow> json \<Rightarrow> json \<Rightarrow> json" where
  "site_name_of sites site_id v0 = (case site_id of JStr s \<Rightarrow> dget_or sites s v0 | _ \<Rightarrow> v0)"

definition normalize_device :: "(string \<Rightarrow> string) \<Rightarrow> dict \<Rightarrow> dict \<Rightarrow> (string \<times> json) list \<Rightarrow> json \<Rightarrow> json \<Rightarrow> json \<Rightarrow> dict res" where
  "normalize_device H d stats sites organisation customer default_site =
     (let combined = dmerge stats d; kind = mist_kind (dmerge d stats); site_id = por (dget d ''site_id'') (dget stats ''site_id'') in
      map_sum id (\<lambda>ip.
        [(''id'', JStr (mist_stable_id H combined organisation)), (''source'', JStr ''mist''), (''collector'', JStr ''mist''),
         (''customer'', customer), (''site'', site_name_of sites site_id default_site), (''external_site_id'', site_id),
         (''external_device_id'', por (dget d ''id'') (por (dget d ''device_id'') (por (dget stats ''id'') (dget stats ''device_id'')))),
         (''hostname'', either_of d stats ''name''), (''ip'', ip), (''mac'', either_of d stats ''mac''),
         (''serial'', either_of d stats ''serial''), (''model'', either_of d stats ''model''), (''vendor'', JStr ''juniper''),
         (''platform'', JStr (fst kind)), (''device_role'', JStr (snd kind)), (''firmware'', either_of stats d ''version''),
         (''operational_status'', JStr (mist_status stats)),
         (''capabilities'', jstrs ([''inventory'', ''device-health''] @ (if fst kind = ''wireless-access-point'' then [''wireless-clients''] else []))),
         (''_authoritative_fields'', jstrs (authoritative_fields combined))] @
        concat (map (\<lambda>k. if dhas combined k then [(k, JBool (truthy (dget combined k)))] else []) [''claimed'', ''managed'']))
      (mist_ip d stats))"

section \<open>Counting clients\<close>

text \<open>\<open>int(float(value))\<close>, or nothing where that raises.\<close>

fun quiet :: "int res \<Rightarrow> int option res" where
  "quiet (Inr n) = Inr (Some n)"
| "quiet (Inl (Unmodelled s)) = Inl (Unmodelled s)"
| "quiet (Inl e) = Inr None"

fun client_number :: "json \<Rightarrow> int option res" where
  "client_number (JBool b) = Inr (Some (if b then 1 else 0))"
| "client_number v = quiet (and_then (py_float v) trunc_float)"

definition total_of :: "int option list \<Rightarrow> int option" where
  "total_of xs = (let ys = map the (filter (\<lambda>x. x \<noteq> None) xs) in if ys = [] then None else Some (sum_list ys))"

fun sum_counts :: "json \<Rightarrow> int option res" and sum_values :: "dict \<Rightarrow> int option list res" and sum_items :: "json list \<Rightarrow> int option list res" where
  "sum_counts (JObj d) = map_sum id total_of (sum_values d)"
| "sum_counts (JList xs) = map_sum id total_of (sum_items xs)"
| "sum_counts v = client_number v"
| "sum_values [] = Inr []"
| "sum_values ((k, v) # d) = and_then (sum_counts v) (\<lambda>n. map_sum id (Cons n) (sum_values d))"
| "sum_items [] = Inr []"
| "sum_items (v # xs) = and_then (sum_counts v) (\<lambda>n. map_sum id (Cons n) (sum_items xs))"

definition client_key :: "string \<Rightarrow> string" where
  "client_key k = replace_char (CHR ''-'') (CHR ''_'') (casefold (strip k))"

text \<open>The counts by normalised key; of keys that normalise alike the last one counts.\<close>

definition client_counts :: "dict \<Rightarrow> (string \<times> int) list res" where
  "client_counts d =
     map_sum id (\<lambda>ns. concat (map (\<lambda>(k, n). case n of None \<Rightarrow> [] | Some i \<Rightarrow> [(k, i)])
         (foldl (\<lambda>m (k, n). AList.update k n m) [] (zip (map (client_key \<circ> fst) d) ns))))
       (sum_values d)"

definition first_count :: "(string \<times> int) list \<Rightarrow> string list \<Rightarrow> int option" where
  "first_count counts ks = (case find (\<lambda>k. map_of counts k \<noteq> None) ks of None \<Rightarrow> None | Some k \<Rightarrow> map_of counts k)"

definition when_some :: "string \<Rightarrow> int option \<Rightarrow> dict" where
  "when_some k v = (case v of None \<Rightarrow> [] | Some n \<Rightarrow> [(k, JInt n)])"

definition client_total :: "(string \<times> int) list \<Rightarrow> int option \<Rightarrow> int option \<Rightarrow> int option" where
  "client_total counts wireless wired =
     (case first_count counts [''total'', ''all'', ''count'', ''client_count'', ''num_clients''] of
        Some n \<Rightarrow> Some n
      | None \<Rightarrow> (case total_of [wireless, wired] of Some n \<Rightarrow> Some n | None \<Rightarrow> total_of (map (Some \<circ> snd) counts)))"

definition client_fields :: "json \<Rightarrow> dict res" where
  "client_fields v = (case v of
     JObj d \<Rightarrow> map_sum id (\<lambda>counts.
         let wireless = first_count counts [''wireless'', ''wifi'', ''wlan'', ''wireless_clients'', ''num_wireless_clients''];
             wired = first_count counts [''wired'', ''lan'', ''wired_clients'', ''num_wired_clients''] in
         when_some ''wireless_client_count'' wireless @ when_some ''wired_client_count'' wired @
           when_some ''client_count'' (client_total counts wireless wired)) (client_counts d)
   | _ \<Rightarrow> map_sum id (when_some ''client_count'') (client_number v))"

section \<open>Metrics\<close>

definition METRIC_FIELDS :: "(string \<times> string) list" where
  "METRIC_FIELDS = [(''uptime'', ''uptime_seconds''), (''uptime_seconds'', ''uptime_seconds''), (''cpu_util'', ''cpu_percent''),
     (''cpu_percent'', ''cpu_percent''), (''mem_used_percent'', ''memory_used_percent''), (''memory_used_percent'', ''memory_used_percent''),
     (''temperature'', ''temperature_celsius''), (''temperature_celsius'', ''temperature_celsius''), (''temp'', ''temperature_celsius''),
     (''rx_bytes'', ''rx_bytes''), (''tx_bytes'', ''tx_bytes''), (''rx_bps'', ''rx_bps''), (''tx_bps'', ''tx_bps'')]"

definition supplied :: "dict \<Rightarrow> string \<Rightarrow> bool" where
  "supplied stats k = (dhas stats k \<and> dget stats k \<noteq> JNull \<and> dget stats k \<noteq> JStr [])"

definition plain_metrics :: "dict \<Rightarrow> dict" where
  "plain_metrics stats = foldl (\<lambda>m (source, target). if supplied stats source then dset m target (dget stats source) else m)
     (if dhas stats ''status'' then [(''online'', JBool (lower (py_str (dget stats ''status'')) \<in> {''connected'', ''online''}))] else [])
     METRIC_FIELDS"

definition add_clients :: "dict \<Rightarrow> string \<Rightarrow> dict \<Rightarrow> dict res" where
  "add_clients stats k m = (if supplied stats k then map_sum id (dmerge m) (client_fields (dget stats k)) else Inr m)"

definition metric_fields :: "(json \<Rightarrow> json \<Rightarrow> json res) \<Rightarrow> dict \<Rightarrow> dict res" where
  "metric_fields ratio stats =
     and_then (fold_res (add_clients stats) [''num_clients'', ''client_count''] (plain_metrics stats)) (\<lambda>m.
       if \<not> dhas m ''memory_used_percent'' \<and> truthy (dget stats ''mem_total_kb'') \<and> dget stats ''mem_used_kb'' \<noteq> JNull
       then map_sum id (dset m ''memory_used_percent'') (ratio (dget stats ''mem_used_kb'') (dget stats ''mem_total_kb''))
       else Inr m)"

definition mist_point :: "string \<Rightarrow> dict \<Rightarrow> dict \<Rightarrow> dict" where
  "mist_point m tags values = [(''measurement'', JStr m), (''tags'', JObj tags), (''fields'', JObj values)]"

definition pick_fields :: "string list \<Rightarrow> dict \<Rightarrow> dict" where
  "pick_fields ks m = concat (map (\<lambda>k. if dhas m k then [(k, dget m k)] else []) ks)"

definition mist_common :: "dict \<Rightarrow> dict" where
  "mist_common r = map (\<lambda>k. (k, dget r k)) [''customer'', ''site'', ''vendor'', ''platform'', ''device_role'', ''collector'', ''hostname'', ''model''] @
     [(''device_id'', dget r ''id'')]"

definition wireless_points :: "dict \<Rightarrow> dict \<Rightarrow> dict list" where
  "wireless_points common m =
     (let tags = map (\<lambda>k. (k, dget common k)) [''customer'', ''site'', ''vendor'', ''collector'', ''device_id'', ''hostname'', ''model''];
          wireless = pick_fields [''online'', ''client_count'', ''rx_bytes'', ''tx_bytes'', ''rx_bps'', ''tx_bps''] m in
      [mist_point ''wireless_access_point'' tags m] @ (if wireless = [] then [] else [mist_point ''wireless'' tags wireless]))"

definition points_of_fields :: "dict \<Rightarrow> dict \<Rightarrow> dict list" where
  "points_of_fields r m =
     (let common = mist_common r; performance = pick_fields [''cpu_percent'', ''memory_used_percent'', ''uptime_seconds''] m in
      if m = [] then []
      else [mist_point ''infrastructure_device'' common m,
            mist_point ''device'' common ((''online'', dget_or m ''online'' (JBool False)) # pick_fields [''uptime_seconds''] m)] @
        (if dhas m ''online'' then [mist_point ''availability'' common [(''available'', dget m ''online'')]] else []) @
        (if performance = [] then [] else [mist_point ''performance'' common performance]) @
        (if dget r ''platform'' = JStr ''wireless-access-point'' then wireless_points common m else []))"

definition metric_points :: "(json \<Rightarrow> json \<Rightarrow> json res) \<Rightarrow> dict \<Rightarrow> dict \<Rightarrow> dict list res" where
  "metric_points ratio r stats = map_sum id (points_of_fields r) (metric_fields ratio stats)"

section \<open>Client counts are numbers\<close>

text \<open>However Mist nests its client summary, what is written are flat integers.\<close>

lemma when_some_flat: "(k, x) \<in> set (when_some k' v) \<Longrightarrow> \<exists>n. x = JInt n"
  by (cases v) (auto simp: when_some_def)

lemma client_fields_flat: "client_fields v = Inr fs \<Longrightarrow> (k, x) \<in> set fs \<Longrightarrow> \<exists>n. x = JInt n"
  by (cases v) (auto simp: client_fields_def Let_def map_sum_eq_Inr simp del: client_number.simps dest!: when_some_flat)

lemma sample_clients:
  "client_fields (JObj [(''Wi-Fi'', JInt 1), (''wireless'', JObj [(''5'', JInt 3), (''24'', JStr ''2'')]), (''wired'', JInt 4)])
     = Inr [(''wireless_client_count'', JInt 5), (''wired_client_count'', JInt 4), (''client_count'', JInt 9)]"
  "client_fields (JStr ''7'') = Inr [(''client_count'', JInt 7)]"
  by code_simp+

lemma sample_mist:
  "mist_kind [(''type'', JStr ''AP'')] = (''wireless-access-point'', ''access-point'')"
  "map_sum id length (metric_points (\<lambda>a b. Inr JNull) [(''platform'', JStr ''wireless-access-point'')]
     [(''status'', JStr ''connected''), (''num_clients'', JInt 3)]) = Inr 5"
  by code_simp+

end
