(* ===== verification/PaperCut_Normalizer.thy ===== *)
theory PaperCut_Normalizer
  imports Py_Float
begin

text \<open>
  \<open>collectors/papercut/normalizer.py\<close>: the health of a PaperCut server, its embedded devices and its
  print queues, as conditions, inventory records and availability points. SHA-256 is the parameter
  \<open>H\<close>; \<open>hostname\<close> is the host of the configured URL. The performance and licence points, which copy
  numbers, are not modelled.
\<close>

section \<open>Services and conditions\<close>

record papercut_config =
  pc_base_url :: string
  pc_hostname :: string
  pc_deployment_id :: string
  pc_customer :: string
  pc_site :: string
  pc_site_name :: string
  pc_customer_name :: string
  pc_disk_warning :: string
  pc_jvm_warning :: string
  pc_held_jobs_warning :: int
  pc_assurance_days :: int
  pc_uptime_days :: int

definition pc_status :: "json \<Rightarrow> string" where
  "pc_status v = upper (strip (py_str (por v (JStr ''UNKNOWN''))))"

definition int_or_zero :: "json \<Rightarrow> int res" where
  "int_or_zero v = py_int (por v (JInt 0))"

record print_service =
  ps_name :: string
  ps_status :: string
  ps_total :: int
  ps_offline :: int

definition print_service_of :: "string \<Rightarrow> json \<Rightarrow> print_service res" where
  "print_service_of name v =
     (let d = as_dict v in
      and_then (int_or_zero (dget d ''offlineCount'')) (\<lambda>offline.
      map_sum id (\<lambda>total. \<lparr>ps_name = name,
          ps_status = (if pc_status (dget d ''status'') = ''UNKNOWN'' then (if offline \<noteq> 0 then ''ERROR'' else ''OK'') else pc_status (dget d ''status'')),
          ps_total = total, ps_offline = offline\<rparr>) (int_or_zero (dget d ''count''))))"

definition service_keys :: "(string \<times> string) list" where
  "service_keys = [(''Mobility Print'', ''mobilityPrintServers''), (''Print Providers'', ''printProviders''), (''Site Servers'', ''siteServers''),
     (''Web Print'', ''webPrint''), (''Job Ticketing'', ''job-ticketing'')]"

definition print_services :: "dict \<Rightarrow> print_service list res" where
  "print_services root = map_res (\<lambda>(name, k). print_service_of name (dget root k)) service_keys"

record server_condition =
  sc_code :: string
  sc_severity :: string
  sc_value :: json
  sc_threshold :: json

definition server_condition_of :: "string \<Rightarrow> string \<Rightarrow> json \<Rightarrow> json \<Rightarrow> server_condition" where
  "server_condition_of code severity v limit = \<lparr>sc_code = code, sc_severity = severity, sc_value = v, sc_threshold = limit\<rparr>"

definition when_true :: "bool \<Rightarrow> 'a \<Rightarrow> 'a list" where
  "when_true b x = (if b then [x] else [])"

definition database_condition :: "dict \<Rightarrow> server_condition list" where
  "database_condition database = when_true (pc_status (dget database ''status'') \<noteq> ''OK'')
     (server_condition_of ''database_not_ok'' ''Critical'' (JStr (pc_status (dget database ''status''))) JNull)"

definition provider_condition :: "print_service list \<Rightarrow> server_condition list" where
  "provider_condition services = (case find (\<lambda>s. ps_name s = ''Print Providers'') services of None \<Rightarrow> []
     | Some s \<Rightarrow> when_true (0 < ps_offline s \<or> ps_status s \<noteq> ''OK'') (server_condition_of ''print_provider_offline'' ''Critical'' JNull JNull))"

text \<open>A measured percentage at or above its threshold.\<close>

definition float_condition :: "string \<Rightarrow> json \<Rightarrow> string \<Rightarrow> server_condition list res" where
  "float_condition code v limit =
     (if v = JNull then Inr []
      else and_then (py_float v) (\<lambda>f. map_sum id (\<lambda>b. when_true b (server_condition_of code ''Medium'' (JFloat f) (JFloat limit)))
        (at_least (JFloat f) limit)))"

definition uptime_condition :: "json \<Rightarrow> int \<Rightarrow> server_condition list res" where
  "uptime_condition v days =
     (if v = JNull then Inr []
      else and_then (py_float v) (\<lambda>f. map_sum id (\<lambda>x. let d = div_double x (24, 1) in
          when_true (frac_le (days, 1) d) (server_condition_of ''long_uptime'' ''Info'' (JFloat (fmt_1f d)) (JInt days)))
        (double_of (JFloat f))))"

definition assurance_condition :: "json \<Rightarrow> int \<Rightarrow> server_condition list res" where
  "assurance_condition v days =
     (if v = JNull then Inr [] else map_sum id (\<lambda>n. when_true (n \<le> days) (server_condition_of ''upgrade_assurance'' ''Low'' (JInt n) (JInt days))) (py_int v))"

definition server_conditions :: "papercut_config \<Rightarrow> dict \<Rightarrow> print_service list \<Rightarrow> server_condition list res" where
  "server_conditions cfg root services =
     (let part = (\<lambda>k. as_dict (dget root k)); metrics = as_dict (dget (part ''applicationServer'') ''systemMetrics'') in
      and_then (int_or_zero (dget (part ''devices'') ''inErrorCount'')) (\<lambda>errors.
      and_then (float_condition ''disk_utilisation'' (dget metrics ''diskSpaceUsedPercentage'') (pc_disk_warning cfg)) (\<lambda>disk.
      and_then (float_condition ''jvm_memory'' (dget metrics ''jvmMemoryUsedPercentage'') (pc_jvm_warning cfg)) (\<lambda>memory.
      and_then (int_or_zero (dget (part ''printers'') ''heldJobsCountTotal'')) (\<lambda>held.
      and_then (assurance_condition (dget (part ''license'') ''upgradeAssuranceRemainingDays'') (pc_assurance_days cfg)) (\<lambda>assurance.
      map_sum id (\<lambda>uptime. database_condition (part ''database'') @ provider_condition services @
          when_true (0 < errors) (server_condition_of ''embedded_device_errors'' ''Medium'' (JInt errors) JNull) @ disk @ memory @
          when_true (pc_held_jobs_warning cfg \<le> held) (server_condition_of ''held_jobs'' ''Low'' (JInt held) (JInt (pc_held_jobs_warning cfg))) @
          assurance @ uptime) (uptime_condition (dget metrics ''uptimeHours'') (pc_uptime_days cfg))))))))"

definition server_status :: "server_condition list \<Rightarrow> string" where
  "server_status cs = (if list_ex (\<lambda>c. sc_severity c = ''Critical'') cs then ''Critical''
     else if list_ex (\<lambda>c. sc_severity c \<in> {''Medium'', ''Low''}) cs then ''Warning'' else ''Healthy'')"

definition availability_fields :: "server_condition list \<Rightarrow> dict" where
  "availability_fields cs = [(''available'', JBool (\<not> list_ex (\<lambda>c. sc_severity c = ''Critical'') cs)), (''status'', JStr (server_status cs))]"

section \<open>Devices and printers\<close>

definition PRINTER_ERROR_STATES :: "string list" where
  "PRINTER_ERROR_STATES = [''PAPER_JAM'', ''PAPER_OUT'', ''PAPER_PROBLEM'', ''OUTPUT_BIN_FULL'', ''NOT_AVAILABLE'', ''NO_TONER'',
     ''OUT_OF_MEMORY'', ''OFFLINE'', ''DOOR_OPEN'', ''USER_INTERVENTION'', ''ERROR'']"

definition condition_labels :: "(string \<times> string) list" where
  "condition_labels = [(''ERROR'', ''In Error''), (''OFFLINE'', ''Offline''), (''NOT_AVAILABLE'', ''Not Available''), (''NO_TONER'', ''Toner Empty''),
     (''PAPER_JAM'', ''Paper Jam''), (''PAPER_OUT'', ''Paper Out''), (''PAPER_PROBLEM'', ''Paper Problem''), (''OUTPUT_BIN_FULL'', ''Output Bin Full''),
     (''OUT_OF_MEMORY'', ''Out of Memory''), (''DOOR_OPEN'', ''Door Open''), (''USER_INTERVENTION'', ''User Intervention''), (''UNKNOWN'', ''Unknown Status'')]"

definition queue_condition :: "string \<Rightarrow> json \<Rightarrow> dict option" where
  "queue_condition status description =
     (if status \<notin> set PRINTER_ERROR_STATES \<and> status \<noteq> ''UNKNOWN'' then None
      else Some ([(''condition'', JStr (case map_of condition_labels status of Some l \<Rightarrow> l
            | None \<Rightarrow> title_from False (replace_char (CHR ''_'') (CHR '' '') status))),
          (''condition_type'', JStr (if status \<in> {''OFFLINE'', ''NOT_AVAILABLE''} then ''offline''
             else if status = ''UNKNOWN'' then ''unknown'' else ''operational_error'')),
          (''severity'', JStr (if status = ''UNKNOWN'' then ''Warning'' else ''Critical'')), (''actionable'', JBool (status \<noteq> ''UNKNOWN''))] @
        when_true (truthy description) (''message'', JStr (py_str description))))"

definition printer_identity :: "(string \<Rightarrow> string) \<Rightarrow> string \<Rightarrow> string \<Rightarrow> json \<Rightarrow> string" where
  "printer_identity H identifier name supplied =
     sor (strip (py_str (por supplied (JStr [])))) (''papercut-printer:'' @ take 24 (H (casefold (identifier @ ''|'' @ name))))"

definition server_id :: "(string \<Rightarrow> string) \<Rightarrow> papercut_config \<Rightarrow> string" where
  "server_id H cfg = ''papercut:'' @ take 24 (H (casefold (pc_base_url cfg)))"

definition item_list :: "json \<Rightarrow> json list" where
  "item_list v = (case v of JList xs \<Rightarrow> xs | _ \<Rightarrow> if v = JNull \<or> v = JStr [] then [] else [v])"

definition item_name :: "dict \<Rightarrow> string" where
  "item_name d = strip (py_str (por (dget d ''name'') (JStr [])))"

definition item_status :: "dict \<Rightarrow> string" where
  "item_status d = pc_status (por (dget d ''status'') (dget d ''state''))"

definition owner_fields :: "papercut_config \<Rightarrow> dict" where
  "owner_fields cfg = [(''deployment_id'', JStr (pc_deployment_id cfg)), (''customer_id'', JStr (pc_customer cfg)), (''customer'', JStr (pc_customer cfg)),
     (''site_id'', JStr (pc_site cfg)), (''site'', JStr (sor (pc_site_name cfg) (pc_site cfg)))]"

definition print_authority :: json where
  "print_authority = jstrs [''customer_id'', ''site_id'', ''hostname'', ''vendor'', ''platform'', ''device_type'', ''device_role'', ''online'']"

definition condition_entry :: "dict option \<Rightarrow> dict" where
  "condition_entry c = (case c of None \<Rightarrow> [] | Some d \<Rightarrow> [(''printer_conditions'', JList [JObj d])])"

text \<open>The online state of a device and of a print queue.\<close>

definition device_online :: "string \<Rightarrow> json" where
  "device_online s = (if s = ''OK'' then JBool True else if s = ''ERROR'' then JBool False else JNull)"

definition printer_online :: "string \<Rightarrow> json" where
  "printer_online s = (if s = ''OK'' then JBool True else if s \<in> {''OFFLINE'', ''NOT_AVAILABLE'', ''ERROR''} then JBool False else JNull)"

definition print_device_record :: "(string \<Rightarrow> string) \<Rightarrow> papercut_config \<Rightarrow> json \<Rightarrow> dict \<Rightarrow> dict" where
  "print_device_record H cfg observed_at d =
     (let name = item_name d; status = item_status d; i = ''papercut-device:'' @ take 24 (H (casefold (server_id H cfg @ ''|'' @ name))) in
      [(''id'', JStr i), (''source'', JStr ''papercut''), (''collector'', JStr ''papercut''), (''source_asset_id'', JStr name), (''source_record_id'', JStr i)] @
      owner_fields cfg @
      [(''hostname'', JStr name), (''display_name'', JStr name), (''vendor'', JStr (py_str (por (dget d ''type'') (JStr ''PaperCut managed'')))),
       (''platform'', JStr ''PaperCut Embedded''), (''device_type'', JStr ''printer''), (''device_role'', JStr ''embedded-print-device''),
       (''online'', device_online status), (''operational_status'', JStr (casefold status)), (''source_last_seen_at'', observed_at),
       (''extensions'', JObj (condition_entry (queue_condition status (dget d ''statusDescription'')) @
          [(''papercut'', JObj [(''status'', JStr status), (''status_description'', dget d ''statusDescription''), (''last_job_age_seconds'', dget d ''lastJobSeconds'')])])),
       (''_authoritative_fields'', print_authority)])"

definition printer_record :: "(string \<Rightarrow> string) \<Rightarrow> papercut_config \<Rightarrow> json \<Rightarrow> dict \<Rightarrow> dict" where
  "printer_record H cfg observed_at d =
     (let name = item_name d; status = item_status d; description = por (dget d ''statusDescription'') (dget d ''message'');
          i = printer_identity H (server_id H cfg) name (por (dget d ''id'') (dget d ''printerId''));
          server = (if CHR 0x5C \<in> set name then takeWhile (\<lambda>c. c \<noteq> CHR 0x5C) name else pc_hostname cfg) in
      [(''id'', JStr i), (''source'', JStr ''papercut''), (''collector'', JStr ''papercut''), (''source_asset_id'', JStr i), (''source_record_id'', JStr i)] @
      owner_fields cfg @
      [(''hostname'', JStr name), (''display_name'', JStr name), (''vendor'', JStr ''PaperCut managed''), (''platform'', JStr ''PaperCut Printer''),
       (''device_type'', JStr ''printer''), (''device_role'', JStr ''print-queue''), (''online'', printer_online status),
       (''operational_status'', JStr (casefold status)), (''source_last_seen_at'', observed_at),
       (''extensions'', JObj (condition_entry (queue_condition status description) @
          [(''printer_health'', JObj [(''printer_id'', JStr i), (''printer_name'', JStr name), (''server_name'', JStr server),
             (''operational_status'', JStr (casefold status)), (''error_state'', JBool (status \<in> set PRINTER_ERROR_STATES)),
             (''error_message'', JStr (py_str (por description (JStr [])))), (''held_jobs'', dget d ''heldJobsCount''),
             (''source'', JStr ''papercut-system-health''), (''last_seen'', observed_at)])])),
       (''_authoritative_fields'', print_authority)])"

definition named_items :: "(string \<Rightarrow> string) \<Rightarrow> json list \<Rightarrow> dict list" where
  "named_items key xs = filter (\<lambda>d. item_name d \<noteq> []) (sort_key (\<lambda>d. key (py_str (por (dget d ''name'') (JStr [])))) (map as_dict xs))"

definition print_records :: "(string \<Rightarrow> string) \<Rightarrow> papercut_config \<Rightarrow> dict \<Rightarrow> json \<Rightarrow> dict list" where
  "print_records H cfg snap observed_at =
     (let devices = item_list (dget (as_dict (dget snap ''devices'')) ''devices'');
          summary = item_list (dget (as_dict (dget (as_dict (dget snap ''health'')) ''devices'')) ''inError'');
          printers = item_list (dget (as_dict (dget snap ''printers'')) ''printers'') in
      map (print_device_record H cfg observed_at) (named_items (\<lambda>s. s) (if devices = [] then summary else devices)) @
      map (printer_record H cfg observed_at) (named_items lower printers))"

section \<open>Availability\<close>

lemma database_condition_critical: "c \<in> set (database_condition d) \<Longrightarrow> sc_severity c = ''Critical''"
  by (auto simp: database_condition_def when_true_def server_condition_of_def split: if_splits)

lemma provider_condition_critical: "c \<in> set (provider_condition services) \<Longrightarrow> sc_severity c = ''Critical''"
  by (auto simp: provider_condition_def when_true_def server_condition_of_def split: if_splits option.splits)

text \<open>A server reported available has its database OK and no print provider offline.\<close>

lemma available_server_is_sound:
  assumes "server_conditions cfg root services = Inr cs" and "dget (availability_fields cs) ''available'' = JBool True"
  shows "pc_status (dget (as_dict (dget root ''database'')) ''status'') = ''OK'' \<and> provider_condition services = []"
proof -
  have none: "\<forall>c \<in> set cs. sc_severity c \<noteq> ''Critical''"
    using assms(2) by (auto simp: availability_fields_def dget_def list_ex_iff)
  have "set (database_condition (as_dict (dget root ''database''))) \<subseteq> set cs" "set (provider_condition services) \<subseteq> set cs"
    using assms(1) by (auto simp: server_conditions_def Let_def and_then_eq_Inr map_sum_eq_Inr)
  note sub = this
  have "c \<notin> set (database_condition (as_dict (dget root ''database'')))" for c
    using none sub(1) database_condition_critical [of c] by auto
  then have "database_condition (as_dict (dget root ''database'')) = []" by (metis last_in_set)
  moreover have "c \<notin> set (provider_condition services)" for c
    using none sub(2) provider_condition_critical [of c] by auto
  then have "provider_condition services = []" by (metis last_in_set)
  ultimately show ?thesis by (auto simp: database_condition_def when_true_def split: if_splits)
qed

lemma queue_condition_iff: "queue_condition status v \<noteq> None \<longleftrightarrow> status \<in> set PRINTER_ERROR_STATES \<or> status = ''UNKNOWN''"
  by (auto simp: queue_condition_def)

end
