(* ===== verification/Deployment_Runtime.thy ===== *)
theory Deployment_Runtime
  imports ITP_Prelude
begin

text \<open>
  \<open>analysis/runtime_deployment.py\<close>, the deterministic parts of deployment management: names, the
  state of a deployment from the resources it owns, its recovery plan, environment files and the
  answer to the creation of a token. A container is the dictionary Docker reports for it; the
  JSON parser is the parameter \<open>parse\<close>.
\<close>

section \<open>Names\<close>

definition label_char :: "char \<Rightarrow> bool" where
  "label_char c = (let n = of_char c :: nat in 97 \<le> n \<and> n \<le> 122 \<or> 48 \<le> n \<and> n \<le> 57)"

text \<open>\<open>re.sub('[^a-z0-9]+', '-', text)\<close>: each run of other characters becomes one dash.\<close>

fun dashed :: "bool \<Rightarrow> string \<Rightarrow> string" where
  "dashed gap [] = []"
| "dashed gap (c # cs) = (if label_char c then c # dashed False cs else if gap then dashed True cs else CHR ''-'' # dashed True cs)"

definition slugify :: "string \<Rightarrow> string res" where
  "slugify s = (let v = strip_char (CHR ''-'') (dashed False (casefold s)) in
     if v = [] then Inl (ValueError ''deployment name must contain letters or numbers'') else Inr (take 63 v))"

section \<open>The state of a deployment\<close>

definition EXPECTED_RUNTIME_SERVICES :: "string list" where
  "EXPECTED_RUNTIME_SERVICES = [''collector'', ''discovery'', ''grafana'', ''influxdb3-core'', ''telegraf'']"

definition row_text :: "dict \<Rightarrow> string \<Rightarrow> string" where
  "row_text row k = casefold (strip (py_str (por (dget row k) (JStr []))))"

definition container_condition :: "dict \<Rightarrow> string \<times> string" where
  "container_condition row =
     (let state = row_text row ''State''; status = row_text row ''Status''; health = row_text row ''Health'' in
      if state = ''restarting'' \<or> contains ''restarting'' status then (''failed'', ''Container is restarting'')
      else if state \<noteq> ''running'' then (''failed'', ''Container state is '' @ sor state ''unknown'')
      else if health = ''unhealthy'' \<or> contains ''unhealthy'' status then (''failed'', ''Container is unhealthy'')
      else if health = ''starting'' \<or> contains ''health: starting'' status then (''degraded'', ''Container health is starting'')
      else (''running'', ''Container is running''))"

text \<open>\<open>re.search('-service-\d+$', name)\<close>; \<open>$\<close> also matches before a final line break.\<close>

definition names_service :: "string \<Rightarrow> string \<Rightarrow> bool" where
  "names_service name service =
     (let line = (if name \<noteq> [] \<and> last name = CHR 0x0A then butlast name else name);
          stem = rev (dropWhile is_digit (rev line)); mark = CHR ''-'' # service @ ''-'' in
      length stem < length line \<and> length mark \<le> length stem \<and> drop (length stem - length mark) stem = mark)"

definition container_service :: "dict \<Rightarrow> string" where
  "container_service row =
     (let service = py_str (por (dget row ''Service'') (JStr []));
          name = py_str (por (dget row ''Names'') (por (dget row ''Name'') (JStr []))) in
      if service \<noteq> [] then service
      else case find (names_service name) EXPECTED_RUNTIME_SERVICES of None \<Rightarrow> [] | Some s \<Rightarrow> s)"

definition runtime_state :: "bool \<Rightarrow> bool \<Rightarrow> dict list \<Rightarrow> bool \<Rightarrow> string" where
  "runtime_state configured generated containers has_other_resources =
     (let conditions = map (fst \<circ> container_condition) containers;
          services = filter (\<lambda>s. s \<noteq> []) (map container_service containers) in
      if \<not> configured \<and> (containers \<noteq> [] \<or> has_other_resources) then ''orphaned''
      else if \<not> configured then ''missing''
      else if \<not> generated then ''partial''
      else if containers = [] then ''stopped''
      else if list_all (\<lambda>c. c = ''failed'') conditions then ''failed''
      else if services \<noteq> [] \<and> \<not> set EXPECTED_RUNTIME_SERVICES \<subseteq> set services then ''degraded''
      else if list_all (\<lambda>c. c = ''running'') conditions then ''running''
      else ''degraded'')"

record recovery_action =
  ra_id :: string
  ra_label :: string
  ra_command :: string
  ra_destructive :: bool

definition recovery_actions :: "string \<Rightarrow> string \<Rightarrow> recovery_action list" where
  "recovery_actions i status =
     (let act = (\<lambda>a label command destructive.
           \<lparr>ra_id = a, ra_label = label, ra_command = command, ra_destructive = destructive\<rparr>) in
      (if status \<in> {''partial'', ''stopped''}
       then [act ''resume'' ''Resume safe deployment phases'' (''./itp deploy --deployment-id '' @ i @ '' --force'') False] else []) @
      [act ''edit'' ''Edit deployment configuration'' (''./itp deployment edit --deployment '' @ i) False,
       act ''doctor'' ''Run Doctor'' (''./itp doctor --deployment '' @ i) False,
       act ''logs'' ''Show safe collector logs'' (''./itp logs collector --deployment '' @ i) False,
       act ''support'' ''Export a support bundle'' (''./itp support bundle --deployment '' @ i) False,
       act ''reset'' ''Reset generated runtime and preserve telemetry'' (''./itp reset --deployment '' @ i) False,
       act ''reset_data'' ''Reset generated runtime and telemetry'' (''./itp reset --deployment '' @ i @ '' --reset-influx'') True])"

section \<open>Environment and token\<close>

text \<open>\<open>_read_env\<close> on the lines of a file: later assignments win.\<close>

definition env_line :: "string \<Rightarrow> (string \<times> string) option" where
  "env_line l = (if l \<noteq> [] \<and> hd l \<noteq> CHR ''#'' \<and> CHR ''='' \<in> set l
     then Some (takeWhile (\<lambda>c. c \<noteq> CHR ''='') l, drop 1 (dropWhile (\<lambda>c. c \<noteq> CHR ''='') l)) else None)"

definition read_env :: "string list \<Rightarrow> (string \<times> string) list" where
  "read_env ls = foldl (\<lambda>m l. case env_line l of None \<Rightarrow> m | Some (k, v) \<Rightarrow> AList.update k v m) [] ls"

definition valid_token :: "string \<Rightarrow> bool" where
  "valid_token t = (20 \<le> length t \<and> list_all (\<lambda>c. let n = of_char c :: nat in 32 < n \<and> n < 127) t)"

text \<open>The decoded answer; \<open>None\<close> when it is not UTF-8.\<close>

definition parse_admin_token :: "(string \<Rightarrow> json option) \<Rightarrow> string option \<Rightarrow> (string \<times> string) res" where
  "parse_admin_token parse body =
     (let checked = (\<lambda>t kind. if valid_token t then Inr (t, kind) else Inl (ValueError
            (''InfluxDB returned a blank or malformed '' @ kind @ '' administrator token response''))) in
      case body of
        None \<Rightarrow> Inl (ValueError ''InfluxDB returned a non-UTF-8 administrator token response'')
      | Some raw \<Rightarrow> (let text = strip raw in
          if starts_with ''{'' text then
            (case parse text of
               None \<Rightarrow> Inl (ValueError ''InfluxDB returned malformed JSON during administrator token creation'')
             | Some (JObj d) \<Rightarrow> checked (py_str (por (dget d ''token'') (JStr []))) ''JSON''
             | Some v \<Rightarrow> Inl (ValueError ''InfluxDB returned an unexpected JSON administrator token response''))
          else checked text ''plain text''))"

section \<open>What holds of them\<close>

lemma dashed_chars: "c \<in> set (dashed gap s) \<Longrightarrow> label_char c \<or> c = CHR ''-''"
  by (induction gap s rule: dashed.induct) (auto split: if_splits)

text \<open>A deployment name is safe in file names, container names and commands.\<close>

lemma slug_safe:
  assumes "slugify s = Inr v"
  shows "v \<noteq> [] \<and> length v \<le> 63 \<and> label_char (hd v) \<and> (\<forall>c \<in> set v. label_char c \<or> c = CHR ''-'')"
proof -
  let ?d = "dashed False (casefold s)" and ?t = "strip_char (CHR ''-'') (dashed False (casefold s))"
  have v: "?t \<noteq> []" "v = take 63 ?t" using assms by (auto simp: slugify_def Let_def split: if_splits)
  have sub: "set ?t \<subseteq> set ?d" unfolding strip_char_def by (auto dest!: set_dropWhileD)
  have "hd ?t \<noteq> CHR ''-''"
  proof -
    obtain c cs where d: "dropWhile (\<lambda>x. x = CHR ''-'') ?d = c # cs"
      using v(1) by (cases "dropWhile (\<lambda>x. x = CHR ''-'') ?d") (auto simp: strip_char_def)
    then have c: "c \<noteq> CHR ''-''" using hd_dropWhile [of "\<lambda>x. x = CHR ''-''" ?d] by simp
    have "rev (dropWhile (\<lambda>x. x = CHR ''-'') (rev (c # cs))) = c # rev (dropWhile (\<lambda>x. x = CHR ''-'') (rev cs))"
      using c by (simp add: dropWhile_append dropWhile_eq_Nil_conv)
    then show ?thesis using c by (simp add: strip_char_def d)
  qed
  moreover have "hd ?t \<in> set ?d" using v(1) sub by (metis hd_in_set subsetD)
  ultimately have "label_char (hd ?t)" using dashed_chars by blast
  moreover have "\<forall>c \<in> set v. label_char c \<or> c = CHR ''-''" using v(2) sub dashed_chars by (metis in_set_takeD subsetD)
  ultimately show ?thesis using v by (simp add: hd_take)
qed

lemma parsed_token_valid: "parse_admin_token parse body = Inr (t, kind) \<Longrightarrow> valid_token t"
proof (cases body)
  case (Some raw)
  assume parsed: "parse_admin_token parse body = Inr (t, kind)"
  show ?thesis
  proof (cases "starts_with ''{'' (strip raw)")
    case True
    then obtain d where "parse (strip raw) = Some (JObj d)"
      using parsed Some by (cases "parse (strip raw)"; cases "the (parse (strip raw))") (simp_all add: parse_admin_token_def Let_def)
    then show ?thesis using parsed Some True by (auto simp: parse_admin_token_def split: if_splits)
  next
    case False
    then show ?thesis using parsed Some by (auto simp: parse_admin_token_def split: if_splits)
  qed
qed (simp add: parse_admin_token_def)

lemma running_needs_every_container:
  assumes "runtime_state configured generated containers other = ''running''"
  shows "configured \<and> generated \<and> containers \<noteq> [] \<and> (\<forall>row \<in> set containers. row_text row ''State'' = ''running'')"
proof -
  have all: "list_all (\<lambda>c. c = ''running'') (map (fst \<circ> container_condition) containers)" "configured" "generated" "containers \<noteq> []"
    using assms by (auto simp: runtime_state_def Let_def split: if_splits)
  have "row_text row ''State'' = ''running''" if "row \<in> set containers" for row
    using all(1) that by (auto simp: list_all_iff container_condition_def Let_def split: if_splits)
  then show ?thesis using all by blast
qed

lemma sample_states:
  "runtime_state True True [[(''State'', JStr ''running''), (''Name'', JStr ''itp-grafana-1'')]] False = ''degraded''"
  "runtime_state True True [[(''State'', JStr ''running'')]] False = ''running''"
  "slugify ''My School 2'' = Inr ''my-school-2''"
  by code_simp+

end
