(* ===== verification/Deployment_Environment.thy ===== *)
theory Deployment_Environment
  imports Deployment_Runtime Atomic_Files
begin

text \<open>
  \<open>analysis/runtime_deployment.py\<close>: the environment file of a deployment on disk, the paths it
  rebases, and the bootstrap of the database token (\<open>environment\<close>, \<open>_rebase_owned_path\<close>,
  \<open>_prepare_token_destination\<close>, \<open>_persist_admin_token\<close>, \<open>bootstrap_influx\<close>, \<open>reset_influx\<close>). The
  disk holds the texts of files under a schedule of faults. The resolution of links in a path and
  the parts of a Windows path are what the host does; the database's answers are a list, one for
  each attempt that starts before the deadline, so the loops are structural.
\<close>

section \<open>Lines of a file\<close>

text \<open>\<open>str.splitlines\<close> on the text as read, where a carriage return and line feed are one break.\<close>

definition is_break :: "char \<Rightarrow> bool" where
  "is_break c = ((of_char c :: nat) \<in> {10, 11, 12, 13, 28, 29, 30, 133})"

fun lines_from :: "bool \<Rightarrow> string \<Rightarrow> string \<Rightarrow> string list" where
  "lines_from cr acc [] = (if acc = [] then [] else [rev acc])"
| "lines_from cr acc (c # cs) =
     (if cr \<and> c = CHR 0x0A then lines_from False acc cs
      else if is_break c then rev acc # lines_from (c = CHR 0x0D) [] cs
      else lines_from False (c # acc) cs)"

definition splitlines :: "string \<Rightarrow> string list" where
  "splitlines t = lines_from False [] t"

definition render_env :: "(string \<times> string) list \<Rightarrow> string" where
  "render_env env = concat (map (\<lambda>(k, v). k @ ''='' @ v @ [CHR 0x0A]) env)"

section \<open>Paths\<close>

record host =
  ho_root :: string
  ho_load :: "string \<Rightarrow> json option"
  ho_resolve :: "string \<Rightarrow> string"
  ho_windows_parts :: "string \<Rightarrow> string list"

definition deployment_path :: "host \<Rightarrow> string \<Rightarrow> string" where
  "deployment_path h i = ho_root h @ ''/runtime/deployments/'' @ i"

definition env_file :: "host \<Rightarrow> string \<Rightarrow> string" where
  "env_file h i = deployment_path h i @ ''/generated/deployment.env''"

fun split_slash :: "string \<Rightarrow> string \<Rightarrow> string list" where
  "split_slash acc [] = [rev acc]"
| "split_slash acc (c # cs) = (if c = CHR ''/'' then rev acc # split_slash [] cs else split_slash (c # acc) cs)"

text \<open>\<open>PurePosixPath(s).parts\<close>.\<close>

definition posix_parts :: "string \<Rightarrow> string list" where
  "posix_parts s =
     (if starts_with ''//'' s \<and> \<not> starts_with ''///'' s then [''//''] else if starts_with ''/'' s then [''/''] else []) @
     filter (\<lambda>p. p \<noteq> [] \<and> p \<noteq> ''.'') (split_slash [] s)"

definition strip_quotes :: "string \<Rightarrow> string" where
  "strip_quotes s = (let cut = dropWhile (\<lambda>c. c = CHR 0x27 \<or> c = CHR 0x22) in rev (cut (rev (cut s))))"

definition windows_path :: "string \<Rightarrow> bool" where
  "windows_path s = (CHR 0x5C \<in> set s \<or>
     (case s of a # b # c # _ \<Rightarrow> is_letter a \<and> b = CHR '':'' \<and> c = CHR ''/'' | _ \<Rightarrow> False))"

text \<open>The last index of a part that is the identifier of the deployment.\<close>

fun last_index :: "('a \<Rightarrow> bool) \<Rightarrow> nat \<Rightarrow> 'a list \<Rightarrow> nat option" where
  "last_index p n [] = None"
| "last_index p n (x # xs) = (case last_index p (Suc n) xs of Some i \<Rightarrow> Some i | None \<Rightarrow> if p x then Some n else None)"

definition within :: "string \<Rightarrow> string \<Rightarrow> bool" where
  "within inner outer = (take (length (posix_parts outer)) (posix_parts inner) = posix_parts outer)"

definition rebase_owned_path :: "host \<Rightarrow> string \<Rightarrow> string \<Rightarrow> string res" where
  "rebase_owned_path h i v =
     (let raw = strip_quotes (strip v) in
      if raw = [] \<or> contains ''://'' raw \<or> starts_with ''/app/'' raw then Inr raw
      else (let parts = (if windows_path raw then ho_windows_parts h raw else posix_parts raw) in
        case last_index (\<lambda>p. casefold p = casefold i) 0 parts of
          None \<Rightarrow> Inr raw
        | Some n \<Rightarrow>
            (if n \<noteq> 0 \<and> casefold (parts ! (n - 1)) \<noteq> ''deployments'' then Inr raw
             else (let suffix = drop (Suc n) parts;
                       rebased = ho_resolve h (join ''/'' (deployment_path h i # suffix));
                       selected = ho_resolve h (deployment_path h i) in
               if list_ex (\<lambda>p. p \<in> {[], ''.'', ''..''}) suffix then Inl (ValueError ''unsafe deployment-owned path'')
               else if within rebased selected then Inr rebased
               else Inl (ValueError ''deployment-owned path escapes selected runtime'')))))"

definition DEPLOYMENT_PATH_KEYS :: "string list" where
  "DEPLOYMENT_PATH_KEYS = [''ITP_RUNTIME_DIR'', ''ITP_DASHBOARD_DIR'', ''ITP_TELEGRAF_DIR'', ''ITP_DISCOVERY_CONFIG'',
     ''ITP_CONNECTORS_CONFIG'', ''ITP_SITES_CONFIG'', ''ITP_SECRETS_DIR'', ''ITP_ENV_FILE'']"

definition rebase_key :: "host \<Rightarrow> string \<Rightarrow> string \<Rightarrow> (string \<times> string) list \<Rightarrow> (string \<times> string) list res" where
  "rebase_key h i k env = (case map_of env k of None \<Rightarrow> Inr env
     | Some v \<Rightarrow> map_sum id (\<lambda>w. AList.update k w env) (rebase_owned_path h i v))"

text \<open>\<open>RuntimeDeployment.environment\<close>; a missing file is an empty environment.\<close>

definition stored_env :: "host \<Rightarrow> string \<Rightarrow> string disk \<Rightarrow> (string \<times> string) list" where
  "stored_env h i d = (case files d (Path (env_file h i)) of None \<Rightarrow> [] | Some t \<Rightarrow> read_env (splitlines t))"

definition environment_of :: "host \<Rightarrow> string \<Rightarrow> string disk \<Rightarrow> (string \<times> string) list res" where
  "environment_of h i d = fold_res (rebase_key h i) DEPLOYMENT_PATH_KEYS (stored_env h i d)"

definition env_get :: "(string \<times> string) list \<Rightarrow> string \<Rightarrow> string" where
  "env_get env k = (case map_of env k of None \<Rightarrow> [] | Some v \<Rightarrow> v)"

section \<open>Persisting the token\<close>

text \<open>\<open>os.chmod\<close>: modes are not modelled, but the call may fail.\<close>

definition system_call :: "'c schedule \<Rightarrow> 'c disk \<Rightarrow> 'c disk \<times> unit res" where
  "system_call F d = (d\<lparr>ticks := Suc (ticks d)\<rparr>, if F (ticks d) = No_Fault then Inr () else Inl io_error)"

definition write_env :: "string schedule \<Rightarrow> host \<Rightarrow> string \<Rightarrow> (string \<times> string) list \<Rightarrow> string disk \<Rightarrow> string disk \<times> unit res" where
  "write_env F h i env d = then_do (atomic_write F (env_file h i) (render_env env) d) (system_call F)"

definition TOKEN :: string where
  "TOKEN = ''INFLUXDB_TOKEN''"

definition persist_admin_token :: "string schedule \<Rightarrow> host \<Rightarrow> string \<Rightarrow> (string \<times> string) list \<Rightarrow> string \<Rightarrow>
    string disk \<Rightarrow> string disk \<times> (string \<times> string) list res" where
  "persist_admin_token F h i env token d =
     (if \<not> valid_token token then (d, Inl (ValueError ''refusing to persist an invalid InfluxDB administrator token''))
      else (let updated = AList.update TOKEN token env in
        case write_env F h i updated d of
          (d', Inl e) \<Rightarrow> (d', Inl (ValueError ''atomic persistence failed; the token may now require recovery''))
        | (d', Inr _) \<Rightarrow> (d', and_then (environment_of h i d') (\<lambda>stored.
            if env_get stored TOKEN \<noteq> token
            then Inl (ValueError ''persisted-token verification failed; the token may now require recovery'')
            else Inr updated))))"

section \<open>The bootstrap of the database\<close>

text \<open>What one request for a token meets: a reply with its decoded body, an HTTP error, or no answer.\<close>

datatype token_answer = Reply nat "string option" | Http_Error nat string | Unreachable string

record influx_world =
  iw_up :: bool
  iw_health :: "nat option list"
  iw_answers :: "token_answer list"
  iw_database :: "string \<Rightarrow> string \<Rightarrow> int \<times> string"

datatype bootstrap_error = Env_Missing | Not_Writable | Bad_Environment py_exn | No_Port | Bad_Port | Not_Started | Unhealthy
  | Malformed_Token | Endpoint_Status nat | Bad_Answer py_exn | Not_Persisted py_exn | Already_Exists | Endpoint_Error nat
  | Not_Ready "string option" | No_Bucket | Database_Failed

type_synonym 'a boot = "string disk \<times> nat \<times> (bootstrap_error + 'a)"

text \<open>
  The requests for a token: the disk, the number of requests sent, and the token with the
  environment it was persisted in.
\<close>

fun acquire_token :: "string schedule \<Rightarrow> (string \<Rightarrow> json option) \<Rightarrow> host \<Rightarrow> string \<Rightarrow> (string \<times> string) list \<Rightarrow>
    string option \<Rightarrow> token_answer list \<Rightarrow> nat \<Rightarrow> string disk \<Rightarrow> (string \<times> (string \<times> string) list) boot" where
  "acquire_token F parse h i env seen [] n d = (d, n, Inl (Not_Ready seen))"
| "acquire_token F parse h i env seen (Reply status body # rest) n d =
     (if \<not> (200 \<le> status \<and> status < 300) then (d, Suc n, Inl (Endpoint_Status status))
      else case parse_admin_token parse body of
        Inl e \<Rightarrow> (d, Suc n, Inl (Bad_Answer e))
      | Inr (token, kind) \<Rightarrow> (case persist_admin_token F h i env token d of
          (d', Inl e) \<Rightarrow> (d', Suc n, Inl (Not_Persisted e))
        | (d', Inr env') \<Rightarrow> (d', Suc n, Inr (token, env'))))"
| "acquire_token F parse h i env seen (Http_Error code body # rest) n d =
     (if code = 409 \<or> contains ''already exists'' (casefold body) then (d, Suc n, Inl Already_Exists)
      else if 500 \<le> code \<and> code < 600
      then acquire_token F parse h i env (Some (''HTTP '' @ show_int (int code))) rest (Suc n) d
      else (d, Suc n, Inl (Endpoint_Error code)))"
| "acquire_token F parse h i env seen (Unreachable name # rest) n d =
     acquire_token F parse h i env (Some name) rest (Suc n) d"

definition create_database :: "influx_world \<Rightarrow> string \<Rightarrow> (string \<times> string) list \<Rightarrow> bootstrap_error + string" where
  "create_database w token env = (case map_of env ''INFLUXDB_BUCKET'' of
     None \<Rightarrow> Inl No_Bucket
   | Some bucket \<Rightarrow> (let r = iw_database w token bucket in
       if fst r \<noteq> 0 \<and> \<not> contains ''already exists'' (casefold (snd r)) then Inl Database_Failed else Inr token))"

definition with_database :: "influx_world \<Rightarrow> (string \<times> (string \<times> string) list) boot \<Rightarrow> string boot" where
  "with_database w r = (case r of (d, n, Inl e) \<Rightarrow> (d, n, Inl e) | (d, n, Inr (token, env)) \<Rightarrow> (d, n, create_database w token env))"

text \<open>\<open>bootstrap_influx\<close> from the loaded environment on: the token persisted earlier or a new one.\<close>

definition token_for :: "string schedule \<Rightarrow> (string \<Rightarrow> json option) \<Rightarrow> host \<Rightarrow> string \<Rightarrow> influx_world \<Rightarrow>
    (string \<times> string) list \<Rightarrow> string disk \<Rightarrow> (string \<times> (string \<times> string) list) boot" where
  "token_for F parse h i w env d =
     (let token = env_get env TOKEN in
      if token \<noteq> [] \<and> \<not> valid_token token then (d, 0, Inl Malformed_Token)
      else if token = [] then acquire_token F parse h i env None (iw_answers w) 0 d
      else (d, 0, Inr (token, env)))"

definition bootstrap_influx :: "string schedule \<Rightarrow> (string \<Rightarrow> json option) \<Rightarrow> host \<Rightarrow> string \<Rightarrow> influx_world \<Rightarrow>
    string disk \<Rightarrow> string boot" where
  "bootstrap_influx F parse h i w d =
     (if files d (Path (env_file h i)) = None then (d, 0, Inl Env_Missing)
      else case system_call F d of
        (d1, Inl e) \<Rightarrow> (d1, 0, Inl Not_Writable)
      | (d1, Inr _) \<Rightarrow> (case environment_of h i d1 of
          Inl e \<Rightarrow> (d1, 0, Inl (Bad_Environment e))
        | Inr env \<Rightarrow>
           (case map_of env ''INFLUXDB_PORT'' of
              None \<Rightarrow> (d1, 0, Inl No_Port)
            | Some port \<Rightarrow>
               (if \<not> iw_up w then (d1, 0, Inl Not_Started)
                else case py_int (JStr port) of Inl e \<Rightarrow> (d1, 0, Inl Bad_Port)
                | Inr p \<Rightarrow>
                    (if \<not> list_ex (\<lambda>a. a = Some 200) (iw_health w) then (d1, 0, Inl Unhealthy)
                     else with_database w (token_for F parse h i w env d1))))))"

end
