(* ===== verification/Deployment_Bootstrap.thy ===== *)
theory Deployment_Bootstrap
  imports Deployment_Environment
begin

text \<open>
  What holds of the environment file and of the bootstrap of the database: the file reads back as
  it was rewritten, a persisted token is never replaced, and a bootstrap that returns has its
  token on disk.
\<close>

section \<open>A rewritten environment reads back\<close>

definition one_line :: "string \<Rightarrow> bool" where
  "one_line s = (\<forall>c \<in> set s. \<not> is_break c)"

definition clean_env :: "(string \<times> string) list \<Rightarrow> bool" where
  "clean_env env = (distinct (map fst env) \<and>
     (\<forall>(k, v) \<in> set env. CHR ''='' \<notin> set k \<and> (k = [] \<or> hd k \<noteq> CHR ''#'') \<and> one_line k \<and> one_line v))"

lemma lines_from_line: "one_line s \<Longrightarrow> lines_from False acc (s @ CHR 0x0A # t) = (rev acc @ s) # lines_from False [] t"
  by (induction s arbitrary: acc) (simp_all add: one_line_def is_break_def)

lemma splitlines_render: "clean_env env \<Longrightarrow> splitlines (render_env env) = map (\<lambda>(k, v). k @ ''='' @ v) env"
proof (induction env)
  case (Cons e env)
  obtain k v where e: "e = (k, v)" by fastforce
  have "one_line (k @ ''='' @ v)" using Cons.prems by (auto simp: e clean_env_def one_line_def is_break_def)
  from lines_from_line [OF this, of "[]" "render_env env"]
  have "splitlines (render_env (e # env)) = (k @ ''='' @ v) # splitlines (render_env env)"
    by (simp add: splitlines_def render_env_def e)
  then show ?case using Cons by (simp add: e clean_env_def)
qed (simp add: splitlines_def render_env_def)

lemma lines_from_one_line: "one_line acc \<Longrightarrow> l \<in> set (lines_from cr acc t) \<Longrightarrow> one_line l"
proof (induction t arbitrary: cr acc)
  case Nil
  then show ?case by (simp add: one_line_def split: if_splits)
next
  case (Cons c t)
  have rev: "one_line (rev acc)" "one_line []" using Cons.prems(1) by (simp_all add: one_line_def)
  consider "cr \<and> c = CHR 0x0A" | "\<not> (cr \<and> c = CHR 0x0A)" "is_break c" | "\<not> (cr \<and> c = CHR 0x0A)" "\<not> is_break c" by blast
  then show ?case
  proof cases
    case 1
    then show ?thesis using Cons by simp
  next
    case 2
    then have "l = rev acc \<or> l \<in> set (lines_from (c = CHR 0x0D) [] t)" using Cons.prems(2) by (auto split: if_splits)
    then show ?thesis using rev Cons.IH [OF rev(2)] by blast
  next
    case 3
    then have "one_line (c # acc)" "l \<in> set (lines_from False (c # acc) t)"
      using Cons.prems by (auto simp: one_line_def split: if_splits)
    then show ?thesis by (rule Cons.IH)
  qed
qed

lemma splitlines_one_line: "l \<in> set (splitlines t) \<Longrightarrow> one_line l"
  unfolding splitlines_def by (erule lines_from_one_line [rotated]) (simp add: one_line_def)

lemma env_line_assignment: "CHR ''='' \<notin> set k \<Longrightarrow> k = [] \<or> hd k \<noteq> CHR ''#'' \<Longrightarrow> env_line (k @ CHR ''='' # v) = Some (k, v)"
proof -
  assume k: "CHR ''='' \<notin> set k" "k = [] \<or> hd k \<noteq> CHR ''#''"
  have "takeWhile (\<lambda>c. c \<noteq> CHR ''='') (k @ CHR ''='' # v) = k" "dropWhile (\<lambda>c. c \<noteq> CHR ''='') (k @ CHR ''='' # v) = CHR ''='' # v"
    using k(1) by (auto simp: takeWhile_append dropWhile_append)
  then show ?thesis using k(2) by (auto simp: env_line_def hd_append)
qed

lemma update_new: "k \<notin> fst ` set m \<Longrightarrow> AList.update k v m = m @ [(k, v)]"
  by (induction m) auto

lemma read_env_lines:
  assumes "clean_env env" and "fst ` set m \<inter> fst ` set env = {}"
  shows "foldl (\<lambda>m l. case env_line l of None \<Rightarrow> m | Some (k, v) \<Rightarrow> AList.update k v m) m (map (\<lambda>(k, v). k @ ''='' @ v) env) = m @ env"
  using assms
proof (induction env arbitrary: m)
  case (Cons e env)
  obtain k v where e: "e = (k, v)" by fastforce
  have "clean_env env" and k: "env_line (k @ CHR ''='' # v) = Some (k, v)" and "k \<notin> fst ` set env" "k \<notin> fst ` set m"
    using Cons.prems env_line_assignment [of k v] by (auto simp: e clean_env_def)
  moreover have "fst ` set m \<inter> fst ` set env = {}" using Cons.prems(2) by auto
  ultimately show ?case using Cons.IH [of "m @ [(k, v)]"] by (simp add: e update_new)
qed simp

lemma read_env_render: "clean_env env \<Longrightarrow> read_env (splitlines (render_env env)) = env"
  using read_env_lines [of env "[]"] by (simp add: read_env_def splitlines_render)

lemma update_clean:
  assumes "clean_env env" and "CHR ''='' \<notin> set k" "k = [] \<or> hd k \<noteq> CHR ''#''" "one_line k" "one_line v"
  shows "clean_env (AList.update k v env)"
proof -
  have "distinct (map fst (AList.update k v env))" using assms(1) by (simp add: clean_env_def distinct_update)
  moreover have "p \<in> set (AList.update k v env) \<Longrightarrow> p = (k, v) \<or> p \<in> set env" for p
    by (induction env) (auto split: if_splits)
  ultimately show ?thesis using assms unfolding clean_env_def by blast
qed

lemma env_line_parts:
  assumes "env_line l = Some (k, v)" and "one_line l"
  shows "CHR ''='' \<notin> set k \<and> (k = [] \<or> hd k \<noteq> CHR ''#'') \<and> one_line k \<and> one_line v"
proof -
  have l: "l \<noteq> []" "hd l \<noteq> CHR ''#''" and k: "k = takeWhile (\<lambda>c. c \<noteq> CHR ''='') l" and v: "v = drop 1 (dropWhile (\<lambda>c. c \<noteq> CHR ''='') l)"
    using assms(1) by (auto simp: env_line_def split: if_splits)
  have "set k \<subseteq> set l" "set v \<subseteq> set l" unfolding k v by (auto dest: set_takeWhileD in_set_dropD set_dropWhileD)
  moreover have "k = [] \<or> hd k = hd l" using l(1) unfolding k by (cases l) auto
  moreover have "CHR ''='' \<notin> set k" unfolding k by (auto dest: set_takeWhileD)
  ultimately show ?thesis using assms(2) l(2) unfolding one_line_def by auto
qed

definition assign_line :: "(string \<times> string) list \<Rightarrow> string \<Rightarrow> (string \<times> string) list" where
  "assign_line m l = (case env_line l of None \<Rightarrow> m | Some (k, v) \<Rightarrow> AList.update k v m)"

lemma assign_line_clean: "clean_env m \<Longrightarrow> one_line l \<Longrightarrow> clean_env (assign_line m l)"
  using env_line_parts [of l] by (auto simp: assign_line_def split: option.splits intro!: update_clean)

lemma assign_lines_clean: "clean_env m \<Longrightarrow> (\<And>l. l \<in> set ls \<Longrightarrow> one_line l) \<Longrightarrow> clean_env (foldl assign_line m ls)"
  by (induction ls arbitrary: m) (simp_all add: assign_line_clean)

lemma clean_env_Nil [simp]: "clean_env []"
  by (simp add: clean_env_def)

lemma read_env_clean: "(\<And>l. l \<in> set ls \<Longrightarrow> one_line l) \<Longrightarrow> clean_env (read_env ls)"
  using assign_lines_clean [OF clean_env_Nil, of ls] by (simp add: read_env_def assign_line_def [abs_def])

lemma stored_env_clean: "clean_env (stored_env h i d)"
  unfolding stored_env_def by (cases "files d (Path (env_file h i))") (simp_all add: read_env_clean splitlines_one_line)

lemma valid_token_line: "valid_token t \<Longrightarrow> one_line t"
  by (fastforce simp: valid_token_def one_line_def is_break_def list_all_iff Let_def)

lemma environment_plain: "(\<And>k. k \<in> set DEPLOYMENT_PATH_KEYS \<Longrightarrow> map_of env k = None) \<Longrightarrow>
    fold_res (rebase_key h i) DEPLOYMENT_PATH_KEYS env = Inr env"
  by (simp add: DEPLOYMENT_PATH_KEYS_def rebase_key_def)

section \<open>The contract of the token\<close>

lemma env_get_update: "env_get (AList.update k v env) k = v"
  by (simp add: env_get_def update_conv')

lemma system_call_disk [simp]: "files (fst (system_call F d)) = files d" "ticks (fst (system_call F d)) = Suc (ticks d)"
    "clean_disk (fst (system_call F d)) = clean_disk d"
  by (simp_all add: system_call_def clean_disk_def)

lemma environment_of_files: "files d' = files d \<Longrightarrow> environment_of h i d' = environment_of h i d"
  by (simp add: environment_of_def stored_env_def)

text \<open>Writing the environment changes nothing but its file, and that entirely or not at all.\<close>

lemma write_env_files:
  assumes "clean_disk d" and "write_env F h i env d = (d', r)"
  shows "clean_disk d'" and "files d' = files d \<or> files d' = (files d)(Path (env_file h i) \<mapsto> render_env env)"
    and "r = Inr () \<Longrightarrow> files d' = (files d)(Path (env_file h i) \<mapsto> render_env env)"
proof -
  obtain d1 r1 where w: "atomic_write F (env_file h i) (render_env env) d = (d1, r1)" by fastforce
  have d1: "clean_disk d1" "files d1 = (if r1 = Inr () then (files d)(Path (env_file h i) \<mapsto> render_env env) else files d)"
    using w assms(1) atomic_write_clean [OF assms(1), of F "env_file h i" "render_env env"]
    by (auto simp: atomic_write_cases split: if_splits)
  have "d' = (case r1 of Inl e \<Rightarrow> d1 | Inr u \<Rightarrow> fst (system_call F d1))" "r = Inr () \<longrightarrow> r1 = Inr ()"
    using assms(2) w by (cases r1; force simp: write_env_def)+
  then show "clean_disk d'" "files d' = files d \<or> files d' = (files d)(Path (env_file h i) \<mapsto> render_env env)"
    "r = Inr () \<Longrightarrow> files d' = (files d)(Path (env_file h i) \<mapsto> render_env env)"
    using d1 by (auto split: sum.splits)
qed

text \<open>What an attempt to persist leaves behind.\<close>

definition token_state :: "host \<Rightarrow> string \<Rightarrow> (string \<times> string) list \<Rightarrow> string disk \<Rightarrow> string disk \<Rightarrow> bool" where
  "token_state h i env d d' = (clean_disk d' \<and> (files d' = files d \<or>
     (\<exists>token. valid_token token \<and> files d' = (files d)(Path (env_file h i) \<mapsto> render_env (AList.update TOKEN token env)))))"

definition token_stored :: "host \<Rightarrow> string \<Rightarrow> string disk \<Rightarrow> string \<Rightarrow> bool" where
  "token_stored h i d token = (valid_token token \<and> (\<exists>stored. environment_of h i d = Inr stored \<and> env_get stored TOKEN = token))"

lemma persist_contract:
  assumes "clean_disk d" and "persist_admin_token F h i env token d = (d', r)"
  shows "token_state h i env d d'" and "r = Inr env' \<Longrightarrow> token_stored h i d' token"
proof -
  obtain d1 r1 where w: "write_env F h i (AList.update TOKEN token env) d = (d1, r1)" by fastforce
  note parts = write_env_files [OF assms(1) w]
  have same: "d' = d \<or> valid_token token \<and> d' = d1"
    using assms(2) w by (auto simp: persist_admin_token_def Let_def split: sum.splits if_splits)
  show "token_state h i env d d'"
    using same parts(1,2) assms(1) unfolding token_state_def by blast
  show "token_stored h i d' token" if r: "r = Inr env'"
  proof -
    have v: "valid_token token" using assms(2) r by (auto simp: persist_admin_token_def split: if_splits)
    have "and_then (environment_of h i d1) (\<lambda>stored. if env_get stored TOKEN \<noteq> token
        then Inl (ValueError ''persisted-token verification failed; the token may now require recovery'')
        else Inr (AList.update TOKEN token env)) = Inr env'" and "d' = d1"
      using assms(2) r v w by (auto simp: persist_admin_token_def Let_def split: sum.splits)
    then show ?thesis using v by (auto simp: token_stored_def and_then_eq_Inr split: if_splits)
  qed
qed

lemma acquire_contract:
  "acquire_token F parse h i env seen answers n d = (d', m, r) \<Longrightarrow> clean_disk d \<Longrightarrow>
   token_state h i env d d' \<and> (\<forall>token env'. r = Inr (token, env') \<longrightarrow> token_stored h i d' token)"
proof (induction F parse h i env seen answers n d rule: acquire_token.induct)
  case (1 F parse h i env seen n d)
  then show ?case by (auto simp: token_state_def)
next
  case (2 F parse h i env seen status body rest n d)
  show ?case
  proof (cases "200 \<le> status \<and> status < 300")
    case True
    show ?thesis
    proof (cases "parse_admin_token parse body")
      case (Inl e)
      then show ?thesis using 2 True by (auto simp: token_state_def)
    next
      case (Inr p)
      obtain token kind where p: "p = (token, kind)" by fastforce
      obtain d1 r1 where w: "persist_admin_token F h i env token d = (d1, r1)" by fastforce
      have "d' = d1" "\<forall>t e. r = Inr (t, e) \<longrightarrow> t = token \<and> r1 = Inr e"
        using 2(1) True Inr p w by (auto split: sum.splits)
      then show ?thesis using persist_contract [OF 2(2) w] by blast
    qed
  next
    case False
    then show ?thesis using 2 by (auto simp: token_state_def)
  qed
next
  case (3 F parse h i env seen code body rest n d)
  show ?case
  proof (cases "code = 409 \<or> contains ''already exists'' (casefold body)")
    case True
    then show ?thesis using 3(2,3) by (auto simp: token_state_def)
  next
    case False
    show ?thesis
    proof (cases "500 \<le> code \<and> code < 600")
      case True
      have "acquire_token F parse h i env (Some (''HTTP '' @ show_int (int code))) rest (Suc n) d = (d', m, r)"
        using 3(2) True False by simp
      from 3(1) [OF False True this 3(3)] show ?thesis .
    next
      case other: False
      then show ?thesis using 3(2,3) False by (auto simp: token_state_def)
    qed
  qed
next
  case (4 F parse h i env seen name rest n d)
  then show ?case by simp
qed

lemma token_for_contract:
  assumes "token_for F parse h i w env d = (d', n, r)" and "clean_disk d" and env: "environment_of h i d = Inr env"
  shows "token_state h i env d d'" and "env_get env TOKEN \<noteq> [] \<Longrightarrow> files d' = files d \<and> n = 0"
    and "r = Inr (token, env') \<Longrightarrow> token_stored h i d' token"
proof -
  let ?t = "env_get env TOKEN"
  consider (bad) "?t \<noteq> []" "\<not> valid_token ?t" "d' = d" "n = 0" "r = Inl Malformed_Token"
    | (none) "?t = []" "acquire_token F parse h i env None (iw_answers w) 0 d = (d', n, r)"
    | (old) "?t \<noteq> []" "valid_token ?t" "d' = d" "n = 0" "r = Inr (?t, env)"
    using assms(1) by (auto simp: token_for_def Let_def split: if_splits)
  then show "token_state h i env d d'" "?t \<noteq> [] \<Longrightarrow> files d' = files d \<and> n = 0"
    "r = Inr (token, env') \<Longrightarrow> token_stored h i d' token"
    by (cases; use acquire_contract assms(2) env in \<open>auto simp: token_state_def token_stored_def\<close>)+
qed

lemma bootstrap_stages:
  assumes "bootstrap_influx F parse h i w d = (d', n, r)" and "files d (Path (env_file h i)) \<noteq> None" "system_call F d = (d1, Inr ())"
  shows "d' = d1 \<and> n = 0 \<and> (\<exists>e. r = Inl e) \<or>
    (\<exists>env. environment_of h i d1 = Inr env \<and> (d', n, r) = with_database w (token_for F parse h i w env d1))"
proof (cases "environment_of h i d1")
  case (Inr env)
  show ?thesis
  proof (cases "map_of env ''INFLUXDB_PORT''")
    case (Some port)
    show ?thesis
    proof (cases "py_int (JStr port)")
      case (Inr p)
      show ?thesis using assms Some Inr \<open>environment_of h i d1 = Inr env\<close>
        by (cases "iw_up w"; cases "list_ex (\<lambda>a. a = Some 200) (iw_health w)") (auto simp: bootstrap_influx_def simp del: py_int.simps)
    qed (use assms Some Inr in \<open>auto simp: bootstrap_influx_def split: if_splits simp del: py_int.simps\<close>)
  qed (use assms Inr in \<open>auto simp: bootstrap_influx_def\<close>)
qed (use assms in \<open>auto simp: bootstrap_influx_def\<close>)

text \<open>
  C36. A bootstrap of the database changes nothing on disk but the environment file of its
  deployment, and that, whatever fails, only by setting a valid token where none was; when one is
  persisted nothing is written and no token is requested. A bootstrap that returns used a valid
  token which the environment on disk now holds.
\<close>

theorem bootstrap_never_loses_the_token:
  assumes run: "bootstrap_influx F parse h i w d = (d', n, r)" and clean: "clean_disk d"
  shows "(files d' = files d \<or> (\<exists>env token. environment_of h i d = Inr env \<and> env_get env TOKEN = [] \<and> valid_token token \<and>
        files d' = (files d)(Path (env_file h i) \<mapsto> render_env (AList.update TOKEN token env)))) \<and>
     (\<forall>env. environment_of h i d = Inr env \<and> env_get env TOKEN \<noteq> [] \<longrightarrow> files d' = files d \<and> n = 0) \<and>
     (\<forall>token. r = Inr token \<longrightarrow> valid_token token \<and>
        (\<exists>stored. environment_of h i d' = Inr stored \<and> env_get stored TOKEN = token))"
proof -
  let ?d1 = "fst (system_call F d)"
  have env1: "environment_of h i ?d1 = environment_of h i d" by (rule environment_of_files) simp
  consider (early) "files d' = files d" "n = 0" "\<exists>e. r = Inl e"
    | (late) env r2 where "environment_of h i d = Inr env" "token_for F parse h i w env ?d1 = (d', n, r2)"
        "(d', n, r) = with_database w (d', n, r2)"
  proof (cases "files d (Path (env_file h i)) = None \<or> F (ticks d) \<noteq> No_Fault")
    case True
    then have "files d' = files d" "n = 0" "\<exists>e. r = Inl e"
      using run by (auto simp: bootstrap_influx_def system_call_def split: if_splits)
    then show thesis by (rule early)
  next
    case False
    obtain d1 where d1: "system_call F d = (d1, Inr ())" "d1 = ?d1" using False by (simp add: system_call_def)
    show thesis
    proof (cases "\<exists>env. environment_of h i d = Inr env \<and> (d', n, r) = with_database w (token_for F parse h i w env d1)")
      case True
      then obtain env where env: "environment_of h i d = Inr env" "(d', n, r) = with_database w (token_for F parse h i w env d1)" by blast
      obtain r2 where "token_for F parse h i w env ?d1 = (d', n, r2)"
        using env(2) d1(2) by (cases "token_for F parse h i w env d1") (auto simp: with_database_def split: sum.splits)
      then show thesis using late env d1(2) by metis
    next
      case no: False
      have "d' = d1 \<and> n = 0 \<and> (\<exists>e. r = Inl e)"
        using bootstrap_stages [OF run] False no d1 env1 by force
      then show thesis using early d1(2) by simp
    qed
  qed
  then show ?thesis
  proof cases
    case early
    then show ?thesis by auto
  next
    case (late env r2)
    have clean1: "clean_disk ?d1" "environment_of h i ?d1 = Inr env" using clean env1 late(1) by simp_all
    note contract = token_for_contract [OF late(2) clean1]
    have "files d' = files d \<or> env_get env TOKEN = [] \<and> (\<exists>token. valid_token token \<and>
        files d' = (files d)(Path (env_file h i) \<mapsto> render_env (AList.update TOKEN token env)))"
      using contract(1,2) by (auto simp: token_state_def)
    moreover have "token_stored h i d' token" if ok: "r = Inr token" for token
    proof -
      obtain env' where "r2 = Inr (token, env')" using late(3) ok
        by (cases r2) (auto simp: with_database_def create_database_def Let_def split: option.splits if_splits)
      then show ?thesis by (rule contract(3))
    qed
    moreover have "env_get env TOKEN \<noteq> [] \<longrightarrow> files d' = files d \<and> n = 0" using contract(2) by auto
    ultimately show ?thesis using late(1) unfolding token_stored_def by auto
  qed
qed

definition sample_host :: host where
  "sample_host = \<lparr>ho_root = ''/srv'', ho_load = (\<lambda>t. None), ho_resolve = (\<lambda>p. p), ho_windows_parts = (\<lambda>p. [p])\<rparr>"

definition sample_token :: string where
  "sample_token = ''apiv3_0123456789abcdef''"

definition sample_text :: string where
  "sample_text = render_env [(''INFLUXDB_PORT'', ''8181''), (''INFLUXDB_BUCKET'', ''itp'')]"

definition sample_deployment_disk :: "string disk" where
  "sample_deployment_disk = \<lparr>files = [Path (env_file sample_host ''a'') \<mapsto> sample_text], ticks = 0\<rparr>"

definition sample_world :: influx_world where
  "sample_world = \<lparr>iw_up = True, iw_health = [None, Some 200], iw_answers = [Http_Error 503 [], Reply 201 (Some sample_token)],
     iw_database = (\<lambda>t b. (0, []))\<rparr>"

abbreviation sample_bootstrap :: "string boot" where
  "sample_bootstrap \<equiv> bootstrap_influx (\<lambda>n. No_Fault) (\<lambda>t. None) sample_host ''a'' sample_world sample_deployment_disk"

lemma sample_disk_clean: "clean_disk sample_deployment_disk"
  by (simp add: clean_disk_def sample_deployment_disk_def)

theorem bootstrap_never_loses_the_token_witness:
  "snd (snd sample_bootstrap) = Inr sample_token \<and> fst (snd sample_bootstrap) = 2 \<and>
   (\<exists>stored. environment_of sample_host ''a'' (fst sample_bootstrap) = Inr stored \<and> env_get stored TOKEN = sample_token)"
proof -
  have r: "snd (snd sample_bootstrap) = Inr sample_token" "fst (snd sample_bootstrap) = 2" by code_simp+
  have "sample_bootstrap = (fst sample_bootstrap, fst (snd sample_bootstrap), snd (snd sample_bootstrap))" by simp
  from bootstrap_never_loses_the_token [OF this sample_disk_clean] show ?thesis using r by blast
qed



end
