(* ===== verification/Deployment_Lifecycle.thy ===== *)
theory Deployment_Lifecycle
  imports Deployment_Environment
begin

text \<open>
  \<open>analysis/runtime_deployment.py\<close>, the lifecycle of deployments: the inventory of what each one
  owns, its reset and removal, the cleanup of orphans, and the active deployment. A machine holds
  the disk, the names of the deployment directories and the resources Docker lists, each with its
  project label and its row; an operation yields the commands it sends to Docker, in order. A
  removal of a directory is taken to be complete.
\<close>

section \<open>The machine\<close>

datatype docker_command = Compose string "string list" | Container_Rm string | Network_Rm string | Volume_Rm string

record machine =
  ma_disk :: "string disk"
  ma_dirs :: "string list"
  ma_containers :: "(string \<times> dict) list"
  ma_networks :: "(string \<times> dict) list"
  ma_volumes :: "(string \<times> dict) list"

definition deployment_file :: "host \<Rightarrow> string \<Rightarrow> string \<Rightarrow> string" where
  "deployment_file h i name = deployment_path h i @ ''/'' @ name"

definition active_file :: "host \<Rightarrow> string" where
  "active_file h = ho_root h @ ''/runtime/shared/active-deployment''"

definition disk_text :: "machine \<Rightarrow> string \<Rightarrow> string option" where
  "disk_text m p = files (ma_disk m) (Path p)"

definition is_file :: "machine \<Rightarrow> string \<Rightarrow> bool" where
  "is_file m p = (disk_text m p \<noteq> None)"

definition remove_tree :: "string \<Rightarrow> string disk \<Rightarrow> string disk" where
  "remove_tree dir d = d\<lparr>files := (\<lambda>p. case p of Path q \<Rightarrow> (if starts_with (dir @ ''/'') q then None else files d p) | Temp n \<Rightarrow> files d p)\<rparr>"

section \<open>Inventory\<close>

definition docker_rows :: "(string \<times> dict) list \<Rightarrow> string \<Rightarrow> dict list" where
  "docker_rows rows i = map snd (filter (\<lambda>(l, r). l = ''itp-'' @ i) rows)"

definition project_ids :: "(string \<times> dict) list \<Rightarrow> string list" where
  "project_ids rows = map (drop 4) (filter (\<lambda>l. starts_with ''itp-'' l \<and> 4 < length l) (map fst rows))"

record inventory_entry =
  ie_id :: string
  ie_site :: json
  ie_status :: string
  ie_configured :: bool
  ie_generated :: bool
  ie_containers :: "string list"
  ie_networks :: "string list"
  ie_volumes :: "string list"
  ie_display_name :: json

text \<open>\<open>RuntimeDeployment.load\<close>.\<close>

definition load_manifest :: "host \<Rightarrow> machine \<Rightarrow> string \<Rightarrow> dict res" where
  "load_manifest h m i = (case disk_text m (deployment_file h i ''deployment.yml'') of
     None \<Rightarrow> Inl (ValueError ''unable to load deployment'')
   | Some t \<Rightarrow> (case ho_load h t of None \<Rightarrow> Inl (ValueError ''unable to load deployment'')
       | Some (JObj d) \<Rightarrow> Inr d | Some v \<Rightarrow> Inl (ValueError ''deployment manifest must be a mapping'')))"

definition site_id_of :: "host \<Rightarrow> machine \<Rightarrow> string \<Rightarrow> json res" where
  "site_id_of h m i = (case disk_text m (deployment_file h i ''collectors.yml'') of None \<Rightarrow> Inr JNull
     | Some t \<Rightarrow> (case ho_load h t of None \<Rightarrow> Inr JNull
         | Some v \<Rightarrow> (if \<not> truthy v then Inr JNull else if is_obj v
             then Inr (por (dget (as_dict v) ''site_id'') (dget (as_dict v) ''site'')) else Inl (AttributeError ''get''))))"

definition container_name :: "dict \<Rightarrow> string" where
  "container_name row = py_str (por (dget row ''Names'') (por (dget row ''Name'') (JStr [])))"

definition resource_name :: "dict \<Rightarrow> string" where
  "resource_name row = py_str (por (dget row ''Name'') (JStr []))"

definition inventory_of :: "host \<Rightarrow> machine \<Rightarrow> string \<Rightarrow> inventory_entry res" where
  "inventory_of h m i =
     (let containers = docker_rows (ma_containers m) i; networks = docker_rows (ma_networks m) i; volumes = docker_rows (ma_volumes m) i;
          configured = is_file m (deployment_file h i ''deployment.yml''); generated = is_file m (env_file h i);
          status = runtime_state configured generated containers (networks \<noteq> [] \<or> volumes \<noteq> []);
          manifest = (if configured then load_manifest h m i else Inr []) in
      map_sum id (\<lambda>site. \<lparr>ie_id = i, ie_site = site,
          ie_status = (case manifest of Inl e \<Rightarrow> ''partial'' | Inr d \<Rightarrow> status), ie_configured = configured, ie_generated = generated,
          ie_containers = sort (map container_name containers), ie_networks = sort (map resource_name networks),
          ie_volumes = sort (map resource_name volumes),
          ie_display_name = (case manifest of Inl e \<Rightarrow> JStr i | Inr d \<Rightarrow> dget_or d ''display_name'' (JStr i))\<rparr>)
        (site_id_of h m i))"

definition inventory_ids :: "machine \<Rightarrow> string \<Rightarrow> string list res" where
  "inventory_ids m requested =
     (let labelled = project_ids (ma_containers m) @ project_ids (ma_networks m) @ project_ids (ma_volumes m) in
      if requested = [] then Inr (usort (ma_dirs m @ labelled)) else map_sum id (\<lambda>i. usort (i # labelled)) (slugify requested))"

definition deployment_inventory :: "host \<Rightarrow> machine \<Rightarrow> string \<Rightarrow> inventory_entry list res" where
  "deployment_inventory h m requested = and_then (inventory_ids m requested) (map_res (inventory_of h m))"

definition deployment_inventory_entry :: "host \<Rightarrow> machine \<Rightarrow> string \<Rightarrow> inventory_entry res" where
  "deployment_inventory_entry h m requested =
     and_then (slugify requested) (\<lambda>i. and_then (deployment_inventory h m i) (\<lambda>entries.
       case filter (\<lambda>e. ie_id e = i) entries of
         [e] \<Rightarrow> (if ie_status e = ''missing'' then Inl (ValueError ''deployment inventory is unavailable'') else Inr e)
       | _ \<Rightarrow> Inl (ValueError ''deployment inventory is unavailable'')))"

definition recovery_plan :: "host \<Rightarrow> machine \<Rightarrow> string \<Rightarrow> recovery_action list res" where
  "recovery_plan h m i = map_sum id (\<lambda>e. recovery_actions i (ie_status e)) (deployment_inventory_entry h m i)"

section \<open>Reset, removal and cleanup\<close>

definition remove_exact_resources :: "inventory_entry \<Rightarrow> docker_command list" where
  "remove_exact_resources e = map Container_Rm (filter (\<lambda>c. c \<noteq> []) (ie_containers e)) @
     map Network_Rm (filter (\<lambda>n. n \<noteq> []) (ie_networks e))"

definition managed :: "host \<Rightarrow> machine \<Rightarrow> string \<Rightarrow> bool" where
  "managed h m i = (is_file m (env_file h i) \<and> is_file m (deployment_file h i ''generated/compose.override.yml''))"

text \<open>The answer of an operation: the machine, the commands sent and the result.\<close>

type_synonym 'a outcome = "machine \<times> docker_command list \<times> 'a res"

datatype reset_result = Already_Absent | Was_Reset bool inventory_entry

definition influx_volume :: "string \<Rightarrow> string" where
  "influx_volume i = ''itp-'' @ i @ ''_influxdb_data''"

text \<open>The end of a reset: generated files and state directories go, the directories are made anew.\<close>

definition clear_generated :: "host \<Rightarrow> string \<Rightarrow> string disk \<Rightarrow> string disk" where
  "clear_generated h i d = fold remove_tree
     (map (deployment_file h i) [''generated/dashboard'', ''generated/telegraf'', ''state'', ''evidence'', ''logs'']) d"

definition forget_token :: "string schedule \<Rightarrow> host \<Rightarrow> string \<Rightarrow> string disk \<Rightarrow> string disk \<times> unit res" where
  "forget_token F h i d = (case environment_of h i d of
     Inl e \<Rightarrow> (d, Inl e) | Inr env \<Rightarrow> write_env F h i (AList.update TOKEN [] env) d)"

definition reset_deployment :: "string schedule \<Rightarrow> host \<Rightarrow> bool \<Rightarrow> bool \<Rightarrow> string \<Rightarrow> string \<Rightarrow> machine \<Rightarrow> reset_result outcome" where
  "reset_deployment F h reset_influx yes typed requested m =
     (case slugify requested of
        Inl e \<Rightarrow> (m, [], Inl e)
      | Inr i \<Rightarrow>
         (if i \<notin> set (ma_dirs m) then (m, [], Inr Already_Absent)
          else case deployment_inventory h m i of
            Inl e \<Rightarrow> (m, [], Inl e)
          | Inr entries \<Rightarrow>
             (let preview = hd entries; expected = (if reset_influx then ''RESET DATA '' @ i else ''RESET '' @ i) in
              if \<not> yes \<and> strip typed \<noteq> expected then (m, [], Inl (ValueError ''deployment reset was not confirmed''))
              else (let down = (if managed h m i then [Compose i [''down'', ''--remove-orphans'']] else remove_exact_resources preview);
                        sent = down @ (if reset_influx then [Volume_Rm (influx_volume i)] else []);
                        written = (if reset_influx then forget_token F h i (ma_disk m) else (ma_disk m, Inr ())) in
                case written of
                  (d, Inl e) \<Rightarrow> (m\<lparr>ma_disk := d\<rparr>, sent, Inl e)
                | (d, Inr _) \<Rightarrow> (m\<lparr>ma_disk := clear_generated h i d\<rparr>, sent, Inr (Was_Reset (\<not> reset_influx) preview))))))"

definition forget_active :: "host \<Rightarrow> string \<Rightarrow> string disk \<Rightarrow> string disk" where
  "forget_active h i d = (case files d (Path (active_file h)) of
     None \<Rightarrow> d | Some t \<Rightarrow> (if strip t = i then d\<lparr>files := (files d)(Path (active_file h) := None)\<rparr> else d))"

definition remove_deployment :: "host \<Rightarrow> bool \<Rightarrow> bool \<Rightarrow> string \<Rightarrow> string \<Rightarrow> machine \<Rightarrow> inventory_entry outcome" where
  "remove_deployment h remove_telemetry yes typed requested m =
     (case and_then (slugify requested) (\<lambda>i. map_sum id (Pair i) (deployment_inventory h m i)) of
        Inl e \<Rightarrow> (m, [], Inl e)
      | Inr (i, entries) \<Rightarrow>
         (let preview = hd entries; expected = (if remove_telemetry then ''REMOVE DATA '' @ i else ''REMOVE '' @ i) in
          if \<not> yes \<and> strip typed \<noteq> expected then (m, [], Inl (ValueError ''deployment removal was not confirmed''))
          else (let sent = (if managed h m i then [Compose i ([''down'', ''--remove-orphans''] @ (if remove_telemetry then [''--volumes''] else []))]
                    else remove_exact_resources preview @
                      (if remove_telemetry then map Volume_Rm (filter (\<lambda>v. v \<noteq> []) (ie_volumes preview)) else [])) in
            (m\<lparr>ma_disk := forget_active h i (remove_tree (deployment_path h i) (ma_disk m)), ma_dirs := filter (\<lambda>n. n \<noteq> i) (ma_dirs m)\<rparr>,
             sent, Inr preview))))"

record cleanup_result =
  cu_dry_run :: bool
  cu_candidates :: "inventory_entry list"
  cu_removed :: "inventory_entry list"

definition cleanup_deployments :: "host \<Rightarrow> bool \<Rightarrow> string \<Rightarrow> machine \<Rightarrow> docker_command list \<times> cleanup_result res" where
  "cleanup_deployments h yes requested m =
     (case deployment_inventory h m requested of
        Inl e \<Rightarrow> ([], Inl e)
      | Inr entries \<Rightarrow>
         (let candidates = filter (\<lambda>e. ie_status e = ''orphaned'') entries in
          if \<not> yes then ([], Inr \<lparr>cu_dry_run = True, cu_candidates = candidates, cu_removed = []\<rparr>)
          else (concat (map remove_exact_resources candidates),
                Inr \<lparr>cu_dry_run = False, cu_candidates = candidates, cu_removed = candidates\<rparr>)))"

text \<open>\<open>reset_influx\<close>: the answer of the volume's removal is its return code and its output.\<close>

definition reset_influx :: "string schedule \<Rightarrow> host \<Rightarrow> bool \<Rightarrow> string \<Rightarrow> string \<Rightarrow> int \<times> string \<Rightarrow> string \<Rightarrow> machine \<Rightarrow> unit outcome" where
  "reset_influx F h non_interactive confirmation typed removal i m =
     (if non_interactive then (m, [], Inl (ValueError ''InfluxDB reset is unavailable in non-interactive mode''))
      else if sor confirmation (strip typed) \<noteq> ''RESET '' @ i
      then (m, [], Inl (ValueError ''InfluxDB reset was not confirmed; no volume was deleted''))
      else (let sent = [Compose i [''stop'', ''influxdb3-core''], Compose i [''rm'', ''-f'', ''-s'', ''influxdb3-core''], Volume_Rm (influx_volume i)] in
        if fst removal \<noteq> 0 \<and> \<not> contains ''no such volume'' (casefold (snd removal))
        then (m, sent, Inl (ValueError ''unable to remove disposable InfluxDB volume''))
        else (case forget_token F h i (ma_disk m) of (d, r) \<Rightarrow> (m\<lparr>ma_disk := d\<rparr>, sent, r))))"

section \<open>The active deployment\<close>

text \<open>\<open>list\<close>: the deployments with a readable manifest, sorted.\<close>

definition list_deployments :: "host \<Rightarrow> machine \<Rightarrow> string list res" where
  "list_deployments h m =
     map_sum id concat (map_res (\<lambda>i. case disk_text m (deployment_file h i ''deployment.yml'') of
        None \<Rightarrow> Inr []
      | Some t \<Rightarrow> (case ho_load h t of None \<Rightarrow> Inr []
          | Some v \<Rightarrow> if truthy v \<and> \<not> is_obj v then Inl (AttributeError ''get'') else Inr [i])) (usort (ma_dirs m)))"

definition active_id :: "host \<Rightarrow> machine \<Rightarrow> string res" where
  "active_id h m = (case disk_text m (active_file h) of
     Some t \<Rightarrow> Inr (strip t)
   | None \<Rightarrow> map_sum id (\<lambda>ids. case ids of [i] \<Rightarrow> i | _ \<Rightarrow> []) (list_deployments h m))"

definition select_deployment :: "host \<Rightarrow> machine \<Rightarrow> string \<Rightarrow> string res" where
  "select_deployment h m requested =
     and_then (if requested \<noteq> [] then Inr requested else active_id h m) (\<lambda>selected.
       if selected = []
       then and_then (list_deployments h m) (\<lambda>ids. Inl (ValueError (if 1 < length ids
          then ''multiple deployments exist and no active deployment is selected'' else ''no deployment selected'')))
       else and_then (slugify selected) (\<lambda>i.
         if is_file m (deployment_file h i ''deployment.yml'') then Inr i else Inl (ValueError ''deployment does not exist'')))"

definition activate_deployment :: "string schedule \<Rightarrow> host \<Rightarrow> string \<Rightarrow> machine \<Rightarrow> machine \<times> string res" where
  "activate_deployment F h requested m =
     (case select_deployment h m requested of
        Inl e \<Rightarrow> (m, Inl e)
      | Inr i \<Rightarrow> (case atomic_write F (active_file h) (i @ [CHR 0x0A]) (ma_disk m) of
          (d, r) \<Rightarrow> (m\<lparr>ma_disk := d\<rparr>, map_sum id (\<lambda>u. i) r)))"

end
