(* ===== verification/Deployment_Properties.thy ===== *)
theory Deployment_Properties
  imports Deployment_Lifecycle
begin

text \<open>
  What holds of the lifecycle of deployments: telemetry is removed only on a confirmed request for
  it, and the deployment that was activated is the one selected next. The last section shows, on a
  small machine, that a removal can act on the resources of another deployment.
\<close>

section \<open>Names are stable\<close>

lemma dashed_idem: "dashed g (dashed g s) = dashed g s"
proof (induction s arbitrary: g)
  case (Cons c s)
  have "\<not> label_char (CHR ''-'')" by (simp add: label_char_def Let_def)
  then show ?case using Cons [of True] Cons [of False] by simp
qed simp

lemma dashed_length: "length (dashed g s) \<le> length s"
  by (induction g s rule: dashed.induct) (auto intro: le_SucI)

lemma dashed_Cons_fixed: "dashed g (c # s) = c # s \<longleftrightarrow>
    (if label_char c then dashed False s = s else \<not> g \<and> c = CHR ''-'' \<and> dashed True s = s)"
  using dashed_length [of True s] by auto

lemma dashed_prefix: "dashed g (s @ t) = s @ t \<Longrightarrow> dashed g s = s"
  by (induction s arbitrary: g) (simp_all del: dashed.simps(2) add: dashed_Cons_fixed split: if_splits)

lemma dashed_suffix: "dashed g (s @ t) = s @ t \<Longrightarrow> t = [] \<or> label_char (hd t) \<Longrightarrow> dashed False t = t"
proof (induction s arbitrary: g)
  case Nil
  then show ?case by (cases t) (simp_all del: dashed.simps(2) add: dashed_Cons_fixed split: if_splits)
next
  case (Cons c s)
  then show ?case by (auto simp del: dashed.simps(2) simp: dashed_Cons_fixed split: if_splits)
qed

lemma lower_name: "label_char c \<or> c = CHR ''-'' \<Longrightarrow> lower_char c = c"
  by (auto simp: label_char_def lower_char_def Let_def)

lemma strip_char_id:
  assumes "s \<noteq> []" "hd s \<noteq> c" "last s \<noteq> c"
  shows "strip_char c s = s"
proof -
  have "dropWhile (\<lambda>x. x = c) s = s" using assms(1,2) by (cases s) simp_all
  moreover have "dropWhile (\<lambda>x. x = c) (rev s) = rev s" using assms(1,3) by (cases "rev s") (auto simp: last_rev hd_rev [symmetric] rev_swap)
  ultimately show ?thesis by (simp add: strip_char_def)
qed

lemma strip_char_parts: "\<exists>xs ys. s = xs @ strip_char c s @ ys"
proof -
  let ?m = "dropWhile (\<lambda>x. x = c) s"
  have "s = takeWhile (\<lambda>x. x = c) s @ ?m" by simp
  moreover have "?m = strip_char c s @ rev (takeWhile (\<lambda>x. x = c) (rev ?m))"
    unfolding strip_char_def by (metis rev_append rev_rev_ident takeWhile_dropWhile_id)
  ultimately show ?thesis by metis
qed

lemma slug_stable:
  assumes "slugify s = Inr i" and "last i \<noteq> CHR ''-''"
  shows "slugify i = Inr i"
proof -
  let ?d = "dashed False (casefold s)" and ?t = "strip_char (CHR ''-'') (dashed False (casefold s))"
  have t: "?t \<noteq> []" "i = take 63 ?t" using assms(1) by (auto simp: slugify_def Let_def split: if_splits)
  note safe = slug_safe [OF assms(1)]
  have hd: "hd ?t = hd i" using t by (simp add: hd_take)
  obtain xs ys where parts: "?d = xs @ ?t @ ys" using strip_char_parts by metis
  have "dashed False (xs @ (?t @ ys)) = xs @ (?t @ ys)" using dashed_idem [of False "casefold s"] unfolding parts [symmetric] .
  then have "dashed False (?t @ ys) = ?t @ ys" by (rule dashed_suffix) (use t(1) hd safe in simp)
  then have "dashed False (i @ (drop 63 ?t @ ys)) = i @ (drop 63 ?t @ ys)" using t(2) by (metis append_assoc append_take_drop_id)
  then have "dashed False i = i" by (rule dashed_prefix)
  moreover have "casefold i = i" unfolding lower_def using safe by (simp add: lower_name map_idI)
  moreover have "strip_char (CHR ''-'') i = i" by (rule strip_char_id) (use safe assms(2) in \<open>auto simp: label_char_def\<close>)
  ultimately show ?thesis using safe by (simp add: slugify_def)
qed

lemma strip_line:
  assumes "s \<noteq> []" and "\<forall>c \<in> set s. \<not> is_space c"
  shows "strip (s @ [CHR 0x0A]) = s"
proof -
  have "dropWhile is_space (s @ [CHR 0x0A]) = s @ [CHR 0x0A]" using assms by (cases s) simp_all
  moreover have "dropWhile is_space (rev s) = rev s" using assms by (cases "rev s") (auto simp: rev_swap)
  ultimately show ?thesis by (simp add: strip_def is_space_def)
qed

lemma name_not_space: "label_char c \<or> c = CHR ''-'' \<Longrightarrow> \<not> is_space c"
  by (auto simp: label_char_def is_space_def Let_def)

section \<open>Telemetry\<close>

fun removes_volume :: "docker_command \<Rightarrow> bool" where
  "removes_volume (Compose i args) = (''--volumes'' \<in> set args)"
| "removes_volume (Volume_Rm v) = True"
| "removes_volume _ = False"

lemma remove_exact_keeps_volumes: "c \<in> set (remove_exact_resources e) \<Longrightarrow> \<not> removes_volume c"
  by (auto simp: remove_exact_resources_def)

definition confirmed :: "bool \<Rightarrow> string \<Rightarrow> string \<Rightarrow> string \<Rightarrow> bool" where
  "confirmed yes typed verb requested = (yes \<or> (\<exists>i. slugify requested = Inr i \<and> strip typed = verb @ i))"

lemma reset_commands:
  assumes "c \<in> set (fst (snd (reset_deployment F h reset_data yes typed requested m)))"
  shows "(yes \<or> (\<exists>i. slugify requested = Inr i \<and> strip typed = (if reset_data then ''RESET DATA '' @ i else ''RESET '' @ i))) \<and>
    (removes_volume c \<longrightarrow> reset_data)"
proof (cases "slugify requested")
  case (Inr i)
  show ?thesis
  proof (cases "deployment_inventory h m i")
    case entries: (Inr entries)
    show ?thesis using assms Inr entries remove_exact_keeps_volumes
      by (auto simp: reset_deployment_def Let_def split: if_splits sum.splits prod.splits)
  qed (use assms Inr in \<open>auto simp: reset_deployment_def split: if_splits\<close>)
qed (use assms in \<open>auto simp: reset_deployment_def\<close>)

lemma remove_commands:
  assumes "c \<in> set (fst (snd (remove_deployment h remove_data yes typed requested m)))"
  shows "(yes \<or> (\<exists>i. slugify requested = Inr i \<and> strip typed = (if remove_data then ''REMOVE DATA '' @ i else ''REMOVE '' @ i))) \<and>
    (removes_volume c \<longrightarrow> remove_data)"
proof (cases "slugify requested")
  case (Inr i)
  show ?thesis
  proof (cases "deployment_inventory h m i")
    case entries: (Inr entries)
    show ?thesis using assms Inr entries remove_exact_keeps_volumes
      by (auto simp: remove_deployment_def Let_def split: if_splits)
  qed (use assms Inr in \<open>auto simp: remove_deployment_def split: if_splits\<close>)
qed (use assms in \<open>auto simp: remove_deployment_def\<close>)

lemma cleanup_commands:
  "c \<in> set (fst (cleanup_deployments h yes requested m)) \<Longrightarrow> yes \<and> \<not> removes_volume c"
  using remove_exact_keeps_volumes by (auto simp: cleanup_deployments_def Let_def split: sum.splits if_splits)


definition two_deployments :: machine where
  "two_deployments = \<lparr>ma_disk = \<lparr>files = Map.empty, ticks = 0\<rparr>, ma_dirs = [''a'', ''b''],
     ma_containers = [(''itp-a'', [(''Name'', JStr ''itp-a-grafana-1'')])], ma_networks = [],
     ma_volumes = [(''itp-a'', [(''Name'', JStr ''itp-a_influxdb_data'')])]\<rparr>"

definition plain_host :: host where
  "plain_host = \<lparr>ho_root = ''/srv'', ho_load = (\<lambda>t. None), ho_resolve = (\<lambda>p. p), ho_windows_parts = (\<lambda>p. [p])\<rparr>"


section \<open>The active deployment\<close>

lemma active_path_other: "active_file h \<noteq> deployment_file h i name"
  by (simp add: active_file_def deployment_file_def deployment_path_def)

text \<open>
  The deployment an activation reports is the one every later command selects by default, as
  long as its name does not end in a dash; a failed activation leaves the choice as it was.
\<close>

theorem activated_deployment_is_selected:
  assumes act: "activate_deployment F h requested m = (m', r)" and clean: "clean_disk (ma_disk m)"
  shows "(\<forall>i. r = Inr i \<and> last i \<noteq> CHR ''-'' \<longrightarrow> select_deployment h m' [] = Inr i \<and> select_deployment h m' i = Inr i) \<and>
    (\<forall>e. r = Inl e \<longrightarrow> files (ma_disk m') = files (ma_disk m))"
proof (cases "select_deployment h m requested")
  case (Inl e)
  then show ?thesis using act by (auto simp: activate_deployment_def)
next
  case (Inr i)
  let ?line = "i @ [CHR 0x0A]"
  show ?thesis
  proof (cases "F (ticks (ma_disk m)) = No_Fault")
    case True
    then have m': "files (ma_disk m') = (files (ma_disk m))(Path (active_file h) \<mapsto> ?line)" "r = Inr i"
      using act Inr clean by (auto simp: activate_deployment_def atomic_write_cases)
    obtain s where s: "slugify s = Inr i" and manifest: "is_file m (deployment_file h i ''deployment.yml'')"
      using Inr by (auto simp: select_deployment_def and_then_eq_Inr split: if_splits)
    have "select_deployment h m' [] = Inr i \<and> select_deployment h m' i = Inr i" if stable: "last i \<noteq> CHR ''-''"
    proof -
      have i: "i \<noteq> []" "\<forall>c \<in> set i. \<not> is_space c" using slug_safe [OF s] name_not_space by blast+
      have "active_id h m' = Inr i" using strip_line [OF i] by (simp add: active_id_def disk_text_def m'(1))
      moreover have "is_file m' (deployment_file h i ''deployment.yml'')"
        using manifest active_path_other [of h i "''deployment.yml''"] by (simp add: is_file_def disk_text_def m'(1))
      ultimately show ?thesis using i(1) slug_stable [OF s stable] by (simp add: select_deployment_def)
    qed
    then show ?thesis using m'(2) by auto
  next
    case False
    then show ?thesis using act Inr clean by (auto simp: activate_deployment_def atomic_write_cases)
  qed
qed

definition active_machine :: machine where
  "active_machine = two_deployments\<lparr>ma_disk := \<lparr>files = [Path (deployment_file plain_host ''b'' ''deployment.yml'') \<mapsto> ''{}''], ticks = 0\<rparr>\<rparr>"

theorem activated_deployment_is_selected_witness:
  "select_deployment plain_host (fst (activate_deployment (\<lambda>n. No_Fault) plain_host ''B'' active_machine)) [] = Inr ''b''"
proof -
  let ?a = "activate_deployment (\<lambda>n. No_Fault) plain_host ''B'' active_machine"
  have ok: "snd ?a = Inr ''b''" by code_simp
  have clean: "clean_disk (ma_disk active_machine)" by (simp add: clean_disk_def active_machine_def)
  have "?a = (fst ?a, snd ?a)" by simp
  from activated_deployment_is_selected [OF this clean]
  have "snd ?a = Inr ''b'' \<and> last ''b'' \<noteq> CHR ''-'' \<longrightarrow> select_deployment plain_host (fst ?a) [] = Inr ''b''" by blast
  then show ?thesis using ok by simp
qed

section \<open>Acting on another deployment\<close>

text \<open>
  \<open>reset\<close> and \<open>remove\<close> take the first entry of the inventory for the deployment they were given, but
  the inventory lists every labelled project in order of name: on a machine with a deployment \<open>a\<close>
  the removal of \<open>b\<close>, whose Compose files are missing, deletes the containers and the telemetry of
  \<open>a\<close>. Names cut at 63 characters can end in a dash and are then not found again.
\<close>

theorem removal_acts_on_another_deployment:
  "fst (snd (remove_deployment plain_host True False ''REMOVE DATA b'' ''b'' two_deployments)) =
     [Container_Rm ''itp-a-grafana-1'', Volume_Rm ''itp-a_influxdb_data'']"
  by code_simp

theorem long_names_are_not_stable:
  "slugify (replicate 62 (CHR ''a'') @ ''-b'') = Inr (replicate 62 (CHR ''a'') @ ''-'') \<and>
   slugify (replicate 62 (CHR ''a'') @ ''-'') = Inr (replicate 62 (CHR ''a''))"
  by code_simp

end
