(* ===== verification/Deployment_Edit.thy ===== *)
theory Deployment_Edit
  imports Deployment_Environment
begin

text \<open>
  \<open>analysis/runtime_deployment.py\<close>, the edits of a deployment's configuration (\<open>edit\<close>, \<open>configure_wan\<close>,
  \<open>remove_collector\<close>, \<open>grafana_credentials\<close>), with \<open>validate_wan_selection\<close> of
  \<open>analysis/onboarding.py\<close>. The YAML writer, the time zones, the free ports and the known connectors
  are parameters; a YAML error is a \<open>ValueError\<close> here. The values an edit reports are redacted
  before they are shown; the model keeps the names of the changed fields.
\<close>

record edit_world =
  ew_dump :: "json \<Rightarrow> string"
  ew_zone :: "string \<Rightarrow> bool"
  ew_free :: "string \<Rightarrow> int \<Rightarrow> bool"
  ew_known :: "string list"

section \<open>Reading the configuration\<close>

definition config_path :: "host \<Rightarrow> string \<Rightarrow> string \<Rightarrow> string" where
  "config_path h i name = deployment_path h i @ ''/'' @ name"

definition read_yaml :: "host \<Rightarrow> string \<Rightarrow> string disk \<Rightarrow> json res" where
  "read_yaml h p d = (case files d (Path p) of None \<Rightarrow> Inl (OSError ''no such file'')
     | Some t \<Rightarrow> (case ho_load h t of None \<Rightarrow> Inl (ValueError ''malformed YAML'') | Some v \<Rightarrow> Inr v))"

text \<open>\<open>yaml.safe_load(...) or {}\<close>; what uses it as a mapping may raise later.\<close>

definition load_config :: "host \<Rightarrow> string \<Rightarrow> string \<Rightarrow> string disk \<Rightarrow> json res" where
  "load_config h i name d = map_sum id (\<lambda>v. por v (JObj [])) (read_yaml h (config_path h i name) d)"

definition want_mapping :: "json \<Rightarrow> dict res" where
  "want_mapping v = (case v of JObj d \<Rightarrow> Inr d | _ \<Rightarrow> Inl (TypeError ''object is not a mapping''))"

definition load_deployment :: "host \<Rightarrow> string \<Rightarrow> string disk \<Rightarrow> dict res" where
  "load_deployment h i d = (case read_yaml h (config_path h i ''deployment.yml'') d of
     Inl e \<Rightarrow> Inl (ValueError ''unable to load deployment'')
   | Inr v \<Rightarrow> (if is_obj v then Inr (as_dict v) else Inl (ValueError ''deployment manifest must be a mapping'')))"

section \<open>The proposed configuration\<close>

definition enabled_names :: "dict \<Rightarrow> string list" where
  "enabled_names cols = sort (map fst (filter (\<lambda>(n, v). is_obj v \<and> truthy (dget (as_dict v) ''enabled'')) cols))"

definition edit_before :: "dict \<Rightarrow> json \<Rightarrow> dict res" where
  "edit_before manifest config_doc =
     and_then (want_dict config_doc) (\<lambda>config.
     and_then (want_mapping (por (dget manifest ''network'') (JObj []))) (\<lambda>network.
     and_then (want_dict (por (dget config ''collectors'') (JObj []))) (\<lambda>cols.
     Inr (dset (dmerge [(''display_name'', dget manifest ''display_name''), (''site_name'', dget config ''site_name''),
            (''timezone'', dget manifest ''timezone'')] network) ''enabled_collectors'' (jstrs (enabled_names cols))))))"

definition item_of :: "dict \<Rightarrow> string \<Rightarrow> json res" where
  "item_of d k = (case map_of d k of None \<Rightarrow> Inl (KeyError k) | Some v \<Rightarrow> Inr v)"

definition collector_names :: "dict \<Rightarrow> string list res" where
  "collector_names p = and_then (py_iter (dget p ''enabled_collectors'')) (map_res want_str)"

definition check_port :: "string \<Rightarrow> dict \<Rightarrow> dict res" where
  "check_port k proposed = and_then (item_of proposed k) (\<lambda>v. and_then (py_int v) (\<lambda>n.
     if 1 \<le> n \<and> n \<le> 65535 then Inr (dset proposed k (JInt n)) else Inl (ValueError (replace_char (CHR ''_'') (CHR '' '') k @ '' is invalid''))))"

definition check_free :: "edit_world \<Rightarrow> dict \<Rightarrow> dict \<Rightarrow> string \<Rightarrow> unit res" where
  "check_free w before proposed k =
     and_then (item_of proposed k) (\<lambda>new. and_then (item_of before k) (\<lambda>old.
       if py_eq new old then Inr ()
       else and_then (item_of proposed ''listen_address'') (\<lambda>address. and_then (py_int new) (\<lambda>n.
         guard_res (\<not> ew_free w (py_str address) n) (ValueError ''port is already in use'')))))"

definition port_keys :: "string list" where
  "port_keys = [''grafana_port'', ''influxdb_port'']"

definition validate_edit :: "edit_world \<Rightarrow> dict \<Rightarrow> dict \<Rightarrow> dict res" where
  "validate_edit w before changes =
     (let proposed = dmerge before (filter (\<lambda>(k, v). v \<noteq> JNull) changes) in
      if \<not> ew_zone w (py_str (dget proposed ''timezone'')) then Inl (ValueError ''timezone must be a valid IANA name'')
      else and_then (fold_res check_port port_keys proposed) (\<lambda>p.
        if dget p ''grafana_port'' = dget p ''influxdb_port'' then Inl (ValueError ''Grafana and InfluxDB ports must differ'')
        else and_then (item_of p ''listen_address'') (\<lambda>address.
          if strip (py_str address) = [] then Inl (ValueError ''listening address must not be blank'')
          else and_then (collector_names p) (\<lambda>enabled.
            if \<not> set enabled \<subseteq> set (ew_known w) then Inl (ValueError ''unknown collectors'')
            else and_then (map_res (check_free w before p) port_keys) (\<lambda>us. Inr p)))))"

text \<open>The names of \<open>redacted_diff\<close>.\<close>

definition changed_fields :: "dict \<Rightarrow> dict \<Rightarrow> string list" where
  "changed_fields before proposed = filter (\<lambda>k. \<not> py_eq (dget before k) (dget proposed k)) (usort (map fst before @ map fst proposed))"

definition needs_restart :: "string list \<Rightarrow> bool" where
  "needs_restart changes = list_ex (\<lambda>k. k \<in> {''timezone'', ''listen_address'', ''grafana_port'', ''influxdb_port'', ''enabled_collectors''}) changes"

section \<open>Writing it\<close>

text \<open>A file that exists is copied beside itself before it is replaced.\<close>

definition rollback_of :: "string \<Rightarrow> string" where
  "rollback_of p = p @ ''.rollback''"

definition backed_up_write :: "string schedule \<Rightarrow> string \<times> string \<Rightarrow> string disk \<Rightarrow> string disk \<times> unit res" where
  "backed_up_write F target d = (case files d (Path (fst target)) of
     None \<Rightarrow> atomic_write F (fst target) (snd target) d
   | Some old \<Rightarrow> then_do (atomic_write F (rollback_of (fst target)) old d) (atomic_write F (fst target) (snd target)))"

definition edited_manifest :: "dict \<Rightarrow> dict \<Rightarrow> dict" where
  "edited_manifest p manifest =
     dset (dset (dset manifest ''display_name'' (dget p ''display_name'')) ''timezone'' (dget p ''timezone'')) ''network''
       (JObj [(''listen_address'', dget p ''listen_address''), (''grafana_port'', dget p ''grafana_port''), (''influxdb_port'', dget p ''influxdb_port'')])"

definition toggle_collector :: "string list \<Rightarrow> string \<times> json \<Rightarrow> string \<times> json" where
  "toggle_collector enabled e = (fst e, if is_obj (snd e) then JObj (dset (as_dict (snd e)) ''enabled'' (JBool (fst e \<in> set enabled))) else snd e)"

definition edited_config :: "dict \<Rightarrow> string list \<Rightarrow> dict \<Rightarrow> dict res" where
  "edited_config p enabled config =
     (let named = dset config ''site_name'' (dget p ''site_name'') in
      and_then (want_mapping (dget_or named ''identity'' (JObj []))) (\<lambda>identity.
      and_then (want_dict (dget_or config ''collectors'' (JObj []))) (\<lambda>cols.
      Inr (dset (dset named ''identity'' (JObj (dset (dset identity ''site_name'' (dget p ''site_name'')) ''customer_name'' (dget p ''display_name''))))
        ''collectors'' (JObj (map (toggle_collector enabled) cols))))))"

definition edited_sites :: "dict \<Rightarrow> dict \<Rightarrow> dict res" where
  "edited_sites p sites =
     (if \<not> truthy (dget sites ''sites'') then Inr sites
      else (case dget sites ''sites'' of
        JList (first # rest) \<Rightarrow> map_sum id (\<lambda>d. dset sites ''sites'' (JList (JObj (dset d ''display_name'' (dget p ''site_name'')) # rest)))
          (want_mapping first)
      | JObj d \<Rightarrow> Inl (KeyError ''0'')
      | _ \<Rightarrow> Inl (TypeError ''object does not support item assignment'')))"

definition edited_env :: "dict \<Rightarrow> (string \<times> string) list \<Rightarrow> (string \<times> string) list" where
  "edited_env p env = foldl (\<lambda>m (k, field). AList.update k (py_str (dget p field)) m) env
     [(''TZ'', ''timezone''), (''GRAFANA_ADDRESS'', ''listen_address''), (''GRAFANA_PORT'', ''grafana_port''),
      (''INFLUXDB_ADDRESS'', ''listen_address''), (''INFLUXDB_PORT'', ''influxdb_port'')]"

record edit_result =
  er_changes :: "string list"
  er_dry_run :: bool
  er_restart :: bool
  er_applied :: bool

text \<open>The files of an edit with their new texts, in the order they are written.\<close>

definition edit_targets :: "edit_world \<Rightarrow> host \<Rightarrow> string \<Rightarrow> dict \<Rightarrow> dict \<Rightarrow> json \<Rightarrow> json \<Rightarrow> (string \<times> string) list \<Rightarrow> string disk \<Rightarrow>
    (string \<times> string) list res" where
  "edit_targets w h i p manifest config_doc dashboards_doc env d =
     and_then (collector_names p) (\<lambda>enabled.
     and_then (want_dict config_doc) (\<lambda>config.
     and_then (edited_config p enabled config) (\<lambda>config'.
     and_then (want_mapping dashboards_doc) (\<lambda>dashboards.
     and_then (and_then (load_config h i ''generated/sites.yml'' d) want_dict) (\<lambda>sites.
     and_then (edited_sites p sites) (\<lambda>sites'.
     Inr [(config_path h i ''deployment.yml'', ew_dump w (JObj (edited_manifest p manifest))),
          (config_path h i ''collectors.yml'', ew_dump w (JObj config')),
          (config_path h i ''dashboards.yml'', ew_dump w (JObj (dset dashboards ''enabled_collectors'' (jstrs (sort enabled))))),
          (config_path h i ''generated/sites.yml'', ew_dump w (JObj sites')),
          (env_file h i, render_env (edited_env p env))]))))))"

definition apply_edit :: "string schedule \<Rightarrow> (string \<times> string) list \<Rightarrow> string disk \<Rightarrow> string disk \<times> unit res" where
  "apply_edit F targets d = then_do (do_all (backed_up_write F) targets d) (system_call F)"

definition edit_deployment :: "string schedule \<Rightarrow> edit_world \<Rightarrow> host \<Rightarrow> string \<Rightarrow> dict \<Rightarrow> bool \<Rightarrow> bool \<Rightarrow> string \<Rightarrow> string disk \<Rightarrow>
    string disk \<times> edit_result res" where
  "edit_deployment F w h i changes dry_run yes typed d =
     (case and_then (load_deployment h i d) (\<lambda>manifest. and_then (load_config h i ''collectors.yml'' d) (\<lambda>config.
           and_then (load_config h i ''dashboards.yml'' d) (\<lambda>dashboards. and_then (environment_of h i d) (\<lambda>env.
           and_then (edit_before manifest config) (\<lambda>before. and_then (validate_edit w before changes) (\<lambda>p.
             Inr (manifest, config, dashboards, env, before, p))))))) of
        Inl e \<Rightarrow> (d, Inl e)
      | Inr (manifest, config, dashboards, env, before, p) \<Rightarrow>
         (let difference = changed_fields before p;
              result = \<lparr>er_changes = difference, er_dry_run = dry_run, er_restart = needs_restart difference, er_applied = False\<rparr> in
          if dry_run \<or> difference = [] then (d, Inr result)
          else if \<not> yes \<and> casefold (strip typed) \<notin> {''y'', ''yes''} then (d, Inr result)
          else (case edit_targets w h i p manifest config dashboards env d of
            Inl e \<Rightarrow> (d, Inl e)
          | Inr targets \<Rightarrow> (case apply_edit F targets d of
              (d', r) \<Rightarrow> (d', map_sum id (\<lambda>u. result\<lparr>er_applied := True\<rparr>) r)))))"

section \<open>An edit can be undone\<close>

lemma rollback_other [simp]: "rollback_of p \<noteq> p"
  by (simp add: rollback_of_def)

lemma rollback_inj [simp]: "rollback_of p = rollback_of q \<longleftrightarrow> p = q"
  by (simp add: rollback_of_def)

lemma path_mem: "Path p \<in> Path ` A \<longleftrightarrow> p \<in> A"
  by auto

lemma rollback_mem: "rollback_of p \<in> rollback_of ` A \<longleftrightarrow> p \<in> A"
  by auto

text \<open>What is left of one target: its former content, at its path or in its rollback file.\<close>

definition recoverable :: "string disk \<Rightarrow> string disk \<Rightarrow> string \<Rightarrow> bool" where
  "recoverable d d' p = (files d' (Path p) = files d (Path p) \<or> files d (Path p) = None \<or>
     files d' (Path (rollback_of p)) = files d (Path p))"

lemma atomic_write_outcome:
  assumes "clean_disk d" and "atomic_write F p c d = (d', r)"
  shows "clean_disk d' \<and> files d' = (if r = Inr () then (files d)(Path p \<mapsto> c) else files d)"
  using assms atomic_write_clean [OF assms(1), of F p c] by (auto simp: atomic_write_cases split: if_splits)

lemma backed_up_write_outcome:
  assumes "clean_disk d" and "backed_up_write F (p, c) d = (d', r)"
  shows "clean_disk d'" and "q \<noteq> Path p \<Longrightarrow> q \<noteq> Path (rollback_of p) \<Longrightarrow> files d' q = files d q"
    and "recoverable d d' p" and "r = Inr () \<Longrightarrow> files d' (Path p) = Some c"
proof -
  have "clean_disk d' \<and> (q \<noteq> Path p \<longrightarrow> q \<noteq> Path (rollback_of p) \<longrightarrow> files d' q = files d q) \<and> recoverable d d' p \<and>
      (r = Inr () \<longrightarrow> files d' (Path p) = Some c)"
  proof (cases "files d (Path p)")
    case None
    then show ?thesis using assms atomic_write_outcome [OF assms(1), of F p c d' r]
      by (auto simp: backed_up_write_def recoverable_def)
  next
    case (Some old)
    obtain d1 r1 where w1: "atomic_write F (rollback_of p) old d = (d1, r1)" by fastforce
    note o1 = atomic_write_outcome [OF assms(1) w1]
    show ?thesis
    proof (cases r1)
      case (Inl e)
      then show ?thesis using assms(2) Some w1 o1 by (auto simp: backed_up_write_def recoverable_def)
    next
      case (Inr u)
      then have "atomic_write F p c d1 = (d', r)" using assms(2) Some w1 by (simp add: backed_up_write_def)
      from atomic_write_outcome [OF conjunct1 [OF o1] this] show ?thesis
        using Some o1 Inr by (auto simp: recoverable_def)
    qed
  qed
  then show "clean_disk d'" "q \<noteq> Path p \<Longrightarrow> q \<noteq> Path (rollback_of p) \<Longrightarrow> files d' q = files d q"
    "recoverable d d' p" "r = Inr () \<Longrightarrow> files d' (Path p) = Some c" by blast+
qed

lemma backed_up_writes_outcome:
  assumes "clean_disk d" and "do_all (backed_up_write F) targets d = (d', r)" and "distinct (map fst targets)"
    and "\<forall>p \<in> fst ` set targets. \<forall>q \<in> fst ` set targets. rollback_of p \<noteq> q"
  shows "clean_disk d' \<and> (\<forall>p \<in> fst ` set targets. recoverable d d' p) \<and>
    (\<forall>q. q \<notin> Path ` fst ` set targets \<longrightarrow> q \<notin> Path ` rollback_of ` fst ` set targets \<longrightarrow> files d' q = files d q) \<and>
    (r = Inr () \<longrightarrow> (\<forall>(p, c) \<in> set targets. files d' (Path p) = Some c))"
  using assms
proof (induction targets arbitrary: d)
  case (Cons t targets)
  obtain p c where t: "t = (p, c)" by fastforce
  obtain d1 r1 where w: "backed_up_write F (p, c) d = (d1, r1)" by fastforce
  note o1 = backed_up_write_outcome [OF Cons.prems(1) w]
  have p: "p \<notin> fst ` set targets" "\<forall>q \<in> fst ` set targets. rollback_of p \<noteq> q \<and> rollback_of q \<noteq> p"
    using Cons.prems(3,4) by (auto simp: t)
  show ?case
  proof (cases r1)
    case (Inl e)
    then have d': "d' = d1" "r = Inl e" using Cons.prems(2) w by (auto simp: t)
    have "recoverable d d1 q" if q: "q \<in> fst ` set targets" for q
    proof -
      have "q \<noteq> p" "rollback_of p \<noteq> q" using p q by blast+
      then show ?thesis using o1(2) [of "Path q"] by (simp add: recoverable_def)
    qed
    then show ?thesis using o1 by (auto simp: t d')
  next
    case (Inr u)
    then have rest: "do_all (backed_up_write F) targets d1 = (d', r)" using Cons.prems(2) w by (simp add: t)
    note o2 = Cons.IH [OF o1(1) rest]
    have o2: "clean_disk d'" "\<forall>q \<in> fst ` set targets. recoverable d1 d' q"
      "\<And>q. q \<notin> Path ` fst ` set targets \<Longrightarrow> q \<notin> Path ` rollback_of ` fst ` set targets \<Longrightarrow> files d' q = files d1 q"
      "r = Inr () \<longrightarrow> (\<forall>(p, c) \<in> set targets. files d' (Path p) = Some c)"
      using o2 Cons.prems(3,4) by auto
    have at_p: "files d' (Path p) = files d1 (Path p)" "files d' (Path (rollback_of p)) = files d1 (Path (rollback_of p))"
      using p by (intro o2(3); simp add: path_mem rollback_mem; blast)+
    have "recoverable d d' q" if q: "q \<in> fst ` set targets" for q
    proof -
      have "q \<noteq> p" "rollback_of p \<noteq> q" using p q by blast+
      then have "files d1 (Path q) = files d (Path q)" using o1(2) [of "Path q"] by simp
      then show ?thesis using o2(2) q by (auto simp: recoverable_def)
    qed
    moreover have "recoverable d d' p" using o1(3) at_p by (simp add: recoverable_def)
    ultimately show ?thesis using o1 o2 at_p Inr by (auto simp: t)
  qed
qed simp

definition config_files :: "host \<Rightarrow> string \<Rightarrow> string list" where
  "config_files h i = map (config_path h i) [''deployment.yml'', ''collectors.yml'', ''dashboards.yml'', ''generated/sites.yml'', ''generated/deployment.env'']"

lemma config_files_distinct: "distinct (config_files h i)"
  by (simp add: config_files_def config_path_def)

lemma config_rollbacks_other: "\<forall>p \<in> set (config_files h i). \<forall>q \<in> set (config_files h i). rollback_of p \<noteq> q"
  by (simp add: config_files_def config_path_def rollback_of_def)

lemma edit_targets_paths: "edit_targets w h i p manifest config dashboards env d = Inr targets \<Longrightarrow> map fst targets = config_files h i"
  by (auto simp: edit_targets_def and_then_eq_Inr config_files_def env_file_def config_path_def)

lemma check_port_range: "check_port k p = Inr p' \<Longrightarrow> \<exists>n. p' = dset p k (JInt n) \<and> 1 \<le> n \<and> n \<le> 65535"
  by (auto simp: check_port_def and_then_eq_Inr split: if_splits)

lemma validated_ports:
  assumes "validate_edit w before changes = Inr p"
  shows "\<exists>g f. dget p ''grafana_port'' = JInt g \<and> dget p ''influxdb_port'' = JInt f \<and> g \<noteq> f \<and>
    1 \<le> g \<and> g \<le> 65535 \<and> 1 \<le> f \<and> f \<le> 65535"
proof -
  obtain p0 where ports: "fold_res check_port port_keys p0 = Inr p" and other: "dget p ''grafana_port'' \<noteq> dget p ''influxdb_port''"
    using assms by (auto simp: validate_edit_def Let_def and_then_eq_Inr split: if_splits)
  obtain p1 where p1: "check_port ''grafana_port'' p0 = Inr p1" "check_port ''influxdb_port'' p1 = Inr p"
    using ports by (auto simp: port_keys_def and_then_eq_Inr)
  obtain g where g: "p1 = dset p0 ''grafana_port'' (JInt g)" "1 \<le> g" "g \<le> 65535" using check_port_range [OF p1(1)] by blast
  obtain f where f: "p = dset p1 ''influxdb_port'' (JInt f)" "1 \<le> f" "f \<le> 65535" using check_port_range [OF p1(2)] by blast
  have "dget p ''grafana_port'' = JInt g" "dget p ''influxdb_port'' = JInt f" by (simp_all add: f(1) g(1) dget_dset)
  then show ?thesis using other f g by auto
qed

definition manifest_network :: "dict \<Rightarrow> dict" where
  "manifest_network manifest = as_dict (dget manifest ''network'')"

lemma edited_network: "k \<in> {''listen_address'', ''grafana_port'', ''influxdb_port''} \<Longrightarrow> dget (manifest_network (edited_manifest p m)) k = dget p k"
proof -
  have "manifest_network (edited_manifest p m) = [(''listen_address'', dget p ''listen_address''),
      (''grafana_port'', dget p ''grafana_port''), (''influxdb_port'', dget p ''influxdb_port'')]"
    by (simp add: manifest_network_def edited_manifest_def dget_dset)
  moreover assume "k \<in> {''listen_address'', ''grafana_port'', ''influxdb_port''}"
  ultimately show ?thesis by (elim insertE emptyE) (simp_all add: dget_def)
qed

text \<open>
  C39. Whatever write fails while an edit is applied, the former content of every configuration
  file is still there, at its path or in its rollback file, and no other file changed. An edit
  that is a dry run, changes nothing or is not confirmed writes nothing; one that reports itself
  applied was none of these and left a manifest with two different valid ports.
\<close>

theorem edits_are_recoverable:
  assumes edit: "edit_deployment F w h i changes dry_run yes typed d = (d', r)" and clean: "clean_disk d"
  shows "(\<forall>p \<in> set (config_files h i). recoverable d d' p) \<and>
    (\<forall>q. q \<notin> Path ` set (config_files h i) \<longrightarrow> q \<notin> Path ` rollback_of ` set (config_files h i) \<longrightarrow> files d' q = files d q) \<and>
    (files d' \<noteq> files d \<longrightarrow> \<not> dry_run \<and> (yes \<or> casefold (strip typed) \<in> {''y'', ''yes''})) \<and>
    (\<forall>res. r = Inr res \<and> er_applied res \<longrightarrow> \<not> dry_run \<and> er_changes res \<noteq> [] \<and>
      (\<exists>m g f. files d' (Path (config_path h i ''deployment.yml'')) = Some (ew_dump w (JObj m)) \<and>
        dget (manifest_network m) ''grafana_port'' = JInt g \<and> dget (manifest_network m) ''influxdb_port'' = JInt f \<and> g \<noteq> f \<and>
        1 \<le> g \<and> g \<le> 65535 \<and> 1 \<le> f \<and> f \<le> 65535))"
proof -
  consider (none) "d' = d" "\<forall>res. r = Inr res \<longrightarrow> \<not> er_applied res"
    | (applied) manifest before p config dashboards env targets r' where
        "validate_edit w before changes = Inr p" "changed_fields before p \<noteq> []" "\<not> dry_run" "yes \<or> casefold (strip typed) \<in> {''y'', ''yes''}"
        "edit_targets w h i p manifest config dashboards env d = Inr targets" "apply_edit F targets d = (d', r')"
        "r = map_sum id (\<lambda>u. \<lparr>er_changes = changed_fields before p, er_dry_run = dry_run,
           er_restart = needs_restart (changed_fields before p), er_applied = True\<rparr>) r'"
    using edit unfolding edit_deployment_def
    by (auto simp: Let_def and_then_eq_Inr split: sum.splits if_splits prod.splits)
  then show ?thesis
  proof cases
    case none
    then show ?thesis by (auto simp: recoverable_def)
  next
    case applied
    obtain d1 r1 where writes: "do_all (backed_up_write F) targets d = (d1, r1)" by fastforce
    have paths: "map fst targets = config_files h i" using applied(5) by (rule edit_targets_paths)
    then have set: "fst ` set targets = set (config_files h i)" by (metis set_map)
    have same: "files d' = files d1" "r' = Inr () \<longrightarrow> r1 = Inr ()"
      using applied(6) writes by (cases r1; force simp: apply_edit_def system_call_def)+
    have out: "(\<forall>p \<in> set (config_files h i). recoverable d d1 p) \<and>
        (\<forall>q. q \<notin> Path ` set (config_files h i) \<longrightarrow> q \<notin> Path ` rollback_of ` set (config_files h i) \<longrightarrow> files d1 q = files d q) \<and>
        (r1 = Inr () \<longrightarrow> (\<forall>(p, c) \<in> set targets. files d1 (Path p) = Some c))"
      using backed_up_writes_outcome [OF clean writes] config_files_distinct config_rollbacks_other unfolding paths set by blast
    have first: "(config_path h i ''deployment.yml'', ew_dump w (JObj (edited_manifest p manifest))) \<in> set targets"
      using applied(5) by (auto simp: edit_targets_def and_then_eq_Inr)
    have final: "\<exists>m g f. files d' (Path (config_path h i ''deployment.yml'')) = Some (ew_dump w (JObj m)) \<and>
        dget (manifest_network m) ''grafana_port'' = JInt g \<and> dget (manifest_network m) ''influxdb_port'' = JInt f \<and> g \<noteq> f \<and>
        1 \<le> g \<and> g \<le> 65535 \<and> 1 \<le> f \<and> f \<le> 65535" if "r = Inr res" for res
    proof -
      have "r' = Inr ()" using that applied(7) by (cases r') auto
      then have "files d' (Path (config_path h i ''deployment.yml'')) = Some (ew_dump w (JObj (edited_manifest p manifest)))"
        using same out first by auto
      moreover obtain g f where "dget p ''grafana_port'' = JInt g" "dget p ''influxdb_port'' = JInt f" "g \<noteq> f"
          "1 \<le> g" "g \<le> 65535" "1 \<le> f" "f \<le> 65535"
        using validated_ports [OF applied(1)] by blast
      ultimately show ?thesis using edited_network by (metis insertCI)
    qed
    show ?thesis
      using out same final applied(2,3,4,7) by (auto simp: recoverable_def map_sum_eq_Inr)
  qed
qed

definition edit_texts :: "(string \<times> json) list" where
  "edit_texts = [(''M'', JObj [(''display_name'', JStr ''School''), (''timezone'', JStr ''UTC''),
       (''network'', JObj [(''listen_address'', JStr ''127.0.0.1''), (''grafana_port'', JInt 3000), (''influxdb_port'', JInt 8181)])]),
     (''C'', JObj [(''site_name'', JStr ''Main''), (''collectors'', JObj [(''mist'', JObj [(''enabled'', JBool True)])])]),
     (''D'', JObj []), (''S'', JObj [])]"

definition edit_host :: host where
  "edit_host = \<lparr>ho_root = [], ho_load = map_of edit_texts, ho_resolve = (\<lambda>p. p), ho_windows_parts = (\<lambda>p. [p])\<rparr>"

definition edit_world_sample :: edit_world where
  "edit_world_sample = \<lparr>ew_dump = (\<lambda>v. ''document''), ew_zone = (\<lambda>z. True), ew_free = (\<lambda>a n. True), ew_known = [''mist'']\<rparr>"

definition edit_disk :: "string disk" where
  "edit_disk = \<lparr>files = [Path (config_path edit_host ''a'' ''deployment.yml'') \<mapsto> ''M'', Path (config_path edit_host ''a'' ''collectors.yml'') \<mapsto> ''C'',
     Path (config_path edit_host ''a'' ''dashboards.yml'') \<mapsto> ''D'', Path (config_path edit_host ''a'' ''generated/sites.yml'') \<mapsto> ''S''], ticks = 0\<rparr>"

text \<open>The copy of the collectors fails: the manifest is new, and its former text is beside it.\<close>

abbreviation failed_edit :: "string disk \<times> edit_result res" where
  "failed_edit \<equiv> edit_deployment (\<lambda>n. if n = 2 then Fail_Replace else No_Fault) edit_world_sample edit_host ''a''
     [(''grafana_port'', JInt 3001)] False True [] edit_disk"

theorem edits_are_recoverable_witness:
  "snd failed_edit = Inl io_error \<and> recoverable edit_disk (fst failed_edit) (config_path edit_host ''a'' ''deployment.yml'')"
proof -
  have r: "snd failed_edit = Inl io_error" by code_simp
  have clean: "clean_disk edit_disk" by (simp add: clean_disk_def edit_disk_def)
  have "failed_edit = (fst failed_edit, snd failed_edit)" by simp
  from edits_are_recoverable [OF this clean]
  have "\<forall>p \<in> set (config_files edit_host ''a''). recoverable edit_disk (fst failed_edit) p" by (rule conjunct1)
  moreover have "config_path edit_host ''a'' ''deployment.yml'' \<in> set (config_files edit_host ''a'')" by (simp add: config_files_def)
  ultimately show ?thesis using r by blast
qed

end
