(* ===== verification/Deployment_Onboarding.thy ===== *)
theory Deployment_Onboarding
  imports Deployment_Edit
begin

text \<open>
  The smaller edits of \<open>analysis/runtime_deployment.py\<close>: the WAN selection (with
  \<open>validate_wan_selection\<close> of \<open>analysis/onboarding.py\<close>), the removal of a collector, the migration
  of site aliases and the credentials of Grafana.
\<close>

section \<open>The WAN selection\<close>

definition ALLOWED_WAN_ROLES :: "string list" where
  "ALLOWED_WAN_ROLES = [''primary'', ''secondary'', ''backup'', ''cellular'', ''mpls'', ''other'']"

definition mapping_name :: "dict \<Rightarrow> string" where
  "mapping_name item = strip (py_str (por (dget item ''name'') (JStr [])))"

definition mapping_role :: "dict \<Rightarrow> string" where
  "mapping_role item = casefold (py_str (por (dget item ''role'') (JStr [])))"

definition wan_mapping :: "dict \<Rightarrow> dict" where
  "wan_mapping item = [(''name'', JStr (mapping_name item)), (''role'', JStr (mapping_role item)),
     (''display_name'', JStr (py_str (por (dget item ''display_name'') (JStr (mapping_name item)))))]"

record wan_validation =
  wv_mappings :: "dict list"
  wv_missing :: "string list"

definition validate_wan_selection :: "dict list \<Rightarrow> dict list \<Rightarrow> wan_validation res" where
  "validate_wan_selection items discovered =
     (let names = map mapping_name items; roles = map mapping_role items;
          known = map (\<lambda>item. py_str (por (dget item ''interface_name'') (dget item ''name''))) discovered in
      if list_ex (\<lambda>n. n = []) names then Inl (ValueError ''every WAN mapping requires a canonical interface name'')
      else if \<not> distinct names then Inl (ValueError ''WAN interface selection contains duplicates'')
      else if \<not> set roles \<subseteq> set ALLOWED_WAN_ROLES then Inl (ValueError ''unsupported WAN role'')
      else if length (filter (\<lambda>r. r = ''primary'') roles) \<noteq> 1 \<and> items \<noteq> []
      then Inl (ValueError ''WAN mapping requires exactly one primary interface'')
      else Inr \<lparr>wv_mappings = map wan_mapping items,
        wv_missing = (if known \<noteq> [] then usort (filter (\<lambda>n. n \<notin> set known) names) else [])\<rparr>)"

record wan_change =
  wc_validation :: wan_validation
  wc_previous :: "json list"
  wc_changed :: bool

definition collectors_file :: "host \<Rightarrow> string \<Rightarrow> string" where
  "collectors_file h i = config_path h i ''collectors.yml''"

text \<open>\<open>config.setdefault('collectors', {}).setdefault(connector, {})\<close>.\<close>

definition connector_settings :: "dict \<Rightarrow> string \<Rightarrow> (dict \<times> dict) res" where
  "connector_settings config connector =
     and_then (want_dict (dget_or config ''collectors'' (JObj []))) (\<lambda>cols.
     map_sum id (Pair cols) (want_dict (dget_or cols connector (JObj []))))"

definition configure_wan :: "string schedule \<Rightarrow> edit_world \<Rightarrow> host \<Rightarrow> string \<Rightarrow> string \<Rightarrow> dict list \<Rightarrow> dict list \<Rightarrow> bool \<Rightarrow>
    string disk \<Rightarrow> string disk \<times> wan_change res" where
  "configure_wan F w h i connector mappings discovered dry_run d =
     (if connector \<notin> {''paloalto'', ''fortigate''}
      then (d, Inl (ValueError ''WAN interface mapping is supported for Palo Alto and FortiGate''))
      else case and_then (validate_wan_selection mappings discovered) (\<lambda>validated.
           and_then (and_then (load_config h i ''collectors.yml'' d) want_dict) (\<lambda>config.
           and_then (connector_settings config connector) (\<lambda>(cols, settings).
           and_then (py_iter (por (dget settings ''wan_interfaces'') (JList []))) (\<lambda>previous.
             Inr (validated, config, cols, settings, previous))))) of
        Inl e \<Rightarrow> (d, Inl e)
      | Inr (validated, config, cols, settings, previous) \<Rightarrow>
         (let new = JList (map JObj (wv_mappings validated)); changed = (\<not> py_eq (JList previous) new);
              result = \<lparr>wc_validation = validated, wc_previous = previous, wc_changed = changed\<rparr> in
          if dry_run \<or> \<not> changed then (d, Inr result)
          else (case backed_up_write F (collectors_file h i,
                  ew_dump w (JObj (dset config ''collectors'' (JObj (dset cols connector (JObj (dset settings ''wan_interfaces'' new))))))) d of
            (d', r) \<Rightarrow> (d', map_sum id (\<lambda>u. result) r))))"

lemma filter_singleton: "filter P xs = [x] \<Longrightarrow> \<exists>!y. y \<in> set xs \<and> P y"
proof -
  assume "filter P xs = [x]"
  then have "\<forall>y. y \<in> set (filter P xs) \<longleftrightarrow> y = x" by simp
  then have "\<forall>y. y \<in> set xs \<and> P y \<longleftrightarrow> y = x" by simp
  then show ?thesis by (intro ex1I [of _ x]) simp_all
qed

lemma validated_selection:
  assumes "validate_wan_selection items discovered = Inr v"
  shows "distinct (map mapping_name items)" and "\<forall>item \<in> set items. mapping_name item \<noteq> [] \<and> mapping_role item \<in> set ALLOWED_WAN_ROLES"
    and "items \<noteq> [] \<Longrightarrow> \<exists>!item. item \<in> set items \<and> mapping_role item = ''primary''"
proof -
  have parts: "distinct (map mapping_name items)" "\<not> list_ex (\<lambda>n. n = []) (map mapping_name items)"
    "set (map mapping_role items) \<subseteq> set ALLOWED_WAN_ROLES"
    "items \<noteq> [] \<Longrightarrow> length (filter (\<lambda>r. r = ''primary'') (map mapping_role items)) = 1"
    using assms by (auto simp: validate_wan_selection_def Let_def split: if_splits)
  show "distinct (map mapping_name items)" by (rule parts(1))
  show "\<forall>item \<in> set items. mapping_name item \<noteq> [] \<and> mapping_role item \<in> set ALLOWED_WAN_ROLES"
  proof
    fix item
    assume "item \<in> set items"
    then have "mapping_name item \<in> set (map mapping_name items)" "mapping_role item \<in> set (map mapping_role items)" by simp_all
    then show "mapping_name item \<noteq> [] \<and> mapping_role item \<in> set ALLOWED_WAN_ROLES"
      using parts(2,3) unfolding list_ex_iff by blast
  qed
  show "\<exists>!item. item \<in> set items \<and> mapping_role item = ''primary''" if "items \<noteq> []"
  proof -
    have "length (filter (\<lambda>item. mapping_role item = ''primary'') items) = 1"
      using parts(4) [OF that] by (simp add: filter_map comp_def)
    then obtain item where "filter (\<lambda>item. mapping_role item = ''primary'') items = [item]" by (auto simp: length_Suc_conv)
    then show ?thesis by (rule filter_singleton)
  qed
qed

text \<open>The former selection stays recoverable, and no other file is touched.\<close>

lemma wan_change_recoverable:
  assumes "configure_wan F w h i connector mappings discovered dry_run d = (d', r)" and "clean_disk d"
  shows "recoverable d d' (collectors_file h i)"
    and "q \<noteq> Path (collectors_file h i) \<Longrightarrow> q \<noteq> Path (rollback_of (collectors_file h i)) \<Longrightarrow> files d' q = files d q"
proof -
  have "d' = d \<or> (\<exists>c r'. backed_up_write F (collectors_file h i, c) d = (d', r'))"
    using assms(1) by (auto simp: configure_wan_def Let_def split: if_splits sum.splits prod.splits)
  then consider (same) "d' = d" | (written) c r' where "backed_up_write F (collectors_file h i, c) d = (d', r')" by blast
  then have "recoverable d d' (collectors_file h i) \<and>
      (q \<noteq> Path (collectors_file h i) \<longrightarrow> q \<noteq> Path (rollback_of (collectors_file h i)) \<longrightarrow> files d' q = files d q)"
  proof cases
    case same
    then show ?thesis by (simp add: recoverable_def)
  next
    case (written c r')
    from backed_up_write_outcome [OF assms(2) written] show ?thesis by blast
  qed
  then show "recoverable d d' (collectors_file h i)"
    "q \<noteq> Path (collectors_file h i) \<Longrightarrow> q \<noteq> Path (rollback_of (collectors_file h i)) \<Longrightarrow> files d' q = files d q"
    by blast+
qed

section \<open>Collectors and sites\<close>

definition remove_collector :: "string schedule \<Rightarrow> edit_world \<Rightarrow> host \<Rightarrow> string \<Rightarrow> string \<Rightarrow> string disk \<Rightarrow> string disk \<times> unit res" where
  "remove_collector F w h i connector d =
     (case and_then (and_then (load_config h i ''collectors.yml'' d) want_dict) (\<lambda>config.
           map_sum id (Pair config) (connector_settings config connector)) of
        Inl e \<Rightarrow> (d, Inl e)
      | Inr (config, cols, settings) \<Rightarrow> atomic_write F (collectors_file h i)
          (ew_dump w (JObj (dset config ''collectors'' (JObj (dset cols connector (JObj (dset settings ''enabled'' (JBool False)))))))) d)"

definition canonical_site :: "string \<Rightarrow> dict \<Rightarrow> string" where
  "canonical_site i v = (let s = py_str (por (dget v ''site_id'') (JStr (''site:'' @ i))) in
     if starts_with ''site:'' s then s else ''site:'' @ i)"

definition migrate_settings :: "string \<Rightarrow> json \<Rightarrow> json" where
  "migrate_settings c v = (case v of
     JObj d \<Rightarrow> (let d1 = (if truthy (dget d ''site'') \<and> \<not> py_eq (dget d ''site'') (JStr c) then dset d ''site'' (JStr c) else d) in
       JObj (if dhas d1 ''site_id'' \<and> \<not> py_eq (dget d1 ''site_id'') (JStr c) then dset d1 ''site_id'' (JStr c) else d1))
   | _ \<Rightarrow> v)"

text \<open>\<open>_migrate_site_alias\<close> on the document of the collectors.\<close>

definition migrate_document :: "string \<Rightarrow> dict \<Rightarrow> dict res" where
  "migrate_document i v =
     (let c = canonical_site i v; legacy = py_str (por (dget v ''site'') (JStr []));
          v1 = (if legacy \<noteq> [] \<and> legacy \<noteq> c then dset v ''site'' (JStr c) else v);
          v2 = (if py_eq (dget v1 ''site_id'') (JStr c) then v1 else dset v1 ''site_id'' (JStr c)) in
      map_sum id (\<lambda>cols. if dhas v2 ''collectors'' \<and> truthy (dget v2 ''collectors'')
          then dset v2 ''collectors'' (JObj (map (\<lambda>(n, s). (n, migrate_settings c s)) cols)) else v2)
        (want_dict (por (dget v2 ''collectors'') (JObj []))))"

definition migrate_site_alias :: "string schedule \<Rightarrow> edit_world \<Rightarrow> host \<Rightarrow> string \<Rightarrow> string disk \<Rightarrow> string disk \<times> unit res" where
  "migrate_site_alias F w h i d =
     (case load_config h i ''collectors.yml'' d of
        Inl e \<Rightarrow> (d, Inr ())
      | Inr v \<Rightarrow> (case and_then (want_dict v) (\<lambda>doc. map_sum id (Pair doc) (migrate_document i doc)) of
          Inl e \<Rightarrow> (d, Inl e)
        | Inr (doc, new) \<Rightarrow> (if new = doc then (d, Inr ()) else atomic_write F (collectors_file h i) (ew_dump w (JObj new)) d)))"

section \<open>The credentials of Grafana\<close>

definition grafana_url :: "dict \<Rightarrow> string" where
  "grafana_url network =
     (let address = dget_or network ''listen_address'' (JStr ''127.0.0.1'') in
      ''http://'' @ py_str (if address \<in> {JStr ''0.0.0.0'', JStr ''::''} then JStr ''127.0.0.1'' else address) @ '':'' @
        py_str (dget_or network ''grafana_port'' (JInt 3000)))"

record grafana_login =
  gl_url :: string
  gl_username :: string
  gl_password :: string

definition grafana_credentials :: "host \<Rightarrow> string \<Rightarrow> string disk \<Rightarrow> grafana_login res" where
  "grafana_credentials h i d =
     and_then (environment_of h i d) (\<lambda>env.
       let user = env_get env ''GRAFANA_ADMIN_USER''; password = env_get env ''GRAFANA_ADMIN_PASSWORD'' in
       if user = [] \<or> password = [] then Inl (ValueError ''Grafana credentials are unavailable'')
       else and_then (load_deployment h i d) (\<lambda>manifest.
         map_sum id (\<lambda>network. \<lparr>gl_url = grafana_url network, gl_username = user, gl_password = password\<rparr>)
           (want_dict (dget_or manifest ''network'' (JObj [])))))"

end
